(* ===== verification/JS_Prelude.thy ===== *)
theory JS_Prelude
  imports Complex_Main "HOL-Library.Char_ord" "HOL-Library.List_Lexorder" "HOL-Library.Sublist"
begin

text \<open>
  The part of JavaScript that the LTP TypeScript sources use and every component shares:
  values (\<open>jsval\<close>), own properties of objects with their enumeration order, truthiness and the
  operators \<open>??\<close>, \<open>||\<close>, \<open>?.\<close>, the string methods (\<open>split\<close>, \<open>join\<close>, \<open>trim\<close>,
  \<open>startsWith\<close>, \<open>includes\<close>, \<open>substring\<close>, case mapping, \<open>parseInt\<close>), decimal printing of
  integers, and a result type for code that throws.

  A string is a list of code units below 256 (HOL's \<open>char\<close>); case mapping is the ASCII one.
  A number is a finite double, kept as the rational it denotes; \<open>NaN\<close> is written out as a
  separate case where the sources produce it.
\<close>

named_theorems js_simps \<open>unfolding rules of the JavaScript library functions\<close>

section \<open>Values\<close>

datatype jsval =
    JUndef
  | JNull
  | JBool bool
  | JNum rat
  | JStr string
  | JArr "jsval list"
  | JObj "(string \<times> jsval) list"

text \<open>Throwing code returns \<open>Inl\<close> of the error's message.\<close>

type_synonym 'a result = "string + 'a"

definition bindr :: "'a result \<Rightarrow> ('a \<Rightarrow> 'b result) \<Rightarrow> 'b result" where
  "bindr m f = (case m of Inl e \<Rightarrow> Inl e | Inr x \<Rightarrow> f x)"

lemma bindr_simps [simp]:
  "bindr (Inl e) f = Inl e"
  "bindr (Inr x) f = f x"
  by (simp_all add: bindr_def)

lemma bindr_Inr_iff [simp]: "bindr m f = Inr y \<longleftrightarrow> (\<exists>x. m = Inr x \<and> f x = Inr y)"
  by (cases m) auto

text \<open>\<open>typeof v === 'object'\<close> holds for \<open>null\<close>, arrays and objects.\<close>

fun typeof :: "jsval \<Rightarrow> string" where
  "typeof JUndef = ''undefined''"
| "typeof JNull = ''object''"
| "typeof (JBool b) = ''boolean''"
| "typeof (JNum n) = ''number''"
| "typeof (JStr s) = ''string''"
| "typeof (JArr xs) = ''object''"
| "typeof (JObj kvs) = ''object''"

fun truthy :: "jsval \<Rightarrow> bool" where
  "truthy JUndef = False"
| "truthy JNull = False"
| "truthy (JBool b) = b"
| "truthy (JNum n) = (n \<noteq> 0)"
| "truthy (JStr s) = (s \<noteq> [])"
| "truthy (JArr xs) = True"
| "truthy (JObj kvs) = True"

fun nullish :: "jsval \<Rightarrow> bool" where
  "nullish JUndef = True"
| "nullish JNull = True"
| "nullish v = False"

text \<open>\<open>a ?? b\<close> and \<open>a || b\<close>.\<close>

definition coalesce :: "jsval \<Rightarrow> jsval \<Rightarrow> jsval" where
  "coalesce a b = (if nullish a then b else a)"

definition js_or :: "jsval \<Rightarrow> jsval \<Rightarrow> jsval" where
  "js_or a b = (if truthy a then a else b)"

fun is_array :: "jsval \<Rightarrow> bool" where
  "is_array (JArr xs) = True"
| "is_array v = False"

fun is_str :: "jsval \<Rightarrow> bool" where
  "is_str (JStr s) = True"
| "is_str v = False"

fun is_num :: "jsval \<Rightarrow> bool" where
  "is_num (JNum n) = True"
| "is_num v = False"

text \<open>\<open>typeof v === 'object' && v !== null\<close>.\<close>

fun is_object :: "jsval \<Rightarrow> bool" where
  "is_object (JArr xs) = True"
| "is_object (JObj kvs) = True"
| "is_object v = False"

text \<open>\<open>typeof v === 'object' && v !== null && !Array.isArray(v)\<close>.\<close>

fun is_plain :: "jsval \<Rightarrow> bool" where
  "is_plain (JObj kvs) = True"
| "is_plain v = False"

lemma is_plain_iff: "is_plain v \<longleftrightarrow> is_object v \<and> \<not> is_array v"
  by (cases v) auto

lemma is_object_typeof: "is_object v \<longleftrightarrow> typeof v = ''object'' \<and> v \<noteq> JNull"
  by (cases v) auto

section \<open>Own properties\<close>

text \<open>
  Reading a property of a value that is not \<open>null\<close> or \<open>undefined\<close>. The names the sources
  read are never names of \<open>Object.prototype\<close>, so only own properties count; on primitives and
  arrays those names are absent.
\<close>

fun own :: "jsval \<Rightarrow> (string \<times> jsval) list" where
  "own (JObj kvs) = kvs"
| "own v = []"

definition pget :: "jsval \<Rightarrow> string \<Rightarrow> jsval" where
  "pget v k = (case map_of (own v) k of None \<Rightarrow> JUndef | Some w \<Rightarrow> w)"

definition has_prop :: "jsval \<Rightarrow> string \<Rightarrow> bool" where
  "has_prop v k = (k \<in> set (map fst (own v)))"

text \<open>\<open>v.k\<close> throws on \<open>null\<close> and \<open>undefined\<close>; \<open>v?.k\<close> is \<open>undefined\<close> there.\<close>

definition get_prop :: "jsval \<Rightarrow> string \<Rightarrow> jsval result" where
  "get_prop v k =
     (if nullish v then Inl (''Cannot read properties (reading '' @ k @ '')'') else Inr (pget v k))"

lemma pget_own_empty [simp]: "own v = [] \<Longrightarrow> pget v k = JUndef"
  by (simp add: pget_def)

lemma pget_JObj_Cons [simp]:
  "pget (JObj ((k', w) # kvs)) k = (if k' = k then w else pget (JObj kvs) k)"
  by (simp add: pget_def)

lemma pget_JObj_Nil [simp]: "pget (JObj []) k = JUndef"
  by (simp add: pget_def)

lemma pget_prim [simp]:
  "pget JUndef k = JUndef" "pget JNull k = JUndef" "pget (JBool b) k = JUndef"
  "pget (JNum n) k = JUndef" "pget (JStr s) k = JUndef" "pget (JArr xs) k = JUndef"
  by simp_all

lemma pget_not_has_prop: "\<not> has_prop v k \<Longrightarrow> pget v k = JUndef"
  by (auto simp: pget_def has_prop_def map_of_eq_None_iff [symmetric] split: option.splits)

text \<open>
  Enumeration order of own properties: array indices (canonical decimal strings below
  \<open>2\<^sup>3\<^sup>2 - 1\<close>) in ascending order, then the other keys in order of insertion.
  \<open>define_prop\<close> is \<open>CreateDataProperty\<close> (object literals, spread, \<open>JSON.parse\<close>).
\<close>

definition is_digit :: "char \<Rightarrow> bool" where
  "is_digit c = (48 \<le> (of_char c :: nat) \<and> (of_char c :: nat) \<le> 57)"

definition digit_val :: "char \<Rightarrow> nat" where
  "digit_val c = of_char c - 48"

definition digit_char :: "nat \<Rightarrow> char" where
  "digit_char d = char_of (48 + d)"

definition digits_val :: "string \<Rightarrow> nat" where
  "digits_val s = foldl (\<lambda>a c. 10 * a + digit_val c) 0 s"

definition array_index :: "string \<Rightarrow> nat option" where
  "array_index s =
     (if s \<noteq> [] \<and> list_all is_digit s \<and> (s = ''0'' \<or> hd s \<noteq> CHR ''0'') \<and> digits_val s < 2 ^ 32 - 1
      then Some (digits_val s) else None)"

fun key_before :: "nat option \<Rightarrow> nat option \<Rightarrow> bool" where
  "key_before (Some i) (Some j) = (i < j)"
| "key_before (Some i) None = True"
| "key_before None _ = False"

fun define_prop :: "string \<Rightarrow> 'a \<Rightarrow> (string \<times> 'a) list \<Rightarrow> (string \<times> 'a) list" where
  "define_prop k v [] = [(k, v)]"
| "define_prop k v ((k', v') # kvs) =
     (if k = k' then (k, v) # kvs
      else if key_before (array_index k) (array_index k') \<and> k \<notin> fst ` set kvs then (k, v) # (k', v') # kvs
      else (k', v') # define_prop k v kvs)"

text \<open>
  Assignment \<open>o[k] = v\<close> on an object created by \<open>{}\<close>: the key \<open>__proto__\<close> reaches the
  setter of \<open>Object.prototype\<close>, which changes the prototype and creates no own property.
\<close>

definition assign_prop :: "string \<Rightarrow> 'a \<Rightarrow> (string \<times> 'a) list \<Rightarrow> (string \<times> 'a) list" where
  "assign_prop k v kvs = (if k = ''__proto__'' then kvs else define_prop k v kvs)"

text \<open>\<open>{...a, ...b}\<close>: the properties of \<open>b\<close> are defined over those of \<open>a\<close>.\<close>

definition spread :: "(string \<times> 'a) list \<Rightarrow> (string \<times> 'a) list \<Rightarrow> (string \<times> 'a) list" where
  "spread a b = foldl (\<lambda>acc (k, v). define_prop k v acc) a b"

lemma set_define_prop:
  "distinct (map fst kvs) \<Longrightarrow> set (define_prop k v kvs) = insert (k, v) {p \<in> set kvs. fst p \<noteq> k}"
  by (induction k v kvs rule: define_prop.induct) (auto simp: image_iff)

lemma fst_set_define_prop: "fst ` set (define_prop k v kvs) = insert k (fst ` set kvs)"
  by (induction k v kvs rule: define_prop.induct) auto

lemma distinct_define_prop:
  "distinct (map fst kvs) \<Longrightarrow> distinct (map fst (define_prop k v kvs))"
proof (induction k v kvs rule: define_prop.induct)
  case (2 k v k' v' kvs)
  then show ?case
    using fst_set_define_prop [of k v kvs] by (auto simp: image_iff)
qed simp

lemma map_of_define_prop:
  "map_of (define_prop k v kvs) = (map_of kvs)(k \<mapsto> v)"
  by (induction k v kvs rule: define_prop.induct) (auto simp: fun_eq_iff map_of_eq_None_iff)

lemma pget_define_prop [simp]:
  "pget (JObj (define_prop k v kvs)) k' = (if k' = k then v else pget (JObj kvs) k')"
  by (simp add: pget_def map_of_define_prop)

text \<open>Lists in enumeration order: no key would have been placed before an earlier one.\<close>

definition prop_order :: "string \<times> 'a \<Rightarrow> string \<times> 'a \<Rightarrow> bool" where
  "prop_order p q = (\<not> key_before (array_index (fst q)) (array_index (fst p)))"

definition wf_props :: "(string \<times> 'a) list \<Rightarrow> bool" where
  "wf_props kvs = (distinct (map fst kvs) \<and> sorted_wrt prop_order kvs)"

lemma key_before_trans: "key_before a b \<Longrightarrow> key_before b c \<Longrightarrow> key_before a c"
  by (cases a; cases b; cases c) auto

lemma key_before_asym: "key_before a b \<Longrightarrow> \<not> key_before b a"
  by (cases a; cases b) auto

lemma wf_props_Nil [simp]: "wf_props []"
  by (simp add: wf_props_def)

lemma set_define_prop_subset: "set (define_prop k v kvs) \<subseteq> insert (k, v) (set kvs)"
  by (induction k v kvs rule: define_prop.induct) auto

lemma wf_props_define_prop: "wf_props kvs \<Longrightarrow> wf_props (define_prop k v kvs)"
proof -
  assume wf: "wf_props kvs"
  then have "sorted_wrt prop_order kvs" by (simp add: wf_props_def)
  then have "sorted_wrt prop_order (define_prop k v kvs)"
  proof (induction k v kvs rule: define_prop.induct)
    case (2 k v k' v' kvs)
    have rest: "prop_order (k, v) q"
      if "key_before (array_index k) (array_index k')" "q \<in> set kvs" for q
      using 2 that key_before_trans unfolding prop_order_def by fastforce
    show ?case
    proof (cases "k = k' \<or> key_before (array_index k) (array_index k') \<and> k \<notin> fst ` set kvs")
      case True
      with 2 rest show ?thesis by (auto simp: prop_order_def dest: key_before_asym)
    next
      case False
      have "prop_order (k', v') q" if "q \<in> set (define_prop k v kvs)" for q
      proof (cases "q \<in> set kvs")
        case False
        then have "q = (k, v)" using that set_define_prop_subset [of k v kvs] by auto
        moreover have "k \<in> fst ` set kvs \<Longrightarrow> \<not> key_before (array_index k) (array_index k')"
          using "2.prems" by (fastforce simp: prop_order_def)
        ultimately show ?thesis
          using \<open>\<not> (k = k' \<or> _)\<close> by (auto simp: prop_order_def)
      qed (use 2 in simp)
      with 2 False show ?thesis by auto
    qed
  qed simp
  with wf show ?thesis
    by (simp add: wf_props_def distinct_define_prop)
qed

lemma define_prop_snoc:
  "k \<notin> fst ` set kvs \<Longrightarrow> \<forall>p \<in> set kvs. prop_order p (k, v) \<Longrightarrow> define_prop k v kvs = kvs @ [(k, v)]"
  by (induction k v kvs rule: define_prop.induct) (auto simp: prop_order_def)

lemma spread_snoc [simp]: "spread a (b @ [(k, v)]) = define_prop k v (spread a b)"
  by (simp add: spread_def)

lemma spread_Nil_right [simp]: "spread a [] = a"
  by (simp add: spread_def)

lemma wf_props_spread: "wf_props a \<Longrightarrow> wf_props (spread a b)"
  by (induction b rule: rev_induct) (auto simp: wf_props_define_prop)

lemma spread_wf_props: "wf_props kvs \<Longrightarrow> spread [] kvs = kvs"
proof (induction kvs rule: rev_induct)
  case (snoc p kvs)
  then show ?case
    by (cases p) (auto simp: wf_props_def sorted_wrt_append define_prop_snoc)
qed simp

lemma map_of_spread: "map_of (spread a b) = map_of a ++ map_of (rev b)"
proof (induction b rule: rev_induct)
  case (snoc p b)
  then show ?case
    by (cases p) (auto simp: map_of_define_prop fun_eq_iff map_add_def split: option.split)
qed simp

section \<open>Strings\<close>

definition starts_with :: "string \<Rightarrow> string \<Rightarrow> bool" where
  "starts_with p s = (take (length p) s = p)"

fun str_includes :: "string \<Rightarrow> string \<Rightarrow> bool" where
  "str_includes [] sub = (sub = [])"
| "str_includes (c # cs) sub = (starts_with sub (c # cs) \<or> str_includes cs sub)"

lemma starts_with_prefix: "starts_with p s \<longleftrightarrow> prefix p s"
  by (metis append_take_drop_id prefixE prefixI starts_with_def append_eq_conv_conj)

lemma str_includes_sublist: "str_includes s sub \<longleftrightarrow> sublist sub s"
proof (induction s)
  case (Cons c cs)
  then show ?case
    by (auto simp: starts_with_prefix sublist_Cons_right)
qed simp

lemma str_includes_iff: "str_includes s sub \<longleftrightarrow> (\<exists>xs ys. s = xs @ sub @ ys)"
  by (simp add: str_includes_sublist sublist_def)

fun split_on :: "char \<Rightarrow> string \<Rightarrow> string list" where
  "split_on c [] = [[]]"
| "split_on c (x # xs) =
     (if x = c then [] # split_on c xs
      else (case split_on c xs of [] \<Rightarrow> [[x]] | w # ws \<Rightarrow> (x # w) # ws))"

fun js_join :: "string \<Rightarrow> string list \<Rightarrow> string" where
  "js_join sep [] = []"
| "js_join sep [w] = w"
| "js_join sep (w # v # ws) = w @ sep @ js_join sep (v # ws)"

lemma split_on_nonempty [simp]: "split_on c s \<noteq> []"
  by (cases s) (auto split: list.splits)

lemma js_join_split_on [simp]: "js_join [c] (split_on c s) = s"
proof (induction s)
  case (Cons x xs)
  then show ?case
  proof (cases "split_on c xs")
    case (Cons w ws)
    with Cons.IH show ?thesis by (cases ws) auto
  qed (use split_on_nonempty in blast)
qed simp

lemma split_on_no_sep: "c \<notin> set w \<Longrightarrow> split_on c w = [w]"
  by (induction w) auto

lemma split_on_append:
  "c \<notin> set w \<Longrightarrow> split_on c (w @ c # s) = w # split_on c s"
  by (induction w) auto

lemma split_on_parts: "p \<in> set (split_on c s) \<Longrightarrow> c \<notin> set p"
  by (induction s arbitrary: p) (auto split: list.splits if_splits)

text \<open>JavaScript white space among the code units below 256.\<close>

definition is_ws :: "char \<Rightarrow> bool" where
  "is_ws c = ((9 \<le> (of_char c :: nat) \<and> (of_char c :: nat) \<le> 13) \<or> (of_char c :: nat) = 32
     \<or> (of_char c :: nat) = 160)"

definition trim_start :: "string \<Rightarrow> string" where
  "trim_start s = dropWhile is_ws s"

definition trim :: "string \<Rightarrow> string" where
  "trim s = rev (dropWhile is_ws (rev (dropWhile is_ws s)))"

definition lower_char :: "char \<Rightarrow> char" where
  "lower_char c = (if 65 \<le> (of_char c :: nat) \<and> (of_char c :: nat) \<le> 90
     then char_of ((of_char c :: nat) + 32) else c)"

definition upper_char :: "char \<Rightarrow> char" where
  "upper_char c = (if 97 \<le> (of_char c :: nat) \<and> (of_char c :: nat) \<le> 122
     then char_of ((of_char c :: nat) - 32) else c)"

definition to_lower :: "string \<Rightarrow> string" where
  "to_lower s = map lower_char s"

definition to_upper :: "string \<Rightarrow> string" where
  "to_upper s = map upper_char s"

section \<open>Decimal numerals\<close>

fun nat_str :: "nat \<Rightarrow> string" where
  "nat_str n = (if n < 10 then [digit_char n] else nat_str (n div 10) @ [digit_char (n mod 10)])"

declare nat_str.simps [simp del]

definition int_str :: "int \<Rightarrow> string" where
  "int_str i = (if i < 0 then CHR ''-'' # nat_str (nat (- i)) else nat_str (nat i))"

lemma of_char_digit_char: "d < 10 \<Longrightarrow> (of_char (digit_char d) :: nat) = 48 + d"
  by (simp add: digit_char_def of_char_of)

lemma is_digit_digit_char [simp]: "d < 10 \<Longrightarrow> is_digit (digit_char d)"
  by (simp add: is_digit_def of_char_digit_char)

lemma digit_val_digit_char [simp]: "d < 10 \<Longrightarrow> digit_val (digit_char d) = d"
  by (simp add: digit_val_def of_char_digit_char)

lemma nat_str_nonempty [simp]: "nat_str n \<noteq> []"
  by (subst nat_str.simps) simp

lemma nat_str_digits: "list_all is_digit (nat_str n)"
proof (induction n rule: nat_str.induct)
  case (1 n)
  then show ?case
    by (cases "n < 10") (simp_all add: nat_str.simps [of n])
qed

lemma digits_val_snoc [simp]: "digits_val (s @ [c]) = 10 * digits_val s + digit_val c"
  by (simp add: digits_val_def)

lemma digits_val_nat_str [simp]: "digits_val (nat_str n) = n"
proof (induction n rule: nat_str.induct)
  case (1 n)
  then show ?case
  proof (cases "n < 10")
    case True
    then show ?thesis
      by (simp add: nat_str.simps [of n] digits_val_def)
  next
    case False
    with "1.IH" show ?thesis
      by (simp add: nat_str.simps [of n])
  qed
qed

lemma nat_str_inj: "nat_str m = nat_str n \<Longrightarrow> m = n"
  by (metis digits_val_nat_str)

text \<open>
  \<open>parseInt(s, 10)\<close>: leading white space, an optional sign, the longest run of digits;
  \<open>None\<close> is \<open>NaN\<close>.
\<close>

definition parse_int10 :: "string \<Rightarrow> int option" where
  "parse_int10 s =
     (let t = trim_start s;
          neg = (t \<noteq> [] \<and> hd t = CHR ''-'');
          u = (if t \<noteq> [] \<and> (hd t = CHR ''-'' \<or> hd t = CHR ''+'') then tl t else t);
          ds = takeWhile is_digit u
      in if ds = [] then None
         else Some (if neg then - int (digits_val ds) else int (digits_val ds)))"

lemma digit_not_special:
  assumes "is_digit c"
  shows "\<not> is_ws c" and "c \<noteq> CHR ''-''" and "c \<noteq> CHR ''+''" and "c \<noteq> CHR '':''"
  using assms by (auto simp: is_digit_def is_ws_def)

lemma parse_int10_digits:
  assumes "ds \<noteq> []" and "list_all is_digit ds"
  shows "parse_int10 ds = Some (int (digits_val ds))"
proof -
  obtain c cs where ds: "ds = c # cs" and c: "is_digit c"
    using assms by (cases ds) auto
  have ts: "trim_start (c # cs) = c # cs"
    using c by (simp add: trim_start_def digit_not_special)
  have tw: "takeWhile is_digit cs = cs"
    using assms(2) by (simp add: ds list_all_iff)
  show ?thesis
    using c digit_not_special(2,3) [OF c] by (simp add: parse_int10_def Let_def ds ts tw)
qed

lemma parse_int10_nat_str [simp]: "parse_int10 (nat_str n) = Some (int n)"
  using parse_int10_digits [OF nat_str_nonempty nat_str_digits] by simp

lemma nat_str_no_special:
  "CHR ''-'' \<notin> set (nat_str n)" "CHR '':'' \<notin> set (nat_str n)"
  using nat_str_digits [of n] by (auto simp: list_all_iff is_digit_def)

section \<open>Hexadecimal digits\<close>

definition hex_char :: "nat \<Rightarrow> char" where
  "hex_char d = (if d < 10 then char_of (48 + d) else char_of (87 + d))"

definition hex_val :: "char \<Rightarrow> nat option" where
  "hex_val c =
     (let n = (of_char c :: nat)
      in if 48 \<le> n \<and> n \<le> 57 then Some (n - 48)
         else if 97 \<le> n \<and> n \<le> 102 then Some (n - 87)
         else if 65 \<le> n \<and> n \<le> 70 then Some (n - 55)
         else None)"

definition is_hex :: "char \<Rightarrow> bool" where
  "is_hex c = (hex_val c \<noteq> None)"

lemma hex_val_hex_char [simp]: "d < 16 \<Longrightarrow> hex_val (hex_char d) = Some d"
  by (auto simp: hex_val_def hex_char_def Let_def of_char_of)

lemma hex_val_less: "hex_val c = Some d \<Longrightarrow> d < 16"
  by (auto simp: hex_val_def Let_def split: if_splits)

lemma hex_char_val: "hex_val c = Some d \<Longrightarrow> hex_char d = lower_char c"
  by (auto simp: hex_val_def hex_char_def lower_char_def Let_def split: if_splits)

lemma is_hex_hex_char [simp]: "d < 16 \<Longrightarrow> is_hex (hex_char d)"
  by (simp add: is_hex_def)

lemma lower_hex_char [simp]: "d < 16 \<Longrightarrow> lower_char (hex_char d) = hex_char d"
  by (auto simp: lower_char_def hex_char_def of_char_of)

end
