(* ===== verification/JS_Number.thy ===== *)
theory JS_Number
  imports JS_Prelude
begin

text \<open>
  Numbers: rounding of a rational to the nearest double (ties to even), \<open>Number(s)\<close> printing
  (\<open>num_str\<close>, the shortest decimal that reads back as the same double), reading of JSON number
  literals and \<open>toFixed\<close>. Integers of magnitude below \<open>2\<^sup>5\<^sup>3\<close> print as their decimal numeral.
\<close>

section \<open>Rounding to a double\<close>

definition pow_int :: "rat \<Rightarrow> int \<Rightarrow> rat" where
  "pow_int b e = (if 0 \<le> e then b ^ nat e else 1 / b ^ nat (- e))"

fun nat_log2 :: "nat \<Rightarrow> nat" where
  "nat_log2 n = (if n < 2 then 0 else Suc (nat_log2 (n div 2)))"

declare nat_log2.simps [simp del]

text \<open>\<open>rat_log2 x\<close> is the exponent \<open>e\<close> with \<open>2\<^sup>e \<le> x < 2\<^sup>e\<^sup>+\<^sup>1\<close>, for \<open>0 < x\<close>.\<close>

definition rat_log2 :: "rat \<Rightarrow> int" where
  "rat_log2 x =
     (let (p, q) = quotient_of x; e = int (nat_log2 (nat p)) - int (nat_log2 (nat q))
      in if x < pow_int 2 e then e - 1 else e)"

definition round_half_even :: "rat \<Rightarrow> int" where
  "round_half_even x =
     (let f = \<lfloor>x\<rfloor>; d = x - of_int f
      in if d < 1 / 2 then f else if d > 1 / 2 then f + 1 else if even f then f else f + 1)"

text \<open>
  The double nearest to \<open>x\<close>. Magnitudes that round past the largest double are outside the
  model of numbers as finite doubles; \<open>fl\<close> leaves the exponent range open above.
\<close>

definition fl :: "rat \<Rightarrow> rat" where
  "fl x =
     (if x = 0 then 0
      else let u = pow_int 2 (max (rat_log2 \<bar>x\<bar> - 52) (- 1074))
           in of_int (round_half_even (x / u)) * u)"

lemma round_half_even_of_int [simp]: "round_half_even (of_int i) = i"
  by (simp add: round_half_even_def Let_def)

lemma fl_zero [simp]: "fl 0 = 0"
  by (simp add: fl_def)

section \<open>Printing\<close>

fun nat_log10 :: "nat \<Rightarrow> nat" where
  "nat_log10 n = (if n < 10 then 0 else Suc (nat_log10 (n div 10)))"

declare nat_log10.simps [simp del]

text \<open>The \<open>n\<close> with \<open>10\<^sup>n\<^sup>-\<^sup>1 \<le> x < 10\<^sup>n\<close>, for \<open>0 < x\<close>.\<close>

definition dec_exp :: "rat \<Rightarrow> int" where
  "dec_exp x =
     (let (p, q) = quotient_of x; e = int (nat_log10 (nat p)) - int (nat_log10 (nat q))
      in if x < pow_int 10 (e - 1) then e - 1
         else if x < pow_int 10 e then e
         else if x < pow_int 10 (e + 1) then e + 1 else e + 2)"

text \<open>
  A significand of \<open>k\<close> digits that reads back as \<open>x\<close>, the closest one first, with its
  exponent. A double just below a power of ten may have that power as its shortest decimal.
\<close>

definition shortest_at :: "rat \<Rightarrow> int \<Rightarrow> nat \<Rightarrow> (int \<times> int) option" where
  "shortest_at x n k =
     (let q = x / pow_int 10 (n - int k); lo = \<lfloor>q\<rfloor>; hi = \<lceil>q\<rceil>;
          cs = (if q - of_int lo \<le> of_int hi - q then [lo, hi] else [hi, lo])
      in case find (\<lambda>s. fl (of_int s * pow_int 10 (n - int k)) = x) cs of
           None \<Rightarrow> None
         | Some s \<Rightarrow> Some (if s = 10 ^ k then (10 ^ (k - 1), n + 1) else (s, n)))"

fun shortest_from :: "rat \<Rightarrow> int \<Rightarrow> nat list \<Rightarrow> (int \<times> int \<times> nat) option" where
  "shortest_from x n [] = None"
| "shortest_from x n (k # ks) =
     (case shortest_at x n k of
        Some (s, m) \<Rightarrow> Some (s, m, k)
      | None \<Rightarrow> shortest_from x n ks)"

definition layout_digits :: "string \<Rightarrow> int \<Rightarrow> nat \<Rightarrow> string" where
  "layout_digits ds n k =
     (if int k \<le> n \<and> n \<le> 21 then ds @ replicate (nat n - k) CHR ''0''
      else if 0 < n \<and> n \<le> 21 then take (nat n) ds @ ''.'' @ drop (nat n) ds
      else if -6 < n \<and> n \<le> 0 then ''0.'' @ replicate (nat (- n)) CHR ''0'' @ ds
      else (let e = n - 1; es = (if e < 0 then ''-'' else ''+'') @ nat_str (nat \<bar>e\<bar>)
            in if k = 1 then ds @ ''e'' @ es
               else take 1 ds @ ''.'' @ drop 1 ds @ ''e'' @ es))"

definition pos_num_str :: "rat \<Rightarrow> string" where
  "pos_num_str x =
     (case shortest_from x (dec_exp x) [1..<18] of
        Some (s, n, k) \<Rightarrow> layout_digits (nat_str (nat s)) n k
      | None \<Rightarrow> [])"

definition num_str :: "rat \<Rightarrow> string" where
  "num_str x =
     (if x = of_int \<lfloor>x\<rfloor> \<and> \<bar>x\<bar> < 2 ^ 53 then int_str \<lfloor>x\<rfloor>
      else if x < 0 then CHR ''-'' # pos_num_str (- x) else pos_num_str x)"

definition safe_int :: "rat \<Rightarrow> bool" where
  "safe_int x = (x = of_int \<lfloor>x\<rfloor> \<and> \<bar>x\<bar> < 2 ^ 53)"

lemma num_str_safe_int: "safe_int x \<Longrightarrow> num_str x = int_str \<lfloor>x\<rfloor>"
  by (simp add: num_str_def safe_int_def)

lemma safe_int_of_int [simp]: "safe_int (of_int i) \<longleftrightarrow> \<bar>i\<bar> < 2 ^ 53"
proof -
  have "\<bar>rat_of_int i\<bar> < 2 ^ 53 \<longleftrightarrow> rat_of_int \<bar>i\<bar> < rat_of_int (2 ^ 53)"
    by simp
  then show ?thesis
    by (simp only: safe_int_def of_int_less_iff floor_of_int simp_thms)
qed

text \<open>
  \<open>x.toFixed(d)\<close> for \<open>|x| < 10\<^sup>2\<^sup>1\<close>: the integer \<open>n\<close> nearest to \<open>|x| * 10\<^sup>d\<close>, the larger of two,
  printed with \<open>d\<close> fraction digits.
\<close>

definition to_fixed :: "nat \<Rightarrow> rat \<Rightarrow> string" where
  "to_fixed d x =
     (let n = nat \<lfloor>\<bar>x\<bar> * 10 ^ d + 1 / 2\<rfloor>; m = nat_str n;
          m' = replicate (Suc d - length m) CHR ''0'' @ m;
          body = (if d = 0 then m else take (length m' - d) m' @ ''.'' @ drop (length m' - d) m')
      in if x < 0 then CHR ''-'' # body else body)"

text \<open>\<open>Number(x.toFixed(d))\<close>: the decimal that \<open>toFixed\<close> prints, read back as a double.\<close>

definition number_to_fixed :: "nat \<Rightarrow> rat \<Rightarrow> rat" where
  "number_to_fixed d x =
     (let n = \<lfloor>\<bar>x\<bar> * 10 ^ d + 1 / 2\<rfloor>; y = fl (of_int n / 10 ^ d) in if x < 0 then - y else y)"

section \<open>Conversion to strings\<close>

text \<open>\<open>`${v}`\<close>: arrays join their elements, with nothing for \<open>null\<close> and \<open>undefined\<close>.\<close>

fun js_str :: "jsval \<Rightarrow> string" where
  "js_str JUndef = ''undefined''"
| "js_str JNull = ''null''"
| "js_str (JBool b) = (if b then ''true'' else ''false'')"
| "js_str (JNum n) = num_str n"
| "js_str (JStr s) = s"
| "js_str (JArr xs) = js_join '','' (map (\<lambda>v. if nullish v then [] else js_str v) xs)"
| "js_str (JObj kvs) = ''[object Object]''"

end
