(* ===== verification/JS_Rounding.thy ===== *)
theory JS_Rounding
  imports JS_Number
begin

text \<open>
  Facts on rounding to doubles that hold for the levels and scores of the program, numbers of
  magnitude at most 1: rounding keeps them between 0 and 1 and moves them by at most half a unit
  in the last place of 1.
\<close>

lemma nat_log2_mono: "m \<le> n \<Longrightarrow> nat_log2 m \<le> nat_log2 n"
proof (induction n arbitrary: m rule: nat_log2.induct)
  case (1 n)
  then show ?case
    using "1.IH" [of "m div 2"] by (subst (1 2) nat_log2.simps) (auto simp: div_le_mono)
qed

lemma round_half_even_bounds:
  "0 \<le> x \<Longrightarrow> 0 \<le> round_half_even x" "x \<le> of_int k \<Longrightarrow> round_half_even x \<le> k"
proof -
  assume "0 \<le> x"
  then have "0 \<le> \<lfloor>x\<rfloor>" by simp
  then show "0 \<le> round_half_even x" by (auto simp: round_half_even_def Let_def)
next
  assume x: "x \<le> of_int k"
  show "round_half_even x \<le> k"
  proof (cases "x = of_int k")
    case False
    with x have "\<lfloor>x\<rfloor> < k" by (simp add: floor_less_iff)
    then show ?thesis by (auto simp: round_half_even_def Let_def)
  qed simp
qed

lemma rat_log2_unit:
  assumes "0 < x" and "x \<le> 1"
  shows "rat_log2 x \<le> 0"
proof -
  obtain p q where pq: "quotient_of x = (p, q)" by (cases "quotient_of x")
  have q: "0 < q" using quotient_of_denom_pos [OF pq] .
  have "of_int p / of_int q \<le> (1 :: rat)" using quotient_of_div [OF pq] assms(2) by simp
  then have "p \<le> q" using q by (simp add: divide_le_eq)
  then have "nat_log2 (nat p) \<le> nat_log2 (nat q)" by (intro nat_log2_mono) simp
  then show ?thesis by (simp add: rat_log2_def pq Let_def)
qed

lemma round_half_even_near: "\<bar>of_int (round_half_even x) - x\<bar> \<le> 1 / 2"
proof -
  have "of_int \<lfloor>x\<rfloor> \<le> x" "x < of_int \<lfloor>x\<rfloor> + 1" by linarith+
  then show ?thesis by (auto simp: round_half_even_def Let_def abs_le_iff)
qed

lemma fl_near:
  assumes "\<bar>x\<bar> \<le> 1"
  shows "\<bar>fl x - x\<bar> \<le> 1 / 2 ^ 53"
proof (cases "x = 0")
  case False
  define e where "e = max (rat_log2 \<bar>x\<bar> - 52) (- 1074)"
  have e: "e \<le> - 52" using rat_log2_unit [of "\<bar>x\<bar>"] assms False by (simp add: e_def)
  let ?u = "pow_int 2 e"
  have u: "?u = 1 / 2 ^ nat (- e)" "0 < ?u" using e by (simp_all add: pow_int_def)
  have "(2 :: rat) ^ 52 \<le> 2 ^ nat (- e)" using e by (intro power_increasing) auto
  then have small: "?u \<le> 1 / 2 ^ 52" unfolding u(1) by (intro divide_left_mono) simp_all
  have "fl x - x = (of_int (round_half_even (x / ?u)) - x / ?u) * ?u"
    using False u(2) by (simp add: fl_def e_def [symmetric] Let_def left_diff_distrib)
  then have "\<bar>fl x - x\<bar> = \<bar>of_int (round_half_even (x / ?u)) - x / ?u\<bar> * ?u"
    using u(2) by (simp add: abs_mult)
  also have "\<dots> \<le> 1 / 2 * ?u" using round_half_even_near u(2) by (intro mult_right_mono) simp_all
  also have "\<dots> \<le> 1 / 2 ^ 53" using small by simp
  finally show ?thesis .
qed simp

lemma fl_bounds:
  assumes "- 1 \<le> x" and "x \<le> 1"
  shows "x - 1 / 2 ^ 53 \<le> fl x" "fl x \<le> x + 1 / 2 ^ 53"
  using fl_near [of x] assms unfolding abs_le_iff by linarith+

section \<open>Monotonicity\<close>

lemma pow_int_powi: "pow_int b e = b powi e"
  by (simp add: pow_int_def power_int_def field_simps power_one_over)

lemma nat_log2_le: "0 < n \<Longrightarrow> 2 ^ nat_log2 n \<le> n"
proof (induction n rule: nat_log2.induct)
  case (1 n)
  show ?case
  proof (cases "n < 2")
    case False
    have "2 ^ nat_log2 (n div 2) \<le> n div 2" using 1 False by simp
    then show ?thesis using False by (subst nat_log2.simps) simp
  qed (use "1.prems" in \<open>subst nat_log2.simps, simp\<close>)
qed

lemma nat_log2_less: "n < 2 ^ (nat_log2 n + 1)"
proof (induction n rule: nat_log2.induct)
  case (1 n)
  show ?case
  proof (cases "n < 2")
    case False
    have "n div 2 < 2 ^ (nat_log2 (n div 2) + 1)" using 1 False by simp
    then show ?thesis using False by (subst nat_log2.simps) simp
  qed (subst nat_log2.simps, simp)
qed

lemma int_log2_bounds:
  assumes "0 < i"
  shows "2 powi int (nat_log2 (nat i)) \<le> rat_of_int i" "rat_of_int i < 2 powi (int (nat_log2 (nat i)) + 1)"
proof -
  have "2 ^ nat_log2 (nat i) \<le> nat i" "nat i < 2 ^ (nat_log2 (nat i) + 1)"
    using assms nat_log2_le [of "nat i"] nat_log2_less [of "nat i"] by simp_all
  then have "2 ^ nat_log2 (nat i) \<le> i" "i < 2 ^ (nat_log2 (nat i) + 1)"
    using assms by (metis int_nat_eq less_imp_le of_nat_le_iff of_nat_numeral of_nat_power, metis nat_less_numeral_power_cancel_iff)
  then have "rat_of_int (2 ^ nat_log2 (nat i)) \<le> rat_of_int i" "rat_of_int i < rat_of_int (2 ^ (nat_log2 (nat i) + 1))"
    by (simp_all only: of_int_le_iff of_int_less_iff)
  then show "2 powi int (nat_log2 (nat i)) \<le> rat_of_int i" "rat_of_int i < 2 powi (int (nat_log2 (nat i)) + 1)"
    by (simp_all add: power_int_add)
qed

lemma rat_log2_bounds:
  assumes "0 < x"
  shows "2 powi rat_log2 x \<le> x" "x < 2 powi (rat_log2 x + 1)"
proof -
  obtain p q where pq: "quotient_of x = (p, q)" by (cases "quotient_of x")
  have q: "0 < q" using quotient_of_denom_pos [OF pq] .
  have x: "x = of_int p / of_int q" using quotient_of_div [OF pq] .
  have p: "0 < p" using assms q by (simp add: x zero_less_divide_iff)
  let ?a = "int (nat_log2 (nat p))" and ?b = "int (nat_log2 (nat q))"
  note bp = int_log2_bounds [OF p] and bq = int_log2_bounds [OF q]
  have "x < 2 powi (?a + 1) / 2 powi ?b"
    unfolding x using bp(2) bq(1) q p by (intro frac_less) auto
  then have up: "x < 2 powi (?a - ?b + 1)" by (simp add: power_int_diff power_int_add)
  have "2 powi ?a / 2 powi (?b + 1) < x"
    unfolding x using bp(1) bq(2) q p by (intro frac_less2) auto
  then have lo: "2 powi (?a - ?b - 1) < x" by (simp add: power_int_diff power_int_add)
  have e: "rat_log2 x = (if x < 2 powi (?a - ?b) then ?a - ?b - 1 else ?a - ?b)"
    by (simp add: rat_log2_def pq Let_def pow_int_powi)
  show "2 powi rat_log2 x \<le> x" using lo by (auto simp: e)
  show "x < 2 powi (rat_log2 x + 1)" using up by (auto simp: e)
qed

lemma round_half_even_mono: "x \<le> y \<Longrightarrow> round_half_even x \<le> round_half_even y"
proof -
  assume xy: "x \<le> y"
  show ?thesis
  proof (cases "\<lfloor>x\<rfloor> = \<lfloor>y\<rfloor>")
    case True
    then show ?thesis using xy by (auto simp: round_half_even_def Let_def)
  next
    case False
    then have "\<lfloor>x\<rfloor> + 1 \<le> \<lfloor>y\<rfloor>" using floor_mono [OF xy] by linarith
    moreover have "round_half_even x \<le> \<lfloor>x\<rfloor> + 1" "\<lfloor>y\<rfloor> \<le> round_half_even y"
      by (auto simp: round_half_even_def Let_def)
    ultimately show ?thesis by linarith
  qed
qed

lemma round_half_even_minus: "round_half_even (- x) = - round_half_even x"
proof (cases "x = of_int \<lfloor>x\<rfloor>")
  case True
  then show ?thesis by (metis of_int_minus round_half_even_of_int)
next
  case False
  then have fl: "\<lfloor>- x\<rfloor> = - \<lfloor>x\<rfloor> - 1" by linarith
  then have "- x - of_int \<lfloor>- x\<rfloor> = 1 - (x - of_int \<lfloor>x\<rfloor>)" by simp
  then show ?thesis using fl by (auto simp: round_half_even_def Let_def)
qed

text \<open>The unit in the last place of \<open>x\<close>.\<close>

definition ulp_exp :: "rat \<Rightarrow> int" where
  "ulp_exp x = max (rat_log2 \<bar>x\<bar> - 52) (- 1074)"

lemma fl_eq: "fl x = of_int (round_half_even (x / 2 powi ulp_exp x)) * 2 powi ulp_exp x"
  by (simp add: fl_def ulp_exp_def pow_int_powi Let_def round_half_even_of_int [of 0, simplified])

lemma powi_div_int:
  assumes "e \<le> k"
  shows "2 powi k / 2 powi e = rat_of_int (2 ^ nat (k - e))"
proof -
  have "2 powi k / 2 powi e = (2 :: rat) powi (k - e)" by (simp add: power_int_diff)
  then show ?thesis using assms by (simp add: power_int_def)
qed

lemma rat_log2_le:
  assumes "0 < x" and "x \<le> y"
  shows "rat_log2 x \<le> rat_log2 y"
proof (rule ccontr)
  assume "\<not> rat_log2 x \<le> rat_log2 y"
  then have "(2 :: rat) powi (rat_log2 y + 1) \<le> 2 powi rat_log2 x" by (intro power_int_increasing) auto
  then show False using rat_log2_bounds [of x] rat_log2_bounds [of y] assms by auto
qed

text \<open>The significand has at most 53 bits, so that rounding respects powers of two as bounds.\<close>

lemma significand_bound: "\<bar>round_half_even (x / 2 powi ulp_exp x)\<bar> \<le> 2 ^ 53"
proof -
  have pos: "round_half_even (y / 2 powi ulp_exp y) \<le> 2 ^ 53" if y: "0 < y" for y
  proof -
    have "rat_log2 y + 1 \<le> ulp_exp y + 53" using y by (auto simp: ulp_exp_def)
    then have "(2 :: rat) powi (rat_log2 y + 1) \<le> 2 powi (ulp_exp y + 53)" by (intro power_int_increasing) auto
    then have "y \<le> 2 powi (ulp_exp y + 53)" using rat_log2_bounds(2) [OF y] by linarith
    then have "y / 2 powi ulp_exp y \<le> 2 powi (ulp_exp y + 53) / 2 powi ulp_exp y" by (intro divide_right_mono) auto
    also have "\<dots> = of_int (2 ^ 53)" by (simp add: powi_div_int)
    finally show ?thesis by (rule round_half_even_bounds)
  qed
  consider "x = 0" | "0 < x" | "x < 0" by linarith
  then show ?thesis
  proof cases
    case 1
    then show ?thesis by (simp add: round_half_even_def)
  next
    case 2
    then show ?thesis using pos [of x] round_half_even_bounds(1) [of "x / 2 powi ulp_exp x"] by simp
  next
    case 3
    then have "round_half_even (- (x / 2 powi ulp_exp x)) \<le> 2 ^ 53" "0 \<le> round_half_even (- (x / 2 powi ulp_exp x))"
      using pos [of "- x"] round_half_even_bounds(1) [of "- (x / 2 powi ulp_exp x)"]
      by (simp_all add: ulp_exp_def divide_le_0_iff)
    then show ?thesis by (simp add: round_half_even_minus)
  qed
qed

lemma fl_le_powi: "fl x \<le> 2 powi (ulp_exp x + 53)"
proof -
  have "round_half_even (x / 2 powi ulp_exp x) \<le> 2 ^ 53" using significand_bound [of x] by linarith
  then have "rat_of_int (round_half_even (x / 2 powi ulp_exp x)) \<le> of_int (2 ^ 53)" by (simp only: of_int_le_iff)
  then have "fl x \<le> of_int (2 ^ 53) * 2 powi ulp_exp x" unfolding fl_eq by (intro mult_right_mono) auto
  then show ?thesis by (simp add: power_int_add)
qed

lemma fl_mono_pos:
  assumes "0 < x" and "x \<le> y"
  shows "fl x \<le> fl y"
proof (cases "ulp_exp x = ulp_exp y")
  case True
  have "x / 2 powi ulp_exp y \<le> y / 2 powi ulp_exp y" using assms(2) by (intro divide_right_mono) auto
  from round_half_even_mono [OF this] show ?thesis
    unfolding fl_eq True by (intro mult_right_mono) auto
next
  case False
  have y: "0 < y" using assms by simp
  have le: "rat_log2 x \<le> rat_log2 y" using rat_log2_le assms .
  then have less: "ulp_exp x + 1 \<le> ulp_exp y" "ulp_exp y = rat_log2 y - 52"
    using False assms by (auto simp: ulp_exp_def max_def split: if_splits)
  have "fl x \<le> 2 powi (ulp_exp x + 53)" using fl_le_powi .
  also have "\<dots> \<le> 2 powi (rat_log2 y)" using less by (intro power_int_increasing) auto
  also have "\<dots> \<le> fl y"
  proof -
    have "2 powi rat_log2 y / 2 powi ulp_exp y \<le> y / 2 powi ulp_exp y"
      using rat_log2_bounds(1) [OF y] by (intro divide_right_mono) auto
    then have "of_int (2 ^ nat (rat_log2 y - ulp_exp y)) \<le> y / 2 powi ulp_exp y"
      using less(2) by (simp add: powi_div_int)
    from round_half_even_mono [OF this] have "(2 :: int) ^ nat (rat_log2 y - ulp_exp y) \<le> round_half_even (y / 2 powi ulp_exp y)"
      by (simp only: round_half_even_of_int)
    then have "rat_of_int (2 ^ nat (rat_log2 y - ulp_exp y)) \<le> of_int (round_half_even (y / 2 powi ulp_exp y))" by (simp only: of_int_le_iff)
    then have "2 powi rat_log2 y / 2 powi ulp_exp y \<le> rat_of_int (round_half_even (y / 2 powi ulp_exp y))"
      using powi_div_int [of "ulp_exp y" "rat_log2 y"] less(2) by simp
    then show ?thesis unfolding fl_eq by (simp add: divide_le_eq)
  qed
  finally show ?thesis .
qed

lemma fl_minus [simp]: "fl (- x) = - fl x"
  by (simp add: fl_eq ulp_exp_def round_half_even_minus)

lemma fl_nonneg [simp]: "0 \<le> x \<Longrightarrow> 0 \<le> fl x"
  by (simp add: fl_eq round_half_even_bounds(1))

lemma fl_nonpos [simp]: "x \<le> 0 \<Longrightarrow> fl x \<le> 0"
  using fl_nonneg [of "- x"] by simp

lemma fl_mono: "x \<le> y \<Longrightarrow> fl x \<le> fl y"
proof -
  assume xy: "x \<le> y"
  consider "0 < x" | "x \<le> 0" "0 \<le> y" | "y < 0" by linarith
  then show ?thesis
  proof cases
    case 1
    then show ?thesis using fl_mono_pos xy by simp
  next
    case 2
    then show ?thesis using fl_nonpos fl_nonneg by (meson order_trans)
  next
    case 3
    then show ?thesis using fl_mono_pos [of "- y" "- x"] xy by simp
  qed
qed

text \<open>Doubles are the fixed points of rounding, and they bound what is rounded.\<close>

lemma fl_one [simp]: "fl 1 = 1"
  by code_simp

lemma fl_le: "x \<le> d \<Longrightarrow> fl d = d \<Longrightarrow> fl x \<le> d"
  using fl_mono [of x d] by simp

lemma fl_ge: "d \<le> x \<Longrightarrow> fl d = d \<Longrightarrow> d \<le> fl x"
  using fl_mono [of d x] by simp

lemma fl_exact_small:
  assumes "\<bar>n\<bar> < 2 ^ 53" and "- 1074 \<le> e"
  shows "fl (of_int n * 2 powi e) = of_int n * 2 powi e"
proof (cases "n = 0")
  case False
  let ?z = "rat_of_int n * 2 powi e"
  have z: "0 < \<bar>?z\<bar>" using False by simp
  have "rat_of_int \<bar>n\<bar> < of_int (2 ^ 53)" using assms(1) by (simp only: of_int_less_iff)
  then have "\<bar>?z\<bar> < 2 powi 53 * 2 powi e" by (simp add: abs_mult)
  then have "\<bar>?z\<bar> < 2 powi (e + 53)" by (simp add: power_int_add)
  then have "(2 :: rat) powi rat_log2 \<bar>?z\<bar> < 2 powi (e + 53)" using rat_log2_bounds(1) [OF z] by linarith
  then have "rat_log2 \<bar>?z\<bar> < e + 53"
    by (metis linorder_not_less one_le_numeral power_int_increasing)
  then have u: "ulp_exp ?z \<le> e" using assms(2) by (auto simp: ulp_exp_def)
  have "?z / 2 powi ulp_exp ?z = of_int (n * 2 ^ nat (e - ulp_exp ?z))"
    using powi_div_int [OF u] by (simp add: mult.assoc [symmetric] times_divide_eq_right [symmetric] del: times_divide_eq_right)
  then have "round_half_even (?z / 2 powi ulp_exp ?z) = n * 2 ^ nat (e - ulp_exp ?z)" "?z = of_int (n * 2 ^ nat (e - ulp_exp ?z)) * 2 powi ulp_exp ?z"
    by (simp_all only: round_half_even_of_int) (simp add: divide_eq_eq)
  then show ?thesis unfolding fl_eq by (simp add: eq_commute)
qed simp

lemma fl_exact:
  assumes "\<bar>n\<bar> \<le> 2 ^ 53" and "- 1074 \<le> e"
  shows "fl (of_int n * 2 powi e) = of_int n * 2 powi e"
proof (cases "\<bar>n\<bar> < 2 ^ 53")
  case False
  then have "n = 2 ^ 52 * 2 \<or> n = - (2 ^ 52) * 2" using assms(1) by auto
  then obtain m where m: "n = m * 2" "\<bar>m\<bar> < 2 ^ 53" by fastforce
  then have "rat_of_int n * 2 powi e = of_int m * 2 powi (e + 1)" by (simp add: power_int_add)
  then show ?thesis using fl_exact_small [OF m(2), of "e + 1"] assms(2) by simp
qed (use fl_exact_small assms in blast)

lemma fl_idem [simp]: "fl (fl x) = fl x"
proof -
  have "- 1074 \<le> ulp_exp x" by (simp add: ulp_exp_def)
  from fl_exact [OF significand_bound [of x] this] show ?thesis by (simp only: fl_eq [symmetric])
qed

lemma fl_int: "\<bar>i\<bar> \<le> 2 ^ 53 \<Longrightarrow> fl (of_int i) = of_int i"
  using fl_exact [of i 0] by simp

lemma fl_nat: "n \<le> 2 ^ 53 \<Longrightarrow> fl (of_nat n) = of_nat n"
  using fl_int [of "int n"] by simp

text \<open>Rounding to a double stays between 0 and 1.\<close>

lemma fl_unit:
  assumes "0 \<le> x" and "x \<le> 1"
  shows "0 \<le> fl x" "fl x \<le> 1"
  using assms by (simp_all add: fl_le)

text \<open>Adding a non-negative number never lowers a double.\<close>

lemma fl_add_ge: "fl d = d \<Longrightarrow> 0 \<le> v \<Longrightarrow> d \<le> fl (d + v)"
  by (rule fl_ge) simp_all

lemma fl_double: "fl d = d \<Longrightarrow> fl (2 * d) = 2 * d"
proof -
  assume d: "fl d = d"
  have "fl (of_int (round_half_even (d / 2 powi ulp_exp d)) * 2 powi (ulp_exp d + 1)) =
      of_int (round_half_even (d / 2 powi ulp_exp d)) * 2 powi (ulp_exp d + 1)"
    by (rule fl_exact [OF significand_bound]) (simp add: ulp_exp_def)
  moreover have "of_int (round_half_even (d / 2 powi ulp_exp d)) * 2 powi (ulp_exp d + 1) = 2 * d"
    using d unfolding fl_eq [of d] by (simp add: power_int_add)
  ultimately show ?thesis by simp
qed

text \<open>\<open>Number(x.toFixed(d))\<close> respects bounds with at most \<open>d\<close> decimals.\<close>

lemma number_to_fixed_bounds:
  assumes "0 \<le> x" and "x \<le> of_int k / 10 ^ d"
  shows "0 \<le> number_to_fixed d x" "number_to_fixed d x \<le> fl (of_int k / 10 ^ d)"
proof -
  have n: "0 \<le> \<lfloor>\<bar>x\<bar> * 10 ^ d + 1 / 2\<rfloor>" using assms(1) by simp
  have "x * 10 ^ d \<le> of_int k" using assms(2) by (simp add: le_divide_eq)
  then have "\<lfloor>\<bar>x\<bar> * 10 ^ d + 1 / 2\<rfloor> \<le> k" using assms(1) by (simp add: floor_le_iff)
  then have le: "rat_of_int \<lfloor>\<bar>x\<bar> * 10 ^ d + 1 / 2\<rfloor> / 10 ^ d \<le> of_int k / 10 ^ d" by (intro divide_right_mono) simp_all
  show "0 \<le> number_to_fixed d x" using n assms(1) by (simp add: number_to_fixed_def Let_def)
  show "number_to_fixed d x \<le> fl (of_int k / 10 ^ d)"
    using fl_mono [OF le] assms(1) by (simp add: number_to_fixed_def Let_def)
qed

lemma number_to_fixed_unit:
  assumes "0 \<le> x" and "x \<le> 1"
  shows "0 \<le> number_to_fixed d x" "number_to_fixed d x \<le> 1"
  using number_to_fixed_bounds [of x "10 ^ d" d] assms by simp_all

lemma number_to_fixed_mono: "0 \<le> x \<Longrightarrow> x \<le> y \<Longrightarrow> number_to_fixed d x \<le> number_to_fixed d y"
  by (auto simp: number_to_fixed_def Let_def intro!: fl_mono divide_right_mono floor_mono)

lemma fl_number_to_fixed [simp]: "fl (number_to_fixed d x) = number_to_fixed d x"
  by (simp add: number_to_fixed_def Let_def)

section \<open>Values\<close>

lemma rat_log2_unique:
  assumes "2 powi k \<le> x" and "x < 2 powi (k + 1)"
  shows "rat_log2 x = k"
proof -
  have x: "0 < x" using assms(1) by (meson less_le_trans zero_less_numeral zero_less_power_int)
  have less: "i < j + 1" if "2 powi i \<le> y" "y < 2 powi (j + 1)" for i j and y :: rat
    using that by (metis linorder_not_less one_le_numeral order_le_less_trans power_int_increasing)
  show ?thesis using less [OF rat_log2_bounds(1) [OF x] assms(2)] less [OF assms(1) rat_log2_bounds(2) [OF x]] by simp
qed

text \<open>The double nearest to a number below 2, given the power of two below it.\<close>

lemma round_half_even_nearest: "\<bar>x - of_int n\<bar> < 1 / 2 \<Longrightarrow> round_half_even x = n"
  using round_half_even_near [of x] by linarith

lemma fl_value:
  assumes "1 / 2 ^ j \<le> x" and "x < 2 / 2 ^ j" and "j \<le> 1000" and "\<bar>x * 2 ^ (52 + j) - of_int n\<bar> < 1 / 2"
  shows "fl x = of_int n / 2 ^ (52 + j)"
proof -
  have p: "2 powi (- int i) = 1 / (2 :: rat) ^ i" for i by (simp add: power_int_minus divide_inverse)
  have x: "0 < x" using assms(1) by (meson less_le_trans zero_less_divide_1_iff zero_less_numeral zero_less_power)
  have "2 powi (- int j + 1) = (2 :: rat) powi (- int j) * 2" using power_int_add [of "2 :: rat" "- int j" 1] by simp
  then have "2 powi (- int j + 1) = 2 / (2 :: rat) ^ j" by (simp only: p)
  then have "rat_log2 x = - int j" using assms p [of j] by (intro rat_log2_unique) simp_all
  then have u: "ulp_exp x = - int (52 + j)" using x assms(3) by (simp add: ulp_exp_def)
  have "x / 2 powi ulp_exp x = x * 2 ^ (52 + j)" unfolding u p by simp
  then show ?thesis unfolding fl_eq using round_half_even_nearest [OF assms(4)] by (simp only: u p) simp
qed

end
