(* ===== verification/JS_Decimal.thy ===== *)
theory JS_Decimal
  imports JS_Rounding
begin

text \<open>
  Printing of doubles as decimals: seventeen digits always suffice, so that the search for the
  shortest decimal that reads back (\<open>shortest_from\<close>) succeeds for every double and gives a significand
  with the announced number of digits.
\<close>

section \<open>The decimal exponent\<close>

lemma nat_log10_bounds: "0 < n \<Longrightarrow> 10 ^ nat_log10 n \<le> n" "n < 10 ^ (nat_log10 n + 1)"
proof (induction n rule: nat_log10.induct)
  case (1 n)
  { case 1
    show ?case
    proof (cases "n < 10")
      case False
      then have "10 ^ nat_log10 (n div 10) \<le> n div 10" using "1.IH"(1) by simp
      then show ?thesis using False by (simp add: nat_log10.simps [of n])
    qed (use 1 in \<open>simp add: nat_log10.simps [of n]\<close>)
  next
    case 2
    show ?case
    proof (cases "n < 10")
      case False
      then have "n div 10 < 10 ^ (nat_log10 (n div 10) + 1)" using "1.IH"(2) by simp
      then show ?thesis using False by (simp add: nat_log10.simps [of n])
    qed (simp add: nat_log10.simps [of n])
  }
qed

lemma int_log10_bounds:
  assumes "0 < i"
  shows "10 powi int (nat_log10 (nat i)) \<le> rat_of_int i" "rat_of_int i < 10 powi (int (nat_log10 (nat i)) + 1)"
proof -
  have "10 ^ nat_log10 (nat i) \<le> nat i" "nat i < 10 ^ (nat_log10 (nat i) + 1)"
    using nat_log10_bounds [of "nat i"] assms by simp_all
  then have "rat_of_nat (10 ^ nat_log10 (nat i)) \<le> rat_of_nat (nat i)" "rat_of_nat (nat i) < rat_of_nat (10 ^ (nat_log10 (nat i) + 1))"
    by (simp_all only: of_nat_le_iff of_nat_less_iff)
  then show "10 powi int (nat_log10 (nat i)) \<le> rat_of_int i" "rat_of_int i < 10 powi (int (nat_log10 (nat i)) + 1)"
    using assms by (simp_all add: power_int_add)
qed

lemma dec_exp_bounds:
  assumes "0 < x"
  shows "10 powi (dec_exp x - 1) \<le> x" "x < 10 powi dec_exp x"
proof -
  obtain p q where pq: "quotient_of x = (p, q)" by (cases "quotient_of x")
  have q: "0 < q" using quotient_of_denom_pos [OF pq] .
  have x: "x = of_int p / of_int q" using quotient_of_div [OF pq] .
  have p: "0 < p" using assms q by (simp add: x zero_less_divide_iff)
  define a b where "a = int (nat_log10 (nat p))" and "b = int (nat_log10 (nat q))"
  have P: "10 powi a \<le> rat_of_int p" "rat_of_int p < 10 powi (a + 1)" and Q: "10 powi b \<le> rat_of_int q" "rat_of_int q < 10 powi (b + 1)"
    using int_log10_bounds p q by (simp_all add: a_def b_def)
  have "10 powi (a - b - 1) = 10 powi a / (10 powi (b + 1) :: rat)" by (simp add: power_int_diff power_int_add)
  also have "\<dots> \<le> x" unfolding x using P(1) Q(2) p q by (intro frac_le) simp_all
  finally have lo: "10 powi (a - b - 1) \<le> x" .
  have "x < 10 powi (a + 1) / 10 powi b" unfolding x using P(2) Q(1) p by (intro frac_less) simp_all
  also have "\<dots> = 10 powi (a - b + 1)" by (simp add: power_int_diff power_int_add)
  finally have hi: "x < 10 powi (a - b + 1)" .
  have d: "dec_exp x = (if x < 10 powi (a - b) then a - b else a - b + 1)"
    using lo hi by (auto simp: dec_exp_def pq Let_def pow_int_powi a_def b_def)
  show "10 powi (dec_exp x - 1) \<le> x" "x < 10 powi dec_exp x" using lo hi by (auto simp: d)
qed

section \<open>Numbers close to a double\<close>

lemma round_half_even_unique: "\<bar>z - of_int k\<bar> < 1 / 2 \<Longrightarrow> round_half_even z = k"
proof -
  assume "\<bar>z - of_int k\<bar> < 1 / 2"
  then have "\<bar>rat_of_int (round_half_even z) - of_int k\<bar> < 1" using round_half_even_near [of z] by linarith
  then have "\<bar>rat_of_int (round_half_even z - k)\<bar> < of_int 1" by simp
  then have "\<bar>round_half_even z - k\<bar> < 1" by (simp only: of_int_less_iff of_int_abs [symmetric])
  then show ?thesis by simp
qed

lemma powi2_less: "2 powi a < (2 powi b :: rat) \<Longrightarrow> a < b"
  using power_int_increasing [of b a "2 :: rat"] by (meson linorder_not_le one_le_numeral)

lemma double_multiple:
  assumes "fl x = x" and "u \<le> ulp_exp x"
  obtains k where "x = of_int k * 2 powi u"
proof -
  have "x = of_int (round_half_even (x / 2 powi ulp_exp x)) * (2 powi ulp_exp x / 2 powi u * 2 powi u)"
    using fl_eq [of x] assms(1) by simp
  also have "\<dots> = of_int (round_half_even (x / 2 powi ulp_exp x) * 2 ^ nat (ulp_exp x - u)) * 2 powi u"
    by (simp add: powi_div_int [OF assms(2)])
  finally show ?thesis by (rule that)
qed

text \<open>Seventeen decimal digits determine a double.\<close>

definition decimal_error :: rat where "decimal_error = 1 / 20000000000000000"

lemma close_pos:
  assumes "0 < x" and "\<bar>y - x\<bar> \<le> x * decimal_error"
  shows "0 < y" "x \<le> y * (1 + 1 / 1000000)"
proof -
  have "x - y \<le> x * decimal_error" using assms(2) by linarith
  then have "x * (1 - decimal_error) \<le> y" by (simp add: algebra_simps)
  moreover have "x * (1 / (1 + 1 / 1000000)) \<le> x * (1 - decimal_error)"
    using assms(1) by (intro mult_left_mono) (simp_all add: decimal_error_def)
  ultimately have l: "x * (1 / (1 + 1 / 1000000)) \<le> y" by linarith
  then show "x \<le> y * (1 + 1 / 1000000)" by (simp add: field_simps)
  have "0 < x * (1 / (1 + 1 / 1000000))" using assms(1) by simp
  then show "0 < y" using l by linarith
qed

lemma close_ulp_le:
  assumes "fl x = x" and "0 < x" and "\<bar>y - x\<bar> \<le> x * decimal_error"
  shows "ulp_exp y \<le> ulp_exp x"
proof -
  define e where "e = rat_log2 x"
  have xe: "2 powi e \<le> x" "x < 2 powi (e + 1)" using rat_log2_bounds [OF assms(2)] by (simp_all add: e_def)
  have m: "e - 52 \<le> ulp_exp x" using assms(2) by (simp add: ulp_exp_def e_def)
  obtain k where k: "x = of_int k * 2 powi ulp_exp x" by (rule double_multiple [OF assms(1) order_refl])
  have "0 < of_int k * (2 powi ulp_exp x :: rat)" using assms(2) by (simp only: k [symmetric])
  then have "0 < rat_of_int k" by (rule zero_less_mult_pos2) simp
  then have "0 < k" by simp
  then have "1 * 2 powi ulp_exp x \<le> of_int k * (2 powi ulp_exp x :: rat)" by (intro mult_right_mono) simp_all
  then have "2 powi ulp_exp x < (2 powi (e + 1) :: rat)" using xe(2) by (simp only: k [symmetric])
  then have ue: "ulp_exp x \<le> e + 1" using powi2_less by fastforce
  have top: "2 powi (e + 1) = of_int (2 ^ nat (e + 1 - ulp_exp x)) * (2 powi ulp_exp x :: rat)"
    using powi_div_int [OF ue] by (simp add: field_simps)
  have "of_int k * 2 powi ulp_exp x < of_int (2 ^ nat (e + 1 - ulp_exp x)) * (2 powi ulp_exp x :: rat)"
    using xe(2) by (simp only: k [symmetric] top [symmetric])
  then have "k < 2 ^ nat (e + 1 - ulp_exp x)" using zero_less_power_int [of "2 :: rat" "ulp_exp x"] by (simp only: mult_less_cancel_right_pos of_int_less_iff zero_less_numeral)
  then have "of_int (k + 1) * 2 powi ulp_exp x \<le> of_int (2 ^ nat (e + 1 - ulp_exp x)) * (2 powi ulp_exp x :: rat)"
    by (intro mult_right_mono iffD2 [OF of_int_le_iff]) simp_all
  then have gap: "x + 2 powi ulp_exp x \<le> 2 powi (e + 1)" by (simp only: top) (subst k, simp add: algebra_simps)
  have "x * decimal_error < 2 powi (e + 1) * (1 / 2 ^ 53)"
    using xe(2) assms(2) by (intro mult_strict_mono) (simp_all add: decimal_error_def)
  also have "\<dots> = 2 powi (e - 52)" by (simp add: power_int_diff power_int_add)
  also have "\<dots> \<le> 2 powi ulp_exp x" using m by (intro power_int_increasing) simp_all
  finally have "x + x * decimal_error < 2 powi (e + 1)" using gap by linarith
  then have "y < 2 powi (e + 1)" using assms(3) by linarith
  moreover have y: "0 < y" using close_pos [OF assms(2,3)] by simp
  ultimately have "2 powi rat_log2 y < (2 powi (e + 1) :: rat)" using rat_log2_bounds(1) [OF y] by linarith
  then have "rat_log2 y \<le> e" using powi2_less by fastforce
  then show ?thesis using assms(2) y by (simp add: ulp_exp_def e_def)
qed

lemma fl_close:
  assumes "fl x = x" and "0 < x" and "\<bar>y - x\<bar> \<le> x * decimal_error"
  shows "fl y = x"
proof -
  let ?u = "ulp_exp y"
  have y: "0 < y" "x \<le> y * (1 + 1 / 1000000)" by (rule close_pos [OF assms(2,3)])+
  obtain k where k: "x = of_int k * 2 powi ?u" by (rule double_multiple [OF assms(1) close_ulp_le [OF assms]])
  have "x * decimal_error \<le> y * ((1 + 1 / 1000000) * decimal_error)"
    using mult_right_mono [OF y(2), of decimal_error] by (simp add: decimal_error_def)
  also have "\<dots> \<le> 2 powi (rat_log2 y + 1) * ((1 + 1 / 1000000) * decimal_error)"
    using rat_log2_bounds(2) [OF y(1)] by (intro mult_right_mono) (simp_all add: decimal_error_def)
  also have "\<dots> < 2 powi (rat_log2 y + 1) * (1 / 2 ^ 54)"
    by (intro mult_strict_left_mono) (simp_all add: decimal_error_def)
  also have "\<dots> = 2 powi (rat_log2 y - 52) / 2" by (simp add: power_int_diff power_int_add)
  also have "\<dots> \<le> 2 powi ?u / 2"
    using y(1) by (intro divide_right_mono power_int_increasing) (simp_all add: ulp_exp_def)
  finally have "\<bar>y - x\<bar> < 2 powi ?u / 2" using assms(3) by linarith
  then have "\<bar>y - x\<bar> / 2 powi ?u < 1 / 2" by (simp add: divide_less_eq)
  moreover have "y / 2 powi ?u - of_int k = (y - x) / 2 powi ?u" by (subst k) (simp add: diff_divide_distrib)
  ultimately have "\<bar>y / 2 powi ?u - of_int k\<bar> < 1 / 2" by (simp add: abs_divide)
  then have "round_half_even (y / 2 powi ?u) = k" by (rule round_half_even_unique)
  then show ?thesis by (simp add: fl_eq [of y] k [symmetric])
qed

section \<open>The shortest decimal\<close>

lemma scaled_bounds:
  assumes "0 < x" and "1 \<le> k"
  defines "q \<equiv> x / 10 powi (dec_exp x - int k)"
  shows "10 ^ (k - 1) \<le> q" "q < 10 ^ k"
proof -
  have "10 powi (dec_exp x - 1) = (10 ^ (k - 1) :: rat) * 10 powi (dec_exp x - int k)"
    using assms(2) by (simp add: power_int_add [symmetric] flip: power_int_of_nat)
  then show "10 ^ (k - 1) \<le> q" using dec_exp_bounds(1) [OF assms(1)] by (simp add: q_def le_divide_eq)
  have "10 powi dec_exp x = (10 ^ k :: rat) * 10 powi (dec_exp x - int k)"
    by (simp add: power_int_add [symmetric] flip: power_int_of_nat)
  then show "q < 10 ^ k" using dec_exp_bounds(2) [OF assms(1)] by (simp add: q_def divide_less_eq)
qed

definition reads_back :: "rat \<Rightarrow> int \<Rightarrow> int \<Rightarrow> nat \<Rightarrow> bool" where
  "reads_back x s n k \<longleftrightarrow> 1 \<le> k \<and> 10 ^ (k - 1) \<le> s \<and> s < 10 ^ k \<and> fl (of_int s * 10 powi (n - int k)) = x"

lemma find_SomeD: "find P xs = Some c \<Longrightarrow> c \<in> set xs \<and> P c"
  by (induction xs) (auto split: if_splits)

lemma shortest_at_sound:
  assumes "0 < x" and "1 \<le> k" and "shortest_at x (dec_exp x) k = Some (s, n)"
  shows "reads_back x s n k"
proof -
  define q where "q = x / 10 powi (dec_exp x - int k)"
  define cs where "cs = (if q - of_int \<lfloor>q\<rfloor> \<le> of_int \<lceil>q\<rceil> - q then [\<lfloor>q\<rfloor>, \<lceil>q\<rceil>] else [\<lceil>q\<rceil>, \<lfloor>q\<rfloor>])"
  have "shortest_at x (dec_exp x) k = (case find (\<lambda>s. fl (of_int s * 10 powi (dec_exp x - int k)) = x) cs of
      None \<Rightarrow> None | Some s \<Rightarrow> Some (if s = 10 ^ k then (10 ^ (k - 1), dec_exp x + 1) else (s, dec_exp x)))"
    by (simp only: shortest_at_def Let_def pow_int_powi q_def cs_def)
  then obtain c where f: "find (\<lambda>s. fl (of_int s * 10 powi (dec_exp x - int k)) = x) cs = Some c"
    and e: "(s, n) = (if c = 10 ^ k then (10 ^ (k - 1), dec_exp x + 1) else (c, dec_exp x))"
    using assms(3) by (auto split: option.splits)
  have c: "c = \<lfloor>q\<rfloor> \<or> c = \<lceil>q\<rceil>" "fl (of_int c * 10 powi (dec_exp x - int k)) = x"
    using find_SomeD [OF f] by (auto simp: cs_def split: if_splits)
  have "rat_of_int (10 ^ (k - 1)) \<le> q" "q \<le> rat_of_int (10 ^ k)" using scaled_bounds [OF assms(1,2)] by (simp_all add: q_def)
  then have b: "10 ^ (k - 1) \<le> c" "c \<le> 10 ^ k" using c(1) by (auto simp: le_floor_iff ceiling_le_iff intro: order_trans [OF _ floor_le_ceiling] order_trans [OF floor_le_ceiling])
  show ?thesis
  proof (cases "c = 10 ^ k")
    case True
    have "(10 ^ (k - 1) :: rat) * 10 powi (dec_exp x + 1 - int k) = 10 ^ k * 10 powi (dec_exp x - int k)"
      using assms(2) by (simp add: power_int_add [symmetric] flip: power_int_of_nat)
    moreover have "(10 :: int) ^ (k - 1) < 10 ^ k" using assms(2) by (intro power_strict_increasing) simp_all
    ultimately show ?thesis using True c(2) e assms(2) by (simp add: reads_back_def)
  next
    case False
    then show ?thesis using b c(2) e assms(2) by (simp add: reads_back_def)
  qed
qed

lemma shortest_at_17:
  assumes "0 < x" and "fl x = x"
  shows "shortest_at x (dec_exp x) 17 \<noteq> None"
proof -
  define t where "t = (10 powi (dec_exp x - 17) :: rat)"
  define q where "q = x / t"
  define c where "c = (if q - of_int \<lfloor>q\<rfloor> \<le> of_int \<lceil>q\<rceil> - q then \<lfloor>q\<rfloor> else \<lceil>q\<rceil>)"
  have t: "0 < t" by (simp add: t_def)
  have "rat_of_int \<lceil>q\<rceil> \<le> rat_of_int (\<lfloor>q\<rfloor> + 1)" by (intro iffD2 [OF of_int_le_iff]) linarith
  moreover have "of_int \<lfloor>q\<rfloor> \<le> q" "q \<le> of_int \<lceil>q\<rceil>" by simp_all
  ultimately have "\<bar>of_int c - q\<bar> \<le> 1 / 2" by (auto simp: c_def abs_le_iff)
  then have "\<bar>of_int c - q\<bar> * t \<le> 1 / 2 * t" using t by (intro mult_right_mono) simp_all
  moreover have "\<bar>of_int c - q\<bar> * t = \<bar>of_int c * t - x\<bar>" using t by (simp add: q_def abs_mult_pos left_diff_distrib)
  moreover have "10 powi (dec_exp x - 1) = t * 10 ^ 16" by (simp add: t_def power_int_diff power_int_add)
  then have "1 / 2 * t \<le> x * decimal_error" using dec_exp_bounds(1) [OF assms(1)] by (simp add: decimal_error_def)
  ultimately have "fl (of_int c * t) = x" by (intro fl_close [OF assms(2,1)]) linarith
  then show ?thesis
    by (auto simp: shortest_at_def Let_def pow_int_powi c_def q_def t_def find_None_iff split: option.splits if_splits)
qed

lemma shortest_from_total:
  assumes "0 < x" and "k \<in> set ks" and "shortest_at x n k \<noteq> None"
  shows "shortest_from x n ks \<noteq> None"
  using assms(2) by (induction ks) (use assms(3) in \<open>auto split: option.splits\<close>)

lemma shortest_from_Some:
  "shortest_from x n ks = Some (s, m, k) \<Longrightarrow> k \<in> set ks \<and> shortest_at x n k = Some (s, m)"
  by (induction ks) (auto split: option.splits)

lemma shortest_digits:
  assumes "0 < x" and "fl x = x"
  obtains s n k where "shortest_from x (dec_exp x) [1..<18] = Some (s, n, k)" and "reads_back x s n k"
proof -
  have "shortest_from x (dec_exp x) [1..<18] \<noteq> None"
    by (rule shortest_from_total [OF assms(1) _ shortest_at_17 [OF assms]]) simp
  then obtain s n k where f: "shortest_from x (dec_exp x) [1..<18] = Some (s, n, k)" by auto
  then have "k \<in> set [1..<18]" "shortest_at x (dec_exp x) k = Some (s, n)" using shortest_from_Some by blast+
  then show ?thesis using that [OF f] shortest_at_sound [OF assms(1)] by simp
qed

end
