(* ===== verification/JSON.thy ===== *)
theory JSON
  imports JS_Decimal
begin

text \<open>
  \<open>JSON.stringify\<close> without indentation and \<open>JSON.parse\<close>, as the client, the crypto module and
  the tools use them. The parser takes fuel for its nesting; \<open>json_parse\<close> supplies more than
  twice the length of the text, which is enough for every text: more fuel never changes the
  result (\<open>parse_value_fuel\<close>). The main result is
  the round trip \<open>json_roundtrip\<close>, and with it that printing is injective.
  A \<open>\u\<close> escape beyond code unit 255 is outside the modelled strings and is not parsed.
\<close>

section \<open>Printing\<close>

definition quote_ch :: char where "quote_ch = CHR 0x22"
definition bslash :: char where "bslash = CHR 0x5C"

definition json_escape :: "char \<Rightarrow> string" where
  "json_escape c =
     (let n = (of_char c :: nat)
      in if c = quote_ch then [bslash, quote_ch]
         else if c = bslash then [bslash, bslash]
         else if n = 8 then [bslash, CHR ''b'']
         else if n = 12 then [bslash, CHR ''f'']
         else if n = 10 then [bslash, CHR ''n'']
         else if n = 13 then [bslash, CHR ''r'']
         else if n = 9 then [bslash, CHR ''t'']
         else if n < 32 then [bslash, CHR ''u'', CHR ''0'', CHR ''0'', hex_char (n div 16), hex_char (n mod 16)]
         else [c])"

definition json_quote :: "string \<Rightarrow> string" where
  "json_quote s = quote_ch # concat (map json_escape s) @ [quote_ch]"

definition elem_text :: "string option \<Rightarrow> string" where
  "elem_text t = (case t of None \<Rightarrow> ''null'' | Some u \<Rightarrow> u)"

fun member_texts :: "(string \<times> string option) list \<Rightarrow> string list" where
  "member_texts [] = []"
| "member_texts ((k, None) # ms) = member_texts ms"
| "member_texts ((k, Some t) # ms) = (json_quote k @ '':'' @ t) # member_texts ms"

text \<open>\<open>None\<close> is \<open>undefined\<close>: dropped from objects, \<open>null\<close> in arrays.\<close>

primrec json_stringify :: "jsval \<Rightarrow> string option" where
  "json_stringify JUndef = None"
| "json_stringify JNull = Some ''null''"
| "json_stringify (JBool b) = Some (if b then ''true'' else ''false'')"
| "json_stringify (JNum n) = Some (num_str n)"
| "json_stringify (JStr s) = Some (json_quote s)"
| "json_stringify (JArr xs) =
     Some (''['' @ js_join '','' (map elem_text (map json_stringify xs)) @ '']'')"
| "json_stringify (JObj kvs) =
     Some (''{'' @ js_join '','' (member_texts (map (map_prod id json_stringify) kvs)) @ ''}'')"

section \<open>Parsing\<close>

definition json_ws :: "char \<Rightarrow> bool" where
  "json_ws c = (c = CHR '' '' \<or> (of_char c :: nat) \<in> {9, 10, 13})"

definition skip_ws :: "string \<Rightarrow> string" where
  "skip_ws s = dropWhile json_ws s"

definition unescape :: "char \<Rightarrow> char option" where
  "unescape d =
     (if d = quote_ch \<or> d = bslash \<or> d = CHR ''/'' then Some d
      else if d = CHR ''b'' then Some (char_of (8 :: nat))
      else if d = CHR ''f'' then Some (char_of (12 :: nat))
      else if d = CHR ''n'' then Some (char_of (10 :: nat))
      else if d = CHR ''r'' then Some (char_of (13 :: nat))
      else if d = CHR ''t'' then Some (char_of (9 :: nat))
      else None)"

fun hex4 :: "string \<Rightarrow> (nat \<times> string) option" where
  "hex4 (a # b # c # d # r) =
     (case (hex_val a, hex_val b, hex_val c, hex_val d) of
        (Some w, Some x, Some y, Some z) \<Rightarrow> Some (((w * 16 + x) * 16 + y) * 16 + z, r)
      | _ \<Rightarrow> None)"
| "hex4 _ = None"

lemma hex4_shorter [termination_simp]: "hex4 s = Some (n, r) \<Longrightarrow> length r < length s"
  by (induction s rule: hex4.induct) (auto split: option.splits)

fun parse_string :: "string \<Rightarrow> (string \<times> string) option" where
  "parse_string [] = None"
| "parse_string (c # cs) =
     (if c = quote_ch then Some ([], cs)
      else if c = bslash then
        (case cs of
           [] \<Rightarrow> None
         | d # ds \<Rightarrow>
             if d = CHR ''u'' then
               (case hex4 ds of
                  None \<Rightarrow> None
                | Some (n, r) \<Rightarrow>
                    if n < 256 then map_option (apfst (Cons (char_of n))) (parse_string r) else None)
             else
               (case unescape d of
                  None \<Rightarrow> None
                | Some e \<Rightarrow> map_option (apfst (Cons e)) (parse_string ds)))
      else if (of_char c :: nat) < 32 then None
      else map_option (apfst (Cons c)) (parse_string cs))"

text \<open>Number literals: sign, integer part, fraction, exponent.\<close>

definition parse_frac :: "string \<Rightarrow> (string \<times> string) option" where
  "parse_frac s =
     (case s of
        c # cs \<Rightarrow>
          if c = CHR ''.'' then
            (let ds = takeWhile is_digit cs in if ds = [] then None else Some (ds, dropWhile is_digit cs))
          else Some ([], s)
      | [] \<Rightarrow> Some ([], []))"

definition parse_exp :: "string \<Rightarrow> (int \<times> string) option" where
  "parse_exp s =
     (case s of
        c # cs \<Rightarrow>
          if c = CHR ''e'' \<or> c = CHR ''E'' then
            (let neg = (cs \<noteq> [] \<and> hd cs = CHR ''-'');
                 u = (if cs \<noteq> [] \<and> (hd cs = CHR ''-'' \<or> hd cs = CHR ''+'') then tl cs else cs);
                 ds = takeWhile is_digit u
             in if ds = [] then None
                else Some ((if neg then - int (digits_val ds) else int (digits_val ds)), dropWhile is_digit u))
          else Some (0, s)
      | [] \<Rightarrow> Some (0, []))"

definition number_value :: "bool \<Rightarrow> string \<Rightarrow> string \<Rightarrow> int \<Rightarrow> rat" where
  "number_value neg ds fs e =
     (let sg = (if neg then - 1 else 1 :: int)
      in if fs = [] \<and> e = 0 \<and> digits_val ds < 2 ^ 53 then of_int (sg * int (digits_val ds))
         else of_int sg * fl (of_nat (digits_val (ds @ fs)) * pow_int 10 (e - int (length fs))))"

definition parse_number :: "string \<Rightarrow> (rat \<times> string) option" where
  "parse_number s =
     (let neg = (s \<noteq> [] \<and> hd s = CHR ''-''); u = (if neg then tl s else s);
          ds = takeWhile is_digit u; r = dropWhile is_digit u
      in if ds = [] \<or> (hd ds = CHR ''0'' \<and> ds \<noteq> ''0'') then None
         else case parse_frac r of
                None \<Rightarrow> None
              | Some (fs, r1) \<Rightarrow>
                  (case parse_exp r1 of
                     None \<Rightarrow> None
                   | Some (e, r2) \<Rightarrow> Some (number_value neg ds fs e, r2)))"

definition parse_literal :: "string \<Rightarrow> (jsval \<times> string) option" where
  "parse_literal s =
     (if starts_with ''null'' s then Some (JNull, drop 4 s)
      else if starts_with ''true'' s then Some (JBool True, drop 4 s)
      else if starts_with ''false'' s then Some (JBool False, drop 5 s)
      else map_option (apfst JNum) (parse_number s))"

text \<open>
  Object members are defined in textual order: a repeated key keeps its first position and takes
  its last value, and array indices move to the front.
\<close>

definition object_of :: "(string \<times> jsval) list \<Rightarrow> jsval" where
  "object_of ms = JObj (spread [] ms)"

fun parse_value :: "nat \<Rightarrow> string \<Rightarrow> (jsval \<times> string) option"
and parse_elems :: "nat \<Rightarrow> string \<Rightarrow> (jsval list \<times> string) option"
and parse_members :: "nat \<Rightarrow> string \<Rightarrow> ((string \<times> jsval) list \<times> string) option"
where
  "parse_value 0 s = None"
| "parse_value (Suc f) s =
     (case skip_ws s of
        [] \<Rightarrow> None
      | c # cs \<Rightarrow>
          if c = quote_ch then map_option (apfst JStr) (parse_string cs)
          else if c = CHR ''['' then
            (if starts_with '']'' (skip_ws cs) then Some (JArr [], tl (skip_ws cs))
             else map_option (apfst JArr) (parse_elems f cs))
          else if c = CHR ''{'' then
            (if starts_with ''}'' (skip_ws cs) then Some (JObj [], tl (skip_ws cs))
             else map_option (apfst object_of) (parse_members f cs))
          else parse_literal (c # cs))"
| "parse_elems 0 s = None"
| "parse_elems (Suc f) s =
     (case parse_value f s of
        None \<Rightarrow> None
      | Some (v, r) \<Rightarrow>
          (case skip_ws r of
             [] \<Rightarrow> None
           | c # r' \<Rightarrow>
               if c = CHR '','' then map_option (apfst (Cons v)) (parse_elems f r')
               else if c = CHR '']'' then Some ([v], r') else None))"
| "parse_members 0 s = None"
| "parse_members (Suc f) s =
     (case skip_ws s of
        [] \<Rightarrow> None
      | q # cs \<Rightarrow>
          if q \<noteq> quote_ch then None
          else (case parse_string cs of
                  None \<Rightarrow> None
                | Some (k, r) \<Rightarrow>
                    (if \<not> starts_with '':'' (skip_ws r) then None
                     else (case parse_value f (tl (skip_ws r)) of
                             None \<Rightarrow> None
                           | Some (v, r1) \<Rightarrow>
                               (case skip_ws r1 of
                                  [] \<Rightarrow> None
                                | c # r2 \<Rightarrow>
                                    if c = CHR '','' then map_option (apfst (Cons (k, v))) (parse_members f r2)
                                    else if c = CHR ''}'' then Some ([(k, v)], r2) else None)))))"

definition json_parse :: "string \<Rightarrow> jsval option" where
  "json_parse s =
     (case parse_value (Suc (2 * length s)) s of
        Some (v, r) \<Rightarrow> if skip_ws r = [] then Some v else None
      | None \<Rightarrow> None)"

section \<open>Round trip\<close>

text \<open>
  The values that survive a round trip: nothing \<open>undefined\<close>, numbers that are doubles,
  objects in enumeration order.
\<close>

definition obj_ordered :: "(string \<times> 'a) list \<Rightarrow> bool" where
  "obj_ordered kvs \<longleftrightarrow> spread [] kvs = kvs"

primrec json_ok :: "jsval \<Rightarrow> bool" where
  "json_ok JUndef = False"
| "json_ok JNull = True"
| "json_ok (JBool b) = True"
| "json_ok (JNum n) \<longleftrightarrow> fl n = n"
| "json_ok (JStr s) = True"
| "json_ok (JArr xs) = list_all id (map json_ok xs)"
| "json_ok (JObj kvs) = (obj_ordered kvs \<and> list_all (\<lambda>p. snd p) (map (map_prod id json_ok) kvs))"

definition delim :: "string \<Rightarrow> bool" where
  "delim r = (r = [] \<or> hd r \<in> {CHR '','', CHR '']'', CHR ''}'', CHR 0x0A})"

lemma skip_ws_id: "\<not> json_ws c \<Longrightarrow> skip_ws (c # cs) = c # cs"
  by (simp add: skip_ws_def)

lemma skip_ws_delims [simp]:
  "skip_ws (CHR '','' # r) = CHR '','' # r" "skip_ws (CHR '']'' # r) = CHR '']'' # r"
  "skip_ws (CHR ''}'' # r) = CHR ''}'' # r" "skip_ws (CHR '':'' # r) = CHR '':'' # r"
  "skip_ws (CHR ''['' # r) = CHR ''['' # r" "skip_ws (CHR ''{'' # r) = CHR ''{'' # r"
  "skip_ws (quote_ch # r) = quote_ch # r" "skip_ws [] = []"
  by (simp_all add: skip_ws_def json_ws_def quote_ch_def)

lemma of_char_eqD: "(of_char c :: nat) = n \<Longrightarrow> c = char_of n"
  by (metis char_of_char)

lemma parse_string_u00:
  assumes "(of_char c :: nat) < 32"
  shows "parse_string (bslash # CHR ''u'' # CHR ''0'' # CHR ''0''
      # hex_char ((of_char c :: nat) div 16) # hex_char ((of_char c :: nat) mod 16) # t)
      = map_option (apfst (Cons c)) (parse_string t)"
proof -
  have "(of_char c :: nat) div 16 < 16" "(of_char c :: nat) mod 16 < 16"
    using assms by (simp_all add: less_mult_imp_div_less)
  moreover have "hex_val CHR ''0'' = Some 0"
    by (simp add: hex_val_def)
  ultimately show ?thesis
    using assms by (simp add: quote_ch_def bslash_def)
qed

lemma parse_string_escape:
  "parse_string (json_escape c @ t) = map_option (apfst (Cons c)) (parse_string t)"
proof (cases "c = quote_ch \<or> c = bslash \<or> (of_char c :: nat) \<in> {8, 9, 10, 12, 13}")
  case True
  then show ?thesis
    by (auto simp: json_escape_def quote_ch_def bslash_def unescape_def dest!: of_char_eqD)
next
  case False
  then show ?thesis
    using parse_string_u00 [of c t]
    by (cases "(of_char c :: nat) < 32") (simp_all add: json_escape_def Let_def)
qed

lemma parse_string_quoted:
  "parse_string (concat (map json_escape s) @ quote_ch # r) = Some (s, r)"
proof (induction s)
  case (Cons c s)
  then show ?case
    by (simp add: parse_string_escape del: parse_string.simps)
qed simp

lemma delim_not_digit: "delim r \<Longrightarrow> takeWhile is_digit r = [] \<and> dropWhile is_digit r = r"
  by (cases r) (auto simp: delim_def is_digit_def)

lemma delim_frac_exp: "delim r \<Longrightarrow> parse_frac r = Some ([], r) \<and> parse_exp r = Some (0, r)"
  by (cases r) (auto simp: delim_def parse_frac_def parse_exp_def)

lemma takeWhile_digits:
  "list_all is_digit ds \<Longrightarrow> delim r \<Longrightarrow>
    takeWhile is_digit (ds @ r) = ds \<and> dropWhile is_digit (ds @ r) = r"
  using delim_not_digit [of r] by (induction ds) auto

lemma nat_str_hd_zero: "hd (nat_str n) = CHR ''0'' \<Longrightarrow> nat_str n = ''0''"
proof (induction n rule: nat_str.induct)
  case (1 n)
  show ?case
  proof (cases "n < 10")
    case True
    with "1.prems" show ?thesis by (simp add: nat_str.simps [of n])
  next
    case False
    then have eq: "nat_str n = nat_str (n div 10) @ [digit_char (n mod 10)]"
      by (simp add: nat_str.simps [of n])
    with "1.prems" have "hd (nat_str (n div 10)) = CHR ''0''" by simp
    then have "nat_str (n div 10) = ''0''" using "1.IH" [OF False] by simp
    then have "digits_val (nat_str (n div 10)) = 0" by (simp add: digits_val_def digit_val_def)
    then have "n div 10 = 0" by simp
    with False show ?thesis by simp
  qed
qed

lemma parse_number_int:
  assumes r: "delim r" and i: "\<bar>i\<bar> < 2 ^ 53"
  shows "parse_number (int_str i @ r) = Some (of_int i, r)"
proof -
  define m where "m = nat \<bar>i\<bar>"
  have m: "m < 2 ^ 53" using i by (simp add: m_def nat_less_iff)
  obtain c cs where cs: "nat_str m = c # cs" by (cases "nat_str m") auto
  have c: "hd (nat_str m) \<noteq> CHR ''-''" using nat_str_no_special(1) [of m] by (auto simp: cs)
  note tw = takeWhile_digits [OF nat_str_digits [of m] r]
  note fe = delim_frac_exp [OF r]
  have nz: "\<not> (hd (nat_str m) = CHR ''0'' \<and> nat_str m \<noteq> ''0'')"
    using nat_str_hd_zero by blast
  have eq: "int_str i = (if i < 0 then CHR ''-'' # nat_str m else nat_str m)"
    by (simp add: int_str_def m_def)
  show ?thesis
  proof (cases "i < 0")
    case True
    then have "of_int (- int m) = (of_int i :: rat)" by (simp add: m_def)
    with True show ?thesis
      using nz m by (simp add: eq parse_number_def Let_def tw fe number_value_def)
  next
    case False
    then have "of_int (int m) = (of_int i :: rat)" by (simp add: m_def)
    with False c show ?thesis
      using nz m by (simp add: eq parse_number_def Let_def tw fe number_value_def)
  qed
qed

lemma digits_val_append: "digits_val (a @ b) = digits_val a * 10 ^ length b + digits_val b"
  by (induction b rule: rev_induct) (simp_all add: append_assoc [symmetric] algebra_simps digits_val_def del: append_assoc)

lemma digits_val_zeros [simp]: "digits_val (replicate z CHR ''0'') = 0"
  by (induction z) (simp_all add: replicate_append_same [symmetric] digit_val_def del: replicate.simps(2), simp_all add: digits_val_def digit_val_def)

lemma digits_zeros [simp]: "list_all is_digit (replicate z CHR ''0'')"
  by (auto simp: list_all_iff is_digit_def)

lemma length_nat_str: "10 ^ (k - 1) \<le> m \<Longrightarrow> m < 10 ^ k \<Longrightarrow> 1 \<le> k \<Longrightarrow> length (nat_str m) = k"
proof (induction m arbitrary: k rule: nat_str.induct)
  case (1 m)
  show ?case
  proof (cases "m < 10")
    case True
    have "k = 1"
    proof (rule ccontr)
      assume "k \<noteq> 1"
      then have "(10 :: nat) ^ 1 \<le> 10 ^ (k - 1)" using "1.prems"(3) by (intro power_increasing) simp_all
      then show False using True "1.prems"(1) by simp
    qed
    then show ?thesis using True by (simp add: nat_str.simps [of m])
  next
    case False
    then have k: "2 \<le> k" using "1.prems"(2,3) by (cases "k = 1") auto
    then have "(10 :: nat) ^ k = 10 * 10 ^ (k - 1)" "(10 :: nat) ^ (k - 1) = 10 * 10 ^ (k - 2)"
      by (simp_all add: power_Suc [symmetric] Suc_diff_Suc numeral_2_eq_2 del: power_Suc)
    then have "10 ^ (k - 1 - 1) \<le> m div 10" "m div 10 < 10 ^ (k - 1)" using "1.prems"(1,2) by (simp_all add: numeral_2_eq_2)
    then have "length (nat_str (m div 10)) = k - 1" using "1.IH" [OF False, of "k - 1"] k by simp
    then show ?thesis using False k by (simp add: nat_str.simps [of m])
  qed
qed

text \<open>The tail of a literal after its digits, as the printer writes it.\<close>

definition exp_text :: "int \<Rightarrow> string" where
  "exp_text e = ''e'' @ (if e < 0 then ''-'' else ''+'') @ nat_str (nat \<bar>e\<bar>)"

lemma takeWhile_stop:
  "list_all is_digit ds \<Longrightarrow> u = [] \<or> \<not> is_digit (hd u) \<Longrightarrow> takeWhile is_digit (ds @ u) = ds \<and> dropWhile is_digit (ds @ u) = u"
  by (induction ds) (cases u; auto)+

lemma parse_exp_text: "delim r \<Longrightarrow> parse_exp (exp_text e @ r) = Some (e, r)"
  using takeWhile_digits [OF nat_str_digits [of "nat \<bar>e\<bar>"], of r]
  by (auto simp: parse_exp_def exp_text_def Let_def nat_str_nonempty [THEN not_sym])

definition literal :: "string \<Rightarrow> string \<Rightarrow> int option \<Rightarrow> string" where
  "literal ds fs e = ds @ (if fs = [] then [] else CHR ''.'' # fs) @ (case e of None \<Rightarrow> [] | Some i \<Rightarrow> exp_text i)"

lemma parse_literal_text:
  assumes "list_all is_digit ds" and "ds \<noteq> []" and "hd ds = CHR ''0'' \<longrightarrow> ds = ''0''" and "list_all is_digit fs" and "delim r"
  shows "parse_number ((if neg then ''-'' else []) @ literal ds fs e @ r) =
    Some (number_value neg ds fs (case e of None \<Rightarrow> 0 | Some i \<Rightarrow> i), r)"
proof -
  let ?x = "(case e of None \<Rightarrow> [] | Some i \<Rightarrow> exp_text i) @ r"
  let ?t = "(if fs = [] then [] else CHR ''.'' # fs) @ ?x"
  have x: "?x = [] \<or> \<not> is_digit (hd ?x) \<and> hd ?x \<noteq> CHR ''.''"
    using assms(5) by (cases r) (auto simp: exp_text_def is_digit_def delim_def split: option.split)
  then have t: "?t = [] \<or> \<not> is_digit (hd ?t)" by (auto simp: is_digit_def split: if_splits)
  have tw: "takeWhile is_digit (ds @ ?t) = ds \<and> dropWhile is_digit (ds @ ?t) = ?t" using takeWhile_stop [OF assms(1) t] .
  have f: "parse_frac ?t = Some (fs, ?x)"
  proof (cases "fs = []")
    case True
    then show ?thesis using x by (cases ?x) (auto simp: parse_frac_def)
  next
    case False
    have "takeWhile is_digit (fs @ ?x) = fs" "dropWhile is_digit (fs @ ?x) = ?x" using takeWhile_stop [OF assms(4), of ?x] x by blast+
    then show ?thesis using False by (simp add: parse_frac_def Let_def)
  qed
  have e: "parse_exp ?x = Some (case e of None \<Rightarrow> 0 | Some i \<Rightarrow> i, r)"
    using parse_exp_text [OF assms(5)] delim_frac_exp [OF assms(5)] by (auto split: option.split)
  have "hd ds \<noteq> CHR ''-''" using assms(1,2) by (cases ds) (auto simp: is_digit_def)
  then show ?thesis
    using assms(2,3) tw f e by (cases neg) (simp_all add: parse_number_def literal_def Let_def)
qed

lemma number_value_fl:
  "number_value neg ds fs e = (if neg then - 1 else 1) * fl (of_nat (digits_val (ds @ fs)) * 10 powi (e - int (length fs)))"
  using fl_nat [of "digits_val ds"] by (simp add: number_value_def Let_def pow_int_powi)

lemma layout_reads:
  assumes "reads_back x s n k" and "delim r"
  shows "parse_number ((if neg then ''-'' else []) @ layout_digits (nat_str (nat s)) n k @ r) = Some ((if neg then - 1 else 1) * x, r)"
proof -
  define ds where "ds = nat_str (nat s)"
  have k: "1 \<le> k" "10 ^ (k - 1) \<le> s" "s < 10 ^ k" and x: "fl (of_int s * 10 powi (n - int k)) = x"
    using assms(1) by (simp_all add: reads_back_def)
  have "(0 :: int) < 10 ^ (k - 1)" by simp
  then have s: "0 < s" using k(2) by linarith
  have l: "length ds = k" unfolding ds_def using k s by (intro length_nat_str) (simp_all add: le_nat_iff nat_less_iff)
  have d: "list_all is_digit ds" "digits_val ds = nat s" by (simp_all add: ds_def nat_str_digits)
  have ne: "ds \<noteq> []" by (simp add: ds_def)
  have z: "hd ds \<noteq> CHR ''0''"
  proof
    assume "hd ds = CHR ''0''"
    then have "ds = ''0''" unfolding ds_def by (rule nat_str_hd_zero)
    then show False using d(2) s by (simp add: digits_val_def digit_val_def)
  qed
  have read: "parse_number ((if neg then ''-'' else []) @ literal ip fs e @ r) = Some ((if neg then - 1 else 1) * x, r)"
    if "list_all is_digit (ip @ fs)" "ip \<noteq> []" "hd ip = CHR ''0'' \<longrightarrow> ip = ''0''"
      "of_nat (digits_val (ip @ fs)) * 10 powi ((case e of None \<Rightarrow> 0 | Some i \<Rightarrow> i) - int (length fs)) = of_int s * (10 powi (n - int k) :: rat)" for ip fs e
    using parse_literal_text [of ip fs r neg e] that x assms(2) by (simp add: number_value_fl)
  consider "int k \<le> n" "n \<le> 21" | "0 < n" "n < int k" "n \<le> 21" | "- 6 < n" "n \<le> 0" | "n \<le> - 6 \<or> 21 < n" by linarith
  then show ?thesis
  proof cases
    case 1
    then have "layout_digits ds n k = literal (ds @ replicate (nat n - k) CHR ''0'') [] None"
      by (simp add: layout_digits_def literal_def)
    moreover have "int (nat n - k) = n - int k" using 1 by simp
    ultimately show ?thesis
      using read [of "ds @ replicate (nat n - k) CHR ''0''" "[]" None] d ne z s
      by (simp add: ds_def [symmetric] digits_val_append flip: power_int_of_nat)
  next
    case 2
    then have "layout_digits ds n k = literal (take (nat n) ds) (drop (nat n) ds) None"
      using l by (auto simp: layout_digits_def literal_def)
    then show ?thesis
      using read [of "take (nat n) ds" "drop (nat n) ds" None] 2 d ne z s l
      by (simp add: ds_def [symmetric] hd_take of_nat_diff)
  next
    case 3
    then have "layout_digits ds n k = literal ''0'' (replicate (nat (- n)) CHR ''0'' @ ds) None"
      using ne k(1) by (auto simp: layout_digits_def literal_def)
    moreover have "digits_val (''0'' @ replicate (nat (- n)) CHR ''0'' @ ds) = digits_val (replicate (Suc (nat (- n))) CHR ''0'' @ ds)" by simp
    then have "digits_val (''0'' @ replicate (nat (- n)) CHR ''0'' @ ds) = nat s"
      by (simp only: digits_val_append [of "replicate _ _"] digits_val_zeros d(2) mult_zero_left add_0)
    ultimately show ?thesis
      using read [of "''0''" "replicate (nat (- n)) CHR ''0'' @ ds" None] 3 d(1) l s by (simp add: ds_def [symmetric] is_digit_def)
  next
    case 4
    then have "layout_digits ds n k = literal (take 1 ds) (drop 1 ds) (Some (n - 1))"
      using l k(1) by (auto simp: layout_digits_def literal_def exp_text_def Let_def)
    then show ?thesis
      using read [of "take 1 ds" "drop 1 ds" "Some (n - 1)"] d ne z s l k(1)
      by (simp add: ds_def [symmetric] hd_take of_nat_diff)
  qed
qed

lemma parse_number_double:
  assumes "fl x = x" and "delim r"
  shows "parse_number (num_str x @ r) = Some (x, r)"
proof (cases "safe_int x")
  case True
  then obtain i where "x = of_int i" "\<bar>i\<bar> < 2 ^ 53" by (metis safe_int_def safe_int_of_int)
  then show ?thesis using parse_number_int [OF assms(2)] True by (simp add: num_str_safe_int)
next
  case False
  then have n: "num_str x = (if x < 0 then ''-'' else []) @ pos_num_str \<bar>x\<bar>" by (auto simp: num_str_def safe_int_def)
  have "x \<noteq> 0" using False by (auto simp: safe_int_def)
  then have "0 < \<bar>x\<bar>" "fl \<bar>x\<bar> = \<bar>x\<bar>" using assms(1) by (auto simp: abs_if)
  then obtain s n k where "shortest_from \<bar>x\<bar> (dec_exp \<bar>x\<bar>) [1..<18] = Some (s, n, k)" "reads_back \<bar>x\<bar> s n k"
    by (rule shortest_digits)
  then show ?thesis using layout_reads [of "\<bar>x\<bar>" s n k r "x < 0"] assms(2) by (simp add: n pos_num_str_def)
qed

text \<open>What the first character of a printed value is.\<close>

definition text_start :: "string \<Rightarrow> bool" where
  "text_start t = (t \<noteq> [] \<and> \<not> json_ws (hd t) \<and> hd t \<noteq> CHR '']'')"

lemma text_start_skip [simp]: "text_start t \<Longrightarrow> skip_ws (t @ r) = t @ r"
  by (cases t) (auto simp: text_start_def skip_ws_id)

lemma num_str_start:
  assumes "fl x = x"
  obtains c cs where "num_str x = c # cs" and "c = CHR ''-'' \<or> is_digit c"
proof -
  have p: "parse_number (num_str x) = Some (x, [])" using parse_number_double [OF assms, of "[]"] by (simp add: delim_def)
  then obtain c cs where c: "num_str x = c # cs" by (cases "num_str x") (auto simp: parse_number_def)
  moreover have "c = CHR ''-'' \<or> is_digit c" using p by (auto simp: c parse_number_def Let_def split: if_splits)
  ultimately show ?thesis by (rule that)
qed

lemma text_start_num_str: "fl x = x \<Longrightarrow> text_start (num_str x)"
  by (rule num_str_start [of x]) (auto simp: text_start_def json_ws_def is_digit_def)

definition json_text :: "jsval \<Rightarrow> string" where
  "json_text v = elem_text (json_stringify v)"

lemma json_text_simps [simp]:
  "json_text JNull = ''null''" "json_text (JBool True) = ''true''" "json_text (JBool False) = ''false''"
  "json_text (JNum n) = num_str n" "json_text (JStr s) = json_quote s"
  "json_text (JArr xs) = ''['' @ js_join '','' (map json_text xs) @ '']''"
  by (simp_all add: json_text_def [abs_def] elem_text_def [abs_def] comp_def)

lemma safe_int_double: "safe_int n \<Longrightarrow> fl n = n"
  by (metis fl_int less_imp_le safe_int_def safe_int_of_int)

lemma json_ok_stringify: "json_ok v \<Longrightarrow> json_stringify v = Some (json_text v)"
  by (cases v) (auto simp: json_text_def elem_text_def)

definition member_text :: "string \<times> jsval \<Rightarrow> string" where
  "member_text p = json_quote (fst p) @ '':'' @ json_text (snd p)"

lemma member_texts_ok:
  "\<forall>p \<in> set kvs. json_ok (snd p) \<Longrightarrow>
    member_texts (map (map_prod id json_stringify) kvs) = map member_text kvs"
  by (induction kvs) (auto simp: json_ok_stringify member_text_def)

lemma json_ok_JObjD:
  assumes "json_ok (JObj kvs)"
  shows "\<forall>p \<in> set kvs. json_ok (snd p)" and "obj_ordered kvs"
    and "json_text (JObj kvs) = ''{'' @ js_join '','' (map member_text kvs) @ ''}''"
proof -
  show ok: "\<forall>p \<in> set kvs. json_ok (snd p)"
    using assms by (auto simp: list_all_iff)
  show "json_text (JObj kvs) = ''{'' @ js_join '','' (map member_text kvs) @ ''}''"
    using member_texts_ok [OF ok] by (simp add: json_text_def elem_text_def)
qed (use assms in simp_all)

lemma text_start_json_text: "json_ok v \<Longrightarrow> text_start (json_text v)"
proof (cases v)
  case (JNum n)
  assume "json_ok v"
  then show ?thesis
    using JNum text_start_num_str by simp
next
  case (JBool b)
  then show ?thesis by (cases b) (auto simp: text_start_def json_ws_def)
qed (auto simp: text_start_def json_ws_def json_quote_def quote_ch_def json_ok_JObjD(3)
  simp del: json_ok.simps(7))

text \<open>
  \<open>reads v\<close>: the parser, given more fuel than the text of \<open>v\<close> is long, reads it back and stops
  at the delimiter that follows.
\<close>

definition reads :: "jsval \<Rightarrow> bool" where
  "reads v = (\<forall>f r. delim r \<longrightarrow> length (json_text v) < f \<longrightarrow>
     parse_value f (json_text v @ r) = Some (v, r))"

lemma readsD: "reads v \<Longrightarrow> delim r \<Longrightarrow> length (json_text v) < f \<Longrightarrow>
    parse_value f (json_text v @ r) = Some (v, r)"
  by (simp add: reads_def)

lemma delim_Cons [simp]:
  "delim (CHR '','' # r)" "delim (CHR '']'' # r)" "delim (CHR ''}'' # r)" "delim (CHR 0x0A # r)" "delim []"
  by (simp_all add: delim_def)

lemma length_join_Cons [simp]:
  "xs \<noteq> [] \<Longrightarrow> js_join s (w # xs) = w @ s @ js_join s xs"
  by (cases xs) auto

lemma parse_elems_texts:
  assumes "xs \<noteq> []" and "\<forall>x \<in> set xs. json_ok x \<and> reads x"
    and "Suc (length (js_join '','' (map json_text xs))) < f"
  shows "parse_elems f (js_join '','' (map json_text xs) @ CHR '']'' # r) = Some (xs, r)"
  using assms
proof (induction xs arbitrary: f rule: list_nonempty_induct)
  case (single x)
  then obtain g where "f = Suc g" "length (json_text x) < g" by (cases f) auto
  with single show ?case by (simp add: readsD)
next
  case (cons x xs)
  then have x: "json_ok x" "reads x" by auto
  from cons.hyps have join: "js_join '','' (map json_text (x # xs))
      = json_text x @ CHR '','' # js_join '','' (map json_text xs)" by simp
  with cons.prems obtain g where f: "f = Suc g" and g: "length (json_text x) < g"
      "Suc (length (js_join '','' (map json_text xs))) < g"
    using text_start_json_text [OF x(1)] by (cases f) (auto simp: text_start_def)
  have "parse_elems g (js_join '','' (map json_text xs) @ CHR '']'' # r) = Some (xs, r)"
    using cons g(2) by simp
  moreover have "parse_value g (json_text x @ CHR '','' # js_join '','' (map json_text xs) @ CHR '']'' # r)
      = Some (x, CHR '','' # js_join '','' (map json_text xs) @ CHR '']'' # r)"
    by (rule readsD [OF x(2) _ g(1)]) simp
  ultimately show ?case
    by (simp only: f join) simp
qed

lemma parse_member:
  assumes "json_ok v" and "reads v" and "length (json_text v) < f" and "delim r"
  shows "skip_ws (member_text (k, v) @ r) = quote_ch # concat (map json_escape k) @ quote_ch # CHR '':'' # json_text v @ r"
    and "parse_value f (json_text v @ r) = Some (v, r)"
  using assms by (simp_all add: member_text_def json_quote_def readsD)

lemma length_member_text: "length (json_text v) + 3 \<le> length (member_text (k, v))"
  by (simp add: member_text_def json_quote_def)

lemma parse_members_texts:
  assumes "kvs \<noteq> []" and "\<forall>p \<in> set kvs. json_ok (snd p) \<and> reads (snd p)"
    and "Suc (length (js_join '','' (map member_text kvs))) < f"
  shows "parse_members f (js_join '','' (map member_text kvs) @ CHR ''}'' # r) = Some (kvs, r)"
  using assms
proof (induction kvs arbitrary: f rule: list_nonempty_induct)
  case (single p)
  obtain k v where p: "p = (k, v)" by (cases p)
  from single p obtain g where "f = Suc g" "length (json_text v) < g"
    by (cases f) (auto simp: member_text_def)
  with single p parse_member(1) [of v g "CHR ''}'' # r" k]
    parse_member(2) [of v g "CHR ''}'' # r"] show ?case
    by (simp add: parse_string_quoted starts_with_def)
next
  case (cons p kvs)
  obtain k v where p: "p = (k, v)" by (cases p)
  let ?rest = "js_join '','' (map member_text kvs) @ CHR ''}'' # r"
  from cons.hyps have join: "js_join '','' (map member_text (p # kvs)) @ CHR ''}'' # r
      = member_text (k, v) @ CHR '','' # ?rest" by (simp add: p)
  from cons.prems cons.hyps obtain g where f: "f = Suc g" and g: "length (json_text v) < g"
      "Suc (length (js_join '','' (map member_text kvs))) < g"
    using length_member_text [of v k] by (cases f) (auto simp: p)
  have "parse_members g ?rest = Some (kvs, r)"
    using cons g(2) by simp
  then show ?case
    using cons.prems(1) p parse_member(1) [of v g "CHR '','' # ?rest" k]
      parse_member(2) [of v g "CHR '','' # ?rest"] g(1)
    unfolding f join by (simp add: parse_string_quoted starts_with_def)
qed

lemma reads_json_ok: "json_ok v \<Longrightarrow> reads v"
proof (induction v)
  case (JNum n)
  then have d: "fl n = n" by simp
  obtain c cs where c: "num_str n = c # cs" "c = CHR ''-'' \<or> is_digit c"
    using d by (rule num_str_start)
  have "parse_literal (num_str n @ r) = Some (JNum n, r)" if "delim r" for r
    using parse_number_double [OF d that] c by (auto simp: parse_literal_def starts_with_def is_digit_def)
  moreover have "skip_ws (num_str n @ r) = c # cs @ r" for r
    using text_start_num_str [OF d] c(1) by (simp add: text_start_def skip_ws_id)
  moreover have "c \<noteq> quote_ch \<and> c \<noteq> CHR ''['' \<and> c \<noteq> CHR ''{''"
    using c(2) by (auto simp: quote_ch_def is_digit_def)
  ultimately show ?case
    unfolding reads_def json_text_simps using c(1) by (auto simp: gr0_conv_Suc dest!: less_imp_Suc_add)
next
  case (JStr s)
  show ?case
    by (auto simp: reads_def json_quote_def parse_string_quoted dest!: less_imp_Suc_add)
next
  case (JBool b)
  show ?case
    by (cases b) (auto simp: reads_def skip_ws_id json_ws_def quote_ch_def parse_literal_def
        starts_with_def dest!: less_imp_Suc_add)
next
  case JNull
  show ?case
    by (auto simp: reads_def skip_ws_id json_ws_def quote_ch_def parse_literal_def
        starts_with_def dest!: less_imp_Suc_add)
next
  case (JArr xs)
  then have ok: "\<forall>x \<in> set xs. json_ok x \<and> reads x"
    by (auto simp: list_all_iff)
  show ?case
  proof (cases xs)
    case Nil
    then show ?thesis
      by (auto simp: reads_def quote_ch_def starts_with_def dest!: less_imp_Suc_add)
  next
    case (Cons x xs')
    have "starts_with '']'' (skip_ws (js_join '','' (map json_text xs) @ r)) = False" for r
      using ok text_start_json_text [of x] Cons
      by (cases xs'; cases "json_text x") (auto simp: text_start_def skip_ws_id starts_with_def)
    moreover have "xs \<noteq> []" using Cons by simp
    ultimately show ?thesis
      using parse_elems_texts [OF _ ok]
      by (auto simp: reads_def quote_ch_def dest!: less_imp_Suc_add simp del: parse_elems.simps)
  qed
next
  case (JObj kvs)
  note d = json_ok_JObjD [OF JObj.prems]
  have ok: "\<forall>p \<in> set kvs. json_ok (snd p) \<and> reads (snd p)"
    using d(1) JObj.IH by (auto intro!: snds.intros)
  show ?case
  proof (cases kvs)
    case Nil
    with d(3) show ?thesis
      by (auto simp: reads_def quote_ch_def starts_with_def dest!: less_imp_Suc_add)
  next
    case (Cons p kvs')
    have "starts_with ''}'' (skip_ws (js_join '','' (map member_text kvs) @ r)) = False" for r
      using Cons by (cases kvs') (auto simp: member_text_def json_quote_def starts_with_def quote_ch_def
          skip_ws_id json_ws_def)
    moreover have "kvs \<noteq> []" using Cons by simp
    moreover have "object_of kvs = JObj kvs"
      using d(2) by (simp add: object_of_def obj_ordered_def)
    ultimately show ?thesis
      using parse_members_texts [OF _ ok]
      by (auto simp: reads_def d(3) quote_ch_def dest!: less_imp_Suc_add simp del: parse_members.simps)
  qed
qed simp

lemma json_roundtrip: "json_ok v \<Longrightarrow> json_parse (json_text v) = Some v"
  using readsD [OF reads_json_ok, of v "[]" "Suc (2 * length (json_text v))"]
  by (simp add: json_parse_def)

lemma json_stringify_inj:
  assumes "json_ok v" and "json_ok w" and "json_stringify v = json_stringify w"
  shows "v = w"
proof -
  have "json_text v = json_text w" using assms(3) by (simp add: json_text_def)
  then have "Some v = Some w" using json_roundtrip assms(1,2) by metis
  then show ?thesis by simp
qed

section \<open>Enough fuel\<close>

lemma skip_ws_length: "length (skip_ws s) \<le> length s"
  by (simp add: skip_ws_def length_dropWhile_le)

lemma skip_ws_ConsD: "skip_ws s = c # cs \<Longrightarrow> length cs < length s"
  using skip_ws_length [of s] by simp

lemma parse_string_shorter: "parse_string s = Some (t, r) \<Longrightarrow> length r < length s"
proof (induction s arbitrary: t rule: parse_string.induct)
  case (2 c cs)
  then show ?case
    by (auto split: if_splits list.splits option.splits dest!: hex4_shorter) fastforce+
qed simp

lemma parse_number_shorter:
  assumes "parse_number s = Some (n, r)"
  shows "length r < length s"
proof -
  have frac: "parse_frac t = Some (fs, r1) \<Longrightarrow> length r1 \<le> length t" for t fs r1
    by (auto simp: parse_frac_def Let_def le_SucI length_dropWhile_le split: list.splits if_splits)
  have exp: "parse_exp t = Some (e, r1) \<Longrightarrow> length r1 \<le> length t" for t e r1
    by (auto simp: parse_exp_def Let_def split: list.splits if_splits
        intro: order_trans [OF length_dropWhile_le] le_SucI)
  have dw: "length (dropWhile is_digit t) < length t" if "takeWhile is_digit t \<noteq> []" for t
    using that by (cases t) (auto simp: length_dropWhile_le le_imp_less_Suc split: if_splits)
  define u where "u = (if s \<noteq> [] \<and> hd s = CHR ''-'' then tl s else s)"
  from assms obtain fs r1 e where u: "takeWhile is_digit u \<noteq> []"
    "parse_frac (dropWhile is_digit u) = Some (fs, r1)" "parse_exp r1 = Some (e, r)"
    unfolding parse_number_def Let_def u_def by (auto split: if_splits option.splits)
  have "length r \<le> length r1" "length r1 \<le> length (dropWhile is_digit u)"
      "length (dropWhile is_digit u) < length u" "length u \<le> length s"
    using u frac exp dw by (auto simp: u_def)
  then show ?thesis by linarith
qed

lemma parse_literal_shorter: "parse_literal s = Some (v, r) \<Longrightarrow> length r < length s"
  by (cases s) (auto simp: parse_literal_def starts_with_def split: if_splits dest: parse_number_shorter)

lemma parse_shorter:
  "parse_value f s = Some (v, r) \<Longrightarrow> length r < length s"
  "parse_elems f s = Some (vs, r) \<Longrightarrow> length r < length s"
  "parse_members f s = Some (ms, r) \<Longrightarrow> length r < length s"
proof (induction f s and f s and f s arbitrary: v r and vs r and ms r
    rule: parse_value_parse_elems_parse_members.induct)
  case (2 f s)
  obtain c cs where s: "skip_ws s = c # cs" using "2.prems" by (cases "skip_ws s") auto
  have "length (tl (skip_ws cs)) \<le> length cs"
    using skip_ws_length [of cs] by simp
  then show ?case
    using 2 s skip_ws_ConsD [OF s] skip_ws_length [of s]
    by (fastforce split: if_splits dest: parse_string_shorter parse_literal_shorter)
next
  case (4 f s)
  then show ?case
    by (fastforce split: option.splits list.splits if_splits dest: skip_ws_ConsD)
next
  case (6 f s)
  have tl: "length (tl (skip_ws t)) \<le> length t" for t
    using skip_ws_length [of t] by simp
  show ?case
    using 6 tl
    by (auto split: option.splits list.splits if_splits
        dest!: skip_ws_ConsD parse_string_shorter)
      (meson less_trans less_le_trans order_less_imp_le)+
qed simp_all

lemma parse_value_fuel:
  "2 * length s < f \<Longrightarrow> parse_value (Suc f) s = parse_value f s"
  "Suc (2 * length s) < f \<Longrightarrow> parse_elems (Suc f) s = parse_elems f s"
  "Suc (2 * length s) < f \<Longrightarrow> parse_members (Suc f) s = parse_members f s"
proof (induction f s and f s and f s rule: parse_value_parse_elems_parse_members.induct)
  case (2 f s)
  then show ?case
    using skip_ws_ConsD [of s]
    by (subst (1 2) parse_value.simps) (fastforce split: list.split)
next
  case (4 f s)
  have "2 * length s < f" using "4.prems" by simp
  then have v: "parse_value (Suc f) s = parse_value f s" by (rule "4.IH")
  show ?case
  proof (cases "parse_value f s")
    case None
    with v show ?thesis by simp
  next
    case (Some vr)
    obtain x r where vr: "vr = (x, r)" by (cases vr)
    have "parse_elems (Suc f) r' = parse_elems f r'" if "skip_ws r = CHR '','' # r'" for r'
    proof -
      have "length r' < length s"
        using skip_ws_ConsD [OF that] parse_shorter(1) Some vr by fastforce
      then show ?thesis using "4.IH"(2) [OF Some] vr that "4.prems" by simp
    qed
    then show ?thesis
      using v by (simp add: Some vr split: list.split del: parse_value.simps)
  qed
next
  case (6 f s)
  show ?case
  proof (cases "skip_ws s")
    case (Cons q cs)
    show ?thesis
    proof (cases "parse_string cs")
      case (Some kr)
      obtain k r where kr: "kr = (k, r)" by (cases kr)
      let ?t = "tl (skip_ws r)"
      have r: "length r < length s"
        using skip_ws_ConsD [OF Cons] parse_string_shorter [of cs k r] Some kr by simp
      have t: "length ?t \<le> length r" using skip_ws_length [of r] by simp
      have v: "parse_value (Suc f) ?t = parse_value f ?t" if "q = quote_ch" "starts_with '':'' (skip_ws r)"
        using "6.IH"(1) [OF Cons] that Some kr r t "6.prems" by simp
      have m: "parse_members (Suc f) r2 = parse_members f r2"
        if "q = quote_ch" "starts_with '':'' (skip_ws r)" "parse_value f ?t = Some (x, r1)"
          "skip_ws r1 = CHR '','' # r2" for x r1 r2
      proof -
        have "length r2 < length s"
          using skip_ws_ConsD [OF that(4)] parse_shorter(1) [OF that(3)] r t by linarith
        then show ?thesis using "6.IH"(2) [OF Cons] that Some kr "6.prems" by simp
      qed
      show ?thesis
        using v m by (auto simp: Cons Some kr split: option.split list.split
            simp del: parse_value.simps)
    qed (simp add: Cons)
  qed simp
qed simp_all

lemma json_parse_enough_fuel:
  "2 * length s < f \<Longrightarrow> parse_value f s = parse_value (Suc (2 * length s)) s"
proof (induction f)
  case (Suc f)
  then show ?case
    by (cases "f = 2 * length s") (simp_all add: parse_value_fuel(1) del: parse_value.simps)
qed simp

end
