(* ===== verification/Crypto.thy ===== *)
theory Crypto
  imports JSON "HOL-Library.Word" "HOL-Library.Multiset"
begin

unbundle bit_operations_syntax

text \<open>
  The crypto module of the JavaScript SDK (\<open>sdk/js/src/crypto.ts\<close>): hexadecimal coding, key
  normalisation, canonical serialisation, signing and verification of messages, the hash
  commitment of the chain, ECDH key signatures, HKDF, and metadata encryption.

  The primitives of Web Crypto and of Node's \<open>crypto\<close> module are not part of the sources: they
  are the fields of a \<open>runtime\<close>, each of which may throw. Which of the two is present are
  fields as well, since every function chooses between them. What a theorem needs of a
  primitive (the length of a digest, that decryption undoes encryption) is a named hypothesis.
\<close>

section \<open>Bytes\<close>

type_synonym byte = "8 word"

text \<open>\<open>TextEncoder\<close>: UTF-8 of code units below 256.\<close>

definition utf8_char :: "char \<Rightarrow> byte list" where
  "utf8_char c =
     (let n = (of_char c :: nat)
      in if n < 128 then [word_of_nat n]
         else [word_of_nat (192 + n div 64), word_of_nat (128 + n mod 64)])"

definition utf8 :: "string \<Rightarrow> byte list" where
  "utf8 s = concat (map utf8_char s)"

definition byte_hex :: "byte \<Rightarrow> string" where
  "byte_hex b = [hex_char (unat b div 16), hex_char (unat b mod 16)]"

definition bufferToHex :: "byte list \<Rightarrow> string" where
  "bufferToHex bs = concat (map byte_hex bs)"

text \<open>\<open>parseInt(s, 16)\<close>; \<open>None\<close> is \<open>NaN\<close>, which a \<open>Uint8Array\<close> stores as 0.\<close>

definition hexs_val :: "string \<Rightarrow> nat" where
  "hexs_val s = foldl (\<lambda>a c. 16 * a + (case hex_val c of Some d \<Rightarrow> d | None \<Rightarrow> 0)) 0 s"

definition parse_int16 :: "string \<Rightarrow> int option" where
  "parse_int16 s =
     (let t = trim_start s;
          neg = starts_with ''-'' t;
          u = (if starts_with ''-'' t \<or> starts_with ''+'' t then tl t else t);
          w = (if starts_with ''0x'' u \<or> starts_with ''0X'' u then drop 2 u else u);
          ds = takeWhile is_hex w
      in if ds = [] then None else Some (if neg then - int (hexs_val ds) else int (hexs_val ds)))"

definition store_byte :: "int option \<Rightarrow> byte" where
  "store_byte n = (case n of None \<Rightarrow> 0 | Some i \<Rightarrow> word_of_int i)"

fun hex_pairs :: "string \<Rightarrow> byte list" where
  "hex_pairs (a # b # r) = store_byte (parse_int16 [a, b]) # hex_pairs r"
| "hex_pairs _ = []"

text \<open>An odd length makes \<open>new Uint8Array(hex.length / 2)\<close> throw.\<close>

definition hexToBuffer :: "string \<Rightarrow> byte list result" where
  "hexToBuffer hex = (if odd (length hex) then Inl ''Invalid typed array length'' else Inr (hex_pairs hex))"

text \<open>Node's \<open>Buffer.from(s, 'hex')\<close> stops at the first pair that is not hexadecimal.\<close>

fun buffer_from_hex :: "string \<Rightarrow> byte list" where
  "buffer_from_hex (a # b # r) =
     (case (hex_val a, hex_val b) of
        (Some x, Some y) \<Rightarrow> word_of_nat (16 * x + y) # buffer_from_hex r
      | _ \<Rightarrow> [])"
| "buffer_from_hex _ = []"

section \<open>The runtime\<close>

record runtime =
  web_crypto :: bool   \<comment> \<open>\<open>window.crypto.subtle\<close> is present\<close>
  node_crypto :: bool  \<comment> \<open>\<open>getNodeCrypto()\<close> is not null\<close>
  prim_hmac :: "byte list \<Rightarrow> byte list \<Rightarrow> byte list result"   \<comment> \<open>HMAC-SHA256, key then data\<close>
  prim_sha256 :: "byte list \<Rightarrow> byte list result"
  prim_hkdf :: "byte list \<Rightarrow> byte list \<Rightarrow> byte list \<Rightarrow> nat \<Rightarrow> byte list result"  \<comment> \<open>Web Crypto: key, salt, info, bits\<close>
  prim_ecdh :: "byte list \<Rightarrow> byte list \<Rightarrow> byte list result"   \<comment> \<open>private key, peer public key\<close>
  prim_keygen :: "nat \<Rightarrow> (byte list \<times> byte list) result"    \<comment> \<open>public and private key, by seed\<close>
  prim_gcm_encrypt :: "byte list \<Rightarrow> byte list \<Rightarrow> string \<Rightarrow> (byte list \<times> byte list) result"  \<comment> \<open>key, iv, text\<close>
  prim_gcm_decrypt :: "byte list \<Rightarrow> byte list \<Rightarrow> byte list \<Rightarrow> byte list \<Rightarrow> string result"  \<comment> \<open>key, iv, ciphertext, tag\<close>

definition rethrow :: "string \<Rightarrow> 'a result \<Rightarrow> 'a result" where
  "rethrow msg m = (case m of Inl e \<Rightarrow> Inl (msg @ e) | Inr x \<Rightarrow> Inr x)"

lemma rethrow_simps [simp]: "rethrow msg (Inl e) = Inl (msg @ e)" "rethrow msg (Inr x) = Inr x"
  by (simp_all add: rethrow_def)

lemma rethrow_Inr_iff [simp]: "rethrow msg m = Inr x \<longleftrightarrow> m = Inr x"
  by (cases m) auto

section \<open>Keys\<close>

definition normalizeEncryptionKeyHex :: "string \<Rightarrow> string result" where
  "normalizeEncryptionKeyHex encryptionKey =
     (let key = trim encryptionKey
      in if key = [] then Inl ''Encryption key is required for AES-256-GCM''
         else if \<not> list_all is_hex key then Inl ''Encryption key must be hex-encoded (64 hex characters)''
         else if length key < 64 then Inl ''Encryption key too short - expected 64 hex characters (32 bytes)''
         else Inr (to_lower (take 64 key)))"

definition hmacSha256 :: "runtime \<Rightarrow> string \<Rightarrow> string \<Rightarrow> string result" where
  "hmacSha256 rt input key =
     (if web_crypto rt then
        rethrow ''Failed to compute HMAC (Web Crypto): ''
          (bindr (prim_hmac rt (utf8 key) (utf8 input)) (\<lambda>d. Inr (bufferToHex d)))
      else if node_crypto rt then
        rethrow ''Failed to compute HMAC (Node.js crypto): ''
          (bindr (prim_hmac rt (utf8 key) (utf8 input)) (\<lambda>d. Inr (bufferToHex d)))
      else Inl ''No cryptographic implementation available for HMAC'')"

text \<open>
  \<open>generateNonce\<close>: the random component is generated when none (or the empty string) is given;
  \<open>fresh\<close> is that random string.
\<close>

definition generateNonce :: "runtime \<Rightarrow> string \<Rightarrow> string \<Rightarrow> rat \<Rightarrow> string option \<Rightarrow> string \<Rightarrow> string result" where
  "generateNonce rt macKey clientId timestamp randomComponent fresh =
     (let random = (case randomComponent of Some r \<Rightarrow> if r \<noteq> [] then r else fresh | None \<Rightarrow> fresh)
      in hmacSha256 rt (clientId @ '':'' @ num_str timestamp @ '':'' @ random) macKey)"

section \<open>Comparison in constant time\<close>

text \<open>The fallback loop; \<open>charCodeAt\<close> is below 256 here and the operators work on 32 bits.\<close>

definition char_code :: "string \<Rightarrow> nat \<Rightarrow> 32 word" where
  "char_code s i = (if i < length s then word_of_nat (of_char (s ! i)) else 0)"

definition tse_loop :: "string \<Rightarrow> string \<Rightarrow> 32 word" where
  "tse_loop a b =
     foldl (\<lambda>result i. result OR (char_code a i XOR char_code b i))
       (word_of_nat (length a) XOR word_of_nat (length b))
       [0..<max (length a) (length b)]"

definition timingSafeEqual :: "runtime \<Rightarrow> string \<Rightarrow> string \<Rightarrow> bool" where
  "timingSafeEqual rt a b =
     (if node_crypto rt then
        (if length a \<noteq> length b then False
         else (let x = buffer_from_hex a; y = buffer_from_hex b
               in if length x = length y then x = y else tse_loop a b = 0))
      else tse_loop a b = 0)"

section \<open>Signatures of ECDH public keys\<close>

definition signEcdhPublicKey :: "runtime \<Rightarrow> string \<Rightarrow> string \<Rightarrow> rat \<Rightarrow> string \<Rightarrow> string result" where
  "signEcdhPublicKey rt publicKey entityId timestamp secretKey =
     hmacSha256 rt (publicKey @ '':'' @ entityId @ '':'' @ num_str timestamp) secretKey"

text \<open>The result \<open>{ valid, error? }\<close>.\<close>

type_synonym verdict = "bool \<times> string option"

definition verifyEcdhPublicKey ::
  "runtime \<Rightarrow> rat \<Rightarrow> string \<Rightarrow> string \<Rightarrow> rat \<Rightarrow> string \<Rightarrow> string \<Rightarrow> rat \<Rightarrow> verdict result" where
  "verifyEcdhPublicKey rt now publicKey entityId timestamp signature secretKey maxAge =
     (let timestampMs = (if timestamp < 10 ^ 12 then timestamp * 1000 else timestamp);
          age = now - timestampMs;
          unitHint = (if timestamp < 10 ^ 12
                      then '' (timestamp looks like seconds; expected milliseconds)'' else [])
      in if age > maxAge then
           Inr (False, Some (''ECDH key signature expired (age: '' @ num_str age @ ''ms, max: ''
             @ num_str maxAge @ ''ms)'' @ unitHint))
         else if age < - 5000 then
           Inr (False, Some (''ECDH key signature from future (skew: '' @ num_str (- age) @ ''ms)'' @ unitHint))
         else
           bindr (hmacSha256 rt (publicKey @ '':'' @ entityId @ '':'' @ num_str timestamp) secretKey)
             (\<lambda>expectedSignature.
                if \<not> timingSafeEqual rt signature expectedSignature
                then Inr (False, Some ''ECDH key signature mismatch'')
                else Inr (True, None)))"

section \<open>Canonical serialisation\<close>

definition build_assign :: "(string \<times> jsval) list \<Rightarrow> (string \<times> jsval) list" where
  "build_assign kvs = foldl (\<lambda>acc (k, v). assign_prop k v acc) [] kvs"

primrec canonicalize :: "jsval \<Rightarrow> jsval" where
  "canonicalize JUndef = JUndef"
| "canonicalize JNull = JNull"
| "canonicalize (JBool b) = JBool b"
| "canonicalize (JNum n) = JNum n"
| "canonicalize (JStr s) = JStr s"
| "canonicalize (JArr xs) = JArr (map canonicalize xs)"
| "canonicalize (JObj kvs) = JObj (build_assign (sort_key fst (map (map_prod id canonicalize) kvs)))"

text \<open>The fields a signature or a hash commitment covers, as the wire delivers them.\<close>

record signed_fields =
  sf_type :: jsval
  sf_thread_id :: jsval
  sf_session_id :: jsval
  sf_timestamp :: jsval
  sf_nonce :: jsval
  sf_payload :: jsval
  sf_prev_message_hash :: jsval
  sf_meta :: jsval
  sf_content_encoding :: jsval

definition canonical_object :: "signed_fields \<Rightarrow> jsval" where
  "canonical_object m = canonicalize (JObj
     [(''type'', sf_type m),
      (''thread_id'', sf_thread_id m),
      (''session_id'', js_or (sf_session_id m) (JStr [])),
      (''timestamp'', sf_timestamp m),
      (''nonce'', sf_nonce m),
      (''payload'', sf_payload m),
      (''prev_message_hash'', js_or (sf_prev_message_hash m) (JStr [])),
      (''meta'', js_or (sf_meta m) (JObj [])),
      (''content_encoding'', js_or (sf_content_encoding m) (JStr []))])"

definition serializeCanonical :: "signed_fields \<Rightarrow> string" where
  "serializeCanonical m = json_text (canonical_object m)"

section \<open>Signing messages\<close>

definition signMessage :: "runtime \<Rightarrow> signed_fields \<Rightarrow> string \<Rightarrow> string result" where
  "signMessage rt m secretKey =
     (let canonical = serializeCanonical m
      in if web_crypto rt then
           rethrow ''Failed to sign message (Web Crypto): ''
             (bindr (prim_hmac rt (utf8 secretKey) (utf8 canonical)) (\<lambda>d. Inr (bufferToHex d)))
         else if node_crypto rt then
           rethrow ''Failed to sign message (Node.js crypto): ''
             (bindr (prim_hmac rt (utf8 secretKey) (utf8 canonical)) (\<lambda>d. Inr (bufferToHex d)))
         else Inl ''No cryptographic implementation available'')"

definition verifySignature :: "runtime \<Rightarrow> signed_fields \<Rightarrow> string \<Rightarrow> string \<Rightarrow> verdict" where
  "verifySignature rt m signature secretKey =
     (case signMessage rt m secretKey of
        Inl e \<Rightarrow> (False, Some e)
      | Inr expectedSignature \<Rightarrow> (timingSafeEqual rt expectedSignature signature, None))"

text \<open>\<open>hashEnvelope\<close> takes no \<open>meta\<close> and no \<open>content_encoding\<close>.\<close>

definition hashEnvelope :: "runtime \<Rightarrow> signed_fields \<Rightarrow> string result" where
  "hashEnvelope rt m =
     (let canonical = serializeCanonical (m\<lparr>sf_meta := JUndef, sf_content_encoding := JUndef\<rparr>)
      in if web_crypto rt then bindr (prim_sha256 rt (utf8 canonical)) (\<lambda>d. Inr (bufferToHex d))
         else if node_crypto rt then bindr (prim_sha256 rt (utf8 canonical)) (\<lambda>d. Inr (bufferToHex d))
         else Inl ''No cryptographic implementation available for hashing'')"

section \<open>Key agreement\<close>

definition generateKeyPair :: "runtime \<Rightarrow> nat \<Rightarrow> (string \<times> string) result" where
  "generateKeyPair rt seed =
     (if web_crypto rt then
        rethrow ''Failed to generate key pair (Web Crypto): ''
          (bindr (prim_keygen rt seed) (\<lambda>(pub, priv). Inr (bufferToHex pub, bufferToHex priv)))
      else if node_crypto rt then
        rethrow ''Failed to generate key pair (Node.js crypto): ''
          (bindr (prim_keygen rt seed) (\<lambda>(pub, priv). Inr (bufferToHex pub, bufferToHex priv)))
      else Inl ''No cryptographic implementation available'')"

definition deriveSharedSecret :: "runtime \<Rightarrow> string \<Rightarrow> string \<Rightarrow> string result" where
  "deriveSharedSecret rt privateKey peerPublicKey =
     (if web_crypto rt then
        rethrow ''Failed to derive shared secret (Web Crypto): ''
          (bindr (hexToBuffer privateKey) (\<lambda>priv.
             bindr (hexToBuffer peerPublicKey) (\<lambda>pub.
               bindr (prim_ecdh rt priv pub) (\<lambda>d. Inr (bufferToHex d)))))
      else if node_crypto rt then
        rethrow ''Failed to derive shared secret (Node.js): ''
          (bindr (prim_ecdh rt (buffer_from_hex privateKey) (buffer_from_hex peerPublicKey))
             (\<lambda>d. Inr (bufferToHex d)))
      else Inl ''No cryptographic implementation available'')"

text \<open>The HKDF-Expand loop of the Node branch: \<open>i\<close> runs from 0 below \<open>n\<close>.\<close>

fun hkdf_expand :: "runtime \<Rightarrow> byte list \<Rightarrow> byte list \<Rightarrow> nat list \<Rightarrow> byte list \<Rightarrow> byte list \<Rightarrow> byte list result" where
  "hkdf_expand rt prk info [] t okm = Inr okm"
| "hkdf_expand rt prk info (i # is) t okm =
     bindr (prim_hmac rt prk (t @ info @ [word_of_nat (i + 1)])) (\<lambda>t'.
       hkdf_expand rt prk info is t' (okm @ t'))"

definition hkdf :: "runtime \<Rightarrow> string \<Rightarrow> string \<Rightarrow> string \<Rightarrow> nat \<Rightarrow> string result" where
  "hkdf rt sharedSecret salt info keyLength =
     (if web_crypto rt then
        rethrow ''Failed HKDF (Web Crypto): ''
          (bindr (hexToBuffer sharedSecret) (\<lambda>ikm.
             bindr (prim_hkdf rt ikm (utf8 salt) (utf8 info) (keyLength * 8)) (\<lambda>d. Inr (bufferToHex d))))
      else if node_crypto rt then
        rethrow ''Failed HKDF (Node.js): ''
          (bindr (prim_hmac rt (if salt = [] then replicate 32 0 else utf8 salt) (buffer_from_hex sharedSecret)) (\<lambda>prk.
             bindr (hkdf_expand rt prk (utf8 info) [0..<(keyLength + 31) div 32] [] []) (\<lambda>okm.
               Inr (bufferToHex (take keyLength okm)))))
      else Inl ''No cryptographic implementation available'')"

record session_keys =
  sk_encryptionKey :: string
  sk_macKey :: string
  sk_ivKey :: string

definition deriveSessionKeys :: "runtime \<Rightarrow> string \<Rightarrow> string \<Rightarrow> session_keys result" where
  "deriveSessionKeys rt sharedSecret sessionId =
     (let salt = ''ltp-v0.5-'' @ sessionId
      in bindr (hkdf rt sharedSecret salt ''ltp-encryption-key'' 32) (\<lambda>encryptionKey.
           bindr (hkdf rt sharedSecret salt ''ltp-mac-key'' 32) (\<lambda>macKey.
             bindr (hkdf rt sharedSecret salt ''ltp-iv-key'' 16) (\<lambda>ivKey.
               Inr \<lparr>sk_encryptionKey = encryptionKey, sk_macKey = macKey, sk_ivKey = ivKey\<rparr>))))"

section \<open>Encryption\<close>

record cipher =
  ciphertext :: string
  iv :: string
  tag :: string

text \<open>\<open>encryptPayload\<close>: \<open>ivBytes\<close> are the twelve random bytes; Node is tried first here.\<close>

definition encryptPayload :: "runtime \<Rightarrow> byte list \<Rightarrow> string \<Rightarrow> string \<Rightarrow> cipher result" where
  "encryptPayload rt ivBytes data key =
     (if node_crypto rt then
        rethrow ''Failed to encrypt payload: ''
          (bindr (normalizeEncryptionKeyHex key) (\<lambda>keyHex.
             bindr (prim_gcm_encrypt rt (buffer_from_hex keyHex) ivBytes data) (\<lambda>(ct, tg).
               Inr \<lparr>ciphertext = bufferToHex ct, iv = bufferToHex ivBytes, tag = bufferToHex tg\<rparr>)))
      else if web_crypto rt then
        rethrow ''Failed to encrypt payload (Web Crypto): ''
          (bindr (normalizeEncryptionKeyHex key) (\<lambda>keyHex.
             bindr (hexToBuffer keyHex) (\<lambda>keyBuffer.
               bindr (prim_gcm_encrypt rt keyBuffer ivBytes data) (\<lambda>(ct, tg).
                 Inr \<lparr>ciphertext = bufferToHex ct, iv = bufferToHex ivBytes, tag = bufferToHex tg\<rparr>))))
      else Inl ''No cryptographic implementation available'')"

definition decryptPayload :: "runtime \<Rightarrow> string \<Rightarrow> string \<Rightarrow> string \<Rightarrow> string \<Rightarrow> string result" where
  "decryptPayload rt ct key ivHex tagHex =
     (if node_crypto rt then
        rethrow ''Failed to decrypt payload: ''
          (bindr (normalizeEncryptionKeyHex key) (\<lambda>keyHex.
             prim_gcm_decrypt rt (buffer_from_hex keyHex) (buffer_from_hex ivHex)
               (buffer_from_hex ct) (buffer_from_hex tagHex)))
      else if web_crypto rt then
        rethrow ''Failed to decrypt payload (Web Crypto): ''
          (bindr (normalizeEncryptionKeyHex key) (\<lambda>keyHex.
             bindr (hexToBuffer keyHex) (\<lambda>keyBuffer.
               bindr (hexToBuffer ct) (\<lambda>ctb.
                 bindr (hexToBuffer tagHex) (\<lambda>tgb.
                   bindr (hexToBuffer ivHex) (\<lambda>ivb.
                     prim_gcm_decrypt rt keyBuffer ivb ctb tgb))))))
      else Inl ''No cryptographic implementation available'')"

record metadata =
  md_thread_id :: jsval
  md_session_id :: jsval
  md_timestamp :: jsval

definition metadata_json :: "metadata \<Rightarrow> jsval" where
  "metadata_json m = JObj [(''thread_id'', md_thread_id m), (''session_id'', md_session_id m),
     (''timestamp'', md_timestamp m)]"

definition encryptMetadata :: "runtime \<Rightarrow> byte list \<Rightarrow> metadata \<Rightarrow> string \<Rightarrow> string result" where
  "encryptMetadata rt ivBytes m encryptionKey =
     bindr (encryptPayload rt ivBytes (json_text (metadata_json m)) encryptionKey) (\<lambda>e.
       Inr (ciphertext e @ '':'' @ iv e @ '':'' @ tag e))"

definition decryptMetadata :: "runtime \<Rightarrow> string \<Rightarrow> string \<Rightarrow> metadata result" where
  "decryptMetadata rt encryptedMetadata encryptionKey =
     (case split_on CHR '':'' encryptedMetadata of
        [ct, ivHex, tg] \<Rightarrow>
          if ct = [] \<or> ivHex = [] \<or> tg = [] then Inl ''Invalid encrypted metadata format - missing parts''
          else bindr (decryptPayload rt ct encryptionKey ivHex tg) (\<lambda>decryptedJson.
            case json_parse decryptedJson of
              None \<Rightarrow> Inl ''Unexpected token in JSON''
            | Some md \<Rightarrow>
                bindr (get_prop md ''thread_id'') (\<lambda>thread_id.
                  (let session_id = pget md ''session_id''; timestamp = pget md ''timestamp''
                   in if \<not> truthy thread_id \<or> \<not> truthy session_id \<or> \<not> is_num timestamp
                      then Inl ''Invalid decrypted metadata structure''
                      else Inr \<lparr>md_thread_id = thread_id, md_session_id = session_id, md_timestamp = timestamp\<rparr>)))
      | _ \<Rightarrow> Inl ''Invalid encrypted metadata format - expected ciphertext:iv:tag'')"

definition generateRoutingTag :: "runtime \<Rightarrow> string \<Rightarrow> string \<Rightarrow> string \<Rightarrow> string result" where
  "generateRoutingTag rt threadId sessionId macKey =
     bindr (hmacSha256 rt (threadId @ '':'' @ sessionId) macKey) (\<lambda>h. Inr (take 32 h))"

section \<open>Hexadecimal coding\<close>

lemma unat_byte: "unat (b :: byte) < 256"
  using unsigned_less [of b] by simp

lemma byte_nibbles: "unat (b :: byte) div 16 < 16" "unat b mod 16 < 16"
  using unat_byte [of b] by (simp_all add: less_mult_imp_div_less)

lemma word_of_nibbles: "word_of_nat (16 * (unat b div 16) + unat b mod 16) = (b :: byte)"
  by (simp add: mult_div_mod_eq)

lemma length_bufferToHex [simp]: "length (bufferToHex bs) = 2 * length bs"
  by (induction bs) (simp_all add: bufferToHex_def byte_hex_def)

lemma bufferToHex_Cons: "bufferToHex (b # bs) = hex_char (unat b div 16) # hex_char (unat b mod 16) # bufferToHex bs"
  by (simp add: bufferToHex_def byte_hex_def)

lemma bufferToHex_Nil [simp]: "bufferToHex [] = []"
  by (simp add: bufferToHex_def)

lemma bufferToHex_hex: "list_all is_hex (bufferToHex bs)"
  by (induction bs) (simp_all add: bufferToHex_Cons byte_nibbles)

lemma bufferToHex_lower [simp]: "to_lower (bufferToHex bs) = bufferToHex bs"
  by (induction bs) (simp_all add: bufferToHex_Cons to_lower_def byte_nibbles)

lemma is_hex_no_special:
  assumes "is_hex c"
  shows "\<not> is_ws c" "c \<noteq> CHR ''-''" "c \<noteq> CHR ''+''" "c \<noteq> CHR ''x''" "c \<noteq> CHR ''X''" "c \<noteq> CHR '':''"
  using assms by (auto simp: is_hex_def hex_val_def is_ws_def Let_def split: if_splits)

lemma parse_int16_pair:
  assumes "hex_val a = Some x" and "hex_val b = Some y"
  shows "parse_int16 [a, b] = Some (int (16 * x + y))"
proof -
  have "is_hex a" "is_hex b" using assms by (simp_all add: is_hex_def)
  then show ?thesis
    using assms is_hex_no_special [of a] is_hex_no_special [of b]
    by (simp add: parse_int16_def Let_def trim_start_def starts_with_def hexs_val_def)
qed

lemma hexToBuffer_bufferToHex: "hexToBuffer (bufferToHex bs) = Inr bs"
proof -
  have "hex_pairs (bufferToHex bs) = bs"
  proof (induction bs)
    case (Cons b bs)
    have "store_byte (parse_int16 [hex_char (unat b div 16), hex_char (unat b mod 16)]) = b"
      using word_of_nibbles [of b]
      by (simp add: parse_int16_pair byte_nibbles store_byte_def flip: of_nat_add)
    with Cons show ?case by (simp add: bufferToHex_Cons)
  qed simp
  then show ?thesis by (simp add: hexToBuffer_def)
qed

lemma buffer_from_hex_bufferToHex [simp]: "buffer_from_hex (bufferToHex bs) = bs"
proof (induction bs)
  case (Cons b bs)
  then show ?case
    using word_of_nibbles [of b] by (simp add: bufferToHex_Cons byte_nibbles)
qed simp

lemma bufferToHex_eq_iff [simp]: "bufferToHex a = bufferToHex b \<longleftrightarrow> a = b"
  by (metis buffer_from_hex_bufferToHex)

text \<open>A full-length decoding happens only for hexadecimal text, and forgets nothing but case.\<close>

lemma buffer_from_hex_length: "2 * length (buffer_from_hex s) \<le> length s"
  by (induction s rule: buffer_from_hex.induct) (auto split: option.splits)

lemma buffer_from_hex_full:
  "2 * length (buffer_from_hex s) = length s \<Longrightarrow> bufferToHex (buffer_from_hex s) = to_lower s"
proof (induction s rule: buffer_from_hex.induct)
  case (1 a b r)
  then obtain x y where xy: "hex_val a = Some x" "hex_val b = Some y"
    by (auto split: option.splits)
  have "x < 16" "y < 16" using xy hex_val_less by blast+
  then have u: "unat (word_of_nat (16 * x + y) :: byte) = 16 * x + y"
    using unat_of_nat [of "16 * x + y", where ?'a = 8] by (simp del: of_nat_add of_nat_mult)
  have "bufferToHex (buffer_from_hex r) = to_lower r"
    using 1 xy by simp
  then show ?case
    using xy u \<open>y < 16\<close> hex_char_val [OF xy(1)] hex_char_val [OF xy(2)]
    by (simp add: bufferToHex_Cons to_lower_def)
qed (auto simp: to_lower_def)

section \<open>The comparison loop\<close>

lemma or_zero_iff: "(x OR y = (0 :: 32 word)) \<longleftrightarrow> x = 0 \<and> y = 0"
  by (rule or_eq_0_iff)

lemma xor_zero_iff: "(x XOR y = (0 :: 32 word)) \<longleftrightarrow> x = y"
proof
  assume "x XOR y = 0"
  then have "x XOR (x XOR y) = x" by simp
  then show "x = y" by (simp flip: xor.assoc)
qed simp

lemma foldl_or_zero:
  "foldl (\<lambda>r i. r OR f i) a is = (0 :: 32 word) \<longleftrightarrow> a = 0 \<and> (\<forall>i \<in> set is. f i = 0)"
  by (induction "is" arbitrary: a) (auto simp: or_zero_iff)

lemma word_of_nat_eq:
  "m < 2 ^ 32 \<Longrightarrow> n < 2 ^ 32 \<Longrightarrow> (word_of_nat m :: 32 word) = word_of_nat n \<longleftrightarrow> m = n"
proof -
  have "unat (word_of_nat k :: 32 word) = k" if "k < 2 ^ 32" for k
    using that by (simp add: unat_of_nat)
  then show "m < 2 ^ 32 \<Longrightarrow> n < 2 ^ 32 \<Longrightarrow> ?thesis" by metis
qed

lemma char_code_eq:
  assumes "i < length a" and "i < length b" and "char_code a i = char_code b i"
  shows "a ! i = b ! i"
proof -
  have "(of_char c :: nat) < 2 ^ 32" for c :: char
    by (rule less_trans [OF nat_of_char_less_256]) simp
  then show ?thesis
    using assms by (simp add: char_code_def word_of_nat_eq)
qed

lemma tse_loop_zero_iff:
  assumes "length a < 2 ^ 32" and "length b < 2 ^ 32"
  shows "tse_loop a b = 0 \<longleftrightarrow> a = b"
proof
  assume "tse_loop a b = 0"
  then have z: "(word_of_nat (length a) :: 32 word) XOR word_of_nat (length b) = 0"
      "\<forall>i \<in> set [0..<max (length a) (length b)]. char_code a i XOR char_code b i = 0"
    unfolding tse_loop_def foldl_or_zero by (rule conjunct1, rule conjunct2)
  from z(1) have len: "length a = length b"
    using assms by (simp only: xor_zero_iff word_of_nat_eq)
  have "a ! i = b ! i" if "i < length a" for i
    using char_code_eq [of i a b] z(2) that len by (simp add: xor_zero_iff)
  with len show "a = b" by (simp add: nth_equalityI)
next
  assume "a = b"
  then show "tse_loop a b = 0"
    unfolding tse_loop_def foldl_or_zero by simp
qed

lemma hex_val_lower [simp]: "hex_val (lower_char c) = hex_val c"
  by (auto simp: hex_val_def lower_char_def Let_def of_char_of)

lemma buffer_from_hex_lower [simp]: "buffer_from_hex (to_lower s) = buffer_from_hex s"
  by (induction s rule: buffer_from_hex.induct) (auto simp: to_lower_def split: option.split)

text \<open>
  Against an expected digest, which is the lower-case text of some bytes, the comparison is equality
  in a browser, and equality up to letter case under Node.
\<close>

lemma timingSafeEqual_digest:
  assumes "2 * length bs < 2 ^ 32" and "length s < 2 ^ 32"
  shows "timingSafeEqual rt (bufferToHex bs) s \<longleftrightarrow>
    (if node_crypto rt then to_lower s = bufferToHex bs else s = bufferToHex bs)"
proof (cases "node_crypto rt")
  case True
  have lower_len: "length s = 2 * length bs" if "to_lower s = bufferToHex bs"
    using arg_cong [OF that, of length] by (simp add: to_lower_def)
  show ?thesis
  proof (cases "length s = 2 * length bs \<and> length (buffer_from_hex s) = length bs")
    case full: True
    then have "to_lower s = bufferToHex (buffer_from_hex s)"
      by (intro buffer_from_hex_full [symmetric]) simp
    then show ?thesis
      using True full by (auto simp: timingSafeEqual_def)
  next
    case short: False
    have nohex: "to_lower s \<noteq> bufferToHex bs"
    proof
      assume eq: "to_lower s = bufferToHex bs"
      show False
        using short eq buffer_from_hex_lower [of s] lower_len [OF eq]
        by (simp del: buffer_from_hex_lower)
    qed
    moreover have "s \<noteq> bufferToHex bs"
      using nohex bufferToHex_lower by metis
    ultimately show ?thesis
      using True short assms
      by (auto simp: timingSafeEqual_def Let_def tse_loop_zero_iff)
  qed
next
  case False
  with assms show ?thesis
    by (auto simp: timingSafeEqual_def tse_loop_zero_iff)
qed

section \<open>Canonical form\<close>

text \<open>Equal up to the order of the properties of objects, at every depth.\<close>

inductive same_data :: "jsval \<Rightarrow> jsval \<Rightarrow> bool" where
  sd_refl: "same_data v v"
| sd_arr: "list_all2 same_data xs ys \<Longrightarrow> same_data (JArr xs) (JArr ys)"
| sd_obj: "list_all2 (rel_prod (=) same_data) kvs mid \<Longrightarrow> mset mid = mset kvs' \<Longrightarrow>
    distinct (map fst kvs) \<Longrightarrow> same_data (JObj kvs) (JObj kvs')"

lemma sort_key_mset:
  "mset xs = mset ys \<Longrightarrow> distinct (map f xs) \<Longrightarrow> sort_key f xs = sort_key f ys"
  by (metis distinct_map mset_sort sort_key_inj_key_eq sorted_sort_key)

lemma canonicalize_same_data: "same_data v w \<Longrightarrow> canonicalize v = canonicalize w"
proof (induction rule: same_data.induct)
  case (sd_arr xs ys)
  then have "list_all2 (\<lambda>x y. canonicalize x = canonicalize y) xs ys"
    by (auto elim: list_all2_mono)
  then have "map canonicalize xs = map canonicalize ys"
    by (induction rule: list_all2_induct) auto
  then show ?case by simp
next
  case (sd_obj kvs mid kvs')
  let ?c = "map (map_prod id canonicalize)"
  from sd_obj(1) have "list_all2 (\<lambda>p q. map_prod id canonicalize p = map_prod id canonicalize q) kvs mid"
    by (rule list_all2_mono) auto
  then have eq: "?c kvs = ?c mid"
    by (induction rule: list_all2_induct) auto
  have fsts: "map fst (?c l) = map fst l" for l :: "(string \<times> jsval) list"
    by simp
  have "mset (?c kvs) = mset (?c kvs')"
    using sd_obj(2) unfolding eq by simp
  moreover have "distinct (map fst (?c kvs))"
    using sd_obj(3) by (simp only: fsts)
  ultimately have "sort_key fst (?c kvs) = sort_key fst (?c kvs')"
    by (rule sort_key_mset)
  then show ?case by simp
qed simp

lemma build_assign_Nil [simp]: "build_assign [] = []"
  by (simp add: build_assign_def)

lemma build_assign_snoc: "build_assign (kvs @ [(k, v)]) = assign_prop k v (build_assign kvs)"
  by (simp add: build_assign_def)

lemma wf_props_build_assign: "wf_props (build_assign kvs)"
proof (induction kvs rule: rev_induct)
  case (snoc p kvs)
  then show ?case
    by (cases p) (simp add: build_assign_snoc assign_prop_def wf_props_define_prop)
qed simp

lemma set_build_assign: "set (build_assign kvs) \<subseteq> set kvs"
proof (induction kvs rule: rev_induct)
  case (snoc p kvs)
  obtain k v where p: "p = (k, v)" by (cases p)
  show ?case
    using snoc set_define_prop_subset [of k v "build_assign kvs"]
    by (auto simp: p build_assign_snoc assign_prop_def)
qed simp

lemma map_of_build_assign:
  "map_of (build_assign kvs) k = (if k = ''__proto__'' then None else map_of (rev kvs) k)"
proof (induction kvs rule: rev_induct)
  case (snoc p kvs)
  then show ?case
    by (cases p) (auto simp: build_assign_snoc assign_prop_def map_of_define_prop)
qed simp

lemma build_assign_filter: "build_assign kvs = build_assign (filter (\<lambda>p. fst p \<noteq> ''__proto__'') kvs)"
proof (induction kvs rule: rev_induct)
  case (snoc p kvs)
  then show ?case
    by (cases p) (auto simp: build_assign_snoc assign_prop_def)
qed simp

text \<open>The canonical form of an object forgets a property named \<open>__proto__\<close>.\<close>

lemma canonicalize_proto:
  "canonicalize (JObj ((''__proto__'', x) # kvs)) = canonicalize (JObj kvs)"
proof -
  have "build_assign (sort_key fst ((''__proto__'', y) # l)) = build_assign (sort_key fst l)" for y l
    by (subst (1 2) build_assign_filter) (simp add: filter_sort del: sort_key_simps)
  then show ?thesis by simp
qed

text \<open>Every other property is kept, with the canonical form of its value.\<close>

lemma pget_canonicalize:
  assumes "distinct (map fst kvs)" and "k \<noteq> ''__proto__''"
  shows "pget (canonicalize (JObj kvs)) k = canonicalize (pget (JObj kvs) k)"
proof -
  let ?l = "map (map_prod id canonicalize) kvs"
  have "distinct (map fst ?l)" using assms(1) by simp
  then have d: "distinct (map fst (rev (sort_key fst ?l)))"
    by (metis distinct_rev mset_eq_imp_distinct_iff mset_map mset_sort rev_map)
  have "map_of (rev (sort_key fst ?l)) = map_of ?l"
    using d \<open>distinct (map fst ?l)\<close> by (intro map_of_inject_set [THEN iffD2]) auto
  moreover have "map_of ?l k = map_option canonicalize (map_of kvs k)"
    by (induction kvs) auto
  ultimately show ?thesis
    using assms(2) by (auto simp: pget_def map_of_build_assign split: option.split)
qed

text \<open>Values as \<open>JSON.parse\<close> delivers them when every number is a double.\<close>

primrec json_clean :: "jsval \<Rightarrow> bool" where
  "json_clean JUndef = False"
| "json_clean JNull = True"
| "json_clean (JBool b) = True"
| "json_clean (JNum n) \<longleftrightarrow> fl n = n"
| "json_clean (JStr s) = True"
| "json_clean (JArr xs) = list_all id (map json_clean xs)"
| "json_clean (JObj kvs) = list_all (\<lambda>p. snd p) (map (map_prod id json_clean) kvs)"

lemma json_ok_canonicalize: "json_clean v \<Longrightarrow> json_ok (canonicalize v)"
proof (induction v)
  case (JArr xs)
  then show ?case by (auto simp: list_all_iff)
next
  case (JObj kvs)
  let ?l = "sort_key fst (map (map_prod id canonicalize) kvs)"
  have "json_ok (snd p)" if "p \<in> set (build_assign ?l)" for p
  proof -
    have "p \<in> set ?l" using that set_build_assign by blast
    then obtain q where q: "q \<in> set kvs" "p = map_prod id canonicalize q" by auto
    then have "json_clean (snd q)" using JObj.prems by (auto simp: list_all_iff)
    then show ?thesis using JObj.IH [OF q(1), of "snd q"] q(2) by (cases q) auto
  qed
  moreover have "obj_ordered (build_assign ?l)"
    by (simp add: obj_ordered_def spread_wf_props wf_props_build_assign)
  ultimately show ?case by (auto simp: list_all_iff)
qed simp_all

definition clean_fields :: "signed_fields \<Rightarrow> bool" where
  "clean_fields m = (json_clean (sf_type m) \<and> json_clean (sf_thread_id m)
     \<and> json_clean (js_or (sf_session_id m) (JStr [])) \<and> json_clean (sf_timestamp m)
     \<and> json_clean (sf_nonce m) \<and> json_clean (sf_payload m)
     \<and> json_clean (js_or (sf_prev_message_hash m) (JStr []))
     \<and> json_clean (js_or (sf_meta m) (JObj [])) \<and> json_clean (js_or (sf_content_encoding m) (JStr [])))"

lemma serializeCanonical_inj:
  assumes "clean_fields m" and "clean_fields m'" and "serializeCanonical m = serializeCanonical m'"
  shows "canonical_object m = canonical_object m'"
proof -
  have ok: "json_ok (canonical_object n)" if "clean_fields n" for n
    unfolding canonical_object_def
    by (rule json_ok_canonicalize) (use that in \<open>simp add: clean_fields_def\<close>)
  have "json_text (canonical_object m) = json_text (canonical_object m')"
    using assms(3) by (simp only: serializeCanonical_def)
  then have "Some (canonical_object m) = Some (canonical_object m')"
    using json_roundtrip ok assms(1,2) by metis
  then show ?thesis by simp
qed

text \<open>The canonical object determines the canonical form of each signed field.\<close>

lemma canonical_object_fields:
  "pget (canonical_object m) ''type'' = canonicalize (sf_type m)"
  "pget (canonical_object m) ''thread_id'' = canonicalize (sf_thread_id m)"
  "pget (canonical_object m) ''session_id'' = canonicalize (js_or (sf_session_id m) (JStr []))"
  "pget (canonical_object m) ''timestamp'' = canonicalize (sf_timestamp m)"
  "pget (canonical_object m) ''nonce'' = canonicalize (sf_nonce m)"
  "pget (canonical_object m) ''payload'' = canonicalize (sf_payload m)"
  "pget (canonical_object m) ''prev_message_hash'' = canonicalize (js_or (sf_prev_message_hash m) (JStr []))"
  "pget (canonical_object m) ''meta'' = canonicalize (js_or (sf_meta m) (JObj []))"
  "pget (canonical_object m) ''content_encoding'' = canonicalize (js_or (sf_content_encoding m) (JStr []))"
  unfolding canonical_object_def by (simp_all add: pget_canonicalize del: canonicalize.simps(7))

section \<open>Digests\<close>

text \<open>Documented of the primitives: HMAC-SHA256 and SHA-256 return 32 bytes.\<close>

definition digest_length :: "runtime \<Rightarrow> bool" where
  "digest_length rt \<longleftrightarrow> (\<forall>k d x. prim_hmac rt k d = Inr x \<longrightarrow> length x = 32)
     \<and> (\<forall>d x. prim_sha256 rt d = Inr x \<longrightarrow> length x = 32)"

lemma hmacSha256_Inr:
  "hmacSha256 rt input key = Inr h \<longleftrightarrow>
    (web_crypto rt \<or> node_crypto rt) \<and> (\<exists>d. prim_hmac rt (utf8 key) (utf8 input) = Inr d \<and> h = bufferToHex d)"
  by (auto simp: hmacSha256_def)

lemma signMessage_Inr:
  "signMessage rt m key = Inr h \<longleftrightarrow>
    (web_crypto rt \<or> node_crypto rt)
    \<and> (\<exists>d. prim_hmac rt (utf8 key) (utf8 (serializeCanonical m)) = Inr d \<and> h = bufferToHex d)"
  by (auto simp: signMessage_def Let_def)

lemma timingSafeEqual_hmac:
  assumes "length d = 32" and "length s < 2 ^ 32"
  shows "timingSafeEqual rt (bufferToHex d) s \<longleftrightarrow>
    (if node_crypto rt then to_lower s = bufferToHex d else s = bufferToHex d)"
  by (rule timingSafeEqual_digest) (use assms in simp_all)

lemma timingSafeEqual_sym_digest:
  assumes "length d = 32" and "length s < 2 ^ 32"
  shows "timingSafeEqual rt s (bufferToHex d) = timingSafeEqual rt (bufferToHex d) s"
proof -
  have "tse_loop s (bufferToHex d) = 0 \<longleftrightarrow> tse_loop (bufferToHex d) s = 0"
    using assms by (auto simp: tse_loop_zero_iff)
  then show ?thesis
    by (auto simp: timingSafeEqual_def Let_def)
qed

lemma verifySignature_iff:
  assumes "digest_length rt" and "length s < 2 ^ 32"
  shows "fst (verifySignature rt m s key) \<longleftrightarrow>
    (\<exists>h. signMessage rt m key = Inr h \<and> (if node_crypto rt then to_lower s = h else s = h))"
proof (cases "signMessage rt m key")
  case (Inr h)
  then obtain d where d: "h = bufferToHex d" "prim_hmac rt (utf8 key) (utf8 (serializeCanonical m)) = Inr d"
    by (auto simp: signMessage_Inr)
  then have "length d = 32" using assms(1) by (auto simp: digest_length_def)
  then show ?thesis
    using timingSafeEqual_hmac [OF _ assms(2)] by (simp add: verifySignature_def Inr d(1))
qed (simp add: verifySignature_def)

lemma signMessage_lower: "signMessage rt m key = Inr h \<Longrightarrow> to_lower h = h"
  by (auto simp: signMessage_Inr)

lemma signMessage_hex:
  "digest_length rt \<Longrightarrow> signMessage rt m key = Inr h \<Longrightarrow> length h = 64 \<and> list_all is_hex h"
  by (auto simp: signMessage_Inr digest_length_def bufferToHex_hex)

lemma hashEnvelope_hex:
  "digest_length rt \<Longrightarrow> hashEnvelope rt m = Inr h \<Longrightarrow> length h = 64 \<and> list_all is_hex h"
  by (auto simp: hashEnvelope_def digest_length_def Let_def bufferToHex_hex split: if_splits)

section \<open>ECDH key signatures\<close>

lemma verifyEcdhPublicKey_valid_iff:
  assumes "digest_length rt" and "length signature < 2 ^ 32"
  shows "verifyEcdhPublicKey rt now pk ent ts signature key maxAge = Inr (True, None) \<longleftrightarrow>
    - 5000 \<le> now - (if ts < 10 ^ 12 then ts * 1000 else ts)
    \<and> now - (if ts < 10 ^ 12 then ts * 1000 else ts) \<le> maxAge
    \<and> (\<exists>h. signEcdhPublicKey rt pk ent ts key = Inr h
         \<and> (if node_crypto rt then to_lower signature = h else signature = h))"
proof -
  have eq: "timingSafeEqual rt signature h \<longleftrightarrow>
      (if node_crypto rt then to_lower signature = h else signature = h)"
    if h: "signEcdhPublicKey rt pk ent ts key = Inr h" for h
  proof -
    obtain d where d: "h = bufferToHex d" "length d = 32"
      using h assms(1) by (auto simp: signEcdhPublicKey_def hmacSha256_Inr digest_length_def)
    then show ?thesis
      using timingSafeEqual_sym_digest [OF d(2) assms(2)] timingSafeEqual_hmac [OF d(2) assms(2)] by simp
  qed
  define ms where "ms = (if ts < 10 ^ 12 then ts * 1000 else ts)"
  show ?thesis
    unfolding verifyEcdhPublicKey_def Let_def signEcdhPublicKey_def [symmetric] ms_def [symmetric]
    using eq by (cases "signEcdhPublicKey rt pk ent ts key") (auto simp: not_less)
qed

section \<open>Key derivation\<close>

lemma hkdf_expand_length:
  assumes "digest_length rt" and "hkdf_expand rt prk info is t okm = Inr x"
  shows "length x = length okm + 32 * length is"
  using assms(2)
proof (induction "is" arbitrary: t okm)
  case (Cons i "is")
  then show ?case using assms(1) by (fastforce simp: digest_length_def)
qed simp

lemma hkdf_node_length:
  assumes "digest_length rt" and "\<not> web_crypto rt" and "hkdf rt secret salt info n = Inr k"
  shows "length k = 2 * n" and "list_all is_hex k" and "to_lower k = k"
proof -
  obtain okm prk where okm: "hkdf_expand rt prk (utf8 info) [0..<(n + 31) div 32] [] [] = Inr okm"
      "k = bufferToHex (take n okm)"
    using assms(2,3) by (auto simp: hkdf_def split: if_splits)
  have "length okm = 32 * ((n + 31) div 32)"
    using hkdf_expand_length [OF assms(1) okm(1)] by simp
  then have "n \<le> length okm" by simp
  then show "length k = 2 * n" by (simp add: okm(2))
qed (use assms in \<open>auto simp: hkdf_def bufferToHex_hex split: if_splits\<close>)

lemma trim_hex: "list_all is_hex s \<Longrightarrow> trim s = s"
proof -
  assume hex: "list_all is_hex s"
  have "dropWhile is_ws t = t" if "list_all is_hex t" for t
    using that is_hex_no_special(1) by (cases t) auto
  then show ?thesis using hex by (simp add: trim_def)
qed

lemma normalizeEncryptionKeyHex_id:
  assumes "list_all is_hex s" and "length s = 64" and "to_lower s = s"
  shows "normalizeEncryptionKeyHex s = Inr s"
proof -
  have "s \<noteq> []" using assms(2) by auto
  then show ?thesis
    using assms by (simp add: normalizeEncryptionKeyHex_def trim_hex)
qed

lemma normalizeEncryptionKeyHex_Inr:
  assumes "normalizeEncryptionKeyHex s = Inr k"
  shows "length k = 64" and "list_all is_hex k"
proof -
  have len: "length (trim s) \<ge> 64" and hex: "list_all is_hex (trim s)" and k: "k = to_lower (take 64 (trim s))"
    using assms by (auto simp: normalizeEncryptionKeyHex_def Let_def split: if_splits)
  show "length k = 64" using len by (simp add: k to_lower_def)
  have "is_hex (lower_char c)" if "is_hex c" for c
    using that by (simp add: is_hex_def)
  then show "list_all is_hex k"
    using hex by (auto simp: k to_lower_def list_all_iff dest: in_set_takeD)
qed

section \<open>Metadata encryption\<close>

text \<open>
  Documented of AES-256-GCM: under a 32-byte key, decryption with the same key and iv undoes
  encryption; the tag has 16 bytes and the ciphertext of a text that is not empty is not empty.
\<close>

definition gcm_inverse :: "runtime \<Rightarrow> bool" where
  "gcm_inverse rt \<longleftrightarrow> (\<forall>k i d c t. length k = 32 \<longrightarrow>
     prim_gcm_encrypt rt k i d = Inr (c, t) \<longrightarrow> prim_gcm_decrypt rt k i c t = Inr d)"

definition gcm_lengths :: "runtime \<Rightarrow> bool" where
  "gcm_lengths rt \<longleftrightarrow> (\<forall>k i d c t. prim_gcm_encrypt rt k i d = Inr (c, t) \<longrightarrow>
     length t = 16 \<and> (d \<noteq> [] \<longrightarrow> c \<noteq> []))"

lemma buffer_from_hex_all: "list_all is_hex s \<Longrightarrow> even (length s) \<Longrightarrow> 2 * length (buffer_from_hex s) = length s"
  by (induction s rule: buffer_from_hex.induct) (auto simp: is_hex_def)

lemma hex_pairs_buffer: "list_all is_hex s \<Longrightarrow> hex_pairs s = buffer_from_hex s"
  by (induction s rule: buffer_from_hex.induct)
    (auto simp: is_hex_def parse_int16_pair store_byte_def)

lemma decryptPayload_encryptPayload:
  assumes "gcm_inverse rt" and "encryptPayload rt ivb d key = Inr e"
  shows "decryptPayload rt (ciphertext e) key (iv e) (tag e) = Inr d"
proof -
  obtain k c t where k: "normalizeEncryptionKeyHex key = Inr k"
    and enc: "prim_gcm_encrypt rt (buffer_from_hex k) ivb d = Inr (c, t)"
    and e: "e = \<lparr>ciphertext = bufferToHex c, iv = bufferToHex ivb, tag = bufferToHex t\<rparr>"
    and env: "node_crypto rt \<or> web_crypto rt"
    using assms(2) by (auto simp: encryptPayload_def hexToBuffer_def hex_pairs_buffer
        normalizeEncryptionKeyHex_Inr split: if_splits)
  note n = normalizeEncryptionKeyHex_Inr [OF k]
  have "length (buffer_from_hex k) = 32"
    using buffer_from_hex_all [OF n(2)] n(1) by simp
  then have dec: "prim_gcm_decrypt rt (buffer_from_hex k) ivb c t = Inr d"
    using assms(1) enc by (auto simp: gcm_inverse_def)
  have "hexToBuffer k = Inr (buffer_from_hex k)"
    using n by (simp add: hexToBuffer_def hex_pairs_buffer)
  then show ?thesis
    using env dec by (auto simp: decryptPayload_def k e hexToBuffer_bufferToHex)
qed

lemma hex_no_colon: "CHR '':'' \<notin> set (bufferToHex bs)"
  using bufferToHex_hex [of bs] is_hex_no_special(6) by (auto simp: list_all_iff)

lemma decryptMetadata_encryptMetadata:
  assumes gcm: "gcm_inverse rt" and enc: "encryptMetadata rt ivb m key = Inr x"
    and ok: "json_ok (metadata_json m)" "truthy (md_thread_id m)" "truthy (md_session_id m)" "is_num (md_timestamp m)"
    and ne: "gcm_lengths rt" "ivb \<noteq> []"
  shows "decryptMetadata rt x key = Inr m"
proof -
  let ?txt = "json_text (metadata_json m)"
  obtain e where e: "encryptPayload rt ivb ?txt key = Inr e"
      "x = ciphertext e @ '':'' @ iv e @ '':'' @ tag e"
    using enc by (auto simp: encryptMetadata_def)
  have "?txt \<noteq> []" using text_start_json_text [OF ok(1)] by (auto simp: text_start_def)
  then obtain c t where ct: "e = \<lparr>ciphertext = bufferToHex c, iv = bufferToHex ivb, tag = bufferToHex t\<rparr>"
      "c \<noteq> []" "t \<noteq> []"
    using e(1) ne(1) by (fastforce simp: encryptPayload_def gcm_lengths_def split: if_splits)
  have ne': "bufferToHex b \<noteq> []" if "b \<noteq> []" for b
    using that by (cases b) (auto simp: bufferToHex_Cons)
  have "split_on CHR '':'' x = [ciphertext e, iv e, tag e]"
    using hex_no_colon by (simp add: e(2) ct(1) split_on_append split_on_no_sep)
  moreover have "decryptPayload rt (ciphertext e) key (iv e) (tag e) = Inr ?txt"
    by (rule decryptPayload_encryptPayload [OF gcm e(1)])
  moreover have "json_parse ?txt = Some (metadata_json m)"
    by (rule json_roundtrip [OF ok(1)])
  ultimately show ?thesis
    using ct ne(2) ne' ok(2,3,4) by (simp add: decryptMetadata_def metadata_json_def get_prop_def)
qed

end
