(* ===== verification/Crypto_Correct.thy ===== *)
theory Crypto_Correct
  imports Crypto
begin

text \<open>
  What the crypto module guarantees: coding round trips, the constant-time comparison, the
  canonical form, signatures, ECDH key signatures, session keys and metadata encryption. The
  hypotheses on the primitives are those named in \<open>Crypto\<close>; \<open>toy_runtime\<close> is a concrete runtime
  that satisfies all of them, at which the theorems are instantiated.
\<close>

section \<open>A concrete runtime\<close>

definition toy_digest :: "byte list \<Rightarrow> byte list" where
  "toy_digest bs = take 32 (bs @ replicate 32 0)"

definition toy_runtime :: "bool \<Rightarrow> bool \<Rightarrow> runtime" where
  "toy_runtime web node =
     \<lparr>web_crypto = web, node_crypto = node,
      prim_hmac = (\<lambda>k d. Inr (toy_digest (d @ k))),
      prim_sha256 = (\<lambda>d. Inr (toy_digest d)),
      prim_hkdf = (\<lambda>k s i n. Inr (take (n div 8) (k @ replicate (n div 8) 0))),
      prim_ecdh = (\<lambda>priv pub. Inr (map2 (+) priv pub)),
      prim_keygen = (\<lambda>seed. Inr ([word_of_nat seed], [word_of_nat seed])),
      prim_gcm_encrypt = (\<lambda>k i d. Inr (map (\<lambda>c. word_of_nat (of_char c)) d, replicate 16 0)),
      prim_gcm_decrypt = (\<lambda>k i c t. Inr (map (\<lambda>b. char_of (unat b)) c))\<rparr>"

lemma toy_runtime_sel [simp]:
  "web_crypto (toy_runtime w n) = w" "node_crypto (toy_runtime w n) = n"
  "prim_hmac (toy_runtime w n) k d = Inr (toy_digest (d @ k))"
  "prim_sha256 (toy_runtime w n) d = Inr (toy_digest d)"
  by (simp_all add: toy_runtime_def)

lemma length_toy_digest [simp]: "length (toy_digest bs) = 32"
  by (simp add: toy_digest_def)

lemma toy_digest_length: "digest_length (toy_runtime w n)"
  by (simp add: digest_length_def)

lemma char_of_unat_byte [simp]: "char_of (unat (word_of_nat (of_char c) :: byte)) = (c :: char)"
proof -
  have "(of_char c :: nat) < 256" by (rule nat_of_char_less_256)
  then have "unat (word_of_nat (of_char c) :: byte) = of_char c"
    by (simp add: unat_of_nat)
  then show ?thesis by simp
qed

lemma toy_gcm: "gcm_inverse (toy_runtime w n)" "gcm_lengths (toy_runtime w n)"
  by (auto simp: gcm_inverse_def gcm_lengths_def toy_runtime_def comp_def)

section \<open>UTF-8 is injective\<close>

lemma utf8_Cons: "utf8 (c # s) = utf8_char c @ utf8 s"
  by (simp add: utf8_def)

lemma unat_word_byte: "n < 256 \<Longrightarrow> unat (word_of_nat n :: byte) = n"
  by (simp add: unat_of_nat)

lemma word_byte_eq: "m < 256 \<Longrightarrow> n < 256 \<Longrightarrow> (word_of_nat m :: byte) = word_of_nat n \<longleftrightarrow> m = n"
  by (metis unat_word_byte)

lemma utf8_char_prefix_free:
  assumes "utf8_char a @ xs = utf8_char b @ ys"
  shows "a = b \<and> xs = ys"
proof -
  have lt: "(of_char a :: nat) < 256" "(of_char b :: nat) < 256"
    by (rule nat_of_char_less_256)+
  have dv: "(of_char c :: nat) div 64 < 4" for c :: char
    using nat_of_char_less_256 [of c] by (simp add: less_mult_imp_div_less)
  have "(of_char a :: nat) = of_char b \<and> xs = ys"
  proof (cases "(of_char a :: nat) < 128"; cases "(of_char b :: nat) < 128")
    assume "(of_char a :: nat) < 128" "(of_char b :: nat) < 128"
    then show ?thesis using assms by (simp add: utf8_char_def Let_def word_byte_eq del: of_char_eq_iff)
  next
    assume "(of_char a :: nat) < 128" "\<not> (of_char b :: nat) < 128"
    then have "(word_of_nat (of_char a) :: byte) = word_of_nat (192 + of_char b div 64)"
      using assms by (simp add: utf8_char_def Let_def)
    with \<open>(of_char a :: nat) < 128\<close> lt show ?thesis
      by (subst (asm) word_byte_eq) (auto intro: less_trans [OF dv])
  next
    assume "\<not> (of_char a :: nat) < 128" "(of_char b :: nat) < 128"
    then have "(word_of_nat (of_char b) :: byte) = word_of_nat (192 + of_char a div 64)"
      using assms by (simp add: utf8_char_def Let_def)
    with \<open>(of_char b :: nat) < 128\<close> lt show ?thesis
      by (subst (asm) word_byte_eq) (auto intro: less_trans [OF dv])
  next
    assume big: "\<not> (of_char a :: nat) < 128" "\<not> (of_char b :: nat) < 128"
    then have "(word_of_nat (192 + of_char a div 64) :: byte) = word_of_nat (192 + of_char b div 64)"
      "(word_of_nat (128 + of_char a mod 64) :: byte) = word_of_nat (128 + of_char b mod 64)" and "xs = ys"
      using assms by (simp_all add: utf8_char_def Let_def)
    moreover have "192 + (of_char c :: nat) div 64 < 256" "128 + (of_char c :: nat) mod 64 < 256" for c :: char
      using dv [of c] mod_less_divisor [of 64 "of_char c :: nat"] by linarith+
    ultimately have "(of_char a :: nat) div 64 = of_char b div 64" "(of_char a :: nat) mod 64 = of_char b mod 64"
      by (metis word_byte_eq add_left_cancel)+
    then show ?thesis using \<open>xs = ys\<close> by (metis div_mult_mod_eq)
  qed
  then show ?thesis by simp
qed

lemma utf8_inj: "utf8 s = utf8 t \<Longrightarrow> s = t"
proof (induction s arbitrary: t)
  case Nil
  then show ?case by (cases t) (auto simp: utf8_def utf8_char_def Let_def split: if_splits)
next
  case (Cons a s)
  then obtain b t' where t: "t = b # t'"
    by (cases t) (auto simp: utf8_def utf8_char_def Let_def split: if_splits)
  show ?case
    using Cons utf8_char_prefix_free [of a "utf8 s" b "utf8 t'"] by (auto simp: t utf8_Cons)
qed

section \<open>Coding and comparison\<close>

text \<open>Every byte string survives \<open>bufferToHex\<close> followed by either decoder, \<open>hexToBuffer\<close> (which
  does not throw on it) and Node's \<open>Buffer.from\<close>.\<close>

theorem hex_round_trip: "hexToBuffer (bufferToHex bs) = Inr bs \<and> buffer_from_hex (bufferToHex bs) = bs"
  by (simp add: hexToBuffer_bufferToHex)

text \<open>Without Node's \<open>timingSafeEqual\<close> the constant-time comparison of two strings that fit
  a 32-bit length decides their equality; with it, on the hexadecimal text of a digest, it decides
  equality up to letter case.\<close>

theorem timingSafeEqual_correct:
  assumes "length a < 2 ^ 32" and "length b < 2 ^ 32"
  shows "(\<not> node_crypto rt \<longrightarrow> timingSafeEqual rt a b = (a = b))
    \<and> (node_crypto rt \<and> a = bufferToHex bs \<longrightarrow> timingSafeEqual rt a b = (to_lower b = a))"
proof (intro conjI impI)
  show "timingSafeEqual rt a b = (a = b)" if "\<not> node_crypto rt"
    using assms that by (simp add: timingSafeEqual_def tse_loop_zero_iff)
  show "timingSafeEqual rt a b = (to_lower b = a)" if "node_crypto rt \<and> a = bufferToHex bs"
    using assms that timingSafeEqual_digest [of bs b rt] by simp
qed

theorem timingSafeEqual_correct_witness:
  "timingSafeEqual (toy_runtime True False) ''ab'' ''aB'' = False
   \<and> timingSafeEqual (toy_runtime False True) (bufferToHex [171]) ''Ab''"
proof -
  have "bufferToHex [171] = ''ab''" by code_simp
  moreover have "to_lower ''Ab'' = ''ab''" by code_simp
  ultimately show ?thesis
    using timingSafeEqual_correct [of "''ab''" "''aB''" "toy_runtime True False"]
      timingSafeEqual_correct [of "bufferToHex [171]" "''Ab''" "toy_runtime False True" "[171]"]
    by simp
qed

section \<open>Canonical form and signatures\<close>

text \<open>Two payloads that differ only in the order of object properties, at any depth, have the
  same canonical form, so the order in which a peer's JSON library writes keys never matters.\<close>

theorem canonicalize_order_independent: "same_data v w \<Longrightarrow> canonicalize v = canonicalize w"
  by (rule canonicalize_same_data)

theorem canonicalize_order_independent_witness:
  "canonicalize (JObj [(''b'', JNum 1), (''a'', JArr [JNull])])
   = canonicalize (JObj [(''a'', JArr [JNull]), (''b'', JNum 1)])"
  by (rule canonicalize_order_independent, rule sd_obj [of _ "[(''b'', JNum 1), (''a'', JArr [JNull])]"])
    (auto intro: sd_refl)

text \<open>C12: with digests of 32 bytes and for texts shorter than \<open>2 ^ 32\<close>, a signature is accepted exactly when it
  is the one \<open>signMessage\<close> computes for the same fields and key, under the crypto of Node up to the letter
  case of its hex digits; in particular every produced signature is accepted.\<close>

theorem verifySignature_correct:
  assumes "digest_length rt" and "length s < 2 ^ 32"
  shows "(fst (verifySignature rt m s key) \<longleftrightarrow>
      (\<exists>h. signMessage rt m key = Inr h \<and> (if node_crypto rt then to_lower s = h else s = h)))
    \<and> (signMessage rt m key = Inr s \<longrightarrow> verifySignature rt m s key = (True, None))"
proof (intro conjI impI)
  show iff: "fst (verifySignature rt m s key) \<longleftrightarrow>
    (\<exists>h. signMessage rt m key = Inr h \<and> (if node_crypto rt then to_lower s = h else s = h))"
    by (rule verifySignature_iff [OF assms])
  assume sig: "signMessage rt m key = Inr s"
  then have "fst (verifySignature rt m s key)"
    unfolding iff by (simp add: signMessage_lower)
  then show "verifySignature rt m s key = (True, None)"
    by (simp add: verifySignature_def sig)
qed

definition toy_fields :: "jsval \<Rightarrow> signed_fields" where
  "toy_fields p = \<lparr>sf_type = JStr ''state_update'', sf_thread_id = JStr ''t'', sf_session_id = JStr ''s'',
     sf_timestamp = JNum 1, sf_nonce = JStr ''n'', sf_payload = p, sf_prev_message_hash = JUndef,
     sf_meta = JUndef, sf_content_encoding = JUndef\<rparr>"

theorem verifySignature_correct_witness:
  "\<exists>s. signMessage (toy_runtime True False) (toy_fields JNull) ''k'' = Inr s
    \<and> verifySignature (toy_runtime True False) (toy_fields JNull) s ''k'' = (True, None)"
proof -
  let ?s = "bufferToHex (toy_digest (utf8 (serializeCanonical (toy_fields JNull)) @ utf8 ''k''))"
  have "signMessage (toy_runtime True False) (toy_fields JNull) ''k'' = Inr ?s"
    by (simp add: signMessage_Inr)
  then show ?thesis
    using verifySignature_correct [of "toy_runtime True False" ?s "toy_fields JNull" "''k''"] toy_digest_length
    by simp
qed

text \<open>C13: the signature binds the message. If a signature made for \<open>m\<close> is accepted for \<open>m'\<close> under
  the same key, then all nine signed fields have the same canonical forms, unless HMAC under that key
  maps the two different serialisations to one digest.\<close>

theorem signature_binds_fields:
  assumes "digest_length rt" and "clean_fields m" and "clean_fields m'"
    and "signMessage rt m key = Inr s" and "fst (verifySignature rt m' s key)"
  shows "(serializeCanonical m \<noteq> serializeCanonical m' \<and>
      prim_hmac rt (utf8 key) (utf8 (serializeCanonical m)) = prim_hmac rt (utf8 key) (utf8 (serializeCanonical m')))
    \<or> canonicalize (sf_type m) = canonicalize (sf_type m')
      \<and> canonicalize (sf_thread_id m) = canonicalize (sf_thread_id m')
      \<and> canonicalize (js_or (sf_session_id m) (JStr [])) = canonicalize (js_or (sf_session_id m') (JStr []))
      \<and> canonicalize (sf_timestamp m) = canonicalize (sf_timestamp m')
      \<and> canonicalize (sf_nonce m) = canonicalize (sf_nonce m')
      \<and> canonicalize (sf_payload m) = canonicalize (sf_payload m')
      \<and> canonicalize (js_or (sf_prev_message_hash m) (JStr [])) = canonicalize (js_or (sf_prev_message_hash m') (JStr []))
      \<and> canonicalize (js_or (sf_meta m) (JObj [])) = canonicalize (js_or (sf_meta m') (JObj []))
      \<and> canonicalize (js_or (sf_content_encoding m) (JStr []))
          = canonicalize (js_or (sf_content_encoding m') (JStr []))"
proof -
  have len: "length s < 2 ^ 32" using signMessage_hex [OF assms(1,4)] by simp
  obtain h where h: "signMessage rt m' key = Inr h" "to_lower s = h \<or> s = h"
    using assms(5) verifySignature_iff [OF assms(1) len] by (auto split: if_splits)
  then have sig: "signMessage rt m' key = Inr s" using signMessage_lower [OF assms(4)] by auto
  obtain d where d: "prim_hmac rt (utf8 key) (utf8 (serializeCanonical m)) = Inr d" "s = bufferToHex d"
    using assms(4) by (auto simp: signMessage_Inr)
  then have d': "prim_hmac rt (utf8 key) (utf8 (serializeCanonical m')) = Inr d"
    using sig by (auto simp: signMessage_Inr)
  show ?thesis
  proof (cases "utf8 (serializeCanonical m) = utf8 (serializeCanonical m')")
    case True
    then have "canonical_object m = canonical_object m'"
      by (intro serializeCanonical_inj assms utf8_inj)
    then show ?thesis
      using canonical_object_fields [of m] canonical_object_fields [of m'] by simp
  qed (use d d' in auto)
qed

theorem signature_binds_fields_witness:
  "\<exists>s. signMessage (toy_runtime True False) (toy_fields (JObj [(''b'', JNull), (''a'', JNull)])) ''k'' = Inr s
     \<and> fst (verifySignature (toy_runtime True False) (toy_fields (JObj [(''a'', JNull), (''b'', JNull)])) s ''k'')
     \<and> canonicalize (JObj [(''b'', JNull), (''a'', JNull)]) = canonicalize (JObj [(''a'', JNull), (''b'', JNull)])"
proof -
  let ?rt = "toy_runtime True False"
  let ?m = "toy_fields (JObj [(''b'', JNull), (''a'', JNull)])" and ?m' = "toy_fields (JObj [(''a'', JNull), (''b'', JNull)])"
  let ?s = "bufferToHex (toy_digest (utf8 (serializeCanonical ?m) @ utf8 ''k''))"
  have clean: "clean_fields ?m" "clean_fields ?m'"
    using fl_int [of 1] by (simp_all add: clean_fields_def toy_fields_def js_or_def)
  have ser: "serializeCanonical ?m = serializeCanonical ?m'"
    by code_simp
  have sig: "signMessage ?rt ?m ''k'' = Inr ?s" "signMessage ?rt ?m' ''k'' = Inr ?s"
    by (simp_all add: signMessage_Inr ser)
  have ver: "fst (verifySignature ?rt ?m' ?s ''k'')"
    using verifySignature_iff [of ?rt ?s ?m' "''k''"] toy_digest_length sig(2) by simp
  show ?thesis
    using signature_binds_fields [OF toy_digest_length clean sig(1) ver] sig(1) ver ser
    by (auto simp: toy_fields_def)
qed

text \<open>The one gap of the canonical form. A property named \<open>__proto__\<close>, which \<open>JSON.parse\<close>
  creates as an own property, is dropped by \<open>canonicalize\<close>, so it can be added to a signed payload
  without changing the signature or the hash commitment.\<close>

theorem proto_key_not_signed:
  "let m' = m\<lparr>sf_payload := JObj ((''__proto__'', v) # kvs)\<rparr>; m0 = m\<lparr>sf_payload := JObj kvs\<rparr>
   in signMessage rt m' key = signMessage rt m0 key
      \<and> verifySignature rt m' s key = verifySignature rt m0 s key
      \<and> hashEnvelope rt m' = hashEnvelope rt m0"
proof -
  let ?p = "JObj ((''__proto__'', v) # kvs)"
  have obj: "canonical_object (m\<lparr>sf_payload := ?p\<rparr>) = canonical_object (m\<lparr>sf_payload := JObj kvs\<rparr>)"
    "canonical_object (m\<lparr>sf_payload := ?p, sf_meta := JUndef, sf_content_encoding := JUndef\<rparr>)
      = canonical_object (m\<lparr>sf_payload := JObj kvs, sf_meta := JUndef, sf_content_encoding := JUndef\<rparr>)"
    using canonicalize_proto [of v kvs] by (simp_all add: canonical_object_def)
  show ?thesis
    by (simp only: Let_def signMessage_def verifySignature_def hashEnvelope_def serializeCanonical_def obj simp_thms)
qed

section \<open>Key agreement\<close>

text \<open>An ECDH public key is accepted exactly when its signature is the one the owner makes for
  that key, entity and timestamp and the timestamp (scaled from seconds when it is below 10^12) is at
  most \<open>maxAge\<close> old and at most five seconds ahead.\<close>

theorem verifyEcdhPublicKey_correct:
  assumes "digest_length rt" and "length signature < 2 ^ 32"
  shows "verifyEcdhPublicKey rt now pk ent ts signature key maxAge = Inr (True, None) \<longleftrightarrow>
    - 5000 \<le> now - (if ts < 10 ^ 12 then ts * 1000 else ts)
    \<and> now - (if ts < 10 ^ 12 then ts * 1000 else ts) \<le> maxAge
    \<and> (\<exists>h. signEcdhPublicKey rt pk ent ts key = Inr h
         \<and> (if node_crypto rt then to_lower signature = h else signature = h))"
  by (rule verifyEcdhPublicKey_valid_iff [OF assms])

theorem verifyEcdhPublicKey_correct_witness:
  "\<exists>s. signEcdhPublicKey (toy_runtime True False) ''pk'' ''me'' (10 ^ 12) ''k'' = Inr s
     \<and> verifyEcdhPublicKey (toy_runtime True False) (10 ^ 12 + 7) ''pk'' ''me'' (10 ^ 12) s ''k'' 300000 = Inr (True, None)"
proof -
  let ?s = "bufferToHex (toy_digest (utf8 (''pk'' @ '':'' @ ''me'' @ '':'' @ num_str (10 ^ 12)) @ utf8 ''k''))"
  have "signEcdhPublicKey (toy_runtime True False) ''pk'' ''me'' (10 ^ 12) ''k'' = Inr ?s"
    by (simp only: signEcdhPublicKey_def hmacSha256_Inr toy_runtime_sel) blast
  then show ?thesis
    using verifyEcdhPublicKey_correct [of "toy_runtime True False" ?s "10 ^ 12 + 7" "''pk''" "''me''" "10 ^ 12" "''k''" 300000]
      toy_digest_length by auto
qed

text \<open>The session keys that HKDF derives under Node are usable as they are: the encryption and
  MAC keys are 64 lower-case hexadecimal digits, the iv key is 32, and \<open>normalizeEncryptionKeyHex\<close>
  accepts the encryption key unchanged.\<close>

theorem deriveSessionKeys_usable:
  assumes "digest_length rt" and "\<not> web_crypto rt" and "deriveSessionKeys rt secret sid = Inr ks"
  shows "length (sk_encryptionKey ks) = 64 \<and> length (sk_macKey ks) = 64 \<and> length (sk_ivKey ks) = 32
    \<and> normalizeEncryptionKeyHex (sk_encryptionKey ks) = Inr (sk_encryptionKey ks)"
proof -
  let ?salt = "''ltp-v0.5-'' @ sid"
  have "hkdf rt secret ?salt ''ltp-encryption-key'' 32 = Inr (sk_encryptionKey ks)"
    "hkdf rt secret ?salt ''ltp-mac-key'' 32 = Inr (sk_macKey ks)"
    "hkdf rt secret ?salt ''ltp-iv-key'' 16 = Inr (sk_ivKey ks)"
    using assms(3) by (auto simp: deriveSessionKeys_def Let_def)
  note len = this [THEN hkdf_node_length(1) [OF assms(1,2)]] and k = hkdf_node_length [OF assms(1,2) this(1)]
  show ?thesis
    using len normalizeEncryptionKeyHex_id [OF k(2) _ k(3)] by simp
qed

theorem deriveSessionKeys_usable_witness:
  "\<exists>ks. deriveSessionKeys (toy_runtime False True) ''0a'' ''s'' = Inr ks
     \<and> normalizeEncryptionKeyHex (sk_encryptionKey ks) = Inr (sk_encryptionKey ks)"
proof -
  have "\<exists>x. hkdf (toy_runtime False True) ''0a'' s i n = Inr x" for s i n
  proof -
    have "\<exists>x. hkdf_expand (toy_runtime False True) p inf is t okm = Inr x" for p inf "is" t okm
      by (induction "is" arbitrary: t okm) auto
    then show ?thesis by (auto simp: hkdf_def)
  qed
  then obtain ks where "deriveSessionKeys (toy_runtime False True) ''0a'' ''s'' = Inr ks"
    by (simp only: deriveSessionKeys_def Let_def bindr_Inr_iff) metis
  then show ?thesis
    using deriveSessionKeys_usable [OF toy_digest_length, of False True "''0a''" "''s''" ks] by auto
qed

section \<open>Metadata encryption\<close>

text \<open>Encrypted metadata decrypts to itself. For thread and session ids that are not empty and
  a numeric timestamp, \<open>decryptMetadata\<close> returns what \<open>encryptMetadata\<close> was given, with the same
  key, in the browser and under Node.\<close>

theorem metadata_round_trip:
  assumes "gcm_inverse rt" and "gcm_lengths rt" and "ivb \<noteq> []"
    and "encryptMetadata rt ivb m key = Inr x" and "json_ok (metadata_json m)"
    and "truthy (md_thread_id m)" and "truthy (md_session_id m)" and "is_num (md_timestamp m)"
  shows "decryptMetadata rt x key = Inr m"
  using assms by (intro decryptMetadata_encryptMetadata)

definition toy_metadata :: metadata where
  "toy_metadata = \<lparr>md_thread_id = JStr ''t'', md_session_id = JStr ''s'', md_timestamp = JNum (of_int 5)\<rparr>"

theorem metadata_round_trip_witness:
  "\<exists>x. encryptMetadata (toy_runtime True False) [1] toy_metadata (replicate 64 CHR ''a'') = Inr x
     \<and> decryptMetadata (toy_runtime True False) x (replicate 64 CHR ''a'') = Inr toy_metadata"
proof -
  let ?k = "replicate 64 CHR ''a''"
  have "normalizeEncryptionKeyHex ?k = Inr ?k" by code_simp
  then have "\<exists>x. encryptMetadata (toy_runtime True False) [1] toy_metadata ?k = Inr x"
    by (auto simp: encryptMetadata_def encryptPayload_def toy_runtime_def hexToBuffer_def)
  then obtain x where x: "encryptMetadata (toy_runtime True False) [1] toy_metadata ?k = Inr x" ..
  have "json_ok (metadata_json toy_metadata)"
    using fl_int [of 5]
    by (simp add: metadata_json_def toy_metadata_def obj_ordered_def spread_def array_index_def is_digit_def)
  then show ?thesis
    using metadata_round_trip [OF toy_gcm, of "[1]" True False toy_metadata ?k x] x
    by (auto simp: toy_metadata_def)
qed

end
