(* ===== verification/Frames.thy ===== *)
theory Frames
  imports JS_Number
begin

text \<open>
  The frames of LTP v0.1 as the SDK checks them: the frozen protocol surface
  (\<open>sdk/js/src/frames/protocolSurface.v0.1.ts\<close>) and the schema of the six frame types
  (\<open>sdk/js/src/frames/frameSchema.ts\<close>). A frame is an arbitrary JavaScript value until a check has
  accepted it.
\<close>

section \<open>Protocol surface\<close>

definition LTP_VERSION :: string where
  "LTP_VERSION = ''0.1''"

definition FRAME_TYPES_V0_1 :: "string list" where
  "FRAME_TYPES_V0_1 = [''hello'', ''heartbeat'', ''orientation'', ''route_request'', ''route_response'', ''focus_snapshot'']"

definition isKnownFrameType :: "string \<Rightarrow> bool" where
  "isKnownFrameType t = (t \<in> set FRAME_TYPES_V0_1)"

text \<open>\<open>assertFrameV0_1\<close> returns the list of errors; the empty list is \<open>{ ok: true }\<close>.\<close>

definition blank_str :: "jsval \<Rightarrow> bool" where
  "blank_str v = (case v of JStr s \<Rightarrow> trim s = [] | _ \<Rightarrow> True)"

definition assertFrameV0_1 :: "jsval \<Rightarrow> string list" where
  "assertFrameV0_1 frame =
     (if \<not> is_object frame then [''frame must be an object'']
      else
        (if pget frame ''v'' \<noteq> JStr LTP_VERSION then [''version must be '' @ LTP_VERSION] else [])
        @ (if \<not> is_str (pget frame ''id'') \<or> blank_str (pget frame ''id'')
           then [''id must be a non-empty string''] else [])
        @ (if \<not> is_num (pget frame ''ts'') then [''ts must be a number''] else [])
        @ (case pget frame ''type'' of
             JStr t \<Rightarrow> if isKnownFrameType t then []
                      else [''type must be one of: '' @ js_join '', '' FRAME_TYPES_V0_1]
           | _ \<Rightarrow> [''type must be a string''])
        @ (if \<not> has_prop frame ''payload'' then [''payload is required'']
           else if \<not> is_object (pget frame ''payload'') then [''payload must be an object''] else []))"

record route_branch =
  rb_name :: jsval
  rb_confidence :: rat
  rb_path :: "jsval list"
  rb_rationale :: jsval

text \<open>The filter and the projection of one branch; \<open>None\<close> is filtered out.\<close>

definition branch_fields :: "jsval \<Rightarrow> (rat \<times> jsval list \<times> jsval) option" where
  "branch_fields branch =
     (if is_object branch then
        (case (pget branch ''path'', pget branch ''confidence'') of
           (JArr p, JNum c) \<Rightarrow> Some (c, p, pget branch ''rationale'')
         | _ \<Rightarrow> None)
      else None)"

definition elem_at :: "jsval list \<Rightarrow> nat \<Rightarrow> jsval" where
  "elem_at xs i = (if i < length xs then xs ! i else JUndef)"

definition normalizeRouteBranches :: "jsval \<Rightarrow> route_branch list" where
  "normalizeRouteBranches branches =
     (if \<not> truthy branches then []
      else case branches of
        JArr bs \<Rightarrow>
          map (\<lambda>(index, c, p, r).
                 \<lparr>rb_name = coalesce (elem_at p 0) (JStr (''branch-'' @ nat_str (index + 1))),
                  rb_confidence = c, rb_path = p, rb_rationale = r\<rparr>)
              (enumerate 0 (List.map_filter branch_fields bs))
      | JObj kvs \<Rightarrow>
          List.map_filter (\<lambda>(name, b).
              map_option (\<lambda>(c, p, r). \<lparr>rb_name = JStr name, rb_confidence = c, rb_path = p, rb_rationale = r\<rparr>)
                (branch_fields b)) kvs
      | _ \<Rightarrow> [])"

section \<open>Frame schema\<close>

definition isStringArray :: "jsval \<Rightarrow> bool" where
  "isStringArray v = (case v of JArr xs \<Rightarrow> list_all is_str xs | _ \<Rightarrow> False)"

fun object_values :: "jsval \<Rightarrow> jsval list" where
  "object_values (JObj kvs) = map snd kvs"
| "object_values (JArr xs) = xs"
| "object_values _ = []"

definition toBranchArray :: "jsval \<Rightarrow> jsval list" where
  "toBranchArray branches =
     (case branches of JArr bs \<Rightarrow> bs | _ \<Rightarrow> filter (\<lambda>b. \<not> nullish b) (object_values branches))"

definition isHelloPayload :: "jsval \<Rightarrow> bool" where
  "isHelloPayload payload = (is_object payload
     \<and> (pget payload ''role'' = JStr ''client'' \<or> pget payload ''role'' = JStr ''server'')
     \<and> (case pget payload ''message'' of JStr s \<Rightarrow> length s > 0 | _ \<Rightarrow> False))"

definition optional_str :: "jsval \<Rightarrow> string \<Rightarrow> bool" where
  "optional_str v k = (has_prop v k \<longrightarrow> is_str (pget v k))"

definition isHeartbeatPayload :: "jsval \<Rightarrow> bool" where
  "isHeartbeatPayload payload = (is_object payload
     \<and> (case pget payload ''seq'' of JNum n \<Rightarrow> optional_str payload ''status'' \<and> n \<ge> 0 | _ \<Rightarrow> False))"

definition isOrientationPayload :: "jsval \<Rightarrow> bool" where
  "isOrientationPayload payload = (is_object payload \<and> is_str (pget payload ''origin'')
     \<and> is_str (pget payload ''destination'') \<and> is_str (pget payload ''mode''))"

definition isRouteBranch :: "jsval \<Rightarrow> bool" where
  "isRouteBranch v = (is_object v \<and> isStringArray (pget v ''path'') \<and> pget v ''path'' \<noteq> JArr []
     \<and> (case pget v ''confidence'' of JNum c \<Rightarrow> \<not> (c < 0 \<or> c > 1) | _ \<Rightarrow> False)
     \<and> optional_str v ''rationale'')"

definition isRouteResponsePayload :: "jsval \<Rightarrow> bool" where
  "isRouteResponsePayload payload =
     (is_object payload
      \<and> (let branches = pget payload ''branches'';
             hasArrayBranches = (case branches of JArr bs \<Rightarrow> list_all isRouteBranch bs | _ \<Rightarrow> False);
             hasMapBranches = (is_object branches \<and> list_all isRouteBranch (object_values branches))
         in hasArrayBranches \<or> hasMapBranches)
      \<and> (has_prop payload ''selection'' \<and> pget payload ''selection'' \<noteq> JUndef
           \<longrightarrow> is_str (pget payload ''selection'')))"

definition isRouteRequestPayload :: "jsval \<Rightarrow> bool" where
  "isRouteRequestPayload payload = (is_object payload \<and> is_str (pget payload ''goal'')
     \<and> (pget payload ''context'' = JUndef \<or> isStringArray (pget payload ''context'')))"

definition isFocusSnapshotPayload :: "jsval \<Rightarrow> bool" where
  "isFocusSnapshotPayload payload = (is_object payload \<and> is_str (pget payload ''focus'')
     \<and> (case pget payload ''signal'' of JNum n \<Rightarrow> \<not> (n < 0 \<or> n > 1) | _ \<Rightarrow> False)
     \<and> optional_str payload ''rationale'')"

definition payload_check :: "string \<Rightarrow> jsval \<Rightarrow> bool" where
  "payload_check t p =
     (if t = ''hello'' then isHelloPayload p
      else if t = ''heartbeat'' then isHeartbeatPayload p
      else if t = ''orientation'' then isOrientationPayload p
      else if t = ''route_request'' then isRouteRequestPayload p
      else if t = ''route_response'' then isRouteResponsePayload p
      else if t = ''focus_snapshot'' then isFocusSnapshotPayload p
      else False)"

definition isLTPFrame :: "jsval \<Rightarrow> bool" where
  "isLTPFrame frame = (is_object frame \<and> pget frame ''v'' = JStr LTP_VERSION
     \<and> (case pget frame ''id'' of JStr s \<Rightarrow> length s > 0 | _ \<Rightarrow> False)
     \<and> is_num (pget frame ''ts'')
     \<and> (case pget frame ''type'' of
          JStr t \<Rightarrow> has_prop frame ''payload'' \<and> isKnownFrameType t \<and> payload_check t (pget frame ''payload'')
        | _ \<Rightarrow> False))"

definition validateFrameOrThrow :: "jsval \<Rightarrow> unit result" where
  "validateFrameOrThrow frame = (if isLTPFrame frame then Inr () else Inl ''Invalid LTP frame'')"

section \<open>Lemmas\<close>

lemmas payload_defs = isHelloPayload_def isHeartbeatPayload_def isOrientationPayload_def
  isRouteRequestPayload_def isRouteResponsePayload_def isFocusSnapshotPayload_def

lemma payload_check_object: "payload_check t p \<Longrightarrow> is_object p"
  by (auto simp: payload_check_def payload_defs split: if_splits)

lemma payload_check_known: "payload_check t p \<Longrightarrow> isKnownFrameType t"
  by (auto simp: payload_check_def isKnownFrameType_def FRAME_TYPES_V0_1_def split: if_splits)

lemma isLTPFrame_parts:
  assumes "isLTPFrame f"
  obtains i n t where "is_object f" "pget f ''v'' = JStr LTP_VERSION" "pget f ''id'' = JStr i" "i \<noteq> []"
    "pget f ''ts'' = JNum n" "pget f ''type'' = JStr t" "has_prop f ''payload''" "isKnownFrameType t"
    "payload_check t (pget f ''payload'')"
  using assms by (auto simp: isLTPFrame_def elim!: is_num.elims(2) split: jsval.splits)

lemma branch_fields_route_branch:
  assumes "isRouteBranch b"
  obtains c p r where "branch_fields b = Some (c, p, r)" "p \<noteq> []" "list_all is_str p" "0 \<le> c" "c \<le> 1"
    "pget b ''path'' = JArr p" "pget b ''confidence'' = JNum c"
  using assms by (auto simp: isRouteBranch_def isStringArray_def branch_fields_def split: jsval.splits)

lemma route_branch_bounds:
  "isRouteBranch v \<Longrightarrow> pget v ''confidence'' = JNum c \<Longrightarrow> pget v ''path'' = JArr p \<Longrightarrow>
    0 \<le> c \<and> c \<le> 1 \<and> p \<noteq> [] \<and> list_all is_str p"
  by (simp add: isRouteBranch_def isStringArray_def)

lemma map_filter_all_Some:
  "\<forall>x \<in> set xs. f x \<noteq> None \<Longrightarrow> List.map_filter f xs = map (the \<circ> f) xs"
  by (induction xs) (auto simp: List.map_filter_def)

text \<open>The branches of an accepted response, however they are encoded.\<close>

lemma route_response_branches:
  assumes "isRouteResponsePayload p"
  shows "is_object (pget p ''branches'') \<and> list_all isRouteBranch (object_values (pget p ''branches''))"
  using assms by (auto simp: isRouteResponsePayload_def Let_def split: jsval.splits)

lemma normalize_keeps_branches:
  assumes "is_object bs" and "list_all isRouteBranch (object_values bs)"
  shows "map (\<lambda>b. (JNum (rb_confidence b), JArr (rb_path b))) (normalizeRouteBranches bs)
    = map (\<lambda>b. (pget b ''confidence'', pget b ''path'')) (object_values bs)"
proof -
  have fields: "\<exists>c q r. branch_fields b = Some (c, q, r) \<and> pget b ''confidence'' = JNum c \<and> pget b ''path'' = JArr q"
    if "isRouteBranch b" for b
    using branch_fields_route_branch [OF that] by metis
  consider (arr) xs where "bs = JArr xs" | (obj) kvs where "bs = JObj kvs"
    using assms(1) by (cases bs) auto
  then show ?thesis
  proof cases
    case arr
    have all: "\<forall>b \<in> set xs. branch_fields b \<noteq> None"
      using assms(2) fields by (fastforce simp: arr list_all_iff)
    have "map (\<lambda>(i, c, q, r). (JNum c, JArr q)) (enumerate n (map (the \<circ> branch_fields) xs))
        = map (\<lambda>b. (pget b ''confidence'', pget b ''path'')) xs" for n
      using assms(2) unfolding arr object_values.simps
    proof (induction xs arbitrary: n)
      case (Cons b xs)
      then show ?case using fields [of b] by auto
    qed simp
    from this [of 0] show ?thesis
      by (simp add: arr normalizeRouteBranches_def map_filter_all_Some [OF all] comp_def case_prod_unfold)
  next
    case obj
    show ?thesis
      using assms(2) unfolding obj object_values.simps
    proof (induction kvs)
      case (Cons kv kvs)
      obtain k b where kv: "kv = (k, b)" by (cases kv)
      obtain c q r where "branch_fields b = Some (c, q, r)" "pget b ''confidence'' = JNum c" "pget b ''path'' = JArr q"
        using Cons.prems fields [of b] by (auto simp: kv)
      with Cons show ?case
        by (simp add: kv normalizeRouteBranches_def List.map_filter_def)
    qed (simp add: normalizeRouteBranches_def List.map_filter_def)
  qed
qed

section \<open>The two checks and the branch readers agree\<close>

text \<open>The schema check implies the surface check except for identifiers of white space: on a
  frame that \<open>isLTPFrame\<close> accepts, \<open>assertFrameV0_1\<close> reports nothing, or exactly the identifier when
  that trims to the empty string.\<close>

theorem schema_implies_surface:
  assumes "isLTPFrame f"
  shows "assertFrameV0_1 f = (if blank_str (pget f ''id'') then [''id must be a non-empty string''] else [])"
proof -
  obtain i n t where "is_object f" "pget f ''v'' = JStr LTP_VERSION" "pget f ''id'' = JStr i"
    "pget f ''ts'' = JNum n" "pget f ''type'' = JStr t" "has_prop f ''payload''" "isKnownFrameType t"
    "payload_check t (pget f ''payload'')"
    using isLTPFrame_parts [OF assms] by metis
  then show ?thesis
    by (simp add: assertFrameV0_1_def payload_check_object)
qed

definition sample_response :: "string \<Rightarrow> jsval" where
  "sample_response i = JObj [(''v'', JStr ''0.1''), (''id'', JStr i), (''ts'', JNum 1), (''type'', JStr ''route_response''),
     (''payload'', JObj [(''branches'', JObj [(''primary'', JObj [(''path'', JArr [JStr ''a'']), (''confidence'', JNum 1)])])])]"

lemma sample_response_ok: "i \<noteq> [] \<Longrightarrow> isLTPFrame (sample_response i)"
  by (simp add: sample_response_def isLTPFrame_def LTP_VERSION_def has_prop_def isKnownFrameType_def
      FRAME_TYPES_V0_1_def payload_check_def isRouteResponsePayload_def isRouteBranch_def isStringArray_def
      optional_str_def)

theorem schema_implies_surface_witness:
  "isLTPFrame (sample_response ''  '') \<and> assertFrameV0_1 (sample_response ''  '') = [''id must be a non-empty string'']
   \<and> assertFrameV0_1 (sample_response ''x'') = []"
proof -
  have "blank_str (pget (sample_response ''  '') ''id'')" "\<not> blank_str (pget (sample_response ''x'') ''id'')"
    by code_simp+
  then show ?thesis
    using schema_implies_surface [OF sample_response_ok [of "''  ''"]]
      schema_implies_surface [OF sample_response_ok [of "''x''"]] sample_response_ok [of "''  ''"]
    by simp
qed

text \<open>C14: no branch of an accepted route response is lost or altered by either reader. The array
  form and the map form give the same list through \<open>toBranchArray\<close>, and \<open>normalizeRouteBranches\<close> keeps
  the confidence, between 0 and 1, and the path, a list of strings that is not empty, of each.\<close>

theorem accepted_branches_survive:
  assumes "isLTPFrame f" and "pget f ''type'' = JStr ''route_response''"
    and "bs = pget (pget f ''payload'') ''branches''"
  shows "toBranchArray bs = object_values bs
    \<and> map (\<lambda>b. (JNum (rb_confidence b), JArr (rb_path b))) (normalizeRouteBranches bs)
        = map (\<lambda>b. (pget b ''confidence'', pget b ''path'')) (object_values bs)
    \<and> (\<forall>b \<in> set (normalizeRouteBranches bs).
         0 \<le> rb_confidence b \<and> rb_confidence b \<le> 1 \<and> rb_path b \<noteq> [] \<and> list_all is_str (rb_path b))"
proof -
  have "isRouteResponsePayload (pget f ''payload'')"
    using assms(1,2) by (simp add: isLTPFrame_def payload_check_def)
  note r = route_response_branches [OF this, folded assms(3)]
  note keep = normalize_keeps_branches [OF conjunct1 [OF r] conjunct2 [OF r]]
  have "\<not> nullish b" if "isRouteBranch b" for b
    using that by (cases b) (auto simp: isRouteBranch_def)
  then have "toBranchArray bs = object_values bs"
    using r by (cases bs) (auto simp: toBranchArray_def list_all_iff filter_id_conv)
  moreover have "0 \<le> rb_confidence b \<and> rb_confidence b \<le> 1 \<and> rb_path b \<noteq> [] \<and> list_all is_str (rb_path b)"
    if b: "b \<in> set (normalizeRouteBranches bs)" for b
  proof -
    have "(JNum (rb_confidence b), JArr (rb_path b)) \<in> set (map (\<lambda>b. (pget b ''confidence'', pget b ''path'')) (object_values bs))"
      unfolding keep [symmetric] using b by auto
    then obtain v where "isRouteBranch v" "pget v ''confidence'' = JNum (rb_confidence b)" "pget v ''path'' = JArr (rb_path b)"
      using r by (auto simp: list_all_iff)
    then show ?thesis by (rule route_branch_bounds)
  qed
  ultimately show ?thesis using keep by blast
qed

theorem accepted_branches_survive_witness:
  "isLTPFrame (sample_response ''x'') \<and> length (normalizeRouteBranches (pget (pget (sample_response ''x'') ''payload'') ''branches'')) = 1"
proof -
  let ?bs = "pget (pget (sample_response ''x'') ''payload'') ''branches''"
  have "length (map (\<lambda>b. (JNum (rb_confidence b), JArr (rb_path b))) (normalizeRouteBranches ?bs)) = length (object_values ?bs)"
  proof -
    have t: "pget (sample_response ''x'') ''type'' = JStr ''route_response''" by (simp add: sample_response_def)
    have "''x'' \<noteq> []" by simp
    from arg_cong [OF conjunct1 [OF conjunct2 [OF accepted_branches_survive [OF sample_response_ok [OF this] t refl]]], of length]
    show ?thesis by (simp only: length_map)
  qed
  moreover have "length (object_values ?bs) = 1" by (simp add: sample_response_def)
  ultimately show ?thesis using sample_response_ok [of "''x''"] by (simp only: length_map) simp
qed

end
