(* ===== verification/Nonce_Guard.thy ===== *)
theory Nonce_Guard
  imports JS_Number Crypto
begin

text \<open>
  Replay protection of the client (\<open>validateNonce\<close>, \<open>cleanupExpiredNonces\<close> of
  \<open>sdk/js/src/client.ts\<close>): the cache of nonces seen, the two nonce formats and their windows, and
  the periodic cleanup. The interface \<open>replay_guard\<close> states what such a guard promises and proves
  once that no nonce is accepted twice; the client's functions are an interpretation of it.
\<close>

section \<open>The client's guard\<close>

type_synonym nonce_cache = "string \<rightharpoonup> rat"

datatype nonce_verdict =
    NonceValid              \<comment> \<open>returned \<open>null\<close>\<close>
  | NonceError string       \<comment> \<open>returned a message\<close>
  | NonceThrows             \<comment> \<open>\<open>startsWith\<close> of something that is not a string\<close>

text \<open>The timestamp a nonce carries, \<open>hmac-<32 hex>-<ms>\<close> or \<open><client id>-<ms>-<random>\<close>.\<close>

definition nonce_timestamp :: "string \<Rightarrow> jsval \<Rightarrow> int result" where
  "nonce_timestamp nonce clientId =
     (if starts_with ''hmac-'' nonce then
        (case split_on CHR ''-'' nonce of
           [_, hmacPart, timestampPart] \<Rightarrow>
             if hmacPart = [] \<or> length hmacPart \<noteq> 32 \<or> \<not> list_all is_hex hmacPart
             then Inl ''Invalid HMAC nonce format (bad HMAC)''
             else if timestampPart = [] then Inl ''Invalid HMAC nonce format (missing timestamp)''
             else (case parse_int10 timestampPart of
                     None \<Rightarrow> Inl ''Invalid HMAC nonce timestamp''
                   | Some t \<Rightarrow> Inr t)
         | _ \<Rightarrow> Inl ''Invalid HMAC nonce format'')
      else
        (case split_on CHR ''-'' nonce of
           [nonceClientId, nonceTimestamp, randomHex] \<Rightarrow>
             if nonceClientId = [] \<or> nonceTimestamp = [] \<or> randomHex = []
             then Inl ''Invalid nonce format (missing parts)''
             else if truthy clientId \<and> JStr nonceClientId \<noteq> clientId then Inl ''Nonce client ID mismatch''
             else (case parse_int10 nonceTimestamp of
                     None \<Rightarrow> Inl ''Invalid nonce timestamp''
                   | Some t \<Rightarrow> if length randomHex < 8 then Inl ''Insufficient nonce entropy'' else Inr t)
         | _ \<Rightarrow> Inl ''Invalid nonce format''))"

definition validateNonce :: "rat \<Rightarrow> nonce_cache \<Rightarrow> rat \<Rightarrow> jsval \<Rightarrow> jsval \<Rightarrow> nonce_cache \<times> nonce_verdict" where
  "validateNonce maxMessageAge seenNonces now nonce clientId =
     (if \<not> truthy nonce then (seenNonces, NonceError ''Missing nonce'')
      else case nonce of
        JStr n \<Rightarrow>
          if seenNonces n \<noteq> None then (seenNonces, NonceError ''Nonce already used (replay attack detected)'')
          else (case nonce_timestamp n clientId of
                  Inl e \<Rightarrow> (seenNonces, NonceError e)
                | Inr timestamp \<Rightarrow>
                    (let nonceAge = now - of_int timestamp
                     in if nonceAge > maxMessageAge then (seenNonces, NonceError ''Nonce too old'')
                        else if nonceAge < - 5000 then (seenNonces, NonceError ''Nonce timestamp in future'')
                        else (seenNonces(n \<mapsto> now), NonceValid)))
      | _ \<Rightarrow> (seenNonces, NonceThrows))"

definition cleanupExpiredNonces :: "rat \<Rightarrow> nonce_cache \<Rightarrow> rat \<Rightarrow> nonce_cache" where
  "cleanupExpiredNonces maxMessageAge seenNonces now =
     (let maxAge = maxMessageAge * 2
      in (\<lambda>n. case seenNonces n of
                None \<Rightarrow> None
              | Some timestamp \<Rightarrow> if now - timestamp > maxAge then None else Some timestamp))"

section \<open>Guards\<close>

text \<open>
  Operations on a guard with the time of each: a message offered to it, or a cleanup.
  \<open>guard_run\<close> collects the messages it accepts.
\<close>

datatype 'm guard_op = Offer 'm | Cleanup

fun guard_run ::
  "('c \<Rightarrow> rat \<Rightarrow> 'm \<Rightarrow> 'c \<times> bool) \<Rightarrow> ('c \<Rightarrow> rat \<Rightarrow> 'c) \<Rightarrow> 'c \<Rightarrow> (rat \<times> 'm guard_op) list \<Rightarrow> 'm list" where
  "guard_run offer clean c [] = []"
| "guard_run offer clean c ((now, Offer m) # ops) =
     (let (c', ok) = offer c now m in if ok then m # guard_run offer clean c' ops else guard_run offer clean c' ops)"
| "guard_run offer clean c ((now, Cleanup) # ops) = guard_run offer clean (clean c now) ops"

locale replay_guard =
  fixes offer :: "'c \<Rightarrow> rat \<Rightarrow> 'm \<Rightarrow> 'c \<times> bool"
    and clean :: "'c \<Rightarrow> rat \<Rightarrow> 'c"
    and seen :: "'c \<Rightarrow> 'n \<Rightarrow> rat option"      \<comment> \<open>when a remembered nonce was accepted\<close>
    and nonce_of :: "'m \<Rightarrow> 'n"
    and stamp :: "'n \<Rightarrow> rat"                 \<comment> \<open>the timestamp inside a nonce\<close>
    and window :: rat                          \<comment> \<open>the greatest age accepted\<close>
    and skew :: rat                            \<comment> \<open>how far in the future a stamp may lie\<close>
    and keep :: rat                            \<comment> \<open>how long a nonce is remembered\<close>
  assumes accepted: "offer c now m = (c', True) \<Longrightarrow>
      seen c (nonce_of m) = None \<and> - skew \<le> now - stamp (nonce_of m) \<and> now - stamp (nonce_of m) \<le> window"
    and accepted_seen: "offer c now m = (c', True) \<Longrightarrow> seen c' = (seen c)(nonce_of m \<mapsto> now)"
    and rejected: "offer c now m = (c', False) \<Longrightarrow> seen c' = seen c"
    and clean_seen: "seen (clean c now) n =
      (case seen c n of None \<Rightarrow> None | Some t \<Rightarrow> if now - t > keep then None else Some t)"
begin

text \<open>
  \<open>n\<close> cannot be accepted any more at \<open>now\<close> or later: it is remembered since a moment at which its
  stamp was inside the window, or its stamp has left the window.
\<close>

definition spent :: "'c \<Rightarrow> rat \<Rightarrow> 'n \<Rightarrow> bool" where
  "spent c now n \<longleftrightarrow> (\<exists>t. seen c n = Some t \<and> stamp n \<le> t + skew) \<or> now - stamp n > window"

lemma spent_not_accepted: "spent c now (nonce_of m) \<Longrightarrow> now \<le> now' \<Longrightarrow> \<not> snd (offer c now' m)"
  using accepted [of c now' m "fst (offer c now' m)"] by (cases "offer c now' m") (auto simp: spent_def)

lemma spent_later: "spent c now n \<Longrightarrow> now \<le> now' \<Longrightarrow> spent c now' n"
  by (auto simp: spent_def)

lemma spent_offer:
  assumes "spent c now n" and "offer c now m = (c', ok)"
  shows "spent c' now n"
proof (cases "ok \<and> nonce_of m = n")
  case True
  then have "\<not> snd (offer c now m)" using spent_not_accepted [of c now m now] assms(1) by simp
  then show ?thesis using assms(2) True by simp
next
  case False
  then have "seen c' n = seen c n"
    using accepted_seen [of c now m c'] rejected [of c now m c'] assms(2) by (cases ok) auto
  then show ?thesis using assms(1) by (simp add: spent_def)
qed

lemma spent_clean:
  assumes "window + skew \<le> keep" and "spent c now n"
  shows "spent (clean c now) now n"
proof (cases "now - stamp n > window")
  case False
  then obtain t where t: "seen c n = Some t" "stamp n \<le> t + skew"
    using assms(2) by (auto simp: spent_def)
  then have "now - t \<le> keep" using False assms(1) by linarith
  then show ?thesis using t by (auto simp: spent_def clean_seen)
qed (simp add: spent_def)

lemma accepted_spent: "offer c now m = (c', True) \<Longrightarrow> spent c' now (nonce_of m)"
  using accepted [of c now m c'] accepted_seen [of c now m c'] by (auto simp: spent_def)

lemma spent_never_again:
  assumes "window + skew \<le> keep" and "spent c now n"
    and "sorted (map fst ops)" and "\<forall>op \<in> set ops. now \<le> fst op"
  shows "n \<notin> nonce_of ` set (guard_run offer clean c ops)"
  using assms(2-)
proof (induction ops arbitrary: c now)
  case (Cons op ops)
  obtain t o' where op: "op = (t, o')" by (cases op)
  have sp: "spent c t n" using Cons.prems spent_later by (auto simp: op)
  have rest: "sorted (map fst ops)" "\<forall>op \<in> set ops. t \<le> fst op"
    using Cons.prems(2) by (auto simp: op)
  show ?case
  proof (cases o')
    case (Offer m)
    obtain c' ok where o: "offer c t m = (c', ok)" by (cases "offer c t m")
    have "n \<notin> nonce_of ` set (guard_run offer clean c' ops)"
      using Cons.IH [OF spent_offer [OF sp o] rest] .
    moreover have "ok \<longrightarrow> nonce_of m \<noteq> n"
      using spent_not_accepted [of c t m t] sp o by auto
    ultimately show ?thesis by (auto simp: op Offer o)
  next
    case Cleanup
    show ?thesis
      using Cons.IH [OF spent_clean [OF assms(1) sp] rest] by (simp add: op Cleanup)
  qed
qed simp

text \<open>
  The promise: when nonces are remembered for at least the width of the window, no nonce is accepted
  twice, however offers and cleanups interleave in time.
\<close>

lemma no_replay:
  assumes "window + skew \<le> keep" and "sorted (map fst ops)"
  shows "distinct (map nonce_of (guard_run offer clean c ops))"
  using assms(2)
proof (induction ops arbitrary: c)
  case (Cons op ops)
  obtain t o' where op: "op = (t, o')" by (cases op)
  have rest: "sorted (map fst ops)" "\<forall>op \<in> set ops. t \<le> fst op"
    using Cons.prems by (auto simp: op)
  show ?case
  proof (cases o')
    case (Offer m)
    obtain c' ok where o: "offer c t m = (c', ok)" by (cases "offer c t m")
    have "nonce_of m \<notin> nonce_of ` set (guard_run offer clean c' ops)" if "ok"
      using spent_never_again [OF assms(1) accepted_spent rest] o that by simp
    then show ?thesis using Cons.IH [OF rest(1)] by (auto simp: op Offer o)
  qed (use Cons.IH [OF rest(1)] in \<open>simp add: op\<close>)
qed simp

end

section \<open>The client's guard is a replay guard\<close>

type_synonym nonce_message = "jsval \<times> jsval"   \<comment> \<open>\<open>envelope.nonce\<close> and \<open>envelope.meta?.client_id\<close>\<close>

definition client_offer :: "rat \<Rightarrow> nonce_cache \<Rightarrow> rat \<Rightarrow> nonce_message \<Rightarrow> nonce_cache \<times> bool" where
  "client_offer maxMessageAge c now m =
     (let (c', v) = validateNonce maxMessageAge c now (fst m) (snd m) in (c', v = NonceValid))"

definition nonce_text :: "nonce_message \<Rightarrow> string" where
  "nonce_text m = (case fst m of JStr n \<Rightarrow> n | _ \<Rightarrow> [])"

definition nonce_stamp :: "string \<Rightarrow> rat" where
  "nonce_stamp n = (case nonce_timestamp n JUndef of Inr t \<Rightarrow> of_int t | Inl e \<Rightarrow> 0)"

lemma nonce_timestamp_any_client:
  "nonce_timestamp n clientId = Inr t \<Longrightarrow> nonce_timestamp n JUndef = Inr t"
  by (auto simp: nonce_timestamp_def split: if_splits list.splits option.splits)

lemma validateNonce_valid_iff:
  "validateNonce a c now nonce clientId = (c', NonceValid) \<longleftrightarrow>
    (\<exists>n t. nonce = JStr n \<and> n \<noteq> [] \<and> c n = None \<and> nonce_timestamp n clientId = Inr t
       \<and> - 5000 \<le> now - of_int t \<and> now - of_int t \<le> a \<and> c' = c(n \<mapsto> now))"
  by (auto simp: validateNonce_def Let_def split: jsval.splits sum.splits if_splits)

lemma validateNonce_invalid:
  "validateNonce a c now nonce clientId = (c', v) \<Longrightarrow> v \<noteq> NonceValid \<Longrightarrow> c' = c"
  by (auto simp: validateNonce_def Let_def split: jsval.splits sum.splits if_splits)

lemma client_offer_accepted:
  assumes "client_offer a c now m = (c', True)"
  obtains n t where "fst m = JStr n" "c n = None" "nonce_timestamp n JUndef = Inr t"
    "- 5000 \<le> now - of_int t" "now - of_int t \<le> a" "c' = c(n \<mapsto> now)"
  using assms validateNonce_valid_iff [of a c now "fst m" "snd m" c'] nonce_timestamp_any_client
  by (auto simp: client_offer_def split: prod.splits)

lemma client_offer_rejected: "client_offer a c now m = (c', False) \<Longrightarrow> c' = c"
  using validateNonce_invalid [of a c now "fst m" "snd m" c'] by (auto simp: client_offer_def split: prod.splits)

interpretation client_guard: replay_guard "client_offer a" "cleanupExpiredNonces a" "\<lambda>c. c" nonce_text nonce_stamp
  a 5000 "a * 2" for a
proof
  fix c now m c'
  assume "client_offer a c now m = (c', True)"
  then obtain n t where "fst m = JStr n" "c n = None" "nonce_timestamp n JUndef = Inr t"
    "- 5000 \<le> now - of_int t" "now - of_int t \<le> a" "c' = c(n \<mapsto> now)"
    by (rule client_offer_accepted)
  then show "c (nonce_text m) = None \<and> - 5000 \<le> now - nonce_stamp (nonce_text m) \<and> now - nonce_stamp (nonce_text m) \<le> a"
    and "c' = c(nonce_text m \<mapsto> now)"
    by (simp_all add: nonce_text_def nonce_stamp_def)
qed (auto dest: client_offer_rejected simp: cleanupExpiredNonces_def Let_def)

text \<open>The nonces the client generates.\<close>

lemma hmac_nonce_timestamp:
  assumes "length h = 32" and "list_all is_hex h"
  shows "nonce_timestamp (''hmac-'' @ h @ ''-'' @ nat_str t) clientId = Inr (int t)"
proof -
  have "CHR ''-'' \<notin> set h" using assms(2) is_hex_no_special by (auto simp: list_all_iff)
  moreover have "CHR ''-'' \<notin> set (nat_str t)" by (rule nat_str_no_special)
  moreover have "CHR ''-'' \<notin> set ''hmac''" by simp
  ultimately have "split_on CHR ''-'' (''hmac'' @ CHR ''-'' # (h @ CHR ''-'' # nat_str t)) = [''hmac'', h, nat_str t]"
    by (simp add: split_on_append split_on_no_sep)
  then have "split_on CHR ''-'' (''hmac-'' @ h @ ''-'' @ nat_str t) = [''hmac'', h, nat_str t]" by simp
  moreover have "starts_with ''hmac-'' (''hmac-'' @ h @ ''-'' @ nat_str t)" by (simp add: starts_with_def)
  ultimately show ?thesis
    using assms by (auto simp: nonce_timestamp_def)
qed

lemma split_on_length: "length (split_on c s) = Suc (count_list s c)"
  by (induction s) (auto split: list.splits)

section \<open>What the guard guarantees\<close>

text \<open>No nonce is accepted twice. With a maximal message age of at least five seconds (the
  default is sixty), however checks and cleanups interleave at times that never decrease, starting
  from any cache, the nonces of the accepted messages are pairwise different.\<close>

theorem client_no_replay:
  assumes "5000 \<le> maxMessageAge" and "sorted (map fst ops)"
  shows "distinct (map nonce_text (guard_run (client_offer maxMessageAge) (cleanupExpiredNonces maxMessageAge) c ops))"
  by (rule client_guard.no_replay) (use assms in simp_all)

definition sample_nonce :: "nat \<Rightarrow> string" where
  "sample_nonce t = ''hmac-'' @ replicate 32 CHR ''a'' @ ''-'' @ nat_str t"

definition sample_message :: "nat \<Rightarrow> nonce_message" where
  "sample_message t = (JStr (sample_nonce t), JUndef)"

lemma sample_nonce_timestamp: "nonce_timestamp (sample_nonce t) JUndef = Inr (int t)"
  unfolding sample_nonce_def by (rule hmac_nonce_timestamp) (simp_all add: is_hex_def hex_val_def list_all_iff)

lemma sample_offer:
  "client_offer a c now (sample_message t) =
     (if c (sample_nonce t) = None \<and> - 5000 \<le> now - of_nat t \<and> now - of_nat t \<le> a
      then (c(sample_nonce t \<mapsto> now), True) else (c, False))"
proof -
  have "sample_nonce t \<noteq> []" by (simp add: sample_nonce_def)
  then show ?thesis
    by (auto simp: client_offer_def sample_message_def validateNonce_def sample_nonce_timestamp Let_def not_le)
qed

theorem client_no_replay_witness:
  "guard_run (client_offer 60000) (cleanupExpiredNonces 60000) Map.empty
     [(10, Offer (sample_message 10)), (20, Cleanup), (30, Offer (sample_message 10))] = [sample_message 10]
   \<and> distinct (map nonce_text (guard_run (client_offer 60000) (cleanupExpiredNonces 60000) Map.empty
     [(10, Offer (sample_message 10)), (20, Cleanup), (30, Offer (sample_message 10))]))"
  using client_no_replay [of 60000 "[(10, Offer (sample_message 10)), (20, Cleanup), (30, Offer (sample_message 10))]"]
  by (simp add: sample_offer cleanupExpiredNonces_def)

text \<open>The five seconds are needed. Under any smaller positive maximal age the cleanup forgets a
  nonce stamped five seconds ahead while that stamp is still acceptable, and the same message is
  accepted a second time.\<close>

theorem small_window_replay:
  assumes "0 < maxMessageAge" and "maxMessageAge < 5000"
  shows "guard_run (client_offer maxMessageAge) (cleanupExpiredNonces maxMessageAge) Map.empty
     [(0, Offer (sample_message 5000)), (5000 + maxMessageAge, Cleanup), (5000 + maxMessageAge, Offer (sample_message 5000))]
   = [sample_message 5000, sample_message 5000]"
  using assms by (simp add: sample_offer cleanupExpiredNonces_def)

theorem small_window_replay_witness:
  "guard_run (client_offer 1000) (cleanupExpiredNonces 1000) Map.empty
     [(0, Offer (sample_message 5000)), (6000, Cleanup), (6000, Offer (sample_message 5000))]
   = [sample_message 5000, sample_message 5000]"
  using small_window_replay [of 1000] by simp

end
