(* ===== verification/Client.thy ===== *)
theory Client
  imports Nonce_Guard
begin

text \<open>
  The LTP client (\<open>sdk/js/src/client.ts\<close>, options and messages of \<open>sdk/js/src/types.ts\<close>): its
  state, the host objects it drives (web sockets, timers, storage, the callbacks of the application)
  and the operations that run to completion in one turn of the event loop: construction, timers,
  reconnection, connecting and disconnecting, envelopes and meta data. The operations with an
  \<open>await\<close> follow in \<open>Client_Async\<close>.

  Log output is not modelled. A callback of the application is an entry of the list \<open>out\<close>; what the
  callback calls in turn is a later operation. Messages are JavaScript values, since nothing checks
  what a peer sends.
\<close>

section \<open>Options\<close>

record ReconnectStrategy =
  maxRetries :: rat
  baseDelayMs :: rat
  maxDelayMs :: rat

record HeartbeatOptions =
  hb_enabled :: bool
  intervalMs :: rat
  timeoutMs :: rat

definition DEFAULT_RECONNECT :: ReconnectStrategy where
  "DEFAULT_RECONNECT = \<lparr>maxRetries = 5, baseDelayMs = 1000, maxDelayMs = 30000\<rparr>"

definition DEFAULT_HEARTBEAT :: HeartbeatOptions where
  "DEFAULT_HEARTBEAT = \<lparr>hb_enabled = True, intervalMs = 15000, timeoutMs = 45000\<rparr>"

text \<open>The same with every field optional, as the application passes them.\<close>

record reconnect_opts =
  ro_maxRetries :: "rat option"
  ro_baseDelayMs :: "rat option"
  ro_maxDelayMs :: "rat option"

record heartbeat_opts =
  ho_enabled :: "bool option"
  ho_intervalMs :: "rat option"
  ho_timeoutMs :: "rat option"

text \<open>
  \<open>LtpClientOptions\<close>; an absent field is \<open>None\<close> or \<open>undefined\<close>. \<open>opt_storage\<close> is the content of
  the storage the application passes, or of \<open>window.localStorage\<close>; without one it is a \<open>MemoryStorage\<close>. \<open>opt_codec\<close> is \<open>codec.encodeJsonToToon\<close>.
\<close>

record LtpClientOptions =
  opt_clientId :: "string option"
  opt_deviceFingerprint :: jsval
  opt_intent :: "string option"
  opt_capabilities :: jsval
  opt_defaultContextTag :: jsval
  opt_defaultAffect :: jsval
  opt_metadata :: jsval
  opt_storage :: "(string \<rightharpoonup> jsval) option"
  opt_reconnect :: "reconnect_opts option"
  opt_heartbeat :: "heartbeat_opts option"
  opt_codec :: "(jsval \<Rightarrow> string result) option"
  opt_preferredEncoding :: "string option"
  opt_enableEcdhKeyExchange :: bool
  opt_sessionMacKey :: "string option"
  opt_requireSignatureVerification :: "bool option"
  opt_maxMessageAge :: "rat option"
  opt_enableMetadataEncryption :: bool
  opt_sessionEncryptionKey :: "string option"
  opt_secretKey :: "string option"

text \<open>Truthiness and \<open>||\<close> of optional strings.\<close>

definition given :: "string option \<Rightarrow> bool" where
  "given s = (s \<noteq> None \<and> s \<noteq> Some [])"

definition str_or :: "string option \<Rightarrow> string option \<Rightarrow> string option" where
  "str_or a b = (if given a then a else b)"

definition dflt :: "'a option \<Rightarrow> 'a \<Rightarrow> 'a" where
  "dflt a d = (case a of None \<Rightarrow> d | Some x \<Rightarrow> x)"

definition of_str :: "string option \<Rightarrow> jsval" where
  "of_str s = (case s of None \<Rightarrow> JUndef | Some x \<Rightarrow> JStr x)"

text \<open>\<open>options.maxMessageAge || 60000\<close>.\<close>

definition max_age :: "LtpClientOptions \<Rightarrow> rat" where
  "max_age o' = (case opt_maxMessageAge o' of None \<Rightarrow> 60000 | Some a \<Rightarrow> if a = 0 then 60000 else a)"

section \<open>The host\<close>

datatype ready_state = CONNECTING | OPEN | CLOSING | CLOSED

datatype timer_kind = HeartbeatInterval | HeartbeatTimeout | ReconnectTimeout | NonceInterval

datatype effect =
    NewSocket nat
  | SendText nat string
  | OnConnected jsval jsval
  | OnDisconnected
  | OnClientError string       \<comment> \<open>\<open>onError\<close> with an error code of the client\<close>
  | OnServerError jsval        \<comment> \<open>\<open>onError\<close> with the payload of an error message\<close>
  | OnStateUpdate jsval
  | OnEvent jsval
  | OnPong
  | OnMessage jsval
  | OnPermanentFailure string
  | PromiseCreated
  | PromiseResolved
  | PromiseRejected string

record host =
  sockets :: "nat \<Rightarrow> ready_state"
  next_socket :: nat
  timers :: "(nat \<times> timer_kind \<times> jsval) list"   \<comment> \<open>the live timers with their delay\<close>
  next_timer :: nat
  out :: "effect list"

text \<open>What an operation reads of its environment: clock, randomness and the crypto runtime.\<close>

record env =
  e_rt :: runtime
  e_now :: rat
  e_window_random :: "byte list option"    \<comment> \<open>\<open>window.crypto.getRandomValues\<close>, when there is a window\<close>
  e_require_random :: "byte list option"   \<comment> \<open>\<open>globalThis.require('crypto').randomBytes\<close>, when there is one\<close>
  e_math_random :: string                  \<comment> \<open>\<open>Math.random().toString(16).substring(2)\<close>\<close>
  e_math_nibbles :: "nat list"             \<comment> \<open>the \<open>Math.random() * 16 | 0\<close> of the fallback\<close>
  e_iv :: "byte list"
  e_seed :: nat

record client = host +
  options :: LtpClientOptions
  ws :: "nat option"
  threadId :: jsval
  sessionId :: jsval
  negotiatedHeartbeatMs :: jsval
  heartbeatTimer :: "nat option"
  heartbeatTimeout :: "nat option"
  reconnectTimer :: "nat option"
  forcedReconnectReason :: "string option"
  reconnectAttempts :: nat
  lastReconnectDelayMs :: rat
  isConnecting :: bool
  manualDisconnect :: bool
  isConnected :: bool
  isHandshakeComplete :: bool
  isAttemptingResume :: bool
  connectPromise :: bool
  pendingConnectResolve :: bool
  pendingConnectReject :: bool
  storage :: "string \<rightharpoonup> jsval"
  storageKeyThread :: string
  storageKeySession :: string
  reconnectConfig :: ReconnectStrategy
  heartbeatConfig :: HeartbeatOptions
  seenNonces :: nonce_cache
  nonceCacheCleanupTimer :: "nat option"
  ecdhPrivateKey :: "string option"
  ecdhPublicKey :: "string option"
  lastSentHash :: "string option"
  lastReceivedHash :: "string option"

definition emit :: "effect \<Rightarrow> client \<Rightarrow> client" where
  "emit e c = c\<lparr>out := out c @ [e]\<rparr>"

definition set_timer :: "timer_kind \<Rightarrow> jsval \<Rightarrow> client \<Rightarrow> client" where
  "set_timer k delay c = c\<lparr>timers := timers c @ [(next_timer c, k, delay)], next_timer := Suc (next_timer c)\<rparr>"

definition clear_timer :: "nat \<Rightarrow> client \<Rightarrow> client" where
  "clear_timer t c = c\<lparr>timers := filter (\<lambda>p. fst p \<noteq> t) (timers c)\<rparr>"

text \<open>\<open>ws.close()\<close>: the close event comes later.\<close>

definition close_socket :: "nat \<Rightarrow> client \<Rightarrow> client" where
  "close_socket s c =
     (if sockets c s \<in> {CONNECTING, OPEN} then c\<lparr>sockets := (sockets c)(s := CLOSING)\<rparr> else c)"

section \<open>Storage\<close>

definition getItem :: "(string \<rightharpoonup> jsval) \<Rightarrow> string \<Rightarrow> jsval" where
  "getItem st key = (case st key of None \<Rightarrow> JNull | Some v \<Rightarrow> v)"

definition setItem :: "string \<Rightarrow> jsval \<Rightarrow> (string \<rightharpoonup> jsval) \<Rightarrow> (string \<rightharpoonup> jsval)" where
  "setItem key v st = st(key \<mapsto> v)"

definition removeItem :: "string \<Rightarrow> (string \<rightharpoonup> jsval) \<Rightarrow> (string \<rightharpoonup> jsval)" where
  "removeItem key st = st(key := None)"

definition persistIds :: "client \<Rightarrow> client" where
  "persistIds c =
     (let c1 = (if truthy (threadId c) then c\<lparr>storage := setItem (storageKeyThread c) (threadId c) (storage c)\<rparr> else c)
      in if truthy (sessionId c1) then c1\<lparr>storage := setItem (storageKeySession c1) (sessionId c1) (storage c1)\<rparr> else c1)"

definition loadPersistedIds :: "client \<Rightarrow> client" where
  "loadPersistedIds c =
     c\<lparr>threadId := getItem (storage c) (storageKeyThread c), sessionId := getItem (storage c) (storageKeySession c)\<rparr>"

section \<open>Construction\<close>

text \<open>
  The options the constructor keeps. \<open>freshId\<close> is the random client id. The fields
  \<open>enableEcdhKeyExchange\<close>, \<open>enableMetadataEncryption\<close> and \<open>sessionEncryptionKey\<close> are not copied, so
  they are undefined afterwards whatever the application passed.
\<close>

definition normalize_options :: "string \<Rightarrow> string \<Rightarrow> LtpClientOptions \<Rightarrow> LtpClientOptions" where
  "normalize_options freshId platform o' =
     (let macKey = str_or (opt_sessionMacKey o') (opt_secretKey o');
          requireVerification = dflt (opt_requireSignatureVerification o') (given macKey)
      in \<lparr>opt_clientId = Some (dflt (str_or (opt_clientId o') None) freshId),
          opt_deviceFingerprint = opt_deviceFingerprint o',
          opt_intent = str_or (opt_intent o') (Some ''resonant_link''),
          opt_capabilities = js_or (opt_capabilities o') (JArr [JStr ''state-update'', JStr ''events'', JStr ''ping-pong'']),
          opt_defaultContextTag = opt_defaultContextTag o',
          opt_defaultAffect = opt_defaultAffect o',
          opt_metadata = JObj (spread [(''sdk_version'', JStr ''0.3.0''), (''platform'', JStr platform)] (own (opt_metadata o'))),
          opt_storage = opt_storage o',
          opt_reconnect = opt_reconnect o',
          opt_heartbeat = opt_heartbeat o',
          opt_codec = opt_codec o',
          opt_preferredEncoding = str_or (opt_preferredEncoding o') (Some ''json''),
          opt_enableEcdhKeyExchange = False,
          opt_sessionMacKey = opt_sessionMacKey o',
          opt_requireSignatureVerification = Some requireVerification,
          opt_maxMessageAge = Some (max_age o'),
          opt_enableMetadataEncryption = False,
          opt_sessionEncryptionKey = None,
          opt_secretKey = opt_secretKey o'\<rparr>)"

definition merge_reconnect :: "reconnect_opts option \<Rightarrow> ReconnectStrategy" where
  "merge_reconnect r =
     (case r of None \<Rightarrow> DEFAULT_RECONNECT
      | Some x \<Rightarrow> \<lparr>maxRetries = dflt (ro_maxRetries x) (maxRetries DEFAULT_RECONNECT),
                  baseDelayMs = dflt (ro_baseDelayMs x) (baseDelayMs DEFAULT_RECONNECT),
                  maxDelayMs = dflt (ro_maxDelayMs x) (maxDelayMs DEFAULT_RECONNECT)\<rparr>)"

definition merge_heartbeat :: "heartbeat_opts option \<Rightarrow> HeartbeatOptions" where
  "merge_heartbeat h =
     (case h of None \<Rightarrow> DEFAULT_HEARTBEAT
      | Some x \<Rightarrow> \<lparr>hb_enabled = dflt (ho_enabled x) (hb_enabled DEFAULT_HEARTBEAT),
                  intervalMs = dflt (ho_intervalMs x) (intervalMs DEFAULT_HEARTBEAT),
                  timeoutMs = dflt (ho_timeoutMs x) (timeoutMs DEFAULT_HEARTBEAT)\<rparr>)"

definition new_client :: "string \<Rightarrow> string \<Rightarrow> LtpClientOptions \<Rightarrow> client" where
  "new_client freshId platform userOptions =
     (let o' = normalize_options freshId platform userOptions; cid = dflt (opt_clientId o') []
      in loadPersistedIds
        \<lparr>sockets = (\<lambda>_. CLOSED), next_socket = 0, timers = [], next_timer = 0, out = [],
         options = o', ws = None, threadId = JNull, sessionId = JNull, negotiatedHeartbeatMs = JNum 15000,
         heartbeatTimer = None, heartbeatTimeout = None, reconnectTimer = None, forcedReconnectReason = None,
         reconnectAttempts = 0, lastReconnectDelayMs = 0, isConnecting = False, manualDisconnect = False,
         isConnected = False, isHandshakeComplete = False, isAttemptingResume = False,
         connectPromise = False, pendingConnectResolve = False, pendingConnectReject = False,
         storage = dflt (opt_storage o') Map.empty,
         storageKeyThread = ''ltp_thread_id:'' @ cid, storageKeySession = ''ltp_session_id:'' @ cid,
         reconnectConfig = merge_reconnect (opt_reconnect o'), heartbeatConfig = merge_heartbeat (opt_heartbeat o'),
         seenNonces = Map.empty, nonceCacheCleanupTimer = None,
         ecdhPrivateKey = None, ecdhPublicKey = None, lastSentHash = None, lastReceivedHash = None\<rparr>)"

definition mac_key :: "client \<Rightarrow> string option" where
  "mac_key c = str_or (opt_sessionMacKey (options c)) (opt_secretKey (options c))"

section \<open>Timers and reconnection\<close>

definition clearHeartbeatTimeout :: "client \<Rightarrow> client" where
  "clearHeartbeatTimeout c =
     (case heartbeatTimeout c of None \<Rightarrow> c | Some t \<Rightarrow> (clear_timer t c)\<lparr>heartbeatTimeout := None\<rparr>)"

definition clearHeartbeatTimers :: "client \<Rightarrow> client" where
  "clearHeartbeatTimers c =
     clearHeartbeatTimeout
       (case heartbeatTimer c of None \<Rightarrow> c | Some t \<Rightarrow> (clear_timer t c)\<lparr>heartbeatTimer := None\<rparr>)"

definition scheduleHeartbeatTimeout :: "client \<Rightarrow> client" where
  "scheduleHeartbeatTimeout c =
     (if \<not> hb_enabled (heartbeatConfig c) then c
      else (let c1 = clearHeartbeatTimeout c
            in (set_timer HeartbeatTimeout (JNum (timeoutMs (heartbeatConfig c1))) c1)\<lparr>heartbeatTimeout := Some (next_timer c1)\<rparr>))"

text \<open>\<open>options.heartbeat?.intervalMs || negotiatedHeartbeatMs\<close>.\<close>

definition heartbeat_interval :: "client \<Rightarrow> jsval" where
  "heartbeat_interval c =
     (case opt_heartbeat (options c) of
        None \<Rightarrow> negotiatedHeartbeatMs c
      | Some h \<Rightarrow> (case ho_intervalMs h of None \<Rightarrow> negotiatedHeartbeatMs c | Some i \<Rightarrow> js_or (JNum i) (negotiatedHeartbeatMs c)))"

definition startHeartbeat :: "client \<Rightarrow> client" where
  "startHeartbeat c =
     (if \<not> hb_enabled (heartbeatConfig c) then c
      else (let c1 = clearHeartbeatTimers c
            in scheduleHeartbeatTimeout
                 ((set_timer HeartbeatInterval (heartbeat_interval c1) c1)\<lparr>heartbeatTimer := Some (next_timer c1)\<rparr>)))"

definition startNonceCleanup :: "client \<Rightarrow> client" where
  "startNonceCleanup c = (set_timer NonceInterval (JNum 60000) c)\<lparr>nonceCacheCleanupTimer := Some (next_timer c)\<rparr>"

definition stopNonceCleanup :: "client \<Rightarrow> client" where
  "stopNonceCleanup c =
     (case nonceCacheCleanupTimer c of None \<Rightarrow> c | Some t \<Rightarrow> (clear_timer t c)\<lparr>nonceCacheCleanupTimer := None\<rparr>)"

definition clearReconnectTimer :: "client \<Rightarrow> client" where
  "clearReconnectTimer c =
     (case reconnectTimer c of None \<Rightarrow> c | Some t \<Rightarrow> (clear_timer t c)\<lparr>reconnectTimer := None\<rparr>)"

definition emitPermanentFailure :: "string \<Rightarrow> client \<Rightarrow> client" where
  "emitPermanentFailure reason c =
     (let c1 = emit (OnPermanentFailure reason) c
      in if pendingConnectReject c1
         then (emit (PromiseRejected reason) c1)\<lparr>pendingConnectReject := False, pendingConnectResolve := False,
                connectPromise := False\<rparr>
         else c1)"

definition reconnect_delay :: "ReconnectStrategy \<Rightarrow> nat \<Rightarrow> rat" where
  "reconnect_delay cfg attempts = min (baseDelayMs cfg * 2 ^ attempts) (maxDelayMs cfg)"

definition scheduleReconnect :: "string \<Rightarrow> client \<Rightarrow> client" where
  "scheduleReconnect reason c =
     (if reconnectTimer c \<noteq> None then c
      else if of_nat (reconnectAttempts c) \<ge> maxRetries (reconnectConfig c)
      then emitPermanentFailure (''Reconnect attempts exceeded after '' @ reason) c
      else (let delay = reconnect_delay (reconnectConfig c) (reconnectAttempts c)
            in (set_timer ReconnectTimeout (JNum delay) c)\<lparr>lastReconnectDelayMs := delay,
                 reconnectAttempts := reconnectAttempts c + 1, reconnectTimer := Some (next_timer c)\<rparr>))"

definition handleDisconnect :: "string \<Rightarrow> client \<Rightarrow> client" where
  "handleDisconnect reason c =
     (let c1 = stopNonceCleanup (clearHeartbeatTimers (c\<lparr>isConnected := False, isHandshakeComplete := False\<rparr>));
          c2 = emit OnDisconnected
                 (c1\<lparr>lastSentHash := None, lastReceivedHash := None, ecdhPrivateKey := None, ecdhPublicKey := None\<rparr>)
      in if manualDisconnect c2 then c2
         else (let r = str_or (forcedReconnectReason c2) (Some reason)
               in scheduleReconnect (dflt r []) (c2\<lparr>forcedReconnectReason := None\<rparr>)))"

definition forceReconnect :: "string \<Rightarrow> client \<Rightarrow> client" where
  "forceReconnect reason c =
     (case ws c of
        Some s \<Rightarrow> if sockets c s = OPEN then close_socket s (c\<lparr>forcedReconnectReason := Some reason\<rparr>)
                  else handleDisconnect reason c
      | None \<Rightarrow> handleDisconnect reason c)"

section \<open>Connecting\<close>

definition connectWebSocket :: "client \<Rightarrow> client" where
  "connectWebSocket c =
     (let c1 = (case ws c of None \<Rightarrow> c | Some s \<Rightarrow> close_socket s c)
      in if isConnecting c1 then c1
         else (let s = next_socket c1
               in (emit (NewSocket s) c1)\<lparr>isConnecting := True, ws := Some s, next_socket := Suc s,
                    sockets := (sockets c1)(s := CONNECTING)\<rparr>))"

definition connect :: "client \<Rightarrow> client" where
  "connect c =
     (if isConnected c \<and> isHandshakeComplete c then c
      else if connectPromise c then c
      else connectWebSocket
             ((emit PromiseCreated c)\<lparr>manualDisconnect := False, reconnectAttempts := 0, connectPromise := True,
                pendingConnectResolve := True, pendingConnectReject := True\<rparr>))"

definition disconnect :: "client \<Rightarrow> client" where
  "disconnect c =
     (let c1 = stopNonceCleanup (clearReconnectTimer (clearHeartbeatTimers (c\<lparr>manualDisconnect := True\<rparr>)));
          c2 = c1\<lparr>seenNonces := Map.empty\<rparr>;
          c3 = (case ws c2 of None \<Rightarrow> c2 | Some s \<Rightarrow> (close_socket s c2)\<lparr>ws := None\<rparr>);
          c4 = c3\<lparr>isConnected := False, isHandshakeComplete := False, connectPromise := False\<rparr>
      in if pendingConnectReject c4
         then (emit (PromiseRejected ''Disconnected by client'') c4)
                \<lparr>pendingConnectReject := False, pendingConnectResolve := False\<rparr>
         else c4)"

definition isConnectedToServer :: "client \<Rightarrow> bool" where
  "isConnectedToServer c = (isConnected c \<and> isHandshakeComplete c)"

definition hasSessionContext :: "client \<Rightarrow> bool" where
  "hasSessionContext c = (truthy (threadId c) \<and> truthy (sessionId c))"

definition sendRaw :: "jsval \<Rightarrow> client \<Rightarrow> client" where
  "sendRaw message c =
     (case ws c of
        None \<Rightarrow> c
      | Some s \<Rightarrow> if sockets c s \<noteq> OPEN then c else emit (SendText s (json_text message)) c)"

section \<open>Envelopes\<close>

definition buildMetaOverridesFromOptions :: "(jsval \<times> jsval) option \<Rightarrow> jsval" where
  "buildMetaOverridesFromOptions o' =
     (case o' of None \<Rightarrow> JUndef
      | Some (affect, contextTag) \<Rightarrow> JObj [(''affect'', affect), (''context_tag'', contextTag)])"

definition mergeMeta :: "client \<Rightarrow> jsval \<Rightarrow> jsval" where
  "mergeMeta c overrides =
     (let meta = spread
            [(''client_id'', of_str (opt_clientId (options c))),
             (''affect'', js_or (pget overrides ''affect'') (opt_defaultAffect (options c))),
             (''context_tag'', js_or (pget overrides ''context_tag'') (opt_defaultContextTag (options c)))]
            (own overrides);
          meta' = filter (\<lambda>p. snd p \<noteq> JUndef) meta
      in if length meta' \<noteq> 0 then JObj meta' else JUndef)"

definition buildEnvelope :: "rat \<Rightarrow> client \<Rightarrow> string \<Rightarrow> jsval \<Rightarrow> jsval \<Rightarrow> string option \<Rightarrow> jsval result" where
  "buildEnvelope now c type payload metaOverrides contentEncoding =
     (if \<not> truthy (threadId c) \<or> \<not> truthy (sessionId c)
      then Inl ''Cannot build envelope without thread/session identifiers''
      else (let kvs = [(''type'', JStr type), (''thread_id'', threadId c), (''session_id'', sessionId c),
                       (''timestamp'', JNum now), (''payload'', payload), (''meta'', mergeMeta c metaOverrides)]
            in Inr (JObj (if given contentEncoding \<and> contentEncoding \<noteq> Some ''json''
                          then kvs @ [(''content_encoding'', of_str contentEncoding)] else kvs))))"

text \<open>\<open>Object.keys\<close>, and \<open>key in item\<close> with the names that objects and arrays inherit.\<close>

fun object_keys :: "jsval \<Rightarrow> string list" where
  "object_keys (JObj kvs) = map fst kvs"
| "object_keys (JArr xs) = map nat_str [0..<length xs]"
| "object_keys _ = []"

definition object_proto_names :: "string list" where
  "object_proto_names = [''constructor'', ''hasOwnProperty'', ''isPrototypeOf'', ''propertyIsEnumerable'',
     ''toLocaleString'', ''toString'', ''valueOf'', ''__defineGetter__'', ''__defineSetter__'',
     ''__lookupGetter__'', ''__lookupSetter__'', ''__proto__'']"

definition array_names :: "string list" where
  "array_names = [''length'', ''at'', ''concat'', ''copyWithin'', ''entries'', ''every'', ''fill'', ''filter'', ''find'',
     ''findIndex'', ''findLast'', ''findLastIndex'', ''flat'', ''flatMap'', ''forEach'', ''includes'', ''indexOf'',
     ''join'', ''keys'', ''lastIndexOf'', ''map'', ''pop'', ''push'', ''reduce'', ''reduceRight'', ''reverse'',
     ''shift'', ''slice'', ''some'', ''sort'', ''splice'', ''toReversed'', ''toSorted'', ''toSpliced'', ''unshift'',
     ''values'', ''with'']"

definition in_object :: "string \<Rightarrow> jsval \<Rightarrow> bool" where
  "in_object k v = (k \<in> set (object_keys v) \<or> k \<in> set object_proto_names \<or> is_array v \<and> k \<in> set array_names)"

definition similar_items :: "jsval list \<Rightarrow> bool" where
  "similar_items data =
     (let firstKeys = object_keys (hd data)
      in list_all (\<lambda>item. is_object item \<and> length (object_keys item) = length firstKeys
           \<and> list_all (\<lambda>k. in_object k item) firstKeys) data)"

definition preparePayloadData :: "client \<Rightarrow> jsval \<Rightarrow> jsval \<times> string" where
  "preparePayloadData c data =
     (case (opt_preferredEncoding (options c), opt_codec (options c), data) of
        (Some pref, Some encodeJsonToToon, JArr (x # xs)) \<Rightarrow>
          if pref = ''toon'' \<and> is_plain x \<and> similar_items (x # xs)
          then (case encodeJsonToToon data of
                  Inr toonString \<Rightarrow> (JStr toonString, ''toon'')
                | Inl _ \<Rightarrow> (data, ''json''))
          else (data, ''json'')
      | _ \<Rightarrow> (data, ''json''))"

end
