(* ===== verification/Client_Async.thy ===== *)
theory Client_Async
  imports Client
begin

text \<open>
  The asynchronous operations of the client: the handshake, sending, and receiving with its security
  checks. An \<open>async\<close> function is cut at its \<open>await\<close>s: the part up to an \<open>await\<close> runs in one turn and
  leaves a \<open>task\<close>, the value the promise will have together with what the rest of the function still
  needs; \<open>resume\<close> runs the next part. Values computed by the crypto module are computed when the
  promise is created; nothing in the module reads the client's state.

  The two awaits inside the encryption of metadata, and those of an \<open>async\<close> function that returns
  without waiting, are one turn here: between them only the options are read.
\<close>

section \<open>Tasks\<close>

datatype task =
    HandshakeKeys bool "(string \<times> string) result option"  \<comment> \<open>after \<open>ensureHandshakeKeys\<close>; true for resume\<close>
  | HandshakeSigned "(string \<times> jsval) list" rat "string result"  \<comment> \<open>after \<open>signEcdhPublicKey\<close>\<close>
  | Decrypted jsval                                         \<comment> \<open>after \<open>decryptMetadataIfNeeded\<close>\<close>
  | SignatureChecked jsval verdict                          \<comment> \<open>after \<open>verifySignature\<close>\<close>
  | EnvelopeHashed jsval "string result"                    \<comment> \<open>after \<open>hashEnvelope\<close> of a received message\<close>
  | Deliver jsval                                           \<comment> \<open>after \<open>verifyMessageSecurity\<close> returned true\<close>
  | ServerKeyVerified jsval string "verdict result"         \<comment> \<open>after \<open>verifyEcdhPublicKey\<close>\<close>
  | SharedSecret jsval "string result"                      \<comment> \<open>after \<open>deriveSharedSecret\<close>\<close>
  | SessionKeys jsval "session_keys result"                 \<comment> \<open>after \<open>deriveSessionKeys\<close>\<close>
  | NonceReady jsval string                                 \<comment> \<open>after \<open>generateNonce\<close>: message and nonce\<close>
  | SignatureReady jsval string "string result"             \<comment> \<open>after \<open>generateSignature\<close>\<close>
  | HashReady jsval jsval string "string result"            \<comment> \<open>after \<open>hashEnvelope\<close> of a message to send\<close>

type_synonym turn = "client \<times> task list"

section \<open>Handshake messages\<close>

definition LTP_PROTOCOL :: string where "LTP_PROTOCOL = ''0.3''"

definition key_agreement :: "client \<Rightarrow> jsval" where
  "key_agreement c =
     (if given (ecdhPublicKey c)
      then JObj [(''algorithm'', JStr ''secp256r1''), (''method'', JStr ''ecdh''), (''hkdf'', JStr ''sha256'')]
      else JUndef)"

definition handshake_init :: "client \<Rightarrow> (string \<times> jsval) list" where
  "handshake_init c =
     (let o' = options c; pk = of_str (str_or (ecdhPublicKey c) None)
      in [(''type'', JStr ''handshake_init''), (''ltp_version'', JStr LTP_PROTOCOL),
          (''client_id'', of_str (opt_clientId o')), (''device_fingerprint'', opt_deviceFingerprint o'),
          (''intent'', of_str (opt_intent o')), (''capabilities'', opt_capabilities o'), (''metadata'', opt_metadata o'),
          (''client_public_key'', pk), (''client_ecdh_public_key'', pk), (''key_agreement'', key_agreement c)])"

definition handshake_resume :: "client \<Rightarrow> (string \<times> jsval) list" where
  "handshake_resume c =
     [(''type'', JStr ''handshake_resume''), (''ltp_version'', JStr LTP_PROTOCOL),
      (''client_id'', of_str (opt_clientId (options c))), (''thread_id'', threadId c),
      (''resume_reason'', JStr ''automatic_reconnect''),
      (''client_public_key'', of_str (str_or (ecdhPublicKey c) None)), (''key_agreement'', key_agreement c)]"

definition ensureHandshakeKeys :: "env \<Rightarrow> client \<Rightarrow> (string \<times> string) result option" where
  "ensureHandshakeKeys e c =
     (if opt_enableEcdhKeyExchange (options c) \<and> \<not> given (ecdhPrivateKey c)
      then Some (generateKeyPair (e_rt e) (e_seed e)) else None)"

definition sendHandshakeInit :: "env \<Rightarrow> client \<Rightarrow> turn" where
  "sendHandshakeInit e c = (c, [HandshakeKeys False (ensureHandshakeKeys e c)])"

definition sendHandshakeResume :: "env \<Rightarrow> client \<Rightarrow> turn" where
  "sendHandshakeResume e c =
     (if \<not> truthy (threadId c) then sendHandshakeInit e c
      else (c, [HandshakeKeys True (ensureHandshakeKeys e c)]))"

text \<open>
  The rest of both functions: store the key pair, build the message, sign the key when there is a
  secret, send.
\<close>

definition store_keys :: "(string \<times> string) result option \<Rightarrow> client \<Rightarrow> client" where
  "store_keys keys c =
     (case keys of
        Some (Inr (publicKey, privateKey)) \<Rightarrow> c\<lparr>ecdhPrivateKey := Some privateKey, ecdhPublicKey := Some publicKey\<rparr>
      | _ \<Rightarrow> c)"

definition handshake_with_keys :: "env \<Rightarrow> bool \<Rightarrow> (string \<times> string) result option \<Rightarrow> client \<Rightarrow> turn" where
  "handshake_with_keys e isResume keys c =
     (let c1 = store_keys keys c;
          msg = (if isResume then handshake_resume c1 else handshake_init c1)
      in case (ecdhPublicKey c1, opt_secretKey (options c1)) of
           (Some pk, Some sk) \<Rightarrow>
             if pk \<noteq> [] \<and> sk \<noteq> []
             then (c1, [HandshakeSigned msg (e_now e)
                     (signEcdhPublicKey (e_rt e) pk (dflt (opt_clientId (options c1)) []) (e_now e) sk)])
             else (sendRaw (JObj msg) c1, [])
         | _ \<Rightarrow> (sendRaw (JObj msg) c1, []))"

definition handshake_signed :: "(string \<times> jsval) list \<Rightarrow> rat \<Rightarrow> string result \<Rightarrow> client \<Rightarrow> turn" where
  "handshake_signed msg timestamp signature c =
     (case signature of
        Inr s \<Rightarrow> (sendRaw (JObj (msg @ [(''client_ecdh_signature'', JStr s), (''client_ecdh_timestamp'', JNum timestamp)])) c, [])
      | Inl _ \<Rightarrow> (sendRaw (JObj msg) c, []))"

section \<open>Socket events\<close>

definition on_open :: "env \<Rightarrow> client \<Rightarrow> turn" where
  "on_open e c =
     (let c1 = c\<lparr>isConnecting := False\<rparr>
      in if truthy (threadId c1) then sendHandshakeResume e (c1\<lparr>isAttemptingResume := True\<rparr>)
         else sendHandshakeInit e (c1\<lparr>isAttemptingResume := False\<rparr>))"

definition on_close :: "client \<Rightarrow> client" where
  "on_close c = handleDisconnect ''closed'' (c\<lparr>isConnecting := False\<rparr>)"

text \<open>\<open>decryptMetadataIfNeeded\<close>: a failure leaves the plaintext fields.\<close>

definition decryptMetadataIfNeeded :: "env \<Rightarrow> client \<Rightarrow> jsval \<Rightarrow> jsval" where
  "decryptMetadataIfNeeded e c envelope =
     (case (pget envelope ''encrypted_metadata'', opt_sessionEncryptionKey (options c), envelope) of
        (JStr enc, Some key, JObj kvs) \<Rightarrow>
          if enc \<noteq> [] \<and> key \<noteq> [] then
            (case decryptMetadata (e_rt e) enc key of
               Inr md \<Rightarrow> JObj (define_prop ''timestamp'' (md_timestamp md)
                         (define_prop ''session_id'' (md_session_id md)
                           (define_prop ''thread_id'' (md_thread_id md) kvs)))
             | Inl _ \<Rightarrow> envelope)
          else envelope
      | _ \<Rightarrow> envelope)"

text \<open>\<open>onmessage\<close> and the start of \<open>handleMessageAsync\<close>; on \<open>null\<close> the first property access throws.\<close>

definition on_message :: "env \<Rightarrow> string \<Rightarrow> client \<Rightarrow> turn" where
  "on_message e data c =
     (case json_parse data of
        None \<Rightarrow> (c, [])
      | Some message \<Rightarrow> if nullish message then (c, []) else (c, [Decrypted (decryptMetadataIfNeeded e c message)]))"

section \<open>Security checks of a received message\<close>

definition signed_part :: "jsval \<Rightarrow> signed_fields" where
  "signed_part env =
     \<lparr>sf_type = pget env ''type'', sf_thread_id = pget env ''thread_id'', sf_session_id = pget env ''session_id'',
      sf_timestamp = pget env ''timestamp'', sf_nonce = pget env ''nonce'', sf_payload = pget env ''payload'',
      sf_prev_message_hash = pget env ''prev_message_hash'', sf_meta = pget env ''meta'',
      sf_content_encoding = pget env ''content_encoding''\<rparr>"

definition requires_verification :: "client \<Rightarrow> jsval \<Rightarrow> bool" where
  "requires_verification c env =
     (opt_requireSignatureVerification (options c) = Some True \<and> given (mac_key c)
      \<and> pget env ''type'' \<noteq> JStr ''handshake_ack'' \<and> pget env ''type'' \<noteq> JStr ''handshake_reject'')"

definition handleError :: "string \<Rightarrow> client \<Rightarrow> client" where
  "handleError code c = emit (OnClientError code) c"

text \<open>A signature that is not a string makes the comparison fail or throw inside \<open>verifySignature\<close>,
  which returns \<open>valid: false\<close> in both cases.\<close>

definition check_signature :: "runtime \<Rightarrow> jsval \<Rightarrow> string \<Rightarrow> verdict" where
  "check_signature rt env key =
     (case pget env ''signature'' of
        JStr s \<Rightarrow> verifySignature rt (signed_part env) s key
      | _ \<Rightarrow> (False, None))"

text \<open>\<open>verifyMessageSecurity\<close> up to the verification of the signature.\<close>

definition verify_start :: "env \<Rightarrow> jsval \<Rightarrow> client \<Rightarrow> turn" where
  "verify_start e env c =
     (if \<not> requires_verification c env then (c, [Deliver env])
      else if pget env ''thread_id'' = JUndef \<or> \<not> is_num (pget env ''timestamp'') \<or> \<not> truthy (pget env ''nonce'')
              \<or> pget env ''payload'' = JUndef
      then (handleError ''INVALID_MESSAGE'' c, [])
      else if \<not> truthy (pget env ''signature'') then (handleError ''MISSING_SIGNATURE'' c, [])
      else (c, [SignatureChecked env (check_signature (e_rt e) env (dflt (mac_key c) []))]))"

text \<open>The rest of it up to the hash; the clock is read once per turn.\<close>

definition age_error :: "rat \<Rightarrow> rat \<Rightarrow> jsval \<Rightarrow> string option" where
  "age_error now maxAge timestamp =
     (case timestamp of
        JNum ts \<Rightarrow> if now - ts > maxAge then Some ''MESSAGE_TOO_OLD''
                   else if now - ts < - 5000 then Some ''INVALID_TIMESTAMP'' else None
      | _ \<Rightarrow> None)"

definition verify_signed :: "env \<Rightarrow> jsval \<Rightarrow> verdict \<Rightarrow> client \<Rightarrow> turn" where
  "verify_signed e env result c =
     (if \<not> fst result then (handleError ''INVALID_SIGNATURE'' c, [])
      else case age_error (e_now e) (max_age (options c)) (pget env ''timestamp'') of
        Some code \<Rightarrow> (handleError code c, [])
      | None \<Rightarrow>
          (case validateNonce (max_age (options c)) (seenNonces c) (e_now e) (pget env ''nonce'')
                  (pget (pget env ''meta'') ''client_id'') of
             (seen, NonceThrows) \<Rightarrow> (c, [])
           | (seen, NonceError err) \<Rightarrow> (handleError ''INVALID_NONCE'' c, [])
           | (seen, NonceValid) \<Rightarrow>
               (let c1 = c\<lparr>seenNonces := seen\<rparr>
                in if given (lastReceivedHash c1) \<and> pget env ''prev_message_hash'' \<noteq> of_str (lastReceivedHash c1)
                   then (handleError ''HASH_CHAIN_MISMATCH'' c1, [])
                   else (c1, [EnvelopeHashed env (hashEnvelope (e_rt e) (signed_part env))]))))"

definition verify_hashed :: "jsval \<Rightarrow> string result \<Rightarrow> client \<Rightarrow> turn" where
  "verify_hashed env h c =
     (case h of
        Inl _ \<Rightarrow> (handleError ''HASH_FAILURE'' c, [])
      | Inr x \<Rightarrow> (c\<lparr>lastReceivedHash := Some x\<rparr>, [Deliver env]))"

section \<open>Handshake replies\<close>

text \<open>The end of \<open>handleHandshakeAck\<close>, reached on every path but a failed authentication.\<close>

definition ack_finish :: "client \<Rightarrow> client" where
  "ack_finish c =
     (let c1 = c\<lparr>isConnected := True, isHandshakeComplete := True, isAttemptingResume := False, reconnectAttempts := 0\<rparr>;
          c2 = startNonceCleanup (startHeartbeat (clearReconnectTimer c1));
          c3 = emit (OnConnected (threadId c2) (sessionId c2)) (c2\<lparr>lastSentHash := None, lastReceivedHash := None\<rparr>)
      in if pendingConnectResolve c3
         then (emit PromiseResolved c3)\<lparr>pendingConnectResolve := False, pendingConnectReject := False, connectPromise := False\<rparr>
         else c3)"

definition derive_secret :: "env \<Rightarrow> jsval \<Rightarrow> string \<Rightarrow> client \<Rightarrow> turn" where
  "derive_secret e message serverPublicKey c =
     (c, [SharedSecret message
       (case ecdhPrivateKey c of
          Some priv \<Rightarrow> deriveSharedSecret (e_rt e) priv serverPublicKey
        | None \<Rightarrow> Inl ''Invalid private key'')])"

text \<open>
  A server key that is not a string cannot be used and counts as missing; a server signature or
  timestamp of another type than string and number counts as one that does not verify.
\<close>

definition verify_server_key :: "env \<Rightarrow> jsval \<Rightarrow> jsval \<Rightarrow> jsval \<Rightarrow> string \<Rightarrow> string \<Rightarrow> verdict result" where
  "verify_server_key e sig ts sid pk sk =
     (case (sig, ts) of
        (JStr s, JNum t) \<Rightarrow> verifyEcdhPublicKey (e_rt e) (e_now e) pk (js_str sid) t s sk 300000
      | _ \<Rightarrow> Inr (False, None))"

definition handleHandshakeAck :: "env \<Rightarrow> jsval \<Rightarrow> client \<Rightarrow> turn" where
  "handleHandshakeAck e message c =
     (let c1 = persistIds (c\<lparr>threadId := pget message ''thread_id'', sessionId := pget message ''session_id'',
                 negotiatedHeartbeatMs := pget message ''heartbeat_interval_ms''\<rparr>);
          sig = pget message ''server_ecdh_signature''; ts = pget message ''server_ecdh_timestamp''
      in case js_or (pget message ''server_ecdh_public_key'') (pget message ''server_public_key'') of
           JStr pk \<Rightarrow>
             if opt_enableEcdhKeyExchange (options c1) \<and> given (ecdhPrivateKey c1) \<and> pk \<noteq> [] then
               (if truthy sig \<and> truthy ts \<and> given (opt_secretKey (options c1))
                then (c1, [ServerKeyVerified message pk
                            (verify_server_key e sig ts (sessionId c1) pk (dflt (opt_secretKey (options c1)) []))])
                else derive_secret e message pk c1)
             else (ack_finish c1, [])
         | _ \<Rightarrow> (ack_finish c1, []))"

definition ack_verified :: "env \<Rightarrow> jsval \<Rightarrow> string \<Rightarrow> verdict result \<Rightarrow> client \<Rightarrow> turn" where
  "ack_verified e message pk v c =
     (case v of
        Inl _ \<Rightarrow> (ack_finish c, [])
      | Inr (valid, _) \<Rightarrow>
          if \<not> valid then (disconnect (handleError ''ECDH_AUTH_FAILED'' c), [])
          else derive_secret e message pk c)"

definition ack_secret :: "env \<Rightarrow> jsval \<Rightarrow> string result \<Rightarrow> client \<Rightarrow> turn" where
  "ack_secret e message secret c =
     (case secret of
        Inr s \<Rightarrow> (c, [SessionKeys message (deriveSessionKeys (e_rt e) s (js_str (sessionId c)))])
      | Inl _ \<Rightarrow> (ack_finish c, []))"

definition ack_keys :: "session_keys result \<Rightarrow> client \<Rightarrow> turn" where
  "ack_keys keys c =
     (case keys of
        Inl _ \<Rightarrow> (ack_finish c, [])
      | Inr ks \<Rightarrow>
          (ack_finish (c\<lparr>options := (options c)\<lparr>opt_sessionMacKey := Some (sk_macKey ks),
               opt_requireSignatureVerification := Some True, opt_sessionEncryptionKey := Some (sk_encryptionKey ks)\<rparr>,
             ecdhPrivateKey := None\<rparr>), []))"

definition handleHandshakeReject :: "env \<Rightarrow> jsval \<Rightarrow> client \<Rightarrow> turn" where
  "handleHandshakeReject e message c =
     (if isAttemptingResume c then
        sendHandshakeInit e
          (c\<lparr>isAttemptingResume := False, threadId := JNull, sessionId := JNull,
             storage := removeItem (storageKeySession c) (removeItem (storageKeyThread c) (storage c))\<rparr>)
      else
        (let c1 = emitPermanentFailure (''Handshake rejected: '' @ js_str (pget message ''reason'')) c
         in (case ws c1 of None \<Rightarrow> c1 | Some s \<Rightarrow> close_socket s c1, [])))"

section \<open>Delivery\<close>

text \<open>The end of \<open>handleMessageAsync\<close>: \<open>onMessage\<close>, then the handler of the type. An error message
  without a payload makes \<open>handleError\<close> throw before it calls back.\<close>

definition deliver :: "env \<Rightarrow> jsval \<Rightarrow> client \<Rightarrow> turn" where
  "deliver e message c =
     (let c1 = emit (OnMessage message) c; payload = pget message ''payload'';
          type = (case pget message ''type'' of JStr t \<Rightarrow> t | _ \<Rightarrow> [])
      in if type = ''handshake_ack'' then handleHandshakeAck e message c1
         else if type = ''handshake_reject'' then handleHandshakeReject e message c1
         else if type = ''pong'' then (emit OnPong (scheduleHeartbeatTimeout (clearHeartbeatTimeout c1)), [])
         else if type = ''state_update'' then (emit (OnStateUpdate payload) c1, [])
         else if type = ''event'' then (emit (OnEvent payload) c1, [])
         else if type = ''error'' then (if nullish payload then c1 else emit (OnServerError payload) c1, [])
         else (c1, []))"

section \<open>Sending\<close>

text \<open>Lower-case hexadecimal of a number, \<open>n.toString(16)\<close>.\<close>

fun hex_str :: "nat \<Rightarrow> string" where
  "hex_str n = (if n < 16 then [hex_char n] else hex_str (n div 16) @ [hex_char (n mod 16)])"

declare hex_str.simps [simp del]

text \<open>The \<open>replace(/[xy]/g, ...)\<close> of the last resort, on the characters of the template.\<close>

fun fill_template :: "string \<Rightarrow> nat list \<Rightarrow> string" where
  "fill_template [] rs = []"
| "fill_template (ch # t) rs =
     (if ch = CHR ''x'' \<or> ch = CHR ''y'' then
        (let r = (case rs of [] \<Rightarrow> 0 | r # _ \<Rightarrow> r mod 16);
             v = (if ch = CHR ''x'' then r else 8 + r mod 4)
         in hex_char v # fill_template t (drop 1 rs))
      else ch # fill_template t rs)"

text \<open>
  \<open>generateSecureRandomHex\<close>, reached without a window only through \<open>globalThis.require\<close>; failing
  that, the last branch of \<open>generateUUIDv4\<close>, the clock and \<open>Math.random\<close> with the hyphens removed.
\<close>

definition fallback_uuid :: "env \<Rightarrow> string" where
  "fallback_uuid e =
     fill_template (hex_str (nat \<lfloor>e_now e\<rfloor>) @ ''-'' @ e_math_random e @ ''-4xxx-yxxx-xxxxxxxxxxxx'') (e_math_nibbles e)"

definition generateSecureRandomHex :: "env \<Rightarrow> nat \<Rightarrow> string" where
  "generateSecureRandomHex e byteLength =
     (case e_window_random e of
        Some bytes \<Rightarrow> bufferToHex (take byteLength bytes)
      | None \<Rightarrow>
          (case e_require_random e of
             Some bytes \<Rightarrow> bufferToHex (take byteLength bytes)
           | None \<Rightarrow> take (byteLength * 2) (filter (\<lambda>ch. ch \<noteq> CHR ''-'') (fallback_uuid e))))"

definition client_nonce :: "env \<Rightarrow> client \<Rightarrow> string" where
  "client_nonce e c =
     (let timestamp = e_now e; randomHex = generateSecureRandomHex e 16;
          legacy = dflt (opt_clientId (options c)) [] @ ''-'' @ num_str timestamp @ ''-'' @ randomHex
      in case mac_key c of
           Some k \<Rightarrow>
             if k \<noteq> [] then
               (case hmacSha256 (e_rt e) (num_str timestamp @ ''-'' @ randomHex) k of
                  Inr h \<Rightarrow> ''hmac-'' @ take 32 h @ ''-'' @ num_str timestamp
                | Inl _ \<Rightarrow> legacy)
             else legacy
         | None \<Rightarrow> legacy)"

definition placeholder :: string where "placeholder = ''v0-placeholder''"

definition generateSignature :: "env \<Rightarrow> client \<Rightarrow> jsval \<Rightarrow> string \<Rightarrow> string result" where
  "generateSignature e c message nonce =
     (let required = (opt_requireSignatureVerification (options c) = Some True)
      in if \<not> given (mac_key c) then
           (if required then Inl ''Signature verification required but no sessionMacKey or secretKey provided''
            else Inr placeholder)
         else
           (case signMessage (e_rt e)
                   ((signed_part message)\<lparr>sf_thread_id := js_or (pget message ''thread_id'') (JStr []), sf_nonce := JStr nonce\<rparr>)
                   (dflt (mac_key c) []) of
              Inr s \<Rightarrow> Inr s
            | Inl err \<Rightarrow> if required then Inl err else Inr placeholder))"

text \<open>\<open>{ ...o, k: v }\<close> on property lists.\<close>

definition with_props :: "jsval \<Rightarrow> (string \<times> jsval) list \<Rightarrow> jsval" where
  "with_props v kvs = JObj (spread (own v) kvs)"

definition send_start :: "env \<Rightarrow> jsval \<Rightarrow> client \<Rightarrow> turn" where
  "send_start e message c =
     (if \<not> isConnected c \<or> \<not> isHandshakeComplete c \<or> ws c = None then (c, [])
      else (c, [NonceReady message (client_nonce e c)]))"

definition send_with_nonce :: "env \<Rightarrow> jsval \<Rightarrow> string \<Rightarrow> client \<Rightarrow> turn" where
  "send_with_nonce e message nonce c =
     (let envelopeWithPrev = with_props message [(''prev_message_hash'', of_str (str_or (lastSentHash c) None))]
      in (c, [SignatureReady envelopeWithPrev nonce (generateSignature e c envelopeWithPrev nonce)]))"

text \<open>The \<open>catch\<close> of \<open>send\<close>.\<close>

definition send_failed :: "jsval \<Rightarrow> string \<Rightarrow> client \<Rightarrow> turn" where
  "send_failed envelopeWithPrev nonce c =
     (if opt_requireSignatureVerification (options c) = Some True
      then (handleError ''SIGNATURE_GENERATION_FAILED'' c, [])
      else (sendRaw (with_props envelopeWithPrev [(''nonce'', JStr nonce), (''signature'', JStr placeholder)]) c, []))"

definition encrypt_envelope :: "env \<Rightarrow> client \<Rightarrow> jsval \<Rightarrow> jsval" where
  "encrypt_envelope e c env =
     (case (opt_sessionEncryptionKey (options c), opt_sessionMacKey (options c)) of
        (Some ek, Some mk) \<Rightarrow>
          if opt_enableMetadataEncryption (options c) \<and> ek \<noteq> [] \<and> mk \<noteq> [] then
            (case (encryptMetadata (e_rt e) (e_iv e)
                     \<lparr>md_thread_id = pget env ''thread_id'', md_session_id = js_or (pget env ''session_id'') (JStr []),
                      md_timestamp = pget env ''timestamp''\<rparr> ek,
                   generateRoutingTag (e_rt e) (js_str (pget env ''thread_id''))
                     (js_str (js_or (pget env ''session_id'') (JStr []))) mk) of
               (Inr enc, Inr tg) \<Rightarrow>
                 with_props env [(''encrypted_metadata'', JStr enc), (''routing_tag'', JStr tg),
                   (''thread_id'', JStr []), (''session_id'', JStr []), (''timestamp'', JNum 0)]
             | _ \<Rightarrow> env)
          else env
      | _ \<Rightarrow> env)"

text \<open>The fields of the commitment: those of the wire, or of the message where encryption blanked them.\<close>

definition commitment_fields :: "jsval \<Rightarrow> jsval \<Rightarrow> signed_fields" where
  "commitment_fields wire prev =
     (signed_part wire)\<lparr>sf_thread_id := js_or (pget wire ''thread_id'') (pget prev ''thread_id''),
       sf_session_id := js_or (pget wire ''session_id'') (pget prev ''session_id''),
       sf_timestamp := js_or (pget wire ''timestamp'') (pget prev ''timestamp'')\<rparr>"

definition send_signed :: "env \<Rightarrow> jsval \<Rightarrow> string \<Rightarrow> string result \<Rightarrow> client \<Rightarrow> turn" where
  "send_signed e envelopeWithPrev nonce signature c =
     (case signature of
        Inl _ \<Rightarrow> send_failed envelopeWithPrev nonce c
      | Inr s \<Rightarrow>
          (let wire = encrypt_envelope e c (with_props envelopeWithPrev [(''nonce'', JStr nonce), (''signature'', JStr s)])
           in (c, [HashReady wire envelopeWithPrev nonce (hashEnvelope (e_rt e) (commitment_fields wire envelopeWithPrev))])))"

definition send_hashed :: "jsval \<Rightarrow> jsval \<Rightarrow> string \<Rightarrow> string result \<Rightarrow> client \<Rightarrow> turn" where
  "send_hashed wire envelopeWithPrev nonce h c =
     (case h of
        Inl _ \<Rightarrow> send_failed envelopeWithPrev nonce c
      | Inr x \<Rightarrow> (sendRaw wire (c\<lparr>lastSentHash := Some x\<rparr>), []))"

section \<open>Resuming\<close>

fun resume :: "env \<Rightarrow> task \<Rightarrow> client \<Rightarrow> turn" where
  "resume e (HandshakeKeys r k) c = handshake_with_keys e r k c"
| "resume e (HandshakeSigned msg t s) c = handshake_signed msg t s c"
| "resume e (Decrypted env) c = verify_start e env c"
| "resume e (SignatureChecked env v) c = verify_signed e env v c"
| "resume e (EnvelopeHashed env h) c = verify_hashed env h c"
| "resume e (Deliver env) c = deliver e env c"
| "resume e (ServerKeyVerified m pk v) c = ack_verified e m pk v c"
| "resume e (SharedSecret m s) c = ack_secret e m s c"
| "resume e (SessionKeys m k) c = ack_keys k c"
| "resume e (NonceReady m n) c = send_with_nonce e m n c"
| "resume e (SignatureReady env n s) c = send_signed e env n s c"
| "resume e (HashReady wire env n h) c = send_hashed wire env n h c"

section \<open>The operations of the application\<close>

definition send_built :: "env \<Rightarrow> string \<Rightarrow> jsval \<Rightarrow> jsval \<Rightarrow> string option \<Rightarrow> client \<Rightarrow> turn" where
  "send_built e type payload overrides enc c =
     (case buildEnvelope (e_now e) c type payload overrides enc of
        Inl _ \<Rightarrow> (c, [])
      | Inr env \<Rightarrow> send_start e env c)"

definition sendStructuredMessage ::
  "env \<Rightarrow> string \<Rightarrow> jsval \<Rightarrow> (jsval \<Rightarrow> jsval) \<Rightarrow> (jsval \<times> jsval) option \<Rightarrow> client \<Rightarrow> turn" where
  "sendStructuredMessage e type dataForEncoding buildPayload o' c =
     (let (encoded, encoding) = preparePayloadData c dataForEncoding
      in send_built e type (buildPayload encoded) (buildMetaOverridesFromOptions o') (Some encoding) c)"

definition sendStateUpdate :: "env \<Rightarrow> jsval \<Rightarrow> (jsval \<times> jsval) option \<Rightarrow> client \<Rightarrow> turn" where
  "sendStateUpdate e payload o' c =
     (if \<not> hasSessionContext c then (c, [])
      else sendStructuredMessage e ''state_update'' (pget payload ''data'')
             (\<lambda>encoded. with_props payload [(''data'', encoded)]) o' c)"

definition sendEvent :: "env \<Rightarrow> string \<Rightarrow> jsval \<Rightarrow> (jsval \<times> jsval) option \<Rightarrow> client \<Rightarrow> turn" where
  "sendEvent e eventType data o' c =
     (if \<not> hasSessionContext c then (c, [])
      else sendStructuredMessage e ''event'' data
             (\<lambda>encoded. JObj [(''event_type'', JStr eventType), (''data'', encoded)]) o' c)"

definition sendPing :: "env \<Rightarrow> client \<Rightarrow> turn" where
  "sendPing e c = (if \<not> hasSessionContext c then (c, []) else send_built e ''ping'' (JObj []) JUndef None c)"

definition sendMessage :: "env \<Rightarrow> string \<Rightarrow> jsval \<Rightarrow> jsval \<Rightarrow> client \<Rightarrow> turn" where
  "sendMessage e type meta payload c =
     (if \<not> hasSessionContext c then (c, []) else send_built e type payload meta None c)"

section \<open>Timer callbacks\<close>

fun on_timer :: "env \<Rightarrow> timer_kind \<Rightarrow> client \<Rightarrow> turn" where
  "on_timer e HeartbeatInterval c = (if isConnected c then sendPing e c else (c, []))"
| "on_timer e HeartbeatTimeout c = (forceReconnect ''heartbeat_timeout'' c, [])"
| "on_timer e ReconnectTimeout c = (connectWebSocket (c\<lparr>reconnectTimer := None\<rparr>), [])"
| "on_timer e NonceInterval c = (c\<lparr>seenNonces := cleanupExpiredNonces (max_age (options c)) (seenNonces c) (e_now e)\<rparr>, [])"

end
