(* ===== verification/Client_Machine.thy ===== *)
theory Client_Machine
  imports Client_Async
begin

text \<open>
  The client as a state machine. Its state is the client with the list of tasks that wait for a
  promise; an event is a call of the application, a socket event, a timer, or the continuation of one
  of the tasks, in any order. \<open>exec\<close> are the runs from a new client under a clock that never goes
  back. Proved of every run: the connection flags and timers stay consistent and every connect
  promise settles once (\<open>wf_client\<close>), no key exchange ever starts, delivered messages carry valid
  signatures, and no nonce is delivered twice.
\<close>

section \<open>Events and runs\<close>

datatype event =
    UserConnect
  | UserDisconnect
  | UserStateUpdate jsval "(jsval \<times> jsval) option"
  | UserEvent string jsval "(jsval \<times> jsval) option"
  | UserPing
  | UserMessage string jsval jsval
  | SocketOpen nat
  | SocketMessage nat string
  | SocketClose nat
  | TimerFires nat
  | Resume nat

definition add_tasks :: "task list \<Rightarrow> turn \<Rightarrow> turn" where
  "add_tasks ts t = (fst t, ts @ snd t)"

definition set_socket :: "nat \<Rightarrow> ready_state \<Rightarrow> client \<Rightarrow> client" where
  "set_socket s r c = c\<lparr>sockets := (sockets c)(s := r)\<rparr>"

definition one_shot :: "timer_kind \<Rightarrow> bool" where
  "one_shot k = (k = HeartbeatTimeout \<or> k = ReconnectTimeout)"

text \<open>\<open>None\<close>: the event cannot happen in this state.\<close>

fun step :: "env \<Rightarrow> event \<Rightarrow> turn \<Rightarrow> turn option" where
  "step e UserConnect (c, ts) = Some (connect c, ts)"
| "step e UserDisconnect (c, ts) = Some (disconnect c, ts)"
| "step e (UserStateUpdate p o') (c, ts) = Some (add_tasks ts (sendStateUpdate e p o' c))"
| "step e (UserEvent t d o') (c, ts) = Some (add_tasks ts (sendEvent e t d o' c))"
| "step e UserPing (c, ts) = Some (add_tasks ts (sendPing e c))"
| "step e (UserMessage t m p) (c, ts) = Some (add_tasks ts (sendMessage e t m p c))"
| "step e (SocketOpen s) (c, ts) =
     (if s < next_socket c \<and> sockets c s = CONNECTING then Some (add_tasks ts (on_open e (set_socket s OPEN c))) else None)"
| "step e (SocketMessage s d) (c, ts) =
     (if s < next_socket c \<and> sockets c s \<in> {OPEN, CLOSING} then Some (add_tasks ts (on_message e d c)) else None)"
| "step e (SocketClose s) (c, ts) =
     (if s < next_socket c \<and> sockets c s \<noteq> CLOSED then Some (on_close (set_socket s CLOSED c), ts) else None)"
| "step e (TimerFires t) (c, ts) =
     (case find (\<lambda>p. fst p = t) (timers c) of
        None \<Rightarrow> None
      | Some (_, k, _) \<Rightarrow> Some (add_tasks ts (on_timer e k (if one_shot k then clear_timer t c else c))))"
| "step e (Resume i) (c, ts) =
     (if i < length ts then Some (add_tasks (take i ts @ drop (Suc i) ts) (resume e (ts ! i) c)) else None)"

inductive exec :: "runtime \<Rightarrow> LtpClientOptions \<Rightarrow> event list \<Rightarrow> rat \<Rightarrow> turn \<Rightarrow> bool" for rt o' where
  exec_start: "exec rt o' [] now (new_client freshId platform o', [])"
| exec_step: "exec rt o' evs now w \<Longrightarrow> e_rt e = rt \<Longrightarrow> now \<le> e_now e \<Longrightarrow> step e ev w = Some w' \<Longrightarrow>
    exec rt o' (evs @ [ev]) (e_now e) w'"

section \<open>Consistency\<close>

fun settle :: "effect \<Rightarrow> int" where
  "settle PromiseCreated = 1"
| "settle PromiseResolved = - 1"
| "settle (PromiseRejected r) = - 1"
| "settle _ = 0"

text \<open>Promises created less promises settled.\<close>

definition balance :: "effect list \<Rightarrow> int" where
  "balance es = sum_list (map settle es)"

definition owned :: "client \<Rightarrow> nat \<times> timer_kind \<times> jsval \<Rightarrow> bool" where
  "owned c p \<longleftrightarrow> fst p < next_timer c
     \<and> (fst (snd p) = HeartbeatInterval \<longrightarrow> heartbeatTimer c = Some (fst p))
     \<and> (fst (snd p) = HeartbeatTimeout \<longrightarrow> heartbeatTimeout c = Some (fst p))
     \<and> (fst (snd p) = ReconnectTimeout \<longrightarrow> reconnectTimer c = Some (fst p)
          \<and> (\<exists>x \<le> maxDelayMs (reconnectConfig c). snd (snd p) = JNum x))"

definition timers_ok :: "client \<Rightarrow> bool" where
  "timers_ok c \<longleftrightarrow> list_all (owned c) (timers c)"

text \<open>A live heartbeat belongs to a connected client.\<close>

definition heartbeat_ok :: "client \<Rightarrow> bool" where
  "heartbeat_ok c \<longleftrightarrow> (isConnected c \<or> list_all (\<lambda>p. fst (snd p) \<noteq> HeartbeatInterval) (timers c))"

definition flags_ok :: "client \<Rightarrow> bool" where
  "flags_ok c \<longleftrightarrow> isConnected c = isHandshakeComplete c"

definition promise_ok :: "client \<Rightarrow> bool" where
  "promise_ok c \<longleftrightarrow> pendingConnectResolve c = connectPromise c \<and> pendingConnectReject c = connectPromise c
     \<and> balance (out c) = (if connectPromise c then 1 else 0)"

definition retries_ok :: "client \<Rightarrow> bool" where
  "retries_ok c \<longleftrightarrow> reconnectAttempts c = 0 \<or> of_nat (reconnectAttempts c) < maxRetries (reconnectConfig c) + 1"

definition wf_client :: "client \<Rightarrow> bool" where
  "wf_client c \<longleftrightarrow> timers_ok c \<and> heartbeat_ok c \<and> flags_ok c \<and> promise_ok c \<and> retries_ok c"

lemma balance_simps [simp]:
  "balance [] = 0" "balance (e # es) = settle e + balance es" "balance (es @ fs) = balance es + balance fs"
  by (simp_all add: balance_def)

subsection \<open>Timers\<close>

lemmas inv_defs = flags_ok_def promise_ok_def retries_ok_def

lemmas timer_defs = set_timer_def clear_timer_def clearHeartbeatTimeout_def clearHeartbeatTimers_def
  stopNonceCleanup_def clearReconnectTimer_def startNonceCleanup_def

lemma timers_ok_emit [simp]: "timers_ok (emit x c) = timers_ok c"
  by (simp add: emit_def timers_ok_def owned_def list_all_iff)

lemma timers_ok_clears:
  assumes "timers_ok c"
  shows "timers_ok (clear_timer t c)" "timers_ok (clearHeartbeatTimeout c)" "timers_ok (clearHeartbeatTimers c)"
    "timers_ok (stopNonceCleanup c)" "timers_ok (clearReconnectTimer c)"
  using assms by (auto simp: timers_ok_def timer_defs owned_def list_all_iff split: option.splits)

lemma timers_ok_starts:
  assumes "timers_ok c"
  shows "timers_ok (scheduleHeartbeatTimeout c)" "timers_ok (startHeartbeat c)" "timers_ok (startNonceCleanup c)"
    "timers_ok (scheduleReconnect r c)"
  using assms
  by (auto simp: timers_ok_def timer_defs scheduleHeartbeatTimeout_def startHeartbeat_def scheduleReconnect_def
      emitPermanentFailure_def emit_def Let_def reconnect_delay_def owned_def list_all_iff split: option.splits)


subsection \<open>Fields the helpers leave alone\<close>

text \<open>
  The part of the state that the flags, the promise and the security checks are about: everything
  but timers, sockets and identifiers.
\<close>

definition core :: "client \<Rightarrow> _" where
  "core c = (isConnected c, isHandshakeComplete c, connectPromise c, pendingConnectResolve c, pendingConnectReject c,
     out c, reconnectAttempts c, reconnectConfig c, options c, seenNonces c, manualDisconnect c, ecdhPrivateKey c, ecdhPublicKey c)"

lemma core_timers [simp]:
  "core (set_timer k d c) = core c" "core (clear_timer t c) = core c" "core (clearHeartbeatTimeout c) = core c"
  "core (clearHeartbeatTimers c) = core c" "core (stopNonceCleanup c) = core c" "core (clearReconnectTimer c) = core c"
  "core (startNonceCleanup c) = core c" "core (scheduleHeartbeatTimeout c) = core c" "core (startHeartbeat c) = core c"
  "core (close_socket s c) = core c" "core (persistIds c) = core c" "core (set_socket s r c) = core c"
  by (auto simp: core_def timer_defs scheduleHeartbeatTimeout_def startHeartbeat_def close_socket_def persistIds_def
      set_socket_def Let_def split: option.splits)

lemmas core_sels [simp] = core_timers [unfolded core_def prod.inject]

lemma core_emit [simp]:
  "isConnected (emit x c) = isConnected c" "isHandshakeComplete (emit x c) = isHandshakeComplete c"
  "connectPromise (emit x c) = connectPromise c" "pendingConnectResolve (emit x c) = pendingConnectResolve c"
  "pendingConnectReject (emit x c) = pendingConnectReject c" "out (emit x c) = out c @ [x]"
  "reconnectAttempts (emit x c) = reconnectAttempts c" "reconnectConfig (emit x c) = reconnectConfig c"
  "options (emit x c) = options c" "seenNonces (emit x c) = seenNonces c" "manualDisconnect (emit x c) = manualDisconnect c"
  "ecdhPrivateKey (emit x c) = ecdhPrivateKey c" "ecdhPublicKey (emit x c) = ecdhPublicKey c"
  by (simp_all add: emit_def)

lemma timers_ok_upd [simp]:
  "timers_ok (c\<lparr>isConnected := b\<rparr>) = timers_ok c" "timers_ok (c\<lparr>isHandshakeComplete := b\<rparr>) = timers_ok c"
  "timers_ok (c\<lparr>isAttemptingResume := b\<rparr>) = timers_ok c" "timers_ok (c\<lparr>isConnecting := b\<rparr>) = timers_ok c"
  "timers_ok (c\<lparr>manualDisconnect := b\<rparr>) = timers_ok c" "timers_ok (c\<lparr>connectPromise := b\<rparr>) = timers_ok c"
  "timers_ok (c\<lparr>pendingConnectResolve := b\<rparr>) = timers_ok c" "timers_ok (c\<lparr>pendingConnectReject := b\<rparr>) = timers_ok c"
  "timers_ok (c\<lparr>reconnectAttempts := n\<rparr>) = timers_ok c" "timers_ok (c\<lparr>lastSentHash := h\<rparr>) = timers_ok c"
  "timers_ok (c\<lparr>lastReceivedHash := h\<rparr>) = timers_ok c" "timers_ok (c\<lparr>ecdhPrivateKey := h\<rparr>) = timers_ok c"
  "timers_ok (c\<lparr>ecdhPublicKey := h\<rparr>) = timers_ok c" "timers_ok (c\<lparr>forcedReconnectReason := h\<rparr>) = timers_ok c"
  "timers_ok (c\<lparr>threadId := v\<rparr>) = timers_ok c" "timers_ok (c\<lparr>sessionId := v\<rparr>) = timers_ok c"
  "timers_ok (c\<lparr>negotiatedHeartbeatMs := v\<rparr>) = timers_ok c" "timers_ok (c\<lparr>storage := st\<rparr>) = timers_ok c"
  "timers_ok (c\<lparr>seenNonces := sn\<rparr>) = timers_ok c" "timers_ok (c\<lparr>options := o'\<rparr>) = timers_ok c"
  "timers_ok (c\<lparr>ws := w\<rparr>) = timers_ok c" "timers_ok (c\<lparr>sockets := sk\<rparr>) = timers_ok c"
  "timers_ok (c\<lparr>next_socket := n\<rparr>) = timers_ok c" "timers_ok (c\<lparr>out := es\<rparr>) = timers_ok c"
  by (simp_all add: timers_ok_def owned_def list_all_iff)

lemma timers_ok_other [simp]:
  "timers_ok (close_socket s c) = timers_ok c" "timers_ok (persistIds c) = timers_ok c" "timers_ok (set_socket s r c) = timers_ok c"
  by (simp_all add: close_socket_def persistIds_def set_socket_def Let_def)

text \<open>No heartbeat interval is live.\<close>

definition no_hb :: "client \<Rightarrow> bool" where
  "no_hb c \<longleftrightarrow> list_all (\<lambda>p. fst (snd p) \<noteq> HeartbeatInterval) (timers c)"

lemma heartbeat_ok_no_hb: "heartbeat_ok c \<longleftrightarrow> isConnected c \<or> no_hb c"
  by (simp add: heartbeat_ok_def no_hb_def)

lemma no_hb_upd [simp]:
  "no_hb (c\<lparr>isConnected := b\<rparr>) = no_hb c" "no_hb (c\<lparr>isHandshakeComplete := b\<rparr>) = no_hb c"
  "no_hb (c\<lparr>isAttemptingResume := b\<rparr>) = no_hb c" "no_hb (c\<lparr>isConnecting := b\<rparr>) = no_hb c"
  "no_hb (c\<lparr>manualDisconnect := b\<rparr>) = no_hb c" "no_hb (c\<lparr>connectPromise := b\<rparr>) = no_hb c"
  "no_hb (c\<lparr>pendingConnectResolve := b\<rparr>) = no_hb c" "no_hb (c\<lparr>pendingConnectReject := b\<rparr>) = no_hb c"
  "no_hb (c\<lparr>reconnectAttempts := n\<rparr>) = no_hb c" "no_hb (c\<lparr>lastSentHash := h\<rparr>) = no_hb c"
  "no_hb (c\<lparr>lastReceivedHash := h\<rparr>) = no_hb c" "no_hb (c\<lparr>ecdhPrivateKey := h\<rparr>) = no_hb c"
  "no_hb (c\<lparr>ecdhPublicKey := h\<rparr>) = no_hb c" "no_hb (c\<lparr>forcedReconnectReason := h\<rparr>) = no_hb c"
  "no_hb (c\<lparr>threadId := v\<rparr>) = no_hb c" "no_hb (c\<lparr>sessionId := v\<rparr>) = no_hb c"
  "no_hb (c\<lparr>negotiatedHeartbeatMs := v\<rparr>) = no_hb c" "no_hb (c\<lparr>storage := st\<rparr>) = no_hb c"
  "no_hb (c\<lparr>seenNonces := sn\<rparr>) = no_hb c" "no_hb (c\<lparr>options := o'\<rparr>) = no_hb c"
  "no_hb (c\<lparr>ws := w\<rparr>) = no_hb c" "no_hb (c\<lparr>sockets := sk\<rparr>) = no_hb c"
  "no_hb (c\<lparr>next_socket := n\<rparr>) = no_hb c" "no_hb (c\<lparr>out := es\<rparr>) = no_hb c"
  "no_hb (c\<lparr>lastReconnectDelayMs := x\<rparr>) = no_hb c" "no_hb (c\<lparr>reconnectTimer := t\<rparr>) = no_hb c"
  "no_hb (emit x' c) = no_hb c" "no_hb (close_socket s c) = no_hb c" "no_hb (persistIds c) = no_hb c"
  "no_hb (set_socket s r c) = no_hb c"
  by (simp_all add: no_hb_def emit_def close_socket_def persistIds_def set_socket_def Let_def)

lemma no_hb_ops [intro]:
  assumes "no_hb c"
  shows "no_hb (clear_timer t c)" "no_hb (clearHeartbeatTimeout c)" "no_hb (clearHeartbeatTimers c)" "no_hb (stopNonceCleanup c)"
    "no_hb (clearReconnectTimer c)" "no_hb (startNonceCleanup c)" "no_hb (scheduleHeartbeatTimeout c)" "no_hb (scheduleReconnect r c)"
  using assms
  by (auto simp: no_hb_def timer_defs scheduleHeartbeatTimeout_def scheduleReconnect_def emitPermanentFailure_def emit_def
      Let_def list_all_iff split: option.splits)

lemma no_hb_cleared: "timers_ok c \<Longrightarrow> no_hb (clearHeartbeatTimers c)"
  by (auto simp: no_hb_def timers_ok_def owned_def timer_defs list_all_iff split: option.splits)

subsection \<open>Every operation keeps the client consistent\<close>

lemma wf_clientI:
  "timers_ok c \<Longrightarrow> isConnected c \<or> no_hb c \<Longrightarrow> flags_ok c \<Longrightarrow> promise_ok c \<Longrightarrow> retries_ok c \<Longrightarrow> wf_client c"
  by (simp add: wf_client_def heartbeat_ok_no_hb)

lemma wf_clientD:
  assumes "wf_client c"
  shows "timers_ok c" "isConnected c \<or> no_hb c" "flags_ok c" "promise_ok c" "retries_ok c"
  using assms by (auto simp: wf_client_def heartbeat_ok_no_hb)

lemma promise_ok_failure: "promise_ok c \<Longrightarrow> promise_ok (emitPermanentFailure r c)"
  by (simp add: promise_ok_def emitPermanentFailure_def Let_def)

lemma core_failure [simp]:
  "isConnected (emitPermanentFailure r c) = isConnected c" "isHandshakeComplete (emitPermanentFailure r c) = isHandshakeComplete c"
  "reconnectAttempts (emitPermanentFailure r c) = reconnectAttempts c" "reconnectConfig (emitPermanentFailure r c) = reconnectConfig c"
  "options (emitPermanentFailure r c) = options c" "seenNonces (emitPermanentFailure r c) = seenNonces c"
  "timers_ok (emitPermanentFailure r c) = timers_ok c" "no_hb (emitPermanentFailure r c) = no_hb c"
  "ecdhPrivateKey (emitPermanentFailure r c) = ecdhPrivateKey c" "ecdhPublicKey (emitPermanentFailure r c) = ecdhPublicKey c"
  by (simp_all add: emitPermanentFailure_def Let_def)

lemma wf_scheduleReconnect: "wf_client c \<Longrightarrow> wf_client (scheduleReconnect r c)"
proof -
  assume wf: "wf_client c"
  note D = wf_clientD [OF wf]
  show ?thesis
  proof (rule wf_clientI)
    show "timers_ok (scheduleReconnect r c)" by (rule timers_ok_starts [OF D(1)])
    show "isConnected (scheduleReconnect r c) \<or> no_hb (scheduleReconnect r c)"
      using D(2) no_hb_ops(8) [of c r] by (auto simp: scheduleReconnect_def Let_def)
    show "flags_ok (scheduleReconnect r c)"
      using D(3) by (simp add: flags_ok_def scheduleReconnect_def Let_def set_timer_def)
    show "promise_ok (scheduleReconnect r c)"
      using D(4) by (simp add: scheduleReconnect_def promise_ok_failure Let_def) (simp add: promise_ok_def set_timer_def)
    show "retries_ok (scheduleReconnect r c)"
      using D(5) by (auto simp: retries_ok_def scheduleReconnect_def Let_def set_timer_def)
  qed
qed

lemma promise_ok_core:
  "core c = core c' \<Longrightarrow> promise_ok c = promise_ok c'" "core c = core c' \<Longrightarrow> flags_ok c = flags_ok c'"
  "core c = core c' \<Longrightarrow> retries_ok c = retries_ok c'"
  by (simp_all add: core_def promise_ok_def flags_ok_def retries_ok_def)

lemma wf_core:
  assumes "wf_client c" and "core c' = core c" and "timers_ok c'" and "no_hb c \<Longrightarrow> no_hb c'"
  shows "wf_client c'"
proof -
  have "isConnected c' = isConnected c" using assms(2) by (simp add: core_def)
  then show ?thesis
    using wf_clientD [OF assms(1)] assms(3,4) promise_ok_core [OF assms(2)] by (auto intro!: wf_clientI)
qed

lemma wf_helpers:
  assumes "wf_client c"
  shows "wf_client (scheduleHeartbeatTimeout c)" "wf_client (clearHeartbeatTimeout c)" "wf_client (close_socket s c)"
    "wf_client (set_socket s r c)" "wf_client (clear_timer t c)"
  by (rule wf_core [OF assms]; use wf_clientD(1) [OF assms] in \<open>auto simp: timers_ok_starts timers_ok_clears\<close>)+

lemma wf_emit: "wf_client c \<Longrightarrow> settle x = 0 \<Longrightarrow> wf_client (emit x c)"
  by (auto simp: wf_client_def heartbeat_ok_no_hb inv_defs)

lemma wf_emitPermanentFailure: "wf_client c \<Longrightarrow> wf_client (emitPermanentFailure r c)"
  by (auto simp: wf_client_def heartbeat_ok_no_hb promise_ok_failure flags_ok_def retries_ok_def)

lemma wf_handleDisconnect:
  assumes "wf_client c"
  shows "wf_client (handleDisconnect r c)"
proof -
  let ?c0 = "c\<lparr>isConnected := False, isHandshakeComplete := False\<rparr>"
  let ?c1 = "stopNonceCleanup (clearHeartbeatTimers ?c0)"
  let ?c2 = "emit OnDisconnected (?c1\<lparr>lastSentHash := None, lastReceivedHash := None, ecdhPrivateKey := None, ecdhPublicKey := None\<rparr>)"
  note D = wf_clientD [OF assms]
  have t: "timers_ok ?c0" using D(1) by simp
  have "wf_client ?c2"
  proof (rule wf_clientI)
    show "timers_ok ?c2" using t by (simp add: timers_ok_clears)
    show "isConnected ?c2 \<or> no_hb ?c2" using no_hb_cleared [OF t] by (simp add: no_hb_ops)
    show "flags_ok ?c2" "promise_ok ?c2" "retries_ok ?c2"
      using D by (simp_all add: inv_defs)
  qed
  moreover from this have "wf_client (?c2\<lparr>forcedReconnectReason := None\<rparr>)"
    by (rule wf_core) (use t in \<open>simp_all add: core_def timers_ok_clears\<close>)
  ultimately show ?thesis
    by (simp add: handleDisconnect_def Let_def wf_scheduleReconnect)
qed

lemma wf_connectWebSocket: "wf_client c \<Longrightarrow> wf_client (connectWebSocket c)"
proof -
  assume wf: "wf_client c"
  let ?c1 = "case ws c of None \<Rightarrow> c | Some s \<Rightarrow> close_socket s c"
  have wf1: "wf_client ?c1" using wf by (cases "ws c") (auto simp: wf_helpers)
  have "wf_client (emit (NewSocket s) ?c1)" for s by (rule wf_emit [OF wf1]) simp
  then have "wf_client ((emit (NewSocket s) ?c1)\<lparr>isConnecting := True, ws := Some s, next_socket := Suc s,
      sockets := sk\<rparr>)" for s sk
    by (rule wf_core) (use wf_clientD(1) [OF wf1] in \<open>simp_all add: core_def\<close>)
  with wf1 show ?thesis by (simp add: connectWebSocket_def Let_def)
qed

lemma wf_connect: "wf_client c \<Longrightarrow> wf_client (connect c)"
proof -
  assume wf: "wf_client c"
  have "wf_client ((emit PromiseCreated c)\<lparr>manualDisconnect := False, reconnectAttempts := 0, connectPromise := True,
      pendingConnectResolve := True, pendingConnectReject := True\<rparr>)" if "\<not> connectPromise c"
    using wf that by (auto simp: wf_client_def heartbeat_ok_no_hb inv_defs)
  with wf show ?thesis by (simp add: connect_def wf_connectWebSocket)
qed

lemma wf_disconnect:
  assumes "wf_client c"
  shows "wf_client (disconnect c)"
proof -
  let ?c1 = "stopNonceCleanup (clearReconnectTimer (clearHeartbeatTimers (c\<lparr>manualDisconnect := True\<rparr>)))"
  let ?c2 = "?c1\<lparr>seenNonces := Map.empty\<rparr>"
  let ?c3 = "case ws ?c2 of None \<Rightarrow> ?c2 | Some s \<Rightarrow> (close_socket s ?c2)\<lparr>ws := None\<rparr>"
  note D = wf_clientD [OF assms]
  have t: "timers_ok (c\<lparr>manualDisconnect := True\<rparr>)" using D(1) by simp
  have "timers_ok ?c1" "no_hb ?c1"
    using t no_hb_cleared [OF t] by (simp_all add: timers_ok_clears no_hb_ops)
  then have "timers_ok ?c3" "no_hb ?c3" by (auto split: option.split)
  moreover have "pendingConnectReject ?c3 = connectPromise c" "pendingConnectResolve ?c3 = connectPromise c"
    "balance (out ?c3) = (if connectPromise c then 1 else 0)" "retries_ok ?c3"
    using D(4,5) by (auto simp: inv_defs split: option.split)
  ultimately show ?thesis
    unfolding disconnect_def Let_def by (auto simp: wf_client_def heartbeat_ok_no_hb inv_defs)
qed

lemma wf_forceReconnect: "wf_client c \<Longrightarrow> wf_client (forceReconnect r c)"
proof -
  assume wf: "wf_client c"
  have "wf_client (c\<lparr>forcedReconnectReason := x\<rparr>)" for x
    by (rule wf_core [OF wf]) (use wf_clientD(1) [OF wf] in \<open>simp_all add: core_def\<close>)
  then show ?thesis
    using wf by (auto simp: forceReconnect_def wf_handleDisconnect wf_helpers split: option.split)
qed

lemma wf_sendRaw: "wf_client c \<Longrightarrow> wf_client (sendRaw m c)"
  by (auto simp: sendRaw_def wf_emit split: option.split)

lemma wf_fields:
  assumes "wf_client c"
  shows "wf_client (c\<lparr>threadId := v, sessionId := w, negotiatedHeartbeatMs := x\<rparr>)"
    "wf_client (c\<lparr>isAttemptingResume := b, threadId := v, sessionId := w, storage := st\<rparr>)"
    "wf_client (c\<lparr>isConnecting := b\<rparr>)" "wf_client (c\<lparr>isAttemptingResume := b\<rparr>)" "wf_client (c\<lparr>seenNonces := sn\<rparr>)"
    "wf_client (c\<lparr>ecdhPrivateKey := k, ecdhPublicKey := k'\<rparr>)" "wf_client (c\<lparr>lastReceivedHash := h\<rparr>)"
    "wf_client (c\<lparr>lastSentHash := h\<rparr>)" "wf_client (c\<lparr>options := o', ecdhPrivateKey := k\<rparr>)" "wf_client (persistIds c)"
  using assms by (auto simp: wf_client_def heartbeat_ok_no_hb inv_defs)

lemma wf_ack_finish:
  assumes "wf_client c"
  shows "wf_client (ack_finish c)"
proof -
  let ?c1 = "c\<lparr>isConnected := True, isHandshakeComplete := True, isAttemptingResume := False, reconnectAttempts := 0\<rparr>"
  let ?c2 = "startNonceCleanup (startHeartbeat (clearReconnectTimer ?c1))"
  note D = wf_clientD [OF assms]
  have "timers_ok ?c1" using D(1) by simp
  then have "timers_ok ?c2" by (intro timers_ok_starts timers_ok_clears)
  moreover have "pendingConnectReject ?c2 = connectPromise c" "pendingConnectResolve ?c2 = connectPromise c"
    "connectPromise ?c2 = connectPromise c" "balance (out ?c2) = (if connectPromise c then 1 else 0)" "retries_ok ?c2"
    "isConnected ?c2" "isHandshakeComplete ?c2"
    using D(4,5) by (auto simp: inv_defs)
  ultimately show ?thesis
    unfolding ack_finish_def Let_def by (auto simp: wf_client_def heartbeat_ok_no_hb inv_defs)
qed

lemma wf_resume:
  assumes "wf_client c"
  shows "wf_client (fst (resume e t c))"
proof (cases t)
  case (HandshakeKeys r k)
  have "wf_client (store_keys k c)"
    using assms by (auto simp: store_keys_def wf_fields split: option.split sum.split)
  then show ?thesis
    by (simp add: HandshakeKeys handshake_with_keys_def Let_def wf_sendRaw split: option.split)
next
  case (Deliver m)
  have em: "wf_client (emit (OnMessage m) c)" by (rule wf_emit [OF assms]) simp
  have "wf_client (fst (handleHandshakeAck e m (emit (OnMessage m) c)))"
    using wf_fields(10) [OF wf_fields(1) [OF em]]
    by (simp add: handleHandshakeAck_def Let_def derive_secret_def wf_ack_finish split: jsval.split)
  moreover have "wf_client (fst (handleHandshakeReject e m (emit (OnMessage m) c)))"
    using em by (simp add: handleHandshakeReject_def Let_def sendHandshakeInit_def wf_fields wf_emitPermanentFailure
        wf_helpers split: option.split)
  ultimately show ?thesis
    using em by (simp add: Deliver deliver_def Let_def wf_emit wf_helpers)
next
  case (SignatureChecked env v)
  then show ?thesis
    using assms by (simp add: verify_signed_def handleError_def Let_def wf_emit wf_fields
        split: option.split prod.split nonce_verdict.split)
qed (use assms in \<open>auto simp: handshake_signed_def verify_start_def verify_hashed_def handleError_def
    ack_verified_def ack_secret_def ack_keys_def derive_secret_def send_with_nonce_def send_signed_def send_failed_def
    send_hashed_def Let_def wf_sendRaw wf_emit wf_fields wf_ack_finish wf_disconnect
    split: sum.split option.split prod.split\<close>)

lemma fst_send_built [simp]: "fst (send_built e t p m enc c) = c"
  by (simp add: send_built_def send_start_def split: sum.split)

lemma fst_sends [simp]:
  "fst (sendStateUpdate e p o' c) = c" "fst (sendEvent e t d o' c) = c" "fst (sendPing e c) = c"
  "fst (sendMessage e t m p c) = c" "fst (on_message e txt c) = c"
  by (simp_all add: sendStateUpdate_def sendEvent_def sendPing_def sendMessage_def sendStructuredMessage_def on_message_def
      split: prod.split option.split)

lemma fst_handshakes [simp]: "fst (sendHandshakeInit e c) = c" "fst (sendHandshakeResume e c) = c"
  by (simp_all add: sendHandshakeInit_def sendHandshakeResume_def)

lemma wf_fired: "wf_client c \<Longrightarrow> wf_client ((clear_timer t c)\<lparr>reconnectTimer := None\<rparr>)"
  if "reconnectTimer c = Some t"
  using that wf_helpers(5) [of c t] no_hb_ops(1) [of c t]
  by (auto simp: wf_client_def heartbeat_ok_no_hb inv_defs timers_ok_def owned_def clear_timer_def list_all_iff)

lemma find_mem: "find P xs = Some x \<Longrightarrow> x \<in> set xs \<and> P x"
  by (induction xs) (auto split: if_splits)

lemma wf_step:
  assumes "wf_client (fst w)" and "step e ev w = Some w'"
  shows "wf_client (fst w')"
proof -
  obtain c ts where w: "w = (c, ts)" by (cases w)
  have wf: "wf_client c" using assms(1) w by simp
  show ?thesis
  proof (cases ev)
    case (TimerFires t)
    then obtain t' k d where f: "find (\<lambda>p. fst p = t) (timers c) = Some (t', k, d)"
      and w': "w' = add_tasks ts (on_timer e k (if one_shot k then clear_timer t c else c))"
      using assms(2) w by (auto split: option.splits)
    have mem: "(t, k, d) \<in> set (timers c)" using find_mem [OF f] by auto
    then have "k = ReconnectTimeout \<Longrightarrow> reconnectTimer c = Some t"
      using wf_clientD(1) [OF wf] by (auto simp: timers_ok_def owned_def list_all_iff)
    then show ?thesis
      using wf by (cases k) (auto simp: w' add_tasks_def one_shot_def wf_forceReconnect wf_helpers wf_connectWebSocket
          wf_fired wf_fields)
  qed (use assms(2) wf w in \<open>auto simp: add_tasks_def wf_connect wf_disconnect wf_resume on_open_def on_close_def Let_def
      wf_helpers wf_fields wf_handleDisconnect split: if_splits\<close>)
qed

lemma wf_new_client: "wf_client (new_client f p o')"
  by (simp add: new_client_def Let_def loadPersistedIds_def wf_client_def timers_ok_def heartbeat_ok_def inv_defs)

lemma exec_wf: "exec rt o' evs now w \<Longrightarrow> wf_client (fst w)"
  by (induction rule: exec.induct) (auto simp: wf_new_client intro: wf_step)

section \<open>What the helpers do not touch\<close>

text \<open>The options, the nonce cache and the messages handed to the application.\<close>

fun msg_of :: "effect \<Rightarrow> jsval list" where
  "msg_of (OnMessage m) = [m]"
| "msg_of _ = []"

definition msgs :: "client \<Rightarrow> jsval list" where
  "msgs c = concat (map msg_of (out c))"

definition sec :: "client \<Rightarrow> LtpClientOptions \<times> nonce_cache \<times> jsval list" where
  "sec c = (options c, seenNonces c, msgs c)"

lemma sec_core: "core c' = core c \<Longrightarrow> sec c' = sec c"
  by (simp add: core_def sec_def msgs_def)

lemma sec_upd [simp]:
  "sec (c\<lparr>isConnected := b\<rparr>) = sec c" "sec (c\<lparr>isHandshakeComplete := b\<rparr>) = sec c"
  "sec (c\<lparr>isAttemptingResume := b\<rparr>) = sec c" "sec (c\<lparr>isConnecting := b\<rparr>) = sec c"
  "sec (c\<lparr>manualDisconnect := b\<rparr>) = sec c" "sec (c\<lparr>connectPromise := b\<rparr>) = sec c"
  "sec (c\<lparr>pendingConnectResolve := b\<rparr>) = sec c" "sec (c\<lparr>pendingConnectReject := b\<rparr>) = sec c"
  "sec (c\<lparr>reconnectAttempts := n\<rparr>) = sec c" "sec (c\<lparr>lastSentHash := h\<rparr>) = sec c"
  "sec (c\<lparr>lastReceivedHash := h\<rparr>) = sec c" "sec (c\<lparr>ecdhPrivateKey := h\<rparr>) = sec c"
  "sec (c\<lparr>ecdhPublicKey := h\<rparr>) = sec c" "sec (c\<lparr>forcedReconnectReason := h\<rparr>) = sec c"
  "sec (c\<lparr>threadId := v\<rparr>) = sec c" "sec (c\<lparr>sessionId := v\<rparr>) = sec c"
  "sec (c\<lparr>negotiatedHeartbeatMs := v\<rparr>) = sec c" "sec (c\<lparr>storage := st\<rparr>) = sec c"
  "sec (c\<lparr>ws := w\<rparr>) = sec c" "sec (c\<lparr>sockets := sk\<rparr>) = sec c"
  "sec (c\<lparr>next_socket := n\<rparr>) = sec c" "sec (c\<lparr>reconnectTimer := t\<rparr>) = sec c"
  "sec (c\<lparr>lastReconnectDelayMs := x\<rparr>) = sec c"
  by (simp_all add: sec_def msgs_def)

lemma sec_timers [simp]:
  "sec (set_timer k d c) = sec c" "sec (clear_timer t c) = sec c" "sec (clearHeartbeatTimeout c) = sec c"
  "sec (clearHeartbeatTimers c) = sec c" "sec (stopNonceCleanup c) = sec c" "sec (clearReconnectTimer c) = sec c"
  "sec (startNonceCleanup c) = sec c" "sec (scheduleHeartbeatTimeout c) = sec c" "sec (startHeartbeat c) = sec c"
  "sec (close_socket s c) = sec c" "sec (persistIds c) = sec c" "sec (set_socket s r c) = sec c"
  by (rule sec_core, simp)+

lemma sec_emit [simp]: "msg_of x = [] \<Longrightarrow> sec (emit x c) = sec c"
  by (simp add: sec_def msgs_def)

lemma sec_ops [simp]:
  "sec (emitPermanentFailure r c) = sec c" "sec (scheduleReconnect r c) = sec c" "sec (handleDisconnect r c) = sec c"
  "sec (forceReconnect r c) = sec c" "sec (connectWebSocket c) = sec c" "sec (connect c) = sec c"
  "sec (sendRaw m c) = sec c" "sec (ack_finish c) = sec c" "sec (handleError code c) = sec c" "sec (on_close c) = sec c"
  "sec (store_keys k c) = sec c"
proof -
  show a [simp]: "sec (emitPermanentFailure r c) = sec c" for r c by (simp add: emitPermanentFailure_def Let_def)
  show b [simp]: "sec (scheduleReconnect r c) = sec c" for r c by (simp add: scheduleReconnect_def Let_def)
  show h [simp]: "sec (handleDisconnect r c) = sec c" for r c by (simp add: handleDisconnect_def Let_def)
  show "sec (forceReconnect r c) = sec c" by (simp add: forceReconnect_def split: option.split)
  show w [simp]: "sec (connectWebSocket c) = sec c" for c by (simp add: connectWebSocket_def Let_def split: option.split)
  show "sec (connect c) = sec c" by (simp add: connect_def)
  show "sec (sendRaw m c) = sec c" by (simp add: sendRaw_def split: option.split)
  show "sec (ack_finish c) = sec c" by (simp add: ack_finish_def Let_def)
  show "sec (handleError code c) = sec c" by (simp add: handleError_def)
  show "sec (on_close c) = sec c" by (simp add: on_close_def)
  show "sec (store_keys k c) = sec c" by (simp add: store_keys_def split: option.split sum.split prod.split)
qed

text \<open>\<open>disconnect\<close> empties the cache.\<close>

lemma sec_disconnect [simp]: "sec (disconnect c) = (options c, Map.empty, msgs c)"
proof -
  have e: "sec (c'\<lparr>seenNonces := Map.empty\<rparr>) = (fst (sec c'), Map.empty, snd (snd (sec c')))" for c'
    by (simp add: sec_def msgs_def)
  show ?thesis by (simp add: disconnect_def Let_def e split: option.split) (simp add: sec_def)
qed

end
