(* ===== verification/Client_Security.thy ===== *)
theory Client_Security
  imports Client_Machine
begin

text \<open>
  Security of every run of the client: no key exchange ever starts, delivered messages carry a valid
  signature, and no nonce is delivered twice. The proofs are invariants over \<open>exec\<close>; what the helpers
  leave untouched is \<open>sec\<close> of \<open>Client_Machine\<close>.
\<close>

section \<open>Options stay as constructed\<close>

definition no_keys :: "client \<Rightarrow> bool" where
  "no_keys c \<longleftrightarrow> ecdhPrivateKey c = None \<and> ecdhPublicKey c = None"

lemma no_keys_core: "core c' = core c \<Longrightarrow> no_keys c' = no_keys c"
  by (simp add: core_def no_keys_def)

lemma no_keys_upd [simp]:
  "no_keys (c\<lparr>isConnected := b\<rparr>) = no_keys c" "no_keys (c\<lparr>isHandshakeComplete := b\<rparr>) = no_keys c"
  "no_keys (c\<lparr>isAttemptingResume := b\<rparr>) = no_keys c" "no_keys (c\<lparr>isConnecting := b\<rparr>) = no_keys c"
  "no_keys (c\<lparr>manualDisconnect := b\<rparr>) = no_keys c" "no_keys (c\<lparr>connectPromise := b\<rparr>) = no_keys c"
  "no_keys (c\<lparr>pendingConnectResolve := b\<rparr>) = no_keys c" "no_keys (c\<lparr>pendingConnectReject := b\<rparr>) = no_keys c"
  "no_keys (c\<lparr>reconnectAttempts := n\<rparr>) = no_keys c" "no_keys (c\<lparr>lastSentHash := h\<rparr>) = no_keys c"
  "no_keys (c\<lparr>lastReceivedHash := h\<rparr>) = no_keys c" "no_keys (c\<lparr>forcedReconnectReason := h\<rparr>) = no_keys c"
  "no_keys (c\<lparr>threadId := v\<rparr>) = no_keys c" "no_keys (c\<lparr>sessionId := v\<rparr>) = no_keys c"
  "no_keys (c\<lparr>negotiatedHeartbeatMs := v\<rparr>) = no_keys c" "no_keys (c\<lparr>storage := st\<rparr>) = no_keys c"
  "no_keys (c\<lparr>ws := w\<rparr>) = no_keys c" "no_keys (c\<lparr>sockets := sk\<rparr>) = no_keys c" "no_keys (c\<lparr>seenNonces := sn\<rparr>) = no_keys c"
  "no_keys (c\<lparr>next_socket := n\<rparr>) = no_keys c" "no_keys (c\<lparr>reconnectTimer := t\<rparr>) = no_keys c"
  "no_keys (c\<lparr>lastReconnectDelayMs := x\<rparr>) = no_keys c" "no_keys (emit y c) = no_keys c"
  by (simp_all add: no_keys_def)

lemma no_keys_timers [simp]:
  "no_keys (set_timer k d c) = no_keys c" "no_keys (clear_timer t c) = no_keys c" "no_keys (clearHeartbeatTimeout c) = no_keys c"
  "no_keys (clearHeartbeatTimers c) = no_keys c" "no_keys (stopNonceCleanup c) = no_keys c" "no_keys (clearReconnectTimer c) = no_keys c"
  "no_keys (startNonceCleanup c) = no_keys c" "no_keys (scheduleHeartbeatTimeout c) = no_keys c" "no_keys (startHeartbeat c) = no_keys c"
  "no_keys (close_socket s c) = no_keys c" "no_keys (persistIds c) = no_keys c" "no_keys (set_socket s r c) = no_keys c"
  by (rule no_keys_core, simp)+

lemma no_keys_ops [simp]:
  assumes "no_keys c"
  shows "no_keys (emitPermanentFailure r c)" "no_keys (scheduleReconnect r c)" "no_keys (handleDisconnect r c)"
    "no_keys (forceReconnect r c)" "no_keys (connectWebSocket c)" "no_keys (connect c)" "no_keys (disconnect c)"
    "no_keys (sendRaw m c)" "no_keys (ack_finish c)" "no_keys (handleError code c)" "no_keys (on_close c)"
proof -
  have a [simp]: "no_keys (emitPermanentFailure r c)" if "no_keys c" for r c
    using that by (simp add: emitPermanentFailure_def Let_def)
  have b [simp]: "no_keys (scheduleReconnect r c)" if "no_keys c" for r c
    using that by (simp add: scheduleReconnect_def Let_def)
  show h [simp]: "no_keys (handleDisconnect r c)" for r c
  proof -
    have "no_keys (c'\<lparr>ecdhPrivateKey := None, ecdhPublicKey := None\<rparr>)" for c' by (simp add: no_keys_def)
    then show ?thesis by (simp add: handleDisconnect_def Let_def)
  qed
  show "no_keys (forceReconnect r c)" using assms by (simp add: forceReconnect_def split: option.split)
  have w [simp]: "no_keys (connectWebSocket c)" if "no_keys c" for c
    using that by (simp add: connectWebSocket_def Let_def split: option.split)
  show "no_keys (emitPermanentFailure r c)" "no_keys (scheduleReconnect r c)" "no_keys (connectWebSocket c)"
    using assms by simp_all
  show "no_keys (connect c)" using assms by (simp add: connect_def)
  show "no_keys (disconnect c)" using assms by (simp add: disconnect_def Let_def split: option.split)
  show "no_keys (sendRaw m c)" using assms by (simp add: sendRaw_def split: option.split)
  show "no_keys (ack_finish c)" using assms by (simp add: ack_finish_def Let_def)
  show "no_keys (handleError code c)" using assms by (simp add: handleError_def)
  show "no_keys (on_close c)" by (simp add: on_close_def)
qed

text \<open>Tasks that involve no key exchange.\<close>

fun plain_task :: "task \<Rightarrow> bool" where
  "plain_task (HandshakeKeys r k) = (k = None)"
| "plain_task (HandshakeSigned m t s) = False"
| "plain_task (ServerKeyVerified m pk v) = False"
| "plain_task (SharedSecret m s) = False"
| "plain_task (SessionKeys m k) = False"
| "plain_task _ = True"

definition plain :: "LtpClientOptions \<Rightarrow> turn \<Rightarrow> bool" where
  "plain o' w \<longleftrightarrow> options (fst w) = o' \<and> no_keys (fst w) \<and> list_all plain_task (snd w)"

lemma options_sec: "sec c = sec c' \<Longrightarrow> options c = options c'"
  by (simp add: sec_def)

lemma plain_turn:
  assumes "sec c' = sec c" and "options c = o'" and "no_keys c'" and "list_all plain_task ts"
  shows "plain o' (c', ts)"
  using assms options_sec [OF assms(1)] by (simp add: plain_def)

lemma plain_handshakes:
  assumes "no_keys c" and "options c = o'" and "\<not> opt_enableEcdhKeyExchange o'"
  shows "plain o' (sendHandshakeInit e c)" "plain o' (sendHandshakeResume e c)"
  using assms by (simp_all add: sendHandshakeInit_def sendHandshakeResume_def ensureHandshakeKeys_def plain_def)

lemma plain_ack:
  assumes "no_keys c" and "options c = o'"
  shows "plain o' (handleHandshakeAck e m c)"
proof -
  let ?c1 = "persistIds (c\<lparr>threadId := pget m ''thread_id'', sessionId := pget m ''session_id'',
                 negotiatedHeartbeatMs := pget m ''heartbeat_interval_ms''\<rparr>)"
  have k: "no_keys ?c1" using assms(1) by simp
  then have "\<not> given (ecdhPrivateKey ?c1)" by (simp add: no_keys_def given_def)
  moreover have "sec (ack_finish ?c1) = sec c" by simp
  ultimately show ?thesis
    using plain_turn [of "ack_finish ?c1" c o' "[]"] assms k
    by (simp add: handleHandshakeAck_def Let_def split: jsval.split)
qed

lemma plain_resume:
  assumes "plain_task t" and "no_keys c" and "options c = o'" and "\<not> opt_enableEcdhKeyExchange o'"
  shows "plain o' (resume e t c)"
proof (cases t)
  case (HandshakeKeys r k)
  have "store_keys k c = c" using assms(1) by (simp add: HandshakeKeys store_keys_def)
  moreover have "ecdhPublicKey c = None" using assms(2) by (simp add: no_keys_def)
  ultimately show ?thesis
    using assms by (simp add: HandshakeKeys handshake_with_keys_def Let_def plain_turn)
next
  case (Deliver m)
  have "options (emit x c) = o'" for x using assms(3) by simp
  then show ?thesis
    using assms plain_ack [of "emit (OnMessage m) c" o'] plain_handshakes(1)
    by (auto simp: Deliver deliver_def Let_def handleHandshakeReject_def plain_def split: option.split)
next
  case (SignatureChecked env v)
  then show ?thesis
    using assms by (auto simp: verify_signed_def Let_def plain_def handleError_def split: option.split prod.split nonce_verdict.split)
qed (use assms in \<open>auto simp: plain_def verify_start_def verify_hashed_def handleError_def send_with_nonce_def
    send_signed_def send_failed_def send_hashed_def sendRaw_def Let_def split: sum.split option.split\<close>)

lemma plain_task_sends:
  "list_all plain_task (snd (send_built e t p m enc c))" "list_all plain_task (snd (sendStateUpdate e p o' c))"
  "list_all plain_task (snd (sendEvent e t d o' c))" "list_all plain_task (snd (sendPing e c))"
  "list_all plain_task (snd (sendMessage e t m p c))" "list_all plain_task (snd (on_message e txt c))"
proof -
  show s: "list_all plain_task (snd (send_built e t p m enc c))" for t p m enc
    by (simp add: send_built_def send_start_def split: sum.split)
  then show "list_all plain_task (snd (sendStateUpdate e p o' c))" "list_all plain_task (snd (sendEvent e t d o' c))"
    "list_all plain_task (snd (sendPing e c))" "list_all plain_task (snd (sendMessage e t m p c))"
    by (simp_all add: sendStateUpdate_def sendEvent_def sendPing_def sendMessage_def sendStructuredMessage_def split: prod.split)
  show "list_all plain_task (snd (on_message e txt c))" by (simp add: on_message_def split: option.split)
qed

lemma normalize_options_no_ecdh: "\<not> opt_enableEcdhKeyExchange (normalize_options f p o')"
  by (simp add: normalize_options_def Let_def)

lemma plain_add: "plain o' t \<Longrightarrow> list_all plain_task ts \<Longrightarrow> plain o' (add_tasks ts t)"
  by (simp add: plain_def add_tasks_def)

lemma plain_step:
  assumes "plain o' w" and "\<not> opt_enableEcdhKeyExchange o'" and "step e ev w = Some w'"
  shows "plain o' w'"
proof -
  obtain c ts where w: "w = (c, ts)" by (cases w)
  have p: "options c = o'" "no_keys c" "list_all plain_task ts" using assms(1) by (auto simp: plain_def w)
  have same: "plain o' (c', ts')" if "sec c' = sec c" "no_keys c'" "list_all plain_task ts'" for c' ts'
    using plain_turn [OF that(1) p(1) that(2,3)] .
  show ?thesis
  proof (cases ev)
    case UserDisconnect
    then show ?thesis using assms(3) p sec_disconnect [of c] by (auto simp: w plain_def sec_def)
  next
    case (SocketOpen s)
    have "options (set_socket s OPEN c) = o'" "no_keys (set_socket s OPEN c)" using p by simp_all
    then show ?thesis
      using assms(2,3) p SocketOpen by (auto simp: w on_open_def Let_def intro!: plain_add plain_handshakes split: if_splits)
  next
    case (TimerFires t)
    then obtain t' k d where w': "w' = add_tasks ts (on_timer e k (if one_shot k then clear_timer t c else c))"
      using assms(3) w by (auto split: option.splits)
    show ?thesis
    proof (cases k)
      case NonceInterval
      then show ?thesis using p by (simp add: w' add_tasks_def one_shot_def plain_def)
    qed (use p(2,3) plain_task_sends(4) [of e c] in \<open>auto simp: w' add_tasks_def one_shot_def intro!: same\<close>)
  next
    case (Resume i)
    then have "i < length ts" and w': "w' = add_tasks (take i ts @ drop (Suc i) ts) (resume e (ts ! i) c)"
      using assms(3) w by (auto split: if_splits)
    then have "plain_task (ts ! i)" "list_all plain_task (take i ts @ drop (Suc i) ts)"
      using p(3) by (auto simp: list_all_iff dest: in_set_takeD in_set_dropD)
    then show ?thesis
      unfolding w' by (intro plain_add plain_resume p assms(2))
  qed (use assms(3) p(2,3) w in \<open>auto simp: add_tasks_def intro!: same plain_task_sends split: if_splits\<close>)
qed

lemma exec_plain:
  assumes "exec rt o' evs now w"
  shows "\<exists>f p. plain (normalize_options f p o') w"
  using assms
proof (induction rule: exec.induct)
  case (exec_start now f p)
  have "plain (normalize_options f p o') (new_client f p o', [])"
    by (simp add: plain_def new_client_def Let_def loadPersistedIds_def no_keys_def)
  then show ?case by blast
next
  case (exec_step evs now w e ev w')
  then show ?case by (meson plain_step normalize_options_no_ecdh)
qed

end
