(* ===== verification/Client_Delivery.thy ===== *)
theory Client_Delivery
  imports Client_Security
begin

text \<open>
  The path of a received message as an abstract machine: its state is the nonce cache, the hash of the
  last message accepted, the messages between two checks and the messages delivered; its labels are what
  happens to it, so that a label and a state determine the next state. The client refines it
  (\<open>step_refines\<close>), whatever else it does, and the guarantees for delivered messages are invariants of the
  abstract machine: a valid signature for every message but handshake replies, and no nonce twice.
\<close>

section \<open>The abstract machine\<close>

definition exempt :: "jsval \<Rightarrow> bool" where
  "exempt env \<longleftrightarrow> pget env ''type'' = JStr ''handshake_ack'' \<or> pget env ''type'' = JStr ''handshake_reject''"

definition authentic :: "runtime \<Rightarrow> string \<Rightarrow> jsval \<Rightarrow> bool" where
  "authentic rt key env \<longleftrightarrow> fst (check_signature rt env key)"

definition nonce_pair :: "jsval \<Rightarrow> nonce_message" where
  "nonce_pair env = (pget env ''nonce'', pget (pget env ''meta'') ''client_id'')"

text \<open>The fields every message to be checked must have, and the chain check: once the hash of a message is
  known, the next one must name it.\<close>

definition complete :: "jsval \<Rightarrow> bool" where
  "complete env \<longleftrightarrow> pget env ''thread_id'' \<noteq> JUndef \<and> is_num (pget env ''timestamp'') \<and> truthy (pget env ''nonce'')
     \<and> pget env ''payload'' \<noteq> JUndef \<and> truthy (pget env ''signature'')"

definition follows :: "string option \<Rightarrow> jsval \<Rightarrow> bool" where
  "follows H env \<longleftrightarrow> (given H \<longrightarrow> pget env ''prev_message_hash'' = of_str H)"

definition in_time :: "rat \<Rightarrow> rat \<Rightarrow> jsval \<Rightarrow> bool" where
  "in_time now a env \<longleftrightarrow> age_error now a (pget env ''timestamp'') = None"

type_synonym delivery = "nonce_cache \<times> string option \<times> task multiset \<times> jsval list"

datatype label =
    Quiet             \<comment> \<open>nothing the machine knows of\<close>
  | Arrives string    \<comment> \<open>a frame of the socket\<close>
  | Turn task         \<comment> \<open>a check of a message goes on\<close>
  | Sweep             \<comment> \<open>the periodic cleanup of the cache\<close>
  | Lost              \<comment> \<open>the connection is given up\<close>
  | Emptied           \<comment> \<open>the application disconnects\<close>

fun relevant :: "task \<Rightarrow> bool" where
  "relevant (Decrypted env) = True"
| "relevant (SignatureChecked env v) = True"
| "relevant (EnvelopeHashed env h) = True"
| "relevant (Deliver env) = True"
| "relevant _ = False"

inductive dstep :: "runtime \<Rightarrow> string \<Rightarrow> rat \<Rightarrow> rat \<Rightarrow> label \<Rightarrow> delivery \<Rightarrow> delivery \<Rightarrow> bool" for rt key a now where
  d_quiet: "dstep rt key a now Quiet s s"
| d_other: "\<not> relevant t \<Longrightarrow> dstep rt key a now (Turn t) s s"
| d_arrive: "json_parse txt = Some env \<Longrightarrow> \<not> nullish env \<Longrightarrow>
    dstep rt key a now (Arrives txt) (C, H, P, M) (C, H, add_mset (Decrypted env) P, M)"
| d_ignore: "json_parse txt = None \<or> json_parse txt = Some env \<and> nullish env \<Longrightarrow> dstep rt key a now (Arrives txt) s s"
| d_reply: "exempt env \<Longrightarrow>
    dstep rt key a now (Turn (Decrypted env)) (C, H, add_mset (Decrypted env) P, M) (C, H, add_mset (Deliver env) P, M)"
| d_check: "\<not> exempt env \<Longrightarrow> complete env \<Longrightarrow>
    dstep rt key a now (Turn (Decrypted env)) (C, H, add_mset (Decrypted env) P, M)
      (C, H, add_mset (SignatureChecked env (check_signature rt env key)) P, M)"
| d_malformed: "\<not> exempt env \<Longrightarrow> \<not> complete env \<Longrightarrow>
    dstep rt key a now (Turn (Decrypted env)) (C, H, add_mset (Decrypted env) P, M) (C, H, P, M)"
| d_accept: "fst v \<Longrightarrow> in_time now a env \<Longrightarrow> client_offer a C now (nonce_pair env) = (C', True) \<Longrightarrow> follows H env \<Longrightarrow>
    dstep rt key a now (Turn (SignatureChecked env v)) (C, H, add_mset (SignatureChecked env v) P, M)
      (C', H, add_mset (EnvelopeHashed env (hashEnvelope rt (signed_part env))) P, M)"
| d_mismatch: "fst v \<Longrightarrow> in_time now a env \<Longrightarrow> client_offer a C now (nonce_pair env) = (C', True) \<Longrightarrow> \<not> follows H env \<Longrightarrow>
    dstep rt key a now (Turn (SignatureChecked env v)) (C, H, add_mset (SignatureChecked env v) P, M) (C', H, P, M)"
| d_refuse: "\<not> fst v \<or> \<not> in_time now a env \<or> \<not> snd (client_offer a C now (nonce_pair env)) \<Longrightarrow>
    dstep rt key a now (Turn (SignatureChecked env v)) (C, H, add_mset (SignatureChecked env v) P, M) (C, H, P, M)"
| d_chain:
    "dstep rt key a now (Turn (EnvelopeHashed env (Inr x))) (C, H, add_mset (EnvelopeHashed env (Inr x)) P, M)
      (C, Some x, add_mset (Deliver env) P, M)"
| d_hash_fails:
    "dstep rt key a now (Turn (EnvelopeHashed env (Inl err))) (C, H, add_mset (EnvelopeHashed env (Inl err)) P, M) (C, H, P, M)"
| d_deliver:
    "dstep rt key a now (Turn (Deliver env)) (C, H, add_mset (Deliver env) P, M)
      (C, (if pget env ''type'' = JStr ''handshake_ack'' then None else H), P, M @ [env])"
| d_clean: "dstep rt key a now Sweep (C, H, P, M) (cleanupExpiredNonces a C now, H, P, M)"
| d_lost: "dstep rt key a now Lost (C, H, P, M) (C, None, P, M)"
| d_reset: "dstep rt key a now Emptied (C, H, P, M) (Map.empty, H, P, M)"

text \<open>A label and a state determine the next state.\<close>

lemma dstep_det: "dstep rt key a now l s s1 \<Longrightarrow> dstep rt key a now l s s2 \<Longrightarrow> s1 = s2"
  by (erule dstep.cases; erule dstep.cases) auto

subsection \<open>Signatures\<close>

fun task_auth :: "runtime \<Rightarrow> string \<Rightarrow> task \<Rightarrow> bool" where
  "task_auth rt key (SignatureChecked env v) = (v = check_signature rt env key)"
| "task_auth rt key (EnvelopeHashed env h) = authentic rt key env"
| "task_auth rt key (Deliver env) = (exempt env \<or> authentic rt key env)"
| "task_auth rt key _ = True"

fun d_auth :: "runtime \<Rightarrow> string \<Rightarrow> delivery \<Rightarrow> bool" where
  "d_auth rt key (C, H, P, M) \<longleftrightarrow> (\<forall>t \<in># P. task_auth rt key t) \<and> (\<forall>m \<in> set M. exempt m \<or> authentic rt key m)"

lemma dstep_auth: "dstep rt key a now l s s' \<Longrightarrow> d_auth rt key s \<Longrightarrow> d_auth rt key s'"
  by (induction rule: dstep.induct) (auto simp: authentic_def)

subsection \<open>Nonces\<close>

definition nonce_in :: "jsval \<Rightarrow> string multiset" where
  "nonce_in env = (if exempt env then {#} else {# nonce_text (nonce_pair env) #})"

fun task_nonce :: "task \<Rightarrow> string multiset" where
  "task_nonce (EnvelopeHashed env h) = nonce_in env"
| "task_nonce (Deliver env) = nonce_in env"
| "task_nonce _ = {#}"

definition nonces :: "task multiset \<Rightarrow> jsval list \<Rightarrow> string multiset" where
  "nonces P M = (\<Sum>t \<in># P. task_nonce t) + (\<Sum>m \<in># mset M. nonce_in m)"

text \<open>The nonces accepted and not dropped since: each once, and spent.\<close>

fun d_fresh :: "rat \<Rightarrow> rat \<Rightarrow> delivery \<Rightarrow> bool" where
  "d_fresh a now (C, H, P, M) \<longleftrightarrow> (\<forall>n. count (nonces P M) n \<le> 1) \<and> (\<forall>n \<in># nonces P M. client_guard.spent a C now n)"

lemma nonces_simps [simp]:
  "nonces (add_mset t P) M = task_nonce t + nonces P M" "nonces P (M @ [m]) = nonce_in m + nonces P M"
  by (simp_all add: nonces_def add.assoc add.left_commute)

lemma d_fresh_later: "d_fresh a now s \<Longrightarrow> now \<le> now' \<Longrightarrow> d_fresh a now' s"
  by (cases s) (auto intro: client_guard.spent_later)

lemma fresh_after_offer:
  assumes "d_fresh a now (C, H, P, M)" and "client_offer a C now m = (C', True)"
  shows "d_fresh a now (C', H, P, M)" "nonce_text m \<notin># nonces P M"
proof -
  have "\<not> client_guard.spent a C now (nonce_text m)"
    using client_guard.spent_not_accepted [of a C now m now] assms(2) by auto
  then show "nonce_text m \<notin># nonces P M" using assms(1) by auto
  show "d_fresh a now (C', H, P, M)"
    using assms(1) client_guard.spent_offer [OF _ assms(2)] by auto
qed

lemma count_add_le:
  "\<forall>n. count (A + B) n \<le> 1 \<Longrightarrow> \<forall>n. count (B :: 'a multiset) n \<le> (1 :: nat)"
  by (metis add_leD2 count_union)

lemma d_fresh_drop: "d_fresh a now (C, H, add_mset t P, M) \<Longrightarrow> d_fresh a now (C, H', P, M)"
  using count_add_le [of "task_nonce t" "nonces P M"] by simp

lemma dstep_fresh:
  assumes "dstep rt key a now l s s'" and "d_fresh a now s" and "5000 \<le> a" and "l \<noteq> Emptied"
  shows "d_fresh a now s'"
  using assms(1,2)
proof (cases rule: dstep.cases)
  case (d_accept v env C C' H P M)
  note f = fresh_after_offer [OF d_fresh_drop [OF assms(2) [unfolded d_accept]] d_accept(6)]
  have "client_guard.spent a C' now (nonce_text (nonce_pair env))"
    by (rule client_guard.accepted_spent [OF d_accept(6)])
  then show ?thesis
    using f by (auto simp: d_accept nonce_in_def not_in_iff)
next
  case (d_mismatch v env C C' H P M)
  then show ?thesis
    using fresh_after_offer(1) [OF d_fresh_drop [OF assms(2) [unfolded d_mismatch]] d_mismatch(6)] by simp
next
  case (d_clean C H P M)
  then show ?thesis
    using assms(2,3) client_guard.spent_clean [of a C now] by auto
next
  case (d_hash_fails env err C H P M)
  then show ?thesis using d_fresh_drop [OF assms(2) [unfolded d_hash_fails]] by simp
qed (use assms(4) d_fresh_drop in \<open>auto simp: nonce_in_def\<close>)

section \<open>The client refines it\<close>

definition delivery_of :: "turn \<Rightarrow> delivery" where
  "delivery_of w = (seenNonces (fst w), lastReceivedHash (fst w), filter_mset relevant (mset (snd w)), msgs (fst w))"

text \<open>A configuration that requires signatures under \<open>key\<close>, with \<open>a\<close> as the maximal age.\<close>

definition secured :: "LtpClientOptions \<Rightarrow> string \<Rightarrow> rat \<Rightarrow> bool" where
  "secured o' key a \<longleftrightarrow> opt_requireSignatureVerification o' = Some True
     \<and> str_or (opt_sessionMacKey o') (opt_secretKey o') = Some key \<and> key \<noteq> [] \<and> max_age o' = a
     \<and> opt_sessionEncryptionKey o' = None"

text \<open>The label of an event in a state of the client.\<close>

fun label_of :: "event \<Rightarrow> turn \<Rightarrow> label" where
  "label_of UserDisconnect w = Emptied"
| "label_of (SocketMessage s d) w = Arrives d"
| "label_of (SocketClose s) w = Lost"
| "label_of (TimerFires t) w =
     (case find (\<lambda>p. fst p = t) (timers (fst w)) of
        Some (_, NonceInterval, _) \<Rightarrow> Sweep
      | Some (_, HeartbeatTimeout, _) \<Rightarrow>
          (case ws (fst w) of None \<Rightarrow> Lost | Some s \<Rightarrow> if sockets (fst w) s = OPEN then Quiet else Lost)
      | _ \<Rightarrow> Quiet)"
| "label_of (Resume i) w = Turn (snd w ! i)"
| "label_of _ w = Quiet"

lemma label_emptied: "label_of ev w = Emptied \<longleftrightarrow> ev = UserDisconnect"
  by (cases ev) (auto split: option.split timer_kind.split)

subsection \<open>Only a disconnect, a reply of the handshake and a checked message change the hash\<close>

lemma lastReceivedHash_frame [simp]:
  "lastReceivedHash (emit x c) = lastReceivedHash c" "lastReceivedHash (set_timer k d c) = lastReceivedHash c"
  "lastReceivedHash (clear_timer t c) = lastReceivedHash c" "lastReceivedHash (clearHeartbeatTimeout c) = lastReceivedHash c"
  "lastReceivedHash (clearHeartbeatTimers c) = lastReceivedHash c" "lastReceivedHash (stopNonceCleanup c) = lastReceivedHash c"
  "lastReceivedHash (clearReconnectTimer c) = lastReceivedHash c" "lastReceivedHash (startNonceCleanup c) = lastReceivedHash c"
  "lastReceivedHash (scheduleHeartbeatTimeout c) = lastReceivedHash c" "lastReceivedHash (startHeartbeat c) = lastReceivedHash c"
  "lastReceivedHash (close_socket s c) = lastReceivedHash c" "lastReceivedHash (set_socket s r c) = lastReceivedHash c"
  "lastReceivedHash (persistIds c) = lastReceivedHash c"
  by (auto simp: emit_def timer_defs scheduleHeartbeatTimeout_def startHeartbeat_def close_socket_def persistIds_def
      set_socket_def Let_def split: option.split)

lemma lastReceivedHash_ops [simp]:
  "lastReceivedHash (emitPermanentFailure r c) = lastReceivedHash c" "lastReceivedHash (scheduleReconnect r c) = lastReceivedHash c"
  "lastReceivedHash (connectWebSocket c) = lastReceivedHash c" "lastReceivedHash (connect c) = lastReceivedHash c"
  "lastReceivedHash (disconnect c) = lastReceivedHash c" "lastReceivedHash (sendRaw m c) = lastReceivedHash c"
  "lastReceivedHash (handleError code c) = lastReceivedHash c" "lastReceivedHash (handleDisconnect r c) = None"
  "lastReceivedHash (on_close c) = None" "lastReceivedHash (ack_finish c) = None"
proof -
  show a [simp]: "lastReceivedHash (emitPermanentFailure r c) = lastReceivedHash c" for r c
    by (simp add: emitPermanentFailure_def Let_def)
  show b [simp]: "lastReceivedHash (scheduleReconnect r c) = lastReceivedHash c" for r c
    by (simp add: scheduleReconnect_def Let_def)
  show w [simp]: "lastReceivedHash (connectWebSocket c) = lastReceivedHash c" for c
    by (simp add: connectWebSocket_def Let_def split: option.split)
  show "lastReceivedHash (connect c) = lastReceivedHash c" by (simp add: connect_def)
  show "lastReceivedHash (disconnect c) = lastReceivedHash c" by (simp add: disconnect_def Let_def split: option.split)
  show "lastReceivedHash (sendRaw m c) = lastReceivedHash c" by (simp add: sendRaw_def split: option.split)
  show "lastReceivedHash (handleError code c) = lastReceivedHash c" by (simp add: handleError_def)
  show h [simp]: "lastReceivedHash (handleDisconnect r c) = None" for r c by (simp add: handleDisconnect_def Let_def)
  show "lastReceivedHash (on_close c) = None" by (simp add: on_close_def)
  show "lastReceivedHash (ack_finish c) = None" by (simp add: ack_finish_def Let_def)
qed

text \<open>What the machine sees of the client besides its tasks.\<close>

definition seen_part :: "client \<Rightarrow> _" where
  "seen_part c = (sec c, lastReceivedHash c)"

lemma delivery_same:
  assumes "seen_part c' = seen_part c" and "filter_mset relevant (mset ts') = filter_mset relevant (mset ts)"
  shows "delivery_of (c', ts') = delivery_of (c, ts)"
  using assms by (simp add: delivery_of_def sec_def seen_part_def)

lemma sends_client:
  "seen_part (fst (send_built e t p m enc c)) = seen_part c" "seen_part (fst (sendStateUpdate e p o' c)) = seen_part c"
  "seen_part (fst (sendEvent e t d o' c)) = seen_part c" "seen_part (fst (sendPing e c)) = seen_part c"
  "seen_part (fst (sendMessage e t m p c)) = seen_part c" "seen_part (fst (on_open e c)) = seen_part c"
proof -
  show s: "seen_part (fst (send_built e t p m enc c)) = seen_part c" for t p m enc
    by (simp add: send_built_def send_start_def split: sum.split)
  then show "seen_part (fst (sendStateUpdate e p o' c)) = seen_part c" "seen_part (fst (sendEvent e t d o' c)) = seen_part c"
    "seen_part (fst (sendPing e c)) = seen_part c" "seen_part (fst (sendMessage e t m p c)) = seen_part c"
    by (simp_all add: sendStateUpdate_def sendEvent_def sendPing_def sendMessage_def sendStructuredMessage_def split: prod.split)
  show "seen_part (fst (on_open e c)) = seen_part c"
    by (simp add: on_open_def sendHandshakeResume_def sendHandshakeInit_def Let_def seen_part_def)
qed

lemma delivery_emit_msg: "sec (emit (OnMessage m) c) = (options c, seenNonces c, msgs c @ [m])"
  by (simp add: sec_def msgs_def)

lemma ack_seen:
  assumes "no_keys c"
  shows "sec (fst (handleHandshakeAck e m c)) = sec c" "lastReceivedHash (fst (handleHandshakeAck e m c)) = None"
    "snd (handleHandshakeAck e m c) = []"
proof -
  let ?c1 = "persistIds (c\<lparr>threadId := pget m ''thread_id'', sessionId := pget m ''session_id'',
                 negotiatedHeartbeatMs := pget m ''heartbeat_interval_ms''\<rparr>)"
  have "\<not> given (ecdhPrivateKey ?c1)" using assms by (simp add: no_keys_def given_def)
  then have "handleHandshakeAck e m c = (ack_finish ?c1, [])"
    by (simp add: handleHandshakeAck_def Let_def split: jsval.split)
  then show "sec (fst (handleHandshakeAck e m c)) = sec c" "lastReceivedHash (fst (handleHandshakeAck e m c)) = None"
    "snd (handleHandshakeAck e m c) = []" by simp_all
qed

lemma reject_seen:
  "seen_part (fst (handleHandshakeReject e m c)) = seen_part c \<and> filter_mset relevant (mset (snd (handleHandshakeReject e m c))) = {#}"
  by (simp add: handleHandshakeReject_def Let_def sendHandshakeInit_def seen_part_def split: option.split)

lemma deliver_seen:
  assumes "no_keys c"
  shows "sec (fst (deliver e m c)) = (options c, seenNonces c, msgs c @ [m])"
    "lastReceivedHash (fst (deliver e m c)) = (if pget m ''type'' = JStr ''handshake_ack'' then None else lastReceivedHash c)"
    "filter_mset relevant (mset (snd (deliver e m c))) = {#}"
proof -
  have k: "no_keys (emit (OnMessage m) c)" using assms by simp
  have t: "(case pget m ''type'' of JStr t \<Rightarrow> t | _ \<Rightarrow> []) = ''handshake_ack'' \<longleftrightarrow> pget m ''type'' = JStr ''handshake_ack''"
    by (cases "pget m ''type''") auto
  show "sec (fst (deliver e m c)) = (options c, seenNonces c, msgs c @ [m])"
    "lastReceivedHash (fst (deliver e m c)) = (if pget m ''type'' = JStr ''handshake_ack'' then None else lastReceivedHash c)"
    "filter_mset relevant (mset (snd (deliver e m c))) = {#}"
    using ack_seen [OF k] reject_seen [of e m "emit (OnMessage m) c"]
    by (auto simp: deliver_def Let_def delivery_emit_msg seen_part_def t)
qed

lemma start_refines:
  assumes "secured (options c) key a" and "mset rest = R" and "e_rt e = rt"
  shows "dstep rt key a (e_now e) (Turn (Decrypted env))
    (seenNonces c, lastReceivedHash c, add_mset (Decrypted env) (filter_mset relevant R), msgs c)
    (delivery_of (fst (verify_start e env c), rest @ snd (verify_start e env c)))"
proof -
  have r: "requires_verification c env = (\<not> exempt env)" "dflt (mac_key c) [] = key"
    using assms(1) by (auto simp: requires_verification_def exempt_def secured_def mac_key_def given_def dflt_def)
  have err: "delivery_of (handleError x c, rest) = (seenNonces c, lastReceivedHash c, filter_mset relevant R, msgs c)" for x
    by (simp add: delivery_of_def handleError_def msgs_def assms(2))
  consider "exempt env" | "\<not> exempt env" "complete env" | "\<not> exempt env" "\<not> complete env" by blast
  then show ?thesis
  proof cases
    case 1
    then show ?thesis by (simp add: verify_start_def r delivery_of_def assms(2) d_reply)
  next
    case 2
    then show ?thesis by (simp add: verify_start_def r complete_def delivery_of_def assms(2,3) d_check)
  next
    case 3
    then have "\<exists>x. verify_start e env c = (handleError x c, [])" by (auto simp: verify_start_def r complete_def)
    then show ?thesis using 3 by (auto simp: err d_malformed)
  qed
qed

lemma signed_refines:
  assumes "secured (options c) key a" and "mset rest = R" and "e_rt e = rt"
  shows "dstep rt key a (e_now e) (Turn (SignatureChecked env v))
    (seenNonces c, lastReceivedHash c, add_mset (SignatureChecked env v) (filter_mset relevant R), msgs c)
    (delivery_of (fst (verify_signed e env v c), rest @ snd (verify_signed e env v c)))"
proof -
  let ?r = "validateNonce a (seenNonces c) (e_now e) (pget env ''nonce'') (pget (pget env ''meta'') ''client_id'')"
  have a: "max_age (options c) = a" using assms(1) by (simp add: secured_def)
  have offer: "client_offer a (seenNonces c) (e_now e) (nonce_pair env) = (fst ?r, snd ?r = NonceValid)"
    by (simp add: client_offer_def nonce_pair_def split: prod.split)
  have kept: "delivery_of (c, rest) = (seenNonces c, lastReceivedHash c, filter_mset relevant R, msgs c)"
    "delivery_of (handleError x c, rest) = (seenNonces c, lastReceivedHash c, filter_mset relevant R, msgs c)" for x
    by (simp_all add: delivery_of_def handleError_def msgs_def assms(2))
  show ?thesis
  proof (cases "fst v \<and> in_time (e_now e) a env \<and> snd ?r = NonceValid")
    case True
    then have r: "?r = (fst ?r, NonceValid)" by (metis prod.collapse)
    let ?c1 = "c\<lparr>seenNonces := fst ?r\<rparr>"
    have t: "fst v" "age_error (e_now e) a (pget env ''timestamp'') = None" "in_time (e_now e) a env"
      using True by (auto simp: in_time_def)
    have f: "(given (lastReceivedHash ?c1) \<and> pget env ''prev_message_hash'' \<noteq> of_str (lastReceivedHash ?c1))
        \<longleftrightarrow> \<not> follows (lastReceivedHash c) env"
      by (auto simp: follows_def)
    have v: "verify_signed e env v c = (if follows (lastReceivedHash c) env
        then (?c1, [EnvelopeHashed env (hashEnvelope rt (signed_part env))]) else (handleError ''HASH_CHAIN_MISMATCH'' ?c1, []))"
      by (subst verify_signed_def, subst a, subst a, subst r) (use t f in \<open>simp add: Let_def assms(3) del: simp_thms(21)\<close>)
    have o: "client_offer a (seenNonces c) (e_now e) (nonce_pair env) = (fst ?r, True)" using offer True by simp
    show ?thesis
      using d_accept [OF t(1,3) o] d_mismatch [OF t(1,3) o]
      by (auto simp: v delivery_of_def handleError_def msgs_def assms(2))
  next
    case False
    then have "verify_signed e env v c = (c, []) \<or> (\<exists>x. verify_signed e env v c = (handleError x c, []))"
      by (auto simp: verify_signed_def a in_time_def split: option.split prod.split nonce_verdict.split)
    then have "delivery_of (fst (verify_signed e env v c), rest @ snd (verify_signed e env v c))
        = (seenNonces c, lastReceivedHash c, filter_mset relevant R, msgs c)"
      using kept by auto
    then show ?thesis using False by (auto simp: offer intro: d_refuse)
  qed
qed

lemma hashed_refines:
  assumes "mset rest = R"
  shows "dstep rt key a now (Turn (EnvelopeHashed env h))
    (seenNonces c, lastReceivedHash c, add_mset (EnvelopeHashed env h) (filter_mset relevant R), msgs c)
    (delivery_of (fst (verify_hashed env h c), rest @ snd (verify_hashed env h c)))"
  using assms
  by (auto simp: verify_hashed_def delivery_of_def handleError_def msgs_def intro: d_hash_fails d_chain split: sum.split)

lemma deliver_refines:
  assumes "no_keys c" and "mset rest = R"
  shows "dstep rt key a now (Turn (Deliver env))
    (seenNonces c, lastReceivedHash c, add_mset (Deliver env) (filter_mset relevant R), msgs c)
    (delivery_of (fst (deliver e env c), rest @ snd (deliver e env c)))"
proof -
  note s = deliver_seen [OF assms(1), of e env]
  have "delivery_of (fst (deliver e env c), rest @ snd (deliver e env c))
      = (seenNonces c, if pget env ''type'' = JStr ''handshake_ack'' then None else lastReceivedHash c, filter_mset relevant R, msgs c @ [env])"
    using s assms(2) by (simp add: delivery_of_def sec_def)
  then show ?thesis by (simp only: d_deliver)
qed

lemma other_seen:
  assumes "plain_task t" and "\<not> relevant t" and "no_keys c"
  shows "seen_part (fst (resume e t c)) = seen_part c \<and> filter_mset relevant (mset (snd (resume e t c))) = {#}"
proof (cases t)
  case (HandshakeKeys r k)
  then have "store_keys k c = c" "ecdhPublicKey c = None" using assms(1,3) by (auto simp: store_keys_def no_keys_def)
  then show ?thesis
    by (simp add: HandshakeKeys handshake_with_keys_def Let_def seen_part_def)
next
  case (HashReady wire env n h)
  have "sec (sendRaw m (c\<lparr>lastSentHash := y\<rparr>)) = sec c" for m y by simp
  then show ?thesis
    by (simp add: HashReady send_hashed_def send_failed_def seen_part_def split: sum.split)
qed (use assms in \<open>auto simp: seen_part_def send_with_nonce_def send_signed_def send_failed_def Let_def split: sum.split\<close>)

lemma resume_refines:
  assumes "plain_task t" and "no_keys c" and "secured (options c) key a" and "e_rt e = rt" and "mset rest = R"
  shows "dstep rt key a (e_now e) (Turn t) (seenNonces c, lastReceivedHash c, filter_mset relevant (add_mset t R), msgs c)
    (delivery_of (fst (resume e t c), rest @ snd (resume e t c)))"
proof (cases "relevant t")
  case True
  then show ?thesis
    using start_refines [OF assms(3,5,4)] signed_refines [OF assms(3,5,4)] hashed_refines [OF assms(5)] deliver_refines [OF assms(2,5)]
    by (cases t) auto
next
  case False
  have "delivery_of (fst (resume e t c), rest @ snd (resume e t c)) = delivery_of (c, rest)"
    using delivery_same [of "fst (resume e t c)" c "rest @ snd (resume e t c)" rest] other_seen [OF assms(1) False assms(2), of e]
    by simp
  moreover have "delivery_of (c, rest) = (seenNonces c, lastReceivedHash c, filter_mset relevant (add_mset t R), msgs c)"
    using False assms(5) by (simp add: delivery_of_def)
  ultimately show ?thesis by (simp only: d_other [OF False])
qed

lemma sends_relevant:
  "filter_mset relevant (mset (snd (send_built e t p m enc c))) = {#}" "filter_mset relevant (mset (snd (sendStateUpdate e p o' c))) = {#}"
  "filter_mset relevant (mset (snd (sendEvent e t d o' c))) = {#}" "filter_mset relevant (mset (snd (sendPing e c))) = {#}"
  "filter_mset relevant (mset (snd (sendMessage e t m p c))) = {#}" "filter_mset relevant (mset (snd (on_open e c))) = {#}"
proof -
  show s: "filter_mset relevant (mset (snd (send_built e t p m enc c))) = {#}" for t p m enc
    by (simp add: send_built_def send_start_def split: sum.split)
  then show "filter_mset relevant (mset (snd (sendStateUpdate e p o' c))) = {#}" "filter_mset relevant (mset (snd (sendEvent e t d o' c))) = {#}"
    "filter_mset relevant (mset (snd (sendPing e c))) = {#}" "filter_mset relevant (mset (snd (sendMessage e t m p c))) = {#}"
    by (simp_all add: sendStateUpdate_def sendEvent_def sendPing_def sendMessage_def sendStructuredMessage_def split: prod.split)
  show "filter_mset relevant (mset (snd (on_open e c))) = {#}"
    by (simp add: on_open_def sendHandshakeResume_def sendHandshakeInit_def Let_def)
qed

text \<open>Without an encryption key a frame is read as it is.\<close>

lemma message_refines:
  assumes "secured (options c) key a"
  shows "dstep rt key a now (Arrives txt) (delivery_of (c, ts)) (delivery_of (add_tasks ts (on_message e txt c)))"
proof -
  have "decryptMetadataIfNeeded e c m = m" for m
    using assms by (simp add: decryptMetadataIfNeeded_def secured_def split: jsval.split)
  then show ?thesis
    by (auto simp: on_message_def add_tasks_def delivery_of_def intro: d_ignore d_arrive split: option.split)
qed

lemma mset_remove_nth: "i < length ts \<Longrightarrow> mset ts = add_mset (ts ! i) (mset (take i ts @ drop (Suc i) ts))"
  by (metis id_take_nth_drop mset.simps(2) mset_append union_mset_add_mset_right)

lemma quiet_refines:
  assumes "seen_part c' = seen_part c" and "filter_mset relevant (mset ts') = {#}"
  shows "dstep rt key a now Quiet (delivery_of (c, ts)) (delivery_of (c', ts @ ts'))"
  using delivery_same [OF assms(1), of "ts @ ts'" ts] assms(2) d_quiet by simp

lemma lost_refines:
  assumes "sec c' = sec c" and "lastReceivedHash c' = None"
  shows "dstep rt key a now Lost (delivery_of (c, ts)) (delivery_of (c', ts))"
  using assms d_lost by (simp add: delivery_of_def sec_def)

lemma timer_refines:
  assumes "find (\<lambda>p. fst p = t) (timers c) = Some (t', k, d)" and "secured (options c) key a"
  shows "dstep rt key a (e_now e) (label_of (TimerFires t) (c, ts)) (delivery_of (c, ts))
    (delivery_of (add_tasks ts (on_timer e k (if one_shot k then clear_timer t c else c))))"
proof (cases k)
  case HeartbeatInterval
  have "seen_part (fst (sendPing e c)) = seen_part c" "filter_mset relevant (mset (snd (sendPing e c))) = {#}"
    by (rule sends_client sends_relevant)+
  then show ?thesis
    using quiet_refines [of _ c _ rt key a "e_now e" ts]
    by (simp add: assms(1) HeartbeatInterval one_shot_def add_tasks_def quiet_refines [of _ c "[]", simplified])
next
  case HeartbeatTimeout
  have c: "ws (clear_timer t c) = ws c" "sockets (clear_timer t c) = sockets c" by (simp_all add: clear_timer_def)
  have q: "seen_part (close_socket s ((clear_timer t c)\<lparr>forcedReconnectReason := r\<rparr>)) = seen_part c" for s r
    by (simp add: seen_part_def)
  show ?thesis
    using quiet_refines [OF q, of "[]"] lost_refines [of "handleDisconnect ''heartbeat_timeout'' (clear_timer t c)" c]
    by (simp add: assms(1) HeartbeatTimeout one_shot_def add_tasks_def forceReconnect_def c split: option.split)
next
  case ReconnectTimeout
  then show ?thesis
    using quiet_refines [of _ c "[]"] by (simp add: assms(1) one_shot_def add_tasks_def seen_part_def)
next
  case NonceInterval
  have "max_age (options c) = a" using assms(2) by (simp add: secured_def)
  then show ?thesis
    by (simp add: assms(1) NonceInterval one_shot_def add_tasks_def delivery_of_def msgs_def d_clean)
qed

lemma step_refines:
  assumes "step e ev w = Some w'" and "plain o' w" and "secured o' key a" and "e_rt e = rt"
  shows "dstep rt key a (e_now e) (label_of ev w) (delivery_of w) (delivery_of w')"
proof -
  obtain c ts where w: "w = (c, ts)" by (cases w)
  have p: "no_keys c" "list_all plain_task ts" and s: "secured (options c) key a"
    using assms(2,3) by (auto simp: plain_def w)
  have quiet: "dstep rt key a (e_now e) Quiet (delivery_of (c, ts)) (delivery_of (add_tasks ts t))"
    if "seen_part (fst t) = seen_part c" "filter_mset relevant (mset (snd t)) = {#}" for t
    using quiet_refines [OF that] by (simp add: add_tasks_def)
  show ?thesis
  proof (cases ev)
    case UserConnect
    then show ?thesis
      using assms(1) quiet_refines [of "connect c" c "[]" rt key a "e_now e" ts] by (auto simp: w seen_part_def)
  next
    case UserDisconnect
    then have "delivery_of w' = (Map.empty, lastReceivedHash c, filter_mset relevant (mset ts), msgs c)"
      using assms(1) sec_disconnect [of c] by (auto simp: w delivery_of_def sec_def)
    then show ?thesis using UserDisconnect by (simp add: w delivery_of_def d_reset)
  next
    case (TimerFires t)
    then obtain t' k d where f: "find (\<lambda>p. fst p = t) (timers c) = Some (t', k, d)"
      and w': "w' = add_tasks ts (on_timer e k (if one_shot k then clear_timer t c else c))"
      using assms(1) w by (auto split: option.splits)
    show ?thesis unfolding w w' TimerFires by (rule timer_refines [OF f s])
  next
    case (Resume i)
    then have i: "i < length ts" and w': "w' = add_tasks (take i ts @ drop (Suc i) ts) (resume e (ts ! i) c)"
      using assms(1) w by (auto split: if_splits)
    have "plain_task (ts ! i)" using p(2) i by (simp add: list_all_iff)
    from resume_refines [OF this p(1) s assms(4) refl, of "take i ts @ drop (Suc i) ts"]
    show ?thesis
      using Resume by (simp add: w w' add_tasks_def delivery_of_def mset_remove_nth [OF i])
  next
    case (SocketOpen sk)
    have "seen_part (set_socket sk OPEN c) = seen_part c" by (simp add: seen_part_def)
    then show ?thesis
      using assms(1) SocketOpen quiet [of "on_open e (set_socket sk OPEN c)"] sends_client(6) [of e "set_socket sk OPEN c"]
        sends_relevant(6) by (auto simp: w split: if_splits)
  next
    case (SocketClose sk)
    then show ?thesis
      using assms(1) lost_refines [of "on_close (set_socket sk CLOSED c)" c rt key a "e_now e" ts] by (auto simp: w split: if_splits)
  next
    case (SocketMessage sk d)
    then show ?thesis
      using assms(1) message_refines [OF s, of rt "e_now e" d ts e] by (auto simp: w split: if_splits)
  qed (use assms(1) in \<open>auto simp: w intro!: quiet sends_client sends_relevant\<close>)
qed

lemma secured_normalized:
  assumes "opt_requireSignatureVerification o' \<noteq> Some False" and "str_or (opt_sessionMacKey o') (opt_secretKey o') = Some key"
    and "key \<noteq> []"
  shows "secured (normalize_options f p o') key (max_age o')"
  using assms by (auto simp: secured_def normalize_options_def Let_def dflt_def given_def max_age_def split: option.splits)

section \<open>Runs\<close>

lemma delivery_start: "delivery_of (new_client f p o', []) = (Map.empty, None, {#}, [])"
  by (simp add: delivery_of_def new_client_def Let_def loadPersistedIds_def msgs_def)

lemma exec_secured:
  assumes "exec rt o' evs now w" and "opt_requireSignatureVerification o' \<noteq> Some False"
    and "str_or (opt_sessionMacKey o') (opt_secretKey o') = Some key" and "key \<noteq> []"
  obtains f p where "plain (normalize_options f p o') w" "secured (normalize_options f p o') key (max_age o')"
  using exec_plain [OF assms(1)] secured_normalized [OF assms(2-4)] by blast

lemma exec_auth:
  assumes "exec rt o' evs now w" and "opt_requireSignatureVerification o' \<noteq> Some False"
    and "str_or (opt_sessionMacKey o') (opt_secretKey o') = Some key" and "key \<noteq> []"
  shows "d_auth rt key (delivery_of w)"
  using assms(1)
proof (induction rule: exec.induct)
  case (exec_step evs now w e ev w')
  obtain f p where "plain (normalize_options f p o') w" "secured (normalize_options f p o') key (max_age o')"
    using exec_secured [OF exec_step(1) assms(2-4)] .
  then show ?case
    using dstep_auth [OF step_refines [OF exec_step(4) _ _ exec_step(2)] exec_step.IH] by blast
qed (simp add: delivery_start)

lemma exec_fresh:
  assumes "exec rt o' evs now w" and "opt_requireSignatureVerification o' \<noteq> Some False"
    and "str_or (opt_sessionMacKey o') (opt_secretKey o') = Some key" and "key \<noteq> []"
    and "UserDisconnect \<notin> set evs" and "5000 \<le> max_age o'"
  shows "d_fresh (max_age o') now (delivery_of w)"
  using assms(1,5)
proof (induction rule: exec.induct)
  case (exec_step evs now w e ev w')
  obtain f p where "plain (normalize_options f p o') w" "secured (normalize_options f p o') key (max_age o')"
    using exec_secured [OF exec_step(1) assms(2-4)] .
  from step_refines [OF exec_step(4) this exec_step(2)]
  have "dstep rt key (max_age o') (e_now e) (label_of ev w) (delivery_of w) (delivery_of w')" .
  moreover have "label_of ev w \<noteq> Emptied" using exec_step.prems by (auto simp: label_emptied)
  moreover have "d_fresh (max_age o') (e_now e) (delivery_of w)"
    using exec_step.IH exec_step.prems exec_step(3) d_fresh_later by simp
  ultimately show ?case using dstep_fresh assms(6) by blast
qed (simp add: delivery_start nonces_def)

definition delivered_nonces :: "client \<Rightarrow> string list" where
  "delivered_nonces c = map (\<lambda>m. nonce_text (nonce_pair m)) (filter (\<lambda>m. \<not> exempt m) (msgs c))"

lemma nonces_delivered: "(\<Sum>m \<in># mset M. nonce_in m) = mset (map (\<lambda>m. nonce_text (nonce_pair m)) (filter (\<lambda>m. \<not> exempt m) M))"
  by (induction M) (auto simp: nonce_in_def)

lemma fresh_distinct: "d_fresh a now (delivery_of w) \<Longrightarrow> distinct (delivered_nonces (fst w))"
proof -
  assume f: "d_fresh a now (delivery_of w)"
  have "mset (delivered_nonces (fst w)) = (\<Sum>m \<in># mset (msgs (fst w)). nonce_in m)"
    by (simp only: delivered_nonces_def nonces_delivered)
  then have "mset (delivered_nonces (fst w)) \<subseteq># nonces (filter_mset relevant (mset (snd w))) (msgs (fst w))"
    by (simp add: nonces_def)
  moreover have "count (nonces (filter_mset relevant (mset (snd w))) (msgs (fst w))) n \<le> 1" for n
    using f by (simp add: delivery_of_def)
  ultimately have "count (mset (delivered_nonces (fst w))) n \<le> 1" for n
    by (metis mset_subset_eq_count order_trans)
  then show ?thesis
    unfolding distinct_count_atmost_1 by (metis One_nat_def count_eq_zero_iff le_Suc_eq le_zero_eq set_mset_mset)
qed

section \<open>Running given events\<close>

fun run_events :: "(env \<times> event) list \<Rightarrow> turn \<Rightarrow> turn option" where
  "run_events [] w = Some w"
| "run_events ((e, ev) # es) w = (case step e ev w of None \<Rightarrow> None | Some w' \<Rightarrow> run_events es w')"

lemma exec_run:
  assumes "run_events es w = Some w'" and "exec rt o' evs now w" and "\<forall>(e, ev) \<in> set es. e_rt e = rt"
    and "sorted (now # map (\<lambda>p. e_now (fst p)) es)"
  shows "\<exists>now'. exec rt o' (evs @ map snd es) now' w'"
  using assms
proof (induction es arbitrary: w evs now)
  case (Cons x es)
  obtain e ev where x: "x = (e, ev)" by (cases x)
  obtain w1 where w1: "step e ev w = Some w1" "run_events es w1 = Some w'"
    using Cons.prems(1) by (auto simp: x split: option.splits)
  have "exec rt o' (evs @ [ev]) (e_now e) w1"
    using exec_step [OF Cons.prems(2) _ _ w1(1)] Cons.prems(3,4) by (auto simp: x)
  from Cons.IH [OF w1(2) this] Cons.prems(3,4) show ?case by (auto simp: x)
qed auto

end
