(* ===== verification/Client_Exchange.thy ===== *)
theory Client_Exchange
  imports Client_Delivery Crypto_Correct
begin

text \<open>
  Two clients that share a key: what one sends, the other accepts. \<open>drain\<close> runs the waiting tasks in
  the order in which their promises were created, which is the order of the event loop when no other
  event intervenes. The hash chains of both sides advance in lockstep as long as one message is sent at
  a time; two sends that overlap fork the chain.
\<close>

section \<open>Running tasks to the end\<close>

fun drain :: "nat \<Rightarrow> env \<Rightarrow> turn \<Rightarrow> turn" where
  "drain 0 e w = w"
| "drain (Suc n) e (c, []) = (c, [])"
| "drain (Suc n) e (c, t # ts) = drain n e (add_tasks ts (resume e t c))"

section \<open>What survives the wire\<close>

definition defined_props :: "(string \<times> jsval) list \<Rightarrow> (string \<times> jsval) list" where
  "defined_props kvs = filter (\<lambda>p. snd p \<noteq> JUndef) kvs"

lemma stringify_None: "json_stringify v = None \<longleftrightarrow> v = JUndef"
  by (cases v) auto

lemma member_texts_defined:
  "member_texts (map (map_prod id json_stringify) kvs) = member_texts (map (map_prod id json_stringify) (defined_props kvs))"
proof (induction kvs)
  case (Cons p kvs)
  obtain k v where p: "p = (k, v)" by (cases p)
  show ?case
    using Cons by (cases "json_stringify v") (auto simp: p defined_props_def stringify_None)
qed (simp add: defined_props_def)

lemma json_text_defined: "json_text (JObj kvs) = json_text (JObj (defined_props kvs))"
  using member_texts_defined [of kvs] by (simp add: json_text_def)

lemma pget_defined: "distinct (map fst kvs) \<Longrightarrow> pget (JObj (defined_props kvs)) k = pget (JObj kvs) k"
proof (induction kvs)
  case (Cons p kvs)
  obtain k' v where p: "p = (k', v)" by (cases p)
  have "pget (JObj kvs) k' = JUndef"
    using Cons.prems by (auto simp: p pget_def map_of_eq_None_iff split: option.split) (force dest: map_of_SomeD)+
  then show ?case using Cons by (auto simp: p defined_props_def)
qed (simp add: defined_props_def)

definition name_keys :: "(string \<times> 'a) list \<Rightarrow> bool" where
  "name_keys kvs \<longleftrightarrow> list_all (\<lambda>p. array_index (fst p) = None) kvs"

lemma ordered_names: "distinct (map fst kvs) \<Longrightarrow> name_keys kvs \<Longrightarrow> obj_ordered kvs"
proof -
  assume d: "distinct (map fst kvs)" and n: "name_keys kvs"
  have "sorted_wrt prop_order kvs"
    using n by (induction kvs) (auto simp: name_keys_def prop_order_def list_all_iff)
  with d have "wf_props kvs" by (simp add: wf_props_def)
  then show ?thesis by (simp add: obj_ordered_def spread_wf_props)
qed

lemma wire_round_trip:
  assumes "distinct (map fst kvs)" and "name_keys kvs" and "\<forall>p \<in> set kvs. snd p = JUndef \<or> json_ok (snd p)"
  shows "json_parse (json_text (JObj kvs)) = Some (JObj (defined_props kvs))"
proof -
  have "distinct (map fst (defined_props kvs))" "name_keys (defined_props kvs)"
    using assms(1,2) by (auto simp: defined_props_def name_keys_def list_all_iff distinct_map_filter)
  then have "json_ok (JObj (defined_props kvs))"
    using assms(3) ordered_names by (auto simp: defined_props_def list_all_iff)
  then show ?thesis using json_roundtrip json_text_defined by metis
qed

lemma define_prop_new: "array_index k = None \<Longrightarrow> k \<notin> fst ` set kvs \<Longrightarrow> define_prop k v kvs = kvs @ [(k, v)]"
  by (rule define_prop_snoc) (auto simp: prop_order_def)

lemma security_names [simp]:
  "array_index ''prev_message_hash'' = None" "array_index ''nonce'' = None" "array_index ''signature'' = None"
  by (simp_all add: array_index_def is_digit_def)

section \<open>Envelopes that can be sent\<close>

text \<open>
  A message as \<open>buildEnvelope\<close> makes it: named properties, none of them a security field, with values
  that JSON carries, string identifiers that are not empty and a whole timestamp.
\<close>

definition sendable :: "(string \<times> jsval) list \<Rightarrow> nat \<Rightarrow> bool" where
  "sendable kvs t \<longleftrightarrow> distinct (map fst kvs) \<and> name_keys kvs \<and> (\<forall>p \<in> set kvs. snd p = JUndef \<or> json_ok (snd p))
     \<and> (\<forall>k \<in> {''prev_message_hash'', ''nonce'', ''signature'', ''encrypted_metadata''}. k \<notin> fst ` set kvs)
     \<and> truthy (pget (JObj kvs) ''thread_id'') \<and> truthy (pget (JObj kvs) ''session_id'')
     \<and> pget (JObj kvs) ''timestamp'' = JNum (of_nat t) \<and> pget (JObj kvs) ''payload'' \<noteq> JUndef \<and> t < 2 ^ 53"

definition wire_props :: "(string \<times> jsval) list \<Rightarrow> jsval \<Rightarrow> string \<Rightarrow> string \<Rightarrow> (string \<times> jsval) list" where
  "wire_props kvs prev n sg = kvs @ [(''prev_message_hash'', prev), (''nonce'', JStr n), (''signature'', JStr sg)]"

lemma with_props_wire:
  assumes "sendable kvs t"
  shows "with_props (JObj kvs) [(''prev_message_hash'', prev)] = JObj (kvs @ [(''prev_message_hash'', prev)])"
    and "with_props (JObj (kvs @ [(''prev_message_hash'', prev)])) [(''nonce'', JStr n), (''signature'', JStr sg)]
      = JObj (wire_props kvs prev n sg)"
proof -
  have new: "''prev_message_hash'' \<notin> fst ` set kvs" "''nonce'' \<notin> fst ` set kvs" "''signature'' \<notin> fst ` set kvs"
    using assms by (auto simp: sendable_def)
  show "with_props (JObj kvs) [(''prev_message_hash'', prev)] = JObj (kvs @ [(''prev_message_hash'', prev)])"
    using new by (simp add: with_props_def spread_def define_prop_new)
  show "with_props (JObj (kvs @ [(''prev_message_hash'', prev)])) [(''nonce'', JStr n), (''signature'', JStr sg)]
      = JObj (wire_props kvs prev n sg)"
    using new by (simp add: with_props_def spread_def define_prop_new wire_props_def)
qed

lemma pget_append: "k \<notin> fst ` set kvs \<Longrightarrow> pget (JObj (kvs @ kvs')) k = pget (JObj kvs') k"
  by (simp add: pget_def map_add_def map_of_eq_None_iff [symmetric] split: option.split)

lemma pget_append_other: "k \<notin> fst ` set kvs' \<Longrightarrow> pget (JObj (kvs @ kvs')) k = pget (JObj kvs) k"
  by (induction kvs) (auto simp: pget_def map_of_eq_None_iff [symmetric] split: option.split)

lemma wire_fields:
  assumes "sendable kvs t"
  shows "k \<notin> {''prev_message_hash'', ''nonce'', ''signature''} \<Longrightarrow> pget (JObj (wire_props kvs prev n sg)) k = pget (JObj kvs) k"
    and "pget (JObj (wire_props kvs prev n sg)) ''prev_message_hash'' = prev"
    and "pget (JObj (wire_props kvs prev n sg)) ''nonce'' = JStr n"
    and "pget (JObj (wire_props kvs prev n sg)) ''signature'' = JStr sg"
  using assms unfolding wire_props_def by (auto simp: sendable_def pget_append pget_append_other)

lemma wire_distinct: "sendable kvs t \<Longrightarrow> distinct (map fst (wire_props kvs prev n sg))"
  by (auto simp: sendable_def wire_props_def)

lemma wire_parse:
  assumes "sendable kvs t" and "prev = JUndef \<or> json_ok prev"
  shows "json_parse (json_text (JObj (wire_props kvs prev n sg))) = Some (JObj (defined_props (wire_props kvs prev n sg)))"
proof (rule wire_round_trip [OF wire_distinct [OF assms(1)]])
  show "name_keys (wire_props kvs prev n sg)" using assms(1) by (simp add: sendable_def wire_props_def name_keys_def)
  show "\<forall>p \<in> set (wire_props kvs prev n sg). snd p = JUndef \<or> json_ok (snd p)"
    using assms by (auto simp: sendable_def wire_props_def)
qed

text \<open>The fields that are signed and hashed, as sender and receiver see them.\<close>

definition wire_signed :: "(string \<times> jsval) list \<Rightarrow> jsval \<Rightarrow> string \<Rightarrow> signed_fields" where
  "wire_signed kvs prev n = (signed_part (JObj kvs))\<lparr>sf_prev_message_hash := prev, sf_nonce := JStr n\<rparr>"

lemma signed_at_receiver:
  assumes "sendable kvs t"
  shows "signed_part (JObj (defined_props (wire_props kvs prev n sg))) = wire_signed kvs prev n"
  by (simp add: signed_part_def wire_signed_def pget_defined [OF wire_distinct [OF assms]] wire_fields [OF assms])

lemma commitment_at_sender:
  assumes "sendable kvs t"
  shows "commitment_fields (JObj (wire_props kvs prev n sg)) (JObj (kvs @ [(''prev_message_hash'', prev)])) = wire_signed kvs prev n"
  using assms
  by (simp add: commitment_fields_def signed_part_def wire_signed_def wire_fields [OF assms] pget_append_other js_or_def sendable_def)

lemma signed_at_sender:
  assumes "sendable kvs t"
  shows "(signed_part (JObj (kvs @ [(''prev_message_hash'', prev)])))
      \<lparr>sf_thread_id := js_or (pget (JObj (kvs @ [(''prev_message_hash'', prev)])) ''thread_id'') (JStr []), sf_nonce := JStr n\<rparr>
    = wire_signed kvs prev n"
  using assms
  by (simp add: signed_part_def wire_signed_def pget_append_other pget_append js_or_def sendable_def)

section \<open>One message\<close>

text \<open>Documented of the primitives: with a runtime present, HMAC and SHA-256 do not throw.\<close>

definition working :: "runtime \<Rightarrow> bool" where
  "working rt \<longleftrightarrow> (web_crypto rt \<or> node_crypto rt) \<and> digest_length rt
     \<and> (\<forall>k d. \<exists>x. prim_hmac rt k d = Inr x) \<and> (\<forall>d. \<exists>x. prim_sha256 rt d = Inr x)"

definition ready_to_send :: "client \<Rightarrow> string \<Rightarrow> nat \<Rightarrow> bool" where
  "ready_to_send c key s \<longleftrightarrow> isConnected c \<and> isHandshakeComplete c \<and> ws c = Some s \<and> sockets c s = OPEN
     \<and> mac_key c = Some key \<and> key \<noteq> [] \<and> opt_sessionEncryptionKey (options c) = None"

definition ready_to_receive :: "client \<Rightarrow> string \<Rightarrow> bool" where
  "ready_to_receive c key \<longleftrightarrow> opt_requireSignatureVerification (options c) = Some True
     \<and> mac_key c = Some key \<and> key \<noteq> [] \<and> opt_sessionEncryptionKey (options c) = None"

lemma working_sign: "working rt \<Longrightarrow> \<exists>sg. signMessage rt m key = Inr sg"
  by (auto simp: working_def signMessage_Inr)

lemma working_hash: "working rt \<Longrightarrow> \<exists>h. hashEnvelope rt m = Inr h"
  by (auto simp: working_def hashEnvelope_def Let_def)

lemma working_nonce:
  assumes "working (e_rt e)" and "mac_key c = Some key" and "key \<noteq> []" and "e_now e = of_nat t" and "t < 2 ^ 53"
  obtains h where "client_nonce e c = ''hmac-'' @ h @ ''-'' @ nat_str t" "length h = 32" "list_all is_hex h"
proof -
  have "num_str (rat_of_nat t) = nat_str t"
  proof -
    have "safe_int (of_int (int t))" using assms(5) by (simp only: safe_int_of_int) simp
    then have "num_str (of_int (int t)) = int_str (int t)" by (subst num_str_safe_int) simp_all
    then show ?thesis by (simp add: int_str_def)
  qed
  moreover obtain d where "prim_hmac (e_rt e) (utf8 key) (utf8 (num_str (e_now e) @ ''-'' @ generateSecureRandomHex e 16)) = Inr d"
    "length d = 32"
    using assms(1) unfolding working_def digest_length_def by metis
  moreover have "list_all is_hex (take 32 (bufferToHex d))"
    using bufferToHex_hex [of d] by (auto simp: list_all_iff dest: in_set_takeD)
  ultimately show ?thesis
    using that [of "take 32 (bufferToHex d)"] assms by (auto simp: client_nonce_def hmacSha256_def working_def Let_def)
qed

lemma send_runs:
  assumes "sendable kvs t" and "ready_to_send c key s" and "working (e_rt e)"
    and "signMessage (e_rt e) (wire_signed kvs prev n) key = Inr sg"
    and "hashEnvelope (e_rt e) (wire_signed kvs prev n) = Inr h"
    and "prev = of_str (str_or (lastSentHash c) None)" and "n = client_nonce e c"
  shows "drain 3 e (send_start e (JObj kvs) c)
    = (emit (SendText s (json_text (JObj (wire_props kvs prev n sg)))) (c\<lparr>lastSentHash := Some h\<rparr>), [])"
proof -
  have start: "send_start e (JObj kvs) c = (c, [NonceReady (JObj kvs) n])"
    using assms(2) by (simp add: send_start_def ready_to_send_def assms(7))
  have key: "given (mac_key c)" "dflt (mac_key c) [] = key"
    using assms(2) by (simp_all add: ready_to_send_def given_def dflt_def)
  let ?envPrev = "JObj (kvs @ [(''prev_message_hash'', prev)])"
  have "generateSignature e c ?envPrev n = Inr sg"
    using key assms(4) by (simp add: generateSignature_def Let_def signed_at_sender [OF assms(1)])
  then have nonce: "resume e (NonceReady (JObj kvs) n) c = (c, [SignatureReady ?envPrev n (Inr sg)])"
    by (simp add: send_with_nonce_def Let_def assms(6) [symmetric] with_props_wire(1) [OF assms(1)])
  have "encrypt_envelope e c env = env" for env
    using assms(2) by (simp add: encrypt_envelope_def ready_to_send_def)
  then have signed: "resume e (SignatureReady ?envPrev n (Inr sg)) c
      = (c, [HashReady (JObj (wire_props kvs prev n sg)) ?envPrev n (Inr h)])"
    by (simp add: send_signed_def Let_def with_props_wire(2) [OF assms(1)] commitment_at_sender [OF assms(1)] assms(5))
  show ?thesis
    using assms(2)
    by (simp add: start numeral_3_eq_3 add_tasks_def nonce signed send_hashed_def sendRaw_def ready_to_send_def
        del: resume.simps(10) resume.simps(11))
qed

lemma deliver_other:
  assumes "\<not> exempt env"
  shows "snd (deliver e env c) = []" "lastReceivedHash (fst (deliver e env c)) = lastReceivedHash c"
    "sec (fst (deliver e env c)) = (options c, seenNonces c, msgs c @ [env])"
proof -
  have t: "(case pget env ''type'' of JStr t \<Rightarrow> t | _ \<Rightarrow> []) \<noteq> ''handshake_ack''"
    "(case pget env ''type'' of JStr t \<Rightarrow> t | _ \<Rightarrow> []) \<noteq> ''handshake_reject''"
    using assms by (auto simp: exempt_def split: jsval.split)
  show "snd (deliver e env c) = []" "lastReceivedHash (fst (deliver e env c)) = lastReceivedHash c"
    "sec (fst (deliver e env c)) = (options c, seenNonces c, msgs c @ [env])"
    using t by (simp_all add: deliver_def Let_def delivery_emit_msg)
qed

text \<open>The message as the receiver reads it.\<close>

definition received :: "(string \<times> jsval) list \<Rightarrow> jsval \<Rightarrow> string \<Rightarrow> string \<Rightarrow> jsval" where
  "received kvs prev n sg = JObj (defined_props (wire_props kvs prev n sg))"

lemma received_fields:
  assumes "sendable kvs t"
  shows "k \<notin> {''prev_message_hash'', ''nonce'', ''signature''} \<Longrightarrow> pget (received kvs prev n sg) k = pget (JObj kvs) k"
    and "pget (received kvs prev n sg) ''prev_message_hash'' = prev"
    and "pget (received kvs prev n sg) ''nonce'' = JStr n"
    and "pget (received kvs prev n sg) ''signature'' = JStr sg"
    and "signed_part (received kvs prev n sg) = wire_signed kvs prev n"
  using wire_fields [OF assms] pget_defined [OF wire_distinct [OF assms]] signed_at_receiver [OF assms]
  by (simp_all add: received_def)

lemma received_exempt: "sendable kvs t \<Longrightarrow> exempt (received kvs prev n sg) = exempt (JObj kvs)"
  by (simp add: exempt_def received_fields)

lemma receive_parsed:
  assumes "sendable kvs t" and "ready_to_receive c key" and "prev = JUndef \<or> json_ok prev"
  shows "on_message e (json_text (JObj (wire_props kvs prev n sg))) c = (c, [Decrypted (received kvs prev n sg)])"
proof -
  have "decryptMetadataIfNeeded e c env = env" for env
    using assms(2) by (simp add: decryptMetadataIfNeeded_def ready_to_receive_def split: jsval.split)
  then show ?thesis
    using wire_parse [OF assms(1,3)] by (simp add: on_message_def received_def)
qed

lemma receive_started:
  assumes "sendable kvs t" and "ready_to_receive c key" and "\<not> exempt (JObj kvs)" and "n \<noteq> []" and "sg \<noteq> []"
  shows "resume e (Decrypted (received kvs prev n sg)) c
    = (c, [SignatureChecked (received kvs prev n sg) (check_signature (e_rt e) (received kvs prev n sg) key)])"
proof -
  let ?env = "received kvs prev n sg"
  have "requires_verification c ?env" "dflt (mac_key c) [] = key"
    using assms(2,3) received_exempt [OF assms(1), of prev n sg]
    by (auto simp: requires_verification_def ready_to_receive_def exempt_def given_def dflt_def)
  moreover have "pget ?env ''thread_id'' \<noteq> JUndef" "is_num (pget ?env ''timestamp'')" "pget ?env ''payload'' \<noteq> JUndef"
    using assms(1) by (auto simp: received_fields sendable_def)
  ultimately show ?thesis
    using assms by (simp add: verify_start_def received_fields)
qed

lemma received_authentic:
  assumes "sendable kvs t" and "working rt" and "signMessage rt (wire_signed kvs prev n) key = Inr sg"
  shows "fst (check_signature rt (received kvs prev n sg) key)" and "sg \<noteq> []"
proof -
  have sg: "length sg = 64" using signMessage_hex [OF _ assms(3)] assms(2) by (simp add: working_def)
  then show "sg \<noteq> []" by auto
  show "fst (check_signature rt (received kvs prev n sg) key)"
    using verifySignature_iff [of rt sg "wire_signed kvs prev n" key] assms signMessage_lower [OF assms(3)] sg
    by (simp add: check_signature_def received_fields working_def)
qed

lemma receive_signed:
  assumes ok: "sendable kvs t" and wk: "working (e_rt e)"
    and sg: "signMessage (e_rt e) (wire_signed kvs prev n) key = Inr sg"
    and n: "n = ''hmac-'' @ hx @ ''-'' @ nat_str t" "length hx = 32" "list_all is_hex hx"
    and fresh: "seenNonces c n = None"
    and window: "- 5000 \<le> e_now e - of_nat t" "e_now e - of_nat t \<le> max_age (options c)"
  shows "resume e (SignatureChecked (received kvs prev n sg) (check_signature (e_rt e) (received kvs prev n sg) key)) c
    = (let c1 = c\<lparr>seenNonces := (seenNonces c)(n \<mapsto> e_now e)\<rparr>
       in if given (lastReceivedHash c) \<and> prev \<noteq> of_str (lastReceivedHash c)
          then (handleError ''HASH_CHAIN_MISMATCH'' c1, [])
          else (c1, [EnvelopeHashed (received kvs prev n sg) (hashEnvelope (e_rt e) (wire_signed kvs prev n))]))"
proof -
  let ?cid = "pget (pget (received kvs prev n sg) ''meta'') ''client_id''"
  have "validateNonce (max_age (options c)) (seenNonces c) (e_now e) (JStr n) ?cid = ((seenNonces c)(n \<mapsto> e_now e), NonceValid)"
    using window fresh hmac_nonce_timestamp [OF n(2,3), of t ?cid]
    by (intro validateNonce_valid_iff [THEN iffD2] exI [of _ n] exI [of _ "int t"]) (simp add: n(1))
  moreover have "age_error (e_now e) (max_age (options c)) (pget (received kvs prev n sg) ''timestamp'') = None"
    using ok window by (simp add: age_error_def sendable_def received_fields [OF ok])
  ultimately show ?thesis
    using received_authentic(1) [OF ok wk sg] by (simp add: verify_signed_def Let_def received_fields [OF ok])
qed

text \<open>The whole path of a message that is sendable, from a sender with the same key.\<close>

lemma receive_accepts:
  assumes ok: "sendable kvs t" and rdy: "ready_to_receive c key" and wk: "working (e_rt e)"
    and sg: "signMessage (e_rt e) (wire_signed kvs prev n) key = Inr sg"
    and h: "hashEnvelope (e_rt e) (wire_signed kvs prev n) = Inr h"
    and n: "n = ''hmac-'' @ hx @ ''-'' @ nat_str t" "length hx = 32" "list_all is_hex hx"
    and fresh: "seenNonces c n = None"
    and window: "- 5000 \<le> e_now e - of_nat t" "e_now e - of_nat t \<le> max_age (options c)"
    and kind: "\<not> exempt (JObj kvs)" and prev: "prev = of_str (str_or (lastReceivedHash c) None)"
  shows "drain 4 e (on_message e (json_text (JObj (wire_props kvs prev n sg))) c)
    = (fst (deliver e (received kvs prev n sg) (c\<lparr>seenNonces := (seenNonces c)(n \<mapsto> e_now e), lastReceivedHash := Some h\<rparr>)), [])"
proof -
  let ?env = "received kvs prev n sg"
  have ne: "n \<noteq> []" by (simp add: n(1))
  have prev': "prev = JUndef \<or> json_ok prev" by (simp add: prev of_str_def split: option.split)
  have match: "(given (lastReceivedHash c) \<and> prev \<noteq> of_str (lastReceivedHash c)) = False" by (simp add: prev str_or_def)
  have signed: "resume e (SignatureChecked ?env (check_signature (e_rt e) ?env key)) c
      = (c\<lparr>seenNonces := (seenNonces c)(n \<mapsto> e_now e)\<rparr>, [EnvelopeHashed ?env (Inr h)])"
    by (simp only: receive_signed [OF ok wk sg n fresh window] Let_def match h if_False)
  have "\<not> exempt ?env" using received_exempt [OF ok] kind by simp
  then show ?thesis
    using receive_parsed [OF ok rdy prev'] receive_started [OF ok rdy kind ne received_authentic(2) [OF ok wk sg]]
      signed deliver_other(1)
    by (simp add: eval_nat_numeral add_tasks_def verify_hashed_def del: resume.simps(3) resume.simps(4))
qed

lemma receive_mismatch:
  assumes ok: "sendable kvs t" and rdy: "ready_to_receive c key" and wk: "working (e_rt e)"
    and sg: "signMessage (e_rt e) (wire_signed kvs prev n) key = Inr sg"
    and n: "n = ''hmac-'' @ hx @ ''-'' @ nat_str t" "length hx = 32" "list_all is_hex hx"
    and fresh: "seenNonces c n = None"
    and window: "- 5000 \<le> e_now e - of_nat t" "e_now e - of_nat t \<le> max_age (options c)"
    and kind: "\<not> exempt (JObj kvs)" and prev: "prev = JUndef \<or> json_ok prev"
    and chain: "given (lastReceivedHash c)" "prev \<noteq> of_str (lastReceivedHash c)"
  shows "drain 4 e (on_message e (json_text (JObj (wire_props kvs prev n sg))) c)
    = (handleError ''HASH_CHAIN_MISMATCH'' (c\<lparr>seenNonces := (seenNonces c)(n \<mapsto> e_now e)\<rparr>), [])"
proof -
  have "n \<noteq> []" by (simp add: n(1))
  then show ?thesis
    using receive_parsed [OF ok rdy prev] receive_started [OF ok rdy kind _ received_authentic(2) [OF ok wk sg]]
      receive_signed [OF ok wk sg n fresh window] chain
    by (simp add: eval_nat_numeral add_tasks_def Let_def del: resume.simps(3) resume.simps(4))
qed

lemma buildEnvelope_sendable:
  assumes "threadId c = JStr tid" and "tid \<noteq> []" and "sessionId c = JStr sid" and "sid \<noteq> []"
    and "json_ok payload" and "mergeMeta c overrides = JUndef \<or> json_ok (mergeMeta c overrides)" and "t < 2 ^ 53"
  obtains kvs where "buildEnvelope (of_nat t) c type payload overrides enc = Inr (JObj kvs)" "sendable kvs t"
    "pget (JObj kvs) ''type'' = JStr type" "pget (JObj kvs) ''payload'' = payload"
proof -
  let ?base = "[(''type'', JStr type), (''thread_id'', threadId c), (''session_id'', sessionId c),
      (''timestamp'', JNum (of_nat t)), (''payload'', payload), (''meta'', mergeMeta c overrides)]"
  let ?kvs = "if given enc \<and> enc \<noteq> Some ''json'' then ?base @ [(''content_encoding'', of_str enc)] else ?base"
  have built: "buildEnvelope (of_nat t) c type payload overrides enc = Inr (JObj ?kvs)"
    using assms(1-4) by (simp add: buildEnvelope_def Let_def)
  have "payload \<noteq> JUndef" using assms(5) by auto
  moreover have "fl (rat_of_nat t) = of_nat t" using assms(7) by (intro fl_nat) simp
  moreover have "of_str enc = JUndef \<or> json_ok (of_str enc)" by (simp add: of_str_def split: option.split)
  moreover have "name_keys ?kvs" by (simp add: name_keys_def array_index_def is_digit_def)
  ultimately have "sendable ?kvs t"
    using assms unfolding sendable_def by (cases "given enc \<and> enc \<noteq> Some ''json''") (simp_all only: if_True if_False, auto)
  with built show ?thesis by (rule that) simp_all
qed

section \<open>Lockstep\<close>

text \<open>C1: a message sent by one client is accepted by another that shares its key. When the sender's and
  the receiver's hash chains agree, the sender has finished its earlier sends, the nonce is fresh and
  the clocks are within the window, sending puts exactly one text on the socket, the receiver delivers
  exactly that message with its type and payload, and the two chains agree again.\<close>

theorem send_accepted_in_lockstep:
  assumes "ready_to_send A key s" and "ready_to_receive B key" and "working rt" and "e_rt eA = rt" and "e_rt eB = rt"
    and "threadId A = JStr tid" and "tid \<noteq> []" and "sessionId A = JStr sid" and "sid \<noteq> []"
    and "json_ok payload" and "mergeMeta A meta = JUndef \<or> json_ok (mergeMeta A meta)"
    and "type \<noteq> ''handshake_ack''" and "type \<noteq> ''handshake_reject''"
    and "e_now eA = of_nat t" and "t < 2 ^ 53"
    and "lastSentHash A = lastReceivedHash B" and "seenNonces B (client_nonce eA A) = None"
    and "- 5000 \<le> e_now eB - of_nat t" and "e_now eB - of_nat t \<le> max_age (options B)"
  shows "\<exists>A' txt B' env. drain 3 eA (sendMessage eA type meta payload A) = (A', []) \<and> out A' = out A @ [SendText s txt]
    \<and> drain 4 eB (on_message eB txt B) = (B', []) \<and> msgs B' = msgs B @ [env]
    \<and> pget env ''type'' = JStr type \<and> pget env ''payload'' = payload
    \<and> lastSentHash A' \<noteq> None \<and> lastSentHash A' = lastReceivedHash B'"
proof -
  obtain kvs where kvs: "buildEnvelope (of_nat t) A type payload meta None = Inr (JObj kvs)" "sendable kvs t"
    "pget (JObj kvs) ''type'' = JStr type" "pget (JObj kvs) ''payload'' = payload"
    using buildEnvelope_sendable assms(6-11,15) by metis
  let ?prev = "of_str (str_or (lastSentHash A) None)" and ?n = "client_nonce eA A"
  obtain sg where sg: "signMessage rt (wire_signed kvs ?prev ?n) key = Inr sg" using working_sign [OF assms(3)] by blast
  obtain h where h: "hashEnvelope rt (wire_signed kvs ?prev ?n) = Inr h" using working_hash [OF assms(3)] by blast
  obtain hx where hx: "?n = ''hmac-'' @ hx @ ''-'' @ nat_str t" "length hx = 32" "list_all is_hex hx"
    using working_nonce [of eA A key t] assms(1,3,4,14,15) by (auto simp: ready_to_send_def)
  have "sendMessage eA type meta payload A = send_start eA (JObj kvs) A"
    using assms(6-9,14) kvs(1) by (simp add: sendMessage_def hasSessionContext_def send_built_def)
  then have sent: "drain 3 eA (sendMessage eA type meta payload A)
      = (emit (SendText s (json_text (JObj (wire_props kvs ?prev ?n sg)))) (A\<lparr>lastSentHash := Some h\<rparr>), [])"
    using send_runs [OF kvs(2) assms(1), of eA ?prev ?n sg h] sg h assms(3,4) by simp
  have kind: "\<not> exempt (JObj kvs)" using assms(12,13) kvs(3) by (simp add: exempt_def)
  let ?env = "received kvs ?prev ?n sg"
  let ?B = "B\<lparr>seenNonces := (seenNonces B)(?n \<mapsto> e_now eB), lastReceivedHash := Some h\<rparr>"
  have got: "drain 4 eB (on_message eB (json_text (JObj (wire_props kvs ?prev ?n sg))) B) = (fst (deliver eB ?env ?B), [])"
    using receive_accepts [OF kvs(2) assms(2), of eB ?prev ?n sg h hx] sg h hx kind assms(3,5,16-) by simp
  have ex: "\<not> exempt ?env" using received_exempt [OF kvs(2)] kind by simp
  have "msgs (fst (deliver eB ?env ?B)) = msgs B @ [?env]" "lastReceivedHash (fst (deliver eB ?env ?B)) = Some h"
    using deliver_other(2,3) [OF ex, of eB ?B] by (simp_all add: sec_def msgs_def)
  with sent got show ?thesis
    using received_fields(1) [OF kvs(2)] kvs(3,4) by (auto simp: emit_def)
qed

text \<open>Two clients with the key \<open>k\<close>, and an environment with a clock and no randomness.\<close>

definition sample_options :: LtpClientOptions where
  "sample_options =
     \<lparr>opt_clientId = Some ''c'', opt_deviceFingerprint = JUndef, opt_intent = None, opt_capabilities = JUndef,
      opt_defaultContextTag = JUndef, opt_defaultAffect = JUndef, opt_metadata = JUndef, opt_storage = None,
      opt_reconnect = None, opt_heartbeat = None, opt_codec = None, opt_preferredEncoding = None,
      opt_enableEcdhKeyExchange = True, opt_sessionMacKey = None, opt_requireSignatureVerification = None,
      opt_maxMessageAge = None, opt_enableMetadataEncryption = True, opt_sessionEncryptionKey = Some ''e'',
      opt_secretKey = Some ''k''\<rparr>"

definition sample_client :: client where
  "sample_client = new_client ''f'' ''p'' sample_options"

definition sample_sender :: client where
  "sample_sender = sample_client\<lparr>isConnected := True, isHandshakeComplete := True, ws := Some 0,
     sockets := (\<lambda>_. OPEN), threadId := JStr ''t'', sessionId := JStr ''s''\<rparr>"

definition sample_env :: "rat \<Rightarrow> env" where
  "sample_env now = \<lparr>e_rt = toy_runtime True False, e_now = now, e_window_random = Some [], e_require_random = None,
     e_math_random = [], e_math_nibbles = [], e_iv = [], e_seed = 0\<rparr>"

lemma sample_env_sel [simp]: "e_rt (sample_env now) = toy_runtime True False" "e_now (sample_env now) = now"
  by (simp_all add: sample_env_def)

lemma toy_working: "working (toy_runtime w n) = (w \<or> n)"
  using toy_digest_length by (simp add: working_def)

lemma sample_options_kept:
  "mac_key sample_client = Some ''k''" "opt_requireSignatureVerification (options sample_client) = Some True"
  "opt_sessionEncryptionKey (options sample_client) = None" "max_age (options sample_client) = 60000"
  "opt_clientId (options sample_client) = Some ''c''" "opt_defaultAffect (options sample_client) = JUndef"
  "opt_defaultContextTag (options sample_client) = JUndef"
  by (simp_all add: sample_client_def new_client_def loadPersistedIds_def normalize_options_def sample_options_def
      mac_key_def str_or_def given_def dflt_def max_age_def Let_def)

lemma sample_start: "lastSentHash sample_client = None" "lastReceivedHash sample_client = None" "seenNonces sample_client = Map.empty"
  "out sample_client = []"
  by (simp_all add: sample_client_def new_client_def loadPersistedIds_def Let_def)

lemma sample_ready: "ready_to_send sample_sender ''k'' 0" "ready_to_receive sample_client ''k''"
  using sample_options_kept by (simp_all add: ready_to_send_def ready_to_receive_def sample_sender_def mac_key_def)

lemma sample_meta: "mergeMeta sample_sender JUndef = JObj [(''client_id'', JStr ''c'')]"
  using sample_options_kept by (simp add: mergeMeta_def sample_sender_def js_or_def of_str_def)

theorem send_accepted_in_lockstep_witness:
  "\<exists>A' txt B' env. drain 3 (sample_env 1000) (sendMessage (sample_env 1000) ''event'' JUndef JNull sample_sender) = (A', [])
    \<and> out A' = [SendText 0 txt]
    \<and> drain 4 (sample_env 1500) (on_message (sample_env 1500) txt sample_client) = (B', [])
    \<and> msgs B' = [env] \<and> pget env ''type'' = JStr ''event'' \<and> pget env ''payload'' = JNull
    \<and> lastSentHash A' \<noteq> None \<and> lastSentHash A' = lastReceivedHash B'"
proof -
  have "json_ok (mergeMeta sample_sender JUndef)"
    by (simp add: sample_meta obj_ordered_def spread_def)
  then show ?thesis
    using send_accepted_in_lockstep [OF sample_ready, of "toy_runtime True False" "sample_env 1000" "sample_env 1500"
        "''t''" "''s''" JNull JUndef "''event''" 1000]
    by (simp add: toy_working sample_options_kept sample_start sample_sender_def msgs_def)
qed

section \<open>Overlapping sends\<close>

lemma drain_two_sends:
  assumes "sendable kvs1 t1" and "sendable kvs2 t2" and "ready_to_send c key s" and "working (e_rt e)"
    and "prev = of_str (str_or (lastSentHash c) None)"
    and "signMessage (e_rt e) (wire_signed kvs1 prev n1) key = Inr sg1" and "signMessage (e_rt e) (wire_signed kvs2 prev n2) key = Inr sg2"
    and "hashEnvelope (e_rt e) (wire_signed kvs1 prev n1) = Inr h1" and "hashEnvelope (e_rt e) (wire_signed kvs2 prev n2) = Inr h2"
  shows "drain 6 e (c, [NonceReady (JObj kvs1) n1, NonceReady (JObj kvs2) n2])
    = (emit (SendText s (json_text (JObj (wire_props kvs2 prev n2 sg2))))
        ((emit (SendText s (json_text (JObj (wire_props kvs1 prev n1 sg1)))) (c\<lparr>lastSentHash := Some h1\<rparr>))\<lparr>lastSentHash := Some h2\<rparr>), [])"
proof -
  have key: "given (mac_key c)" "dflt (mac_key c) [] = key"
    using assms(3) by (simp_all add: ready_to_send_def given_def dflt_def)
  have nonce: "resume e (NonceReady (JObj kvs) n) c
      = (c, [SignatureReady (JObj (kvs @ [(''prev_message_hash'', prev)])) n (Inr sg)])"
    if "sendable kvs t" "signMessage (e_rt e) (wire_signed kvs prev n) key = Inr sg" for kvs t n sg
    using key that(2) with_props_wire(1) [OF that(1), of prev]
    by (simp add: send_with_nonce_def generateSignature_def Let_def assms(5) [symmetric] signed_at_sender [OF that(1)])
  have signed: "resume e (SignatureReady (JObj (kvs @ [(''prev_message_hash'', prev)])) n (Inr sg)) c
      = (c, [HashReady (JObj (wire_props kvs prev n sg)) (JObj (kvs @ [(''prev_message_hash'', prev)])) n (Inr h)])"
    if "sendable kvs t" "hashEnvelope (e_rt e) (wire_signed kvs prev n) = Inr h" for kvs t n sg h
    using assms(3) that(2)
    by (simp add: send_signed_def Let_def encrypt_envelope_def ready_to_send_def with_props_wire(2) [OF that(1)] commitment_at_sender [OF that(1)])
  show ?thesis
    using assms(3) nonce [OF assms(1,6)] nonce [OF assms(2,7)] signed [OF assms(1,8)] signed [OF assms(2,9)]
    by (simp add: eval_nat_numeral add_tasks_def send_hashed_def sendRaw_def ready_to_send_def emit_def
        del: resume.simps(10) resume.simps(11))
qed

text \<open>C6: two sends that overlap fork the hash chain. When the application sends two messages without
  waiting in between, both continuations read the same last hash: both texts parse to messages whose
  \<open>prev_message_hash\<close> is the old hash. A receiver in lockstep accepts the first and rejects the second with
  \<open>HASH_CHAIN_MISMATCH\<close>, although both were sent by its peer in order (unless the hash of the first
  happens to be the old one).\<close>

theorem overlapping_sends_fork:
  assumes "sendable kvs1 t1" and "sendable kvs2 t2" and "\<not> exempt (JObj kvs1)" and "\<not> exempt (JObj kvs2)"
    and "ready_to_send A key s" and "ready_to_receive B key" and "working rt"
    and "e_rt e1 = rt" and "e_rt e2 = rt" and "e_rt e = rt" and "e_rt eB = rt"
    and "e_now e1 = of_nat t1" and "e_now e2 = of_nat t2" and "lastSentHash A = lastReceivedHash B"
    and "seenNonces B (client_nonce e1 A) = None" and "seenNonces B (client_nonce e2 A) = None"
    and "client_nonce e1 A \<noteq> client_nonce e2 A"
    and "- 5000 \<le> e_now eB - of_nat t1" and "e_now eB - of_nat t1 \<le> max_age (options B)"
    and "- 5000 \<le> e_now eB - of_nat t2" and "e_now eB - of_nat t2 \<le> max_age (options B)"
  shows "\<exists>A' txt1 txt2 m1 m2 B1.
      drain 6 e (add_tasks (snd (send_start e1 (JObj kvs1) A)) (send_start e2 (JObj kvs2) A)) = (A', [])
    \<and> out A' = out A @ [SendText s txt1, SendText s txt2]
    \<and> json_parse txt1 = Some m1 \<and> pget m1 ''prev_message_hash'' = of_str (str_or (lastSentHash A) None)
    \<and> json_parse txt2 = Some m2 \<and> pget m2 ''prev_message_hash'' = of_str (str_or (lastSentHash A) None)
    \<and> drain 4 eB (on_message eB txt1 B) = (B1, []) \<and> msgs B1 = msgs B @ [m1] \<and> lastReceivedHash B1 \<noteq> None
    \<and> (lastReceivedHash B1 \<noteq> lastSentHash A \<longrightarrow>
         out (fst (drain 4 eB (on_message eB txt2 B1))) = out B1 @ [OnClientError ''HASH_CHAIN_MISMATCH''])"
proof -
  let ?prev = "of_str (str_or (lastSentHash A) None)" and ?n1 = "client_nonce e1 A" and ?n2 = "client_nonce e2 A"
  obtain sg1 sg2 where sg: "signMessage rt (wire_signed kvs1 ?prev ?n1) key = Inr sg1" "signMessage rt (wire_signed kvs2 ?prev ?n2) key = Inr sg2"
    using working_sign [OF assms(7)] by metis
  obtain h1 h2 where h: "hashEnvelope rt (wire_signed kvs1 ?prev ?n1) = Inr h1" "hashEnvelope rt (wire_signed kvs2 ?prev ?n2) = Inr h2"
    using working_hash [OF assms(7)] by metis
  have mac: "mac_key A = Some key" "key \<noteq> []" "t1 < 2 ^ 53" "t2 < 2 ^ 53"
    using assms(1,2,5) by (auto simp: ready_to_send_def sendable_def)
  obtain hx1 where hx1: "?n1 = ''hmac-'' @ hx1 @ ''-'' @ nat_str t1" "length hx1 = 32" "list_all is_hex hx1"
    using working_nonce [of e1 A key t1] assms(7,8,12) mac by metis
  obtain hx2 where hx2: "?n2 = ''hmac-'' @ hx2 @ ''-'' @ nat_str t2" "length hx2 = 32" "list_all is_hex hx2"
    using working_nonce [of e2 A key t2] assms(7,9,13) mac by metis
  let ?txt1 = "json_text (JObj (wire_props kvs1 ?prev ?n1 sg1))" and ?txt2 = "json_text (JObj (wire_props kvs2 ?prev ?n2 sg2))"
  have "add_tasks (snd (send_start e1 (JObj kvs1) A)) (send_start e2 (JObj kvs2) A)
      = (A, [NonceReady (JObj kvs1) ?n1, NonceReady (JObj kvs2) ?n2])"
    using assms(5) by (simp add: send_start_def ready_to_send_def add_tasks_def)
  then obtain A' where A': "drain 6 e (add_tasks (snd (send_start e1 (JObj kvs1) A)) (send_start e2 (JObj kvs2) A)) = (A', [])"
      "out A' = out A @ [SendText s ?txt1, SendText s ?txt2]"
    using drain_two_sends [OF assms(1,2,5), of e ?prev ?n1 sg1 ?n2 sg2 h1 h2] sg h assms(7,10) by (simp add: emit_def)
  let ?env = "received kvs1 ?prev ?n1 sg1"
  let ?B = "B\<lparr>seenNonces := (seenNonces B)(?n1 \<mapsto> e_now eB), lastReceivedHash := Some h1\<rparr>"
  define B1 where "B1 = fst (deliver eB ?env ?B)"
  have got: "drain 4 eB (on_message eB ?txt1 B) = (B1, [])"
    using receive_accepts [OF assms(1,6), of eB ?prev ?n1 sg1 h1 hx1] sg(1) h(1) hx1 assms by (simp add: B1_def)
  have ex: "\<not> exempt ?env" using received_exempt [OF assms(1)] assms(3) by simp
  have B1: "msgs B1 = msgs B @ [?env]" "lastReceivedHash B1 = Some h1" "options B1 = options B"
    "seenNonces B1 = (seenNonces B)(?n1 \<mapsto> e_now eB)"
    using deliver_other(2,3) [OF ex, of eB ?B] by (simp_all add: B1_def sec_def msgs_def)
  have "out (fst (drain 4 eB (on_message eB ?txt2 B1))) = out B1 @ [OnClientError ''HASH_CHAIN_MISMATCH'']"
    if ne: "lastReceivedHash B1 \<noteq> lastSentHash A"
  proof -
    have "ready_to_receive B1 key" using assms(6) by (simp add: ready_to_receive_def mac_key_def B1)
    moreover have "given (lastReceivedHash B1)"
      using hashEnvelope_hex [OF _ h(1)] assms(7) by (auto simp: B1 given_def working_def)
    moreover have "?prev \<noteq> of_str (lastReceivedHash B1)"
      using ne by (auto simp: B1 of_str_def str_or_def split: option.split if_splits)
    moreover have "?prev = JUndef \<or> json_ok ?prev" by (simp add: of_str_def split: option.split)
    moreover have "seenNonces B1 ?n2 = None" using assms(16,17) by (simp add: B1)
    ultimately have "drain 4 eB (on_message eB ?txt2 B1)
        = (handleError ''HASH_CHAIN_MISMATCH'' (B1\<lparr>seenNonces := (seenNonces B1)(?n2 \<mapsto> e_now eB)\<rparr>), [])"
      using receive_mismatch [OF assms(2), of B1 key eB ?prev ?n2 sg2 hx2] sg(2) hx2 assms by (simp add: B1)
    then show ?thesis by (simp add: handleError_def emit_def)
  qed
  moreover have "?prev = JUndef \<or> json_ok ?prev" by (simp add: of_str_def split: option.split)
  then have "json_parse ?txt1 = Some ?env" "json_parse ?txt2 = Some (received kvs2 ?prev ?n2 sg2)"
    using wire_parse [OF assms(1)] wire_parse [OF assms(2)] by (simp_all add: received_def)
  ultimately show ?thesis
    using A' got B1(1,2) received_fields(2) [OF assms(1)] received_fields(2) [OF assms(2)]
    by (intro exI [of _ A'] exI [of _ ?txt1] exI [of _ ?txt2] exI [of _ ?env] exI [of _ "received kvs2 ?prev ?n2 sg2"]
        exI [of _ B1] conjI) simp_all
qed

definition sample_props :: "nat \<Rightarrow> (string \<times> jsval) list" where
  "sample_props t = [(''type'', JStr ''event''), (''thread_id'', JStr ''t''), (''session_id'', JStr ''s''),
     (''timestamp'', JNum (of_nat t)), (''payload'', JNull)]"

lemma sample_props_sendable: "t < 2 ^ 53 \<Longrightarrow> sendable (sample_props t) t" "\<not> exempt (JObj (sample_props t))"
proof -
  show "sendable (sample_props t) t" if "t < 2 ^ 53"
    using that fl_nat [of t]
    by (simp add: sendable_def sample_props_def name_keys_def array_index_def is_digit_def)
  show "\<not> exempt (JObj (sample_props t))" by (simp add: sample_props_def exempt_def)
qed

lemma sample_nonces_differ:
  assumes "t1 \<noteq> t2" and "t1 < 2 ^ 53" and "t2 < 2 ^ 53"
  shows "client_nonce (sample_env (of_nat t1)) sample_sender \<noteq> client_nonce (sample_env (of_nat t2)) sample_sender"
proof -
  have stamp: "nonce_timestamp (client_nonce (sample_env (of_nat t)) sample_sender) JUndef = Inr (int t)" if t: "t < 2 ^ 53" for t
  proof -
    have "mac_key sample_sender = Some ''k''" "working (e_rt (sample_env (of_nat t)))"
      using sample_ready(1) by (simp_all add: toy_working ready_to_send_def)
    then obtain h where "client_nonce (sample_env (of_nat t)) sample_sender = ''hmac-'' @ h @ ''-'' @ nat_str t"
      "length h = 32" "list_all is_hex h"
      using working_nonce [of "sample_env (of_nat t)" sample_sender "''k''" t] t by auto
    then show ?thesis using hmac_nonce_timestamp [of h t JUndef] by simp
  qed
  show ?thesis using stamp [OF assms(2)] stamp [OF assms(3)] assms(1) by auto
qed

theorem overlapping_sends_fork_witness:
  "\<exists>A' txt1 txt2 m1 m2 B1. drain 6 (sample_env 1001)
        (add_tasks (snd (send_start (sample_env 1000) (JObj (sample_props 1000)) sample_sender))
          (send_start (sample_env 1001) (JObj (sample_props 1001)) sample_sender)) = (A', [])
    \<and> out A' = [SendText 0 txt1, SendText 0 txt2]
    \<and> json_parse txt1 = Some m1 \<and> pget m1 ''prev_message_hash'' = JUndef
    \<and> json_parse txt2 = Some m2 \<and> pget m2 ''prev_message_hash'' = JUndef
    \<and> drain 4 (sample_env 1500) (on_message (sample_env 1500) txt1 sample_client) = (B1, []) \<and> msgs B1 = [m1]
    \<and> out (fst (drain 4 (sample_env 1500) (on_message (sample_env 1500) txt2 B1))) = out B1 @ [OnClientError ''HASH_CHAIN_MISMATCH'']"
proof -
  have sel: "lastSentHash sample_sender = None" "out sample_sender = []" "msgs sample_client = []"
    using sample_start by (simp_all add: sample_sender_def msgs_def)
  have ne: "client_nonce (sample_env 1000) sample_sender \<noteq> client_nonce (sample_env 1001) sample_sender"
    using sample_nonces_differ [of 1000 1001] by simp
  from overlapping_sends_fork [OF sample_props_sendable(1) [of 1000] sample_props_sendable(1) [of 1001] sample_props_sendable(2)
      sample_props_sendable(2) sample_ready, of "toy_runtime True False" "sample_env 1000" "sample_env 1001" "sample_env 1001" "sample_env 1500"]
  obtain A' txt1 txt2 m1 m2 B1 where
    "drain 6 (sample_env 1001)
        (add_tasks (snd (send_start (sample_env 1000) (JObj (sample_props 1000)) sample_sender))
          (send_start (sample_env 1001) (JObj (sample_props 1001)) sample_sender)) = (A', [])"
    "out A' = [SendText 0 txt1, SendText 0 txt2]"
    "json_parse txt1 = Some m1" "pget m1 ''prev_message_hash'' = JUndef" "json_parse txt2 = Some m2" "pget m2 ''prev_message_hash'' = JUndef"
    "drain 4 (sample_env 1500) (on_message (sample_env 1500) txt1 sample_client) = (B1, [])" "msgs B1 = [m1]"
    "lastReceivedHash B1 \<noteq> None" "lastReceivedHash B1 \<noteq> None \<longrightarrow>
      out (fst (drain 4 (sample_env 1500) (on_message (sample_env 1500) txt2 B1))) = out B1 @ [OnClientError ''HASH_CHAIN_MISMATCH'']"
    using ne sample_start sample_options_kept(4) by (auto simp: toy_working sel of_str_def str_or_def given_def)
  then show ?thesis by blast
qed

end
