(* ===== verification/Client_Correct.thy ===== *)
theory Client_Correct
  imports Client_Exchange
begin

text \<open>
  What holds in every run of the client, whatever the application, the peer and the network do, and
  the behaviours of single operations that matter to an application: reconnection, resumption of a
  thread, and the default meta data.
\<close>

section \<open>A run that delivers a message\<close>

lemma drain_run: "drain n e w = (c, []) \<Longrightarrow> \<exists>m. run_events (replicate m (e, Resume 0)) w = Some (c, [])"
proof (induction n e w rule: drain.induct)
  case (1 e w)
  then show ?case by (intro exI [of _ 0]) simp
next
  case (2 n e c')
  then show ?case by (intro exI [of _ 0]) simp
next
  case (3 n e c' t ts)
  then obtain m where "run_events (replicate m (e, Resume 0)) (add_tasks ts (resume e t c')) = Some (c, [])" by auto
  then show ?case by (intro exI [of _ "Suc m"]) simp
qed

lemma run_events_append:
  "run_events (xs @ ys) w = (case run_events xs w of None \<Rightarrow> None | Some w' \<Rightarrow> run_events ys w')"
  by (induction xs arbitrary: w) (auto split: option.split)

lemma add_tasks_Nil [simp]: "add_tasks [] t = t"
  by (simp add: add_tasks_def)

definition sample_opened :: client where
  "sample_opened = (set_socket 0 OPEN (connect sample_client))\<lparr>isConnecting := False, isAttemptingResume := False\<rparr>"

definition sample_connected :: client where
  "sample_connected = sendRaw (JObj (handshake_init sample_opened)) sample_opened"

lemma sample_client_fields:
  "isConnected sample_client = False" "connectPromise sample_client = False" "ws sample_client = None"
  "isConnecting sample_client = False" "next_socket sample_client = 0" "threadId sample_client = JNull"
  "ecdhPublicKey sample_client = None" "opt_enableEcdhKeyExchange (options sample_client) = False"
  by (simp_all add: sample_client_def new_client_def loadPersistedIds_def normalize_options_def Let_def sample_options_def
      dflt_def getItem_def)

lemma sample_connect_run:
  "run_events [(e, UserConnect), (e, SocketOpen 0), (e, Resume 0)] (sample_client, []) = Some (sample_connected, [])"
  by (simp add: connect_def sample_client_fields connectWebSocket_def emit_def Let_def set_socket_def on_open_def
      sendHandshakeInit_def ensureHandshakeKeys_def add_tasks_def handshake_with_keys_def store_keys_def
      sample_connected_def sample_opened_def)

lemma sec_sample_connected: "sec sample_connected = sec sample_client"
  by (simp add: sample_connected_def sample_opened_def)

lemma sample_connected_fields:
  "lastReceivedHash sample_connected = None" "next_socket sample_connected = 1" "sockets sample_connected 0 = OPEN"
  using sample_start(2)
  by (simp_all add: sample_connected_def sample_opened_def sendRaw_def connect_def connectWebSocket_def emit_def Let_def
      set_socket_def sample_client_fields)

lemma sample_delivery:
  obtains evs now w m where "exec (toy_runtime True False) sample_options evs now w" "UserDisconnect \<notin> set evs"
    "msgs (fst w) = [m]" "\<not> exempt m" "nonce_text (nonce_pair m) = sample_nonce 1000"
proof -
  let ?rt = "toy_runtime True False" and ?e = "sample_env 1000" and ?n = "sample_nonce 1000" and ?kvs = "sample_props 1000"
  obtain sg where sg: "signMessage ?rt (wire_signed ?kvs JUndef ?n) ''k'' = Inr sg"
    using working_sign toy_working by blast
  obtain h where h: "hashEnvelope ?rt (wire_signed ?kvs JUndef ?n) = Inr h"
    using working_hash toy_working by blast
  let ?m = "received ?kvs JUndef ?n sg"
  note ok = sample_props_sendable(1) [of 1000, simplified]
  have opts: "options sample_connected = options sample_client" "seenNonces sample_connected = Map.empty" "msgs sample_connected = []"
    using sec_sample_connected sample_start by (auto simp: sec_def msgs_def)
  have rdy: "ready_to_receive sample_connected ''k''"
    using sample_ready(2) by (simp add: ready_to_receive_def mac_key_def opts)
  have hex: "list_all is_hex (replicate 32 CHR ''a'')" by (simp add: list_all_iff is_hex_def hex_val_def)
  define c where "c = fst (deliver ?e ?m (sample_connected\<lparr>seenNonces := [?n \<mapsto> 1000], lastReceivedHash := Some h\<rparr>))"
  have "drain 4 ?e (on_message ?e (json_text (JObj (wire_props ?kvs JUndef ?n sg))) sample_connected) = (c, [])"
    using receive_accepts [OF ok rdy, of ?e JUndef ?n sg h "replicate 32 CHR ''a''"] sg h hex sample_props_sendable(2)
      sample_options_kept(4) sample_connected_fields(1)
    by (simp add: toy_working c_def opts sample_nonce_def str_or_def given_def of_str_def)
  then obtain k where "run_events (replicate k (?e, Resume 0))
      (on_message ?e (json_text (JObj (wire_props ?kvs JUndef ?n sg))) sample_connected) = Some (c, [])"
    using drain_run by blast
  then have run: "run_events ([(?e, UserConnect), (?e, SocketOpen 0), (?e, Resume 0)]
      @ (?e, SocketMessage 0 (json_text (JObj (wire_props ?kvs JUndef ?n sg)))) # replicate k (?e, Resume 0)) (sample_client, [])
    = Some (c, [])" (is "run_events ?es _ = _")
    unfolding run_events_append sample_connect_run by (simp add: sample_connected_fields)
  have start: "exec ?rt sample_options [] 1000 (sample_client, [])" unfolding sample_client_def by (rule exec_start)
  have "sorted (map (\<lambda>p. 1000 :: rat) (xs :: 'b list))" for xs by (induction xs) auto
  then have times: "sorted (1000 # map (\<lambda>p. e_now (fst p)) ?es)"
    by (simp add: sorted_append map_replicate_const)
  obtain now where "exec ?rt sample_options (map snd ?es) now (c, [])"
    using exec_run [OF run start _ times] by auto
  moreover have ex: "\<not> exempt ?m" using received_exempt [OF ok] sample_props_sendable(2) by simp
  moreover have "msgs c = [?m]"
    using deliver_other(3) [OF ex, of ?e "sample_connected\<lparr>seenNonces := [?n \<mapsto> 1000], lastReceivedHash := Some h\<rparr>"] opts
    by (simp add: c_def sec_def msgs_def)
  moreover have "nonce_text (nonce_pair ?m) = ?n" by (simp add: nonce_text_def nonce_pair_def received_fields [OF ok])
  ultimately show ?thesis using that [of "map snd ?es" now "(c, [])" ?m] by simp
qed

section \<open>Every run\<close>

text \<open>C5: in every reachable state the two connection flags agree; exactly one connect promise is open
  when \<open>connectPromise\<close> is set and none otherwise, so each promise settles exactly once; a live
  heartbeat, heartbeat timeout or reconnect timer is the one its field names (so no such timer leaks),
  a heartbeat runs only while connected; retries stay below the limit and their delay below the cap.\<close>

theorem client_consistent:
  assumes "exec rt o' evs now w"
  shows "isConnected (fst w) = isHandshakeComplete (fst w)
    \<and> balance (out (fst w)) = (if connectPromise (fst w) then 1 else 0)
    \<and> (reconnectAttempts (fst w) = 0 \<or> of_nat (reconnectAttempts (fst w)) < maxRetries (reconnectConfig (fst w)) + 1)
    \<and> (\<forall>(t, k, d) \<in> set (timers (fst w)).
         (k = HeartbeatInterval \<longrightarrow> heartbeatTimer (fst w) = Some t \<and> isConnected (fst w))
         \<and> (k = HeartbeatTimeout \<longrightarrow> heartbeatTimeout (fst w) = Some t)
         \<and> (k = ReconnectTimeout \<longrightarrow> reconnectTimer (fst w) = Some t
              \<and> (\<exists>x \<le> maxDelayMs (reconnectConfig (fst w)). d = JNum x)))"
  using exec_wf [OF assms]
  by (fastforce simp: wf_client_def inv_defs timers_ok_def heartbeat_ok_def owned_def list_all_iff)

theorem client_consistent_witness:
  "\<exists>evs now w. exec (toy_runtime True False) sample_options evs now w \<and> msgs (fst w) \<noteq> []
    \<and> isConnected (fst w) = isHandshakeComplete (fst w)
    \<and> balance (out (fst w)) = (if connectPromise (fst w) then 1 else 0)"
proof -
  obtain evs now w m where w: "exec (toy_runtime True False) sample_options evs now w" "msgs (fst w) = [m]"
    by (rule sample_delivery)
  note c = client_consistent [OF w(1)]
  have "msgs (fst w) \<noteq> []" by (simp add: w(2))
  with w(1) conjunct1 [OF c] conjunct1 [OF conjunct2 [OF c]] show ?thesis by blast
qed

text \<open>Whatever options the application passes, no run of a client ever takes part in a key exchange:
  no key pair is generated or stored, the options never gain a session or encryption key, and no task of
  the exchange exists, because the constructor drops \<open>enableEcdhKeyExchange\<close>,
  \<open>enableMetadataEncryption\<close> and \<open>sessionEncryptionKey\<close>.\<close>

theorem key_exchange_never_runs:
  assumes "exec rt o' evs now w"
  shows "ecdhPrivateKey (fst w) = None \<and> ecdhPublicKey (fst w) = None
    \<and> \<not> opt_enableEcdhKeyExchange (options (fst w)) \<and> \<not> opt_enableMetadataEncryption (options (fst w))
    \<and> opt_sessionEncryptionKey (options (fst w)) = None
    \<and> opt_sessionMacKey (options (fst w)) = opt_sessionMacKey o' \<and> list_all plain_task (snd w)"
proof -
  obtain f p where "plain (normalize_options f p o') w" using exec_plain [OF assms] by blast
  then show ?thesis by (simp add: plain_def no_keys_def normalize_options_def Let_def)
qed

theorem key_exchange_never_runs_witness:
  "opt_enableEcdhKeyExchange sample_options \<and> (\<exists>evs now w. exec (toy_runtime True False) sample_options evs now w
     \<and> msgs (fst w) \<noteq> [] \<and> ecdhPublicKey (fst w) = None)"
proof -
  obtain evs now w m where "exec (toy_runtime True False) sample_options evs now w" "msgs (fst w) = [m]"
    by (rule sample_delivery)
  then show ?thesis
    using key_exchange_never_runs [of "toy_runtime True False" sample_options evs now w] by (fastforce simp: sample_options_def)
qed

text \<open>C2: authenticity. When a MAC key is configured and verification not switched off, every message ever
  handed to the application, other than the replies of the handshake, carries a signature that
  \<open>verifySignature\<close> accepts under that key, in every interleaving of messages, timers and sends.\<close>

theorem delivered_messages_authentic:
  assumes "exec rt o' evs now w" and "opt_requireSignatureVerification o' \<noteq> Some False"
    and "str_or (opt_sessionMacKey o') (opt_secretKey o') = Some key" and "key \<noteq> []"
    and "m \<in> set (msgs (fst w))"
  shows "pget m ''type'' = JStr ''handshake_ack'' \<or> pget m ''type'' = JStr ''handshake_reject''
    \<or> fst (check_signature rt m key)"
  using exec_auth [OF assms(1-4)] assms(5) by (auto simp: delivery_of_def exempt_def authentic_def)

theorem delivered_messages_authentic_witness:
  "\<exists>evs now w m. exec (toy_runtime True False) sample_options evs now w \<and> m \<in> set (msgs (fst w))
    \<and> fst (check_signature (toy_runtime True False) m ''k'')"
proof -
  obtain evs now w m where w: "exec (toy_runtime True False) sample_options evs now w" "msgs (fst w) = [m]" "\<not> exempt m"
    by (rule sample_delivery)
  have "opt_requireSignatureVerification sample_options \<noteq> Some False"
    "str_or (opt_sessionMacKey sample_options) (opt_secretKey sample_options) = Some ''k''"
    by (simp_all add: sample_options_def str_or_def given_def)
  then show ?thesis
    using delivered_messages_authentic [OF w(1), of "''k''" m] w by (fastforce simp: exempt_def)
qed

text \<open>C3: no replay. Under the same configuration with a maximal message age of at least five seconds,
  between two calls of \<open>disconnect\<close> no two delivered messages have the same nonce, across reconnections,
  cleanups and every interleaving of the checks.\<close>

theorem delivered_nonces_distinct:
  assumes "exec rt o' evs now w" and "opt_requireSignatureVerification o' \<noteq> Some False"
    and "str_or (opt_sessionMacKey o') (opt_secretKey o') = Some key" and "key \<noteq> []"
    and "UserDisconnect \<notin> set evs" and "5000 \<le> max_age o'"
  shows "distinct (delivered_nonces (fst w))"
  by (rule fresh_distinct [OF exec_fresh [OF assms]])

theorem delivered_nonces_distinct_witness:
  "\<exists>evs now w. exec (toy_runtime True False) sample_options evs now w \<and> delivered_nonces (fst w) = [sample_nonce 1000]
    \<and> distinct (delivered_nonces (fst w))"
proof -
  obtain evs now w m where w: "exec (toy_runtime True False) sample_options evs now w" "UserDisconnect \<notin> set evs"
    "msgs (fst w) = [m]" "\<not> exempt m" "nonce_text (nonce_pair m) = sample_nonce 1000"
    by (rule sample_delivery)
  have "opt_requireSignatureVerification sample_options \<noteq> Some False"
    "str_or (opt_sessionMacKey sample_options) (opt_secretKey sample_options) = Some ''k''" "5000 \<le> max_age sample_options"
    by (simp_all add: sample_options_def str_or_def given_def max_age_def)
  then show ?thesis
    using delivered_nonces_distinct [OF w(1) _ _ _ w(2), of "''k''"] w by (fastforce simp: delivered_nonces_def)
qed

lemma first_delivery:
  assumes "exec rt o' evs now w" and "msgs (fst w) \<noteq> []"
  obtains evs1 now1 w1 e ev w2 where "exec rt o' evs1 now1 w1" "e_rt e = rt" "step e ev w1 = Some w2"
    "msgs (fst w1) = []" "msgs (fst w2) \<noteq> []"
  using assms
proof (induction arbitrary: thesis rule: exec.induct)
  case (exec_start now f p)
  then show ?case using delivery_start [of f p o'] by (simp add: delivery_of_def)
next
  case (exec_step evs now w e ev w')
  then show ?case by (cases "msgs (fst w) = []") blast+
qed

text \<open>C4: the client refines the abstract delivery machine, exactly. When a MAC key is configured and
  verification not switched off, each event of a reachable client is the one step of the machine that its
  label allows: a frame joins the messages to be checked; a message is dropped when a field is missing, its
  signature, age or nonce is refused, or it does not name the hash of the message accepted before; only an
  accepted nonce enters the cache; an accepted message sets the hash and is delivered; the hash is forgotten
  with the connection and at the end of a handshake, the cache with \<open>disconnect\<close>.\<close>

theorem client_refines_delivery:
  assumes "exec rt o' evs now w" and "opt_requireSignatureVerification o' \<noteq> Some False"
    and "str_or (opt_sessionMacKey o') (opt_secretKey o') = Some key" and "key \<noteq> []"
    and "e_rt e = rt" and "step e ev w = Some w'"
  shows "dstep rt key (max_age o') (e_now e) (label_of ev w) (delivery_of w) s \<longleftrightarrow> s = delivery_of w'"
proof -
  obtain f p where "plain (normalize_options f p o') w" "secured (normalize_options f p o') key (max_age o')"
    using exec_secured [OF assms(1-4)] .
  then have "dstep rt key (max_age o') (e_now e) (label_of ev w) (delivery_of w) (delivery_of w')"
    by (rule step_refines [OF assms(6) _ _ assms(5)])
  then show ?thesis using dstep_det by blast
qed

theorem client_refines_delivery_witness:
  "\<exists>evs now w e ev w'. exec (toy_runtime True False) sample_options evs now w \<and> step e ev w = Some w'
    \<and> msgs (fst w) = [] \<and> msgs (fst w') \<noteq> []
    \<and> dstep (toy_runtime True False) ''k'' 60000 (e_now e) (label_of ev w) (delivery_of w) (delivery_of w')
    \<and> \<not> dstep (toy_runtime True False) ''k'' 60000 (e_now e) (label_of ev w) (delivery_of w) (delivery_of w)"
proof -
  obtain evs0 now0 w0 m where w0: "exec (toy_runtime True False) sample_options evs0 now0 w0" "msgs (fst w0) = [m]"
    by (rule sample_delivery)
  obtain evs now w e ev w' where w: "exec (toy_runtime True False) sample_options evs now w" "e_rt e = toy_runtime True False"
    "step e ev w = Some w'" "msgs (fst w) = []" "msgs (fst w') \<noteq> []"
    by (rule first_delivery [OF w0(1)]) (use w0(2) in simp)
  have "opt_requireSignatureVerification sample_options \<noteq> Some False"
    "str_or (opt_sessionMacKey sample_options) (opt_secretKey sample_options) = Some ''k''" "max_age sample_options = 60000"
    by (simp_all add: sample_options_def str_or_def given_def max_age_def)
  then have "dstep (toy_runtime True False) ''k'' 60000 (e_now e) (label_of ev w) (delivery_of w) s \<longleftrightarrow> s = delivery_of w'" for s
    using client_refines_delivery [OF w(1) _ _ _ w(2,3), of "''k''" s] by simp
  moreover have "delivery_of w \<noteq> delivery_of w'" using w(4,5) by (auto simp: delivery_of_def)
  ultimately show ?thesis using w by blast
qed

text \<open>One failed attempt: the reconnect timer fires and the new socket closes without a handshake.\<close>

definition failed_retry :: "client \<Rightarrow> client" where
  "failed_retry c =
     (let c0 = (case reconnectTimer c of None \<Rightarrow> c | Some t \<Rightarrow> clear_timer t c);
          c1 = connectWebSocket (c0\<lparr>reconnectTimer := None\<rparr>)
      in on_close (set_socket (dflt (ws c1) 0) CLOSED c1))"

lemma reconnect_frame [simp]:
  "reconnectTimer (clearHeartbeatTimers c) = reconnectTimer c" "reconnectTimer (stopNonceCleanup c) = reconnectTimer c"
  "reconnectTimer (emit x c) = reconnectTimer c" "reconnectTimer (set_socket s r c) = reconnectTimer c"
  "reconnectTimer (connectWebSocket c) = reconnectTimer c" "reconnectConfig (connectWebSocket c) = reconnectConfig c"
  "reconnectAttempts (connectWebSocket c) = reconnectAttempts c" "manualDisconnect (connectWebSocket c) = manualDisconnect c"
  "reconnectTimer (emitPermanentFailure reason c) = reconnectTimer c"
  "manualDisconnect (emitPermanentFailure reason c) = manualDisconnect c"
  "OnPermanentFailure reason \<in> set (out (emitPermanentFailure reason c))"
  by (auto simp: timer_defs emit_def set_socket_def connectWebSocket_def close_socket_def emitPermanentFailure_def Let_def
      split: option.split)

lemma handleDisconnect_retry:
  assumes "reconnectTimer c = None" and "\<not> manualDisconnect c"
  shows "reconnectConfig (handleDisconnect r c) = reconnectConfig c" "\<not> manualDisconnect (handleDisconnect r c)"
    "of_nat (reconnectAttempts c) < maxRetries (reconnectConfig c) \<Longrightarrow>
       reconnectAttempts (handleDisconnect r c) = Suc (reconnectAttempts c)
       \<and> lastReconnectDelayMs (handleDisconnect r c) = reconnect_delay (reconnectConfig c) (reconnectAttempts c)
       \<and> reconnectTimer (handleDisconnect r c) \<noteq> None"
    "maxRetries (reconnectConfig c) \<le> of_nat (reconnectAttempts c) \<Longrightarrow>
       reconnectTimer (handleDisconnect r c) = None \<and> (\<exists>x. OnPermanentFailure x \<in> set (out (handleDisconnect r c)))"
  using assms
  by (auto simp: handleDisconnect_def scheduleReconnect_def Let_def set_timer_def intro: reconnect_frame)

lemma failed_retry_step:
  assumes "\<not> manualDisconnect c"
  shows "reconnectConfig (failed_retry c) = reconnectConfig c" "\<not> manualDisconnect (failed_retry c)"
    "of_nat (reconnectAttempts c) < maxRetries (reconnectConfig c) \<Longrightarrow>
       reconnectAttempts (failed_retry c) = Suc (reconnectAttempts c)
       \<and> lastReconnectDelayMs (failed_retry c) = reconnect_delay (reconnectConfig c) (reconnectAttempts c)
       \<and> reconnectTimer (failed_retry c) \<noteq> None"
    "maxRetries (reconnectConfig c) \<le> of_nat (reconnectAttempts c) \<Longrightarrow>
       reconnectTimer (failed_retry c) = None \<and> (\<exists>x. OnPermanentFailure x \<in> set (out (failed_retry c)))"
proof -
  let ?c0 = "case reconnectTimer c of None \<Rightarrow> c | Some t \<Rightarrow> clear_timer t c"
  let ?c1 = "connectWebSocket (?c0\<lparr>reconnectTimer := None\<rparr>)"
  let ?c2 = "(set_socket (dflt (ws ?c1) 0) CLOSED ?c1)\<lparr>isConnecting := False\<rparr>"
  have f: "failed_retry c = handleDisconnect ''closed'' ?c2" by (simp add: failed_retry_def on_close_def Let_def)
  have "reconnectTimer ?c2 = None" "reconnectConfig ?c2 = reconnectConfig c" "reconnectAttempts ?c2 = reconnectAttempts c"
    "\<not> manualDisconnect ?c2"
    using assms by (auto split: option.split)
  then show "reconnectConfig (failed_retry c) = reconnectConfig c" "\<not> manualDisconnect (failed_retry c)"
    "of_nat (reconnectAttempts c) < maxRetries (reconnectConfig c) \<Longrightarrow>
       reconnectAttempts (failed_retry c) = Suc (reconnectAttempts c)
       \<and> lastReconnectDelayMs (failed_retry c) = reconnect_delay (reconnectConfig c) (reconnectAttempts c)
       \<and> reconnectTimer (failed_retry c) \<noteq> None"
    "maxRetries (reconnectConfig c) \<le> of_nat (reconnectAttempts c) \<Longrightarrow>
       reconnectTimer (failed_retry c) = None \<and> (\<exists>x. OnPermanentFailure x \<in> set (out (failed_retry c)))"
    using handleDisconnect_retry [of ?c2 "''closed''"] unfolding f by simp_all
qed

text \<open>C7: reconnection backs off exponentially and gives up. After a lost connection the delays of the
  successive attempts are \<open>min (base * 2\<^sup>n) cap\<close>, and when all attempts that \<open>maxRetries\<close> allows have
  failed, the client reports a permanent failure and schedules nothing more.\<close>

theorem reconnect_backs_off:
  assumes "\<not> manualDisconnect c" and "reconnectTimer c = None" and "reconnectAttempts c = 0"
    and "maxRetries (reconnectConfig c) = of_nat N"
  shows "(\<forall>n < N. reconnectAttempts ((failed_retry ^^ n) (handleDisconnect r c)) = Suc n
        \<and> lastReconnectDelayMs ((failed_retry ^^ n) (handleDisconnect r c))
            = min (baseDelayMs (reconnectConfig c) * 2 ^ n) (maxDelayMs (reconnectConfig c))
        \<and> reconnectTimer ((failed_retry ^^ n) (handleDisconnect r c)) \<noteq> None)
    \<and> reconnectTimer ((failed_retry ^^ N) (handleDisconnect r c)) = None
    \<and> (\<exists>x. OnPermanentFailure x \<in> set (out ((failed_retry ^^ N) (handleDisconnect r c))))"
proof -
  let ?c = "\<lambda>n. (failed_retry ^^ n) (handleDisconnect r c)"
  note hd = handleDisconnect_retry [OF assms(2,1), of r]
  have frame: "\<not> manualDisconnect (?c n) \<and> reconnectConfig (?c n) = reconnectConfig c" for n
    by (induction n) (simp_all add: hd failed_retry_step)
  have step: "reconnectAttempts (?c n) = Suc n
      \<and> lastReconnectDelayMs (?c n) = min (baseDelayMs (reconnectConfig c) * 2 ^ n) (maxDelayMs (reconnectConfig c))
      \<and> reconnectTimer (?c n) \<noteq> None" if "n < N" for n
    using that
  proof (induction n)
    case 0
    then show ?case using hd(3) assms(3,4) by (simp add: reconnect_delay_def)
  next
    case (Suc n)
    have "\<not> manualDisconnect (?c n)" "reconnectConfig (?c n) = reconnectConfig c" using frame [of n] by simp_all
    then show ?case
      using failed_retry_step(3) [of "?c n"] Suc assms(4) by (simp add: reconnect_delay_def)
  qed
  have "reconnectTimer (?c N) = None \<and> (\<exists>x. OnPermanentFailure x \<in> set (out (?c N)))"
  proof (cases N)
    case 0
    then show ?thesis using hd(4) assms(3,4) by simp
  next
    case (Suc n)
    then have "reconnectAttempts (?c n) = N" using step [of n] by simp
    then show ?thesis using failed_retry_step(4) [of "?c n"] frame [of n] assms(4) by (simp add: Suc)
  qed
  with step show ?thesis by blast
qed

theorem reconnect_backs_off_witness:
  "lastReconnectDelayMs ((failed_retry ^^ 4) (handleDisconnect ''closed'' sample_client)) = 16000
   \<and> (\<exists>x. OnPermanentFailure x \<in> set (out ((failed_retry ^^ 5) (handleDisconnect ''closed'' sample_client))))"
proof -
  have c: "\<not> manualDisconnect sample_client" "reconnectTimer sample_client = None" "reconnectAttempts sample_client = 0"
    "reconnectConfig sample_client = DEFAULT_RECONNECT"
    by (simp_all add: sample_client_def new_client_def loadPersistedIds_def normalize_options_def Let_def sample_options_def merge_reconnect_def)
  then show ?thesis
    using reconnect_backs_off [of sample_client 5 "''closed''"] by (auto simp: DEFAULT_RECONNECT_def)
qed

section \<open>Handshake replies\<close>

lemma ack_plain:
  assumes "no_keys c"
  shows "handleHandshakeAck e m c = (ack_finish (persistIds (c\<lparr>threadId := pget m ''thread_id'', sessionId := pget m ''session_id'',
      negotiatedHeartbeatMs := pget m ''heartbeat_interval_ms''\<rparr>)), [])"
proof -
  let ?c1 = "persistIds (c\<lparr>threadId := pget m ''thread_id'', sessionId := pget m ''session_id'',
      negotiatedHeartbeatMs := pget m ''heartbeat_interval_ms''\<rparr>)"
  have "\<not> given (ecdhPrivateKey ?c1)" using assms by (simp add: no_keys_def given_def)
  then show ?thesis by (simp add: handleHandshakeAck_def Let_def split: jsval.split)
qed

lemma storage_frame [simp]:
  "storage (startHeartbeat c) = storage c" "storage (startNonceCleanup c) = storage c" "storage (clearReconnectTimer c) = storage c"
  "storage (emit x c) = storage c"
  by (auto simp: timer_defs startHeartbeat_def scheduleHeartbeatTimeout_def emit_def Let_def split: option.split)

text \<open>C8: a thread survives the process. After an acknowledged handshake the identifiers are in the storage,
  and a new client with the same client id and that storage has them again and opens its first
  connection with \<open>handshake_resume\<close> for that thread.\<close>

theorem thread_resumes_from_storage:
  assumes "no_keys c" and "pget m ''thread_id'' = JStr tid" and "tid \<noteq> []" and "pget m ''session_id'' = JStr sid" and "sid \<noteq> []"
    and "storageKeyThread c = ''ltp_thread_id:'' @ cid" and "storageKeySession c = ''ltp_session_id:'' @ cid"
    and "opt_clientId o' = Some cid" and "cid \<noteq> []"
    and "opt_storage o' = Some (storage (fst (handleHandshakeAck e m c)))"
  shows "threadId (new_client f p o') = JStr tid \<and> sessionId (new_client f p o') = JStr sid
    \<and> snd (on_open e' (new_client f p o')) = [HandshakeKeys True None]
    \<and> pget (JObj (handshake_resume (new_client f p o'))) ''thread_id'' = JStr tid"
proof -
  have st: "storage (fst (handleHandshakeAck e m c))
      = (storage c)(''ltp_thread_id:'' @ cid \<mapsto> JStr tid, ''ltp_session_id:'' @ cid \<mapsto> JStr sid)"
    using assms(2-7) by (simp add: ack_plain [OF assms(1)] ack_finish_def persistIds_def setItem_def Let_def)
  have ids: "threadId (new_client f p o') = JStr tid" "sessionId (new_client f p o') = JStr sid"
    "\<not> opt_enableEcdhKeyExchange (options (new_client f p o'))"
    using assms(8,9) by (simp_all add: new_client_def loadPersistedIds_def normalize_options_def assms(10) st getItem_def
        str_or_def given_def dflt_def Let_def)
  then show ?thesis
    using assms(3) by (simp add: on_open_def sendHandshakeResume_def ensureHandshakeKeys_def handshake_resume_def Let_def)
qed

definition sample_ack :: jsval where
  "sample_ack = JObj [(''type'', JStr ''handshake_ack''), (''thread_id'', JStr ''t''), (''session_id'', JStr ''s''),
     (''heartbeat_interval_ms'', JNum 20000)]"

theorem thread_resumes_from_storage_witness:
  "threadId (new_client ''f'' ''p'' (sample_options\<lparr>opt_storage := Some (storage (fst (handleHandshakeAck (sample_env 5) sample_ack sample_client)))\<rparr>))
    = JStr ''t''"
proof -
  have "no_keys sample_client" "storageKeyThread sample_client = ''ltp_thread_id:'' @ ''c''"
    "storageKeySession sample_client = ''ltp_session_id:'' @ ''c''"
    by (simp_all add: sample_client_def new_client_def loadPersistedIds_def normalize_options_def sample_options_def no_keys_def
        str_or_def given_def dflt_def Let_def)
  then show ?thesis
    using thread_resumes_from_storage [of sample_client sample_ack "''t''" "''s''" "''c''"
        "sample_options\<lparr>opt_storage := Some (storage (fst (handleHandshakeAck (sample_env 5) sample_ack sample_client)))\<rparr>"
        "sample_env 5" "''f''" "''p''"]
    by (simp add: sample_ack_def sample_options_def)
qed

text \<open>A cleanup interval that no other timer field names.\<close>

definition stray :: "nat \<Rightarrow> jsval \<Rightarrow> client \<Rightarrow> bool" where
  "stray t d c \<longleftrightarrow> (t, NonceInterval, d) \<in> set (timers c) \<and> t < next_timer c \<and> heartbeatTimer c \<noteq> Some t
     \<and> heartbeatTimeout c \<noteq> Some t \<and> reconnectTimer c \<noteq> Some t"

lemma stray_kept:
  assumes "stray t d c"
  shows "stray t d (clearReconnectTimer c)" "stray t d (clearHeartbeatTimeout c)" "stray t d (clearHeartbeatTimers c)"
    "stray t d (scheduleHeartbeatTimeout c)" "stray t d (startHeartbeat c)" "stray t d (startNonceCleanup c)"
    "nonceCacheCleanupTimer c \<noteq> Some t \<Longrightarrow> stray t d (stopNonceCleanup c)"
  using assms
  by (auto simp: stray_def timer_defs scheduleHeartbeatTimeout_def startHeartbeat_def Let_def split: option.split)

lemma stray_upd [simp]:
  "stray t d (c\<lparr>isConnected := b, isHandshakeComplete := b', isAttemptingResume := b'', reconnectAttempts := n\<rparr>) = stray t d c"
  "stray t d (c\<lparr>lastSentHash := h, lastReceivedHash := h'\<rparr>) = stray t d c" "stray t d (emit x c) = stray t d c"
  "stray t d (c\<lparr>pendingConnectResolve := b, pendingConnectReject := b', connectPromise := b''\<rparr>) = stray t d c"
  "stray t d (c\<lparr>threadId := v, sessionId := v', negotiatedHeartbeatMs := v''\<rparr>) = stray t d c" "stray t d (persistIds c) = stray t d c"
  "stray t d (c\<lparr>manualDisconnect := b\<rparr>) = stray t d c"
  by (simp_all add: stray_def emit_def persistIds_def Let_def)

lemma stray_ack: "stray t d c \<Longrightarrow> stray t d (ack_finish c)"
  by (simp add: ack_finish_def Let_def stray_kept)

lemma cleanup_timer_frame [simp]:
  "nonceCacheCleanupTimer (clearReconnectTimer c) = nonceCacheCleanupTimer c"
  "nonceCacheCleanupTimer (clearHeartbeatTimers c) = nonceCacheCleanupTimer c"
  by (auto simp: timer_defs split: option.split)

lemma ack_starts_cleanup: "nonceCacheCleanupTimer (ack_finish c) = Some t \<and> t < next_timer (ack_finish c)
    \<and> (t, NonceInterval, JNum 60000) \<in> set (timers (ack_finish c))"
  if "t = next_timer (startHeartbeat (clearReconnectTimer (c\<lparr>isConnected := True, isHandshakeComplete := True,
        isAttemptingResume := False, reconnectAttempts := 0\<rparr>)))"
  using that by (simp add: ack_finish_def startNonceCleanup_def set_timer_def emit_def Let_def)

lemma ack_next_timer: "stray t d c \<Longrightarrow> nonceCacheCleanupTimer (ack_finish c) \<noteq> Some t"
proof -
  let ?c1 = "startHeartbeat (clearReconnectTimer (c\<lparr>isConnected := True, isHandshakeComplete := True,
        isAttemptingResume := False, reconnectAttempts := 0\<rparr>))"
  assume "stray t d c"
  then have "stray t d ?c1" by (simp add: stray_kept)
  then have "t < next_timer ?c1" by (simp add: stray_def)
  then show ?thesis using ack_starts_cleanup [OF refl, of c] by auto
qed

lemma stray_disconnect: "stray t d c \<Longrightarrow> nonceCacheCleanupTimer c \<noteq> Some t \<Longrightarrow> (t, NonceInterval, d) \<in> set (timers (disconnect c))"
proof -
  let ?c1 = "stopNonceCleanup (clearReconnectTimer (clearHeartbeatTimers (c\<lparr>manualDisconnect := True\<rparr>)))"
  assume "stray t d c" "nonceCacheCleanupTimer c \<noteq> Some t"
  then have "stray t d ?c1" by (intro stray_kept) simp_all
  then have "(t, NonceInterval, d) \<in> set (timers ?c1)" by (simp add: stray_def)
  then show ?thesis by (auto simp: disconnect_def Let_def emit_def close_socket_def split: option.split)
qed

text \<open>A second \<open>handshake_ack\<close> on a live connection leaks a timer. The client starts another nonce cleanup
  interval without stopping the first, forgets the first, and even \<open>disconnect\<close> leaves it running.\<close>

theorem second_ack_leaks_timer:
  assumes "no_keys c" and "nonceCacheCleanupTimer c = Some t" and "(t, NonceInterval, d) \<in> set (timers c)" and "t < next_timer c"
    and "heartbeatTimer c \<noteq> Some t" and "heartbeatTimeout c \<noteq> Some t" and "reconnectTimer c \<noteq> Some t"
  shows "nonceCacheCleanupTimer (fst (handleHandshakeAck e m c)) \<noteq> Some t
    \<and> (t, NonceInterval, d) \<in> set (timers (disconnect (fst (handleHandshakeAck e m c))))"
proof -
  have "stray t d c" using assms by (simp add: stray_def)
  then have s: "stray t d (persistIds (c\<lparr>threadId := pget m ''thread_id'', sessionId := pget m ''session_id'',
      negotiatedHeartbeatMs := pget m ''heartbeat_interval_ms''\<rparr>))" by simp
  show ?thesis
    using stray_disconnect [OF stray_ack [OF s] ack_next_timer [OF s]] ack_next_timer [OF s]
    by (simp add: ack_plain [OF assms(1)])
qed

definition sample_acked :: client where
  "sample_acked = sample_client\<lparr>timers := [(0, NonceInterval, JNum 60000)], next_timer := 1, nonceCacheCleanupTimer := Some 0\<rparr>"

theorem second_ack_leaks_timer_witness:
  "(0, NonceInterval, JNum 60000) \<in> set (timers (disconnect (fst (handleHandshakeAck (sample_env 9) sample_ack sample_acked))))"
  using second_ack_leaks_timer [of sample_acked 0 "JNum 60000" "sample_env 9" sample_ack]
  by (simp add: sample_acked_def sample_client_def new_client_def loadPersistedIds_def no_keys_def Let_def)

section \<open>Default meta data\<close>

text \<open>The default affect is applied to a message without options, but lost when options are passed that
  set only the context tag: the override object carries \<open>affect: undefined\<close>, which replaces the default
  and is then deleted.\<close>

theorem default_affect_lost:
  assumes "opt_defaultAffect (options c) = d" and "truthy d" and "ctx \<noteq> JUndef" and "opt_clientId (options c) = Some cid"
  shows "pget (mergeMeta c (buildMetaOverridesFromOptions None)) ''affect'' = d
    \<and> pget (mergeMeta c (buildMetaOverridesFromOptions (Some (JUndef, ctx)))) ''affect'' = JUndef
    \<and> pget (mergeMeta c (buildMetaOverridesFromOptions (Some (JUndef, ctx)))) ''context_tag'' = ctx"
  using assms
  by (auto simp: mergeMeta_def buildMetaOverridesFromOptions_def js_or_def of_str_def spread_def array_index_def is_digit_def Let_def)

theorem default_affect_lost_witness:
  "pget (mergeMeta (sample_client\<lparr>options := sample_options\<lparr>opt_defaultAffect := JBool True\<rparr>\<rparr>)
      (buildMetaOverridesFromOptions (Some (JUndef, JStr ''x'')))) ''affect'' = JUndef"
  using default_affect_lost [of "sample_client\<lparr>options := sample_options\<lparr>opt_defaultAffect := JBool True\<rparr>\<rparr>"
      "JBool True" "JStr ''x''" "''c''"]
  by (simp add: sample_options_def)

end
