(* ===== verification/JS_Library.thy ===== *)
theory JS_Library
  imports Crypto_Correct
begin

text \<open>
  What the command-line tools and the agent pipelines use of JavaScript beyond the client's
  prelude: results whose error is any type, object spread and indexing of arbitrary values,
  \<open>Set\<close> membership, \<open>Array.prototype.sort\<close> with a comparator that may throw, line splitting and
  \<open>JSON.stringify\<close> with indentation.
\<close>

section \<open>Results\<close>

definition bind_err :: "'e + 'a \<Rightarrow> ('a \<Rightarrow> 'e + 'b) \<Rightarrow> 'e + 'b" where
  "bind_err m f = (case m of Inl e \<Rightarrow> Inl e | Inr x \<Rightarrow> f x)"

lemma bind_err_simps [simp]:
  "bind_err (Inl e) f = Inl e"
  "bind_err (Inr x) f = f x"
  by (simp_all add: bind_err_def)

lemma bind_err_Inr_iff: "bind_err m f = Inr y \<longleftrightarrow> (\<exists>x. m = Inr x \<and> f x = Inr y)"
  by (cases m) auto

lemma bind_err_Inl_iff: "bind_err m f = Inl e \<longleftrightarrow> m = Inl e \<or> (\<exists>x. m = Inr x \<and> f x = Inl e)"
  by (cases m) auto

text \<open>\<open>xs.map(f)\<close> for a function that may throw; \<open>i\<close> is the index of the first element.\<close>

fun map_err :: "(nat \<Rightarrow> 'a \<Rightarrow> 'e + 'b) \<Rightarrow> nat \<Rightarrow> 'a list \<Rightarrow> 'e + 'b list" where
  "map_err f i [] = Inr []"
| "map_err f i (x # xs) =
     bind_err (f i x) (\<lambda>y. bind_err (map_err f (Suc i) xs) (\<lambda>ys. Inr (y # ys)))"

lemma map_err_Inr_iff:
  "map_err f i xs = Inr ys \<longleftrightarrow>
     length ys = length xs \<and> (\<forall>j < length xs. f (i + j) (xs ! j) = Inr (ys ! j))"
proof (induction xs arbitrary: i ys)
  case (Cons x xs)
  show ?case
  proof (cases ys)
    case Nil
    then show ?thesis by (auto simp: bind_err_Inr_iff)
  next
    case (Cons y ys')
    have "(\<forall>j < Suc (length xs). f (i + j) ((x # xs) ! j) = Inr ((y # ys') ! j))
        \<longleftrightarrow> f i x = Inr y \<and> (\<forall>j < length xs. f (Suc i + j) (xs ! j) = Inr (ys' ! j))"
      by (auto simp: less_Suc_eq_0_disj)
    then show ?thesis
      using Cons.IH by (auto simp: Cons bind_err_Inr_iff)
  qed
qed auto

lemma map_err_total:
  assumes "\<And>j. j < length xs \<Longrightarrow> f (i + j) (xs ! j) = Inr (g (i + j) (xs ! j))"
  shows "map_err f i xs = Inr (map (\<lambda>j. g (i + j) (xs ! j)) [0..<length xs])"
  using assms by (simp add: map_err_Inr_iff)

text \<open>\<open>v.k\<close> where \<open>null\<close> and \<open>undefined\<close> throw, with the engine's message.\<close>

definition squote :: char where "squote = CHR 0x27"
definition newline :: char where "newline = CHR 0x0A"

definition read_error :: "jsval \<Rightarrow> string \<Rightarrow> string" where
  "read_error v k =
     ''Cannot read properties of '' @ js_str v @ '' (reading '' @ [squote] @ k @ [squote] @ '')''"

section \<open>Objects\<close>

text \<open>
  The own enumerable properties that \<open>{...v}\<close> copies: those of an object, the elements of an
  array and the characters of a string under their indices, nothing for other primitives.
\<close>

fun spread_of :: "jsval \<Rightarrow> (string \<times> jsval) list" where
  "spread_of (JObj kvs) = kvs"
| "spread_of (JArr xs) = map (\<lambda>i. (nat_str i, xs ! i)) [0..<length xs]"
| "spread_of (JStr s) = map (\<lambda>i. (nat_str i, JStr [s ! i])) [0..<length s]"
| "spread_of v = []"

definition obj_spread :: "jsval \<Rightarrow> (string \<times> jsval) list" where
  "obj_spread v = spread [] (spread_of v)"

text \<open>\<open>v || {}\<close> has the properties of \<open>v\<close>.\<close>

lemma pget_js_or [simp]: "pget (js_or v (JObj [])) k = pget v k"
  by (cases v) (auto simp: js_or_def)

text \<open>\<open>v[0]\<close> of a value that is not nullish.\<close>

fun js_first :: "jsval \<Rightarrow> jsval" where
  "js_first (JArr (x # xs)) = x"
| "js_first (JStr (c # cs)) = JStr [c]"
| "js_first (JObj kvs) = pget (JObj kvs) ''0''"
| "js_first v = JUndef"

text \<open>
  \<open>Set.prototype.has\<close> on values read from JSON: two objects are the same only when they are one
  object, and no value is read twice into a set.
\<close>

definition set_has :: "jsval list \<Rightarrow> jsval \<Rightarrow> bool" where
  "set_has seen v = (\<not> is_object v \<and> v \<in> set seen)"

text \<open>\<open>Array.from(new Set(xs))\<close>: the first occurrence of each element stays.\<close>

definition js_nub :: "'a list \<Rightarrow> 'a list" where
  "js_nub xs = foldl (\<lambda>acc x. if x \<in> set acc then acc else acc @ [x]) [] xs"

lemma js_nub_snoc [simp]: "js_nub (xs @ [x]) = (if x \<in> set (js_nub xs) then js_nub xs else js_nub xs @ [x])"
  by (simp add: js_nub_def)

lemma js_nub_Nil [simp]: "js_nub [] = []"
  by (simp add: js_nub_def)

lemma set_js_nub [simp]: "set (js_nub xs) = set xs"
  by (induction xs rule: rev_induct) auto

lemma distinct_js_nub [simp]: "distinct (js_nub xs)"
  by (induction xs rule: rev_induct) auto

lemma js_nub_distinct: "distinct xs \<Longrightarrow> js_nub xs = xs"
  by (induction xs rule: rev_induct) auto

lemma js_nub_eq_Nil [simp]: "js_nub xs = [] \<longleftrightarrow> xs = []"
  by (metis set_js_nub set_empty)

section \<open>Sorting with a comparator\<close>

text \<open>
  \<open>xs.sort(cmp)\<close>. The order in which the engine compares elements is left open by the language;
  the model inserts the elements from left to right, each before the first one it compares below.
  For a consistent comparator every order of comparisons gives this result.
\<close>

fun js_insert :: "('a \<Rightarrow> 'a \<Rightarrow> 'e + int) \<Rightarrow> 'a \<Rightarrow> 'a list \<Rightarrow> 'e + 'a list" where
  "js_insert cmp x [] = Inr [x]"
| "js_insert cmp x (y # ys) =
     bind_err (cmp x y)
       (\<lambda>c. if c < 0 then Inr (x # y # ys) else bind_err (js_insert cmp x ys) (\<lambda>zs. Inr (y # zs)))"

definition js_sort :: "('a \<Rightarrow> 'a \<Rightarrow> 'e + int) \<Rightarrow> 'a list \<Rightarrow> 'e + 'a list" where
  "js_sort cmp xs = foldl (\<lambda>acc x. bind_err acc (js_insert cmp x)) (Inr []) xs"

definition consistent_cmp :: "('a \<Rightarrow> 'a \<Rightarrow> int) \<Rightarrow> bool" where
  "consistent_cmp c \<longleftrightarrow> (\<forall>x y. c x y < 0 \<longleftrightarrow> 0 < c y x) \<and>
     (\<forall>x y z. c x y \<le> 0 \<longrightarrow> c y z \<le> 0 \<longrightarrow> c x z \<le> 0)"

lemma js_sort_Nil [simp]: "js_sort cmp [] = Inr []"
  by (simp add: js_sort_def)

lemma js_sort_snoc [simp]: "js_sort cmp (xs @ [x]) = bind_err (js_sort cmp xs) (js_insert cmp x)"
  by (simp add: js_sort_def)

lemma mset_js_insert: "js_insert cmp x ys = Inr zs \<Longrightarrow> mset zs = add_mset x (mset ys)"
  by (induction ys arbitrary: zs) (auto simp: bind_err_Inr_iff split: if_splits)

lemma mset_js_sort: "js_sort cmp xs = Inr ys \<Longrightarrow> mset ys = mset xs"
  by (induction xs arbitrary: ys rule: rev_induct) (auto simp: bind_err_Inr_iff dest: mset_js_insert)

lemma sorted_js_insert:
  assumes c: "consistent_cmp c" and sorted: "sorted_wrt (\<lambda>a b. c a b \<le> 0) ys"
    and cmp: "\<And>y. y \<in> set ys \<Longrightarrow> cmp x y = Inr (c x y)"
  shows "\<exists>zs. js_insert cmp x ys = Inr zs \<and> sorted_wrt (\<lambda>a b. c a b \<le> 0) zs"
  using sorted cmp
proof (induction ys)
  case (Cons y ys)
  show ?case
  proof (cases "c x y < 0")
    case True
    moreover have "c x z \<le> 0" if "z \<in> set ys" for z
    proof -
      have "c x y \<le> 0" "c y z \<le> 0" using True that Cons.prems(1) by auto
      with c show ?thesis unfolding consistent_cmp_def by blast
    qed
    ultimately show ?thesis using Cons.prems by auto
  next
    case False
    obtain zs where zs: "js_insert cmp x ys = Inr zs" "sorted_wrt (\<lambda>a b. c a b \<le> 0) zs"
      using Cons by auto
    have "c y x \<le> 0" using c False unfolding consistent_cmp_def by (meson not_le)
    moreover have "set zs = insert x (set ys)"
      using mset_js_insert [OF zs(1)] by (metis set_mset_add_mset_insert set_mset_mset)
    ultimately show ?thesis using False zs Cons.prems by auto
  qed
qed simp

lemma sorted_js_sort:
  assumes "consistent_cmp c" and "\<And>x y. x \<in> set xs \<Longrightarrow> y \<in> set xs \<Longrightarrow> cmp x y = Inr (c x y)"
  shows "\<exists>ys. js_sort cmp xs = Inr ys \<and> sorted_wrt (\<lambda>a b. c a b \<le> 0) ys"
  using assms(2)
proof (induction xs rule: rev_induct)
  case (snoc x xs)
  then obtain ys where ys: "js_sort cmp xs = Inr ys" "sorted_wrt (\<lambda>a b. c a b \<le> 0) ys"
    by auto
  have "set ys = set xs" using mset_js_sort [OF ys(1)] by (metis set_mset_mset)
  then show ?case
    using sorted_js_insert [OF assms(1) ys(2), of cmp x] snoc.prems ys(1) by auto
qed simp

section \<open>Lines\<close>

text \<open>\<open>s.split(/\r?\n/)\<close>: split at line feeds, dropping one carriage return before each.\<close>

definition drop_cr :: "string \<Rightarrow> string" where
  "drop_cr l = (if l \<noteq> [] \<and> last l = CHR 0x0D then butlast l else l)"

definition split_lines :: "string \<Rightarrow> string list" where
  "split_lines s = (let ls = split_on newline s in map drop_cr (butlast ls) @ [last ls])"

lemma js_join_butlast:
  "ls \<noteq> [] \<Longrightarrow> split_on c (js_join [c] ls) = concat (map (split_on c) ls)"
proof (induction "[c]" ls rule: js_join.induct)
  case (3 w v ls)
  have "split_on c (w @ [c] @ s) = split_on c w @ split_on c s" for s
    by (induction w) (auto split: list.splits)
  then show ?case using 3 by simp
qed simp_all

section \<open>Indented JSON\<close>

text \<open>
  \<open>JSON.stringify(v, null, 2)\<close>; the argument after the value is the current indentation.
\<close>

definition block_text :: "string \<Rightarrow> string \<Rightarrow> string \<Rightarrow> string list \<Rightarrow> string" where
  "block_text opn cls ind parts =
     (if parts = [] then opn @ cls
      else opn @ [newline] @ ind @ ''  '' @ js_join ('','' @ [newline] @ ind @ ''  '') parts
           @ [newline] @ ind @ cls)"

fun pretty_members :: "(string \<times> string option) list \<Rightarrow> string list" where
  "pretty_members [] = []"
| "pretty_members ((k, None) # ms) = pretty_members ms"
| "pretty_members ((k, Some t) # ms) = (json_quote k @ '': '' @ t) # pretty_members ms"

primrec json_pretty :: "jsval \<Rightarrow> string \<Rightarrow> string option" where
  "json_pretty JUndef = (\<lambda>ind. None)"
| "json_pretty JNull = (\<lambda>ind. Some ''null'')"
| "json_pretty (JBool b) = (\<lambda>ind. Some (if b then ''true'' else ''false''))"
| "json_pretty (JNum n) = (\<lambda>ind. Some (num_str n))"
| "json_pretty (JStr s) = (\<lambda>ind. Some (json_quote s))"
| "json_pretty (JArr xs) =
     (\<lambda>ind. Some (block_text ''['' '']'' ind (map (\<lambda>f. elem_text (f (ind @ ''  ''))) (map json_pretty xs))))"
| "json_pretty (JObj kvs) =
     (\<lambda>ind. Some (block_text ''{'' ''}'' ind
        (pretty_members (map (\<lambda>(k, f). (k, f (ind @ ''  ''))) (map (map_prod id json_pretty) kvs)))))"

text \<open>\<open>JSON.parse(JSON.stringify(v))\<close>: undefined properties go, undefined elements become \<open>null\<close>.\<close>

fun keep_defined :: "(string \<times> jsval option) list \<Rightarrow> (string \<times> jsval) list" where
  "keep_defined [] = []"
| "keep_defined ((k, None) # ms) = keep_defined ms"
| "keep_defined ((k, Some v) # ms) = (k, v) # keep_defined ms"

primrec json_copy :: "jsval \<Rightarrow> jsval option" where
  "json_copy JUndef = None"
| "json_copy JNull = Some JNull"
| "json_copy (JBool b) = Some (JBool b)"
| "json_copy (JNum n) = Some (JNum n)"
| "json_copy (JStr s) = Some (JStr s)"
| "json_copy (JArr xs) = Some (JArr (map (case_option JNull id) (map json_copy xs)))"
| "json_copy (JObj kvs) = Some (object_of (keep_defined (map (map_prod id json_copy) kvs)))"

section \<open>The round trip with indentation\<close>

text \<open>
  \<open>JSON.stringify(v, null, 2)\<close>, in which reports, badges and fixtures are written: the parser reads
  the indented text back. White space before a value, a member or a closing bracket is skipped; the
  two lists are read by induction as in \<open>JSON\<close>, with the indentation as parameter.
\<close>

section \<open>White space\<close>

definition white :: "string \<Rightarrow> bool" where
  "white w = list_all json_ws w"

lemma white_simps [simp]:
  "white []" "white (c # w) = (json_ws c \<and> white w)" "white (v @ w) = (white v \<and> white w)"
  by (simp_all add: white_def)

lemma json_ws_chars [simp]: "json_ws CHR 0x0A" "json_ws CHR '' ''"
  by (simp_all add: json_ws_def)

lemma skip_white: "white w \<Longrightarrow> skip_ws (w @ s) = skip_ws s"
  by (induction w) (auto simp: skip_ws_def)

lemma parse_value_white: "white w \<Longrightarrow> parse_value f (w @ s) = parse_value f s"
  by (cases f) (simp_all add: skip_white)

lemma parse_elems_white: "white w \<Longrightarrow> parse_elems f (w @ s) = parse_elems f s"
  by (cases f) (simp_all add: parse_value_white)

lemma parse_members_white: "white w \<Longrightarrow> parse_members f (w @ s) = parse_members f s"
  by (cases f) (simp_all add: skip_white)

text \<open>The white space before a closing bracket: empty, or a new line with indentation.\<close>

definition margin :: "string \<Rightarrow> bool" where
  "margin w = (white w \<and> (w = [] \<or> hd w = CHR 0x0A))"

lemma margin_delim: "margin w \<Longrightarrow> delim r \<Longrightarrow> delim (w @ r)"
  by (cases w) (auto simp: margin_def)

section \<open>Lists\<close>

text \<open>\<open>reads_as v t\<close>: given more fuel than \<open>t\<close> is long, the parser reads \<open>t\<close> as \<open>v\<close>.\<close>

definition reads_as :: "jsval \<Rightarrow> string \<Rightarrow> bool" where
  "reads_as v t = (\<forall>f r. delim r \<longrightarrow> length t < f \<longrightarrow> parse_value f (t @ r) = Some (v, r))"

lemma reads_asD: "reads_as v t \<Longrightarrow> delim r \<Longrightarrow> length t < f \<Longrightarrow> parse_value f (t @ r) = Some (v, r)"
  by (simp add: reads_as_def)

lemma reads_as_nonempty: "reads_as v t \<Longrightarrow> t \<noteq> []"
  using reads_asD [of v t "[]" "Suc 0"] by (auto simp: skip_ws_def)

lemma reads_as_text: "json_ok v \<Longrightarrow> reads_as v (json_text v)"
  using reads_json_ok [of v] by (simp add: reads_as_def reads_def)

lemma parse_elems_spaced:
  assumes "xs \<noteq> []" and "\<forall>x \<in> set xs. reads_as x (t x)" and "white w" and "margin e"
    and "Suc (length (js_join ('','' @ w) (map t xs))) < f"
  shows "parse_elems f (js_join ('','' @ w) (map t xs) @ e @ CHR '']'' # r) = Some (xs, r)"
  using assms
proof (induction xs arbitrary: f rule: list_nonempty_induct)
  case (single x)
  then obtain g where f: "f = Suc g" "length (t x) < g" by (cases f) auto
  have "parse_value g (t x @ e @ CHR '']'' # r) = Some (x, e @ CHR '']'' # r)"
    using single f by (intro reads_asD margin_delim) auto
  then show ?case using single f by (simp add: skip_white margin_def)
next
  case (cons x xs)
  let ?rest = "js_join ('','' @ w) (map t xs) @ e @ CHR '']'' # r"
  from cons.hyps have join: "js_join ('','' @ w) (map t (x # xs)) = t x @ CHR '','' # w @ js_join ('','' @ w) (map t xs)" by simp
  with cons.prems obtain g where f: "f = Suc g" and g: "length (t x) < g" "Suc (length (js_join ('','' @ w) (map t xs))) < g"
    using reads_as_nonempty [of x "t x"] by (cases f) auto
  have "parse_elems g (w @ ?rest) = Some (xs, r)"
    using cons g(2) by (simp add: parse_elems_white)
  moreover have "parse_value g (t x @ CHR '','' # w @ ?rest) = Some (x, CHR '','' # w @ ?rest)"
    using cons.prems g(1) by (intro reads_asD) auto
  ultimately show ?case by (simp only: f join) simp
qed

definition spaced_member :: "string \<times> jsval \<Rightarrow> string \<Rightarrow> string" where
  "spaced_member p t = json_quote (fst p) @ '': '' @ t"

lemma parse_spaced_member:
  assumes "reads_as v t" and "length t < f" and "delim r"
  shows "parse_members (Suc f) (spaced_member (k, v) t @ r) =
    (case skip_ws r of [] \<Rightarrow> None
     | c # r2 \<Rightarrow> if c = CHR '','' then map_option (apfst (Cons (k, v))) (parse_members f r2)
        else if c = CHR ''}'' then Some ([(k, v)], r2) else None)"
proof -
  have "parse_value f (CHR '' '' # t @ r) = Some (v, r)"
    using reads_asD [OF assms(1,3,2)] parse_value_white [of "'' ''" f "t @ r"] by simp
  then show ?thesis by (simp add: spaced_member_def json_quote_def parse_string_quoted starts_with_def)
qed

lemma length_spaced_member: "length t + 4 \<le> length (spaced_member p t)"
  by (simp add: spaced_member_def json_quote_def)

lemma parse_members_spaced:
  assumes "kvs \<noteq> []" and "\<forall>p \<in> set kvs. reads_as (snd p) (t p)" and "white w" and "margin e"
    and "Suc (length (js_join ('','' @ w) (map (\<lambda>p. spaced_member p (t p)) kvs))) < f"
  shows "parse_members f (js_join ('','' @ w) (map (\<lambda>p. spaced_member p (t p)) kvs) @ e @ CHR ''}'' # r) = Some (kvs, r)"
  using assms
proof (induction kvs arbitrary: f rule: list_nonempty_induct)
  case (single p)
  obtain k v where p: "p = (k, v)" by (cases p)
  from single p obtain g where f: "f = Suc g" "length (t p) < g"
    using length_spaced_member [of "t p" p] by (cases f) auto
  then show ?case
    using single parse_spaced_member [of v "t p" g "e @ CHR ''}'' # r" k]
    by (simp add: p margin_delim skip_white margin_def)
next
  case (cons p kvs)
  obtain k v where p: "p = (k, v)" by (cases p)
  let ?rest = "js_join ('','' @ w) (map (\<lambda>p. spaced_member p (t p)) kvs) @ e @ CHR ''}'' # r"
  from cons.hyps have join: "js_join ('','' @ w) (map (\<lambda>p. spaced_member p (t p)) (p # kvs)) @ e @ CHR ''}'' # r
      = spaced_member (k, v) (t p) @ CHR '','' # w @ ?rest" by (simp add: p)
  from cons.prems cons.hyps obtain g where f: "f = Suc g" and g: "length (t p) < g"
      "Suc (length (js_join ('','' @ w) (map (\<lambda>p. spaced_member p (t p)) kvs))) < g"
    using length_spaced_member [of "t p" p] by (cases f) auto
  have "parse_members g (w @ ?rest) = Some (kvs, r)"
    using cons g(2) by (simp add: parse_members_white)
  then show ?case
    using cons.prems(1) parse_spaced_member [of v "t p" g "CHR '','' # w @ ?rest" k] g(1)
    unfolding f join by (simp add: p)
qed

section \<open>The round trip\<close>

definition indented :: "string \<Rightarrow> jsval \<Rightarrow> string" where
  "indented ind v = elem_text (json_pretty v ind)"

lemma json_ok_pretty: "json_ok v \<Longrightarrow> json_pretty v ind = Some (indented ind v)"
  by (cases v) (auto simp: indented_def elem_text_def)

lemma pretty_members_ok:
  "\<forall>p \<in> set kvs. json_ok (snd p) \<Longrightarrow>
    pretty_members (map (\<lambda>(k, f). (k, f ind)) (map (map_prod id json_pretty) kvs)) =
      map (\<lambda>p. spaced_member p (indented ind (snd p))) kvs"
  by (induction kvs) (auto simp: json_ok_pretty spaced_member_def)

lemma indented_atoms [simp]:
  "indented ind JNull = json_text JNull" "indented ind (JBool b) = json_text (JBool b)"
  "indented ind (JNum n) = json_text (JNum n)" "indented ind (JStr s) = json_text (JStr s)"
  by (simp_all add: indented_def json_text_def)

lemma indented_list: "indented ind (JArr xs) = block_text ''['' '']'' ind (map (indented (ind @ ''  '')) xs)"
  by (simp add: indented_def [abs_def] elem_text_def [abs_def] comp_def)

lemma indented_object:
  "json_ok (JObj kvs) \<Longrightarrow>
    indented ind (JObj kvs) = block_text ''{'' ''}'' ind (map (\<lambda>p. spaced_member p (indented (ind @ ''  '') (snd p))) kvs)"
  using pretty_members_ok [of kvs "ind @ ''  ''"] json_ok_JObjD(1) [of kvs] by (simp add: indented_def elem_text_def)

text \<open>An indented block: white space, the joined parts, the margin and the closing bracket.\<close>

lemma block_text_parts:
  "parts \<noteq> [] \<Longrightarrow> block_text [a] [b] ind parts =
    a # (CHR 0x0A # ind @ ''  '') @ js_join ('','' @ CHR 0x0A # ind @ ''  '') parts @ (CHR 0x0A # ind) @ [b]"
  by (simp add: block_text_def newline_def)

lemma no_bracket:
  assumes "white w" and "text_start t \<and> hd t \<noteq> b" and "parts = t # ts"
  shows "\<not> starts_with [b] (skip_ws (w @ js_join sep parts @ r))"
proof -
  have "\<exists>u. js_join sep parts = t @ u" using assms(3) by (cases ts) auto
  then obtain u where "js_join sep parts @ r = t @ u @ r" by auto
  then show ?thesis using assms by (cases t) (auto simp: skip_white starts_with_def text_start_def skip_ws_id)
qed

lemma text_start_indented: "json_ok v \<Longrightarrow> text_start (indented ind v)"
  using text_start_json_text [of v]
  by (cases v) (auto simp: indented_list indented_object block_text_def text_start_def json_ws_def simp del: json_ok.simps(6,7))

lemma reads_indented: "json_ok v \<Longrightarrow> white ind \<Longrightarrow> reads_as v (indented ind v)"
proof (induction v arbitrary: ind)
  case (JArr xs)
  let ?in = "indented (ind @ ''  '')"
  have ok: "\<forall>x \<in> set xs. json_ok x" and rd: "\<forall>x \<in> set xs. reads_as x (?in x)" using JArr by (auto simp: list_all_iff)
  show ?case
  proof (cases xs)
    case Nil
    then show ?thesis
      by (auto simp: indented_list block_text_def reads_as_def quote_ch_def starts_with_def dest!: less_imp_Suc_add)
  next
    case (Cons x ys)
    let ?w = "CHR 0x0A # ind @ ''  ''"
    let ?body = "js_join ('','' @ ?w) (map ?in xs)"
    have w: "white ?w" "margin (CHR 0x0A # ind)" using JArr.prems by (simp_all add: margin_def)
    have t: "indented ind (JArr xs) = CHR ''['' # ?w @ ?body @ (CHR 0x0A # ind) @ '']''"
      using Cons unfolding indented_list by (subst block_text_parts) auto
    have "parse_elems f (?w @ ?body @ (CHR 0x0A # ind) @ CHR '']'' # r) = Some (xs, r)"
      if "length (indented ind (JArr xs)) < Suc f" for f r
    proof -
      have "Suc (length ?body) < f" using that unfolding t by simp
      then show ?thesis unfolding parse_elems_white [OF w(1)] using Cons by (intro parse_elems_spaced rd w) auto
    qed
    moreover have "\<not> starts_with '']'' (skip_ws (?w @ ?body @ r))" for r
      using ok Cons text_start_indented [of x "ind @ ''  ''"] by (intro no_bracket [OF w(1), of "?in x"]) (auto simp: text_start_def)
    ultimately show ?thesis
      unfolding reads_as_def by (auto simp: t quote_ch_def simp del: parse_elems.simps dest!: less_imp_Suc_add)
  qed
next
  case (JObj kvs)
  let ?in = "\<lambda>p. indented (ind @ ''  '') (snd p)"
  note d = json_ok_JObjD [OF JObj.prems(1)]
  have rd: "\<forall>p \<in> set kvs. reads_as (snd p) (?in p)" using d(1) JObj by (auto intro!: snds.intros simp del: json_ok.simps)
  show ?case
  proof (cases kvs)
    case Nil
    then show ?thesis
      by (auto simp: indented_def elem_text_def block_text_def reads_as_def quote_ch_def starts_with_def dest!: less_imp_Suc_add)
  next
    case (Cons p ps)
    let ?w = "CHR 0x0A # ind @ ''  ''"
    let ?body = "js_join ('','' @ ?w) (map (\<lambda>p. spaced_member p (?in p)) kvs)"
    have w: "white ?w" "margin (CHR 0x0A # ind)" using JObj.prems by (simp_all add: margin_def)
    have t: "indented ind (JObj kvs) = CHR ''{'' # ?w @ ?body @ (CHR 0x0A # ind) @ ''}''"
      using Cons unfolding indented_object [OF JObj.prems(1)] by (subst block_text_parts) auto
    have "parse_members f (?w @ ?body @ (CHR 0x0A # ind) @ CHR ''}'' # r) = Some (kvs, r)"
      if "length (indented ind (JObj kvs)) < Suc f" for f r
    proof -
      have "Suc (length ?body) < f" using that unfolding t by simp
      then show ?thesis unfolding parse_members_white [OF w(1)] using Cons by (intro parse_members_spaced rd w) auto
    qed
    moreover have "\<not> starts_with ''}'' (skip_ws (?w @ ?body @ r))" for r
      using Cons by (intro no_bracket [OF w(1), of "spaced_member p (?in p)"])
        (auto simp: text_start_def spaced_member_def json_quote_def quote_ch_def json_ws_def)
    moreover have "object_of kvs = JObj kvs" using d(2) by (simp add: object_of_def obj_ordered_def)
    ultimately show ?thesis
      unfolding reads_as_def by (auto simp: t quote_ch_def simp del: parse_members.simps dest!: less_imp_Suc_add)
  qed
qed (simp_all add: reads_as_text del: json_text_simps)

lemma json_pretty_roundtrip: "json_ok v \<Longrightarrow> json_parse (indented [] v) = Some v"
  using reads_asD [OF reads_indented, of v "[]" "[]" "Suc (2 * length (indented [] v))"] by (simp add: json_parse_def)

end
