(* ===== verification/Hash_Chain.thy ===== *)
theory Hash_Chain
  imports Main
begin

text \<open>
  The contract of a hash-chained log. An entry carries the hash of its predecessor (\<open>prev\<close>), a body
  and its own hash (\<open>stored\<close>), which has to be \<open>digest\<close> of the other two. \<open>verify\<close> is a checker
  that accepts exactly the logs in which every entry is sealed and linked to the one before.
  What such a checker can promise is proved here once: it accepts every contiguous part of a log
  it accepts, a change anywhere changes the root hash or exhibits a clash of the digest, and
  only a fixed first link excludes logs with a missing beginning.
\<close>

locale hash_chain =
  fixes prev :: "'e \<Rightarrow> 'h" and stored :: "'e \<Rightarrow> 'h" and body :: "'e \<Rightarrow> 'b"
    and digest :: "'h \<Rightarrow> 'b \<Rightarrow> 'h" and verify :: "'e list \<Rightarrow> bool"
  assumes verify_Nil: "verify []"
    and verify_single: "verify [e] \<longleftrightarrow> stored e = digest (prev e) (body e)"
    and verify_Cons: "verify (e # n # es) \<longleftrightarrow>
      stored e = digest (prev e) (body e) \<and> prev n = stored e \<and> verify (n # es)"
begin

lemma verify_tail: "verify (e # es) \<Longrightarrow> verify es"
  by (cases es) (auto simp: verify_Nil verify_Cons)

lemma verify_sealed: "verify es \<Longrightarrow> e \<in> set es \<Longrightarrow> stored e = digest (prev e) (body e)"
proof (induction es)
  case (Cons a es)
  then show ?case
    using verify_tail by (cases es) (auto simp: verify_single verify_Cons)
qed simp

lemma verify_append:
  "es \<noteq> [] \<Longrightarrow> fs \<noteq> [] \<Longrightarrow>
    verify (es @ fs) \<longleftrightarrow> verify es \<and> verify fs \<and> prev (hd fs) = stored (last es)"
proof (induction es)
  case (Cons e es)
  then show ?case
    by (cases es; cases fs) (auto simp: verify_single verify_Cons)
qed simp

text \<open>Every contiguous part of an accepted log is accepted, whatever its first link.\<close>

lemma verify_part: "verify (es @ fs @ gs) \<Longrightarrow> verify fs"
  by (metis append_is_Nil_conv self_append_conv self_append_conv2 verify_Nil verify_append)

lemma verify_nth:
  "verify es \<longleftrightarrow>
     (\<forall>i < length es. stored (es ! i) = digest (prev (es ! i)) (body (es ! i))) \<and>
     (\<forall>i. Suc i < length es \<longrightarrow> prev (es ! Suc i) = stored (es ! i))"
proof (induction es)
  case (Cons e es)
  show ?case
  proof (cases es)
    case Nil
    then show ?thesis by (simp add: verify_single)
  next
    case (Cons n ns)
    have links: "(\<forall>i. Suc i < length (e # es) \<longrightarrow> prev ((e # es) ! Suc i) = stored ((e # es) ! i)) \<longleftrightarrow>
        prev n = stored e \<and> (\<forall>i. Suc i < length es \<longrightarrow> prev (es ! Suc i) = stored (es ! i))"
      using Cons by (auto simp: nth_Cons' less_Suc_eq_0_disj)
    have all: "(\<forall>i < length (e # es). P ((e # es) ! i)) \<longleftrightarrow> P e \<and> (\<forall>i < length es. P (es ! i))" for P
      by (auto simp: less_Suc_eq_0_disj)
    have "verify (e # es) \<longleftrightarrow> stored e = digest (prev e) (body e) \<and> prev n = stored e \<and> verify es"
      using Cons by (simp add: verify_Cons)
    then show ?thesis
      by (simp only: links all [of "\<lambda>x. stored x = digest (prev x) (body x)"] Cons.IH) blast
  qed
qed (simp add: verify_Nil)

text \<open>The links and bodies of the entries: what the root hash commits to.\<close>

definition content :: "'e list \<Rightarrow> ('h \<times> 'b) list" where
  "content es = map (\<lambda>e. (prev e, body e)) es"

text \<open>An entry of each log, with different contents and one digest.\<close>

definition clash :: "'e list \<Rightarrow> 'e list \<Rightarrow> bool" where
  "clash es fs \<longleftrightarrow> (\<exists>e \<in> set es. \<exists>f \<in> set fs. (prev e, body e) \<noteq> (prev f, body f) \<and>
     digest (prev e) (body e) = digest (prev f) (body f))"

lemma clash_mono: "clash es fs \<Longrightarrow> set es \<subseteq> set es' \<Longrightarrow> set fs \<subseteq> set fs' \<Longrightarrow> clash es' fs'"
  unfolding clash_def by blast

lemma last_content:
  assumes "verify (es @ [e])" and "verify (fs @ [f])" and "stored e = stored f"
  shows "(prev e, body e) = (prev f, body f) \<or> clash (es @ [e]) (fs @ [f])"
  using verify_sealed [OF assms(1), of e] verify_sealed [OF assms(2), of f] assms(3)
  unfolding clash_def by fastforce

lemma same_root:
  assumes "verify es" and "verify fs" and "length es = length fs"
    and "es \<noteq> [] \<Longrightarrow> stored (last es) = stored (last fs)"
  shows "content es = content fs \<or> clash es fs"
  using assms
proof (induction es arbitrary: fs rule: rev_induct)
  case (snoc e es)
  obtain f fs' where fs: "fs = fs' @ [f]" "length es = length fs'"
    using snoc.prems(3) by (cases fs rule: rev_exhaust) auto
  have last: "(prev e, body e) = (prev f, body f) \<or> clash (es @ [e]) fs"
    using last_content [of es e fs' f] snoc.prems fs by simp
  have parts: "verify es" "verify fs'"
    using snoc.prems(1,2) fs verify_part [of "[]" es "[e]"] verify_part [of "[]" fs' "[f]"] by simp_all
  have "stored (last es) = stored (last fs')" if "es \<noteq> []" "prev e = prev f"
  proof -
    have "fs' \<noteq> []" using that fs by auto
    then show ?thesis
      using that snoc.prems(1,2) fs verify_append [of es "[e]"] verify_append [of fs' "[f]"] by simp
  qed
  with snoc.IH [OF parts fs(2)] last show ?case
    by (auto simp: content_def fs intro: clash_mono [of es fs'])
qed (simp add: content_def)

end

text \<open>A checker that also fixes the first link.\<close>

locale anchored_chain = hash_chain +
  fixes genesis :: 'b and anchored :: "'a list \<Rightarrow> bool"
  assumes anchored_iff: "anchored es \<longleftrightarrow> verify es \<and> (es \<noteq> [] \<longrightarrow> prev (hd es) = genesis)"
begin

lemma anchored_prefix: "anchored (es @ fs) \<Longrightarrow> anchored es"
  using verify_part [of "[]" es fs] by (cases es) (auto simp: anchored_iff verify_Nil)

text \<open>The root hash of a log, the genesis value for the empty one.\<close>

definition root :: "'a list \<Rightarrow> 'b" where
  "root es = (if es = [] then genesis else stored (last es))"

lemma root_determines_log:
  assumes "anchored es" and "anchored fs" and "root es = root fs"
  shows "content es = content fs \<or> clash es fs \<or> (\<exists>e \<in> set es \<union> set fs. stored e = genesis)"
  using assms
proof (induction es arbitrary: fs rule: rev_induct)
  case Nil
  then show ?case
    by (cases fs rule: rev_exhaust) (auto simp: root_def content_def)
next
  case (snoc e es)
  have link: "prev x = root xs" if "anchored (xs @ [x])" for x xs
    using that verify_append [of xs "[x]"] by (cases "xs = []") (auto simp: anchored_iff root_def)
  show ?case
  proof (cases fs rule: rev_exhaust)
    case Nil
    then show ?thesis using snoc.prems(3) by (auto simp: root_def)
  next
    case fs: (snoc fs' f)
    have "(prev e, body e) = (prev f, body f) \<or> clash (es @ [e]) fs"
      using last_content [of es e fs' f] snoc.prems fs by (simp add: anchored_iff root_def)
    then show ?thesis
    proof
      assume eq: "(prev e, body e) = (prev f, body f)"
      then have "root es = root fs'"
        using link [of es e] link [of fs' f] snoc.prems fs by simp
      then have "content es = content fs' \<or> clash es fs' \<or> (\<exists>e \<in> set es \<union> set fs'. stored e = genesis)"
        using snoc.IH snoc.prems fs anchored_prefix [of es "[e]"] anchored_prefix [of fs' "[f]"] by blast
      then show ?thesis
        using eq fs by (auto simp: content_def intro: clash_mono [of es fs'])
    qed simp
  qed
qed

end

end
