(* ===== verification/Inspect_Trace.thy ===== *)
theory Inspect_Trace
  imports JS_Library Hash_Chain
begin

text \<open>
  The trace inspector \<open>tools/ltp-inspect/inspect.ts\<close>, first part: the environment it runs in,
  loading of frame logs (\<open>loadFrames\<close>), and the verification of the hash chain of an audit log
  (\<open>verifyTraceIntegrity\<close>), which interprets the contract of \<open>Hash_Chain\<close>.

  Everything the tool asks of Node (files, standard input, path functions, the clock, SHA-256, the
  message of a JSON syntax error, \<open>localeCompare\<close>) is a field of \<open>inspect_env\<close>. A thrown
  \<open>CliError\<close> and any other exception are the two constructors of \<open>inspect_error\<close>. Strings have no
  code units above 255, so a byte order mark never occurs; the arrow and the dash of the
  help texts are written in ASCII.
\<close>

section \<open>Environment and errors\<close>

datatype inspect_error = CliError string nat | RuntimeError string

type_synonym 'a inspected = "inspect_error + 'a"

record inspect_env =
  env_stdin :: "string + string"           \<comment> \<open>\<open>fs.readFileSync(0)\<close> or the override; \<open>Inl\<close> is an exception\<close>
  env_exists :: "string \<Rightarrow> bool"            \<comment> \<open>\<open>fs.existsSync\<close>\<close>
  env_read :: "string \<Rightarrow> string + string"   \<comment> \<open>\<open>fs.readFileSync\<close>\<close>
  env_write_error :: "string \<Rightarrow> string option"  \<comment> \<open>the exception of \<open>fs.writeFileSync\<close>, if any\<close>
  env_resolve :: "string \<Rightarrow> string"         \<comment> \<open>\<open>path.resolve\<close>\<close>
  env_relative :: "string \<Rightarrow> string"        \<comment> \<open>\<open>path.relative(process.cwd(), p)\<close>\<close>
  env_sep :: char                           \<comment> \<open>\<open>path.sep\<close>\<close>
  env_stem :: "string \<Rightarrow> string"            \<comment> \<open>\<open>path.basename(p, path.extname(p))\<close>\<close>
  env_in_cwd :: "string \<Rightarrow> string"          \<comment> \<open>\<open>path.join(process.cwd(), p)\<close>\<close>
  env_sha256 :: "byte list \<Rightarrow> byte list"
  env_parse_error :: "string \<Rightarrow> string"     \<comment> \<open>the message of \<open>JSON.parse\<close> on a malformed text\<close>
  env_compare :: "string \<Rightarrow> string \<Rightarrow> int"  \<comment> \<open>\<open>localeCompare\<close>\<close>
  env_frozen_time :: "string option"        \<comment> \<open>\<open>LTP_INSPECT_FROZEN_TIME\<close>\<close>
  env_freeze_clock :: "string option"       \<comment> \<open>\<open>LTP_INSPECT_FREEZE_CLOCK\<close>\<close>
  env_iso_date :: "string \<Rightarrow> string option" \<comment> \<open>\<open>new Date(s).toISOString()\<close>, \<open>None\<close> for an invalid date\<close>
  env_now :: string                         \<comment> \<open>\<open>new Date().toISOString()\<close>\<close>
  env_build :: "string option"              \<comment> \<open>\<open>LTP_BUILD\<close>\<close>
  env_tty :: bool                           \<comment> \<open>\<open>process.stdout.isTTY\<close>\<close>

definition of_string_result :: "string + 'a \<Rightarrow> 'a inspected" where
  "of_string_result m = (case m of Inl e \<Rightarrow> Inl (RuntimeError e) | Inr x \<Rightarrow> Inr x)"

text \<open>\<open>v.k\<close>, which throws when \<open>v\<close> is nullish.\<close>

definition read_prop :: "jsval \<Rightarrow> string \<Rightarrow> jsval inspected" where
  "read_prop v k = (if nullish v then Inl (RuntimeError (read_error v k)) else Inr (pget v k))"

definition DETERMINISTIC_TIMESTAMP :: string where
  "DETERMINISTIC_TIMESTAMP = ''1970-01-01T00:00:00.000Z''"

definition JSONL_HINT :: string where
  "JSONL_HINT =
     ''hint: Convert JSON array -> JSONL:'' @ [newline] @
     ''  jq -c '' @ [squote] @ ''.[]'' @ [squote] @ '' input.json > output.jsonl'' @ [newline] @
     ''  # Windows PowerShell:'' @ [newline] @
     ''  (Get-Content input.json -Raw | ConvertFrom-Json) |'' @ [newline] @
     ''    % { $_ | ConvertTo-Json -Compress -Depth 100 } |'' @ [newline] @
     ''    Set-Content output.jsonl''"

definition stableGeneratedAt :: "inspect_env \<Rightarrow> string" where
  "stableGeneratedAt env =
     (let frozen = (case env_frozen_time env of
                      Some t \<Rightarrow> if t \<noteq> [] then env_iso_date env t else None
                    | None \<Rightarrow> None);
          freezeClock = (env_freeze_clock env = Some ''1''
             \<or> map_option to_lower (env_freeze_clock env) = Some ''true'')
      in case frozen of
           Some stamp \<Rightarrow> stamp
         | None \<Rightarrow> if freezeClock then DETERMINISTIC_TIMESTAMP else env_now env)"

definition normalizeInputPathForOutput :: "inspect_env \<Rightarrow> string \<Rightarrow> string" where
  "normalizeInputPathForOutput env resolved =
     (let relative = env_relative env resolved;
          candidate = (if relative \<noteq> [] \<and> \<not> starts_with ''..'' relative then relative else resolved)
      in js_join ''/'' (split_on (env_sep env) candidate))"

section \<open>Loading a frame log\<close>

datatype input_source = Stdin | File
datatype trace_type = Raw | AuditLog

record loaded =
  frames :: "jsval list"
  entries :: "jsval list"
  inputPath :: "string option"
  inputSource :: input_source
  trace_type :: trace_type
  hash_root :: jsval

text \<open>\<open>trimmed.match(/}\s*\{/)\<close>.\<close>

fun adjacent_objects :: "string \<Rightarrow> bool" where
  "adjacent_objects [] = False"
| "adjacent_objects (c # cs) =
     (c = CHR ''}'' \<and> starts_with ''{'' (dropWhile is_ws cs) \<or> adjacent_objects cs)"

definition parse_line :: "inspect_env \<Rightarrow> nat \<times> string \<Rightarrow> jsval inspected" where
  "parse_line env l =
     (let trimmed = trim (snd l)
      in case json_parse trimmed of
           Some v \<Rightarrow> Inr v
         | None \<Rightarrow>
             Inl (CliError
               (''Invalid JSONL line '' @ nat_str (fst l + 1) @ '': '' @
                (if adjacent_objects trimmed then ''Only one JSON object per line allowed''
                 else env_parse_error env trimmed) @
                [newline] @ JSONL_HINT) 2))"

definition parse_lines :: "inspect_env \<Rightarrow> string \<Rightarrow> jsval list inspected" where
  "parse_lines env raw =
     map_err (\<lambda>_. parse_line env) 0
       (filter (\<lambda>l. trim (snd l) \<noteq> []) (List.enumerate 0 (split_lines raw)))"

text \<open>\<open>'prev_hash' in v && 'frame' in v\<close>; \<open>in\<close> throws on a primitive.\<close>

definition is_entry :: "jsval \<Rightarrow> bool inspected" where
  "is_entry v =
     (if is_object v then Inr (has_prop v ''prev_hash'' \<and> has_prop v ''frame'')
      else Inl (RuntimeError (''Cannot use '' @ [squote] @ ''in'' @ [squote] @ '' operator to search for ''
        @ [squote] @ ''prev_hash'' @ [squote] @ '' in '' @ js_str v)))"

definition read_input :: "inspect_env \<Rightarrow> string \<Rightarrow> string inspected" where
  "read_input env filePath =
     (let isStdin = (filePath = ''-''); resolved = (if isStdin then ''stdin'' else env_resolve env filePath)
      in if \<not> isStdin \<and> \<not> env_exists env resolved
         then Inl (CliError (''Frame log not found: '' @ resolved) 2)
         else bind_err (of_string_result (if isStdin then env_stdin env else env_read env resolved))
                (\<lambda>raw. if trim raw = [] then Inl (CliError (''Frame log is empty: '' @ resolved) 2)
                       else if starts_with ''['' (trim_start raw)
                       then Inl (CliError (''Legacy JSON array format is not supported. ''
                              @ ''Use JSONL (newline-delimited).'' @ [newline] @ JSONL_HINT) 2)
                       else Inr raw))"

definition loadFrames :: "inspect_env \<Rightarrow> string \<Rightarrow> loaded inspected" where
  "loadFrames env filePath =
     bind_err (read_input env filePath) (\<lambda>raw.
     bind_err (parse_lines env raw) (\<lambda>parsed.
     bind_err (if parsed = [] then Inr False else is_entry (hd parsed)) (\<lambda>isAuditLog.
     bind_err (if isAuditLog then map_err (\<lambda>_ e. read_prop e ''frame'') 0 parsed else Inr parsed) (\<lambda>fs.
     Inr \<lparr>frames = fs,
          entries = (if isAuditLog then parsed else []),
          inputPath = (if filePath = ''-'' then None
                       else Some (normalizeInputPathForOutput env (env_resolve env filePath))),
          inputSource = (if filePath = ''-'' then Stdin else File),
          trace_type = (if isAuditLog then AuditLog else Raw),
          hash_root = (if isAuditLog then pget (last parsed) ''hash'' else JUndef)\<rparr>))))"

section \<open>The hash chain\<close>

primrec canonicalize_frame :: "jsval \<Rightarrow> jsval" where
  "canonicalize_frame JUndef = JUndef"
| "canonicalize_frame JNull = JNull"
| "canonicalize_frame (JBool b) = JBool b"
| "canonicalize_frame (JNum n) = JNum n"
| "canonicalize_frame (JStr s) = JStr s"
| "canonicalize_frame (JArr xs) = JArr (map canonicalize_frame xs)"
| "canonicalize_frame (JObj kvs) =
     JObj (foldl (\<lambda>sorted (key, v). assign_prop key v sorted) []
       (sort_key fst (map (map_prod id canonicalize_frame) kvs)))"

text \<open>\<open>Buffer.from(undefined)\<close> throws; nothing else does.\<close>

definition canonicalJsonBytes :: "jsval \<Rightarrow> byte list inspected" where
  "canonicalJsonBytes frame =
     (case json_stringify (canonicalize_frame frame) of
        None \<Rightarrow> Inl (RuntimeError ''The first argument must be of type string. Received undefined'')
      | Some t \<Rightarrow> Inr (utf8 t))"

text \<open>
  The hash the entry should have. The link is fed to the hasher as text, so that a \<open>prev_hash\<close>
  that is not a string throws.
\<close>

definition entry_hash :: "inspect_env \<Rightarrow> jsval \<Rightarrow> string inspected" where
  "entry_hash env entry =
     bind_err (canonicalJsonBytes (pget entry ''frame'')) (\<lambda>frameBytes.
       case pget entry ''prev_hash'' of
         JStr h \<Rightarrow> Inr (bufferToHex (env_sha256 env (utf8 h @ frameBytes)))
       | _ \<Rightarrow> Inl (RuntimeError ''The data argument must be of type string''))"

text \<open>The loop from index \<open>i\<close> on: the index of the first violation, if there is one.\<close>

fun check_entries :: "inspect_env \<Rightarrow> nat \<Rightarrow> jsval list \<Rightarrow> nat option inspected" where
  "check_entries env i [] = Inr None"
| "check_entries env i (entry # rest) =
     bind_err (entry_hash env entry) (\<lambda>calculatedHash.
       if JStr calculatedHash \<noteq> pget entry ''hash'' then Inr (Some i)
       else case rest of
              [] \<Rightarrow> Inr None
            | nxt # _ \<Rightarrow>
                if pget nxt ''prev_hash'' \<noteq> pget entry ''hash'' then Inr (Some (i + 1))
                else check_entries env (i + 1) rest)"

record integrity =
  valid :: bool
  firstViolation :: "nat option"

definition verifyTraceIntegrity :: "inspect_env \<Rightarrow> jsval list \<Rightarrow> integrity inspected" where
  "verifyTraceIntegrity env es =
     (if es = [] then Inr \<lparr>valid = True, firstViolation = None\<rparr>
      else bind_err (check_entries env 0 es) (\<lambda>v. Inr \<lparr>valid = (v = None), firstViolation = v\<rparr>))"

record determinism =
  det_valid :: bool
  det_error :: "string option"
  det_at :: "nat option"

text \<open>
  The loop over the frames sets a flag that nothing reads, so a verified chain is all it takes.
  It reads \<open>type\<close> of each frame and would throw on a nullish one.
\<close>

definition verifyReplayDeterminism :: "inspect_env \<Rightarrow> jsval list \<Rightarrow> determinism inspected" where
  "verifyReplayDeterminism env es =
     bind_err (verifyTraceIntegrity env es) (\<lambda>r.
       if \<not> valid r
       then Inr \<lparr>det_valid = False, det_error = Some ''Trace integrity broken'', det_at = firstViolation r\<rparr>
       else bind_err (map_err (\<lambda>_ e. read_prop (pget e ''frame'') ''type'') 0 es) (\<lambda>_.
              Inr \<lparr>det_valid = True, det_error = None, det_at = None\<rparr>))"

end
