(* ===== verification/Inspect_Chain.thy ===== *)
theory Inspect_Chain
  imports Inspect_Trace
begin

text \<open>
  What the verification of an audit log by \<open>verifyTraceIntegrity\<close> establishes. The checker is an
  instance of the hash chain contract (\<open>trace_chain\<close>); from it follow the exact verdict with the
  least violation, tamper evidence relative to the root hash, and the gap left by the first link,
  which is not compared with the 64 zeros the format prescribes.
\<close>

section \<open>The canonical form\<close>

text \<open>The inspector's copy of the canonicalisation is the one of the SDK's crypto module.\<close>

lemma canonicalize_frame_eq: "canonicalize_frame v = canonicalize v"
proof (induction v)
  case (JObj kvs)
  have eq: "map (map_prod id canonicalize_frame) kvs = map (map_prod id canonicalize) kvs"
    using JObj by (auto intro!: snds.intros)
  show ?case
    by (simp only: canonicalize_frame.simps canonicalize.simps build_assign_def eq)
qed simp_all

lemma canonicalize_frame_JUndef: "canonicalize_frame v = JUndef \<longleftrightarrow> v = JUndef"
  by (cases v) auto

lemma json_stringify_None: "json_stringify v = None \<longleftrightarrow> v = JUndef"
  by (cases v) auto

definition frame_bytes :: "jsval \<Rightarrow> byte list" where
  "frame_bytes entry = utf8 (json_text (canonicalize (pget entry ''frame'')))"

lemma canonicalJsonBytes_eq:
  "canonicalJsonBytes (pget e ''frame'') =
     (if pget e ''frame'' = JUndef then Inl (RuntimeError ''The first argument must be of type string. Received undefined'')
      else Inr (frame_bytes e))"
proof (cases "pget e ''frame'' = JUndef")
  case False
  then obtain t where "json_stringify (canonicalize (pget e ''frame'')) = Some t"
    using canonicalize_frame_JUndef [of "pget e ''frame''"] json_stringify_None
    by (auto simp: canonicalize_frame_eq)
  with False show ?thesis
    by (simp add: canonicalJsonBytes_def canonicalize_frame_eq frame_bytes_def json_text_def elem_text_def)
qed (simp add: canonicalJsonBytes_def)

section \<open>The chain contract\<close>

definition trace_prev :: "jsval \<Rightarrow> jsval option" where
  "trace_prev e = Some (pget e ''prev_hash'')"

definition trace_stored :: "jsval \<Rightarrow> jsval option" where
  "trace_stored e = Some (pget e ''hash'')"

definition trace_body :: "jsval \<Rightarrow> byte list option" where
  "trace_body e = (if pget e ''frame'' = JUndef then None else Some (frame_bytes e))"

text \<open>The digest of a link and a body; \<open>None\<close> where the checker throws.\<close>

fun trace_digest :: "inspect_env \<Rightarrow> jsval option \<Rightarrow> byte list option \<Rightarrow> jsval option" where
  "trace_digest env (Some (JStr h)) (Some b) = Some (JStr (bufferToHex (env_sha256 env (utf8 h @ b))))"
| "trace_digest env _ _ = None"

definition trace_verify :: "inspect_env \<Rightarrow> jsval list \<Rightarrow> bool" where
  "trace_verify env es \<longleftrightarrow> verifyTraceIntegrity env es = Inr \<lparr>valid = True, firstViolation = None\<rparr>"

lemma entry_hash_Inr:
  "entry_hash env e = Inr h \<longleftrightarrow> trace_digest env (trace_prev e) (trace_body e) = Some (JStr h)"
  by (cases "pget e ''prev_hash''")
    (auto simp: entry_hash_def canonicalJsonBytes_eq trace_prev_def trace_body_def)

lemma trace_digest_JStr: "trace_digest env p b = Some v \<Longrightarrow> \<exists>h. v = JStr h"
  by (induction env p b rule: trace_digest.induct) auto

lemma entry_hash_Inl:
  "entry_hash env e = Inl x \<Longrightarrow> trace_digest env (trace_prev e) (trace_body e) = None"
  using entry_hash_Inr [of env e] trace_digest_JStr
  by (cases "trace_digest env (trace_prev e) (trace_body e)") fastforce+

lemma entry_sealed:
  "(\<exists>h. entry_hash env e = Inr h \<and> JStr h = pget e ''hash'') \<longleftrightarrow>
     trace_stored e = trace_digest env (trace_prev e) (trace_body e)"
  using trace_digest_JStr [of env "trace_prev e" "trace_body e" "pget e ''hash''"]
  by (auto simp: entry_hash_Inr trace_stored_def)

lemma check_entries_None_step:
  "check_entries env i (e # rest) = Inr None \<longleftrightarrow>
     trace_stored e = trace_digest env (trace_prev e) (trace_body e) \<and>
     (rest \<noteq> [] \<longrightarrow> trace_prev (hd rest) = trace_stored e \<and> check_entries env (Suc i) rest = Inr None)"
  unfolding entry_sealed [symmetric]
  by (cases rest) (auto simp: bind_err_Inr_iff trace_prev_def trace_stored_def simp del: check_entries.simps(2)
      simp: check_entries.simps(2) [of env i e])

lemma check_entries_None_shift:
  "check_entries env i es = Inr None \<longleftrightarrow> check_entries env j es = Inr None"
proof (induction es arbitrary: i j)
  case (Cons e es)
  then show ?case unfolding check_entries_None_step by blast
qed simp

lemma trace_verify_iff: "trace_verify env es \<longleftrightarrow> check_entries env i es = Inr None"
  using check_entries_None_shift [of env 0 es i]
  by (auto simp: trace_verify_def verifyTraceIntegrity_def bind_err_Inr_iff)

interpretation trace_chain: hash_chain trace_prev trace_stored trace_body "trace_digest env" "trace_verify env"
  for env
proof
  show "trace_verify env []"
    by (simp add: trace_verify_def verifyTraceIntegrity_def)
  show "trace_verify env [e] \<longleftrightarrow> trace_stored e = trace_digest env (trace_prev e) (trace_body e)" for e
    unfolding trace_verify_iff [of env _ 0] check_entries_None_step by simp
  show "trace_verify env (e # n # es) \<longleftrightarrow>
      trace_stored e = trace_digest env (trace_prev e) (trace_body e) \<and>
      trace_prev n = trace_stored e \<and> trace_verify env (n # es)" for e n es
    unfolding trace_verify_iff [of env "e # n # es" 0] trace_verify_iff [of env "n # es" "Suc 0"]
      check_entries_None_step [of env 0 e] by simp
qed

section \<open>The verdict\<close>

text \<open>The chain as the format documents it: every hash seals its frame, every link matches.\<close>

definition chain_ok :: "inspect_env \<Rightarrow> jsval list \<Rightarrow> bool" where
  "chain_ok env es \<longleftrightarrow>
     (\<forall>i < length es. \<exists>h. pget (es ! i) ''prev_hash'' = JStr h \<and> pget (es ! i) ''frame'' \<noteq> JUndef \<and>
        pget (es ! i) ''hash'' = JStr (bufferToHex (env_sha256 env (utf8 h @ frame_bytes (es ! i))))) \<and>
     (\<forall>i. Suc i < length es \<longrightarrow> pget (es ! Suc i) ''prev_hash'' = pget (es ! i) ''hash'')"

lemma sealed_iff:
  "trace_stored e = trace_digest env (trace_prev e) (trace_body e) \<longleftrightarrow>
     (\<exists>h. pget e ''prev_hash'' = JStr h \<and> pget e ''frame'' \<noteq> JUndef \<and>
        pget e ''hash'' = JStr (bufferToHex (env_sha256 env (utf8 h @ frame_bytes e))))"
  by (cases "pget e ''prev_hash''") (auto simp: trace_stored_def trace_prev_def trace_body_def)

lemma trace_verify_chain_ok: "trace_verify env es \<longleftrightarrow> chain_ok env es"
  unfolding trace_chain.verify_nth chain_ok_def sealed_iff
  by (simp add: trace_prev_def trace_stored_def)

text \<open>An entry the checker can hash: a textual link and a frame.\<close>

definition hashable :: "jsval \<Rightarrow> bool" where
  "hashable e \<longleftrightarrow> is_str (pget e ''prev_hash'') \<and> pget e ''frame'' \<noteq> JUndef"

lemma hashable_entry_hash: "hashable e \<Longrightarrow> \<exists>h. entry_hash env e = Inr h"
  by (cases "pget e ''prev_hash''") (auto simp: hashable_def entry_hash_def canonicalJsonBytes_eq)

lemma check_entries_total: "list_all hashable es \<Longrightarrow> \<exists>v. check_entries env i es = Inr v"
proof (induction es arbitrary: i)
  case (Cons e es)
  obtain h where "entry_hash env e = Inr h" using hashable_entry_hash Cons.prems by fastforce
  then show ?case using Cons by (cases es) auto
qed simp

lemma check_entries_least:
  "check_entries env i es = Inr (Some k) \<Longrightarrow>
     i \<le> k \<and> k - i < length es \<and> trace_verify env (take (k - i) es) \<and> \<not> trace_verify env (take (Suc (k - i)) es)"
proof (induction es arbitrary: i)
  case (Cons e es)
  obtain h where h: "entry_hash env e = Inr h" using Cons.prems by (auto simp: bind_err_Inr_iff)
  show ?case
  proof (cases "JStr h = pget e ''hash''")
    case False
    then have "k = i" using Cons.prems h by simp
    then show ?thesis
      using False h entry_sealed [of env e] by (auto simp: trace_chain.verify_Nil trace_chain.verify_single)
  next
    case True
    have sealed: "trace_verify env [e]"
      using True h entry_sealed [of env e] by (auto simp: trace_chain.verify_single)
    obtain n ns where es: "es = n # ns" using Cons.prems h True by (cases es) auto
    show ?thesis
    proof (cases "pget n ''prev_hash'' = pget e ''hash''")
      case False
      then have "k = Suc i" using Cons.prems h True es by simp
      then show ?thesis
        using False es sealed by (auto simp: trace_chain.verify_Cons trace_prev_def trace_stored_def)
    next
      case linked: True
      then have "check_entries env (Suc i) es = Inr (Some k)" using Cons.prems h True es by simp
      note IH = Cons.IH [OF this]
      define d where "d = k - Suc i"
      have k: "k - i = Suc d" using IH by (auto simp: d_def)
      have step: "trace_verify env (e # take m es) \<longleftrightarrow> trace_verify env (take m es)" if "0 < m" for m
        using that es linked sealed
        by (cases m) (auto simp: trace_chain.verify_Cons trace_chain.verify_single trace_prev_def trace_stored_def)
      show ?thesis
        using IH step [of d] step [of "Suc d"] sealed k
        by (cases "d = 0") (auto simp: d_def [symmetric])
    qed
  qed
qed simp

text \<open>An environment for concrete runs; its digest forgets its input.\<close>

definition toy_env :: inspect_env where
  "toy_env =
     \<lparr>env_stdin = Inl ''EAGAIN'', env_exists = (\<lambda>_. False), env_read = (\<lambda>_. Inl ''ENOENT''),
      env_write_error = (\<lambda>_. None), env_resolve = id, env_relative = id, env_sep = CHR ''/'',
      env_stem = id, env_in_cwd = id, env_sha256 = (\<lambda>_. replicate 32 0),
      env_parse_error = (\<lambda>_. ''Unexpected token''), env_compare = (\<lambda>a b. if a < b then -1 else if a = b then 0 else 1),
      env_frozen_time = None, env_freeze_clock = Some ''1'', env_iso_date = (\<lambda>_. None), env_now = [],
      env_build = None, env_tty = False\<rparr>"

definition zeros :: string where
  "zeros = replicate 64 CHR ''0''"

definition toy_entry :: "string \<Rightarrow> jsval" where
  "toy_entry h = JObj [(''frame'', JObj [(''type'', JStr ''hello'')]), (''prev_hash'', JStr zeros), (''hash'', JStr h)]"

lemma toy_digest: "bufferToHex (env_sha256 toy_env x) = zeros"
proof -
  have "hex_char 0 = CHR ''0''" by code_simp
  then have "bufferToHex (replicate n 0) = replicate (2 * n) CHR ''0''" for n
    by (induction n) (simp_all add: bufferToHex_Cons)
  then show ?thesis by (simp add: toy_env_def zeros_def)
qed

lemma toy_entry_simps [simp]:
  "pget (toy_entry h) ''frame'' = JObj [(''type'', JStr ''hello'')]"
  "pget (toy_entry h) ''prev_hash'' = JStr zeros" "pget (toy_entry h) ''hash'' = JStr h"
  by (simp_all add: toy_entry_def)

lemma toy_chain_ok: "chain_ok toy_env [toy_entry zeros, toy_entry zeros]"
  by (auto simp: chain_ok_def toy_digest nth_Cons')

text \<open>C17: on a log whose entries can be hashed \<open>verifyTraceIntegrity\<close> always returns; it reports
  the log valid exactly when every hash seals its frame and every link equals the hash before, and
  otherwise the index it reports is the least one at which the log up to there stops being
  valid.\<close>

theorem integrity_verdict:
  assumes "list_all hashable es"
  shows "\<exists>r. verifyTraceIntegrity env es = Inr r \<and> (valid r \<longleftrightarrow> chain_ok env es) \<and>
    (case firstViolation r of
       None \<Rightarrow> valid r
     | Some k \<Rightarrow> \<not> valid r \<and> k < length es \<and> chain_ok env (take k es) \<and> \<not> chain_ok env (take (Suc k) es))"
proof -
  obtain v where v: "check_entries env 0 es = Inr v" using check_entries_total assms by blast
  have r: "verifyTraceIntegrity env es = Inr \<lparr>valid = (v = None), firstViolation = v\<rparr>"
    using v by (cases es) (auto simp: verifyTraceIntegrity_def)
  have "v = None \<longleftrightarrow> chain_ok env es"
    using v by (simp add: trace_verify_chain_ok [symmetric] trace_verify_iff [of env es 0])
  moreover have "k < length es \<and> chain_ok env (take k es) \<and> \<not> chain_ok env (take (Suc k) es)" if "v = Some k" for k
    using check_entries_least [of env 0 es k] v that by (simp add: trace_verify_chain_ok)
  ultimately show ?thesis
    unfolding r by (auto split: option.split)
qed

theorem integrity_verdict_witness:
  "\<exists>r. verifyTraceIntegrity toy_env [toy_entry zeros, toy_entry ''bad''] = Inr r \<and>
     (valid r \<longleftrightarrow> chain_ok toy_env [toy_entry zeros, toy_entry ''bad'']) \<and>
    (case firstViolation r of
       None \<Rightarrow> valid r
     | Some k \<Rightarrow> \<not> valid r \<and> k < length [toy_entry zeros, toy_entry ''bad''] \<and>
         chain_ok toy_env (take k [toy_entry zeros, toy_entry ''bad'']) \<and>
         \<not> chain_ok toy_env (take (Suc k) [toy_entry zeros, toy_entry ''bad'']))"
  by (rule integrity_verdict) (simp add: hashable_def)

section \<open>Tamper evidence\<close>

lemma length_utf8_hex: "length (utf8 (bufferToHex bs)) = 2 * length bs"
proof (induction bs)
  case (Cons b bs)
  have "length (utf8_char (hex_char d)) = 1" if "d < 16" for d
    using that by (auto simp: utf8_char_def hex_char_def Let_def of_char_of)
  then show ?case
    using Cons unsigned_less [of b, where ?'a = nat] by (simp add: bufferToHex_Cons utf8_Cons less_mult_imp_div_less)
qed (simp add: utf8_def)

lemma link_length:
  assumes "trace_verify env es" and "\<And>x. length (env_sha256 env x) = 32"
    and "es \<noteq> []" and "pget (hd es) ''prev_hash'' = JStr g" and "length (utf8 g) = 64"
    and "e \<in> set es" and "pget e ''prev_hash'' = JStr h"
  shows "length (utf8 h) = 64"
proof -
  obtain i where i: "i < length es" "e = es ! i" using assms(6) by (auto simp: in_set_conv_nth)
  show ?thesis
  proof (cases i)
    case 0
    then show ?thesis using assms i by (simp add: hd_conv_nth)
  next
    case (Suc j)
    then have "JStr h = pget (es ! j) ''hash''"
      using assms(1,7) i by (auto simp: trace_verify_chain_ok chain_ok_def)
    then obtain x where "h = bufferToHex (env_sha256 env x)"
      using assms(1) i Suc by (auto simp: trace_verify_chain_ok chain_ok_def dest!: spec [of _ j])
    then show ?thesis using assms(2) by (simp add: length_utf8_hex)
  qed
qed

lemma frame_bytes_inj:
  assumes "json_clean (pget e ''frame'')" and "json_clean (pget f ''frame'')" and "frame_bytes e = frame_bytes f"
  shows "canonicalize (pget e ''frame'') = canonicalize (pget f ''frame'')"
proof -
  have "json_text (canonicalize (pget e ''frame'')) = json_text (canonicalize (pget f ''frame''))"
    using assms(3) utf8_inj by (simp add: frame_bytes_def)
  then show ?thesis
    using json_roundtrip json_ok_canonicalize assms(1,2) by (metis option.inject)
qed

text \<open>The bytes an entry feeds to SHA-256, and two entries of the given logs on which it collides.\<close>

definition hashed_bytes :: "jsval \<Rightarrow> byte list" where
  "hashed_bytes e = (case pget e ''prev_hash'' of JStr h \<Rightarrow> utf8 h @ frame_bytes e | _ \<Rightarrow> frame_bytes e)"

definition sha_collision :: "inspect_env \<Rightarrow> jsval list \<Rightarrow> jsval list \<Rightarrow> bool" where
  "sha_collision env es fs \<longleftrightarrow> (\<exists>e \<in> set es. \<exists>f \<in> set fs.
     hashed_bytes e \<noteq> hashed_bytes f \<and> env_sha256 env (hashed_bytes e) = env_sha256 env (hashed_bytes f))"

lemma clash_sha_collision:
  assumes "trace_chain.clash env es fs" and "trace_verify env es" and "trace_verify env fs"
    and same: "\<And>e f h h'. e \<in> set es \<Longrightarrow> f \<in> set fs \<Longrightarrow> pget e ''prev_hash'' = JStr h \<Longrightarrow>
      pget f ''prev_hash'' = JStr h' \<Longrightarrow> length (utf8 h) = length (utf8 h')"
  shows "sha_collision env es fs"
proof -
  obtain e f where ef: "e \<in> set es" "f \<in> set fs"
    "(trace_prev e, trace_body e) \<noteq> (trace_prev f, trace_body f)"
    "trace_digest env (trace_prev e) (trace_body e) = trace_digest env (trace_prev f) (trace_body f)"
    using assms(1) unfolding trace_chain.clash_def by blast
  obtain h h' where h: "pget e ''prev_hash'' = JStr h" "pget f ''prev_hash'' = JStr h'"
    "pget e ''frame'' \<noteq> JUndef" "pget f ''frame'' \<noteq> JUndef"
    using trace_chain.verify_sealed assms(2,3) ef(1,2) unfolding sealed_iff by blast
  have "env_sha256 env (hashed_bytes e) = env_sha256 env (hashed_bytes f)"
    using ef(4) h by (simp add: trace_prev_def trace_body_def hashed_bytes_def)
  moreover have "hashed_bytes e \<noteq> hashed_bytes f"
    using ef(3) same [OF ef(1,2) h(1,2)] h
    by (auto simp: trace_prev_def trace_body_def hashed_bytes_def dest: utf8_inj)
  ultimately show ?thesis using ef(1,2) by (auto simp: sha_collision_def)
qed

text \<open>C16: the root hash of a verified audit log commits to all of it. Two logs of one length that
  both pass \<open>verifyTraceIntegrity\<close> and end in the same hash hold, entry by entry, frames with the
  same canonical form under the same links, unless SHA-256 collides on the different bytes hashed
  for two of their entries. The first links are 64 bytes long, as the format prescribes.\<close>

theorem root_hash_commits:
  assumes "verifyTraceIntegrity env es = Inr \<lparr>valid = True, firstViolation = None\<rparr>"
    and "verifyTraceIntegrity env fs = Inr \<lparr>valid = True, firstViolation = None\<rparr>"
    and "length es = length fs" and "es \<noteq> []"
    and "pget (last es) ''hash'' = pget (last fs) ''hash''"
    and "pget (hd es) ''prev_hash'' = JStr g" and "pget (hd fs) ''prev_hash'' = JStr g'"
    and "length (utf8 g) = 64" and "length (utf8 g') = 64"
    and "\<And>x. length (env_sha256 env x) = 32"
    and "\<And>e. e \<in> set es \<union> set fs \<Longrightarrow> json_clean (pget e ''frame'')"
  shows "map (\<lambda>e. (pget e ''prev_hash'', canonicalize_frame (pget e ''frame''))) es
      = map (\<lambda>e. (pget e ''prev_hash'', canonicalize_frame (pget e ''frame''))) fs
    \<or> sha_collision env es fs"
proof -
  have ver: "trace_verify env es" "trace_verify env fs" using assms(1,2) by (simp_all add: trace_verify_def)
  have fs: "fs \<noteq> []" using assms(3,4) by auto
  have "trace_chain.content es = trace_chain.content fs \<or> trace_chain.clash env es fs"
    using trace_chain.same_root [OF ver assms(3)] assms(5) by (simp add: trace_stored_def)
  then show ?thesis
  proof
    assume c: "trace_chain.content es = trace_chain.content fs"
    have "(pget e ''prev_hash'', canonicalize (pget e ''frame'')) = (pget f ''prev_hash'', canonicalize (pget f ''frame''))"
      if "i < length es" "e = es ! i" "f = fs ! i" for i e f
    proof -
      have mem: "e \<in> set es \<union> set fs" "f \<in> set es \<union> set fs" using that assms(3) by auto
      have "map (\<lambda>e. (trace_prev e, trace_body e)) es ! i = map (\<lambda>e. (trace_prev e, trace_body e)) fs ! i"
        using c unfolding trace_chain.content_def by simp
      then have "trace_prev e = trace_prev f" "trace_body e = trace_body f"
        using that assms(3) by simp_all
      moreover have "pget e ''frame'' \<noteq> JUndef" "pget f ''frame'' \<noteq> JUndef"
        using assms(11) mem by fastforce+
      ultimately show ?thesis
        using frame_bytes_inj [of e f] assms(11) mem by (auto simp: trace_prev_def trace_body_def split: if_splits)
    qed
    then show ?thesis
      using assms(3) by (intro disjI1 nth_equalityI) (simp_all add: canonicalize_frame_eq)
  next
    assume "trace_chain.clash env es fs"
    then show ?thesis
    proof (intro disjI2 clash_sha_collision [OF _ ver])
      fix e f h h'
      assume "e \<in> set es" "f \<in> set fs" "pget e ''prev_hash'' = JStr h" "pget f ''prev_hash'' = JStr h'"
      then have "length (utf8 h) = 64" "length (utf8 h') = 64"
        using link_length [OF ver(1) assms(10,4,6,8)] link_length [OF ver(2) assms(10) fs assms(7,9)] by blast+
      then show "length (utf8 h) = length (utf8 h')" by simp
    qed
  qed
qed

lemma toy_verified:
  "verifyTraceIntegrity toy_env [toy_entry zeros, toy_entry zeros] = Inr \<lparr>valid = True, firstViolation = None\<rparr>"
  using toy_chain_ok by (simp only: trace_verify_chain_ok [symmetric] trace_verify_def)

lemma length_utf8_zeros: "length (utf8 zeros) = 64"
  using length_utf8_hex [of "env_sha256 toy_env []"] unfolding toy_digest by (simp add: toy_env_def)

theorem root_hash_commits_witness:
  "map (\<lambda>e. (pget e ''prev_hash'', canonicalize_frame (pget e ''frame''))) [toy_entry zeros, toy_entry zeros]
      = map (\<lambda>e. (pget e ''prev_hash'', canonicalize_frame (pget e ''frame''))) [toy_entry zeros, toy_entry zeros]
    \<or> sha_collision toy_env [toy_entry zeros, toy_entry zeros] [toy_entry zeros, toy_entry zeros]"
proof (rule root_hash_commits)
  show "length (env_sha256 toy_env x) = 32" for x by (simp add: toy_env_def)
qed (use toy_verified length_utf8_zeros in auto)

text \<open>A log with its beginning and its end cut off still verifies: the first entry's
  \<open>prev_hash\<close> is not compared with the genesis value, so every contiguous part of a valid audit
  log is reported valid.\<close>

theorem truncated_log_verifies:
  assumes "verifyTraceIntegrity env (before @ part @ after) = Inr \<lparr>valid = True, firstViolation = None\<rparr>"
  shows "verifyTraceIntegrity env part = Inr \<lparr>valid = True, firstViolation = None\<rparr>"
  using trace_chain.verify_part [of env before part after] assms by (simp add: trace_verify_def)

theorem truncated_log_verifies_witness:
  "verifyTraceIntegrity toy_env [toy_entry zeros] = Inr \<lparr>valid = True, firstViolation = None\<rparr>"
  using truncated_log_verifies [of toy_env "[toy_entry zeros]" "[toy_entry zeros]" "[]"] toy_verified by simp

end
