(* ===== verification/Inspect_Summary.thy ===== *)
theory Inspect_Summary
  imports Inspect_Chain
begin

text \<open>
  The trace inspector, second part: normalisation and validation of frames, drift, continuity,
  branches and futures, the compliance report and the audit of agent traces, and \<open>summarize\<close>, which
  puts them together.
\<close>

section \<open>Constraints\<close>

record constraints_value =
  cv_value :: "(string \<times> jsval) list option"
  cv_normalized :: bool
  cv_invalid :: bool

definition constraint_map :: "jsval list \<Rightarrow> (string \<times> jsval) list" where
  "constraint_map raw =
     foldl (\<lambda>mapped (idx, entry).
         assign_prop (case entry of JStr s \<Rightarrow> s | _ \<Rightarrow> ''item_'' @ nat_str idx)
           (if nullish entry then JUndef else entry) mapped)
       [] (List.enumerate 0 raw)"

definition normalizeConstraintsValue :: "jsval \<Rightarrow> constraints_value" where
  "normalizeConstraintsValue raw =
     (case raw of
        JUndef \<Rightarrow> \<lparr>cv_value = None, cv_normalized = False, cv_invalid = False\<rparr>
      | JNull \<Rightarrow> \<lparr>cv_value = None, cv_normalized = False, cv_invalid = True\<rparr>
      | JObj kvs \<Rightarrow> \<lparr>cv_value = Some kvs, cv_normalized = False, cv_invalid = False\<rparr>
      | JStr s \<Rightarrow> \<lparr>cv_value = Some [(s, JUndef)], cv_normalized = True, cv_invalid = False\<rparr>
      | JArr xs \<Rightarrow> \<lparr>cv_value = Some (constraint_map xs), cv_normalized = True, cv_invalid = False\<rparr>
      | _ \<Rightarrow> \<lparr>cv_value = None, cv_normalized = False, cv_invalid = True\<rparr>)"

record normalized_frame =
  nf_frame :: jsval
  nf_normalizations :: "string list"
  nf_violations :: "string list"

definition frame_label :: "nat \<Rightarrow> string" where
  "frame_label idx = ''frame#'' @ nat_str idx"

text \<open>
  The body of the loop: the frame is copied, its own constraints and those of its payload become
  object maps. Reading the payload of a nullish frame throws.
\<close>

definition normalize_frame :: "nat \<Rightarrow> jsval \<Rightarrow> normalized_frame inspected" where
  "normalize_frame idx frame =
     bind_err (read_prop frame ''payload'') (\<lambda>payload.
       let label = frame_label idx;
           next0 = obj_spread frame;
           payloadObject = (if is_plain payload then Some (obj_spread payload) else None);
           direct = normalizeConstraintsValue (pget frame ''constraints'');
           next1 = (if cv_invalid direct then next0
                    else case cv_value direct of
                           Some v \<Rightarrow> define_prop ''constraints'' (JObj v) next0
                         | None \<Rightarrow> next0);
           inner = normalizeConstraintsValue (pget payload ''constraints'');
           next2 = (if cv_invalid inner then next1
                    else case cv_value inner of
                           Some v \<Rightarrow>
                             define_prop ''payload''
                               (JObj (define_prop ''constraints'' (JObj v) (case_option [] id payloadObject))) next1
                         | None \<Rightarrow>
                             (case payloadObject of
                                Some p \<Rightarrow> define_prop ''payload'' (JObj p) next1
                              | None \<Rightarrow> next1))
       in Inr \<lparr>nf_frame = JObj next2,
               nf_normalizations =
                 (if cv_normalized direct then [label @ '' constraints normalized to object map''] else []) @
                 (if cv_normalized inner then [label @ '' payload constraints normalized to object map''] else []),
               nf_violations =
                 (if cv_invalid direct then [label @ '' constraints must be an object when provided''] else []) @
                 (if cv_invalid inner then [label @ '' constraints must be an object when provided''] else [])\<rparr>)"

definition normalizeFrameConstraints :: "jsval list \<Rightarrow> normalized_frame list inspected" where
  "normalizeFrameConstraints fs = map_err normalize_frame 0 fs"

section \<open>Drift and continuity\<close>

record drift_snapshot =
  ds_id :: jsval
  ds_ts :: jsval
  ds_value :: jsval
  ds_note :: jsval

definition drift_of :: "jsval \<Rightarrow> drift_snapshot option" where
  "drift_of frame =
     (let payload = pget frame ''payload'';
          rawDrift = coalesce (coalesce (coalesce (coalesce (pget payload ''drift'') (pget payload ''drift_level''))
            (pget payload ''driftLevel'')) (pget payload ''drift_score'')) (pget payload ''signal'');
          note = coalesce (coalesce (coalesce (pget payload ''rationale'') (pget payload ''reason''))
            (pget payload ''note'')) (js_first (pget payload ''notes''))
      in if is_num rawDrift \<or> is_str rawDrift
         then Some \<lparr>ds_id = pget frame ''id'', ds_ts = pget frame ''ts'', ds_value = rawDrift, ds_note = note\<rparr>
         else None)"

definition changed_values :: "drift_snapshot list \<Rightarrow> drift_snapshot list" where
  "changed_values history =
     map ((!) history)
       (filter (\<lambda>idx. idx = 0 \<or> ds_value (history ! (idx - 1)) \<noteq> ds_value (history ! idx)) [0..<length history])"

definition collectDriftHistory :: "jsval list \<Rightarrow> drift_snapshot list" where
  "collectDriftHistory fs =
     changed_values (List.map_filter drift_of (filter (\<lambda>f. pget f ''type'' = JStr ''focus_snapshot'') fs))"

datatype drift_level = Low | Medium | High | Unknown

definition driftLevelFromHistory :: "drift_snapshot list \<Rightarrow> drift_level" where
  "driftLevelFromHistory history =
     (if history = [] then Unknown
      else case ds_value (last history) of
             JStr s \<Rightarrow>
               (let normalized = to_lower s
                in if normalized = ''low'' then Low else if normalized = ''medium'' then Medium
                   else if normalized = ''high'' then High else Unknown)
           | JNum n \<Rightarrow> if n \<le> fl (33 / 100) then Low else if n \<le> fl (66 / 100) then Medium else High
           | _ \<Rightarrow> Unknown)"

record continuity_report =
  ct_preserved :: bool
  ct_notes :: "string list"
  ct_token :: "string option"
  ct_breaks :: nat

fun nonempty_str :: "jsval \<Rightarrow> string option" where
  "nonempty_str (JStr s) = (if s \<noteq> [] then Some s else None)"
| "nonempty_str v = None"

definition detectContinuity :: "jsval list \<Rightarrow> continuity_report" where
  "detectContinuity fs =
     (let tokens = List.map_filter (\<lambda>f. nonempty_str (pget f ''continuity_token'')) fs;
          token = (if tokens = [] then None else Some (last tokens));
          unique = card (set tokens)
      in if unique \<le> 1 then \<lparr>ct_preserved = True, ct_notes = [], ct_token = token, ct_breaks = 0\<rparr>
         else \<lparr>ct_preserved = False, ct_notes = [''continuity token rotation detected mid-session''],
               ct_token = token, ct_breaks = unique - 1\<rparr>)"

section \<open>Validation\<close>

definition SUPPORTED_TRACE_VERSIONS :: "string list" where
  "SUPPORTED_TRACE_VERSIONS = [''0.1'']"

text \<open>\<open>toFixed\<close> prints magnitudes from \<open>10\<^sup>2\<^sup>1\<close> on as \<open>String\<close> does.\<close>

definition js_to_fixed :: "nat \<Rightarrow> rat \<Rightarrow> string" where
  "js_to_fixed d x = (if 10 ^ 21 \<le> \<bar>x\<bar> then num_str x else to_fixed d x)"

definition extractTraceVersion :: "jsval \<Rightarrow> string option" where
  "extractTraceVersion frame =
     (case coalesce (pget frame ''v'') (pget frame ''version'') of
        JNum n \<Rightarrow> Some (js_to_fixed 1 n)
      | JStr s \<Rightarrow> Some s
      | _ \<Rightarrow> None)"

definition usable_version :: "jsval \<Rightarrow> string option" where
  "usable_version frame =
     (case extractTraceVersion frame of Some v \<Rightarrow> if v = [] then None else Some v | None \<Rightarrow> None)"

fun nonblank :: "jsval \<Rightarrow> bool" where
  "nonblank (JStr s) = (trim s \<noteq> [])"
| "nonblank v = False"

definition version_violations :: "string \<Rightarrow> jsval \<Rightarrow> string list" where
  "version_violations label frame =
     (case usable_version frame of
        None \<Rightarrow> [label @ '' missing trace version (v|version)'']
      | Some v \<Rightarrow> if v \<in> set SUPPORTED_TRACE_VERSIONS then []
                  else [label @ '' uses unsupported trace version '' @ v])"

definition frame_identity :: "jsval \<Rightarrow> jsval" where
  "frame_identity frame = coalesce (pget frame ''identity'') (pget (pget frame ''payload'') ''identity'')"

definition frame_constraints :: "jsval \<Rightarrow> jsval" where
  "frame_constraints frame = coalesce (pget frame ''constraints'') (pget (pget frame ''payload'') ''constraints'')"

definition frame_focus :: "jsval \<Rightarrow> jsval" where
  "frame_focus frame =
     (let payload = pget frame ''payload''
      in coalesce (coalesce (pget payload ''focus_momentum'') (pget payload ''focusMomentum'')) (pget payload ''focus''))"

definition frame_drift :: "jsval \<Rightarrow> jsval" where
  "frame_drift frame =
     (let payload = pget frame ''payload''
      in coalesce (coalesce (pget payload ''drift'') (pget payload ''drift_level'')) (pget payload ''driftLevel''))"

definition if_push :: "bool \<Rightarrow> 'a \<Rightarrow> 'a list" where
  "if_push b x = (if b then [x] else [])"

lemma if_push_simps [simp]: "if_push True x = [x]" "if_push False x = []" "if_push b x = [] \<longleftrightarrow> \<not> b"
  by (simp_all add: if_push_def)

definition validate_frame :: "nat \<Rightarrow> jsval \<Rightarrow> string list" where
  "validate_frame idx frame =
     (let label = frame_label idx
      in if \<not> is_plain frame then [label @ '' is not an object'']
         else version_violations label frame @
           if_push (\<not> nonblank (pget frame ''type'')) (label @ '' missing required type'') @
           if_push (has_prop frame ''payload'' \<and> pget frame ''payload'' \<noteq> JUndef \<and> \<not> is_plain (pget frame ''payload''))
             (label @ '' payload must be an object when provided'') @
           if_push (frame_identity frame \<noteq> JUndef
                 \<and> \<not> (nonblank (frame_identity frame) \<or> is_plain (frame_identity frame)))
             (label @ '' identity must be a string or object if provided'') @
           if_push (frame_constraints frame \<noteq> JUndef \<and> \<not> is_plain (frame_constraints frame))
             (label @ '' constraints must be an object when provided'') @
           if_push (frame_focus frame \<noteq> JUndef \<and> \<not> is_num (frame_focus frame))
             (label @ '' focus_momentum must be numeric when provided'') @
           if_push (frame_drift frame \<noteq> JUndef \<and> \<not> is_num (frame_drift frame) \<and> \<not> is_str (frame_drift frame))
             (label @ '' drift must be numeric or string when provided''))"

text \<open>The violations; the list of warnings it also returns is always empty.\<close>

definition validateTraceFrames :: "jsval list \<Rightarrow> string list" where
  "validateTraceFrames fs =
     (let versions = js_nub (List.map_filter usable_version (filter is_plain fs))
      in concat (map (\<lambda>(idx, frame). validate_frame idx frame) (List.enumerate 0 fs)) @
         if_push (1 < length versions) (''mixed trace versions detected: '' @ js_join '', '' versions))"

section \<open>Branches and futures\<close>

record branch_insight =
  bi_id :: jsval
  bi_confidence :: "rat option"
  bi_status :: jsval
  bi_path :: jsval
  bi_class :: jsval
  bi_reason :: jsval
  bi_constraints :: "string list option"

definition constraintListFrom :: "jsval \<Rightarrow> string list" where
  "constraintListFrom raw =
     (case raw of
        JObj kvs \<Rightarrow> map (\<lambda>(key, value). if nullish value then key else key @ '':'' @ js_str value) kvs
      | _ \<Rightarrow> [])"

definition branch_entries :: "jsval \<Rightarrow> jsval list" where
  "branch_entries raw =
     (case raw of
        JArr xs \<Rightarrow> xs
      | JObj kvs \<Rightarrow> map (\<lambda>(id, value). JObj (spread [(''id'', JStr id)] (spread_of value))) kvs
      | _ \<Rightarrow> [])"

definition branch_of :: "jsval \<Rightarrow> branch_insight" where
  "branch_of entry =
     (let constraints = constraintListFrom (coalesce (coalesce (pget entry ''constraints'') (pget entry ''guardrails''))
            (pget entry ''limits''))
      in \<lparr>bi_id = coalesce (coalesce (pget entry ''id'') (pget entry ''name'')) (JStr ''unnamed''),
          bi_confidence = (case pget entry ''confidence'' of JNum n \<Rightarrow> Some n | _ \<Rightarrow> None),
          bi_status = coalesce (pget entry ''status'')
            (JStr (if pget entry ''class'' = JStr ''primary'' then ''admissible'' else ''degraded'')),
          bi_path = coalesce (pget entry ''path'') (pget entry ''route''),
          bi_class = pget entry ''class'',
          bi_reason = coalesce (coalesce (coalesce (coalesce (pget entry ''rationale'') (pget entry ''reason''))
            (pget entry ''why'')) (pget entry ''note'')) (pget entry ''explainer''),
          bi_constraints = (if constraints = [] then None else Some constraints)\<rparr>)"

text \<open>The loop over the entries: what it has collected so far.\<close>

record branch_scan =
  bs_normalized :: "branch_insight list"
  bs_notes :: "string list"
  bs_violations :: "string list"
  bs_unsorted :: bool
  bs_last :: "rat option"

definition scan_branch :: "branch_scan \<Rightarrow> jsval \<Rightarrow> branch_scan inspected" where
  "scan_branch st entry =
     (if nullish entry then Inl (RuntimeError (read_error entry ''id''))
      else
        let branch = branch_of entry; id = js_str (bi_id branch); confidence = bi_confidence branch
        in if set_has (map bi_id (bs_normalized st)) (bi_id branch)
           then Inr (st\<lparr>bs_violations := bs_violations st @ [''duplicate branch id '' @ id]\<rparr>)
           else Inr \<lparr>bs_normalized = bs_normalized st @ [branch],
                bs_notes = bs_notes st @
                  (case confidence of
                     None \<Rightarrow> [''branch '' @ id @ '' missing confidence (tooling MAY normalize)'']
                   | Some c \<Rightarrow> if_push (c < 0 \<or> 1 < c) (''branch '' @ id @ '' confidence out of range [0,1]'')),
                bs_violations = bs_violations st @
                  (case confidence of
                     None \<Rightarrow> []
                   | Some c \<Rightarrow> if_push (c < 0 \<or> 1 < c) (''branch '' @ id @ '' confidence outside 0..1'')),
                bs_unsorted = (bs_unsorted st \<or>
                  (case (confidence, bs_last st) of (Some c, Some l) \<Rightarrow> l < c | _ \<Rightarrow> False)),
                bs_last = (case confidence of None \<Rightarrow> bs_last st | Some c \<Rightarrow> Some c)\<rparr>)"

definition scan_branches :: "jsval list \<Rightarrow> branch_scan inspected" where
  "scan_branches es =
     foldl (\<lambda>st e. bind_err st (\<lambda>s. scan_branch s e))
       (Inr \<lparr>bs_normalized = [], bs_notes = [], bs_violations = [], bs_unsorted = False, bs_last = None\<rparr>) es"

text \<open>
  The comparator of the sort: descending confidence, a missing one counts as minus infinity, ties
  by \<open>localeCompare\<close> of the ids, which throws when the first id is not a string.
\<close>

definition score_less :: "rat option \<Rightarrow> rat option \<Rightarrow> bool" where
  "score_less a b = (case b of None \<Rightarrow> False | Some y \<Rightarrow> (case a of None \<Rightarrow> True | Some x \<Rightarrow> x < y))"

definition compare_branches :: "inspect_env \<Rightarrow> branch_insight \<Rightarrow> branch_insight \<Rightarrow> int inspected" where
  "compare_branches env a b =
     (if bi_confidence a = bi_confidence b
      then case bi_id a of
             JStr s \<Rightarrow> Inr (env_compare env s (js_str (bi_id b)))
           | _ \<Rightarrow> Inl (RuntimeError ''a.id.localeCompare is not a function'')
      else Inr (if score_less (bi_confidence a) (bi_confidence b) then 1 else -1))"

record normalized_branches =
  nb_branches :: "branch_insight list"
  nb_notes :: "string list"
  nb_violations :: "string list"
  nb_normalizations :: "string list"

definition normalizeBranches :: "inspect_env \<Rightarrow> jsval \<Rightarrow> normalized_branches inspected" where
  "normalizeBranches env raw =
     (if \<not> truthy raw then Inr \<lparr>nb_branches = [], nb_notes = [], nb_violations = [], nb_normalizations = []\<rparr>
      else bind_err (scan_branches (branch_entries raw)) (\<lambda>st.
           bind_err (js_sort (compare_branches env) (bs_normalized st)) (\<lambda>sorted.
             let reordered = (map bi_id sorted \<noteq> map bi_id (bs_normalized st))
             in Inr \<lparr>nb_branches = sorted,
                     nb_notes = bs_notes st @ if_push reordered ''branches reordered to deterministic confidence order'',
                     nb_violations = bs_violations st,
                     nb_normalizations =
                       if_push reordered ''branches not pre-sorted by confidence (normalized order applied)'' @
                       if_push (bs_unsorted st \<and> \<not> reordered)
                         ''branch confidences not in canonical order (normalization available)''\<rparr>)))"

record futures =
  fu_admissible :: "branch_insight list"
  fu_degraded :: "branch_insight list"
  fu_blocked :: "branch_insight list"

datatype future = Admissible | Degraded | Blocked

text \<open>\<open>(branch.status ?? '').toLowerCase()\<close> throws on a status that is not a string.\<close>

definition classify_future :: "branch_insight \<Rightarrow> future inspected" where
  "classify_future branch =
     (case coalesce (bi_status branch) (JStr []) of
        JStr s \<Rightarrow>
          (let status = to_lower s
           in Inr (if str_includes status ''blocked'' \<or> str_includes status ''rejected''
                      \<or> str_includes status ''inadmissible'' then Blocked
                   else if str_includes status ''degraded'' \<or> str_includes status ''fallback'' then Degraded
                   else Admissible))
      | _ \<Rightarrow> Inl (RuntimeError ''(branch.status ?? \"\").toLowerCase is not a function''))"

definition groupFutures :: "branch_insight list \<Rightarrow> futures inspected" where
  "groupFutures bs =
     bind_err (map_err (\<lambda>_ b. bind_err (classify_future b) (\<lambda>c. Inr (c, b))) 0 bs) (\<lambda>cs.
       Inr \<lparr>fu_admissible = map snd (filter (\<lambda>p. fst p = Admissible) cs),
            fu_degraded = map snd (filter (\<lambda>p. fst p = Degraded) cs),
            fu_blocked = map snd (filter (\<lambda>p. fst p = Blocked) cs)\<rparr>)"

section \<open>Identity, focus, constraints\<close>

fun embedded_identity :: "jsval \<Rightarrow> string option" where
  "embedded_identity (JStr s) = (if trim s \<noteq> [] then Some s else None)"
| "embedded_identity (JObj kvs) =
     (case pget (JObj kvs) ''id'' of JStr s \<Rightarrow> if trim s \<noteq> [] then Some s else None | _ \<Rightarrow> None)"
| "embedded_identity v = None"

definition direct_identity :: "jsval \<Rightarrow> jsval" where
  "direct_identity frame =
     (let payload = pget frame ''payload''
      in coalesce (coalesce (coalesce (pget payload ''identity'') (pget frame ''identity''))
           (pget payload ''origin'')) (pget payload ''id''))"

definition extractIdentity :: "jsval list \<Rightarrow> jsval" where
  "extractIdentity fs =
     (case List.map_filter (\<lambda>f. embedded_identity (direct_identity f)) (rev fs) of
        s # _ \<Rightarrow> JStr s
      | [] \<Rightarrow>
          (case filter truthy (map (\<lambda>f. pget f ''continuity_token'') (rev fs)) of
             t # _ \<Rightarrow> t
           | [] \<Rightarrow> JStr ''unknown''))"

definition extractFocusMomentum :: "jsval list \<Rightarrow> rat option" where
  "extractFocusMomentum fs =
     (case filter is_num (map frame_focus (rev fs)) of JNum n # _ \<Rightarrow> Some n | _ \<Rightarrow> None)"

definition collectConstraints :: "jsval list \<Rightarrow> string list" where
  "collectConstraints fs =
     foldl (\<lambda>collected frame.
         foldl (\<lambda>acc c. if c \<in> set acc then acc else acc @ [c]) collected
           (constraintListFrom (coalesce (pget (pget frame ''payload'') ''constraints'') (pget frame ''constraints''))))
       [] fs"

section \<open>Compliance\<close>

datatype trace_integrity = Verified | Broken | Unchecked

record signature_info =
  si_present :: bool
  si_valid :: bool
  si_key_ids :: "jsval list"
  si_algorithm :: "string option"

record compliance_report =
  cr_profile :: string
  cr_trace_integrity :: trace_integrity
  cr_first_violation_index :: "nat option"
  cr_identity_ok :: bool
  cr_breaks :: nat
  cr_replay_ok :: bool
  cr_determinism_details :: "string option"
  cr_signatures :: "signature_info option"

text \<open>\<open>Array.from(new Set(xs))\<close> for values of the trace.\<close>

definition distinct_values :: "jsval list \<Rightarrow> jsval list" where
  "distinct_values xs = foldl (\<lambda>acc x. if set_has acc x then acc else acc @ [x]) [] xs"

definition signature_report :: "jsval list \<Rightarrow> signature_info" where
  "signature_report es =
     (let entriesWithSig = filter (\<lambda>e. truthy (pget e ''signature'')) es;
          present = (entriesWithSig \<noteq> []);
          keyIds = distinct_values (filter truthy (map (\<lambda>e. pget e ''key_id'') entriesWithSig));
          algs = distinct_values (filter truthy (map (\<lambda>e. pget e ''alg'') entriesWithSig))
      in \<lparr>si_present = present, si_valid = present, si_key_ids = keyIds,
          si_algorithm = (if algs = [] then None else Some (js_join '','' (map js_str algs)))\<rparr>)"

definition compliance_of ::
  "inspect_env \<Rightarrow> jsval list \<Rightarrow> trace_type \<Rightarrow> string option \<Rightarrow> jsval \<Rightarrow> continuity_report \<Rightarrow> compliance_report inspected" where
  "compliance_of env es ty complianceProfile identity continuity =
     bind_err (verifyTraceIntegrity env es) (\<lambda>integ.
     bind_err (verifyReplayDeterminism env es) (\<lambda>det.
       Inr \<lparr>cr_profile = case_option ''custom'' id complianceProfile,
            cr_trace_integrity = (if ty = AuditLog then (if valid integ then Verified else Broken) else Unchecked),
            cr_first_violation_index = firstViolation integ,
            cr_identity_ok = (identity \<noteq> JStr ''unknown''),
            cr_breaks = ct_breaks continuity,
            cr_replay_ok = det_valid det,
            cr_determinism_details = det_error det,
            cr_signatures = (if ty = AuditLog then Some (signature_report es) else None)\<rparr>))"

section \<open>Audit\<close>

definition CRITICAL_ACTIONS :: "string list" where
  "CRITICAL_ACTIONS = [''transfer_money'', ''place_order'', ''send_message'', ''delete_data'', ''grant_access'',
     ''modify_system'', ''execute_code'']"

definition RECOVERY_ACTIONS :: "string list" where
  "RECOVERY_ACTIONS = [''RECOVERY'', ''PING'', ''STATUS'', ''HANDSHAKE'']"

definition WEB_DIRECT :: string where "WEB_DIRECT = ''AGENTS.CRIT.WEB_DIRECT''"
definition NO_CAPABILITY :: string where "NO_CAPABILITY = ''AGENTS.CRIT.NO_CAPABILITY''"

datatype severity = CRITICAL | HIGH | MODERATE | LOW

record compliance_violation =
  rule_id :: string
  severity :: severity
  frame_index :: int
  viol_source :: jsval
  viol_action :: string
  evidence :: string

text \<open>What one part of the audit contributes: failed checks, violations, determinism details.\<close>

type_synonym audit_part = "string list \<times> compliance_violation list \<times> string list"

definition trace_status :: "trace_integrity \<Rightarrow> string" where
  "trace_status t = (case t of Verified \<Rightarrow> ''verified'' | Broken \<Rightarrow> ''broken'' | Unchecked \<Rightarrow> ''unchecked'')"

definition core_audit :: "compliance_report \<Rightarrow> audit_part list" where
  "core_audit c =
     (if cr_trace_integrity c \<noteq> Verified
      then [([''trace_integrity''],
             [\<lparr>rule_id = ''CORE.INTEGRITY'', severity = CRITICAL,
               frame_index = (case cr_first_violation_index c of Some i \<Rightarrow> int i | None \<Rightarrow> -1),
               viol_source = JStr ''system'', viol_action = ''verify_trace'',
               evidence = ''Trace integrity check failed or unchecked (status: '' @ trace_status (cr_trace_integrity c) @ '')''\<rparr>],
             [])]
      else []) @
     (if \<not> cr_identity_ok c
      then [([''identity_binding''],
             [\<lparr>rule_id = ''CORE.IDENTITY'', severity = HIGH, frame_index = -1, viol_source = JStr ''system'',
               viol_action = ''verify_identity'', evidence = ''Identity binding check failed''\<rparr>], [])]
      else []) @
     (if \<not> cr_replay_ok c
      then [([''replay_determinism''],
             [\<lparr>rule_id = ''CORE.DETERMINISM'', severity = HIGH, frame_index = -1, viol_source = JStr ''system'',
               viol_action = ''verify_replay'',
               evidence = (case cr_determinism_details c of Some d \<Rightarrow> d | None \<Rightarrow> ''Replay determinism check failed'')\<rparr>],
             [])]
      else [])"

text \<open>One frame under the rules for agents.\<close>

definition required_capability :: "string \<Rightarrow> string" where
  "required_capability targetState = ''CAPABILITY_'' @ to_upper targetState"

definition has_capability :: "jsval \<Rightarrow> string \<Rightarrow> bool" where
  "has_capability payload cap =
     (case coalesce (pget payload ''capabilities'') (JArr []) of JArr cs \<Rightarrow> JStr cap \<in> set cs | _ \<Rightarrow> False)"

definition audit_action :: "nat \<Rightarrow> jsval \<Rightarrow> string \<Rightarrow> audit_part list" where
  "audit_action index payload targetState =
     (let context = pget payload ''context''; requiredCap = required_capability targetState
      in (if context = JStr ''WEB''
          then [([WEB_DIRECT],
                 [\<lparr>rule_id = WEB_DIRECT, severity = CRITICAL, frame_index = int index, viol_source = context,
                   viol_action = targetState, evidence = ''WEB context allowed to perform critical action''\<rparr>],
                 [''Security Violation: WEB context allowed to perform critical action '' @ [squote] @ targetState
                   @ [squote] @ '' at frame #'' @ nat_str index])]
          else []) @
         (if \<not> has_capability payload requiredCap
          then [([NO_CAPABILITY],
                 [\<lparr>rule_id = NO_CAPABILITY, severity = CRITICAL, frame_index = int index,
                   viol_source = js_or context (JStr ''unknown''), viol_action = targetState,
                   evidence = ''Missing required capability: '' @ requiredCap\<rparr>], [])]
          else []))"

definition audit_frame :: "nat \<Rightarrow> jsval \<Rightarrow> audit_part list" where
  "audit_frame index frame =
     (if pget frame ''type'' \<noteq> JStr ''route_response'' then []
      else let payload = js_or (pget frame ''payload'') (JObj [])
           in case pget payload ''targetState'' of
                JStr targetState \<Rightarrow>
                  if targetState \<noteq> [] \<and> targetState \<in> set CRITICAL_ACTIONS \<and> pget payload ''admissible'' = JBool True
                  then audit_action index payload targetState else []
              | _ \<Rightarrow> [])"

datatype verdict = PASS | FAIL
datatype risk = RiskLow | RiskMedium | RiskHigh

record audit_summary =
  au_verdict :: verdict
  au_risk :: risk
  au_failed_checks :: "string list"
  au_violations :: "compliance_violation list"
  au_counts :: "(severity \<times> nat) list"
  au_regulator_ready :: bool

definition severity_count :: "severity \<Rightarrow> compliance_violation list \<Rightarrow> nat" where
  "severity_count sev vs = length (filter (\<lambda>v. severity v = sev) vs)"

definition audit_parts :: "string option \<Rightarrow> compliance_report \<Rightarrow> jsval list \<Rightarrow> audit_part list" where
  "audit_parts profile c fs =
     core_audit c @
     (if profile = Some ''agentic'' \<or> profile = Some ''agents''
      then concat (map (\<lambda>(index, frame). audit_frame index frame) (List.enumerate 0 fs)) else [])"

definition audit_of_parts :: "audit_part list \<Rightarrow> audit_summary" where
  "audit_of_parts parts =
     (let failedChecks = concat (map fst parts);
          violations = concat (map (fst \<circ> snd) parts);
          verdict = (if failedChecks = [] then PASS else FAIL);
          riskLevel = (if ''trace_integrity'' \<in> set failedChecks \<or> 0 < severity_count CRITICAL violations then RiskHigh
                       else if failedChecks \<noteq> [] then RiskMedium else RiskLow)
      in \<lparr>au_verdict = verdict, au_risk = riskLevel, au_failed_checks = failedChecks, au_violations = violations,
          au_counts = map (\<lambda>s. (s, severity_count s violations)) [CRITICAL, HIGH, MODERATE, LOW],
          au_regulator_ready = (verdict = PASS)\<rparr>)"

text \<open>The audit overwrites the report's determinism details for each WEB violation.\<close>

definition with_details :: "audit_part list \<Rightarrow> compliance_report \<Rightarrow> compliance_report" where
  "with_details parts c =
     (let ds = concat (map (snd \<circ> snd) parts)
      in if ds = [] then c else c\<lparr>cr_determinism_details := Some (last ds)\<rparr>)"

section \<open>The summary\<close>

record routing_report =
  rr_coherent :: bool
  rr_first_unsafe :: "nat option"
  rr_path :: "string list"
  rr_executed :: nat
  rr_deferred :: nat
  rr_replayed :: nat
  rr_frozen :: nat

record inspect_summary =
  su_generated_at :: string
  su_build :: string
  su_source :: input_source
  su_path :: "string option"
  su_frames :: nat
  su_type :: trace_type
  su_hash_root :: jsval
  su_identity :: jsval
  su_stable :: bool
  su_drift_level :: drift_level
  su_drift_history :: "drift_snapshot list"
  su_focus_momentum :: "rat option"
  su_continuity :: continuity_report
  su_branches :: "branch_insight list"
  su_futures :: futures
  su_notes :: "jsval list"
  su_compliance :: "compliance_report option"
  su_audit :: "audit_summary option"
  su_routing :: "routing_report option"

record inspection =
  in_summary :: inspect_summary
  in_violations :: "string list"
  in_warnings :: "jsval list"
  in_normalizations :: "string list"

record input_info =
  ii_path :: "string option"
  ii_source :: input_source
  ii_type :: trace_type
  ii_hash_root :: jsval

definition last_route_response :: "jsval list \<Rightarrow> jsval" where
  "last_route_response fs =
     (case filter (\<lambda>f. pget f ''type'' = JStr ''route_response'') (rev fs) of f # _ \<Rightarrow> f | [] \<Rightarrow> JUndef)"

definition route_payload_branches :: "jsval \<Rightarrow> jsval" where
  "route_payload_branches lrr =
     (let payload = pget lrr ''payload''
      in coalesce (coalesce (pget payload ''branches'') (pget payload ''routes'')) payload)"

definition route_notes :: "jsval \<Rightarrow> jsval list" where
  "route_notes lrr = (case pget (pget lrr ''payload'') ''notes'' of JArr ns \<Rightarrow> ns | _ \<Rightarrow> [])"

text \<open>\<open>complianceProfile || replayCheck || input.type === 'audit_log'\<close>.\<close>

definition wants_compliance :: "string option \<Rightarrow> bool \<Rightarrow> trace_type \<Rightarrow> bool" where
  "wants_compliance profile replayCheck ty =
     ((case profile of Some p \<Rightarrow> p \<noteq> [] | None \<Rightarrow> False) \<or> replayCheck \<or> ty = AuditLog)"

definition audited_profile :: "string option \<Rightarrow> bool" where
  "audited_profile profile = (profile \<in> {Some ''fintech'', Some ''agentic'', Some ''agents''})"

definition compliance_and_audit ::
  "inspect_env \<Rightarrow> jsval list \<Rightarrow> jsval list \<Rightarrow> input_info \<Rightarrow> string option \<Rightarrow> bool \<Rightarrow> jsval \<Rightarrow> continuity_report
    \<Rightarrow> (compliance_report option \<times> audit_summary option) inspected" where
  "compliance_and_audit env fs es input profile replayCheck identity continuity =
     (if \<not> wants_compliance profile replayCheck (ii_type input) then Inr (None, None)
      else bind_err (compliance_of env es (ii_type input) profile identity continuity) (\<lambda>c.
             if audited_profile profile
             then Inr (Some (with_details (audit_parts profile c fs) c), Some (audit_of_parts (audit_parts profile c fs)))
             else Inr (Some c, None)))"

definition summarize ::
  "inspect_env \<Rightarrow> jsval list \<Rightarrow> jsval list \<Rightarrow> input_info \<Rightarrow> string option \<Rightarrow> bool \<Rightarrow> inspection inspected" where
  "summarize env fs es input complianceArg replayCheck =
     bind_err (normalizeFrameConstraints fs) (\<lambda>nfs.
       let normalizedFrames = map nf_frame nfs;
           continuity = detectContinuity normalizedFrames;
           driftHistory = collectDriftHistory normalizedFrames;
           identity = extractIdentity normalizedFrames;
           orientationStable = (\<exists>f \<in> set normalizedFrames. pget f ''type'' = JStr ''orientation'');
           lrr = last_route_response normalizedFrames
       in bind_err (normalizeBranches env (route_payload_branches lrr)) (\<lambda>nb.
          let warnings = route_notes lrr @ map JStr (nb_notes nb @ ct_notes continuity @
                if_push (\<not> orientationStable) ''no orientation frame observed'' @
                if_push (driftHistory = []) ''no drift snapshots observed (focus_snapshot missing)'' @
                if_push (lrr = JUndef) ''no route_response frame observed'')
          in bind_err (compliance_and_audit env fs es input complianceArg replayCheck identity continuity) (\<lambda>ca.
             bind_err (groupFutures (nb_branches nb)) (\<lambda>fu.
             Inr \<lparr>in_summary =
                    \<lparr>su_generated_at = stableGeneratedAt env,
                     su_build = case_option ''dev'' id (env_build env),
                     su_source = ii_source input, su_path = ii_path input,
                     su_frames = length normalizedFrames, su_type = ii_type input, su_hash_root = ii_hash_root input,
                     su_identity = identity, su_stable = orientationStable,
                     su_drift_level = driftLevelFromHistory driftHistory, su_drift_history = driftHistory,
                     su_focus_momentum = extractFocusMomentum normalizedFrames,
                     su_continuity = continuity, su_branches = nb_branches nb, su_futures = fu,
                     su_notes = warnings, su_compliance = fst ca, su_audit = snd ca, su_routing = None\<rparr>,
                  in_violations = concat (map nf_violations nfs) @ validateTraceFrames normalizedFrames @ nb_violations nb,
                  in_warnings = warnings,
                  in_normalizations = concat (map nf_normalizations nfs) @ nb_normalizations nb\<rparr>))))"

end
