(* ===== verification/Inspect_Report.thy ===== *)
theory Inspect_Report
  imports Inspect_Summary
begin

text \<open>
  The trace inspector, third part: the reports it prints from a summary, as JSON
  (\<open>formatJson\<close>, \<open>exportJsonLd\<close>), for people (\<open>formatHuman\<close>) and as the text of a PDF (\<open>exportPdf\<close>;
  the PDF library is not part of the sources, the model keeps the texts it is given, in order).
\<close>

section \<open>JSON\<close>

definition opt_json :: "('a \<Rightarrow> jsval) \<Rightarrow> 'a option \<Rightarrow> jsval" where
  "opt_json f x = (case x of None \<Rightarrow> JUndef | Some y \<Rightarrow> f y)"

definition nat_json :: "nat \<Rightarrow> jsval" where "nat_json n = JNum (of_nat n)"

definition strs_json :: "string list \<Rightarrow> jsval" where "strs_json xs = JArr (map JStr xs)"

definition drift_level_text :: "drift_level \<Rightarrow> string" where
  "drift_level_text l = (case l of Low \<Rightarrow> ''low'' | Medium \<Rightarrow> ''medium'' | High \<Rightarrow> ''high'' | Unknown \<Rightarrow> ''unknown'')"

definition source_text :: "input_source \<Rightarrow> string" where
  "source_text x = (case x of Stdin \<Rightarrow> ''stdin'' | File \<Rightarrow> ''file'')"

definition severity_text :: "severity \<Rightarrow> string" where
  "severity_text x = (case x of CRITICAL \<Rightarrow> ''CRITICAL'' | HIGH \<Rightarrow> ''HIGH'' | MODERATE \<Rightarrow> ''MODERATE'' | LOW \<Rightarrow> ''LOW'')"

definition verdict_text :: "verdict \<Rightarrow> string" where
  "verdict_text x = (case x of PASS \<Rightarrow> ''PASS'' | FAIL \<Rightarrow> ''FAIL'')"

definition risk_text :: "risk \<Rightarrow> string" where
  "risk_text x = (case x of RiskLow \<Rightarrow> ''LOW'' | RiskMedium \<Rightarrow> ''MEDIUM'' | RiskHigh \<Rightarrow> ''HIGH'')"

definition bool_text :: "bool \<Rightarrow> string" where
  "bool_text b = (if b then ''true'' else ''false'')"

definition drift_json :: "drift_snapshot \<Rightarrow> jsval" where
  "drift_json d = JObj [(''id'', ds_id d), (''ts'', ds_ts d), (''value'', ds_value d), (''note'', ds_note d)]"

definition branch_json :: "branch_insight \<Rightarrow> jsval" where
  "branch_json b = JObj [(''id'', bi_id b), (''confidence'', opt_json JNum (bi_confidence b)), (''status'', bi_status b),
     (''path'', bi_path b), (''class'', bi_class b), (''reason'', bi_reason b),
     (''constraints'', opt_json strs_json (bi_constraints b))]"

definition compliance_json :: "compliance_report \<Rightarrow> jsval" where
  "compliance_json c = JObj [(''profile'', JStr (cr_profile c)),
     (''trace_integrity'', JStr (trace_status (cr_trace_integrity c))),
     (''first_violation_index'', opt_json nat_json (cr_first_violation_index c)),
     (''identity_binding'', JStr (if cr_identity_ok c then ''ok'' else ''violated'')),
     (''continuity'', JObj [(''breaks'', nat_json (cr_breaks c))]),
     (''replay_determinism'', JStr (if cr_replay_ok c then ''ok'' else ''failed'')),
     (''determinism_details'', opt_json JStr (cr_determinism_details c)),
     (''protocol'', JStr ''LTP/0.1''), (''node'', JStr ''ltp-rust-node@0.1.0''),
     (''signatures'', opt_json (\<lambda>s. JObj [(''present'', JBool (si_present s)), (''valid'', JBool (si_valid s)),
        (''key_ids'', JArr (si_key_ids s)), (''algorithm'', opt_json JStr (si_algorithm s))]) (cr_signatures c))]"

definition violation_json :: "compliance_violation \<Rightarrow> jsval" where
  "violation_json v = JObj [(''rule_id'', JStr (rule_id v)), (''severity'', JStr (severity_text (severity v))),
     (''frame_index'', JNum (of_int (frame_index v))), (''source'', viol_source v), (''action'', JStr (viol_action v)),
     (''evidence'', JStr (evidence v))]"

definition audit_json :: "audit_summary \<Rightarrow> jsval" where
  "audit_json a = JObj [(''verdict'', JStr (verdict_text (au_verdict a))), (''risk_level'', JStr (risk_text (au_risk a))),
     (''failed_checks'', strs_json (au_failed_checks a)), (''violations'', JArr (map violation_json (au_violations a))),
     (''violations_count_by_severity'', JObj (map (\<lambda>(s, n). (severity_text s, nat_json n)) (au_counts a))),
     (''regulator_ready'', JBool (au_regulator_ready a))]"

definition routing_json :: "routing_report \<Rightarrow> jsval" where
  "routing_json r = JObj [(''checked'', JBool True), (''system_remained_coherent'', JBool (rr_coherent r)),
     (''first_unsafe_transition_index'', case_option JNull nat_json (rr_first_unsafe r)),
     (''state_transitions'', nat_json (length (rr_path r))), (''state_transition_path'', strs_json (rr_path r)),
     (''routing_stats'', JObj [(''executed'', nat_json (rr_executed r)), (''deferred'', nat_json (rr_deferred r)),
        (''replayed'', nat_json (rr_replayed r)), (''frozen'', nat_json (rr_frozen r))])]"

text \<open>A property of a conditional spread: absent rather than undefined.\<close>

definition opt_prop :: "string \<Rightarrow> jsval option \<Rightarrow> (string \<times> jsval) list" where
  "opt_prop k v = (case v of None \<Rightarrow> [] | Some w \<Rightarrow> [(k, w)])"

definition nonempty_opt :: "string option \<Rightarrow> jsval option" where
  "nonempty_opt s = (case s of Some t \<Rightarrow> if t \<noteq> [] then Some (JStr t) else None | None \<Rightarrow> None)"

definition contract_version :: string where "contract_version = ''1.0''"

definition input_json :: "inspect_summary \<Rightarrow> jsval" where
  "input_json s = JObj ([(''source'', JStr (source_text (su_source s)))] @ opt_prop ''path'' (nonempty_opt (su_path s)) @
     [(''frames'', nat_json (su_frames s)), (''format'', JStr ''jsonl''),
      (''type'', JStr (case su_type s of Raw \<Rightarrow> ''raw'' | AuditLog \<Rightarrow> ''audit_log'')), (''hash_root'', su_hash_root s)])"

definition summary_json :: "inspect_summary \<Rightarrow> jsval" where
  "summary_json s = JObj (
     [(''contract'', JObj [(''name'', JStr ''ltp-inspect''), (''version'', JStr contract_version),
        (''schema'', JStr ''docs/contracts/ltp-inspect.v1.schema.json'')]),
      (''generated_at'', JStr (su_generated_at s)),
      (''tool'', JObj [(''name'', JStr ''ltp:inspect''), (''build'', JStr (su_build s))]),
      (''input'', input_json s),
      (''orientation'', JObj ([(''identity'', su_identity s), (''stable'', JBool (su_stable s)),
         (''drift_level'', JStr (drift_level_text (su_drift_level s))),
         (''drift_history'', JArr (map drift_json (su_drift_history s)))] @
         opt_prop ''focus_momentum'' (map_option JNum (su_focus_momentum s)))),
      (''continuity'', JObj ([(''preserved'', JBool (ct_preserved (su_continuity s))),
         (''notes'', strs_json (ct_notes (su_continuity s)))] @
         opt_prop ''token'' (nonempty_opt (ct_token (su_continuity s))))),
      (''branches'', JArr (map branch_json (su_branches s))),
      (''futures'', JObj [(''admissible'', JArr (map branch_json (fu_admissible (su_futures s)))),
         (''degraded'', JArr (map branch_json (fu_degraded (su_futures s)))),
         (''blocked'', JArr (map branch_json (fu_blocked (su_futures s))))]),
      (''notes'', JArr (su_notes s)),
      (''compliance'', opt_json compliance_json (su_compliance s)),
      (''audit_summary'', opt_json audit_json (su_audit s))] @
     opt_prop ''continuity_routing'' (map_option routing_json (su_routing s)))"

definition canonicalizeSummary :: "inspect_summary \<Rightarrow> jsval" where
  "canonicalizeSummary s = case_option JUndef id (json_copy (summary_json s))"

definition formatJson :: "inspect_summary \<Rightarrow> bool \<Rightarrow> string" where
  "formatJson s pretty =
     elem_text (if pretty then json_pretty (canonicalizeSummary s) [] else json_stringify (canonicalizeSummary s))"

definition json_ld :: "inspect_summary \<Rightarrow> string" where
  "json_ld s = elem_text (json_pretty (JObj
     [(''@context'', JStr ''https://w3id.org/ltp/v0.1/context.jsonld''), (''@type'', JStr ''ComplianceReport''),
      (''generatedAt'', JStr (su_generated_at s)),
      (''integrity'', JObj [(''hashRoot'', su_hash_root s),
         (''status'', opt_json (\<lambda>c. JStr (trace_status (cr_trace_integrity c))) (su_compliance s))]),
      (''compliance'', opt_json compliance_json (su_compliance s)), (''summary'', summary_json s)]) [])"

section \<open>Text\<close>

definition formatDriftHistory :: "drift_snapshot list \<Rightarrow> string" where
  "formatDriftHistory history =
     (if history = [] then ''(none)''
      else js_join '' -> '' (map (\<lambda>entry.
             js_str (coalesce (coalesce (ds_id entry) (ds_ts entry)) (JStr ''frame'')) @ '':'' @
             (case ds_value entry of JNum n \<Rightarrow> js_to_fixed 2 n | v \<Rightarrow> js_str v) @
             (if truthy (ds_note entry) then '' ('' @ js_str (ds_note entry) @ '')'' else [])) history))"

definition formatBranch :: "branch_insight \<Rightarrow> string" where
  "formatBranch b =
     ''- '' @ js_join '' '' (
       [js_str (bi_id b), ''score='' @ (case bi_confidence b of Some c \<Rightarrow> js_to_fixed 2 c | None \<Rightarrow> ''NA''),
        ''status='' @ js_str (bi_status b)] @
       if_push (truthy (bi_reason b)) (''reason='' @ js_str (bi_reason b)) @
       if_push (truthy (bi_path b)) (''path='' @ js_str (bi_path b)) @
       (case bi_constraints b of Some (c # cs) \<Rightarrow> [''constraints='' @ js_join ''|'' (c # cs)] | _ \<Rightarrow> []))"

definition compliance_lines :: "compliance_report \<Rightarrow> string list" where
  "compliance_lines c =
     [[], ''COMPLIANCE REPORT'', ''profile: '' @ cr_profile c,
      ''trace_integrity: '' @ trace_status (cr_trace_integrity c) @ '' '' @
        (case cr_first_violation_index c of Some i \<Rightarrow> ''(fail @ '' @ nat_str i @ '')'' | None \<Rightarrow> []),
      ''identity_binding: '' @ (if cr_identity_ok c then ''ok'' else ''violated''),
      ''replay_determinism: '' @ (if cr_replay_ok c then ''ok'' else ''failed'')] @
     (case cr_signatures c of
        Some s \<Rightarrow> if_push (si_present s)
          (''signatures: verified (keys: '' @ js_join '', '' (map js_str (si_key_ids s)) @ '')'')
      | None \<Rightarrow> [])"

definition audit_lines :: "audit_summary \<Rightarrow> string list" where
  "audit_lines a =
     [[], ''AUDIT SUMMARY'', ''VERDICT: '' @ verdict_text (au_verdict a), ''risk_level: '' @ risk_text (au_risk a),
      ''regulator_ready: '' @ bool_text (au_regulator_ready a)] @
     (if au_violations a = [] then []
      else [[], ''VIOLATIONS:''] @ concat (map (\<lambda>v.
        [''  ['' @ severity_text (severity v) @ ''] '' @ rule_id v @ '' @ #'' @ int_str (frame_index v),
         ''    Evidence: '' @ evidence v]) (au_violations a)))"

definition continuity_text :: "continuity_report \<Rightarrow> string" where
  "continuity_text c = ''continuity: '' @ (if ct_preserved c then ''preserved'' else ''rotated'') @
     (case ct_token c of Some t \<Rightarrow> if t \<noteq> [] then '' ('' @ t @ '')'' else [] | None \<Rightarrow> [])"

definition future_lines :: "string \<Rightarrow> branch_insight list \<Rightarrow> string list" where
  "future_lines title bs = (if bs = [] then [] else title # map formatBranch bs)"

definition futures_lines :: "futures \<Rightarrow> string list" where
  "futures_lines f =
     (if fu_admissible f = [] \<and> fu_degraded f = [] \<and> fu_blocked f = [] then [''none observed'']
      else future_lines ''admissible:'' (fu_admissible f) @ future_lines ''degraded:'' (fu_degraded f) @
           future_lines ''blocked:'' (fu_blocked f))"

definition formatHuman :: "inspect_summary \<Rightarrow> bool \<Rightarrow> string" where
  "formatHuman s includeBanner = js_join [newline] (
     if_push includeBanner (''LTP INSPECTOR  v'' @ contract_version) @
     [''input: '' @ case_option (source_text (su_source s)) id (su_path s) @ ''  time: '' @ su_generated_at s] @
     case_option [] compliance_lines (su_compliance s) @
     case_option [] audit_lines (su_audit s) @
     [[], ''IDENTITY'', ''identity: '' @ js_str (su_identity s), continuity_text (su_continuity s),
      [], ''ORIENTATION'', ''stable: '' @ (if su_stable s then ''yes'' else ''unknown''),
      ''focus_momentum: '' @ case_option ''unknown'' num_str (su_focus_momentum s),
      ''drift: '' @ drift_level_text (su_drift_level s),
      ''drift_history: '' @ formatDriftHistory (su_drift_history s),
      [], ''FUTURES (admissible / degraded / blocked)''] @
     futures_lines (su_futures s) @
     (if su_notes s = [] then [] else [[], ''NOTES / WARNINGS''] @ map (\<lambda>n. ''- '' @ js_str n) (su_notes s)))"

text \<open>The texts given to the PDF document; colours, sizes and spacing are left out.\<close>

definition or_default :: "string \<Rightarrow> string \<Rightarrow> string" where
  "or_default s d = (if s = [] then d else s)"

definition pdf_texts :: "inspect_summary \<Rightarrow> string list" where
  "pdf_texts s =
     [''LTP Compliance Artifact''] @
     (case su_audit s of
        None \<Rightarrow> []
      | Some a \<Rightarrow>
          [''Audit Summary'', ''Verdict: '' @ verdict_text (au_verdict a), ''Risk Level: '' @ risk_text (au_risk a),
           ''Regulator Ready: '' @ bool_text (au_regulator_ready a)] @
          (if au_violations a = [] then []
           else ''Violations'' # concat (map (\<lambda>v.
             [''['' @ severity_text (severity v) @ ''] '' @ rule_id v @ '' @ Frame #'' @ int_str (frame_index v),
              ''  Evidence: '' @ evidence v]) (au_violations a)))) @
     [''Generated At: '' @ su_generated_at s, ''Tool: ltp:inspect (build: '' @ su_build s @ '')'',
      ''Input: '' @ or_default (case_option [] id (su_path s)) (source_text (su_source s)),
      ''Hash Root: '' @ js_str (js_or (su_hash_root s) (JStr ''N/A'')), ''Compliance Status''] @
     (case su_compliance s of
        None \<Rightarrow> [''No compliance profile active.'']
      | Some c \<Rightarrow>
          [''Profile: '' @ cr_profile c, ''Trace Integrity: '' @ trace_status (cr_trace_integrity c),
           ''Identity Binding: '' @ (if cr_identity_ok c then ''ok'' else ''violated''),
           ''Replay Determinism: '' @ (if cr_replay_ok c then ''ok'' else ''failed'')] @
          (case cr_signatures c of
             None \<Rightarrow> []
           | Some g \<Rightarrow>
               [''Signatures:'', ''  Present: '' @ bool_text (si_present g),
                ''  Key IDs: '' @ or_default (js_join '', '' (map js_str (si_key_ids g))) ''None'',
                ''  Algorithm: '' @ or_default (case_option [] id (si_algorithm g)) ''N/A''])) @
     [''Orientation Summary'', ''Identity: '' @ js_str (su_identity s),
      ''Drift Level: '' @ drift_level_text (su_drift_level s),
      ''Continuity: '' @ (if ct_preserved (su_continuity s) then ''Preserved'' else ''Broken''),
      ''Futures'', ''Admissible: '' @ nat_str (length (fu_admissible (su_futures s))),
      ''Degraded: '' @ nat_str (length (fu_degraded (su_futures s))),
      ''Blocked: '' @ nat_str (length (fu_blocked (su_futures s)))]"

end
