(* ===== verification/Inspect_Args.thy ===== *)
theory Inspect_Args
  imports Inspect_Trace
begin

text \<open>
  The command line of the trace inspector: \<open>parseArgs\<close> with its helpers, and a printer of command
  lines (\<open>command_line\<close>) that serves as its specification: parsing undoes printing, so every
  combination of options can be given and no option disturbs another.
\<close>

section \<open>Parsing\<close>

datatype command = Trace | Replay | Explain | Help
datatype output_format = FormatJson | FormatHuman
datatype export_format = ExportJson | ExportJsonLd | ExportPdf
datatype color_mode = ColorAuto | ColorAlways | ColorNever

record parsed_args =
  arg_command :: "command option"
  arg_explicitHelp :: bool
  arg_input :: "string option"
  arg_strict :: bool
  arg_format :: output_format
  arg_exportFormat :: "export_format list"
  arg_pretty :: bool
  arg_from :: "string option"
  arg_branch :: "string option"
  arg_at :: "string option"
  arg_color :: color_mode
  arg_quiet :: bool
  arg_verbose :: bool
  arg_output :: "string option"
  arg_compliance :: "string option"
  arg_profile :: "string option"
  arg_replayCheck :: bool
  arg_continuity :: bool

text \<open>The value of a flag is the next token, here the head of the rest.\<close>

definition requireValue :: "string list \<Rightarrow> string \<Rightarrow> string inspected" where
  "requireValue rest flag =
     (case rest of
        [] \<Rightarrow> Inl (CliError (''Missing value for '' @ flag) 2)
      | value # _ \<Rightarrow>
          if value = [] \<or> starts_with ''-'' value \<and> value \<noteq> ''-''
          then Inl (CliError (''Missing value for '' @ flag) 2) else Inr value)"

definition requireInlineValue :: "string \<Rightarrow> string \<Rightarrow> string inspected" where
  "requireInlineValue token flag =
     (let value = js_join ''='' (tl (split_on CHR ''='' token))
      in if value = [] then Inl (CliError (''Missing value for '' @ flag) 2) else Inr value)"

definition to_format :: "string \<Rightarrow> output_format" where
  "to_format s = (if s = ''json'' then FormatJson else FormatHuman)"

definition to_color :: "string \<Rightarrow> color_mode" where
  "to_color s = (if s = ''always'' then ColorAlways else if s = ''never'' then ColorNever else ColorAuto)"

definition to_export :: "string \<Rightarrow> export_format inspected" where
  "to_export s =
     (if s = ''json'' then Inr ExportJson else if s = ''jsonld'' then Inr ExportJsonLd
      else if s = ''pdf'' then Inr ExportPdf
      else Inl (CliError (''Unsupported export format: '' @ s) 2))"

definition add_export :: "string \<Rightarrow> parsed_args \<Rightarrow> parsed_args inspected" where
  "add_export s a = bind_err (to_export s) (\<lambda>f. Inr (a\<lparr>arg_exportFormat := arg_exportFormat a @ [f]\<rparr>))"

text \<open>
  The flags that take a value, with what their value does. The same text is accepted as
  \<open>--flag=value\<close> and as \<open>--flag value\<close>; the second component lists the spellings of the flag.
\<close>

definition value_flags :: "(string \<times> string list \<times> (string \<Rightarrow> parsed_args \<Rightarrow> parsed_args inspected)) list" where
  "value_flags =
     [(''--input'', [''--input'', ''-i''], \<lambda>v a. Inr (a\<lparr>arg_input := Some v\<rparr>)),
      (''--format'', [''--format''], \<lambda>v a. Inr (a\<lparr>arg_format := to_format v\<rparr>)),
      (''--from'', [''--from''], \<lambda>v a. Inr (a\<lparr>arg_from := Some v\<rparr>)),
      (''--branch'', [''--branch''], \<lambda>v a. Inr (a\<lparr>arg_branch := Some v\<rparr>)),
      (''--at'', [''--at''], \<lambda>v a. Inr (a\<lparr>arg_at := Some v\<rparr>)),
      (''--color'', [''--color''], \<lambda>v a. Inr (a\<lparr>arg_color := to_color v\<rparr>)),
      (''--output'', [''--output'', ''-o''], \<lambda>v a. Inr (a\<lparr>arg_output := Some v\<rparr>)),
      (''--compliance'', [''--compliance''], \<lambda>v a. Inr (a\<lparr>arg_compliance := Some v\<rparr>)),
      (''--profile'', [''--profile''], \<lambda>v a. Inr (a\<lparr>arg_profile := Some v\<rparr>)),
      (''--export'', [''--export''], add_export)]"

text \<open>The flags without a value; every other token is passed over.\<close>

definition set_switch :: "string \<Rightarrow> parsed_args \<Rightarrow> parsed_args" where
  "set_switch token a =
     (if token = ''--json'' then a\<lparr>arg_format := FormatJson\<rparr>
      else if token = ''--text'' \<or> token = ''--human'' then a\<lparr>arg_format := FormatHuman\<rparr>
      else if token = ''--pretty'' then a\<lparr>arg_pretty := True\<rparr>
      else if token = ''--strict'' then a\<lparr>arg_strict := True\<rparr>
      else if token = ''--quiet'' \<or> token = ''-q'' then a\<lparr>arg_quiet := True\<rparr>
      else if token = ''--verbose'' \<or> token = ''-v'' then a\<lparr>arg_verbose := True\<rparr>
      else if token = ''--replay-check'' then a\<lparr>arg_replayCheck := True\<rparr>
      else if token = ''--continuity'' then a\<lparr>arg_continuity := True\<rparr>
      else a)"

definition inline_flag :: "string \<Rightarrow> (string \<times> string list \<times> (string \<Rightarrow> parsed_args \<Rightarrow> parsed_args inspected)) option" where
  "inline_flag token = find (\<lambda>(flag, _). starts_with (flag @ ''='') token) value_flags"

definition spaced_flag :: "string \<Rightarrow> (string \<times> string list \<times> (string \<Rightarrow> parsed_args \<Rightarrow> parsed_args inspected)) option" where
  "spaced_flag token = find (\<lambda>(_, spellings, _). token \<in> set spellings) value_flags"

fun parse_tokens :: "string list \<Rightarrow> parsed_args \<Rightarrow> parsed_args inspected" where
  "parse_tokens [] a = Inr a"
| "parse_tokens (token # rest) a =
     (case inline_flag token of
        Some (flag, _, act) \<Rightarrow>
          bind_err (requireInlineValue token flag) (\<lambda>v. bind_err (act v a) (parse_tokens rest))
      | None \<Rightarrow>
          (case spaced_flag token of
             Some (flag, _, act) \<Rightarrow>
               bind_err (requireValue rest flag) (\<lambda>v. bind_err (act v a) (parse_tokens (tl rest)))
           | None \<Rightarrow> parse_tokens rest (set_switch token a)))"

definition to_command :: "string \<Rightarrow> command option" where
  "to_command s =
     (if s = ''trace'' then Some Trace else if s = ''replay'' then Some Replay
      else if s = ''explain'' then Some Explain else if s = ''help'' then Some Help else None)"

definition initial_args :: "command option \<Rightarrow> bool \<Rightarrow> parsed_args" where
  "initial_args c help =
     \<lparr>arg_command = c, arg_explicitHelp = help, arg_input = None, arg_strict = False, arg_format = FormatHuman,
      arg_exportFormat = [], arg_pretty = False, arg_from = None, arg_branch = None, arg_at = None,
      arg_color = ColorAuto, arg_quiet = False, arg_verbose = False, arg_output = None, arg_compliance = None,
      arg_profile = None, arg_replayCheck = False, arg_continuity = False\<rparr>"

definition finish_args :: "parsed_args \<Rightarrow> parsed_args" where
  "finish_args a =
     (let a1 = a\<lparr>arg_exportFormat := js_nub (arg_exportFormat a)\<rparr>
      in case arg_profile a1 of
           Some p \<Rightarrow> if p \<noteq> [] \<and> arg_compliance a1 \<in> {None, Some []} then a1\<lparr>arg_compliance := Some p\<rparr> else a1
         | None \<Rightarrow> a1)"

definition parseArgs :: "string list \<Rightarrow> parsed_args inspected" where
  "parseArgs argv =
     (let positional = (case argv of [] \<Rightarrow> None | t # _ \<Rightarrow> to_command t);
          rest = (if positional = None then argv else tl argv);
          asks = (''--help'' \<in> set rest \<or> ''-h'' \<in> set rest);
          explicitHelp = (positional = Some Help \<or> asks);
          cmd = (if asks \<and> positional = None then Some Help else positional)
      in bind_err (parse_tokens rest (initial_args cmd explicitHelp)) (\<lambda>a. Inr (finish_args a)))"

section \<open>Printing a command line\<close>

definition opt_flag :: "string \<Rightarrow> string option \<Rightarrow> string list" where
  "opt_flag flag x = (case x of None \<Rightarrow> [] | Some v \<Rightarrow> [flag, v])"

definition opt_switch :: "string \<Rightarrow> bool \<Rightarrow> string list" where
  "opt_switch flag b = (if b then [flag] else [])"

definition command_name :: "command \<Rightarrow> string" where
  "command_name c = (case c of Trace \<Rightarrow> ''trace'' | Replay \<Rightarrow> ''replay'' | Explain \<Rightarrow> ''explain'' | Help \<Rightarrow> ''help'')"

definition format_name :: "output_format \<Rightarrow> string" where
  "format_name f = (case f of FormatJson \<Rightarrow> ''json'' | FormatHuman \<Rightarrow> ''human'')"

definition color_name :: "color_mode \<Rightarrow> string" where
  "color_name c = (case c of ColorAuto \<Rightarrow> ''auto'' | ColorAlways \<Rightarrow> ''always'' | ColorNever \<Rightarrow> ''never'')"

definition export_name :: "export_format \<Rightarrow> string" where
  "export_name f = (case f of ExportJson \<Rightarrow> ''json'' | ExportJsonLd \<Rightarrow> ''jsonld'' | ExportPdf \<Rightarrow> ''pdf'')"

definition option_tokens :: "parsed_args \<Rightarrow> string list" where
  "option_tokens a =
     opt_flag ''--input'' (arg_input a) @ opt_switch ''--strict'' (arg_strict a) @
     [''--format'', format_name (arg_format a)] @
     concat (map (\<lambda>f. [''--export'', export_name f]) (arg_exportFormat a)) @
     opt_switch ''--pretty'' (arg_pretty a) @ opt_flag ''--from'' (arg_from a) @
     opt_flag ''--branch'' (arg_branch a) @ opt_flag ''--at'' (arg_at a) @
     [''--color'', color_name (arg_color a)] @ opt_switch ''--quiet'' (arg_quiet a) @
     opt_switch ''--verbose'' (arg_verbose a) @ opt_flag ''--output'' (arg_output a) @
     opt_flag ''--compliance'' (arg_compliance a) @ opt_flag ''--profile'' (arg_profile a) @
     opt_switch ''--replay-check'' (arg_replayCheck a) @ opt_switch ''--continuity'' (arg_continuity a)"

definition command_line :: "parsed_args \<Rightarrow> string list" where
  "command_line a = (case arg_command a of None \<Rightarrow> [] | Some c \<Rightarrow> [command_name c]) @ option_tokens a"

text \<open>
  Options a command line can express: a command other than help, values that are not empty and do
  not look like a flag, no repeated export format, and a compliance profile whenever a profile
  is given.
\<close>

definition flag_value :: "string \<Rightarrow> bool" where
  "flag_value v = (v \<noteq> [] \<and> (\<not> starts_with ''-'' v \<or> v = ''-''))"

definition opt_value :: "string option \<Rightarrow> bool" where
  "opt_value x = (case x of None \<Rightarrow> True | Some v \<Rightarrow> flag_value v)"

definition expressible :: "parsed_args \<Rightarrow> bool" where
  "expressible a \<longleftrightarrow> arg_command a \<in> {Some Trace, Some Replay, Some Explain} \<and> \<not> arg_explicitHelp a \<and>
     distinct (arg_exportFormat a) \<and> opt_value (arg_input a) \<and> opt_value (arg_from a) \<and> opt_value (arg_branch a) \<and>
     opt_value (arg_at a) \<and> opt_value (arg_output a) \<and> opt_value (arg_compliance a) \<and> opt_value (arg_profile a) \<and>
     (arg_profile a \<noteq> None \<longrightarrow> arg_compliance a \<noteq> None)"

section \<open>Reading one option\<close>

lemma requireValue_ok: "flag_value v \<Longrightarrow> requireValue (v # rest) flag = Inr v"
  by (auto simp: requireValue_def flag_value_def)

lemmas flag_defs = inline_flag_def spaced_flag_def value_flags_def starts_with_def

lemma no_inline:
  "inline_flag ''--input'' = None" "inline_flag ''--format'' = None" "inline_flag ''--from'' = None"
  "inline_flag ''--branch'' = None" "inline_flag ''--at'' = None" "inline_flag ''--color'' = None"
  "inline_flag ''--output'' = None" "inline_flag ''--compliance'' = None" "inline_flag ''--profile'' = None"
  "inline_flag ''--export'' = None" "inline_flag ''--strict'' = None" "inline_flag ''--pretty'' = None"
  "inline_flag ''--quiet'' = None" "inline_flag ''--verbose'' = None" "inline_flag ''--replay-check'' = None"
  "inline_flag ''--continuity'' = None"
  by (simp_all add: flag_defs)

lemma no_spaced:
  "spaced_flag ''--strict'' = None" "spaced_flag ''--pretty'' = None" "spaced_flag ''--quiet'' = None"
  "spaced_flag ''--verbose'' = None" "spaced_flag ''--replay-check'' = None" "spaced_flag ''--continuity'' = None"
  by (simp_all add: flag_defs)

lemma parse_opt_flags:
  "opt_value x \<Longrightarrow> arg_input a = None \<Longrightarrow>
     parse_tokens (opt_flag ''--input'' x @ r) a = parse_tokens r (a\<lparr>arg_input := x\<rparr>)"
  "opt_value x \<Longrightarrow> arg_from a = None \<Longrightarrow>
     parse_tokens (opt_flag ''--from'' x @ r) a = parse_tokens r (a\<lparr>arg_from := x\<rparr>)"
  "opt_value x \<Longrightarrow> arg_branch a = None \<Longrightarrow>
     parse_tokens (opt_flag ''--branch'' x @ r) a = parse_tokens r (a\<lparr>arg_branch := x\<rparr>)"
  "opt_value x \<Longrightarrow> arg_at a = None \<Longrightarrow>
     parse_tokens (opt_flag ''--at'' x @ r) a = parse_tokens r (a\<lparr>arg_at := x\<rparr>)"
  "opt_value x \<Longrightarrow> arg_output a = None \<Longrightarrow>
     parse_tokens (opt_flag ''--output'' x @ r) a = parse_tokens r (a\<lparr>arg_output := x\<rparr>)"
  "opt_value x \<Longrightarrow> arg_compliance a = None \<Longrightarrow>
     parse_tokens (opt_flag ''--compliance'' x @ r) a = parse_tokens r (a\<lparr>arg_compliance := x\<rparr>)"
  "opt_value x \<Longrightarrow> arg_profile a = None \<Longrightarrow>
     parse_tokens (opt_flag ''--profile'' x @ r) a = parse_tokens r (a\<lparr>arg_profile := x\<rparr>)"
  by (cases x; cases a; simp add: opt_flag_def opt_value_def no_inline requireValue_ok;
      simp add: spaced_flag_def value_flags_def requireValue_ok)+

lemma parse_opt_switches:
  "\<not> arg_strict a \<Longrightarrow> parse_tokens (opt_switch ''--strict'' b @ r) a = parse_tokens r (a\<lparr>arg_strict := b\<rparr>)"
  "\<not> arg_pretty a \<Longrightarrow> parse_tokens (opt_switch ''--pretty'' b @ r) a = parse_tokens r (a\<lparr>arg_pretty := b\<rparr>)"
  "\<not> arg_quiet a \<Longrightarrow> parse_tokens (opt_switch ''--quiet'' b @ r) a = parse_tokens r (a\<lparr>arg_quiet := b\<rparr>)"
  "\<not> arg_verbose a \<Longrightarrow> parse_tokens (opt_switch ''--verbose'' b @ r) a = parse_tokens r (a\<lparr>arg_verbose := b\<rparr>)"
  "\<not> arg_replayCheck a \<Longrightarrow>
     parse_tokens (opt_switch ''--replay-check'' b @ r) a = parse_tokens r (a\<lparr>arg_replayCheck := b\<rparr>)"
  "\<not> arg_continuity a \<Longrightarrow>
     parse_tokens (opt_switch ''--continuity'' b @ []) a = parse_tokens [] (a\<lparr>arg_continuity := b\<rparr>)"
  by (cases b; cases a; simp add: opt_switch_def no_inline no_spaced set_switch_def)+

lemma parse_format:
  "parse_tokens (''--format'' # format_name f # r) a = parse_tokens r (a\<lparr>arg_format := f\<rparr>)"
proof -
  have "flag_value (format_name f)" "to_format (format_name f) = f"
    by (cases f; simp add: format_name_def flag_value_def starts_with_def to_format_def)+
  then show ?thesis
    by (simp add: no_inline requireValue_ok) (simp add: spaced_flag_def value_flags_def requireValue_ok)
qed

lemma parse_color:
  "parse_tokens (''--color'' # color_name c # r) a = parse_tokens r (a\<lparr>arg_color := c\<rparr>)"
proof -
  have "flag_value (color_name c)" "to_color (color_name c) = c"
    by (cases c; simp add: color_name_def flag_value_def starts_with_def to_color_def)+
  then show ?thesis
    by (simp add: no_inline requireValue_ok) (simp add: spaced_flag_def value_flags_def requireValue_ok)
qed

lemma parse_exports:
  "parse_tokens (concat (map (\<lambda>f. [''--export'', export_name f]) fs) @ r) a
     = parse_tokens r (a\<lparr>arg_exportFormat := arg_exportFormat a @ fs\<rparr>)"
proof (induction fs arbitrary: a)
  case (Cons f fs)
  have "flag_value (export_name f)" "add_export (export_name f) a = Inr (a\<lparr>arg_exportFormat := arg_exportFormat a @ [f]\<rparr>)"
    by (cases f; simp add: export_name_def flag_value_def starts_with_def add_export_def to_export_def)+
  then have "parse_tokens (''--export'' # export_name f # rest) a
      = parse_tokens rest (a\<lparr>arg_exportFormat := arg_exportFormat a @ [f]\<rparr>)" for rest
    by (simp add: no_inline requireValue_ok) (simp add: spaced_flag_def value_flags_def requireValue_ok)
  then show ?case using Cons by simp
qed simp

section \<open>The round trip\<close>

lemma no_help_tokens:
  assumes "expressible a"
  shows "''--help'' \<notin> set (option_tokens a) \<and> ''-h'' \<notin> set (option_tokens a)"
proof -
  have "opt_value x \<Longrightarrow> f \<noteq> t \<Longrightarrow> starts_with ''-'' t \<Longrightarrow> t \<noteq> ''-'' \<Longrightarrow> t \<notin> set (opt_flag f x)" for x f t
    by (cases x) (auto simp: opt_flag_def opt_value_def flag_value_def)
  moreover have "t \<notin> set (opt_switch f b)" if "f \<noteq> t" for f b t
    using that by (simp add: opt_switch_def)
  moreover have "t \<noteq> format_name f" "t \<noteq> color_name c" "t \<noteq> export_name x" if "starts_with ''-'' t" for t f c x
    using that by (cases f; cases c; cases x; auto simp: format_name_def color_name_def export_name_def starts_with_def)+
  ultimately show ?thesis
    using assms unfolding expressible_def option_tokens_def by (auto simp: starts_with_def)
qed

text \<open>Parsing a printed command line gives the options back: every combination of options
  can be expressed, flags with and without values do not interfere, and the order and the
  duplicates rule of export formats lose nothing.\<close>

theorem args_round_trip:
  assumes "expressible a"
  shows "parseArgs (command_line a) = Inr a"
proof -
  obtain c where c: "arg_command a = Some c" "c \<noteq> Help" using assms by (auto simp: expressible_def)
  have cmd: "to_command (command_name c) = Some c"
    by (cases c) (simp_all add: to_command_def command_name_def)
  have "parse_tokens (option_tokens a) (initial_args (Some c) False) = Inr a"
    using assms c unfolding option_tokens_def append_Cons append_Nil expressible_def
    by (cases a) (simp add: parse_opt_flags parse_opt_switches [simplified] parse_format parse_color parse_exports
        initial_args_def del: parse_tokens.simps(2))
  moreover have "finish_args a = a"
    using assms by (cases a) (auto simp: finish_args_def expressible_def js_nub_distinct Let_def opt_value_def
        flag_value_def split: option.splits)
  ultimately show ?thesis
    using no_help_tokens [OF assms] c cmd by (simp add: parseArgs_def command_line_def)
qed

theorem args_round_trip_witness:
  "parseArgs (command_line ((initial_args (Some Trace) False)\<lparr>arg_input := Some ''-'', arg_strict := True,
       arg_exportFormat := [ExportPdf, ExportJson], arg_compliance := Some ''agentic''\<rparr>))
     = Inr ((initial_args (Some Trace) False)\<lparr>arg_input := Some ''-'', arg_strict := True,
       arg_exportFormat := [ExportPdf, ExportJson], arg_compliance := Some ''agentic''\<rparr>)"
  by (rule args_round_trip) (simp add: expressible_def initial_args_def opt_value_def flag_value_def starts_with_def)

end
