(* ===== verification/Inspect_Cli.thy ===== *)
theory Inspect_Cli
  imports Inspect_Report Inspect_Args
begin

text \<open>
  The trace inspector, last part: the continuity routing check, the commands \<open>trace\<close>, \<open>replay\<close>
  and \<open>explain\<close>, and \<open>execute\<close> with its exit codes. Messages to the writer are collected as lines;
  files written are kept in order, and survive an exception thrown later.
\<close>

section \<open>Continuity routing\<close>

text \<open>The variables of the loop over the frames.\<close>

record routing_state =
  currentState :: string
  stateHistory :: "string list"
  executed :: nat
  deferred :: nat
  replayed :: nat
  frozen :: nat
  firstUnsafe :: "nat option"
  continuityMessages :: "string list"

definition routing_init :: routing_state where
  "routing_init = \<lparr>currentState = ''HEALTHY'', stateHistory = [], executed = 0, deferred = 0, replayed = 0, frozen = 0,
     firstUnsafe = None, continuityMessages = []\<rparr>"

text \<open>\<open>RECOVERY_ACTIONS.some(a => target.includes(a))\<close>: strings and arrays have \<open>includes\<close>.\<close>

definition is_recovery :: "jsval \<Rightarrow> bool inspected" where
  "is_recovery target =
     (case target of
        JStr s \<Rightarrow> Inr (\<exists>a \<in> set RECOVERY_ACTIONS. str_includes s a)
      | JArr xs \<Rightarrow> Inr (\<exists>a \<in> set RECOVERY_ACTIONS. JStr a \<in> set xs)
      | _ \<Rightarrow> Inl (RuntimeError ''targetAction.includes is not a function''))"

definition count_decision :: "string \<Rightarrow> jsval \<Rightarrow> routing_state \<Rightarrow> routing_state" where
  "count_decision decision adm st =
     (if decision = ''EXECUTE'' then st\<lparr>executed := executed st + 1\<rparr>
      else if decision = ''DEFER'' then st\<lparr>deferred := deferred st + 1\<rparr>
      else if decision = ''FREEZE'' then st\<lparr>frozen := frozen st + 1\<rparr>
      else if decision = [] \<and> adm = JBool True then st\<lparr>executed := executed st + 1\<rparr>
      else if decision = [] \<and> adm = JBool False then st\<lparr>deferred := deferred st + 1\<rparr>
      else st)"

definition unsafe_state :: "string \<Rightarrow> bool" where
  "unsafe_state s = (s = ''FAILED'' \<or> s = ''UNSTABLE'')"

definition routing_response :: "nat \<Rightarrow> jsval \<Rightarrow> routing_state \<Rightarrow> routing_state inspected" where
  "routing_response idx frame st =
     (let payload = js_or (pget frame ''payload'') (JObj []);
          adm = pget payload ''admissible'';
          targetAction = js_or (pget payload ''targetState'') (JStr ''unknown'');
          decision = to_upper (js_str (coalesce (pget payload ''decision'') (JStr [])));
          st1 = count_decision decision adm st
      in if unsafe_state (currentState st) \<and> truthy adm
         then bind_err (is_recovery targetAction) (\<lambda>isRecovery.
                if isRecovery then Inr st1
                else Inr (st1\<lparr>firstUnsafe := (case firstUnsafe st of None \<Rightarrow> Some idx | Some i \<Rightarrow> Some i),
                       continuityMessages := continuityMessages st @
                         [''Continuity Violation: Action '' @ [squote] @ js_str targetAction @ [squote] @
                          '' allowed during '' @ currentState st @ '' state at frame #'' @ nat_str idx]\<rparr>))
         else Inr st1)"

definition routing_step :: "nat \<Rightarrow> jsval \<Rightarrow> routing_state \<Rightarrow> routing_state inspected" where
  "routing_step idx frame st =
     (if pget frame ''type'' = JStr ''orientation'' then
        (let status = pget (pget frame ''payload'') ''status''
         in if truthy status
            then Inr (st\<lparr>currentState := to_upper (js_str status),
                        stateHistory := stateHistory st @ [to_upper (js_str status)]\<rparr>)
            else Inr st)
      else if pget frame ''type'' = JStr ''route_request'' then
        (if truthy (pget (pget frame ''payload'') ''replay_context'')
         then Inr (st\<lparr>replayed := replayed st + 1\<rparr>) else Inr st)
      else if pget frame ''type'' = JStr ''route_response'' then routing_response idx frame st
      else Inr st)"

fun routing_run :: "nat \<Rightarrow> jsval list \<Rightarrow> routing_state \<Rightarrow> routing_state inspected" where
  "routing_run i [] st = Inr st"
| "routing_run i (f # fs) st = bind_err (routing_step i f st) (routing_run (Suc i) fs)"

text \<open>\<open>systemCoherent\<close> is set to false exactly when a message is pushed.\<close>

definition coherent :: "routing_state \<Rightarrow> bool" where
  "coherent st = (continuityMessages st = [])"

definition routing_report_of :: "routing_state \<Rightarrow> routing_report" where
  "routing_report_of st =
     \<lparr>rr_coherent = coherent st, rr_first_unsafe = firstUnsafe st, rr_path = stateHistory st,
      rr_executed = executed st, rr_deferred = deferred st, rr_replayed = replayed st, rr_frozen = frozen st\<rparr>"

definition routing_lines :: "routing_state \<Rightarrow> string list" where
  "routing_lines st =
     [[], ''CONTINUITY ROUTING INSPECTION'',
      ''System Remained Coherent: '' @ (if coherent st then ''YES'' else ''NO'')] @
     (if coherent st then []
      else (''First Unsafe Transition: #'' @ (case firstUnsafe st of Some i \<Rightarrow> nat_str i | None \<Rightarrow> ''-1''))
        # continuityMessages st) @
     [''State Transitions Observed: '' @ js_join '' -> '' (stateHistory st),
      ''Routing Decisions: Executed='' @ nat_str (executed st) @ '' Deferred='' @ nat_str (deferred st) @
        '' Replayed='' @ nat_str (replayed st) @ '' Frozen='' @ nat_str (frozen st)]"

section \<open>Files\<close>

datatype file_content = Text string | Pdf "string list"

type_synonym written = "(string \<times> file_content) list"

definition write_file :: "inspect_env \<Rightarrow> string \<Rightarrow> string \<Rightarrow> written \<Rightarrow> written \<times> unit inspected" where
  "write_file env p t w =
     (case env_write_error env p of
        Some e \<Rightarrow> (w, Inl (RuntimeError e))
      | None \<Rightarrow> (w @ [(p, Text t)], Inr ()))"

definition export_ext :: "export_format \<Rightarrow> string" where
  "export_ext f = (case f of ExportJson \<Rightarrow> ''json'' | ExportJsonLd \<Rightarrow> ''jsonld'' | ExportPdf \<Rightarrow> ''pdf'')"

definition export_title :: "export_format \<Rightarrow> string" where
  "export_title f = (case f of ExportJson \<Rightarrow> ''JSON'' | ExportJsonLd \<Rightarrow> ''JSON-LD'' | ExportPdf \<Rightarrow> ''PDF'')"

text \<open>The PDF is written by a stream after the call returns; its errors do not reach the tool.\<close>

definition export_one :: "inspect_env \<Rightarrow> inspect_summary \<Rightarrow> string \<Rightarrow> export_format \<Rightarrow> written \<Rightarrow> written \<times> unit inspected" where
  "export_one env s p f w =
     (case f of
        ExportJson \<Rightarrow> write_file env p (formatJson s True) w
      | ExportJsonLd \<Rightarrow> write_file env p (json_ld s) w
      | ExportPdf \<Rightarrow> (w @ [(p, Pdf (pdf_texts s))], Inr ()))"

fun export_all ::
  "inspect_env \<Rightarrow> inspect_summary \<Rightarrow> string \<Rightarrow> export_format list \<Rightarrow> written \<Rightarrow> written \<times> string list inspected" where
  "export_all env s baseName [] w = (w, Inr [])"
| "export_all env s baseName (f # fs) w =
     (let outputPath = env_in_cwd env (baseName @ ''_compliance.'' @ export_ext f)
      in case export_one env s outputPath f w of
           (w1, Inl e) \<Rightarrow> (w1, Inl e)
         | (w1, Inr _) \<Rightarrow>
             (case export_all env s baseName fs w1 of
                (w2, Inl e) \<Rightarrow> (w2, Inl e)
              | (w2, Inr ls) \<Rightarrow> (w2, Inr ((''Exported '' @ export_title f @ '' to '' @ outputPath) # ls))))"

section \<open>Commands\<close>

definition input_of :: "loaded \<Rightarrow> input_info" where
  "input_of l = \<lparr>ii_path = inputPath l, ii_source = inputSource l, ii_type = trace_type l, ii_hash_root = hash_root l\<rparr>"

definition runInspect :: "inspect_env \<Rightarrow> string \<Rightarrow> inspect_summary inspected" where
  "runInspect env file =
     bind_err (loadFrames env file) (\<lambda>l.
     bind_err (summarize env (frames l) (entries l) (input_of l) None False) (\<lambda>r. Inr (in_summary r)))"

text \<open>The continuity check adds its report and its messages to the result of \<open>summarize\<close>.\<close>

definition with_routing :: "bool \<Rightarrow> routing_state \<Rightarrow> inspection \<Rightarrow> inspection" where
  "with_routing strict st r =
     r\<lparr>in_summary := (in_summary r)\<lparr>su_routing := Some (routing_report_of st)\<rparr>,
       in_violations := in_violations r @ (if strict then continuityMessages st else []),
       in_warnings := in_warnings r @ (if strict then [] else map JStr (continuityMessages st))\<rparr>"

definition trace_result :: "inspect_env \<Rightarrow> parsed_args \<Rightarrow> string \<Rightarrow> (string list \<times> inspection) inspected" where
  "trace_result env a file =
     bind_err (loadFrames env file) (\<lambda>l.
     bind_err (summarize env (frames l) (entries l) (input_of l)
                (case arg_profile a of Some p \<Rightarrow> Some p | None \<Rightarrow> arg_compliance a) (arg_replayCheck a)) (\<lambda>r.
       if \<not> arg_continuity a then Inr ([], r)
       else bind_err (routing_run 0 (frames l) routing_init) (\<lambda>st.
              Inr (if arg_format a = FormatHuman then routing_lines st else [], with_routing (arg_strict a) st r))))"

definition handleTrace ::
  "inspect_env \<Rightarrow> parsed_args \<Rightarrow> string \<Rightarrow> written \<Rightarrow> written \<times> (string list \<times> inspection) inspected" where
  "handleTrace env a file w =
     (case trace_result env a file of
        Inl e \<Rightarrow> (w, Inl e)
      | Inr (ls, r) \<Rightarrow>
          (let report = (if arg_format a = FormatJson then formatJson (in_summary r) (arg_pretty a)
                         else formatHuman (in_summary r) (\<not> arg_quiet a));
               baseName = (if file \<noteq> [] \<and> file \<noteq> ''-'' then env_stem env file else ''ltp-report'')
           in case export_all env (in_summary r) baseName (arg_exportFormat a) w of
                (w1, Inl e) \<Rightarrow> (w1, Inl e)
              | (w1, Inr es) \<Rightarrow> (w1, Inr (ls @ [report] @ es, r))))"

text \<open>\<open>frames.findIndex(p)\<close> where \<open>p\<close> reads a property of each frame.\<close>

fun find_frame :: "(jsval \<Rightarrow> bool) \<Rightarrow> nat \<Rightarrow> jsval list \<Rightarrow> nat option inspected" where
  "find_frame p i [] = Inr None"
| "find_frame p i (f # fs) =
     bind_err (read_prop f ''id'') (\<lambda>_. if p f then Inr (Some i) else find_frame p (Suc i) fs)"

definition replay_line :: "jsval \<Rightarrow> string inspected" where
  "replay_line frame =
     bind_err (read_prop frame ''type'') (\<lambda>ty.
       let ident = pget frame ''id''; token = pget frame ''continuity_token'';
           drift = pget (pget frame ''payload'') ''drift''
       in Inr (''- '' @ js_str ty @ (if truthy ident then ''#'' @ js_str ident else []) @
            (if truthy token then '' ct='' @ js_str token else []) @
            (if ty = JStr ''focus_snapshot'' \<and> drift \<noteq> JUndef then '' drift='' @ js_str drift else [])))"

definition handleReplay :: "inspect_env \<Rightarrow> string \<Rightarrow> string option \<Rightarrow> string list inspected" where
  "handleReplay env file from =
     bind_err (loadFrames env file) (\<lambda>l.
     bind_err (case from of
                 Some x \<Rightarrow> find_frame (\<lambda>f. pget f ''id'' = JStr x \<or> pget f ''ts'' = JStr x) 0 (frames l)
               | None \<Rightarrow> Inr (Some 0)) (\<lambda>startIndex.
     let replayFrames = (case startIndex of Some i \<Rightarrow> drop i (frames l) | None \<Rightarrow> frames l)
     in bind_err (map_err (\<lambda>_. replay_line) 0 replayFrames) (\<lambda>ls.
          Inr ((''Replaying '' @ nat_str (length replayFrames) @ '' frames'' @
                (case from of Some x \<Rightarrow> '' from '' @ x | None \<Rightarrow> []) @ ''...'') # ls))))"

definition explain_target :: "string \<Rightarrow> jsval \<Rightarrow> bool" where
  "explain_target pos f = (pget f ''id'' = JStr pos \<or> js_str (pget f ''ts'') = pos \<or> ''step-'' @ js_str (pget f ''id'') = pos)"

definition preserved_text :: "bool \<Rightarrow> string" where
  "preserved_text b = (if b then ''preserved'' else ''rotated'')"

definition last_drift :: "inspect_summary \<Rightarrow> jsval" where
  "last_drift s = (if su_drift_history s = [] then JUndef else ds_value (last (su_drift_history s)))"

definition or_na :: "jsval \<Rightarrow> string" where
  "or_na v = js_str (coalesce v (JStr ''n/a''))"

definition change_lines :: "inspect_summary option \<Rightarrow> inspect_summary \<Rightarrow> string list" where
  "change_lines previous s =
     (case previous of
        None \<Rightarrow> [''- initial frame (no prior context)'']
      | Some p \<Rightarrow>
          (if last_drift p \<noteq> last_drift s
           then [''- drift '' @ or_na (last_drift p) @ '' -> '' @ or_na (last_drift s)]
           else [''- drift steady at '' @ or_na (last_drift s)]) @
          if_push (su_focus_momentum p \<noteq> su_focus_momentum s)
            (''- focus_momentum '' @ case_option ''n/a'' num_str (su_focus_momentum p) @ '' -> '' @
             case_option ''n/a'' num_str (su_focus_momentum s)) @
          if_push (ct_preserved (su_continuity p) \<noteq> ct_preserved (su_continuity s))
            (''- continuity updated: '' @ preserved_text (ct_preserved (su_continuity p)) @ '' -> '' @
             preserved_text (ct_preserved (su_continuity s))))"

definition explained_branch :: "string option \<Rightarrow> inspect_summary \<Rightarrow> branch_insight option" where
  "explained_branch branchId s =
     (let targetBranch = (case branchId of
            Some b \<Rightarrow> JStr b
          | None \<Rightarrow> (case su_branches s of b # _ \<Rightarrow> bi_id b | [] \<Rightarrow> JUndef))
      in if truthy targetBranch then find (\<lambda>b. bi_id b = targetBranch) (su_branches s) else None)"

definition branch_lines :: "branch_insight option \<Rightarrow> string list" where
  "branch_lines x =
     (case x of
        None \<Rightarrow> [''- none observed'']
      | Some b \<Rightarrow>
          [''- branch '' @ js_str (bi_id b) @ '': status='' @ js_str (bi_status b) @ '' score='' @
             case_option ''NA'' num_str (bi_confidence b) @ '' reason='' @ or_na (bi_reason b)] @
          (case bi_constraints b of Some (c # cs) \<Rightarrow> [''  constraints: '' @ js_join '' | '' (c # cs)] | _ \<Rightarrow> []))"

definition explain_lines ::
  "string option \<Rightarrow> string option \<Rightarrow> jsval list \<Rightarrow> inspect_summary \<Rightarrow> inspect_summary option \<Rightarrow> string list" where
  "explain_lines pos branchId win s previous =
     [''Explain @ '' @ case_option ''last'' id pos @ '' ('' @
        (if win = [] then ''unknown'' else js_str (coalesce (pget (last win) ''type'') (JStr ''unknown''))) @ '')'',
      ''identity: '' @ js_str (su_identity s), continuity_text (su_continuity s), ''constraints active:''] @
     (if collectConstraints win = [] then [''- none observed''] else map (\<lambda>c. ''- '' @ c) (collectConstraints win)) @
     [''futures:''] @ branch_lines (explained_branch branchId s) @
     [''changes since previous step:''] @ change_lines previous s"

definition explain_input :: "loaded \<Rightarrow> input_info" where
  "explain_input l = (input_of l)\<lparr>ii_hash_root := JUndef\<rparr>"

definition handleExplain ::
  "inspect_env \<Rightarrow> string \<Rightarrow> string option \<Rightarrow> string option \<Rightarrow> (string list \<times> string list) inspected" where
  "handleExplain env file pos branchId =
     bind_err (loadFrames env file) (\<lambda>l.
     bind_err (case pos of Some x \<Rightarrow> find_frame (explain_target x) 0 (frames l) | None \<Rightarrow> Inr None) (\<lambda>found.
     let bounded = (case found of Some i \<Rightarrow> i | None \<Rightarrow> length (frames l) - 1);
         win = take (bounded + 1) (frames l); prior = take bounded (frames l)
     in bind_err (summarize env win [] (explain_input l) None False) (\<lambda>r.
        bind_err (if prior = [] then Inr None
                  else bind_err (summarize env prior [] (explain_input l) None False) (\<lambda>q. Inr (Some (in_summary q))))
          (\<lambda>previous. Inr (explain_lines pos branchId win (in_summary r) previous, in_violations r)))))"

section \<open>Execution\<close>

record run_result =
  exit_code :: nat
  stdout :: "string list"
  stderr :: "string list"
  files :: written

definition contract_breaches :: "parsed_args \<Rightarrow> inspection \<Rightarrow> string list" where
  "contract_breaches a r =
     in_violations r @
     (if arg_strict a
      then map (\<lambda>n. ''non-canonical input (normalization would be required): '' @ n) (in_normalizations r) else []) @
     (case su_compliance (in_summary r) of
        None \<Rightarrow> []
      | Some c \<Rightarrow>
          if_push (cr_trace_integrity c \<noteq> Verified)
            (''TRACE INTEGRITY ERROR: '' @ trace_status (cr_trace_integrity c) @ '' (must be '' @ [squote] @
             ''verified'' @ [squote] @ '')'') @
          if_push (\<not> cr_identity_ok c) ''IDENTITY BINDING VIOLATED'' @
          if_push (\<not> cr_replay_ok c) ''REPLAY DETERMINISM FAILED'' @
          (case su_audit (in_summary r) of
             None \<Rightarrow> []
           | Some au \<Rightarrow>
               (let crit = filter (\<lambda>v. severity v = CRITICAL) (au_violations au)
                in if_push (crit \<noteq> [])
                     (''CRITICAL COMPLIANCE VIOLATIONS: '' @ js_join '', '' (map rule_id crit)))))"

definition has_warnings :: "inspection \<Rightarrow> bool" where
  "has_warnings r = (in_warnings r \<noteq> [] \<or> in_normalizations r \<noteq> [])"

definition trace_exit :: "parsed_args \<Rightarrow> inspection \<Rightarrow> nat" where
  "trace_exit a r = (if contract_breaches a r \<noteq> [] then 2 else if has_warnings r then 1 else 0)"

definition color_enabled :: "inspect_env \<Rightarrow> parsed_args \<Rightarrow> bool" where
  "color_enabled env a =
     (arg_color a = ColorAlways \<or> arg_color a = ColorAuto \<and> env_tty env \<and> arg_format a = FormatHuman)"

definition applyColor :: "bool \<Rightarrow> string \<Rightarrow> string \<Rightarrow> string" where
  "applyColor enabled code t = (if enabled then CHR 0x1B # code @ t @ CHR 0x1B # ''[0m'' else t)"

definition status_text :: "inspect_env \<Rightarrow> parsed_args \<Rightarrow> nat \<Rightarrow> string" where
  "status_text env a code =
     (if code = 0 then applyColor (color_enabled env a) ''[32m'' ''OK''
      else if code = 1 then applyColor (color_enabled env a) ''[33m'' ''WARN''
      else applyColor (color_enabled env a) ''[31m'' ''ERROR (contract)'')"

definition trace_errors :: "parsed_args \<Rightarrow> inspection \<Rightarrow> string list" where
  "trace_errors a r =
     (if contract_breaches a r \<noteq> []
      then [''ERROR: Contract violation: '' @ js_join ''; '' (contract_breaches a r),
            ''hint: re-run with --format=json and --pretty for contract view'']
      else if_push (in_normalizations r \<noteq> [])
             (''WARN: normalized output (non-canonical input): '' @ js_join ''; '' (in_normalizations r)))"

definition print_error :: "inspect_error \<Rightarrow> written \<Rightarrow> string list \<Rightarrow> run_result" where
  "print_error e w errs =
     (case e of
        CliError msg code \<Rightarrow>
          \<lparr>exit_code = code, stdout = [],
           stderr = errs @ [''ERROR: '' @ msg,
             if code = 2 then ''hint: pass a JSONL file or pipe JSONL via stdin (use - for stdin)''
             else ''hint: re-run with --format=json to inspect the contract payload'',
             ''example: ltp inspect trace --format=json --input tools/ltp-inspect/fixtures/minimal.frames.jsonl''],
           files = w\<rparr>
      | RuntimeError msg \<Rightarrow>
          \<lparr>exit_code = 2, stdout = [], stderr = errs @ [''Runtime failure: '' @ msg], files = w\<rparr>)"

text \<open>\<open>if (args.output) fs.writeFileSync(...)\<close> and printing of the buffer.\<close>

definition finish_run :: "inspect_env \<Rightarrow> parsed_args \<Rightarrow> nat \<Rightarrow> bool \<Rightarrow> string list \<Rightarrow> string list \<Rightarrow> written \<Rightarrow> run_result" where
  "finish_run env a code prints buffer errs w =
     (let (w1, res) = (case arg_output a of
            Some p \<Rightarrow> if p \<noteq> [] then write_file env p (js_join [newline] buffer) w else (w, Inr ())
          | None \<Rightarrow> (w, Inr ()))
      in case res of
           Inl e \<Rightarrow> print_error e w1 errs
         | Inr _ \<Rightarrow> \<lparr>exit_code = code, stdout = (if prints then buffer else []), stderr = errs, files = w1\<rparr>)"

definition run_trace :: "inspect_env \<Rightarrow> parsed_args \<Rightarrow> string \<Rightarrow> run_result" where
  "run_trace env a file =
     (case handleTrace env a file [] of
        (w, Inl e) \<Rightarrow> print_error e w []
      | (w, Inr (ls, r)) \<Rightarrow>
          (let code = trace_exit a r;
               buffer = ls @ (if arg_format a = FormatHuman \<and> \<not> arg_quiet a
                 then [[], ''RESULT: '' @ status_text env a code @ ''  exit: '' @ nat_str code] else [])
           in finish_run env a code True buffer (trace_errors a r) w))"

definition help_lines :: "string list" where
  "help_lines =
     [''ltp:inspect - orientation inspector (no decisions, no model execution).'', [], ''Usage:'',
      ''  ltp inspect trace --input <frames.jsonl> [--strict] [--format json|human] [--pretty] [--color auto|always|never] [--quiet] [--verbose] [--output <file>] [--compliance fintech] [--replay-check] [--export json|jsonld|pdf]'',
      ''  ltp inspect replay --input <frames.jsonl> [--from <frameId>]'',
      ''  ltp inspect explain --input <frames.jsonl> [--at <frameId|ts>] [--branch <id>]'', [], ''Examples:'',
      ''  ltp inspect trace --input tools/ltp-inspect/fixtures/minimal.frames.jsonl --format=human'',
      ''  ltp inspect trace --input tools/ltp-inspect/fixtures/minimal.frames.jsonl --format=json'',
      ''  ltp inspect trace --continuity --input examples/traces/continuity-outage.trace.jsonl'',
      ''  ltp inspect trace --format=json --quiet --input examples/traces/drift-recovery.jsonl | jq .orientation'',
      ''  ltp inspect explain --input examples/traces/drift-recovery.jsonl --at step-3'', [], ''Output:'',
      ''  JSON (v1 contract) with deterministic ordering for CI. Additional fields remain optional.'',
      ''  Human format shows identity, focus momentum, drift history, continuity, and future branches with rationale.'',
      ''  --strict treats canonicalization needs as contract violations (exit 2).'',
      ''  --quiet suppresses banners/RESULT lines (primary report output remains).'', [], ''Exit codes:'',
      ''  0 OK - contract produced'', ''  1 warnings only (normalized output or degraded signals)'',
      ''  2 error (invalid input, contract violation, or runtime failure)'']"

definition run_command :: "inspect_env \<Rightarrow> parsed_args \<Rightarrow> command \<Rightarrow> string \<Rightarrow> run_result" where
  "run_command env a cmd file =
     (case cmd of
        Trace \<Rightarrow> run_trace env a file
      | Replay \<Rightarrow>
          (case handleReplay env file (arg_from a) of
             Inl e \<Rightarrow> print_error e [] []
           | Inr ls \<Rightarrow> finish_run env a 0 (\<not> arg_quiet a) ls [] [])
      | Explain \<Rightarrow>
          (case handleExplain env file (arg_at a) (arg_branch a) of
             Inl e \<Rightarrow> print_error e [] []
           | Inr (ls, violations) \<Rightarrow>
               if violations \<noteq> [] then print_error (CliError (''Contract violation: '' @ js_join ''; '' violations) 2) [] []
               else finish_run env a 0 (\<not> arg_quiet a) ls [] [])
      | Help \<Rightarrow> \<lparr>exit_code = 2, stdout = [], stderr = [], files = []\<rparr>)"

definition execute :: "inspect_env \<Rightarrow> string list \<Rightarrow> run_result" where
  "execute env argv =
     (case parseArgs argv of
        Inl e \<Rightarrow> print_error e [] []
      | Inr a \<Rightarrow>
          if arg_explicitHelp a then \<lparr>exit_code = 0, stdout = help_lines, stderr = [], files = []\<rparr>
          else
            (case arg_command a of
               None \<Rightarrow> \<lparr>exit_code = 2, stdout = [],
                 stderr = [''ERROR: Missing command (trace | replay | explain)'',
                   ''hint: ltp inspect trace --input <file.jsonl>'', ''hint: ltp inspect --help''], files = []\<rparr>
             | Some cmd \<Rightarrow>
                 if cmd = Help
                 then \<lparr>exit_code = 2, stdout = [],
                   stderr = [''ERROR: Missing command (trace | replay | explain)'',
                     ''hint: ltp inspect trace --input <file.jsonl>'', ''hint: ltp inspect --help''], files = []\<rparr>
                 else case arg_input a of
                        None \<Rightarrow> \<lparr>exit_code = 2, stdout = [], stderr = [''ERROR: Missing --input <frames.jsonl>''], files = []\<rparr>
                      | Some file \<Rightarrow>
                          if file = []
                          then \<lparr>exit_code = 2, stdout = [], stderr = [''ERROR: Missing --input <frames.jsonl>''], files = []\<rparr>
                          else run_command env a cmd file))"

end
