(* ===== verification/Inspect_Load.thy ===== *)
theory Inspect_Load
  imports Inspect_Chain
begin

text \<open>
  Loading a frame log undoes writing it: the lines that \<open>JSON.stringify\<close> prints contain no line
  break, so splitting, trimming and parsing give the values back, and the first line decides
  between raw frames and audit entries.
\<close>

section \<open>Printed values have no control characters\<close>

definition printable :: "string \<Rightarrow> bool" where
  "printable s \<longleftrightarrow> (\<forall>c \<in> set s. 32 \<le> (of_char c :: nat))"

lemma printable_simps [simp]:
  "printable []" "printable (c # s) \<longleftrightarrow> 32 \<le> (of_char c :: nat) \<and> printable s"
  "printable (s @ t) \<longleftrightarrow> printable s \<and> printable t"
  by (auto simp: printable_def)

lemma printable_join: "printable sep \<Longrightarrow> \<forall>w \<in> set ws. printable w \<Longrightarrow> printable (js_join sep ws)"
  by (induction sep ws rule: js_join.induct) auto

lemma printable_hex: "d < 16 \<Longrightarrow> 32 \<le> (of_char (hex_char d) :: nat)"
  by (auto simp: hex_char_def of_char_of)

lemma printable_escape: "printable (json_escape c)"
proof -
  have "(of_char c :: nat) < 16 * 16" using nat_of_char_less_256 [of c] by simp
  then have "(of_char c :: nat) div 16 < 16" by (rule less_mult_imp_div_less)
  then show ?thesis
    by (simp add: json_escape_def Let_def quote_ch_def bslash_def printable_hex)
qed

lemma printable_quote: "printable (json_quote s)"
proof -
  have "printable (concat (map json_escape s))"
    by (induction s) (simp_all add: printable_escape)
  then show ?thesis by (simp add: json_quote_def quote_ch_def)
qed

lemma printable_nat: "printable (nat_str m)"
  using nat_str_digits [of m] by (auto simp: printable_def list_all_iff is_digit_def)

lemma printable_part: "printable s \<Longrightarrow> printable (take n s)" "printable s \<Longrightarrow> printable (drop n s)" "printable (replicate n CHR ''0'')"
  by (auto simp: printable_def dest: in_set_takeD in_set_dropD)

lemma printable_num: "printable (num_str n)"
proof -
  have "printable (pos_num_str x)" for x
    by (auto simp: pos_num_str_def layout_digits_def Let_def printable_nat printable_part split: option.split)
  then show ?thesis by (simp add: num_str_def int_str_def printable_nat)
qed

lemma printable_members:
  "(\<And>k t. (k, Some t) \<in> set ms \<Longrightarrow> printable t) \<Longrightarrow> \<forall>w \<in> set (member_texts ms). printable w"
  by (induction ms rule: member_texts.induct) (auto simp: printable_quote)

lemma printable_stringify: "json_ok v \<Longrightarrow> json_stringify v = Some t \<Longrightarrow> printable t"
proof (induction v arbitrary: t)
  case (JArr xs)
  have "printable (elem_text (json_stringify x))" if "x \<in> set xs" for x
    using that JArr by (cases "json_stringify x") (auto simp: elem_text_def list_all_iff)
  then have "printable (js_join '','' (map elem_text (map json_stringify xs)))"
    by (intro printable_join) auto
  then show ?case using JArr.prems by auto
next
  case (JObj kvs)
  have "printable u" if mem: "(k, Some u) \<in> set (map (map_prod id json_stringify) kvs)" for k u
  proof -
    obtain w where w: "(k, w) \<in> set kvs" "json_stringify w = Some u"
      using mem by (force simp: map_prod_def split: prod.splits)
    then have "json_ok w" using JObj.prems by (auto simp: list_all_iff)
    then show ?thesis using JObj.IH [of "(k, w)" w] w by (auto simp: snds.simps)
  qed
  then have "printable (js_join '','' (member_texts (map (map_prod id json_stringify) kvs)))"
    by (intro printable_join printable_members) auto
  then show ?case using JObj.prems by auto
qed (auto simp: printable_quote printable_num)

lemma printable_json_text: "json_ok v \<Longrightarrow> printable (json_text v)"
  using printable_stringify [of v] by (cases "json_stringify v") (auto simp: json_text_def elem_text_def)

lemma printable_no_break:
  assumes "printable s"
  shows "newline \<notin> set s" and "CHR 0x0D \<notin> set s"
  using assms by (fastforce simp: printable_def newline_def)+

section \<open>Lines\<close>

lemma split_lines_join:
  assumes "ws \<noteq> []" and "\<forall>w \<in> set ws. printable w"
  shows "split_lines (js_join [newline] ws) = ws"
proof -
  have "map (split_on newline) ws = map (\<lambda>w. [w]) ws"
    using assms(2) printable_no_break(1) by (auto intro: split_on_no_sep)
  then have "split_on newline (js_join [newline] ws) = concat (map (\<lambda>w. [w]) ws)"
    using js_join_butlast [OF assms(1), of newline] by (simp only:)
  then have split: "split_on newline (js_join [newline] ws) = ws" by simp
  have "drop_cr w = w" if "w \<in> set ws" for w
    using assms(2) that printable_no_break(2) [of w] by (metis drop_cr_def last_in_set)
  then have "map drop_cr (butlast ws) = butlast ws"
    by (simp add: map_idI in_set_butlastD)
  with assms(1) show ?thesis by (simp add: split_lines_def split)
qed

lemma trim_solid:
  assumes "s \<noteq> []" and "\<not> is_ws (hd s)" and "\<not> is_ws (last s)"
  shows "trim s = s"
proof -
  have "dropWhile is_ws s = s" using assms(1,2) by (cases s) auto
  moreover have "dropWhile is_ws (rev s) = rev s"
    using assms(1,3) by (cases "rev s") (auto simp: hd_rev [symmetric])
  ultimately show ?thesis by (simp add: trim_def)
qed

lemma object_text:
  assumes "is_plain v"
  obtains m where "json_text v = CHR ''{'' # m @ [CHR ''}'']"
  using assms by (cases v) (auto simp: json_text_def elem_text_def)

lemma trim_object_text: "is_plain v \<Longrightarrow> trim (json_text v) = json_text v"
  by (erule object_text) (auto intro!: trim_solid simp: is_ws_def)

lemma parse_lines_texts:
  assumes "vs \<noteq> []" and "\<forall>v \<in> set vs. is_plain v \<and> json_ok v"
  shows "parse_lines env (js_join [newline] (map json_text vs)) = Inr vs"
proof -
  have lines: "split_lines (js_join [newline] (map json_text vs)) = map json_text vs"
    using assms by (intro split_lines_join) (auto simp: printable_json_text)
  have "trim (json_text v) \<noteq> []" if "v \<in> set vs" for v
  proof -
    have "is_plain v" using assms(2) that by blast
    then obtain m where "json_text v = CHR ''{'' # m @ [CHR ''}'']" by (rule object_text)
    then show ?thesis using trim_object_text [OF \<open>is_plain v\<close>] by simp
  qed
  then have all: "filter (\<lambda>l. trim (snd l) \<noteq> []) (List.enumerate 0 (map json_text vs)) = List.enumerate 0 (map json_text vs)"
    by (intro filter_True) (auto simp: in_set_enumerate_eq)
  have "parse_line env (i, json_text v) = Inr v" if "v \<in> set vs" for i v
    using assms that by (simp add: parse_line_def trim_object_text json_roundtrip)
  then show ?thesis
    by (simp add: parse_lines_def lines all map_err_Inr_iff nth_enumerate_eq)
qed

section \<open>Loading\<close>

lemma join_starts:
  assumes "vs \<noteq> []" and "is_plain (hd vs)"
  shows "\<exists>m. js_join [newline] (map json_text vs) = CHR ''{'' # m"
proof (cases vs)
  case (Cons v ws)
  obtain m where "json_text v = CHR ''{'' # m @ [CHR ''}'']" using assms Cons object_text by auto
  then show ?thesis using Cons by (cases ws) auto
qed (use assms in simp)

lemma read_input_texts:
  assumes "file \<noteq> ''-''" and "env_exists env (env_resolve env file)"
    and "env_read env (env_resolve env file) = Inr (CHR ''{'' # m)"
  shows "read_input env file = Inr (CHR ''{'' # m)"
proof -
  have "trim (CHR ''{'' # m) \<noteq> []"
    by (simp add: trim_def is_ws_def dropWhile_eq_Nil_conv)
  moreover have "trim_start (CHR ''{'' # m) = CHR ''{'' # m"
    by (simp add: trim_start_def is_ws_def)
  ultimately show ?thesis
    using assms by (simp add: read_input_def of_string_result_def starts_with_def)
qed

lemma loadFrames_parsed:
  assumes "vs \<noteq> []" and "\<forall>v \<in> set vs. is_plain v"
    and "file \<noteq> ''-''" and "env_exists env (env_resolve env file)"
    and "env_read env (env_resolve env file) = Inr (CHR ''{'' # m)" and "parse_lines env (CHR ''{'' # m) = Inr vs"
  shows "loadFrames env file =
    (let audit = has_prop (hd vs) ''prev_hash'' \<and> has_prop (hd vs) ''frame''
     in Inr \<lparr>frames = (if audit then map (\<lambda>e. pget e ''frame'') vs else vs), entries = (if audit then vs else []),
          inputPath = Some (normalizeInputPathForOutput env (env_resolve env file)), inputSource = File,
          trace_type = (if audit then AuditLog else Raw),
          hash_root = (if audit then pget (last vs) ''hash'' else JUndef)\<rparr>)"
proof -
  have "is_plain (hd vs)" using assms(1,2) by simp
  then have "is_entry (hd vs) = Inr (has_prop (hd vs) ''prev_hash'' \<and> has_prop (hd vs) ''frame'')"
    by (cases "hd vs") (simp_all add: is_entry_def)
  moreover have "map_err (\<lambda>_ e. read_prop e ''frame'') 0 vs = Inr (map (\<lambda>e. pget e ''frame'') vs)"
  proof -
    have "read_prop v k = Inr (pget v k)" if "v \<in> set vs" for v k
      using assms(2) that by (cases v) (auto simp: read_prop_def)
    then show ?thesis by (simp add: map_err_Inr_iff)
  qed
  ultimately show ?thesis
    using assms(1,3) assms(6) read_input_texts [OF assms(3-5)] by (simp add: loadFrames_def Let_def)
qed

lemma loadFrames_texts:
  assumes "vs \<noteq> []" and "\<forall>v \<in> set vs. is_plain v \<and> json_ok v"
    and "file \<noteq> ''-''" and "env_exists env (env_resolve env file)"
    and "env_read env (env_resolve env file) = Inr (js_join [newline] (map json_text vs))"
  shows "loadFrames env file =
    (let audit = has_prop (hd vs) ''prev_hash'' \<and> has_prop (hd vs) ''frame''
     in Inr \<lparr>frames = (if audit then map (\<lambda>e. pget e ''frame'') vs else vs), entries = (if audit then vs else []),
          inputPath = Some (normalizeInputPathForOutput env (env_resolve env file)), inputSource = File,
          trace_type = (if audit then AuditLog else Raw),
          hash_root = (if audit then pget (last vs) ''hash'' else JUndef)\<rparr>)"
proof -
  have plain: "is_plain (hd vs)" using assms(1,2) by simp
  obtain m where "js_join [newline] (map json_text vs) = CHR ''{'' # m" using join_starts [OF assms(1) plain] by blast
  then show ?thesis
    using loadFrames_parsed [OF assms(1) _ assms(3,4), of m] assms(2,5) parse_lines_texts [OF assms(1,2), of env] by simp
qed

text \<open>Loading a log that was written as one JSON object per line gives the values back. The
  first line alone decides the kind of log: with a \<open>prev_hash\<close> and a \<open>frame\<close> the lines are audit
  entries and the frames are taken from them, otherwise the lines are the frames.\<close>

theorem jsonl_round_trip:
  assumes "vs \<noteq> []" and "\<forall>v \<in> set vs. is_plain v \<and> json_ok v"
    and "file \<noteq> ''-''" and "env_exists env (env_resolve env file)"
    and "env_read env (env_resolve env file) = Inr (js_join [newline] (map json_text vs))"
  shows "\<exists>l. loadFrames env file = Inr l \<and>
    (if has_prop (hd vs) ''prev_hash'' \<and> has_prop (hd vs) ''frame''
     then trace_type l = AuditLog \<and> entries l = vs \<and> frames l = map (\<lambda>e. pget e ''frame'') vs
       \<and> hash_root l = pget (last vs) ''hash''
     else trace_type l = Raw \<and> entries l = [] \<and> frames l = vs)"
  unfolding loadFrames_texts [OF assms] by (simp add: Let_def)

definition toy_file_env :: "string \<Rightarrow> inspect_env" where
  "toy_file_env content = toy_env\<lparr>env_exists := (\<lambda>_. True), env_read := (\<lambda>_. Inr content)\<rparr>"

theorem jsonl_round_trip_witness:
  "\<exists>l. loadFrames (toy_file_env (js_join [newline] (map json_text [toy_entry zeros, toy_entry zeros]))) ''log'' = Inr l \<and>
    (if has_prop (hd [toy_entry zeros, toy_entry zeros]) ''prev_hash'' \<and> has_prop (hd [toy_entry zeros, toy_entry zeros]) ''frame''
     then trace_type l = AuditLog \<and> entries l = [toy_entry zeros, toy_entry zeros]
       \<and> frames l = map (\<lambda>e. pget e ''frame'') [toy_entry zeros, toy_entry zeros]
       \<and> hash_root l = pget (last [toy_entry zeros, toy_entry zeros]) ''hash''
     else trace_type l = Raw \<and> entries l = [] \<and> frames l = [toy_entry zeros, toy_entry zeros])"
proof (rule jsonl_round_trip)
  have "obj_ordered [(''frame'', JObj [(''type'', JStr ''hello'')]), (''prev_hash'', JStr zeros), (''hash'', JStr zeros)]"
    "obj_ordered [(''type'', JStr ''hello'')]"
    by (simp_all add: obj_ordered_def spread_def array_index_def is_digit_def)
  then show "\<forall>v \<in> set [toy_entry zeros, toy_entry zeros]. is_plain v \<and> json_ok v"
    by (simp add: toy_entry_def)
qed (simp_all add: toy_file_env_def toy_env_def)

end
