(* ===== verification/Inspect_Exit.thy ===== *)
theory Inspect_Exit
  imports Inspect_Cli Inspect_Load
begin

text \<open>
  The exit codes of the inspector and what an accepted trace guarantees. Every exception ends in
  exit code 2, code 1 is left for traces with warnings only, and an agent trace that is not
  rejected is a verified audit log in which no critical action was admitted from the web or
  without its capability.
\<close>

section \<open>Errors\<close>

named_theorems exits \<open>results whose command-line errors carry exit code 2\<close>

fun code_two :: "inspect_error \<Rightarrow> bool" where
  "code_two (CliError msg code) = (code = 2)"
| "code_two (RuntimeError msg) = True"

fun exits_two :: "'a inspected \<Rightarrow> bool" where
  "exits_two (Inl e) = code_two e"
| "exits_two (Inr x) = True"

lemma exits_two_bind [exits]:
  "exits_two m \<Longrightarrow> (\<And>x. exits_two (f x)) \<Longrightarrow> exits_two (bind_err m f)"
  by (cases m) auto

lemma exits_two_map_err [exits]: "(\<And>i x. exits_two (f i x)) \<Longrightarrow> exits_two (map_err f i xs)"
  by (induction xs arbitrary: i) (auto intro!: exits)

lemma exits_two_if [exits]: "(b \<Longrightarrow> exits_two x) \<Longrightarrow> (\<not> b \<Longrightarrow> exits_two y) \<Longrightarrow> exits_two (if b then x else y)"
  by simp

lemma exits_two_option [exits]:
  "(x = None \<Longrightarrow> exits_two a) \<Longrightarrow> (\<And>y. x = Some y \<Longrightarrow> exits_two (f y)) \<Longrightarrow> exits_two (case x of None \<Rightarrow> a | Some y \<Rightarrow> f y)"
  by (cases x) auto

lemma exits_two_string [exits]: "exits_two (of_string_result m)"
  by (cases m) (auto simp: of_string_result_def)

lemma exits_two_read_prop [exits]: "exits_two (read_prop v k)"
  by (simp add: read_prop_def)

lemma exits_two_loadFrames [exits]: "exits_two (loadFrames env file)"
proof -
  have "exits_two (parse_line env l)" for l
    by (simp add: parse_line_def Let_def split: option.split)
  moreover have "exits_two (is_entry v)" for v
    by (simp add: is_entry_def)
  ultimately show ?thesis
    by (auto simp: loadFrames_def read_input_def parse_lines_def Let_def intro!: exits)
qed

lemma exits_two_integrity [exits]: "exits_two (verifyTraceIntegrity env es)"
proof -
  have "exits_two (entry_hash env e)" for e
    by (auto simp: entry_hash_def canonicalJsonBytes_def intro!: exits split: jsval.split)
  then have "exits_two (check_entries env i es)" for i
    by (induction es arbitrary: i) (auto intro!: exits split: list.split)
  then show ?thesis by (auto simp: verifyTraceIntegrity_def intro!: exits)
qed

lemma exits_two_foldl:
  "exits_two acc \<Longrightarrow> (\<And>s e. exits_two (f s e)) \<Longrightarrow> exits_two (foldl (\<lambda>st e. bind_err st (\<lambda>s. f s e)) acc es)"
proof (induction es arbitrary: acc)
  case (Cons e es)
  have "exits_two (bind_err acc (\<lambda>s. f s e))" using Cons.prems by (intro exits)
  then show ?case using Cons.IH Cons.prems(2) by simp
qed simp

lemma exits_two_branches [exits]: "exits_two (normalizeBranches env raw)"
proof -
  have "exits_two (scan_branch s e)" for s e
    by (auto simp: scan_branch_def Let_def)
  then have scan: "exits_two (scan_branches es)" for es
    unfolding scan_branches_def by (intro exits_two_foldl) auto
  have cmp: "exits_two (compare_branches env a b)" for a b
    by (simp add: compare_branches_def split: jsval.split)
  have "exits_two (js_insert (compare_branches env) x ys)" for x ys
    by (induction ys) (auto intro!: exits cmp)
  then have "exits_two (js_sort (compare_branches env) xs)" for xs
    unfolding js_sort_def using exits_two_foldl [where f = "\<lambda>s e. js_insert (compare_branches env) e s"] by simp
  then show ?thesis
    using scan by (auto simp: normalizeBranches_def Let_def intro!: exits)
qed

lemma exits_two_summarize [exits]: "exits_two (summarize env fs es input c r)"
proof -
  have "exits_two (normalize_frame i f)" for i f
    by (auto simp: normalize_frame_def Let_def intro!: exits)
  moreover have "exits_two (classify_future b)" for b
    by (simp add: classify_future_def Let_def split: jsval.split)
  moreover have "exits_two (verifyReplayDeterminism env es)" for es
    by (auto simp: verifyReplayDeterminism_def intro!: exits)
  ultimately show ?thesis
    by (auto simp: summarize_def normalizeFrameConstraints_def groupFutures_def compliance_and_audit_def
        compliance_of_def Let_def intro!: exits)
qed

lemma exits_two_routing [exits]: "exits_two (routing_run i fs st)"
proof -
  have "exits_two (is_recovery t)" for t
    by (simp add: is_recovery_def split: jsval.split)
  then have "exits_two (routing_step i f st)" for i f st
    by (auto simp: routing_step_def routing_response_def Let_def intro!: exits)
  then show ?thesis
    by (induction fs arbitrary: i st) (auto intro!: exits)
qed

lemma exits_two_find [exits]: "exits_two (find_frame p i fs)"
  by (induction fs arbitrary: i) (auto intro!: exits)

lemma exits_two_commands [exits]:
  "exits_two (trace_result env a file)" "exits_two (handleReplay env file from)"
  "exits_two (handleExplain env file pos b)"
  by (auto simp: trace_result_def handleReplay_def handleExplain_def replay_line_def Let_def intro!: exits)

lemma exits_two_args [exits]: "exits_two (parseArgs argv)"
proof -
  have rv: "exits_two (requireValue r f)" "exits_two (requireInlineValue t f)" for r f t
    by (auto simp: requireValue_def requireInlineValue_def Let_def split: list.split)
  have "exits_two (to_export v)" for v by (simp add: to_export_def)
  then have "exits_two (add_export v a)" for v a by (auto simp: add_export_def intro!: exits)
  then have act: "exits_two (act v a)" if "(flag, sp, act) \<in> set value_flags" for flag sp act v a
    using that by (auto simp: value_flags_def)
  have found: "exits_two (act v a)" if "find p value_flags = Some (flag, sp, act)" for p flag sp act v a
    using that act by (metis find_Some_iff nth_mem)
  have "exits_two (parse_tokens ts a)" for ts a
    by (induction ts a rule: parse_tokens.induct)
      (auto simp: inline_flag_def spaced_flag_def intro!: exits rv intro: found split: option.split)
  then show ?thesis by (auto simp: parseArgs_def Let_def intro!: exits)
qed

section \<open>Exit codes\<close>

lemma export_all_error: "export_all env s b fs w = (w', Inl e) \<Longrightarrow> \<exists>msg. e = RuntimeError msg"
proof (induction fs arbitrary: w w')
  case (Cons f fs)
  then show ?case
    by (auto simp: export_one_def write_file_def Let_def split: prod.splits sum.splits export_format.splits option.splits)
qed simp

lemma print_error_code: "code_two e \<Longrightarrow> exit_code (print_error e w errs) = 2"
  by (cases e) (auto simp: print_error_def)

lemma finish_run_code: "exit_code (finish_run env a code p buf errs w) \<in> {code, 2}"
  by (auto simp: finish_run_def write_file_def print_error_def split: option.splits)

lemma handleTrace_error:
  assumes "handleTrace env a file w = (w', Inl e)"
  shows "code_two e"
proof (cases "trace_result env a file")
  case (Inl x)
  then show ?thesis using exits_two_commands(1) [of env a "file"] assms by (simp add: handleTrace_def)
next
  case (Inr lr)
  then show ?thesis
    using assms by (auto simp: handleTrace_def Let_def split: prod.splits sum.splits dest!: export_all_error)
qed

lemma handleTrace_result: "handleTrace env a file w = (w', Inr (ls, r)) \<Longrightarrow> \<exists>l. trace_result env a file = Inr (l, r)"
  by (auto simp: handleTrace_def Let_def split: sum.splits prod.splits)

lemma run_trace_code:
  "exit_code (run_trace env a file) = 2 \<or>
     (\<exists>ls r. trace_result env a file = Inr (ls, r) \<and> exit_code (run_trace env a file) = trace_exit a r \<and>
        contract_breaches a r = [])"
proof (cases "handleTrace env a file []")
  case (Pair w res)
  show ?thesis
  proof (cases res)
    case (Inl e)
    then show ?thesis
      using Pair print_error_code handleTrace_error [of env a "file" "[]" w e] by (simp add: run_trace_def)
  next
    case (Inr lr)
    obtain ls r where lr: "lr = (ls, r)" by (cases lr)
    have "exit_code (run_trace env a file) \<in> {trace_exit a r, 2}"
      using finish_run_code by (simp add: run_trace_def Pair Inr lr Let_def)
    moreover have "contract_breaches a r \<noteq> [] \<Longrightarrow> trace_exit a r = 2" by (simp add: trace_exit_def)
    ultimately show ?thesis
      using handleTrace_result [of env a "file" "[]" w ls r] Pair Inr lr by auto
  qed
qed

lemma run_command_code:
  "exit_code (run_command env a cmd file) \<in> {0, 2} \<or>
     cmd = Trace \<and> (\<exists>ls r. trace_result env a file = Inr (ls, r) \<and> exit_code (run_command env a cmd file) = trace_exit a r \<and>
        contract_breaches a r = [])"
proof (cases cmd)
  case Trace
  then show ?thesis using run_trace_code [of env a "file"] by (auto simp: run_command_def)
next
  case Replay
  then show ?thesis
    using finish_run_code [of env a 0] print_error_code exits_two_commands(2) [of env "file" "arg_from a"]
    by (cases "handleReplay env file (arg_from a)") (auto simp: run_command_def)
next
  case Explain
  show ?thesis
  proof (cases "handleExplain env file (arg_at a) (arg_branch a)")
    case (Inl e)
    then have "code_two e" using exits_two_commands(3) [of env "file" "arg_at a" "arg_branch a"] by simp
    with Explain Inl show ?thesis by (simp add: run_command_def print_error_code)
  next
    case (Inr lv)
    obtain ls v where lv: "lv = (ls, v)" by (cases lv)
    show ?thesis
      using finish_run_code [of env a 0 "\<not> arg_quiet a" ls "[]" "[]"]
      by (cases "v = []") (simp_all add: run_command_def Explain Inr lv print_error_code)
  qed
qed (simp add: run_command_def)

lemma execute_cases:
  "parseArgs argv = Inr a \<Longrightarrow> exit_code (execute env argv) \<in> {0, 2} \<or>
     (\<exists>cmd file. \<not> arg_explicitHelp a \<and> arg_command a = Some cmd \<and> arg_input a = Some file \<and>
        execute env argv = run_command env a cmd file)"
  by (simp add: execute_def split: option.split)

lemma exit_codes:
  "exit_code (execute env argv) \<in> {0, 1, 2} \<and>
   (\<forall>e. parseArgs argv = Inl e \<longrightarrow> exit_code (execute env argv) = 2) \<and>
   (exit_code (execute env argv) = 1 \<longrightarrow>
     (\<exists>a file ls r. parseArgs argv = Inr a \<and> arg_command a = Some Trace \<and> arg_input a = Some file \<and>
        trace_result env a file = Inr (ls, r) \<and> contract_breaches a r = [] \<and> has_warnings r))"
proof (cases "parseArgs argv")
  case (Inl e)
  then have "exit_code (print_error e [] []) = 2"
    using print_error_code exits_two_args [of argv] by simp
  with Inl show ?thesis by (simp add: execute_def)
next
  case (Inr a)
  consider (fixed) "exit_code (execute env argv) \<in> {0, 2}"
    | (run) cmd "file" where "arg_command a = Some cmd" "arg_input a = Some file"
        "execute env argv = run_command env a cmd file"
    using execute_cases [OF Inr] by blast
  then show ?thesis
  proof cases
    case fixed
    then show ?thesis using Inr by auto
  next
    case run
    from run_command_code [of env a cmd "file"] show ?thesis
    proof
      assume "exit_code (run_command env a cmd file) \<in> {0, 2}"
      then show ?thesis using Inr run by auto
    next
      assume t: "cmd = Trace \<and> (\<exists>ls r. trace_result env a file = Inr (ls, r) \<and>
        exit_code (run_command env a cmd file) = trace_exit a r \<and> contract_breaches a r = [])"
      then obtain ls r where r: "cmd = Trace" "trace_result env a file = Inr (ls, r)" "contract_breaches a r = []"
        "exit_code (run_command env a cmd file) = trace_exit a r"
        by blast
      then have code: "exit_code (execute env argv) = (if has_warnings r then 1 else 0)"
        using run(3) by (simp add: trace_exit_def)
      show ?thesis
      proof (cases "has_warnings r")
        case True
        with code have "exit_code (execute env argv) = 1" by simp
        with True Inr run(1,2) r(1-3) show ?thesis by simp
      qed (use code Inr in simp)
    qed
  qed
qed

lemma execute_run:
  assumes "parseArgs argv = Inr a" and "\<not> arg_explicitHelp a" and "arg_command a = Some cmd" and "arg_input a = Some file"
  shows "exit_code (execute env argv) = 2 \<or> execute env argv = run_command env a cmd file"
  using assms by (simp add: execute_def)

lemma load_fails:
  assumes "loadFrames env file = Inl e"
  shows "snd (handleTrace env a file []) = Inl e" "handleReplay env file from = Inl e" "handleExplain env file pos b = Inl e"
  using assms by (simp_all add: handleTrace_def trace_result_def handleReplay_def handleExplain_def)

text \<open>The report cannot be written to the file named by \<open>--output\<close>.\<close>

definition unwritable :: "inspect_env \<Rightarrow> parsed_args \<Rightarrow> bool" where
  "unwritable env a \<longleftrightarrow> (case arg_output a of None \<Rightarrow> False | Some p \<Rightarrow> p \<noteq> [] \<and> env_write_error env p \<noteq> None)"

lemma finish_run_unwritable: "unwritable env a \<Longrightarrow> exit_code (finish_run env a code p buf errs w) = 2"
  by (auto simp: unwritable_def finish_run_def write_file_def print_error_def split: option.splits)

lemma run_command_raises:
  "cmd = Trace \<and> snd (handleTrace env a file []) = Inl e \<Longrightarrow> exit_code (run_command env a cmd file) = 2"
  "cmd = Replay \<and> handleReplay env file (arg_from a) = Inl e \<Longrightarrow> exit_code (run_command env a cmd file) = 2"
  "cmd = Explain \<and> handleExplain env file (arg_at a) (arg_branch a) = Inl e \<Longrightarrow> exit_code (run_command env a cmd file) = 2"
  using handleTrace_error [of env a "file" "[]" "fst (handleTrace env a file [])" e]
    exits_two_commands(2) [of env "file" "arg_from a"] exits_two_commands(3) [of env "file" "arg_at a" "arg_branch a"]
  by (cases "handleTrace env a file []"; auto simp: run_command_def run_trace_def print_error_code)+

lemma run_command_load_fails: "loadFrames env file = Inl e \<Longrightarrow> exit_code (run_command env a cmd file) = 2"
  by (cases cmd) (simp_all add: load_fails run_command_raises, simp add: run_command_def)

lemma run_command_unwritable:
  assumes "unwritable env a"
  shows "exit_code (run_command env a cmd file) = 2"
proof (cases cmd)
  case Trace
  then show ?thesis
    using finish_run_unwritable [OF assms] print_error_code handleTrace_error [of env a "file" "[]"]
    by (auto simp: run_command_def run_trace_def Let_def split: prod.split sum.split)
next
  case Replay
  then show ?thesis
    using finish_run_unwritable [OF assms] print_error_code exits_two_commands(2) [of env "file" "arg_from a"]
    by (auto simp: run_command_def split: sum.split)
next
  case Explain
  then show ?thesis
    using finish_run_unwritable [OF assms] print_error_code exits_two_commands(3) [of env "file" "arg_at a" "arg_branch a"]
    by (auto simp: run_command_def split: sum.split)
qed (simp add: run_command_def)

text \<open>C20: the exit code of every invocation is 0, 1 or 2. Code 1 occurs only for the trace command,
  and then the trace was loaded and summarised, has no contract breach and has a warning or a
  normalisation. Every exception ends in code 2: one of the command line, one while the log is loaded, any
  one inside the handler of the command, and one of the file system when the report is written.\<close>

theorem exit_code_meaning:
  "exit_code (execute env argv) \<in> {0, 1, 2} \<and>
   (\<forall>e. parseArgs argv = Inl e \<longrightarrow> exit_code (execute env argv) = 2) \<and>
   (\<forall>a cmd file e. parseArgs argv = Inr a \<and> \<not> arg_explicitHelp a \<and> arg_command a = Some cmd \<and> arg_input a = Some file \<and>
      (loadFrames env file = Inl e \<or> cmd = Trace \<and> snd (handleTrace env a file []) = Inl e \<or>
       cmd = Replay \<and> handleReplay env file (arg_from a) = Inl e \<or>
       cmd = Explain \<and> handleExplain env file (arg_at a) (arg_branch a) = Inl e \<or> unwritable env a) \<longrightarrow>
      exit_code (execute env argv) = 2) \<and>
   (exit_code (execute env argv) = 1 \<longrightarrow>
     (\<exists>a file ls r. parseArgs argv = Inr a \<and> arg_command a = Some Trace \<and> arg_input a = Some file \<and>
        trace_result env a file = Inr (ls, r) \<and> contract_breaches a r = [] \<and> has_warnings r))"
  (is "?codes \<and> ?args \<and> ?raised \<and> ?one")
proof -
  have ?raised
  proof (intro allI impI, elim conjE)
    fix a cmd "file" e
    assume a: "parseArgs argv = Inr a" "\<not> arg_explicitHelp a" "arg_command a = Some cmd" "arg_input a = Some file"
      and x: "loadFrames env file = Inl e \<or> cmd = Trace \<and> snd (handleTrace env a file []) = Inl e \<or>
       cmd = Replay \<and> handleReplay env file (arg_from a) = Inl e \<or>
       cmd = Explain \<and> handleExplain env file (arg_at a) (arg_branch a) = Inl e \<or> unwritable env a"
    have "exit_code (run_command env a cmd file) = 2"
      using x by (elim disjE) (erule run_command_load_fails run_command_raises run_command_unwritable)+
    then show "exit_code (execute env argv) = 2" using execute_run [OF a, of env] by auto
  qed
  moreover have "?codes \<and> ?args \<and> ?one" by (rule exit_codes)
  ultimately show ?thesis by blast
qed

theorem exit_code_meaning_witness:
  "parseArgs [''trace'', ''--input''] = Inl (CliError ''Missing value for --input'' 2) \<and>
   exit_code (execute toy_env [''trace'', ''--input'']) = 2 \<and>
   loadFrames toy_env ''log'' = Inl (CliError ''Frame log not found: log'' 2) \<and>
   exit_code (execute toy_env [''replay'', ''--input'', ''log'']) = 2"
proof -
  have e: "parseArgs [''trace'', ''--input''] = Inl (CliError ''Missing value for --input'' 2)"
    by (simp add: parseArgs_def to_command_def Let_def inline_flag_def spaced_flag_def value_flags_def
        starts_with_def requireValue_def)
  have r: "parseArgs [''replay'', ''--input'', ''log''] = Inr ((initial_args (Some Replay) False)\<lparr>arg_input := Some ''log''\<rparr>)"
    by (simp add: parseArgs_def to_command_def Let_def inline_flag_def spaced_flag_def value_flags_def
        starts_with_def requireValue_def finish_args_def initial_args_def)
  have l: "loadFrames toy_env ''log'' = Inl (CliError ''Frame log not found: log'' 2)"
    by (simp add: loadFrames_def read_input_def toy_env_def)
  note raised = conjunct1 [OF conjunct2 [OF conjunct2 [OF exit_code_meaning]], rule_format]
  have "exit_code (execute toy_env [''replay'', ''--input'', ''log'']) = 2"
    by (rule raised, intro conjI, rule r, (simp add: initial_args_def)+, rule disjI1, rule l)
  moreover have "exit_code (execute toy_env [''trace'', ''--input'']) = 2"
    using exit_code_meaning [of toy_env "[''trace'', ''--input'']"] e by blast
  ultimately show ?thesis using e l by simp
qed

section \<open>Accepted agent traces\<close>

text \<open>A frame that admits a critical action.\<close>

definition admits_critical :: "jsval \<Rightarrow> string \<Rightarrow> bool" where
  "admits_critical f action \<longleftrightarrow> pget f ''type'' = JStr ''route_response'' \<and>
     pget (pget f ''payload'') ''targetState'' = JStr action \<and> action \<in> set CRITICAL_ACTIONS \<and>
     pget (pget f ''payload'') ''admissible'' = JBool True"

lemma critical_nonempty: "action \<in> set CRITICAL_ACTIONS \<Longrightarrow> action \<noteq> []"
  by (auto simp: CRITICAL_ACTIONS_def)

lemma audit_frame_critical:
  assumes "admits_critical f action"
  shows "audit_frame i f = audit_action i (js_or (pget f ''payload'') (JObj [])) action"
  using assms critical_nonempty by (auto simp: audit_frame_def admits_critical_def Let_def)

lemma audit_action_clean:
  assumes "\<forall>part \<in> set (audit_action i p action). \<forall>v \<in> set (fst (snd part)). severity v \<noteq> CRITICAL"
  shows "pget p ''context'' \<noteq> JStr ''WEB'' \<and> has_capability p (required_capability action)"
  using assms
  by (cases "pget p ''context'' = JStr ''WEB''"; cases "has_capability p (required_capability action)")
    (simp_all add: audit_action_def Let_def)

lemma summarize_compliance:
  assumes "summarize env fs es input c rc = Inr r"
  shows "\<exists>identity continuity. compliance_and_audit env fs es input c rc identity continuity
    = Inr (su_compliance (in_summary r), su_audit (in_summary r))"
  using assms by (auto simp: summarize_def bind_err_Inr_iff Let_def) blast

lemma trace_result_summary:
  assumes "trace_result env a file = Inr (ls, r)"
  shows "\<exists>l q. loadFrames env file = Inr l \<and>
    summarize env (frames l) (entries l) (input_of l)
      (case arg_profile a of Some p \<Rightarrow> Some p | None \<Rightarrow> arg_compliance a) (arg_replayCheck a) = Inr q \<and>
    su_compliance (in_summary r) = su_compliance (in_summary q) \<and> su_audit (in_summary r) = su_audit (in_summary q)"
  using assms by (auto simp: trace_result_def bind_err_Inr_iff with_routing_def split: if_splits)

lemma load_audit_log:
  assumes "loadFrames env file = Inr l" and "trace_type l = AuditLog"
  shows "frames l = map (\<lambda>e. pget e ''frame'') (entries l)"
proof -
  obtain parsed fs where l: "map_err (\<lambda>_ e. read_prop e ''frame'') 0 parsed = Inr fs" "frames l = fs" "entries l = parsed"
    using assms by (auto simp: loadFrames_def bind_err_Inr_iff split: if_splits)
  then show ?thesis
    by (auto simp: map_err_Inr_iff read_prop_def intro!: nth_equalityI split: if_splits)
qed

lemma clean_audit:
  assumes compliance: "compliance_of env es ty profile identity continuity = Inr c"
    and profile: "profile \<in> {Some ''agentic'', Some ''agents''}"
    and verified: "cr_trace_integrity c = Verified"
    and clean: "\<forall>v \<in> set (au_violations (audit_of_parts (audit_parts profile c fs))). severity v \<noteq> CRITICAL"
  shows "ty = AuditLog \<and> chain_ok env es \<and> (\<forall>f \<in> set fs. \<forall>action. admits_critical f action \<longrightarrow>
    pget (pget f ''payload'') ''context'' \<noteq> JStr ''WEB'' \<and> has_capability (pget f ''payload'') (required_capability action))"
proof (intro conjI ballI allI impI)
  show ty: "ty = AuditLog"
    using compliance verified by (auto simp: compliance_of_def bind_err_Inr_iff split: if_splits)
  have "trace_verify env es"
    using compliance verified ty
    by (auto simp: compliance_of_def bind_err_Inr_iff trace_verify_def verifyTraceIntegrity_def split: if_splits)
  then show "chain_ok env es" by (simp add: trace_verify_chain_ok)
next
  fix f action
  assume f: "f \<in> set fs" and crit: "admits_critical f action"
  obtain i where i: "i < length fs" "f = fs ! i" using f by (auto simp: in_set_conv_nth)
  have "set (audit_frame i f) \<subseteq> set (audit_parts profile c fs)"
  proof -
    have "(i, f) \<in> set (List.enumerate 0 fs)" using i by (simp add: in_set_enumerate_eq)
    then have "set (audit_frame i f) \<subseteq> set (concat (map (\<lambda>(index, frame). audit_frame index frame) (List.enumerate 0 fs)))"
      by force
    then show ?thesis using profile by (auto simp: audit_parts_def)
  qed
  then have "\<forall>part \<in> set (audit_frame i f). \<forall>v \<in> set (fst (snd part)). severity v \<noteq> CRITICAL"
    using clean by (fastforce simp: audit_of_parts_def Let_def)
  then have ok: "pget (js_or (pget f ''payload'') (JObj [])) ''context'' \<noteq> JStr ''WEB''
      \<and> has_capability (js_or (pget f ''payload'') (JObj [])) (required_capability action)"
    using audit_action_clean audit_frame_critical [OF crit] by metis
  then show "pget (pget f ''payload'') ''context'' \<noteq> JStr ''WEB''" by simp
  show "has_capability (pget f ''payload'') (required_capability action)"
    using ok by (simp add: has_capability_def)
qed

lemma agent_exit_safe:
  assumes "parseArgs argv = Inr a" and "arg_command a = Some Trace" and "arg_input a = Some file"
    and "\<not> arg_explicitHelp a"
    and "(case arg_profile a of Some p \<Rightarrow> Some p | None \<Rightarrow> arg_compliance a) \<in> {Some ''agentic'', Some ''agents''}"
    and "exit_code (execute env argv) \<noteq> 2"
  shows "\<exists>l. loadFrames env file = Inr l \<and> trace_type l = AuditLog \<and> chain_ok env (entries l) \<and>
    frames l = map (\<lambda>e. pget e ''frame'') (entries l) \<and>
    (\<forall>f \<in> set (frames l). \<forall>action. admits_critical f action \<longrightarrow>
       pget (pget f ''payload'') ''context'' \<noteq> JStr ''WEB'' \<and>
       has_capability (pget f ''payload'') (required_capability action))"
proof -
  let ?profile = "case arg_profile a of Some p \<Rightarrow> Some p | None \<Rightarrow> arg_compliance a"
  have "exit_code (run_trace env a file) \<noteq> 2"
    using assms by (auto simp: execute_def run_command_def split: if_splits)
  then obtain ls r where r: "trace_result env a file = Inr (ls, r)" "contract_breaches a r = []"
    using run_trace_code [of env a "file"] by blast
  obtain l q where l: "loadFrames env file = Inr l"
    "summarize env (frames l) (entries l) (input_of l) ?profile (arg_replayCheck a) = Inr q"
    "su_compliance (in_summary r) = su_compliance (in_summary q)" "su_audit (in_summary r) = su_audit (in_summary q)"
    using trace_result_summary [OF r(1)] by blast
  obtain identity continuity where ca:
    "compliance_and_audit env (frames l) (entries l) (input_of l) ?profile (arg_replayCheck a) identity continuity
       = Inr (su_compliance (in_summary r), su_audit (in_summary r))"
    using summarize_compliance [OF l(2)] l(3,4) by auto
  have "wants_compliance ?profile (arg_replayCheck a) (ii_type (input_of l))" "audited_profile ?profile"
    using assms(5) by (auto simp: wants_compliance_def audited_profile_def)
  then obtain c where c: "compliance_of env (entries l) (trace_type l) ?profile identity continuity = Inr c"
    "su_compliance (in_summary r) = Some (with_details (audit_parts ?profile c (frames l)) c)"
    "su_audit (in_summary r) = Some (audit_of_parts (audit_parts ?profile c (frames l)))"
    using ca by (auto simp: compliance_and_audit_def bind_err_Inr_iff input_of_def)
  have "cr_trace_integrity (with_details ps c) = cr_trace_integrity c" for ps
    by (simp add: with_details_def Let_def)
  then have "cr_trace_integrity c = Verified"
    "\<forall>v \<in> set (au_violations (audit_of_parts (audit_parts ?profile c (frames l)))). severity v \<noteq> CRITICAL"
    using r(2) by (auto simp: contract_breaches_def c(2,3) Let_def filter_empty_conv)
  from clean_audit [OF c(1) assms(5) this] show ?thesis
    using l(1) load_audit_log by blast
qed

text \<open>C15: what it means that the inspector lets an agent trace pass. When \<open>trace\<close> is run with the
  profile \<open>agentic\<close> or \<open>agents\<close> and does not exit with code 2, the input was loaded as an audit log,
  every hash of its chain verifies, and no route response in it admitted a critical action from
  the context WEB or without the capability named after the action.\<close>

theorem accepted_agent_trace_safe:
  assumes "parseArgs argv = Inr a" and "arg_command a = Some Trace" and "arg_input a = Some file"
    and "\<not> arg_explicitHelp a"
    and "(case arg_profile a of Some p \<Rightarrow> Some p | None \<Rightarrow> arg_compliance a) \<in> {Some ''agentic'', Some ''agents''}"
    and "exit_code (execute env argv) \<noteq> 2"
  shows "\<exists>l. loadFrames env file = Inr l \<and> trace_type l = AuditLog \<and> chain_ok env (entries l) \<and>
    frames l = map (\<lambda>e. pget e ''frame'') (entries l) \<and>
    (\<forall>f \<in> set (frames l). \<forall>action. admits_critical f action \<longrightarrow>
       pget (pget f ''payload'') ''context'' \<noteq> JStr ''WEB'' \<and>
       has_capability (pget f ''payload'') (required_capability action))"
  using assms by (rule agent_exit_safe)

text \<open>A concrete accepted trace: one critical action, admitted for a user who holds the capability.\<close>

definition agent_frame :: jsval where
  "agent_frame = JObj [(''type'', JStr ''route_response''), (''v'', JStr ''0.1''), (''identity'', JStr ''bot''),
     (''payload'', JObj [(''context'', JStr ''USER''), (''targetState'', JStr ''transfer_money''),
        (''admissible'', JBool True), (''capabilities'', JArr [JStr ''CAPABILITY_TRANSFER_MONEY'']),
        (''branches'', JArr [])])]"

definition agent_entry :: jsval where
  "agent_entry = JObj [(''frame'', agent_frame), (''prev_hash'', JStr zeros), (''hash'', JStr zeros)]"

definition agent_env :: inspect_env where
  "agent_env = toy_file_env (js_join [newline] (map json_text [agent_entry]))"

definition agent_argv :: "string list" where
  "agent_argv = [''trace'', ''--input'', ''log'', ''--profile'', ''agents'']"

lemma agent_args:
  "parseArgs agent_argv = Inr ((initial_args (Some Trace) False)\<lparr>arg_input := Some ''log'',
     arg_profile := Some ''agents'', arg_compliance := Some ''agents''\<rparr>)"
  by (simp add: agent_argv_def parseArgs_def to_command_def Let_def inline_flag_def spaced_flag_def value_flags_def
      starts_with_def requireValue_def finish_args_def initial_args_def)

lemma agent_entry_props [simp]:
  "pget agent_entry ''frame'' = agent_frame" "pget agent_entry ''prev_hash'' = JStr zeros"
  "pget agent_entry ''hash'' = JStr zeros"
  by (simp_all add: agent_entry_def)

lemma agent_load:
  "\<exists>p. loadFrames agent_env ''log'' = Inr \<lparr>frames = [agent_frame], entries = [agent_entry], inputPath = p,
     inputSource = File, trace_type = AuditLog, hash_root = JStr zeros\<rparr>"
proof -
  have "is_plain agent_entry \<and> json_ok agent_entry"
    by (simp add: agent_entry_def agent_frame_def obj_ordered_def spread_def array_index_def is_digit_def)
  then show ?thesis
    by (subst loadFrames_texts [where vs = "[agent_entry]"])
      (simp_all add: agent_env_def toy_file_env_def toy_env_def has_prop_def Let_def, simp add: agent_entry_def)
qed

lemma agent_verified:
  "verifyTraceIntegrity agent_env [agent_entry] = Inr \<lparr>valid = True, firstViolation = None\<rparr>"
proof -
  have "env_sha256 agent_env = env_sha256 toy_env" by (simp add: agent_env_def toy_file_env_def)
  then have "chain_ok agent_env [agent_entry]"
    by (simp add: chain_ok_def toy_digest) (simp add: agent_frame_def)
  then show ?thesis by (simp only: trace_verify_chain_ok [symmetric] trace_verify_def)
qed

lemma agent_normalized:
  "normalizeFrameConstraints [agent_frame] = Inr [\<lparr>nf_frame = agent_frame, nf_normalizations = [], nf_violations = []\<rparr>]"
  by (simp add: normalizeFrameConstraints_def normalize_frame_def read_prop_def Let_def agent_frame_def
      normalizeConstraintsValue_def obj_spread_def spread_def array_index_def is_digit_def)

lemma agent_props [simp]:
  "pget agent_frame ''type'' = JStr ''route_response''" "pget agent_frame ''v'' = JStr ''0.1''"
  "pget agent_frame ''identity'' = JStr ''bot''" "pget agent_frame ''constraints'' = JUndef"
  "pget (pget agent_frame ''payload'') ''identity'' = JUndef"
  "pget (pget agent_frame ''payload'') ''constraints'' = JUndef"
  "pget (pget agent_frame ''payload'') ''branches'' = JArr []"
  "pget (pget agent_frame ''payload'') ''targetState'' = JStr ''transfer_money''"
  "pget (pget agent_frame ''payload'') ''admissible'' = JBool True"
  "pget (pget agent_frame ''payload'') ''context'' = JStr ''USER''"
  "pget (pget agent_frame ''payload'') ''capabilities'' = JArr [JStr ''CAPABILITY_TRANSFER_MONEY'']"
  "is_plain agent_frame" "is_plain (pget agent_frame ''payload'')"
  "frame_focus agent_frame = JUndef" "frame_drift agent_frame = JUndef"
  by (simp_all add: agent_frame_def frame_focus_def frame_drift_def coalesce_def)

lemma agent_valid: "validateTraceFrames [agent_frame] = []"
  by (simp add: validateTraceFrames_def validate_frame_def version_violations_def usable_version_def
      extractTraceVersion_def coalesce_def SUPPORTED_TRACE_VERSIONS_def frame_identity_def frame_constraints_def
      Let_def js_nub_def List.map_filter_def trim_def is_ws_def)

lemma agent_identity: "extractIdentity [agent_frame] = JStr ''bot''"
  by (simp add: extractIdentity_def direct_identity_def coalesce_def Let_def List.map_filter_def trim_def is_ws_def)

lemma agent_compliance:
  "\<exists>c. compliance_of agent_env [agent_entry] AuditLog (Some ''agents'') (JStr ''bot'') ct = Inr c \<and>
     cr_trace_integrity c = Verified \<and> cr_identity_ok c \<and> cr_replay_ok c"
  by (simp add: compliance_of_def agent_verified verifyReplayDeterminism_def read_prop_def)
   (simp add: agent_frame_def)

lemma agent_audit: "audit_frame 0 agent_frame = []"
proof -
  have "required_capability ''transfer_money'' = ''CAPABILITY_TRANSFER_MONEY''" by code_simp
  then show ?thesis
    by (simp add: audit_frame_def audit_action_def Let_def CRITICAL_ACTIONS_def has_capability_def coalesce_def)
qed


lemma agent_summary:
  assumes "ii_type input = AuditLog"
  shows "\<exists>r c. summarize agent_env [agent_frame] [agent_entry] input (Some ''agents'') False = Inr r \<and>
     in_violations r = [] \<and> in_normalizations r = [] \<and> su_compliance (in_summary r) = Some c \<and>
     cr_trace_integrity c = Verified \<and> cr_identity_ok c \<and> cr_replay_ok c \<and>
     (\<forall>au. su_audit (in_summary r) = Some au \<longrightarrow> au_violations au = [])"
proof -
  obtain c where c: "compliance_of agent_env [agent_entry] AuditLog (Some ''agents'') (JStr ''bot'') (detectContinuity [agent_frame]) = Inr c"
    "cr_trace_integrity c = Verified" "cr_identity_ok c" "cr_replay_ok c"
    using agent_compliance by blast
  have parts: "audit_parts (Some ''agents'') c [agent_frame] = []"
    using c by (simp add: audit_parts_def core_audit_def agent_audit)
  have lrr: "last_route_response [agent_frame] = agent_frame" by (simp add: last_route_response_def)
  have branches: "normalizeBranches agent_env (route_payload_branches agent_frame) =
      Inr \<lparr>nb_branches = [], nb_notes = [], nb_violations = [], nb_normalizations = []\<rparr>"
    by (simp add: route_payload_branches_def coalesce_def Let_def normalizeBranches_def branch_entries_def scan_branches_def)
  have futures: "\<exists>fu. groupFutures [] = Inr fu" by (simp add: groupFutures_def)
  show ?thesis
    using assms futures c
    by (auto simp: summarize_def agent_normalized agent_identity agent_valid lrr branches Let_def
        compliance_and_audit_def wants_compliance_def audited_profile_def parts with_details_def audit_of_parts_def)
qed

lemma agent_exit: "exit_code (execute agent_env agent_argv) \<noteq> 2"
proof -
  let ?a = "(initial_args (Some Trace) False)\<lparr>arg_input := Some ''log'',
     arg_profile := Some ''agents'', arg_compliance := Some ''agents''\<rparr>"
  obtain p where load: "loadFrames agent_env ''log'' = Inr \<lparr>frames = [agent_frame], entries = [agent_entry], inputPath = p,
     inputSource = File, trace_type = AuditLog, hash_root = JStr zeros\<rparr>" using agent_load by blast
  obtain r c where r: "summarize agent_env [agent_frame] [agent_entry] (input_of \<lparr>frames = [agent_frame],
      entries = [agent_entry], inputPath = p, inputSource = File, trace_type = AuditLog, hash_root = JStr zeros\<rparr>)
      (Some ''agents'') False = Inr r"
    "in_violations r = []" "in_normalizations r = []" "su_compliance (in_summary r) = Some c"
    "cr_trace_integrity c = Verified" "cr_identity_ok c" "cr_replay_ok c"
    "\<And>au. su_audit (in_summary r) = Some au \<Longrightarrow> au_violations au = []"
    using agent_summary [of "input_of \<lparr>frames = [agent_frame], entries = [agent_entry], inputPath = p,
      inputSource = File, trace_type = AuditLog, hash_root = JStr zeros\<rparr>"] by (auto simp: input_of_def)
  have "trace_result agent_env ?a ''log'' = Inr ([], r)"
    using load r(1) by (simp add: trace_result_def initial_args_def)
  moreover have "contract_breaches ?a r = []"
    using r by (auto simp: contract_breaches_def initial_args_def Let_def split: option.split)
  ultimately show ?thesis
    by (simp add: execute_def agent_args run_command_def run_trace_def handleTrace_def finish_run_def trace_exit_def
        initial_args_def Let_def)
qed

theorem accepted_agent_trace_safe_witness:
  "\<exists>l. loadFrames agent_env ''log'' = Inr l \<and> trace_type l = AuditLog \<and> chain_ok agent_env (entries l) \<and>
    frames l = map (\<lambda>e. pget e ''frame'') (entries l) \<and>
    (\<forall>f \<in> set (frames l). \<forall>action. admits_critical f action \<longrightarrow>
       pget (pget f ''payload'') ''context'' \<noteq> JStr ''WEB'' \<and>
       has_capability (pget f ''payload'') (required_capability action))"
  by (rule accepted_agent_trace_safe [OF agent_args _ _ _ _ agent_exit]) (simp_all add: initial_args_def)

end
