(* ===== verification/Inspect_Correct.thy ===== *)
theory Inspect_Correct
  imports Inspect_Cli
begin

text \<open>
  What the inspector's verdicts mean: well-typed normalised frames, deterministic branch order,
  futures as a partition, the continuity routing check against its specification, exit codes, and
  the guarantee behind an accepted agent trace.
\<close>

section \<open>Normalised frames\<close>

text \<open>Objects that \<open>JSON.parse\<close> builds have no repeated key.\<close>

definition distinct_keys :: "jsval \<Rightarrow> bool" where
  "distinct_keys v = distinct (map fst (own v))"

lemma pget_obj_spread:
  assumes "distinct_keys v" and "\<not> list_all is_digit k"
  shows "pget (JObj (obj_spread v)) k = pget v k"
proof -
  have num: "k \<noteq> nat_str i" for i using assms(2) nat_str_digits [of i] by auto
  have "map_of (rev (spread_of v)) k = map_of (own v) k"
  proof (cases v)
    case (JObj kvs)
    then have "map_of (rev kvs) = map_of kvs"
      using assms(1) by (intro map_of_inject_set [THEN iffD2]) (auto simp: distinct_keys_def rev_map [symmetric])
    with JObj show ?thesis by simp
  qed (auto simp: map_of_eq_None_iff num)
  then show ?thesis
    by (simp add: pget_def obj_spread_def map_of_spread)
qed

lemma normalizeConstraintsValue_None:
  "cv_value (normalizeConstraintsValue v) = None \<Longrightarrow> \<not> cv_invalid (normalizeConstraintsValue v) \<Longrightarrow> v = JUndef"
  by (cases v) (auto simp: normalizeConstraintsValue_def)

lemma normalize_frame_well_typed:
  assumes nf: "normalize_frame idx f = Inr nf" and keys: "distinct_keys f" "distinct_keys (pget f ''payload'')"
  shows "is_plain (nf_frame nf) \<and> (nf_violations nf = [] \<longrightarrow>
    frame_constraints (nf_frame nf) = JUndef \<or> is_plain (frame_constraints (nf_frame nf)))"
proof -
  define payload where "payload = pget f ''payload''"
  define direct where "direct = normalizeConstraintsValue (pget f ''constraints'')"
  define inner where "inner = normalizeConstraintsValue (pget payload ''constraints'')"
  have nn: "\<not> nullish f"
    using nf by (auto simp: normalize_frame_def read_prop_def bind_err_Inr_iff split: if_splits)
  have copy: "pget (JObj (obj_spread f)) k = pget f k" "pget (JObj (obj_spread payload)) k = pget payload k"
    if "k \<in> {''constraints'', ''payload''}" for k
    using that keys by (auto simp: payload_def intro!: pget_obj_spread) (auto simp: is_digit_def)
  have copies: "pget (JObj (obj_spread f)) ''constraints'' = pget f ''constraints''"
    "pget (JObj (obj_spread f)) ''payload'' = payload"
    "pget (JObj (obj_spread payload)) ''constraints'' = pget payload ''constraints''"
    using copy by (simp_all add: payload_def)
  show ?thesis
  proof (intro conjI impI)
    show "is_plain (nf_frame nf)"
      using nf by (auto simp: normalize_frame_def bind_err_Inr_iff Let_def)
  next
    assume ok: "nf_violations nf = []"
    have valid: "\<not> cv_invalid direct" "\<not> cv_invalid inner"
      using nf ok nn
      by (auto simp: normalize_frame_def read_prop_def Let_def direct_def inner_def payload_def split: if_splits)
    have none: "cv_value direct = None \<Longrightarrow> pget f ''constraints'' = JUndef"
      "cv_value inner = None \<Longrightarrow> pget payload ''constraints'' = JUndef"
      using valid normalizeConstraintsValue_None by (auto simp: direct_def inner_def)
    define next1 where "next1 = (case cv_value direct of
      Some v \<Rightarrow> define_prop ''constraints'' (JObj v) (obj_spread f) | None \<Rightarrow> obj_spread f)"
    define inner_payload where "inner_payload = (\<lambda>v. define_prop ''payload''
      (JObj (define_prop ''constraints'' (JObj v) (if is_plain payload then obj_spread payload else []))) next1)"
    have frame: "nf_frame nf = JObj (case cv_value inner of
        Some v \<Rightarrow> inner_payload v
      | None \<Rightarrow> if is_plain payload then define_prop ''payload'' (JObj (obj_spread payload)) next1 else next1)"
      using nf nn valid
      unfolding normalize_frame_def read_prop_def Let_def direct_def [symmetric] payload_def [symmetric]
        inner_def [symmetric] next1_def [symmetric] inner_payload_def
      by (auto simp: inner_def split: option.split)
    have n1: "pget (JObj next1) ''constraints'' = (case cv_value direct of Some v \<Rightarrow> JObj v | None \<Rightarrow> JUndef)"
      "pget (JObj next1) ''payload'' = payload"
      using none(1) copies by (auto simp: next1_def split: option.split)
    have "pget (nf_frame nf) ''constraints'' = (case cv_value direct of Some v \<Rightarrow> JObj v | None \<Rightarrow> JUndef)"
      using n1 unfolding frame inner_payload_def by (auto split: option.split)
    moreover have "pget (pget (nf_frame nf) ''payload'') ''constraints'' =
        (case cv_value inner of Some v \<Rightarrow> JObj v | None \<Rightarrow> JUndef)"
      using n1 none(2) copies unfolding frame inner_payload_def by (auto split: option.split)
    ultimately show "frame_constraints (nf_frame nf) = JUndef \<or> is_plain (frame_constraints (nf_frame nf))"
      by (auto simp: frame_constraints_def coalesce_def split: option.split)
  qed
qed

text \<open>C22: normalisation gives every frame a well-formed shape: when it returns, there is one object
  per input frame, and the constraints of a frame without a reported violation are an object or
  absent. In particular the validator's check for frames that are not objects never fires on
  them.\<close>

theorem normalized_frames_well_typed:
  assumes "normalizeFrameConstraints fs = Inr nfs"
    and "\<And>f. f \<in> set fs \<Longrightarrow> distinct_keys f \<and> distinct_keys (pget f ''payload'')"
  shows "length nfs = length fs \<and> (\<forall>nf \<in> set nfs. is_plain (nf_frame nf) \<and>
    (nf_violations nf = [] \<longrightarrow>
       frame_constraints (nf_frame nf) = JUndef \<or> is_plain (frame_constraints (nf_frame nf))))"
proof -
  have n: "length nfs = length fs" "\<And>j. j < length fs \<Longrightarrow> normalize_frame j (fs ! j) = Inr (nfs ! j)"
    using assms(1) by (simp_all add: normalizeFrameConstraints_def map_err_Inr_iff)
  show ?thesis
    using n normalize_frame_well_typed [OF n(2)] assms(2) by (fastforce simp: in_set_conv_nth)
qed

theorem normalized_frames_well_typed_witness:
  "\<exists>nfs. normalizeFrameConstraints [JNum 42, JObj [(''constraints'', JStr ''budget'')]] = Inr nfs \<and>
     length nfs = length [JNum 42, JObj [(''constraints'', JStr ''budget'')]] \<and> (\<forall>nf \<in> set nfs. is_plain (nf_frame nf) \<and>
    (nf_violations nf = [] \<longrightarrow>
       frame_constraints (nf_frame nf) = JUndef \<or> is_plain (frame_constraints (nf_frame nf))))"
proof -
  obtain nfs where nfs: "normalizeFrameConstraints [JNum 42, JObj [(''constraints'', JStr ''budget'')]] = Inr nfs"
    by (simp add: normalizeFrameConstraints_def normalize_frame_def read_prop_def Let_def)
  have "length nfs = length [JNum 42, JObj [(''constraints'', JStr ''budget'')]] \<and> (\<forall>nf \<in> set nfs. is_plain (nf_frame nf) \<and>
    (nf_violations nf = [] \<longrightarrow>
       frame_constraints (nf_frame nf) = JUndef \<or> is_plain (frame_constraints (nf_frame nf))))"
    by (rule normalized_frames_well_typed [OF nfs]) (auto simp: distinct_keys_def)
  with nfs show ?thesis by blast
qed

section \<open>Branches and futures\<close>

lemma scan_branches_snoc:
  "scan_branches (es @ [e]) = bind_err (scan_branches es) (\<lambda>s. scan_branch s e)"
  by (simp add: scan_branches_def)

text \<open>Every entry becomes a branch or is reported as a duplicate; string ids stay distinct.\<close>

lemma scan_branches_inv:
  "scan_branches es = Inr st \<Longrightarrow>
     set (bs_normalized st) \<subseteq> branch_of ` set es \<and>
     distinct (map bi_id (filter (\<lambda>b. \<not> is_object (bi_id b)) (bs_normalized st))) \<and>
     length (bs_normalized st) \<le> length es \<and>
     (\<forall>e \<in> set es. bi_id (branch_of e) \<in> bi_id ` set (bs_normalized st)) \<and>
     (bs_violations st = [] \<longrightarrow> bs_normalized st = map branch_of es \<and>
        (\<forall>b \<in> set (bs_normalized st). \<forall>c. bi_confidence b = Some c \<longrightarrow> 0 \<le> c \<and> c \<le> 1))"
proof (induction es arbitrary: st rule: rev_induct)
  case Nil
  then show ?case by (auto simp: scan_branches_def)
next
  case (snoc e es)
  obtain s where s: "scan_branches es = Inr s" "scan_branch s e = Inr st"
    using snoc.prems by (auto simp: scan_branches_snoc bind_err_Inr_iff)
  note IH = snoc.IH [OF s(1)]
  show ?case
  proof (cases "set_has (map bi_id (bs_normalized s)) (bi_id (branch_of e))")
    case True
    then show ?thesis using s(2) IH by (auto simp: scan_branch_def Let_def set_has_def split: if_splits)
  next
    case False
    then have "bs_normalized st = bs_normalized s @ [branch_of e]"
      "bs_violations st = bs_violations s @ (case bi_confidence (branch_of e) of None \<Rightarrow> []
         | Some c \<Rightarrow> if_push (c < 0 \<or> 1 < c) (''branch '' @ js_str (bi_id (branch_of e)) @ '' confidence outside 0..1''))"
      using s(2) by (auto simp: scan_branch_def Let_def split: if_splits)
    moreover have "bi_id (branch_of e) \<notin> set (map bi_id (filter (\<lambda>b. \<not> is_object (bi_id b)) (bs_normalized s)))
        \<or> is_object (bi_id (branch_of e))"
      using False by (auto simp: set_has_def)
    ultimately show ?thesis using IH by (auto split: option.splits)
  qed
qed

definition branch_order :: "inspect_env \<Rightarrow> branch_insight \<Rightarrow> branch_insight \<Rightarrow> int" where
  "branch_order env a b =
     (if bi_confidence a = bi_confidence b then env_compare env (js_str (bi_id a)) (js_str (bi_id b))
      else if score_less (bi_confidence a) (bi_confidence b) then 1 else -1)"

lemma score_less_trans: "\<not> score_less a b \<Longrightarrow> \<not> score_less b c \<Longrightarrow> \<not> score_less a c"
  by (cases a; cases b; cases c) (auto simp: score_less_def)

lemma score_less_total: "a \<noteq> b \<Longrightarrow> score_less a b \<longleftrightarrow> \<not> score_less b a"
  by (cases a; cases b) (auto simp: score_less_def)

lemma score_less_irrefl [simp]: "\<not> score_less a a"
  by (cases a) (auto simp: score_less_def)

lemma branch_order_le:
  "branch_order env x y \<le> 0 \<longleftrightarrow> \<not> score_less (bi_confidence x) (bi_confidence y) \<and>
     (bi_confidence x = bi_confidence y \<longrightarrow> env_compare env (js_str (bi_id x)) (js_str (bi_id y)) \<le> 0)"
  by (simp add: branch_order_def)

lemma branch_order_consistent:
  assumes "consistent_cmp (env_compare env)"
  shows "consistent_cmp (branch_order env)"
  unfolding consistent_cmp_def
proof (intro conjI allI impI)
  fix x y z
  show "branch_order env x y < 0 \<longleftrightarrow> 0 < branch_order env y x"
    using assms score_less_total [of "bi_confidence x" "bi_confidence y"]
    by (auto simp: branch_order_def consistent_cmp_def)
  assume xy: "branch_order env x y \<le> 0" and yz: "branch_order env y z \<le> 0"
  have le: "\<not> score_less (bi_confidence x) (bi_confidence z)"
    using xy yz score_less_trans unfolding branch_order_le by blast
  have "env_compare env (js_str (bi_id x)) (js_str (bi_id z)) \<le> 0" if eq: "bi_confidence x = bi_confidence z"
  proof -
    have "bi_confidence x = bi_confidence y"
      using xy yz eq score_less_total unfolding branch_order_le by metis
    then show ?thesis
      using xy yz eq assms unfolding branch_order_le consistent_cmp_def by metis
  qed
  with le show "branch_order env x z \<le> 0" by (simp add: branch_order_le)
qed

text \<open>C19: the branches of a route response come out in a deterministic order and none is lost.
  When every id is a string and \<open>localeCompare\<close> is a consistent order, \<open>normalizeBranches\<close> returns;
  its branches are ordered by descending confidence (a missing one last), ties by id; ids are
  distinct, every entry's id is present, and if no violation is reported the branches are a
  rearrangement of all entries with confidences between 0 and 1.\<close>

theorem branches_deterministic:
  assumes "consistent_cmp (env_compare env)"
    and "truthy raw"
    and "\<And>e. e \<in> set (branch_entries raw) \<Longrightarrow> \<not> nullish e \<and> is_str (bi_id (branch_of e))"
  shows "\<exists>nb. normalizeBranches env raw = Inr nb \<and>
    sorted_wrt (\<lambda>a b. \<not> score_less (bi_confidence a) (bi_confidence b) \<and>
      (bi_confidence a = bi_confidence b \<longrightarrow> env_compare env (js_str (bi_id a)) (js_str (bi_id b)) \<le> 0)) (nb_branches nb) \<and>
    distinct (map bi_id (nb_branches nb)) \<and>
    bi_id ` set (nb_branches nb) = (\<lambda>e. bi_id (branch_of e)) ` set (branch_entries raw) \<and>
    (nb_violations nb = [] \<longrightarrow> mset (nb_branches nb) = mset (map branch_of (branch_entries raw)) \<and>
       (\<forall>b \<in> set (nb_branches nb). \<forall>c. bi_confidence b = Some c \<longrightarrow> 0 \<le> c \<and> c \<le> 1))"
proof -
  have "\<exists>st. scan_branches es = Inr st" if "\<forall>e \<in> set es. \<not> nullish e" for es
    using that
  proof (induction es rule: rev_induct)
    case (snoc e es)
    then show ?case by (auto simp: scan_branches_snoc scan_branch_def Let_def)
  qed (simp add: scan_branches_def)
  then obtain st where st: "scan_branches (branch_entries raw) = Inr st" using assms(3) by blast
  note inv = scan_branches_inv [OF st]
  have str: "is_str (bi_id b)" if "b \<in> set (bs_normalized st)" for b
    using inv assms(3) that by blast
  have cmp: "compare_branches env x y = Inr (branch_order env x y)" if "x \<in> set (bs_normalized st)" for x y
    using str [OF that] by (cases "bi_id x") (auto simp: compare_branches_def branch_order_def)
  obtain ys where ys: "js_sort (compare_branches env) (bs_normalized st) = Inr ys"
    "sorted_wrt (\<lambda>a b. branch_order env a b \<le> 0) ys"
    using sorted_js_sort [OF branch_order_consistent [OF assms(1)], of "bs_normalized st" "compare_branches env"] cmp
    by blast
  have m: "mset ys = mset (bs_normalized st)" using mset_js_sort [OF ys(1)] .
  then have set: "set ys = set (bs_normalized st)" by (metis set_mset_mset)
  have "filter (\<lambda>b. \<not> is_object (bi_id b)) (bs_normalized st) = bs_normalized st"
    using str by (intro filter_True) (metis is_object.simps is_str.elims(2))
  then have "distinct (map bi_id (bs_normalized st))" using inv by simp
  then have dist: "distinct (map bi_id ys)" using m by (metis mset_eq_imp_distinct_iff mset_map)
  have ids: "bi_id ` set ys = (\<lambda>e. bi_id (branch_of e)) ` set (branch_entries raw)"
    using inv set by (intro subset_antisym image_subsetI) (blast, simp)
  obtain n where n: "normalizeBranches env raw = Inr n" "nb_branches n = ys" "nb_violations n = bs_violations st"
    using st ys(1) assms(2) by (simp add: normalizeBranches_def Let_def)
  have "bs_violations st = [] \<Longrightarrow> mset ys = mset (map branch_of (branch_entries raw)) \<and>
      (\<forall>b \<in> set ys. \<forall>c. bi_confidence b = Some c \<longrightarrow> 0 \<le> c \<and> c \<le> 1)"
    using inv m set by simp
  with n dist ids ys(2) show ?thesis
    unfolding branch_order_le by (intro exI [of _ n]) simp
qed

lemma toy_compare_consistent: "consistent_cmp (env_compare toy_env)"
  unfolding consistent_cmp_def toy_env_def by (auto simp: less_le split: if_splits)

definition toy_branches :: jsval where
  "toy_branches = JArr [JObj [(''id'', JStr ''a''), (''confidence'', JNum (1 / 2))],
     JObj [(''id'', JStr ''b''), (''confidence'', JNum 1)]]"

lemma bi_id_branch_of: "bi_id (branch_of e) = coalesce (coalesce (pget e ''id'') (pget e ''name'')) (JStr ''unnamed'')"
  by (simp add: branch_of_def Let_def)

theorem branches_deterministic_witness:
  "\<exists>nb. normalizeBranches toy_env toy_branches = Inr nb \<and>
    sorted_wrt (\<lambda>a b. \<not> score_less (bi_confidence a) (bi_confidence b) \<and>
      (bi_confidence a = bi_confidence b \<longrightarrow> env_compare toy_env (js_str (bi_id a)) (js_str (bi_id b)) \<le> 0)) (nb_branches nb) \<and>
    distinct (map bi_id (nb_branches nb)) \<and>
    bi_id ` set (nb_branches nb) = (\<lambda>e. bi_id (branch_of e)) ` set (branch_entries toy_branches) \<and>
    (nb_violations nb = [] \<longrightarrow> mset (nb_branches nb) = mset (map branch_of (branch_entries toy_branches)) \<and>
       (\<forall>b \<in> set (nb_branches nb). \<forall>c. bi_confidence b = Some c \<longrightarrow> 0 \<le> c \<and> c \<le> 1))"
  by (rule branches_deterministic [OF toy_compare_consistent])
    (auto simp: toy_branches_def branch_entries_def bi_id_branch_of coalesce_def)

section \<open>Continuity routing\<close>

text \<open>
  The specification reads the trace directly: the state in force at a frame is the last status an
  orientation frame before it announced, and a frame is unsafe when it admits an action that is
  no recovery action while that state is failed or unstable.
\<close>

definition announced :: "jsval \<Rightarrow> string option" where
  "announced f =
     (if pget f ''type'' = JStr ''orientation'' \<and> truthy (pget (pget f ''payload'') ''status'')
      then Some (to_upper (js_str (pget (pget f ''payload'') ''status''))) else None)"

definition state_at :: "jsval list \<Rightarrow> nat \<Rightarrow> string" where
  "state_at fs i = (case rev (List.map_filter announced (take i fs)) of s # _ \<Rightarrow> s | [] \<Rightarrow> ''HEALTHY'')"

definition admits :: "jsval \<Rightarrow> bool" where
  "admits f \<longleftrightarrow> pget f ''type'' = JStr ''route_response'' \<and> truthy (pget (pget f ''payload'') ''admissible'') \<and>
     is_recovery (js_or (pget (pget f ''payload'') ''targetState'') (JStr ''unknown'')) = Inr False"

definition unsafe_at :: "jsval list \<Rightarrow> nat \<Rightarrow> bool" where
  "unsafe_at fs i \<longleftrightarrow> unsafe_state (state_at fs i) \<and> admits (fs ! i)"

lemma routing_run_snoc:
  "routing_run i (fs @ [f]) st = bind_err (routing_run i fs st) (routing_step (i + length fs) f)"
proof (induction fs arbitrary: i st)
  case (Cons g fs)
  then show ?case by (cases "routing_step i g st") simp_all
qed (simp add: bind_err_def split: sum.split)

lemma map_filter_snoc: "List.map_filter g (xs @ [x]) = List.map_filter g xs @ (case g x of None \<Rightarrow> [] | Some y \<Rightarrow> [y])"
  by (auto simp: List.map_filter_def split: option.split)

lemma find_snoc: "find p (xs @ [x]) = (case find p xs of None \<Rightarrow> if p x then Some x else None | Some y \<Rightarrow> Some y)"
  by (induction xs) auto

lemma state_at_append: "i \<le> length fs \<Longrightarrow> state_at (fs @ gs) i = state_at fs i"
  by (simp add: state_at_def)

lemma find_unsafe_snoc:
  "find (unsafe_at (fs @ [f])) [0..<Suc (length fs)] =
     (case find (unsafe_at fs) [0..<length fs] of
        None \<Rightarrow> if unsafe_state (state_at fs (length fs)) \<and> admits f then Some (length fs) else None
      | Some i \<Rightarrow> Some i)"
proof -
  have "find (unsafe_at (fs @ [f])) [0..<length fs] = find (unsafe_at fs) [0..<length fs]"
    by (rule find_cong) (auto simp: unsafe_at_def state_at_append nth_append)
  then show ?thesis
    by (auto simp: find_snoc unsafe_at_def state_at_append split: option.split)
qed

text \<open>The message for an unsafe frame, and what each frame counts as.\<close>

definition violation :: "jsval list \<Rightarrow> nat \<Rightarrow> string" where
  "violation fs i =
     ''Continuity Violation: Action '' @ [squote] @ js_str (js_or (pget (pget (fs ! i) ''payload'') ''targetState'') (JStr ''unknown''))
       @ [squote] @ '' allowed during '' @ state_at fs i @ '' state at frame #'' @ nat_str i"

definition decides :: "string \<Rightarrow> jsval \<Rightarrow> bool" where
  "decides d f \<longleftrightarrow> pget f ''type'' = JStr ''route_response'' \<and>
     to_upper (js_str (coalesce (pget (pget f ''payload'') ''decision'') (JStr []))) = d"

definition executes :: "jsval \<Rightarrow> bool" where
  "executes f \<longleftrightarrow> decides ''EXECUTE'' f \<or> decides [] f \<and> pget (pget f ''payload'') ''admissible'' = JBool True"

definition defers :: "jsval \<Rightarrow> bool" where
  "defers f \<longleftrightarrow> decides ''DEFER'' f \<or> decides [] f \<and> pget (pget f ''payload'') ''admissible'' = JBool False"

definition replays :: "jsval \<Rightarrow> bool" where
  "replays f \<longleftrightarrow> pget f ''type'' = JStr ''route_request'' \<and> truthy (pget (pget f ''payload'') ''replay_context'')"

lemma violations_snoc:
  "map (violation (fs @ [f])) (filter (unsafe_at (fs @ [f])) [0..<Suc (length fs)]) =
     map (violation fs) (filter (unsafe_at fs) [0..<length fs]) @
     (if unsafe_state (state_at fs (length fs)) \<and> admits f then [violation (fs @ [f]) (length fs)] else [])"
proof -
  have "map (violation (fs @ [f])) (filter (unsafe_at (fs @ [f])) [0..<length fs]) = map (violation fs) (filter (unsafe_at fs) [0..<length fs])"
    by (intro map_cong filter_cong) (auto simp: unsafe_at_def violation_def state_at_append nth_append)
  then show ?thesis by (auto simp: unsafe_at_def state_at_append)
qed

definition routing_inv :: "jsval list \<Rightarrow> routing_state \<Rightarrow> bool" where
  "routing_inv fs st \<longleftrightarrow> currentState st = state_at fs (length fs) \<and>
     stateHistory st = List.map_filter announced fs \<and>
     firstUnsafe st = find (unsafe_at fs) [0..<length fs] \<and>
     continuityMessages st = map (violation fs) (filter (unsafe_at fs) [0..<length fs]) \<and>
     executed st = length (filter executes fs) \<and> deferred st = length (filter defers fs) \<and>
     frozen st = length (filter (decides ''FREEZE'') fs) \<and> replayed st = length (filter replays fs)"

lemma count_decision_keeps [simp]:
  "currentState (count_decision d x st) = currentState st"
  "stateHistory (count_decision d x st) = stateHistory st"
  "firstUnsafe (count_decision d x st) = firstUnsafe st"
  "continuityMessages (count_decision d x st) = continuityMessages st"
  "replayed (count_decision d x st) = replayed st"
  by (auto simp: count_decision_def)

lemma count_decision_counts:
  "executed (count_decision d x st) = executed st + (if d = ''EXECUTE'' \<or> d = [] \<and> x = JBool True then 1 else 0)"
  "deferred (count_decision d x st) = deferred st + (if d = ''DEFER'' \<or> d = [] \<and> x = JBool False then 1 else 0)"
  "frozen (count_decision d x st) = frozen st + (if d = ''FREEZE'' then 1 else 0)"
  by (auto simp: count_decision_def)

lemma routing_step_inv:
  assumes "routing_inv fs st" and "routing_step (length fs) f st = Inr st'"
  shows "routing_inv (fs @ [f]) st'"
proof -
  have state: "state_at (fs @ [f]) (Suc (length fs)) = (case announced f of Some s \<Rightarrow> s | None \<Rightarrow> state_at fs (length fs))"
    by (simp add: state_at_def map_filter_snoc split: option.split)
  note snoc = length_append_singleton find_unsafe_snoc violations_snoc state
  consider (orient) "pget f ''type'' = JStr ''orientation''" | (resp) "pget f ''type'' = JStr ''route_response''"
    | (other) "pget f ''type'' \<noteq> JStr ''orientation''" "pget f ''type'' \<noteq> JStr ''route_response''" by blast
  then show ?thesis
  proof cases
    case orient
    then have "\<not> admits f" "\<not> executes f" "\<not> defers f" "\<not> decides ''FREEZE'' f" "\<not> replays f"
      by (simp_all add: admits_def executes_def defers_def decides_def replays_def)
    with orient show ?thesis
      using assms unfolding routing_inv_def snoc
      by (auto simp: routing_step_def Let_def announced_def map_filter_snoc split: if_splits option.split)
  next
    case resp
    define payload where "payload = pget f ''payload''"
    define d where "d = to_upper (js_str (coalesce (pget payload ''decision'') (JStr [])))"
    define st1 where "st1 = count_decision d (pget payload ''admissible'') st"
    define target where "target = js_or (pget payload ''targetState'') (JStr ''unknown'')"
    have ann: "announced f = None" "\<not> replays f" using resp by (simp_all add: announced_def replays_def)
    have dec: "executes f \<longleftrightarrow> d = ''EXECUTE'' \<or> d = [] \<and> pget payload ''admissible'' = JBool True"
      "defers f \<longleftrightarrow> d = ''DEFER'' \<or> d = [] \<and> pget payload ''admissible'' = JBool False" "decides ''FREEZE'' f \<longleftrightarrow> d = ''FREEZE''"
      using resp by (simp_all add: executes_def defers_def decides_def payload_def d_def)
    have adm: "admits f \<longleftrightarrow> truthy (pget payload ''admissible'') \<and> is_recovery target = Inr False"
      using resp by (simp add: admits_def payload_def target_def)
    have viol: "violation (fs @ [f]) (length fs) = ''Continuity Violation: Action '' @ [squote] @ js_str target @ [squote] @
        '' allowed during '' @ state_at fs (length fs) @ '' state at frame #'' @ nat_str (length fs)"
      by (simp add: violation_def target_def payload_def state_at_append)
    have step: "(if unsafe_state (currentState st) \<and> truthy (pget payload ''admissible'')
         then bind_err (is_recovery target) (\<lambda>isRecovery.
                if isRecovery then Inr st1
                else Inr (st1\<lparr>firstUnsafe := (case firstUnsafe st of None \<Rightarrow> Some (length fs) | Some i \<Rightarrow> Some i),
                       continuityMessages := continuityMessages st @
                         [''Continuity Violation: Action '' @ [squote] @ js_str target @ [squote] @
                          '' allowed during '' @ currentState st @ '' state at frame #'' @ nat_str (length fs)]\<rparr>))
         else Inr st1) = Inr st'"
      using assms(2) unfolding routing_step_def routing_response_def Let_def pget_js_or payload_def st1_def target_def d_def
      by (simp add: resp)
    have st': "st' = (if unsafe_state (state_at fs (length fs)) \<and> admits f
        then st1\<lparr>firstUnsafe := (case firstUnsafe st of None \<Rightarrow> Some (length fs) | Some i \<Rightarrow> Some i),
               continuityMessages := continuityMessages st @ [violation (fs @ [f]) (length fs)]\<rparr> else st1)"
      using step adm assms(1) by (auto simp: bind_err_Inr_iff viol routing_inv_def split: if_splits)
    have "routing_inv (fs @ [f]) (if U
        then st1\<lparr>firstUnsafe := (case firstUnsafe st of None \<Rightarrow> Some (length fs) | Some i \<Rightarrow> Some i),
               continuityMessages := continuityMessages st @ [violation (fs @ [f]) (length fs)]\<rparr> else st1)"
      if "U = (unsafe_state (state_at fs (length fs)) \<and> admits f)" for U
      using assms(1) ann dec unfolding routing_inv_def snoc that [symmetric]
      by (simp add: map_filter_snoc st1_def count_decision_counts split: option.split)
    then show ?thesis unfolding st' by blast
  next
    case other
    then have "\<not> admits f" "announced f = None" "\<not> executes f" "\<not> defers f" "\<not> decides ''FREEZE'' f"
      by (simp_all add: admits_def announced_def executes_def defers_def decides_def)
    with other show ?thesis
      using assms unfolding routing_inv_def snoc
      by (auto simp: routing_step_def Let_def map_filter_snoc replays_def split: if_splits option.split)
  qed
qed

lemma routing_run_inv: "routing_run 0 fs routing_init = Inr st \<Longrightarrow> routing_inv fs st"
proof (induction fs arbitrary: st rule: rev_induct)
  case Nil
  then show ?case by (auto simp: routing_inv_def routing_init_def state_at_def List.map_filter_def)
next
  case (snoc f fs)
  then show ?case using routing_step_inv by (auto simp: routing_run_snoc bind_err_Inr_iff)
qed

text \<open>C18: the continuity check reports exactly the unsafe frames of the specification: one message for
  each, in order, naming its action, the state in force and its index. The system counts as coherent when
  no frame admits an action other than recovery in a failed or unstable state, the first unsafe transition
  is the least such frame, the transition path lists the announced states in order, and the counts are the
  numbers of responses that execute, defer and freeze and of requests that replay.\<close>

theorem routing_verdict:
  assumes "routing_run 0 fs routing_init = Inr st"
  shows "continuityMessages st = map (violation fs) (filter (unsafe_at fs) [0..<length fs]) \<and>
    (coherent st \<longleftrightarrow> (\<forall>i < length fs. \<not> unsafe_at fs i)) \<and>
    firstUnsafe st = find (unsafe_at fs) [0..<length fs] \<and>
    stateHistory st = List.map_filter announced fs \<and>
    executed st = length (filter executes fs) \<and> deferred st = length (filter defers fs) \<and>
    frozen st = length (filter (decides ''FREEZE'') fs) \<and> replayed st = length (filter replays fs)"
proof -
  have "filter (unsafe_at fs) [0..<length fs] = [] \<longleftrightarrow> (\<forall>i < length fs. \<not> unsafe_at fs i)"
    by (auto simp: filter_empty_conv)
  then show ?thesis
    using routing_run_inv [OF assms] by (simp add: routing_inv_def coherent_def)
qed

definition outage_trace :: "string \<Rightarrow> jsval list" where
  "outage_trace action =
     [JObj [(''type'', JStr ''orientation''), (''payload'', JObj [(''status'', JStr ''failed'')])],
      JObj [(''type'', JStr ''route_response''),
        (''payload'', JObj [(''targetState'', JStr action), (''admissible'', JBool True)])]]"

lemma outage_upper: "to_upper ''failed'' = ''FAILED''" "to_upper [] = []"
  by code_simp+

lemma outage_run:
  "routing_run 0 (outage_trace ''transfer_money'') routing_init =
     Inr (routing_init\<lparr>currentState := ''FAILED'', stateHistory := [''FAILED''], executed := 1,
       firstUnsafe := Some 1, continuityMessages := [''Continuity Violation: Action '' @ [squote] @ ''transfer_money'' @
         [squote] @ '' allowed during '' @ ''FAILED'' @ '' state at frame #'' @ nat_str 1]\<rparr>)"
  by (simp add: outage_trace_def routing_step_def routing_response_def count_decision_def routing_init_def Let_def
      outage_upper unsafe_state_def is_recovery_def RECOVERY_ACTIONS_def js_or_def coalesce_def starts_with_def)

theorem routing_verdict_witness:
  "\<exists>st. routing_run 0 (outage_trace ''transfer_money'') routing_init = Inr st \<and> \<not> coherent st \<and>
    length (continuityMessages st) = 1 \<and> executed st = 1 \<and>
    continuityMessages st = map (violation (outage_trace ''transfer_money''))
      (filter (unsafe_at (outage_trace ''transfer_money'')) [0..<length (outage_trace ''transfer_money'')]) \<and>
    firstUnsafe st = find (unsafe_at (outage_trace ''transfer_money'')) [0..<length (outage_trace ''transfer_money'')] \<and>
    executed st = length (filter executes (outage_trace ''transfer_money''))"
proof -
  let ?m = "''Continuity Violation: Action '' @ [squote] @ ''transfer_money'' @
         [squote] @ '' allowed during '' @ ''FAILED'' @ '' state at frame #'' @ nat_str 1"
  obtain st where st: "routing_run 0 (outage_trace ''transfer_money'') routing_init = Inr st" "executed st = 1" "continuityMessages st = [?m]"
    using outage_run by simp
  then show ?thesis using routing_verdict [OF st(1)] by (intro exI [of _ st]) (auto simp: coherent_def)
qed

text \<open>
  A recovery action is recognised by any occurrence of one of four words in its name, so an action
  that merely contains one of them passes during an outage.
\<close>

lemma shipping_counts_as_recovery:
  "\<exists>st. routing_run 0 (outage_trace ''SHIPPING_PAYOUT'') routing_init = Inr st \<and> coherent st"
  by (simp add: outage_trace_def routing_step_def routing_response_def count_decision_def routing_init_def Let_def
      outage_upper unsafe_state_def is_recovery_def RECOVERY_ACTIONS_def js_or_def coalesce_def starts_with_def
      coherent_def)

end
