(* ===== verification/Action_Gate.thy ===== *)
theory Action_Gate
  imports JS_Library
begin

text \<open>
  The contract the agent pipelines share. A pipeline handles one event at a time; from an event it
  derives a proposal, a policy admits it or not, and the executor is called with the action proposed
  exactly when it is admitted. The pipelines of the repository are interpretations; what follows
  for a sequence of events is proved here once.
\<close>

text \<open>One event: the new state and the action handed to the executor, if any.\<close>

fun run_events :: "('e \<Rightarrow> 's \<Rightarrow> 's \<times> 'a option) \<Rightarrow> 'e list \<Rightarrow> 's \<Rightarrow> 's \<times> 'a list" where
  "run_events step [] s = (s, [])"
| "run_events step (e # es) s =
     (let (s1, x) = step e s; (s2, xs) = run_events step es s1
      in (s2, (case x of None \<Rightarrow> xs | Some a \<Rightarrow> a # xs)))"

locale action_gate =
  fixes handle :: "'e \<Rightarrow> 's \<Rightarrow> 's \<times> 'a option"
    and admits :: "'e \<Rightarrow> bool" and act :: "'e \<Rightarrow> 'a"
  assumes executes_iff: "snd (handle e s) = (if admits e then Some (act e) else None)"
begin

lemma run_executes: "snd (run_events handle es s) = map act (filter admits es)"
proof (induction es arbitrary: s)
  case (Cons e es)
  then show ?case
    using executes_iff [of e s] by (cases "handle e s") (simp add: case_prod_unfold)
qed simp

text \<open>No event, however it is placed among others, makes an action run that was not admitted.\<close>

lemma run_safe: "a \<in> set (snd (run_events handle es s)) \<Longrightarrow> \<exists>e \<in> set es. admits e \<and> a = act e"
  by (auto simp: run_executes)

text \<open>What runs for later events does not depend on the earlier ones or on the state.\<close>

lemma run_append:
  "snd (run_events handle (es @ fs) s) = snd (run_events handle es s') @ snd (run_events handle fs s'')"
  by (simp add: run_executes)

end

end
