(* ===== verification/Reference_Agent.thy ===== *)
theory Reference_Agent
  imports Action_Gate
begin

text \<open>
  The reference agent (\<open>agents/reference-agent\<close>): configuration of critical actions, the policy
  \<open>enforceActionBoundary\<close>, the admissibility checker that mints verified transitions, the action
  boundary that executes them, the pipeline and the mock adapter. Random identifiers and the clock
  are the fields of \<open>agent_host\<close>; the proposal engine and the executor are arguments, as in the
  pipeline's constructor. The private brand symbol of a transition is the field \<open>vt_brand\<close>.
\<close>

section \<open>Types\<close>

record agent_event =
  ev_id :: string
  ev_type :: string
  ev_content :: string
  ev_timestamp :: rat

record proposed_transition =
  pt_id :: string
  pt_eventId :: string
  pt_targetState :: string
  pt_reason :: string
  pt_params :: jsval
  pt_context :: string

datatype reason_code =
    WEB_ORIGIN_FORBIDDEN_FOR_CRITICAL_ACTION | MISSING_AUTHORITY | UNTRUSTED_SOURCE | INVALID_TRANSITION
  | GLOBAL_SAFETY_VIOLATION | PROMPT_INJECTION_DETECTED | ADMISSIBLE

text \<open>An object that may be a verified transition: it is one when it carries the brand.\<close>

record verified_transition =
  vt_brand :: bool
  vt_id :: string
  vt_originalProposalId :: string
  vt_signedByLtp :: bool
  vt_timestamp :: rat
  vt_traceId :: string
  vt_reason :: string
  vt_reasonCode :: "reason_code option"
  vt_targetState :: string
  vt_params :: jsval
  vt_context :: string

record blocked_transition =
  bt_id :: string
  bt_originalProposalId :: string
  bt_reason :: string
  bt_reasonCode :: reason_code
  bt_traceId :: string
  bt_timestamp :: rat
  bt_violationType :: "string option"
  bt_context :: string

datatype admissibility_result = Allowed verified_transition | Denied blocked_transition

record action_result =
  ar_success :: bool
  ar_output :: jsval
  ar_error :: "string option"
  ar_traceId :: string

datatype agent_error = EnforcementError string | OtherError string

record agent_host =
  critical_env :: "string option"          \<comment> \<open>\<open>LTP_CRITICAL_ACTIONS\<close>\<close>
  critical_file_env :: "string option"     \<comment> \<open>\<open>LTP_CRITICAL_ACTIONS_FILE\<close>\<close>
  critical_file :: "string \<Rightarrow> (string + string) option"  \<comment> \<open>the file, \<open>None\<close> if it does not exist\<close>
  uuid_trace :: string
  uuid_object :: string
  host_now :: rat

section \<open>Configuration\<close>

definition default_critical :: "string list" where
  "default_critical = [''transfer_money'', ''delete_data'', ''send_email'', ''approve_trade'', ''modify_system'', ''delete_file'']"

text \<open>The actions of the configuration file; every failure falls back to the defaults.\<close>

definition file_actions :: "agent_host \<Rightarrow> jsval list option" where
  "file_actions h =
     (case critical_file_env h of
        None \<Rightarrow> None
      | Some p \<Rightarrow>
          if p = [] then None
          else (case critical_file h p of
                  Some (Inr content) \<Rightarrow>
                    (case json_parse content of
                       Some (JArr xs) \<Rightarrow> Some xs
                     | Some data \<Rightarrow> (case pget data ''criticalActions'' of JArr xs \<Rightarrow> Some xs | _ \<Rightarrow> None)
                     | None \<Rightarrow> None)
                | _ \<Rightarrow> None))"

definition getCriticalActions :: "agent_host \<Rightarrow> jsval list" where
  "getCriticalActions h =
     (case critical_env h of
        Some s \<Rightarrow> if s \<noteq> [] then map (\<lambda>x. JStr (trim x)) (split_on CHR '','' s)
                  else (case file_actions h of Some xs \<Rightarrow> xs | None \<Rightarrow> map JStr default_critical)
      | None \<Rightarrow> (case file_actions h of Some xs \<Rightarrow> xs | None \<Rightarrow> map JStr default_critical))"

definition getGloballyBannedActions :: "jsval list" where
  "getGloballyBannedActions = [JStr ''rm -rf'', JStr ''format_disk'']"

section \<open>Policy\<close>

record policy_config =
  pc_criticalActions :: "jsval list option"
  pc_globallyBanned :: "jsval list option"

record decision =
  dc_admissible :: bool
  dc_reason :: string
  dc_reasonCode :: reason_code
  dc_violationType :: "string option"

text \<open>\<open>actions.some(action => targetState.includes(action))\<close>; the argument is converted to a string.\<close>

definition mentions :: "string \<Rightarrow> jsval list \<Rightarrow> bool" where
  "mentions targetState actions = (\<exists>action \<in> set actions. str_includes targetState (js_str action))"

definition injection_phrase :: string where
  "injection_phrase = ''ignore previous instructions''"

definition enforceActionBoundary :: "agent_host \<Rightarrow> proposed_transition \<Rightarrow> policy_config \<Rightarrow> decision" where
  "enforceActionBoundary h proposal config =
     (let criticalActions = (case pc_criticalActions config of Some xs \<Rightarrow> xs | None \<Rightarrow> getCriticalActions h);
          globallyBanned = (case pc_globallyBanned config of Some xs \<Rightarrow> xs | None \<Rightarrow> getGloballyBannedActions);
          target = pt_targetState proposal
      in if mentions target globallyBanned
         then \<lparr>dc_admissible = False,
               dc_reason = ''Global Safety Violation: Action '' @ [squote] @ target @ [squote] @ '' is permanently banned.'',
               dc_reasonCode = GLOBAL_SAFETY_VIOLATION, dc_violationType = Some ''SAFETY''\<rparr>
         else if pt_context proposal = ''WEB'' \<and> mentions target criticalActions
         then \<lparr>dc_admissible = False,
               dc_reason = ''Policy Violation: Web content cannot initiate critical action '' @ [squote] @ target @ [squote],
               dc_reasonCode = WEB_ORIGIN_FORBIDDEN_FOR_CRITICAL_ACTION, dc_violationType = Some ''SAFETY''\<rparr>
         else if pt_reason proposal \<noteq> [] \<and> str_includes (to_lower (pt_reason proposal)) injection_phrase
         then \<lparr>dc_admissible = False, dc_reason = ''Heuristic Block: Potential prompt injection detected.'',
               dc_reasonCode = PROMPT_INJECTION_DETECTED, dc_violationType = Some ''SAFETY''\<rparr>
         else \<lparr>dc_admissible = True, dc_reason = ''Admissible: Fits within safe orientation'',
               dc_reasonCode = ADMISSIBLE, dc_violationType = None\<rparr>)"

definition default_config :: policy_config where
  "default_config = \<lparr>pc_criticalActions = None, pc_globallyBanned = None\<rparr>"

section \<open>Enforcement\<close>

definition mintVerifiedTransition ::
  "agent_host \<Rightarrow> proposed_transition \<Rightarrow> string \<Rightarrow> string \<Rightarrow> reason_code option \<Rightarrow> verified_transition" where
  "mintVerifiedTransition h proposal traceId reason reasonCode =
     \<lparr>vt_brand = True, vt_id = uuid_object h, vt_originalProposalId = pt_id proposal, vt_signedByLtp = True,
      vt_timestamp = host_now h, vt_traceId = traceId, vt_reason = reason, vt_reasonCode = reasonCode,
      vt_targetState = pt_targetState proposal, vt_params = pt_params proposal, vt_context = pt_context proposal\<rparr>"

definition isVerifiedTransition :: "verified_transition \<Rightarrow> bool" where
  "isVerifiedTransition x = vt_brand x"

definition check_proposal :: "agent_host \<Rightarrow> proposed_transition \<Rightarrow> admissibility_result" where
  "check_proposal h proposal =
     (let traceId = uuid_trace h; d = enforceActionBoundary h proposal default_config
      in if \<not> dc_admissible d
         then Denied \<lparr>bt_id = uuid_object h, bt_originalProposalId = pt_id proposal, bt_reason = dc_reason d,
                bt_reasonCode = dc_reasonCode d, bt_traceId = traceId, bt_timestamp = host_now h,
                bt_violationType = dc_violationType d, bt_context = pt_context proposal\<rparr>
         else Allowed (mintVerifiedTransition h proposal traceId (dc_reason d) (Some (dc_reasonCode d))))"

text \<open>
  \<open>ActionBoundary.execute\<close>: the result and whether the executor was called. The executor's own
  exceptions become a failed result.
\<close>

definition boundary_execute ::
  "verified_transition \<Rightarrow> (verified_transition \<Rightarrow> string + action_result) \<Rightarrow>
    (agent_error + action_result) \<times> verified_transition option" where
  "boundary_execute transition executor =
     (if \<not> isVerifiedTransition transition
      then (Inl (EnforcementError ''SECURITY VIOLATION: Attempted to execute unverified transition.''), None)
      else if \<not> vt_signedByLtp transition
      then (Inl (EnforcementError ''INTEGRITY VIOLATION: Transition lacks LTP signature.''), None)
      else (Inr (case executor transition of
                   Inr r \<Rightarrow> r
                 | Inl msg \<Rightarrow> \<lparr>ar_success = False, ar_output = JUndef, ar_error = Some msg,
                                ar_traceId = vt_traceId transition\<rparr>),
            Some transition))"

section \<open>Pipeline\<close>

definition classify :: "agent_event \<Rightarrow> string" where
  "classify event = (if ev_type event \<noteq> [] then ev_type event else ''USER'')"

datatype pipeline_result =
    Executed string action_result
  | BlockedBy string string reason_code "string option"

text \<open>
  \<open>AgentPipeline.process\<close>. The proposal engine may throw; whatever context it claims is
  overwritten by the classified one.
\<close>

definition agent_process ::
  "agent_host \<Rightarrow> (agent_event \<Rightarrow> string + proposed_transition) \<Rightarrow> (verified_transition \<Rightarrow> string + action_result) \<Rightarrow>
    agent_event \<Rightarrow> (agent_error + pipeline_result) \<times> verified_transition option" where
  "agent_process h proposalEngine actionExecutor event =
     (let ctx = classify event
      in case proposalEngine event of
           Inl msg \<Rightarrow> (Inl (OtherError msg), None)
         | Inr raw \<Rightarrow>
             (let proposal = raw\<lparr>pt_context := ctx\<rparr>
              in case check_proposal h proposal of
                   Denied b \<Rightarrow> (Inr (BlockedBy (bt_traceId b) (bt_reason b) (bt_reasonCode b) (bt_violationType b)), None)
                 | Allowed v \<Rightarrow>
                     (case boundary_execute v actionExecutor of
                        (Inl e, x) \<Rightarrow> (Inl e, x)
                      | (Inr r, x) \<Rightarrow> (Inr (Executed (vt_traceId v) r), x))))"

section \<open>The mock adapter\<close>

text \<open>\<open>onEvent\<close> reads a raw framework event; its text is assumed to be a string.\<close>

definition onEvent :: "agent_host \<Rightarrow> jsval \<Rightarrow> agent_event" where
  "onEvent h rawEvent =
     \<lparr>ev_id = js_str (js_or (pget rawEvent ''id'') (JStr ''unknown'')),
      ev_type = (if pget rawEvent ''source'' = JStr ''user'' then ''USER'' else ''SYSTEM''),
      ev_content = js_str (pget rawEvent ''text''), ev_timestamp = host_now h\<rparr>"

definition mock_propose :: "agent_host \<Rightarrow> agent_event \<Rightarrow> proposed_transition" where
  "mock_propose h event =
     \<lparr>pt_id = ''prop-'' @ num_str (host_now h), pt_eventId = ev_id event,
      pt_targetState = (if str_includes (ev_content event) ''status'' then ''check_status'' else ''chat_reply''),
      pt_reason = (if str_includes (ev_content event) ''status'' then ''User requested status check''
                   else ''Standard conversation flow''),
      pt_params = JUndef, pt_context = []\<rparr>"

definition mock_execute :: "verified_transition \<Rightarrow> action_result" where
  "mock_execute transition =
     \<lparr>ar_success = True, ar_output = JStr (''Executed '' @ vt_targetState transition), ar_error = None,
      ar_traceId = vt_traceId transition\<rparr>"

section \<open>What the pipeline guarantees\<close>

lemma admitted_iff:
  "dc_admissible (enforceActionBoundary h p default_config) \<longleftrightarrow>
     \<not> mentions (pt_targetState p) getGloballyBannedActions \<and>
     (pt_context p = ''WEB'' \<longrightarrow> \<not> mentions (pt_targetState p) (getCriticalActions h)) \<and>
     \<not> str_includes (to_lower (pt_reason p)) injection_phrase"
proof -
  have "\<not> str_includes (to_lower []) injection_phrase"
    by (simp add: to_lower_def injection_phrase_def)
  then show ?thesis
    by (auto simp: enforceActionBoundary_def default_config_def Let_def)
qed

text \<open>The policy of the reference agent, exactly: a proposal is admitted when its target names
  no banned action, names no configured critical action unless its context is other than WEB, and
  its reason does not contain the injection phrase in any letter case; the reason code says which
  rule was hit, the ban first.\<close>

theorem policy_decision:
  "(dc_admissible (enforceActionBoundary h p default_config) \<longleftrightarrow>
      \<not> mentions (pt_targetState p) getGloballyBannedActions \<and>
      (pt_context p = ''WEB'' \<longrightarrow> \<not> mentions (pt_targetState p) (getCriticalActions h)) \<and>
      \<not> str_includes (to_lower (pt_reason p)) injection_phrase) \<and>
   (dc_reasonCode (enforceActionBoundary h p default_config) = ADMISSIBLE
      \<longleftrightarrow> dc_admissible (enforceActionBoundary h p default_config)) \<and>
   (dc_reasonCode (enforceActionBoundary h p default_config) = GLOBAL_SAFETY_VIOLATION
      \<longleftrightarrow> mentions (pt_targetState p) getGloballyBannedActions)"
  unfolding admitted_iff [symmetric] by (auto simp: enforceActionBoundary_def default_config_def Let_def)

theorem policy_decision_witness:
  "\<exists>h p. pt_context p = ''WEB'' \<and> \<not> dc_admissible (enforceActionBoundary h p default_config) \<and>
     dc_reasonCode (enforceActionBoundary h p default_config) \<noteq> ADMISSIBLE"
proof -
  let ?h = "\<lparr>critical_env = Some ''transfer_money'', critical_file_env = None, critical_file = (\<lambda>_. None),
    uuid_trace = ''t'', uuid_object = ''o'', host_now = 0\<rparr>"
  let ?p = "\<lparr>pt_id = ''p'', pt_eventId = ''e'', pt_targetState = ''transfer_money'', pt_reason = [],
    pt_params = JUndef, pt_context = ''WEB''\<rparr>"
  have "mentions ''transfer_money'' (getCriticalActions ?h)"
    by (simp add: mentions_def getCriticalActions_def trim_def is_ws_def starts_with_def)
  then show ?thesis
    using policy_decision [of ?h ?p] by (intro exI [of _ ?h] exI [of _ ?p]) simp
qed

text \<open>An event of the pipeline comes with the host it is handled on.\<close>

type_synonym hosted_event = "agent_host \<times> agent_event"

definition event_proposal :: "(agent_event \<Rightarrow> string + proposed_transition) \<Rightarrow> hosted_event \<Rightarrow> proposed_transition option" where
  "event_proposal engine he =
     (case engine (snd he) of Inl _ \<Rightarrow> None | Inr raw \<Rightarrow> Some (raw\<lparr>pt_context := classify (snd he)\<rparr>))"

definition event_admitted :: "(agent_event \<Rightarrow> string + proposed_transition) \<Rightarrow> hosted_event \<Rightarrow> bool" where
  "event_admitted engine he =
     (case event_proposal engine he of
        None \<Rightarrow> False
      | Some p \<Rightarrow> dc_admissible (enforceActionBoundary (fst he) p default_config))"

definition event_transition :: "(agent_event \<Rightarrow> string + proposed_transition) \<Rightarrow> hosted_event \<Rightarrow> verified_transition" where
  "event_transition engine he =
     (let p = the (event_proposal engine he); d = enforceActionBoundary (fst he) p default_config
      in mintVerifiedTransition (fst he) p (uuid_trace (fst he)) (dc_reason d) (Some (dc_reasonCode d)))"

definition agent_handle ::
  "(agent_event \<Rightarrow> string + proposed_transition) \<Rightarrow> (verified_transition \<Rightarrow> string + action_result) \<Rightarrow>
    hosted_event \<Rightarrow> unit \<Rightarrow> unit \<times> verified_transition option" where
  "agent_handle engine executor he s = (s, snd (agent_process (fst he) engine executor (snd he)))"

lemma boundary_execute_minted [simp]:
  "boundary_execute (mintVerifiedTransition h p t r c) executor =
     (Inr (case executor (mintVerifiedTransition h p t r c) of
             Inr x \<Rightarrow> x
           | Inl msg \<Rightarrow> \<lparr>ar_success = False, ar_output = JUndef, ar_error = Some msg, ar_traceId = t\<rparr>),
      Some (mintVerifiedTransition h p t r c))"
  by (simp add: boundary_execute_def isVerifiedTransition_def mintVerifiedTransition_def split: sum.split)

interpretation reference_gate:
  action_gate "agent_handle engine executor" "event_admitted engine" "event_transition engine"
  for engine executor
proof
  fix e s
  show "snd (agent_handle engine executor e s) = (if event_admitted engine e then Some (event_transition engine e) else None)"
    by (cases "engine (snd e)")
      (auto simp: agent_handle_def agent_process_def check_proposal_def event_admitted_def event_transition_def
        event_proposal_def Let_def)
qed

text \<open>
  A transition that was never checked passes the boundary as long as it was minted: the factory
  \<open>mintVerifiedTransition\<close> is exported, so the brand does not prove a policy decision.
\<close>

lemma minted_transition_bypasses_policy:
  "snd (boundary_execute (mintVerifiedTransition h p t r c) executor) = Some (mintVerifiedTransition h p t r c)"
  by simp

text \<open>C23: whatever events the pipeline is fed, in whatever order and with whatever proposal engine
  and executor, every transition that reaches the executor comes from one of the events, carries
  that event's own context rather than the one the engine claims, names no banned action, names
  no critical action when the event is from the web, and has no injection phrase in its reason.\<close>

theorem executed_actions_admissible:
  assumes "v \<in> set (snd (run_events (agent_handle engine executor) es s))"
  shows "\<exists>h e raw. (h, e) \<in> set es \<and> engine e = Inr raw \<and> vt_targetState v = pt_targetState raw \<and>
    vt_context v = classify e \<and> isVerifiedTransition v \<and>
    \<not> mentions (vt_targetState v) getGloballyBannedActions \<and>
    (classify e = ''WEB'' \<longrightarrow> \<not> mentions (vt_targetState v) (getCriticalActions h)) \<and>
    \<not> str_includes (to_lower (pt_reason raw)) injection_phrase"
proof -
  obtain he where he: "he \<in> set es" "event_admitted engine he" "v = event_transition engine he"
    using reference_gate.run_safe [OF assms] by blast
  obtain raw where raw: "engine (snd he) = Inr raw"
    using he(2) by (cases "engine (snd he)") (auto simp: event_admitted_def event_proposal_def)
  let ?p = "raw\<lparr>pt_context := classify (snd he)\<rparr>"
  have "dc_admissible (enforceActionBoundary (fst he) ?p default_config)"
    using he(2) raw by (simp add: event_admitted_def event_proposal_def)
  note adm = admitted_iff [THEN iffD1, OF this]
  show ?thesis
    using he(1) raw adm he(3)
    by (intro exI [of _ "fst he"] exI [of _ "snd he"] exI [of _ raw])
      (simp add: event_transition_def event_proposal_def mintVerifiedTransition_def isVerifiedTransition_def Let_def)
qed

definition toy_host :: agent_host where
  "toy_host = \<lparr>critical_env = None, critical_file_env = None, critical_file = (\<lambda>_. None), uuid_trace = ''t'',
     uuid_object = ''o'', host_now = 0\<rparr>"

definition toy_event :: agent_event where
  "toy_event = \<lparr>ev_id = ''e'', ev_type = ''WEB'', ev_content = ''hi'', ev_timestamp = 0\<rparr>"

lemma toy_admitted: "event_admitted (\<lambda>e. Inr (mock_propose toy_host e)) (toy_host, toy_event)"
  by (simp add: event_admitted_def event_proposal_def admitted_iff mock_propose_def toy_event_def toy_host_def
      classify_def mentions_def getGloballyBannedActions_def getCriticalActions_def file_actions_def default_critical_def
      injection_phrase_def to_lower_def lower_char_def starts_with_def)

theorem executed_actions_admissible_witness:
  "\<exists>v. v \<in> set (snd (run_events (agent_handle (\<lambda>e. Inr (mock_propose toy_host e)) (\<lambda>t. Inr (mock_execute t)))
      [(toy_host, toy_event)] ())) \<and> \<not> mentions (vt_targetState v) getGloballyBannedActions"
proof -
  let ?engine = "\<lambda>e. Inr (mock_propose toy_host e)" and ?executor = "\<lambda>t. Inr (mock_execute t)"
  let ?v = "event_transition ?engine (toy_host, toy_event)"
  have "?v \<in> set (snd (run_events (agent_handle ?engine ?executor) [(toy_host, toy_event)] ()))"
    unfolding reference_gate.run_executes using toy_admitted by simp
  from this executed_actions_admissible [OF this] show ?thesis by blast
qed

end
