(* ===== verification/Reference_Pipeline.thy ===== *)
theory Reference_Pipeline
  imports Action_Gate Hash_Chain
begin

text \<open>
  The reference pipeline (\<open>examples/agents/reference-pipeline\<close>): a hash-chained logger, an
  admissibility checker, the action boundary and the pipeline that logs every stage. SHA-256, the
  clock and random identifiers are arguments or fields of \<open>pipe_host\<close>.
\<close>

section \<open>The logger\<close>

datatype log_type = EVENT | PROPOSAL | CHECK | ACTION

record log_entry =
  le_traceId :: string
  le_type :: log_type
  le_timestamp :: rat
  le_payload :: jsval
  le_previousHash :: string
  le_hash :: string

definition log_type_text :: "log_type \<Rightarrow> string" where
  "log_type_text t = (case t of EVENT \<Rightarrow> ''EVENT'' | PROPOSAL \<Rightarrow> ''PROPOSAL'' | CHECK \<Rightarrow> ''CHECK'' | ACTION \<Rightarrow> ''ACTION'')"

definition genesis_hash :: string where
  "genesis_hash = replicate 64 CHR ''0''"

definition getLastHash :: "log_entry list \<Rightarrow> string" where
  "getLastHash lg = (if lg = [] then genesis_hash else le_hash (last lg))"

text \<open>\<open>JSON.stringify(payload)\<close> in a template string.\<close>

definition payload_text :: "jsval \<Rightarrow> string" where
  "payload_text payload = (case json_stringify payload of None \<Rightarrow> ''undefined'' | Some t \<Rightarrow> t)"

definition data_to_hash :: "string \<Rightarrow> rat \<Rightarrow> log_type \<Rightarrow> string \<Rightarrow> jsval \<Rightarrow> string" where
  "data_to_hash previousHash timestamp ty traceId payload =
     previousHash @ ''|'' @ num_str timestamp @ ''|'' @ log_type_text ty @ ''|'' @ traceId @ ''|'' @ payload_text payload"

definition log_hash :: "(byte list \<Rightarrow> byte list) \<Rightarrow> string \<Rightarrow> rat \<Rightarrow> log_type \<Rightarrow> string \<Rightarrow> jsval \<Rightarrow> string" where
  "log_hash sha previousHash timestamp ty traceId payload =
     bufferToHex (sha (utf8 (data_to_hash previousHash timestamp ty traceId payload)))"

definition log_append :: "(byte list \<Rightarrow> byte list) \<Rightarrow> rat \<Rightarrow> log_type \<Rightarrow> jsval \<Rightarrow> string \<Rightarrow> log_entry list \<Rightarrow> log_entry list" where
  "log_append sha timestamp ty payload traceId lg =
     (let previousHash = getLastHash lg
      in lg @ [\<lparr>le_traceId = traceId, le_type = ty, le_timestamp = timestamp, le_payload = payload,
                le_previousHash = previousHash, le_hash = log_hash sha previousHash timestamp ty traceId payload\<rparr>])"

text \<open>The loop of \<open>verifyIntegrity\<close>, with the hash expected before the next entry.\<close>

fun verify_from :: "(byte list \<Rightarrow> byte list) \<Rightarrow> string \<Rightarrow> log_entry list \<Rightarrow> bool" where
  "verify_from sha prevHash [] = True"
| "verify_from sha prevHash (entry # rest) =
     (if le_previousHash entry \<noteq> prevHash then False
      else let h = log_hash sha prevHash (le_timestamp entry) (le_type entry) (le_traceId entry) (le_payload entry)
           in if h \<noteq> le_hash entry then False else verify_from sha h rest)"

definition verifyIntegrity :: "(byte list \<Rightarrow> byte list) \<Rightarrow> log_entry list \<Rightarrow> bool" where
  "verifyIntegrity sha lg = verify_from sha genesis_hash lg"

definition hasProcessed :: "string \<Rightarrow> log_entry list \<Rightarrow> bool" where
  "hasProcessed traceId lg = (\<exists>e \<in> set lg. le_traceId e = traceId \<and> le_type e = ACTION)"

section \<open>Enforcement\<close>

record pipe_event =
  pe_id :: string
  pe_type :: string
  pe_content :: string
  pe_timestamp :: rat
  pe_metadata :: jsval

record pipe_proposal =
  pp_id :: string
  pp_eventId :: string
  pp_targetState :: string
  pp_reason :: string
  pp_params :: jsval

record pipe_transition =
  pv_brand :: bool
  pv_id :: string
  pv_originalProposalId :: string
  pv_signedByLtp :: bool
  pv_timestamp :: rat
  pv_traceId :: string
  pv_reason :: string
  pv_targetState :: string
  pv_params :: jsval

record pipe_blocked =
  pb_id :: string
  pb_originalProposalId :: string
  pb_reason :: string
  pb_traceId :: string
  pb_timestamp :: rat
  pb_violationType :: string

datatype pipe_check = PipeAllowed pipe_transition | PipeBlocked pipe_blocked

record pipe_result =
  pr_success :: bool
  pr_newState :: jsval
  pr_output :: jsval
  pr_error :: jsval
  pr_traceId :: string

record pipe_host =
  ph_sha256 :: "byte list \<Rightarrow> byte list"
  ph_pipeline_uuid :: string    \<comment> \<open>\<open>crypto.randomUUID()\<close> in \<open>process\<close>\<close>
  ph_check_uuid :: string       \<comment> \<open>\<open>crypto.randomUUID()\<close> for the trace of the check\<close>
  ph_object_uuid :: string      \<comment> \<open>\<open>crypto.randomUUID()\<close> for the transition\<close>
  ph_now :: "nat \<Rightarrow> rat"        \<comment> \<open>\<open>Date.now()\<close>, one reading per use\<close>

definition pipe_mint :: "pipe_host \<Rightarrow> pipe_proposal \<Rightarrow> string \<Rightarrow> string \<Rightarrow> pipe_transition" where
  "pipe_mint h proposal traceId reason =
     \<lparr>pv_brand = True, pv_id = ph_object_uuid h, pv_originalProposalId = pp_id proposal, pv_signedByLtp = True,
      pv_timestamp = ph_now h 2, pv_traceId = traceId, pv_reason = reason, pv_targetState = pp_targetState proposal,
      pv_params = pp_params proposal\<rparr>"

definition unsafe_keywords :: "string list" where
  "unsafe_keywords = [''delete'', ''transfer_money'', ''rm -rf'', ''drop table'']"

definition isViolation :: "pipe_proposal \<Rightarrow> bool" where
  "isViolation proposal =
     ((\<exists>k \<in> set unsafe_keywords. str_includes (pp_targetState proposal) k) \<or>
      (pp_reason proposal \<noteq> [] \<and> str_includes (to_lower (pp_reason proposal)) ''ignore previous''))"

definition pipe_check_proposal :: "pipe_host \<Rightarrow> pipe_proposal \<Rightarrow> pipe_check" where
  "pipe_check_proposal h proposal =
     (let traceId = ph_check_uuid h
      in if isViolation proposal
         then PipeBlocked \<lparr>pb_id = ph_object_uuid h, pb_originalProposalId = pp_id proposal,
                pb_reason = ''Policy Violation: Unsafe action detected'', pb_traceId = traceId,
                pb_timestamp = ph_now h 2, pb_violationType = ''SAFETY''\<rparr>
         else PipeAllowed (pipe_mint h proposal traceId ''Admissible: Fits within safe orientation''))"

definition pipe_execute ::
  "pipe_transition \<Rightarrow> (pipe_transition \<Rightarrow> string + pipe_result) \<Rightarrow> (string + pipe_result) \<times> pipe_transition option" where
  "pipe_execute transition executor =
     (if \<not> pv_brand transition
      then (Inl ''SECURITY VIOLATION: Attempted to execute unverified transition.'', None)
      else if \<not> pv_signedByLtp transition
      then (Inl ''INTEGRITY VIOLATION: Transition lacks LTP signature.'', None)
      else (Inr (case executor transition of
                   Inr r \<Rightarrow> r
                 | Inl msg \<Rightarrow> \<lparr>pr_success = False, pr_newState = JUndef, pr_output = JUndef, pr_error = JStr msg,
                                pr_traceId = pv_traceId transition\<rparr>),
            Some transition))"

section \<open>The pipeline\<close>

definition event_json :: "pipe_event \<Rightarrow> jsval" where
  "event_json e = JObj [(''id'', JStr (pe_id e)), (''type'', JStr (pe_type e)), (''content'', JStr (pe_content e)),
     (''timestamp'', JNum (pe_timestamp e)), (''metadata'', pe_metadata e)]"

definition proposal_json :: "pipe_proposal \<Rightarrow> jsval" where
  "proposal_json p = JObj [(''id'', JStr (pp_id p)), (''eventId'', JStr (pp_eventId p)),
     (''targetState'', JStr (pp_targetState p)), (''reason'', JStr (pp_reason p)), (''params'', pp_params p)]"

text \<open>A symbol-keyed property such as the brand does not appear in JSON.\<close>

definition check_json :: "pipe_check \<Rightarrow> jsval" where
  "check_json c =
     (case c of
        PipeAllowed v \<Rightarrow> JObj [(''id'', JStr (pv_id v)), (''originalProposalId'', JStr (pv_originalProposalId v)),
          (''admissible'', JBool True), (''signedByLtp'', JBool (pv_signedByLtp v)), (''timestamp'', JNum (pv_timestamp v)),
          (''traceId'', JStr (pv_traceId v)), (''reason'', JStr (pv_reason v)), (''targetState'', JStr (pv_targetState v)),
          (''params'', pv_params v)]
      | PipeBlocked b \<Rightarrow> JObj [(''id'', JStr (pb_id b)), (''originalProposalId'', JStr (pb_originalProposalId b)),
          (''admissible'', JBool False), (''reason'', JStr (pb_reason b)), (''traceId'', JStr (pb_traceId b)),
          (''timestamp'', JNum (pb_timestamp b)), (''violationType'', JStr (pb_violationType b))])"

definition result_json :: "pipe_result \<Rightarrow> jsval" where
  "result_json r = JObj [(''success'', JBool (pr_success r)), (''newState'', pr_newState r), (''output'', pr_output r),
     (''error'', pr_error r), (''traceId'', JStr (pr_traceId r))]"

datatype pipe_outcome =
    PipeExecuted string pipe_result
  | PipeStopped string string string
  | PipeReplay

text \<open>
  The stages of \<open>process\<close>. Each takes the log as it is when the stage runs: the awaits between them
  let other calls append to it.
\<close>

definition ingest :: "pipe_host \<Rightarrow> pipe_event \<Rightarrow> log_entry list \<Rightarrow> log_entry list" where
  "ingest h event lg = log_append (ph_sha256 h) (ph_now h 0) EVENT (event_json event) (ph_pipeline_uuid h) lg"

definition log_proposal :: "pipe_host \<Rightarrow> pipe_proposal \<Rightarrow> log_entry list \<Rightarrow> log_entry list" where
  "log_proposal h proposal lg = log_append (ph_sha256 h) (ph_now h 1) PROPOSAL (proposal_json proposal) (ph_pipeline_uuid h) lg"

definition log_check :: "pipe_host \<Rightarrow> pipe_check \<Rightarrow> log_entry list \<Rightarrow> log_entry list" where
  "log_check h c lg = log_append (ph_sha256 h) (ph_now h 3) CHECK (check_json c) (ph_pipeline_uuid h) lg"

definition log_action :: "pipe_host \<Rightarrow> pipe_result \<Rightarrow> log_entry list \<Rightarrow> log_entry list" where
  "log_action h r lg = log_append (ph_sha256 h) (ph_now h 4) ACTION (result_json r) (ph_pipeline_uuid h) lg"

definition pipe_process ::
  "pipe_host \<Rightarrow> (pipe_event \<Rightarrow> string + pipe_proposal) \<Rightarrow> (pipe_transition \<Rightarrow> string + pipe_result) \<Rightarrow> pipe_event \<Rightarrow>
    log_entry list \<Rightarrow> log_entry list \<times> (string + pipe_outcome) \<times> pipe_transition option" where
  "pipe_process h proposalEngine actionExecutor event lg =
     (let lg1 = ingest h event lg
      in case proposalEngine event of
           Inl msg \<Rightarrow> (lg1, Inl msg, None)
         | Inr proposal \<Rightarrow>
             (let c = pipe_check_proposal h proposal; lg2 = log_check h c (log_proposal h proposal lg1)
              in case c of
                   PipeBlocked b \<Rightarrow> (lg2, Inr (PipeStopped (pb_traceId b) (pb_reason b) (pb_violationType b)), None)
                 | PipeAllowed v \<Rightarrow>
                     if hasProcessed (pv_traceId v) lg2 then (lg2, Inr PipeReplay, None)
                     else (case pipe_execute v actionExecutor of
                             (Inl e, x) \<Rightarrow> (lg2, Inl e, x)
                           | (Inr r, x) \<Rightarrow> (log_action h r lg2, Inr (PipeExecuted (pv_traceId v) r), x))))"

section \<open>The log as an anchored hash chain\<close>

text \<open>What the hash of an entry covers besides the link: the texts that are joined.\<close>

definition entry_body :: "log_entry \<Rightarrow> string \<times> log_type \<times> string \<times> string" where
  "entry_body e = (num_str (le_timestamp e), le_type e, le_traceId e, payload_text (le_payload e))"

fun body_text :: "string \<Rightarrow> string \<times> log_type \<times> string \<times> string \<Rightarrow> string" where
  "body_text h (ts, ty, tid, pl) = h @ ''|'' @ ts @ ''|'' @ log_type_text ty @ ''|'' @ tid @ ''|'' @ pl"

definition body_digest :: "(byte list \<Rightarrow> byte list) \<Rightarrow> string \<Rightarrow> string \<times> log_type \<times> string \<times> string \<Rightarrow> string" where
  "body_digest sha h b = bufferToHex (sha (utf8 (body_text h b)))"

definition linked_log :: "(byte list \<Rightarrow> byte list) \<Rightarrow> log_entry list \<Rightarrow> bool" where
  "linked_log sha lg = (case lg of [] \<Rightarrow> True | e # _ \<Rightarrow> verify_from sha (le_previousHash e) lg)"

lemma log_hash_digest:
  "log_hash sha h (le_timestamp e) (le_type e) (le_traceId e) (le_payload e) = body_digest sha h (entry_body e)"
  by (simp add: log_hash_def body_digest_def entry_body_def data_to_hash_def)

interpretation log_chain:
  anchored_chain le_previousHash le_hash entry_body "body_digest sha" "linked_log sha" genesis_hash "verifyIntegrity sha"
  for sha
proof
  show "linked_log sha []" by (simp add: linked_log_def)
  show "linked_log sha [e] \<longleftrightarrow> le_hash e = body_digest sha (le_previousHash e) (entry_body e)" for e
    by (auto simp: linked_log_def log_hash_digest Let_def)
  show "linked_log sha (e # n # es) \<longleftrightarrow> le_hash e = body_digest sha (le_previousHash e) (entry_body e) \<and>
      le_previousHash n = le_hash e \<and> linked_log sha (n # es)" for e n es
    by (auto simp: linked_log_def log_hash_digest Let_def)
  show "verifyIntegrity sha es \<longleftrightarrow> linked_log sha es \<and> (es \<noteq> [] \<longrightarrow> le_previousHash (hd es) = genesis_hash)" for es
    by (cases es) (auto simp: verifyIntegrity_def linked_log_def)
qed

lemma verify_append_entry:
  assumes "verifyIntegrity sha lg"
  shows "verifyIntegrity sha (log_append sha ts ty pl tid lg)"
proof -
  let ?e = "\<lparr>le_traceId = tid, le_type = ty, le_timestamp = ts, le_payload = pl, le_previousHash = getLastHash lg,
    le_hash = log_hash sha (getLastHash lg) ts ty tid pl\<rparr>"
  have "linked_log sha [?e]"
    using log_hash_digest [of sha "getLastHash lg" ?e] by (simp add: log_chain.verify_single)
  then show ?thesis
    using assms log_chain.verify_append [of lg "[?e]" sha]
    by (cases "lg = []") (auto simp: log_append_def log_chain.anchored_iff getLastHash_def Let_def)
qed

section \<open>Interleaved processing\<close>

text \<open>
  The segments of \<open>process\<close> between two awaits that touch the log, as steps of a machine: any number
  of calls may be under way, and their segments interleave freely.
\<close>

inductive pipe_step :: "(byte list \<Rightarrow> byte list) \<Rightarrow> log_entry list \<Rightarrow> log_entry list \<Rightarrow> bool" for sha where
  step_ingest: "ph_sha256 h = sha \<Longrightarrow> pipe_step sha lg (ingest h event lg)"
| step_proposal: "ph_sha256 h = sha \<Longrightarrow> pipe_step sha lg (log_proposal h proposal lg)"
| step_check: "ph_sha256 h = sha \<Longrightarrow> pipe_step sha lg (log_check h c lg)"
| step_action: "ph_sha256 h = sha \<Longrightarrow> pipe_step sha lg (log_action h r lg)"

lemmas stage_defs = ingest_def log_proposal_def log_check_def log_action_def

lemma pipe_step_append: "pipe_step sha lg lg' \<Longrightarrow> \<exists>ts ty pl tid. lg' = log_append sha ts ty pl tid lg"
  by (cases rule: pipe_step.cases) (auto simp: stage_defs)

lemma pipe_steps_keep:
  assumes "(pipe_step sha)\<^sup>*\<^sup>* lg lg'" and "verifyIntegrity sha lg"
  shows "verifyIntegrity sha lg' \<and> prefix lg lg'"
  using assms
proof (induction rule: rtranclp_induct)
  case (step y z)
  then obtain ts ty pl tid where "z = log_append sha ts ty pl tid y" using pipe_step_append by blast
  then show ?case
    using step verify_append_entry by (auto simp: log_append_def Let_def)
qed simp

lemma pipe_process_steps:
  assumes "ph_sha256 h = sha"
  shows "(pipe_step sha)\<^sup>*\<^sup>* lg (fst (pipe_process h engine executor event lg))"
proof -
  note steps = rtranclp.rtrancl_into_rtrancl [of "pipe_step sha"]
  have 1: "(pipe_step sha)\<^sup>*\<^sup>* lg (ingest h event lg)"
    using step_ingest assms by blast
  have 2: "(pipe_step sha)\<^sup>*\<^sup>* lg (log_check h c (log_proposal h p (ingest h event lg)))" for c p
    using steps [OF steps [OF 1 step_proposal] step_check] assms by blast
  have 3: "(pipe_step sha)\<^sup>*\<^sup>* lg (log_action h r (log_check h c (log_proposal h p (ingest h event lg))))" for r c p
    using steps [OF 2 step_action] assms by blast
  show ?thesis
    using 1 2 3 by (auto simp: pipe_process_def Let_def split: sum.split pipe_check.split prod.split)
qed

text \<open>C24: the audit log of the reference pipeline verifies at every moment. However the segments
  of any number of concurrent calls of \<open>process\<close> interleave, the log stays a hash chain anchored in
  the genesis hash, entries are only appended, and a whole call of \<open>process\<close> is such a
  sequence of steps.\<close>

theorem interleaved_log_verifies:
  assumes "(pipe_step sha)\<^sup>*\<^sup>* [] lg" and "ph_sha256 h = sha"
  shows "verifyIntegrity sha lg \<and>
    verifyIntegrity sha (fst (pipe_process h engine executor event lg)) \<and>
    prefix lg (fst (pipe_process h engine executor event lg)) \<and>
    (pipe_step sha)\<^sup>*\<^sup>* [] (fst (pipe_process h engine executor event lg))"
proof -
  have "verifyIntegrity sha []" by (simp add: verifyIntegrity_def)
  then have "verifyIntegrity sha lg" using pipe_steps_keep assms(1) by blast
  then show ?thesis
    using pipe_process_steps [OF assms(2), of lg engine executor event] pipe_steps_keep assms(1)
    by (meson rtranclp_trans)
qed

definition toy_pipe :: pipe_host where
  "toy_pipe = \<lparr>ph_sha256 = id, ph_pipeline_uuid = ''p'', ph_check_uuid = ''c'', ph_object_uuid = ''o'', ph_now = (\<lambda>_. 0)\<rparr>"

definition toy_pipe_event :: pipe_event where
  "toy_pipe_event = \<lparr>pe_id = ''e'', pe_type = ''USER'', pe_content = ''hi'', pe_timestamp = 0, pe_metadata = JUndef\<rparr>"

theorem interleaved_log_verifies_witness:
  "verifyIntegrity id (ingest toy_pipe toy_pipe_event []) \<and>
   prefix (ingest toy_pipe toy_pipe_event [])
     (fst (pipe_process toy_pipe (\<lambda>e. Inl ''offline'') (\<lambda>t. Inl ''none'') toy_pipe_event (ingest toy_pipe toy_pipe_event [])))"
proof -
  have "(pipe_step id)\<^sup>*\<^sup>* [] (ingest toy_pipe toy_pipe_event [])"
    using step_ingest [of toy_pipe id] by (auto simp: toy_pipe_def)
  moreover have "ph_sha256 toy_pipe = id" by (simp add: toy_pipe_def)
  ultimately show ?thesis using interleaved_log_verifies by blast
qed

section \<open>Tamper evidence of the log\<close>

definition bar_free :: "string \<Rightarrow> bool" where
  "bar_free s \<longleftrightarrow> CHR ''|'' \<notin> set s"

text \<open>Entries as the pipeline writes them: whole milliseconds, identifiers without a bar.\<close>

definition clean_entry :: "log_entry \<Rightarrow> bool" where
  "clean_entry e \<longleftrightarrow> safe_int (le_timestamp e) \<and> bar_free (le_traceId e)"

lemma append_bar_inj:
  assumes "bar_free s" and "bar_free t" and "s @ CHR ''|'' # x = t @ CHR ''|'' # y"
  shows "s = t \<and> x = y"
proof -
  have "takeWhile (\<lambda>c. c \<noteq> CHR ''|'') (u @ CHR ''|'' # z) = u" if "bar_free u" for u z
    using that by (auto simp: bar_free_def takeWhile_tail takeWhile_eq_all_conv)
  then have "s = t" using assms by metis
  with assms(3) show ?thesis by simp
qed

lemma bar_free_nat: "bar_free (nat_str n)"
  using nat_str_digits [of n] by (auto simp: bar_free_def list_all_iff is_digit_def)

lemma bar_free_num: "safe_int n \<Longrightarrow> bar_free (num_str n)"
  using bar_free_nat by (auto simp: num_str_safe_int int_str_def bar_free_def)

lemma bar_free_hex: "bar_free (bufferToHex bs)"
  using bufferToHex_hex [of bs] by (auto simp: bar_free_def list_all_iff is_hex_def hex_val_def)

lemma log_type_text_inj: "log_type_text a = log_type_text b \<Longrightarrow> a = b"
  by (cases a; cases b) (simp_all add: log_type_text_def)

lemma bar_free_type: "bar_free (log_type_text t)"
  by (cases t) (simp_all add: log_type_text_def bar_free_def)

lemma body_text_inj:
  assumes "body_text h (entry_body e) = body_text h' (entry_body f)" and "bar_free h" and "bar_free h'"
    and "clean_entry e" and "clean_entry f"
  shows "h = h' \<and> entry_body e = entry_body f"
proof -
  obtain ts ty tid pl where e: "entry_body e = (ts, ty, tid, pl)" by (cases "entry_body e")
  obtain ts' ty' tid' pl' where f: "entry_body f = (ts', ty', tid', pl')" by (cases "entry_body f")
  have bf: "bar_free ts" "bar_free tid" "bar_free ts'" "bar_free tid'"
    using assms(4,5) e f bar_free_num by (auto simp: entry_body_def clean_entry_def)
  have 1: "h = h' \<and> ts @ ''|'' @ log_type_text ty @ ''|'' @ tid @ ''|'' @ pl = ts' @ ''|'' @ log_type_text ty' @ ''|'' @ tid' @ ''|'' @ pl'"
    by (rule append_bar_inj [OF assms(2,3)]) (use assms(1) e f in simp)
  have 2: "ts = ts' \<and> log_type_text ty @ ''|'' @ tid @ ''|'' @ pl = log_type_text ty' @ ''|'' @ tid' @ ''|'' @ pl'"
    by (rule append_bar_inj [OF bf(1,3)]) (use 1 in simp)
  have 3: "log_type_text ty = log_type_text ty' \<and> tid @ ''|'' @ pl = tid' @ ''|'' @ pl'"
    by (rule append_bar_inj [OF bar_free_type bar_free_type]) (use 2 in simp)
  have "tid = tid' \<and> pl = pl'"
    by (rule append_bar_inj [OF bf(2,4)]) (use 3 in simp)
  with 1 2 3 show ?thesis using e f log_type_text_inj by auto
qed

lemma link_bar_free:
  assumes "verifyIntegrity sha lg" and "e \<in> set lg"
  shows "bar_free (le_previousHash e)"
proof -
  obtain i where i: "i < length lg" "e = lg ! i" using assms(2) by (auto simp: in_set_conv_nth)
  have gen: "bar_free genesis_hash" by (simp add: bar_free_def genesis_hash_def)
  show ?thesis
  proof (cases i)
    case 0
    then show ?thesis
      using assms(1) i gen by (auto simp: log_chain.anchored_iff hd_conv_nth)
  next
    case (Suc j)
    then have "le_previousHash e = le_hash (lg ! j)" "le_hash (lg ! j) = body_digest sha (le_previousHash (lg ! j)) (entry_body (lg ! j))"
      using assms(1) i unfolding log_chain.anchored_iff log_chain.verify_nth by auto
    then show ?thesis by (simp add: body_digest_def bar_free_hex)
  qed
qed

text \<open>The text hashed for an entry, and two entries of the given logs on which SHA-256 collides.\<close>

definition entry_text :: "log_entry \<Rightarrow> string" where
  "entry_text e = body_text (le_previousHash e) (entry_body e)"

definition log_collision :: "(byte list \<Rightarrow> byte list) \<Rightarrow> log_entry list \<Rightarrow> log_entry list \<Rightarrow> bool" where
  "log_collision sha lg lg' \<longleftrightarrow> (\<exists>e \<in> set lg. \<exists>f \<in> set lg'.
     entry_text e \<noteq> entry_text f \<and> sha (utf8 (entry_text e)) = sha (utf8 (entry_text f)))"

text \<open>The last hash of a log commits to the whole log, its length included. Two logs that both
  pass \<open>verifyIntegrity\<close> and end in the same hash agree entry by entry in links, timestamps,
  types, trace ids and payload texts, unless SHA-256 collides on the texts of two of their entries
  or an entry hashes to the genesis value.\<close>

theorem log_tamper_evident:
  assumes "verifyIntegrity sha lg" and "verifyIntegrity sha lg'" and "getLastHash lg = getLastHash lg'"
    and "\<And>e. e \<in> set lg \<union> set lg' \<Longrightarrow> clean_entry e"
  shows "map (\<lambda>e. (le_previousHash e, entry_body e)) lg = map (\<lambda>e. (le_previousHash e, entry_body e)) lg'
    \<or> log_collision sha lg lg' \<or> (\<exists>e \<in> set lg \<union> set lg'. le_hash e = genesis_hash)"
proof -
  have root: "log_chain.root lg = log_chain.root lg'"
    using assms(3) by (simp add: log_chain.root_def getLastHash_def)
  from log_chain.root_determines_log [OF assms(1,2) root] consider
      (same) "log_chain.content lg = log_chain.content lg'"
    | (clash) "log_chain.clash sha lg lg'"
    | (gen) e where "e \<in> set lg \<union> set lg'" "le_hash e = genesis_hash" by blast
  then show ?thesis
  proof cases
    case same
    then show ?thesis by (simp add: log_chain.content_def)
  next
    case clash
    then obtain e f where ef: "e \<in> set lg" "f \<in> set lg'" "(le_previousHash e, entry_body e) \<noteq> (le_previousHash f, entry_body f)"
      "body_digest sha (le_previousHash e) (entry_body e) = body_digest sha (le_previousHash f) (entry_body f)"
      unfolding log_chain.clash_def by blast
    have "entry_text e \<noteq> entry_text f"
      unfolding entry_text_def using body_text_inj link_bar_free [OF assms(1)] link_bar_free [OF assms(2)] assms(4) ef(1-3) by blast
    moreover have "sha (utf8 (entry_text e)) = sha (utf8 (entry_text f))"
      using ef(4) by (simp add: body_digest_def entry_text_def)
    ultimately show ?thesis using ef(1,2) by (auto simp: log_collision_def)
  qed blast
qed

theorem log_tamper_evident_witness:
  "map (\<lambda>e. (le_previousHash e, entry_body e)) (ingest toy_pipe toy_pipe_event [])
      = map (\<lambda>e. (le_previousHash e, entry_body e)) (ingest toy_pipe toy_pipe_event [])
    \<or> log_collision id (ingest toy_pipe toy_pipe_event []) (ingest toy_pipe toy_pipe_event [])
    \<or> (\<exists>e \<in> set (ingest toy_pipe toy_pipe_event []) \<union> set (ingest toy_pipe toy_pipe_event []). le_hash e = genesis_hash)"
proof (rule log_tamper_evident)
  have "verifyIntegrity id []" by (simp add: verifyIntegrity_def)
  then show ok: "verifyIntegrity id (ingest toy_pipe toy_pipe_event [])"
    unfolding ingest_def toy_pipe_def by (simp add: verify_append_entry)
  show "verifyIntegrity id (ingest toy_pipe toy_pipe_event [])" by (rule ok)
  show "clean_entry e" if "e \<in> set (ingest toy_pipe toy_pipe_event []) \<union> set (ingest toy_pipe toy_pipe_event [])" for e
    using that safe_int_of_int [of 0]
    by (auto simp: ingest_def toy_pipe_def log_append_def clean_entry_def bar_free_def Let_def)
qed simp

section \<open>Replay\<close>

text \<open>The replay check never stops anything. \<open>process\<close> looks in the log for the identifier of the
  fresh check, while actions are logged under the identifier of the call; unless the two random
  identifiers collide, an admissible event is executed however often it is processed.\<close>

theorem replay_check_ineffective:
  assumes "engine event = Inr proposal" and "\<not> isViolation proposal"
    and "\<And>e. e \<in> set lg \<Longrightarrow> le_traceId e \<noteq> ph_check_uuid h" and "ph_pipeline_uuid h \<noteq> ph_check_uuid h"
  shows "\<exists>r. fst (snd (pipe_process h engine executor event lg)) = Inr (PipeExecuted (ph_check_uuid h) r) \<and>
    snd (snd (pipe_process h engine executor event lg))
      = Some (pipe_mint h proposal (ph_check_uuid h) ''Admissible: Fits within safe orientation'')"
proof -
  let ?v = "pipe_mint h proposal (ph_check_uuid h) ''Admissible: Fits within safe orientation''"
  have c: "pipe_check_proposal h proposal = PipeAllowed ?v"
    using assms(2) by (simp add: pipe_check_proposal_def)
  have "\<not> hasProcessed (ph_check_uuid h) (log_check h c (log_proposal h proposal (ingest h event lg)))" for c
    using assms(3,4) by (auto simp: hasProcessed_def stage_defs log_append_def Let_def)
  then show ?thesis
    using assms(1) c by (simp add: pipe_process_def pipe_execute_def pipe_mint_def Let_def)
qed

definition toy_pipe_proposal :: pipe_proposal where
  "toy_pipe_proposal = \<lparr>pp_id = ''q'', pp_eventId = ''e'', pp_targetState = ''chat'', pp_reason = [], pp_params = JUndef\<rparr>"

theorem replay_check_ineffective_witness:
  "\<exists>r. fst (snd (pipe_process toy_pipe (\<lambda>e. Inr toy_pipe_proposal) (\<lambda>t. Inl ''none'') toy_pipe_event []))
      = Inr (PipeExecuted (ph_check_uuid toy_pipe) r) \<and>
    snd (snd (pipe_process toy_pipe (\<lambda>e. Inr toy_pipe_proposal) (\<lambda>t. Inl ''none'') toy_pipe_event []))
      = Some (pipe_mint toy_pipe toy_pipe_proposal (ph_check_uuid toy_pipe) ''Admissible: Fits within safe orientation'')"
  by (rule replay_check_ineffective)
    (simp_all add: toy_pipe_proposal_def isViolation_def unsafe_keywords_def starts_with_def toy_pipe_def)

end
