(* ===== verification/Boundary_Examples.thy ===== *)
theory Boundary_Examples
  imports Action_Gate Inspect_Summary
begin

text \<open>
  The two example boundaries: \<open>examples/agents/action-boundary/pipeline.ts\<close>, which writes a trace of
  frames, and \<open>examples/agent-boundary/pipeline.ts\<close>, which chains its frames with hashes. Both are
  instances of the action gate; their traces are also read by the trace inspector, which is
  compared with them at the end. The clock is a function of the reading, identifiers are
  arguments.
\<close>

section \<open>The action boundary\<close>

record boundary_event =
  be_id :: string
  be_source :: string
  be_payload :: jsval

record boundary_proposal =
  bp_targetState :: string
  bp_params :: jsval
  bp_context :: string

record boundary_check =
  bc_admissible :: bool
  bc_reason :: "string option"
  bc_reasonCode :: "string option"

definition boundary_critical :: "string list" where
  "boundary_critical = [''transfer_money'', ''delete_data'', ''execute_code'', ''modify_system'']"

definition classifyEvent :: "boundary_event \<Rightarrow> string" where
  "classifyEvent event = be_source event"

text \<open>Reading \<open>intent\<close> of a nullish payload throws; the model is for payloads that are objects.\<close>

definition boundary_propose :: "boundary_event \<Rightarrow> string \<Rightarrow> boundary_proposal" where
  "boundary_propose event ctx =
     \<lparr>bp_targetState = (if pget (be_payload event) ''intent'' = JStr ''pay'' then ''transfer_money'' else ''unknown''),
      bp_params = pget (be_payload event) ''params'', bp_context = ctx\<rparr>"

definition boundary_admissibility :: "boundary_proposal \<Rightarrow> boundary_check" where
  "boundary_admissibility proposal =
     (if bp_targetState proposal \<in> set boundary_critical
      then (if bp_context proposal = ''WEB''
            then \<lparr>bc_admissible = False,
                  bc_reason = Some (''Critical action '' @ [squote] @ bp_targetState proposal @ [squote] @ '' blocked from WEB context.''),
                  bc_reasonCode = Some ''AGENTS.CRIT.WEB_DIRECT''\<rparr>
            else if bp_context proposal \<noteq> ''USER'' \<and> bp_context proposal \<noteq> ''ADMIN''
            then \<lparr>bc_admissible = False,
                  bc_reason = Some (''Context '' @ [squote] @ bp_context proposal @ [squote] @ '' lacks capability for critical action.''),
                  bc_reasonCode = Some ''AGENTS.CRIT.NO_CAPABILITY''\<rparr>
            else \<lparr>bc_admissible = True, bc_reason = None, bc_reasonCode = None\<rparr>)
      else \<lparr>bc_admissible = True, bc_reason = None, bc_reasonCode = None\<rparr>)"

definition generateTraceFrame :: "rat \<Rightarrow> string \<Rightarrow> jsval \<Rightarrow> jsval" where
  "generateTraceFrame now stage data = JObj [(''ts'', JNum now), (''type'', JStr stage), (''payload'', data)]"

definition opt_str :: "string option \<Rightarrow> jsval" where
  "opt_str x = (case x of None \<Rightarrow> JUndef | Some s \<Rightarrow> JStr s)"

definition response_payload :: "boundary_proposal \<Rightarrow> boundary_check \<Rightarrow> jsval" where
  "response_payload p c = JObj [(''context'', JStr (bp_context p)), (''targetState'', JStr (bp_targetState p)),
     (''admissible'', JBool (bc_admissible c)), (''reason'', opt_str (bc_reason c)), (''reasonCode'', opt_str (bc_reasonCode c))]"

text \<open>\<open>runPipeline\<close>: the trace, and the action executed, if any.\<close>

definition runPipeline :: "(nat \<Rightarrow> rat) \<Rightarrow> boundary_event \<Rightarrow> jsval list \<times> boundary_proposal option" where
  "runPipeline now event =
     (let ctx = classifyEvent event;
          proposal = boundary_propose event ctx;
          c = boundary_admissibility proposal;
          trace = [generateTraceFrame (now 0) ''ingest'' (JObj [(''eventId'', JStr (be_id event)), (''context'', JStr ctx)]),
                   generateTraceFrame (now 1) ''route_request'' (JObj [(''goal'', JStr (bp_targetState proposal))]),
                   generateTraceFrame (now 2) ''route_response'' (response_payload proposal c)]
      in if bc_admissible c
         then (trace @ [generateTraceFrame (now 3) ''state_update''
                 (JObj [(''action'', JStr (bp_targetState proposal)), (''status'', JStr ''completed'')])], Some proposal)
         else (trace, None))"

definition boundary_handle :: "(nat \<Rightarrow> rat) \<Rightarrow> boundary_event \<Rightarrow> jsval list \<Rightarrow> jsval list \<times> boundary_proposal option" where
  "boundary_handle now event traces = (let (t, x) = runPipeline now event in (traces @ t, x))"

interpretation boundary_gate:
  action_gate "boundary_handle now" "\<lambda>e. bc_admissible (boundary_admissibility (boundary_propose e (classifyEvent e)))"
    "\<lambda>e. boundary_propose e (classifyEvent e)"
  for now
  by unfold_locales (simp add: boundary_handle_def runPipeline_def Let_def)

lemma boundary_admits_iff:
  "bc_admissible (boundary_admissibility p) \<longleftrightarrow>
     (bp_targetState p \<in> set boundary_critical \<longrightarrow> bp_context p \<in> {''USER'', ''ADMIN''})"
  by (auto simp: boundary_admissibility_def)

text \<open>Over any sequence of events, critical actions run for users and administrators only.\<close>

lemma boundary_critical_only_users:
  "p \<in> set (snd (run_events (boundary_handle now) es s)) \<Longrightarrow> bp_targetState p \<in> set boundary_critical \<Longrightarrow>
     bp_context p \<in> {''USER'', ''ADMIN''}"
  using boundary_gate.run_safe [of p now es s] by (auto simp: boundary_admits_iff)

text \<open>
  The route response of this boundary carries no capabilities, so the inspector's rules for agents
  report every critical action the boundary itself admits.
\<close>

lemma admitted_payment_fails_audit:
  assumes "bc_admissible c" and "bp_targetState p = ''transfer_money''"
  shows "audit_frame i (generateTraceFrame t ''route_response'' (response_payload p c)) \<noteq> []"
  using assms
  by (simp add: audit_frame_def generateTraceFrame_def response_payload_def Let_def js_or_def CRITICAL_ACTIONS_def
      audit_action_def has_capability_def coalesce_def)

section \<open>The agent boundary\<close>

record external_event =
  xe_source :: string
  xe_payload :: string

record demo_proposal =
  dp_id :: string
  dp_action :: string
  dp_params :: jsval
  dp_rationale :: string
  dp_confidence :: rat

record demo_check =
  dk_allowed :: bool
  dk_reason :: string
  dk_constraints :: "string list"

record demo_host =
  dh_sha256 :: "byte list \<Rightarrow> byte list"
  dh_uuid :: string
  dh_now :: "nat \<Rightarrow> rat"

definition ingestEvent :: "rat \<Rightarrow> external_event \<Rightarrow> jsval" where
  "ingestEvent now event = JObj [(''type'', JStr ''event''), (''ts'', JNum now),
     (''payload'', JObj [(''source'', JStr (xe_source event)), (''content'', JStr (xe_payload event))])]"

definition proposeTransition :: "string \<Rightarrow> string \<Rightarrow> demo_proposal" where
  "proposeTransition uuid raw =
     (let content = to_lower raw
      in if str_includes content ''ignore previous instructions'' \<or> str_includes content ''system override''
         then \<lparr>dp_id = uuid, dp_action = ''block_user'', dp_params = JObj [(''reason'', JStr ''prompt_injection_attempt'')],
               dp_rationale = ''Input contained adversarial framing patterns.'', dp_confidence = fl (99 / 100)\<rparr>
         else if str_includes raw ''transfer money''
         then \<lparr>dp_id = uuid, dp_action = ''transfer_funds'', dp_params = JObj [(''amount'', JNum 1000)],
               dp_rationale = ''User requested transfer.'', dp_confidence = fl (9 / 10)\<rparr>
         else \<lparr>dp_id = uuid, dp_action = ''process_request'', dp_params = JObj [(''input'', JStr raw)],
               dp_rationale = ''Standard request processing.'', dp_confidence = fl (8 / 10)\<rparr>)"

definition demo_admissibility :: "demo_proposal \<Rightarrow> demo_check" where
  "demo_admissibility proposal =
     (if dp_action proposal = ''exec'' \<or> dp_action proposal = ''eval''
      then \<lparr>dk_allowed = False, dk_reason = ''code_execution_forbidden'', dk_constraints = [''no_eval'']\<rparr>
      else if dp_action proposal = ''transfer_funds''
      then \<lparr>dk_allowed = False, dk_reason = ''financial_action_blocked_in_demo'', dk_constraints = [''finance_boundary'']\<rparr>
      else if str_includes (dp_rationale proposal) ''memory override''
      then \<lparr>dk_allowed = False, dk_reason = ''memory_integrity_violation'', dk_constraints = [''immutable_core_memory'']\<rparr>
      else \<lparr>dk_allowed = True, dk_reason = ''policy_compliant'', dk_constraints = [''basic_safety'']\<rparr>)"

text \<open>The hash covers \<open>JSON.stringify(frame)\<close>, with the keys in the order they were written.\<close>

definition trace_last_hash :: "jsval list \<Rightarrow> string \<Rightarrow> string" where
  "trace_last_hash tr none = (if tr = [] then none else case pget (last tr) ''hash'' of JStr h \<Rightarrow> h | _ \<Rightarrow> none)"

definition trace_log :: "(byte list \<Rightarrow> byte list) \<Rightarrow> jsval \<Rightarrow> jsval list \<Rightarrow> jsval list" where
  "trace_log sha frame tr =
     (let prevHash = trace_last_hash tr (replicate 64 CHR ''0'');
          h = bufferToHex (sha (utf8 prevHash @ utf8 (json_text frame)))
      in tr @ [JObj [(''frame'', frame), (''prev_hash'', JStr prevHash), (''hash'', JStr h)]])"

definition stage_frame :: "string \<Rightarrow> rat \<Rightarrow> jsval \<Rightarrow> jsval" where
  "stage_frame ty now payload = JObj [(''type'', JStr ty), (''ts'', JNum now), (''payload'', payload)]"

definition demo_proposal_json :: "demo_proposal \<Rightarrow> jsval" where
  "demo_proposal_json p = JObj [(''id'', JStr (dp_id p)), (''action'', JStr (dp_action p)), (''params'', dp_params p),
     (''rationale'', JStr (dp_rationale p)), (''confidence'', JNum (dp_confidence p))]"

definition demo_check_json :: "demo_check \<Rightarrow> jsval" where
  "demo_check_json c = JObj [(''allowed'', JBool (dk_allowed c)), (''reason'', JStr (dk_reason c)),
     (''constraints_checked'', JArr (map JStr (dk_constraints c)))]"

definition demo_process ::
  "demo_host \<Rightarrow> external_event \<Rightarrow> jsval list \<Rightarrow> jsval list \<times> string \<times> demo_proposal option" where
  "demo_process h event tr =
     (let sha = dh_sha256 h;
          t1 = trace_log sha (ingestEvent (dh_now h 0) event) tr;
          p = proposeTransition (dh_uuid h) (xe_payload event);
          t2 = trace_log sha (stage_frame ''proposed_transition'' (dh_now h 1) (demo_proposal_json p)) t1;
          c = demo_admissibility p;
          t3 = trace_log sha (stage_frame ''admissibility_check'' (dh_now h 2) (demo_check_json c)) t2
      in if dk_allowed c
         then (let t4 = trace_log sha (stage_frame ''action_executed'' (dh_now h 3) (JObj [(''action_id'', JStr (dp_id p))])) t3
               in (t4, trace_last_hash t4 [], Some p))
         else (let t4 = trace_log sha (stage_frame ''action_blocked'' (dh_now h 3)
                     (JObj [(''action_id'', JStr (dp_id p)), (''reason'', JStr (dk_reason c))])) t3
               in (t4, trace_last_hash t4 [], None)))"

definition demo_handle :: "demo_host \<times> external_event \<Rightarrow> jsval list \<Rightarrow> jsval list \<times> demo_proposal option" where
  "demo_handle he tr = (let (t, _, x) = demo_process (fst he) (snd he) tr in (t, x))"

interpretation demo_gate:
  action_gate demo_handle "\<lambda>he. dk_allowed (demo_admissibility (proposeTransition (dh_uuid (fst he)) (xe_payload (snd he))))"
    "\<lambda>he. proposeTransition (dh_uuid (fst he)) (xe_payload (snd he))"
  by unfold_locales (simp add: demo_handle_def demo_process_def Let_def)

text \<open>No transfer is ever executed, whatever the events.\<close>

lemma demo_never_transfers:
  "p \<in> set (snd (run_events demo_handle es s)) \<Longrightarrow> dp_action p \<noteq> ''transfer_funds''"
  using demo_gate.run_safe [of p es s] by (auto simp: demo_admissibility_def split: if_splits)

section \<open>The agent boundary's trace under the inspector\<close>

lemma canonical_stage:
  "canonicalize_frame (JObj [(''type'', a), (''ts'', b), (''payload'', c)]) =
     JObj [(''payload'', canonicalize_frame c), (''ts'', canonicalize_frame b), (''type'', canonicalize_frame a)]"
  by (simp add: assign_prop_def array_index_def is_digit_def)

lemma demo_trace_first:
  "\<exists>rest. fst (demo_process h event []) =
     JObj [(''frame'', ingestEvent (dh_now h 0) event), (''prev_hash'', JStr (replicate 64 CHR ''0'')),
       (''hash'', JStr (bufferToHex (dh_sha256 h (utf8 (replicate 64 CHR ''0'')
          @ utf8 (json_text (ingestEvent (dh_now h 0) event))))))] # rest"
proof -
  have first: "trace_log sha f [] = [JObj [(''frame'', f), (''prev_hash'', JStr (replicate 64 CHR ''0'')),
      (''hash'', JStr (bufferToHex (sha (utf8 (replicate 64 CHR ''0'') @ utf8 (json_text f)))))]]" for sha f
    by (simp add: trace_log_def trace_last_hash_def Let_def)
  have more: "\<exists>rest. trace_log sha f (x # tr) = x # rest" for sha f x tr
    by (simp add: trace_log_def Let_def)
  then have "\<exists>rest. trace_log sha f3 (trace_log sha f2 (trace_log sha f1 [x])) = x # rest" for sha f1 f2 f3 x
    by metis
  then show ?thesis
    by (simp add: demo_process_def Let_def first)
qed

lemma stage_text_differs:
  "json_text (ingestEvent t event) \<noteq> json_text (canonicalize_frame (ingestEvent t event))"
proof -
  obtain r where "json_text (ingestEvent t event) = CHR ''{'' # quote_ch # CHR ''t'' # r"
    by (simp add: ingestEvent_def json_text_def elem_text_def json_quote_def json_escape_def quote_ch_def bslash_def Let_def)
  moreover obtain q where "json_text (canonicalize_frame (ingestEvent t event)) = CHR ''{'' # quote_ch # CHR ''p'' # q"
    unfolding ingestEvent_def canonical_stage
    by (simp add: json_text_def elem_text_def json_quote_def json_escape_def quote_ch_def bslash_def Let_def)
  ultimately show ?thesis by simp
qed

text \<open>The bytes hashed for the first entry of a trace under a serialisation of frames.\<close>

definition first_bytes :: "(jsval \<Rightarrow> string) \<Rightarrow> demo_host \<Rightarrow> external_event \<Rightarrow> byte list" where
  "first_bytes ser h event = utf8 (replicate 64 CHR ''0'') @ utf8 (ser (ingestEvent (dh_now h 0) event))"

text \<open>The two tools disagree on what is hashed. The agent boundary hashes frames with their
  keys as written, the inspector with sorted keys; the two byte strings differ for the first frame
  of every run, so its trace is rejected by \<open>verifyTraceIntegrity\<close> at the first entry, unless SHA-256
  collides on exactly these two.\<close>

theorem boundary_trace_rejected:
  assumes "env_sha256 env = dh_sha256 h"
  shows "first_bytes json_text h event \<noteq> first_bytes (json_text \<circ> canonicalize_frame) h event \<and>
    (dh_sha256 h (first_bytes json_text h event) \<noteq> dh_sha256 h (first_bytes (json_text \<circ> canonicalize_frame) h event) \<longrightarrow>
     verifyTraceIntegrity env (fst (demo_process h event [])) = Inr \<lparr>valid = False, firstViolation = Some 0\<rparr>)"
proof -
  let ?f = "ingestEvent (dh_now h 0) event" and ?z = "replicate 64 CHR ''0''"
  let ?x = "utf8 ?z @ utf8 (json_text ?f)"
  define e where "e = JObj [(''frame'', ?f), (''prev_hash'', JStr ?z), (''hash'', JStr (bufferToHex (dh_sha256 h ?x)))]"
  obtain rest where tr: "fst (demo_process h event []) = e # rest"
    using demo_trace_first [of h event] by (auto simp: e_def)
  let ?y = "utf8 ?z @ frame_bytes e"
  have bytes: "first_bytes json_text h event = ?x" "first_bytes (json_text \<circ> canonicalize_frame) h event = ?y"
    by (simp_all add: first_bytes_def frame_bytes_def e_def canonicalize_frame_eq)
  have differ: "?x \<noteq> ?y"
    using stage_text_differs [of "dh_now h 0" event] utf8_inj
    by (auto simp: frame_bytes_def e_def canonicalize_frame_eq)
  have "pget e ''frame'' \<noteq> JUndef" by (simp add: e_def ingestEvent_def)
  then have calc: "entry_hash env e = Inr (bufferToHex (dh_sha256 h ?y))"
    using assms by (simp add: entry_hash_def canonicalJsonBytes_eq) (simp add: e_def)
  have stored: "pget e ''hash'' = JStr (bufferToHex (dh_sha256 h ?x))" by (simp add: e_def)
  have "check_entries env 0 (e # rest) = Inr (Some 0)" if "dh_sha256 h ?x \<noteq> dh_sha256 h ?y"
    using calc stored that by simp
  then show ?thesis
    using differ unfolding bytes by (simp add: tr verifyTraceIntegrity_def del: check_entries.simps)
qed

definition toy_demo :: demo_host where
  "toy_demo = \<lparr>dh_sha256 = id, dh_uuid = ''u'', dh_now = (\<lambda>_. 0)\<rparr>"

theorem boundary_trace_rejected_witness:
  "verifyTraceIntegrity (toy_env\<lparr>env_sha256 := id\<rparr>) (fst (demo_process toy_demo \<lparr>xe_source = ''web'', xe_payload = ''hi''\<rparr> []))
      = Inr \<lparr>valid = False, firstViolation = Some 0\<rparr>"
  using boundary_trace_rejected [of "toy_env\<lparr>env_sha256 := id\<rparr>" toy_demo "\<lparr>xe_source = ''web'', xe_payload = ''hi''\<rparr>"]
  by (simp add: toy_demo_def)

end
