(* ===== verification/Flow_Check.thy ===== *)
theory Flow_Check
  imports "HOL-Library.Sublist"
begin

text \<open>
  The contract of a flow checker: a loop over the frames of a capture that carries a state and
  only ever adds to a list of issues. Whatever such a checker looks at, a frame that raised an
  issue is never forgiven, and a capture is clean exactly when every frame is clean in the state
  its predecessors left. The conformance kit (errors and warnings) and the self test are such
  checkers.
\<close>

text \<open>\<open>frames.forEach((frame, index) => ...)\<close>, starting at index \<open>i\<close>.\<close>

fun run_frames :: "(nat \<Rightarrow> 'f \<Rightarrow> 's \<Rightarrow> 's) \<Rightarrow> nat \<Rightarrow> 'f list \<Rightarrow> 's \<Rightarrow> 's" where
  "run_frames check i [] s = s"
| "run_frames check i (f # fs) s = run_frames check (Suc i) fs (check i f s)"

lemma run_frames_append:
  "run_frames check i (xs @ ys) s = run_frames check (i + length xs) ys (run_frames check i xs s)"
  by (induction xs arbitrary: i s) simp_all

lemma run_frames_snoc [simp]:
  "run_frames check 0 (xs @ [x]) s = check (length xs) x (run_frames check 0 xs s)"
  by (simp add: run_frames_append)

locale flow_check =
  fixes check :: "nat \<Rightarrow> 'f \<Rightarrow> 's \<Rightarrow> 's" and issues :: "'s \<Rightarrow> 'e list"
  assumes issues_grow: "prefix (issues s) (issues (check i f s))"
begin

lemma issues_run: "prefix (issues s) (issues (run_frames check i fs s))"
proof (induction fs arbitrary: i s)
  case (Cons f fs)
  then show ?case using issues_grow prefix_order.trans by fastforce
qed simp

text \<open>Issues of a prefix stay issues of the capture.\<close>

lemma issues_prefix: "prefix (issues (run_frames check 0 xs s)) (issues (run_frames check 0 (xs @ ys) s))"
  using issues_run by (simp add: run_frames_append)

lemma clean_snoc:
  "issues (run_frames check 0 (xs @ [x]) s) = [] \<longleftrightarrow>
     issues (run_frames check 0 xs s) = [] \<and> issues (check (length xs) x (run_frames check 0 xs s)) = []"
  using issues_grow [of "run_frames check 0 xs s" "length xs" x] by auto

end

end
