(* ===== verification/Conformance_Verify.thy ===== *)
theory Conformance_Verify
  imports JS_Library Frames Flow_Check
begin

text \<open>
  The conformance kit's verification of a capture
  (\<open>tools/conformance-kit/src/verify.ts\<close>, \<open>types.ts\<close> and \<open>utils/\<close>): frames are normalised, checked
  one after another against version, timestamps, identifiers, hello gate, schema and flow, and
  summed up in a report with a score and an exit code.
\<close>

section \<open>Types\<close>

datatype report_status = OK | WARN | FAIL
type_synonym expected_outcome = report_status
datatype case_status = CASE_OK | CASE_WARN | FAIL_EXPECTED | FAIL_UNEXPECTED

text \<open>\<open>NaN\<close>, which stands for a missing timestamp, is \<open>None\<close>.\<close>

record kit_frame =
  nf_v :: string
  nf_id :: string
  nf_ts :: "rat option"
  nf_type :: string
  nf_payload :: jsval
  nf_from :: "string option"
  nf_to :: "string option"

record issue =
  is_code :: string
  is_message :: string
  is_at :: "nat option"
  is_frameId :: "string option"

record report_meta =
  me_timestamp :: rat
  me_toolVersion :: string
  me_inputName :: "string option"
  me_inputHash :: "string option"

record conformance_report =
  cr_ok :: bool
  cr_status :: report_status
  cr_score :: rat
  cr_frameCount :: nat
  cr_passed :: "string list"
  cr_warnings :: "issue list"
  cr_errors :: "issue list"
  cr_hints :: "string list"
  cr_annotations :: jsval
  cr_file :: "string option"
  cr_meta :: report_meta

record verify_options =
  vo_inputName :: "string option"
  vo_inputHash :: "string option"
  vo_now :: rat
  vo_strict :: bool
  vo_annotations :: jsval

section \<open>Helpers\<close>

definition kit_version :: string where
  "kit_version = ''0.1.0''"

definition clamp01 :: "rat \<Rightarrow> rat" where
  "clamp01 x = (if x < 0 then 0 else if x > 1 then 1 else number_to_fixed 3 x)"

definition normalizeFramesFromValue :: "jsval \<Rightarrow> jsval list option" where
  "normalizeFramesFromValue v =
     (case v of
        JArr xs \<Rightarrow> Some xs
      | JObj kvs \<Rightarrow> (case pget v ''frames'' of JArr xs \<Rightarrow> Some xs | _ \<Rightarrow> None)
      | _ \<Rightarrow> None)"

definition normalizeFrame :: "jsval \<Rightarrow> nat \<Rightarrow> kit_frame option" where
  "normalizeFrame frame index =
     (if \<not> is_object frame then None
      else Some
        \<lparr>nf_v = js_str (coalesce (pget frame ''v'') (JStr ''unknown'')),
         nf_id = (case pget frame ''id'' of JStr s \<Rightarrow> s | _ \<Rightarrow> ''frame-'' @ nat_str index),
         nf_ts = (case pget frame ''ts'' of JNum t \<Rightarrow> Some t | _ \<Rightarrow> None),
         nf_type = (case pget frame ''type'' of JStr s \<Rightarrow> s | _ \<Rightarrow> ''unknown''),
         nf_payload = pget frame ''payload'',
         nf_from = (case pget frame ''from'' of JStr s \<Rightarrow> Some s | _ \<Rightarrow> None),
         nf_to = (case pget frame ''to'' of JStr s \<Rightarrow> Some s | _ \<Rightarrow> None)\<rparr>)"

text \<open>
  The normalised frame as the object that \<open>isLTPFrame\<close> receives. Of \<open>ts\<close> that check reads only the
  type, which is \<open>number\<close> for \<open>NaN\<close> too.
\<close>

definition opt_val :: "string option \<Rightarrow> jsval" where
  "opt_val v = (case v of Some s \<Rightarrow> JStr s | None \<Rightarrow> JUndef)"

definition normalized_object :: "kit_frame \<Rightarrow> jsval" where
  "normalized_object n =
     JObj [(''v'', JStr (nf_v n)), (''id'', JStr (nf_id n)),
           (''ts'', JNum (case nf_ts n of Some t \<Rightarrow> t | None \<Rightarrow> 0)), (''type'', JStr (nf_type n)),
           (''payload'', nf_payload n), (''from'', opt_val (nf_from n)), (''to'', opt_val (nf_to n))]"

definition countBranches :: "jsval \<Rightarrow> nat" where
  "countBranches payload =
     (if \<not> is_object payload then 0
      else case pget payload ''branches'' of
        JArr bs \<Rightarrow> length bs
      | JObj kvs \<Rightarrow> length kvs
      | _ \<Rightarrow> 0)"

definition deriveExitCode :: "conformance_report \<Rightarrow> bool \<Rightarrow> nat" where
  "deriveExitCode report strict =
     (if cr_errors report \<noteq> [] then 1
      else if cr_warnings report \<noteq> [] then (if strict then 1 else 2)
      else 0)"

definition expectedFromName :: "string \<Rightarrow> expected_outcome" where
  "expectedFromName nm =
     (if starts_with ''fail_'' nm then FAIL else if starts_with ''warn_'' nm then WARN else OK)"

definition statusFromReport :: "conformance_report \<Rightarrow> report_status" where
  "statusFromReport report =
     (if cr_errors report \<noteq> [] then FAIL else if cr_warnings report \<noteq> [] then WARN else OK)"

section \<open>The loop over the frames\<close>

text \<open>The variables of \<open>verifyFrames\<close> and the three lists of the report that the loop extends.\<close>

record verify_state =
  lastTimestamp :: "rat option"
  seenIdsBySender :: "string \<rightharpoonup> string set"
  kit_helloSeen :: bool
  kit_heartbeatSeen :: bool
  kit_orientationSeen :: bool
  kit_routeRequested :: bool
  kit_routeResponded :: bool
  kit_focusSeen :: bool
  kit_passed :: "string list"
  kit_warnings :: "issue list"
  kit_errors :: "issue list"

definition verify_init :: verify_state where
  "verify_init =
     \<lparr>lastTimestamp = None, seenIdsBySender = Map.empty, kit_helloSeen = False, kit_heartbeatSeen = False,
      kit_orientationSeen = False, kit_routeRequested = False, kit_routeResponded = False,
      kit_focusSeen = False, kit_passed = [], kit_warnings = [], kit_errors = []\<rparr>"

definition add_error :: "issue \<Rightarrow> verify_state \<Rightarrow> verify_state" where
  "add_error e s = s\<lparr>kit_errors := kit_errors s @ [e]\<rparr>"

definition add_warning :: "issue \<Rightarrow> verify_state \<Rightarrow> verify_state" where
  "add_warning e s = s\<lparr>kit_warnings := kit_warnings s @ [e]\<rparr>"

definition frame_issue :: "nat \<Rightarrow> kit_frame \<Rightarrow> string \<Rightarrow> string \<Rightarrow> issue" where
  "frame_issue index n code message =
     \<lparr>is_code = code, is_message = message, is_at = Some index, is_frameId = Some (nf_id n)\<rparr>"

definition check_version :: "nat \<Rightarrow> kit_frame \<Rightarrow> verify_state \<Rightarrow> verify_state" where
  "check_version index n s =
     (if nf_v n \<noteq> LTP_VERSION
      then add_error (frame_issue index n ''ltp.version.unsupported''
             (''frame '' @ nat_str index @ '' has unsupported version '' @ nf_v n)) s
      else s)"

definition check_timestamp :: "nat \<Rightarrow> kit_frame \<Rightarrow> verify_state \<Rightarrow> verify_state" where
  "check_timestamp index n s =
     (case nf_ts n of
        None \<Rightarrow> add_error (frame_issue index n ''ltp.timestamp.missing''
                  (''frame '' @ nat_str index @ '' is missing a numeric timestamp'')) s
      | Some ts \<Rightarrow>
          (let s1 = (case lastTimestamp s of
                       Some t \<Rightarrow>
                         (if ts < t
                          then add_warning (frame_issue index n ''ltp.timestamp.regression''
                                 (''frame '' @ nat_str index @ '' timestamp regressed from '' @ num_str t
                                  @ '' to '' @ num_str ts)) s
                          else s)
                     | None \<Rightarrow> s)
           in s1\<lparr>lastTimestamp := Some ts\<rparr>))"

definition frame_sender :: "kit_frame \<Rightarrow> string" where
  "frame_sender n = (case nf_from n of Some s \<Rightarrow> s | None \<Rightarrow> ''global'')"

definition seen_ids :: "verify_state \<Rightarrow> string \<Rightarrow> string set" where
  "seen_ids s sender = (case seenIdsBySender s sender of Some ids \<Rightarrow> ids | None \<Rightarrow> {})"

definition check_id :: "nat \<Rightarrow> kit_frame \<Rightarrow> verify_state \<Rightarrow> verify_state" where
  "check_id index n s =
     (let sender = frame_sender n; seenIds = seen_ids s sender;
          s1 = (if nf_id n \<in> seenIds
                then add_error (frame_issue index n ''ltp.id.duplicate''
                       (''duplicate frame id detected for sender '' @ sender @ '': '' @ nf_id n)) s
                else s)
      in s1\<lparr>seenIdsBySender := (seenIdsBySender s1)(sender \<mapsto> insert (nf_id n) seenIds)\<rparr>)"

definition check_first :: "nat \<Rightarrow> kit_frame \<Rightarrow> verify_state \<Rightarrow> verify_state" where
  "check_first index n s =
     (if index = 0
      then if nf_type n \<noteq> ''hello''
           then add_error (frame_issue index n ''ltp.flow.hello_missing'' ''first frame must be hello'') s
           else s\<lparr>kit_helloSeen := True, kit_passed := kit_passed s @ [''hello frame initiates the session'']\<rparr>
      else s)"

definition check_redundant :: "nat \<Rightarrow> kit_frame \<Rightarrow> verify_state \<Rightarrow> verify_state" where
  "check_redundant index n s =
     (if nf_type n = ''hello'' \<and> index \<noteq> 0
      then add_error (frame_issue index n ''ltp.flow.hello_redundant''
             (''hello frame may only start the session (found at index '' @ nat_str index @ '')'')) s
      else s)"

definition check_gate :: "nat \<Rightarrow> kit_frame \<Rightarrow> verify_state \<Rightarrow> verify_state" where
  "check_gate index n s =
     (if \<not> kit_helloSeen s \<and> nf_type n \<noteq> ''hello''
      then add_error (frame_issue index n ''ltp.flow.before_hello''
             (''frame '' @ nat_str index @ '' ('' @ nf_type n @ '') appears before hello'')) s
      else s)"

definition check_type :: "nat \<Rightarrow> kit_frame \<Rightarrow> verify_state \<Rightarrow> verify_state" where
  "check_type index n s =
     (if \<not> isKnownFrameType (nf_type n)
      then add_warning (frame_issue index n ''ltp.type.unknown''
             (''frame '' @ nat_str index @ '' has unknown type '' @ nf_type n @ ''; expected one of ''
              @ js_join '', '' FRAME_TYPES_V0_1)) s
      else s)"

definition check_schema :: "nat \<Rightarrow> kit_frame \<Rightarrow> verify_state \<Rightarrow> verify_state" where
  "check_schema index n s =
     (if isKnownFrameType (nf_type n) \<and> \<not> isLTPFrame (normalized_object n)
      then add_error (frame_issue index n ''ltp.schema.invalid''
             (''frame '' @ nat_str index @ '' failed schema validation for '' @ nf_type n)) s
      else s)"

text \<open>An error of a case of the switch that applies before the hello frame.\<close>

definition order_error :: "nat \<Rightarrow> kit_frame \<Rightarrow> verify_state \<Rightarrow> verify_state" where
  "order_error index n s =
     (if \<not> kit_helloSeen s
      then add_error (frame_issue index n (''ltp.flow.'' @ nf_type n @ ''_order'')
             (nf_type n @ '' at position '' @ nat_str index @ '' before hello'')) s
      else s)"

definition check_request :: "nat \<Rightarrow> kit_frame \<Rightarrow> verify_state \<Rightarrow> verify_state" where
  "check_request index n s =
     (let s1 = order_error index n (s\<lparr>kit_routeRequested := True\<rparr>)
      in if \<not> kit_orientationSeen s1
         then add_warning (frame_issue index n ''ltp.flow.orientation_missing''
                ''route_request observed before orientation frame'') s1
         else s1)"

definition check_response :: "nat \<Rightarrow> kit_frame \<Rightarrow> verify_state \<Rightarrow> verify_state" where
  "check_response index n s =
     (let branches = countBranches (nf_payload n);
          s1 = s\<lparr>kit_routeResponded := True\<rparr>;
          s2 = (if \<not> kit_routeRequested s1
                then add_error (frame_issue index n ''ltp.flow.route_response_order''
                       (''route_response at position '' @ nat_str index @ '' without route_request'')) s1
                else s1)
      in if branches = 0
         then add_error (frame_issue index n ''ltp.payload.branches.missing''
                ''route_response must include at least two branches'') s2
         else if branches = 1
         then add_warning (frame_issue index n ''ltp.payload.branches.single''
                ''route_response includes only one branch; expected 2+'') s2
         else s2)"

definition check_flow :: "nat \<Rightarrow> kit_frame \<Rightarrow> verify_state \<Rightarrow> verify_state" where
  "check_flow index n s =
     (if nf_type n = ''hello'' then s\<lparr>kit_helloSeen := True\<rparr>
      else if nf_type n = ''heartbeat'' then order_error index n (s\<lparr>kit_heartbeatSeen := True\<rparr>)
      else if nf_type n = ''orientation'' then order_error index n (s\<lparr>kit_orientationSeen := True\<rparr>)
      else if nf_type n = ''route_request'' then check_request index n s
      else if nf_type n = ''route_response'' then check_response index n s
      else if nf_type n = ''focus_snapshot'' then s\<lparr>kit_focusSeen := True\<rparr>
      else s)"

definition check_frame :: "nat \<Rightarrow> jsval \<Rightarrow> verify_state \<Rightarrow> verify_state" where
  "check_frame index frame s =
     (case normalizeFrame frame index of
        None \<Rightarrow>
          add_error \<lparr>is_code = ''ltp.frame.shape'', is_message = ''frame '' @ nat_str index @ '' is not an object'',
            is_at = Some index, is_frameId = None\<rparr> s
      | Some n \<Rightarrow>
          check_flow index n (check_schema index n (check_type index n (check_gate index n
            (check_redundant index n (check_first index n (check_id index n
              (check_timestamp index n (check_version index n s)))))))))"

section \<open>The report\<close>

definition missing_issue :: "string \<Rightarrow> string \<Rightarrow> issue" where
  "missing_issue code message = \<lparr>is_code = code, is_message = message, is_at = None, is_frameId = None\<rparr>"

definition require_frame :: "bool \<Rightarrow> string \<Rightarrow> verify_state \<Rightarrow> verify_state" where
  "require_frame seen ty s =
     (if \<not> seen
      then add_error (missing_issue (''ltp.frame.'' @ ty @ ''_missing'') (ty @ '' frame missing from capture'')) s
      else s)"

text \<open>The checks after the loop.\<close>

definition check_capture :: "verify_state \<Rightarrow> verify_state" where
  "check_capture s =
     (let s1 = require_frame (kit_helloSeen s) ''hello'' s;
          s2 = require_frame (kit_heartbeatSeen s) ''heartbeat'' s1;
          s3 = require_frame (kit_orientationSeen s) ''orientation'' s2;
          s4 = require_frame (kit_routeRequested s) ''route_request'' s3;
          s5 = require_frame (kit_routeResponded s) ''route_response'' s4;
          s6 = (if \<not> kit_focusSeen s
                then add_warning (missing_issue ''ltp.frame.focus_snapshot_missing''
                       ''focus_snapshot frame missing; optional but recommended'') s5
                else s5)
      in if kit_errors s6 = [] \<and> kit_helloSeen s6 \<and> kit_orientationSeen s6 \<and> kit_routeRequested s6 \<and> kit_routeResponded s6
         then s6\<lparr>kit_passed := kit_passed s6 @ [''required LTP frames observed in valid order'']\<rparr>
         else s6)"

definition base_report :: "jsval list option \<Rightarrow> verify_options \<Rightarrow> conformance_report" where
  "base_report frames opt =
     \<lparr>cr_ok = True, cr_status = OK, cr_score = 1,
      cr_frameCount = (case frames of Some fs \<Rightarrow> length fs | None \<Rightarrow> 0),
      cr_passed = [], cr_warnings = [], cr_errors = [], cr_hints = [],
      cr_annotations = vo_annotations opt, cr_file = vo_inputName opt,
      cr_meta = \<lparr>me_timestamp = vo_now opt, me_toolVersion = kit_version,
                 me_inputName = vo_inputName opt, me_inputHash = vo_inputHash opt\<rparr>\<rparr>"

definition capture_score :: "nat \<Rightarrow> nat \<Rightarrow> rat" where
  "capture_score errs warns =
     (let errorPenalty = fl (of_nat errs * fl (1 / 5)); warningPenalty = fl (of_nat warns * fl (1 / 20))
      in clamp01 (fl (fl (1 - errorPenalty) - warningPenalty)))"

definition capture_report :: "jsval list \<Rightarrow> verify_options \<Rightarrow> conformance_report" where
  "capture_report frames opt =
     (let s = check_capture (run_frames check_frame 0 frames verify_init);
          r = (base_report (Some frames) opt)
                \<lparr>cr_passed := kit_passed s, cr_warnings := kit_warnings s, cr_errors := kit_errors s\<rparr>
      in r\<lparr>cr_ok := cr_errors r = [], cr_status := statusFromReport r,
           cr_score := capture_score (length (cr_errors r)) (length (cr_warnings r)),
           cr_hints := (if cr_warnings r \<noteq> [] then [''address warnings to improve conformance score''] else []),
           cr_annotations := (if own (cr_annotations r) = [] then JUndef else cr_annotations r)\<rparr>)"

definition verifyFrames :: "jsval list option \<Rightarrow> verify_options \<Rightarrow> conformance_report \<times> nat" where
  "verifyFrames frames opt =
     (case frames of
        None \<Rightarrow>
          (let r = (base_report None opt)
                 \<lparr>cr_errors := [missing_issue ''ltp.input.invalid'' ''frames must be an array or contained in a frames property''],
                  cr_ok := False, cr_score := 0\<rparr>
           in (r, deriveExitCode r (vo_strict opt)))
      | Some fs \<Rightarrow>
          (let r = capture_report fs opt in (r, deriveExitCode r (vo_strict opt))))"

end
