(* ===== verification/Conformance_Correct.thy ===== *)
theory Conformance_Correct
  imports Conformance_Verify
begin

text \<open>
  What the conformance kit decides. The verdict on a capture is proved equal to a specification
  that mentions neither the loop nor its flags: a capture without errors is one whose normalised
  frames are well formed, start with the only hello, carry distinct identifiers per sender and
  answer requests only after they were made; the warnings are characterised in the same way.
\<close>

section \<open>Specification\<close>

text \<open>The frames of a capture that are objects, normalised.\<close>

definition normalized_frames :: "jsval list \<Rightarrow> kit_frame list" where
  "normalized_frames fs = List.map_filter (\<lambda>(i, f). normalizeFrame f i) (List.enumerate 0 fs)"

definition valid_frame :: "kit_frame \<Rightarrow> bool" where
  "valid_frame n \<longleftrightarrow> nf_v n = LTP_VERSION \<and> nf_ts n \<noteq> None \<and>
     (isKnownFrameType (nf_type n) \<longrightarrow> isLTPFrame (normalized_object n))"

definition sender_id :: "kit_frame \<Rightarrow> string \<times> string" where
  "sender_id n = (frame_sender n, nf_id n)"

definition types :: "kit_frame list \<Rightarrow> string set" where
  "types ns = set (map nf_type ns)"

text \<open>What is asked of every frame in view of its predecessors.\<close>

definition well_ordered :: "kit_frame list \<Rightarrow> bool" where
  "well_ordered ns \<longleftrightarrow> (\<forall>j < length ns. (nf_type (ns ! j) = ''hello'' \<longleftrightarrow> j = 0) \<and>
     (nf_type (ns ! j) = ''route_response'' \<longrightarrow>
        ''route_request'' \<in> types (take j ns) \<and> countBranches (nf_payload (ns ! j)) \<noteq> 0))"

definition conformant :: "jsval list \<Rightarrow> bool" where
  "conformant fs \<longleftrightarrow>
     (let ns = normalized_frames fs
      in list_all is_object fs \<and> list_all valid_frame ns \<and> distinct (map sender_id ns) \<and> well_ordered ns \<and>
         {''heartbeat'', ''orientation'', ''route_request'', ''route_response''} \<subseteq> types ns)"

definition smooth :: "kit_frame list \<Rightarrow> bool" where
  "smooth ns \<longleftrightarrow> (\<forall>j < length ns. isKnownFrameType (nf_type (ns ! j)) \<and>
     (nf_type (ns ! j) = ''route_request'' \<longrightarrow> ''orientation'' \<in> types (take j ns)) \<and>
     (nf_type (ns ! j) = ''route_response'' \<longrightarrow> countBranches (nf_payload (ns ! j)) \<noteq> 1))"

definition exemplary :: "jsval list \<Rightarrow> bool" where
  "exemplary fs \<longleftrightarrow>
     (let ns = normalized_frames fs
      in sorted (map (the \<circ> nf_ts) ns) \<and> smooth ns \<and> ''focus_snapshot'' \<in> types ns)"

section \<open>The loop\<close>

lemma normalized_frames_Nil [simp]: "normalized_frames [] = []"
  by (simp add: normalized_frames_def List.map_filter_def)

lemma enumerate_snoc: "List.enumerate n (xs @ [x]) = List.enumerate n xs @ [(n + length xs, x)]"
  by (induction xs arbitrary: n) simp_all

lemma normalized_frames_snoc [simp]:
  "normalized_frames (xs @ [x]) =
     normalized_frames xs @ (case normalizeFrame x (length xs) of None \<Rightarrow> [] | Some n \<Rightarrow> [n])"
  by (simp add: normalized_frames_def enumerate_snoc List.map_filter_def split: option.split)

lemma normalizeFrame_None_iff: "normalizeFrame f i = None \<longleftrightarrow> \<not> is_object f"
  by (simp add: normalizeFrame_def)

lemma length_normalized_frames: "list_all is_object fs \<Longrightarrow> length (normalized_frames fs) = length fs"
proof (induction fs rule: rev_induct)
  case (snoc x xs)
  then show ?case by (cases "normalizeFrame x (length xs)") (auto simp: normalizeFrame_None_iff)
qed simp

lemma types_simps [simp]: "types [] = {}" "types (ns @ [n]) = insert (nf_type n) (types ns)"
  by (simp_all add: types_def)

text \<open>What every check does to the state, and when it raises no issue.\<close>

lemma check_version_fields [simp]:
  "lastTimestamp (check_version i n s) = lastTimestamp s"
  "seenIdsBySender (check_version i n s) = seenIdsBySender s"
  "kit_helloSeen (check_version i n s) = kit_helloSeen s"
  "kit_heartbeatSeen (check_version i n s) = kit_heartbeatSeen s"
  "kit_orientationSeen (check_version i n s) = kit_orientationSeen s"
  "kit_routeRequested (check_version i n s) = kit_routeRequested s"
  "kit_routeResponded (check_version i n s) = kit_routeResponded s"
  "kit_focusSeen (check_version i n s) = kit_focusSeen s"
  "kit_warnings (check_version i n s) = kit_warnings s"
  "prefix xs (kit_errors s) \<Longrightarrow> prefix xs (kit_errors (check_version i n s))"
  "kit_errors (check_version i n s) = [] \<longleftrightarrow> kit_errors s = [] \<and> nf_v n = LTP_VERSION"
  by (auto simp: check_version_def add_error_def Let_def)

lemma check_timestamp_fields [simp]:
  "seenIdsBySender (check_timestamp i n s) = seenIdsBySender s"
  "kit_helloSeen (check_timestamp i n s) = kit_helloSeen s"
  "kit_heartbeatSeen (check_timestamp i n s) = kit_heartbeatSeen s"
  "kit_orientationSeen (check_timestamp i n s) = kit_orientationSeen s"
  "kit_routeRequested (check_timestamp i n s) = kit_routeRequested s"
  "kit_routeResponded (check_timestamp i n s) = kit_routeResponded s"
  "kit_focusSeen (check_timestamp i n s) = kit_focusSeen s"
  "prefix xs (kit_errors s) \<Longrightarrow> prefix xs (kit_errors (check_timestamp i n s))"
  "kit_errors (check_timestamp i n s) = [] \<longleftrightarrow> kit_errors s = [] \<and> nf_ts n \<noteq> None"
  "prefix xs (kit_warnings s) \<Longrightarrow> prefix xs (kit_warnings (check_timestamp i n s))"
  "kit_warnings (check_timestamp i n s) = [] \<longleftrightarrow> kit_warnings s = [] \<and> (case (nf_ts n, lastTimestamp s) of (Some ts, Some t) \<Rightarrow> t \<le> ts | _ \<Rightarrow> True)"
  "lastTimestamp (check_timestamp i n s) = (case nf_ts n of Some ts \<Rightarrow> Some ts | None \<Rightarrow> lastTimestamp s)"
  by (auto simp: check_timestamp_def add_error_def add_warning_def Let_def split: option.split)

lemma check_id_fields [simp]:
  "lastTimestamp (check_id i n s) = lastTimestamp s"
  "kit_helloSeen (check_id i n s) = kit_helloSeen s"
  "kit_heartbeatSeen (check_id i n s) = kit_heartbeatSeen s"
  "kit_orientationSeen (check_id i n s) = kit_orientationSeen s"
  "kit_routeRequested (check_id i n s) = kit_routeRequested s"
  "kit_routeResponded (check_id i n s) = kit_routeResponded s"
  "kit_focusSeen (check_id i n s) = kit_focusSeen s"
  "kit_warnings (check_id i n s) = kit_warnings s"
  "prefix xs (kit_errors s) \<Longrightarrow> prefix xs (kit_errors (check_id i n s))"
  "kit_errors (check_id i n s) = [] \<longleftrightarrow> kit_errors s = [] \<and> nf_id n \<notin> seen_ids s (frame_sender n)"
  "seenIdsBySender (check_id i n s) = (seenIdsBySender s)(frame_sender n \<mapsto> insert (nf_id n) (seen_ids s (frame_sender n)))"
  by (auto simp: check_id_def add_error_def Let_def)

lemma check_first_fields [simp]:
  "lastTimestamp (check_first i n s) = lastTimestamp s"
  "seenIdsBySender (check_first i n s) = seenIdsBySender s"
  "kit_heartbeatSeen (check_first i n s) = kit_heartbeatSeen s"
  "kit_orientationSeen (check_first i n s) = kit_orientationSeen s"
  "kit_routeRequested (check_first i n s) = kit_routeRequested s"
  "kit_routeResponded (check_first i n s) = kit_routeResponded s"
  "kit_focusSeen (check_first i n s) = kit_focusSeen s"
  "kit_warnings (check_first i n s) = kit_warnings s"
  "prefix xs (kit_errors s) \<Longrightarrow> prefix xs (kit_errors (check_first i n s))"
  "kit_errors (check_first i n s) = [] \<longleftrightarrow> kit_errors s = [] \<and> (i = 0 \<longrightarrow> nf_type n = ''hello'')"
  "kit_helloSeen (check_first i n s) = (kit_helloSeen s \<or> i = 0 \<and> nf_type n = ''hello'')"
  by (auto simp: check_first_def add_error_def Let_def)

lemma check_redundant_fields [simp]:
  "lastTimestamp (check_redundant i n s) = lastTimestamp s"
  "seenIdsBySender (check_redundant i n s) = seenIdsBySender s"
  "kit_helloSeen (check_redundant i n s) = kit_helloSeen s"
  "kit_heartbeatSeen (check_redundant i n s) = kit_heartbeatSeen s"
  "kit_orientationSeen (check_redundant i n s) = kit_orientationSeen s"
  "kit_routeRequested (check_redundant i n s) = kit_routeRequested s"
  "kit_routeResponded (check_redundant i n s) = kit_routeResponded s"
  "kit_focusSeen (check_redundant i n s) = kit_focusSeen s"
  "kit_warnings (check_redundant i n s) = kit_warnings s"
  "prefix xs (kit_errors s) \<Longrightarrow> prefix xs (kit_errors (check_redundant i n s))"
  "kit_errors (check_redundant i n s) = [] \<longleftrightarrow> kit_errors s = [] \<and> (nf_type n = ''hello'' \<longrightarrow> i = 0)"
  by (auto simp: check_redundant_def add_error_def Let_def)

lemma check_gate_fields [simp]:
  "lastTimestamp (check_gate i n s) = lastTimestamp s"
  "seenIdsBySender (check_gate i n s) = seenIdsBySender s"
  "kit_helloSeen (check_gate i n s) = kit_helloSeen s"
  "kit_heartbeatSeen (check_gate i n s) = kit_heartbeatSeen s"
  "kit_orientationSeen (check_gate i n s) = kit_orientationSeen s"
  "kit_routeRequested (check_gate i n s) = kit_routeRequested s"
  "kit_routeResponded (check_gate i n s) = kit_routeResponded s"
  "kit_focusSeen (check_gate i n s) = kit_focusSeen s"
  "kit_warnings (check_gate i n s) = kit_warnings s"
  "prefix xs (kit_errors s) \<Longrightarrow> prefix xs (kit_errors (check_gate i n s))"
  "kit_errors (check_gate i n s) = [] \<longleftrightarrow> kit_errors s = [] \<and> (nf_type n = ''hello'' \<or> kit_helloSeen s)"
  by (auto simp: check_gate_def add_error_def Let_def)

lemma check_type_fields [simp]:
  "lastTimestamp (check_type i n s) = lastTimestamp s"
  "seenIdsBySender (check_type i n s) = seenIdsBySender s"
  "kit_helloSeen (check_type i n s) = kit_helloSeen s"
  "kit_heartbeatSeen (check_type i n s) = kit_heartbeatSeen s"
  "kit_orientationSeen (check_type i n s) = kit_orientationSeen s"
  "kit_routeRequested (check_type i n s) = kit_routeRequested s"
  "kit_routeResponded (check_type i n s) = kit_routeResponded s"
  "kit_focusSeen (check_type i n s) = kit_focusSeen s"
  "kit_errors (check_type i n s) = kit_errors s"
  "prefix xs (kit_warnings s) \<Longrightarrow> prefix xs (kit_warnings (check_type i n s))"
  "kit_warnings (check_type i n s) = [] \<longleftrightarrow> kit_warnings s = [] \<and> isKnownFrameType (nf_type n)"
  by (auto simp: check_type_def add_warning_def Let_def)

lemma check_schema_fields [simp]:
  "lastTimestamp (check_schema i n s) = lastTimestamp s"
  "seenIdsBySender (check_schema i n s) = seenIdsBySender s"
  "kit_helloSeen (check_schema i n s) = kit_helloSeen s"
  "kit_heartbeatSeen (check_schema i n s) = kit_heartbeatSeen s"
  "kit_orientationSeen (check_schema i n s) = kit_orientationSeen s"
  "kit_routeRequested (check_schema i n s) = kit_routeRequested s"
  "kit_routeResponded (check_schema i n s) = kit_routeResponded s"
  "kit_focusSeen (check_schema i n s) = kit_focusSeen s"
  "kit_warnings (check_schema i n s) = kit_warnings s"
  "prefix xs (kit_errors s) \<Longrightarrow> prefix xs (kit_errors (check_schema i n s))"
  "kit_errors (check_schema i n s) = [] \<longleftrightarrow> kit_errors s = [] \<and> (isKnownFrameType (nf_type n) \<longrightarrow> isLTPFrame (normalized_object n))"
  by (auto simp: check_schema_def add_error_def Let_def)

lemma order_error_fields [simp]:
  "lastTimestamp (order_error i n s) = lastTimestamp s"
  "seenIdsBySender (order_error i n s) = seenIdsBySender s"
  "kit_helloSeen (order_error i n s) = kit_helloSeen s"
  "kit_heartbeatSeen (order_error i n s) = kit_heartbeatSeen s"
  "kit_orientationSeen (order_error i n s) = kit_orientationSeen s"
  "kit_routeRequested (order_error i n s) = kit_routeRequested s"
  "kit_routeResponded (order_error i n s) = kit_routeResponded s"
  "kit_focusSeen (order_error i n s) = kit_focusSeen s"
  "kit_warnings (order_error i n s) = kit_warnings s"
  "prefix xs (kit_errors s) \<Longrightarrow> prefix xs (kit_errors (order_error i n s))"
  "kit_errors (order_error i n s) = [] \<longleftrightarrow> kit_errors s = [] \<and> kit_helloSeen s"
  by (auto simp: order_error_def add_error_def Let_def)

lemma check_request_fields [simp]:
  "lastTimestamp (check_request i n s) = lastTimestamp s"
  "seenIdsBySender (check_request i n s) = seenIdsBySender s"
  "kit_helloSeen (check_request i n s) = kit_helloSeen s"
  "kit_heartbeatSeen (check_request i n s) = kit_heartbeatSeen s"
  "kit_orientationSeen (check_request i n s) = kit_orientationSeen s"
  "kit_routeResponded (check_request i n s) = kit_routeResponded s"
  "kit_focusSeen (check_request i n s) = kit_focusSeen s"
  "prefix xs (kit_errors s) \<Longrightarrow> prefix xs (kit_errors (check_request i n s))"
  "kit_errors (check_request i n s) = [] \<longleftrightarrow> kit_errors s = [] \<and> kit_helloSeen s"
  "prefix xs (kit_warnings s) \<Longrightarrow> prefix xs (kit_warnings (check_request i n s))"
  "kit_warnings (check_request i n s) = [] \<longleftrightarrow> kit_warnings s = [] \<and> kit_orientationSeen s"
  "kit_routeRequested (check_request i n s) = True"
  by (auto simp: check_request_def add_error_def add_warning_def order_error_def Let_def)

lemma check_response_fields [simp]:
  "lastTimestamp (check_response i n s) = lastTimestamp s"
  "seenIdsBySender (check_response i n s) = seenIdsBySender s"
  "kit_helloSeen (check_response i n s) = kit_helloSeen s"
  "kit_heartbeatSeen (check_response i n s) = kit_heartbeatSeen s"
  "kit_orientationSeen (check_response i n s) = kit_orientationSeen s"
  "kit_routeRequested (check_response i n s) = kit_routeRequested s"
  "kit_focusSeen (check_response i n s) = kit_focusSeen s"
  "prefix xs (kit_errors s) \<Longrightarrow> prefix xs (kit_errors (check_response i n s))"
  "kit_errors (check_response i n s) = [] \<longleftrightarrow> kit_errors s = [] \<and> kit_routeRequested s \<and> countBranches (nf_payload n) \<noteq> 0"
  "prefix xs (kit_warnings s) \<Longrightarrow> prefix xs (kit_warnings (check_response i n s))"
  "kit_warnings (check_response i n s) = [] \<longleftrightarrow> kit_warnings s = [] \<and> countBranches (nf_payload n) \<noteq> 1"
  "kit_routeResponded (check_response i n s) = True"
  by (auto simp: check_response_def add_error_def add_warning_def Let_def)

lemma check_flow_fields [simp]:
  "lastTimestamp (check_flow i n s) = lastTimestamp s"
  "seenIdsBySender (check_flow i n s) = seenIdsBySender s"
  "prefix xs (kit_errors s) \<Longrightarrow> prefix xs (kit_errors (check_flow i n s))"
  "kit_errors (check_flow i n s) = [] \<longleftrightarrow> kit_errors s = [] \<and> 
     (nf_type n \<in> {''heartbeat'', ''orientation'', ''route_request''} \<longrightarrow> kit_helloSeen s) \<and>
     (nf_type n = ''route_response'' \<longrightarrow> kit_routeRequested s \<and> countBranches (nf_payload n) \<noteq> 0)"
  "prefix xs (kit_warnings s) \<Longrightarrow> prefix xs (kit_warnings (check_flow i n s))"
  "kit_warnings (check_flow i n s) = [] \<longleftrightarrow> kit_warnings s = [] \<and> 
     (nf_type n = ''route_request'' \<longrightarrow> kit_orientationSeen s) \<and>
     (nf_type n = ''route_response'' \<longrightarrow> countBranches (nf_payload n) \<noteq> 1)"
  "kit_helloSeen (check_flow i n s) = (kit_helloSeen s \<or> nf_type n = ''hello'')"
  "kit_heartbeatSeen (check_flow i n s) = (kit_heartbeatSeen s \<or> nf_type n = ''heartbeat'')"
  "kit_orientationSeen (check_flow i n s) = (kit_orientationSeen s \<or> nf_type n = ''orientation'')"
  "kit_routeRequested (check_flow i n s) = (kit_routeRequested s \<or> nf_type n = ''route_request'')"
  "kit_routeResponded (check_flow i n s) = (kit_routeResponded s \<or> nf_type n = ''route_response'')"
  "kit_focusSeen (check_flow i n s) = (kit_focusSeen s \<or> nf_type n = ''focus_snapshot'')"
  by (auto simp: check_flow_def  Let_def)

interpretation kit_error_log: flow_check check_frame kit_errors
  by unfold_locales (auto simp: check_frame_def add_error_def split: option.split)

interpretation kit_warning_log: flow_check check_frame kit_warnings
  by unfold_locales (auto simp: check_frame_def add_error_def split: option.split)

abbreviation kit_run :: "jsval list \<Rightarrow> verify_state" where
  "kit_run fs \<equiv> run_frames check_frame 0 fs verify_init"

lemma check_frame_None: "normalizeFrame f i = None \<Longrightarrow> kit_errors (check_frame i f s) \<noteq> []"
  by (simp add: check_frame_def add_error_def)

text \<open>The flags of the loop in terms of the frames seen so far.\<close>

lemma run_flags:
  "kit_helloSeen (kit_run fs) \<longleftrightarrow> ''hello'' \<in> types (normalized_frames fs)"
  "kit_heartbeatSeen (kit_run fs) \<longleftrightarrow> ''heartbeat'' \<in> types (normalized_frames fs)"
  "kit_orientationSeen (kit_run fs) \<longleftrightarrow> ''orientation'' \<in> types (normalized_frames fs)"
  "kit_routeRequested (kit_run fs) \<longleftrightarrow> ''route_request'' \<in> types (normalized_frames fs)"
  "kit_routeResponded (kit_run fs) \<longleftrightarrow> ''route_response'' \<in> types (normalized_frames fs)"
  "kit_focusSeen (kit_run fs) \<longleftrightarrow> ''focus_snapshot'' \<in> types (normalized_frames fs)"
  by (induction fs rule: rev_induct; auto simp: verify_init_def check_frame_def add_error_def split: option.split)+

lemma run_seen_ids: "i \<in> seen_ids (kit_run fs) sd \<longleftrightarrow> (sd, i) \<in> sender_id ` set (normalized_frames fs)"
proof (induction fs arbitrary: sd i rule: rev_induct)
  case Nil
  then show ?case by (simp add: verify_init_def seen_ids_def)
next
  case (snoc f fs)
  show ?case
  proof (cases "normalizeFrame f (length fs)")
    case None
    then have "seen_ids (kit_run (fs @ [f])) sd = seen_ids (kit_run fs) sd"
      by (simp add: check_frame_def [of "length fs"] add_error_def seen_ids_def)
    then show ?thesis using snoc None by simp
  next
    case (Some n)
    have "seenIdsBySender (kit_run (fs @ [f])) =
        (seenIdsBySender (kit_run fs))(frame_sender n \<mapsto> insert (nf_id n) (seen_ids (kit_run fs) (frame_sender n)))"
      using Some by (simp add: check_frame_def [of "length fs"] seen_ids_def)
    then have "seen_ids (kit_run (fs @ [f])) sd =
        (if sd = frame_sender n then insert (nf_id n) (seen_ids (kit_run fs) sd) else seen_ids (kit_run fs) sd)"
      by (simp add: seen_ids_def)
    then show ?thesis
      using snoc Some by (auto simp: sender_id_def)
  qed
qed

lemma well_ordered_snoc:
  "well_ordered (ns @ [n]) \<longleftrightarrow> well_ordered ns \<and> (nf_type n = ''hello'' \<longleftrightarrow> ns = []) \<and>
     (nf_type n = ''route_response'' \<longrightarrow> ''route_request'' \<in> types ns \<and> countBranches (nf_payload n) \<noteq> 0)"
  by (auto simp: well_ordered_def nth_append less_Suc_eq)

lemma well_ordered_hello: "well_ordered ns \<Longrightarrow> ns \<noteq> [] \<Longrightarrow> ''hello'' \<in> types ns"
  by (cases ns) (auto simp: well_ordered_def types_def)

text \<open>The loop raises no error exactly on these captures.\<close>

lemma run_no_errors:
  "kit_errors (kit_run fs) = [] \<longleftrightarrow>
     list_all is_object fs \<and> list_all valid_frame (normalized_frames fs) \<and>
     distinct (map sender_id (normalized_frames fs)) \<and> well_ordered (normalized_frames fs)"
proof (induction fs rule: rev_induct)
  case Nil
  then show ?case by (simp add: verify_init_def well_ordered_def)
next
  case (snoc f fs)
  let ?ns = "normalized_frames fs" and ?s = "kit_run fs"
  show ?case
  proof (cases "normalizeFrame f (length fs)")
    case None
    then show ?thesis
      using check_frame_None [of f "length fs"] by (simp add: kit_error_log.clean_snoc normalizeFrame_None_iff del: run_frames_snoc)
  next
    case (Some n)
    have obj: "is_object f" using Some by (metis normalizeFrame_None_iff option.simps(3))
    have clean: "kit_errors (check_frame (length fs) f ?s) = [] \<longleftrightarrow> kit_errors ?s = [] \<and>
        valid_frame n \<and> sender_id n \<notin> sender_id ` set ?ns \<and> (nf_type n = ''hello'' \<longleftrightarrow> fs = []) \<and>
        (nf_type n \<noteq> ''hello'' \<longrightarrow> kit_helloSeen ?s) \<and>
        (nf_type n = ''route_response'' \<longrightarrow> ''route_request'' \<in> types ?ns \<and> countBranches (nf_payload n) \<noteq> 0)"
      using Some run_seen_ids [of "nf_id n" fs "frame_sender n"]
      by (auto simp: check_frame_def [of "length fs"] valid_frame_def sender_id_def [of n] run_flags seen_ids_def [of "check_timestamp _ _ _"] seen_ids_def [of "kit_run fs"])
    have "ns = [] \<longleftrightarrow> fs = []" if "list_all is_object fs" "ns = ?ns" for ns
      using that length_normalized_frames by fastforce
    then show ?thesis
      unfolding kit_error_log.clean_snoc snoc clean
      using Some obj well_ordered_hello [of ?ns] by (auto simp: well_ordered_snoc run_flags)
  qed
qed

lemma run_lastTimestamp:
  "list_all valid_frame (normalized_frames fs) \<Longrightarrow>
     lastTimestamp (kit_run fs) = (if normalized_frames fs = [] then None else nf_ts (last (normalized_frames fs)))"
proof (induction fs rule: rev_induct)
  case (snoc f fs)
  then show ?case
    by (cases "normalizeFrame f (length fs)")
      (auto simp: check_frame_def [of "length fs"] add_error_def valid_frame_def split: option.split)
qed (simp add: verify_init_def)

lemma sorted_last_snoc: "sorted (xs @ [x]) \<longleftrightarrow> sorted xs \<and> (xs \<noteq> [] \<longrightarrow> last xs \<le> x)" for x :: "'a :: linorder"
proof (cases xs rule: rev_exhaust)
  case (snoc ys y)
  then show ?thesis by (auto simp: sorted_append intro: order_trans)
qed simp

lemma smooth_snoc:
  "smooth (ns @ [n]) \<longleftrightarrow> smooth ns \<and> isKnownFrameType (nf_type n) \<and>
     (nf_type n = ''route_request'' \<longrightarrow> ''orientation'' \<in> types ns) \<and>
     (nf_type n = ''route_response'' \<longrightarrow> countBranches (nf_payload n) \<noteq> 1)"
  by (auto simp: smooth_def nth_append less_Suc_eq)

text \<open>On captures whose frames are valid the loop raises no warning exactly on these.\<close>

lemma run_no_warnings:
  assumes "list_all is_object fs" and "list_all valid_frame (normalized_frames fs)"
  shows "kit_warnings (kit_run fs) = [] \<longleftrightarrow>
    sorted (map (the \<circ> nf_ts) (normalized_frames fs)) \<and> smooth (normalized_frames fs)"
  using assms
proof (induction fs rule: rev_induct)
  case Nil
  then show ?case by (simp add: verify_init_def smooth_def)
next
  case (snoc f fs)
  let ?ns = "normalized_frames fs" and ?s = "kit_run fs"
  obtain n where n: "normalizeFrame f (length fs) = Some n"
    using snoc.prems(1) by (cases "normalizeFrame f (length fs)") (auto simp: normalizeFrame_None_iff)
  have v: "list_all is_object fs" "list_all valid_frame ?ns" "valid_frame n" using snoc.prems n by auto
  obtain t where t: "nf_ts n = Some t" using v(3) by (auto simp: valid_frame_def)
  have "(case lastTimestamp ?s of Some t' \<Rightarrow> t' \<le> t | None \<Rightarrow> True) \<longleftrightarrow> (?ns \<noteq> [] \<longrightarrow> the (nf_ts (last ?ns)) \<le> t)"
    using v(2) run_lastTimestamp [OF v(2)] by (auto simp: valid_frame_def list_all_iff dest!: last_in_set split: option.split)
  then have clean: "kit_warnings (check_frame (length fs) f ?s) = [] \<longleftrightarrow> kit_warnings ?s = [] \<and>
      (?ns \<noteq> [] \<longrightarrow> the (nf_ts (last ?ns)) \<le> t) \<and> isKnownFrameType (nf_type n) \<and>
      (nf_type n = ''route_request'' \<longrightarrow> ''orientation'' \<in> types ?ns) \<and>
      (nf_type n = ''route_response'' \<longrightarrow> countBranches (nf_payload n) \<noteq> 1)"
    using n t by (auto simp: check_frame_def [of "length fs"] run_flags split: option.splits)
  have srt: "sorted (map (the \<circ> nf_ts) (?ns @ [n])) \<longleftrightarrow>
      sorted (map (the \<circ> nf_ts) ?ns) \<and> (?ns \<noteq> [] \<longrightarrow> the (nf_ts (last ?ns)) \<le> t)"
    using sorted_last_snoc [of "map (the \<circ> nf_ts) ?ns" t] by (simp add: t last_map)
  have ns: "normalized_frames (fs @ [f]) = ?ns @ [n]" using n by simp
  show ?case
    unfolding kit_warning_log.clean_snoc snoc.IH [OF v(1,2)] clean ns srt smooth_snoc by blast
qed

section \<open>The verdict\<close>

lemma require_frame_fields [simp]:
  "kit_errors (require_frame seen ty s) = [] \<longleftrightarrow> kit_errors s = [] \<and> seen"
  "kit_warnings (require_frame seen ty s) = kit_warnings s"
  by (simp_all add: require_frame_def add_error_def)

lemma check_capture_clean:
  "kit_errors (check_capture s) = [] \<longleftrightarrow> kit_errors s = [] \<and> kit_helloSeen s \<and> kit_heartbeatSeen s \<and>
     kit_orientationSeen s \<and> kit_routeRequested s \<and> kit_routeResponded s"
  "kit_warnings (check_capture s) = [] \<longleftrightarrow> kit_warnings s = [] \<and> kit_focusSeen s"
  by (simp_all add: check_capture_def add_warning_def Let_def)

lemma capture_lists:
  "cr_errors (capture_report fs opt) = kit_errors (check_capture (kit_run fs))"
  "cr_warnings (capture_report fs opt) = kit_warnings (check_capture (kit_run fs))"
  by (simp_all add: capture_report_def Let_def)

lemma capture_errors: "cr_errors (capture_report fs opt) = [] \<longleftrightarrow> conformant fs"
  unfolding capture_lists check_capture_clean run_no_errors run_flags conformant_def Let_def
  using well_ordered_hello [of "normalized_frames fs"] by (cases "normalized_frames fs = []") auto

lemma capture_warnings:
  assumes "conformant fs"
  shows "cr_warnings (capture_report fs opt) = [] \<longleftrightarrow> exemplary fs"
proof -
  have "list_all is_object fs" "list_all valid_frame (normalized_frames fs)"
    using assms by (simp_all add: conformant_def Let_def)
  then show ?thesis
    unfolding capture_lists check_capture_clean run_flags exemplary_def by (auto simp: run_no_warnings Let_def)
qed

text \<open>The parts of the report that are computed from the two lists.\<close>

lemma capture_report_parts:
  "cr_ok (capture_report fs opt) \<longleftrightarrow> cr_errors (capture_report fs opt) = []"
  "cr_status (capture_report fs opt) = statusFromReport (capture_report fs opt)"
  "cr_frameCount (capture_report fs opt) = length fs"
  by (simp_all add: capture_report_def statusFromReport_def base_report_def Let_def)

text \<open>C25: the verdict of the conformance kit on a capture. Errors are reported exactly when the
  capture breaks the specification: frames that are no objects, a wrong version, no timestamp, a
  known type with an invalid payload, an identifier used twice by one sender, a first frame that
  is not the only hello, a route response before any request or without branches, or a
  required frame type that never occurs. Without errors, warnings are reported exactly when timestamps
  regress, a type is unknown, a request precedes orientation, a response has a single branch or
  the focus snapshot is missing. Status and exit code follow from the two.\<close>

theorem capture_verdict:
  shows "let (r, code) = verifyFrames (Some fs) opt
    in (cr_ok r \<longleftrightarrow> conformant fs) \<and>
       (cr_status r = (if \<not> conformant fs then FAIL else if exemplary fs then OK else WARN)) \<and>
       (code = (if \<not> conformant fs then 1 else if exemplary fs then 0 else if vo_strict opt then 1 else 2)) \<and>
       cr_frameCount r = length fs"
  using capture_errors [of fs opt] capture_warnings [of fs opt]
  by (auto simp: verifyFrames_def capture_report_parts deriveExitCode_def statusFromReport_def Let_def)

end
