(* ===== verification/Self_Test.thy ===== *)
theory Self_Test
  imports JS_Library Frames Flow_Check
begin

text \<open>
  The self test of the SDK (\<open>sdk/js/src/conformance/selfTest.ts\<close>): the canonical frames, their
  storm and recovery variants, the checks of the flow and the report with its level and
  determinism hash.
\<close>

section \<open>State\<close>

datatype self_test_mode = Calm | Storm | Recovery
datatype conformance_level = LTP_Core | LTP_Flow | LTP_Canonical

record flow_state =
  helloSeen :: bool
  heartbeatSeqs :: "rat list"
  orientationSeen :: bool
  routeRequested :: bool
  routeResponseBranches :: nat
  emittedFrames :: nat
  focusSnapshotSeen :: bool
  processed :: nat
  deduped :: nat
  flow_errors :: "string list"

record self_test_report =
  sr_ok :: bool
  sr_level :: conformance_level
  sr_receivedFrames :: nat
  sr_processedFrames :: nat
  sr_emittedFrames :: nat
  sr_branchesCount :: nat
  sr_dedupedFrames :: nat
  sr_errors :: "string list"
  sr_determinismHash :: string
  sr_mode :: self_test_mode

definition knownTypes :: "string list" where
  "knownTypes = [''hello'', ''heartbeat'', ''orientation'', ''route_request'', ''route_response'', ''focus_snapshot'']"

definition isKnownType :: "jsval \<Rightarrow> bool" where
  "isKnownType v = (case v of JStr s \<Rightarrow> s \<in> set knownTypes | _ \<Rightarrow> False)"

definition createInitialState :: flow_state where
  "createInitialState =
     \<lparr>helloSeen = False, heartbeatSeqs = [], orientationSeen = False, routeRequested = False,
      routeResponseBranches = 0, emittedFrames = 0, focusSnapshotSeen = False, processed = 0, deduped = 0,
      flow_errors = []\<rparr>"

section \<open>The canonical frames\<close>

definition canon_frame :: "string \<Rightarrow> rat \<Rightarrow> string \<Rightarrow> (string \<times> jsval) list \<Rightarrow> jsval" where
  "canon_frame ident ts ty payload =
     JObj [(''v'', JStr ''0.1''), (''id'', JStr ident), (''ts'', JNum ts), (''type'', JStr ty), (''payload'', JObj payload)]"

definition canon_branch :: "string list \<Rightarrow> rat \<Rightarrow> string \<Rightarrow> jsval" where
  "canon_branch path confidence rationale =
     JObj [(''path'', JArr (map JStr path)), (''confidence'', JNum (fl confidence)), (''rationale'', JStr rationale)]"

definition inlineCanonicalFrames :: "jsval list" where
  "inlineCanonicalFrames =
     [canon_frame ''f-hello'' 1 ''hello'' [(''role'', JStr ''client''), (''message'', JStr ''ltp-self-test'')],
      canon_frame ''f-heartbeat-1'' 2 ''heartbeat'' [(''seq'', JNum 1), (''status'', JStr ''ok'')],
      canon_frame ''f-heartbeat-2'' 3 ''heartbeat'' [(''seq'', JNum 2), (''status'', JStr ''ok'')],
      canon_frame ''f-heartbeat-3'' 4 ''heartbeat'' [(''seq'', JNum 3), (''status'', JStr ''steady'')],
      canon_frame ''f-orientation'' 5 ''orientation''
        [(''origin'', JStr ''node-A''), (''destination'', JStr ''node-B''), (''mode'', JStr ''survey'')],
      canon_frame ''f-route-request'' 6 ''route_request''
        [(''goal'', JStr ''reach-destination''), (''context'', JArr [JStr ''safety'', JStr ''speed''])],
      canon_frame ''f-route-response'' 7 ''route_response''
        [(''branches'', JObj
            [(''primary'', canon_branch [''alpha'', ''beta''] (8 / 10) ''fastest''),
             (''recover'', canon_branch [''alpha'', ''gamma''] (55 / 100) ''fallback''),
             (''explore'', canon_branch [''delta''] (35 / 100) ''discover'')]),
         (''selection'', JStr ''primary'')],
      canon_frame ''f-focus'' 8 ''focus_snapshot''
        [(''focus'', JStr ''navigation''), (''signal'', JNum (fl (92 / 100))), (''rationale'', JStr ''post-route'')],
      canon_frame ''f-unknown'' 9 ''unknown_frame'' [(''note'', JStr ''ignored'')],
      canon_frame ''f-heartbeat-2'' 10 ''heartbeat'' [(''seq'', JNum 2), (''status'', JStr ''duplicate'')]]"

text \<open>
  The vector file on disk is a parameter: \<open>None\<close> when it does not exist, \<open>Inl\<close> when reading it
  throws. A parsed value \<open>null\<close> throws at \<open>parsed.frames\<close>, which the handler catches too.
\<close>

definition readJsonVectors :: "(string + string) option \<Rightarrow> jsval list option" where
  "readJsonVectors vectorFile =
     (case vectorFile of
        Some (Inr raw) \<Rightarrow>
          (case json_parse raw of
             Some parsed \<Rightarrow> (case pget parsed ''frames'' of JArr xs \<Rightarrow> Some xs | _ \<Rightarrow> None)
           | None \<Rightarrow> None)
      | _ \<Rightarrow> None)"

definition buildCanonicalSelfTestFrames :: "(string + string) option \<Rightarrow> jsval list" where
  "buildCanonicalSelfTestFrames vectorFile =
     (case readJsonVectors vectorFile of Some fs \<Rightarrow> fs | None \<Rightarrow> inlineCanonicalFrames)"

definition cloneFrames :: "jsval list \<Rightarrow> jsval list" where
  "cloneFrames frames = map (\<lambda>v. case json_copy v of Some w \<Rightarrow> w | None \<Rightarrow> JNull) frames"

text \<open>\<open>{ ...v, k: w }\<close>.\<close>

definition with_prop :: "jsval \<Rightarrow> string \<Rightarrow> jsval \<Rightarrow> jsval" where
  "with_prop v k w = JObj (define_prop k w (obj_spread v))"

definition storm_frame :: "jsval \<Rightarrow> jsval" where
  "storm_frame frame =
     (let payload = pget frame ''payload''
      in if \<not> is_object frame then frame
         else if pget frame ''type'' = JStr ''heartbeat'' \<and> pget payload ''status'' = JStr ''ok''
         then with_prop frame ''payload'' (with_prop payload ''status'' (JStr ''storm_warning''))
         else if pget frame ''type'' = JStr ''route_response''
         then with_prop frame ''payload''
                (with_prop (with_prop payload ''selection'' (JStr ''recover''))
                   ''branches'' (with_prop (coalesce (pget payload ''branches'') (JObj [])) ''stabilize''
                      (canon_branch [''omega''] (48 / 100) ''storm-route'')))
         else frame)"

definition applyStormMode :: "jsval list \<Rightarrow> jsval list" where
  "applyStormMode frames =
     map storm_frame (cloneFrames frames) @
       [canon_frame ''f-heartbeat-4'' 11 ''heartbeat'' [(''seq'', JNum 4), (''status'', JStr ''stabilizing'')]]"

definition recovery_frame :: "jsval \<Rightarrow> jsval" where
  "recovery_frame frame =
     (let payload = pget frame ''payload''
      in if \<not> is_object frame then frame
         else if pget frame ''type'' = JStr ''orientation''
         then with_prop frame ''payload''
                (with_prop (with_prop payload ''mode'' (JStr ''recovery'')) ''checkpoint'' (JStr ''stabilize''))
         else if pget frame ''type'' = JStr ''focus_snapshot''
         then with_prop frame ''payload''
                (with_prop (with_prop payload ''signal'' (JNum (fl (82 / 100)))) ''rationale'' (JStr ''recovery-lock''))
         else if pget frame ''type'' = JStr ''route_response''
         then with_prop frame ''payload'' (with_prop payload ''selection'' (JStr ''recover''))
         else frame)"

definition applyRecoveryMode :: "jsval list \<Rightarrow> jsval list" where
  "applyRecoveryMode frames = map recovery_frame (cloneFrames frames)"

definition resolveSelfTestMode :: "string option \<Rightarrow> self_test_mode" where
  "resolveSelfTestMode v =
     (if v = Some ''storm'' then Storm else if v = Some ''recovery'' then Recovery else Calm)"

definition buildSelfTestFramesForMode :: "(string + string) option \<Rightarrow> self_test_mode \<Rightarrow> jsval list" where
  "buildSelfTestFramesForMode vectorFile mode =
     (let canonical = buildCanonicalSelfTestFrames vectorFile
      in case mode of
           Storm \<Rightarrow> applyStormMode canonical
         | Recovery \<Rightarrow> applyRecoveryMode canonical
         | Calm \<Rightarrow> cloneFrames canonical)"

section \<open>Checking the flow\<close>

definition push_error :: "string \<Rightarrow> flow_state \<Rightarrow> flow_state" where
  "push_error e st = st\<lparr>flow_errors := flow_errors st @ [e]\<rparr>"

definition validateHeartbeatOrder :: "flow_state \<Rightarrow> rat \<Rightarrow> nat \<Rightarrow> flow_state" where
  "validateHeartbeatOrder st seq index =
     (if \<not> helloSeen st then push_error (''heartbeat at position '' @ nat_str index @ '' before hello'') st
      else
        let st1 = (if heartbeatSeqs st \<noteq> [] \<and> seq \<le> last (heartbeatSeqs st)
                   then push_error (''heartbeat sequence not increasing at position '' @ nat_str index) st
                   else st)
        in st1\<lparr>heartbeatSeqs := heartbeatSeqs st1 @ [seq]\<rparr>)"

definition validateOrientationOrder :: "flow_state \<Rightarrow> nat \<Rightarrow> flow_state" where
  "validateOrientationOrder st index =
     (if \<not> helloSeen st then push_error (''orientation at position '' @ nat_str index @ '' before hello'') st else st)"

definition validateRouteRequestOrder :: "flow_state \<Rightarrow> nat \<Rightarrow> flow_state" where
  "validateRouteRequestOrder st index =
     (if \<not> helloSeen st then push_error (''route_request at position '' @ nat_str index @ '' before hello'') st else st)"

definition branch_count :: "jsval \<Rightarrow> nat" where
  "branch_count branches = (case branches of JArr bs \<Rightarrow> length bs | JObj kvs \<Rightarrow> length kvs | _ \<Rightarrow> 0)"

definition validateRouteResponse :: "flow_state \<Rightarrow> jsval \<Rightarrow> nat \<Rightarrow> flow_state" where
  "validateRouteResponse st payload index =
     (let st1 = (if \<not> routeRequested st
                 then push_error (''route_response at position '' @ nat_str index @ '' without request'') st
                 else st);
          branchCount = branch_count (pget payload ''branches'');
          st2 = st1\<lparr>routeResponseBranches := branchCount, emittedFrames := emittedFrames st1 + 1\<rparr>
      in if branchCount < 2 then push_error ''route_response must include at least two branches'' st2 else st2)"

definition frame_type :: "jsval \<Rightarrow> string" where
  "frame_type frame = (case pget frame ''type'' of JStr t \<Rightarrow> t | _ \<Rightarrow> [])"

definition frame_id :: "jsval \<Rightarrow> string" where
  "frame_id frame = (case pget frame ''id'' of JStr t \<Rightarrow> t | _ \<Rightarrow> [])"

definition frame_seq :: "jsval \<Rightarrow> rat" where
  "frame_seq frame = (case pget (pget frame ''payload'') ''seq'' of JNum n \<Rightarrow> n | _ \<Rightarrow> 0)"

definition validateHelloGate :: "flow_state \<Rightarrow> jsval \<Rightarrow> nat \<Rightarrow> flow_state" where
  "validateHelloGate st frame index =
     (if index = 0
      then if frame_type frame \<noteq> ''hello'' then push_error ''first frame must be hello'' st else st
      else if \<not> helloSeen st \<and> frame_type frame \<noteq> ''hello''
      then push_error (''frame at position '' @ nat_str index @ '' received before hello'') st
      else st)"

text \<open>\<open>processFrame\<close> is called on frames that \<open>isLTPFrame\<close> has accepted.\<close>

definition processFrame :: "flow_state \<Rightarrow> jsval \<Rightarrow> nat \<Rightarrow> flow_state" where
  "processFrame st0 frame index =
     (let st = validateHelloGate st0 frame index; ty = frame_type frame
      in if ty = ''hello'' then st\<lparr>helloSeen := True, emittedFrames := emittedFrames st + 1\<rparr>
         else if ty = ''heartbeat'' then validateHeartbeatOrder st (frame_seq frame) index
         else if ty = ''orientation'' then (validateOrientationOrder st index)\<lparr>orientationSeen := True\<rparr>
         else if ty = ''route_request'' then (validateRouteRequestOrder st index)\<lparr>routeRequested := True\<rparr>
         else if ty = ''route_response'' then validateRouteResponse st (pget frame ''payload'') index
         else if ty = ''focus_snapshot''
         then st\<lparr>focusSnapshotSeen := True, emittedFrames := emittedFrames st + 1\<rparr>
         else st)"

text \<open>One round of the loop of \<open>runSelfTest\<close>; the state carries \<open>seenIds\<close>.\<close>

definition bad_version :: "jsval \<Rightarrow> bool" where
  "bad_version frame = (is_object frame \<and> isKnownType (pget frame ''type'') \<and> pget frame ''v'' \<noteq> JStr ''0.1'')"

definition test_frame :: "nat \<Rightarrow> jsval \<Rightarrow> flow_state \<times> string set \<Rightarrow> flow_state \<times> string set" where
  "test_frame index frame s =
     (let (st, seenIds) = s
      in if bad_version frame
         then (push_error (''frame '' @ js_str (coalesce (pget frame ''id'') (JStr (nat_str index)))
                 @ '' has invalid version'') st, seenIds)
         else if \<not> isLTPFrame frame then (st, seenIds)
         else if frame_id frame \<in> seenIds then (st\<lparr>deduped := deduped st + 1\<rparr>, seenIds)
         else (processFrame (st\<lparr>processed := processed st + 1\<rparr>) frame index, insert (frame_id frame) seenIds))"

section \<open>The report\<close>

definition hashReport :: "(byte list \<Rightarrow> byte list) \<Rightarrow> flow_state \<Rightarrow> nat \<Rightarrow> string" where
  "hashReport sha st receivedFrames =
     bufferToHex (sha (utf8 (json_text (JObj
       [(''receivedFrames'', JNum (of_nat receivedFrames)),
        (''processedFrames'', JNum (of_nat (processed st))),
        (''dedupedFrames'', JNum (of_nat (deduped st))),
        (''heartbeatSeqs'', JArr (map JNum (heartbeatSeqs st))),
        (''orientationSeen'', JBool (orientationSeen st)),
        (''routeRequested'', JBool (routeRequested st)),
        (''routeResponseBranches'', JNum (of_nat (routeResponseBranches st))),
        (''focusSnapshotSeen'', JBool (focusSnapshotSeen st)),
        (''emittedFrames'', JNum (of_nat (emittedFrames st))),
        (''errors'', JArr (map JStr (flow_errors st)))]))))"

definition determineConformanceLevel :: "flow_state \<Rightarrow> bool \<Rightarrow> conformance_level" where
  "determineConformanceLevel st ok =
     (if ok then LTP_Canonical
      else if helloSeen st \<and> routeRequested st \<and> routeResponseBranches st \<ge> 2 then LTP_Flow
      else LTP_Core)"

text \<open>The checks after the loop.\<close>

definition finish_flow :: "flow_state \<Rightarrow> flow_state" where
  "finish_flow st =
     (let st1 = (if \<not> helloSeen st then push_error ''hello frame missing'' st else st)
      in if routeRequested st1 \<and> routeResponseBranches st1 = 0 then push_error ''route_response missing'' st1 else st1)"

definition self_test_outcome :: "(byte list \<Rightarrow> byte list) \<Rightarrow> self_test_mode \<Rightarrow> jsval list \<Rightarrow> self_test_report" where
  "self_test_outcome sha mode frames =
     (let st = finish_flow (fst (run_frames test_frame 0 frames (createInitialState, {})));
          ok = (flow_errors st = [])
      in \<lparr>sr_ok = ok, sr_level = determineConformanceLevel st ok, sr_receivedFrames = length frames,
          sr_processedFrames = processed st, sr_emittedFrames = emittedFrames st,
          sr_branchesCount = routeResponseBranches st, sr_dedupedFrames = deduped st,
          sr_errors = flow_errors st, sr_determinismHash = hashReport sha st (length frames), sr_mode = mode\<rparr>)"

definition runSelfTest ::
  "(byte list \<Rightarrow> byte list) \<Rightarrow> (string + string) option \<Rightarrow> jsval list option \<Rightarrow> string option \<Rightarrow> self_test_report" where
  "runSelfTest sha vectorFile frames mode =
     (let m = resolveSelfTestMode mode
      in self_test_outcome sha m (case frames of Some fs \<Rightarrow> fs | None \<Rightarrow> buildSelfTestFramesForMode vectorFile m))"

end
