(* ===== verification/Self_Test_Correct.thy ===== *)
theory Self_Test_Correct
  imports Self_Test
begin

text \<open>
  What the self test decides: the frames it processes are the valid ones with a new identifier, and
  it passes exactly when these form a sound flow. The canonical frames pass in every mode.
\<close>

section \<open>Specification\<close>

text \<open>The frames that are processed: schema-valid, each identifier once.\<close>

definition accepted :: "jsval list \<Rightarrow> jsval list" where
  "accepted fs = foldl (\<lambda>acc f. if isLTPFrame f \<and> frame_id f \<notin> frame_id ` set acc then acc @ [f] else acc) [] fs"

definition frame_types :: "jsval list \<Rightarrow> string set" where
  "frame_types fs = set (map frame_type fs)"

definition heartbeat_seqs :: "jsval list \<Rightarrow> rat list" where
  "heartbeat_seqs fs = map frame_seq (filter (\<lambda>f. frame_type f = ''heartbeat'') fs)"

definition frame_branches :: "jsval \<Rightarrow> nat" where
  "frame_branches f = branch_count (pget (pget f ''payload'') ''branches'')"

text \<open>Hello opens, heartbeats count up, responses follow requests and offer a choice.\<close>

definition sound_flow :: "jsval list \<Rightarrow> bool" where
  "sound_flow fs \<longleftrightarrow> (fs \<noteq> [] \<longrightarrow> frame_type (hd fs) = ''hello'') \<and> sorted_wrt (<) (heartbeat_seqs fs) \<and>
     (\<forall>j < length fs. frame_type (fs ! j) = ''route_response'' \<longrightarrow>
        ''route_request'' \<in> frame_types (take j fs) \<and> 2 \<le> frame_branches (fs ! j))"

section \<open>The loop\<close>

lemma accepted_Nil [simp]: "accepted [] = []"
  by (simp add: accepted_def)

lemma accepted_snoc [simp]:
  "accepted (fs @ [f]) = (if isLTPFrame f \<and> frame_id f \<notin> frame_id ` set (accepted fs) then accepted fs @ [f] else accepted fs)"
  by (simp add: accepted_def)

lemma frame_types_simps [simp]: "frame_types [] = {}" "frame_types (fs @ [f]) = insert (frame_type f) (frame_types fs)"
  by (simp_all add: frame_types_def)

lemma heartbeat_seqs_simps [simp]:
  "heartbeat_seqs [] = []"
  "heartbeat_seqs (fs @ [f]) = heartbeat_seqs fs @ (if frame_type f = ''heartbeat'' then [frame_seq f] else [])"
  "heartbeat_seqs [f] = (if frame_type f = ''heartbeat'' then [frame_seq f] else [])"
  by (simp_all add: heartbeat_seqs_def)

lemma sorted_wrt_snoc: "sorted_wrt (<) (xs @ [x]) \<longleftrightarrow> sorted_wrt (<) xs \<and> (xs \<noteq> [] \<longrightarrow> last xs < x)" for x :: rat
proof (cases xs rule: rev_exhaust)
  case (snoc ys y)
  then show ?thesis by (auto simp: sorted_wrt_append intro: less_trans)
qed simp

lemma sound_flow_snoc:
  "sound_flow (fs @ [f]) \<longleftrightarrow> sound_flow fs \<and> (fs = [] \<longrightarrow> frame_type f = ''hello'') \<and>
     (frame_type f = ''heartbeat'' \<longrightarrow> heartbeat_seqs fs \<noteq> [] \<longrightarrow> last (heartbeat_seqs fs) < frame_seq f) \<and>
     (frame_type f = ''route_response'' \<longrightarrow> ''route_request'' \<in> frame_types fs \<and> 2 \<le> frame_branches f)"
  by (cases "fs = []") (auto simp: sound_flow_def nth_append less_Suc_eq sorted_wrt_snoc)

lemma sound_flow_simps [simp]: "sound_flow []" "sound_flow [f] \<longleftrightarrow> frame_type f = ''hello''"
  by (auto simp: sound_flow_def)

lemma sound_flow_hello: "sound_flow fs \<Longrightarrow> fs \<noteq> [] \<Longrightarrow> ''hello'' \<in> frame_types fs"
  by (cases fs) (auto simp: sound_flow_def frame_types_def)

text \<open>What the validators do to the state, and when they are satisfied.\<close>

lemmas flow_defs = push_error_def validateHelloGate_def validateHeartbeatOrder_def validateOrientationOrder_def
  validateRouteRequestOrder_def validateRouteResponse_def Let_def

lemma validateHelloGate_fields [simp]:
  "helloSeen (validateHelloGate st f i) = helloSeen st" "heartbeatSeqs (validateHelloGate st f i) = heartbeatSeqs st"
  "routeRequested (validateHelloGate st f i) = routeRequested st"
  "routeResponseBranches (validateHelloGate st f i) = routeResponseBranches st"
  "processed (validateHelloGate st f i) = processed st" "deduped (validateHelloGate st f i) = deduped st"
  "prefix es (flow_errors st) \<Longrightarrow> prefix es (flow_errors (validateHelloGate st f i))"
  "flow_errors (validateHelloGate st f i) = [] \<longleftrightarrow> flow_errors st = [] \<and>
     (frame_type f = ''hello'' \<or> i \<noteq> 0 \<and> helloSeen st)"
  by (auto simp: flow_defs)

lemma processFrame_fields [simp]:
  "helloSeen (processFrame st f i) \<longleftrightarrow> helloSeen st \<or> frame_type f = ''hello''"
  "heartbeatSeqs (processFrame st f i) =
     heartbeatSeqs st @ (if frame_type f = ''heartbeat'' \<and> helloSeen st then [frame_seq f] else [])"
  "routeRequested (processFrame st f i) \<longleftrightarrow> routeRequested st \<or> frame_type f = ''route_request''"
  "routeResponseBranches (processFrame st f i) =
     (if frame_type f = ''route_response'' then frame_branches f else routeResponseBranches st)"
  "processed (processFrame st f i) = processed st" "deduped (processFrame st f i) = deduped st"
  by (simp_all add: processFrame_def flow_defs frame_branches_def)

lemma processFrame_grows: "prefix es (flow_errors st) \<Longrightarrow> prefix es (flow_errors (processFrame st f i))"
  using validateHelloGate_fields(7) [of es st f i]
  by (auto simp: processFrame_def validateHeartbeatOrder_def validateOrientationOrder_def
      validateRouteRequestOrder_def validateRouteResponse_def push_error_def Let_def)

lemma processFrame_clean:
  "flow_errors (processFrame st f i) = [] \<longleftrightarrow> flow_errors st = [] \<and>
     (frame_type f = ''hello'' \<or> i \<noteq> 0 \<and> helloSeen st) \<and>
     (frame_type f = ''heartbeat'' \<longrightarrow> heartbeatSeqs st \<noteq> [] \<longrightarrow> last (heartbeatSeqs st) < frame_seq f) \<and>
     (frame_type f = ''route_response'' \<longrightarrow> routeRequested st \<and> 2 \<le> frame_branches f)"
  by (auto simp: processFrame_def validateHeartbeatOrder_def validateOrientationOrder_def
      validateRouteRequestOrder_def validateRouteResponse_def push_error_def frame_branches_def Let_def)

interpretation self_test_log: flow_check test_frame "flow_errors \<circ> fst"
  by unfold_locales (auto simp: test_frame_def push_error_def processFrame_grows split: prod.split)

abbreviation test_run :: "jsval list \<Rightarrow> flow_state \<times> string set" where
  "test_run fs \<equiv> run_frames test_frame 0 fs (createInitialState, {})"

lemma bad_version_not_valid: "bad_version f \<Longrightarrow> \<not> isLTPFrame f"
  by (auto simp: bad_version_def isLTPFrame_def LTP_VERSION_def)

lemma run_counts:
  "snd (test_run fs) = frame_id ` set (accepted fs)"
  "helloSeen (fst (test_run fs)) \<longleftrightarrow> ''hello'' \<in> frame_types (accepted fs)"
  "routeRequested (fst (test_run fs)) \<longleftrightarrow> ''route_request'' \<in> frame_types (accepted fs)"
  "processed (fst (test_run fs)) = length (accepted fs)"
  "deduped (fst (test_run fs)) + length (accepted fs) = length (filter isLTPFrame fs)"
proof (induction fs rule: rev_induct)
  case Nil
  show "snd (test_run []) = frame_id ` set (accepted [])" by simp
  show "helloSeen (fst (test_run [])) \<longleftrightarrow> ''hello'' \<in> frame_types (accepted [])" by (simp add: createInitialState_def)
  show "routeRequested (fst (test_run [])) \<longleftrightarrow> ''route_request'' \<in> frame_types (accepted [])" by (simp add: createInitialState_def)
  show "processed (fst (test_run [])) = length (accepted [])" by (simp add: createInitialState_def)
  show "deduped (fst (test_run [])) + length (accepted []) = length (filter isLTPFrame [])"
    by (simp add: createInitialState_def)
next
  case (snoc f fs)
  note step = test_frame_def [of "length fs" f "test_run fs"] push_error_def bad_version_not_valid
  { case 1 show ?case using snoc(1) by (auto simp: step split: prod.splits) }
  { case 2 show ?case using snoc(1,2) by (auto simp: step split: prod.splits) }
  { case 3 show ?case using snoc(1,3) by (auto simp: step split: prod.splits) }
  { case 4 show ?case using snoc(1,4) by (auto simp: step split: prod.splits) }
  { case 5 show ?case using snoc(1,5) by (auto simp: step split: prod.splits) }
qed

text \<open>The loop is satisfied exactly by sound flows, and then it has recorded them.\<close>

lemma run_clean:
  "(flow_errors (fst (test_run fs)) = [] \<longleftrightarrow> list_all (\<lambda>f. \<not> bad_version f) fs \<and> sound_flow (accepted fs)) \<and>
   (flow_errors (fst (test_run fs)) = [] \<longrightarrow> heartbeatSeqs (fst (test_run fs)) = heartbeat_seqs (accepted fs) \<and>
      (routeResponseBranches (fst (test_run fs)) = 0 \<longleftrightarrow> ''route_response'' \<notin> frame_types (accepted fs)))"
proof (induction fs rule: rev_induct)
  case Nil
  then show ?case by (simp add: createInitialState_def sound_flow_def)
next
  case (snoc f fs)
  obtain st seen where run: "test_run fs = (st, seen)" by (cases "test_run fs")
  have seen: "seen = frame_id ` set (accepted fs)" and hello: "helloSeen st \<longleftrightarrow> ''hello'' \<in> frame_types (accepted fs)"
    and req: "routeRequested st \<longleftrightarrow> ''route_request'' \<in> frame_types (accepted fs)"
    using run_counts(1-3) [of fs] run by simp_all
  have frun: "test_run (fs @ [f]) = test_frame (length fs) f (st, seen)" using run by simp
  consider (bad) "bad_version f" | (skip) "\<not> bad_version f" "\<not> isLTPFrame f \<or> frame_id f \<in> seen"
    | (proc) "\<not> bad_version f" "isLTPFrame f" "frame_id f \<notin> seen" by blast
  then show ?case
  proof cases
    case bad
    then show ?thesis unfolding frun by (simp add: test_frame_def push_error_def)
  next
    case skip
    have acc: "accepted (fs @ [f]) = accepted fs" using skip(2) seen by auto
    have "flow_errors (fst (test_run (fs @ [f]))) = flow_errors st"
      "heartbeatSeqs (fst (test_run (fs @ [f]))) = heartbeatSeqs st"
      "routeResponseBranches (fst (test_run (fs @ [f]))) = routeResponseBranches st"
      unfolding frun using skip by (auto simp: test_frame_def)
    then show ?thesis unfolding acc using snoc run skip(1) by simp
  next
    case proc
    have acc: "accepted (fs @ [f]) = accepted fs @ [f]" using proc seen by simp
    let ?st = "processFrame (st\<lparr>processed := processed st + 1\<rparr>) f (length fs)"
    have new: "fst (test_run (fs @ [f])) = ?st" unfolding frun using proc by (simp add: test_frame_def)
    have "accepted fs \<noteq> [] \<Longrightarrow> fs \<noteq> []" by auto
    then have "flow_errors ?st = [] \<longleftrightarrow> list_all (\<lambda>f. \<not> bad_version f) (fs @ [f]) \<and> sound_flow (accepted fs @ [f])"
      using snoc run proc(1) hello req sound_flow_hello [of "accepted fs"]
      by (cases "accepted fs = []") (auto simp: processFrame_clean sound_flow_snoc)
    moreover have "heartbeatSeqs ?st = heartbeat_seqs (accepted fs @ [f]) \<and>
        (routeResponseBranches ?st = 0 \<longleftrightarrow> ''route_response'' \<notin> frame_types (accepted fs @ [f]))"
      if clean: "flow_errors ?st = []"
    proof -
      have c: "flow_errors st = []" "frame_type f = ''hello'' \<or> helloSeen st"
        "frame_type f = ''route_response'' \<longrightarrow> 2 \<le> frame_branches f"
        using clean by (auto simp: processFrame_clean)
      then have "heartbeatSeqs st = heartbeat_seqs (accepted fs)"
        "routeResponseBranches st = 0 \<longleftrightarrow> ''route_response'' \<notin> frame_types (accepted fs)"
        using snoc run by simp_all
      with c show ?thesis by auto
    qed
    ultimately show ?thesis unfolding acc new by blast
  qed
qed

section \<open>The verdict\<close>

lemma finish_flow_clean:
  "flow_errors (finish_flow st) = [] \<longleftrightarrow> flow_errors st = [] \<and> helloSeen st \<and>
     (routeRequested st \<longrightarrow> routeResponseBranches st \<noteq> 0)"
  by (simp add: finish_flow_def push_error_def Let_def)

lemma finish_flow_counts [simp]:
  "processed (finish_flow st) = processed st" "deduped (finish_flow st) = deduped st"
  by (simp_all add: finish_flow_def push_error_def Let_def)

text \<open>C26: the self test passes exactly the sound flows. A frame counts when it satisfies the schema and
  its identifier is new. The test reports no error exactly when no frame of a known type carries
  another version, the first frame that counts is a hello, heartbeats carry increasing sequence
  numbers, every route response follows a request and offers two branches, and a request is
  answered. The level is then LTP-Canonical, and frames processed and deduplicated add up to the
  valid ones.\<close>

theorem self_test_verdict:
  "let r = runSelfTest sha vectorFile (Some fs) mode
   in (sr_ok r \<longleftrightarrow>
         (\<forall>f \<in> set fs. \<not> bad_version f) \<and> accepted fs \<noteq> [] \<and> sound_flow (accepted fs) \<and>
         (''route_request'' \<in> frame_types (accepted fs) \<longrightarrow> ''route_response'' \<in> frame_types (accepted fs))) \<and>
      (sr_level r = LTP_Canonical \<longleftrightarrow> sr_ok r) \<and> sr_processedFrames r = length (accepted fs) \<and>
      sr_processedFrames r + sr_dedupedFrames r = length (filter isLTPFrame fs)"
proof -
  let ?st = "fst (test_run fs)"
  have "flow_errors (finish_flow ?st) = [] \<longleftrightarrow>
      (\<forall>f \<in> set fs. \<not> bad_version f) \<and> accepted fs \<noteq> [] \<and> sound_flow (accepted fs) \<and>
      (''route_request'' \<in> frame_types (accepted fs) \<longrightarrow> ''route_response'' \<in> frame_types (accepted fs))"
    unfolding finish_flow_clean run_counts(2,3)
    using run_clean [of fs] sound_flow_hello [of "accepted fs"] by (auto simp: list_all_iff)
  then show ?thesis
    using run_counts(4,5) [of fs]
    by (simp add: runSelfTest_def self_test_outcome_def determineConformanceLevel_def Let_def)
qed

theorem self_test_verdict_witness:
  "sr_ok (runSelfTest id None (Some [canon_frame ''f'' 1 ''hello'' [(''role'', JStr ''client''), (''message'', JStr ''m'')]]) None)"
proof -
  let ?f = "canon_frame ''f'' 1 ''hello'' [(''role'', JStr ''client''), (''message'', JStr ''m'')]"
  have "isLTPFrame ?f" "\<not> bad_version ?f" "frame_type ?f = ''hello''" by code_simp+
  moreover from this have "accepted [?f] = [?f]" by (simp add: accepted_def)
  ultimately show ?thesis
    using self_test_verdict [of id None "[?f]" None] by (simp add: Let_def frame_types_def)
qed

text \<open>The loop on the canonical frames, evaluated for each mode.\<close>

definition run_summary :: "flow_state \<Rightarrow> string list \<times> bool \<times> bool \<times> nat \<times> nat \<times> nat" where
  "run_summary st = (flow_errors st, helloSeen st, routeRequested st, routeResponseBranches st, processed st, deduped st)"

lemma canonical_runs:
  "run_summary (fst (test_run (buildSelfTestFramesForMode None Calm))) = ([], True, True, 3, 8, 1)"
  "run_summary (fst (test_run (buildSelfTestFramesForMode None Storm))) = ([], True, True, 4, 9, 1)"
  "run_summary (fst (test_run (buildSelfTestFramesForMode None Recovery))) = ([], True, True, 3, 8, 1)"
  by code_simp+

lemma summary_report:
  assumes "run_summary (fst (test_run frames)) = ([], True, True, Suc k, n, d)"
  shows "sr_ok (self_test_outcome sha m frames)" "sr_level (self_test_outcome sha m frames) = LTP_Canonical"
    "sr_branchesCount (self_test_outcome sha m frames) = Suc k" "sr_processedFrames (self_test_outcome sha m frames) = n"
    "sr_dedupedFrames (self_test_outcome sha m frames) = d"
  using assms by (simp_all add: run_summary_def self_test_outcome_def finish_flow_def determineConformanceLevel_def Let_def)

text \<open>The built-in canonical frames pass the self test in every mode, an unknown mode being calm,
  and reach the level LTP-Canonical; the duplicate heartbeat is dropped once and the branches are
  counted, storm mode adding one branch and one heartbeat.\<close>

theorem canonical_modes_pass:
  "let r = runSelfTest sha None None mode; storm = (if mode = Some ''storm'' then 1 else 0)
   in sr_ok r \<and> sr_level r = LTP_Canonical \<and> sr_branchesCount r = 3 + storm \<and>
      sr_processedFrames r = 8 + storm \<and> sr_dedupedFrames r = 1"
  using summary_report [OF canonical_runs(1) [unfolded numeral_3_eq_3]]
    summary_report [OF canonical_runs(2) [unfolded numeral_eq_Suc pred_numeral_simps]]
    summary_report [OF canonical_runs(3) [unfolded numeral_3_eq_3]]
  by (simp add: runSelfTest_def resolveSelfTestMode_def Let_def)

end
