(* ===== verification/Conformance_Cli.thy ===== *)
theory Conformance_Cli
  imports Conformance_Correct Self_Test_Correct
begin

text \<open>
  The conformance kit as a program: verification of a directory of captures
  (\<open>verifyDirectoryReports\<close> of \<open>verify.ts\<close>) and the command line
  (\<open>tools/conformance-kit/src/cli.ts\<close>) with its reports, badges, log and exit codes. Node's files,
  paths, clock and digest are an environment.
\<close>

record kit_env =
  kit_readdir :: "string \<Rightarrow> string + string list"
  kit_read :: "string \<Rightarrow> string + string"
  kit_parse_error :: "string \<Rightarrow> string"       \<comment> \<open>message of the exception of \<open>JSON.parse\<close>\<close>
  kit_sha256 :: "byte list \<Rightarrow> byte list"
  kit_compare :: "string \<Rightarrow> string \<Rightarrow> int"     \<comment> \<open>\<open>localeCompare\<close>\<close>
  kit_join :: "string \<Rightarrow> string \<Rightarrow> string"
  kit_basename :: "string \<Rightarrow> string"
  kit_resolve :: "string \<Rightarrow> string"           \<comment> \<open>\<open>path.resolve(process.cwd(), p)\<close>\<close>
  kit_relative :: "string \<Rightarrow> string"          \<comment> \<open>\<open>path.relative(process.cwd(), p)\<close>\<close>
  kit_write_error :: "string \<Rightarrow> string option" \<comment> \<open>exception of making the directory or writing\<close>
  kit_clock :: "string \<Rightarrow> rat"                \<comment> \<open>\<open>Date.now()\<close> for the report of that input\<close>
  kit_vectors :: "(string + string) option"   \<comment> \<open>the vector file of the self test\<close>

section \<open>Directories\<close>

definition readJsonFile :: "kit_env \<Rightarrow> string \<Rightarrow> string + (jsval \<times> string)" where
  "readJsonFile env filePath =
     bind_err (kit_read env filePath) (\<lambda>content.
       case json_parse content of
         Some v \<Rightarrow> Inr (v, bufferToHex (kit_sha256 env (utf8 content)))
       | None \<Rightarrow> Inl (kit_parse_error env content))"

record case_result =
  ca_fileName :: string
  ca_expected :: expected_outcome
  ca_actual :: case_status
  ca_matches :: bool
  ca_report :: conformance_report

record batch_summary =
  bs_total :: nat
  bs_passedCount :: nat
  bs_warnCount :: nat
  bs_failedCount :: nat
  bs_expectedFailCount :: nat
  bs_unexpectedCount :: nat

record report_batch =
  ba_ok :: bool
  ba_score :: rat
  ba_reports :: "conformance_report list"
  ba_cases :: "case_result list"
  ba_summary :: batch_summary
  ba_meta :: report_meta

definition case_actual :: "expected_outcome \<Rightarrow> report_status \<Rightarrow> case_status" where
  "case_actual expected baseStatus =
     (case baseStatus of
        FAIL \<Rightarrow> if expected = FAIL then FAIL_EXPECTED else FAIL_UNEXPECTED
      | WARN \<Rightarrow> CASE_WARN
      | OK \<Rightarrow> CASE_OK)"

definition case_matches :: "expected_outcome \<Rightarrow> report_status \<Rightarrow> bool" where
  "case_matches expected baseStatus =
     (expected = FAIL \<and> baseStatus = FAIL \<or> expected = WARN \<and> (baseStatus = WARN \<or> baseStatus = OK) \<or>
      expected = OK \<and> baseStatus = OK)"

definition verify_case :: "kit_env \<Rightarrow> string \<Rightarrow> bool \<Rightarrow> string \<Rightarrow> string + case_result" where
  "verify_case env dirPath strict fileName =
     bind_err (readJsonFile env (kit_join env dirPath fileName)) (\<lambda>(v, inputHash).
       let frames = normalizeFramesFromValue v; expected = expectedFromName fileName;
           (report, _) = verifyFrames frames
             \<lparr>vo_inputName = Some fileName, vo_inputHash = Some inputHash, vo_now = kit_clock env fileName,
              vo_strict = strict, vo_annotations = JUndef\<rparr>;
           baseStatus = statusFromReport report
       in Inr \<lparr>ca_fileName = fileName, ca_expected = expected, ca_actual = case_actual expected baseStatus,
               ca_matches = case_matches expected baseStatus, ca_report = report\<rparr>)"

definition ends_with :: "string \<Rightarrow> string \<Rightarrow> bool" where
  "ends_with suf s = starts_with (rev suf) (rev s)"

definition json_files :: "kit_env \<Rightarrow> string list \<Rightarrow> string + string list" where
  "json_files env listing = js_sort (\<lambda>a b. Inr (kit_compare env a b)) (filter (ends_with ''.json'') listing)"

definition batch_score :: "case_result list \<Rightarrow> rat" where
  "batch_score cases =
     (let positive = filter (\<lambda>c. ca_expected c \<noteq> FAIL) cases
      in if positive \<noteq> []
         then number_to_fixed 3 (fl (foldl (\<lambda>total c. fl (total + cr_score (ca_report c))) 0 positive
                / of_nat (max 1 (length positive))))
         else 1)"

definition make_batch :: "kit_env \<Rightarrow> string \<Rightarrow> case_result list \<Rightarrow> report_batch" where
  "make_batch env dirPath cases =
     (let count = (\<lambda>a. length (filter (\<lambda>c. ca_actual c = a) cases));
          unexpectedCount = length (filter (\<lambda>c. \<not> ca_matches c) cases)
      in \<lparr>ba_ok = (unexpectedCount = 0), ba_score = batch_score cases, ba_reports = map ca_report cases,
          ba_cases = cases,
          ba_summary = \<lparr>bs_total = length cases, bs_passedCount = count CASE_OK, bs_warnCount = count CASE_WARN,
            bs_failedCount = count FAIL_UNEXPECTED, bs_expectedFailCount = count FAIL_EXPECTED,
            bs_unexpectedCount = unexpectedCount\<rparr>,
          ba_meta = \<lparr>me_timestamp = kit_clock env (kit_basename env dirPath), me_toolVersion = kit_version,
            me_inputName = Some (kit_basename env dirPath), me_inputHash = None\<rparr>\<rparr>)"

definition verifyDirectoryReports :: "kit_env \<Rightarrow> string \<Rightarrow> bool \<Rightarrow> string + (report_batch \<times> nat)" where
  "verifyDirectoryReports env dirPath strict =
     bind_err (kit_readdir env dirPath) (\<lambda>listing.
     bind_err (json_files env listing) (\<lambda>fileNames.
     bind_err (map_err (\<lambda>_. verify_case env dirPath strict) 0 fileNames) (\<lambda>cases.
       let batch = make_batch env dirPath cases
       in Inr (batch, if bs_unexpectedCount (ba_summary batch) > 0 then 2 else 0))))"

section \<open>Reports as JSON\<close>

definition status_name :: "report_status \<Rightarrow> string" where
  "status_name s = (case s of OK \<Rightarrow> ''OK'' | WARN \<Rightarrow> ''WARN'' | FAIL \<Rightarrow> ''FAIL'')"

definition case_name :: "case_status \<Rightarrow> string" where
  "case_name s = (case s of CASE_OK \<Rightarrow> ''OK'' | CASE_WARN \<Rightarrow> ''WARN''
     | FAIL_EXPECTED \<Rightarrow> ''FAIL_EXPECTED'' | FAIL_UNEXPECTED \<Rightarrow> ''FAIL_UNEXPECTED'')"

definition nat_val :: "nat \<Rightarrow> jsval" where
  "nat_val n = JNum (of_nat n)"

definition issue_json :: "issue \<Rightarrow> jsval" where
  "issue_json i =
     JObj [(''code'', JStr (is_code i)), (''message'', JStr (is_message i)),
           (''at'', case is_at i of Some n \<Rightarrow> nat_val n | None \<Rightarrow> JUndef), (''frameId'', opt_val (is_frameId i))]"

definition meta_json :: "report_meta \<Rightarrow> jsval" where
  "meta_json m =
     JObj [(''timestamp'', JNum (me_timestamp m)), (''tool'', JStr ''ltp-conformance-kit''),
           (''toolVersion'', JStr (me_toolVersion m)), (''inputName'', opt_val (me_inputName m)),
           (''inputHash'', opt_val (me_inputHash m))]"

definition report_json :: "conformance_report \<Rightarrow> jsval" where
  "report_json r =
     JObj [(''v'', JStr ''0.1''), (''ok'', JBool (cr_ok r)), (''status'', JStr (status_name (cr_status r))),
           (''score'', JNum (cr_score r)), (''frameCount'', nat_val (cr_frameCount r)),
           (''passed'', JArr (map JStr (cr_passed r))), (''warnings'', JArr (map issue_json (cr_warnings r))),
           (''errors'', JArr (map issue_json (cr_errors r))), (''hints'', JArr (map JStr (cr_hints r))),
           (''annotations'', cr_annotations r), (''file'', opt_val (cr_file r)), (''meta'', meta_json (cr_meta r))]"

definition case_json :: "case_result \<Rightarrow> jsval" where
  "case_json c =
     JObj [(''fileName'', JStr (ca_fileName c)), (''expected'', JStr (status_name (ca_expected c))),
           (''actual'', JStr (case_name (ca_actual c))), (''matches'', JBool (ca_matches c)),
           (''report'', report_json (ca_report c))]"

definition batch_json :: "report_batch \<Rightarrow> jsval" where
  "batch_json b =
     JObj [(''v'', JStr ''0.1''), (''ok'', JBool (ba_ok b)), (''score'', JNum (ba_score b)),
           (''reports'', JArr (map report_json (ba_reports b))), (''cases'', JArr (map case_json (ba_cases b))),
           (''summary'', JObj [(''total'', nat_val (bs_total (ba_summary b))),
              (''passedCount'', nat_val (bs_passedCount (ba_summary b))),
              (''warnCount'', nat_val (bs_warnCount (ba_summary b))),
              (''failedCount'', nat_val (bs_failedCount (ba_summary b))),
              (''expectedFailCount'', nat_val (bs_expectedFailCount (ba_summary b))),
              (''unexpectedCount'', nat_val (bs_unexpectedCount (ba_summary b)))]),
           (''meta'', meta_json (ba_meta b))]"

definition pretty_text :: "jsval \<Rightarrow> string" where
  "pretty_text v = elem_text (json_pretty v [])"

section \<open>Effects\<close>

text \<open>
  A command writes files, logs and sets the exit code, and may throw: what it did before the
  exception stays. The exit code starts as 0, which is what \<open>Number(undefined) || 0\<close> gives.
\<close>

record kit_output =
  kit_files :: "(string \<times> string) list"
  kit_log :: "string list"
  kit_stderr :: "string list"
  kit_exit :: nat

type_synonym 'a kit = "kit_output \<Rightarrow> (string + 'a) \<times> kit_output"

definition kit_return :: "'a \<Rightarrow> 'a kit" where
  "kit_return x = (\<lambda>out. (Inr x, out))"

definition kit_lift :: "string + 'a \<Rightarrow> 'a kit" where
  "kit_lift r = (\<lambda>out. (r, out))"

definition kit_bind :: "'a kit \<Rightarrow> ('a \<Rightarrow> 'b kit) \<Rightarrow> 'b kit" where
  "kit_bind m f = (\<lambda>out. case m out of (Inl e, out') \<Rightarrow> (Inl e, out') | (Inr x, out') \<Rightarrow> f x out')"

definition kit_then :: "unit kit \<Rightarrow> 'b kit \<Rightarrow> 'b kit" where
  "kit_then m k = kit_bind m (\<lambda>_. k)"

definition log_line :: "string \<Rightarrow> unit kit" where
  "log_line message = (\<lambda>out. (Inr (), out\<lparr>kit_log := kit_log out @ [message]\<rparr>))"

definition kit_write_file :: "kit_env \<Rightarrow> string \<Rightarrow> string \<Rightarrow> unit kit" where
  "kit_write_file env path content =
     (\<lambda>out. case kit_write_error env path of
        Some e \<Rightarrow> (Inl e, out)
      | None \<Rightarrow> (Inr (), out\<lparr>kit_files := kit_files out @ [(path, content)]\<rparr>))"

text \<open>\<open>process.exitCode = Math.max(Number(process.exitCode) || 0, code)\<close>.\<close>

definition raise_exit :: "nat \<Rightarrow> unit kit" where
  "raise_exit code = (\<lambda>out. (Inr (), out\<lparr>kit_exit := max (kit_exit out) code\<rparr>))"

fun for_each :: "('a \<Rightarrow> unit kit) \<Rightarrow> 'a list \<Rightarrow> unit kit" where
  "for_each f [] = kit_return ()"
| "for_each f (x # xs) = kit_then (f x) (for_each f xs)"

section \<open>Commands\<close>

definition DEFAULT_REPORT_PATH :: "kit_env \<Rightarrow> string" where
  "DEFAULT_REPORT_PATH env = kit_resolve env ''reports/ltp-conformance-report.json''"

definition DEFAULT_BADGE_PATHS :: "kit_env \<Rightarrow> string list" where
  "DEFAULT_BADGE_PATHS env =
     [kit_resolve env ''reports/badge.json'', kit_resolve env ''reports/ltp-conformance-badge.json'']"

definition writeReport :: "kit_env \<Rightarrow> string \<Rightarrow> jsval \<Rightarrow> unit kit" where
  "writeReport env targetPath report = kit_write_file env targetPath (pretty_text report @ [newline])"

definition formatSummary :: "conformance_report \<Rightarrow> string" where
  "formatSummary r =
     (let state = (if cr_errors r \<noteq> [] then ''FAIL'' else if cr_warnings r \<noteq> [] then ''WARN'' else ''OK'')
      in state @ '' score='' @ to_fixed 3 (cr_score r) @ '' errors='' @ nat_str (length (cr_errors r))
         @ '' warnings='' @ nat_str (length (cr_warnings r)))"

definition badge_json :: "bool \<Rightarrow> bool \<Rightarrow> jsval" where
  "badge_json hasErrors hasWarnings =
     JObj [(''label'', JStr ''LTP''),
           (''message'', JStr (if hasErrors then ''non-conformant v0.1''
              else if hasWarnings then ''conformant with warnings'' else ''conformant v0.1'')),
           (''color'', JStr (if hasErrors then ''red'' else if hasWarnings then ''yellow'' else ''brightgreen''))]"

definition report_badge :: "conformance_report \<Rightarrow> jsval" where
  "report_badge r = badge_json (cr_errors r \<noteq> []) (cr_warnings r \<noteq> [])"

definition batch_badge :: "report_batch \<Rightarrow> jsval" where
  "batch_badge b =
     badge_json (\<exists>r \<in> set (ba_reports b). cr_errors r \<noteq> [])
       (\<exists>r \<in> set (ba_reports b). cr_errors r = [] \<and> cr_warnings r \<noteq> [])"

definition writeBadge :: "kit_env \<Rightarrow> jsval \<Rightarrow> unit kit" where
  "writeBadge env badge =
     for_each (\<lambda>targetPath. kit_write_file env targetPath (pretty_text badge @ [newline])) (DEFAULT_BADGE_PATHS env)"

record kit_options =
  ko_outPath :: "string option"
  ko_format :: "string option"
  ko_strict :: bool
  ko_mode :: "string option"

definition report_path :: "kit_env \<Rightarrow> kit_options \<Rightarrow> string" where
  "report_path env opt =
     kit_resolve env (case ko_outPath opt of Some p \<Rightarrow> p | None \<Rightarrow> DEFAULT_REPORT_PATH env)"

definition verifyFile :: "kit_env \<Rightarrow> string \<Rightarrow> kit_options \<Rightarrow> unit kit" where
  "verifyFile env filePath opt =
     (let resolved = kit_resolve env filePath; reportPath = report_path env opt
      in kit_bind (kit_lift (readJsonFile env resolved)) (\<lambda>(v, inputHash).
         let (report, exitCode) = verifyFrames (normalizeFramesFromValue v)
               \<lparr>vo_inputName = Some (kit_basename env resolved), vo_inputHash = Some inputHash,
                vo_now = kit_clock env (kit_basename env resolved), vo_strict = ko_strict opt,
                vo_annotations = JUndef\<rparr>
         in kit_then (writeReport env reportPath (report_json report))
            (kit_then (writeBadge env (report_badge report))
            (kit_then
               (log_line
                  (if ko_format opt = Some ''json'' then pretty_text (report_json report)
                   else kit_basename env resolved @ '' -> '' @ formatSummary report @ '' (report: ''
                        @ kit_relative env reportPath @ '')''))
               (raise_exit exitCode)))))"

definition batch_state :: "batch_summary \<Rightarrow> string" where
  "batch_state s =
     (if bs_unexpectedCount s > 0 then ''UNEXPECTED'' else if bs_failedCount s > 0 then ''FAIL''
      else if bs_warnCount s > 0 then ''WARN'' else if bs_expectedFailCount s > 0 then ''FAIL_EXPECTED'' else ''OK'')"

definition batch_log :: "kit_env \<Rightarrow> string \<Rightarrow> report_batch \<Rightarrow> unit kit" where
  "batch_log env reportPath b =
     (let s = ba_summary b
      in kit_then
           (for_each (\<lambda>c. log_line (ca_fileName c @ '' -> expected='' @ status_name (ca_expected c) @ '' actual=''
              @ case_name (ca_actual c) @ '' '' @ (if ca_matches c then ''MATCH'' else ''UNEXPECTED'') @ '' ''
              @ formatSummary (ca_report c))) (ba_cases b))
         (kit_then
           (log_line (''summary -> '' @ batch_state s @ '' score='' @ to_fixed 3 (ba_score b) @ '' unexpected=''
              @ nat_str (bs_unexpectedCount s) @ '' errors='' @ nat_str (bs_failedCount s)
              @ '' expected_failures='' @ nat_str (bs_expectedFailCount s) @ '' warnings='' @ nat_str (bs_warnCount s)))
           (log_line (''saved '' @ nat_str (length (ba_reports b)) @ '' reports to '' @ kit_relative env reportPath))))"

definition verifyDirectory :: "kit_env \<Rightarrow> string \<Rightarrow> kit_options \<Rightarrow> unit kit" where
  "verifyDirectory env dirPath opt =
     (let reportPath = report_path env opt
      in kit_bind (kit_lift (verifyDirectoryReports env (kit_resolve env dirPath) (ko_strict opt))) (\<lambda>(batch, exitCode).
         kit_then (writeReport env reportPath (batch_json batch))
           (kit_then (writeBadge env (batch_badge batch))
           (kit_then
              (if ko_format opt = Some ''json'' then log_line (pretty_text (batch_json batch))
               else batch_log env reportPath batch)
              (raise_exit exitCode)))))"

definition mode_name :: "self_test_mode \<Rightarrow> string" where
  "mode_name m = (case m of Calm \<Rightarrow> ''calm'' | Storm \<Rightarrow> ''storm'' | Recovery \<Rightarrow> ''recovery'')"

definition level_name :: "conformance_level \<Rightarrow> string" where
  "level_name l = (case l of LTP_Core \<Rightarrow> ''LTP-Core'' | LTP_Flow \<Rightarrow> ''LTP-Flow'' | LTP_Canonical \<Rightarrow> ''LTP-Canonical'')"

definition self_test_json :: "self_test_report \<Rightarrow> jsval" where
  "self_test_json r =
     JObj [(''ok'', JBool (sr_ok r)), (''level'', JStr (level_name (sr_level r))),
           (''receivedFrames'', nat_val (sr_receivedFrames r)), (''processedFrames'', nat_val (sr_processedFrames r)),
           (''emittedFrames'', nat_val (sr_emittedFrames r)), (''branchesCount'', nat_val (sr_branchesCount r)),
           (''dedupedFrames'', nat_val (sr_dedupedFrames r)), (''errors'', JArr (map JStr (sr_errors r))),
           (''determinismHash'', JStr (sr_determinismHash r)), (''mode'', JStr (mode_name (sr_mode r)))]"

definition self_test_conformance :: "kit_env \<Rightarrow> self_test_report \<Rightarrow> conformance_report" where
  "self_test_conformance env r =
     (let issues = map (\<lambda>(index, message). \<lparr>is_code = ''ltp.selftest.error'', is_message = message,
                is_at = Some index, is_frameId = None\<rparr>) (List.enumerate 0 (sr_errors r));
          mode = mode_name (sr_mode r)
      in \<lparr>cr_ok = (issues = []), cr_status = (if issues = [] then OK else FAIL),
          cr_score = clamp01 (fl (1 - fl (of_nat (length issues) * fl (1 / 5)))),
          cr_frameCount = sr_receivedFrames r,
          cr_passed = (if issues = [] then [''selftest '' @ mode @ '' passed at level '' @ level_name (sr_level r)] else []),
          cr_warnings = [], cr_errors = issues,
          cr_hints = (if issues = [] then [''self-test canonical flow validated''] else []),
          cr_annotations = JObj [(''selfTest'', self_test_json r)], cr_file = None,
          cr_meta = \<lparr>me_timestamp = kit_clock env (''selftest:'' @ mode), me_toolVersion = kit_version,
            me_inputName = Some (''selftest:'' @ mode), me_inputHash = None\<rparr>\<rparr>)"

definition runSelfTestCommand :: "kit_env \<Rightarrow> kit_options \<Rightarrow> unit kit" where
  "runSelfTestCommand env opt =
     (let selfTest = runSelfTest (kit_sha256 env) (kit_vectors env) None (ko_mode opt);
          conformance = self_test_conformance env selfTest;
          exitCode = (if cr_errors conformance = [] then 0 else if ko_strict opt then 1 else 2);
          reportPath = report_path env opt
      in kit_then (writeReport env reportPath (report_json conformance))
         (kit_then (writeBadge env (report_badge conformance))
         (kit_then
            (log_line
               (if ko_format opt = Some ''json'' then pretty_text (report_json conformance)
                else ''selftest('' @ mode_name (sr_mode selfTest) @ '') -> '' @ formatSummary conformance @ '' (report: ''
                     @ kit_relative env reportPath @ '')''))
            (raise_exit exitCode))))"

definition help_text :: string where
  "help_text =
     js_join [newline]
       [''LTP Conformance Kit v0.1'', [], ''Usage:'',
        ''  pnpm -w ltp:conformance verify <capture.json> [--out <path>] [--format text|json] [--strict]'',
        ''  pnpm -w ltp:conformance verify:dir <fixtures-dir> [--out <path>] [--format text|json] [--strict]'',
        ''  pnpm -w ltp:conformance selftest [--mode calm|storm|recovery] [--out <path>]'', []]"

definition printHelp :: "unit kit" where
  "printHelp = kit_then (log_line help_text) (\<lambda>out. (Inr (), out\<lparr>kit_exit := 3\<rparr>))"

text \<open>\<open>rest[rest.indexOf(flag) + 1]\<close>, undefined when the flag is absent or last.\<close>

fun kit_flag :: "string \<Rightarrow> string list \<Rightarrow> string option" where
  "kit_flag flag [] = None"
| "kit_flag flag (a # rest) =
     (if a = flag then (case rest of [] \<Rightarrow> None | v # _ \<Rightarrow> Some v) else kit_flag flag rest)"

definition run_target :: "(string \<Rightarrow> unit kit) \<Rightarrow> string list \<Rightarrow> unit kit" where
  "run_target run rest = (case rest of [] \<Rightarrow> printHelp | target # _ \<Rightarrow> if target = [] then printHelp else run target)"

definition run_kit_command :: "kit_env \<Rightarrow> string list \<Rightarrow> unit kit" where
  "run_kit_command env args =
     (case args of
        [] \<Rightarrow> printHelp
      | command # rest \<Rightarrow>
          (let opt = \<lparr>ko_outPath = kit_flag ''--out'' rest, ko_format = kit_flag ''--format'' rest,
                      ko_strict = (''--strict'' \<in> set rest), ko_mode = kit_flag ''--mode'' rest\<rparr>
           in if command = ''verify'' then run_target (\<lambda>target. verifyFile env target opt) rest
              else if command = ''verify:dir'' then run_target (\<lambda>target. verifyDirectory env target opt) rest
              else if command = ''selftest'' then runSelfTestCommand env opt
              else printHelp))"

text \<open>The arguments are \<open>argv.slice(2)\<close>; of the error only the message is printed here.\<close>

definition runCli :: "kit_env \<Rightarrow> string list \<Rightarrow> kit_output" where
  "runCli env args =
     (case run_kit_command env args \<lparr>kit_files = [], kit_log = [], kit_stderr = [], kit_exit = 0\<rparr> of
        (Inl e, out) \<Rightarrow> out\<lparr>kit_exit := 4, kit_stderr := kit_stderr out @ [''Conformance kit failed: '' @ e]\<rparr>
      | (Inr _, out) \<Rightarrow> out)"

end
