(* ===== verification/Conformance_Exit.thy ===== *)
theory Conformance_Exit
  imports Conformance_Cli JS_Rounding
begin

text \<open>
  What the conformance kit promises its callers: exit codes, the verdict on a directory, scores
  between 0 and 1, and the places where documents and code differ.
\<close>

section \<open>Effects\<close>

lemma kit_simps:
  "kit_return x out = (Inr x, out)"
  "kit_lift r out = (r, out)"
  "log_line message out = (Inr (), out\<lparr>kit_log := kit_log out @ [message]\<rparr>)"
  "raise_exit code out = (Inr (), out\<lparr>kit_exit := max (kit_exit out) code\<rparr>)"
  by (simp_all add: kit_return_def kit_lift_def log_line_def raise_exit_def)

lemma kit_bind_apply: "kit_bind m f out = (case m out of (Inl e, out') \<Rightarrow> (Inl e, out') | (Inr x, out') \<Rightarrow> f x out')"
  by (simp add: kit_bind_def)

lemma kit_then_apply: "kit_then m k out = (case m out of (Inl e, out') \<Rightarrow> (Inl e, out') | (Inr x, out') \<Rightarrow> k out')"
  by (simp add: kit_then_def kit_bind_def)

text \<open>Actions that leave exit code and error output alone.\<close>

definition quiet :: "'a kit \<Rightarrow> bool" where
  "quiet m \<longleftrightarrow> (\<forall>out. kit_exit (snd (m out)) = kit_exit out \<and> kit_stderr (snd (m out)) = kit_stderr out)"

lemma quiet_log_line [simp]: "quiet (log_line message)"
  by (simp add: quiet_def kit_simps)

lemma quiet_kit_write_file [simp]: "quiet (kit_write_file env path content)"
  by (simp add: quiet_def kit_write_file_def split: option.split)

lemma quiet_then [simp]: "quiet m \<Longrightarrow> quiet k \<Longrightarrow> quiet (kit_then m k)"
  by (auto simp: quiet_def kit_then_apply split: prod.split sum.split) (metis snd_conv)+

lemma quiet_for_each [simp]: "(\<And>x. quiet (f x)) \<Longrightarrow> quiet (for_each f xs)"
  by (induction xs) (simp_all add: quiet_def [of "kit_return ()"] kit_simps)

lemma quiet_reports [simp]:
  "quiet (writeReport env path v)" "quiet (writeBadge env v)" "quiet (batch_log env path b)"
  by (simp_all add: writeReport_def writeBadge_def batch_log_def Let_def)

text \<open>Quiet work followed by raising the exit code: the code, or an exception on the way.\<close>

lemma quiet_then_exit:
  assumes "quiet m"
  shows "\<exists>out'. kit_then m (raise_exit code) out = (Inr (), out') \<and> fst (m out) = Inr () \<and>
      kit_exit out' = max (kit_exit out) code \<and> kit_stderr out' = kit_stderr out \<or>
    (\<exists>e. kit_then m (raise_exit code) out = (Inl e, out') \<and> fst (m out) = Inl e \<and> kit_stderr out' = kit_stderr out)"
proof -
  obtain r out' where m: "m out = (r, out')" by (cases "m out")
  have "kit_exit out' = kit_exit out" "kit_stderr out' = kit_stderr out"
    using assms unfolding quiet_def by (metis m snd_conv)+
  then show ?thesis using m by (cases r) (auto simp: kit_then_apply kit_simps)
qed

lemma kit_then_assoc: "kit_then (kit_then a b) c = kit_then a (kit_then b c)"
  by (rule ext) (simp add: kit_then_apply split: prod.split sum.split)

text \<open>Actions that succeed, from any state, exactly under a condition.\<close>

definition succeeds :: "unit kit \<Rightarrow> bool \<Rightarrow> bool" where
  "succeeds m P \<longleftrightarrow> (\<forall>out. fst (m out) = Inr () \<longleftrightarrow> P)"

lemma succeeds_then: "succeeds a P \<Longrightarrow> succeeds b Q \<Longrightarrow> succeeds (kit_then a b) (P \<and> Q)"
  unfolding succeeds_def kit_then_apply by (auto split: prod.split sum.split) (metis fst_conv sum.distinct(1))+

lemma succeeds_log [simp]: "succeeds (log_line l) True"
  by (simp add: succeeds_def kit_simps)

lemma succeeds_write: "succeeds (kit_write_file env p content) (kit_write_error env p = None)"
  by (simp add: succeeds_def kit_write_file_def split: option.split)

lemma succeeds_for_each_write:
  "succeeds (for_each (\<lambda>p. kit_write_file env p content) ps) (\<forall>p \<in> set ps. kit_write_error env p = None)"
proof (induction ps)
  case (Cons p ps)
  then show ?case using succeeds_then [OF succeeds_write [of env p content] Cons] by simp
qed (simp add: succeeds_def kit_simps)

lemma succeeds_for_each_log: "succeeds (for_each (\<lambda>x. log_line (f x)) xs) True"
proof (induction xs)
  case (Cons x xs)
  then show ?case using succeeds_then [OF succeeds_log Cons] by simp
qed (simp add: succeeds_def kit_simps)

lemma succeeds_batch_log: "succeeds (batch_log env path b) True"
  using succeeds_then [OF succeeds_for_each_log succeeds_then [OF succeeds_log succeeds_log]]
  by (simp add: batch_log_def Let_def)

section \<open>Exit codes\<close>

definition kit_start :: kit_output where
  "kit_start = \<lparr>kit_files = [], kit_log = [], kit_stderr = [], kit_exit = 0\<rparr>"

lemma kit_start_simps [simp]: "kit_exit kit_start = 0" "kit_stderr kit_start = []"
  by (simp_all add: kit_start_def)

text \<open>How a command ended: normally with a code, or with an exception.\<close>

definition ends_in :: "unit kit \<Rightarrow> nat \<Rightarrow> bool" where
  "ends_in m code \<longleftrightarrow> (\<exists>out. m kit_start = (Inr (), out) \<and> kit_exit out = code \<and> kit_stderr out = [])"

definition throws :: "unit kit \<Rightarrow> bool" where
  "throws m \<longleftrightarrow> (\<exists>e out. m kit_start = (Inl e, out) \<and> kit_stderr out = [])"

lemma runCli_ends: "ends_in (run_kit_command env args) code \<Longrightarrow> kit_exit (runCli env args) = code \<and> kit_stderr (runCli env args) = []"
  by (auto simp: ends_in_def runCli_def kit_start_def)

lemma runCli_throws:
  "throws (run_kit_command env args) \<Longrightarrow> kit_exit (runCli env args) = 4 \<and> kit_stderr (runCli env args) \<noteq> []"
  by (auto simp: throws_def runCli_def kit_start_def)

text \<open>A command that writes report and badges, logs and raises the exit code.\<close>

definition report_steps :: "kit_env \<Rightarrow> kit_options \<Rightarrow> jsval \<Rightarrow> jsval \<Rightarrow> unit kit \<Rightarrow> nat \<Rightarrow> unit kit" where
  "report_steps env opt v w logs code =
     kit_then (writeReport env (report_path env opt) v) (kit_then (writeBadge env w) (kit_then logs (raise_exit code)))"

definition writable :: "kit_env \<Rightarrow> kit_options \<Rightarrow> bool" where
  "writable env opt \<longleftrightarrow> (\<forall>p \<in> insert (report_path env opt) (set (DEFAULT_BADGE_PATHS env)). kit_write_error env p = None)"

lemma report_steps_end:
  assumes "quiet logs" and "succeeds logs True"
  shows "if writable env opt then ends_in (report_steps env opt v w logs code) code
    else throws (report_steps env opt v w logs code)"
proof -
  let ?work = "kit_then (writeReport env (report_path env opt) v) (kit_then (writeBadge env w) logs)"
  have m: "report_steps env opt v w logs code = kit_then ?work (raise_exit code)"
    by (simp add: report_steps_def kit_then_assoc)
  have "succeeds ?work (writable env opt)"
    using succeeds_then [OF succeeds_write [of env "report_path env opt"]
        succeeds_then [OF succeeds_for_each_write [of env _ "DEFAULT_BADGE_PATHS env"] assms(2)]]
    by (simp add: writeReport_def writeBadge_def writable_def)
  then have ok: "fst (?work kit_start) = Inr () \<longleftrightarrow> writable env opt" by (simp add: succeeds_def)
  have q: "quiet ?work" using assms(1) by simp
  from quiet_then_exit [OF q, of code kit_start] show ?thesis
    unfolding m ends_in_def throws_def ok [symmetric] by auto
qed

lemma printHelp_ends: "ends_in printHelp 3"
  by (simp add: ends_in_def printHelp_def kit_then_apply kit_simps)

text \<open>The three commands: an exception before any effect, or a report with a code.\<close>

definition capture_code :: "jsval \<Rightarrow> bool \<Rightarrow> nat" where
  "capture_code v strict =
     (case normalizeFramesFromValue v of
        None \<Rightarrow> 1
      | Some fs \<Rightarrow> if \<not> conformant fs then 1 else if exemplary fs then 0 else if strict then 1 else 2)"

lemma verifyFrames_code: "snd (verifyFrames (normalizeFramesFromValue v) opt) = capture_code v (vo_strict opt)"
  using capture_errors capture_warnings
  by (auto simp: capture_code_def verifyFrames_def deriveExitCode_def Let_def split: option.split)

lemma verifyFile_ends:
  "case readJsonFile env (kit_resolve env target) of
     Inl e \<Rightarrow> throws (verifyFile env target opt)
   | Inr (v, h) \<Rightarrow> if writable env opt then ends_in (verifyFile env target opt) (capture_code v (ko_strict opt))
                  else throws (verifyFile env target opt)"
proof (cases "readJsonFile env (kit_resolve env target)")
  case (Inl e)
  then show ?thesis by (simp add: throws_def verifyFile_def kit_bind_apply kit_simps Let_def)
next
  case (Inr vh)
  obtain v h where vh: "vh = (v, h)" by (cases vh)
  obtain r code where r: "verifyFrames (normalizeFramesFromValue v)
      \<lparr>vo_inputName = Some (kit_basename env (kit_resolve env target)), vo_inputHash = Some h,
       vo_now = kit_clock env (kit_basename env (kit_resolve env target)), vo_strict = ko_strict opt,
       vo_annotations = JUndef\<rparr> = (r, code)" (is "verifyFrames _ ?o = _")
    by (cases "verifyFrames (normalizeFramesFromValue v) ?o")
  have code: "code = capture_code v (ko_strict opt)"
    using verifyFrames_code [of v ?o] r by simp
  define l where "l = log_line (if ko_format opt = Some ''json'' then pretty_text (report_json r)
     else kit_basename env (kit_resolve env target) @ '' -> '' @ formatSummary r @ '' (report: ''
       @ kit_relative env (report_path env opt) @ '')'')"
  have "verifyFile env target opt kit_start = report_steps env opt (report_json r) (report_badge r) l code kit_start"
    using r by (simp add: verifyFile_def kit_bind_apply kit_simps(2) Inr vh Let_def report_steps_def l_def)
  moreover have "quiet l" "succeeds l True" by (simp_all add: l_def)
  ultimately show ?thesis
    using report_steps_end [of l env opt "report_json r" "report_badge r" code]
    unfolding code by (auto simp: Inr vh ends_in_def throws_def split: if_splits)
qed

lemma verifyDirectory_ends:
  "case verifyDirectoryReports env (kit_resolve env target) (ko_strict opt) of
     Inl e \<Rightarrow> throws (verifyDirectory env target opt)
   | Inr (b, code) \<Rightarrow> if writable env opt then ends_in (verifyDirectory env target opt) code
                     else throws (verifyDirectory env target opt)"
proof (cases "verifyDirectoryReports env (kit_resolve env target) (ko_strict opt)")
  case (Inl e)
  then show ?thesis by (simp add: throws_def verifyDirectory_def kit_bind_apply kit_simps Let_def)
next
  case (Inr bc)
  obtain b code where bc: "bc = (b, code)" by (cases bc)
  define l where "l = (if ko_format opt = Some ''json'' then log_line (pretty_text (batch_json b))
     else batch_log env (report_path env opt) b)"
  have "verifyDirectory env target opt kit_start = report_steps env opt (batch_json b) (batch_badge b) l code kit_start"
    by (simp add: verifyDirectory_def kit_bind_apply kit_simps(2) Inr bc Let_def report_steps_def l_def)
  moreover have "quiet l" "succeeds l True" by (simp_all add: l_def succeeds_batch_log)
  ultimately show ?thesis
    using report_steps_end [of l env opt "batch_json b" "batch_badge b" code]
    by (auto simp: Inr bc ends_in_def throws_def split: if_splits)
qed

lemma runSelfTestCommand_ends:
  "let r = runSelfTest (kit_sha256 env) (kit_vectors env) None (ko_mode opt)
   in if writable env opt
      then ends_in (runSelfTestCommand env opt) (if sr_ok r then 0 else if ko_strict opt then 1 else 2)
      else throws (runSelfTestCommand env opt)"
proof -
  let ?r = "runSelfTest (kit_sha256 env) (kit_vectors env) None (ko_mode opt)"
  let ?c = "self_test_conformance env ?r"
  have ok: "cr_errors ?c = [] \<longleftrightarrow> sr_ok ?r"
    by (simp add: self_test_conformance_def runSelfTest_def self_test_outcome_def Let_def)
      (metis enumerate_simps(1) length_0_conv length_enumerate)
  show ?thesis
    unfolding runSelfTestCommand_def Let_def report_steps_def [symmetric] ok
    by (rule report_steps_end) simp_all
qed

definition kit_options_of :: "string list \<Rightarrow> kit_options" where
  "kit_options_of rest = \<lparr>ko_outPath = kit_flag ''--out'' rest, ko_format = kit_flag ''--format'' rest,
     ko_strict = (''--strict'' \<in> set rest), ko_mode = kit_flag ''--mode'' rest\<rparr>"

lemma run_kit_command_cases:
  "run_kit_command env [] = printHelp"
  "run_kit_command env (''verify'' # rest) = run_target (\<lambda>t. verifyFile env t (kit_options_of rest)) rest"
  "run_kit_command env (''verify:dir'' # rest) = run_target (\<lambda>t. verifyDirectory env t (kit_options_of rest)) rest"
  "run_kit_command env (''selftest'' # rest) = runSelfTestCommand env (kit_options_of rest)"
  "command \<notin> {''verify'', ''verify:dir'', ''selftest''} \<Longrightarrow> run_kit_command env (command # rest) = printHelp"
  by (simp_all add: run_kit_command_def kit_options_of_def Let_def)

text \<open>C27: the exit code of \<open>verify\<close>. With a readable JSON file and writable output the exit code is 1
  when the value holds no frames or the capture is not conformant, 0 when it is exemplary, and
  otherwise 2, or 1 under \<open>--strict\<close>; a file that cannot be read or parsed, or a report that cannot be
  written, ends with 4 and a message, and only then is there one.\<close>

theorem verify_exit_code:
  assumes "target \<noteq> []"
  shows "let out = runCli env (''verify'' # target # rest)
    in kit_exit out =
        (case readJsonFile env (kit_resolve env target) of
           Inl e \<Rightarrow> 4
         | Inr (v, h) \<Rightarrow>
             if \<not> writable env (kit_options_of (target # rest)) then 4
             else capture_code v (''--strict'' \<in> set (target # rest))) \<and>
       (kit_stderr out \<noteq> [] \<longleftrightarrow> kit_exit out = 4)"
proof -
  let ?args = "''verify'' # target # rest" and ?o = "kit_options_of (target # rest)"
  have run: "run_kit_command env ?args = verifyFile env target ?o"
    using assms by (simp only: run_kit_command_cases) (simp add: run_target_def)
  have strict: "ko_strict ?o \<longleftrightarrow> ''--strict'' \<in> set (target # rest)" by (simp add: kit_options_of_def)
  have small: "capture_code v b \<noteq> 4" for v b by (simp add: capture_code_def split: option.split)
  define c where "c = (case readJsonFile env (kit_resolve env target) of Inl e \<Rightarrow> 4
    | Inr (v, h) \<Rightarrow> if \<not> writable env ?o then 4 else capture_code v (ko_strict ?o))"
  have "c \<noteq> 4 \<and> ends_in (run_kit_command env ?args) c \<or> c = 4 \<and> throws (run_kit_command env ?args)"
    using verifyFile_ends [of env target ?o] small unfolding run c_def by (auto split: sum.splits)
  then have "kit_exit (runCli env ?args) = c \<and> (kit_stderr (runCli env ?args) \<noteq> [] \<longleftrightarrow> kit_exit (runCli env ?args) = 4)"
    using runCli_ends runCli_throws by (elim disjE) auto
  then show ?thesis unfolding c_def strict Let_def .
qed

text \<open>A file system with one file, in which everything can be written.\<close>

definition toy_kit :: "string \<Rightarrow> kit_env" where
  "toy_kit content =
     \<lparr>kit_readdir = (\<lambda>_. Inr [''notes.txt'', ''fail_empty.json'']), kit_read = (\<lambda>_. Inr content),
      kit_parse_error = (\<lambda>_. ''Unexpected token''), kit_sha256 = id, kit_compare = (\<lambda>a b. 0), kit_join = (\<lambda>a b. a @ ''/'' @ b),
      kit_basename = id, kit_resolve = id, kit_relative = id, kit_write_error = (\<lambda>_. None), kit_clock = (\<lambda>_. 0),
      kit_vectors = None\<rparr>"

lemma toy_read: "readJsonFile (toy_kit ''[]'') p = Inr (JArr [], bufferToHex (utf8 ''[]''))"
proof -
  have "json_parse ''[]'' = Some (JArr [])" by code_simp
  then show ?thesis by (simp add: readJsonFile_def toy_kit_def)
qed

lemma empty_not_conformant: "\<not> conformant []"
  by (simp add: conformant_def)

theorem verify_exit_code_witness: "kit_exit (runCli (toy_kit ''[]'') [''verify'', ''capture.json'']) = 1"
proof -
  have "writable (toy_kit ''[]'') opt" for opt by (simp add: writable_def toy_kit_def)
  moreover have "capture_code (JArr []) b = 1" for b
    by (simp add: capture_code_def normalizeFramesFromValue_def empty_not_conformant)
  ultimately show ?thesis
    using verify_exit_code [of "''capture.json''" "toy_kit ''[]''" "[]"] by (simp add: toy_read Let_def)
qed

section \<open>Directories\<close>

lemma report_ignores_strict:
  "fst (verifyFrames fs (opt\<lparr>vo_strict := b\<rparr>)) = fst (verifyFrames fs opt)"
  by (simp add: verifyFrames_def capture_report_def base_report_def Let_def split: option.split)

lemma verify_case_ignores_strict: "verify_case env dir s f = verify_case env dir s' f"
proof -
  let ?o = "\<lambda>h. \<lparr>vo_inputName = Some f, vo_inputHash = Some h, vo_now = kit_clock env f, vo_strict = s', vo_annotations = JUndef\<rparr>"
  have "fst (verifyFrames fs ((?o h)\<lparr>vo_strict := s\<rparr>)) = fst (verifyFrames fs (?o h))" for fs h
    by (rule report_ignores_strict)
  then show ?thesis
    by (simp add: verify_case_def bind_err_def Let_def case_prod_unfold split: sum.split)
qed

text \<open>What a case records, and when its outcome is the expected one.\<close>

definition as_expected :: "case_result \<Rightarrow> bool" where
  "as_expected c \<longleftrightarrow>
     (case ca_expected c of
        FAIL \<Rightarrow> cr_errors (ca_report c) \<noteq> []
      | WARN \<Rightarrow> cr_errors (ca_report c) = []
      | OK \<Rightarrow> cr_errors (ca_report c) = [] \<and> cr_warnings (ca_report c) = [])"

lemma verify_case_form:
  "verify_case env dir s f = Inr c \<Longrightarrow> \<exists>r. c = \<lparr>ca_fileName = f, ca_expected = expectedFromName f,
     ca_actual = case_actual (expectedFromName f) (statusFromReport r),
     ca_matches = case_matches (expectedFromName f) (statusFromReport r), ca_report = r\<rparr>"
  by (auto simp: verify_case_def bind_err_Inr_iff Let_def case_prod_unfold)

lemma verify_case_parts:
  assumes "verify_case env dir s f = Inr c"
  shows "ca_fileName c = f" "ca_expected c = expectedFromName f" "ca_matches c \<longleftrightarrow> as_expected c"
  using verify_case_form [OF assms]
  by (auto simp: as_expected_def case_matches_def statusFromReport_def split: report_status.splits if_splits)

lemma count_cases:
  "length (filter (\<lambda>c. ca_actual c = CASE_OK) cs) + length (filter (\<lambda>c. ca_actual c = CASE_WARN) cs) +
   length (filter (\<lambda>c. ca_actual c = FAIL_UNEXPECTED) cs) + length (filter (\<lambda>c. ca_actual c = FAIL_EXPECTED) cs) = length cs"
proof (induction cs)
  case (Cons c cs)
  then show ?case by (cases "ca_actual c") auto
qed simp

text \<open>The verdict on a directory. When \<open>verify:dir\<close> completes, every \<open>.json\<close> file of the listing has
  exactly one case, whose expectation is read off its name; the batch is ok and the exit code 0
  exactly when every outcome is as expected, otherwise 2; the four outcome counts add up to the
  total. The option \<open>--strict\<close>, which the usage text offers for this command, changes nothing.\<close>

theorem directory_verdict:
  assumes "verifyDirectoryReports env dir strict = Inr (b, code)"
  shows "(\<forall>s. verifyDirectoryReports env dir s = Inr (b, code)) \<and>
    code = (if ba_ok b then 0 else 2) \<and> (ba_ok b \<longleftrightarrow> (\<forall>c \<in> set (ba_cases b). as_expected c)) \<and>
    (\<forall>c \<in> set (ba_cases b). ca_expected c = expectedFromName (ca_fileName c)) \<and>
    (\<exists>listing. kit_readdir env dir = Inr listing \<and>
       mset (map ca_fileName (ba_cases b)) = mset (filter (ends_with ''.json'') listing)) \<and>
    bs_passedCount (ba_summary b) + bs_warnCount (ba_summary b) + bs_failedCount (ba_summary b)
      + bs_expectedFailCount (ba_summary b) = bs_total (ba_summary b)"
proof -
  obtain listing names cases where steps: "kit_readdir env dir = Inr listing" "json_files env listing = Inr names"
    "map_err (\<lambda>_. verify_case env dir strict) 0 names = Inr cases" "b = make_batch env dir cases"
    "code = (if bs_unexpectedCount (ba_summary b) > 0 then 2 else 0)"
    using assms by (auto simp: verifyDirectoryReports_def bind_err_Inr_iff Let_def)
  have nth: "length cases = length names" "\<And>j. j < length names \<Longrightarrow> verify_case env dir strict (names ! j) = Inr (cases ! j)"
    using steps(3) by (simp_all add: map_err_Inr_iff)
  have "map ca_fileName cases = names"
    using nth(1) verify_case_parts(1) [OF nth(2)] by (intro nth_equalityI [of "map ca_fileName cases"]) simp_all
  moreover have "mset names = mset (filter (ends_with ''.json'') listing)"
    using steps(2) mset_js_sort unfolding json_files_def by blast
  moreover have part: "ca_expected c = expectedFromName (ca_fileName c)" "ca_matches c \<longleftrightarrow> as_expected c"
    if mem: "c \<in> set cases" for c
  proof -
    obtain j where "j < length names" "c = cases ! j" using mem nth(1) by (auto simp: in_set_conv_nth)
    then show "ca_expected c = expectedFromName (ca_fileName c)" "ca_matches c \<longleftrightarrow> as_expected c"
      using verify_case_parts [OF nth(2) [of j]] by simp_all
  qed
  moreover have "verifyDirectoryReports env dir s = Inr (b, code)" for s
  proof -
    have "verify_case env dir s = verify_case env dir strict" using verify_case_ignores_strict by blast
    then show ?thesis using assms by (simp add: verifyDirectoryReports_def)
  qed
  moreover have "bs_unexpectedCount (ba_summary b) = 0 \<longleftrightarrow> (\<forall>c \<in> set cases. ca_matches c)"
    using filter_False [of cases "\<lambda>c. \<not> ca_matches c"]
    by (auto simp: steps(4) make_batch_def Let_def filter_empty_conv)
  ultimately show ?thesis
    using steps(1,4,5) count_cases [of cases] by (simp add: make_batch_def Let_def)
qed

theorem directory_verdict_witness:
  "\<exists>b. verifyDirectoryReports (toy_kit ''[]'') ''d'' True = Inr (b, 0) \<and> ba_ok b \<and> length (ba_cases b) = 1"
proof -
  have names: "json_files (toy_kit ''[]'') [''notes.txt'', ''fail_empty.json''] = Inr [''fail_empty.json'']"
    by (simp add: json_files_def ends_with_def starts_with_def toy_kit_def js_sort_def)
  obtain c where c: "verify_case (toy_kit ''[]'') ''d'' True ''fail_empty.json'' = Inr c"
    by (simp add: verify_case_def toy_read Let_def case_prod_unfold)
  obtain b code where b: "verifyDirectoryReports (toy_kit ''[]'') ''d'' True = Inr (b, code)" "ba_cases b = [c]"
    using c by (simp add: verifyDirectoryReports_def toy_kit_def [THEN arg_cong [where f = kit_readdir]] names make_batch_def Let_def)
  have "expectedFromName ''fail_empty.json'' = FAIL" by (simp add: expectedFromName_def starts_with_def)
  moreover have "cr_errors (ca_report c) \<noteq> []"
    using c capture_errors empty_not_conformant
    by (auto simp: verify_case_def toy_read Let_def case_prod_unfold verifyFrames_def normalizeFramesFromValue_def)
  ultimately have "as_expected c" using verify_case_parts [OF c] by (simp add: as_expected_def)
  with directory_verdict [OF b(1)] b show ?thesis by auto
qed

section \<open>Scores\<close>

lemma clamp01_unit: "0 \<le> clamp01 x" "clamp01 x \<le> 1"
  using number_to_fixed_unit [of x 3] by (auto simp: clamp01_def)

text \<open>The score of every report lies between 0 and 1, also after the floating-point rounding of
  the penalties and of the three decimals; it is 1 for a capture without issues and 0 for input
  that holds no frames.\<close>

theorem score_in_range:
  "let r = fst (verifyFrames frames opt)
   in 0 \<le> cr_score r \<and> cr_score r \<le> 1 \<and> (frames = None \<longrightarrow> cr_score r = 0) \<and>
      (cr_status (fst (verifyFrames frames opt)) = OK \<and> cr_ok r \<longrightarrow> cr_score r = 1)"
proof -
  have perfect: "capture_score 0 0 = 1" by code_simp
  show ?thesis
  proof (cases frames)
    case (Some fs)
    have s: "cr_score (capture_report fs opt) =
        capture_score (length (cr_errors (capture_report fs opt))) (length (cr_warnings (capture_report fs opt)))"
      by (simp add: capture_report_def Let_def)
    have "cr_errors (capture_report fs opt) = [] \<and> cr_warnings (capture_report fs opt) = []"
      if "cr_status (capture_report fs opt) = OK"
      using that by (simp add: capture_report_parts statusFromReport_def split: if_splits)
    then show ?thesis
      using perfect s clamp01_unit by (simp add: Some verifyFrames_def capture_score_def Let_def)
  qed (simp add: verifyFrames_def Let_def)
qed

theorem score_in_range_witness:
  "cr_score (fst (verifyFrames None \<lparr>vo_inputName = None, vo_inputHash = None, vo_now = 0, vo_strict = False, vo_annotations = JUndef\<rparr>)) = 0"
  using score_in_range [of None] by (simp add: Let_def)

section \<open>Divergences\<close>

text \<open>Input without frames is an error, but its report says status OK.\<close>

lemma no_frames_status:
  "cr_status (fst (verifyFrames None opt)) = OK \<and> \<not> cr_ok (fst (verifyFrames None opt)) \<and> snd (verifyFrames None opt) = 1"
  by (simp add: verifyFrames_def base_report_def deriveExitCode_def Let_def)

text \<open>A batch in which every outcome is as expected, a failure among them, gets the red badge.\<close>

lemma expected_failure_red_badge:
  assumes "c \<in> set cases" and "ca_expected c = FAIL" and "as_expected c"
  shows "pget (batch_badge (make_batch env dir cases)) ''color'' = JStr ''red''"
  using assms by (auto simp: batch_badge_def make_batch_def badge_json_def as_expected_def Let_def)

text \<open>
  The kit stringifies the version and invents identifiers before it checks them. This capture has an
  array as version and no identifiers; none of its frames satisfies the schema, and the
  kit reports it as exemplary.
\<close>

definition lenient_frame :: "rat \<Rightarrow> string \<Rightarrow> (string \<times> jsval) list \<Rightarrow> jsval" where
  "lenient_frame ts ty payload =
     JObj [(''v'', JArr [JStr ''0.1'']), (''ts'', JNum ts), (''type'', JStr ty), (''payload'', JObj payload)]"

definition lenient_capture :: "jsval list" where
  "lenient_capture =
     [lenient_frame 1 ''hello'' [(''role'', JStr ''client''), (''message'', JStr ''m'')],
      lenient_frame 2 ''heartbeat'' [(''seq'', JNum 1)],
      lenient_frame 3 ''orientation'' [(''origin'', JStr ''a''), (''destination'', JStr ''b''), (''mode'', JStr ''demo'')],
      lenient_frame 4 ''route_request'' [(''goal'', JStr ''g'')],
      lenient_frame 5 ''route_response'' [(''branches'', JArr
        [JObj [(''path'', JArr [JStr ''a'']), (''confidence'', JNum 1)],
         JObj [(''path'', JArr [JStr ''b'']), (''confidence'', JNum 0)]])],
      lenient_frame 6 ''focus_snapshot'' [(''focus'', JStr ''f''), (''signal'', JNum 1)]]"

lemma lenient_capture_passes:
  "snd (verifyFrames (Some lenient_capture) opt) = 0 \<and> (\<forall>f \<in> set lenient_capture. \<not> isLTPFrame f)"
proof -
  have "conformant lenient_capture" "exemplary lenient_capture" by code_simp+
  then have "snd (verifyFrames (Some lenient_capture) opt) = 0"
    using capture_errors capture_warnings by (simp add: verifyFrames_def deriveExitCode_def Let_def)
  moreover have "\<forall>f \<in> set lenient_capture. \<not> isLTPFrame f"
    by (simp add: lenient_capture_def lenient_frame_def isLTPFrame_def)
  ultimately show ?thesis by blast
qed

text \<open>The canonical frames of the self test, with their duplicate heartbeat, fail the kit.\<close>

lemma canonical_frames_fail_kit:
  "snd (verifyFrames (Some (buildSelfTestFramesForMode None Calm)) opt) = 1"
proof -
  have "\<not> distinct (map sender_id (normalized_frames (buildSelfTestFramesForMode None Calm)))" by code_simp
  then have "\<not> conformant (buildSelfTestFramesForMode None Calm)" by (simp add: conformant_def Let_def)
  then show ?thesis using capture_errors by (simp add: verifyFrames_def deriveExitCode_def Let_def)
qed

end
