(* ===== verification/Conformance_Endpoint.thy ===== *)
theory Conformance_Endpoint
  imports Conformance_Correct
begin

text \<open>
  Verification of frames behind the HTTP endpoint (\<open>src/server/conformanceVerifier.ts\<close>): the shape
  check, the loop over the frames with its lists of errors, warnings, passed checks and
  annotations, the score and the status code. The status is proved equal to a specification that
  knows neither the loop nor its flags.
\<close>

section \<open>Model\<close>

text \<open>The variables of \<open>verifyConformance\<close> that its loop changes.\<close>

record endpoint_state =
  ep_errors :: "string list"
  ep_warnings :: "string list"
  ep_passed :: "string list"
  ep_hints :: "string list"
  ep_annotations :: "string list"
  ep_semanticError :: bool
  ep_lastTimestamp :: "rat option"
  ep_seenIds :: "string \<rightharpoonup> string set"

record verify_response =
  vr_ok :: bool
  vr_score :: rat
  vr_errors :: "string list"
  vr_warnings :: "string list"
  vr_passed :: "string list"
  vr_hints :: "string list"
  vr_annotations :: "string list"
  vr_frameCount :: nat
  vr_httpStatus :: nat
  vr_semanticError :: bool

definition isNonDecreasing :: "rat \<Rightarrow> rat option \<Rightarrow> bool" where
  "isNonDecreasing current previous = (case previous of None \<Rightarrow> True | Some p \<Rightarrow> current \<ge> p)"

definition clampScore :: "rat \<Rightarrow> rat" where
  "clampScore x = (if x < 0 then 0 else if x > 1 then 1 else number_to_fixed 3 x)"

definition addAnnotation :: "string \<Rightarrow> string \<Rightarrow> endpoint_state \<Rightarrow> endpoint_state" where
  "addAnnotation level message s = s\<lparr>ep_annotations := ep_annotations s @ [to_upper level @ '': '' @ message]\<rparr>"

definition missing_fields :: "jsval \<Rightarrow> string list" where
  "missing_fields shape = filter (\<lambda>k. pget shape k = JUndef) [''v'', ''id'', ''ts'', ''type'', ''payload'']"

text \<open>\<open>null\<close> stands for a frame that is not an object; reading a property of it with \<open>?.\<close> gives
  \<open>undefined\<close>.\<close>

definition validateFrameShape :: "jsval \<Rightarrow> nat \<Rightarrow> endpoint_state \<Rightarrow> jsval \<times> endpoint_state" where
  "validateFrameShape frame index s =
     (if \<not> is_object frame then (JNull, addAnnotation ''error'' (''frame '' @ nat_str index @ '' is not an object'') s)
      else (frame,
        if missing_fields frame \<noteq> []
        then addAnnotation ''error'' (''frame '' @ nat_str index @ '' is missing required fields: ''
               @ js_join '', '' (missing_fields frame)) s
        else s))"

text \<open>An error, a warning or a passed check, each with its annotation.\<close>

definition ep_error :: "string \<Rightarrow> endpoint_state \<Rightarrow> endpoint_state" where
  "ep_error message s = addAnnotation ''error'' message (s\<lparr>ep_errors := ep_errors s @ [message]\<rparr>)"

definition ep_warning :: "string \<Rightarrow> endpoint_state \<Rightarrow> endpoint_state" where
  "ep_warning message s = addAnnotation ''warning'' message (s\<lparr>ep_warnings := ep_warnings s @ [message]\<rparr>)"

definition ep_pass :: "string \<Rightarrow> endpoint_state \<Rightarrow> endpoint_state" where
  "ep_pass message s = addAnnotation ''info'' message (s\<lparr>ep_passed := ep_passed s @ [message]\<rparr>)"

definition ep_check_id :: "nat \<Rightarrow> jsval \<Rightarrow> endpoint_state \<Rightarrow> endpoint_state" where
  "ep_check_id index v s =
     (let sender = (case pget v ''from'' of JStr f \<Rightarrow> f | _ \<Rightarrow> ''global'');
          senderIds = (case ep_seenIds s sender of Some ids \<Rightarrow> ids | None \<Rightarrow> {})
      in case pget v ''id'' of
           JStr i \<Rightarrow>
             (let s1 = (if i \<in> senderIds
                        then ep_warning (''duplicate frame id detected for sender '' @ sender @ '': '' @ i
                               @ '' (index '' @ nat_str index @ '')'') s
                        else s)
              in s1\<lparr>ep_seenIds := (ep_seenIds s1)(sender \<mapsto> insert i senderIds)\<rparr>)
         | _ \<Rightarrow> ep_error (''frame '' @ nat_str index @ '' is missing a valid id'') s)"

definition ep_check_first :: "nat \<Rightarrow> jsval \<Rightarrow> endpoint_state \<Rightarrow> endpoint_state" where
  "ep_check_first index v s =
     (if index \<noteq> 0 then s
      else if pget v ''type'' \<noteq> JStr ''hello''
      then addAnnotation ''error'' ''first frame must be a hello frame''
             (s\<lparr>ep_errors := ep_errors s @ [''first frame must be a hello frame''],
                ep_hints := ep_hints s @ [''prepend a hello frame to initiate the session chain'']\<rparr>)\<lparr>ep_semanticError := True\<rparr>
      else ep_pass ''hello frame initiates the session'' s)"

definition ep_check_version :: "nat \<Rightarrow> jsval \<Rightarrow> endpoint_state \<Rightarrow> endpoint_state" where
  "ep_check_version index v s =
     (if pget v ''v'' \<noteq> JStr LTP_VERSION
      then ep_error (''frame '' @ nat_str index @ '' has unsupported version: '' @ js_str (pget v ''v'')) s
      else s)"

definition ep_check_timestamp :: "nat \<Rightarrow> jsval \<Rightarrow> endpoint_state \<Rightarrow> endpoint_state" where
  "ep_check_timestamp index v s =
     (case pget v ''ts'' of
        JNum ts \<Rightarrow>
          (let s1 = (if \<not> isNonDecreasing ts (ep_lastTimestamp s)
                     then (ep_warning (''frame '' @ nat_str index @ '' timestamp is earlier than previous frame'') s)
                            \<lparr>ep_semanticError := True\<rparr>
                     else s)
           in s1\<lparr>ep_lastTimestamp := Some ts\<rparr>)
      | _ \<Rightarrow> ep_error (''frame '' @ nat_str index @ '' is missing a numeric timestamp'') s)"

definition ep_check_type :: "nat \<Rightarrow> jsval \<Rightarrow> endpoint_state \<Rightarrow> endpoint_state" where
  "ep_check_type index v s =
     (case pget v ''type'' of
        JStr ty \<Rightarrow>
          if \<not> isKnownFrameType ty
          then ep_warning (''frame '' @ nat_str index @ '' has unknown type: '' @ ty) s
          else if isLTPFrame v
          then ep_pass (''frame '' @ nat_str index @ '' passed structural validation ('' @ ty @ '')'') s
          else ep_error (''frame '' @ nat_str index @ '' failed schema validation for type '' @ ty) s
      | _ \<Rightarrow> ep_error (''frame '' @ nat_str index @ '' is missing a valid type'') s)"

definition ep_check_frame :: "nat \<Rightarrow> jsval \<Rightarrow> endpoint_state \<Rightarrow> endpoint_state" where
  "ep_check_frame index frame s =
     (let (v, s1) = validateFrameShape frame index s
      in ep_check_type index v (ep_check_timestamp index v (ep_check_version index v
           (ep_check_first index v (ep_check_id index v s1)))))"

definition ep_init :: endpoint_state where
  "ep_init = \<lparr>ep_errors = [], ep_warnings = [], ep_passed = [], ep_hints = [], ep_annotations = [],
     ep_semanticError = False, ep_lastTimestamp = None, ep_seenIds = Map.empty\<rparr>"

text \<open>The early returns.\<close>

definition ep_reject :: "nat \<Rightarrow> nat \<Rightarrow> string \<Rightarrow> string list \<Rightarrow> string \<Rightarrow> verify_response" where
  "ep_reject status cnt message hints annotation =
     \<lparr>vr_ok = False, vr_score = 0, vr_errors = [message], vr_warnings = [], vr_passed = [], vr_hints = hints,
      vr_annotations = [to_upper ''error'' @ '': '' @ annotation], vr_frameCount = cnt, vr_httpStatus = status, vr_semanticError = False\<rparr>"

definition MAX_FRAMES :: nat where "MAX_FRAMES = 5000"

definition ep_score :: "nat \<Rightarrow> nat \<Rightarrow> rat" where
  "ep_score errs warns =
     (let errorPenalty = fl (of_nat errs * fl (1 / 4)); warningPenalty = fl (of_nat warns * fl (1 / 20))
      in clampScore (fl (fl (1 - errorPenalty) - warningPenalty)))"

definition ep_hint :: "endpoint_state \<Rightarrow> endpoint_state" where
  "ep_hint s =
     (if ep_warnings s \<noteq> []
      then addAnnotation ''info'' ''address warnings to improve conformance score''
             (s\<lparr>ep_hints := ep_hints s @ [''address warnings to improve conformance score'']\<rparr>)
      else s)"

definition ep_respond :: "nat \<Rightarrow> endpoint_state \<Rightarrow> verify_response" where
  "ep_respond cnt s =
     (let okay = (ep_errors s = []); s1 = ep_hint s
      in \<lparr>vr_ok = okay, vr_score = ep_score (length (ep_errors s)) (length (ep_warnings s)),
          vr_errors = ep_errors s1, vr_warnings = ep_warnings s1, vr_passed = ep_passed s1, vr_hints = ep_hints s1,
          vr_annotations = ep_annotations s1, vr_frameCount = cnt,
          vr_httpStatus = (if \<not> okay \<and> ep_semanticError s1 then 422 else if \<not> okay then 400 else 200),
          vr_semanticError = ep_semanticError s1\<rparr>)"

definition verifyConformance :: "jsval \<Rightarrow> verify_response" where
  "verifyConformance inputFrames =
     (case inputFrames of
        JArr frames \<Rightarrow>
          if frames = []
          then ep_reject 400 0 ''at least one frame is required and must start with hello''
                 [''send a hello frame first to establish the session''] ''empty frame list is invalid''
          else if length frames > MAX_FRAMES
          then ep_reject 413 (length frames) (''frame count exceeds maximum of '' @ nat_str MAX_FRAMES) []
                 (''frame count exceeds maximum of '' @ nat_str MAX_FRAMES)
          else ep_respond (length frames) (run_frames ep_check_frame 0 frames ep_init)
      | _ \<Rightarrow> ep_reject 400 0 ''frames must be an array'' [] ''payload.frames must be an array'')"

section \<open>Specification\<close>

text \<open>A frame the endpoint takes without an error, wherever it stands.\<close>

definition sound_frame :: "jsval \<Rightarrow> bool" where
  "sound_frame f \<longleftrightarrow> is_object f \<and> is_str (pget f ''id'') \<and> pget f ''v'' = JStr LTP_VERSION \<and> is_num (pget f ''ts'') \<and>
     (\<exists>ty. pget f ''type'' = JStr ty \<and> (isKnownFrameType ty \<longrightarrow> isLTPFrame f))"

definition starts_hello :: "jsval list \<Rightarrow> bool" where
  "starts_hello fs \<longleftrightarrow> fs \<noteq> [] \<and> is_object (hd fs) \<and> pget (hd fs) ''type'' = JStr ''hello''"

definition frame_ts :: "jsval \<Rightarrow> rat option" where
  "frame_ts f = (if is_object f then case pget f ''ts'' of JNum t \<Rightarrow> Some t | _ \<Rightarrow> None else None)"

definition frame_times :: "jsval list \<Rightarrow> rat list" where
  "frame_times fs = List.map_filter frame_ts fs"

text \<open>The status as a function of the frames.\<close>

definition endpoint_status :: "jsval \<Rightarrow> nat" where
  "endpoint_status inp =
     (case inp of
        JArr fs \<Rightarrow>
          if fs = [] then 400 else if length fs > 5000 then 413
          else if starts_hello fs \<and> list_all sound_frame fs then 200
          else if \<not> starts_hello fs \<or> \<not> sorted (frame_times fs) then 422
          else 400
      | _ \<Rightarrow> 400)"

section \<open>The loop\<close>

lemma ep_check_frame_eq:
  "ep_check_frame i f s =
     (let v = (if is_object f then f else JNull)
      in ep_check_type i v (ep_check_timestamp i v (ep_check_version i v
           (ep_check_first i v (ep_check_id i v (snd (validateFrameShape f i s)))))))"
  by (simp add: ep_check_frame_def validateFrameShape_def Let_def)

lemma addAnnotation_fields [simp]:
  "ep_errors (addAnnotation l m s) = ep_errors s" "ep_warnings (addAnnotation l m s) = ep_warnings s"
  "ep_semanticError (addAnnotation l m s) = ep_semanticError s" "ep_lastTimestamp (addAnnotation l m s) = ep_lastTimestamp s"
  by (simp_all add: addAnnotation_def)

lemma issue_fields [simp]:
  "ep_errors (ep_error m s) = ep_errors s @ [m]" "ep_errors (ep_warning m s) = ep_errors s" "ep_errors (ep_pass m s) = ep_errors s"
  "ep_semanticError (ep_error m s) = ep_semanticError s" "ep_semanticError (ep_warning m s) = ep_semanticError s"
  "ep_semanticError (ep_pass m s) = ep_semanticError s" "ep_lastTimestamp (ep_error m s) = ep_lastTimestamp s"
  "ep_lastTimestamp (ep_warning m s) = ep_lastTimestamp s" "ep_lastTimestamp (ep_pass m s) = ep_lastTimestamp s"
  by (simp_all add: ep_error_def ep_warning_def ep_pass_def)

lemma validate_fields [simp]:
  "fst (validateFrameShape f i s) = (if is_object f then f else JNull)"
  "ep_errors (snd (validateFrameShape f i s)) = ep_errors s"
  "ep_semanticError (snd (validateFrameShape f i s)) = ep_semanticError s"
  "ep_lastTimestamp (snd (validateFrameShape f i s)) = ep_lastTimestamp s"
  by (simp_all add: validateFrameShape_def)

lemma ep_check_id_fields [simp]:
  "ep_semanticError (ep_check_id i v s) = ep_semanticError s" "ep_lastTimestamp (ep_check_id i v s) = ep_lastTimestamp s"
  "prefix xs (ep_errors s) \<Longrightarrow> prefix xs (ep_errors (ep_check_id i v s))"
  "ep_errors (ep_check_id i v s) = [] \<longleftrightarrow> ep_errors s = [] \<and> is_str (pget v ''id'')"
  by (auto simp: ep_check_id_def Let_def split: jsval.split)

lemma ep_check_first_fields [simp]:
  "ep_semanticError (ep_check_first i v s) = (ep_semanticError s \<or> i = 0 \<and> pget v ''type'' \<noteq> JStr ''hello'')"
  "ep_lastTimestamp (ep_check_first i v s) = ep_lastTimestamp s"
  "prefix xs (ep_errors s) \<Longrightarrow> prefix xs (ep_errors (ep_check_first i v s))"
  "ep_errors (ep_check_first i v s) = [] \<longleftrightarrow> ep_errors s = [] \<and> (i = 0 \<longrightarrow> pget v ''type'' = JStr ''hello'')"
  by (auto simp: ep_check_first_def)

lemma ep_check_version_fields [simp]:
  "ep_semanticError (ep_check_version i v s) = ep_semanticError s" "ep_lastTimestamp (ep_check_version i v s) = ep_lastTimestamp s"
  "prefix xs (ep_errors s) \<Longrightarrow> prefix xs (ep_errors (ep_check_version i v s))"
  "ep_errors (ep_check_version i v s) = [] \<longleftrightarrow> ep_errors s = [] \<and> pget v ''v'' = JStr LTP_VERSION"
  by (auto simp: ep_check_version_def)

lemma ep_check_timestamp_fields [simp]:
  "ep_semanticError (ep_check_timestamp i v s) = (ep_semanticError s \<or>
     (case (pget v ''ts'', ep_lastTimestamp s) of (JNum t, Some t') \<Rightarrow> t < t' | _ \<Rightarrow> False))"
  "ep_lastTimestamp (ep_check_timestamp i v s) = (case pget v ''ts'' of JNum t \<Rightarrow> Some t | _ \<Rightarrow> ep_lastTimestamp s)"
  "prefix xs (ep_errors s) \<Longrightarrow> prefix xs (ep_errors (ep_check_timestamp i v s))"
  "ep_errors (ep_check_timestamp i v s) = [] \<longleftrightarrow> ep_errors s = [] \<and> is_num (pget v ''ts'')"
  by (auto simp: ep_check_timestamp_def isNonDecreasing_def Let_def split: jsval.split option.split)

lemma ep_check_type_fields [simp]:
  "ep_semanticError (ep_check_type i v s) = ep_semanticError s" "ep_lastTimestamp (ep_check_type i v s) = ep_lastTimestamp s"
  "prefix xs (ep_errors s) \<Longrightarrow> prefix xs (ep_errors (ep_check_type i v s))"
  "ep_errors (ep_check_type i v s) = [] \<longleftrightarrow> ep_errors s = [] \<and>
     (\<exists>ty. pget v ''type'' = JStr ty \<and> (isKnownFrameType ty \<longrightarrow> isLTPFrame v))"
  by (auto simp: ep_check_type_def split: jsval.split)

abbreviation ep_run :: "jsval list \<Rightarrow> endpoint_state" where
  "ep_run fs \<equiv> run_frames ep_check_frame 0 fs ep_init"

interpretation ep_error_log: flow_check ep_check_frame ep_errors
  by unfold_locales (simp add: ep_check_frame_eq Let_def)

lemma pget_JNull [simp]: "pget JNull k = JUndef"
  by (simp add: pget_def)

lemma frame_errors:
  "ep_errors (ep_check_frame i f s) = [] \<longleftrightarrow> ep_errors s = [] \<and> sound_frame f \<and> (i = 0 \<longrightarrow> pget f ''type'' = JStr ''hello'')"
  by (auto simp: ep_check_frame_eq Let_def sound_frame_def)

lemma frame_semantic:
  "ep_semanticError (ep_check_frame i f s) \<longleftrightarrow> ep_semanticError s \<or>
     i = 0 \<and> \<not> (is_object f \<and> pget f ''type'' = JStr ''hello'') \<or>
     (case (frame_ts f, ep_lastTimestamp s) of (Some t, Some t') \<Rightarrow> t < t' | _ \<Rightarrow> False)"
  by (auto simp: ep_check_frame_eq Let_def frame_ts_def split: jsval.splits)

lemma frame_last:
  "ep_lastTimestamp (ep_check_frame i f s) = (case frame_ts f of Some t \<Rightarrow> Some t | None \<Rightarrow> ep_lastTimestamp s)"
  by (auto simp: ep_check_frame_eq Let_def frame_ts_def split: jsval.split)

lemma frame_times_snoc [simp]:
  "frame_times [] = []"
  "frame_times (fs @ [f]) = frame_times fs @ (case frame_ts f of Some t \<Rightarrow> [t] | None \<Rightarrow> [])"
  by (simp_all add: frame_times_def List.map_filter_def split: option.split)

lemma starts_hello_snoc:
  "starts_hello (fs @ [f]) \<longleftrightarrow> (if fs = [] then is_object f \<and> pget f ''type'' = JStr ''hello'' else starts_hello fs)"
  by (simp add: starts_hello_def)

lemma run_errors: "ep_errors (ep_run fs) = [] \<longleftrightarrow> list_all sound_frame fs \<and> (fs \<noteq> [] \<longrightarrow> starts_hello fs)"
proof (induction fs rule: rev_induct)
  case (snoc f fs)
  then show ?case
    unfolding ep_error_log.clean_snoc frame_errors starts_hello_snoc by (auto simp: sound_frame_def)
qed (simp add: ep_init_def)

lemma run_last: "ep_lastTimestamp (ep_run fs) = (if frame_times fs = [] then None else Some (last (frame_times fs)))"
  by (induction fs rule: rev_induct) (auto simp: frame_last ep_init_def split: option.split)

lemma run_semantic:
  "ep_semanticError (ep_run fs) \<longleftrightarrow> fs \<noteq> [] \<and> \<not> starts_hello fs \<or> \<not> sorted (frame_times fs)"
proof (induction fs rule: rev_induct)
  case (snoc f fs)
  then show ?case
    by (cases "frame_ts f") (auto simp: frame_semantic run_last starts_hello_snoc sorted_last_snoc)
qed (simp add: ep_init_def)

lemma respond_fields [simp]:
  "vr_ok (ep_respond n s) \<longleftrightarrow> ep_errors s = []"
  "vr_httpStatus (ep_respond n s) = (if ep_errors s = [] then 200 else if ep_semanticError s then 422 else 400)"
  "vr_frameCount (ep_respond n s) = n"
  by (simp_all add: ep_respond_def ep_hint_def Let_def)

lemma status_exact: "vr_httpStatus (verifyConformance inp) = endpoint_status inp"
  by (cases inp)
    (auto simp: verifyConformance_def endpoint_status_def ep_reject_def MAX_FRAMES_def run_errors run_semantic)

lemma ok_status: "vr_ok (verifyConformance inp) \<longleftrightarrow> vr_httpStatus (verifyConformance inp) = 200"
  by (cases inp) (simp_all add: verifyConformance_def ep_reject_def)

lemma frame_count: "vr_frameCount (verifyConformance inp) = (case inp of JArr fs \<Rightarrow> length fs | _ \<Rightarrow> 0)"
  by (cases inp) (simp_all add: verifyConformance_def ep_reject_def)

end
