(* ===== verification/Conformance_Server.thy ===== *)
theory Conformance_Server
  imports Conformance_Endpoint Self_Test_Correct
begin

text \<open>
  The two servers in front of the conformance checks: \<open>POST /conformance/verify\<close> and
  \<open>GET /conformance/self-test\<close> of \<open>src/server/httpDemoServer.ts\<close>, and the web socket of
  \<open>src/server/wsConformanceServer.ts\<close>. Decoding of the body and the clock are parameters.
\<close>

section \<open>Verification over HTTP\<close>

datatype http_body = VerificationBody verify_response | ErrorBody string string

type_synonym http_reply = "nat \<times> http_body"

text \<open>The variables the stream's callbacks share. After a reply has been sent the stream is destroyed
  and delivers nothing more.\<close>

record body_state =
  receivedBytes :: nat
  body_chunks :: "byte list"
  body_reply :: "http_reply option"

definition MAX_BODY_BYTES :: nat where "MAX_BODY_BYTES = 512 * 1024"

definition on_data :: "byte list \<Rightarrow> body_state \<Rightarrow> body_state" where
  "on_data chunk s =
     (if body_reply s \<noteq> None then s
      else
        let s1 = s\<lparr>receivedBytes := receivedBytes s + length chunk\<rparr>
        in if receivedBytes s1 > MAX_BODY_BYTES
           then s1\<lparr>body_reply := Some (413, ErrorBody ''payload_too_large'' ''Payload exceeds maximum size of 512 KiB'')\<rparr>
           else s1\<lparr>body_chunks := body_chunks s1 @ chunk\<rparr>)"

definition invalid_request :: http_reply where
  "invalid_request = (400, ErrorBody ''invalid_request'' ''Unable to parse request body as JSON'')"

definition send_verification :: "jsval \<Rightarrow> http_reply" where
  "send_verification frames =
     (let verification = verifyConformance frames
      in if vr_frameCount verification > 5000
         then (413, ErrorBody ''payload_too_large'' ''Frame count exceeds safety limit of 5000'')
         else (vr_httpStatus verification, VerificationBody verification))"

definition on_end :: "(byte list \<Rightarrow> string) \<Rightarrow> body_state \<Rightarrow> http_reply" where
  "on_end decode s =
     (case body_reply s of
        Some r \<Rightarrow> r
      | None \<Rightarrow>
          (let bodyText = decode (body_chunks s)
           in case (if bodyText \<noteq> [] then json_parse bodyText else Some (JObj [(''frames'', JArr [])])) of
                None \<Rightarrow> invalid_request
              | Some payload \<Rightarrow>
                  (case get_prop payload ''frames'' of
                     Inl e \<Rightarrow> invalid_request
                   | Inr frames \<Rightarrow> send_verification frames)))"

definition verify_post :: "(byte list \<Rightarrow> string) \<Rightarrow> byte list list \<Rightarrow> http_reply" where
  "verify_post decode chunks =
     on_end decode (fold on_data chunks \<lparr>receivedBytes = 0, body_chunks = [], body_reply = None\<rparr>)"

section \<open>Self test over HTTP and web socket\<close>

definition self_test_mode_name :: "self_test_mode \<Rightarrow> string" where
  "self_test_mode_name m = (case m of Calm \<Rightarrow> ''calm'' | Storm \<Rightarrow> ''storm'' | Recovery \<Rightarrow> ''recovery'')"

text \<open>\<open>mode\<close> is the query parameter, \<open>null\<close> when it is absent.\<close>

definition self_test_get :: "(byte list \<Rightarrow> byte list) \<Rightarrow> (string + string) option \<Rightarrow> string option \<Rightarrow> nat \<times> self_test_report" where
  "self_test_get sha vectorFile mode =
     (let report = runSelfTest sha vectorFile None (Some (self_test_mode_name (resolveSelfTestMode mode)))
      in (if sr_ok report then 200 else 500, report))"

datatype ws_frame = ReportFrame jsval rat self_test_report | ErrorFrame jsval rat string string

definition buildReportFrame :: "rat \<Rightarrow> jsval \<Rightarrow> self_test_report \<Rightarrow> ws_frame" where
  "buildReportFrame now request report = ReportFrame (coalesce (pget request ''id'') (JStr ''conformance-report'')) now report"

definition buildErrorFrame :: "rat \<Rightarrow> jsval \<Rightarrow> string \<Rightarrow> string \<Rightarrow> ws_frame" where
  "buildErrorFrame now request code message = ErrorFrame (pget request ''id'') now code message"

text \<open>Reading \<open>v\<close> of a message that is \<open>null\<close> throws; \<open>mode\<close> is compared with \<open>===\<close>, so that
  a value that is no string is the calm mode.\<close>

definition handleConformanceSelfTestMessage ::
  "(byte list \<Rightarrow> byte list) \<Rightarrow> (string + string) option \<Rightarrow> rat \<Rightarrow> jsval \<Rightarrow> ws_frame result" where
  "handleConformanceSelfTestMessage sha vectorFile now message =
     bindr (get_prop message ''v'') (\<lambda>v.
       if truthy v \<and> v \<noteq> JStr ''0.1''
       then Inr (buildErrorFrame now message ''invalid_version'' ''Unsupported protocol version'')
       else if pget message ''type'' \<noteq> JStr ''conformance_self_test''
       then Inr (buildErrorFrame now message ''unknown_type'' ''Unsupported message type'')
       else
         let mode = resolveSelfTestMode (case pget (pget message ''payload'') ''mode'' of JStr m \<Rightarrow> Some m | _ \<Rightarrow> None)
         in Inr (buildReportFrame now message (runSelfTest sha vectorFile None (Some (self_test_mode_name mode)))))"

text \<open>The callback of a message: the frame it sends, or the exception nobody catches.\<close>

definition on_ws_message ::
  "(byte list \<Rightarrow> byte list) \<Rightarrow> (string + string) option \<Rightarrow> rat \<Rightarrow> string \<Rightarrow> ws_frame result" where
  "on_ws_message sha vectorFile now msg =
     (case json_parse msg of
        None \<Rightarrow> Inr (buildErrorFrame now JUndef ''invalid_json'' ''Invalid JSON payload'')
      | Some parsed \<Rightarrow> handleConformanceSelfTestMessage sha vectorFile now parsed)"

section \<open>The verdict over HTTP\<close>

text \<open>The reply as a function of the whole body.\<close>

definition post_status :: "(byte list \<Rightarrow> string) \<Rightarrow> byte list \<Rightarrow> nat" where
  "post_status decode body =
     (if length body > 524288 then 413
      else if decode body = [] then 400
      else case json_parse (decode body) of
             None \<Rightarrow> 400
           | Some payload \<Rightarrow> if nullish payload then 400 else endpoint_status (pget payload ''frames''))"

lemma on_data_replied: "body_reply s \<noteq> None \<Longrightarrow> fold on_data cs s = s"
  by (induction cs) (simp_all add: on_data_def)

lemma fold_on_data:
  assumes "body_reply s = None" and "receivedBytes s = length (body_chunks s)" and "receivedBytes s \<le> MAX_BODY_BYTES"
  shows "if receivedBytes s + length (concat cs) > MAX_BODY_BYTES
    then body_reply (fold on_data cs s) = Some (413, ErrorBody ''payload_too_large'' ''Payload exceeds maximum size of 512 KiB'')
    else body_reply (fold on_data cs s) = None \<and> body_chunks (fold on_data cs s) = body_chunks s @ concat cs"
  using assms
proof (induction cs arbitrary: s)
  case (Cons c cs)
  show ?case
  proof (cases "receivedBytes s + length c > MAX_BODY_BYTES")
    case True
    then have "body_reply (on_data c s) = Some (413, ErrorBody ''payload_too_large'' ''Payload exceeds maximum size of 512 KiB'')"
      using Cons.prems by (simp add: on_data_def Let_def)
    then show ?thesis using True on_data_replied [of "on_data c s" cs] by simp
  next
    case False
    then have "on_data c s = s\<lparr>receivedBytes := receivedBytes s + length c, body_chunks := body_chunks s @ c\<rparr>"
      using Cons.prems by (simp add: on_data_def Let_def)
    then show ?thesis using Cons.IH [of "on_data c s"] Cons.prems False by (simp add: add.assoc split: if_splits)
  qed
qed simp

lemma verify_post_eq:
  "verify_post decode chunks =
     (if length (concat chunks) > MAX_BODY_BYTES
      then (413, ErrorBody ''payload_too_large'' ''Payload exceeds maximum size of 512 KiB'')
      else on_end decode \<lparr>receivedBytes = length (concat chunks), body_chunks = concat chunks, body_reply = None\<rparr>)"
  using fold_on_data [of "\<lparr>receivedBytes = 0, body_chunks = [], body_reply = None\<rparr>" chunks]
  by (auto simp: verify_post_def on_end_def split: if_splits)

lemma served_reply:
  "fst (send_verification frames) = endpoint_status frames"
  "endpoint_status frames = 200 \<longleftrightarrow> (\<exists>v. snd (send_verification frames) = VerificationBody v \<and> vr_ok v)"
proof -
  have big: "endpoint_status frames = 413" if "vr_frameCount (verifyConformance frames) > 5000"
    using that by (auto simp: frame_count endpoint_status_def split: jsval.splits)
  show "fst (send_verification frames) = endpoint_status frames"
    using big by (simp add: send_verification_def Let_def status_exact)
  show "endpoint_status frames = 200 \<longleftrightarrow> (\<exists>v. snd (send_verification frames) = VerificationBody v \<and> vr_ok v)"
    using big by (simp add: send_verification_def Let_def ok_status status_exact)
qed

text \<open>C32: the verdict of the conformance endpoint. However the body is cut into chunks, the status is a
  function of the whole body: 413 above 512 KiB, 400 for a body that is empty, no JSON or \<open>null\<close>,
  and otherwise the status of the frames: 400 unless they are a non-empty array, 413 above 5000
  frames, 200 exactly when they start with hello and every frame is sound, and of the rest 422 when
  hello is missing or a timestamp goes back, else 400. The reply says \<open>ok\<close> exactly with
  status 200.\<close>

theorem endpoint_verdict:
  "fst (verify_post decode chunks) = post_status decode (concat chunks) \<and>
   (fst (verify_post decode chunks) = 200 \<longleftrightarrow> (\<exists>v. snd (verify_post decode chunks) = VerificationBody v \<and> vr_ok v))"
proof (cases "length (concat chunks) > MAX_BODY_BYTES")
  case True
  then show ?thesis by (simp add: verify_post_eq post_status_def MAX_BODY_BYTES_def)
next
  case False
  note post = verify_post_eq [of decode chunks] False
  let ?t = "decode (concat chunks)"
  have empty: "endpoint_status (JArr []) = 400" by (simp add: endpoint_status_def)
  note reply = served_reply [symmetric]
  consider "?t = []" | "?t \<noteq> []" "json_parse ?t = None" | p where "?t \<noteq> []" "json_parse ?t = Some p" by fastforce
  then show ?thesis
  proof cases
    case 1
    then show ?thesis
      using post reply [of "JArr []"] by (simp add: on_end_def post_status_def MAX_BODY_BYTES_def get_prop_def empty pget_def)
  next
    case 2
    then show ?thesis using post by (simp add: on_end_def post_status_def MAX_BODY_BYTES_def invalid_request_def)
  next
    case 3
    then show ?thesis
      using post reply [of "pget p ''frames''"]
      by (cases "nullish p") (simp_all add: on_end_def post_status_def MAX_BODY_BYTES_def invalid_request_def get_prop_def)
  qed
qed

section \<open>The self test as a service\<close>

lemma resolve_mode_name [simp]: "resolveSelfTestMode (Some (self_test_mode_name m)) = m"
  by (cases m) (simp_all add: resolveSelfTestMode_def self_test_mode_name_def)

definition asks_self_test :: "jsval \<Rightarrow> bool" where
  "asks_self_test m \<longleftrightarrow> \<not> nullish m \<and> pget m ''type'' = JStr ''conformance_self_test'' \<and>
     (truthy (pget m ''v'') \<longrightarrow> pget m ''v'' = JStr ''0.1'')"

text \<open>The self test as a service. Over HTTP every mode, known or not, is answered with status 200
  and level LTP-Canonical. Over the web socket a report is sent exactly for the messages that parse, name
  the self test and carry no other version, and that report passes too; every other text is
  answered with an error frame, except \<open>null\<close>, which raises an exception no handler catches.\<close>

theorem self_test_served:
  "fst (self_test_get sha None mode) = 200 \<and> sr_level (snd (self_test_get sha None mode)) = LTP_Canonical \<and>
   (case on_ws_message sha None now msg of
      Inl e \<Rightarrow> (\<exists>m. json_parse msg = Some m \<and> nullish m)
    | Inr (ReportFrame i t r) \<Rightarrow> sr_ok r \<and> sr_level r = LTP_Canonical \<and> (\<exists>m. json_parse msg = Some m \<and> asks_self_test m)
    | Inr (ErrorFrame i t c s) \<Rightarrow> \<not> (\<exists>m. json_parse msg = Some m \<and> (nullish m \<or> asks_self_test m)))"
proof -
  have pass: "sr_ok (runSelfTest sha None None md)" "sr_level (runSelfTest sha None None md) = LTP_Canonical" for md
    using canonical_modes_pass [of sha md] by (simp_all add: Let_def)
  show ?thesis
    by (auto simp: self_test_get_def pass Let_def on_ws_message_def handleConformanceSelfTestMessage_def bindr_def get_prop_def
        asks_self_test_def buildReportFrame_def buildErrorFrame_def split: option.split)
qed

end
