(* ===== verification/JS_Math.thy ===== *)
theory JS_Math
  imports JS_Library JSON JS_Rounding
begin

text \<open>
  Arithmetic on lists of doubles and related functions of the language: sums and means rounded
  after every operation, square roots, \<open>Number(s)\<close>, comparison of numbers with strings, and sorting by
  a comparator that cannot throw.
\<close>

section \<open>Sums and means\<close>

text \<open>\<open>xs.reduce((sum, v) => sum + v, 0)\<close>.\<close>

definition fl_sum :: "rat list \<Rightarrow> rat" where
  "fl_sum xs = foldl (\<lambda>sum v. fl (sum + v)) 0 xs"

definition fl_mean :: "rat list \<Rightarrow> rat" where
  "fl_mean xs = fl (fl_sum xs / of_nat (length xs))"

lemma fl_sum_simps [simp]: "fl_sum [] = 0" "fl_sum (xs @ [x]) = fl (fl_sum xs + x)"
  by (simp_all add: fl_sum_def)

lemma fl_fl_sum [simp]: "fl (fl_sum xs) = fl_sum xs"
  by (cases xs rule: rev_cases) simp_all

lemma fl_sum_nonneg: "\<forall>x \<in> set xs. 0 \<le> x \<Longrightarrow> 0 \<le> fl_sum xs"
  by (induction xs rule: rev_induct) simp_all

lemma fl_sum_ge: "\<forall>x \<in> set xs. 0 \<le> x \<Longrightarrow> x \<in> set xs \<Longrightarrow> fl x = x \<Longrightarrow> x \<le> fl_sum xs"
proof (induction xs rule: rev_induct)
  case (snoc y xs)
  have nn: "0 \<le> fl_sum xs" "0 \<le> y" using snoc.prems(1) fl_sum_nonneg [of xs] by simp_all
  show ?case
  proof (cases "x \<in> set xs")
    case True
    then show ?thesis using snoc nn fl_add_ge [of "fl_sum xs" y] by fastforce
  next
    case False
    then have "x = y" using snoc.prems(2) by simp
    then show ?thesis using nn(1) snoc.prems(3) fl_add_ge [of y "fl_sum xs"] by (simp add: add.commute)
  qed
qed simp

lemma foldl_fl_ge:
  assumes "fl d = d" and "\<forall>x \<in> set xs. 0 \<le> x"
  shows "d \<le> foldl (\<lambda>sum v. fl (sum + v)) d xs"
  using assms
proof (induction xs arbitrary: d)
  case (Cons x xs)
  have "d \<le> fl (d + x)" using Cons.prems fl_add_ge by simp
  then show ?case using Cons.IH [of "fl (d + x)"] Cons.prems by simp
qed simp

lemma fl_sum_le: "\<forall>x \<in> set xs. x \<le> 1 \<Longrightarrow> length xs \<le> 2 ^ 53 \<Longrightarrow> fl_sum xs \<le> of_nat (length xs)"
proof (induction xs rule: rev_induct)
  case (snoc x xs)
  have "fl_sum xs + x \<le> of_nat (length (xs @ [x]))" using snoc by force
  then show ?case using fl_nat [of "length (xs @ [x])"] snoc.prems(2) fl_le by fastforce
qed simp

text \<open>The mean of numbers between 0 and 1 is between 0 and 1.\<close>

lemma fl_mean_unit:
  assumes "\<forall>x \<in> set xs. 0 \<le> x \<and> x \<le> 1" and "length xs \<le> 2 ^ 53"
  shows "0 \<le> fl_mean xs" "fl_mean xs \<le> 1"
proof -
  show "0 \<le> fl_mean xs" using assms fl_sum_nonneg [of xs] by (simp add: fl_mean_def)
  have "fl_sum xs / of_nat (length xs) \<le> 1" using assms fl_sum_le [of xs] by (simp add: divide_le_eq_1)
  then show "fl_mean xs \<le> 1" unfolding fl_mean_def by (rule fl_le) simp
qed

section \<open>Square roots\<close>

text \<open>
  \<open>Math.sqrt\<close> of a non-negative double, rounded to nearest: the integer square root of \<open>x * 4\<^sup>k\<close> has
  at least 59 bits, and half a unit stands for the digits that are cut off.
\<close>

fun isqrt_from :: "nat \<Rightarrow> nat \<Rightarrow> nat \<Rightarrow> nat" where
  "isqrt_from 0 lo n = lo"
| "isqrt_from (Suc k) lo n = (if (lo + 2 ^ k)\<^sup>2 \<le> n then isqrt_from k (lo + 2 ^ k) n else isqrt_from k lo n)"

definition isqrt :: "nat \<Rightarrow> nat" where
  "isqrt n = isqrt_from (nat_log2 n div 2 + 1) 0 n"

definition js_sqrt :: "rat \<Rightarrow> rat" where
  "js_sqrt x =
     (if x \<le> 0 then 0
      else let k = nat (60 - rat_log2 x div 2); y = x * 4 ^ k; n = isqrt (nat \<lfloor>y\<rfloor>)
           in fl ((of_nat n + (if (of_nat n)\<^sup>2 = y then 0 else 1 / 2)) / 2 ^ k))"

lemma isqrt_from_square:
  "lo\<^sup>2 \<le> n \<Longrightarrow> n < (lo + 2 ^ k)\<^sup>2 \<Longrightarrow> (isqrt_from k lo n)\<^sup>2 \<le> n \<and> n < (isqrt_from k lo n + 1)\<^sup>2"
proof (induction k arbitrary: lo)
  case (Suc k)
  have sum: "lo + 2 ^ k + 2 ^ k = lo + 2 ^ Suc k" by simp
  show ?case
  proof (cases "(lo + 2 ^ k)\<^sup>2 \<le> n")
    case True
    then show ?thesis using Suc.IH [of "lo + 2 ^ k", unfolded sum] Suc.prems(2) by simp
  next
    case False
    then show ?thesis using Suc.IH [of lo] Suc.prems(1) by simp
  qed
qed simp

lemma isqrt_square: "(isqrt n)\<^sup>2 \<le> n \<and> n < (isqrt n + 1)\<^sup>2"
proof -
  have "nat_log2 n + 1 \<le> 2 * (nat_log2 n div 2 + 1)" by simp
  then have "n < 2 ^ (2 * (nat_log2 n div 2 + 1))"
    using nat_log2_less [of n] by (meson less_le_trans one_le_numeral power_increasing)
  then show ?thesis
    using isqrt_from_square [of 0 n "nat_log2 n div 2 + 1"] by (simp add: isqrt_def power_mult [symmetric] mult.commute)
qed

section \<open>Strings as numbers\<close>

text \<open>\<open>Number(s)\<close>. A decimal literal may lack its integer or its fraction digits, but not both.\<close>

datatype js_number = Finite rat | PosInf | NegInf | NotANumber

definition MAX_DOUBLE :: rat where "MAX_DOUBLE = (2 ^ 53 - 1) * 2 ^ 971"

definition to_number_value :: "bool \<Rightarrow> rat \<Rightarrow> js_number" where
  "to_number_value neg x =
     (let y = fl x in if y > MAX_DOUBLE then (if neg then NegInf else PosInf) else Finite (if neg then - y else y))"

definition opt_frac :: "string \<Rightarrow> string \<times> string" where
  "opt_frac s = (case s of
      c # cs \<Rightarrow> if c = CHR ''.'' then (takeWhile is_digit cs, dropWhile is_digit cs) else ([], s)
    | [] \<Rightarrow> ([], []))"

definition decimal_number :: "bool \<Rightarrow> string \<Rightarrow> js_number" where
  "decimal_number neg s =
     (let ds = takeWhile is_digit s; (fs, r) = opt_frac (dropWhile is_digit s)
      in if ds = [] \<and> fs = [] then NotANumber
         else case parse_exp r of
                Some (e, []) \<Rightarrow> to_number_value neg (of_nat (digits_val (ds @ fs)) * pow_int 10 (e - int (length fs)))
              | _ \<Rightarrow> NotANumber)"

definition radix_number :: "nat \<Rightarrow> string \<Rightarrow> js_number" where
  "radix_number b ds =
     (if ds = [] \<or> list_ex (\<lambda>c. case hex_val c of None \<Rightarrow> True | Some d \<Rightarrow> b \<le> d) ds then NotANumber
      else to_number_value False (of_nat (foldl (\<lambda>n c. n * b + the (hex_val c)) 0 ds)))"

definition to_number :: "string \<Rightarrow> js_number" where
  "to_number t =
     (let s = trim t; neg = (s \<noteq> [] \<and> hd s = CHR ''-'');
          u = (if s \<noteq> [] \<and> (hd s = CHR ''-'' \<or> hd s = CHR ''+'') then tl s else s);
          radix = to_lower (take 2 s)
      in if s = [] then Finite 0
         else if radix = ''0x'' then radix_number 16 (drop 2 s)
         else if radix = ''0o'' then radix_number 8 (drop 2 s)
         else if radix = ''0b'' then radix_number 2 (drop 2 s)
         else if u = ''Infinity'' then (if neg then NegInf else PosInf)
         else decimal_number neg u)"

text \<open>\<open><\<close> on numbers.\<close>

fun number_less :: "js_number \<Rightarrow> js_number \<Rightarrow> bool" where
  "number_less (Finite x) (Finite y) = (x < y)"
| "number_less (Finite x) PosInf = True"
| "number_less NegInf (Finite y) = True"
| "number_less NegInf PosInf = True"
| "number_less x y = False"

section \<open>Sorting\<close>

text \<open>\<open>xs.sort(cmp)\<close> for a comparator that does not throw.\<close>

definition sort_by :: "('a \<Rightarrow> 'a \<Rightarrow> int) \<Rightarrow> 'a list \<Rightarrow> 'a list" where
  "sort_by c xs = (case js_sort (\<lambda>x y. Inr (c x y)) xs of Inr ys \<Rightarrow> ys | Inl (u :: unit) \<Rightarrow> xs)"

lemma js_insert_Inr: "\<exists>zs. js_insert (\<lambda>x y. Inr (c x y)) x ys = (Inr zs :: unit + 'a list)"
  by (induction ys) (auto simp: bind_err_def)

lemma js_sort_Inr: "js_sort (\<lambda>x y. Inr (c x y)) xs = (Inr (sort_by c xs) :: unit + 'a list)"
proof -
  have "\<exists>zs. js_sort (\<lambda>x y. Inr (c x y)) xs = (Inr zs :: unit + 'a list)"
  proof (induction xs rule: rev_induct)
    case (snoc x xs)
    then show ?case using js_insert_Inr [of c x] by (auto simp: bind_err_def)
  qed simp
  then show ?thesis by (auto simp: sort_by_def)
qed

lemma mset_sort_by [simp]: "mset (sort_by c xs) = mset xs"
  using mset_js_sort [OF js_sort_Inr] .

lemma set_sort_by [simp]: "set (sort_by c xs) = set xs"
  by (metis mset_sort_by set_mset_mset)

lemma length_sort_by [simp]: "length (sort_by c xs) = length xs"
  by (metis mset_sort_by size_mset)

lemma sorted_sort_by:
  assumes "consistent_cmp c" and "\<And>x y. x \<in> set xs \<Longrightarrow> y \<in> set xs \<Longrightarrow> c' x y = c x y"
  shows "sorted_wrt (\<lambda>a b. c a b \<le> 0) (sort_by c' xs)"
  using sorted_js_sort [OF assms(1), of xs "\<lambda>x y. Inr (c' x y) :: unit + int"] assms(2) js_sort_Inr [of c' xs] by auto

text \<open>
  \<open>(a, b) => key(b) - key(a)\<close>. The difference of two doubles is zero only when they are equal, so
  that its sign is that of the comparison.
\<close>

definition descending :: "('a \<Rightarrow> rat) \<Rightarrow> 'a \<Rightarrow> 'a \<Rightarrow> int" where
  "descending key a b = (if key b < key a then - 1 else if key a < key b then 1 else 0)"

definition sort_desc :: "('a \<Rightarrow> rat) \<Rightarrow> 'a list \<Rightarrow> 'a list" where
  "sort_desc key xs = sort_by (descending key) xs"

lemma descending_consistent: "consistent_cmp (descending key)"
  by (auto simp: consistent_cmp_def descending_def)

lemma sort_desc_facts [simp]:
  "mset (sort_desc key xs) = mset xs" "set (sort_desc key xs) = set xs" "length (sort_desc key xs) = length xs"
  by (simp_all add: sort_desc_def)

lemma sorted_sort_desc: "sorted_wrt (\<lambda>a b. key b \<le> key a) (sort_desc key xs)"
proof -
  have "sorted_wrt (\<lambda>a b. descending key a b \<le> 0) (sort_by (descending key) xs)"
    using sorted_sort_by [OF descending_consistent refl] .
  then show ?thesis
    unfolding sort_desc_def by (rule sorted_wrt_mono_rel [rotated]) (auto simp: descending_def split: if_splits)
qed

text \<open>The sorted keys depend on the elements only, not on their order.\<close>

lemma keys_sort_desc:
  assumes "mset xs = mset ys"
  shows "map key (sort_desc key xs) = map key (sort_desc key ys)"
proof -
  have srt: "sorted (rev (map key (sort_desc key zs)))" for zs
    using sorted_sort_desc [of key zs] by (simp add: sorted_wrt_rev sorted_wrt_map)
  have "mset (rev (map key (sort_desc key xs))) = mset (rev (map key (sort_desc key ys)))"
    using assms by (metis mset_map mset_rev sort_desc_facts(1))
  from properties_for_sort [OF this srt] srt [of ys] show ?thesis
    by (metis rev_rev_ident sorted_sort_id)
qed

lemma hd_sort_desc: "x \<in> set xs \<Longrightarrow> key x \<le> key (hd (sort_desc key xs))"
proof -
  assume x: "x \<in> set xs"
  then obtain y ys where s: "sort_desc key xs = y # ys"
    by (metis list.exhaust list.set(1) empty_iff sort_desc_facts(2))
  then have "x \<in> set (y # ys)" using x by (metis sort_desc_facts(2))
  then show ?thesis using sorted_sort_desc [of key xs] by (auto simp: s)
qed

end
