(* ===== verification/Thread_Life.thy ===== *)
theory Thread_Life
  imports JS_Math
begin

text \<open>
  The life of a thread (\<open>sdk/js/src/threadLifeModel.ts\<close> and its types): phases, the transition an
  event triggers, the levels of energy and resonance it leaves, and maps of threads. Levels are
  finite doubles, so that the test for \<open>NaN\<close> in \<open>clampLevel\<close> never holds; the arithmetic is rounded
  after every operation.
\<close>

section \<open>Types\<close>

datatype thread_phase = Birth | Active | Weakening | Switching | Archived
datatype thread_scope = Individual | Family | Project | System

datatype event_type =
    GoalUpdated | StressIncrease | Relief | NewOpportunity | FamilyResonance | DropInAttention | Success | ShutdownRequest

record thread_vector =
  threadId :: string
  parentThreadId :: "string option"
  thread_scope :: thread_scope
  label :: "string option"
  createdAt :: string
  updatedAt :: string
  phase :: thread_phase
  energyLevel :: rat
  resonanceLevel :: rat
  tags :: "string list option"
  externalRef :: jsval

record thread_event =
  ev_type :: event_type
  ev_timestamp :: string
  ev_payload :: jsval

record life_transition =
  tr_from :: thread_phase
  tr_to :: thread_phase
  tr_reason :: string

record thread_map =
  ownerId :: string
  threads :: "thread_vector list"

section \<open>Transitions\<close>

definition ENERGY_WEAKEN_THRESHOLD :: rat where "ENERGY_WEAKEN_THRESHOLD = fl (3 / 10)"
definition ENERGY_ARCHIVE_THRESHOLD :: rat where "ENERGY_ARCHIVE_THRESHOLD = fl (1 / 10)"
definition RESONANCE_SWITCH_DELTA :: rat where "RESONANCE_SWITCH_DELTA = fl (1 / 20)"

definition clampLevel :: "rat \<Rightarrow> rat" where
  "clampLevel v = min 1 (max 0 v)"

definition isActivationEvent :: "thread_event \<Rightarrow> bool" where
  "isActivationEvent e = (ev_type e = GoalUpdated \<or> ev_type e = NewOpportunity)"

definition isSwitchEvent :: "thread_event \<Rightarrow> bool" where
  "isSwitchEvent e = (ev_type e = NewOpportunity \<or> ev_type e = FamilyResonance)"

definition deriveResonanceHint :: "thread_event \<Rightarrow> rat \<Rightarrow> rat" where
  "deriveResonanceHint e currentResonance =
     (case pget (ev_payload e) ''resonanceLevel'' of
        JNum r \<Rightarrow> clampLevel r
      | _ \<Rightarrow> clampLevel (fl (currentResonance + fl (1 / 10))))"

definition no_transition :: "thread_vector \<Rightarrow> life_transition" where
  "no_transition t = \<lparr>tr_from = phase t, tr_to = phase t, tr_reason = ''No transition triggered by event.''\<rparr>"

definition computeNextPhase :: "thread_vector \<Rightarrow> thread_event \<Rightarrow> life_transition" where
  "computeNextPhase t e =
     (let normalizedEnergy = clampLevel (energyLevel t); normalizedResonance = clampLevel (resonanceLevel t)
      in if ev_type e = ShutdownRequest \<or> normalizedEnergy < ENERGY_ARCHIVE_THRESHOLD
         then \<lparr>tr_from = phase t, tr_to = Archived,
               tr_reason = (if ev_type e = ShutdownRequest then ''Shutdown requested for thread lifecycle.''
                            else ''Energy depleted below archival threshold.'')\<rparr>
         else case phase t of
           Birth \<Rightarrow>
             if isActivationEvent e
             then \<lparr>tr_from = Birth, tr_to = Active, tr_reason = ''Initial intent or opportunity activated the thread.''\<rparr>
             else no_transition t
         | Active \<Rightarrow>
             if ev_type e = DropInAttention \<or> normalizedEnergy < ENERGY_WEAKEN_THRESHOLD
             then \<lparr>tr_from = Active, tr_to = Weakening,
                   tr_reason = ''Attention dropped or energy dipped below healthy range.''\<rparr>
             else no_transition t
         | Weakening \<Rightarrow>
             if isSwitchEvent e \<and>
                deriveResonanceHint e normalizedResonance > fl (normalizedResonance + RESONANCE_SWITCH_DELTA)
             then \<lparr>tr_from = Weakening, tr_to = Switching, tr_reason = ''New opportunity with stronger resonance detected.''\<rparr>
             else no_transition t
         | Switching \<Rightarrow>
             if ev_type e = GoalUpdated \<or> ev_type e = Success
             then \<lparr>tr_from = Switching, tr_to = Active, tr_reason = ''New trajectory confirmed through intent or success.''\<rparr>
             else no_transition t
         | Archived \<Rightarrow> \<lparr>tr_from = Archived, tr_to = Archived, tr_reason = ''Thread remains archived.''\<rparr>)"

definition adjustEnergyLevel :: "thread_phase \<Rightarrow> rat \<Rightarrow> rat" where
  "adjustEnergyLevel p current =
     (case p of
        Active \<Rightarrow> clampLevel (fl (current + fl (1 / 20)))
      | Weakening \<Rightarrow> clampLevel (fl (current - fl (1 / 20)))
      | Archived \<Rightarrow> 0
      | _ \<Rightarrow> current)"

definition adjustResonanceLevel :: "life_transition \<Rightarrow> rat \<Rightarrow> rat" where
  "adjustResonanceLevel tr current =
     (if tr_to tr = Active then clampLevel (fl (current + fl (1 / 20)))
      else if tr_to tr = Weakening then clampLevel (fl (current - fl (3 / 100)))
      else if tr_to tr = Archived then clampLevel (fl (current - fl (1 / 10)))
      else if str_includes (to_lower (tr_reason tr)) ''success'' then clampLevel (fl (current + fl (1 / 20)))
      else current)"

definition applyTransition :: "thread_vector \<Rightarrow> life_transition \<Rightarrow> string \<Rightarrow> thread_vector" where
  "applyTransition t tr timestamp =
     t\<lparr>phase := tr_to tr, updatedAt := timestamp, energyLevel := adjustEnergyLevel (tr_to tr) (energyLevel t),
       resonanceLevel := adjustResonanceLevel tr (resonanceLevel t)\<rparr>"

section \<open>Maps of threads\<close>

definition registerNewThread :: "thread_map \<Rightarrow> thread_vector \<Rightarrow> thread_map" where
  "registerNewThread m t =
     (if \<exists>existing \<in> set (threads m). threadId existing = threadId t then m
      else m\<lparr>threads := threads m @ [t]\<rparr>)"

definition step_thread :: "thread_event \<Rightarrow> string \<Rightarrow> thread_vector \<Rightarrow> thread_vector" where
  "step_thread e timestamp t = applyTransition t (computeNextPhase t e) timestamp"

definition updateThreadFromEvent :: "thread_map \<Rightarrow> string \<Rightarrow> thread_event \<Rightarrow> string \<Rightarrow> thread_map" where
  "updateThreadFromEvent m tid e timestamp =
     m\<lparr>threads := map (\<lambda>t. if threadId t \<noteq> tid then t else step_thread e timestamp t) (threads m)\<rparr>"

definition fl_variance :: "rat list \<Rightarrow> rat" where
  "fl_variance xs =
     (let average = fl_mean xs
      in fl (foldl (\<lambda>variance v. fl (variance + fl ((fl (v - average))\<^sup>2))) 0 xs / of_nat (length xs)))"

record map_summary =
  averageEnergy :: rat
  averageResonance :: rat
  volatility :: rat

definition summarizeThreadMap :: "thread_map \<Rightarrow> map_summary" where
  "summarizeThreadMap m =
     (if threads m = [] then \<lparr>averageEnergy = fl (1 / 2), averageResonance = fl (1 / 2), volatility = fl (1 / 5)\<rparr>
      else
        let energyLevels = map (\<lambda>t. clampLevel (energyLevel t)) (threads m);
            resonanceLevels = map (\<lambda>t. clampLevel (resonanceLevel t)) (threads m);
            spread = js_sqrt (fl (fl_variance energyLevels + fl_variance resonanceLevels))
        in \<lparr>averageEnergy = fl_mean energyLevels, averageResonance = fl_mean resonanceLevels,
            volatility = clampLevel (fl (fl (fl (spread * fl (7 / 10))
              + fl (fl (1 - fl_mean resonanceLevels) * fl (3 / 10))) / fl (3 / 2)))\<rparr>)"

end
