(* ===== verification/Thread_Life_Correct.thy ===== *)
theory Thread_Life_Correct
  imports Thread_Life
begin

text \<open>
  What the life model guarantees: levels stay between 0 and 1, identifiers stay distinct, phases
  follow the graph of the model, archived threads stay archived, and a thread that weakens without a
  new opportunity is archived within twenty events.
\<close>

section \<open>Levels and phases\<close>

definition unit_level :: "rat \<Rightarrow> bool" where
  "unit_level x \<longleftrightarrow> 0 \<le> x \<and> x \<le> 1"

definition unit_levels :: "thread_vector \<Rightarrow> bool" where
  "unit_levels t \<longleftrightarrow> unit_level (energyLevel t) \<and> unit_level (resonanceLevel t)"

lemma unit_level_clamp [simp]: "unit_level (clampLevel x)"
  by (simp add: unit_level_def clampLevel_def)

lemma clampLevel_unit [simp]: "unit_level x \<Longrightarrow> clampLevel x = x"
  by (simp add: unit_level_def clampLevel_def)

lemma step_thread_levels: "unit_levels t \<Longrightarrow> unit_levels (step_thread e ts t)"
  by (auto simp: step_thread_def applyTransition_def unit_levels_def adjustEnergyLevel_def adjustResonanceLevel_def
      unit_level_def [of 0] split: thread_phase.split)

text \<open>The graph of the model: activation, weakening, switching, return, and archiving from anywhere.\<close>

definition life_edges :: "(thread_phase \<times> thread_phase) set" where
  "life_edges = {(Birth, Active), (Active, Weakening), (Weakening, Switching), (Switching, Active)}
     \<union> {(p, p) | p. True} \<union> {(p, Archived) | p. True}"

lemma step_thread_fields [simp]:
  "threadId (step_thread e ts t) = threadId t" "createdAt (step_thread e ts t) = createdAt t"
  "parentThreadId (step_thread e ts t) = parentThreadId t"
  by (simp_all add: step_thread_def applyTransition_def)

lemma phase_step: "phase (step_thread e ts t) = tr_to (computeNextPhase t e)"
  by (simp add: step_thread_def applyTransition_def)

lemma phase_edges: "(phase t, phase (step_thread e ts t)) \<in> life_edges"
  unfolding phase_step
  by (cases "phase t") (auto simp: computeNextPhase_def no_transition_def life_edges_def Let_def)

lemma archived_step: "phase t = Archived \<Longrightarrow> phase (step_thread e ts t) = Archived"
  using phase_edges [of t e ts] by (auto simp: life_edges_def)

lemma archived_energy: "phase (step_thread e ts t) = Archived \<Longrightarrow> energyLevel (step_thread e ts t) = 0"
  by (simp add: step_thread_def applyTransition_def adjustEnergyLevel_def)

text \<open>The bonus for a reason that mentions success is never given.\<close>

lemma success_bonus_unreachable:
  assumes "tr_to (computeNextPhase t e) \<notin> {Active, Weakening, Archived}"
  shows "\<not> str_includes (to_lower (tr_reason (computeNextPhase t e))) ''success''"
proof -
  have "tr_reason (computeNextPhase t e) \<in>
      {''No transition triggered by event.'', ''New opportunity with stronger resonance detected.''}"
    using assms by (auto simp: computeNextPhase_def no_transition_def Let_def split: thread_phase.splits if_splits)
  moreover have "\<not> str_includes (to_lower ''No transition triggered by event.'') ''success''"
    "\<not> str_includes (to_lower ''New opportunity with stronger resonance detected.'') ''success''" by code_simp+
  ultimately show ?thesis by auto
qed

section \<open>Maps\<close>

definition wf_map :: "thread_map \<Rightarrow> bool" where
  "wf_map m \<longleftrightarrow> distinct (map threadId (threads m)) \<and> (\<forall>t \<in> set (threads m). unit_levels t)"

inductive map_step :: "thread_map \<Rightarrow> thread_map \<Rightarrow> bool" where
  register: "unit_levels t \<Longrightarrow> map_step m (registerNewThread m t)"
| update: "map_step m (updateThreadFromEvent m tid e ts)"

inductive_cases map_stepE: "map_step m m'"

text \<open>What a thread keeps over time.\<close>

definition lives_on :: "thread_vector \<Rightarrow> thread_map \<Rightarrow> bool" where
  "lives_on t m \<longleftrightarrow> (\<exists>t' \<in> set (threads m). threadId t' = threadId t \<and> createdAt t' = createdAt t \<and>
     (phase t = Archived \<longrightarrow> phase t' = Archived))"

lemma map_step_wf: "map_step m m' \<Longrightarrow> wf_map m \<Longrightarrow> wf_map m'"
proof (elim map_stepE)
  fix tid e ts
  assume wf: "wf_map m" and m': "m' = updateThreadFromEvent m tid e ts"
  have "map threadId (threads m') = map threadId (threads m)" by (simp add: m' updateThreadFromEvent_def)
  then show "wf_map m'"
    using wf step_thread_levels by (auto simp: wf_map_def) (auto simp: m' updateThreadFromEvent_def)
qed (auto simp: wf_map_def registerNewThread_def)

lemma map_step_lives: "map_step m m' \<Longrightarrow> t \<in> set (threads m) \<Longrightarrow> \<exists>t' \<in> set (threads m'). threadId t' = threadId t
    \<and> createdAt t' = createdAt t \<and> (phase t = Archived \<longrightarrow> phase t' = Archived)"
proof (elim map_stepE)
  fix tid e ts
  assume mem: "t \<in> set (threads m)" and m': "m' = updateThreadFromEvent m tid e ts"
  then show ?thesis
    by (intro bexI [of _ "if threadId t \<noteq> tid then t else step_thread e ts t"])
      (auto simp: updateThreadFromEvent_def archived_step)
qed (auto simp: registerNewThread_def)

text \<open>C28: the invariant of a map of threads. Whatever threads are registered, with levels between 0 and
  1, and whatever events are applied in any order, identifiers stay distinct and levels between 0
  and 1; no thread is lost or loses its creation date, and an archived thread stays archived.\<close>

theorem thread_map_invariant:
  assumes "map_step\<^sup>*\<^sup>* m m'" and "wf_map m"
  shows "wf_map m' \<and> (\<forall>t \<in> set (threads m). lives_on t m') \<and> ownerId m' = ownerId m"
  using assms(1)
proof (induction rule: rtranclp_induct)
  case base
  then show ?case using assms(2) by (auto simp: lives_on_def)
next
  case (step m1 m2)
  have "lives_on t m2" if mem: "t \<in> set (threads m)" for t
  proof -
    obtain t1 where "t1 \<in> set (threads m1)" "threadId t1 = threadId t" "createdAt t1 = createdAt t"
      "phase t = Archived \<longrightarrow> phase t1 = Archived"
      using step.IH mem by (auto simp: lives_on_def)
    with map_step_lives [OF step.hyps(2)] show ?thesis unfolding lives_on_def by fastforce
  qed
  moreover have "ownerId m2 = ownerId m1"
    using step.hyps(2) by (auto elim!: map_stepE simp: registerNewThread_def updateThreadFromEvent_def)
  ultimately show ?case using step map_step_wf by simp
qed

definition toy_thread :: thread_vector where
  "toy_thread = \<lparr>threadId = ''t'', parentThreadId = None, thread_scope = Individual, label = None, createdAt = [], updatedAt = [],
     phase = Weakening, energyLevel = 1, resonanceLevel = 1, tags = None, externalRef = JUndef\<rparr>"

theorem thread_map_invariant_witness:
  "wf_map (registerNewThread \<lparr>ownerId = ''o'', threads = []\<rparr> toy_thread)"
proof -
  have "unit_levels toy_thread" by (simp add: unit_levels_def unit_level_def toy_thread_def)
  then have "map_step\<^sup>*\<^sup>* \<lparr>ownerId = ''o'', threads = []\<rparr> (registerNewThread \<lparr>ownerId = ''o'', threads = []\<rparr> toy_thread)"
    using map_step.register by blast
  from thread_map_invariant [OF this] show ?thesis by (simp add: wf_map_def)
qed

section \<open>Fading\<close>

lemma weaken_amount:
  assumes "unit_level x"
  shows "clampLevel (fl (x - fl (1 / 20))) \<le> max 0 (x - 49 / 1000)"
proof -
  note c = fl_bounds [of "1 / 20"]
  have "- 1 \<le> x - fl (1 / 20)" "x - fl (1 / 20) \<le> 1" using assms c by (simp_all add: unit_level_def)
  from fl_bounds(2) [OF this] have "fl (x - fl (1 / 20)) \<le> x - fl (1 / 20) + 1 / 2 ^ 53" .
  also have "\<dots> \<le> x - 49 / 1000" using c(1) by simp
  finally show ?thesis by (auto simp: clampLevel_def)
qed

definition run_thread :: "(thread_event \<times> string) list \<Rightarrow> thread_vector \<Rightarrow> thread_vector" where
  "run_thread es t = foldl (\<lambda>t (e, ts). step_thread e ts t) t es"

lemma run_thread_snoc [simp]: "run_thread (es @ [(e, ts)]) t = step_thread e ts (run_thread es t)"
  by (simp add: run_thread_def)

lemma fading_step:
  assumes "phase t = Weakening" and "unit_level (energyLevel t)" and "\<not> isSwitchEvent e"
  shows "phase (step_thread e ts t) = Archived \<or> phase (step_thread e ts t) = Weakening \<and>
    \<not> energyLevel t < ENERGY_ARCHIVE_THRESHOLD \<and> unit_level (energyLevel (step_thread e ts t)) \<and>
    energyLevel (step_thread e ts t) \<le> max 0 (energyLevel t - 49 / 1000)"
  using assms weaken_amount [OF assms(2)]
  by (auto simp: step_thread_def applyTransition_def computeNextPhase_def no_transition_def adjustEnergyLevel_def Let_def)

lemma fading_bound:
  assumes "phase t = Weakening" and "unit_level (energyLevel t)" and "\<forall>(e, ts) \<in> set es. \<not> isSwitchEvent e"
  shows "phase (run_thread es t) = Archived \<or> phase (run_thread es t) = Weakening \<and>
    unit_level (energyLevel (run_thread es t)) \<and> energyLevel (run_thread es t) \<le> max 0 (1 - of_nat (length es) * (49 / 1000))"
  using assms(3)
proof (induction es rule: rev_induct)
  case Nil
  then show ?case using assms(1,2) by (simp add: run_thread_def unit_level_def)
next
  case (snoc x es)
  obtain e ts where x: "x = (e, ts)" by (cases x)
  let ?t = "run_thread es t"
  consider "phase ?t = Archived" | "phase ?t = Weakening" "unit_level (energyLevel ?t)"
    "energyLevel ?t \<le> max 0 (1 - of_nat (length es) * (49 / 1000))" using snoc by auto
  then show ?case
  proof cases
    case 1
    then show ?thesis by (simp add: x archived_step)
  next
    case 2
    have "max 0 (energyLevel ?t - 49 / 1000) \<le> max 0 (1 - of_nat (length (es @ [x])) * (49 / 1000))"
    proof -
      have step: "max 0 (a - d) \<le> max 0 (b - d)" if "a \<le> max 0 b" "0 \<le> d" for a b d :: rat using that by auto
      have "1 - of_nat (length (es @ [x])) * (49 / 1000) = 1 - of_nat (length es) * (49 / 1000) - (49 / 1000 :: rat)"
        by (simp add: algebra_simps)
      then show ?thesis using step [OF 2(3), of "49 / 1000"] by simp
    qed
    then show ?thesis
      using fading_step [OF 2(1,2), of e ts] snoc.prems by (auto simp: x)
  qed
qed

text \<open>C29: fading terminates. A weakening thread whose energy is between 0 and 1 and that meets no
  opportunity or family resonance is archived after at most twenty events, with no energy left: each
  event takes at least 0.049 of its energy, rounding included.\<close>

theorem fading_thread_archived:
  assumes "phase t = Weakening" and "unit_level (energyLevel t)"
    and "\<forall>(e, ts) \<in> set es. \<not> isSwitchEvent e" and "20 \<le> length es"
  shows "phase (run_thread es t) = Archived \<and> energyLevel (run_thread es t) = 0"
proof -
  obtain first e ts rest where es: "es = (first @ [(e, ts)]) @ rest" "length first = 19"
  proof -
    have "es = take 19 es @ es ! 19 # drop 20 es" using assms(4) id_take_nth_drop [of 19 es] by simp
    then show thesis using that [of "take 19 es" "fst (es ! 19)" "snd (es ! 19)" "drop 20 es"] assms(4) by simp
  qed
  let ?t = "run_thread first t"
  have "phase ?t = Archived \<or> phase ?t = Weakening \<and> unit_level (energyLevel ?t) \<and> energyLevel ?t \<le> 69 / 1000"
    using fading_bound [OF assms(1,2), of first] assms(3) es by auto
  moreover have "69 / 1000 < ENERGY_ARCHIVE_THRESHOLD"
    using fl_bounds(1) [of "1 / 10"] by (simp add: ENERGY_ARCHIVE_THRESHOLD_def)
  ultimately have arch: "phase (run_thread (first @ [(e, ts)]) t) = Archived"
    using fading_step [of ?t e ts] archived_step assms(3) es(1) by auto
  have "phase (foldl (\<lambda>t (e, ts). step_thread e ts t) t' r) = Archived \<and> energyLevel (foldl (\<lambda>t (e, ts). step_thread e ts t) t' r) = 0"
    if "phase t' = Archived \<and> energyLevel t' = 0" for t' r
    using that by (induction r arbitrary: t') (auto simp: archived_step archived_energy split: prod.split)
  with arch archived_energy show ?thesis unfolding es(1) run_thread_snoc by (simp add: run_thread_def)
qed

theorem fading_thread_archived_witness:
  "phase (run_thread (replicate 20 (\<lparr>ev_type = StressIncrease, ev_timestamp = [], ev_payload = JUndef\<rparr>, [])) toy_thread) = Archived"
  by (rule fading_thread_archived [THEN conjunct1]) (auto simp: toy_thread_def unit_level_def isSwitchEvent_def)

end
