(* ===== verification/Time_Weave.thy ===== *)
theory Time_Weave
  imports JS_Math
begin

text \<open>
  The time weave (\<open>sdk/js/src/time\<close>): branches of nodes ordered by ticks, trends and momenta of
  branches, the distribution of weight over branches with its collapse signal, the asymmetry of a
  history of biases, and the depth of the weave. \<open>Date.parse\<close>, \<open>Math.exp\<close> and \<open>Math.log1p\<close>, whose
  results the language leaves to the engine, are parameters.
\<close>

section \<open>Types\<close>

datatype time_tick = TickNum rat | TickStr string
datatype time_phase = Emerging | Stable | Declining | Dormant

record time_node =
  node_id :: string
  node_tick :: time_tick
  intensity :: rat
  node_phase :: time_phase

record time_branch =
  branch_thread :: string
  nodes :: "time_node list"

record time_weave =
  weave_branches :: "time_branch list"

datatype global_trend = GlobalRising | GlobalFalling | GlobalMixed | GlobalPlateau
datatype branch_trend = Rising | Falling | Plateau

record trend_summary =
  ts_branchCount :: nat
  ts_activeBranches :: nat
  ts_globalTrend :: global_trend

datatype asymmetry_shape = Balanced | SingleDominant | BiModal | Scattered
datatype asymmetry_direction = Forward | Backward | BalancedDirection
datatype temporal_posture = SteadyForward | SteadyBackward | GentleRecovery | StormShift | NeutralPlateau
datatype collapse_mode = NoCollapse | SoftMerge | HardCollapse

record weave_asymmetry =
  concentration :: rat
  shape :: asymmetry_shape
  as_branchCount :: nat

record collapse_signal =
  hasCollapsed :: bool
  collapse_mode :: collapse_mode
  dominantBranchId :: "string option"
  collapse_reason :: string

record weave_summary =
  depthScore :: rat
  branchesCount :: nat
  eventsCount :: nat
  timeSpanMs :: rat
  summary_asymmetry :: "weave_asymmetry option"
  summary_collapse :: "collapse_signal option"

section \<open>Branches\<close>

definition clampIntensity :: "rat \<Rightarrow> rat" where
  "clampIntensity v = (if v < 0 then 0 else if v > 1 then 1 else v)"

text \<open>\<open><\<close> on ticks: strings compare by code units, a number and a string as numbers.\<close>

fun tick_less :: "time_tick \<Rightarrow> time_tick \<Rightarrow> bool" where
  "tick_less (TickNum a) (TickNum b) = (a < b)"
| "tick_less (TickStr a) (TickStr b) = (a < b)"
| "tick_less (TickNum a) (TickStr b) = number_less (Finite a) (to_number b)"
| "tick_less (TickStr a) (TickNum b) = number_less (to_number a) (Finite b)"

definition tick_cmp :: "time_node \<Rightarrow> time_node \<Rightarrow> int" where
  "tick_cmp a b =
     (if tick_less (node_tick a) (node_tick b) then - 1 else if tick_less (node_tick b) (node_tick a) then 1 else 0)"

definition sortNodesByTick :: "time_node list \<Rightarrow> time_node list" where
  "sortNodesByTick ns = sort_by tick_cmp ns"

definition createEmptyWeave :: time_weave where
  "createEmptyWeave = \<lparr>weave_branches = []\<rparr>"

fun find_index :: "('a \<Rightarrow> bool) \<Rightarrow> 'a list \<Rightarrow> nat option" where
  "find_index P [] = None"
| "find_index P (x # xs) = (if P x then Some 0 else map_option Suc (find_index P xs))"

definition upsertBranch :: "time_weave \<Rightarrow> time_branch \<Rightarrow> time_weave" where
  "upsertBranch w branch =
     (case find_index (\<lambda>item. branch_thread item = branch_thread branch) (weave_branches w) of
        None \<Rightarrow> \<lparr>weave_branches = weave_branches w @ [branch]\<rparr>
      | Some i \<Rightarrow> \<lparr>weave_branches = (weave_branches w)[i := branch]\<rparr>)"

definition getBranch :: "time_weave \<Rightarrow> string \<Rightarrow> time_branch option" where
  "getBranch w threadId = find (\<lambda>branch. branch_thread branch = threadId) (weave_branches w)"

definition appendNodeToBranch :: "time_weave \<Rightarrow> string \<Rightarrow> time_node \<Rightarrow> time_weave" where
  "appendNodeToBranch w threadId node =
     (let normalizedNode = node\<lparr>intensity := clampIntensity (intensity node)\<rparr>
      in case getBranch w threadId of
           None \<Rightarrow> upsertBranch w \<lparr>branch_thread = threadId, nodes = [normalizedNode]\<rparr>
         | Some branch \<Rightarrow>
             upsertBranch w \<lparr>branch_thread = threadId, nodes = sortNodesByTick (nodes branch @ [normalizedNode])\<rparr>)"

section \<open>Trends and momenta\<close>

definition TREND_WINDOW :: nat where "TREND_WINDOW = 5"
definition TREND_EPSILON :: rat where "TREND_EPSILON = fl (1 / 20)"
definition MOMENTUM_WINDOW :: nat where "MOMENTUM_WINDOW = 5"

text \<open>\<open>xs.slice(-n)\<close> for a positive \<open>n\<close>.\<close>

definition slice_last :: "nat \<Rightarrow> 'a list \<Rightarrow> 'a list" where
  "slice_last n xs = drop (length xs - n) xs"

definition node_average :: "time_node list \<Rightarrow> rat" where
  "node_average items = fl_mean (map intensity items)"

definition computeBranchTrend :: "time_branch \<Rightarrow> branch_trend" where
  "computeBranchTrend branch =
     (let ns = slice_last TREND_WINDOW (nodes branch)
      in if length ns \<le> 1 then Plateau
         else
           let midPoint = length ns div 2;
               firstAvg = node_average (take midPoint ns);
               secondAvg = node_average (drop midPoint ns)
           in if secondAvg > fl (firstAvg + TREND_EPSILON) then Rising
              else if secondAvg < fl (firstAvg - TREND_EPSILON) then Falling
              else Plateau)"

definition clamp_unit :: "rat \<Rightarrow> rat" where
  "clamp_unit v = (if v < 0 then 0 else if v > 1 then 1 else v)"

definition clampMinus1To1 :: "rat \<Rightarrow> rat" where
  "clampMinus1To1 v = (if v < - 1 then - 1 else if v > 1 then 1 else v)"

definition deltas :: "rat list \<Rightarrow> rat list" where
  "deltas xs = map2 (\<lambda>b a. fl (b - a)) (tl xs) xs"

definition computeBranchMomentum :: "time_branch \<Rightarrow> rat" where
  "computeBranchMomentum branch =
     (let ns = slice_last MOMENTUM_WINDOW (nodes branch)
      in if length ns < 2 then 0 else clampMinus1To1 (fl_mean (deltas (map intensity ns))))"

definition branch_active :: "time_branch \<Rightarrow> bool" where
  "branch_active branch = (nodes branch \<noteq> [] \<and> intensity (last (nodes branch)) > fl (3 / 10))"

definition summarizeWeave :: "time_weave \<Rightarrow> trend_summary" where
  "summarizeWeave w =
     (let trends = map computeBranchTrend (weave_branches w);
          rising = length (filter (\<lambda>t. t = Rising) trends);
          falling = length (filter (\<lambda>t. t = Falling) trends)
      in \<lparr>ts_branchCount = length (weave_branches w),
          ts_activeBranches = length (filter branch_active (weave_branches w)),
          ts_globalTrend =
            (if rising > 0 \<and> falling > 0 then GlobalMixed
             else if rising > 0 then GlobalRising
             else if falling > 0 then GlobalFalling
             else GlobalPlateau)\<rparr>)"

definition momentum_item :: "time_branch \<Rightarrow> (rat \<times> rat) option" where
  "momentum_item branch =
     (if length (nodes branch) < 2 then None
      else
        let weight = clamp_unit (intensity (last (nodes branch)))
        in Some (computeBranchMomentum branch, if weight > 0 then weight else 1))"

definition computeFocusMomentumScore :: "time_weave \<Rightarrow> rat" where
  "computeFocusMomentumScore w =
     (let branchMomenta = List.map_filter momentum_item (weave_branches w)
      in if branchMomenta = [] then 0
         else
           let totalWeight = fl_sum (map snd branchMomenta);
               weightedMomentum = fl_sum (map (\<lambda>(m, k). fl (m * k)) branchMomenta)
           in if totalWeight = 0 then 0 else clampMinus1To1 (fl (weightedMomentum / totalWeight)))"

section \<open>Weight over the branches\<close>

definition computeBranchWeight :: "time_branch \<Rightarrow> rat" where
  "computeBranchWeight branch =
     (if nodes branch = [] then 0
      else
        let average = fl_mean (map (\<lambda>n. clamp_unit (intensity n)) (nodes branch));
            recentIntensity = clamp_unit (intensity (last (nodes branch)))
        in number_to_fixed 4 (fl (fl (recentIntensity * fl (7 / 10)) + fl (average * fl (3 / 10)))))"

definition rankBranches :: "time_branch list \<Rightarrow> (time_branch \<times> rat) list" where
  "rankBranches bs = sort_desc snd (map (\<lambda>b. (b, computeBranchWeight b)) bs)"

definition weight_shape :: "rat \<Rightarrow> rat \<Rightarrow> asymmetry_shape" where
  "weight_shape topShare secondShare =
     (if topShare \<ge> fl (7 / 10) then SingleDominant
      else if topShare \<le> fl (2 / 5) then Balanced
      else if topShare \<ge> fl (3 / 10) \<and> secondShare \<ge> fl (3 / 10) then BiModal
      else Scattered)"

definition computeTimeWeaveAsymmetry :: "time_branch list \<Rightarrow> weave_asymmetry" where
  "computeTimeWeaveAsymmetry bs =
     (let branchCount = length bs
      in if branchCount = 0 then \<lparr>concentration = 0, shape = Balanced, as_branchCount = branchCount\<rparr>
         else
           let weights = map snd (rankBranches bs);
               top = (if weights \<noteq> [] then weights ! 0 else 0);
               second = (if length weights > 1 then weights ! 1 else 0);
               total = fl_sum weights
           in if branchCount = 1 then \<lparr>concentration = 1, shape = SingleDominant, as_branchCount = branchCount\<rparr>
              else if total \<le> 0 then \<lparr>concentration = 0, shape = Balanced, as_branchCount = branchCount\<rparr>
              else
                let conc = fl (top / total)
                in \<lparr>concentration = number_to_fixed 4 conc, shape = weight_shape conc (fl (second / total)),
                    as_branchCount = branchCount\<rparr>)"

definition findDominantBranch :: "time_branch list \<Rightarrow> time_branch option" where
  "findDominantBranch bs = (case rankBranches bs of [] \<Rightarrow> None | (b, k) # rest \<Rightarrow> Some b)"

definition collapsed :: "collapse_mode \<Rightarrow> time_branch option \<Rightarrow> string \<Rightarrow> collapse_signal" where
  "collapsed mode branch reason =
     \<lparr>hasCollapsed = True, collapse_mode = mode, dominantBranchId = map_option branch_thread branch, collapse_reason = reason\<rparr>"

text \<open>The dash in the last reason has no 8-bit code unit; its UTF-8 bytes stand for it.\<close>

definition detectBranchCollapse :: "weave_asymmetry \<Rightarrow> time_branch list \<Rightarrow> weave_summary option \<Rightarrow> collapse_signal" where
  "detectBranchCollapse asymm bs previousSummary =
     (let branchCount = as_branchCount asymm; dominant = findDominantBranch bs;
          previousAsymmetry = Option.bind previousSummary summary_asymmetry;
          conc = concentration asymm
      in if branchCount \<le> 0 then collapsed HardCollapse None ''no active branches present''
         else if branchCount = 1 then collapsed HardCollapse dominant ''single branch present''
         else if conc \<ge> fl (4 / 5) then collapsed HardCollapse dominant ''single branch dominates probability mass''
         else
           let concentrationRise = (case previousAsymmetry of Some p \<Rightarrow> fl (conc - concentration p) | None \<Rightarrow> 0);
               branchDrop = (case previousAsymmetry of Some p \<Rightarrow> as_branchCount p > branchCount | None \<Rightarrow> False)
           in if conc \<ge> fl (3 / 5) \<and> conc < fl (4 / 5) \<and> (concentrationRise > fl (3 / 20) \<or> branchDrop)
              then collapsed SoftMerge dominant
                     (if branchDrop then ''branches merged into a dominant path''
                      else ''dominant branch gaining rapid concentration'')
              else \<lparr>hasCollapsed = False, collapse_mode = NoCollapse, dominantBranchId = None,
                    collapse_reason = ''no collapse'' @ [CHR 0x20, CHR 0xE2, CHR 0x80, CHR 0x94] @ '' distribution still balanced''\<rparr>)"

section \<open>Summary and depth\<close>

definition toTimestamp :: "(string \<Rightarrow> rat option) \<Rightarrow> time_tick \<Rightarrow> rat option" where
  "toTimestamp dateParse tick =
     (case tick of
        TickNum t \<Rightarrow> Some t
      | TickStr s \<Rightarrow> (case to_number s of Finite x \<Rightarrow> Some x | _ \<Rightarrow> dateParse s))"

definition widen :: "rat \<Rightarrow> (rat \<times> rat) option \<Rightarrow> (rat \<times> rat) option" where
  "widen t extent =
     (case extent of
        None \<Rightarrow> Some (t, t)
      | Some (lo, hi) \<Rightarrow> Some (if t < lo then t else lo, if t > hi then t else hi))"

definition TARGET_TIME_SPAN_MS :: rat where "TARGET_TIME_SPAN_MS = 60 * 60 * 1000"

definition weave_depth :: "nat \<Rightarrow> nat \<Rightarrow> rat \<Rightarrow> rat" where
  "weave_depth branchCount eventCount extent =
     (let branchFactor = clamp_unit (fl (of_nat branchCount / 12));
          eventsFactor = clamp_unit (fl (of_nat eventCount / 100));
          spanFactor = clamp_unit (fl (extent / TARGET_TIME_SPAN_MS))
      in fl (fl (fl (branchFactor * fl (2 / 5)) + fl (eventsFactor * fl (2 / 5))) + fl (spanFactor * fl (1 / 5))))"

definition computeTimeWeaveSummary ::
  "(string \<Rightarrow> rat option) \<Rightarrow> time_weave \<Rightarrow> weave_summary option \<Rightarrow> weave_summary" where
  "computeTimeWeaveSummary dateParse w previousSummary =
     (let bs = weave_branches w;
          allNodes = concat (map nodes bs);
          stamps = List.map_filter (\<lambda>n. toTimestamp dateParse (node_tick n)) allNodes;
          extent = (case fold widen stamps None of None \<Rightarrow> 0 | Some (lo, hi) \<Rightarrow> if hi \<ge> lo then fl (hi - lo) else 0);
          asymm = computeTimeWeaveAsymmetry bs
      in \<lparr>depthScore = weave_depth (length bs) (length allNodes) extent, branchesCount = length bs,
          eventsCount = length allNodes, timeSpanMs = extent, summary_asymmetry = Some asymm,
          summary_collapse = Some (detectBranchCollapse asymm bs previousSummary)\<rparr>)"

record weave_meta =
  totalDepth :: nat
  meta_branchCount :: nat
  avgBranchLength :: rat
  maxBranchLength :: nat
  complexityScore :: rat
  focusMomentum :: rat

definition computeBranchFocusMomentum :: "time_branch \<Rightarrow> rat" where
  "computeBranchFocusMomentum branch =
     (let ns = map intensity (slice_last MOMENTUM_WINDOW (nodes branch))
      in if length ns < 2 then 0
         else
           let delta = fl (last ns - hd ns);
               consecutiveDiffs = map abs (deltas ns);
               volatility = fl (fl_sum consecutiveDiffs / of_nat (max (length consecutiveDiffs) 1));
               magnitude = clamp_unit \<bar>delta\<bar>;
               stability = fl (1 - clamp_unit (fl (volatility / (1 / 2))))
           in clamp_unit (fl (fl (magnitude * fl (7 / 10)) + fl (stability * fl (3 / 10)))))"

definition TOP_BRANCHES :: nat where "TOP_BRANCHES = 4"

definition computeTimeWeaveMeta :: "(string \<Rightarrow> rat option) \<Rightarrow> time_weave \<Rightarrow> weave_meta" where
  "computeTimeWeaveMeta dateParse w =
     (let bs = weave_branches w;
          branchLengths = map (\<lambda>b. length (nodes b)) bs;
          branchMomentum = take TOP_BRANCHES (sort_desc snd (filter (\<lambda>(s, k). k > 0)
            (map (\<lambda>b. (computeBranchFocusMomentum b, of_nat (max (length (nodes b)) 1))) bs)));
          totalWeight = fl_sum (map snd branchMomentum);
          weightedScore = fl_sum (map (\<lambda>(s, k). fl (s * k)) branchMomentum)
      in \<lparr>totalDepth = sum_list branchLengths, meta_branchCount = length bs,
          avgBranchLength = (if bs \<noteq> [] then fl (of_nat (sum_list branchLengths) / of_nat (length bs)) else 0),
          maxBranchLength = fold max branchLengths 0,
          complexityScore = depthScore (computeTimeWeaveSummary dateParse w None),
          focusMomentum = (if totalWeight > 0 then clamp_unit (fl (weightedScore / totalWeight)) else 0)\<rparr>)"

section \<open>Anchors\<close>

text \<open>
  Anchoring of orientation events in the time weave (\<open>sdk/js/src/timeAnchors\<close>). An event without
  timestamp reads the clock, which is a parameter, given per event.
\<close>

record orientation_event =
  ev_sectorId :: string
  ev_threadId :: "string option"
  ev_activationLevel :: "js_number option"
  ev_timestamp :: "time_tick option"
  ev_phaseHint :: "string option"

text \<open>The web of the context is not read.\<close>

record anchor_context =
  ctx_weave :: time_weave
  ctx_defaultIntensity :: "js_number option"
  ctx_defaultPhase :: "time_phase option"

record anchor_result =
  ar_weave :: time_weave
  ar_anchorNode :: time_node
  ar_branch :: time_branch

definition clampActivation :: "js_number \<Rightarrow> rat" where
  "clampActivation v = (case v of Finite x \<Rightarrow> if x < 0 then 0 else if x > 1 then 1 else x | _ \<Rightarrow> 1 / 2)"

definition normalizePhase :: "string option \<Rightarrow> time_phase \<Rightarrow> time_phase" where
  "normalizePhase phaseHint defaultPhase =
     (if phaseHint = Some ''emerging'' then Emerging
      else if phaseHint = Some ''declining'' then Declining
      else if phaseHint = Some ''dormant'' then Dormant
      else if phaseHint = Some ''stable'' then Stable
      else defaultPhase)"

definition resolveTick :: "rat \<Rightarrow> time_tick option \<Rightarrow> time_tick" where
  "resolveTick now timestamp = (case timestamp of None \<Rightarrow> TickNum now | Some t \<Rightarrow> t)"

definition resolveThreadIdForSector :: "orientation_event \<Rightarrow> string" where
  "resolveThreadIdForSector e =
     (case ev_threadId e of Some t \<Rightarrow> if t \<noteq> [] then t else ev_sectorId e | None \<Rightarrow> ev_sectorId e)"

definition tick_str :: "time_tick \<Rightarrow> string" where
  "tick_str t = (case t of TickNum x \<Rightarrow> num_str x | TickStr s \<Rightarrow> s)"

definition buildTimeNodeFromEvent :: "rat \<Rightarrow> orientation_event \<Rightarrow> anchor_context \<Rightarrow> time_node" where
  "buildTimeNodeFromEvent now e ctx =
     (let tick = resolveTick now (ev_timestamp e);
          level = clampActivation
            (case ev_activationLevel e of Some a \<Rightarrow> a
             | None \<Rightarrow> (case ctx_defaultIntensity ctx of Some a \<Rightarrow> a | None \<Rightarrow> Finite (1 / 2)));
          ph = normalizePhase (ev_phaseHint e) (case ctx_defaultPhase ctx of Some p \<Rightarrow> p | None \<Rightarrow> Stable)
      in \<lparr>node_id = resolveThreadIdForSector e @ ''-'' @ tick_str tick, node_tick = tick, intensity = level, node_phase = ph\<rparr>)"

definition anchorEventToWeave :: "rat \<Rightarrow> orientation_event \<Rightarrow> anchor_context \<Rightarrow> anchor_result result" where
  "anchorEventToWeave now e ctx =
     (let threadId = resolveThreadIdForSector e;
          node = buildTimeNodeFromEvent now e ctx;
          updatedWeave = appendNodeToBranch (ctx_weave ctx) threadId node
      in case getBranch updatedWeave threadId of
           None \<Rightarrow> Inl (''Failed to anchor event for threadId '' @ threadId)
         | Some branch \<Rightarrow> Inr \<lparr>ar_weave = updatedWeave, ar_anchorNode = node, ar_branch = branch\<rparr>)"

definition anchorEventsBatch :: "(orientation_event \<times> rat) list \<Rightarrow> anchor_context \<Rightarrow> time_weave result" where
  "anchorEventsBatch events ctx =
     foldl (\<lambda>current (e, now). bindr current (\<lambda>w.
              bindr (anchorEventToWeave now e (ctx\<lparr>ctx_weave := w\<rparr>)) (\<lambda>r. Inr (ar_weave r))))
       (Inr (ctx_weave ctx)) events"

end
