(* ===== verification/Weave_Store.thy ===== *)
theory Weave_Store
  imports Time_Weave
begin

text \<open>
  The weave as a store of branches. \<open>keyed_store\<close> is the contract of a store that is read by key and
  written by value; what a sequence of updates leaves under a key is proved once from that contract.
  The weave provides it, and anchoring of events is such a sequence: no branch and no node is lost,
  intensities stay between 0 and 1, and the nodes of a branch stay sorted as long as its ticks are all
  numbers or all strings.
\<close>

section \<open>Stores read by key\<close>

locale keyed_store =
  fixes get :: "'w \<Rightarrow> 'k \<Rightarrow> 'v option" and put :: "'w \<Rightarrow> 'v \<Rightarrow> 'w" and key :: "'v \<Rightarrow> 'k" and inv :: "'w \<Rightarrow> bool"
  assumes get_put: "inv w \<Longrightarrow> get (put w v) k = (if k = key v then Some v else get w k)"
    and inv_put: "inv w \<Longrightarrow> inv (put w v)"
begin

text \<open>An update under a key reads what is there and writes a value with that key.\<close>

lemma updates_under_key:
  assumes "inv w" and "\<forall>(k, f) \<in> set us. \<forall>v. key (f v) = k"
  shows "inv (fold (\<lambda>(k, f) w. put w (f (get w k))) us w) \<and>
    get (fold (\<lambda>(k, f) w. put w (f (get w k))) us w) k =
      fold (\<lambda>f v. Some (f v)) (map snd (filter (\<lambda>(k', f). k' = k) us)) (get w k)"
  using assms
proof (induction us arbitrary: w)
  case (Cons u us)
  obtain k' f where u: "u = (k', f)" by (cases u)
  let ?w = "put w (f (get w k'))"
  have "inv ?w" "get ?w k = (if k = k' then Some (f (get w k')) else get w k)"
    using Cons.prems by (simp_all add: u get_put inv_put)
  then show ?case using Cons.IH [of ?w] Cons.prems(2) by (auto simp: u)
qed simp

end

section \<open>The weave\<close>

definition distinct_branches :: "time_weave \<Rightarrow> bool" where
  "distinct_branches w \<longleftrightarrow> distinct (map branch_thread (weave_branches w))"

lemma find_index_Some: "find_index P xs = Some i \<Longrightarrow> i < length xs \<and> P (xs ! i) \<and> (\<forall>j < i. \<not> P (xs ! j))"
proof (induction xs arbitrary: i)
  case (Cons x xs)
  then show ?case by (auto simp: less_Suc_eq_0_disj split: if_splits)
qed simp

lemma find_index_None: "find_index P xs = None \<longleftrightarrow> (\<forall>x \<in> set xs. \<not> P x)"
  by (induction xs) auto

lemma find_update:
  assumes "distinct (map k xs)" and "i < length xs" and "k (xs ! i) = k v"
  shows "find (\<lambda>x. k x = a) (xs[i := v]) = (if a = k v then Some v else find (\<lambda>x. k x = a) xs)"
  using assms
proof (induction xs arbitrary: i)
  case (Cons x xs)
  show ?case
  proof (cases i)
    case 0
    then show ?thesis using Cons.prems by simp
  next
    case (Suc j)
    then have j: "j < length xs" "k (xs ! j) = k v" using Cons.prems by simp_all
    then have "k v \<in> k ` set xs" by (metis image_eqI nth_mem)
    then have "k x \<noteq> k v" using Cons.prems(1) by auto
    then show ?thesis using Cons.IH [of j] Cons.prems Suc by auto
  qed
qed simp

lemma getBranch_upsert:
  assumes "distinct_branches w"
  shows "getBranch (upsertBranch w b) t = (if t = branch_thread b then Some b else getBranch w t)"
proof (cases "find_index (\<lambda>item. branch_thread item = branch_thread b) (weave_branches w)")
  case None
  then have "find (\<lambda>x. branch_thread x = branch_thread b) (weave_branches w) = None"
    by (simp add: find_index_None find_None_iff)
  moreover have "find P (xs @ [x]) = (case find P xs of None \<Rightarrow> if P x then Some x else None | Some y \<Rightarrow> Some y)" for P and xs :: "time_branch list" and x
    by (induction xs) auto
  ultimately show ?thesis using None by (auto simp: upsertBranch_def getBranch_def split: option.split)
next
  case (Some i)
  then show ?thesis
    using find_index_Some [OF Some] find_update [of branch_thread "weave_branches w" i b t] assms
    by (simp add: upsertBranch_def getBranch_def distinct_branches_def)
qed

lemma distinct_upsert: "distinct_branches w \<Longrightarrow> distinct_branches (upsertBranch w b)"
proof (cases "find_index (\<lambda>item. branch_thread item = branch_thread b) (weave_branches w)")
  case None
  moreover have "\<forall>x \<in> set (weave_branches w). branch_thread x \<noteq> branch_thread b"
    using None by (simp add: find_index_None)
  moreover assume "distinct_branches w"
  ultimately show ?thesis by (auto simp: upsertBranch_def distinct_branches_def)
next
  case (Some i)
  moreover assume "distinct_branches w"
  moreover have "map branch_thread ((weave_branches w)[i := b]) = map branch_thread (weave_branches w)"
    using find_index_Some [OF Some] by (metis list_update_id map_update nth_map)
  ultimately show ?thesis by (simp add: upsertBranch_def distinct_branches_def)
qed

interpretation weave: keyed_store getBranch upsertBranch branch_thread distinct_branches
  by unfold_locales (simp_all add: getBranch_upsert distinct_upsert)

section \<open>Anchoring\<close>

text \<open>Ticks that can be ordered with each other: all numbers or all strings.\<close>

definition same_kind :: "bool \<Rightarrow> time_tick \<Rightarrow> bool" where
  "same_kind num t \<longleftrightarrow> (case t of TickNum x \<Rightarrow> num | TickStr s \<Rightarrow> \<not> num)"

definition tick_sorted :: "time_node list \<Rightarrow> bool" where
  "tick_sorted ns \<longleftrightarrow> sorted_wrt (\<lambda>a b. \<not> tick_less (node_tick b) (node_tick a)) ns"

definition unit_node :: "time_node \<Rightarrow> bool" where
  "unit_node n \<longleftrightarrow> 0 \<le> intensity n \<and> intensity n \<le> 1"

definition good_nodes :: "bool \<Rightarrow> time_node list \<Rightarrow> bool" where
  "good_nodes num ns \<longleftrightarrow> tick_sorted ns \<and> (\<forall>n \<in> set ns. same_kind num (node_tick n) \<and> unit_node n)"

definition wf_weave :: "time_weave \<Rightarrow> bool" where
  "wf_weave w \<longleftrightarrow> distinct_branches w \<and> (\<forall>b \<in> set (weave_branches w). \<forall>n \<in> set (nodes b). unit_node n)"

text \<open>A branch whose ticks are of one kind, in order.\<close>

definition ordered_branch :: "bool \<Rightarrow> time_branch option \<Rightarrow> bool" where
  "ordered_branch num b \<longleftrightarrow> (\<forall>b'. b = Some b' \<longrightarrow> good_nodes num (nodes b'))"

definition branch_nodes :: "time_weave \<Rightarrow> string \<Rightarrow> time_node multiset" where
  "branch_nodes w t = (case getBranch w t of None \<Rightarrow> {#} | Some b \<Rightarrow> mset (nodes b))"

lemma number_cmp_consistent: "consistent_cmp (\<lambda>a b. if f a < f b then - 1 else if f b < f a then 1 else 0)"
  for f :: "'a \<Rightarrow> 'b :: linorder"
  by (auto simp: consistent_cmp_def)

lemma sorted_nodes:
  assumes "\<forall>n \<in> set ns. same_kind num (node_tick n)"
  shows "tick_sorted (sortNodesByTick ns)"
proof (cases num)
  case True
  let ?f = "\<lambda>n. case node_tick n of TickNum x \<Rightarrow> x | TickStr s \<Rightarrow> 0"
  let ?c = "\<lambda>a b. if ?f a < ?f b then - 1 else if ?f b < ?f a then 1 else 0 :: int"
  have eq: "tick_cmp a b = ?c a b" if "a \<in> set ns" "b \<in> set ns" for a b
    using assms True that by (auto simp: tick_cmp_def same_kind_def split: time_tick.splits)
  have "sorted_wrt (\<lambda>a b. ?c a b \<le> 0) (sort_by tick_cmp ns)"
    using sorted_sort_by [OF number_cmp_consistent [of ?f] eq] by simp
  then show ?thesis
    unfolding tick_sorted_def sortNodesByTick_def
    by (rule sorted_wrt_mono_rel [rotated]) (use assms True in \<open>auto simp: same_kind_def split: time_tick.splits if_splits\<close>)
next
  case False
  let ?f = "\<lambda>n. case node_tick n of TickNum x \<Rightarrow> [] | TickStr s \<Rightarrow> s"
  let ?c = "\<lambda>a b. if ?f a < ?f b then - 1 else if ?f b < ?f a then 1 else 0 :: int"
  have eq: "tick_cmp a b = ?c a b" if "a \<in> set ns" "b \<in> set ns" for a b
    using assms False that by (auto simp: tick_cmp_def same_kind_def split: time_tick.splits)
  have "sorted_wrt (\<lambda>a b. ?c a b \<le> 0) (sort_by tick_cmp ns)"
    using sorted_sort_by [OF number_cmp_consistent [of ?f] eq] by simp
  then show ?thesis
    unfolding tick_sorted_def sortNodesByTick_def
    by (rule sorted_wrt_mono_rel [rotated]) (use assms False in \<open>auto simp: same_kind_def split: time_tick.splits if_splits\<close>)
qed

definition add_node :: "string \<Rightarrow> time_node \<Rightarrow> time_branch option \<Rightarrow> time_branch" where
  "add_node t n b =
     \<lparr>branch_thread = t,
      nodes = (case b of None \<Rightarrow> [n\<lparr>intensity := clampIntensity (intensity n)\<rparr>]
               | Some b \<Rightarrow> sortNodesByTick (nodes b @ [n\<lparr>intensity := clampIntensity (intensity n)\<rparr>]))\<rparr>"

lemma append_is_update: "appendNodeToBranch w t n = upsertBranch w (add_node t n (getBranch w t))"
  by (simp add: appendNodeToBranch_def add_node_def Let_def split: option.split)

lemma branch_thread_add_node [simp]: "branch_thread (add_node t n b) = t"
  by (simp add: add_node_def)

definition event_update :: "anchor_context \<Rightarrow> orientation_event \<times> rat \<Rightarrow> string \<times> (time_branch option \<Rightarrow> time_branch)" where
  "event_update ctx en =
     (resolveThreadIdForSector (fst en), add_node (resolveThreadIdForSector (fst en)) (buildTimeNodeFromEvent (snd en) (fst en) ctx))"

lemma built_node_context [simp]: "buildTimeNodeFromEvent now e (ctx\<lparr>ctx_weave := w\<rparr>) = buildTimeNodeFromEvent now e ctx"
  by (simp add: buildTimeNodeFromEvent_def split: option.split)

lemma built_node_unit: "unit_node (buildTimeNodeFromEvent now e ctx)"
  by (simp add: buildTimeNodeFromEvent_def unit_node_def clampActivation_def Let_def split: js_number.split)

lemma anchor_step:
  assumes "distinct_branches w"
  shows "bindr (anchorEventToWeave now e (ctx\<lparr>ctx_weave := w\<rparr>)) (\<lambda>r. Inr (ar_weave r)) =
    Inr ((\<lambda>(k, f). upsertBranch w (f (getBranch w k))) (event_update ctx (e, now)))"
  using assms by (simp add: anchorEventToWeave_def append_is_update getBranch_upsert event_update_def bindr_def Let_def)

lemma batch_snoc:
  "anchorEventsBatch (es @ [(e, now)]) ctx =
     bindr (anchorEventsBatch es ctx) (\<lambda>w. bindr (anchorEventToWeave now e (ctx\<lparr>ctx_weave := w\<rparr>)) (\<lambda>r. Inr (ar_weave r)))"
  by (simp add: anchorEventsBatch_def)

lemma event_update_keys: "\<forall>(k, f) \<in> set (map (event_update ctx) es). \<forall>v. branch_thread (f v) = k"
  by (auto simp: event_update_def)

lemma batch_is_updates:
  assumes "distinct_branches (ctx_weave ctx)"
  shows "anchorEventsBatch es ctx =
    Inr (fold (\<lambda>(k, f) w. upsertBranch w (f (getBranch w k))) (map (event_update ctx) es) (ctx_weave ctx))"
proof (induction es rule: rev_induct)
  case Nil
  then show ?case by (simp add: anchorEventsBatch_def)
next
  case (snoc en es)
  obtain e now where en: "en = (e, now)" by (cases en)
  let ?w = "fold (\<lambda>(k, f) w. upsertBranch w (f (getBranch w k))) (map (event_update ctx) es) (ctx_weave ctx)"
  have "distinct_branches ?w" using weave.updates_under_key [OF assms event_update_keys] by blast
  moreover obtain k f where kf: "event_update ctx (e, now) = (k, f)" by (cases "event_update ctx (e, now)")
  ultimately show ?case
    using anchor_step [of ?w now e ctx] by (simp add: en batch_snoc snoc bindr_def kf)
qed

text \<open>What one update and then a sequence of them does to the nodes of a branch.\<close>

lemma clampIntensity_unit: "unit_node n \<Longrightarrow> n\<lparr>intensity := clampIntensity (intensity n)\<rparr> = n"
  by (auto simp: unit_node_def clampIntensity_def)

lemma mset_add_node:
  "unit_node n \<Longrightarrow> mset (nodes (add_node t n b)) = (case b of None \<Rightarrow> {#} | Some b' \<Rightarrow> mset (nodes b')) + {#n#}"
  by (simp add: add_node_def clampIntensity_unit sortNodesByTick_def split: option.split)

lemma add_node_nodes:
  assumes "unit_node n" and "same_kind num (node_tick n)" and "ordered_branch num b"
  shows "ordered_branch num (Some (add_node t n b))"
proof (cases b)
  case None
  then show ?thesis using assms by (simp add: add_node_def clampIntensity_unit good_nodes_def tick_sorted_def ordered_branch_def)
next
  case (Some b')
  have all: "\<forall>m \<in> set (nodes b' @ [n]). same_kind num (node_tick m) \<and> unit_node m"
    using assms Some by (auto simp: good_nodes_def ordered_branch_def)
  then have "tick_sorted (sortNodesByTick (nodes b' @ [n]))" by (intro sorted_nodes) blast
  then show ?thesis
    using all Some assms(1) by (auto simp: add_node_def clampIntensity_unit good_nodes_def sortNodesByTick_def ordered_branch_def)
qed

definition events_of :: "anchor_context \<Rightarrow> string \<Rightarrow> (orientation_event \<times> rat) list \<Rightarrow> time_node list" where
  "events_of ctx t es =
     map (\<lambda>(e, now). buildTimeNodeFromEvent now e ctx) (filter (\<lambda>(e, now). resolveThreadIdForSector e = t) es)"

definition updated :: "anchor_context \<Rightarrow> string \<Rightarrow> (orientation_event \<times> rat) list \<Rightarrow> time_branch option \<Rightarrow> time_branch option" where
  "updated ctx t es b = fold (\<lambda>f v. Some (f v)) (map snd (filter (\<lambda>(k', f). k' = t) (map (event_update ctx) es))) b"

lemma updated_simps [simp]:
  "updated ctx t [] b = b"
  "updated ctx t ((e, now) # es) b = updated ctx t es
     (if resolveThreadIdForSector e = t then Some (add_node t (buildTimeNodeFromEvent now e ctx) b) else b)"
  by (auto simp: updated_def event_update_def)

lemma updated_mset:
  "(case updated ctx t es b of None \<Rightarrow> {#} | Some c \<Rightarrow> mset (nodes c)) =
     (case b of None \<Rightarrow> {#} | Some c \<Rightarrow> mset (nodes c)) + mset (events_of ctx t es)"
proof (induction es arbitrary: b)
  case (Cons en es)
  obtain e now where en: "en = (e, now)" by (cases en)
  show ?case
    using Cons [of "Some (add_node t (buildTimeNodeFromEvent now e ctx) b)"] Cons [of b] mset_add_node [OF built_node_unit, of t now e ctx b]
    by (simp add: en events_of_def add_ac)
qed (simp add: events_of_def)

lemma updated_ordered:
  assumes "ordered_branch num b"
    and "\<forall>(e, now) \<in> set es. resolveThreadIdForSector e = t \<longrightarrow> same_kind num (resolveTick now (ev_timestamp e))"
  shows "ordered_branch num (updated ctx t es b)"
  using assms
proof (induction es arbitrary: b)
  case (Cons en es)
  obtain e now where en: "en = (e, now)" by (cases en)
  have "node_tick (buildTimeNodeFromEvent now e ctx) = resolveTick now (ev_timestamp e)"
    by (simp add: buildTimeNodeFromEvent_def Let_def)
  then show ?case using Cons add_node_nodes [OF built_node_unit _ Cons.prems(1)] by (simp add: en)
qed simp

lemma getBranch_mem: "getBranch w t = Some b \<Longrightarrow> b \<in> set (weave_branches w)"
  by (metis find_Some_iff getBranch_def nth_mem)

lemma mem_getBranch: "distinct_branches w \<Longrightarrow> b \<in> set (weave_branches w) \<Longrightarrow> getBranch w (branch_thread b) = Some b"
  unfolding getBranch_def distinct_branches_def
proof (induction "weave_branches w" arbitrary: w)
  case (Cons x xs)
  then show ?case by (metis (mono_tags, lifting) find.simps(2) image_eqI distinct.simps(2) list.set_map list.simps(9) set_ConsD time_weave.select_convs(1))
qed simp

lemma wf_weave_get:
  "distinct_branches w \<Longrightarrow> wf_weave w \<longleftrightarrow> (\<forall>t. \<forall>n \<in># branch_nodes w t. unit_node n)"
proof -
  assume d: "distinct_branches w"
  show ?thesis
  proof
    assume "wf_weave w"
    then show "\<forall>t. \<forall>n \<in># branch_nodes w t. unit_node n"
      using getBranch_mem by (auto simp: wf_weave_def branch_nodes_def split: option.splits)
  next
    assume r: "\<forall>t. \<forall>n \<in># branch_nodes w t. unit_node n"
    have "unit_node n" if "b \<in> set (weave_branches w)" "n \<in> set (nodes b)" for b n
      using r [rule_format, of n "branch_thread b"] that mem_getBranch [OF d that(1)] by (simp add: branch_nodes_def)
    with d show "wf_weave w" by (simp add: wf_weave_def)
  qed
qed

text \<open>C31: anchoring events in a weave. For a weave with one branch per thread and intensities between 0
  and 1, a batch of any events never throws, the resulting weave is of the same form, and the nodes of
  every thread are those it had and one for each event that resolves to it: none is lost, none is added
  elsewhere. The nodes of a thread whose ticks are all numbers or all strings, those it had and those of
  the events that resolve to it, are sorted afterwards when they were sorted before.\<close>

theorem anchoring_complete:
  assumes "wf_weave (ctx_weave ctx)"
  shows "\<exists>w. anchorEventsBatch es ctx = Inr w \<and> wf_weave w \<and>
    (\<forall>t. branch_nodes w t = branch_nodes (ctx_weave ctx) t + mset (events_of ctx t es)) \<and>
    (\<forall>t num. ordered_branch num (getBranch (ctx_weave ctx) t) \<and>
       (\<forall>(e, now) \<in> set es. resolveThreadIdForSector e = t \<longrightarrow> same_kind num (resolveTick now (ev_timestamp e))) \<longrightarrow>
       ordered_branch num (getBranch w t))"
proof -
  have d: "distinct_branches (ctx_weave ctx)" using assms(1) by (simp add: wf_weave_def)
  define w where "w = fold (\<lambda>(k, f) w. upsertBranch w (f (getBranch w k))) (map (event_update ctx) es) (ctx_weave ctx)"
  have u: "distinct_branches w" "getBranch w t = updated ctx t es (getBranch (ctx_weave ctx) t)" for t
    using weave.updates_under_key [OF d event_update_keys [of ctx es], folded w_def] by (auto simp: updated_def)
  have n: "branch_nodes w t = branch_nodes (ctx_weave ctx) t + mset (events_of ctx t es)" for t
    using updated_mset [of ctx t es "getBranch (ctx_weave ctx) t"] by (simp add: branch_nodes_def u(2))
  have "unit_node m" if "m \<in> set (events_of ctx t es)" for m t
    using that built_node_unit by (auto simp: events_of_def)
  then have "wf_weave w"
    using wf_weave_get [OF u(1)] wf_weave_get [OF d] assms n by auto
  then show ?thesis
    using n batch_is_updates [OF d, of es] updated_ordered u(2) by (intro exI [of _ w]) (simp add: w_def [symmetric])
qed

definition tick_event :: "time_tick \<Rightarrow> orientation_event" where
  "tick_event t =
     \<lparr>ev_sectorId = ''s'', ev_threadId = None, ev_activationLevel = Some (Finite 2), ev_timestamp = Some t, ev_phaseHint = None\<rparr>"

definition empty_context :: anchor_context where
  "empty_context = \<lparr>ctx_weave = createEmptyWeave, ctx_defaultIntensity = None, ctx_defaultPhase = None\<rparr>"

theorem anchoring_complete_witness:
  "\<exists>w. anchorEventsBatch [(tick_event (TickNum 5), 9), (tick_event (TickNum 3), 9)] empty_context = Inr w \<and> wf_weave w \<and>
    ordered_branch True (getBranch w ''s'') \<and> size (branch_nodes w ''s'') = 2"
proof -
  have "wf_weave (ctx_weave empty_context)" "getBranch (ctx_weave empty_context) t = None" "branch_nodes (ctx_weave empty_context) t = {#}" for t
    by (simp_all add: wf_weave_def createEmptyWeave_def distinct_branches_def empty_context_def getBranch_def branch_nodes_def)
  moreover have "resolveThreadIdForSector (tick_event t) = ''s''" for t
    by (simp add: resolveThreadIdForSector_def tick_event_def)
  ultimately show ?thesis
    using anchoring_complete [of empty_context "[(tick_event (TickNum 5), 9), (tick_event (TickNum 3), 9)]"]
    by (fastforce simp: same_kind_def resolveTick_def tick_event_def ordered_branch_def events_of_def)
qed

text \<open>With ticks of both kinds the comparison is no order: a string equals two numbers that differ, so what
  the sort leaves is up to the engine.\<close>

lemma mixed_ticks_no_order: "\<not> consistent_cmp tick_cmp"
proof
  fix n :: time_node
  let ?n = "\<lambda>t. n\<lparr>node_tick := t\<rparr>"
  assume c: "consistent_cmp tick_cmp"
  have x: "to_number ''x'' = NotANumber" by code_simp
  have "tick_cmp (?n (TickNum 5)) (?n (TickStr ''x'')) = 0" "tick_cmp (?n (TickStr ''x'')) (?n (TickNum 3)) = 0"
    "tick_cmp (?n (TickNum 5)) (?n (TickNum 3)) = 1"
    by (simp_all add: tick_cmp_def x)
  then show False using c unfolding consistent_cmp_def by (metis le_numeral_extra(3) not_one_le_zero)
qed

end
