(* ===== verification/Orientation_Web.thy ===== *)
theory Orientation_Web
  imports JS_Math
begin

text \<open>
  The orientation shell and the orientation web (\<open>sdk/js/src/orientation\<close>): sectors with tension,
  pull and resonance, the updates that move them, and the choice of the dominant sector. Sector
  identifiers that name properties of \<open>Object.prototype\<close> are outside the model: reading such a name
  from the object of sectors finds the inherited property.
\<close>

section \<open>Shell\<close>

record orientation_state =
  os_activeSectorId :: string
  os_direction :: string
  os_rotation :: rat
  os_confidence :: rat

definition ORIENTATION_BASELINE :: orientation_state where
  "ORIENTATION_BASELINE = \<lparr>os_activeSectorId = ''self'', os_direction = ''neutral'', os_rotation = 0, os_confidence = fl (2 / 5)\<rparr>"

text \<open>A partial state; a property that is \<open>undefined\<close> or absent is \<open>None\<close>, and numbers may be \<open>NaN\<close>.\<close>

record partial_state =
  ps_activeSectorId :: "string option"
  ps_direction :: "string option"
  ps_rotation :: "js_number option"
  ps_confidence :: "js_number option"

definition no_partial :: partial_state where
  "no_partial = \<lparr>ps_activeSectorId = None, ps_direction = None, ps_rotation = None, ps_confidence = None\<rparr>"

record shell_state =
  sh_activeSectorId :: string
  sh_direction :: string
  sh_rotation :: js_number
  sh_confidence :: js_number

definition nonempty_or :: "string option \<Rightarrow> string \<Rightarrow> string" where
  "nonempty_or v d = (case v of Some s \<Rightarrow> if s \<noteq> [] then s else d | None \<Rightarrow> d)"

definition number_or :: "js_number option \<Rightarrow> rat \<Rightarrow> js_number" where
  "number_or v d = (case v of Some x \<Rightarrow> if x = NotANumber then Finite d else x | None \<Rightarrow> Finite d)"

definition normalizeOrientation :: "partial_state \<Rightarrow> shell_state" where
  "normalizeOrientation state =
     \<lparr>sh_activeSectorId = nonempty_or (ps_activeSectorId state) ''self'',
      sh_direction = nonempty_or (ps_direction state) (os_direction ORIENTATION_BASELINE),
      sh_rotation = number_or (ps_rotation state) 0,
      sh_confidence = number_or (ps_confidence state) (os_confidence ORIENTATION_BASELINE)\<rparr>"

definition createOrientationShell :: "partial_state option \<Rightarrow> shell_state" where
  "createOrientationShell params = normalizeOrientation (case params of Some p \<Rightarrow> p | None \<Rightarrow> no_partial)"

section \<open>Sectors\<close>

datatype orientation_phase = PhaseRising | PhaseStable | PhaseFalling

record web_sector =
  sector_id :: string
  tension :: rat
  pull :: rat
  resonance :: rat
  sector_phase :: orientation_phase

text \<open>The object of sectors lists its properties in the order of the language.\<close>

record orientation_web =
  web_sectors :: "(string \<times> web_sector) list"
  activeSectorId :: string

record web_update =
  up_sectorId :: string
  deltaTension :: "js_number option"
  deltaPull :: "js_number option"
  deltaResonance :: "js_number option"
  newPhase :: "orientation_phase option"

definition clamp_finite :: "js_number \<Rightarrow> rat" where
  "clamp_finite v = (case v of Finite x \<Rightarrow> if x < 0 then 0 else if x > 1 then 1 else x | _ \<Rightarrow> 0)"

definition createDefaultSector :: "string \<Rightarrow> web_sector" where
  "createDefaultSector i = \<lparr>sector_id = i, tension = 0, pull = 0, resonance = 0, sector_phase = PhaseStable\<rparr>"

text \<open>An initial sector may lack any of its properties.\<close>

record partial_sector =
  pa_id :: "string option"
  pa_tension :: "js_number option"
  pa_pull :: "js_number option"
  pa_resonance :: "js_number option"
  pa_phase :: "orientation_phase option"

definition level_or :: "js_number option \<Rightarrow> rat \<Rightarrow> js_number" where
  "level_or v d = (case v of Some x \<Rightarrow> x | None \<Rightarrow> Finite d)"

definition override_sector :: "string \<Rightarrow> partial_sector option \<Rightarrow> web_sector" where
  "override_sector i override =
     (let base = createDefaultSector i
      in case override of
           None \<Rightarrow> base
         | Some v \<Rightarrow>
             \<lparr>sector_id = (case pa_id v of Some j \<Rightarrow> j | None \<Rightarrow> sector_id base),
              tension = clamp_finite (level_or (pa_tension v) (tension base)),
              pull = clamp_finite (level_or (pa_pull v) (pull base)),
              resonance = clamp_finite (level_or (pa_resonance v) (resonance base)),
              sector_phase = (case pa_phase v of Some p \<Rightarrow> p | None \<Rightarrow> sector_phase base)\<rparr>)"

definition createOrientationWeb :: "string list \<Rightarrow> (string \<rightharpoonup> partial_sector) \<Rightarrow> string option \<Rightarrow> orientation_web" where
  "createOrientationWeb sectorIds initialSectors initialActive =
     \<lparr>web_sectors = foldl (\<lambda>acc i. assign_prop i (override_sector i (initialSectors i)) acc) [] sectorIds,
      activeSectorId = (case initialActive of Some a \<Rightarrow> a | None \<Rightarrow> os_activeSectorId ORIENTATION_BASELINE)\<rparr>"

text \<open>\<open>x + (delta ?? 0)\<close>.\<close>

definition add_delta :: "rat \<Rightarrow> js_number option \<Rightarrow> js_number" where
  "add_delta x delta = (case delta of None \<Rightarrow> Finite x | Some (Finite d) \<Rightarrow> Finite (fl (x + d)) | Some y \<Rightarrow> y)"

definition update_sector :: "web_update \<Rightarrow> web_sector \<Rightarrow> web_sector" where
  "update_sector u existing =
     existing\<lparr>tension := clamp_finite (add_delta (tension existing) (deltaTension u)),
              pull := clamp_finite (add_delta (pull existing) (deltaPull u)),
              resonance := clamp_finite (add_delta (resonance existing) (deltaResonance u)),
              sector_phase := (case newPhase u of Some p \<Rightarrow> p | None \<Rightarrow> sector_phase existing)\<rparr>"

definition apply_update :: "(string \<times> web_sector) list \<Rightarrow> web_update \<Rightarrow> (string \<times> web_sector) list" where
  "apply_update sectors u =
     (case map_of sectors (up_sectorId u) of
        None \<Rightarrow> sectors
      | Some existing \<Rightarrow> assign_prop (up_sectorId u) (update_sector u existing) sectors)"

definition applyWebUpdates :: "orientation_web \<Rightarrow> web_update list \<Rightarrow> orientation_web" where
  "applyWebUpdates web updates =
     (if updates = [] then web else web\<lparr>web_sectors := foldl apply_update (web_sectors web) updates\<rparr>)"

section \<open>The dominant sector\<close>

definition sector_score :: "web_sector \<Rightarrow> rat" where
  "sector_score s = fl (fl (fl (pull s * (1 / 2)) + fl (resonance s * fl (3 / 10))) + fl (tension s * fl (1 / 5)))"

text \<open>The variables of the loop: best score, \<open>None\<close> for minus infinity, best and tied sectors.\<close>

definition dominant_step ::
  "string \<times> web_sector \<Rightarrow> rat option \<times> string \<times> string list \<Rightarrow> rat option \<times> string \<times> string list" where
  "dominant_step entry st =
     (let (i, s) = entry; (bestScore, bestId, tiedIds) = st; score = sector_score s
      in if (case bestScore of None \<Rightarrow> True | Some b \<Rightarrow> score > b) then (Some score, i, [i])
         else if bestScore = Some score then (bestScore, bestId, tiedIds @ [i])
         else st)"

definition chooseDominantSector :: "orientation_web \<Rightarrow> string" where
  "chooseDominantSector web =
     (let base = os_activeSectorId ORIENTATION_BASELINE
      in if web_sectors web = [] then base
         else
           let (bestScore, bestId, tiedIds) = fold dominant_step (web_sectors web) (None, base, [])
           in if length tiedIds > 1
              then if activeSectorId web \<in> set tiedIds then activeSectorId web
                   else (case sort tiedIds of i # rest \<Rightarrow> i | [] \<Rightarrow> bestId)
              else bestId)"

definition updateActiveSector :: "orientation_web \<Rightarrow> orientation_web" where
  "updateActiveSector web =
     (let nextActive = chooseDominantSector web
      in if nextActive = activeSectorId web then web else web\<lparr>activeSectorId := nextActive\<rparr>)"

end
