(* ===== verification/Orientation_Correct.thy ===== *)
theory Orientation_Correct
  imports Orientation_Web
begin

text \<open>
  The orientation web keeps one sector per identifier and levels between 0 and 1 under every
  sequence of updates; the dominant sector is the one of maximal score, the active one among ties,
  else the least, whatever the order of the sectors.
\<close>

section \<open>Levels\<close>

definition unit_sector :: "web_sector \<Rightarrow> bool" where
  "unit_sector s \<longleftrightarrow> 0 \<le> tension s \<and> tension s \<le> 1 \<and> 0 \<le> pull s \<and> pull s \<le> 1 \<and> 0 \<le> resonance s \<and> resonance s \<le> 1"

definition wf_web :: "orientation_web \<Rightarrow> bool" where
  "wf_web web \<longleftrightarrow> distinct (map fst (web_sectors web)) \<and> (\<forall>e \<in> set (web_sectors web). unit_sector (snd e))"

lemma clamp_finite_bounds [simp]: "0 \<le> clamp_finite v" "clamp_finite v \<le> 1"
  by (simp_all add: clamp_finite_def split: js_number.split)

lemma update_sector_unit [simp]: "unit_sector (update_sector u s)"
  by (simp add: unit_sector_def update_sector_def)

lemma override_sector_unit [simp]: "unit_sector (override_sector i v)"
  by (simp add: unit_sector_def override_sector_def createDefaultSector_def Let_def split: option.split)

lemma assign_prop_wf:
  "distinct (map fst kvs) \<Longrightarrow> distinct (map fst (assign_prop k v kvs)) \<and>
     set (assign_prop k v kvs) \<subseteq> insert (k, v) (set kvs) \<and>
     fst ` set (assign_prop k v kvs) = (if k = ''__proto__'' then fst ` set kvs else insert k (fst ` set kvs))"
  using distinct_define_prop [of kvs k v] set_define_prop [of kvs k v] fst_set_define_prop [of k v kvs]
  by (auto simp: assign_prop_def)

lemma apply_update_wf:
  assumes "distinct (map fst kvs)" and "\<forall>e \<in> set kvs. unit_sector (snd e)"
  shows "distinct (map fst (apply_update kvs u)) \<and> (\<forall>e \<in> set (apply_update kvs u). unit_sector (snd e)) \<and>
    fst ` set (apply_update kvs u) = fst ` set kvs"
proof (cases "map_of kvs (up_sectorId u)")
  case (Some s)
  then have "up_sectorId u \<in> fst ` set kvs" by (force dest: map_of_SomeD)
  then show ?thesis
    using assign_prop_wf [OF assms(1), of "up_sectorId u" "update_sector u s"] assms(2) Some
    by (auto simp: apply_update_def insert_absorb)
qed (use assms in \<open>simp add: apply_update_def\<close>)

lemma updates_wf:
  assumes "wf_web web"
  shows "wf_web (applyWebUpdates web us) \<and> fst ` set (web_sectors (applyWebUpdates web us)) = fst ` set (web_sectors web)"
proof -
  have "distinct (map fst (foldl apply_update kvs us)) \<and> (\<forall>e \<in> set (foldl apply_update kvs us). unit_sector (snd e)) \<and>
      fst ` set (foldl apply_update kvs us) = fst ` set kvs"
    if "distinct (map fst kvs)" "\<forall>e \<in> set kvs. unit_sector (snd e)" for kvs
    using that
  proof (induction us arbitrary: kvs)
    case (Cons u us)
    then show ?case using apply_update_wf [OF Cons.prems, of u] Cons.IH [of "apply_update kvs u"] by simp
  qed simp
  from this [of "web_sectors web"] show ?thesis using assms by (simp add: wf_web_def applyWebUpdates_def)
qed

lemma create_wf:
  "wf_web (createOrientationWeb is v a) \<and> fst ` set (web_sectors (createOrientationWeb is v a)) = set is - {''__proto__''}"
proof (induction "is" rule: rev_induct)
  case (snoc i "is")
  let ?kvs = "web_sectors (createOrientationWeb is v a)"
  have "web_sectors (createOrientationWeb (is @ [i]) v a) = assign_prop i (override_sector i (v i)) ?kvs"
    by (simp add: createOrientationWeb_def)
  moreover have "distinct (map fst ?kvs)" using snoc by (simp add: wf_web_def)
  ultimately show ?case
    using assign_prop_wf [of ?kvs i "override_sector i (v i)"] snoc by (auto simp: wf_web_def)
qed (simp add: createOrientationWeb_def wf_web_def)

section \<open>The dominant sector\<close>

definition top_sectors :: "orientation_web \<Rightarrow> string set" where
  "top_sectors web =
     {i. \<exists>s. (i, s) \<in> set (web_sectors web) \<and> (\<forall>(j, r) \<in> set (web_sectors web). sector_score r \<le> sector_score s)}"

abbreviation entry_score :: "string \<times> web_sector \<Rightarrow> rat" where
  "entry_score e \<equiv> sector_score (snd e)"

definition tops :: "(string \<times> web_sector) list \<Rightarrow> (string \<times> web_sector) list" where
  "tops kvs = filter (\<lambda>e. \<forall>e' \<in> set kvs. entry_score e' \<le> entry_score e) kvs"

lemma dominant_loop:
  assumes "kvs \<noteq> []"
  shows "\<exists>best. fold dominant_step kvs (None, b, []) = (Some best, fst (hd (tops kvs)), map fst (tops kvs)) \<and> tops kvs \<noteq> [] \<and>
    (\<forall>e \<in> set kvs. entry_score e \<le> best) \<and> (\<exists>e \<in> set kvs. entry_score e = best)"
  using assms
proof (induction kvs rule: rev_induct)
  case (snoc e kvs)
  show ?case
  proof (cases "kvs = []")
    case True
    then show ?thesis by (simp add: dominant_step_def tops_def case_prod_beta)
  next
    case False
    then obtain best e0 where best: "fold dominant_step kvs (None, b, []) = (Some best, fst (hd (tops kvs)), map fst (tops kvs))"
      "tops kvs \<noteq> []" "\<forall>e \<in> set kvs. entry_score e \<le> best" "e0 \<in> set kvs" "entry_score e0 = best"
      using snoc.IH by blast
    have mem: "(\<forall>e' \<in> set kvs. entry_score e' \<le> entry_score x) \<longleftrightarrow> best \<le> entry_score x" for x
      using best(3-5) order_trans by blast
    have "tops (kvs @ [e]) = filter (\<lambda>x. best \<le> entry_score x \<and> entry_score e \<le> entry_score x) (kvs @ [e])"
      using mem by (simp add: tops_def conj_commute)
    moreover have "tops kvs = filter (\<lambda>x. best \<le> entry_score x) kvs" using mem by (simp add: tops_def)
    moreover have "filter (\<lambda>x. best \<le> entry_score x \<and> entry_score e \<le> entry_score x) kvs =
        (if entry_score e \<le> best then filter (\<lambda>x. best \<le> entry_score x) kvs else [])"
      using best(3) by (auto intro!: filter_cong filter_False)
    ultimately have tops: "tops (kvs @ [e]) = (if entry_score e \<le> best then tops kvs else []) @ (if best \<le> entry_score e then [e] else [])"
      by simp
    consider "entry_score e < best" | "entry_score e = best" | "best < entry_score e" by linarith
    then show ?thesis
      using best tops by cases (auto simp: dominant_step_def [of e] case_prod_beta)
  qed
qed simp

lemma top_sectors_tops: "top_sectors web = set (map fst (tops (web_sectors web)))"
  by (force simp: top_sectors_def tops_def image_iff)

lemma hd_sort_Min: "xs \<noteq> [] \<Longrightarrow> hd (sort xs) = Min (set xs)" for xs :: "string list"
proof -
  assume "xs \<noteq> []"
  then have ne: "sort xs \<noteq> []" by (metis set_empty set_sort)
  then have "hd (sort xs) \<in> set xs" by (metis hd_in_set set_sort)
  moreover have "hd (sort xs) \<le> y" if "y \<in> set xs" for y
  proof -
    have "y \<in> set (sort xs)" using that by simp
    moreover have "sorted (sort xs)" by simp
    ultimately show ?thesis using ne by (cases "sort xs") auto
  qed
  ultimately show ?thesis by (metis List.finite_set Min_eqI)
qed

lemma dominant_exact:
  "chooseDominantSector web =
     (if web_sectors web = [] then ''self''
      else if activeSectorId web \<in> top_sectors web then activeSectorId web else Min (top_sectors web))"
proof (cases "web_sectors web = []")
  case False
  define ts where "ts = map fst (tops (web_sectors web))"
  obtain best where loop: "fold dominant_step (web_sectors web) (None, ''self'', []) = (best, hd ts, ts)" and ne: "ts \<noteq> []"
    using dominant_loop [OF False, of "''self''"] unfolding ts_def by (metis hd_map list.map_disc_iff)
  have choose: "chooseDominantSector web =
      (if length ts > 1 then if activeSectorId web \<in> set ts then activeSectorId web else hd (sort ts) else hd ts)"
  proof -
    have "sort ts \<noteq> []" using ne by (metis set_empty set_sort)
    then show ?thesis
      using False by (auto simp: chooseDominantSector_def ORIENTATION_BASELINE_def loop split: list.split)
  qed
  show ?thesis
  proof (cases "length ts > 1")
    case True
    then show ?thesis using choose hd_sort_Min [OF ne] False by (simp add: top_sectors_tops ts_def)
  next
    case one: False
    then obtain x where "ts = [x]" using ne by (cases ts) auto
    then have "top_sectors web = {x}" by (simp add: top_sectors_tops ts_def [symmetric])
    then show ?thesis using choose one False \<open>ts = [x]\<close> by simp
  qed
qed (simp add: chooseDominantSector_def ORIENTATION_BASELINE_def)

lemma tops_nonempty: "web_sectors web \<noteq> [] \<Longrightarrow> top_sectors web \<noteq> {}"
  using dominant_loop [of "web_sectors web" "[]"] by (auto simp: top_sectors_tops)

text \<open>C35: the dominant sector. It is a sector of maximal score: the active one if it is among those, else
  the least of them by name; so it does not depend on the order of the sectors. Activating it
  settles the web: a second activation changes nothing.\<close>

theorem dominant_sector_exact:
  "chooseDominantSector web =
     (if web_sectors web = [] then ''self''
      else if activeSectorId web \<in> top_sectors web then activeSectorId web else Min (top_sectors web)) \<and>
   updateActiveSector (updateActiveSector web) = updateActiveSector web"
proof
  show eq: "chooseDominantSector web =
     (if web_sectors web = [] then ''self''
      else if activeSectorId web \<in> top_sectors web then activeSectorId web else Min (top_sectors web))" by (rule dominant_exact)
  have top: "top_sectors (web\<lparr>activeSectorId := a\<rparr>) = top_sectors web" for a by (simp add: top_sectors_def)
  have "chooseDominantSector web \<in> top_sectors web" if "web_sectors web \<noteq> []"
    using that eq tops_nonempty [OF that] Min_in [of "top_sectors web"] by (auto simp: top_sectors_tops)
  then have "chooseDominantSector (web\<lparr>activeSectorId := chooseDominantSector web\<rparr>) = chooseDominantSector web"
    using dominant_exact [of "web\<lparr>activeSectorId := chooseDominantSector web\<rparr>"] eq by (auto simp: top)
  then show "updateActiveSector (updateActiveSector web) = updateActiveSector web"
    by (simp add: updateActiveSector_def Let_def)
qed

end
