(* ===== verification/Temporal_Orientation.thy ===== *)
theory Temporal_Orientation
  imports Orientation_Web Time_Weave
begin

text \<open>
  Temporal orientation (\<open>sdk/js/src/temporalOrientation\<close>): snapshots of the sectors of an orientation
  web in a time weave, the summary of their trends, the momentum of a history of views, and the
  suggestion of the next sector.
\<close>

section \<open>Types\<close>

datatype temporal_trend = TrendRising | TrendFalling | TrendPlateau | TrendMixed
datatype temporal_slope = SlopeRising | SlopeFalling | SlopeFlat | SlopeOscillating

record momentum_metrics =
  slope :: temporal_slope
  strength :: rat

record sector_snapshot =
  snap_sectorId :: string
  snap_branchId :: string
  lastTick :: "time_tick option"
  lastIntensity :: "rat option"
  branchTrend :: "temporal_trend option"
  isActive :: bool
  sourceSector :: web_sector

record orientation_summary =
  globalTrend :: temporal_trend
  activeSectorCount :: nat
  risingSectors :: "string list"
  fallingSectors :: "string list"
  plateauSectors :: "string list"
  timeWeaveDepthScore :: "rat option"
  focusMomentumScore :: "rat option"

record orientation_view =
  view_web :: orientation_web
  view_sectors :: "sector_snapshot list"
  view_summary :: orientation_summary

record next_suggestion =
  fromSectorId :: string
  suggestedSectorId :: "string option"
  sug_reason :: string

section \<open>The view\<close>

definition mapSectorToBranchId :: "web_sector \<Rightarrow> string" where
  "mapSectorToBranchId sector = sector_id sector"

definition trend_of :: "branch_trend \<Rightarrow> temporal_trend" where
  "trend_of t = (case t of Rising \<Rightarrow> TrendRising | Falling \<Rightarrow> TrendFalling | Plateau \<Rightarrow> TrendPlateau)"

definition getBranchSnapshot :: "time_branch option \<Rightarrow> time_tick option \<times> rat option \<times> temporal_trend option" where
  "getBranchSnapshot branch =
     (case branch of
        None \<Rightarrow> (None, None, None)
      | Some b \<Rightarrow>
          if nodes b = [] then (None, None, None)
          else (Some (node_tick (last (nodes b))), Some (clamp_unit (intensity (last (nodes b)))),
                Some (trend_of (computeBranchTrend b))))"

definition buildSectorTemporalSnapshot :: "web_sector \<Rightarrow> time_weave \<Rightarrow> sector_snapshot" where
  "buildSectorTemporalSnapshot sector w =
     (let branchId = mapSectorToBranchId sector; branch = getBranch w branchId;
          (tick, level, trend) = getBranchSnapshot branch
      in \<lparr>snap_sectorId = sector_id sector,
          snap_branchId = (case branch of Some b \<Rightarrow> branch_thread b | None \<Rightarrow> branchId),
          lastTick = tick, lastIntensity = level, branchTrend = trend,
          isActive = ((case level of Some l \<Rightarrow> l | None \<Rightarrow> 0) > fl (3 / 10)), sourceSector = sector\<rparr>)"

definition trend_count :: "temporal_trend \<Rightarrow> temporal_trend list \<Rightarrow> nat" where
  "trend_count t ts = length (filter (\<lambda>u. u = t) ts)"

definition deriveGlobalTrend :: "temporal_trend list \<Rightarrow> temporal_trend" where
  "deriveGlobalTrend trends =
     (if trends = [] then TrendPlateau
      else
        let majorityThreshold = length trends div 2 + 1
        in if trend_count TrendRising trends \<ge> majorityThreshold then TrendRising
           else if trend_count TrendFalling trends \<ge> majorityThreshold then TrendFalling
           else if trend_count TrendPlateau trends \<ge> majorityThreshold then TrendPlateau
           else TrendMixed)"

definition sectors_with :: "temporal_trend \<Rightarrow> sector_snapshot list \<Rightarrow> string list" where
  "sectors_with t snaps = map snap_sectorId (filter (\<lambda>s. branchTrend s = Some t) snaps)"

definition buildSummary :: "sector_snapshot list \<Rightarrow> orientation_summary" where
  "buildSummary snapshots =
     \<lparr>globalTrend = deriveGlobalTrend (List.map_filter branchTrend snapshots),
      activeSectorCount = length (filter isActive snapshots),
      risingSectors = sectors_with TrendRising snapshots,
      fallingSectors = sectors_with TrendFalling snapshots,
      plateauSectors = sectors_with TrendPlateau snapshots,
      timeWeaveDepthScore = None, focusMomentumScore = None\<rparr>"

definition buildTemporalOrientationView :: "(string \<Rightarrow> rat option) \<Rightarrow> orientation_web \<Rightarrow> time_weave \<Rightarrow> orientation_view" where
  "buildTemporalOrientationView dateParse web w =
     (let sectors = map (\<lambda>(i, sector). buildSectorTemporalSnapshot sector w) (web_sectors web);
          meta = computeTimeWeaveMeta dateParse w;
          score = clampMinus1To1 (fl (computeFocusMomentumScore w * focusMomentum meta))
      in \<lparr>view_web = web, view_sectors = sectors,
          view_summary = (buildSummary sectors)
            \<lparr>timeWeaveDepthScore := Some (complexityScore meta), focusMomentumScore := Some score\<rparr>\<rparr>)"

definition buildViewFromWebAndAnchors ::
  "(string \<Rightarrow> rat option) \<Rightarrow> orientation_web \<Rightarrow> (orientation_event \<times> rat) list \<Rightarrow> anchor_context \<Rightarrow>
     (orientation_view \<times> time_weave) result" where
  "buildViewFromWebAndAnchors dateParse web events ctx =
     bindr (if events \<noteq> [] then anchorEventsBatch events ctx else Inr (ctx_weave ctx))
       (\<lambda>w. Inr (buildTemporalOrientationView dateParse web w, w))"

section \<open>The next sector\<close>

definition find_snapshot :: "orientation_view \<Rightarrow> string \<Rightarrow> sector_snapshot option" where
  "find_snapshot view i = find (\<lambda>s. snap_sectorId s = i) (view_sectors view)"

definition current_trend :: "orientation_view \<Rightarrow> string \<Rightarrow> temporal_trend option" where
  "current_trend view i = Option.bind (find_snapshot view i) branchTrend"

text \<open>The first name of a list, if it is not empty.\<close>

definition first_name :: "string list \<Rightarrow> string option" where
  "first_name xs = (case xs of x # rest \<Rightarrow> if x \<noteq> [] then Some x else None | [] \<Rightarrow> None)"

definition suggestNextSector :: "orientation_view \<Rightarrow> string \<Rightarrow> next_suggestion" where
  "suggestNextSector view current =
     (let trend = current_trend view current; target = first_name (risingSectors (view_summary view))
      in if trend = Some TrendFalling \<and> target \<noteq> None
         then \<lparr>fromSectorId = current, suggestedSectorId = target,
               sug_reason = ''Current sector is falling; shifting towards a rising sector may stabilize orientation.''\<rparr>
         else if trend = Some TrendPlateau \<and> target \<noteq> None
         then \<lparr>fromSectorId = current, suggestedSectorId = target,
               sug_reason = ''Current sector is plateauing; consider following an upward trend.''\<rparr>
         else \<lparr>fromSectorId = current, suggestedSectorId = None,
               sug_reason = ''No strong alternative trend detected; maintain current orientation.''\<rparr>)"

definition pickNextSector :: "orientation_view \<Rightarrow> string \<Rightarrow> next_suggestion" where
  "pickNextSector view current =
     (let trend = current_trend view current;
          firstRising = first_name (sort (filter (\<lambda>i. i \<noteq> current) (risingSectors (view_summary view))));
          firstPlateau = first_name (sort (filter (\<lambda>i. i \<noteq> current) (plateauSectors (view_summary view))))
      in if trend = Some TrendFalling \<and> firstRising \<noteq> None
         then \<lparr>fromSectorId = current, suggestedSectorId = firstRising,
               sug_reason = ''Current sector is falling; shift attention toward a rising sector.''\<rparr>
         else if trend = Some TrendPlateau \<and> firstRising \<noteq> None
         then \<lparr>fromSectorId = current, suggestedSectorId = firstRising,
               sug_reason = ''Current sector is plateauing; following a rising trend may create momentum.''\<rparr>
         else if find_snapshot view current = None \<and> firstRising \<noteq> None
         then \<lparr>fromSectorId = current, suggestedSectorId = firstRising,
               sug_reason = ''Sector not found in view; defaulting to the earliest rising sector.''\<rparr>
         else if firstPlateau \<noteq> None \<and> firstRising = None
         then \<lparr>fromSectorId = current, suggestedSectorId = firstPlateau,
               sug_reason = ''No rising sectors detected; shifting toward a stable plateau sector.''\<rparr>
         else \<lparr>fromSectorId = current, suggestedSectorId = None,
               sug_reason = ''No stronger temporal signal detected; maintain current focus.''\<rparr>)"

section \<open>Momentum\<close>

definition clamp_to :: "rat \<Rightarrow> rat \<Rightarrow> rat \<Rightarrow> rat" where
  "clamp_to lo hi v = (if v < lo then lo else if v > hi then hi else v)"

definition extractTrendScalar :: "orientation_summary \<Rightarrow> rat" where
  "extractTrendScalar s =
     (let baseMomentum = (case focusMomentumScore s of Some m \<Rightarrow> m | None \<Rightarrow> 0);
          risingCount = int (length (risingSectors s)); fallingCount = int (length (fallingSectors s));
          total = risingCount + fallingCount;
          trendBalance = (if total > 0 then fl (of_int (risingCount - fallingCount) / of_int total) else 0);
          globalBias = (case globalTrend s of TrendRising \<Rightarrow> fl (3 / 20) | TrendFalling \<Rightarrow> - fl (3 / 20)
                        | TrendMixed \<Rightarrow> fl (1 / 20) | TrendPlateau \<Rightarrow> 0);
          activeWeight = (if activeSectorCount s \<noteq> 0
                          then fl (clamp_to 0 1 (fl (of_nat (activeSectorCount s) / 12)) * fl (1 / 10)) else 0)
      in clamp_to (- 1) 1 (fl (fl (fl (baseMomentum + fl (trendBalance * fl (2 / 5))) + globalBias) + activeWeight)))"

definition significant :: "rat \<Rightarrow> rat list \<Rightarrow> rat list" where
  "significant epsilon values = filter (\<lambda>d. \<bar>d\<bar> > epsilon) values"

definition countSignChanges :: "rat list \<Rightarrow> rat \<Rightarrow> nat" where
  "countSignChanges values epsilon =
     (let sig = significant epsilon values
      in length (filter (\<lambda>(p, c). sgn p \<noteq> sgn c) (zip sig (tl sig))))"

definition momentum_slope :: "rat \<Rightarrow> nat \<Rightarrow> rat \<Rightarrow> rat \<Rightarrow> temporal_slope" where
  "momentum_slope epsilon signChanges averageAbsDelta delta =
     (if signChanges \<ge> 2 \<and> averageAbsDelta > epsilon then SlopeOscillating
      else if delta > epsilon then SlopeRising
      else if delta < - epsilon then SlopeFalling
      else SlopeFlat)"

definition direction_consistency :: "rat \<Rightarrow> rat list \<Rightarrow> rat" where
  "direction_consistency epsilon ds =
     (let sig = significant epsilon ds
      in if sig = [] then 1
         else fl (of_int \<bar>int (length (filter (\<lambda>v. v > epsilon) sig)) - int (length (filter (\<lambda>v. v < - epsilon) sig))\<bar>
                  / of_nat (length sig)))"

text \<open>\<open>history.slice(-windowSize)\<close> for an integer: a negative or zero size keeps a suffix from the front.\<close>

definition slice_window :: "int \<Rightarrow> 'a list \<Rightarrow> 'a list" where
  "slice_window n xs = (if n > 0 then slice_last (nat n) xs else drop (nat (- n)) xs)"

definition computeMomentumMetrics :: "orientation_summary list \<Rightarrow> int option \<Rightarrow> momentum_metrics" where
  "computeMomentumMetrics history windowSize =
     (let recent = slice_window (case windowSize of Some n \<Rightarrow> n | None \<Rightarrow> 5) history
      in if length recent < 2 then \<lparr>slope = SlopeFlat, strength = 0\<rparr>
         else
           let values = map extractTrendScalar recent; epsilon = fl (1 / 20);
               ds = deltas values;
               delta = fl (last values - hd values);
               averageAbsDelta = (if ds \<noteq> [] then fl (fl_sum (map abs ds) / of_nat (length ds)) else 0);
               sl = momentum_slope epsilon (countSignChanges ds epsilon) averageAbsDelta delta
           in \<lparr>slope = sl,
               strength =
                 (if sl = SlopeOscillating then clamp_to 0 1 averageAbsDelta
                  else if sl = SlopeFlat then clamp_to 0 1 (fl (averageAbsDelta * (1 / 2)))
                  else clamp_to 0 1 (fl (fl (clamp_to 0 1 \<bar>delta\<bar> * fl (7 / 10))
                                         + fl (direction_consistency epsilon ds * fl (3 / 10)))))\<rparr>)"

end
