(* ===== verification/Time_Asymmetry.thy ===== *)
theory Time_Asymmetry
  imports Time_Weave
begin

text \<open>
  The asymmetry of a history of biases (\<open>computeAsymmetryMeta\<close> and its helpers in
  \<open>sdk/js/src/time/timeWeaveAsymmetry.ts\<close>). A bias, a magnitude and a timestamp may be any number of
  the language, also an infinite one or \<open>NaN\<close>; step counts are finite.
\<close>

record history_segment =
  seg_bias :: js_number
  seg_timestampMs :: "js_number option"
  seg_stepCount :: "rat option"
  seg_asymmetryMagnitude :: "js_number option"

record normalized_segment =
  bias :: rat
  timestampMs :: js_number
  stepCount :: rat
  asymmetryMagnitude :: rat

record asymmetry_meta =
  rawAsymmetry :: rat
  direction :: asymmetry_direction
  meta_depthScore :: rat
  softAsymmetryIndex :: rat
  depthWeightedAsymmetry :: rat
  tenderness :: rat
  posture :: temporal_posture

text \<open>\<open>Math.exp\<close> and \<open>Math.log1p\<close>.\<close>

record math_lib =
  math_exp :: "rat \<Rightarrow> rat"
  math_log1p :: "rat \<Rightarrow> rat"

definition clampSignedUnit :: "rat \<Rightarrow> rat" where
  "clampSignedUnit v = (if v < - 1 then - 1 else if v > 1 then 1 else v)"

definition finite_or :: "js_number \<Rightarrow> rat \<Rightarrow> rat" where
  "finite_or x d = (case x of Finite v \<Rightarrow> v | _ \<Rightarrow> d)"

definition normalize_segment :: "nat \<Rightarrow> history_segment \<Rightarrow> normalized_segment" where
  "normalize_segment index s =
     (let b = finite_or (seg_bias s) 0
      in \<lparr>bias = b,
          timestampMs = (case seg_timestampMs s of Some t \<Rightarrow> t | None \<Rightarrow> Finite (of_nat index)),
          stepCount = (case seg_stepCount s of Some k \<Rightarrow> if k > 0 then k else 1 | None \<Rightarrow> 1),
          asymmetryMagnitude = clamp_unit (case seg_asymmetryMagnitude s of Some (Finite m) \<Rightarrow> \<bar>m\<bar> | _ \<Rightarrow> \<bar>b\<bar>)\<rparr>)"

definition normalizeHistorySegments :: "history_segment list \<Rightarrow> normalized_segment list" where
  "normalizeHistorySegments segments = map (\<lambda>(i, s). normalize_segment i s) (List.enumerate 0 segments)"

definition bias_pairs :: "rat list \<Rightarrow> (rat \<times> rat) list" where
  "bias_pairs bs = zip bs (tl bs)"

definition sign_flip :: "rat \<Rightarrow> rat \<Rightarrow> bool" where
  "sign_flip prev current = (sgn prev \<noteq> 0 \<and> sgn current \<noteq> 0 \<and> sgn prev \<noteq> sgn current)"

definition computeVolatilityScore :: "normalized_segment list \<Rightarrow> rat" where
  "computeVolatilityScore segments =
     (if length segments < 2 then 0
      else
        let pairs = bias_pairs (map bias segments);
            signFlips = length (filter (\<lambda>(p, c). sign_flip p c) pairs);
            deltaSum = fl_sum (map (\<lambda>(p, c). \<bar>fl (c - p)\<bar>) pairs);
            n = of_nat (max (length segments - 1) 1);
            flipRate = fl (of_nat signFlips / n);
            avgDelta = fl (deltaSum / n)
        in clamp_unit (fl (fl (flipRate * fl (3 / 5)) + fl (clamp_unit avgDelta * fl (2 / 5)))))"

text \<open>The samples are pairs of raw asymmetry and depth; those of weight 0 are skipped.\<close>

definition computeDepthWeightedAsymmetry :: "math_lib \<Rightarrow> (rat \<times> rat) list \<Rightarrow> rat" where
  "computeDepthWeightedAsymmetry M samples =
     (if samples = [] then 0
      else
        let weighted = filter (\<lambda>(raw, weight). weight \<noteq> 0)
                         (map (\<lambda>(raw, depth). (raw, math_log1p M (max 0 depth))) samples);
            weightedSum = fl_sum (map (\<lambda>(raw, weight). fl (clampSignedUnit raw * weight)) weighted);
            totalWeight = fl_sum (map snd weighted)
        in if totalWeight = 0 then 0 else clampSignedUnit (fl (weightedSum / totalWeight)))"

definition computeTenderness :: "rat list \<Rightarrow> rat" where
  "computeTenderness asymmetryHistory =
     (if length asymmetryHistory < 2 then 1
      else
        let totalDelta = fl_sum (map (\<lambda>(p, c). \<bar>fl (clampSignedUnit c - clampSignedUnit p)\<bar>) (bias_pairs asymmetryHistory));
            meanDelta = fl (totalDelta / of_nat (max 1 (length asymmetryHistory - 1)));
            normalized = clamp_unit (fl (meanDelta / 1))
        in clamp_unit (fl (1 - normalized)))"

definition classifyTemporalPosture :: "rat \<Rightarrow> rat \<Rightarrow> rat \<Rightarrow> temporal_posture" where
  "classifyTemporalPosture raw depthWeighted tender =
     (let t = clamp_unit tender;
          directional = (if depthWeighted \<noteq> 0 then clampSignedUnit depthWeighted else clampSignedUnit raw);
          smooth = (t > fl (7 / 10))
      in if \<bar>directional\<bar> < fl (3 / 20) then NeutralPlateau
         else if directional > fl (3 / 10) then (if smooth then SteadyForward else StormShift)
         else if directional < - fl (3 / 10) then (if smooth then SteadyBackward else StormShift)
         else if smooth then GentleRecovery else StormShift)"

definition sigmoid :: "math_lib \<Rightarrow> rat \<Rightarrow> rat" where
  "sigmoid M x = fl (1 / fl (1 + math_exp M (- x)))"

definition finite_stamps :: "normalized_segment list \<Rightarrow> rat list" where
  "finite_stamps segs = List.map_filter (\<lambda>s. case timestampMs s of Finite t \<Rightarrow> Some t | _ \<Rightarrow> None) segs"

definition bias_direction :: "rat \<Rightarrow> asymmetry_direction" where
  "bias_direction b = (if b > fl (1 / 100) then Forward else if b < - fl (1 / 100) then Backward else BalancedDirection)"

text \<open>The loop from the latest segment backwards, up to the first one with another sign.\<close>

definition same_run :: "asymmetry_direction \<Rightarrow> rat \<Rightarrow> normalized_segment list \<Rightarrow> normalized_segment list" where
  "same_run d latest segments =
     takeWhile (\<lambda>s. if d = BalancedDirection then sgn (bias s) = 0 else sgn (bias s) = sgn latest) (rev segments)"

definition run_depth :: "rat \<Rightarrow> rat \<Rightarrow> normalized_segment list \<Rightarrow> rat" where
  "run_depth maxSteps maxSpanMs run =
     (let depthSteps = fl_sum (map stepCount run);
          depthSpanMs = (case fold widen (finite_stamps run) None of Some (lo, hi) \<Rightarrow> if hi \<ge> lo then fl (hi - lo) else 0 | None \<Rightarrow> 0)
      in clamp_unit (fl (fl (1 / 2 * clamp_unit (fl (depthSteps / max maxSteps 1)))
                         + fl (1 / 2 * clamp_unit (fl (depthSpanMs / max maxSpanMs 1))))))"

definition computeAsymmetryMeta :: "math_lib \<Rightarrow> history_segment list \<Rightarrow> rat option \<Rightarrow> rat option \<Rightarrow> asymmetry_meta" where
  "computeAsymmetryMeta M history optMaxSteps optMaxSpanMs =
     (let segments = normalizeHistorySegments history
      in if segments = []
         then \<lparr>rawAsymmetry = 0, direction = BalancedDirection, meta_depthScore = 0, softAsymmetryIndex = 0,
               depthWeightedAsymmetry = 0, tenderness = 1, posture = NeutralPlateau\<rparr>
         else
           let maxSteps = (case optMaxSteps of Some m \<Rightarrow> m | None \<Rightarrow> 50);
               maxSpanMs = (case optMaxSpanMs of Some m \<Rightarrow> m | None \<Rightarrow> 60 * 60 * 1000);
               latest = last segments;
               d = bias_direction (bias latest);
               depth = run_depth maxSteps maxSpanMs (same_run d (bias latest) segments);
               vol = computeVolatilityScore segments;
               raw = clamp_unit (asymmetryMagnitude latest);
               weighted = computeDepthWeightedAsymmetry M (map (\<lambda>s. (bias s, stepCount s)) segments);
               tender = computeTenderness (map bias segments);
               signedRaw = (if d = Backward then - raw else if d = Forward then raw else 0);
               soft = clamp_unit (sigmoid M (fl (fl (fl (fl (11 / 5) * raw) + fl (2 * depth)) - fl (fl (7 / 5) * vol))))
           in \<lparr>rawAsymmetry = raw, direction = d, meta_depthScore = depth, softAsymmetryIndex = soft,
               depthWeightedAsymmetry = weighted, tenderness = tender,
               posture = classifyTemporalPosture signedRaw weighted tender\<rparr>)"

end
