(* ===== verification/Fuzzy_Routing.thy ===== *)
theory Fuzzy_Routing
  imports Temporal_Orientation Time_Asymmetry
begin

text \<open>
  The fuzzy routing engine (\<open>sdk/js/src/routing/fuzzyRoutingEngine.ts\<close>): membership functions of depth
  and momentum, scores of priorities and modes, the confidence of a route with its reasons, and the
  choice of the best sector.
\<close>

section \<open>Types\<close>

datatype routing_priority = PriorityLow | PriorityNormal | PriorityHigh
datatype routing_mode = Explore | Exploit | Stabilize
datatype routing_intent = IntentStabilize | IntentSteadyFlow | IntentExpand

record routing_context =
  rc_depthScore :: "rat option"
  rc_focusMomentum :: "rat option"
  rc_entropyLevel :: "rat option"
  rc_orientationSummary :: "orientation_summary option"
  rc_momentum :: "momentum_metrics option"
  rc_asymmetryMeta :: "asymmetry_meta option"
  rc_softAsymmetryIndex :: "rat option"

record string_mode =
  frequency :: rat
  amplitude :: rat

record route_hint =
  rh_sectorId :: string
  rh_priority :: routing_priority
  rh_mode :: routing_mode
  rh_depthScore :: rat
  rh_focusMomentum :: rat
  rh_reason :: string
  routeConfidence :: rat

record routing_result =
  bestSectorId :: string
  rr_confidence :: rat
  rr_focusMomentum :: "rat option"
  rr_intent :: routing_intent
  preferredModes :: "string list"
  rr_hints :: "route_hint list"

section \<open>Membership\<close>

definition deriveRoutingIntent :: "routing_context \<Rightarrow> routing_intent \<times> string list" where
  "deriveRoutingIntent ctx =
     (let m = (case rc_focusMomentum ctx of Some x \<Rightarrow> x | None \<Rightarrow> 0)
      in if m < fl (1 / 5) then (IntentStabilize, [''grounding'', ''short-hop''])
         else if m > fl (3 / 5) then (IntentExpand, [''open-window'', ''branch-explore''])
         else (IntentSteadyFlow, [''small-adjustment'']))"

definition lowDepth :: "rat \<Rightarrow> rat" where
  "lowDepth depth =
     (let d = clamp_to 0 1 depth
      in if d \<le> fl (1 / 5) then 1 else if d \<ge> 1 / 2 then 0
         else fl (fl (1 / 2 - d) / fl (1 / 2 - fl (1 / 5))))"

definition mediumDepth :: "rat \<Rightarrow> rat" where
  "mediumDepth depth =
     (let d = clamp_to 0 1 depth
      in if d \<le> fl (1 / 5) \<or> d \<ge> fl (9 / 10) then 0
         else if d = 1 / 2 then 1
         else if d < 1 / 2 then fl (fl (d - fl (1 / 5)) / fl (1 / 2 - fl (1 / 5)))
         else fl (fl (fl (9 / 10) - d) / fl (fl (9 / 10) - 1 / 2)))"

definition highDepth :: "rat \<Rightarrow> rat" where
  "highDepth depth =
     (let d = clamp_to 0 1 depth
      in if d \<le> 1 / 2 then 0 else if d \<ge> fl (9 / 10) then 1
         else fl (fl (d - 1 / 2) / fl (fl (9 / 10) - 1 / 2)))"

definition falling :: "rat \<Rightarrow> rat" where
  "falling momentum =
     (let m = clamp_to (- 1) 1 momentum in if m \<ge> 0 then 0 else if m \<le> - (1 / 2) then 1 else fl (- m / (1 / 2)))"

definition stable :: "rat \<Rightarrow> rat" where
  "stable momentum =
     (let m = clamp_to (- 1) 1 momentum in if \<bar>m\<bar> \<ge> fl (2 / 5) then 0 else fl (1 - fl (\<bar>m\<bar> / fl (2 / 5))))"

definition rising :: "rat \<Rightarrow> rat" where
  "rising momentum =
     (let m = clamp_to (- 1) 1 momentum in if m \<le> 0 then 0 else if m \<ge> 1 / 2 then 1 else fl (m / (1 / 2)))"

text \<open>Arrows in the texts, which have no 8-bit code unit, are their UTF-8 bytes.\<close>

definition arrow :: string where "arrow = [CHR 0x20, CHR 0xE2, CHR 0x86, CHR 0x92, CHR 0x20]"

definition buildReason :: "routing_priority \<Rightarrow> routing_mode \<Rightarrow> string" where
  "buildReason priority mode =
     (if priority = PriorityHigh \<and> mode = Exploit
      then ''High depth with rising momentum'' @ arrow @ ''prioritize and exploit the active thread.''
      else if priority = PriorityNormal \<and> mode = Explore
      then ''Medium signals with upward momentum'' @ arrow @ ''explore while maintaining cadence.''
      else if priority = PriorityLow \<and> mode = Stabilize
      then ''Shallow or falling signals'' @ arrow @ ''stabilize and conserve attention.''
      else if mode = Stabilize
      then ''Momentum is soft or negative'' @ arrow @ ''prefer stabilization over expansion.''
      else if mode = Exploit then ''Depth is strong enough to exploit current sector signals.''
      else ''Signals are moderate'' @ arrow @ ''explore with balanced priority.'')"

section \<open>Scores\<close>

type_synonym 'k scores = "('k \<times> rat) list"

definition base_priorities :: "rat \<Rightarrow> rat \<Rightarrow> routing_priority scores" where
  "base_priorities depth momentum =
     (let dLow = lowDepth depth; dMed = mediumDepth depth; dHigh = highDepth depth;
          mFall = falling momentum; mStable = stable momentum; mRise = rising momentum
      in [(PriorityHigh, fl (dHigh * fl (fl (mRise * fl (7 / 10)) + fl (mStable * fl (3 / 10))))),
          (PriorityNormal, fl (fl (fl (dMed * fl (4 / 5)) + fl (dHigh * (1 / 2))) + fl (mRise * fl (1 / 5)))),
          (PriorityLow, fl (dLow + fl (mFall * (1 / 2))))])"

definition base_modes :: "rat \<Rightarrow> rat \<Rightarrow> routing_mode scores" where
  "base_modes depth momentum =
     (let dLow = lowDepth depth; dMed = mediumDepth depth; dHigh = highDepth depth;
          mFall = falling momentum; mStable = stable momentum; mRise = rising momentum
      in [(Exploit, fl (fl (dHigh * fl (mRise + fl (mStable * fl (2 / 5)))) + fl (fl (dMed * mRise) * fl (3 / 5)))),
          (Explore, fl (fl (dLow + dMed) * fl (mRise + fl (mStable * (1 / 2))))),
          (Stabilize, fl (mFall + fl (fl (dHigh * fl (1 - mRise)) * (1 / 2))))])"

definition bump :: "'k \<Rightarrow> rat \<Rightarrow> 'k scores \<Rightarrow> 'k scores" where
  "bump k d scores = map (\<lambda>(k', v). (k', if k' = k then fl (v + d) else v)) scores"

definition applyStringModeAdjustments ::
  "routing_priority scores \<Rightarrow> routing_mode scores \<Rightarrow> string_mode option \<Rightarrow> routing_priority scores \<times> routing_mode scores" where
  "applyStringModeAdjustments ps ms stringMode =
     (case stringMode of
        None \<Rightarrow> (ps, ms)
      | Some sm \<Rightarrow>
          (let fr = clamp_to 0 1 (frequency sm); am = clamp_to 0 1 (amplitude sm);
               resonanceBoost = fl (fl (fr + am) / 2)
           in (bump PriorityNormal (fl (resonanceBoost * fl (1 / 20))) (bump PriorityHigh (fl (resonanceBoost * fl (3 / 20))) ps),
               if am > fl (7 / 10) then bump Stabilize (fl (am * fl (1 / 10))) ms else ms)))"

fun pick_from :: "'k \<Rightarrow> rat \<Rightarrow> 'k scores \<Rightarrow> 'k" where
  "pick_from k v [] = k"
| "pick_from k v ((k', v') # rest) = (if v' > v then pick_from k' v' rest else pick_from k v rest)"

text \<open>\<open>pickMaxKey\<close> throws on an empty record, here \<open>Inl\<close>.\<close>

definition pickMaxKey :: "'k scores \<Rightarrow> 'k result" where
  "pickMaxKey scores =
     (case scores of [] \<Rightarrow> Inl ''Cannot pick max key from an empty score record.'' | (k, v) # rest \<Rightarrow> Inr (pick_from k v rest))"

section \<open>Confidence\<close>

definition applyEntropyPenalty :: "rat \<Rightarrow> rat option \<Rightarrow> rat" where
  "applyEntropyPenalty baseConfidence entropyLevel =
     (case entropyLevel of
        None \<Rightarrow> baseConfidence
      | Some e \<Rightarrow>
          if e > fl (4 / 5) then clamp_to 0 1 (fl (baseConfidence * (3 / 4)))
          else if e > fl (2 / 5) then clamp_to 0 1 (fl (baseConfidence * fl (9 / 10)))
          else baseConfidence)"

text \<open>A condition, what it adds to the confidence, and the reason it gives.\<close>

definition soft_step :: "bool \<Rightarrow> rat \<Rightarrow> string \<Rightarrow> rat \<times> string list \<Rightarrow> rat \<times> string list" where
  "soft_step c d why acc = (if c then (fl (fst acc + d), snd acc @ [why]) else acc)"

definition summary_adjustments :: "orientation_summary \<Rightarrow> string \<Rightarrow> routing_mode \<Rightarrow> rat \<times> string list \<Rightarrow> rat \<times> string list" where
  "summary_adjustments s sectorId mode acc =
     soft_step (sectorId \<in> set (fallingSectors s) \<and> mode = Stabilize) (fl (3 / 100)) ''sector shows falling signals''
       (soft_step (sectorId \<in> set (risingSectors s)) (fl (1 / 25)) ''sector is in rising set''
         (soft_step (globalTrend s = TrendFalling \<and> mode = Stabilize) (fl (1 / 20)) ''orientation trend is falling''
           (soft_step (globalTrend s = TrendRising \<and> (mode = Explore \<or> mode = Exploit)) (fl (1 / 20))
              ''orientation trend is rising'' acc)))"

definition softness_adjustments :: "rat \<Rightarrow> routing_mode \<Rightarrow> rat \<times> string list \<Rightarrow> rat \<times> string list" where
  "softness_adjustments softness mode acc =
     (let score = clamp_to 0 1 softness
      in if score > fl (7 / 10) \<and> mode \<noteq> Stabilize
         then soft_step True (- fl (fl (1 / 20) + fl (fl (score - fl (7 / 10)) * fl (1 / 10))))
                (''soft asymmetry detected'' @ arrow @ ''favor gentle/stable routing'') acc
         else soft_step (score < fl (3 / 10) \<and> (mode = Explore \<or> mode = Exploit)) (fl (1 / 25))
                (''softness is low'' @ arrow @ ''quick pivots acceptable'') acc)"

definition context_softness :: "routing_context \<Rightarrow> rat option" where
  "context_softness ctx =
     (case rc_softAsymmetryIndex ctx of Some x \<Rightarrow> Some x | None \<Rightarrow> map_option softAsymmetryIndex (rc_asymmetryMeta ctx))"

definition computeSoftContextAdjustments :: "routing_context \<Rightarrow> string \<Rightarrow> routing_mode \<Rightarrow> rat \<times> string list" where
  "computeSoftContextAdjustments ctx sectorId mode =
     (let a1 = (case rc_orientationSummary ctx of Some s \<Rightarrow> summary_adjustments s sectorId mode (0, []) | None \<Rightarrow> (0, []));
          a2 = (case context_softness ctx of Some x \<Rightarrow> softness_adjustments x mode a1 | None \<Rightarrow> a1)
      in soft_step (case rc_asymmetryMeta ctx of Some m \<Rightarrow> meta_depthScore m > fl (4 / 5) \<and> mode = Explore | None \<Rightarrow> False)
           (- fl (3 / 100)) (''deep asymmetry corridor'' @ arrow @ ''avoid abrupt exploration'') a2)"

definition momentum_focus :: "routing_context \<Rightarrow> rat" where
  "momentum_focus ctx =
     clamp_to (- 1) 1
       (case rc_momentum ctx of
          Some m \<Rightarrow>
            (case slope m of
               SlopeRising \<Rightarrow> strength m
             | SlopeFalling \<Rightarrow> - strength m
             | SlopeFlat \<Rightarrow> 0
             | SlopeOscillating \<Rightarrow> fl (- strength m * fl (3 / 10)))
        | None \<Rightarrow> (case rc_focusMomentum ctx of Some x \<Rightarrow> x | None \<Rightarrow> 0))"

definition momentum_shift :: "momentum_metrics option \<Rightarrow> rat \<Rightarrow> rat" where
  "momentum_shift momentum confidence =
     (case momentum of
        None \<Rightarrow> confidence
      | Some m \<Rightarrow>
          clamp_to 0 1
            (case slope m of
               SlopeRising \<Rightarrow> fl (confidence + fl (fl (1 / 10) * strength m))
             | SlopeFalling \<Rightarrow> fl (confidence - fl (fl (1 / 10) * strength m))
             | SlopeOscillating \<Rightarrow> fl (confidence - fl (fl (1 / 20) * strength m))
             | SlopeFlat \<Rightarrow> confidence))"

definition entropy_reason :: "rat option \<Rightarrow> string list" where
  "entropy_reason e =
     (case e of
        Some x \<Rightarrow>
          if x > fl (4 / 5) then [''entropy is high, applying safety penalty'']
          else if x > fl (2 / 5) then [''entropy is moderate, confidence slightly reduced'']
          else []
      | None \<Rightarrow> [])"

definition computeRouteHintForSector :: "string \<Rightarrow> routing_context \<Rightarrow> string_mode option \<Rightarrow> route_hint result" where
  "computeRouteHintForSector sectorId ctx stringMode =
     (let depth = clamp_to 0 1 (case rc_depthScore ctx of Some d \<Rightarrow> d | None \<Rightarrow> 0);
          focus = momentum_focus ctx;
          (priorityScores, modeScores) =
            applyStringModeAdjustments (base_priorities depth focus) (base_modes depth focus) stringMode
      in bindr (pickMaxKey priorityScores) (\<lambda>priority. bindr (pickMaxKey modeScores) (\<lambda>mode.
           let normalizedMomentum = clamp_to 0 1 (fl (fl (focus + 1) / 2));
               priorityScore = (case map_of priorityScores priority of Some v \<Rightarrow> v | None \<Rightarrow> 0);
               baseConfidence = clamp_to 0 1 (fl (fl (fl (fl (2 / 5) * depth) + fl (fl (2 / 5) * normalizedMomentum))
                                                 + fl (fl (1 / 5) * clamp_to 0 1 priorityScore)));
               (confidenceDelta, parts) = computeSoftContextAdjustments ctx sectorId mode;
               afterContext = clamp_to 0 1 (fl (baseConfidence + confidenceDelta));
               confidence = momentum_shift (rc_momentum ctx) (applyEntropyPenalty afterContext (rc_entropyLevel ctx));
               reasonParts = buildReason priority mode # parts @ entropy_reason (rc_entropyLevel ctx)
           in Inr \<lparr>rh_sectorId = sectorId, rh_priority = priority, rh_mode = mode, rh_depthScore = depth,
                   rh_focusMomentum = focus, rh_reason = js_join ''; '' (filter (\<lambda>p. p \<noteq> []) reasonParts),
                   routeConfidence = confidence\<rparr>)))"

section \<open>Routes\<close>

definition deriveEntropyFromOrientation :: "orientation_summary \<Rightarrow> rat" where
  "deriveEntropyFromOrientation s =
     (let dispersion = length (risingSectors s) + length (fallingSectors s);
          normalizedActive = clamp_to 0 1 (fl (of_nat (activeSectorCount s) / 6));
          normalizedDispersion = clamp_to 0 1 (fl (of_nat dispersion / 8))
      in clamp_to 0 1 (fl (fl (normalizedActive * fl (3 / 5)) + fl (normalizedDispersion * fl (2 / 5)))))"

definition orientation_context :: "orientation_view \<Rightarrow> orientation_view list option \<Rightarrow> asymmetry_meta option \<Rightarrow> routing_context" where
  "orientation_context view history meta =
     (let s = view_summary view
      in \<lparr>rc_depthScore = Some (case timeWeaveDepthScore s of Some d \<Rightarrow> d | None \<Rightarrow> 0),
          rc_focusMomentum = Some (case focusMomentumScore s of Some m \<Rightarrow> m | None \<Rightarrow> 0),
          rc_entropyLevel = Some (deriveEntropyFromOrientation s), rc_orientationSummary = Some s,
          rc_momentum = Some (computeMomentumMetrics (map view_summary (case history of Some h \<Rightarrow> h | None \<Rightarrow> [view])) None),
          rc_asymmetryMeta = meta, rc_softAsymmetryIndex = map_option softAsymmetryIndex meta\<rparr>)"

text \<open>\<open>xs.map(f)\<close> for a function that may throw.\<close>

fun map_result :: "('a \<Rightarrow> 'b result) \<Rightarrow> 'a list \<Rightarrow> 'b list result" where
  "map_result f [] = Inr []"
| "map_result f (x # xs) = bindr (f x) (\<lambda>y. bindr (map_result f xs) (\<lambda>ys. Inr (y # ys)))"

definition buildRouteHintsFromOrientation ::
  "orientation_view \<Rightarrow> orientation_view list option \<Rightarrow> asymmetry_meta option \<Rightarrow> route_hint list result" where
  "buildRouteHintsFromOrientation view history meta =
     (let ctx = orientation_context view history meta
      in map_result (\<lambda>(k, sector). computeRouteHintForSector (sector_id sector) ctx None) (web_sectors (view_web view)))"

definition better_hint :: "route_hint \<Rightarrow> route_hint \<Rightarrow> route_hint" where
  "better_hint best candidate =
     (if routeConfidence candidate > routeConfidence best then candidate
      else if routeConfidence candidate = routeConfidence best
      then (if rh_sectorId candidate < rh_sectorId best then candidate else best)
      else best)"

definition pickBestHint :: "route_hint list \<Rightarrow> route_hint result" where
  "pickBestHint hints =
     (case hints of
        [] \<Rightarrow> Inl ''Cannot compute route without any candidate sectors.''
      | h # rest \<Rightarrow> Inr (foldl better_hint h hints))"

definition routeWithFuzzyEngine ::
  "string list \<Rightarrow> routing_context \<Rightarrow> (string \<rightharpoonup> string_mode) \<Rightarrow> routing_result result" where
  "routeWithFuzzyEngine sectorIds ctx stringModes =
     bindr (map_result (\<lambda>i. computeRouteHintForSector i ctx (stringModes i)) sectorIds) (\<lambda>hints.
     bindr (pickBestHint hints) (\<lambda>bestHint.
       let (intent, modes) = deriveRoutingIntent ctx
       in Inr \<lparr>bestSectorId = rh_sectorId bestHint, rr_confidence = routeConfidence bestHint,
               rr_focusMomentum = rc_focusMomentum ctx, rr_intent = intent, preferredModes = modes, rr_hints = hints\<rparr>))"

end
