(* ===== verification/Routing_Correct.thy ===== *)
theory Routing_Correct
  imports Fuzzy_Routing Orientation_Correct
begin

text \<open>
  What the routing engine guarantees: every non-empty list of sectors has a route, confidences are
  between 0 and 1, the best sector is the least of those with maximal confidence, whatever the order
  of the candidates; suggestions of the next sector lead to rising or stable sectors.
\<close>

section \<open>Scores\<close>

lemma pick_from_max:
  "\<exists>m. (pick_from k v rest, m) \<in> insert (k, v) (set rest) \<and> (\<forall>e \<in> insert (k, v) (set rest). snd e \<le> m)"
proof (induction k v rest rule: pick_from.induct)
  case (2 k v k' v' rest)
  show ?case
  proof (cases "v < v'")
    case True
    then obtain m where "(pick_from k' v' rest, m) \<in> insert (k', v') (set rest)" "\<forall>e \<in> insert (k', v') (set rest). snd e \<le> m"
      using "2.IH"(1) by blast
    then show ?thesis using True by (intro exI [of _ m]) force
  next
    case False
    then obtain m where "(pick_from k v rest, m) \<in> insert (k, v) (set rest)" "\<forall>e \<in> insert (k, v) (set rest). snd e \<le> m"
      using "2.IH"(2) by blast
    then show ?thesis using False by (intro exI [of _ m]) force
  qed
qed simp

lemma pickMaxKey_max:
  assumes "scores \<noteq> []"
  shows "\<exists>k m. pickMaxKey scores = Inr k \<and> (k, m) \<in> set scores \<and> (\<forall>e \<in> set scores. snd e \<le> m)"
proof -
  obtain k v rest where s: "scores = (k, v) # rest" using assms by (metis list.exhaust surj_pair)
  show ?thesis using pick_from_max [of k v rest] by (simp add: s pickMaxKey_def)
qed

lemma bump_nonempty [simp]: "bump k d scores \<noteq> [] \<longleftrightarrow> scores \<noteq> []"
  by (simp add: bump_def)

lemma base_nonempty [simp]: "base_priorities d m \<noteq> []" "base_modes d m \<noteq> []"
  by (simp_all add: base_priorities_def base_modes_def Let_def)

lemma adjusted_nonempty:
  assumes "ps \<noteq> []" and "ms \<noteq> []"
  shows "fst (applyStringModeAdjustments ps ms sm) \<noteq> []" "snd (applyStringModeAdjustments ps ms sm) \<noteq> []"
  using assms by (simp_all add: applyStringModeAdjustments_def Let_def split: option.split)

section \<open>Confidence\<close>

lemma clamp_to_unit [simp]: "0 \<le> clamp_to 0 1 x" "clamp_to 0 1 x \<le> 1"
  by (simp_all add: clamp_to_def)

lemma entropy_unit:
  "0 \<le> x \<Longrightarrow> 0 \<le> applyEntropyPenalty x e" "x \<le> 1 \<Longrightarrow> applyEntropyPenalty x e \<le> 1"
  by (simp_all add: applyEntropyPenalty_def split: option.split)

lemma shift_unit:
  "0 \<le> x \<Longrightarrow> 0 \<le> momentum_shift m x" "x \<le> 1 \<Longrightarrow> momentum_shift m x \<le> 1"
  by (simp_all add: momentum_shift_def split: option.split)

lemma hint_total:
  "\<exists>h. computeRouteHintForSector i ctx sm = Inr h \<and> rh_sectorId h = i \<and> 0 \<le> routeConfidence h \<and> routeConfidence h \<le> 1"
proof -
  let ?d = "clamp_to 0 1 (case rc_depthScore ctx of Some d \<Rightarrow> d | None \<Rightarrow> 0)" and ?f = "momentum_focus ctx"
  obtain ps ms where a: "applyStringModeAdjustments (base_priorities ?d ?f) (base_modes ?d ?f) sm = (ps, ms)"
    by (cases "applyStringModeAdjustments (base_priorities ?d ?f) (base_modes ?d ?f) sm")
  have "ps \<noteq> []" "ms \<noteq> []" using adjusted_nonempty [of "base_priorities ?d ?f" "base_modes ?d ?f" sm] a by simp_all
  then obtain p m where "pickMaxKey ps = Inr p" "pickMaxKey ms = Inr m" using pickMaxKey_max by metis
  then show ?thesis
    by (simp add: computeRouteHintForSector_def a bindr_def Let_def case_prod_beta entropy_unit shift_unit)
qed

definition hint_for :: "routing_context \<Rightarrow> (string \<rightharpoonup> string_mode) \<Rightarrow> string \<Rightarrow> route_hint" where
  "hint_for ctx modes i = projr (computeRouteHintForSector i ctx (modes i))"

lemma hint_for_facts:
  "computeRouteHintForSector i ctx (modes i) = Inr (hint_for ctx modes i)" "rh_sectorId (hint_for ctx modes i) = i"
  "0 \<le> routeConfidence (hint_for ctx modes i)" "routeConfidence (hint_for ctx modes i) \<le> 1"
  using hint_total [of i ctx "modes i"] by (auto simp: hint_for_def)

lemma map_result_Inr: "(\<And>x. x \<in> set xs \<Longrightarrow> f x = Inr (g x)) \<Longrightarrow> map_result f xs = Inr (map g xs)"
  by (induction xs) (simp_all add: bindr_def)

section \<open>The best route\<close>

text \<open>Better hints: more confidence, or as much and a smaller name.\<close>

definition no_worse :: "route_hint \<Rightarrow> route_hint \<Rightarrow> bool" where
  "no_worse a b \<longleftrightarrow> routeConfidence b < routeConfidence a \<or> routeConfidence b = routeConfidence a \<and> rh_sectorId a \<le> rh_sectorId b"

lemma no_worse_trans: "no_worse a b \<Longrightarrow> no_worse b c \<Longrightarrow> no_worse a c"
  by (auto simp: no_worse_def)

lemma better_hint_no_worse: "no_worse (better_hint a b) a" "no_worse (better_hint a b) b" "better_hint a b \<in> {a, b}"
  by (auto simp: better_hint_def no_worse_def)

lemma foldl_better: "foldl better_hint h hs \<in> insert h (set hs) \<and> (\<forall>x \<in> insert h (set hs). no_worse (foldl better_hint h hs) x)"
proof (induction hs arbitrary: h)
  case (Cons x hs)
  let ?b = "better_hint h x" and ?r = "foldl better_hint (better_hint h x) hs"
  have IH: "?r \<in> insert ?b (set hs)" "no_worse ?r ?b" "\<forall>y \<in> set hs. no_worse ?r y" using Cons [of ?b] by simp_all
  have "no_worse ?r h" "no_worse ?r x" using no_worse_trans [OF IH(2)] better_hint_no_worse(1,2) by blast+
  then show ?case using IH better_hint_no_worse(3) [of h x] by auto
qed (simp add: no_worse_def)

definition top_ids :: "routing_context \<Rightarrow> (string \<rightharpoonup> string_mode) \<Rightarrow> string list \<Rightarrow> string set" where
  "top_ids ctx modes ids =
     {i \<in> set ids. \<forall>j \<in> set ids. routeConfidence (hint_for ctx modes j) \<le> routeConfidence (hint_for ctx modes i)}"

lemma best_hint:
  assumes "ids \<noteq> []"
  shows "\<exists>h. pickBestHint (map (hint_for ctx modes) ids) = Inr h \<and> rh_sectorId h = Min (top_ids ctx modes ids) \<and>
    rh_sectorId h \<in> set ids \<and> h = hint_for ctx modes (rh_sectorId h)"
proof -
  let ?hs = "map (hint_for ctx modes) ids"
  define h where "h = foldl better_hint (hd ?hs) ?hs"
  have pick: "pickBestHint ?hs = Inr h" using assms by (cases ids) (simp_all add: pickBestHint_def h_def)
  have ins: "insert (hd ?hs) (set ?hs) = set ?hs" using assms by (metis insert_absorb list.map_disc_iff list.set_sel(1))
  have mem: "h \<in> set ?hs" and opt: "\<forall>x \<in> set ?hs. no_worse h x"
    using foldl_better [of "hd ?hs" ?hs] unfolding h_def ins by auto
  obtain i where i: "i \<in> set ids" "h = hint_for ctx modes i" using mem by auto
  then have id: "rh_sectorId h = i" by (simp add: hint_for_facts(2))
  have best: "no_worse (hint_for ctx modes i) (hint_for ctx modes j)" if "j \<in> set ids" for j using opt that i(2) by auto
  have "Min (top_ids ctx modes ids) = i"
  proof (rule Min_eqI)
    show "i \<in> top_ids ctx modes ids" using i(1) best by (force simp: top_ids_def no_worse_def)
    show "i \<le> j" if "j \<in> top_ids ctx modes ids" for j
      using that best [of j] i(1) by (auto simp: top_ids_def no_worse_def hint_for_facts(2))
  qed (simp add: top_ids_def)
  then show ?thesis using pick id i by auto
qed

text \<open>C30: the route of the fuzzy engine. Every non-empty list of sectors has a route, an empty one is
  refused. The hints are those of the sectors, with confidences between 0 and 1, and the best
  sector is the least name among the sectors of maximal confidence; so neither the order of the
  candidates nor repetitions change it.\<close>

theorem route_exact:
  "case routeWithFuzzyEngine ids ctx modes of
     Inl e \<Rightarrow> ids = []
   | Inr r \<Rightarrow> ids \<noteq> [] \<and> rr_hints r = map (hint_for ctx modes) ids \<and>
       (\<forall>h \<in> set (rr_hints r). 0 \<le> routeConfidence h \<and> routeConfidence h \<le> 1 \<and> routeConfidence h \<le> rr_confidence r) \<and>
       bestSectorId r = Min (top_ids ctx modes ids) \<and> rr_confidence r = routeConfidence (hint_for ctx modes (bestSectorId r))"
proof (cases "ids = []")
  case True
  then show ?thesis by (simp add: routeWithFuzzyEngine_def pickBestHint_def bindr_def)
next
  case False
  let ?hs = "map (hint_for ctx modes) ids"
  have hints: "map_result (\<lambda>i. computeRouteHintForSector i ctx (modes i)) ids = Inr ?hs"
    by (rule map_result_Inr) (rule hint_for_facts)
  obtain h where h: "pickBestHint ?hs = Inr h" "rh_sectorId h = Min (top_ids ctx modes ids)" "rh_sectorId h \<in> set ids"
    "h = hint_for ctx modes (rh_sectorId h)" using best_hint [OF False] by blast
  have "no_worse h x" if "x \<in> set ?hs" for x
    using h(1) that foldl_better [of "hd ?hs" ?hs] False by (cases ids) (auto simp: pickBestHint_def)
  then have "routeConfidence x \<le> routeConfidence h" if "x \<in> set ?hs" for x using that by (fastforce simp: no_worse_def)
  then have le: "\<forall>x \<in> set ?hs. 0 \<le> routeConfidence x \<and> routeConfidence x \<le> 1 \<and> routeConfidence x \<le> routeConfidence h"
    using hint_for_facts(3,4) by auto
  obtain intent pm where "deriveRoutingIntent ctx = (intent, pm)" by (cases "deriveRoutingIntent ctx")
  then have run: "routeWithFuzzyEngine ids ctx modes = Inr \<lparr>bestSectorId = rh_sectorId h, rr_confidence = routeConfidence h,
      rr_focusMomentum = rc_focusMomentum ctx, rr_intent = intent, preferredModes = pm, rr_hints = ?hs\<rparr>"
    using h(1) by (simp add: routeWithFuzzyEngine_def hints bindr_def)
  show ?thesis unfolding run using le h(2,4) False by simp
qed

definition quiet_context :: routing_context where
  "quiet_context = \<lparr>rc_depthScore = None, rc_focusMomentum = None, rc_entropyLevel = None, rc_orientationSummary = None,
     rc_momentum = None, rc_asymmetryMeta = None, rc_softAsymmetryIndex = None\<rparr>"

theorem route_exact_witness:
  "case routeWithFuzzyEngine [''b'', ''a''] quiet_context Map.empty of
     Inl e \<Rightarrow> False
   | Inr r \<Rightarrow> bestSectorId r = Min (top_ids quiet_context Map.empty [''b'', ''a''])"
  using route_exact [of "[''b'', ''a'']" quiet_context Map.empty] by (auto split: sum.splits)

section \<open>Momentum\<close>

text \<open>Without a history the momentum is flat, and it overrides the momentum score of the view.\<close>

lemma single_view_flat: "computeMomentumMetrics [s] None = \<lparr>slope = SlopeFlat, strength = 0\<rparr>"
  by (simp add: computeMomentumMetrics_def slice_window_def slice_last_def)

lemma context_parts:
  "momentum_focus (ctx\<lparr>rc_orientationSummary := y\<rparr>) = momentum_focus ctx"
  "context_softness (ctx\<lparr>rc_orientationSummary := y\<rparr>) = context_softness ctx"
  "context_softness (ctx\<lparr>rc_focusMomentum := x\<rparr>) = context_softness ctx"
  "rc_momentum ctx \<noteq> None \<Longrightarrow> momentum_focus (ctx\<lparr>rc_focusMomentum := x\<rparr>) = momentum_focus ctx"
  by (auto simp: momentum_focus_def context_softness_def split: option.split)

lemma soft_context_parts:
  "computeSoftContextAdjustments (ctx\<lparr>rc_focusMomentum := x\<rparr>) i m = computeSoftContextAdjustments ctx i m"
  "computeSoftContextAdjustments (ctx\<lparr>rc_orientationSummary := Some (s\<lparr>focusMomentumScore := x\<rparr>)\<rparr>) i m =
     computeSoftContextAdjustments (ctx\<lparr>rc_orientationSummary := Some s\<rparr>) i m"
  by (simp_all add: computeSoftContextAdjustments_def context_parts summary_adjustments_def)

lemma hint_ignores_focus:
  "rc_momentum ctx \<noteq> None \<Longrightarrow>
     computeRouteHintForSector i (ctx\<lparr>rc_focusMomentum := x\<rparr>) sm = computeRouteHintForSector i ctx sm"
  by (simp add: computeRouteHintForSector_def soft_context_parts context_parts)

lemma hint_ignores_summary_focus:
  "computeRouteHintForSector i (ctx\<lparr>rc_orientationSummary := Some (s\<lparr>focusMomentumScore := x\<rparr>)\<rparr>) sm =
     computeRouteHintForSector i (ctx\<lparr>rc_orientationSummary := Some s\<rparr>) sm"
  by (simp add: computeRouteHintForSector_def soft_context_parts context_parts)

definition with_focus :: "orientation_view \<Rightarrow> rat option \<Rightarrow> orientation_view" where
  "with_focus view x = view\<lparr>view_summary := (view_summary view)\<lparr>focusMomentumScore := x\<rparr>\<rparr>"

lemma orientation_context_focus:
  "orientation_context (with_focus view x) None meta =
     (orientation_context view None meta)\<lparr>rc_orientationSummary := Some ((view_summary view)\<lparr>focusMomentumScore := x\<rparr>),
       rc_focusMomentum := Some (case x of Some m \<Rightarrow> m | None \<Rightarrow> 0)\<rparr>"
  by (simp add: orientation_context_def with_focus_def single_view_flat deriveEntropyFromOrientation_def Let_def)

text \<open>The momentum score of a view has no effect on its route hints. Hints built from a view alone are
  the same for every value of the score: the context always carries momentum metrics, which
  replace the score, and those of a single view are flat.\<close>

theorem view_momentum_ignored:
  "buildRouteHintsFromOrientation (with_focus view x) None meta = buildRouteHintsFromOrientation view None meta"
proof -
  let ?c = "orientation_context view None meta"
  have "rc_momentum ?c \<noteq> None" "?c\<lparr>rc_orientationSummary := Some (view_summary view)\<rparr> = ?c"
    by (simp_all add: orientation_context_def Let_def)
  then have "computeRouteHintForSector i (orientation_context (with_focus view x) None meta) None = computeRouteHintForSector i ?c None" for i
    unfolding orientation_context_focus
    using hint_ignores_focus [where ctx = "?c\<lparr>rc_orientationSummary := Some ((view_summary view)\<lparr>focusMomentumScore := x\<rparr>)\<rparr>"]
      hint_ignores_summary_focus [where ctx = ?c and s = "view_summary view"] by simp
  then show ?thesis by (simp add: buildRouteHintsFromOrientation_def with_focus_def [of view x])
qed

section \<open>The next sector\<close>

definition others :: "orientation_view \<Rightarrow> string \<Rightarrow> temporal_trend \<Rightarrow> string set" where
  "others view current t =
     {i. i \<noteq> current \<and> (\<exists>s \<in> set (view_sectors view). snap_sectorId s = i \<and> branchTrend s = Some t)}"

lemma first_name_sort:
  assumes "[] \<notin> set xs"
  shows "first_name (sort xs) = (if xs = [] then None else Some (Min (set xs)))"
proof (cases "xs = []")
  case False
  then obtain x rest where s: "sort xs = x # rest" by (metis list.exhaust set_empty set_sort)
  then have "x \<in> set xs" by (metis list.set_intros(1) set_sort)
  then have "x \<noteq> []" using assms by blast
  moreover have "x = Min (set xs)" using hd_sort_Min [OF False] by (simp add: s)
  ultimately show ?thesis using False by (simp add: first_name_def s)
qed (simp add: first_name_def)

lemma first_other:
  assumes "\<forall>s \<in> set snaps. snap_sectorId s \<noteq> []"
  shows "first_name (sort (filter (\<lambda>i. i \<noteq> current) (sectors_with t snaps))) =
    (let os = {i. i \<noteq> current \<and> (\<exists>s \<in> set snaps. snap_sectorId s = i \<and> branchTrend s = Some t)} in if os = {} then None else Some (Min os))"
proof -
  let ?xs = "filter (\<lambda>i. i \<noteq> current) (sectors_with t snaps)"
  have set: "set ?xs = {i. i \<noteq> current \<and> (\<exists>s \<in> set snaps. snap_sectorId s = i \<and> branchTrend s = Some t)}"
    by (auto simp: sectors_with_def)
  have "[] \<notin> set ?xs" using assms by (auto simp: sectors_with_def)
  from first_name_sort [OF this]
  have "first_name (sort ?xs) = (if set ?xs = {} then None else Some (Min (set ?xs)))" by (simp only: set_empty)
  then show ?thesis unfolding set Let_def .
qed

text \<open>The choice of the next sector, on a view of a weave whose sectors have names. When another
  sector rises, the first of them by name is suggested if the current sector falls, stands still or is
  unknown, and none otherwise; when no other sector rises, the first other plateau sector is
  suggested, also when the current sector itself is the one that rises. The order of the
  sectors has no influence.\<close>

theorem next_sector_exact:
  assumes "view = buildTemporalOrientationView dateParse web w" and "\<forall>e \<in> set (web_sectors web). sector_id (snd e) \<noteq> []"
  shows "suggestedSectorId (pickNextSector view current) =
    (let up = others view current TrendRising; flat = others view current TrendPlateau
     in if up \<noteq> {}
        then if current_trend view current \<in> {Some TrendFalling, Some TrendPlateau} \<or> find_snapshot view current = None
             then Some (Min up) else None
        else if flat \<noteq> {} then Some (Min flat) else None)"
proof -
  define snaps where "snaps = view_sectors view"
  have names: "\<forall>s \<in> set snaps. snap_sectorId s \<noteq> []"
    using assms(2) by (auto simp: snaps_def assms(1) buildTemporalOrientationView_def buildSectorTemporalSnapshot_def Let_def case_prod_beta)
  have lists: "risingSectors (view_summary view) = sectors_with TrendRising snaps"
    "plateauSectors (view_summary view) = sectors_with TrendPlateau snaps"
    by (simp_all add: snaps_def assms(1) buildTemporalOrientationView_def buildSummary_def Let_def)
  note first = first_other [OF names, of current, folded others_def [of view current, folded snaps_def]]
  show ?thesis
    unfolding pickNextSector_def lists first others_def [of view current, folded snaps_def] Let_def by auto
qed

theorem next_sector_exact_witness:
  "suggestedSectorId (pickNextSector (buildTemporalOrientationView (\<lambda>s. None)
     \<lparr>web_sectors = [(''a'', createDefaultSector ''a''), (''b'', createDefaultSector ''b'')], activeSectorId = ''a''\<rparr> createEmptyWeave) ''a'') = None"
proof -
  let ?web = "\<lparr>web_sectors = [(''a'', createDefaultSector ''a''), (''b'', createDefaultSector ''b'')], activeSectorId = ''a''\<rparr>"
  let ?view = "buildTemporalOrientationView (\<lambda>s. None) ?web createEmptyWeave"
  have "others ?view ''a'' t = {}" for t
    by (auto simp: others_def buildTemporalOrientationView_def buildSectorTemporalSnapshot_def getBranchSnapshot_def getBranch_def
        createEmptyWeave_def Let_def)
  then show ?thesis
    using next_sector_exact [OF refl, of ?web "\<lambda>s. None" createEmptyWeave "''a''"] by (simp add: createDefaultSector_def)
qed

end
