(* ===== verification/Consciousness_Web.thy ===== *)
theory Consciousness_Web
  imports Thread_Life_Correct
begin

text \<open>
  The consciousness web (\<open>sdk/js/src/consciousnessWeb.ts\<close>): links between the threads of a map, their
  degrees and centrality, the sectors that make threads active, and snapshots with their future
  paths. Roles that name properties of \<open>Object.prototype\<close> are outside the model.
\<close>

section \<open>Model\<close>

datatype link_kind = ParentChild | SharedTag | SharedScope

record thread_link =
  fromId :: string
  toId :: string
  link_kind :: link_kind
  link_weight :: rat

record node_metrics =
  nm_threadId :: string
  nm_energyLevel :: rat
  nm_resonanceLevel :: rat
  degree :: nat
  centralityScore :: rat

record consciousness_web =
  cw_ownerId :: string
  cw_threads :: "thread_vector list"
  cw_links :: "thread_link list"
  cw_metrics :: "node_metrics list"

datatype zone = Calm_zone | Growth_zone | Recovery_zone | Storm_zone | Shift_zone

record future_path =
  fp_role :: string
  fp_label :: string
  fp_path :: "zone list"
  probability :: rat

record time_anchor =
  ta_offset :: int
  ta_label :: string
  ta_confidence :: "rat option"

record consciousness_snapshot =
  cs_orientation :: zone
  cs_focusMomentum :: rat
  cs_volatility :: rat
  cs_resilience :: rat
  cs_tension :: rat
  cs_turbulenceZones :: "zone list"
  cs_timeAnchors :: "time_anchor list"
  cs_futurePaths :: "future_path list"

text \<open>\<open>clampScore\<close> is \<open>clampLevel\<close> of the thread life model.\<close>

definition positive_part :: "rat \<Rightarrow> rat" where
  "positive_part p = (if p > 0 then p else 0)"

definition normalizeProbabilities :: "rat list \<Rightarrow> rat list" where
  "normalizeProbabilities ps =
     (if ps = [] then []
      else
        let total = (let t = fl_sum (map positive_part ps) in if t = 0 then 1 else t)
        in map (\<lambda>idx.
             if idx = length ps - 1
             then clampLevel (fl (1 - fl_sum (map clampLevel (take idx ps))))
             else clampLevel (fl (ps ! idx / total))) [0..<length ps])"

definition ZONE_ROLE_ORDER :: "zone list" where
  "ZONE_ROLE_ORDER = [Storm_zone, Shift_zone, Growth_zone, Recovery_zone, Calm_zone]"

fun index_of :: "'a \<Rightarrow> 'a list \<Rightarrow> int" where
  "index_of x [] = - 1"
| "index_of x (y # ys) = (if x = y then 0 else let i = index_of x ys in if i < 0 then i else i + 1)"

definition role_order :: "string \<Rightarrow> int" where
  "role_order r = (if r = ''primary'' then 0 else if r = ''recover'' then 1 else if r = ''explore'' then 2 else 3)"

definition zone_order :: "future_path \<Rightarrow> int" where
  "zone_order p = (case fp_path p of [] \<Rightarrow> - 1 | z # rest \<Rightarrow> index_of z ZONE_ROLE_ORDER)"

definition path_cmp :: "future_path \<Rightarrow> future_path \<Rightarrow> int" where
  "path_cmp a b =
     (let roleDiff = role_order (fp_role a) - role_order (fp_role b); zoneDiff = zone_order a - zone_order b
      in if roleDiff \<noteq> 0 then roleDiff else if zoneDiff \<noteq> 0 then zoneDiff else descending probability a b)"

definition normalizeFuturePaths :: "future_path list \<Rightarrow> future_path list" where
  "normalizeFuturePaths paths =
     sort_by path_cmp (map2 (\<lambda>p v. p\<lparr>probability := v\<rparr>) paths (normalizeProbabilities (map probability paths)))"

definition mk_link :: "string \<Rightarrow> string \<Rightarrow> link_kind \<Rightarrow> rat \<Rightarrow> thread_link" where
  "mk_link a b k v = \<lparr>fromId = a, toId = b, link_kind = k, link_weight = v\<rparr>"

definition createParentChildLinks :: "thread_vector list \<Rightarrow> thread_link list" where
  "createParentChildLinks ts =
     concat (map (\<lambda>t. case parentThreadId t of
        None \<Rightarrow> []
      | Some p \<Rightarrow> if p = [] \<or> p \<notin> threadId ` set ts then [] else [mk_link p (threadId t) ParentChild 1]) ts)"

text \<open>The two nested loops over pairs of threads.\<close>

fun pair_links :: "(thread_vector \<Rightarrow> thread_vector \<Rightarrow> bool) \<Rightarrow> link_kind \<Rightarrow> rat \<Rightarrow> thread_vector list \<Rightarrow> thread_link list" where
  "pair_links P k v [] = []"
| "pair_links P k v (t # ts) =
     map (\<lambda>u. mk_link (threadId t) (threadId u) k v) (filter (P t) ts) @ pair_links P k v ts"

definition createSharedScopeLinks :: "thread_vector list \<Rightarrow> thread_link list" where
  "createSharedScopeLinks ts = pair_links (\<lambda>a b. thread_scope a = thread_scope b) SharedScope (fl (2 / 5)) ts"

definition thread_tags :: "thread_vector \<Rightarrow> string list" where
  "thread_tags t = (case tags t of Some ts \<Rightarrow> ts | None \<Rightarrow> [])"

definition createSharedTagLinks :: "thread_vector list \<Rightarrow> thread_link list" where
  "createSharedTagLinks ts =
     pair_links (\<lambda>a b. list_ex (\<lambda>g. g \<in> set (thread_tags b)) (thread_tags a)) SharedTag (fl (3 / 5)) ts"

definition count_end :: "string \<Rightarrow> (string \<rightharpoonup> nat) \<Rightarrow> (string \<rightharpoonup> nat)" where
  "count_end i m = m(i \<mapsto> (case m i of Some n \<Rightarrow> n | None \<Rightarrow> 0) + 1)"

definition degree_map :: "thread_link list \<Rightarrow> (string \<rightharpoonup> nat)" where
  "degree_map links = fold (\<lambda>l m. count_end (toId l) (count_end (fromId l) m)) links Map.empty"

definition degree_of :: "thread_link list \<Rightarrow> string \<Rightarrow> nat" where
  "degree_of links i = (case degree_map links i of Some n \<Rightarrow> n | None \<Rightarrow> 0)"

text \<open>\<open>Math.max(1, ...degreeMap.values())\<close>; the keys are the ends of the links.\<close>

definition max_degree :: "thread_link list \<Rightarrow> nat" where
  "max_degree links = fold max (map (degree_of links) (concat (map (\<lambda>l. [fromId l, toId l]) links))) 1"

definition computeMetrics :: "thread_vector list \<Rightarrow> thread_link list \<Rightarrow> node_metrics list" where
  "computeMetrics ts links =
     (let maxDegree = max_degree links
      in map (\<lambda>t.
           let deg = degree_of links (threadId t); degreeScore = fl (of_nat deg / of_nat maxDegree)
           in \<lparr>nm_threadId = threadId t, nm_energyLevel = energyLevel t, nm_resonanceLevel = resonanceLevel t, degree = deg,
               centralityScore = clampLevel (fl (fl (fl (degreeScore * (1 / 2)) + fl (energyLevel t * (1 / 4)))
                                                 + fl (resonanceLevel t * (1 / 4))))\<rparr>) ts)"

definition buildConsciousnessWeb :: "thread_map \<Rightarrow> consciousness_web" where
  "buildConsciousnessWeb m =
     (let links = createParentChildLinks (threads m) @ createSharedScopeLinks (threads m) @ createSharedTagLinks (threads m)
      in \<lparr>cw_ownerId = ownerId m, cw_threads = threads m, cw_links = links, cw_metrics = computeMetrics (threads m) links\<rparr>)"

record orientation_sector =
  sc_id :: string
  sc_label :: string
  sc_scope :: "thread_scope option"
  sc_requiredTags :: "string list option"

record orientation_shell =
  shell_sectors :: "orientation_sector list"
  activeSectorIds :: "string list"

definition default_sectors :: "orientation_sector list" where
  "default_sectors =
     [\<lparr>sc_id = ''scope-individual'', sc_label = ''Individual focus'', sc_scope = Some Individual, sc_requiredTags = None\<rparr>,
      \<lparr>sc_id = ''scope-family'', sc_label = ''Family field'', sc_scope = Some Family, sc_requiredTags = None\<rparr>,
      \<lparr>sc_id = ''scope-project'', sc_label = ''Project and initiatives'', sc_scope = Some Project, sc_requiredTags = None\<rparr>,
      \<lparr>sc_id = ''scope-system'', sc_label = ''System / protocol level'', sc_scope = Some System, sc_requiredTags = None\<rparr>,
      \<lparr>sc_id = ''tag-liminal-os'', sc_label = ''Liminal OS threads'', sc_scope = None, sc_requiredTags = Some [''liminal-os'']\<rparr>]"

definition createDefaultOrientationShell :: orientation_shell where
  "createDefaultOrientationShell = \<lparr>shell_sectors = default_sectors, activeSectorIds = map sc_id default_sectors\<rparr>"

definition matchesSector :: "thread_vector \<Rightarrow> orientation_sector \<Rightarrow> bool" where
  "matchesSector t s =
     (let scopeMatches = (case sc_scope s of Some sc \<Rightarrow> thread_scope t = sc | None \<Rightarrow> False);
          tagMatches = (case sc_requiredTags s of
                          Some req \<Rightarrow> req \<noteq> [] \<and> list_ex (\<lambda>g. g \<in> set req) (thread_tags t)
                        | None \<Rightarrow> False)
      in scopeMatches \<or> tagMatches)"

definition orientWeb :: "consciousness_web \<Rightarrow> orientation_shell \<Rightarrow> thread_vector list \<times> thread_vector list" where
  "orientWeb web shell =
     (let activeSectors = filter (\<lambda>s. sc_id s \<in> set (activeSectorIds shell)) (shell_sectors shell);
          activeThreadIds = threadId ` set (filter (\<lambda>t. list_ex (matchesSector t) activeSectors) (cw_threads web))
      in (filter (\<lambda>t. threadId t \<in> activeThreadIds) (cw_threads web),
          filter (\<lambda>t. threadId t \<notin> activeThreadIds) (cw_threads web)))"

record snapshot_params =
  sp_orientation :: zone
  sp_focusMomentum :: "rat option"
  sp_volatility :: "rat option"
  sp_resilience :: "rat option"
  sp_tension :: "rat option"
  sp_turbulenceZones :: "zone list option"
  sp_timeAnchors :: "time_anchor list option"
  sp_futurePaths :: "future_path list option"
  sp_web :: "consciousness_web option"

definition default_paths :: "future_path list" where
  "default_paths =
     [\<lparr>fp_role = ''primary'', fp_label = ''Shift to Growth'', fp_path = [Storm_zone, Shift_zone, Growth_zone], probability = fl (11 / 25)\<rparr>,
      \<lparr>fp_role = ''recover'', fp_label = ''Stabilize Recovery'', fp_path = [Storm_zone, Recovery_zone], probability = fl (33 / 100)\<rparr>,
      \<lparr>fp_role = ''explore'', fp_label = ''Explore Calm'', fp_path = [Storm_zone, Growth_zone, Calm_zone], probability = fl (23 / 100)\<rparr>]"

definition default_anchors :: "time_anchor list" where
  "default_anchors =
     [\<lparr>ta_offset = - 3, ta_label = ''stable'', ta_confidence = Some (fl (23 / 25))\<rparr>,
      \<lparr>ta_offset = - 2, ta_label = ''rising tension'', ta_confidence = Some (fl (81 / 100))\<rparr>,
      \<lparr>ta_offset = - 1, ta_label = ''storm onset'', ta_confidence = Some (fl (37 / 50))\<rparr>,
      \<lparr>ta_offset = 1, ta_label = ''possible shift'', ta_confidence = Some (fl (37 / 50))\<rparr>]"

text \<open>\<open>a ?? b ?? 0.5\<close>.\<close>

definition level_default :: "rat option \<Rightarrow> rat option \<Rightarrow> rat" where
  "level_default a b = (case a of Some x \<Rightarrow> x | None \<Rightarrow> (case b of Some y \<Rightarrow> y | None \<Rightarrow> 1 / 2))"

definition buildConsciousnessSnapshot :: "snapshot_params \<Rightarrow> consciousness_snapshot" where
  "buildConsciousnessSnapshot p =
     (let summary = map_option (\<lambda>web. summarizeThreadMap \<lparr>ownerId = cw_ownerId web, threads = cw_threads web\<rparr>) (sp_web p);
          focus = clampLevel (level_default (sp_focusMomentum p) (map_option averageEnergy summary));
          vol = clampLevel (level_default (sp_volatility p) (map_option volatility summary));
          res = clampLevel (level_default (sp_resilience p) (map_option averageResonance summary));
          ten = clampLevel (case sp_tension p of Some t \<Rightarrow> t | None \<Rightarrow> fl (fl (vol * fl (2 - res)) / 2))
      in \<lparr>cs_orientation = sp_orientation p, cs_focusMomentum = focus, cs_volatility = vol, cs_resilience = res, cs_tension = ten,
          cs_turbulenceZones = (case sp_turbulenceZones p of Some zs \<Rightarrow> zs | None \<Rightarrow> if vol > fl (3 / 5) then [sp_orientation p] else []),
          cs_timeAnchors = (case sp_timeAnchors p of Some ts \<Rightarrow> ts | None \<Rightarrow> default_anchors),
          cs_futurePaths = normalizeFuturePaths (case sp_futurePaths p of Some fs \<Rightarrow> fs | None \<Rightarrow> default_paths)\<rparr>)"

section \<open>Degrees\<close>

definition link_ends :: "thread_link list \<Rightarrow> string list" where
  "link_ends links = concat (map (\<lambda>l. [fromId l, toId l]) links)"

lemma degree_of_count: "degree_of links i = count_list (link_ends links) i"
proof -
  have "(case fold (\<lambda>l m. count_end (toId l) (count_end (fromId l) m)) links m i of Some n \<Rightarrow> n | None \<Rightarrow> 0) =
      (case m i of Some n \<Rightarrow> n | None \<Rightarrow> 0) + count_list (link_ends links) i" for m
    by (induction links arbitrary: m) (auto simp: link_ends_def count_end_def split: option.split)
  from this [of Map.empty] show ?thesis by (simp add: degree_of_def degree_map_def)
qed

lemma pair_links_ends: "l \<in> set (pair_links P k v ts) \<Longrightarrow> {fromId l, toId l} \<subseteq> threadId ` set ts"
  by (induction ts) (auto simp: mk_link_def)

lemma web_ends: "set (link_ends (cw_links (buildConsciousnessWeb m))) \<subseteq> threadId ` set (threads m)"
proof -
  have "{fromId l, toId l} \<subseteq> threadId ` set (threads m)" if "l \<in> set (createParentChildLinks (threads m))" for l
    using that by (auto simp: createParentChildLinks_def mk_link_def split: option.splits if_splits)
  then show ?thesis
    using pair_links_ends
    by (fastforce simp: link_ends_def buildConsciousnessWeb_def createSharedScopeLinks_def createSharedTagLinks_def Let_def)
qed

lemma sum_counts: "distinct xs \<Longrightarrow> set ys \<subseteq> set xs \<Longrightarrow> sum_list (map (count_list ys) xs) = length ys"
proof (induction ys)
  case (Cons y ys)
  have "sum_list (map (\<lambda>x. if y = x then 1 else 0) xs) = (1 :: nat)"
    using Cons.prems by (simp add: sum_list_distinct_conv_sum_set)
  moreover have "map (count_list (y # ys)) xs = map (\<lambda>x. (if y = x then 1 else 0) + count_list ys x) xs" by auto
  ultimately have "sum_list (map (count_list (y # ys)) xs) = 1 + sum_list (map (count_list ys) xs)"
    by (simp only: sum_list_addf)
  moreover have "sum_list (map (count_list ys) xs) = length ys" using Cons by simp
  ultimately show ?case by (simp only: list.size(4) add.commute One_nat_def)
qed simp

text \<open>The degrees of a consciousness web. For a map with distinct identifiers, every thread has its
  metrics, its degree is the number of link ends at it, the degrees add up to twice the number of
  links, links join threads of the map, and centrality stays between 0 and 1.\<close>

theorem web_degrees:
  assumes "distinct (map threadId (threads m))" and "web = buildConsciousnessWeb m"
  shows "map nm_threadId (cw_metrics web) = map threadId (threads m) \<and>
    (\<forall>n \<in> set (cw_metrics web). degree n = count_list (link_ends (cw_links web)) (nm_threadId n) \<and>
      0 \<le> centralityScore n \<and> centralityScore n \<le> 1) \<and>
    sum_list (map degree (cw_metrics web)) = 2 * length (cw_links web) \<and>
    set (link_ends (cw_links web)) \<subseteq> threadId ` set (threads m)"
proof -
  have metrics: "cw_metrics web = computeMetrics (threads m) (cw_links web)"
    by (simp add: assms(2) buildConsciousnessWeb_def Let_def)
  have ends: "set (link_ends (cw_links web)) \<subseteq> threadId ` set (threads m)" using web_ends assms(2) by simp
  have "length (link_ends ls) = 2 * length ls" for ls by (induction ls) (simp_all add: link_ends_def)
  moreover have "map degree (cw_metrics web) = map (count_list (link_ends (cw_links web))) (map threadId (threads m))"
    by (simp add: metrics computeMetrics_def degree_of_count Let_def)
  ultimately have "sum_list (map degree (cw_metrics web)) = 2 * length (cw_links web)"
    using sum_counts [OF assms(1), of "link_ends (cw_links web)"] ends by simp
  moreover have "0 \<le> clampLevel x" "clampLevel x \<le> 1" for x by (simp_all add: clampLevel_def)
  ultimately show ?thesis
    using ends by (auto simp: metrics computeMetrics_def degree_of_count Let_def)
qed

theorem web_degrees_witness:
  "sum_list (map degree (cw_metrics (buildConsciousnessWeb \<lparr>ownerId = ''o'', threads = [toy_thread, toy_thread\<lparr>threadId := ''u''\<rparr>]\<rparr>))) = 2"
  using web_degrees [OF _ refl, of "\<lparr>ownerId = ''o'', threads = [toy_thread, toy_thread\<lparr>threadId := ''u''\<rparr>]\<rparr>"]
  by (simp add: toy_thread_def buildConsciousnessWeb_def createParentChildLinks_def createSharedScopeLinks_def
      createSharedTagLinks_def thread_tags_def Let_def)

section \<open>Sectors and paths\<close>

text \<open>Every thread is active or dormant, and active exactly when it or a thread of its identifier matches
  an active sector; with the default shell nothing is dormant.\<close>

lemma orientWeb_partition:
  "mset (fst (orientWeb web shell)) + mset (snd (orientWeb web shell)) = mset (cw_threads web)"
  by (simp add: orientWeb_def Let_def)

lemma default_shell_all_active: "snd (orientWeb web createDefaultOrientationShell) = []"
proof -
  have "list_ex (matchesSector t) default_sectors" for t
    by (cases "thread_scope t") (simp_all add: default_sectors_def matchesSector_def)
  moreover have "filter (\<lambda>s. sc_id s \<in> set (map sc_id default_sectors)) default_sectors = default_sectors"
    by (simp add: filter_id_conv)
  ultimately show ?thesis by (simp add: orientWeb_def createDefaultOrientationShell_def Let_def)
qed

lemma path_cmp_consistent: "consistent_cmp path_cmp"
  unfolding consistent_cmp_def path_cmp_def descending_def Let_def by (auto split: if_splits)

lemma normalized_paths_sorted: "sorted_wrt (\<lambda>a b. path_cmp a b \<le> 0) (normalizeFuturePaths paths)"
  unfolding normalizeFuturePaths_def using sorted_sort_by [OF path_cmp_consistent refl] .

text \<open>Probabilities are not normalised. Of two paths with the same probability \<open>p\<close> the first gets one
  half, but the second gets what its predecessors leave before normalisation, \<open>1 - p\<close>; for \<open>p\<close> of at
  most one quarter the two add up to 1.25 or more.\<close>

theorem probabilities_not_normalized:
  assumes "0 < p" and "p \<le> 1 / 4" and "fl p = p"
  shows "normalizeProbabilities [p, p] = [1 / 2, fl (1 - p)] \<and> 5 / 4 \<le> sum_list (normalizeProbabilities [p, p])"
proof -
  have double: "fl (p + p) = 2 * p" using fl_double [OF assms(3)] by (metis mult_2)
  have half: "fl (1 / 2 :: rat) = 1 / 2" by code_simp
  have sum: "fl_sum [p, p] = 2 * p" "fl_sum [p] = p" using double assms(3) by (simp_all add: fl_sum_def)
  have "0 \<le> fl (1 - p)" "fl (1 - p) \<le> 1" using fl_unit [of "1 - p"] assms by simp_all
  then have eq: "normalizeProbabilities [p, p] = [1 / 2, fl (1 - p)]"
    using assms sum half by (simp add: normalizeProbabilities_def positive_part_def clampLevel_def Let_def)
  have "3 / 4 \<le> fl (1 - p)" by (rule fl_ge) (use assms in simp, code_simp)
  then show ?thesis by (simp add: eq)
qed

theorem probabilities_not_normalized_witness:
  "normalizeProbabilities [1 / 4, 1 / 4] = [1 / 2, 3 / 4]"
proof -
  have "fl (1 / 4 :: rat) = 1 / 4" "fl (3 / 4 :: rat) = 3 / 4" by code_simp+
  then show ?thesis using probabilities_not_normalized [of "1 / 4"] by simp
qed

end
