(* ===== verification/Turtle_Ring.thy ===== *)
theory Turtle_Ring
  imports JS_Math
begin

text \<open>
  The ring of orientation frames (\<open>src/turtle\<close>): twelve frames, the matrix that points at one of
  them, rotation to a frame or by a number of steps, views and snapshots. Frame ids are strings, as the
  callers of the compiled code pass them; \<open>%\<close> of JavaScript is exact and takes the sign of its left side.
\<close>

section \<open>Types and frames\<close>

record turtle_descriptor =
  tf_id :: string
  tf_label :: string
  tf_description :: string
  tf_index :: rat

record turtle_matrix =
  currentFrame :: string
  previousFrame :: "string option"
  rotationAngle :: rat
  frameIndex :: rat
  commitment :: "rat option"

record turtle_view =
  tv_currentFrame :: string
  tv_rotationAngle :: rat
  tv_frameIndex :: rat
  tv_previousFrame :: "string option"

record turtle_snapshot =
  currentFrameId :: string
  currentFrameLabel :: string
  ts_frameIndex :: rat
  ts_rotationAngle :: rat
  ts_commitment :: rat

record turtle_input =
  targetFrame :: string
  in_commitment :: "rat option"

definition TURTLE_FRAMES :: "turtle_descriptor list" where
  "TURTLE_FRAMES =
    [\<lparr>tf_id = ''baseline'', tf_label = ''Baseline'',
       tf_description = ''Neutral, default orientation frame for the system.'', tf_index = 0\<rparr>,
     \<lparr>tf_id = ''inner_focus'', tf_label = ''Inner Focus'',
       tf_description = ''Attuned to inner state, emotions, and subjective experience.'', tf_index = 1\<rparr>,
     \<lparr>tf_id = ''outer_context'', tf_label = ''Outer Context'',
       tf_description = ''Sensing the environment and external world signals.'', tf_index = 2\<rparr>,
     \<lparr>tf_id = ''local_time'', tf_label = ''Local Time'',
       tf_description = ''Short-term, near-future orientation for immediate action.'', tf_index = 3\<rparr>,
     \<lparr>tf_id = ''deep_time'', tf_label = ''Deep Time'',
       tf_description = ''Long-term timelines and deep futures guidance.'', tf_index = 4\<rparr>,
     \<lparr>tf_id = ''decision_axis'', tf_label = ''Decision Axis'',
       tf_description = ''Decision-making mode that emphasizes branching paths.'', tf_index = 5\<rparr>,
     \<lparr>tf_id = ''regulation_axis'', tf_label = ''Regulation Axis'',
       tf_description = ''Self-regulation and stabilization of the system state.'', tf_index = 6\<rparr>,
     \<lparr>tf_id = ''family_field'', tf_label = ''Family Field'',
       tf_description = ''Focus on close social bonds and family-like fields.'', tf_index = 7\<rparr>,
     \<lparr>tf_id = ''collective_field'', tf_label = ''Collective Field'',
       tf_description = ''Broader collective awareness and network resonance.'', tf_index = 8\<rparr>,
     \<lparr>tf_id = ''field_resonance'', tf_label = ''Field Resonance'',
       tf_description = ''Resonance dynamics across fields and shared signals.'', tf_index = 9\<rparr>,
     \<lparr>tf_id = ''meta_observer'', tf_label = ''Meta Observer'',
       tf_description = ''Meta-level observer frame for reflective sensing.'', tf_index = 10\<rparr>,
     \<lparr>tf_id = ''seed_potential'', tf_label = ''Seed Potential'',
       tf_description = ''Origin point for emerging threads and potentials.'', tf_index = 11\<rparr>]"

section \<open>Operations\<close>

text \<open>The remainder \<open>x % y\<close> for a positive \<open>y\<close>.\<close>

definition js_rem :: "rat \<Rightarrow> rat \<Rightarrow> rat" where
  "js_rem x y = x - y * of_int (if 0 \<le> x then \<lfloor>x / y\<rfloor> else \<lceil>x / y\<rceil>)"

definition clamp_range :: "rat \<Rightarrow> rat \<Rightarrow> rat \<Rightarrow> rat" where
  "clamp_range v lo hi = max lo (min hi v)"

definition normalizeAngle :: "rat \<Rightarrow> rat" where
  "normalizeAngle v = (let normalized = js_rem v 360 in if normalized \<ge> 0 then normalized else fl (normalized + 360))"

definition normalizeIndex :: "rat \<Rightarrow> rat \<Rightarrow> rat" where
  "normalizeIndex v len = js_rem (fl (js_rem v len + len)) len"

definition getFrameDescriptor :: "string \<Rightarrow> turtle_descriptor result" where
  "getFrameDescriptor i =
     (case find (\<lambda>candidate. tf_id candidate = i) TURTLE_FRAMES of
        Some frame \<Rightarrow> Inr frame
      | None \<Rightarrow> Inl (''Unknown TurtleFrameId: '' @ i))"

definition listFrames :: "turtle_descriptor list" where
  "listFrames = TURTLE_FRAMES"

definition createDefaultTurtleMatrix :: "turtle_matrix result" where
  "createDefaultTurtleMatrix =
     bindr (getFrameDescriptor ''baseline'') (\<lambda>baseline.
       Inr \<lparr>currentFrame = tf_id baseline, previousFrame = None, rotationAngle = 0,
            frameIndex = tf_index baseline, commitment = Some (1 / 2)\<rparr>)"

definition rotateTurtleMatrix :: "turtle_matrix \<Rightarrow> turtle_input \<Rightarrow> turtle_matrix result" where
  "rotateTurtleMatrix m inp =
     (if targetFrame inp = currentFrame m then Inr m
      else bindr (getFrameDescriptor (currentFrame m)) (\<lambda>currentDescriptor.
           bindr (getFrameDescriptor (targetFrame inp)) (\<lambda>targetDescriptor.
             let anglePerFrame = fl (360 / of_nat (length TURTLE_FRAMES));
                 deltaIndex = tf_index targetDescriptor - tf_index currentDescriptor
             in Inr \<lparr>currentFrame = tf_id targetDescriptor, previousFrame = Some (currentFrame m),
                     rotationAngle = normalizeAngle (fl (rotationAngle m + fl (deltaIndex * anglePerFrame))),
                     frameIndex = tf_index targetDescriptor,
                     commitment = (case in_commitment inp of None \<Rightarrow> commitment m | Some c \<Rightarrow> Some (clamp_range c 0 1))\<rparr>)))"

text \<open>Reading \<open>TURTLE_FRAMES[nextIndex].id\<close>: a fractional index gives \<open>undefined\<close>, whose property
  access throws.\<close>

definition rotateByStep :: "turtle_matrix \<Rightarrow> js_number \<Rightarrow> rat option \<Rightarrow> turtle_matrix result" where
  "rotateByStep m steps c =
     (case steps of
        Finite s \<Rightarrow>
          (let frameCount = length TURTLE_FRAMES; nextIndex = normalizeIndex (fl (frameIndex m + s)) (of_nat frameCount)
           in if nextIndex = of_int \<lfloor>nextIndex\<rfloor> \<and> 0 \<le> nextIndex \<and> nextIndex < of_nat frameCount
              then rotateTurtleMatrix m \<lparr>targetFrame = tf_id (TURTLE_FRAMES ! nat \<lfloor>nextIndex\<rfloor>), in_commitment = c\<rparr>
              else Inl ''TypeError'')
      | _ \<Rightarrow> Inl ''Rotation step must be a finite number'')"

definition getTurtleOrientationView :: "turtle_matrix \<Rightarrow> turtle_view" where
  "getTurtleOrientationView m =
     \<lparr>tv_currentFrame = currentFrame m, tv_rotationAngle = rotationAngle m, tv_frameIndex = frameIndex m,
      tv_previousFrame = previousFrame m\<rparr>"

definition buildTurtleSnapshot :: "turtle_matrix \<Rightarrow> turtle_snapshot result" where
  "buildTurtleSnapshot m =
     bindr (getFrameDescriptor (currentFrame m)) (\<lambda>descriptor.
       Inr \<lparr>currentFrameId = tf_id descriptor, currentFrameLabel = tf_label descriptor,
            ts_frameIndex = frameIndex m, ts_rotationAngle = rotationAngle m,
            ts_commitment = (case commitment m of Some c \<Rightarrow> c | None \<Rightarrow> 0)\<rparr>)"

section \<open>The ring\<close>

lemma frames_indexed: "i < 12 \<Longrightarrow> tf_index (TURTLE_FRAMES ! i) = of_nat i"
  by (auto simp: TURTLE_FRAMES_def less_Suc_eq numeral_eq_Suc)

lemma frames_length [simp]: "length TURTLE_FRAMES = 12"
  by (simp add: TURTLE_FRAMES_def)

lemma frames_distinct: "distinct (map tf_id TURTLE_FRAMES)"
  by (simp add: TURTLE_FRAMES_def)

lemma find_nth:
  assumes "distinct (map f xs)" and "i < length xs"
  shows "find (\<lambda>x. f x = f (xs ! i)) xs = Some (xs ! i)"
proof -
  have "find (\<lambda>x. f x = f (xs ! i)) xs \<noteq> None" using nth_mem [OF assms(2)] by (auto simp: find_None_iff)
  then obtain x where x: "find (\<lambda>x. f x = f (xs ! i)) xs = Some x" by auto
  then obtain j where j: "x = xs ! j" "j < length xs" "f (xs ! j) = f (xs ! i)" by (auto simp: find_Some_iff)
  then have "j = i" using assms nth_eq_iff_index_eq [of "map f xs" j i] by simp
  with j(1) x show ?thesis by simp
qed

lemma descriptor_nth: "i < 12 \<Longrightarrow> getFrameDescriptor (tf_id (TURTLE_FRAMES ! i)) = Inr (TURTLE_FRAMES ! i)"
  using find_nth [OF frames_distinct, of i] by (simp add: getFrameDescriptor_def)

lemma descriptor_Inr: "getFrameDescriptor t = Inr d \<Longrightarrow> \<exists>i < 12. d = TURTLE_FRAMES ! i \<and> tf_id d = t"
  by (auto simp: getFrameDescriptor_def find_Some_iff split: option.splits)

lemma frame_id_inj: "i < 12 \<Longrightarrow> j < 12 \<Longrightarrow> tf_id (TURTLE_FRAMES ! i) = tf_id (TURTLE_FRAMES ! j) \<longleftrightarrow> i = j"
  using nth_eq_iff_index_eq [OF frames_distinct, of i j] by simp

text \<open>The matrix points at frame \<open>i\<close>: name, index and angle agree, the commitment is in range.\<close>

definition points_at :: "nat \<Rightarrow> turtle_matrix \<Rightarrow> bool" where
  "points_at i m \<longleftrightarrow> i < 12 \<and> currentFrame m = tf_id (TURTLE_FRAMES ! i) \<and> frameIndex m = of_nat i \<and>
     rotationAngle m = 30 * of_nat i \<and> (case commitment m of Some c \<Rightarrow> 0 \<le> c \<and> c \<le> 1 | None \<Rightarrow> False)"

lemma default_points: "\<exists>m. createDefaultTurtleMatrix = Inr m \<and> points_at 0 m"
  using descriptor_nth [of 0] by (simp add: createDefaultTurtleMatrix_def points_at_def TURTLE_FRAMES_def)

lemma js_rem_int:
  assumes "0 < n"
  shows "js_rem (of_int i) (of_int n) = of_int (if 0 \<le> i then i mod n else - (- i mod n))"
proof -
  have "\<lfloor>rat_of_int i / of_int n\<rfloor> = i div n" "\<lceil>rat_of_int i / of_int n\<rceil> = - (- i div n)"
    using floor_divide_of_int_eq [of i n, where ?'a = rat] floor_divide_of_int_eq [of "- i" n, where ?'a = rat]
    by (simp_all add: ceiling_def)
  then show ?thesis by (simp add: js_rem_def minus_mult_div_eq_mod [symmetric])
qed

lemma normalizeAngle_int: "normalizeAngle (of_int i) = of_int (i mod 360)"
proof (cases "0 \<le> i \<or> i mod 360 = 0")
  case True
  then show ?thesis using js_rem_int [of 360 i] zmod_zminus1_eq_if [of i 360] by (auto simp: normalizeAngle_def Let_def)
next
  case False
  then have m: "- i mod 360 = 360 - i mod 360" using zmod_zminus1_eq_if [of i 360] by simp
  have b: "0 \<le> i mod 360" "i mod 360 < 360" by simp_all
  have "js_rem (of_int i) 360 = of_int (i mod 360 - 360)" using False js_rem_int [of 360 i] m by simp
  then show ?thesis using b fl_int [of "i mod 360"] by (simp add: normalizeAngle_def Let_def)
qed

lemma normalizeIndex_int: "normalizeIndex (of_int i) 12 = of_int (i mod 12)"
proof -
  define r where "r = (if 0 \<le> i then i mod 12 else - (- i mod 12))"
  have r: "js_rem (of_int i) 12 = of_int r" using js_rem_int [of 12 i] by (simp add: r_def)
  have "0 \<le> i mod 12" "i mod 12 < 12" "0 \<le> - i mod 12" "- i mod 12 < 12" by simp_all
  then have b: "0 \<le> r + 12" "r + 12 < 24" by (auto simp: r_def)
  then have "fl (rat_of_int (r + 12)) = of_int (r + 12)" by (intro fl_int) simp
  then have "normalizeIndex (of_int i) 12 = js_rem (of_int (r + 12)) 12" unfolding normalizeIndex_def r by simp
  also have "\<dots> = of_int ((r + 12) mod 12)" using js_rem_int [of 12 "r + 12"] b(1) by simp
  also have "(r + 12) mod 12 = i mod 12" by (simp add: r_def mod_minus_eq)
  finally show ?thesis .
qed

text \<open>Rotation between frames keeps angle and index in step.\<close>

lemma rotate_points:
  assumes "points_at i m" and "j < 12"
  shows "\<exists>m'. rotateTurtleMatrix m \<lparr>targetFrame = tf_id (TURTLE_FRAMES ! j), in_commitment = c\<rparr> = Inr m' \<and> points_at j m'"
proof (cases "i = j")
  case True
  then show ?thesis using assms by (simp add: rotateTurtleMatrix_def points_at_def)
next
  case False
  have p: "fl 30 = 30" using fl_int [of 30] by simp
  have d: "fl (rat_of_nat j * 30 - of_nat i * 30) = 30 * of_nat j - 30 * of_nat i"
    using fl_int [of "int j * 30 - int i * 30"] assms by (simp add: points_at_def abs_le_iff)
  have a: "fl (30 * rat_of_nat j) = 30 * of_nat j" using fl_int [of "30 * int j"] assms(2) by simp
  show ?thesis
    using assms False descriptor_nth [of i] descriptor_nth [of j] frames_indexed [of i] frames_indexed [of j]
      frame_id_inj [of j i] normalizeAngle_int [of "30 * int j"]
    by (auto simp: rotateTurtleMatrix_def points_at_def Let_def p d a clamp_range_def split: option.splits)
qed

lemma rotate_Inr:
  assumes "points_at i m" and "rotateTurtleMatrix m inp = Inr m'"
  shows "\<exists>j. points_at j m' \<and> targetFrame inp = tf_id (TURTLE_FRAMES ! j)"
proof (cases "targetFrame inp = currentFrame m")
  case True
  then show ?thesis using assms by (auto simp: rotateTurtleMatrix_def points_at_def)
next
  case False
  then obtain d where "getFrameDescriptor (targetFrame inp) = Inr d"
    using assms(2) by (cases "getFrameDescriptor (targetFrame inp)") (auto simp: rotateTurtleMatrix_def bindr_def split: sum.splits)
  then obtain j where "j < 12" "targetFrame inp = tf_id (TURTLE_FRAMES ! j)" by (metis descriptor_Inr)
  then show ?thesis using rotate_points [OF assms(1), of j "in_commitment inp"] assms(2) by (cases inp) auto
qed

lemma step_points:
  assumes "points_at i m" and "\<bar>s\<bar> \<le> 2 ^ 52"
  shows "\<exists>m'. rotateByStep m (Finite (of_int s)) c = Inr m' \<and> points_at (nat ((int i + s) mod 12)) m'"
proof -
  have "fl (of_nat i + of_int s) = of_int (int i + s)"
    using fl_int [of "int i + s"] assms by (simp add: points_at_def abs_le_iff)
  moreover have "nat ((int i + s) mod 12) < 12" by simp
  ultimately show ?thesis
    using rotate_points [OF assms(1), of "nat ((int i + s) mod 12)" c] assms(1) normalizeIndex_int [of "int i + s"]
    by (simp add: rotateByStep_def points_at_def Let_def)
qed

section \<open>Reachable matrices\<close>

inductive turtle_reach :: "turtle_matrix \<Rightarrow> bool" where
  start: "createDefaultTurtleMatrix = Inr m \<Longrightarrow> turtle_reach m"
| rotate: "turtle_reach m \<Longrightarrow> rotateTurtleMatrix m inp = Inr m' \<Longrightarrow> turtle_reach m'"
| by_step: "turtle_reach m \<Longrightarrow> rotateByStep m s c = Inr m' \<Longrightarrow> turtle_reach m'"

lemma reach_points: "turtle_reach m \<Longrightarrow> \<exists>i. points_at i m"
proof (induction rule: turtle_reach.induct)
  case (start m)
  moreover obtain d where "createDefaultTurtleMatrix = Inr d" "points_at 0 d" using default_points by blast
  ultimately show ?case by (metis sum.inject(2))
next
  case (rotate m inp m')
  then show ?case using rotate_Inr by blast
next
  case (by_step m s c m')
  from by_step.hyps(2) obtain inp where "rotateTurtleMatrix m inp = Inr m'"
    by (auto simp: rotateByStep_def Let_def split: js_number.splits if_splits)
  then show ?case using by_step.IH rotate_Inr by blast
qed

text \<open>C33: the ring of frames. In every reachable matrix the frame's name, its index and the angle agree
  (30 degrees per frame, below 360) and the commitment is between 0 and 1; a whole number of steps
  moves the index by that number modulo twelve, forward or backward, and so steps add up; an unknown
  frame is refused.\<close>

theorem turtle_ring:
  assumes "turtle_reach m" and "\<bar>s\<bar> \<le> 2 ^ 52"
  shows "\<exists>i. points_at i m \<and> rotationAngle m < 360 \<and>
    (\<exists>m'. rotateByStep m (Finite (of_int s)) c = Inr m' \<and> points_at (nat ((int i + s) mod 12)) m') \<and>
    (isl (rotateTurtleMatrix m inp) \<longleftrightarrow> targetFrame inp \<notin> tf_id ` set listFrames)"
proof -
  obtain i where i: "points_at i m" using reach_points [OF assms(1)] by blast
  have "\<not> isl (rotateTurtleMatrix m inp)" if mem: "targetFrame inp \<in> tf_id ` set TURTLE_FRAMES"
  proof -
    obtain j where "j < 12" "targetFrame inp = tf_id (TURTLE_FRAMES ! j)" using mem by (auto simp: in_set_conv_nth)
    then show ?thesis using rotate_points [OF i, of j "in_commitment inp"] by (cases inp) auto
  qed
  moreover have "targetFrame inp \<in> tf_id ` set TURTLE_FRAMES" if r: "\<not> isl (rotateTurtleMatrix m inp)"
  proof -
    obtain m' where "rotateTurtleMatrix m inp = Inr m'" using r by (cases "rotateTurtleMatrix m inp") auto
    then show ?thesis using rotate_Inr [OF i] by (force simp: points_at_def)
  qed
  ultimately show ?thesis using i step_points [OF i assms(2), of c] by (intro exI [of _ i]) (auto simp: points_at_def listFrames_def)
qed

theorem turtle_ring_witness:
  "\<exists>m m'. createDefaultTurtleMatrix = Inr m \<and> rotateByStep m (Finite (- 1)) None = Inr m' \<and> points_at 11 m'"
proof -
  obtain m where m: "createDefaultTurtleMatrix = Inr m" "points_at 0 m" using default_points by blast
  from turtle_ring [OF turtle_reach.start [OF m(1)], of "- 1" None]
  obtain i m' where i: "points_at i m" "rotateByStep m (Finite (- 1)) None = Inr m'" "points_at (nat ((int i + - 1) mod 12)) m'"
    by (metis abs_minus_cancel abs_one of_int_1 of_int_minus one_le_power one_le_numeral)
  have "i = 0" using i(1) m(2) by (simp add: points_at_def)
  with i m show ?thesis by auto
qed

text \<open>A fractional number of steps passes the check for finite numbers and then fails with a
  \<open>TypeError\<close>.\<close>

lemma half_step_throws: "points_at 0 m \<Longrightarrow> rotateByStep m (Finite (1 / 2)) c = Inl ''TypeError''"
proof -
  assume m: "points_at 0 m"
  define n where "n = normalizeIndex (fl (1 / 2)) 12"
  have n: "n = 1 / 2" unfolding n_def by code_simp
  have "\<lfloor>1 / 2 :: rat\<rfloor> = 0" by code_simp
  then show ?thesis using m by (simp add: rotateByStep_def Let_def points_at_def n_def [symmetric] n)
qed

end
