(* ===== verification/Routing_Preview.thy ===== *)
theory Routing_Preview
  imports Turtle_Ring
begin

text \<open>
  The routing preview (\<open>src/routing/focusRoutingPreview.ts\<close>): ranking of the options of a decision, the
  preview with its reason, the suggestion of a primary, a recovering and an exploring path with
  their likelihoods, and the turtle snapshot attached to an orientation. Fields that the code reads
  with \<open>??\<close> are options, also where their declared type is not.
\<close>

section \<open>Types\<close>

record focus_snapshot =
  fs_sector :: "string option"
  fs_focusMomentum :: "rat option"

record weave_signals =
  futureBias :: "rat option"
  familyWeight :: "rat option"
  regulationSignal :: "rat option"
  divergenceScore :: "rat option"

record decision_option =
  do_sector :: string
  do_score :: rat

type_synonym routing_decision = "decision_option list"

record routing_preview =
  rp_currentSector :: string
  primaryNextSector :: string
  alternativeSectors :: "string list"
  rp_focusMomentum :: rat
  rp_volatility :: rat
  rp_reason :: string

record orientation_now =
  on_currentSector :: "string option"
  on_focusMomentum :: "rat option"
  on_volatility :: "rat option"
  phaseLabel :: "string option"
  turtle :: "turtle_snapshot option"

record weave_step =
  step_id :: string
  sectorId :: "string option"
  timeOffsetMs :: rat
  expectedFocusMomentum :: rat
  volatilityHint :: rat
  step_likelihood :: rat

record weave_path =
  pathId :: string
  path_label :: string
  path_nodes :: "weave_step list"
  overallLikelihood :: rat
  narrativeHint :: string

record path_branch =
  pb_id :: string
  pb_role :: string
  pb_label :: string
  pb_likelihood :: rat
  pb_momentumHint :: "string option"
  pb_volatilityHint :: "string option"
  softenedSectors :: "string option list"

record multi_path =
  primaryPath :: weave_path
  alternates :: "weave_path list"
  branches_of :: "path_branch list"

section \<open>Ranking and preview\<close>

definition selectPrimaryAndAlternatives :: "routing_decision \<Rightarrow> decision_option option \<times> decision_option list" where
  "selectPrimaryAndAlternatives decision =
     (case sort_desc do_score decision of
        [] \<Rightarrow> (None, [])
      | primary # rest \<Rightarrow> (Some primary, take 2 rest))"

definition determineReason :: "rat \<Rightarrow> rat \<Rightarrow> string" where
  "determineReason momentum volatility =
     (let highMomentum = momentum \<ge> fl (7 / 10); lowMomentum = momentum \<le> fl (35 / 100);
          lowVolatility = volatility \<le> 1 / 4; highVolatility = volatility \<ge> fl (3 / 5)
      in if highMomentum \<and> lowVolatility then ''stable focus, deepening current trajectory''
         else if lowMomentum \<and> highVolatility then ''fragmented focus, suggesting soft shift''
         else if momentum \<ge> 1 / 2 \<and> \<not> lowVolatility then ''growing momentum with some fluctuation, proposing careful step''
         else ''momentum stabilizing, holding current guidance'')"

definition fallbackVolatility :: "routing_decision \<Rightarrow> rat" where
  "fallbackVolatility decision =
     (if decision = [] then 0
      else let scores = map do_score decision;
               spread = fl (Max (set scores) - Min (set scores))
           in number_to_fixed 3 spread)"

definition buildRoutingPreview :: "focus_snapshot \<Rightarrow> routing_decision \<Rightarrow> rat \<Rightarrow> routing_preview" where
  "buildRoutingPreview snapshot decision volatilityScore =
     (let (primary, alternatives) = selectPrimaryAndAlternatives decision;
          currentSector = (case fs_sector snapshot of Some s \<Rightarrow> s | None \<Rightarrow> ''?'');
          momentum = (case fs_focusMomentum snapshot of Some m \<Rightarrow> m | None \<Rightarrow> 0);
          volatility = number_to_fixed 3 (if volatilityScore \<noteq> 0 then volatilityScore else fallbackVolatility decision)
      in \<lparr>rp_currentSector = currentSector,
          primaryNextSector = (case primary of Some p \<Rightarrow> do_sector p | None \<Rightarrow> currentSector),
          alternativeSectors = take 2 (map do_sector alternatives),
          rp_focusMomentum = momentum, rp_volatility = volatility,
          rp_reason = determineReason momentum volatility\<rparr>)"

section \<open>Paths\<close>

definition softenSector :: "string \<Rightarrow> string" where
  "softenSector sector =
     (if str_includes sector ''deep_work'' then ''light_work''
      else if str_includes sector ''planning'' then ''light_work''
      else if str_includes sector ''social'' then ''planning''
      else sector)"

definition resolveRestSector :: "routing_decision \<Rightarrow> string" where
  "resolveRestSector opts =
     (case find (\<lambda>option. str_includes (do_sector option) ''rest'') opts of
        Some restLike \<Rightarrow> do_sector restLike | None \<Rightarrow> ''rest'')"

definition resolveExploreSector :: "routing_decision \<Rightarrow> string" where
  "resolveExploreSector opts =
     (case find (\<lambda>option. list_ex (\<lambda>keyword. str_includes (do_sector option) keyword) [''planning'', ''learning'', ''social'']) opts of
        Some candidate \<Rightarrow> do_sector candidate | None \<Rightarrow> ''planning'')"

text \<open>The record built from the weights: a later weight of the same id replaces an earlier one.\<close>

definition normalizeLikelihoods :: "(string \<times> rat) list \<Rightarrow> (string \<rightharpoonup> rat)" where
  "normalizeLikelihoods weights =
     (let s = fl_sum (map snd weights); total = (if s \<noteq> 0 then s else 1)
      in foldl (\<lambda>acc (i, w). acc(i \<mapsto> number_to_fixed 3 (fl (w / total)))) Map.empty weights)"

definition describePrimaryLabel :: "rat \<Rightarrow> rat \<Rightarrow> string" where
  "describePrimaryLabel momentum volatility =
     (let positiveMomentum = momentum \<ge> fl (3 / 5); moderateMomentum = momentum \<ge> fl (35 / 100);
          lowVolatility = volatility \<le> fl (3 / 10)
      in if positiveMomentum \<and> lowVolatility then ''stabilize''
         else if moderateMomentum \<and> lowVolatility then ''grow''
         else if moderateMomentum then ''soft-shift''
         else ''stabilize'')"

definition resolveMomentumHint :: "rat \<Rightarrow> rat \<Rightarrow> string" where
  "resolveMomentumHint current target =
     (let delta = fl (target - current)
      in if delta > fl (1 / 20) then ''rising'' else if delta < - fl (1 / 20) then ''falling'' else ''stable'')"

definition resolveVolatilityHint :: "rat \<Rightarrow> string" where
  "resolveVolatilityHint v = (if v \<le> 1 / 4 then ''low'' else if v \<le> fl (3 / 5) then ''mid'' else ''high'')"

text \<open>\<open>Array.from\<close> of a \<open>Set\<close> lists the names in the order of their first occurrence.\<close>

definition collectSoftenedSectors :: "weave_path \<Rightarrow> string list" where
  "collectSoftenedSectors path =
     foldl (\<lambda>seen step. case sectorId step of Some s \<Rightarrow> if s = [] \<or> s \<in> set seen then seen else seen @ [s] | None \<Rightarrow> seen)
       [] (path_nodes path)"

definition resolveBranchRole :: "string \<Rightarrow> string" where
  "resolveBranchRole i =
     (if i = ''primary'' then ''primary'' else if i = ''recover'' then ''recovery''
      else if i = ''explore'' then ''explore'' else i)"

definition createBranch :: "rat \<Rightarrow> rat \<Rightarrow> weave_path \<Rightarrow> path_branch" where
  "createBranch baseMomentum volatility path =
     (let lastNode = (if path_nodes path = [] then None else Some (last (path_nodes path)));
          targetMomentum = (case lastNode of Some n \<Rightarrow> expectedFocusMomentum n | None \<Rightarrow> baseMomentum)
      in \<lparr>pb_id = pathId path, pb_role = resolveBranchRole (pathId path), pb_label = path_label path,
          pb_likelihood = overallLikelihood path,
          pb_momentumHint = Some (resolveMomentumHint baseMomentum targetMomentum),
          pb_volatilityHint = Some (resolveVolatilityHint (case lastNode of Some n \<Rightarrow> volatilityHint n | None \<Rightarrow> volatility)),
          softenedSectors = map Some (collectSoftenedSectors path)\<rparr>)"

definition baseOffset :: rat where "baseOffset = 5 * 60 * 1000"

definition primary_nodes :: "string option \<Rightarrow> string \<Rightarrow> rat \<Rightarrow> rat \<Rightarrow> weave_step list" where
  "primary_nodes current primarySector baseMomentum volatility =
     (let needsSofterStep = baseMomentum < fl (45 / 100) \<or> volatility > fl (2 / 5);
          nodeCount = (if baseMomentum > fl (55 / 100) \<and> volatility < fl (35 / 100) then 3 else 2 :: nat);
          nextSector = (if needsSofterStep then softenSector primarySector else primarySector);
          p0 = \<lparr>step_id = ''P0'', sectorId = Some (case current of Some s \<Rightarrow> s | None \<Rightarrow> primarySector), timeOffsetMs = baseOffset,
                expectedFocusMomentum = clamp_range (fl (baseMomentum - fl (volatility * fl (1 / 10)))) (- 1) 1,
                volatilityHint = clamp_range (fl (volatility * fl (95 / 100))) 0 1, step_likelihood = fl (7 / 10)\<rparr>;
          p1 = \<lparr>step_id = ''P1'', sectorId = Some nextSector, timeOffsetMs = baseOffset * 2,
                expectedFocusMomentum = clamp_range (fl (baseMomentum + (if needsSofterStep then fl (1 / 20) else fl (1 / 10)))) (- 1) 1,
                volatilityHint = clamp_range (fl (volatility * (if needsSofterStep then fl (85 / 100) else 3 / 4))) 0 1,
                step_likelihood = fl (3 / 5)\<rparr>;
          p2 = \<lparr>step_id = ''P2'', sectorId = Some nextSector, timeOffsetMs = baseOffset * 3,
                expectedFocusMomentum = clamp_range (fl (expectedFocusMomentum p1 + fl (1 / 20))) (- 1) 1,
                volatilityHint = clamp_range (fl (volatilityHint p1 * fl (9 / 10))) 0 1, step_likelihood = fl (55 / 100)\<rparr>
      in if nodeCount = 3 then [p0, p1, p2] else [p0, p1])"

definition recover_path :: "string option \<Rightarrow> string \<Rightarrow> rat \<Rightarrow> rat \<Rightarrow> rat \<Rightarrow> weave_path" where
  "recover_path current target baseMomentum volatility likelihood =
     \<lparr>pathId = ''recover'', path_label = ''recover'',
      path_nodes =
        [\<lparr>step_id = ''R0'', sectorId = current, timeOffsetMs = baseOffset,
          expectedFocusMomentum = clamp_range (fl (baseMomentum - fl (1 / 10))) (- 1) 1,
          volatilityHint = clamp_range (fl (fl (volatility * fl (9 / 10)) + fl (1 / 20))) 0 1, step_likelihood = 1 / 2\<rparr>,
         \<lparr>step_id = ''R1'', sectorId = Some target, timeOffsetMs = baseOffset * 2,
          expectedFocusMomentum = clamp_range (fl (baseMomentum + fl (1 / 20))) (- 1) 1,
          volatilityHint = clamp_range (fl (volatility * fl (4 / 5))) 0 1, step_likelihood = fl (45 / 100)\<rparr>],
      overallLikelihood = likelihood, narrativeHint = ''soft landing into rest/grounding''\<rparr>"

definition explore_path :: "string option \<Rightarrow> string \<Rightarrow> rat \<Rightarrow> rat \<Rightarrow> rat \<Rightarrow> weave_path" where
  "explore_path current target baseMomentum volatility likelihood =
     \<lparr>pathId = ''explore'', path_label = ''explore'',
      path_nodes =
        [\<lparr>step_id = ''E0'', sectorId = current, timeOffsetMs = baseOffset,
          expectedFocusMomentum = clamp_range baseMomentum (- 1) 1,
          volatilityHint = clamp_range volatility 0 1, step_likelihood = fl (45 / 100)\<rparr>,
         \<lparr>step_id = ''E1'', sectorId = Some target, timeOffsetMs = baseOffset * 2,
          expectedFocusMomentum = clamp_range (fl (baseMomentum + fl (1 / 20))) (- 1) 1,
          volatilityHint = clamp_range (fl (volatility * fl (85 / 100))) 0 1, step_likelihood = fl (2 / 5)\<rparr>],
      overallLikelihood = likelihood, narrativeHint = ''probe lighter social/planning spaces''\<rparr>"

definition path_weights :: "decision_option option \<Rightarrow> rat \<Rightarrow> rat \<Rightarrow> (string \<times> rat) list" where
  "path_weights primary baseMomentum volatility =
     (let primaryWeight = max (case primary of Some p \<Rightarrow> do_score p | None \<Rightarrow> fl (55 / 100)) (fl (55 / 100));
          recoverWeight = fl (fl (1 / 4 + fl (volatility * (1 / 4))) + (if baseMomentum < 0 then fl (1 / 10) else 0));
          exploreWeight = fl (fl (1 / 5) + (if baseMomentum > 0 then fl (1 / 20) else 0));
          adjusted = max primaryWeight (fl (max recoverWeight exploreWeight + fl (1 / 20)))
      in [(''primary'', adjusted), (''recover'', recoverWeight), (''explore'', exploreWeight)])"

definition likelihood_of :: "(string \<rightharpoonup> rat) \<Rightarrow> string \<Rightarrow> rat" where
  "likelihood_of m k = (case m k of Some v \<Rightarrow> v | None \<Rightarrow> 0)"

definition buildMultiPathSuggestion :: "orientation_now \<Rightarrow> routing_decision \<Rightarrow> multi_path" where
  "buildMultiPathSuggestion orientation routing =
     (let primary = fst (selectPrimaryAndAlternatives routing);
          current = on_currentSector orientation;
          primarySector = (case primary of Some p \<Rightarrow> do_sector p
                           | None \<Rightarrow> (case current of Some s \<Rightarrow> s | None \<Rightarrow> ''unknown''));
          baseMomentum = (case on_focusMomentum orientation of Some m \<Rightarrow> m | None \<Rightarrow> 0);
          volatility = (case on_volatility orientation of Some v \<Rightarrow> v | None \<Rightarrow> 0);
          primaryLabel = describePrimaryLabel baseMomentum volatility;
          likelihoods = normalizeLikelihoods (path_weights primary baseMomentum volatility);
          main = \<lparr>pathId = ''primary'', path_label = primaryLabel,
                  path_nodes = primary_nodes current primarySector baseMomentum volatility,
                  overallLikelihood = likelihood_of likelihoods ''primary'',
                  narrativeHint = (if primaryLabel = ''stabilize'' then ''hold trajectory'' else ''grow with soft shift'')\<rparr>;
          others = [recover_path current (resolveRestSector routing) baseMomentum volatility (likelihood_of likelihoods ''recover''),
                    explore_path current (resolveExploreSector routing) baseMomentum volatility (likelihood_of likelihoods ''explore'')]
      in \<lparr>primaryPath = main, alternates = others, branches_of = map (createBranch baseMomentum volatility) (main # others)\<rparr>)"

section \<open>Turtle\<close>

definition normalizeCommitmentFromMomentum :: "rat option \<Rightarrow> rat" where
  "normalizeCommitmentFromMomentum v =
     (let normalized = fl (fl ((case v of Some x \<Rightarrow> x | None \<Rightarrow> 0) + 1) / 2)
      in clamp_range (number_to_fixed 3 normalized) 0 1)"

definition chooseTurtleFrameFromTimeWeave :: "weave_signals \<Rightarrow> rat option \<Rightarrow> string" where
  "chooseTurtleFrameFromTimeWeave summary momentum =
     (let val = (\<lambda>x. case x of Some v \<Rightarrow> v | None \<Rightarrow> 0);
          future = val (futureBias summary); family = val (familyWeight summary);
          regulation = val (regulationSignal summary); divergence = val (divergenceScore summary); m = val momentum
      in if family \<ge> max future (max regulation divergence) \<and> family > fl (45 / 100) then ''family_field''
         else if future > fl (55 / 100) then ''deep_time''
         else if regulation > fl (55 / 100) \<or> divergence > fl (3 / 5) \<or> m < - fl (1 / 5) then ''regulation_axis''
         else if m > fl (65 / 100) then ''inner_focus''
         else ''baseline'')"

definition attachTurtleSnapshotToOrientation ::
    "orientation_now \<Rightarrow> weave_signals option \<Rightarrow> rat option \<Rightarrow> orientation_now result" where
  "attachTurtleSnapshotToOrientation orientation timeWeaveSummary focusMomentumOverride =
     (case timeWeaveSummary of
        None \<Rightarrow> Inr orientation
      | Some summary \<Rightarrow>
          (let momentum = (case focusMomentumOverride of Some m \<Rightarrow> Some m | None \<Rightarrow> on_focusMomentum orientation)
           in bindr createDefaultTurtleMatrix (\<lambda>baseMatrix.
              bindr (rotateTurtleMatrix baseMatrix
                      \<lparr>targetFrame = chooseTurtleFrameFromTimeWeave summary momentum,
                       in_commitment = Some (normalizeCommitmentFromMomentum momentum)\<rparr>) (\<lambda>oriented.
              bindr (buildTurtleSnapshot oriented) (\<lambda>snap. Inr (orientation\<lparr>turtle := Some snap\<rparr>))))))"

end
