(* ===== verification/Preview_Correct.thy ===== *)
theory Preview_Correct
  imports Routing_Preview
begin

text \<open>
  Correctness of the routing preview: the ranking puts a best option first, and the three suggested
  paths have ordered likelihoods, increasing offsets and levels in range.
\<close>

section \<open>Ranking\<close>

lemma select_primary:
  "selectPrimaryAndAlternatives ds = (Some p, rest) \<Longrightarrow> p \<in> set ds \<and> (\<forall>x \<in> set ds. do_score x \<le> do_score p)"
proof -
  assume s: "selectPrimaryAndAlternatives ds = (Some p, rest)"
  then obtain xs where xs: "sort_desc do_score ds = p # xs"
    by (auto simp: selectPrimaryAndAlternatives_def split: list.splits)
  then have "set (p # xs) = set ds" by (metis sort_desc_facts(2))
  then show ?thesis using hd_sort_desc [of _ ds do_score] xs by auto
qed

lemma select_none: "fst (selectPrimaryAndAlternatives ds) = None \<longleftrightarrow> ds = []"
proof -
  have "sort_desc do_score ds = [] \<longleftrightarrow> ds = []" by (metis length_0_conv sort_desc_facts(3))
  then show ?thesis by (cases "sort_desc do_score ds") (auto simp: selectPrimaryAndAlternatives_def)
qed

section \<open>Weights and likelihoods\<close>

lemma likelihood_three:
  assumes "i \<noteq> j" "i \<noteq> k" "j \<noteq> k" and "m = normalizeLikelihoods [(i, x), (j, y), (k, z)]"
    and "t = (let s = fl_sum [x, y, z] in if s \<noteq> 0 then s else 1)"
  shows "likelihood_of m i = number_to_fixed 3 (fl (x / t))" "likelihood_of m j = number_to_fixed 3 (fl (y / t))"
    "likelihood_of m k = number_to_fixed 3 (fl (z / t))"
  using assms by (simp_all add: normalizeLikelihoods_def likelihood_of_def Let_def)

lemma share_unit:
  assumes "0 \<le> x" and "x \<le> t" and "0 < t"
  shows "0 \<le> number_to_fixed 3 (fl (x / t))" "number_to_fixed 3 (fl (x / t)) \<le> 1"
  using assms fl_unit [of "x / t"] by (auto intro: number_to_fixed_unit)

lemma share_mono:
  assumes "0 \<le> x" and "x \<le> y" and "0 < t"
  shows "number_to_fixed 3 (fl (x / t)) \<le> number_to_fixed 3 (fl (y / t))"
  using assms by (intro number_to_fixed_mono fl_nonneg fl_mono divide_right_mono) auto

text \<open>The weights: non-negative doubles, the first the largest.\<close>

lemma weights_ordered:
  assumes "0 \<le> v" and "\<forall>p. primary = Some p \<longrightarrow> fl (do_score p) = do_score p"
  shows "\<exists>x y z. path_weights primary m v = [(''primary'', x), (''recover'', y), (''explore'', z)] \<and>
    0 < x \<and> 0 \<le> y \<and> 0 \<le> z \<and> y \<le> x \<and> z \<le> x \<and> fl x = x \<and> fl y = y \<and> fl z = z"
proof -
  define y where "y = fl (fl (1 / 4 + fl (v * (1 / 4))) + (if m < 0 then fl (1 / 10) else 0))"
  define z where "z = fl (fl (1 / 5) + (if m > 0 then fl (1 / 20) else 0))"
  define w where "w = max (case primary of Some p \<Rightarrow> do_score p | None \<Rightarrow> fl (55 / 100)) (fl (55 / 100))"
  define x where "x = max w (fl (max y z + fl (1 / 20)))"
  have eq: "path_weights primary m v = [(''primary'', x), (''recover'', y), (''explore'', z)]"
    by (simp only: path_weights_def Let_def y_def z_def w_def x_def)
  have "0 \<le> v * (1 / 4)" using assms(1) by simp
  then have nn: "0 \<le> y" "0 \<le> z" unfolding y_def z_def by (auto intro!: fl_nonneg add_nonneg_nonneg)
  have d: "fl y = y" "fl z = z" by (simp_all add: y_def z_def)
  then have dm: "fl (max y z) = max y z" by (simp add: max_def)
  have "max y z \<le> fl (max y z + fl (1 / 20))" using dm by (intro fl_add_ge) simp_all
  then have le: "y \<le> x" "z \<le> x" by (auto simp: x_def)
  have "fl w = w" using assms(2) by (simp add: w_def max_def split: option.split)
  then have dx: "fl x = x" by (simp add: x_def max_def)
  have "1 / 4 \<le> fl (55 / 100)" by (rule fl_ge) (simp, code_simp)
  then have "0 < x" by (simp add: x_def w_def max_def split: if_splits option.splits)
  with eq nn le d dx show ?thesis by blast
qed

section \<open>Steps of the paths\<close>

definition good_step :: "weave_step \<Rightarrow> bool" where
  "good_step s \<longleftrightarrow> \<bar>expectedFocusMomentum s\<bar> \<le> 1 \<and> 0 \<le> volatilityHint s \<and> volatilityHint s \<le> 1"

definition good_path :: "weave_path \<Rightarrow> bool" where
  "good_path p \<longleftrightarrow> path_nodes p \<noteq> [] \<and> list_all good_step (path_nodes p) \<and> sorted_wrt (<) (map timeOffsetMs (path_nodes p))"

lemma clamp_range_bounds [simp]:
  "\<bar>clamp_range v (- 1) 1\<bar> \<le> 1" "0 \<le> clamp_range v 0 1" "clamp_range v 0 1 \<le> 1"
  by (auto simp: clamp_range_def abs_le_iff)

lemma good_paths:
  "good_path (recover_path c r m v l)" "good_path (explore_path c e m v l)"
  "list_all good_step (primary_nodes c s m v) \<and> primary_nodes c s m v \<noteq> [] \<and> sorted_wrt (<) (map timeOffsetMs (primary_nodes c s m v))"
  by (simp_all add: good_path_def good_step_def recover_path_def explore_path_def primary_nodes_def Let_def baseOffset_def)

definition next_sector :: "weave_path \<Rightarrow> string option" where
  "next_sector p = sectorId (path_nodes p ! 1)"

lemma primary_next: "next_sector (p\<lparr>path_nodes := primary_nodes c s m v\<rparr>) \<in> {Some s, Some (softenSector s)}"
  by (auto simp: next_sector_def primary_nodes_def Let_def)

text \<open>What the suggestion consists of.\<close>

lemma suggestion_parts:
  assumes "s = buildMultiPathSuggestion orientation ds" and "primary = fst (selectPrimaryAndAlternatives ds)"
    and "m = (case on_focusMomentum orientation of Some x \<Rightarrow> x | None \<Rightarrow> 0)"
    and "v = (case on_volatility orientation of Some x \<Rightarrow> x | None \<Rightarrow> 0)"
    and "l = normalizeLikelihoods (path_weights primary m v)"
  shows "map overallLikelihood (primaryPath s # alternates s) = map (likelihood_of l) [''primary'', ''recover'', ''explore'']"
    "map pathId (primaryPath s # alternates s) = [''primary'', ''recover'', ''explore'']"
    "branches_of s = map (createBranch m v) (primaryPath s # alternates s)"
    "list_all good_path (primaryPath s # alternates s)"
    "primary = Some p \<Longrightarrow> next_sector (primaryPath s) \<in> {Some (do_sector p), Some (softenSector (do_sector p))}"
  using good_paths
  by (simp_all add: assms buildMultiPathSuggestion_def Let_def good_path_def recover_path_def explore_path_def next_sector_def primary_nodes_def)

text \<open>The likelihoods are the rounded shares of the weights.\<close>

lemma suggestion_shares:
  assumes "s = buildMultiPathSuggestion orientation ds" and "primary = fst (selectPrimaryAndAlternatives ds)"
    and "m = (case on_focusMomentum orientation of Some x \<Rightarrow> x | None \<Rightarrow> 0)"
    and "v = (case on_volatility orientation of Some x \<Rightarrow> x | None \<Rightarrow> 0)"
    and "path_weights primary m v = [(''primary'', x), (''recover'', y), (''explore'', z)]"
    and "t = fl_sum [x, y, z]" and "t \<noteq> 0"
  shows "map overallLikelihood (primaryPath s # alternates s) = map (\<lambda>w. number_to_fixed 3 (fl (w / t))) [x, y, z]"
  using suggestion_parts(1) [OF assms(1-4) refl] likelihood_three [of "''primary''" "''recover''" "''explore''" _ x y z t]
  by (simp add: assms(5) assms(6) [symmetric] assms(7) Let_def)

lemma selected_primary:
  "fst (selectPrimaryAndAlternatives ds) = Some p \<Longrightarrow> p \<in> set ds \<and> (\<forall>x \<in> set ds. do_score x \<le> do_score p)"
  using select_primary [of ds p "snd (selectPrimaryAndAlternatives ds)"] by (simp add: prod_eq_iff)

lemma suggestion_likelihoods:
  assumes "s = buildMultiPathSuggestion orientation ds" and "\<forall>v. on_volatility orientation = Some v \<longrightarrow> 0 \<le> v"
    and "\<forall>x \<in> set ds. fl (do_score x) = do_score x"
  shows "\<exists>x y z. map overallLikelihood (primaryPath s # alternates s) = [x, y, z] \<and> y \<le> x \<and> z \<le> x \<and>
    (\<forall>q \<in> {x, y, z}. 0 \<le> q \<and> q \<le> 1 \<and> fl q = q)"
proof -
  define primary where "primary = fst (selectPrimaryAndAlternatives ds)"
  define m where "m = (case on_focusMomentum orientation of Some x \<Rightarrow> x | None \<Rightarrow> 0)"
  define v where "v = (case on_volatility orientation of Some x \<Rightarrow> x | None \<Rightarrow> 0)"
  have "0 \<le> v" using assms(2) by (simp add: v_def split: option.split)
  with weights_ordered [of v primary m] selected_primary [of ds] assms(3) obtain x y z
    where w: "path_weights primary m v = [(''primary'', x), (''recover'', y), (''explore'', z)]"
      "0 < x" "0 \<le> y" "0 \<le> z" "y \<le> x" "z \<le> x" "fl x = x" unfolding primary_def by blast
  define t where "t = fl_sum [x, y, z]"
  have t: "x \<le> t" "0 < t" using fl_sum_ge [of "[x, y, z]" x] w by (simp_all add: t_def)
  have le: "y \<le> t" "z \<le> t" using t w by linarith+
  have "map overallLikelihood (primaryPath s # alternates s) = map (\<lambda>w. number_to_fixed 3 (fl (w / t))) [x, y, z]"
    using suggestion_shares [OF assms(1) primary_def m_def v_def w(1) t_def] t(2) by simp
  then show ?thesis using share_unit [of _ t] share_mono [of _ x t] t le w by simp
qed

text \<open>C36: the suggested paths. For a volatility that is not negative or absent and scores that are
  doubles: the likelihoods lie between 0 and 1
  and no alternate is likelier than the primary path, rounding included; every path moves forward in
  time with levels in range; the branches repeat ids and likelihoods of the paths; and the
  primary path leads to an option no other outscores, or to its softened form.\<close>

theorem suggested_paths:
  assumes "s = buildMultiPathSuggestion orientation ds" and "\<forall>v. on_volatility orientation = Some v \<longrightarrow> 0 \<le> v"
    and "\<forall>x \<in> set ds. fl (do_score x) = do_score x"
  shows "(\<forall>p \<in> set (primaryPath s # alternates s). good_path p \<and> 0 \<le> overallLikelihood p \<and> overallLikelihood p \<le> 1 \<and>
      overallLikelihood p \<le> overallLikelihood (primaryPath s)) \<and>
    map pb_id (branches_of s) = [''primary'', ''recover'', ''explore''] \<and>
    map pb_likelihood (branches_of s) = map overallLikelihood (primaryPath s # alternates s) \<and>
    (ds \<noteq> [] \<longrightarrow> (\<exists>p \<in> set ds. (\<forall>x \<in> set ds. do_score x \<le> do_score p) \<and>
      next_sector (primaryPath s) \<in> {Some (do_sector p), Some (softenSector (do_sector p))}))"
proof -
  define primary where "primary = fst (selectPrimaryAndAlternatives ds)"
  note parts = suggestion_parts [OF assms(1) primary_def refl refl refl]
  obtain x y z where L: "map overallLikelihood (primaryPath s # alternates s) = [x, y, z]" "y \<le> x" "z \<le> x"
    "\<forall>q \<in> {x, y, z}. 0 \<le> q \<and> q \<le> 1 \<and> fl q = q" using suggestion_likelihoods [OF assms] by (elim exE conjE) (rule that)
  have lik: "0 \<le> overallLikelihood p \<and> overallLikelihood p \<le> 1 \<and> overallLikelihood p \<le> overallLikelihood (primaryPath s)"
    if mem: "p \<in> set (primaryPath s # alternates s)" for p
  proof -
    have "overallLikelihood p \<in> set (map overallLikelihood (primaryPath s # alternates s))" using mem by (simp only: set_map imageI)
    then show ?thesis using L by auto
  qed
  moreover have "map pb_id (branches_of s) = [''primary'', ''recover'', ''explore'']"
    "map pb_likelihood (branches_of s) = map overallLikelihood (primaryPath s # alternates s)"
    using parts(2,3) by (simp_all add: createBranch_def Let_def comp_def)
  moreover have "\<exists>p \<in> set ds. (\<forall>x \<in> set ds. do_score x \<le> do_score p) \<and>
      next_sector (primaryPath s) \<in> {Some (do_sector p), Some (softenSector (do_sector p))}" if ne: "ds \<noteq> []"
  proof -
    obtain p where p: "primary = Some p" using ne select_none [of ds] by (cases primary) (simp_all add: primary_def)
    then show ?thesis using selected_primary [of ds p] parts(5) unfolding primary_def by blast
  qed
  ultimately show ?thesis using parts(4) by (simp add: list_all_iff)
qed

theorem suggested_paths_witness:
  "overallLikelihood (alternates (buildMultiPathSuggestion \<lparr>on_currentSector = Some ''rest'', on_focusMomentum = None,
     on_volatility = Some (1 / 2), phaseLabel = None, turtle = None\<rparr> [\<lparr>do_sector = ''planning'', do_score = 1\<rparr>]) ! 0) \<le> 1"
proof -
  define o1 where "o1 = \<lparr>on_currentSector = Some ''rest'', on_focusMomentum = None, on_volatility = Some (1 / 2 :: rat), phaseLabel = None, turtle = None\<rparr>"
  define ds where "ds = [\<lparr>do_sector = ''planning'', do_score = 1\<rparr>]"
  define s where "s = buildMultiPathSuggestion o1 ds"
  have "\<forall>v. on_volatility o1 = Some v \<longrightarrow> 0 \<le> v" "\<forall>x \<in> set ds. fl (do_score x) = do_score x" by (simp_all add: o1_def ds_def)
  note ok = suggested_paths [OF s_def this]
  have "alternates s ! 0 \<in> set (primaryPath s # alternates s)" by (simp add: s_def buildMultiPathSuggestion_def Let_def)
  then show ?thesis using ok unfolding s_def o1_def ds_def by blast
qed

section \<open>Preview and turtle\<close>

text \<open>The previewed sector is an option no other outscores.\<close>

lemma preview_primary:
  assumes "ds \<noteq> []" and "r = buildRoutingPreview snapshot ds score"
  shows "\<exists>p \<in> set ds. primaryNextSector r = do_sector p \<and> (\<forall>x \<in> set ds. do_score x \<le> do_score p) \<and>
    length (alternativeSectors r) \<le> 2 \<and> set (alternativeSectors r) \<subseteq> do_sector ` set ds"
proof -
  obtain p rest where s: "sort_desc do_score ds = p # rest"
    using assms(1) by (metis length_0_conv list.exhaust sort_desc_facts(3))
  have "set (p # rest) = set ds" using s by (metis sort_desc_facts(2))
  then have "do_sector ` set (take 2 rest) \<subseteq> do_sector ` set ds" using set_take_subset [of 2 rest] by auto
  moreover have "p \<in> set ds \<and> (\<forall>x \<in> set ds. do_score x \<le> do_score p)"
    using select_primary [of ds p "take 2 rest"] s by (simp add: selectPrimaryAndAlternatives_def)
  ultimately show ?thesis
    unfolding assms(2) by (intro bexI [of _ p]) (auto simp: buildRoutingPreview_def selectPrimaryAndAlternatives_def s Let_def take_map)
qed

text \<open>The turtle snapshot of an orientation: it never throws, and frame, index and angle agree.\<close>

lemma turtle_attached:
  "\<exists>o'. attachTurtleSnapshotToOrientation orientation signals override = Inr o' \<and>
    (signals \<noteq> None \<longrightarrow> (\<exists>t. turtle o' = Some t \<and> ts_rotationAngle t = 30 * ts_frameIndex t \<and> 0 \<le> ts_commitment t \<and> ts_commitment t \<le> 1))"
proof (cases signals)
  case (Some summary)
  define momentum where "momentum = (case override of Some m \<Rightarrow> Some m | None \<Rightarrow> on_focusMomentum orientation)"
  obtain m where m: "createDefaultTurtleMatrix = Inr m" "points_at 0 m" using default_points by blast
  have "chooseTurtleFrameFromTimeWeave summary momentum \<in> {''family_field'', ''deep_time'', ''regulation_axis'', ''inner_focus'', ''baseline''}"
    by (auto simp: chooseTurtleFrameFromTimeWeave_def Let_def)
  then obtain j where j: "j < 12" "chooseTurtleFrameFromTimeWeave summary momentum = tf_id (TURTLE_FRAMES ! j)"
    by (auto simp: TURTLE_FRAMES_def intro: that [of 7] that [of 4] that [of 6] that [of 1] that [of 0])
  then obtain m' where m': "rotateTurtleMatrix m \<lparr>targetFrame = tf_id (TURTLE_FRAMES ! j), in_commitment = Some (normalizeCommitmentFromMomentum momentum)\<rparr> = Inr m'"
    "points_at j m'" using rotate_points [OF m(2)] by blast
  obtain snap where snap: "buildTurtleSnapshot m' = Inr snap" "ts_rotationAngle snap = 30 * ts_frameIndex snap"
    "0 \<le> ts_commitment snap" "ts_commitment snap \<le> 1"
    using descriptor_nth [OF j(1)] m'(2) by (auto simp: buildTurtleSnapshot_def points_at_def split: option.splits)
  have "attachTurtleSnapshotToOrientation orientation signals override = Inr (orientation\<lparr>turtle := Some snap\<rparr>)"
    by (simp add: attachTurtleSnapshotToOrientation_def Some Let_def momentum_def [symmetric] m(1) j(2) m'(1) snap(1) del: bindr_Inr_iff)
  then show ?thesis using snap by simp
qed (simp add: attachTurtleSnapshotToOrientation_def)

end
