(* ===== verification/Minimal_Server.thy ===== *)
theory Minimal_Server
  imports JS_Math JSON
begin

text \<open>
  The minimal LTP server (\<open>examples/js-minimal-server/index.js\<close>): threads, sessions of web sockets, the
  rate limit per client, and the handler of every message. The clock, the identifiers \<open>uuidv4\<close> makes
  and the random bytes come with each event (\<open>server_input\<close>). A handler either throws, which the
  caller answers with \<open>MALFORMED_MESSAGE\<close>, or has sent one reply; what it changed before it throws stays
  changed. Of the log lines only what can throw while they are composed is kept.
\<close>

section \<open>State\<close>

text \<open>A \<open>Map\<close> finds objects by identity: each message makes its own, named by the message's number.\<close>

datatype rate_key = PrimKey jsval | ObjKey nat

record rate_entry =
  rate_count :: nat
  resetAt :: rat

record session_data =
  sd_threadId :: string
  sd_sessionId :: string
  sd_clientId :: jsval
  sd_clientKey :: rate_key

record thread_state =
  st_lastSessionId :: jsval
  st_clientId :: jsval
  st_lastSeen :: rat
  st_contextTag :: jsval
  st_affect :: jsval

record server =
  sv_sessions :: "nat \<rightharpoonup> session_data"
  sv_threads :: "string \<rightharpoonup> thread_state"
  rateLimit :: "rate_key \<rightharpoonup> rate_entry"

record server_input =
  in_now :: rat
  in_thread_uuid :: string
  in_session_uuid :: string
  in_random :: string
  in_number :: nat
  in_parse_error :: string

definition SERVER_VERSION :: string where "SERVER_VERSION = ''0.3''"
definition THREAD_TTL_MS :: rat where "THREAD_TTL_MS = 30 * 60 * 1000"
definition RATE_LIMIT_WINDOW_MS :: rat where "RATE_LIMIT_WINDOW_MS = 60000"
definition RATE_LIMIT_MAX_MESSAGES :: nat where "RATE_LIMIT_MAX_MESSAGES = 100"

definition server_init :: server where
  "server_init = \<lparr>sv_sessions = Map.empty, sv_threads = Map.empty, rateLimit = Map.empty\<rparr>"

section \<open>Rate limit\<close>

definition checkRateLimit :: "rat \<Rightarrow> rate_key \<Rightarrow> server \<Rightarrow> server \<times> bool" where
  "checkRateLimit now k sv =
     (case rateLimit sv k of
        None \<Rightarrow> (sv\<lparr>rateLimit := (rateLimit sv)(k \<mapsto> \<lparr>rate_count = 0, resetAt = now + RATE_LIMIT_WINDOW_MS\<rparr>)\<rparr>, True)
      | Some e \<Rightarrow>
          (let e1 = (if now > resetAt e then \<lparr>rate_count = 0, resetAt = now + RATE_LIMIT_WINDOW_MS\<rparr> else e)
           in if rate_count e1 \<ge> RATE_LIMIT_MAX_MESSAGES
              then (sv\<lparr>rateLimit := (rateLimit sv)(k \<mapsto> e1)\<rparr>, False)
              else (sv\<lparr>rateLimit := (rateLimit sv)(k \<mapsto> e1\<lparr>rate_count := rate_count e1 + 1\<rparr>)\<rparr>, True)))"

definition key_of :: "nat \<Rightarrow> jsval \<Rightarrow> rate_key" where
  "key_of n v = (if is_object v then ObjKey n else PrimKey v)"

text \<open>\<open>sessionData?.clientId || message.client_id || 'unknown'\<close>.\<close>

definition client_key :: "server_input \<Rightarrow> session_data option \<Rightarrow> jsval \<Rightarrow> rate_key" where
  "client_key inp sessionData message =
     (case sessionData of
        Some d \<Rightarrow> if truthy (sd_clientId d) then sd_clientKey d
                  else key_of (in_number inp) (js_or (pget message ''client_id'') (JStr ''unknown''))
      | None \<Rightarrow> key_of (in_number inp) (js_or (pget message ''client_id'') (JStr ''unknown'')))"

section \<open>Messages of the server\<close>

definition seconds :: "rat \<Rightarrow> jsval" where
  "seconds now = JNum (of_int \<lfloor>fl (now / 1000)\<rfloor>)"

definition attachSecurity :: "server_input \<Rightarrow> (string \<times> jsval) list \<Rightarrow> jsval" where
  "attachSecurity inp envelope =
     JObj (envelope @ [(''nonce'', JStr (''server-'' @ num_str (in_now inp) @ ''-'' @ in_random inp)),
                       (''signature'', JStr ''v0-server-placeholder'')])"

definition createHandshakeAck :: "string \<Rightarrow> string \<Rightarrow> bool \<Rightarrow> jsval" where
  "createHandshakeAck tid sid resumed =
     JObj [(''type'', JStr ''handshake_ack''), (''ltp_version'', JStr SERVER_VERSION), (''thread_id'', JStr tid),
           (''session_id'', JStr sid),
           (''server_capabilities'', JArr [JStr ''basic-state-update'', JStr ''ping-pong'', JStr ''events'']),
           (''heartbeat_interval_ms'', JNum 15000), (''resumed'', JBool resumed),
           (''metadata'', JObj [(''server_version'', JStr ''0.3.0''), (''region'', JStr ''local'')])]"

definition sendHandshakeReject :: "string \<Rightarrow> jsval" where
  "sendHandshakeReject reason =
     JObj [(''type'', JStr ''handshake_reject''), (''ltp_version'', JStr SERVER_VERSION), (''reason'', JStr reason),
           (''suggest_new'', JBool True)]"

definition createPongMessage :: "server_input \<Rightarrow> jsval \<Rightarrow> jsval" where
  "createPongMessage inp ping =
     attachSecurity inp [(''type'', JStr ''pong''), (''thread_id'', pget ping ''thread_id''), (''session_id'', pget ping ''session_id''),
       (''timestamp'', seconds (in_now inp)), (''payload'', JObj []), (''meta'', JObj [])]"

definition createErrorMessage :: "rat \<Rightarrow> string \<Rightarrow> string \<Rightarrow> jsval \<Rightarrow> jsval" where
  "createErrorMessage now errorCode errorMessage details =
     JObj [(''type'', JStr ''error''), (''timestamp'', seconds now),
           (''payload'', JObj [(''error_code'', JStr errorCode), (''error_message'', JStr errorMessage), (''details'', details)])]"

definition rate_error :: "rat \<Rightarrow> jsval" where
  "rate_error now =
     createErrorMessage now ''RATE_LIMIT_EXCEEDED''
       (''Rate limit exceeded: max '' @ nat_str RATE_LIMIT_MAX_MESSAGES @ '' messages per ''
          @ num_str (RATE_LIMIT_WINDOW_MS / 1000) @ '' seconds'')
       (JObj [(''limit'', JNum (of_nat RATE_LIMIT_MAX_MESSAGES)), (''window_ms'', JNum RATE_LIMIT_WINDOW_MS)])"

section \<open>Threads\<close>

definition createThreadState :: "server_input \<Rightarrow> jsval \<Rightarrow> server \<Rightarrow> server" where
  "createThreadState inp clientMessage sv =
     sv\<lparr>sv_threads := (sv_threads sv)(in_thread_uuid inp \<mapsto>
        \<lparr>st_lastSessionId = JStr (in_session_uuid inp), st_clientId = pget clientMessage ''client_id'',
         st_lastSeen = in_now inp, st_contextTag = pget clientMessage ''intent'', st_affect = JNull\<rparr>)\<rparr>"

definition find_thread :: "server \<Rightarrow> jsval \<Rightarrow> (string \<times> thread_state) option" where
  "find_thread sv v = (case v of JStr t \<Rightarrow> map_option (Pair t) (sv_threads sv t) | _ \<Rightarrow> None)"

definition resumeThread :: "server_input \<Rightarrow> jsval \<Rightarrow> jsval \<Rightarrow> server \<Rightarrow> (string \<times> server) option" where
  "resumeThread inp tid clientId sv =
     (case find_thread sv tid of
        None \<Rightarrow> None
      | Some (t, state) \<Rightarrow>
          Some (t, sv\<lparr>sv_threads := (sv_threads sv)(t \<mapsto>
            state\<lparr>st_lastSeen := in_now inp, st_clientId := clientId, st_lastSessionId := JStr (in_session_uuid inp)\<rparr>)\<rparr>))"

definition updateThreadStateFromMessage :: "server_input \<Rightarrow> jsval \<Rightarrow> server \<Rightarrow> server" where
  "updateThreadStateFromMessage inp message sv =
     (case find_thread sv (pget message ''thread_id'') of
        None \<Rightarrow> sv
      | Some (t, state) \<Rightarrow>
          (let tag = pget (pget message ''meta'') ''context_tag''; aff = pget (pget message ''meta'') ''affect'';
               s1 = state\<lparr>st_lastSeen := in_now inp, st_lastSessionId := pget message ''session_id''\<rparr>;
               s2 = (if truthy tag then s1\<lparr>st_contextTag := tag\<rparr> else s1);
               s3 = (if truthy aff then s2\<lparr>st_affect := aff\<rparr> else s2)
           in sv\<lparr>sv_threads := (sv_threads sv)(t \<mapsto> s3)\<rparr>))"

section \<open>Handlers\<close>

definition handleHandshakeInit :: "server_input \<Rightarrow> nat \<Rightarrow> jsval \<Rightarrow> server \<Rightarrow> server \<times> jsval" where
  "handleHandshakeInit inp ws message sv =
     (let sv1 = createThreadState inp message sv
      in (sv1\<lparr>sv_sessions := (sv_sessions sv1)(ws \<mapsto>
            \<lparr>sd_threadId = in_thread_uuid inp, sd_sessionId = in_session_uuid inp,
             sd_clientId = pget message ''client_id'', sd_clientKey = key_of (in_number inp) (pget message ''client_id'')\<rparr>)\<rparr>,
          createHandshakeAck (in_thread_uuid inp) (in_session_uuid inp) False))"

definition handleHandshakeResume :: "server_input \<Rightarrow> nat \<Rightarrow> jsval \<Rightarrow> server \<Rightarrow> server \<times> jsval" where
  "handleHandshakeResume inp ws message sv =
     (case resumeThread inp (pget message ''thread_id'') (pget message ''client_id'') sv of
        None \<Rightarrow> (sv, sendHandshakeReject ''thread_not_found'')
      | Some (t, sv1) \<Rightarrow>
          (sv1\<lparr>sv_sessions := (sv_sessions sv1)(ws \<mapsto>
             \<lparr>sd_threadId = t, sd_sessionId = in_session_uuid inp,
              sd_clientId = pget message ''client_id'', sd_clientKey = key_of (in_number inp) (pget message ''client_id'')\<rparr>)\<rparr>,
           createHandshakeAck t (in_session_uuid inp) True))"

text \<open>\<open>v ? v.substring(0, 8) : 'none'\<close>.\<close>

definition short_id :: "jsval \<Rightarrow> string result" where
  "short_id v = (if \<not> truthy v then Inr ''none''
                 else case v of JStr s \<Rightarrow> Inr (take 8 s) | _ \<Rightarrow> Inl ''substring is not a function'')"

text \<open>The lines logged for an update: the preview of absent data, a payload that is not an object and
  resonance hooks that are no array throw.\<close>

definition log_state_update :: "jsval \<Rightarrow> unit result" where
  "log_state_update message =
     bindr (short_id (pget message ''thread_id'')) (\<lambda>threadShort.
     bindr (short_id (pget message ''session_id'')) (\<lambda>sessionShort.
       let encoding = js_or (pget message ''content_encoding'') (JStr ''json'');
           payloadData = pget (pget message ''payload'') ''data''
       in if \<not> (encoding = JStr ''toon'' \<and> is_str payloadData) \<and> payloadData = JUndef
          then Inl ''Cannot read properties (reading length)''
          else bindr (get_prop (pget message ''payload'') ''kind'') (\<lambda>kind.
               if kind = JStr ''lri_envelope_v1'' \<and> truthy (pget payloadData ''resonance_hooks'')
                  \<and> \<not> is_array (pget payloadData ''resonance_hooks'')
               then Inl ''join is not a function''
               else Inr ())))"

definition state_update_reply :: "server_input \<Rightarrow> jsval \<Rightarrow> jsval" where
  "state_update_reply inp message =
     attachSecurity inp [(''type'', JStr ''state_update''), (''thread_id'', pget message ''thread_id''),
       (''session_id'', pget message ''session_id''), (''timestamp'', seconds (in_now inp)),
       (''payload'', JObj [(''kind'', JStr ''delta''),
          (''data'', JObj [(''lri_resonance'', JNum (fl (92 / 100))), (''server_status'', JStr ''processing'')])]),
       (''meta'', JObj [])]"

definition event_reply :: "server_input \<Rightarrow> jsval \<Rightarrow> jsval result" where
  "event_reply inp message =
     bindr (get_prop (pget message ''payload'') ''event_type'') (\<lambda>event_type.
       Inr (attachSecurity inp [(''type'', JStr ''event''), (''thread_id'', pget message ''thread_id''),
         (''session_id'', pget message ''session_id''), (''timestamp'', seconds (in_now inp)),
         (''payload'', JObj [(''event_type'', JStr ''event_received''),
            (''data'', JObj [(''original_event'', event_type), (''status'', JStr ''acknowledged'')])]),
         (''meta'', JObj [])]))"

definition dispatch_message :: "server_input \<Rightarrow> nat \<Rightarrow> jsval \<Rightarrow> server \<Rightarrow> server \<times> jsval result" where
  "dispatch_message inp ws message sv =
     (let type = pget message ''type''
      in if type = JStr ''handshake_init'' then map_prod id Inr (handleHandshakeInit inp ws message sv)
         else if type = JStr ''handshake_resume'' then map_prod id Inr (handleHandshakeResume inp ws message sv)
         else if type = JStr ''ping'' then (sv, Inr (createPongMessage inp message))
         else if type = JStr ''state_update'' then
           (updateThreadStateFromMessage inp message sv,
            bindr (log_state_update message) (\<lambda>u. Inr (state_update_reply inp message)))
         else if type = JStr ''event'' then (sv, event_reply inp message)
         else (sv, Inr (createErrorMessage (in_now inp) ''UNKNOWN_MESSAGE_TYPE''
                (''Message type '' @ [CHR 0x27] @ js_str type @ [CHR 0x27] @ '' is not supported'')
                (JObj [(''received_type'', type)]))))"

definition handleMessage :: "server_input \<Rightarrow> nat \<Rightarrow> jsval \<Rightarrow> server \<Rightarrow> server \<times> jsval result" where
  "handleMessage inp ws message sv =
     (if nullish message then (sv, Inl ''Cannot destructure property'')
      else if pget message ''type'' \<noteq> JStr ''handshake_init''
      then (let (sv1, allowed) = checkRateLimit (in_now inp) (client_key inp (sv_sessions sv ws) message) sv
            in if allowed then dispatch_message inp ws message sv1 else (sv1, Inr (rate_error (in_now inp))))
      else dispatch_message inp ws message sv)"

section \<open>Events\<close>

text \<open>The listener of a socket's messages: the state and the frame it sends.\<close>

definition on_ws_data :: "server_input \<Rightarrow> nat \<Rightarrow> string \<Rightarrow> server \<Rightarrow> server \<times> jsval" where
  "on_ws_data inp ws data sv =
     (let malformed = (\<lambda>e. createErrorMessage (in_now inp) ''MALFORMED_MESSAGE'' ''Invalid JSON or message structure''
                              (JObj [(''error'', JStr e)]))
      in case json_parse data of
           None \<Rightarrow> (sv, malformed (in_parse_error inp))
         | Some message \<Rightarrow>
             (let (sv1, r) = handleMessage inp ws message sv
              in (sv1, case r of Inr reply \<Rightarrow> reply | Inl e \<Rightarrow> malformed e)))"

definition on_ws_close :: "nat \<Rightarrow> server \<Rightarrow> server" where
  "on_ws_close ws sv = sv\<lparr>sv_sessions := (sv_sessions sv)(ws := None)\<rparr>"

definition cleanup_tick :: "rat \<Rightarrow> server \<Rightarrow> server" where
  "cleanup_tick now sv =
     (let cutoff = now - THREAD_TTL_MS; rateLimitCutoff = now - 5 * 60 * 1000
      in sv\<lparr>sv_threads := (\<lambda>t. case sv_threads sv t of Some s \<Rightarrow> if st_lastSeen s < cutoff then None else Some s | None \<Rightarrow> None),
            rateLimit := (\<lambda>k. case rateLimit sv k of Some e \<Rightarrow> if resetAt e < rateLimitCutoff then None else Some e | None \<Rightarrow> None)\<rparr>)"

text \<open>The subprotocol a connection is accepted with.\<close>

definition handleProtocols :: "string list \<Rightarrow> string option" where
  "handleProtocols protocols =
     (if ''ltp.v0.3'' \<in> set protocols then Some ''ltp.v0.3''
      else if ''ltp.v0.2'' \<in> set protocols then Some ''ltp.v0.2'' else None)"

end
