(* ===== verification/Server_Correct.thy ===== *)
theory Server_Correct
  imports Minimal_Server
begin

text \<open>
  Runs of the minimal server: messages, closing sockets and cleanups in any order, with a clock that
  does not go back. What the rate limit bounds, and how long a thread can be resumed.
\<close>

section \<open>Runs\<close>

datatype server_event = Data server_input nat string | Closed nat | Tick rat

fun event_clock :: "rat \<Rightarrow> server_event \<Rightarrow> rat" where
  "event_clock now (Data inp ws d) = in_now inp"
| "event_clock now (Closed ws) = now"
| "event_clock now (Tick t) = t"

fun serve :: "server_event \<Rightarrow> server \<Rightarrow> server" where
  "serve (Data inp ws d) sv = fst (on_ws_data inp ws d sv)"
| "serve (Closed ws) sv = on_ws_close ws sv"
| "serve (Tick t) sv = cleanup_tick t sv"

text \<open>The client a message is counted for, with the time, when the rate limit lets it pass.\<close>

fun accepted :: "server_event \<Rightarrow> server \<Rightarrow> (rate_key \<times> rat) list" where
  "accepted (Data inp ws d) sv =
     (case json_parse d of
        None \<Rightarrow> []
      | Some m \<Rightarrow>
          (let k = client_key inp (sv_sessions sv ws) m
           in if \<not> nullish m \<and> pget m ''type'' \<noteq> JStr ''handshake_init'' \<and> snd (checkRateLimit (in_now inp) k sv)
              then [(k, in_now inp)] else []))"
| "accepted e sv = []"

inductive server_run :: "rat \<Rightarrow> server \<Rightarrow> (rate_key \<times> rat) list \<Rightarrow> bool" where
  start: "server_run now server_init []"
| event: "server_run now sv hist \<Longrightarrow> now \<le> event_clock now e \<Longrightarrow> server_run (event_clock now e) (serve e sv) (hist @ accepted e sv)"

section \<open>The rate limit\<close>

lemma dispatch_rate: "rateLimit (fst (dispatch_message inp ws m sv)) = rateLimit sv"
  by (simp add: dispatch_message_def Let_def handleHandshakeInit_def createThreadState_def handleHandshakeResume_def resumeThread_def
      updateThreadStateFromMessage_def split: option.split)

lemma data_rate:
  "rateLimit (serve (Data inp ws d) sv) =
     (case json_parse d of
        None \<Rightarrow> rateLimit sv
      | Some m \<Rightarrow> if nullish m \<or> pget m ''type'' = JStr ''handshake_init'' then rateLimit sv
                  else rateLimit (fst (checkRateLimit (in_now inp) (client_key inp (sv_sessions sv ws) m) sv)))"
  by (auto simp: on_ws_data_def handleMessage_def Let_def dispatch_rate case_prod_beta split: option.split)

text \<open>The times at which messages of a client were let pass, and how many lie in a stretch of time.\<close>

definition times_of :: "rate_key \<Rightarrow> (rate_key \<times> rat) list \<Rightarrow> rat list" where
  "times_of k hist = map snd (filter (\<lambda>p. fst p = k) hist)"

definition since :: "rat \<Rightarrow> rat list \<Rightarrow> nat" where
  "since t ts = length (filter (\<lambda>x. t \<le> x) ts)"

definition in_span :: "rat \<Rightarrow> rat \<Rightarrow> rat list \<Rightarrow> nat" where
  "in_span a b ts = length (filter (\<lambda>x. a \<le> x \<and> x \<le> b) ts)"

lemma times_of_append [simp]: "times_of k (xs @ ys) = times_of k xs @ times_of k ys" "times_of k [] = []"
  "times_of k [(k', t)] = (if k' = k then [t] else [])"
  by (simp_all add: times_of_def)

lemma since_append [simp]: "since t (xs @ [x]) = since t xs + (if t \<le> x then 1 else 0)" "since t [] = 0"
  by (simp_all add: since_def)

lemma since_mono: "s \<le> t \<Longrightarrow> since t ts \<le> since s ts"
  by (induction ts rule: rev_induct) auto

lemma since_none: "\<forall>x \<in> set ts. x < t \<Longrightarrow> since t ts = 0"
  by (induction ts rule: rev_induct) auto

lemma span_since: "in_span a b ts \<le> since a ts"
  by (induction ts) (auto simp: in_span_def since_def)

text \<open>
  The invariant for one client: while it has an entry, at most one message more than counted was let
  pass in the current window and 101 more in the window before it; a client without entry has been
  silent for a minute.
\<close>

definition limited :: "rat \<Rightarrow> rate_entry option \<Rightarrow> rat list \<Rightarrow> bool" where
  "limited now entry ts \<longleftrightarrow> (\<forall>x \<in> set ts. x \<le> now) \<and>
     (case entry of
        None \<Rightarrow> \<forall>x \<in> set ts. x + 60000 < now
      | Some e \<Rightarrow> resetAt e - 60000 \<le> now \<and> rate_count e \<le> 100 \<and> (\<forall>x \<in> set ts. x \<le> resetAt e) \<and>
          since (resetAt e - 60000) ts \<le> rate_count e + 1 \<and> since (resetAt e - 120000) ts \<le> rate_count e + 101)"

lemma limited_later: "limited now e ts \<Longrightarrow> now \<le> now' \<Longrightarrow> limited now' e ts"
  by (auto simp: limited_def split: option.splits)

lemma limited_check:
  assumes "limited now0 (rateLimit sv k) ts" and "now0 \<le> now"
    and "checkRateLimit now k sv = (sv', ok)"
  shows "limited now (rateLimit sv' k) (if ok then ts @ [now] else ts) \<and> (ok \<longrightarrow> since (now - 60000) (ts @ [now]) \<le> 201)"
proof (cases "rateLimit sv k")
  case None
  have old: "\<forall>x \<in> set ts. x + 60000 < now \<and> x \<le> now \<and> x \<le> now + 60000"
    using assms(1,2) None by (fastforce simp: limited_def)
  then have "since (now - 60000) ts = 0" "since now ts = 0" by (auto intro!: since_none)
  then show ?thesis
    using assms(3) None old by (auto simp: checkRateLimit_def limited_def RATE_LIMIT_WINDOW_MS_def)
next
  case (Some e)
  note inv = assms(1) [unfolded limited_def Some, simplified]
  show ?thesis
  proof (cases "now > resetAt e")
    case True
    have "\<forall>x \<in> set ts. x \<le> now + 60000" using inv True by fastforce
    moreover have "since now ts = 0" using inv True by (intro since_none) auto
    moreover have "since (now - 60000) ts \<le> 101"
      using since_mono [of "resetAt e - 60000" "now - 60000" ts] inv True by simp
    ultimately show ?thesis
      using assms(2,3) Some True inv
      by (auto simp: checkRateLimit_def limited_def RATE_LIMIT_WINDOW_MS_def RATE_LIMIT_MAX_MESSAGES_def Let_def)
  next
    case False
    have "resetAt e - 120000 \<le> now - 60000" using inv assms(2) by simp
    then have "since (now - 60000) ts \<le> rate_count e + 101"
      using since_mono [of "resetAt e - 120000" "now - 60000" ts] inv by simp
    then show ?thesis
      using assms(2,3) Some False inv
      by (auto simp: checkRateLimit_def limited_def RATE_LIMIT_MAX_MESSAGES_def Let_def split: if_splits)
  qed
qed

lemma check_other: "checkRateLimit now k sv = (sv', ok) \<Longrightarrow> k' \<noteq> k \<Longrightarrow> rateLimit sv' k' = rateLimit sv k'"
  by (auto simp: checkRateLimit_def Let_def split: option.splits if_splits)

lemma limited_tick:
  assumes "limited now0 (rateLimit sv k) ts" and "now0 \<le> now"
  shows "limited now (rateLimit (cleanup_tick now sv) k) ts"
proof (cases "rateLimit sv k")
  case None
  then show ?thesis using limited_later [OF assms] by (simp add: cleanup_tick_def Let_def)
next
  case (Some e)
  show ?thesis
  proof (cases "resetAt e < now - 300000")
    case True
    then have "\<forall>x \<in> set ts. x + 60000 < now" using assms(1) Some by (fastforce simp: limited_def)
    then show ?thesis using limited_later [OF assms] Some True by (auto simp: cleanup_tick_def Let_def limited_def)
  next
    case False
    then show ?thesis using limited_later [OF assms] Some by (simp add: cleanup_tick_def Let_def)
  qed
qed

lemma span_snoc:
  assumes "\<forall>t. in_span (t - 60000) t ts \<le> 201" and "since (now - 60000) (ts @ [now]) \<le> 201"
  shows "\<forall>t. in_span (t - 60000) t (ts @ [now]) \<le> 201"
proof
  fix t
  show "in_span (t - 60000) t (ts @ [now]) \<le> 201"
  proof (cases "now \<le> t")
    case True
    then show ?thesis
      using span_since [of "t - 60000" t "ts @ [now]"] since_mono [of "now - 60000" "t - 60000" "ts @ [now]"] assms(2) by linarith
  next
    case False
    then show ?thesis using assms(1) by (simp add: in_span_def)
  qed
qed

lemma run_limited:
  "server_run now sv hist \<Longrightarrow> limited now (rateLimit sv k) (times_of k hist) \<and> (\<forall>t. in_span (t - 60000) t (times_of k hist) \<le> 201)"
proof (induction rule: server_run.induct)
  case (start now)
  then show ?case by (simp add: server_init_def limited_def in_span_def)
next
  case (event now sv hist e)
  note lim = event.IH [THEN conjunct1] and span = event.IH [THEN conjunct2]
  show ?case
  proof (cases e)
    case (Data inp ws d)
    then have now: "now \<le> in_now inp" using event.hyps by simp
    show ?thesis
    proof (cases "\<exists>m. json_parse d = Some m \<and> \<not> nullish m \<and> pget m ''type'' \<noteq> JStr ''handshake_init''")
      case False
      then have "rateLimit (serve e sv) = rateLimit sv" "accepted e sv = []"
        by (auto simp: Data data_rate split: option.split simp del: serve.simps)
      then show ?thesis using limited_later [OF lim now] span by (simp add: Data)
    next
      case True
      then obtain m where m: "json_parse d = Some m" "\<not> nullish m" "pget m ''type'' \<noteq> JStr ''handshake_init''" by blast
      define key where "key = client_key inp (sv_sessions sv ws) m"
      obtain sv' ok where c: "checkRateLimit (in_now inp) key sv = (sv', ok)" by (cases "checkRateLimit (in_now inp) key sv")
      have sv: "rateLimit (serve e sv) = rateLimit sv'" "accepted e sv = (if ok then [(key, in_now inp)] else [])"
        using m c by (simp_all add: Data data_rate key_def [symmetric] del: serve.simps)
      show ?thesis
      proof (cases "k = key")
        case True
        note new = limited_check [OF lim [unfolded True] now c]
        then show ?thesis using span_snoc [OF span [unfolded True]] span unfolding sv by (simp add: Data True split: if_splits)
      next
        case False
        then show ?thesis using limited_later [OF lim now] span check_other [OF c False] unfolding sv by (simp add: Data)
      qed
    qed
  next
    case (Closed ws)
    then show ?thesis using lim span by (simp add: on_ws_close_def)
  next
    case (Tick t)
    then show ?thesis using limited_tick [OF lim] event.hyps span by simp
  qed
qed

text \<open>C10: the rate limit. Whatever messages arrive on whatever sockets, and whenever sockets close and entries
  are cleaned up, the messages other than \<open>handshake_init\<close> that pass under one key of the limit within any
  minute are at most 201: a first window admits one message more than the 100 it counts, and a minute can
  straddle two windows. The key is the client id of the session, or else that of the message, or else
  \<open>unknown\<close>; an id that is an object is another key for every message (\<open>object_id_not_limited\<close>).\<close>

theorem rate_limited:
  assumes "server_run now sv hist"
  shows "in_span (t - 60000) t (times_of k hist) \<le> 201"
  using run_limited [OF assms] by blast

definition sample_input :: server_input where
  "sample_input = \<lparr>in_now = 7, in_thread_uuid = ''t'', in_session_uuid = ''s'', in_random = ''0a'', in_number = 1, in_parse_error = ''e''\<rparr>"

definition ping_text :: string where
  "ping_text = json_text (JObj [(''type'', JStr ''ping'')])"

lemma ping_accepted: "accepted (Data sample_input 0 ping_text) server_init = [(PrimKey (JStr ''unknown''), 7)]"
proof -
  have "json_parse ping_text = Some (JObj [(''type'', JStr ''ping'')])"
    unfolding ping_text_def by (rule json_roundtrip) code_simp
  then show ?thesis
    by (simp add: client_key_def server_init_def key_of_def js_or_def checkRateLimit_def sample_input_def Let_def)
qed

theorem rate_limited_witness:
  "in_span (7 - 60000) 7 (times_of (PrimKey (JStr ''unknown'')) (accepted (Data sample_input 0 ping_text) server_init)) \<le> 201 \<and>
   times_of (PrimKey (JStr ''unknown'')) (accepted (Data sample_input 0 ping_text) server_init) = [7]"
proof -
  have "server_run 7 (serve (Data sample_input 0 ping_text) server_init) ([] @ accepted (Data sample_input 0 ping_text) server_init)"
    using server_run.event [OF server_run.start [of 5], of "Data sample_input 0 ping_text"] by (simp add: sample_input_def)
  from rate_limited [OF this, of 7 "PrimKey (JStr ''unknown'')"] show ?thesis by (simp add: ping_accepted del: accepted.simps)
qed

text \<open>The documented limit of 100 is exceeded by one: 101 messages pass in a first window.\<close>

fun admit :: "nat \<Rightarrow> rat \<Rightarrow> rate_key \<Rightarrow> server \<Rightarrow> server \<times> bool" where
  "admit 0 now k sv = (sv, True)"
| "admit (Suc n) now k sv = (let (sv1, ok) = admit n now k sv; (sv2, ok') = checkRateLimit now k sv1 in (sv2, ok \<and> ok'))"

lemma first_window_admits:
  assumes "rateLimit sv k = None" and "n \<le> 100"
  shows "snd (admit (Suc n) now k sv) \<and>
    rateLimit (fst (admit (Suc n) now k sv)) k = Some \<lparr>rate_count = n, resetAt = now + RATE_LIMIT_WINDOW_MS\<rparr>"
  using assms(2)
proof (induction n)
  case 0
  then show ?case using assms(1) by (simp add: checkRateLimit_def Let_def)
next
  case (Suc n)
  obtain sv1 where a: "admit (Suc n) now k sv = (sv1, True)" using Suc by (cases "admit (Suc n) now k sv") simp
  then have "rateLimit sv1 k = Some \<lparr>rate_count = n, resetAt = now + RATE_LIMIT_WINDOW_MS\<rparr>" using Suc by simp
  then show ?case using Suc.prems
    by (simp add: admit.simps(2) [of "Suc n"] a checkRateLimit_def RATE_LIMIT_MAX_MESSAGES_def RATE_LIMIT_WINDOW_MS_def Let_def del: admit.simps(2))
qed

lemma hundred_and_one_pass: "snd (admit 101 now k server_init)"
  using first_window_admits [of server_init k 100 now] by (simp add: server_init_def del: admit.simps(2))

text \<open>A client whose id is an object has a new entry for every message it sends without a session, so
  none of them is counted.\<close>

lemma object_id_not_limited:
  assumes "is_object (pget m ''client_id'')" and "rateLimit sv (ObjKey (in_number inp)) = None"
  shows "snd (checkRateLimit (in_now inp) (client_key inp None m) sv)"
proof -
  have "truthy (pget m ''client_id'')" using assms(1) by (cases "pget m ''client_id''") auto
  then show ?thesis using assms by (simp add: client_key_def key_of_def js_or_def checkRateLimit_def)
qed

section \<open>Threads\<close>

definition server_tick :: "rat \<times> server \<Rightarrow> rat \<times> server \<Rightarrow> bool" where
  "server_tick p q \<longleftrightarrow> (\<exists>e. fst p \<le> event_clock (fst p) e \<and> q = (event_clock (fst p) e, serve e (snd p)))"

lemma check_threads: "checkRateLimit now k sv = (sv', ok) \<Longrightarrow> sv_threads sv' = sv_threads sv \<and> sv_sessions sv' = sv_sessions sv"
  by (auto simp: checkRateLimit_def Let_def split: option.splits if_splits)

lemma dispatch_threads:
  assumes "sv_threads sv t = Some s" and "st_lastSeen s \<le> in_now inp"
  shows "\<exists>s'. sv_threads (fst (dispatch_message inp ws m sv)) t = Some s' \<and> st_lastSeen s \<le> st_lastSeen s' \<and> st_lastSeen s' \<le> in_now inp"
  using assms
  by (auto simp: dispatch_message_def Let_def handleHandshakeInit_def createThreadState_def handleHandshakeResume_def resumeThread_def
      updateThreadStateFromMessage_def find_thread_def split: option.split jsval.split)

lemma data_threads:
  assumes "sv_threads sv t = Some s" and "st_lastSeen s \<le> in_now inp"
  shows "\<exists>s'. sv_threads (fst (on_ws_data inp ws d sv)) t = Some s' \<and> st_lastSeen s \<le> st_lastSeen s' \<and> st_lastSeen s' \<le> in_now inp"
proof (cases "json_parse d")
  case None
  then show ?thesis using assms by (simp add: on_ws_data_def)
next
  case (Some m)
  obtain sv1 ok where c: "checkRateLimit (in_now inp) (client_key inp (sv_sessions sv ws) m) sv = (sv1, ok)" by fastforce
  have "sv_threads sv1 t = Some s" using check_threads [OF c] assms(1) by simp
  then show ?thesis
    using dispatch_threads [OF _ assms(2), of sv1 t ws m] dispatch_threads [OF assms, of ws m] assms(1) c
    by (auto simp: on_ws_data_def Some handleMessage_def Let_def case_prod_beta)
qed

lemma tick_threads:
  assumes "server_tick (now, sv) (now', sv')" and "sv_threads sv t = Some s" and "st_lastSeen s \<le> now"
    and "now' \<le> st_lastSeen s + THREAD_TTL_MS"
  shows "\<exists>s'. sv_threads sv' t = Some s' \<and> st_lastSeen s \<le> st_lastSeen s' \<and> st_lastSeen s' \<le> now'"
proof -
  obtain e where e: "now \<le> event_clock now e" "now' = event_clock now e" "sv' = serve e sv"
    using assms(1) by (auto simp: server_tick_def)
  show ?thesis
  proof (cases e)
    case (Data inp ws d)
    then show ?thesis using data_threads [OF assms(2), of inp ws d] assms(3) e by auto
  next
    case (Closed ws)
    then show ?thesis using assms(2,3) e by (simp add: on_ws_close_def)
  next
    case (Tick n)
    then show ?thesis using assms(2-4) e by (simp add: cleanup_tick_def Let_def)
  qed
qed

lemma ticks_clock: "server_tick\<^sup>*\<^sup>* p q \<Longrightarrow> fst p \<le> fst q"
  by (induction rule: rtranclp_induct) (auto simp: server_tick_def)

lemma ticks_threads:
  assumes "server_tick\<^sup>*\<^sup>* (now, sv) (now', sv')" and "sv_threads sv t = Some s" and "st_lastSeen s \<le> now"
    and "now' \<le> st_lastSeen s + THREAD_TTL_MS"
  shows "\<exists>s'. sv_threads sv' t = Some s' \<and> st_lastSeen s \<le> st_lastSeen s'"
  using assms
proof (induction "(now, sv)" arbitrary: now sv s rule: converse_rtranclp_induct)
  case base
  then show ?case by auto
next
  case (step q)
  obtain now1 sv1 where q: "q = (now1, sv1)" by (cases q)
  have "now1 \<le> now'" using ticks_clock [OF step.hyps(2)] q by simp
  then obtain s1 where "sv_threads sv1 t = Some s1" "st_lastSeen s \<le> st_lastSeen s1" "st_lastSeen s1 \<le> now1"
    using tick_threads [of now sv now1 sv1 t s] step.hyps(1) step.prems q by auto
  then show ?case using step.hyps(3) [of now1 sv1 s1] step.prems q by fastforce
qed

lemma resume_reply:
  assumes "\<not> nullish m" and "pget m ''type'' = JStr ''handshake_resume''" and "pget m ''thread_id'' = JStr t"
    and "snd (checkRateLimit (in_now inp) (client_key inp (sv_sessions sv ws) m) sv)"
  shows "snd (handleMessage inp ws m sv) =
      (if sv_threads sv t = None then Inr (sendHandshakeReject ''thread_not_found'')
       else Inr (createHandshakeAck t (in_session_uuid inp) True))"
    "sv_threads sv t \<noteq> None \<Longrightarrow> \<exists>d s. sv_sessions (fst (handleMessage inp ws m sv)) ws = Some d \<and> sd_threadId d = t \<and>
      sd_sessionId d = in_session_uuid inp \<and> sv_threads (fst (handleMessage inp ws m sv)) t = Some s \<and>
      st_clientId s = pget m ''client_id'' \<and> st_lastSessionId s = JStr (in_session_uuid inp)"
proof -
  obtain sv1 where c: "checkRateLimit (in_now inp) (client_key inp (sv_sessions sv ws) m) sv = (sv1, True)"
    using assms(4) by (metis prod.collapse)
  have h: "handleMessage inp ws m sv = map_prod id Inr (handleHandshakeResume inp ws m sv1)"
    using assms(1,2) c by (simp add: handleMessage_def dispatch_message_def Let_def)
  have t: "sv_threads sv1 = sv_threads sv" using check_threads [OF c] by simp
  show "snd (handleMessage inp ws m sv) =
      (if sv_threads sv t = None then Inr (sendHandshakeReject ''thread_not_found'')
       else Inr (createHandshakeAck t (in_session_uuid inp) True))"
    unfolding h using assms(3) by (auto simp: handleHandshakeResume_def resumeThread_def find_thread_def t split: option.split)
  show "sv_threads sv t \<noteq> None \<Longrightarrow> \<exists>d s. sv_sessions (fst (handleMessage inp ws m sv)) ws = Some d \<and> sd_threadId d = t \<and>
      sd_sessionId d = in_session_uuid inp \<and> sv_threads (fst (handleMessage inp ws m sv)) t = Some s \<and>
      st_clientId s = pget m ''client_id'' \<and> st_lastSessionId s = JStr (in_session_uuid inp)"
    unfolding h using assms(3) by (auto simp: handleHandshakeResume_def resumeThread_def find_thread_def t)
qed

text \<open>C11: threads can be resumed for half an hour. After any run in which the clock has advanced by at most
  30 minutes since the thread was seen last, \<open>handshake_resume\<close> is acknowledged for that thread with a
  fresh session on the socket, whichever client asks; once a cleanup runs later than that, the same
  message is rejected with \<open>thread_not_found\<close>.\<close>

theorem thread_resumable:
  assumes "server_tick\<^sup>*\<^sup>* (now, sv) (now', sv')" and "sv_threads sv t = Some s" and "st_lastSeen s \<le> now"
    and "\<not> nullish m" and "pget m ''type'' = JStr ''handshake_resume''" and "pget m ''thread_id'' = JStr t"
    and "snd (checkRateLimit (in_now inp) (client_key inp (sv_sessions sv' ws) m) sv')"
  shows "(now' \<le> st_lastSeen s + THREAD_TTL_MS \<longrightarrow>
      snd (handleMessage inp ws m sv') = Inr (createHandshakeAck t (in_session_uuid inp) True) \<and>
      (\<exists>d. sv_sessions (fst (handleMessage inp ws m sv')) ws = Some d \<and> sd_threadId d = t \<and> sd_sessionId d = in_session_uuid inp)) \<and>
    (sv' = cleanup_tick late sv \<and> st_lastSeen s + THREAD_TTL_MS < late \<longrightarrow>
      snd (handleMessage inp ws m sv') = Inr (sendHandshakeReject ''thread_not_found''))"
proof -
  note r = resume_reply [OF assms(4-7)]
  have "sv_threads sv' t \<noteq> None" if "now' \<le> st_lastSeen s + THREAD_TTL_MS"
    using ticks_threads [OF assms(1-3) that] by auto
  moreover have "sv_threads sv' t = None" if "sv' = cleanup_tick late sv \<and> st_lastSeen s + THREAD_TTL_MS < late"
    using that assms(2) by (simp add: cleanup_tick_def Let_def)
  ultimately show ?thesis using r by auto
qed

theorem thread_resumable_witness:
  "snd (handleMessage sample_input 3 (JObj [(''type'', JStr ''handshake_resume''), (''thread_id'', JStr ''t'')])
     (fst (handleHandshakeInit sample_input 2 (JObj []) server_init))) = Inr (createHandshakeAck ''t'' ''s'' True)"
proof -
  have input: "in_session_uuid sample_input = ''s''" by (simp add: sample_input_def)
  define m where "m = JObj [(''type'', JStr ''handshake_resume''), (''thread_id'', JStr ''t'')]"
  define sv where "sv = fst (handleHandshakeInit sample_input 2 (JObj []) server_init)"
  obtain s where s: "sv_threads sv ''t'' = Some s" "st_lastSeen s = 7"
    by (simp add: sv_def handleHandshakeInit_def createThreadState_def sample_input_def Let_def)
  have "snd (checkRateLimit (in_now sample_input) (client_key sample_input (sv_sessions sv 3) m) sv)"
    by (simp add: sv_def checkRateLimit_def handleHandshakeInit_def createThreadState_def server_init_def Let_def)
  then show ?thesis
    using thread_resumable [of 7 sv 7 sv "''t''" s m sample_input 3 0] s input
    unfolding m_def [symmetric] sv_def [symmetric] by (simp add: m_def THREAD_TTL_MS_def)
qed

end
