(* ===== verification/Server_Client.thy ===== *)
theory Server_Client
  imports Server_Correct Client_Correct
begin

text \<open>
  The handshake between the client of the SDK and the minimal server: each side's handlers run on what
  the other sends.
\<close>

text \<open>Client and server agree on a socket's session.\<close>

definition in_agreement :: "nat \<Rightarrow> server \<Rightarrow> client \<Rightarrow> bool" where
  "in_agreement i sv c \<longleftrightarrow> isConnected c \<and> isHandshakeComplete c \<and>
     (\<exists>d s. sv_sessions sv i = Some d \<and> sv_threads sv (sd_threadId d) = Some s \<and>
        threadId c = JStr (sd_threadId d) \<and> sessionId c = JStr (sd_sessionId d) \<and>
        st_lastSessionId s = sessionId c \<and> st_clientId s = of_str (opt_clientId (options c)))"

lemma ack_text: "json_parse (json_text (createHandshakeAck t s b)) = Some (createHandshakeAck t s b)"
proof (rule json_roundtrip)
  have "fl 15000 = 15000" using fl_int [of 15000] by simp
  moreover have "obj_ordered [(''server_version'', JStr ''0.3.0''), (''region'', JStr ''local'')]"
    by (rule ordered_names) (simp_all add: name_keys_def array_index_def is_digit_def)
  moreover have "obj_ordered (own (createHandshakeAck t s b))"
    by (rule ordered_names) (simp_all add: createHandshakeAck_def name_keys_def array_index_def is_digit_def)
  ultimately show "json_ok (createHandshakeAck t s b)" by (simp add: createHandshakeAck_def)
qed

lemma session_frame [simp]:
  "threadId (startHeartbeat c) = threadId c" "threadId (startNonceCleanup c) = threadId c" "threadId (clearReconnectTimer c) = threadId c"
  "sessionId (startHeartbeat c) = sessionId c" "sessionId (startNonceCleanup c) = sessionId c" "sessionId (clearReconnectTimer c) = sessionId c"
  "isConnected (startHeartbeat c) = isConnected c" "isConnected (startNonceCleanup c) = isConnected c" "isConnected (clearReconnectTimer c) = isConnected c"
  "isHandshakeComplete (startHeartbeat c) = isHandshakeComplete c" "isHandshakeComplete (startNonceCleanup c) = isHandshakeComplete c"
  "isHandshakeComplete (clearReconnectTimer c) = isHandshakeComplete c"
  "options (startHeartbeat c) = options c" "options (startNonceCleanup c) = options c" "options (clearReconnectTimer c) = options c"
  by (auto simp: timer_defs startHeartbeat_def scheduleHeartbeatTimeout_def emit_def Let_def split: option.split)

lemma ack_finish_session:
  "threadId (ack_finish c) = threadId c" "sessionId (ack_finish c) = sessionId c" "isConnected (ack_finish c)"
  "isHandshakeComplete (ack_finish c)" "options (ack_finish c) = options c"
  by (simp_all add: ack_finish_def emit_def Let_def)

lemma ack_agreement:
  assumes "no_keys c" and "c' = fst (deliver e (createHandshakeAck t sid b) c)"
  shows "threadId c' = JStr t \<and> sessionId c' = JStr sid \<and> isConnected c' \<and> isHandshakeComplete c' \<and> options c' = options c"
proof -
  have "no_keys (emit (OnMessage (createHandshakeAck t sid b)) c)" using assms(1) by (simp add: no_keys_def emit_def)
  from ack_plain [OF this, of e "createHandshakeAck t sid b"] show ?thesis
    by (simp add: assms(2) deliver_def createHandshakeAck_def ack_finish_session persistIds_def emit_def Let_def)
qed

text \<open>A text the client receives, with the turns that follow when nothing comes between them.\<close>

definition receive :: "env \<Rightarrow> string \<Rightarrow> client \<Rightarrow> turn" where
  "receive e t c =
     (case on_message e t c of
        (c1, [task]) \<Rightarrow> (case resume e task c1 of (c2, [task2]) \<Rightarrow> resume e task2 c2 | r \<Rightarrow> r)
      | r \<Rightarrow> r)"

lemma receive_handshake:
  assumes "json_parse t = Some m" and "\<not> nullish m" and "pget m ''encrypted_metadata'' = JUndef"
    and "pget m ''type'' = JStr ''handshake_ack'' \<or> pget m ''type'' = JStr ''handshake_reject''"
  shows "receive e t c = deliver e m c"
  using assms by (auto simp: receive_def on_message_def decryptMetadataIfNeeded_def verify_start_def requires_verification_def)

lemma reject_text: "json_parse (json_text (sendHandshakeReject r)) = Some (sendHandshakeReject r)"
proof (rule json_roundtrip)
  have "obj_ordered (own (sendHandshakeReject r))"
    by (rule ordered_names) (simp_all add: sendHandshakeReject_def name_keys_def array_index_def is_digit_def)
  then show "json_ok (sendHandshakeReject r)" by (simp add: sendHandshakeReject_def)
qed

lemma receive_ack: "receive e (json_text (createHandshakeAck t s b)) c = deliver e (createHandshakeAck t s b) c"
  using receive_handshake [OF ack_text] by (simp add: createHandshakeAck_def)

lemma receive_reject: "receive e (json_text (sendHandshakeReject r)) c = deliver e (sendHandshakeReject r) c"
  using receive_handshake [OF reject_text] by (simp add: sendHandshakeReject_def)

lemma handshake_texts:
  "\<forall>p \<in> set (handshake_init c). snd p = JUndef \<or> json_ok (snd p) \<Longrightarrow>
    json_parse (json_text (JObj (handshake_init c))) = Some (JObj (defined_props (handshake_init c)))"
  "\<forall>p \<in> set (handshake_resume c). snd p = JUndef \<or> json_ok (snd p) \<Longrightarrow>
    json_parse (json_text (JObj (handshake_resume c))) = Some (JObj (defined_props (handshake_resume c)))"
  "pget (JObj (defined_props (handshake_init c))) k = pget (JObj (handshake_init c)) k"
  "pget (JObj (defined_props (handshake_resume c))) k = pget (JObj (handshake_resume c)) k"
proof -
  have d: "distinct (map fst (handshake_init c))" "distinct (map fst (handshake_resume c))"
    by (simp_all add: handshake_init_def handshake_resume_def Let_def)
  have n: "name_keys (handshake_init c)" "name_keys (handshake_resume c)"
    by (simp_all add: handshake_init_def handshake_resume_def Let_def name_keys_def array_index_def is_digit_def)
  show "json_parse (json_text (JObj (handshake_init c))) = Some (JObj (defined_props (handshake_init c)))"
    if "\<forall>p \<in> set (handshake_init c). snd p = JUndef \<or> json_ok (snd p)" by (rule wire_round_trip [OF d(1) n(1) that])
  show "json_parse (json_text (JObj (handshake_resume c))) = Some (JObj (defined_props (handshake_resume c)))"
    if "\<forall>p \<in> set (handshake_resume c). snd p = JUndef \<or> json_ok (snd p)" by (rule wire_round_trip [OF d(2) n(2) that])
  show "pget (JObj (defined_props (handshake_init c))) k = pget (JObj (handshake_init c)) k"
    "pget (JObj (defined_props (handshake_resume c))) k = pget (JObj (handshake_resume c)) k"
    using pget_defined d by blast+
qed

lemma init_agreement:
  assumes "no_keys c" and "\<forall>p \<in> set (handshake_init c). snd p = JUndef \<or> json_ok (snd p)"
    and "on_ws_data inp i (json_text (JObj (handshake_init c))) sv = (sv1, reply1)"
  shows "in_agreement i sv1 (fst (receive e (json_text reply1) c))"
    "threadId (fst (receive e (json_text reply1) c)) = JStr (in_thread_uuid inp)" "rateLimit sv1 = rateLimit sv"
    "no_keys (fst (receive e (json_text reply1) c))" "options (fst (receive e (json_text reply1) c)) = options c"
    "ecdhPublicKey (fst (receive e (json_text reply1) c)) = None" "sv_threads sv1 (in_thread_uuid inp) \<noteq> None"
proof -
  let ?m1 = "JObj (defined_props (handshake_init c))"
  have type: "pget ?m1 ''type'' = JStr ''handshake_init''" "pget ?m1 ''client_id'' = of_str (opt_clientId (options c))"
    unfolding handshake_texts(3) by (simp_all add: handshake_init_def Let_def)
  have init: "reply1 = createHandshakeAck (in_thread_uuid inp) (in_session_uuid inp) False" "sv1 = fst (handleHandshakeInit inp i ?m1 sv)"
    using assms(3) by (simp_all add: on_ws_data_def handshake_texts(1) [OF assms(2)] handleMessage_def dispatch_message_def type Let_def
        handleHandshakeInit_def)
  note ack = ack_agreement [OF assms(1) refl, of e "in_thread_uuid inp" "in_session_uuid inp" False]
  show "in_agreement i sv1 (fst (receive e (json_text reply1) c))"
    using ack unfolding init receive_ack by (simp add: in_agreement_def handleHandshakeInit_def createThreadState_def type Let_def)
  show "threadId (fst (receive e (json_text reply1) c)) = JStr (in_thread_uuid inp)" "options (fst (receive e (json_text reply1) c)) = options c"
    using ack unfolding init receive_ack by simp_all
  show "rateLimit sv1 = rateLimit sv" "sv_threads sv1 (in_thread_uuid inp) \<noteq> None"
    unfolding init by (simp_all add: handleHandshakeInit_def createThreadState_def Let_def)
  have "no_keys (emit (OnMessage (createHandshakeAck (in_thread_uuid inp) (in_session_uuid inp) False)) c)" using assms(1) by simp
  from ack_plain [OF this, of e "createHandshakeAck (in_thread_uuid inp) (in_session_uuid inp) False"]
  show k: "no_keys (fst (receive e (json_text reply1) c))"
    using assms(1) unfolding init receive_ack by (simp add: deliver_def createHandshakeAck_def Let_def)
  show "ecdhPublicKey (fst (receive e (json_text reply1) c)) = None" using k by (simp add: no_keys_def)
qed

lemma resume_agreement:
  assumes "no_keys c" and "threadId c = JStr t" and "\<forall>p \<in> set (handshake_resume c). snd p = JUndef \<or> json_ok (snd p)"
    and "snd (checkRateLimit (in_now inp) (client_key inp (sv_sessions sv i) (JObj (defined_props (handshake_resume c)))) sv)"
    and "on_ws_data inp i (json_text (JObj (handshake_resume c))) sv = (sv2, reply2)"
  shows "sv_threads sv t \<noteq> None \<Longrightarrow> in_agreement i sv2 (fst (receive e (json_text reply2) c)) \<and>
       threadId (fst (receive e (json_text reply2) c)) = JStr t"
    "sv_threads sv t = None \<and> isAttemptingResume c \<Longrightarrow> sv_sessions sv2 = sv_sessions sv \<and>
       threadId (fst (receive e (json_text reply2) c)) = JNull \<and> (\<exists>k. snd (receive e (json_text reply2) c) = [HandshakeKeys False k])"
proof -
  let ?m2 = "JObj (defined_props (handshake_resume c))"
  have type: "pget ?m2 ''type'' = JStr ''handshake_resume''" "pget ?m2 ''thread_id'' = JStr t"
    "pget ?m2 ''client_id'' = of_str (opt_clientId (options c))"
    unfolding handshake_texts(4) by (simp_all add: handshake_resume_def assms(2))
  note r = resume_reply [OF _ type(1,2) assms(4), simplified]
  have sv2: "sv2 = fst (handleMessage inp i ?m2 sv)" "reply2 = (case snd (handleMessage inp i ?m2 sv) of Inr x \<Rightarrow> x | Inl z \<Rightarrow> reply2)"
    using assms(5) by (auto simp: on_ws_data_def handshake_texts(2) [OF assms(3)] Let_def case_prod_beta split: sum.split)
  show "in_agreement i sv2 (fst (receive e (json_text reply2) c)) \<and> threadId (fst (receive e (json_text reply2) c)) = JStr t"
    if known: "sv_threads sv t \<noteq> None"
  proof -
    have reply: "reply2 = createHandshakeAck t (in_session_uuid inp) True" using sv2(2) r(1) known by simp
    show ?thesis
      using ack_agreement [OF assms(1) refl, of e t "in_session_uuid inp" True] r(2) known
      unfolding reply receive_ack sv2(1) by (auto simp: in_agreement_def type)
  qed
  show "sv_sessions sv2 = sv_sessions sv \<and> threadId (fst (receive e (json_text reply2) c)) = JNull \<and>
      (\<exists>k. snd (receive e (json_text reply2) c) = [HandshakeKeys False k])" if "sv_threads sv t = None \<and> isAttemptingResume c"
  proof -
    have unknown: "sv_threads sv t = None" "isAttemptingResume c" using that by simp_all
    have reply: "reply2 = sendHandshakeReject ''thread_not_found''" using sv2(2) r(1) unknown(1) by simp
    obtain sv3 where c: "checkRateLimit (in_now inp) (client_key inp (sv_sessions sv i) ?m2) sv = (sv3, True)"
      using assms(4) by (metis prod.collapse)
    have "sv_sessions sv2 = sv_sessions sv"
      using check_threads [OF c] unknown(1)
      by (simp add: sv2(1) handleMessage_def type c dispatch_message_def Let_def handleHandshakeResume_def resumeThread_def find_thread_def)
    then show ?thesis
      using unknown(2) unfolding reply receive_reject
      by (simp add: deliver_def sendHandshakeReject_def handleHandshakeReject_def sendHandshakeInit_def emit_def Let_def)
  qed
qed

text \<open>C9: client and server come to agree. The texts of the client's handshake messages, handled by the
  server, are answered with texts that make the client complete the handshake: for \<open>handshake_init\<close> of any
  client, one without a thread too, on the new thread the server creates; for \<open>handshake_resume\<close> within the
  rate limit, on the same thread when the server has it. Both sides then name the same thread and session
  and the server holds the thread for that client. A thread the server does not have makes the client that
  attempts to resume forget it and start over.\<close>

theorem handshake_agreement:
  assumes "no_keys c"
  shows "((\<forall>p \<in> set (handshake_init c). snd p = JUndef \<or> json_ok (snd p)) \<and>
       on_ws_data inp i (json_text (JObj (handshake_init c))) sv = (sv1, reply1) \<longrightarrow>
       in_agreement i sv1 (fst (receive e (json_text reply1) c)) \<and>
       threadId (fst (receive e (json_text reply1) c)) = JStr (in_thread_uuid inp)) \<and>
    (threadId c = JStr t \<and> (\<forall>p \<in> set (handshake_resume c). snd p = JUndef \<or> json_ok (snd p)) \<and>
       snd (checkRateLimit (in_now inp) (client_key inp (sv_sessions sv i) (JObj (defined_props (handshake_resume c)))) sv) \<and>
       on_ws_data inp i (json_text (JObj (handshake_resume c))) sv = (sv2, reply2) \<longrightarrow>
       (sv_threads sv t \<noteq> None \<longrightarrow> in_agreement i sv2 (fst (receive e (json_text reply2) c)) \<and>
          threadId (fst (receive e (json_text reply2) c)) = JStr t) \<and>
       (sv_threads sv t = None \<and> isAttemptingResume c \<longrightarrow> sv_sessions sv2 = sv_sessions sv \<and>
          threadId (fst (receive e (json_text reply2) c)) = JNull \<and>
          (\<exists>k. snd (receive e (json_text reply2) c) = [HandshakeKeys False k])))"
proof (intro conjI impI, goal_cases)
  case 1
  then show ?case by (elim conjE) (rule init_agreement(1) [OF assms])
next
  case 2
  then show ?case by (elim conjE) (rule init_agreement(2) [OF assms])
next
  case 3
  then show ?case by (elim conjE) (rule conjunct1 [OF resume_agreement(1) [OF assms]])
next
  case 4
  then show ?case by (elim conjE) (rule conjunct2 [OF resume_agreement(1) [OF assms]])
next
  case 5
  then show ?case using resume_agreement(2) [OF assms, where t = t and inp = inp and i = i and sv = sv and ?sv2.0 = sv2 and ?reply2.0 = reply2 and e = e] by simp
next
  case 6
  then show ?case using resume_agreement(2) [OF assms, where t = t and inp = inp and i = i and sv = sv and ?sv2.0 = sv2 and ?reply2.0 = reply2 and e = e] by simp
next
  case 7
  then show ?case using resume_agreement(2) [OF assms, where t = t and inp = inp and i = i and sv = sv and ?sv2.0 = sv2 and ?reply2.0 = reply2 and e = e] by simp
qed

lemma sample_texts_clean:
  assumes "no_keys c" and "options c = options sample_client"
  shows "\<forall>p \<in> set (handshake_init c). snd p = JUndef \<or> json_ok (snd p)"
    "threadId c = JStr t \<Longrightarrow> \<forall>p \<in> set (handshake_resume c). snd p = JUndef \<or> json_ok (snd p)"
proof -
  have "obj_ordered [(''sdk_version'', JStr ''0.3.0''), (''platform'', JStr ''p'')]"
    by (rule ordered_names) (simp_all add: name_keys_def array_index_def is_digit_def)
  then show "\<forall>p \<in> set (handshake_init c). snd p = JUndef \<or> json_ok (snd p)"
    "threadId c = JStr t \<Longrightarrow> \<forall>p \<in> set (handshake_resume c). snd p = JUndef \<or> json_ok (snd p)"
    using assms
    by (simp_all add: sample_client_def new_client_def loadPersistedIds_def normalize_options_def sample_options_def
        no_keys_def handshake_init_def handshake_resume_def key_agreement_def of_str_def str_or_def given_def dflt_def js_or_def Let_def)
qed

definition resuming_client :: client where
  "resuming_client = sample_client\<lparr>threadId := JStr ''u'', isAttemptingResume := True\<rparr>"

lemma sample_no_keys: "no_keys sample_client" "no_keys resuming_client"
  by (simp_all add: resuming_client_def sample_client_def new_client_def loadPersistedIds_def no_keys_def Let_def)

lemma no_limits: "rateLimit sv = Map.empty \<Longrightarrow> snd (checkRateLimit now k sv)"
  by (simp add: checkRateLimit_def)

text \<open>A fresh client obtains a thread and resumes it on another socket; a client with a thread the server
  never had starts over.\<close>

theorem handshake_agreement_witness:
  "\<exists>sv1 reply1 c1 sv2 reply2 sv3 reply3. threadId sample_client = JNull
    \<and> on_ws_data sample_input 4 (json_text (JObj (handshake_init sample_client))) server_init = (sv1, reply1)
    \<and> c1 = fst (receive (sample_env 5) (json_text reply1) sample_client) \<and> in_agreement 4 sv1 c1 \<and> threadId c1 = JStr ''t''
    \<and> on_ws_data sample_input 6 (json_text (JObj (handshake_resume c1))) sv1 = (sv2, reply2)
    \<and> in_agreement 6 sv2 (fst (receive (sample_env 5) (json_text reply2) c1))
    \<and> on_ws_data sample_input 8 (json_text (JObj (handshake_resume resuming_client))) server_init = (sv3, reply3)
    \<and> threadId (fst (receive (sample_env 5) (json_text reply3) resuming_client)) = JNull"
proof -
  note k = sample_no_keys
  obtain sv1 reply1 where 1: "on_ws_data sample_input 4 (json_text (JObj (handshake_init sample_client))) server_init = (sv1, reply1)"
    by (cases "on_ws_data sample_input 4 (json_text (JObj (handshake_init sample_client))) server_init")
  define c1 where "c1 = fst (receive (sample_env 5) (json_text reply1) sample_client)"
  note ok = sample_texts_clean [OF k(1) refl]
  note i = init_agreement(4,5) [OF k(1) ok(1) 1, of "sample_env 5", folded c1_def]
    init_agreement(3,7) [OF k(1) ok(1) 1] init_agreement(2) [OF k(1) ok(1) 1, of "sample_env 5", folded c1_def]
  obtain sv2 reply2 where 2: "on_ws_data sample_input 6 (json_text (JObj (handshake_resume c1))) sv1 = (sv2, reply2)"
    by (cases "on_ws_data sample_input 6 (json_text (JObj (handshake_resume c1))) sv1")
  obtain sv3 reply3 where 3: "on_ws_data sample_input 8 (json_text (JObj (handshake_resume resuming_client))) server_init = (sv3, reply3)"
    by (cases "on_ws_data sample_input 8 (json_text (JObj (handshake_resume resuming_client))) server_init")
  have t1: "threadId c1 = JStr ''t''" "sv_threads sv1 ''t'' \<noteq> None" using i(5,4) by (simp_all add: sample_input_def)
  have r: "rateLimit server_init = Map.empty" "rateLimit sv1 = Map.empty" "sv_threads server_init ''u'' = None"
    using i(3) by (simp_all add: server_init_def)
  have u: "threadId resuming_client = JStr ''u''" "isAttemptingResume resuming_client" "options resuming_client = options sample_client"
    by (simp_all add: resuming_client_def)
  have "in_agreement 4 sv1 c1 \<and> threadId c1 = JStr (in_thread_uuid sample_input)"
    using conjunct1 [OF handshake_agreement [OF k(1)]] ok(1) 1 unfolding c1_def by blast
  moreover have "in_agreement 6 sv2 (fst (receive (sample_env 5) (json_text reply2) c1))"
    using conjunct2 [OF handshake_agreement [OF i(1)]] t1 sample_texts_clean(2) [OF i(1,2) t1(1)] no_limits [OF r(2)] 2 by blast
  moreover have "threadId (fst (receive (sample_env 5) (json_text reply3) resuming_client)) = JNull"
    using conjunct2 [OF handshake_agreement [OF k(2)]] u r(3) sample_texts_clean(2) [OF k(2) u(3,1)] no_limits [OF r(1)] 3 by blast
  ultimately show ?thesis using 1 2 3 t1 by (auto simp: c1_def sample_client_fields(6))
qed

end
