(* ===== verification/Infra_Observer.thy ===== *)
theory Infra_Observer
  imports JS_Prelude
begin

text \<open>
  The infrastructure observer (\<open>examples/infra-observer/src/observer.ts\<close>): a state machine that proposes a
  transition for an event and commits it. \<open>observer_steps\<close> is the event loop of \<open>simulate.ts\<close>, which
  commits every proposal.
\<close>

datatype infra_state = HEALTHY | DEGRADED | SATURATED | UNSTABLE | FAILED | RECOVERING

datatype infra_event =
    CONNECTION_BACKLOG_GROWING | WS_RECONNECT_STORM | HEARTBEAT_TIMEOUT_CLUSTER | QUEUE_LATENCY_SPIKE
  | MEMORY_PRESSURE | PARTIAL_OUTAGE | METRICS_STABILIZED | RECOVERY_COMPLETE

datatype risk_level = RiskLow | RiskMedium | RiskHigh | RiskCritical

record infra_transition =
  it_from :: infra_state
  it_to :: infra_state
  it_confidence :: rat
  it_risk :: risk_level
  recommended_pause :: bool
  it_explanation :: string
  it_timestamp :: string
  trigger_event :: infra_event

text \<open>The transition table: the next state, the explanation, the risk and whether to pause.\<close>

fun infra_rule :: "infra_state \<Rightarrow> infra_event \<Rightarrow> infra_state \<times> string \<times> risk_level \<times> bool" where
  "infra_rule HEALTHY CONNECTION_BACKLOG_GROWING = (DEGRADED, ''Backlog growing beyond safe threshold.'', RiskMedium, False)"
| "infra_rule HEALTHY WS_RECONNECT_STORM = (SATURATED, ''Mass reconnection detected.'', RiskHigh, True)"
| "infra_rule HEALTHY MEMORY_PRESSURE = (UNSTABLE, ''Memory usage critical.'', RiskHigh, False)"
| "infra_rule DEGRADED QUEUE_LATENCY_SPIKE =
     (SATURATED, ''Latency spike in degraded state indicates saturation.'', RiskHigh, True)"
| "infra_rule DEGRADED METRICS_STABILIZED = (HEALTHY, ''Metrics returned to baseline.'', RiskLow, False)"
| "infra_rule SATURATED HEARTBEAT_TIMEOUT_CLUSTER =
     (FAILED, ''Cluster losing heartbeats under saturation.'', RiskCritical, True)"
| "infra_rule SATURATED CONNECTION_BACKLOG_GROWING = (SATURATED, ''Backlog continuing to grow.'', RiskHigh, True)"
| "infra_rule SATURATED METRICS_STABILIZED =
     (RECOVERING, ''Saturation subsiding, entering recovery.'', RiskMedium, True)"
| "infra_rule FAILED METRICS_STABILIZED = (RECOVERING, ''System showing signs of life.'', RiskHigh, False)"
| "infra_rule RECOVERING RECOVERY_COMPLETE = (HEALTHY, ''Recovery period complete.'', RiskLow, False)"
| "infra_rule RECOVERING WS_RECONNECT_STORM = (SATURATED, ''Recurrence of storm during recovery.'', RiskHigh, True)"
| "infra_rule s e = (s, '''', RiskLow, False)"

definition evaluateEvent :: "string \<Rightarrow> infra_state \<Rightarrow> infra_event \<Rightarrow> infra_transition option" where
  "evaluateEvent now current ev =
     (let (nextState, explanation, risk, pause) = infra_rule current ev
      in if nextState \<noteq> current
         then Some \<lparr>it_from = current, it_to = nextState, it_confidence = 1, it_risk = risk, recommended_pause = pause,
                    it_explanation = explanation, it_timestamp = now, trigger_event = ev\<rparr>
         else None)"

definition commitTransition :: "infra_transition \<Rightarrow> infra_state" where
  "commitTransition tr = it_to tr"

text \<open>The loop of the simulation: the final state and the committed transitions.\<close>

fun observer_steps :: "(infra_event \<times> string) list \<Rightarrow> infra_state \<Rightarrow> infra_state \<times> infra_transition list" where
  "observer_steps [] s = (s, [])"
| "observer_steps ((ev, now) # es) s =
     (case evaluateEvent now s ev of
        None \<Rightarrow> observer_steps es s
      | Some tr \<Rightarrow> (let (s', trs) = observer_steps es (commitTransition tr) in (s', tr # trs)))"

section \<open>Chains of transitions\<close>

text \<open>Each transition starts where the one before it ended.\<close>

fun linked :: "infra_state \<Rightarrow> infra_transition list \<Rightarrow> infra_state \<Rightarrow> bool" where
  "linked s [] s' = (s = s')"
| "linked s (tr # trs) s' = (it_from tr = s \<and> linked (it_to tr) trs s')"

lemma evaluate_Some:
  "evaluateEvent now s ev = Some tr \<Longrightarrow> it_from tr = s \<and> it_to tr \<noteq> s \<and>
     infra_rule s ev = (it_to tr, it_explanation tr, it_risk tr, recommended_pause tr) \<and> trigger_event tr = ev"
  by (auto simp: evaluateEvent_def split: prod.splits if_splits)

lemma steps_linked: "linked s (snd (observer_steps es s)) (fst (observer_steps es s))"
  by (induction es s rule: observer_steps.induct)
    (auto simp: commitTransition_def Let_def split: option.split prod.split dest: evaluate_Some)

lemma rule_failed: "infra_rule s ev = (FAILED, ex, r, p) \<Longrightarrow> s \<noteq> FAILED \<Longrightarrow> s = SATURATED \<and> ev = HEARTBEAT_TIMEOUT_CLUSTER \<and> r = RiskCritical \<and> p"
  by (cases s; cases ev) auto

lemma rule_saturated: "infra_rule s ev = (SATURATED, ex, r, p) \<Longrightarrow> s \<noteq> SATURATED \<Longrightarrow> r = RiskHigh \<and> p"
  by (cases s; cases ev) auto

lemma rule_healthy: "infra_rule s ev = (HEALTHY, ex, r, p) \<Longrightarrow> s \<noteq> HEALTHY \<Longrightarrow> s \<in> {DEGRADED, RECOVERING} \<and> r = RiskLow \<and> \<not> p"
  by (cases s; cases ev) auto

lemma steps_rules:
  "tr \<in> set (snd (observer_steps es s)) \<Longrightarrow> it_from tr \<noteq> it_to tr \<and>
     infra_rule (it_from tr) (trigger_event tr) = (it_to tr, it_explanation tr, it_risk tr, recommended_pause tr)"
  by (induction es s rule: observer_steps.induct)
    (auto simp: Let_def split: option.splits prod.splits dest: evaluate_Some)

text \<open>Whatever the events: the committed transitions form a chain; a failure is entered only from
  saturation by a cluster of timeouts, with critical risk and a pause; saturation is entered with a
  pause; health is regained only from degradation or recovery.\<close>

theorem observer_trace_sound:
  assumes "observer_steps es s = (s', trs)"
  shows "linked s trs s' \<and>
    (\<forall>tr \<in> set trs. (it_to tr = FAILED \<longrightarrow> it_from tr = SATURATED \<and> trigger_event tr = HEARTBEAT_TIMEOUT_CLUSTER \<and>
        it_risk tr = RiskCritical \<and> recommended_pause tr) \<and>
      (it_to tr = SATURATED \<longrightarrow> recommended_pause tr) \<and>
      (it_to tr = HEALTHY \<longrightarrow> it_from tr \<in> {DEGRADED, RECOVERING} \<and> \<not> recommended_pause tr))"
proof -
  have "linked s trs s'" using steps_linked [of s es] assms by simp
  moreover have "tr \<in> set trs \<Longrightarrow> it_from tr \<noteq> it_to tr \<and>
      infra_rule (it_from tr) (trigger_event tr) = (it_to tr, it_explanation tr, it_risk tr, recommended_pause tr)" for tr
    using steps_rules [of tr es s] assms by simp
  ultimately show ?thesis by (metis rule_failed rule_saturated rule_healthy)
qed

text \<open>Memory pressure leads to a state no event leaves.\<close>

lemma unstable_absorbing: "observer_steps es UNSTABLE = (UNSTABLE, [])"
  by (induction es) (auto simp: evaluateEvent_def split: prod.splits)

text \<open>From every other state some events lead back to health.\<close>

lemma recoverable:
  "s \<noteq> UNSTABLE \<Longrightarrow> \<exists>es. fst (observer_steps es s) = HEALTHY"
proof (cases s)
  case DEGRADED
  then show ?thesis by (intro exI [of _ "[(METRICS_STABILIZED, '''')]"]) (simp add: evaluateEvent_def commitTransition_def)
next
  case SATURATED
  then show ?thesis
    by (intro exI [of _ "[(METRICS_STABILIZED, ''''), (RECOVERY_COMPLETE, '''')]"]) (simp add: evaluateEvent_def commitTransition_def)
next
  case FAILED
  then show ?thesis
    by (intro exI [of _ "[(METRICS_STABILIZED, ''''), (RECOVERY_COMPLETE, '''')]"]) (simp add: evaluateEvent_def commitTransition_def)
next
  case RECOVERING
  then show ?thesis by (intro exI [of _ "[(RECOVERY_COMPLETE, '''')]"]) (simp add: evaluateEvent_def commitTransition_def)
qed (auto intro: exI [of _ "[]"])

end
