(* ===== verification/Weave_Graph.thy ===== *)
theory Weave_Graph
  imports Preview_Correct Inspect_Summary
begin

text \<open>
  The text graph of suggested paths (\<open>src/visualization/futureWeaveGraph.ts\<close>): one line per branch with
  its share in per cent, and a note on the branches that are cut off.
\<close>

section \<open>Options\<close>

record graph_options =
  maxBranches :: "rat option"
  showMeta :: "bool option"
  go_normalizeLikelihoods :: "bool option"
  highlightedPathIds :: "string list option"
  highlightLabel :: "string option"

definition no_options :: graph_options where
  "no_options = \<lparr>maxBranches = None, showMeta = None, go_normalizeLikelihoods = None, highlightedPathIds = None, highlightLabel = None\<rparr>"

section \<open>Texts and slices\<close>

definition pad_start :: "nat \<Rightarrow> string \<Rightarrow> string" where
  "pad_start n s = replicate (n - length s) CHR '' '' @ s"

definition pad_end :: "nat \<Rightarrow> string \<Rightarrow> string" where
  "pad_end n s = s @ replicate (n - length s) CHR '' ''"

definition trim_end :: "string \<Rightarrow> string" where
  "trim_end s = rev (dropWhile is_ws (rev s))"

text \<open>\<open>Math.round\<close>: the nearest integer, the larger of two.\<close>

definition math_round :: "rat \<Rightarrow> rat" where
  "math_round x = of_int \<lfloor>x + 1 / 2\<rfloor>"

text \<open>\<open>xs.slice(0, end)\<close>: the bound loses its fraction, and a negative one counts from the end.\<close>

definition slice_to :: "rat \<Rightarrow> 'a list \<Rightarrow> 'a list" where
  "slice_to n xs =
     (let k = (if n \<ge> 0 then \<lfloor>n\<rfloor> else \<lceil>n\<rceil>)
      in if k < 0 then take (nat (int (length xs) + k)) xs else take (nat k) xs)"

section \<open>Branches\<close>

definition ROLE_ORDER :: "string list" where
  "ROLE_ORDER = [''primary'', ''recovery'', ''explore'']"

definition rolePriority :: "string \<Rightarrow> int" where
  "rolePriority role =
     (if role = ROLE_ORDER ! 0 then 0 else if role = ROLE_ORDER ! 1 then 1 else if role = ROLE_ORDER ! 2 then 2
      else int (length ROLE_ORDER) + 1)"

definition branch_cmp :: "path_branch \<Rightarrow> path_branch \<Rightarrow> int" where
  "branch_cmp a b =
     (let roleDiff = rolePriority (pb_role a) - rolePriority (pb_role b)
      in if roleDiff \<noteq> 0 then roleDiff else descending pb_likelihood a b)"

definition sortBranches :: "path_branch list \<Rightarrow> path_branch list" where
  "sortBranches branches = sort_by branch_cmp branches"

definition normalizePercents :: "path_branch list \<Rightarrow> bool \<Rightarrow> rat list" where
  "normalizePercents branches normalizing =
     (if branches = [] then []
      else if \<not> normalizing then map (\<lambda>branch. math_round (fl (pb_likelihood branch * 100))) branches
      else let s = fl_sum (map (\<lambda>branch. if pb_likelihood branch > 0 then pb_likelihood branch else 0) branches);
               totalWeight = (if s \<noteq> 0 then s else 1);
               rounded = map (\<lambda>branch. math_round (fl (fl (pb_likelihood branch / totalWeight) * 100))) branches;
               delta = fl (100 - fl_sum rounded)
           in rounded[length rounded - 1 := fl (last rounded + delta)])"

definition graph_clamp :: "rat \<Rightarrow> rat \<Rightarrow> rat \<Rightarrow> rat" where
  "graph_clamp v lo hi = min hi (max lo v)"

definition formatBranchLine :: "path_branch \<Rightarrow> rat \<Rightarrow> nat \<Rightarrow> bool \<Rightarrow> bool \<Rightarrow> string \<Rightarrow> string" where
  "formatBranchLine branch percent roleWidth meta highlighted label =
     (let percentText = pad_start 2 (num_str percent) @ ''%'';
          arrows = replicate (nat \<lfloor>graph_clamp (math_round (fl (fl (percent / 100) * 10))) 1 10\<rfloor>) CHR ''>'';
          roleText = pad_end roleWidth (pb_role branch);
          pre = (if highlighted then ''* '' else []);
          suf = (if highlighted then ''  ('' @ label @ '')'' else [])
      in if \<not> meta then trim_end (pre @ roleText @ '' ('' @ percentText @ '')  '' @ arrows @ suf)
         else let sectors = (if softenedSectors branch \<noteq> []
                             then js_join '','' (map (\<lambda>s. case s of Some t \<Rightarrow> t | None \<Rightarrow> []) (softenedSectors branch)) else ''???'');
                  momentum = (case pb_momentumHint branch of Some h \<Rightarrow> h | None \<Rightarrow> ''?'');
                  volatility = (case pb_volatilityHint branch of Some h \<Rightarrow> h | None \<Rightarrow> ''?'')
              in pre @ roleText @ '' ('' @ percentText @ '')  '' @ arrows @ ''  mom: '' @ momentum @ ''  vol: '' @ volatility @
                 ''  sectors: '' @ sectors @ suf)"

text \<open>The branches of a suggestion, or its paths as branches without hints.\<close>

definition path_as_branch :: "string \<Rightarrow> weave_path \<Rightarrow> path_branch" where
  "path_as_branch role path =
     \<lparr>pb_id = pathId path, pb_role = role, pb_label = path_label path, pb_likelihood = overallLikelihood path,
      pb_momentumHint = None, pb_volatilityHint = None, softenedSectors = map sectorId (path_nodes path)\<rparr>"

definition ensureBranches :: "multi_path \<Rightarrow> path_branch list" where
  "ensureBranches suggestion =
     (if branches_of suggestion \<noteq> [] then branches_of suggestion
      else path_as_branch ''primary'' (primaryPath suggestion) #
           map (\<lambda>alt. path_as_branch (if pathId alt = ''recover'' then ''recovery'' else pathId alt) alt) (alternates suggestion))"

definition graph_lines :: "multi_path \<Rightarrow> graph_options \<Rightarrow> string list" where
  "graph_lines suggestion opts =
     (let limit = (case maxBranches opts of Some n \<Rightarrow> n | None \<Rightarrow> 3);
          meta = (case showMeta opts of Some b \<Rightarrow> b | None \<Rightarrow> True);
          normalizing = (case go_normalizeLikelihoods opts of Some b \<Rightarrow> b | None \<Rightarrow> True);
          highlighted = (case highlightedPathIds opts of Some ids \<Rightarrow> ids | None \<Rightarrow> []);
          label = (case highlightLabel opts of Some l \<Rightarrow> l | None \<Rightarrow> ''CHOSEN'');
          branches = sortBranches (ensureBranches suggestion);
          percents = normalizePercents branches normalizing;
          roleWidth = foldl (\<lambda>width branch. max width (length (pb_role branch))) 0 branches;
          visibleBranches = slice_to limit branches;
          visiblePercents = slice_to limit percents;
          rows = map (\<lambda>(branch, percent). formatBranchLine branch percent roleWidth meta (pb_id branch \<in> set highlighted) label)
                   (zip visibleBranches visiblePercents);
          hiddenCount = length branches - length visibleBranches
      in if hiddenCount > 0 then rows @ [''(+'' @ nat_str hiddenCount @ '' more branches hidden)''] else rows)"

definition renderFutureWeaveGraph :: "multi_path \<Rightarrow> graph_options \<Rightarrow> string" where
  "renderFutureWeaveGraph suggestion opts = js_join [newline] (graph_lines suggestion opts)"

section \<open>Percentages\<close>

lemma math_round_percent: "0 \<le> x \<Longrightarrow> x \<le> 100 \<Longrightarrow> \<exists>k. math_round x = of_int k \<and> 0 \<le> k \<and> k \<le> 100"
  by (intro exI [of _ "\<lfloor>x + 1 / 2\<rfloor>"]) (simp add: math_round_def floor_le_iff)

lemma fl_sum_int:
  assumes "\<forall>k \<in> set ks. 0 \<le> k \<and> k \<le> 100" and "length ks \<le> 2 ^ 40"
  shows "fl_sum (map of_int ks) = of_int (sum_list ks) \<and> 0 \<le> sum_list ks \<and> sum_list ks \<le> 100 * int (length ks)"
  using assms
proof (induction ks rule: rev_induct)
  case (snoc k ks)
  then have IH: "fl_sum (map of_int ks) = of_int (sum_list ks)" "0 \<le> sum_list ks" "sum_list ks \<le> 100 * int (length ks)" by auto
  have "\<bar>sum_list ks + k\<bar> \<le> 2 ^ 53" using IH snoc.prems by auto
  from fl_int [OF this] show ?case using IH snoc.prems by auto
qed simp

lemma sum_list_last:
  "xs \<noteq> [] \<Longrightarrow> sum_list (xs[length xs - 1 := last xs + d]) = sum_list xs + (d :: 'a :: comm_monoid_add)"
  by (cases xs rule: rev_cases) (simp_all add: add.assoc)

lemma share_percent:
  assumes "b \<in> set bs" and "\<forall>b \<in> set bs. 0 \<le> pb_likelihood b \<and> fl (pb_likelihood b) = pb_likelihood b"
    and "s = fl_sum (map (\<lambda>b. if pb_likelihood b > 0 then pb_likelihood b else 0) bs)" and "t = (if s \<noteq> 0 then s else 1)"
  shows "\<exists>k. math_round (fl (fl (pb_likelihood b / t) * 100)) = of_int k \<and> 0 \<le> k \<and> k \<le> 100"
proof -
  let ?w = "\<lambda>b. if pb_likelihood b > 0 then pb_likelihood b else 0"
  have w: "?w c = pb_likelihood c" if "c \<in> set bs" for c using assms(2) that by force
  have "pb_likelihood b \<le> s" unfolding assms(3)
    using assms(1,2) w [OF assms(1)] by (intro fl_sum_ge) (auto simp: image_iff intro!: bexI [of _ b])
  moreover have "0 \<le> pb_likelihood b" "0 \<le> s" using assms(1,2) fl_sum_nonneg [of "map ?w bs"] by (auto simp: assms(3))
  ultimately have "0 < t" "pb_likelihood b \<le> t" by (auto simp: assms(4))
  then have u: "0 \<le> fl (pb_likelihood b / t)" "fl (pb_likelihood b / t) \<le> 1"
    using fl_unit [of "pb_likelihood b / t"] \<open>0 \<le> pb_likelihood b\<close> by auto
  have "fl 100 = 100" using fl_int [of 100] by simp
  then have "fl (fl (pb_likelihood b / t) * 100) \<le> 100" using u by (intro fl_le) auto
  then show ?thesis using u by (intro math_round_percent) auto
qed

text \<open>With likelihoods that are not negative the percentages are integers that add up to 100, all but the
  last between 0 and 100.\<close>

lemma percents_sum:
  assumes "bs \<noteq> []" and "length bs \<le> 2 ^ 40" and "\<forall>b \<in> set bs. 0 \<le> pb_likelihood b \<and> fl (pb_likelihood b) = pb_likelihood b"
  shows "\<exists>ks. normalizePercents bs True = map rat_of_int ks \<and> length ks = length bs \<and> sum_list ks = 100 \<and>
    (\<forall>k \<in> set (butlast ks). 0 \<le> k \<and> k \<le> 100)"
proof -
  define s where "s = fl_sum (map (\<lambda>b. if pb_likelihood b > 0 then pb_likelihood b else 0) bs)"
  define t where "t = (if s \<noteq> 0 then s else 1)"
  let ?r = "\<lambda>b. math_round (fl (fl (pb_likelihood b / t) * 100))"
  define ks where "ks = map (\<lambda>b. \<lfloor>?r b\<rfloor>) bs"
  have r: "?r b = of_int \<lfloor>?r b\<rfloor> \<and> 0 \<le> \<lfloor>?r b\<rfloor> \<and> \<lfloor>?r b\<rfloor> \<le> 100" if "b \<in> set bs" for b
    using share_percent [OF that assms(3) s_def t_def] by auto
  then have ks: "map ?r bs = map rat_of_int ks" "\<forall>k \<in> set ks. 0 \<le> k \<and> k \<le> 100" "length ks = length bs" "ks \<noteq> []"
    using assms(1) by (auto simp: ks_def)
  note sum = fl_sum_int [OF ks(2)]
  have le: "sum_list ks \<le> 100 * 2 ^ 40" "0 \<le> sum_list ks" "fl_sum (map rat_of_int ks) = of_int (sum_list ks)"
    using sum assms(2) ks(3) by auto
  define d where "d = 100 - sum_list ks"
  have d: "fl (100 - fl_sum (map rat_of_int ks)) = of_int d"
    using fl_int [of d] le by (simp add: d_def abs_le_iff)
  have l: "last ks \<in> set ks" using ks(4) by simp
  have "fl (of_int (last ks) + of_int d) = of_int (last ks + d)"
    using fl_int [of "last ks + d"] le l ks(2) by (fastforce simp: d_def abs_le_iff)
  moreover have "?r (last bs) = of_int (last ks)" using last_map [OF assms(1), of ?r] last_map [OF ks(4), of rat_of_int] ks(1) by simp
  ultimately have "normalizePercents bs True = map rat_of_int (ks[length ks - 1 := last ks + d])"
    using assms(1) ks d unfolding normalizePercents_def
    by (simp add: Let_def s_def [symmetric] t_def [symmetric] last_map map_update del: of_int_add)
  moreover have "sum_list (ks[length ks - 1 := last ks + d]) = 100" using sum_list_last [OF ks(4), of d] by (simp add: d_def)
  moreover have "butlast (ks[length ks - 1 := last ks + d]) = butlast ks"
    by (metis butlast_list_update length_butlast less_irrefl)
  ultimately show ?thesis using ks by (metis in_set_butlastD length_list_update)
qed


lemma percents_total:
  assumes "bs \<noteq> []" and "length bs \<le> 2 ^ 40" and "\<forall>b \<in> set bs. 0 \<le> pb_likelihood b \<and> fl (pb_likelihood b) = pb_likelihood b"
  shows "sum_list (normalizePercents bs True) = 100"
proof -
  obtain ks where "normalizePercents bs True = map rat_of_int ks" "sum_list ks = 100" using percents_sum [OF assms] by blast
  moreover have "sum_list (map rat_of_int ks) = of_int (sum_list ks)" by (induction ks) simp_all
  ultimately show ?thesis by simp
qed

section \<open>Lines\<close>

lemma branch_cmp_consistent: "consistent_cmp branch_cmp"
  using descending_consistent [of pb_likelihood] unfolding consistent_cmp_def branch_cmp_def Let_def
  by (smt (verit))

lemma sortBranches_sorted: "sorted_wrt (\<lambda>a b. branch_cmp a b \<le> 0) (sortBranches bs)"
  unfolding sortBranches_def by (rule sorted_sort_by [OF branch_cmp_consistent refl])

lemma sortBranches_facts [simp]:
  "mset (sortBranches bs) = mset bs" "set (sortBranches bs) = set bs" "length (sortBranches bs) = length bs"
  by (simp_all add: sortBranches_def)

lemma length_percents [simp]: "length (normalizePercents bs n) = length bs"
  by (simp add: normalizePercents_def Let_def)

lemma slice_to_nat: "slice_to (of_nat n) xs = take n xs"
  by (simp add: slice_to_def)

text \<open>Every branch is a line or counted as hidden: with a limit that is a natural number the graph has a
  line per branch up to the limit, and one more that counts the rest.\<close>

lemma graph_lines_count:
  assumes "maxBranches opts = Some (of_nat n)" and "b = length (ensureBranches suggestion)"
  shows "length (graph_lines suggestion opts) = (if n < b then Suc n else b)"
  using assms by (auto simp: graph_lines_def Let_def slice_to_nat)

end
