(* ===== verification/Explain_Routing.thy ===== *)
theory Explain_Routing
  imports Weave_Graph
begin

text \<open>
  The explanation of a routing decision (\<open>src/demos/explainRoutingDemo.ts\<close>) and the two services that
  offer it: the socket (\<open>src/server/wsDemoServer.ts\<close>) and the HTTP route (\<open>src/server/httpDemoServer.ts\<close>).
  A query is the list of its decoded parameters. The Greek letter of one reason is given by its
  UTF-8 bytes.
\<close>

section \<open>Types\<close>

record route_explanation =
  chosenPathId :: string
  chosenBranchLabel :: "string option"
  re_intent :: string
  re_reasons :: "string list"
  m_focusMomentum :: "rat option"
  m_volatility :: "rat option"
  m_likelihood :: "rat option"

record explain_view =
  ev_decision :: route_explanation
  ev_suggestion :: multi_path
  ev_highlighted :: "string list"
  ev_graph :: string

record scenario =
  sc_orientation :: orientation_now
  sc_decision :: routing_decision
  sc_intent :: string
  sc_graphOptions :: graph_options

section \<open>Reasons\<close>

definition pickTopBranch :: "multi_path \<Rightarrow> path_branch option" where
  "pickTopBranch suggestion =
     (if branches_of suggestion \<noteq> [] then Some (hd (sort_desc pb_likelihood (branches_of suggestion)))
      else Some ((path_as_branch ''primary'' (primaryPath suggestion))\<lparr>pb_momentumHint := Some ''stable'', pb_volatilityHint := Some ''mid''\<rparr>))"

definition quoted_intent :: "string \<Rightarrow> string" where
  "quoted_intent s = ''Intent '' @ [quote_ch] @ s @ [quote_ch]"

definition describeIntentAlignment :: "string \<Rightarrow> string option \<Rightarrow> string" where
  "describeIntentAlignment intent role =
     (if intent = [] then ''Intent not provided; defaulting to most stable path.''
      else case role of
        None \<Rightarrow> quoted_intent intent @ '' applied to default branch.''
      | Some r \<Rightarrow>
          if r = [] then quoted_intent intent @ '' applied to default branch.''
          else if str_includes intent ''deepen'' \<or> str_includes intent ''focus''
          then quoted_intent intent @ '' leans toward maintaining focus, aligning with the '' @ r @ '' branch.''
          else if str_includes intent ''recover'' \<or> str_includes intent ''stabil''
          then quoted_intent intent @ '' prefers stability, pushing weight toward '' @ r @ '' branch.''
          else if str_includes intent ''explore''
          then quoted_intent intent @ '' values exploration; '' @ r @ '' branch offered the safest exploration gradient.''
          else quoted_intent intent @ '' applied with neutral bias toward the '' @ r @ '' branch.'')"

definition describeMomentumReason :: "rat option \<Rightarrow> rat option \<Rightarrow> string option" where
  "describeMomentumReason focusMomentum volatility =
     (case (focusMomentum, volatility) of
        (Some m, Some v) \<Rightarrow>
          Some (if m \<ge> fl (7 / 10) \<and> v \<le> fl (3 / 10)
                then ''High focus momentum ('' @ js_to_fixed 2 m @ '') with low volatility ('' @ js_to_fixed 2 v @ '') favoured staying on course.''
                else if m \<le> fl (35 / 100) \<and> v \<ge> fl (55 / 100)
                then ''Fragmented focus ('' @ js_to_fixed 2 m @ '') and elevated volatility ('' @ js_to_fixed 2 v @ '') favoured a softer branch.''
                else if m \<ge> 1 / 2
                then ''Growing momentum ('' @ js_to_fixed 2 m @ '') encouraged deeper progression despite volatility '' @ js_to_fixed 2 v @ ''.''
                else ''Stabilising focus ('' @ js_to_fixed 2 m @ '') suggested holding the current guidance.'')
      | _ \<Rightarrow> None)"

definition delta_sign :: string where "delta_sign = [CHR 0xCE, CHR 0x94]"

definition describeBranchAdvantage :: "path_branch list \<Rightarrow> string \<Rightarrow> string option" where
  "describeBranchAdvantage branches chosenId =
     (case sort_desc pb_likelihood branches of
        [] \<Rightarrow> None
      | best # rest \<Rightarrow>
          if pb_id best \<noteq> chosenId then None
          else case rest of
            [] \<Rightarrow> Some (''Chosen branch had clear lead with likelihood '' @ js_to_fixed 2 (pb_likelihood best) @ ''.'')
          | second # _ \<Rightarrow>
              (let delta = number_to_fixed 3 (fl (pb_likelihood best - pb_likelihood second))
               in if delta \<le> 0 then None
                  else Some (''Likelihood edge: '' @ pb_role best @ '' at '' @ js_to_fixed 2 (pb_likelihood best) @ '' vs '' @
                    pb_role second @ '' at '' @ js_to_fixed 2 (pb_likelihood second) @ '' ('' @ delta_sign @ ''='' @ js_to_fixed 2 delta @ '').'')))"

definition opt_line :: "string option \<Rightarrow> string list" where
  "opt_line s = (case s of Some t \<Rightarrow> if t = [] then [] else [t] | None \<Rightarrow> [])"

definition deriveReasons :: "string \<Rightarrow> path_branch option \<Rightarrow> orientation_now \<Rightarrow> multi_path \<Rightarrow> string list" where
  "deriveReasons intent branch orientation suggestion =
     filter (\<lambda>r. r \<noteq> [])
       ([describeIntentAlignment intent (map_option pb_role branch)] @
        opt_line (describeMomentumReason (on_focusMomentum orientation) (on_volatility orientation)) @
        (case opt_line (Option.bind branch pb_momentumHint) of
           [h] \<Rightarrow> [''Branch momentum trend is '' @ h @ '', matching the desired pacing.''] | _ \<Rightarrow> []) @
        (case opt_line (Option.bind branch pb_volatilityHint) of
           [h] \<Rightarrow> [''Volatility profile is '' @ h @ '', consistent with current stability needs.''] | _ \<Rightarrow> []) @
        opt_line (describeBranchAdvantage (branches_of suggestion) (case branch of Some b \<Rightarrow> pb_id b | None \<Rightarrow> [])))"

section \<open>Explanation\<close>

definition explainRoutingForScenario :: "scenario \<Rightarrow> explain_view" where
  "explainRoutingForScenario params =
     (let orientation = sc_orientation params; intent = sc_intent params;
          suggestion = buildMultiPathSuggestion orientation (sc_decision params);
          chosenBranch = pickTopBranch suggestion;
          decision = \<lparr>chosenPathId = (case chosenBranch of Some b \<Rightarrow> pb_id b | None \<Rightarrow> pathId (primaryPath suggestion)),
                      chosenBranchLabel = map_option pb_label chosenBranch, re_intent = intent,
                      re_reasons = deriveReasons intent chosenBranch orientation suggestion,
                      m_focusMomentum = on_focusMomentum orientation, m_volatility = on_volatility orientation,
                      m_likelihood = map_option pb_likelihood chosenBranch\<rparr>;
          ids = [chosenPathId decision]
      in \<lparr>ev_decision = decision, ev_suggestion = suggestion, ev_highlighted = ids,
          ev_graph = renderFutureWeaveGraph suggestion ((sc_graphOptions params)\<lparr>highlightedPathIds := Some ids\<rparr>)\<rparr>)"

definition buildDemoScenario :: scenario where
  "buildDemoScenario =
     \<lparr>sc_orientation = \<lparr>on_currentSector = Some ''deep_work/core'', on_focusMomentum = Some (fl (72 / 100)),
                        on_volatility = Some (fl (18 / 100)), phaseLabel = Some ''alpha-focus'', turtle = None\<rparr>,
      sc_decision = [\<lparr>do_sector = ''deep_work/core'', do_score = fl (76 / 100)\<rparr>,
                     \<lparr>do_sector = ''planning/light'', do_score = fl (52 / 100)\<rparr>,
                     \<lparr>do_sector = ''rest/reset'', do_score = fl (28 / 100)\<rparr>],
      sc_intent = ''deepen-focus'', sc_graphOptions = no_options\<rparr>"

definition explainRoutingForDemoScenario :: explain_view where
  "explainRoutingForDemoScenario =
     explainRoutingForScenario (buildDemoScenario\<lparr>sc_graphOptions := no_options\<lparr>maxBranches := Some 3, showMeta := Some True\<rparr>\<rparr>)"

definition chosen_name :: "route_explanation \<Rightarrow> string" where
  "chosen_name d = (case chosenBranchLabel d of Some l \<Rightarrow> l | None \<Rightarrow> chosenPathId d)"

definition metric_line :: "string \<Rightarrow> rat option \<Rightarrow> string list" where
  "metric_line key v = (case v of Some x \<Rightarrow> ['' - '' @ key @ '': '' @ js_to_fixed 2 x] | None \<Rightarrow> [])"

definition formatRoutingExplanation :: "explain_view \<Rightarrow> string" where
  "formatRoutingExplanation view =
     (let decision = ev_decision view
      in js_join [newline]
          ([''ROUTING EXPLANATION'', ''===================='', [], ''Routing intent: '' @ re_intent decision,
            ''Chosen path: '' @ chosen_name decision, ''Reason:''] @
           map (\<lambda>reason. '' - '' @ reason) (re_reasons decision) @ [[], ''Metrics:''] @
           metric_line ''focusMomentum'' (m_focusMomentum decision) @ metric_line ''volatility'' (m_volatility decision) @
           metric_line ''likelihood'' (m_likelihood decision)))"

section \<open>Socket\<close>

text \<open>A number that a literal such as \<open>1e400\<close> overflows is not finite.\<close>

definition ws_parseNumber :: "jsval \<Rightarrow> rat option" where
  "ws_parseNumber v = (case v of JNum n \<Rightarrow> if \<bar>n\<bar> \<le> MAX_DOUBLE then Some n else None | _ \<Rightarrow> None)"

definition ws_text :: "jsval \<Rightarrow> string option" where
  "ws_text v = (case v of JStr s \<Rightarrow> if trim s \<noteq> [] then Some s else None | _ \<Rightarrow> None)"

definition or_else :: "'a option \<Rightarrow> 'a option \<Rightarrow> 'a option" where
  "or_else x y = (case x of Some v \<Rightarrow> Some v | None \<Rightarrow> y)"

definition customise :: "rat option \<Rightarrow> rat option \<Rightarrow> string option \<Rightarrow> orientation_now \<Rightarrow> orientation_now" where
  "customise momentum volatility sector orientation =
     orientation\<lparr>on_focusMomentum := or_else momentum (on_focusMomentum orientation),
       on_volatility := or_else volatility (on_volatility orientation),
       on_currentSector := or_else sector (on_currentSector orientation)\<rparr>"

definition buildScenarioFromMessage :: "jsval \<Rightarrow> scenario" where
  "buildScenarioFromMessage message =
     (let base = buildDemoScenario
      in if pget message ''type'' = JStr ''explain_custom'' then
           base\<lparr>sc_intent := (case ws_text (pget message ''intent'') of Some s \<Rightarrow> s | None \<Rightarrow> sc_intent base),
                sc_orientation := customise (ws_parseNumber (pget message ''focusMomentum'')) (ws_parseNumber (pget message ''volatility''))
                  (ws_text (pget message ''currentSector'')) (sc_orientation base),
                sc_graphOptions := no_options\<lparr>maxBranches := ws_parseNumber (pget message ''maxBranches''),
                  showMeta := (case pget message ''showMeta'' of JBool b \<Rightarrow> Some b | _ \<Rightarrow> None)\<rparr>\<rparr>
         else base)"

datatype demo_reply =
    Pong jsval
  | ExplainResult jsval string explain_view
  | DemoError string string jsval

definition decision_summary :: "explain_view \<Rightarrow> string" where
  "decision_summary view =
     ''Routing intent: '' @ re_intent (ev_decision view) @ ''; chosen path: '' @ chosen_name (ev_decision view)"

definition mapViewToServerMessage :: "explain_view \<Rightarrow> jsval \<Rightarrow> demo_reply" where
  "mapViewToServerMessage view tick = ExplainResult tick (decision_summary view) view"

definition handleOrientationDemoMessage :: "jsval \<Rightarrow> demo_reply" where
  "handleOrientationDemoMessage message =
     (let kind = pget message ''type''; tick = pget message ''tick''
      in if kind = JStr ''ping'' then Pong tick
         else if kind = JStr ''explain_demo'' then mapViewToServerMessage explainRoutingForDemoScenario tick
         else if kind = JStr ''explain_custom''
         then mapViewToServerMessage (explainRoutingForScenario (buildScenarioFromMessage message)) tick
         else DemoError ''unknown_type'' ''Unsupported message type'' tick)"

definition on_demo_message :: "string \<Rightarrow> demo_reply" where
  "on_demo_message payloadText =
     (case json_parse payloadText of
        None \<Rightarrow> DemoError ''invalid_json'' ''Invalid JSON message'' JUndef
      | Some parsed \<Rightarrow>
          if \<not> truthy parsed \<or> typeof parsed \<noteq> ''object'' \<or> typeof (pget parsed ''type'') \<noteq> ''string''
          then DemoError ''unknown_type'' ''Unsupported message type'' JUndef
          else handleOrientationDemoMessage parsed)"

section \<open>HTTP route\<close>

definition parseNumber :: "string option \<Rightarrow> rat option" where
  "parseNumber v = (case v of None \<Rightarrow> None | Some s \<Rightarrow> (case to_number s of Finite x \<Rightarrow> Some x | _ \<Rightarrow> None))"

definition parseBoolean :: "string option \<Rightarrow> bool option" where
  "parseBoolean v =
     (case v of None \<Rightarrow> None
      | Some s \<Rightarrow> if to_lower s \<in> set [''true'', ''1'', ''yes'', ''on''] then Some True
                  else if to_lower s \<in> set [''false'', ''0'', ''no'', ''off''] then Some False else None)"

definition buildScenarioFromParams :: "(string \<times> string) list \<Rightarrow> scenario" where
  "buildScenarioFromParams searchParams =
     (let base = buildDemoScenario; get = map_of searchParams
      in base\<lparr>sc_intent := (case get ''intent'' of Some s \<Rightarrow> s | None \<Rightarrow> sc_intent base),
              sc_orientation := customise (parseNumber (get ''focusMomentum'')) (parseNumber (get ''volatility''))
                (case get ''currentSector'' of Some s \<Rightarrow> if s \<noteq> [] then Some s else None | None \<Rightarrow> None) (sc_orientation base),
              sc_graphOptions := no_options\<lparr>maxBranches := parseNumber (get ''maxBranches''), showMeta := parseBoolean (get ''showMeta'')\<rparr>\<rparr>)"

record explain_response =
  xr_decision :: string
  formattedExplanation :: string
  xr_view :: explain_view

definition handleExplainRoutingRequest :: "(string \<times> string) list \<Rightarrow> explain_response" where
  "handleExplainRoutingRequest searchParams =
     (let view = (if map_of searchParams ''mode'' = Some ''demo'' \<or> length searchParams = 0 then explainRoutingForDemoScenario
                  else explainRoutingForScenario (buildScenarioFromParams searchParams))
      in \<lparr>xr_decision = decision_summary view, formattedExplanation = formatRoutingExplanation view, xr_view = view\<rparr>)"

end
