(* ===== verification/Explain_Correct.thy ===== *)
theory Explain_Correct
  imports Explain_Routing
begin

text \<open>
  What the explanations say: which path is chosen, that the intent has no part in the choice, what a
  negative volatility does, and how the replies of socket and route follow from it.
\<close>

section \<open>Choice\<close>

lemma sort_desc_three:
  "key b \<le> key a \<Longrightarrow> key c \<le> key a \<Longrightarrow> hd (sort_desc key [a, b, c]) = a"
  "key a < key b \<Longrightarrow> key c < key b \<Longrightarrow> hd (sort_desc key [a, b, c]) = b"
  by (auto simp: sort_desc_def sort_by_def js_sort_def bind_err_def descending_def)

lemma suggestion_branches:
  assumes "s = buildMultiPathSuggestion orientation ds"
  obtains p r e where "branches_of s = [p, r, e]" "[pb_id p, pb_id r, pb_id e] = [''primary'', ''recover'', ''explore'']"
    "[pb_role p, pb_role r, pb_role e] = [''primary'', ''recovery'', ''explore'']"
    "map pb_likelihood [p, r, e] = map overallLikelihood (primaryPath s # alternates s)"
    "pb_label p = path_label (primaryPath s)"
  by (rule that [of "branches_of s ! 0" "branches_of s ! 1" "branches_of s ! 2"])
    (simp_all add: assms buildMultiPathSuggestion_def Let_def createBranch_def resolveBranchRole_def recover_path_def explore_path_def)

text \<open>A suggestion whose primary path is the likeliest is explained by it, marked in the first line.\<close>

lemma starts_with_append: "starts_with p (p @ s)"
  by (simp add: starts_with_def)

lemma starts_with_line: "starts_with p l \<Longrightarrow> starts_with p (js_join sep (l # ls))"
  by (cases ls) (auto simp: starts_with_prefix)

lemma marked_line:
  assumes "pb_role b = ''primary''" and "7 \<le> w"
  shows "starts_with ''* primary'' (formatBranchLine b percent w meta True label)"
proof -
  have r: "pad_end w (pb_role b) = ''primary'' @ replicate (w - 7) CHR '' ''" by (simp add: pad_end_def assms(1))
  have t: "trim_end (''* primary'' @ u) = ''* primary'' @ rev (dropWhile is_ws (rev u))" for u
    by (auto simp: trim_end_def dropWhile_append is_ws_def)
  show ?thesis using t by (simp add: formatBranchLine_def Let_def r starts_with_def)
qed

lemma graph_marks_primary:
  assumes "s = buildMultiPathSuggestion orientation ds" and "highlightedPathIds opts = Some [''primary'']"
    and "\<forall>n. maxBranches opts = Some n \<longrightarrow> 1 \<le> n"
  shows "starts_with ''* primary'' (renderFutureWeaveGraph s opts)"
proof -
  obtain p r e where b: "branches_of s = [p, r, e]" "[pb_id p, pb_id r, pb_id e] = [''primary'', ''recover'', ''explore'']"
    "[pb_role p, pb_role r, pb_role e] = [''primary'', ''recovery'', ''explore'']" using suggestion_branches [OF assms(1)] by metis
  define n where "n = (case maxBranches opts of Some n \<Rightarrow> n | None \<Rightarrow> 3)"
  have n: "1 \<le> n" using assms(3) by (simp add: n_def split: option.split)
  have srt: "sortBranches (ensureBranches s) = [p, r, e]"
    using b by (simp add: ensureBranches_def sortBranches_def sort_by_def js_sort_def bind_err_def branch_cmp_def rolePriority_def ROLE_ORDER_def)
  define pc where "pc = normalizePercents [p, r, e] (case go_normalizeLikelihoods opts of Some b \<Rightarrow> b | None \<Rightarrow> True)"
  obtain q qs where q: "pc = q # qs" using length_percents [of "[p, r, e]"] by (metis pc_def length_Suc_conv list.size(4))
  obtain m where m: "nat \<lfloor>n\<rfloor> = Suc m" using n le_floor_iff [of 1 n] by (cases "nat \<lfloor>n\<rfloor>") auto
  have sl: "slice_to n (x # xs) = x # take m xs" for x and xs :: "'a list"
    using n m by (auto simp: slice_to_def Let_def)
  define w where "w = foldl (\<lambda>w b. max w (length (pb_role b))) 0 [p, r, e]"
  have w: "7 \<le> w" using b(3) by (simp add: w_def)
  have "\<exists>ls. graph_lines s opts = formatBranchLine p q w (case showMeta opts of Some b \<Rightarrow> b | None \<Rightarrow> True) True
      (case highlightLabel opts of Some l \<Rightarrow> l | None \<Rightarrow> ''CHOSEN'') # ls"
    using b(2) unfolding graph_lines_def Let_def srt n_def [symmetric] pc_def [symmetric] w_def [symmetric] q sl assms(2)
    by simp
  then show ?thesis using marked_line [OF _ w] b(3) starts_with_line by (force simp: renderFutureWeaveGraph_def)
qed

text \<open>The branch that is chosen, by the likelihoods of the paths.\<close>

lemma explain_parts:
  assumes "view = explainRoutingForScenario params" and "s = buildMultiPathSuggestion (sc_orientation params) (sc_decision params)"
    and "pickTopBranch s = Some b"
  shows "ev_suggestion view = s" "chosenPathId (ev_decision view) = pb_id b" "chosenBranchLabel (ev_decision view) = Some (pb_label b)"
    "m_likelihood (ev_decision view) = Some (pb_likelihood b)" "ev_highlighted view = [pb_id b]"
    "ev_graph view = renderFutureWeaveGraph s ((sc_graphOptions params)\<lparr>highlightedPathIds := Some [pb_id b]\<rparr>)"
  using assms by (simp_all add: explainRoutingForScenario_def Let_def)

lemma top_branch:
  assumes "s = buildMultiPathSuggestion orientation ds"
    and "map overallLikelihood (primaryPath s # alternates s) = [x, y, z]"
  shows "y \<le> x \<Longrightarrow> z \<le> x \<Longrightarrow> \<exists>b. pickTopBranch s = Some b \<and> pb_id b = ''primary'' \<and> pb_label b = path_label (primaryPath s) \<and> pb_likelihood b = x"
    "x < y \<Longrightarrow> z < y \<Longrightarrow> \<exists>b. pickTopBranch s = Some b \<and> pb_id b = ''recover'' \<and> pb_likelihood b = y"
proof -
  obtain p r e where b: "branches_of s = [p, r, e]" "[pb_id p, pb_id r, pb_id e] = [''primary'', ''recover'', ''explore'']"
    "map pb_likelihood [p, r, e] = [x, y, z]" "pb_label p = path_label (primaryPath s)"
    using suggestion_branches [OF assms(1)] unfolding assms(2) by metis
  show "y \<le> x \<Longrightarrow> z \<le> x \<Longrightarrow> \<exists>b. pickTopBranch s = Some b \<and> pb_id b = ''primary'' \<and> pb_label b = path_label (primaryPath s) \<and> pb_likelihood b = x"
    using b sort_desc_three(1) [of pb_likelihood r p e] by (auto simp: pickTopBranch_def)
  show "x < y \<Longrightarrow> z < y \<Longrightarrow> \<exists>b. pickTopBranch s = Some b \<and> pb_id b = ''recover'' \<and> pb_likelihood b = y"
    using b sort_desc_three(2) [of pb_likelihood p r e] by (auto simp: pickTopBranch_def)
qed

lemma primary_on_top:
  assumes "s = buildMultiPathSuggestion (sc_orientation params) (sc_decision params)"
    and "\<forall>v. on_volatility (sc_orientation params) = Some v \<longrightarrow> 0 \<le> v"
    and "\<forall>x \<in> set (sc_decision params). fl (do_score x) = do_score x"
  shows "\<exists>b. pickTopBranch s = Some b \<and> pb_id b = ''primary'' \<and> pb_label b = path_label (primaryPath s) \<and>
    pb_likelihood b = overallLikelihood (primaryPath s)"
proof -
  obtain x y z where L: "map overallLikelihood (primaryPath s # alternates s) = [x, y, z]" "y \<le> x" "z \<le> x"
    "\<forall>q \<in> {x, y, z}. 0 \<le> q \<and> q \<le> 1 \<and> fl q = q" using suggestion_likelihoods [OF assms] by (elim exE conjE) (rule that)
  then show ?thesis using top_branch(1) [OF assms(1) L(1-3)] by auto
qed

lemma primary_chosen:
  assumes "\<forall>v. on_volatility (sc_orientation params) = Some v \<longrightarrow> 0 \<le> v"
    and "\<forall>x \<in> set (sc_decision params). fl (do_score x) = do_score x"
  shows "chosenPathId (ev_decision (explainRoutingForScenario params)) = ''primary''"
  using primary_on_top [OF refl assms] explain_parts(2) [OF refl refl] by metis

text \<open>The explained choice. For a volatility that is not negative every scenario is explained by the
  primary path, with its label and likelihood: the intent changes the wording of the reasons only. The
  path is highlighted in the first line of the graph, unless a limit below one hides it, and the
  percentages of the graph add up to 100.\<close>

theorem explained_choice:
  assumes "view = explainRoutingForScenario params" and "\<forall>v. on_volatility (sc_orientation params) = Some v \<longrightarrow> 0 \<le> v"
    and "\<forall>x \<in> set (sc_decision params). fl (do_score x) = do_score x"
  shows "chosenPathId (ev_decision view) = ''primary'' \<and>
    chosenBranchLabel (ev_decision view) = Some (path_label (primaryPath (ev_suggestion view))) \<and>
    m_likelihood (ev_decision view) = Some (overallLikelihood (primaryPath (ev_suggestion view))) \<and>
    (\<forall>intent. let other = explainRoutingForScenario (params\<lparr>sc_intent := intent\<rparr>) in
       ev_graph other = ev_graph view \<and>
       (ev_decision other)\<lparr>re_intent := re_intent (ev_decision view), re_reasons := re_reasons (ev_decision view)\<rparr> = ev_decision view) \<and>
    ((\<forall>n. maxBranches (sc_graphOptions params) = Some n \<longrightarrow> 1 \<le> n) \<longrightarrow> starts_with ''* primary'' (ev_graph view)) \<and>
    sum_list (normalizePercents (sortBranches (branches_of (ev_suggestion view))) True) = 100"
proof -
  define s where "s = buildMultiPathSuggestion (sc_orientation params) (sc_decision params)"
  obtain x y z where L: "map overallLikelihood (primaryPath s # alternates s) = [x, y, z]" "y \<le> x" "z \<le> x"
    "\<forall>q \<in> {x, y, z}. 0 \<le> q \<and> q \<le> 1 \<and> fl q = q" using suggestion_likelihoods [OF s_def assms(2,3)] by (elim exE conjE) (rule that)
  obtain b where b: "pickTopBranch s = Some b" "pb_id b = ''primary''" "pb_label b = path_label (primaryPath s)"
    "pb_likelihood b = overallLikelihood (primaryPath s)" using primary_on_top [OF s_def assms(2,3)] by blast
  note parts = explain_parts [OF assms(1) s_def b(1)]
  have others: "let other = explainRoutingForScenario (params\<lparr>sc_intent := intent\<rparr>) in ev_graph other = ev_graph view \<and>
      (ev_decision other)\<lparr>re_intent := re_intent (ev_decision view), re_reasons := re_reasons (ev_decision view)\<rparr> = ev_decision view" for intent
    by (simp add: assms(1) explainRoutingForScenario_def Let_def)
  have graph: "starts_with ''* primary'' (ev_graph view)" if "\<forall>n. maxBranches (sc_graphOptions params) = Some n \<longrightarrow> 1 \<le> n"
    using graph_marks_primary [OF s_def, of "(sc_graphOptions params)\<lparr>highlightedPathIds := Some [''primary'']\<rparr>"] that
    by (simp add: parts(6) b(2))
  have "set (map pb_likelihood (branches_of s)) = {x, y, z}" using suggestion_branches [OF s_def] L(1) by (metis list.set_map list.simps(15) empty_set)
  then have "\<forall>c \<in> set (sortBranches (branches_of s)). 0 \<le> pb_likelihood c \<and> fl (pb_likelihood c) = pb_likelihood c" using L(4) by auto
  moreover have len: "length (sortBranches (branches_of s)) = 3" by (rule suggestion_branches [OF s_def]) simp
  then have "sortBranches (branches_of s) \<noteq> []" by force
  ultimately have "sum_list (normalizePercents (sortBranches (branches_of s)) True) = 100"
    using len by (intro percents_total) simp_all
  then show ?thesis using parts b L(1) others graph by simp
qed

theorem explained_choice_witness:
  "chosenPathId (ev_decision explainRoutingForDemoScenario) = ''primary''"
proof -
  define params where "params = buildDemoScenario\<lparr>sc_graphOptions := no_options\<lparr>maxBranches := Some 3, showMeta := Some True\<rparr>\<rparr>"
  have v: "explainRoutingForDemoScenario = explainRoutingForScenario params" by (simp add: explainRoutingForDemoScenario_def params_def)
  have "\<forall>v. on_volatility (sc_orientation params) = Some v \<longrightarrow> 0 \<le> v" "\<forall>x \<in> set (sc_decision params). fl (do_score x) = do_score x"
    by (simp_all add: params_def buildDemoScenario_def)
  from explained_choice [OF v this] show ?thesis by blast
qed

section \<open>Negative volatility\<close>

lemma number_to_fixed_nonpos:
  assumes "x \<le> 0"
  shows "number_to_fixed d x \<le> 0"
proof (cases "x = 0")
  case True
  then show ?thesis using number_to_fixed_bounds(2) [of 0 0 d] by simp
next
  case False
  have "0 \<le> \<lfloor>\<bar>x\<bar> * 10 ^ d + 1 / 2\<rfloor>" by simp
  then show ?thesis using assms False unfolding number_to_fixed_def Let_def by simp
qed

lemma number_to_fixed_one: "number_to_fixed 3 1 = 1"
  using floor_unique [of 1000 "2001 / 2 :: rat"] by (simp add: number_to_fixed_def)

lemma fl_quarter: "fl (1 / 4) = 1 / 4" "fl (1 / 2) = 1 / 2"
  using fl_exact [of 1 "- 2"] fl_exact [of 1 "- 1"] by (simp_all add: power_int_minus inverse_eq_divide)

lemma small_constants: "fl (1 / 5) \<le> 1 / 4" "fl (1 / 20) \<le> 1 / 4" "fl (1 / 10) \<le> 1 / 4"
  by (rule fl_le [OF _ fl_quarter(1)], simp)+

lemma weights_negative:
  assumes "v \<le> - 20" and "\<forall>p. primary = Some p \<longrightarrow> do_score p \<le> 1"
  shows "\<exists>x y z. path_weights primary m v = [(''primary'', x), (''recover'', y), (''explore'', z)] \<and>
    0 < x \<and> x \<le> 1 \<and> y \<le> - 3 \<and> 0 \<le> z \<and> z \<le> 1 / 2 \<and> fl y = y"
proof -
  define y where "y = fl (fl (1 / 4 + fl (v * (1 / 4))) + (if m < 0 then fl (1 / 10) else 0))"
  define z where "z = fl (fl (1 / 5) + (if m > 0 then fl (1 / 20) else 0))"
  define w where "w = max (case primary of Some p \<Rightarrow> do_score p | None \<Rightarrow> fl (55 / 100)) (fl (55 / 100))"
  define x where "x = max w (fl (max y z + fl (1 / 20)))"
  have eq: "path_weights primary m v = [(''primary'', x), (''recover'', y), (''explore'', z)]"
    by (simp only: path_weights_def Let_def y_def z_def w_def x_def)
  have n: "fl (- 5) = - 5" "fl (- 4) = - 4" "fl (- 3) = - 3" using fl_int [of "5"] fl_int [of "4"] fl_int [of "3"] by simp_all
  have "fl (v * (1 / 4)) \<le> - 5" using assms(1) n(1) by (intro fl_le) simp_all
  then have "fl (1 / 4 + fl (v * (1 / 4))) \<le> - 4" using n(2) by (intro fl_le) simp_all
  then have y: "y \<le> - 3" unfolding y_def using n(3) small_constants(3) by (intro fl_le) auto
  have z: "0 \<le> z" "z \<le> 1 / 2" unfolding z_def
    using fl_le [OF _ fl_quarter(2), of "fl (1 / 5) + (if m > 0 then fl (1 / 20) else 0)"] small_constants(1,2)
    by (auto intro!: fl_nonneg add_nonneg_nonneg)
  have "fl (max y z + fl (1 / 20)) \<le> 1" using y z small_constants(2) by (intro fl_le) auto
  moreover have c: "fl (55 / 100) \<le> 1" "1 / 4 \<le> fl (55 / 100)" by (rule fl_le, simp, simp, rule fl_ge) (simp, code_simp)
  ultimately have x: "0 < x" "x \<le> 1" using assms(2) by (auto simp: x_def w_def less_max_iff_disj split: option.splits)
  show ?thesis using eq x y z by (auto simp: y_def)
qed

text \<open>The weight of recovery is not bounded below: with a volatility of \<open>-20\<close> or less the weights add up to
  a negative number, the shares change sign and the recovering path is chosen with a likelihood of
  1 or more.\<close>

lemma negative_volatility_recovers:
  assumes "view = explainRoutingForScenario params" and "on_volatility (sc_orientation params) = Some v" and "v \<le> - 20"
    and "\<forall>x \<in> set (sc_decision params). do_score x \<le> 1"
  shows "chosenPathId (ev_decision view) = ''recover'' \<and> (\<exists>l. m_likelihood (ev_decision view) = Some l \<and> 1 \<le> l)"
proof -
  define s where "s = buildMultiPathSuggestion (sc_orientation params) (sc_decision params)"
  define primary where "primary = fst (selectPrimaryAndAlternatives (sc_decision params))"
  define m where "m = (case on_focusMomentum (sc_orientation params) of Some x \<Rightarrow> x | None \<Rightarrow> 0)"
  have v: "v = (case on_volatility (sc_orientation params) of Some x \<Rightarrow> x | None \<Rightarrow> 0)" using assms(2) by simp
  have "\<forall>p. primary = Some p \<longrightarrow> do_score p \<le> 1" using selected_primary [of "sc_decision params"] assms(4) by (auto simp: primary_def)
  from weights_negative [OF assms(3) this, of m] obtain x y z where w: "path_weights primary m v = [(''primary'', x), (''recover'', y), (''explore'', z)]"
    "0 < x" "x \<le> 1" "y \<le> - 3" "0 \<le> z" "z \<le> 1 / 2" "fl y = y" by blast
  define t where "t = fl_sum [x, y, z]"
  have t: "t = fl (fl (fl x + y) + z)" by (simp add: t_def fl_sum_def)
  have n: "fl (- 2) = - 2" using fl_int [of 2] by simp
  have "fl x \<le> 1" "0 \<le> fl x" using w by (auto intro: fl_le)
  then have "fl (fl x + y) \<le> - 2" "y \<le> fl (fl x + y)" using w n by (auto intro: fl_le fl_ge)
  then have bounds: "t \<le> - 1" "y \<le> t" using w unfolding t by (auto intro!: fl_le fl_ge)
  let ?n = "\<lambda>w. number_to_fixed 3 (fl (w / t))"
  have L: "map overallLikelihood (primaryPath s # alternates s) = [?n x, ?n y, ?n z]"
    using suggestion_shares [OF s_def primary_def m_def v w(1) t_def] bounds by simp
  have "1 \<le> y / t" using bounds by (simp add: le_divide_eq)
  then have "1 \<le> fl (y / t)" by (simp add: fl_ge)
  then have one: "1 \<le> ?n y" using number_to_fixed_mono [of 1 "fl (y / t)" 3] by (simp add: number_to_fixed_one)
  have "?n x \<le> 0" "?n z \<le> 0" using w bounds by (auto intro!: number_to_fixed_nonpos fl_nonpos simp: divide_le_0_iff)
  then obtain b where "pickTopBranch s = Some b" "pb_id b = ''recover''" "pb_likelihood b = ?n y"
    using top_branch(2) [OF s_def L] one by auto
  then show ?thesis using explain_parts [OF assms(1) s_def] one by auto
qed

section \<open>Services\<close>

lemma demo_scores: "\<forall>x \<in> set (sc_decision buildDemoScenario). fl (do_score x) = do_score x \<and> do_score x \<le> 1"
  using fl_unit(2) [of "76 / 100"] fl_unit(2) [of "52 / 100"] fl_unit(2) [of "28 / 100"] by (simp add: buildDemoScenario_def)

lemma demo_volatility: "on_volatility (sc_orientation buildDemoScenario) = Some (fl (18 / 100))"
  by (simp add: buildDemoScenario_def)

lemma scenario_parts:
  "sc_decision (buildScenarioFromParams q) = sc_decision buildDemoScenario"
  "on_volatility (sc_orientation (buildScenarioFromParams q)) = or_else (parseNumber (map_of q ''volatility'')) (Some (fl (18 / 100)))"
  "sc_decision (buildScenarioFromMessage m) = sc_decision buildDemoScenario"
  "pget m ''type'' = JStr ''explain_custom'' \<Longrightarrow>
    on_volatility (sc_orientation (buildScenarioFromMessage m)) = or_else (ws_parseNumber (pget m ''volatility'')) (Some (fl (18 / 100)))"
  by (simp_all add: buildScenarioFromParams_def buildScenarioFromMessage_def customise_def demo_volatility Let_def)

lemma demo_chosen: "chosenPathId (ev_decision explainRoutingForDemoScenario) = ''primary''"
  unfolding explainRoutingForDemoScenario_def by (rule primary_chosen) (use demo_scores demo_volatility in auto)

text \<open>Whatever the query asks for, the route names the primary path unless the volatility it gives is negative.\<close>

theorem route_names_primary:
  assumes "\<forall>v. parseNumber (map_of query ''volatility'') = Some v \<longrightarrow> 0 \<le> v"
  shows "chosenPathId (ev_decision (xr_view (handleExplainRoutingRequest query))) = ''primary''"
proof -
  have "chosenPathId (ev_decision (explainRoutingForScenario (buildScenarioFromParams query))) = ''primary''"
    by (rule primary_chosen) (use assms demo_scores in \<open>auto simp: scenario_parts or_else_def split: option.splits\<close>)
  then show ?thesis using demo_chosen by (simp add: handleExplainRoutingRequest_def Let_def)
qed

text \<open>Every text sent to the socket is answered once: with an error for what is not JSON or has no known type,
  and with an explanation that names the primary path unless the volatility it gives is negative.\<close>

theorem socket_answers:
  "case on_demo_message text of
     Pong tick \<Rightarrow> \<exists>m. json_parse text = Some m \<and> pget m ''type'' = JStr ''ping'' \<and> tick = pget m ''tick''
   | ExplainResult tick summary view \<Rightarrow> \<exists>m. json_parse text = Some m \<and> tick = pget m ''tick'' \<and> summary = decision_summary view \<and>
       pget m ''type'' \<in> {JStr ''explain_demo'', JStr ''explain_custom''} \<and>
       ((\<forall>v. ws_parseNumber (pget m ''volatility'') = Some v \<longrightarrow> 0 \<le> v) \<longrightarrow> chosenPathId (ev_decision view) = ''primary'')
   | DemoError code message tick \<Rightarrow> (code = ''invalid_json'') = (json_parse text = None) \<and>
       (\<forall>m. json_parse text = Some m \<longrightarrow> code = ''unknown_type'' \<and>
         pget m ''type'' \<notin> {JStr ''ping'', JStr ''explain_demo'', JStr ''explain_custom''})"
proof (cases "json_parse text")
  case (Some m)
  have custom: "chosenPathId (ev_decision (explainRoutingForScenario (buildScenarioFromMessage m))) = ''primary''"
    if "pget m ''type'' = JStr ''explain_custom''" "\<forall>v. ws_parseNumber (pget m ''volatility'') = Some v \<longrightarrow> 0 \<le> v"
    by (rule primary_chosen) (use that demo_scores in \<open>auto simp: scenario_parts or_else_def split: option.splits\<close>)
  show ?thesis
  proof (cases "\<not> truthy m \<or> typeof m \<noteq> ''object'' \<or> typeof (pget m ''type'') \<noteq> ''string''")
    case True
    then have "pget m ''type'' \<noteq> JStr k" for k by (cases m) (auto simp: pget_def)
    with True Some show ?thesis by (auto simp: on_demo_message_def)
  next
    case False
    then have "on_demo_message text = handleOrientationDemoMessage m" by (simp add: on_demo_message_def Some)
    then show ?thesis
      using custom demo_chosen Some
      by (simp add: handleOrientationDemoMessage_def mapViewToServerMessage_def Let_def)
  qed
qed (simp add: on_demo_message_def)

text \<open>A query for a volatility of \<open>-20\<close> is answered with the recovering path.\<close>

lemma route_negative:
  assumes "parseNumber (map_of query ''volatility'') = Some v" and "v \<le> - 20" and "map_of query ''mode'' \<noteq> Some ''demo''"
  shows "chosenPathId (ev_decision (xr_view (handleExplainRoutingRequest query))) = ''recover''"
proof -
  have "query \<noteq> []" using assms(1) by (auto simp: parseNumber_def)
  moreover have "on_volatility (sc_orientation (buildScenarioFromParams query)) = Some v" by (simp add: scenario_parts assms(1) or_else_def)
  ultimately show ?thesis
    using negative_volatility_recovers [OF refl _ assms(2), of "buildScenarioFromParams query"] demo_scores assms(3)
    by (simp add: handleExplainRoutingRequest_def scenario_parts Let_def)
qed

text \<open>Rounding to whole percents can leave a negative rest for the last branch.\<close>

lemma negative_percent:
  assumes "pb_likelihood a = 5 / 8" and "pb_likelihood b = 3 / 8" and "pb_likelihood c = 0"
  shows "normalizePercents [a, b, c] True = [63, 38, - 1]"
proof -
  have e: "fl (5 / 8) = 5 / 8" "fl (3 / 8) = 3 / 8" "fl (125 / 2) = 125 / 2" "fl (75 / 2) = 75 / 2"
    using fl_exact [of 5 "- 3"] fl_exact [of 3 "- 3"] fl_exact [of 125 "- 1"] fl_exact [of 75 "- 1"]
    by (simp_all add: power_int_minus inverse_eq_divide)
  have i: "fl (63 :: rat) = 63" "fl (101 :: rat) = 101" using fl_int [of 63] fl_int [of 101] by simp_all
  have f: "\<lfloor>125 / 2 + 1 / 2 :: rat\<rfloor> = 63" "\<lfloor>75 / 2 + 1 / 2 :: rat\<rfloor> = 38" "\<lfloor>1 / 2 :: rat\<rfloor> = 0" by linarith+
  show ?thesis by (simp add: normalizePercents_def assms math_round_def fl_sum_def e i f)
qed

end
