(* ===== verification/Weave_Correct.thy ===== *)
theory Weave_Correct
  imports Time_Asymmetry
begin

text \<open>
  What the scores of the weave satisfy in floating point: they stay in their ranges, the distribution
  of weight ignores the order of the branches, a collapse names a branch of maximal weight and is not
  signalled on a tie, and the asymmetry of a mirrored history is mirrored.
\<close>

section \<open>Weights\<close>

lemma clamp_unit_bounds [simp]: "0 \<le> clamp_unit x" "clamp_unit x \<le> 1"
  by (simp_all add: clamp_unit_def)

lemma clamp_signed_bounds [simp]: "- 1 \<le> clampMinus1To1 x" "clampMinus1To1 x \<le> 1" "- 1 \<le> clampSignedUnit x" "clampSignedUnit x \<le> 1"
  by (simp_all add: clampMinus1To1_def clampSignedUnit_def)

lemma fl_scale: "0 \<le> a \<Longrightarrow> a \<le> 1 \<Longrightarrow> fl d = d \<Longrightarrow> 0 \<le> d \<Longrightarrow> 0 \<le> fl (a * d) \<and> fl (a * d) \<le> d"
  by (simp add: fl_le mult_left_le_one_le)

lemma branch_weight_nonneg: "0 \<le> computeBranchWeight b"
proof -
  let ?avg = "fl_mean (map (\<lambda>n. clamp_unit (intensity n)) (nodes b))"
  have "0 \<le> ?avg" using fl_sum_nonneg [of "map (\<lambda>n. clamp_unit (intensity n)) (nodes b)"] by (simp add: fl_mean_def)
  then have "0 \<le> fl (fl (clamp_unit (intensity (last (nodes b))) * fl (7 / 10)) + fl (?avg * fl (3 / 10)))" by simp
  then show ?thesis by (simp add: computeBranchWeight_def Let_def number_to_fixed_def)
qed

lemma branch_weight_double: "fl (computeBranchWeight b) = computeBranchWeight b"
  by (simp add: computeBranchWeight_def Let_def)

definition ranked_weights :: "time_branch list \<Rightarrow> rat list" where
  "ranked_weights bs = map snd (rankBranches bs)"

lemma asymmetry_weights:
  "computeTimeWeaveAsymmetry bs =
     (if length bs = 0 then \<lparr>concentration = 0, shape = Balanced, as_branchCount = length bs\<rparr>
      else if length bs = 1 then \<lparr>concentration = 1, shape = SingleDominant, as_branchCount = length bs\<rparr>
      else if fl_sum (ranked_weights bs) \<le> 0 then \<lparr>concentration = 0, shape = Balanced, as_branchCount = length bs\<rparr>
      else \<lparr>concentration = number_to_fixed 4 (fl (ranked_weights bs ! 0 / fl_sum (ranked_weights bs))),
            shape = weight_shape (fl (ranked_weights bs ! 0 / fl_sum (ranked_weights bs)))
                      (fl (ranked_weights bs ! 1 / fl_sum (ranked_weights bs))),
            as_branchCount = length bs\<rparr>)"
proof -
  have len: "length (rankBranches bs) = length bs" by (simp add: rankBranches_def)
  then have "rankBranches bs \<noteq> []" "1 < length (rankBranches bs)" if "length bs \<noteq> 0" "length bs \<noteq> 1"
    using that by (metis list.size(3), linarith)
  then show ?thesis by (simp add: computeTimeWeaveAsymmetry_def ranked_weights_def len Let_def)
qed

lemma ranked_weights_facts:
  "mset (ranked_weights bs) = mset (map computeBranchWeight bs)" "length (ranked_weights bs) = length bs"
  "sorted_wrt (\<ge>) (ranked_weights bs)"
proof -
  show "mset (ranked_weights bs) = mset (map computeBranchWeight bs)"
    by (simp add: ranked_weights_def rankBranches_def image_mset.compositionality comp_def)
  show "length (ranked_weights bs) = length bs" by (simp add: ranked_weights_def rankBranches_def)
  show "sorted_wrt (\<ge>) (ranked_weights bs)"
    using sorted_sort_desc [of snd "map (\<lambda>b. (b, computeBranchWeight b)) bs"] by (simp add: ranked_weights_def rankBranches_def sorted_wrt_map)
qed

lemma ranked_weights_mem: "w \<in> set (ranked_weights bs) \<longleftrightarrow> w \<in> computeBranchWeight ` set bs"
  using ranked_weights_facts(1) [of bs] by (metis image_set mset_eq_setD)

lemma ranked_weights_order: "mset bs = mset bs' \<Longrightarrow> ranked_weights bs = ranked_weights bs'"
  unfolding ranked_weights_def rankBranches_def by (rule keys_sort_desc) simp

lemma collapse_asymmetry_only:
  "hasCollapsed (detectBranchCollapse a bs prev) = hasCollapsed (detectBranchCollapse a bs' prev)"
  "collapse_mode (detectBranchCollapse a bs prev) = collapse_mode (detectBranchCollapse a bs' prev)"
  unfolding detectBranchCollapse_def Let_def collapsed_def by (auto split: if_split)

text \<open>The distribution of weight ignores the order of the branches. Concentration, shape and branch
  count of a weave are the same for every arrangement of its branches, although the total is a
  floating-point sum, and with them whether a collapse is signalled and in which mode.\<close>

theorem asymmetry_order_independent:
  assumes "mset bs = mset bs'"
  shows "computeTimeWeaveAsymmetry bs = computeTimeWeaveAsymmetry bs' \<and>
    (let s = detectBranchCollapse (computeTimeWeaveAsymmetry bs) bs prev; s' = detectBranchCollapse (computeTimeWeaveAsymmetry bs') bs' prev
     in hasCollapsed s = hasCollapsed s' \<and> collapse_mode s = collapse_mode s')"
proof -
  have eq: "computeTimeWeaveAsymmetry bs = computeTimeWeaveAsymmetry bs'"
    using ranked_weights_order [OF assms] mset_eq_length [OF assms] by (simp add: asymmetry_weights)
  then show ?thesis using collapse_asymmetry_only by (simp add: Let_def)
qed

theorem asymmetry_order_independent_witness:
  "computeTimeWeaveAsymmetry [\<lparr>branch_thread = ''a'', nodes = []\<rparr>, \<lparr>branch_thread = ''b'', nodes = []\<rparr>] =
   computeTimeWeaveAsymmetry [\<lparr>branch_thread = ''b'', nodes = []\<rparr>, \<lparr>branch_thread = ''a'', nodes = []\<rparr>]"
  by (rule asymmetry_order_independent [THEN conjunct1]) simp

section \<open>Concentration and collapse\<close>

lemma concentration_unit: "0 \<le> concentration (computeTimeWeaveAsymmetry bs) \<and> concentration (computeTimeWeaveAsymmetry bs) \<le> 1"
proof -
  let ?ws = "ranked_weights bs"
  have nn: "\<forall>w \<in> set ?ws. 0 \<le> w" using branch_weight_nonneg by (auto simp: ranked_weights_mem)
  have mem: "fl w = w" if "w \<in> set ?ws" for w using that branch_weight_double by (auto simp: ranked_weights_mem)
  have ok: "0 \<le> number_to_fixed 4 (fl (?ws ! 0 / fl_sum ?ws)) \<and> number_to_fixed 4 (fl (?ws ! 0 / fl_sum ?ws)) \<le> 1"
    if "?ws \<noteq> []" "0 < fl_sum ?ws"
  proof -
    have top: "?ws ! 0 \<in> set ?ws" using that(1) by simp
    have "?ws ! 0 \<le> fl_sum ?ws" using fl_sum_ge [OF nn top mem [OF top]] .
    then have "?ws ! 0 / fl_sum ?ws \<le> 1" using that(2) by simp
    moreover have "0 \<le> ?ws ! 0 / fl_sum ?ws" using nn top that(2) by (intro divide_nonneg_pos) auto
    ultimately have "0 \<le> fl (?ws ! 0 / fl_sum ?ws)" "fl (?ws ! 0 / fl_sum ?ws) \<le> 1" by (simp_all add: fl_le)
    then show ?thesis using number_to_fixed_unit by blast
  qed
  show ?thesis
    using ok ranked_weights_facts(2) [of bs] by (cases "ranked_weights bs = []") (auto simp: asymmetry_weights)
qed

text \<open>Two branches that share the largest weight keep the concentration at one half at most.\<close>

lemma tie_concentration:
  assumes "2 \<le> length bs" and "ranked_weights bs ! 0 = ranked_weights bs ! 1"
  shows "concentration (computeTimeWeaveAsymmetry bs) \<le> 1 / 2"
proof -
  define ws where "ws = ranked_weights bs"
  have nn: "\<forall>w \<in> set ws. 0 \<le> w" using branch_weight_nonneg by (auto simp: ws_def ranked_weights_mem)
  obtain m rest where ws: "ws = m # m # rest"
    using assms ranked_weights_facts(2) [of bs] unfolding ws_def [symmetric]
    by (metis (no_types, lifting) Suc_le_length_iff diff_Suc_1 nth_Cons_0 nth_Cons_Suc numeral_2_eq_2 One_nat_def)
  have m: "fl m = m" using branch_weight_double ranked_weights_mem [of m bs] ws unfolding ws_def by auto
  have sum: "fl (m + m) = 2 * m" "fl (2 * m) = 2 * m" using fl_double [OF m] by (metis mult_2, blast)
  have "fl_sum ws = foldl (\<lambda>sum v. fl (sum + v)) (2 * m) rest" by (simp only: ws fl_sum_def foldl.simps add_0_left m sum)
  then have "2 * m \<le> fl_sum ws" using foldl_fl_ge [OF sum(2), of rest] nn by (simp add: ws)
  then have half: "m / fl_sum ws \<le> 1 / 2" if "0 < fl_sum ws" using that by (simp add: divide_le_eq)
  have fh: "fl (1 / 2 :: rat) = 1 / 2" by code_simp
  have "number_to_fixed 4 (fl (m / fl_sum ws)) \<le> 1 / 2" if "0 < fl_sum ws"
  proof -
    have "0 \<le> fl (m / fl_sum ws)" using nn that by (simp add: ws)
    moreover have "fl (m / fl_sum ws) \<le> of_int 5000 / 10 ^ 4" using fl_le [OF half [OF that] fh] by simp
    ultimately show ?thesis using number_to_fixed_bounds(2) [of "fl (m / fl_sum ws)" 5000 4] fh by simp
  qed
  then show ?thesis
    using assms(1) by (simp add: asymmetry_weights ws_def [symmetric]) (simp add: ws)
qed

lemma dominant_maximal:
  assumes "findDominantBranch bs = Some b"
  shows "b \<in> set bs" "x \<in> set bs \<Longrightarrow> computeBranchWeight x \<le> computeBranchWeight b"
proof -
  obtain k rest where r: "rankBranches bs = (b, k) # rest"
    using assms by (auto simp: findDominantBranch_def split: list.splits)
  have "(b, k) \<in> set (rankBranches bs)" by (simp add: r)
  then have k: "b \<in> set bs" "k = computeBranchWeight b" by (auto simp: rankBranches_def)
  then show "b \<in> set bs" by simp
  assume x: "x \<in> set bs"
  have "snd (x, computeBranchWeight x) \<le> snd (hd (rankBranches bs))"
    unfolding rankBranches_def using x by (intro hd_sort_desc) auto
  then show "computeBranchWeight x \<le> computeBranchWeight b" by (simp add: r k)
qed

lemma tie_ranked:
  assumes sub: "{#a, b#} \<subseteq># mset bs"
    and max: "\<forall>x \<in> set bs. computeBranchWeight x \<le> computeBranchWeight a" "computeBranchWeight b = computeBranchWeight a"
  shows "2 \<le> length bs" "ranked_weights bs ! 0 = ranked_weights bs ! 1"
proof -
  let ?M = "computeBranchWeight a"
  have "size {#a, b#} \<le> size (mset bs)" using sub by (rule size_mset_mono)
  then show len: "2 \<le> length bs" by simp
  obtain x y rest where ws: "ranked_weights bs = x # y # rest"
    using len ranked_weights_facts(2) [of bs] by (metis Suc_le_length_iff numeral_2_eq_2)
  have up: "w \<le> ?M" if "w \<in> set (ranked_weights bs)" for w using that max(1) by (auto simp: ranked_weights_mem)
  have "image_mset computeBranchWeight {#a, b#} \<subseteq># image_mset computeBranchWeight (mset bs)"
    using sub by (rule image_mset_subseteq_mono)
  then have two: "{#?M, ?M#} \<subseteq># mset (ranked_weights bs)" using max(2) by (simp add: ranked_weights_facts(1))
  have "?M \<in> set (ranked_weights bs)" using mset_subset_eqD [OF two, of ?M] by (metis set_mset_mset union_single_eq_member)
  then have x: "x = ?M" using up [of x] ranked_weights_facts(3) [of bs] by (auto simp: ws)
  have "{#?M#} \<subseteq># mset (y # rest)" using two by (simp add: ws x)
  then have "?M \<in> set (y # rest)" by simp
  then have "y = ?M" using up [of y] ranked_weights_facts(3) [of bs] by (auto simp: ws)
  then show "ranked_weights bs ! 0 = ranked_weights bs ! 1" by (simp add: ws x)
qed

lemma collapse_threshold:
  assumes "2 \<le> as_branchCount a" and "concentration a \<le> 1 / 2"
  shows "\<not> hasCollapsed (detectBranchCollapse a bs prev)"
proof -
  have "1 / 2 < fl (3 / 5)" "1 / 2 < fl (4 / 5)" by code_simp+
  then show ?thesis using assms by (auto simp: detectBranchCollapse_def Let_def)
qed

lemma dominant_id:
  "dominantBranchId (detectBranchCollapse a bs prev) = Some t \<Longrightarrow> \<exists>b. findDominantBranch bs = Some b \<and> branch_thread b = t"
  by (auto simp: detectBranchCollapse_def collapsed_def Let_def split: if_splits)

text \<open>C34: a collapse is sound. Whatever the previous summary was, the branch that a collapse names is one
  of the weave and none weighs more, and no collapse is signalled while two branches share the
  largest weight: rounding cannot lift either above half of the total.\<close>

theorem collapse_sound:
  assumes "s = detectBranchCollapse (computeTimeWeaveAsymmetry bs) bs prev"
  shows "(dominantBranchId s = Some t \<longrightarrow>
      (\<exists>b \<in> set bs. branch_thread b = t \<and> (\<forall>x \<in> set bs. computeBranchWeight x \<le> computeBranchWeight b))) \<and>
    ({#a, b#} \<subseteq># mset bs \<and> computeBranchWeight b = computeBranchWeight a \<and>
      (\<forall>x \<in> set bs. computeBranchWeight x \<le> computeBranchWeight a) \<longrightarrow> \<not> hasCollapsed s)"
proof (intro conjI impI)
  assume "dominantBranchId s = Some t"
  then show "\<exists>b \<in> set bs. branch_thread b = t \<and> (\<forall>x \<in> set bs. computeBranchWeight x \<le> computeBranchWeight b)"
    using dominant_id dominant_maximal unfolding assms by blast
next
  assume tie: "{#a, b#} \<subseteq># mset bs \<and> computeBranchWeight b = computeBranchWeight a \<and>
      (\<forall>x \<in> set bs. computeBranchWeight x \<le> computeBranchWeight a)"
  have "as_branchCount (computeTimeWeaveAsymmetry bs) = length bs" by (simp add: asymmetry_weights)
  then show "\<not> hasCollapsed s"
    using tie_ranked [of a b bs] tie_concentration [of bs] collapse_threshold unfolding assms using tie by auto
qed

definition idle_branch :: "string \<Rightarrow> time_branch" where
  "idle_branch t = \<lparr>branch_thread = t, nodes = []\<rparr>"

theorem collapse_sound_witness:
  "\<not> hasCollapsed (detectBranchCollapse (computeTimeWeaveAsymmetry [idle_branch ''a'', idle_branch ''b'']) [idle_branch ''a'', idle_branch ''b''] None)"
proof -
  have "{#idle_branch ''a'', idle_branch ''b''#} \<subseteq># mset [idle_branch ''a'', idle_branch ''b'']" by simp
  then show ?thesis
    using collapse_sound [OF refl, of "[idle_branch ''a'', idle_branch ''b'']" None "''a''" "idle_branch ''a''" "idle_branch ''b''"]
    by (simp add: computeBranchWeight_def idle_branch_def)
qed

section \<open>Ranges\<close>

lemma weave_depth_unit: "0 \<le> weave_depth m n e \<and> weave_depth m n e \<le> 1"
proof -
  let ?c = "fl (2 / 5)" and ?d = "fl (1 / 5)"
  define x y z where "x = fl (clamp_unit (fl (of_nat m / 12)) * ?c)" and "y = fl (clamp_unit (fl (of_nat n / 100)) * ?c)"
    and "z = fl (clamp_unit (fl (e / TARGET_TIME_SPAN_MS)) * ?d)"
  have b: "0 \<le> x" "x \<le> ?c" "0 \<le> y" "y \<le> ?c" "0 \<le> z" "z \<le> ?d"
    using fl_scale [of _ ?c] fl_scale [of _ ?d] by (simp_all add: x_def y_def z_def)
  have "fl (x + y) \<le> fl (?c + ?c)" using b by (intro fl_mono add_mono) simp_all
  then have "fl (fl (x + y) + z) \<le> fl (fl (?c + ?c) + ?d)" using b by (intro fl_mono add_mono) simp_all
  also have "\<dots> = 1"
  proof -
    have c: "fl (2 / 5) = 3602879701896397 / 9007199254740992" using fl_value [of 2 "2 / 5" 7205759403792794] by simp
    have d: "fl (1 / 5) = 3602879701896397 / 18014398509481984" using fl_value [of 3 "1 / 5" 7205759403792794] by simp
    have cc: "fl (3602879701896397 / 4503599627370496) = 3602879701896397 / 4503599627370496"
      using fl_value [of 1 "3602879701896397 / 4503599627370496" 7205759403792794] by simp
    have e: "fl (18014398509481985 / 18014398509481984) = 1"
      using fl_value [of 0 "18014398509481985 / 18014398509481984" 4503599627370496] by simp
    have "fl (?c + ?c) = 3602879701896397 / 4503599627370496" unfolding c using cc by simp
    then show ?thesis unfolding d using e by (simp only:) simp
  qed
  finally have le: "fl (fl (x + y) + z) \<le> 1" .
  have eq: "weave_depth m n e = fl (fl (x + y) + z)" by (simp only: weave_depth_def Let_def x_def y_def z_def)
  show ?thesis unfolding eq using b le by simp
qed

text \<open>The scores of a weave stay in their ranges, rounding included. For every weave, whatever
  its intensities and ticks: depth and complexity, concentration and focus momentum of the depth
  between 0 and 1, the momentum score between -1 and 1, the time span not negative.\<close>

theorem weave_scores_bounded:
  "let s = computeTimeWeaveSummary dateParse w prev; m = computeTimeWeaveMeta dateParse w
   in 0 \<le> depthScore s \<and> depthScore s \<le> 1 \<and> 0 \<le> timeSpanMs s \<and>
      (case summary_asymmetry s of Some a \<Rightarrow> 0 \<le> concentration a \<and> concentration a \<le> 1 | None \<Rightarrow> False) \<and>
      0 \<le> complexityScore m \<and> complexityScore m \<le> 1 \<and> 0 \<le> focusMomentum m \<and> focusMomentum m \<le> 1 \<and>
      - 1 \<le> computeFocusMomentumScore w \<and> computeFocusMomentumScore w \<le> 1"
  using weave_depth_unit concentration_unit
  by (simp add: Let_def computeTimeWeaveSummary_def computeTimeWeaveMeta_def computeFocusMomentumScore_def split: option.split)

text \<open>A branch whose last node has no intensity weighs in the momentum score as much as the most active one.\<close>

lemma inactive_branch_weighs_most:
  assumes "momentum_item b = Some (m, k)" and "clamp_unit (intensity (last (nodes b))) = 0" and "momentum_item b' = Some (m', k')"
  shows "k' \<le> k"
  using assms by (auto simp: momentum_item_def Let_def split: if_splits)

section \<open>Mirrors\<close>

fun neg_number :: "js_number \<Rightarrow> js_number" where
  "neg_number (Finite x) = Finite (- x)"
| "neg_number PosInf = NegInf"
| "neg_number NegInf = PosInf"
| "neg_number NotANumber = NotANumber"

definition mirror_segment :: "history_segment \<Rightarrow> history_segment" where
  "mirror_segment s = s\<lparr>seg_bias := neg_number (seg_bias s)\<rparr>"

fun mirror_direction :: "asymmetry_direction \<Rightarrow> asymmetry_direction" where
  "mirror_direction Forward = Backward"
| "mirror_direction Backward = Forward"
| "mirror_direction BalancedDirection = BalancedDirection"

fun mirror_posture :: "temporal_posture \<Rightarrow> temporal_posture" where
  "mirror_posture SteadyForward = SteadyBackward"
| "mirror_posture SteadyBackward = SteadyForward"
| "mirror_posture p = p"

definition mirror_meta :: "asymmetry_meta \<Rightarrow> asymmetry_meta" where
  "mirror_meta m = m\<lparr>direction := mirror_direction (direction m), depthWeightedAsymmetry := - depthWeightedAsymmetry m,
     posture := mirror_posture (posture m)\<rparr>"

definition neg_bias :: "normalized_segment \<Rightarrow> normalized_segment" where
  "neg_bias s = s\<lparr>bias := - bias s\<rparr>"

lemma neg_bias_fields [simp]:
  "bias (neg_bias s) = - bias s" "timestampMs (neg_bias s) = timestampMs s" "stepCount (neg_bias s) = stepCount s"
  "asymmetryMagnitude (neg_bias s) = asymmetryMagnitude s"
  by (simp_all add: neg_bias_def)

lemma normalize_mirror: "normalize_segment i (mirror_segment s) = neg_bias (normalize_segment i s)"
proof -
  have "finite_or (neg_number x) 0 = - finite_or x 0" for x by (cases x) (simp_all add: finite_or_def)
  then show ?thesis
    by (auto simp: normalize_segment_def mirror_segment_def neg_bias_def Let_def split: option.split js_number.split)
qed

lemma enumerate_map: "List.enumerate n (map f xs) = map (apsnd f) (List.enumerate n xs)"
  by (induction xs arbitrary: n) simp_all

lemma normalize_history_mirror:
  "normalizeHistorySegments (map mirror_segment h) = map neg_bias (normalizeHistorySegments h)"
  by (simp add: normalizeHistorySegments_def enumerate_map normalize_mirror case_prod_beta)

lemma clampSignedUnit_minus [simp]: "clampSignedUnit (- x) = - clampSignedUnit x"
  by (auto simp: clampSignedUnit_def)

lemma bias_pairs_minus: "bias_pairs (map uminus bs) = map (\<lambda>(p, c). (- p, - c)) (bias_pairs bs)"
proof -
  have "bias_pairs (map uminus bs) = zip (map uminus bs) (map uminus (tl bs))" by (simp add: bias_pairs_def map_tl)
  then show ?thesis by (simp add: bias_pairs_def zip_map_map)
qed

lemma neg_map: "map bias (map neg_bias ss) = map uminus (map bias ss)"
  by simp

lemma abs_fl_swap: "(\<lambda>x. \<bar>fl (f (fst x) - f (snd x))\<bar>) = (\<lambda>(p, c). \<bar>fl (f c - f p)\<bar>)"
proof
  fix x
  show "\<bar>fl (f (fst x) - f (snd x))\<bar> = (case x of (p, c) \<Rightarrow> \<bar>fl (f c - f p)\<bar>)"
    using fl_minus [of "f (fst x) - f (snd x)"] by (simp add: case_prod_beta)
qed

lemma fl_sum_minus: "fl_sum (map (\<lambda>x. - f x) xs) = - fl_sum (map f xs)"
proof (induction xs rule: rev_induct)
  case (snoc x xs)
  then show ?case using fl_minus [of "fl_sum (map f xs) + f x"] by simp
qed simp

lemma volatility_mirror: "computeVolatilityScore (map neg_bias ss) = computeVolatilityScore ss"
proof -
  have flips: "sign_flip (- p) (- c) = sign_flip p c" for p c by (auto simp: sign_flip_def sgn_if)
  have "fl_sum (map (\<lambda>(p, c). \<bar>fl (c - p)\<bar>) (bias_pairs (map uminus bs))) = fl_sum (map (\<lambda>(p, c). \<bar>fl (c - p)\<bar>) (bias_pairs bs))" for bs
    using abs_fl_swap [of "\<lambda>x. x"] by (simp add: bias_pairs_minus comp_def case_prod_beta)
  moreover have "length (filter (\<lambda>(p, c). sign_flip p c) (bias_pairs (map uminus bs))) = length (filter (\<lambda>(p, c). sign_flip p c) (bias_pairs bs))" for bs
    by (simp add: bias_pairs_minus filter_map comp_def case_prod_unfold flips)
  ultimately show ?thesis unfolding computeVolatilityScore_def neg_map by (simp only: length_map Let_def)
qed

lemma tenderness_mirror: "computeTenderness (map uminus bs) = computeTenderness bs"
proof -
  have "fl_sum (map (\<lambda>(p, c). \<bar>fl (clampSignedUnit c - clampSignedUnit p)\<bar>) (bias_pairs (map uminus bs))) =
      fl_sum (map (\<lambda>(p, c). \<bar>fl (clampSignedUnit c - clampSignedUnit p)\<bar>) (bias_pairs bs))"
    using abs_fl_swap [of clampSignedUnit] by (simp add: bias_pairs_minus comp_def case_prod_beta)
  then show ?thesis unfolding computeTenderness_def by (simp add: Let_def)
qed

lemma weighted_mirror:
  "computeDepthWeightedAsymmetry M (map (\<lambda>s. (- bias s, stepCount s)) ss) =
     - computeDepthWeightedAsymmetry M (map (\<lambda>s. (bias s, stepCount s)) ss)"
proof -
  define weighted where "weighted = filter (\<lambda>s. math_log1p M (max 0 (stepCount s)) \<noteq> 0) ss"
  have eq: "computeDepthWeightedAsymmetry M (map (\<lambda>s. (g s, stepCount s)) ss) =
      (if ss = [] then 0
       else let total = fl_sum (map (\<lambda>s. math_log1p M (max 0 (stepCount s))) weighted)
            in if total = 0 then 0
               else clampSignedUnit (fl (fl_sum (map (\<lambda>s. fl (clampSignedUnit (g s) * math_log1p M (max 0 (stepCount s)))) weighted) / total)))" for g
    by (simp add: computeDepthWeightedAsymmetry_def weighted_def filter_map comp_def Let_def)
  have "fl_sum (map (\<lambda>s. fl (clampSignedUnit (- bias s) * math_log1p M (max 0 (stepCount s)))) weighted) =
      - fl_sum (map (\<lambda>s. fl (clampSignedUnit (bias s) * math_log1p M (max 0 (stepCount s)))) weighted)"
    using fl_sum_minus [of "\<lambda>s. fl (clampSignedUnit (bias s) * math_log1p M (max 0 (stepCount s)))" weighted] by simp
  then show ?thesis unfolding eq by (simp add: Let_def)
qed

lemma direction_mirror: "bias_direction (- b) = mirror_direction (bias_direction b)"
proof -
  define c where "c = fl (1 / 100)"
  have "0 \<le> c" by (simp add: c_def)
  then show ?thesis unfolding bias_direction_def c_def [symmetric] by auto
qed

lemma run_mirror: "same_run (mirror_direction d) (- b) (map neg_bias ss) = map neg_bias (same_run d b ss)"
  unfolding same_run_def by (cases d) (simp_all add: rev_map takeWhile_map comp_def sgn_minus)

lemma depth_mirror: "run_depth a b (map neg_bias ss) = run_depth a b ss"
  by (simp add: run_depth_def finite_stamps_def List.map_filter_def filter_map comp_def)

lemma posture_mirror: "classifyTemporalPosture (- raw) (- weighted) tender = mirror_posture (classifyTemporalPosture raw weighted tender)"
proof -
  define c where "c = fl (3 / 10)"
  have "0 \<le> c" by (simp add: c_def)
  then show ?thesis unfolding classifyTemporalPosture_def Let_def c_def [symmetric] by auto
qed

text \<open>The asymmetry of a history has no preferred direction. Negating every bias of a history leaves
  magnitude, depth, tenderness and soft index as they are, negates the weighted asymmetry and
  exchanges forward with backward in direction and posture, for every \<open>Math.exp\<close> and \<open>Math.log1p\<close>
  and all options; also for infinite biases and \<open>NaN\<close>.\<close>

theorem asymmetry_mirror:
  "computeAsymmetryMeta M (map mirror_segment history) maxSteps maxSpanMs =
     mirror_meta (computeAsymmetryMeta M history maxSteps maxSpanMs)"
proof (cases "normalizeHistorySegments history = []")
  case True
  then show ?thesis by (simp add: computeAsymmetryMeta_def normalize_history_mirror mirror_meta_def)
next
  case False
  define ss where "ss = normalizeHistorySegments history"
  define d where "d = bias_direction (bias (last ss))"
  define raw where "raw = clamp_unit (asymmetryMagnitude (last ss))"
  have ss: "ss \<noteq> []" "normalizeHistorySegments (map mirror_segment history) = map neg_bias ss"
    using False by (simp_all add: ss_def normalize_history_mirror)
  have last: "last (map neg_bias ss) = neg_bias (last ss)" using ss(1) by (simp add: last_map)
  have tender: "computeTenderness (map bias (map neg_bias ss)) = computeTenderness (map bias ss)"
    unfolding neg_map by (rule tenderness_mirror)
  have weighted: "computeDepthWeightedAsymmetry M (map (\<lambda>s. (bias s, stepCount s)) (map neg_bias ss)) =
      - computeDepthWeightedAsymmetry M (map (\<lambda>s. (bias s, stepCount s)) ss)"
    using weighted_mirror [of M ss] by (simp add: comp_def)
  show ?thesis
    unfolding computeAsymmetryMeta_def ss(2) Let_def last neg_bias_fields direction_mirror volatility_mirror tender weighted
      run_mirror depth_mirror
    using ss(1) posture_mirror [of raw] posture_mirror [of "- raw"] posture_mirror [of 0]
    by (cases d) (simp_all add: mirror_meta_def ss_def [symmetric] d_def [symmetric] raw_def [symmetric])
qed

end
