(* ===== verification/Canonical_Flow.thy ===== *)
theory Canonical_Flow
  imports Weave_Store Weave_Correct Routing_Correct Inspect_Summary
begin

text \<open>
  The canonical flow (\<open>sdk/js/src/examples/canonicalFlow.ts\<close>): hints about threads become an
  orientation web and a time weave, whose temporal view gives three options with cost and gain.
  The numbers of the input are finite.
\<close>

section \<open>Input and result\<close>

record thread_hint =
  hint_id :: string
  energy :: rat

record flow_input =
  fi_now :: string
  fi_signal :: string
  fi_momentum :: rat
  fi_pressure :: string
  historyDepth :: rat
  threadsHint :: "thread_hint list"

record canonical_option =
  op_path :: string
  op_cost :: rat
  op_gain :: rat
  op_explanation :: string

record flow_thread =
  ft_id :: string
  ft_energy :: rat
  ft_resonance :: rat
  ft_phase :: orientation_phase

record flow_result =
  fr_temporalOrientation :: orientation_view
  fr_threads :: "flow_thread list"
  fr_options :: "canonical_option list"
  fr_message :: string
  fr_note :: string
  fr_suggestion :: string
  fr_depth :: weave_meta
  fr_trend :: trend_summary
  fr_summary :: weave_summary

section \<open>Building web and weave\<close>

definition canonical_clamp01 :: "rat \<Rightarrow> rat" where
  "canonical_clamp01 v = (if v < 0 then 0 else if v > 1 then 1 else v)"

definition derivePhase :: "rat \<Rightarrow> orientation_phase" where
  "derivePhase m = (if m > fl (3 / 20) then PhaseRising else if m < - fl (3 / 20) then PhaseFalling else PhaseStable)"

definition mapPressure :: "string \<Rightarrow> rat" where
  "mapPressure p =
     (if p = ''high'' then fl (4 / 5) else if p = ''medium'' then 1 / 2 else if p = ''low'' then fl (1 / 5) else fl (2 / 5))"

definition pickPhaseFromEnergy :: "rat \<Rightarrow> rat \<Rightarrow> time_phase" where
  "pickPhaseFromEnergy e m =
     (if e > fl (7 / 10) \<and> m > 0 then Emerging else if e > 1 / 2 then Stable
      else if m < - fl (1 / 10) then Declining else Dormant)"

definition hint_sector :: "flow_input \<Rightarrow> thread_hint \<Rightarrow> partial_sector" where
  "hint_sector input thread =
     (let pressureWeight = mapPressure (fi_pressure input)
      in \<lparr>pa_id = Some (hint_id thread),
          pa_tension = Some (Finite (canonical_clamp01 (fl (fl (pressureWeight * fl (3 / 5)) + (if fi_signal input = ''scattered'' then fl (1 / 5) else 0))))),
          pa_pull = Some (Finite (canonical_clamp01 (fl (fl (fl (energy thread * fl (7 / 10)) + fl (pressureWeight * fl (1 / 5)))
            + fl (fi_momentum input * fl (1 / 10)))))),
          pa_resonance = Some (Finite (canonical_clamp01 (energy thread))), pa_phase = Some (derivePhase (fi_momentum input))\<rparr>)"

definition buildOrientationWeb :: "flow_input \<Rightarrow> orientation_web" where
  "buildOrientationWeb input =
     (let hints = threadsHint input;
          sectors = foldl (\<lambda>acc t. if hint_id t = ''__proto__'' then acc else acc(hint_id t \<mapsto> hint_sector input t)) Map.empty hints
      in updateActiveSector (createOrientationWeb (map hint_id hints) sectors
           (Some (case hints of t # rest \<Rightarrow> hint_id t | [] \<Rightarrow> ''root''))))"

definition intensity_a :: "flow_input \<Rightarrow> thread_hint \<Rightarrow> rat" where
  "intensity_a input thread =
     (let base = canonical_clamp01 (fl (fl (fl (energy thread * fl (3 / 5)) + fl (historyDepth input * fl (3 / 10))) + fl (1 / 10)));
          momentumAdjustment = fl (canonical_clamp01 (fl (1 / 2 + fl (fi_momentum input * (1 / 4)))) - 1 / 2)
      in canonical_clamp01 (fl (base + fl (momentumAdjustment * (1 / 2)))))"

definition intensity_b :: "flow_input \<Rightarrow> nat \<Rightarrow> thread_hint \<Rightarrow> rat" where
  "intensity_b input index thread =
     canonical_clamp01 (fl (canonical_clamp01 (fl (intensity_a input thread + (if even index then fl (1 / 20) else - fl (1 / 20))))
       + fl (mapPressure (fi_pressure input) * fl (1 / 10))))"

definition hint_nodes :: "flow_input \<Rightarrow> nat \<Rightarrow> thread_hint \<Rightarrow> time_node \<times> time_node" where
  "hint_nodes input index thread =
     (let nodePhase = pickPhaseFromEnergy (energy thread) (fi_momentum input)
      in (\<lparr>node_id = hint_id thread @ ''-anchor-a'', node_tick = TickStr (fi_now input @ ''-a''),
           intensity = intensity_a input thread, node_phase = nodePhase\<rparr>,
          \<lparr>node_id = hint_id thread @ ''-anchor-b'', node_tick = TickStr (fi_now input @ ''-b''),
           intensity = intensity_b input index thread, node_phase = nodePhase\<rparr>))"

definition weave_hint :: "flow_input \<Rightarrow> time_weave \<Rightarrow> nat \<times> thread_hint \<Rightarrow> time_weave" where
  "weave_hint input acc it =
     (let (index, thread) = it; (a, b) = hint_nodes input index thread
      in appendNodeToBranch (appendNodeToBranch acc (hint_id thread) a) (hint_id thread) b)"

definition buildWeaveFromHints :: "flow_input \<Rightarrow> time_weave" where
  "buildWeaveFromHints input = foldl (weave_hint input) createEmptyWeave (enumerate 0 (threadsHint input))"

section \<open>Options and report\<close>

text \<open>\<open>xs[0]\<close>, \<open>undefined\<close> for an empty list.\<close>

definition first_of :: "'a list \<Rightarrow> 'a option" where
  "first_of xs = (case xs of x # rest \<Rightarrow> Some x | [] \<Rightarrow> None)"

definition score_or :: "rat option \<Rightarrow> rat" where
  "score_or v = (case v of Some x \<Rightarrow> x | None \<Rightarrow> 0)"

definition buildOptions :: "orientation_view \<Rightarrow> canonical_option list" where
  "buildOptions view =
     (let s = view_summary view;
          dominant = (case first_of (risingSectors s) of Some i \<Rightarrow> i | None \<Rightarrow> activeSectorId (view_web view));
          secondary = (case first_of (plateauSectors s) of Some i \<Rightarrow> i
                       | None \<Rightarrow> (case first_of (fallingSectors s) of Some i \<Rightarrow> i | None \<Rightarrow> dominant));
          normalizedDepth = canonical_clamp01 (score_or (timeWeaveDepthScore s));
          normalizedMomentum = canonical_clamp01 (fl (fl (score_or (focusMomentumScore s) + 1) / 2))
      in [\<lparr>op_path = ''deepening:'' @ dominant,
           op_cost = number_to_fixed 2 (fl (fl (2 / 5) + fl (fl (1 - normalizedDepth) * fl (1 / 5)))),
           op_gain = number_to_fixed 2 (fl (fl (3 / 5) + fl (normalizedDepth * fl (3 / 10)))),
           op_explanation = ''Stay with the dominant thread to consolidate the current weave.''\<rparr>,
          \<lparr>op_path = ''pause:stabilize'',
           op_cost = number_to_fixed 2 (fl (fl (3 / 20) + fl (normalizedMomentum * fl (1 / 10)))),
           op_gain = number_to_fixed 2 (fl (fl (35 / 100) + fl (fl (1 - normalizedMomentum) * fl (1 / 5)))),
           op_explanation = ''Hold position to let tension settle; re-evaluate after a short pause.''\<rparr>,
          \<lparr>op_path = ''switch-context:'' @ secondary,
           op_cost = number_to_fixed 2 (fl (fl (3 / 10) + fl (normalizedDepth * fl (1 / 10)))),
           op_gain = number_to_fixed 2 (fl (fl (45 / 100) + fl (fl (1 - normalizedMomentum) * (1 / 4)))),
           op_explanation = ''Redirect attention to a neighboring thread to refresh orientation.''\<rparr>])"

definition trend_name :: "temporal_trend \<Rightarrow> string" where
  "trend_name t = (case t of TrendRising \<Rightarrow> ''rising'' | TrendFalling \<Rightarrow> ''falling'' | TrendPlateau \<Rightarrow> ''plateau'' | TrendMixed \<Rightarrow> ''mixed'')"

definition formatMessage :: "orientation_view \<Rightarrow> string" where
  "formatMessage view =
     (let s = view_summary view
      in ''Temporal trend '' @ trend_name (globalTrend s) @ ''; focus momentum '' @ js_to_fixed 2 (score_or (focusMomentumScore s)) @
         '' with depth '' @ js_to_fixed 2 (score_or (timeWeaveDepthScore s)) @ ''.'')"

definition buildSuggestion :: "orientation_view \<Rightarrow> canonical_option list \<Rightarrow> string" where
  "buildSuggestion view options =
     (case first_name (risingSectors (view_summary view)) of
        Some best \<Rightarrow> ''Bias towards '' @ best @ ''; it shows the cleanest upward signal.''
      | None \<Rightarrow> (case first_of options of Some p \<Rightarrow> op_explanation p | None \<Rightarrow> ''Hold steady; signals are quiet.''))"

definition canonicalFlow :: "(string \<Rightarrow> rat option) \<Rightarrow> flow_input \<Rightarrow> flow_result" where
  "canonicalFlow dateParse input =
     (let web = buildOrientationWeb input; w = buildWeaveFromHints input;
          view = buildTemporalOrientationView dateParse web w;
          opts = buildOptions view
      in \<lparr>fr_temporalOrientation = view,
          fr_threads = map (\<lambda>(i, sector). \<lparr>ft_id = sector_id sector,
            ft_energy = (case find (\<lambda>t. hint_id t = sector_id sector) (threadsHint input) of Some t \<Rightarrow> energy t | None \<Rightarrow> 0),
            ft_resonance = resonance sector, ft_phase = sector_phase sector\<rparr>) (web_sectors web),
          fr_options = opts, fr_message = formatMessage view, fr_note = ''No optimal path exists.'',
          fr_suggestion = buildSuggestion view opts,
          fr_depth = computeTimeWeaveMeta dateParse w, fr_trend = summarizeWeave w,
          fr_summary = computeTimeWeaveSummary dateParse w None\<rparr>)"

definition dash :: string where "dash = [CHR 0xE2, CHR 0x80, CHR 0x94]"

definition flow_report :: "flow_result \<Rightarrow> string" where
  "flow_report result =
     (let s = view_summary (fr_temporalOrientation result);
          temporalSummary = ''Orientation: '' @ trend_name (globalTrend s) @ '' | Active sectors: '' @ nat_str (activeSectorCount s) @
            '' | Momentum: '' @ (case focusMomentumScore s of Some m \<Rightarrow> js_to_fixed 2 m | None \<Rightarrow> ''0.00'');
          threadLines = js_join [newline] (map (\<lambda>t. '' - '' @ ft_id t @ '': energy '' @ js_to_fixed 2 (ft_energy t) @
            '', resonance '' @ js_to_fixed 2 (ft_resonance t)) (take 3 (fr_threads result)));
          optionLines = js_join [newline] (map (\<lambda>p. '' * '' @ op_path p @ '': gain '' @ js_to_fixed 2 (op_gain p) @ '', cost '' @
            js_to_fixed 2 (op_cost p) @ '' '' @ dash @ '' '' @ op_explanation p) (fr_options result))
      in js_join [newline] (filter (\<lambda>l. l \<noteq> []) [''=== LTP Canonical Flow ==='', temporalSummary, ''Top threads:'', threadLines,
           ''Options:'', optionLines, ''Note: '' @ fr_note result, ''Suggestion: '' @ fr_suggestion result, fr_message result]))"

definition buildCanonicalInput :: flow_input where
  "buildCanonicalInput =
     \<lparr>fi_now = ''2024-01-01T00:00:00.000Z'', fi_signal = ''scattered'', fi_momentum = - fl (12 / 100), fi_pressure = ''medium'',
      historyDepth = fl (63 / 100),
      threadsHint = [\<lparr>hint_id = ''old-work'', energy = fl (22 / 100)\<rparr>, \<lparr>hint_id = ''new-protocol'', energy = fl (67 / 100)\<rparr>,
        \<lparr>hint_id = ''family'', energy = fl (81 / 100)\<rparr>]\<rparr>"

end
