(* ===== verification/Canonical_Correct.thy ===== *)
theory Canonical_Correct
  imports Canonical_Flow
begin

text \<open>
  The canonical flow as a composition: what it makes of its hints through web, weave and temporal view.
\<close>

section \<open>Levels\<close>

lemma clamp01_bounds [simp]: "0 \<le> canonical_clamp01 v" "canonical_clamp01 v \<le> 1"
  by (simp_all add: canonical_clamp01_def)

lemma clamp01_double [simp]: "fl v = v \<Longrightarrow> fl (canonical_clamp01 v) = canonical_clamp01 v"
  by (simp add: canonical_clamp01_def)

lemma le_clamp01: "u \<le> v \<Longrightarrow> u \<le> 1 \<Longrightarrow> u \<le> canonical_clamp01 v"
  by (simp add: canonical_clamp01_def)

lemma clamp_finite_clamp01 [simp]: "clamp_finite (Finite (canonical_clamp01 v)) = canonical_clamp01 v"
  by (simp add: clamp_finite_def canonical_clamp01_def)

lemma pressure_nonneg: "0 \<le> mapPressure p"
  by (simp add: mapPressure_def)

lemma intensity_facts:
  "fl (intensity_a input t) = intensity_a input t" "fl (intensity_b input i t) = intensity_b input i t"
  "0 \<le> intensity_a input t" "intensity_a input t \<le> 1" "0 \<le> intensity_b input i t" "intensity_b input i t \<le> 1"
  by (simp_all add: intensity_a_def intensity_b_def Let_def)

text \<open>The second node of a hint is never below the first by more than the tolerance of a trend.\<close>

lemma intensity_b_ge: "fl (intensity_a input t - TREND_EPSILON) \<le> intensity_b input i t"
proof -
  let ?a = "intensity_a input t" and ?d = "if even i then fl (1 / 20) else - fl (1 / 20)"
  let ?m = "canonical_clamp01 (fl (?a + ?d))"
  have e: "0 \<le> TREND_EPSILON" "TREND_EPSILON = fl (1 / 20)" by (simp_all add: TREND_EPSILON_def)
  have "?a - TREND_EPSILON \<le> ?a + ?d" using e by simp
  then have "fl (?a - TREND_EPSILON) \<le> fl (?a + ?d)" by (rule fl_mono)
  moreover have "fl (?a - TREND_EPSILON) \<le> 1" using e intensity_facts(4) [of input t] by (intro fl_le) simp_all
  ultimately have "fl (?a - TREND_EPSILON) \<le> ?m" by (rule le_clamp01)
  moreover have "?m \<le> fl (?m + fl (mapPressure (fi_pressure input) * fl (1 / 10)))"
    using pressure_nonneg [of "fi_pressure input"] by (intro fl_add_ge) simp_all
  from le_clamp01 [OF this] have "?m \<le> intensity_b input i t" unfolding intensity_b_def by simp
  ultimately show ?thesis by linarith
qed

section \<open>The weave\<close>

definition hint_updates :: "flow_input \<Rightarrow> nat \<times> thread_hint \<Rightarrow> (string \<times> (time_branch option \<Rightarrow> time_branch)) list" where
  "hint_updates input it =
     (let (i, t) = it; (a, b) = hint_nodes input i t in [(hint_id t, add_node (hint_id t) a), (hint_id t, add_node (hint_id t) b)])"

lemma weave_hint_updates:
  "weave_hint input w it = fold (\<lambda>(k, f) w. upsertBranch w (f (getBranch w k))) (hint_updates input it) w"
  by (simp add: weave_hint_def hint_updates_def append_is_update Let_def split: prod.split)

lemma weave_is_updates:
  "foldl (weave_hint input) w its = fold (\<lambda>(k, f) w. upsertBranch w (f (getBranch w k))) (concat (map (hint_updates input) its)) w"
  by (induction its arbitrary: w) (simp_all add: weave_hint_updates)

lemma filter_own:
  assumes "distinct (map key xs)" and "x \<in> set xs" and "\<And>y u. y \<in> set xs \<Longrightarrow> u \<in> set (g y) \<Longrightarrow> fst u = key y"
  shows "filter (\<lambda>u. fst u = key x) (concat (map g xs)) = g x"
  using assms
proof (induction xs)
  case (Cons y ys)
  have none: "filter (\<lambda>u. fst u = key x) (concat (map g ys)) = []" if "key x \<notin> key ` set ys"
    using that Cons.prems(3) by (force simp: filter_empty_conv)
  have all: "filter (\<lambda>u. fst u = k) (g y) = (if k = key y then g y else [])" for k
    using Cons.prems(3) by (force simp: filter_empty_conv filter_id_conv)
  show ?case
  proof (cases "x = y")
    case True
    then show ?thesis using Cons.prems(1) none all by simp
  next
    case False
    then have "x \<in> set ys" using Cons.prems(2) by simp
    moreover from this have "key x \<noteq> key y" using Cons.prems(1) by (metis distinct.simps(2) image_eqI list.simps(9) set_map)
    ultimately have "filter (\<lambda>u. fst u = key x) (concat (map g ys)) = g x" "key x \<noteq> key y"
      using Cons by auto
    then show ?thesis using all by simp
  qed
qed simp

lemma tick_order: "tick_less (TickStr (s @ ''-b'')) (TickStr (s @ ''-a'')) = False"
proof -
  have base: "(''-b'' < ''-a'') = False" by code_simp
  have "(s @ ''-b'' < s @ ''-a'') = (''-b'' < ''-a'')" by (induction s) (simp_all add: Cons_less_Cons)
  then show ?thesis using base by simp
qed

lemma hint_branch:
  assumes "distinct (map hint_id (threadsHint input))" and "t \<in> set (threadsHint input)"
  obtains i a b where "hint_nodes input i t = (a, b)"
    "getBranch (buildWeaveFromHints input) (hint_id t) = Some \<lparr>branch_thread = hint_id t, nodes = [a, b]\<rparr>"
proof -
  let ?its = "enumerate 0 (threadsHint input)"
  obtain i where "i < length (threadsHint input)" "threadsHint input ! i = t" using assms(2) by (auto simp: in_set_conv_nth)
  then have it: "(i, t) \<in> set ?its" by (simp add: in_set_enumerate_eq)
  obtain a b where ab: "hint_nodes input i t = (a, b)" by (cases "hint_nodes input i t")
  have d: "distinct (map (hint_id \<circ> snd) ?its)" using assms(1) by (metis map_map map_snd_enumerate)
  have "filter (\<lambda>u. fst u = (hint_id \<circ> snd) (i, t)) (concat (map (hint_updates input) ?its)) = hint_updates input (i, t)"
    by (rule filter_own [OF d it]) (auto simp: hint_updates_def Let_def split: prod.splits)
  then have own: "filter (\<lambda>(k', f). k' = hint_id t) (concat (map (hint_updates input) ?its)) =
      [(hint_id t, add_node (hint_id t) a), (hint_id t, add_node (hint_id t) b)]"
    by (simp add: hint_updates_def ab case_prod_unfold)
  have w: "distinct_branches createEmptyWeave" by (simp add: distinct_branches_def createEmptyWeave_def)
  have keys: "\<forall>(k, f) \<in> set (concat (map (hint_updates input) ?its)). \<forall>v. branch_thread (f v) = k"
    by (auto simp: hint_updates_def Let_def split: prod.splits)
  have "getBranch (buildWeaveFromHints input) (hint_id t) = Some (add_node (hint_id t) b (Some (add_node (hint_id t) a None)))"
    using weave.updates_under_key [OF w keys, of "hint_id t"] own
    by (simp add: buildWeaveFromHints_def weave_is_updates getBranch_def createEmptyWeave_def)
  moreover have "clampIntensity (intensity a) = intensity a" "clampIntensity (intensity b) = intensity b"
    using ab intensity_facts(3,4) [of input t] intensity_facts(5,6) [of input i t] by (auto simp: hint_nodes_def clampIntensity_def Let_def)
  moreover have "sortNodesByTick [a, b] = [a, b]"
    using ab by (auto simp: hint_nodes_def Let_def sortNodesByTick_def sort_by_def js_sort_def bind_err_def tick_cmp_def tick_order simp del: tick_less.simps)
  ultimately have "getBranch (buildWeaveFromHints input) (hint_id t) = Some \<lparr>branch_thread = hint_id t, nodes = [a, b]\<rparr>"
    by (simp add: add_node_def)
  with ab show thesis by (rule that)
qed

lemma hint_trend:
  assumes "hint_nodes input i t = (a, b)"
  shows "computeBranchTrend \<lparr>branch_thread = k, nodes = [a, b]\<rparr> \<noteq> Falling"
proof -
  have n: "intensity a = intensity_a input t" "intensity b = intensity_b input i t"
    using assms by (auto simp: hint_nodes_def Let_def)
  have avg: "node_average [a] = intensity a" "node_average [b] = intensity b"
    using intensity_facts(1,2) [of input] by (simp_all add: node_average_def fl_mean_def fl_sum_def n)
  show ?thesis
    using intensity_b_ge [of input t i] avg n
    by (simp add: computeBranchTrend_def slice_last_def TREND_WINDOW_def Let_def)
qed

section \<open>The web\<close>

lemma web_entries:
  "(i, s) \<in> set (web_sectors (createOrientationWeb ids v a)) \<Longrightarrow> s = override_sector i (v i)"
proof (induction ids arbitrary: s rule: rev_induct)
  case (snoc j ids)
  let ?kvs = "web_sectors (createOrientationWeb ids v a)"
  have e: "web_sectors (createOrientationWeb (ids @ [j]) v a) = assign_prop j (override_sector j (v j)) ?kvs"
    by (simp add: createOrientationWeb_def)
  have "distinct (map fst ?kvs)" using create_wf [of ids v a] by (simp add: wf_web_def)
  then show ?case using assign_prop_wf [of ?kvs j "override_sector j (v j)"] snoc by (auto simp: e)
qed (simp add: createOrientationWeb_def)

lemma hint_map:
  assumes "t \<in> set ts" and "distinct (map hint_id ts)" and "''__proto__'' \<notin> hint_id ` set ts"
  shows "foldl (\<lambda>acc t. if hint_id t = ''__proto__'' then acc else acc(hint_id t \<mapsto> f t)) Map.empty ts (hint_id t) = Some (f t)"
  using assms
proof (induction ts rule: rev_induct)
  case (snoc u ts)
  have "hint_id t \<noteq> hint_id u" if "t \<in> set ts" using that snoc.prems(2) by simp (metis image_eqI)
  then show ?case using snoc by auto
qed simp

lemma active_keeps_sectors [simp]: "web_sectors (updateActiveSector web) = web_sectors web"
  by (simp add: updateActiveSector_def Let_def)

lemma flow_web:
  assumes "distinct (map hint_id (threadsHint input))" and "''__proto__'' \<notin> hint_id ` set (threadsHint input)"
    and "web = buildOrientationWeb input"
  shows "distinct (map fst (web_sectors web))" "fst ` set (web_sectors web) = hint_id ` set (threadsHint input)"
    "\<forall>(i, s) \<in> set (web_sectors web). \<exists>t \<in> set (threadsHint input). i = hint_id t \<and> s = override_sector i (Some (hint_sector input t))"
proof -
  let ?ts = "threadsHint input"
  let ?v = "foldl (\<lambda>acc t. if hint_id t = ''__proto__'' then acc else acc(hint_id t \<mapsto> hint_sector input t)) Map.empty ?ts"
  obtain a where w: "web_sectors web = web_sectors (createOrientationWeb (map hint_id ?ts) ?v a)"
    by (simp add: assms(3) buildOrientationWeb_def Let_def)
  show d: "distinct (map fst (web_sectors web))" and f: "fst ` set (web_sectors web) = hint_id ` set ?ts"
    using create_wf [of "map hint_id ?ts" ?v a] assms(2) unfolding w wf_web_def by auto
  show "\<forall>(i, s) \<in> set (web_sectors web). \<exists>t \<in> set ?ts. i = hint_id t \<and> s = override_sector i (Some (hint_sector input t))"
  proof clarify
    fix i s
    assume mem: "(i, s) \<in> set (web_sectors web)"
    then obtain t where t: "t \<in> set ?ts" "i = hint_id t" using f by force
    moreover have "s = override_sector i (?v i)" using web_entries [of i s "map hint_id ?ts" ?v a] mem by (simp only: w)
    ultimately show "\<exists>t \<in> set ?ts. i = hint_id t \<and> s = override_sector i (Some (hint_sector input t))"
      using hint_map [OF t(1) assms(1,2), of "hint_sector input"] by auto
  qed
qed

lemma flow_snapshot:
  assumes "distinct (map hint_id (threadsHint input))" and "t \<in> set (threadsHint input)"
    and "snap = buildSectorTemporalSnapshot (override_sector i (Some (hint_sector input t))) (buildWeaveFromHints input)"
  shows "snap_sectorId snap = hint_id t \<and> branchTrend snap \<in> {Some TrendRising, Some TrendPlateau}"
proof -
  obtain j a b where b: "hint_nodes input j t = (a, b)"
    "getBranch (buildWeaveFromHints input) (hint_id t) = Some \<lparr>branch_thread = hint_id t, nodes = [a, b]\<rparr>"
    using hint_branch [OF assms(1,2)] .
  have i: "sector_id (override_sector i (Some (hint_sector input t))) = hint_id t"
    by (simp add: override_sector_def hint_sector_def Let_def)
  have "trend_of (computeBranchTrend \<lparr>branch_thread = hint_id t, nodes = [a, b]\<rparr>) \<in> {TrendRising, TrendPlateau}"
    using hint_trend [OF b(1), of "hint_id t"] by (auto simp: trend_of_def split: branch_trend.split)
  then show ?thesis
    using b(2) by (simp add: assms(3) buildSectorTemporalSnapshot_def mapSectorToBranchId_def i getBranchSnapshot_def Let_def)
qed

lemma trend_split:
  assumes "\<forall>s \<in> set snaps. branchTrend s \<in> {Some TrendRising, Some TrendPlateau}"
  shows "sectors_with TrendFalling snaps = []"
    "length (sectors_with TrendRising snaps) + length (sectors_with TrendPlateau snaps) = length snaps"
proof -
  show "sectors_with TrendFalling snaps = []" using assms by (auto simp: sectors_with_def filter_empty_conv)
  show "length (sectors_with TrendRising snaps) + length (sectors_with TrendPlateau snaps) = length snaps"
    using assms by (induction snaps) (auto simp: sectors_with_def)
qed

section \<open>Options\<close>

lemma dyadic: "fl (of_int n / 512) = of_int n / 512" if "\<bar>n\<bar> \<le> 2 ^ 53"
  using fl_exact [OF that, of "- 9"] by (simp add: power_int_minus inverse_eq_divide)

lemma scaled:
  assumes "0 \<le> u" and "u \<le> 1" and "0 \<le> d" and "d \<le> of_int n / 512" and "\<bar>n\<bar> \<le> 2 ^ 53"
  shows "0 \<le> fl (u * fl d)" "fl (u * fl d) \<le> of_int n / 512"
proof -
  have "fl d \<le> of_int n / 512" using assms fl_le [OF _ dyadic [OF assms(5)]] by blast
  moreover have "u * fl d \<le> 1 * fl d" using assms by (intro mult_right_mono) simp_all
  ultimately show "fl (u * fl d) \<le> of_int n / 512" using fl_le [OF _ dyadic [OF assms(5)]] by simp
  show "0 \<le> fl (u * fl d)" using assms by simp
qed

lemma fixed_le:
  assumes "x \<le> of_int c / 512" and "0 \<le> x" and "of_int e / 512 \<le> y" and "\<bar>c\<bar> \<le> 2 ^ 53" and "\<bar>e\<bar> \<le> 2 ^ 53" and "0 \<le> e"
    and "\<lfloor>of_int c / 512 * 100 + 1 / 2 :: rat\<rfloor> \<le> \<lfloor>of_int e / 512 * 100 + 1 / 2 :: rat\<rfloor>"
  shows "number_to_fixed 2 (fl x) \<le> number_to_fixed 2 (fl y)"
proof -
  have f: "number_to_fixed 2 z = fl (of_int \<lfloor>z * 100 + 1 / 2\<rfloor> / 100)" if "0 \<le> z" for z
    using that by (simp add: number_to_fixed_def)
  have "fl x \<le> of_int c / 512" "of_int e / 512 \<le> fl y"
    using assms fl_le [OF _ dyadic [OF assms(4)]] fl_ge [OF _ dyadic [OF assms(5)]] by auto
  then have "number_to_fixed 2 (fl x) \<le> number_to_fixed 2 (of_int c / 512)" "number_to_fixed 2 (of_int e / 512) \<le> number_to_fixed 2 (fl y)"
    using assms by (auto intro: number_to_fixed_mono)
  moreover have "number_to_fixed 2 (of_int c / 512) \<le> number_to_fixed 2 (of_int e / 512)"
  proof -
    have "(0 :: rat) \<le> of_int c / 512" using assms(1,2) by linarith
    moreover have "(0 :: rat) \<le> of_int e / 512" using assms(6) by simp
    ultimately show ?thesis using assms(7) by (simp only: f) (intro fl_mono divide_right_mono; simp)
  qed
  ultimately show ?thesis by linarith
qed

text \<open>A cost and a gain of one option: base and share, bounded by multiples of 1/512.\<close>

lemma worthwhile:
  assumes "0 \<le> u" "u \<le> 1" "0 \<le> v" "v \<le> 1" and "0 \<le> c" "c \<le> of_int C / 512" "0 \<le> d" "d \<le> of_int D / 512"
    and "of_int E / 512 \<le> e" "e \<le> 1 - of_int F / 512" "0 \<le> f" "f \<le> of_int F / 512" and "0 \<le> C" "0 \<le> D" "0 \<le> E" "0 \<le> F"
    and "C \<le> 512" "D \<le> 512" "E \<le> 512" "F \<le> 512"
    and "\<lfloor>of_int (C + D) / 512 * 100 + 1 / 2 :: rat\<rfloor> \<le> \<lfloor>of_int E / 512 * 100 + 1 / 2 :: rat\<rfloor>"
  shows "0 \<le> number_to_fixed 2 (fl (fl c + fl (u * fl d)))"
    "number_to_fixed 2 (fl (fl c + fl (u * fl d))) \<le> number_to_fixed 2 (fl (fl e + fl (v * fl f)))"
    "number_to_fixed 2 (fl (fl e + fl (v * fl f))) \<le> 1"
proof -
  have small: "\<bar>C\<bar> \<le> 2 ^ 53" "\<bar>D\<bar> \<le> 2 ^ 53" "\<bar>E\<bar> \<le> 2 ^ 53" "\<bar>F\<bar> \<le> 2 ^ 53" "\<bar>C + D\<bar> \<le> 2 ^ 53" "\<bar>512 - F\<bar> \<le> 2 ^ 53" using assms(13-20) by auto
  have s1: "0 \<le> fl (u * fl d)" "fl (u * fl d) \<le> of_int D / 512" and s2: "0 \<le> fl (v * fl f)" "fl (v * fl f) \<le> of_int F / 512"
    using scaled [OF assms(1,2,7,8) small(2)] scaled [OF assms(3,4,11,12) small(4)] by auto
  have c: "0 \<le> fl c" "fl c \<le> of_int C / 512" using assms(5,6) fl_le [OF _ dyadic [OF small(1)]] by auto
  have e: "of_int E / 512 \<le> fl e" "fl e \<le> 1 - of_int F / 512" "0 \<le> fl e"
    using assms(9,10,15) fl_ge [OF _ dyadic [OF small(3)], of e] fl_le [OF _ dyadic [OF small(6)], of e]
    by (auto simp: diff_divide_distrib intro: order_trans [of 0 "of_int E / 512"])
  show "0 \<le> number_to_fixed 2 (fl (fl c + fl (u * fl d)))" using c s1 by (simp add: number_to_fixed_def Let_def not_less)
  have "fl (fl e + fl (v * fl f)) \<le> 1" using e s2 by (intro fl_le) auto
  then show "number_to_fixed 2 (fl (fl e + fl (v * fl f))) \<le> 1" using e s2 by (intro number_to_fixed_unit) auto
  show "number_to_fixed 2 (fl (fl c + fl (u * fl d))) \<le> number_to_fixed 2 (fl (fl e + fl (v * fl f)))"
    using c s1 e s2 small assms(15,21) by (intro fixed_le [of _ "C + D" E]) (auto simp: add_divide_distrib)
qed

lemma options_worthwhile:
  "\<forall>p \<in> set (buildOptions view). 0 \<le> op_cost p \<and> op_cost p \<le> op_gain p \<and> op_gain p \<le> 1"
proof -
  define n m where "n = canonical_clamp01 (score_or (timeWeaveDepthScore (view_summary view)))"
    and "m = canonical_clamp01 (fl (fl (score_or (focusMomentumScore (view_summary view)) + 1) / 2))"
  have n: "0 \<le> n" "n \<le> 1" "0 \<le> m" "m \<le> 1" by (simp_all add: n_def m_def)
  then have f: "0 \<le> fl (1 - n)" "fl (1 - n) \<le> 1" "0 \<le> fl (1 - m)" "fl (1 - m) \<le> 1" using fl_unit [of "1 - n"] fl_unit [of "1 - m"] by auto
  have q: "fl (1 / 4) = 1 / 4" using dyadic [of 128] by simp
  have r: "\<lfloor>308 / 512 * 100 + 1 / 2 :: rat\<rfloor> = 60" "\<lfloor>307 / 512 * 100 + 1 / 2 :: rat\<rfloor> = 60" "\<lfloor>129 / 512 * 100 + 1 / 2 :: rat\<rfloor> = 25"
    "\<lfloor>179 / 512 * 100 + 1 / 2 :: rat\<rfloor> = 35" "\<lfloor>206 / 512 * 100 + 1 / 2 :: rat\<rfloor> = 40" "\<lfloor>230 / 512 * 100 + 1 / 2 :: rat\<rfloor> = 45"
    by linarith+
  note deepen = worthwhile [OF f(1,2) n(1,2), of "2 / 5" 205 "1 / 5" 103 307 "3 / 5" 154 "3 / 10"]
  note pause = worthwhile [OF n(3,4) f(3,4), of "3 / 20" 77 "1 / 10" 52 179 "35 / 100" 103 "1 / 5"]
  note switch = worthwhile [OF n(1,2) f(3,4), of "3 / 10" 154 "1 / 10" 52 230 "45 / 100" 128 "1 / 4", unfolded q]
  show ?thesis
    unfolding buildOptions_def Let_def n_def [symmetric] m_def [symmetric]
    using deepen pause switch r by simp
qed

lemma find_hint: "t \<in> set ts \<Longrightarrow> distinct (map hint_id ts) \<Longrightarrow> find (\<lambda>u. hint_id u = hint_id t) ts = Some t"
  by (induction ts) (auto simp: image_iff)

text \<open>C37: the canonical flow. For hints with distinct names, whatever the numbers: every thread is reported once,
  with its own energy and the energy between 0 and 1 as resonance; every thread is rising or stable and none is
  ever reported as falling; and each of the three options gains at least what it costs, both between 0
  and 1.\<close>

theorem canonical_flow_sound:
  assumes "distinct (map hint_id (threadsHint input))" and "''__proto__'' \<notin> hint_id ` set (threadsHint input)"
    and "r = canonicalFlow dateParse input" and "s = view_summary (fr_temporalOrientation r)"
  shows "distinct (map ft_id (fr_threads r)) \<and>
    (\<lambda>t. (ft_id t, ft_energy t, ft_resonance t)) ` set (fr_threads r) =
      (\<lambda>h. (hint_id h, energy h, canonical_clamp01 (energy h))) ` set (threadsHint input) \<and>
    fallingSectors s = [] \<and> length (risingSectors s) + length (plateauSectors s) = length (threadsHint input) \<and>
    length (fr_options r) = 3 \<and> (\<forall>p \<in> set (fr_options r). 0 \<le> op_cost p \<and> op_cost p \<le> op_gain p \<and> op_gain p \<le> 1)"
proof -
  let ?ts = "threadsHint input" and ?w = "buildWeaveFromHints input"
  define web where "web = buildOrientationWeb input"
  note web = flow_web [OF assms(1,2) web_def]
  have sid: "sector_id (override_sector i (Some (hint_sector input t))) = hint_id t"
    "resonance (override_sector i (Some (hint_sector input t))) = canonical_clamp01 (energy t)" for i t
    by (simp_all add: override_sector_def hint_sector_def level_or_def Let_def)
  note own = find_hint [OF _ assms(1)]
  have "\<forall>sn \<in> set (map (\<lambda>(i, sector). buildSectorTemporalSnapshot sector ?w) (web_sectors web)). branchTrend sn \<in> {Some TrendRising, Some TrendPlateau}"
  proof
    fix sn
    assume "sn \<in> set (map (\<lambda>(i, sector). buildSectorTemporalSnapshot sector ?w) (web_sectors web))"
    then obtain i t where "t \<in> set ?ts" "sn = buildSectorTemporalSnapshot (override_sector i (Some (hint_sector input t))) ?w"
      using web(3) by (auto simp only: set_map case_prod_unfold image_iff)
    then show "branchTrend sn \<in> {Some TrendRising, Some TrendPlateau}" using flow_snapshot [OF assms(1)] by blast
  qed
  note trends = trend_split [OF this]
  have len: "length (web_sectors web) = length ?ts"
    using web(1,2) assms(1) by (metis distinct_card length_map set_map)
  have threads: "map ft_id (fr_threads r) = map fst (web_sectors web)"
    using web(3) by (auto simp: assms(3) canonicalFlow_def Let_def web_def [symmetric] sid)
  have image: "(\<lambda>t. (ft_id t, ft_energy t, ft_resonance t)) ` set (fr_threads r) = (\<lambda>h. (hint_id h, energy h, canonical_clamp01 (energy h))) ` set ?ts"
    (is "?L = ?R")
  proof -
    let ?g = "\<lambda>sec. (sector_id sec, case find (\<lambda>t. hint_id t = sector_id sec) ?ts of Some t \<Rightarrow> energy t | None \<Rightarrow> 0, resonance sec)"
    have L: "?L = (\<lambda>e. ?g (snd e)) ` set (web_sectors web)"
      by (simp add: assms(3) canonicalFlow_def Let_def web_def [symmetric] image_image case_prod_unfold)
    have g: "\<exists>h \<in> set ?ts. fst e = hint_id h \<and> ?g (snd e) = (hint_id h, energy h, canonical_clamp01 (energy h))" if mem: "e \<in> set (web_sectors web)" for e
    proof -
      obtain t where "t \<in> set ?ts" "fst e = hint_id t" "snd e = override_sector (fst e) (Some (hint_sector input t))"
        using bspec [OF web(3) mem] by (auto simp only: case_prod_unfold)
      then show ?thesis using own by (auto simp: sid)
    qed
    have "h \<in> set ?ts \<Longrightarrow> \<exists>e \<in> set (web_sectors web). ?g (snd e) = (hint_id h, energy h, canonical_clamp01 (energy h))" for h
    proof -
      assume h: "h \<in> set ?ts"
      then obtain e where e: "e \<in> set (web_sectors web)" "fst e = hint_id h" using web(2) by (metis image_iff)
      then obtain h' where "h' \<in> set ?ts" "hint_id h' = hint_id h" "?g (snd e) = (hint_id h', energy h', canonical_clamp01 (energy h'))" using g by metis
      moreover from this have "h' = h" using own h by (metis option.inject)
      ultimately show ?thesis using e(1) by blast
    qed
    then show ?thesis using g unfolding L by (auto simp only: image_iff) metis+
  qed
  have "fallingSectors s = []" "length (risingSectors s) + length (plateauSectors s) = length ?ts"
    using trends len
    by (simp_all add: assms(3,4) canonicalFlow_def Let_def web_def [symmetric] buildTemporalOrientationView_def buildSummary_def)
  moreover have "fr_options r = buildOptions (fr_temporalOrientation r)" by (simp add: assms(3) canonicalFlow_def Let_def)
  moreover have "length (buildOptions view) = 3" for view by (simp add: buildOptions_def Let_def)
  ultimately show ?thesis using image threads web(1) options_worthwhile by simp
qed

theorem canonical_flow_sound_witness:
  "fallingSectors (view_summary (fr_temporalOrientation (canonicalFlow (\<lambda>s. None) buildCanonicalInput))) = []"
proof -
  have "distinct (map hint_id (threadsHint buildCanonicalInput))" "''__proto__'' \<notin> hint_id ` set (threadsHint buildCanonicalInput)"
    by (simp_all add: buildCanonicalInput_def)
  from canonical_flow_sound [OF this refl refl] show ?thesis by blast
qed

end
