(* ===== verification/Monitor_Link.thy ===== *)
theory Monitor_Link
  imports JS_Math
begin

text \<open>
  The link of the monitor (\<open>scripts/transport/ltpClient.ts\<close>): a socket, a heartbeat interval and the
  measurement of latency. Sockets and intervals are numbered in the order of their creation; the model
  keeps the state of every socket, also of one the client has dropped, because its events still reach
  the client. Messages are typed as the file declares them, and calls of handlers, which the caller
  provides, are recorded.
\<close>

section \<open>State\<close>

datatype link_ready_state = SockConnecting | SockOpen | SockClosing | SockClosed

datatype link_request =
    ReqHello string string
  | ReqHeartbeat string rat

datatype link_reply =
    RepHelloAck string bool
  | RepHeartbeatAck string rat
  | RepOrientation "rat option" "(string \<times> rat) option"
  | RepRouteSuggestion string "string option" "rat option" "(string \<times> rat) option"
  | RepFocusSnapshot "rat option" "string option" "string option" "rat option" "rat option"
  | RepError string
  | RepUnknown

datatype handler_call =
    OnConnected
  | OnHelloAck string bool
  | OnHeartbeatAck string rat "rat option"
  | OnMessage link_reply
  | OnError string
  | OnClose

record link_config =
  lc_clientId :: string
  lc_sessionTag :: string
  lc_heartbeatIntervalMs :: rat

record link_options =
  opt_clientId :: "string option"
  opt_sessionTag :: "string option"
  opt_heartbeatIntervalMs :: "rat option"

definition link_config_of :: "link_options \<Rightarrow> link_config" where
  "link_config_of opts =
     \<lparr>lc_clientId = (case opt_clientId opts of Some s \<Rightarrow> s | None \<Rightarrow> ''ltp-focus-hud''),
      lc_sessionTag = (case opt_sessionTag opts of Some s \<Rightarrow> s | None \<Rightarrow> ''focus-hud''),
      lc_heartbeatIntervalMs = (case opt_heartbeatIntervalMs opts of Some n \<Rightarrow> n | None \<Rightarrow> 5000)\<rparr>"

record link_state =
  sockets :: "link_ready_state list"
  link_ws :: "nat option"
  intervals :: "nat list"
  next_interval :: nat
  heartbeatTimer :: "nat option"
  lastLatencyMs :: "rat option"
  sent :: "(nat \<times> link_request) list"
  calls :: "handler_call list"

definition new_link :: link_state where
  "new_link = \<lparr>sockets = [], link_ws = None, intervals = [], next_interval = 0, heartbeatTimer = None, lastLatencyMs = None, sent = [], calls = []\<rparr>"

section \<open>Operations\<close>

definition call :: "handler_call \<Rightarrow> link_state \<Rightarrow> link_state" where
  "call c st = st\<lparr>calls := calls st @ [c]\<rparr>"

definition safeSend :: "link_request \<Rightarrow> link_state \<Rightarrow> link_state" where
  "safeSend payload st =
     (case link_ws st of
        None \<Rightarrow> st
      | Some n \<Rightarrow> if sockets st ! n \<noteq> SockOpen then st else st\<lparr>sent := sent st @ [(n, payload)]\<rparr>)"

definition link_clear_timer :: "link_state \<Rightarrow> link_state" where
  "link_clear_timer st = (case heartbeatTimer st of None \<Rightarrow> st | Some t \<Rightarrow> st\<lparr>intervals := removeAll t (intervals st)\<rparr>)"

definition startHeartbeatLoop :: "link_config \<Rightarrow> rat \<Rightarrow> link_state \<Rightarrow> link_state" where
  "startHeartbeatLoop cfg now st =
     (let st1 = link_clear_timer st; t = next_interval st1;
          st2 = st1\<lparr>intervals := intervals st1 @ [t], next_interval := Suc t, heartbeatTimer := Some t\<rparr>
      in safeSend (ReqHeartbeat (lc_clientId cfg) now) st2)"

definition stopHeartbeatLoop :: "link_state \<Rightarrow> link_state" where
  "stopHeartbeatLoop st =
     (case heartbeatTimer st of None \<Rightarrow> st | Some t \<Rightarrow> (link_clear_timer st)\<lparr>heartbeatTimer := None\<rparr>)"

definition link_handleMessage :: "rat \<Rightarrow> link_reply option \<Rightarrow> link_state \<Rightarrow> link_state" where
  "link_handleMessage now parsed st =
     (case parsed of
        None \<Rightarrow> call (OnError ''Failed to parse message'') st
      | Some (RepHelloAck node accepted) \<Rightarrow> call (OnHelloAck node accepted) st
      | Some (RepHeartbeatAck client timestamp) \<Rightarrow>
          (let latencyMs = max 0 (fl (now - timestamp));
               jitterMs = map_option (\<lambda>l. \<bar>fl (latencyMs - l)\<bar>) (lastLatencyMs st)
           in call (OnHeartbeatAck client latencyMs jitterMs) (st\<lparr>lastLatencyMs := Some latencyMs\<rparr>))
      | Some (RepError m) \<Rightarrow> call (OnError m) st
      | Some RepUnknown \<Rightarrow> st
      | Some r \<Rightarrow> call (OnMessage r) st)"

definition link_connect :: "link_state \<Rightarrow> link_state" where
  "link_connect st = st\<lparr>sockets := sockets st @ [SockConnecting], link_ws := Some (length (sockets st))\<rparr>"

definition link_close_socket :: "link_ready_state \<Rightarrow> link_ready_state" where
  "link_close_socket r = (if r = SockClosed then SockClosed else SockClosing)"

definition link_disconnect :: "link_state \<Rightarrow> link_state" where
  "link_disconnect st =
     (let st1 = stopHeartbeatLoop st
      in case link_ws st1 of
           None \<Rightarrow> st1
         | Some n \<Rightarrow> st1\<lparr>sockets := (sockets st1)[n := link_close_socket (sockets st1 ! n)], link_ws := None\<rparr>)"

definition on_link_open :: "link_config \<Rightarrow> rat \<Rightarrow> link_state \<Rightarrow> link_state" where
  "on_link_open cfg now st =
     startHeartbeatLoop cfg now (safeSend (ReqHello (lc_clientId cfg) (lc_sessionTag cfg)) (call OnConnected st))"

definition on_link_close :: "link_state \<Rightarrow> link_state" where
  "on_link_close st = call OnClose (stopHeartbeatLoop st)"

section \<open>Events\<close>

datatype link_event =
    Connect
  | Disconnect
  | SocketOpen nat rat
  | SocketMessage nat rat "link_reply option"
  | SocketClose nat
  | SocketError nat
  | IntervalFires nat rat

text \<open>
  A socket opens once, from its connecting state, delivers messages while open or closing, and closes once.
  An interval fires while it is not cleared.
\<close>

definition enabled :: "link_event \<Rightarrow> link_state \<Rightarrow> bool" where
  "enabled ev st =
     (case ev of
        SocketOpen n now \<Rightarrow> n < length (sockets st) \<and> sockets st ! n = SockConnecting
      | SocketMessage n now m \<Rightarrow> n < length (sockets st) \<and> sockets st ! n \<in> {SockOpen, SockClosing}
      | SocketClose n \<Rightarrow> n < length (sockets st) \<and> sockets st ! n \<noteq> SockClosed
      | SocketError n \<Rightarrow> n < length (sockets st)
      | IntervalFires t now \<Rightarrow> t \<in> set (intervals st)
      | _ \<Rightarrow> True)"

definition link_event_step :: "link_config \<Rightarrow> link_event \<Rightarrow> link_state \<Rightarrow> link_state" where
  "link_event_step cfg ev st =
     (case ev of
        Connect \<Rightarrow> link_connect st
      | Disconnect \<Rightarrow> link_disconnect st
      | SocketOpen n now \<Rightarrow> on_link_open cfg now (st\<lparr>sockets := (sockets st)[n := SockOpen]\<rparr>)
      | SocketMessage n now m \<Rightarrow> link_handleMessage now m st
      | SocketClose n \<Rightarrow> on_link_close (st\<lparr>sockets := (sockets st)[n := SockClosed]\<rparr>)
      | SocketError n \<Rightarrow> call (OnError ''WebSocket error'') st
      | IntervalFires t now \<Rightarrow> safeSend (ReqHeartbeat (lc_clientId cfg) now) st)"

inductive link_run :: "link_config \<Rightarrow> link_event list \<Rightarrow> link_state \<Rightarrow> bool" for cfg where
  start: "link_run cfg [] new_link"
| event: "link_run cfg evs st \<Longrightarrow> enabled ev st \<Longrightarrow> link_run cfg (evs @ [ev]) (link_event_step cfg ev st)"

inductive_cases link_run_Nil: "link_run cfg [] st"

section \<open>Invariant\<close>

definition to_socket :: "nat \<Rightarrow> (nat \<times> link_request) list \<Rightarrow> link_request list" where
  "to_socket n xs = map snd (filter (\<lambda>(m, r). m = n) xs)"

definition hello_first :: "link_config \<Rightarrow> link_request list \<Rightarrow> bool" where
  "hello_first cfg rs = (case rs of [] \<Rightarrow> True | r # rest \<Rightarrow> r = ReqHello (lc_clientId cfg) (lc_sessionTag cfg))"

definition wf_link :: "link_config \<Rightarrow> link_state \<Rightarrow> bool" where
  "wf_link cfg st \<longleftrightarrow>
     intervals st = (case heartbeatTimer st of None \<Rightarrow> [] | Some t \<Rightarrow> [t]) \<and>
     (\<forall>n. link_ws st = Some n \<longrightarrow> Suc n = length (sockets st) \<and> (sockets st ! n = SockOpen \<longrightarrow> to_socket n (sent st) \<noteq> []) \<and>
        (sockets st ! n = SockConnecting \<longrightarrow> to_socket n (sent st) = [])) \<and>
     (\<forall>n. n \<ge> length (sockets st) \<longrightarrow> to_socket n (sent st) = []) \<and>
     (\<forall>n. hello_first cfg (to_socket n (sent st))) \<and>
     (\<forall>l. lastLatencyMs st = Some l \<longrightarrow> 0 \<le> l)"

lemma to_socket_simps [simp]: "to_socket n [] = []" "to_socket n (xs @ [(m, r)]) = to_socket n xs @ (if m = n then [r] else [])"
  by (simp_all add: to_socket_def)

lemma hello_first_append: "hello_first cfg rs \<Longrightarrow> rs \<noteq> [] \<Longrightarrow> hello_first cfg (rs @ [r])"
  by (auto simp: hello_first_def split: list.splits)

lemma wf_new_link: "wf_link cfg new_link"
  by (simp add: wf_link_def new_link_def hello_first_def)

lemma wf_call [simp]: "wf_link cfg (call c st) = wf_link cfg st"
  by (simp add: wf_link_def call_def)

lemma wf_stop: "wf_link cfg st \<Longrightarrow> wf_link cfg (stopHeartbeatLoop st)"
  by (auto simp: wf_link_def stopHeartbeatLoop_def link_clear_timer_def split: option.splits)

lemma wf_heartbeat: "wf_link cfg st \<Longrightarrow> wf_link cfg (safeSend (ReqHeartbeat (lc_clientId cfg) t) st)"
  by (auto simp: wf_link_def safeSend_def intro!: hello_first_append split: option.splits)

lemma wf_start_loop: "wf_link cfg st \<Longrightarrow> wf_link cfg (startHeartbeatLoop cfg now st)"
  unfolding startHeartbeatLoop_def Let_def
  by (rule wf_heartbeat) (auto simp: wf_link_def link_clear_timer_def split: option.splits)

lemma wf_open:
  assumes "wf_link cfg st" and "n < length (sockets st)" and "sockets st ! n = SockConnecting"
  shows "wf_link cfg (on_link_open cfg now (st\<lparr>sockets := (sockets st)[n := SockOpen]\<rparr>))"
  unfolding on_link_open_def
proof (rule wf_start_loop)
  show "wf_link cfg (safeSend (ReqHello (lc_clientId cfg) (lc_sessionTag cfg)) (call OnConnected (st\<lparr>sockets := (sockets st)[n := SockOpen]\<rparr>)))"
  proof (cases "link_ws st = Some n")
    case True
    then have "to_socket n (sent st) = []" using assms by (simp add: wf_link_def)
    then show ?thesis using assms True by (auto simp: wf_link_def safeSend_def call_def hello_first_def)
  next
    case False
    then show ?thesis
      using assms by (auto simp: wf_link_def safeSend_def call_def nth_list_update intro!: hello_first_append split: option.splits)
  qed
qed

lemma wf_link_step:
  assumes "wf_link cfg st" and "enabled ev st"
  shows "wf_link cfg (link_event_step cfg ev st)"
proof (cases ev)
  case Connect
  then show ?thesis using assms(1) by (auto simp: link_event_step_def link_connect_def wf_link_def nth_append)
next
  case Disconnect
  have "wf_link cfg (stopHeartbeatLoop st)" using assms(1) wf_stop by blast
  then show ?thesis
    using Disconnect by (auto simp: link_event_step_def link_disconnect_def wf_link_def Let_def split: option.splits)
next
  case (SocketOpen n now)
  then show ?thesis using assms wf_open by (simp add: link_event_step_def enabled_def)
next
  case (SocketMessage n now m)
  have "0 \<le> max 0 (fl (now - t))" for t by simp
  then show ?thesis
    using assms(1) SocketMessage
    by (auto simp: link_event_step_def link_handleMessage_def Let_def split: option.splits link_reply.splits) (simp_all add: wf_link_def)
next
  case (SocketClose n)
  have "wf_link cfg (st\<lparr>sockets := (sockets st)[n := SockClosed]\<rparr>)"
    using assms SocketClose by (auto simp: wf_link_def enabled_def nth_list_update)
  then show ?thesis using wf_stop SocketClose by (simp add: link_event_step_def on_link_close_def)
next
  case (SocketError n)
  then show ?thesis using assms by (simp add: link_event_step_def)
next
  case (IntervalFires t now)
  then show ?thesis using assms wf_heartbeat by (simp add: link_event_step_def)
qed

lemma link_run_wf: "link_run cfg evs st \<Longrightarrow> wf_link cfg st"
  by (induction rule: link_run.induct) (simp_all add: wf_new_link wf_link_step)

text \<open>Messages of a run, and the run that silences the heartbeat: the close of a dropped socket arrives after the
  next one is open and clears the interval of that one.\<close>

fun run_link_events :: "link_config \<Rightarrow> link_event list \<Rightarrow> link_state \<Rightarrow> link_state option" where
  "run_link_events cfg [] st = Some st"
| "run_link_events cfg (ev # evs) st = (if enabled ev st then run_link_events cfg evs (link_event_step cfg ev st) else None)"

lemma run_events_sound: "link_run cfg evs0 st0 \<Longrightarrow> run_link_events cfg evs st0 = Some st \<Longrightarrow> link_run cfg (evs0 @ evs) st"
proof (induction evs arbitrary: evs0 st0)
  case (Cons ev evs)
  then have "link_run cfg (evs0 @ [ev]) (link_event_step cfg ev st0)" by (auto intro: link_run.event split: if_splits)
  from Cons.IH [OF this] show ?case using Cons.prems(2) by (simp split: if_splits)
qed simp

lemmas link_eval = enabled_def link_event_step_def link_connect_def link_disconnect_def on_link_open_def on_link_close_def call_def safeSend_def
  startHeartbeatLoop_def stopHeartbeatLoop_def link_clear_timer_def link_close_socket_def new_link_def Let_def

lemma stale_close_silences:
  "\<exists>st. link_run cfg [Connect, SocketOpen 0 t, Disconnect, Connect, SocketOpen 1 t', SocketClose 0] st \<and>
     link_ws st = Some 1 \<and> sockets st ! 1 = SockOpen \<and> intervals st = []"
proof -
  let ?evs = "[Connect, SocketOpen 0 t, Disconnect, Connect, SocketOpen 1 t', SocketClose 0]"
  have "\<exists>st. run_link_events cfg ?evs new_link = Some st \<and> link_ws st = Some 1 \<and> sockets st ! 1 = SockOpen \<and> intervals st = []"
    by (simp add: link_eval)
  then show ?thesis using run_events_sound [OF link_run.start] by (metis append_Nil)
qed

lemma second_hello:
  "\<exists>st. link_run cfg [Connect, Connect, SocketOpen 1 t, SocketOpen 0 t'] st \<and>
     to_socket 1 (sent st) = [ReqHello (lc_clientId cfg) (lc_sessionTag cfg), ReqHeartbeat (lc_clientId cfg) t,
       ReqHello (lc_clientId cfg) (lc_sessionTag cfg), ReqHeartbeat (lc_clientId cfg) t']"
proof -
  let ?evs = "[Connect, Connect, SocketOpen 1 t, SocketOpen 0 t']"
  have "\<exists>st. run_link_events cfg ?evs new_link = Some st \<and>
      to_socket 1 (sent st) = [ReqHello (lc_clientId cfg) (lc_sessionTag cfg), ReqHeartbeat (lc_clientId cfg) t,
       ReqHello (lc_clientId cfg) (lc_sessionTag cfg), ReqHeartbeat (lc_clientId cfg) t']"
    by (simp add: link_eval to_socket_def)
  then show ?thesis using run_events_sound [OF link_run.start] by (metis append_Nil)
qed

section \<open>One connection\<close>

definition beats :: "link_state \<Rightarrow> bool" where
  "beats st \<longleftrightarrow> (heartbeatTimer st \<noteq> None) = (\<exists>n. link_ws st = Some n \<and> sockets st ! n = SockOpen) \<and>
     (link_ws st = None \<longrightarrow> (\<forall>r \<in> set (sockets st). r \<in> {SockClosing, SockClosed}))"

lemma sockets_count: "link_run cfg evs st \<Longrightarrow> length (sockets st) = length (filter (\<lambda>ev. ev = Connect) evs)"
  by (induction rule: link_run.induct)
    (auto simp: link_eval link_handleMessage_def split: link_event.splits option.splits link_reply.splits)

lemma link_fields:
  "sockets (call c st) = sockets st" "link_ws (call c st) = link_ws st" "heartbeatTimer (call c st) = heartbeatTimer st"
  "sockets (safeSend r st) = sockets st" "link_ws (safeSend r st) = link_ws st" "heartbeatTimer (safeSend r st) = heartbeatTimer st"
  "sockets (stopHeartbeatLoop st) = sockets st" "link_ws (stopHeartbeatLoop st) = link_ws st" "heartbeatTimer (stopHeartbeatLoop st) = None"
  "sockets (link_handleMessage now m st) = sockets st" "link_ws (link_handleMessage now m st) = link_ws st"
  "heartbeatTimer (link_handleMessage now m st) = heartbeatTimer st"
  by (simp_all add: call_def safeSend_def stopHeartbeatLoop_def link_clear_timer_def link_handleMessage_def Let_def split: option.split link_reply.split)

lemma open_fields:
  "sockets (on_link_open cfg now st) = sockets st" "link_ws (on_link_open cfg now st) = link_ws st" "heartbeatTimer (on_link_open cfg now st) \<noteq> None"
  by (simp_all add: on_link_open_def startHeartbeatLoop_def link_clear_timer_def link_fields Let_def split: option.split)

text \<open>With one connect the heartbeat runs exactly while the socket is open.\<close>

lemma beats_step:
  assumes "beats st" and "enabled ev st" and "length (sockets st) \<le> 1" and "ev = Connect \<Longrightarrow> sockets st = []"
    and "\<And>n. link_ws st = Some n \<Longrightarrow> n = 0 \<and> sockets st \<noteq> []"
  shows "beats (link_event_step cfg ev st)"
proof (cases ev)
  case Connect
  then show ?thesis using assms by (cases "link_ws st") (auto simp: link_event_step_def link_connect_def beats_def)
next
  case Disconnect
  then show ?thesis
    using assms by (cases "sockets st"; cases "link_ws st")
      (auto simp: link_event_step_def link_disconnect_def beats_def link_fields Let_def link_close_socket_def)
next
  case (SocketOpen n now)
  then have n: "n = 0" "sockets st = [SockConnecting]" using assms(2,3) by (cases "sockets st"; auto simp: enabled_def)+
  then have "link_ws st = Some 0" using assms(1,5) by (cases "link_ws st") (auto simp: beats_def)
  then show ?thesis using SocketOpen n open_fields by (simp add: link_event_step_def beats_def)
next
  case (SocketClose n)
  then have "n = 0" "\<exists>r. sockets st = [r]" using assms(2,3) by (cases "sockets st"; auto simp: enabled_def)+
  then show ?thesis using SocketClose assms(5) by (auto simp: link_event_step_def on_link_close_def beats_def link_fields)
qed (use assms in \<open>auto simp: link_event_step_def beats_def link_fields\<close>)

lemma single_connection_beats:
  assumes "link_run cfg evs st" and "length (filter (\<lambda>ev. ev = Connect) evs) \<le> 1"
  shows "beats st"
  using assms
proof (induction rule: link_run.induct)
  case start
  then show ?case by (simp add: beats_def new_link_def)
next
  case (event evs st ev)
  have c: "length (sockets st) \<le> 1" "ev = Connect \<Longrightarrow> sockets st = []" using event.prems sockets_count [OF event.hyps(1)] by auto
  have "wf_link cfg st" using event.hyps(1) by (rule link_run_wf)
  then have w: "link_ws st = Some n \<Longrightarrow> n = 0 \<and> sockets st \<noteq> []" for n using c(1) by (auto simp: wf_link_def)
  show ?case by (rule beats_step) (use event c w in auto)
qed

text \<open>C38: the link of the monitor. In every run, whatever the order of connects, disconnects and socket events:
  at most one heartbeat interval is live, and it is the one the client remembers; on every socket
  the hello comes before any heartbeat; and as long as the client has connected once only, the heartbeat
  runs exactly while its socket is open.\<close>

theorem link_sound:
  assumes "link_run cfg evs st"
  shows "length (intervals st) \<le> 1 \<and> (\<forall>t \<in> set (intervals st). heartbeatTimer st = Some t) \<and>
    (\<forall>n. hello_first cfg (to_socket n (sent st))) \<and>
    (length (filter (\<lambda>ev. ev = Connect) evs) \<le> 1 \<longrightarrow>
      (intervals st \<noteq> []) = (\<exists>n. link_ws st = Some n \<and> sockets st ! n = SockOpen))"
  using link_run_wf [OF assms] single_connection_beats [OF assms]
  by (auto simp: wf_link_def beats_def split: option.splits)

theorem link_sound_witness:
  "\<exists>st. link_run \<lparr>lc_clientId = ''hud'', lc_sessionTag = ''t'', lc_heartbeatIntervalMs = 5000\<rparr> [Connect, SocketOpen 0 7] st \<and> intervals st \<noteq> []"
proof -
  define cfg where "cfg = \<lparr>lc_clientId = ''hud'', lc_sessionTag = ''t'', lc_heartbeatIntervalMs = 5000 :: rat\<rparr>"
  have "\<exists>st. run_link_events cfg [Connect, SocketOpen 0 7] new_link = Some st \<and> link_ws st = Some 0 \<and> sockets st ! 0 = SockOpen"
    by (simp add: link_eval)
  then obtain st where st: "link_run cfg [Connect, SocketOpen 0 7] st" "link_ws st = Some 0" "sockets st ! 0 = SockOpen"
    using run_events_sound [OF link_run.start] by (metis append_Nil)
  then have "intervals st \<noteq> []" using link_sound [OF st(1)] by auto
  then show ?thesis using st(1) unfolding cfg_def by blast
qed

end
