(* ===== verification/Focus_Hud.thy ===== *)
theory Focus_Hud
  imports Monitor_Link Explain_Correct JS_Math
begin

text \<open>
  The focus monitor (\<open>scripts/monitor/ltp-focus-hud.ts\<close>, \<open>hudTheme.ts\<close>): the handlers it gives to the link,
  its bounded histories, the routing preview it shows and the line it prints. The time stamp of a line,
  \<open>Math.sin\<close> and \<open>Math.cos\<close> are parameters. Signs outside ASCII are given by their UTF-8 bytes.
\<close>

section \<open>Modes and sparkline\<close>

text \<open>The modes of the monitor (\<open>scripts/monitor/hudModes.ts\<close>) and the sparkline of \<open>scripts/shared/focusSparkline.ts\<close>.\<close>

datatype hud_mode = HudCalm | HudStorm | HudShift
datatype link_health = LinkOk | LinkWarn | LinkCrit

definition MIN_TREND_POINTS :: nat where "MIN_TREND_POINTS = 4"
definition SHIFT_AVG_THRESHOLD :: rat where "SHIFT_AVG_THRESHOLD = fl (3 / 10)"
definition STORM_VOLATILITY_THRESHOLD :: rat where "STORM_VOLATILITY_THRESHOLD = 1 / 4"
definition STORM_FLIP_THRESHOLD :: nat where "STORM_FLIP_THRESHOLD = 3"

definition focus_pairs :: "rat list \<Rightarrow> (rat \<times> rat) list" where
  "focus_pairs history = zip history (tl history)"

definition countSignFlips :: "rat list \<Rightarrow> nat" where
  "countSignFlips history =
     length (filter (\<lambda>(prev, curr). prev \<noteq> 0 \<and> curr \<noteq> 0 \<and> (prev > 0 \<and> curr < 0 \<or> prev < 0 \<and> curr > 0)) (focus_pairs history))"

definition isMonotonic :: "rat list \<Rightarrow> bool \<Rightarrow> bool" where
  "isMonotonic history up =
     (if length history < MIN_TREND_POINTS then False
      else if up then list_all (\<lambda>(prev, v). v \<ge> prev) (focus_pairs history)
      else list_all (\<lambda>(prev, v). v \<le> prev) (focus_pairs history))"

definition detectHudMode :: "rat list \<Rightarrow> link_health \<Rightarrow> hud_mode" where
  "detectHudMode history linkHealth =
     (if history = [] then HudCalm
      else let ds = map (\<lambda>(prev, v). fl (v - prev)) (focus_pairs history);
               avgAbsDelta = (if ds \<noteq> [] then fl_mean (map abs ds) else 0);
               avg = fl_mean history
           in if (isMonotonic history True \<or> isMonotonic history False) \<and> \<bar>avg\<bar> > SHIFT_AVG_THRESHOLD then HudShift
              else if avgAbsDelta > STORM_VOLATILITY_THRESHOLD \<or> countSignFlips history \<ge> STORM_FLIP_THRESHOLD \<or> linkHealth = LinkCrit
              then HudStorm else HudCalm)"

definition SPARK_BLOCKS :: "string list" where
  "SPARK_BLOCKS = map (\<lambda>b. [CHR 0xE2, CHR 0x96, b]) [CHR 0x81, CHR 0x82, CHR 0x83, CHR 0x84, CHR 0x85, CHR 0x86, CHR 0x87, CHR 0x88]"

definition spark_max :: "rat list \<Rightarrow> rat" where
  "spark_max history = (let m = Max (abs ` set history) in if m \<noteq> 0 then m else 1)"

definition spark_index :: "rat \<Rightarrow> rat \<Rightarrow> int" where
  "spark_index m v =
     (let norm = min (fl (\<bar>v\<bar> / m)) 1
      in min (int (length SPARK_BLOCKS) - 1) \<lfloor>fl (norm * of_int (int (length SPARK_BLOCKS) - 1))\<rfloor>)"

definition renderMomentumSparkline :: "rat list \<Rightarrow> string" where
  "renderMomentumSparkline history =
     (if history = [] then [] else concat (map (\<lambda>v. SPARK_BLOCKS ! nat (spark_index (spark_max history) v)) history))"

section \<open>Properties\<close>

lemma pairs_sorted: "list_all (\<lambda>(prev, v). prev \<le> v) (focus_pairs xs) \<longleftrightarrow> sorted xs"
  by (induction xs rule: induct_list012) (auto simp: focus_pairs_def intro: order_trans)

lemma pairs_antitone: "list_all (\<lambda>(prev, v). v \<le> prev) (focus_pairs xs) \<longleftrightarrow> sorted_wrt (\<ge>) xs"
  by (induction xs rule: induct_list012) (auto simp: focus_pairs_def intro: order_trans)

lemma monotonic_iff:
  "isMonotonic xs up \<longleftrightarrow> 4 \<le> length xs \<and> (if up then sorted xs else sorted_wrt (\<ge>) xs)"
  by (auto simp: isMonotonic_def MIN_TREND_POINTS_def pairs_sorted pairs_antitone)

lemma length_SPARK_BLOCKS [simp]: "length SPARK_BLOCKS = 8"
  by (simp add: SPARK_BLOCKS_def)

lemma monotone_no_flips:
  assumes "sorted xs \<or> sorted_wrt (\<ge>) xs"
  shows "countSignFlips xs \<le> 1"
proof -
  have flip: "countSignFlips (x # y # ys) = (if x > 0 \<and> y < 0 \<or> x < 0 \<and> y > 0 then 1 else 0) + countSignFlips (y # ys)" for x y ys
    by (auto simp: countSignFlips_def focus_pairs_def)
  have up: "countSignFlips (x # ys) = 0" if "0 < x" "sorted (x # ys)" for x ys
    using that by (induction ys arbitrary: x) (auto simp: flip countSignFlips_def focus_pairs_def)
  have down: "countSignFlips (x # ys) = 0" if "x < 0" "sorted_wrt (\<ge>) (x # ys)" for x ys
    using that by (induction ys arbitrary: x) (auto simp: flip countSignFlips_def focus_pairs_def)
  show ?thesis using assms
  proof (induction xs rule: induct_list012)
    case (3 x y ys)
    then show ?case using up [of y ys] down [of y ys] by (auto simp: flip)
  qed (simp_all add: countSignFlips_def focus_pairs_def)
qed

lemma spark_mono:
  assumes "0 < m" and "\<bar>v\<bar> \<le> \<bar>w\<bar>"
  shows "spark_index m v \<le> spark_index m w"
proof -
  have "fl (\<bar>v\<bar> / m) \<le> fl (\<bar>w\<bar> / m)" using assms by (intro fl_mono divide_right_mono) auto
  then have "min (fl (\<bar>v\<bar> / m)) 1 * 7 \<le> min (fl (\<bar>w\<bar> / m)) 1 * 7" by (intro mult_right_mono) (auto simp: min_def)
  from floor_mono [OF fl_mono [OF this]] show ?thesis
    unfolding spark_index_def Let_def by (intro min.mono) simp_all
qed

lemma spark_range:
  assumes "0 < m" and "\<bar>v\<bar> \<le> m"
  shows "0 \<le> spark_index m v" "spark_index m v \<le> 7" "\<bar>v\<bar> = m \<Longrightarrow> spark_index m v = 7"
proof -
  show "0 \<le> spark_index m v" using assms by (simp add: spark_index_def Let_def)
  show "spark_index m v \<le> 7" by (simp add: spark_index_def Let_def)
  have "fl 7 = 7" using fl_int [of 7] by simp
  then show "\<bar>v\<bar> = m \<Longrightarrow> spark_index m v = 7" using assms(1) by (simp add: spark_index_def Let_def)
qed

text \<open>The sparkline has one block per value, taken inside the table: larger magnitudes never get a lower
  block and the largest gets the full one, unless all values are zero.\<close>

theorem sparkline_blocks:
  assumes "history \<noteq> []" and "m = spark_max history"
  shows "length (renderMomentumSparkline history) = 3 * length history \<and>
    (\<forall>v \<in> set history. 0 \<le> spark_index m v \<and> spark_index m v \<le> 7 \<and>
       (\<forall>w \<in> set history. \<bar>v\<bar> \<le> \<bar>w\<bar> \<longrightarrow> spark_index m v \<le> spark_index m w) \<and>
       (v \<noteq> 0 \<and> (\<forall>w \<in> set history. \<bar>w\<bar> \<le> \<bar>v\<bar>) \<longrightarrow> spark_index m v = 7))"
proof -
  let ?M = "Max (abs ` set history)"
  have le: "\<bar>v\<bar> \<le> ?M" if "v \<in> set history" for v using that by simp
  have "0 \<le> ?M" using assms(1) by (metis abs_ge_zero hd_in_set le order_trans)
  then have pos: "0 < m" and ge: "?M \<le> m" by (auto simp: assms(2) spark_max_def Let_def)
  have m: "\<bar>v\<bar> \<le> m" if "v \<in> set history" for v using le [OF that] ge by linarith
  have top: "\<bar>v\<bar> = m" if "v \<in> set history" "v \<noteq> 0" "\<forall>w \<in> set history. \<bar>w\<bar> \<le> \<bar>v\<bar>" for v
  proof -
    have "?M = \<bar>v\<bar>" using that by (intro Max_eqI) auto
    then show ?thesis using that(2) by (simp add: assms(2) spark_max_def Let_def)
  qed
  have blocks: "length (SPARK_BLOCKS ! nat (spark_index m v)) = 3" if "v \<in> set history" for v
  proof -
    have "nat (spark_index m v) < length SPARK_BLOCKS" using spark_range [OF pos m [OF that]] by simp
    then have "SPARK_BLOCKS ! nat (spark_index m v) \<in> set SPARK_BLOCKS" by (rule nth_mem)
    then show ?thesis by (auto simp: SPARK_BLOCKS_def)
  qed
  have "length (renderMomentumSparkline history) = sum_list (map (\<lambda>v. length (SPARK_BLOCKS ! nat (spark_index m v))) history)"
    using assms by (simp add: renderMomentumSparkline_def length_concat comp_def)
  also have "map (\<lambda>v. length (SPARK_BLOCKS ! nat (spark_index m v))) history = map (\<lambda>v. 3) history" using blocks by simp
  also have "sum_list (map (\<lambda>v. 3 :: nat) history) = 3 * length history" by (induction history) simp_all
  finally have "length (renderMomentumSparkline history) = 3 * length history" .
  then show ?thesis using spark_range [OF pos m] spark_mono [OF pos] top by auto
qed

section \<open>Theme\<close>

definition colorizeMode :: "bool \<Rightarrow> hud_mode \<Rightarrow> string \<Rightarrow> string" where
  "colorizeMode noColor mode label =
     (if noColor then label
      else [CHR 0x1B] @ (case mode of HudStorm \<Rightarrow> ''[31m'' | HudShift \<Rightarrow> ''[33m'' | HudCalm \<Rightarrow> ''[32m'') @ label @ [CHR 0x1B] @ ''[39m'')"

definition theme_index :: "rat \<Rightarrow> rat \<Rightarrow> rat \<Rightarrow> int" where
  "theme_index lo extent v = min 7 (max 0 \<lfloor>fl (fl (fl (v - lo) / extent) * 8)\<rfloor>)"

definition renderSparkline :: "rat list \<Rightarrow> string" where
  "renderSparkline values =
     (if values = [] then []
      else let lo = Min (set values); hi = Max (set values); d = fl (hi - lo); extent = (if d \<noteq> 0 then d else 1)
           in concat (map (\<lambda>v. SPARK_BLOCKS ! nat (theme_index lo extent v)) values))"

section \<open>State\<close>

record hud_state =
  hs_linkHealth :: link_health
  hs_latencyMs :: "rat option"
  hs_jitterMs :: "rat option"
  hs_sector :: "string option"
  hs_intent :: "string option"
  hs_focusMomentum :: "rat option"
  focusMomentumHistory :: "rat list"
  routingPathHistory :: "string list"
  lastRoutingDecision :: routing_decision
  lastFocusUpdateMs :: rat
  printed :: "string list"

definition new_hud :: hud_state where
  "new_hud = \<lparr>hs_linkHealth = LinkCrit, hs_latencyMs = None, hs_jitterMs = None, hs_sector = None, hs_intent = None, hs_focusMomentum = None,
     focusMomentumHistory = [], routingPathHistory = [], lastRoutingDecision = [], lastFocusUpdateMs = 0, printed = []\<rparr>"

definition FOCUS_HISTORY_LIMIT :: nat where "FOCUS_HISTORY_LIMIT = 20"
definition ROUTING_HISTORY_LIMIT :: nat where "ROUTING_HISTORY_LIMIT = 12"

definition push_bounded :: "nat \<Rightarrow> 'a \<Rightarrow> 'a list \<Rightarrow> 'a list" where
  "push_bounded n x xs = (let ys = xs @ [x] in if length ys > n then tl ys else ys)"

definition recordFocusMomentum :: "rat option \<Rightarrow> hud_state \<Rightarrow> hud_state" where
  "recordFocusMomentum v st =
     (case v of None \<Rightarrow> st | Some x \<Rightarrow> st\<lparr>focusMomentumHistory := push_bounded FOCUS_HISTORY_LIMIT x (focusMomentumHistory st)\<rparr>)"

definition recordRoutingPath :: "string \<Rightarrow> hud_state \<Rightarrow> hud_state" where
  "recordRoutingPath v st =
     (if v = [] then st else st\<lparr>routingPathHistory := push_bounded ROUTING_HISTORY_LIMIT v (routingPathHistory st)\<rparr>)"

definition determineLinkHealth :: "rat option \<Rightarrow> rat option \<Rightarrow> link_health" where
  "determineLinkHealth latencyMs jitterMs =
     (case latencyMs of
        None \<Rightarrow> LinkCrit
      | Some l \<Rightarrow>
          if l < 80 \<and> (case jitterMs of None \<Rightarrow> True | Some j \<Rightarrow> j < 15) then LinkOk
          else if l < 200 then LinkWarn else LinkCrit)"

definition calculateVolatility :: "rat list \<Rightarrow> rat" where
  "calculateVolatility history =
     (if length history < 2 then 0
      else number_to_fixed 3 (fl_mean (map2 (\<lambda>v prev. \<bar>fl (v - prev)\<bar>) (tl history) history)))"

section \<open>Lines\<close>

definition is_slash :: "char \<Rightarrow> bool" where
  "is_slash c \<longleftrightarrow> c = CHR ''/'' \<or> c = bslash"

definition abbreviateSector :: "string \<Rightarrow> string" where
  "abbreviateSector sector =
     (let cleaned = dropWhile (\<lambda>c. c = CHR ''/'') sector;
          part = rev (takeWhile (\<lambda>c. \<not> is_slash c) (rev cleaned));
          tail = (if part \<noteq> [] then part else sector)
      in to_upper (take 3 tail))"

definition hud_arrow :: string where "hud_arrow = [CHR 0xE2, CHR 0x86, CHR 0x92]"
definition en_dash :: string where "en_dash = [CHR 0xE2, CHR 0x80, CHR 0x93]"
definition plus_minus :: string where "plus_minus = [CHR 0xC2, CHR 0xB1]"

definition renderRoutingHistoryLine :: "string list \<Rightarrow> string" where
  "renderRoutingHistoryLine history =
     (if history = [] then ''path: '' @ en_dash
      else ''path: '' @ js_join hud_arrow (map (\<lambda>sector. ''['' @ abbreviateSector sector @ '']'') history))"

definition renderRoutingPreviewBlock :: "routing_preview \<Rightarrow> string list \<Rightarrow> string" where
  "renderRoutingPreviewBlock preview paths =
     js_join [newline]
       [''[ROUTING PREVIEW]'', '' now:     '' @ rp_currentSector preview, '' next:    '' @ primaryNextSector preview,
        '' alt:     '' @ (if alternativeSectors preview \<noteq> [] then js_join '', '' (alternativeSectors preview) else en_dash),
        '' mood:    momentum='' @ js_to_fixed 2 (rp_focusMomentum preview) @ '', volatility='' @ js_to_fixed 2 (rp_volatility preview),
        '' reason:  '' @ rp_reason preview, '' '' @ renderRoutingHistoryLine paths]"

definition health_name :: "link_health \<Rightarrow> string" where
  "health_name h = (case h of LinkOk \<Rightarrow> ''OK'' | LinkWarn \<Rightarrow> ''WARN'' | LinkCrit \<Rightarrow> ''CRIT'')"

definition mode_tag :: "hud_mode \<Rightarrow> string" where
  "mode_tag mode = (case mode of HudStorm \<Rightarrow> ''STORM'' | HudShift \<Rightarrow> ''SHIFT'' | HudCalm \<Rightarrow> ''CALM'')"

definition renderFocusHudLine :: "bool \<Rightarrow> string \<Rightarrow> hud_state \<Rightarrow> hud_mode \<Rightarrow> string" where
  "renderFocusHudLine noColor timestamp st mode =
     (let hbPart = (case hs_latencyMs st of None \<Rightarrow> ''?''
                    | Some l \<Rightarrow> num_str l @ ''ms'' @ (case hs_jitterMs st of None \<Rightarrow> [] | Some j \<Rightarrow> plus_minus @ num_str j));
          named = (\<lambda>v. case v of Some s \<Rightarrow> s | None \<Rightarrow> ''?'');
          momentumPart = (case hs_focusMomentum st of None \<Rightarrow> ''?'' | Some m \<Rightarrow> (if m \<ge> 0 then ''+'' else []) @ js_to_fixed 3 m);
          spark = renderSparkline (focusMomentumHistory st)
      in ''['' @ timestamp @ ''] '' @ colorizeMode noColor mode (''mode='' @ mode_tag mode) @
         '' | vol='' @ js_to_fixed 3 (calculateVolatility (focusMomentumHistory st)) @ '' | momentum='' @ momentumPart @
         '' | graph='' @ (if spark \<noteq> [] then spark else en_dash) @ '' | link='' @ health_name (hs_linkHealth st) @ ''@'' @ hbPart @
         '' | route='' @ named (hs_sector st) @ ''/'' @ named (hs_intent st))"

record hud_config =
  showRoutingPreview :: bool
  noColor :: bool

definition hud_decision :: "hud_state \<Rightarrow> routing_decision" where
  "hud_decision st =
     (if lastRoutingDecision st \<noteq> [] then lastRoutingDecision st
      else case hs_sector st of Some s \<Rightarrow> if s \<noteq> [] then [\<lparr>do_sector = s, do_score = 1 / 2\<rparr>] else [] | None \<Rightarrow> [])"

definition hud_preview :: "hud_state \<Rightarrow> routing_preview" where
  "hud_preview st =
     buildRoutingPreview \<lparr>fs_sector = hs_sector st, fs_focusMomentum = hs_focusMomentum st\<rparr> (hud_decision st)
       (calculateVolatility (focusMomentumHistory st))"

definition renderAndReport :: "hud_config \<Rightarrow> string \<Rightarrow> hud_state \<Rightarrow> hud_state" where
  "renderAndReport cfg timestamp st =
     (let mode = detectHudMode (focusMomentumHistory st) (hs_linkHealth st);
          st1 = st\<lparr>printed := printed st @ [renderFocusHudLine (noColor cfg) timestamp st mode]\<rparr>
      in if showRoutingPreview cfg \<and> hud_decision st1 \<noteq> [] then
           let preview = hud_preview st1; st2 = recordRoutingPath (primaryNextSector preview) st1
           in st2\<lparr>printed := printed st2 @ [renderRoutingPreviewBlock preview (routingPathHistory st2)]\<rparr>
         else st1)"

section \<open>Handlers\<close>

definition extractIntentFromOrientation :: "string \<times> rat \<Rightarrow> string option" where
  "extractIntentFromOrientation t = (if fst t \<noteq> [] then Some (fst t @ ''@'' @ num_str (snd t)) else None)"

definition updateRoutingDecisionFromSuggestion :: "string \<Rightarrow> hud_state \<Rightarrow> hud_state" where
  "updateRoutingDecisionFromSuggestion suggested st =
     (let opts1 = [\<lparr>do_sector = suggested, do_score = 1\<rparr>] @
            (case hs_sector st of Some s \<Rightarrow> if s \<noteq> [] \<and> s \<noteq> suggested then [\<lparr>do_sector = s, do_score = fl (65 / 100)\<rparr>] else [] | None \<Rightarrow> []);
          opts2 = (if routingPathHistory st = [] then opts1
                   else let previous = last (routingPathHistory st)
                        in if previous \<noteq> [] \<and> \<not> list_ex (\<lambda>p. do_sector p = previous) opts1
                           then opts1 @ [\<lparr>do_sector = previous, do_score = fl (45 / 100)\<rparr>] else opts1)
      in st\<lparr>lastRoutingDecision := opts2\<rparr>)"

definition set_link :: "rat option \<Rightarrow> rat option \<Rightarrow> hud_state \<Rightarrow> hud_state" where
  "set_link latency jitter st =
     (let l = map_option math_round latency; j = map_option math_round jitter
      in st\<lparr>hs_latencyMs := l, hs_jitterMs := j, hs_linkHealth := determineLinkHealth l j\<rparr>)"

definition onOrientation :: "rat \<Rightarrow> rat option \<Rightarrow> (string \<times> rat) option \<Rightarrow> hud_state \<Rightarrow> hud_state" where
  "onOrientation now fm orientation st =
     (let m = or_else fm (hs_focusMomentum st); st1 = recordFocusMomentum m (st\<lparr>hs_focusMomentum := m\<rparr>)
      in st1\<lparr>hs_intent := (case orientation of Some t \<Rightarrow> extractIntentFromOrientation t | None \<Rightarrow> hs_intent st1), lastFocusUpdateMs := now\<rparr>)"

definition onFocusSnapshot :: "rat \<Rightarrow> rat option \<Rightarrow> string option \<Rightarrow> string option \<Rightarrow> rat option \<Rightarrow> rat option \<Rightarrow> hud_state \<Rightarrow> hud_state" where
  "onFocusSnapshot now fm sector intent latency jitter st =
     (let m = or_else fm (hs_focusMomentum st); st1 = recordFocusMomentum m (st\<lparr>hs_focusMomentum := m\<rparr>);
          st2 = st1\<lparr>hs_sector := or_else sector (hs_sector st1), hs_intent := or_else intent (hs_intent st1)\<rparr>
      in (set_link (or_else latency (hs_latencyMs st2)) (or_else jitter (hs_jitterMs st2)) st2)\<lparr>lastFocusUpdateMs := now\<rparr>)"

definition onRouteSuggestion :: "rat \<Rightarrow> string \<Rightarrow> string option \<Rightarrow> rat option \<Rightarrow> (string \<times> rat) option \<Rightarrow> hud_state \<Rightarrow> hud_state" where
  "onRouteSuggestion now sector reason fm orientation st =
     (let st1 = (updateRoutingDecisionFromSuggestion sector st)\<lparr>hs_sector := Some sector, hs_intent := or_else reason (hs_intent st)\<rparr>;
          st2 = (case fm of None \<Rightarrow> st1
                 | Some m \<Rightarrow> (recordFocusMomentum (Some m) (st1\<lparr>hs_focusMomentum := Some m\<rparr>))\<lparr>lastFocusUpdateMs := now\<rparr>)
      in if (case hs_intent st2 of None \<Rightarrow> True | Some i \<Rightarrow> i = []) \<and> orientation \<noteq> None
         then st2\<lparr>hs_intent := extractIntentFromOrientation (the orientation)\<rparr> else st2)"

text \<open>What the handlers do with a call of the link; calls that only print a notice change nothing here.\<close>

definition hud_handle :: "hud_config \<Rightarrow> rat \<Rightarrow> string \<Rightarrow> handler_call \<Rightarrow> hud_state \<Rightarrow> hud_state" where
  "hud_handle cfg now stamp c st =
     (case c of
        OnHeartbeatAck client latency jitter \<Rightarrow> renderAndReport cfg stamp (set_link (Some latency) jitter st)
      | OnMessage (RepOrientation fm t) \<Rightarrow> renderAndReport cfg stamp (onOrientation now fm t st)
      | OnMessage (RepFocusSnapshot fm sector intent latency jitter) \<Rightarrow>
          renderAndReport cfg stamp (onFocusSnapshot now fm sector intent latency jitter st)
      | OnMessage (RepRouteSuggestion sector reason fm t) \<Rightarrow> renderAndReport cfg stamp (onRouteSuggestion now sector reason fm t st)
      | _ \<Rightarrow> st)"

definition simulateFocusMomentum :: "(rat \<Rightarrow> rat) \<Rightarrow> (rat \<Rightarrow> rat) \<Rightarrow> rat \<Rightarrow> rat" where
  "simulateFocusMomentum sin_js cos_js now =
     number_to_fixed 2 (fl (fl (sin_js (fl (now / 5000)) * fl (4 / 5)) + fl (cos_js (fl (now / 12000)) * fl (3 / 20))))"

definition hud_tick :: "(rat \<Rightarrow> rat) \<Rightarrow> (rat \<Rightarrow> rat) \<Rightarrow> hud_config \<Rightarrow> rat \<Rightarrow> string \<Rightarrow> hud_state \<Rightarrow> hud_state" where
  "hud_tick sin_js cos_js cfg now stamp st =
     (if fl (now - lastFocusUpdateMs st) > 10000 then
        let simulated = simulateFocusMomentum sin_js cos_js now
        in renderAndReport cfg stamp (recordFocusMomentum (Some simulated) (st\<lparr>hs_focusMomentum := Some simulated\<rparr>))
      else st)"

section \<open>Properties\<close>

text \<open>Steps of the monitor: a call of the link or a tick of its own interval.\<close>

datatype hud_event = LinkCall rat string handler_call | HudTick rat string

definition hud_step :: "(rat \<Rightarrow> rat) \<Rightarrow> (rat \<Rightarrow> rat) \<Rightarrow> hud_config \<Rightarrow> hud_event \<Rightarrow> hud_state \<Rightarrow> hud_state" where
  "hud_step sin_js cos_js cfg ev st =
     (case ev of LinkCall now stamp c \<Rightarrow> hud_handle cfg now stamp c st | HudTick now stamp \<Rightarrow> hud_tick sin_js cos_js cfg now stamp st)"

definition wf_hud :: "hud_state \<Rightarrow> bool" where
  "wf_hud st \<longleftrightarrow> length (focusMomentumHistory st) \<le> 20 \<and> length (routingPathHistory st) \<le> 12 \<and>
     hs_linkHealth st = determineLinkHealth (hs_latencyMs st) (hs_jitterMs st) \<and>
     distinct (map do_sector (lastRoutingDecision st)) \<and> length (lastRoutingDecision st) \<le> 3 \<and>
     (lastRoutingDecision st \<noteq> [] \<longrightarrow> do_score (hd (lastRoutingDecision st)) = 1 \<and> (\<forall>p \<in> set (tl (lastRoutingDecision st)). do_score p < 1))"

lemma push_bounded_length: "length xs \<le> n \<Longrightarrow> length (push_bounded n x xs) \<le> n"
  by (simp add: push_bounded_def Let_def)

lemma wf_record_focus: "wf_hud st \<Longrightarrow> wf_hud (recordFocusMomentum v st)"
  by (auto simp: wf_hud_def recordFocusMomentum_def FOCUS_HISTORY_LIMIT_def push_bounded_length split: option.split)

lemma wf_record_path: "wf_hud st \<Longrightarrow> wf_hud (recordRoutingPath v st)"
  by (auto simp: wf_hud_def recordRoutingPath_def ROUTING_HISTORY_LIMIT_def push_bounded_length)

lemma wf_render: "wf_hud st \<Longrightarrow> wf_hud (renderAndReport cfg stamp st)"
proof -
  assume w: "wf_hud st"
  have p: "wf_hud (s\<lparr>printed := ls\<rparr>) = wf_hud s" for s ls by (simp add: wf_hud_def)
  show ?thesis using w by (simp add: renderAndReport_def Let_def p wf_record_path)
qed

lemma fraction_scores: "fl (65 / 100) < 1" "fl (45 / 100) < 1"
proof -
  have d: "fl (3 / 4) = 3 / 4" using fl_exact [of 3 "- 2"] by (simp add: power_int_minus inverse_eq_divide)
  show "fl (65 / 100) < 1" "fl (45 / 100) < 1" using fl_le [OF _ d, of "65 / 100"] fl_le [OF _ d, of "45 / 100"] by simp_all
qed

lemma wf_suggestion: "wf_hud st \<Longrightarrow> wf_hud (updateRoutingDecisionFromSuggestion sector st)"
  using fraction_scores
  by (auto simp: wf_hud_def updateRoutingDecisionFromSuggestion_def Let_def split: option.split)

lemma wf_set_link: "wf_hud st \<Longrightarrow> wf_hud (set_link l j st)"
  by (simp add: wf_hud_def set_link_def Let_def)

lemma wf_plain: "wf_hud (st\<lparr>hs_focusMomentum := m\<rparr>) = wf_hud st" "wf_hud (st\<lparr>hs_intent := i\<rparr>) = wf_hud st"
  "wf_hud (st\<lparr>hs_sector := s\<rparr>) = wf_hud st" "wf_hud (st\<lparr>lastFocusUpdateMs := t\<rparr>) = wf_hud st"
  by (simp_all add: wf_hud_def)

lemma wf_hud_step: "wf_hud st \<Longrightarrow> wf_hud (hud_step sin_js cos_js cfg ev st)"
  by (auto simp: hud_step_def hud_handle_def hud_tick_def onOrientation_def onFocusSnapshot_def onRouteSuggestion_def Let_def wf_plain
      intro!: wf_render wf_record_focus wf_suggestion wf_set_link split: hud_event.split handler_call.split link_reply.split option.split)

text \<open>The preview shown after a route suggestion leads to the suggested sector.\<close>

lemma preview_follows:
  assumes "lastRoutingDecision st \<noteq> []" and "wf_hud st"
  shows "primaryNextSector (hud_preview st) = do_sector (hd (lastRoutingDecision st))"
proof -
  let ?ds = "lastRoutingDecision st"
  have d: "hud_decision st = ?ds" using assms(1) by (simp add: hud_decision_def)
  obtain p where p: "p \<in> set ?ds" "primaryNextSector (hud_preview st) = do_sector p" "\<forall>x \<in> set ?ds. do_score x \<le> do_score p"
    using preview_primary [of "hud_decision st"] assms(1) by (metis d hud_preview_def)
  have "do_score (hd ?ds) = 1" "\<forall>q \<in> set (tl ?ds). do_score q < 1" using assms by (auto simp: wf_hud_def)
  then have "p = hd ?ds" using p(1,3) assms(1) by (cases ?ds) fastforce+
  then show ?thesis using p(2) by simp
qed

text \<open>The focus monitor. In every run of the monitor, whatever the link reports and however its own interval
  falls in between: the histories keep their limits, the health shown agrees with latency and jitter
  shown, and a route suggestion is followed: the next preview leads to the suggested sector.\<close>

theorem hud_run_sound:
  assumes "st = fold (hud_step sin_js cos_js cfg) evs new_hud"
  shows "length (focusMomentumHistory st) \<le> 20 \<and> length (routingPathHistory st) \<le> 12 \<and>
    hs_linkHealth st = determineLinkHealth (hs_latencyMs st) (hs_jitterMs st) \<and>
    primaryNextSector (hud_preview (onRouteSuggestion now sector reason fm t st)) = sector"
proof -
  have "wf_hud new_hud" by (simp add: wf_hud_def new_hud_def determineLinkHealth_def)
  then have "wf_hud (fold (hud_step sin_js cos_js cfg) evs s)" if "wf_hud s" for s
    using that by (induction evs arbitrary: s) (simp_all add: wf_hud_step)
  then have w: "wf_hud st" using \<open>wf_hud new_hud\<close> by (simp add: assms)
  let ?st = "onRouteSuggestion now sector reason fm t st"
  have "lastRoutingDecision ?st = lastRoutingDecision (updateRoutingDecisionFromSuggestion sector st)"
    by (simp add: onRouteSuggestion_def recordFocusMomentum_def Let_def split: option.split)
  then have "lastRoutingDecision ?st \<noteq> []" "do_sector (hd (lastRoutingDecision ?st)) = sector"
    by (simp_all add: updateRoutingDecisionFromSuggestion_def Let_def)
  moreover have "wf_hud ?st"
    using w by (auto simp: onRouteSuggestion_def Let_def wf_plain intro!: wf_record_focus wf_suggestion split: option.split)
  ultimately show ?thesis using w preview_follows [of ?st] by (simp add: wf_hud_def)
qed

theorem hud_run_sound_witness:
  "primaryNextSector (hud_preview (onRouteSuggestion 0 ''rest'' None None None
     (fold (hud_step (\<lambda>x. 0) (\<lambda>x. 0) \<lparr>showRoutingPreview = True, noColor = True\<rparr>) [HudTick 20000 ''t''] new_hud))) = ''rest''"
  using hud_run_sound [OF refl] by blast

end
