(* ===== verification/Dev_Console.thy ===== *)
theory Dev_Console
  imports Focus_Hud
begin

text \<open>
  The developer console (\<open>scripts/dev/ltp-node-demo.ts\<close>, \<open>utils/consoleColors.ts\<close>) and the gateway
  (\<open>scripts/gateway/ltp-node-gateway.ts\<close>). The console keeps a snapshot of the link, sends orientations in
  three phases and judges the health of the link by the age of the last heartbeat; its messages are
  typed as the file declares them. \<open>new Date(ms).toISOString()\<close> throws for a time outside the range of
  dates, and what it prints is a parameter of the gateway; the console reads its own stamps back, so that
  the model keeps their milliseconds.
\<close>

section \<open>Colours\<close>

datatype node_health = NodeOk | NodeWarn | NodeCritical

definition ansi :: "string \<Rightarrow> string \<Rightarrow> string" where
  "ansi code label = [CHR 0x1B] @ code @ label @ [CHR 0x1B] @ ''[0m''"

definition colorByHealth :: "node_health option \<Rightarrow> string \<Rightarrow> string" where
  "colorByHealth health label =
     (case health of Some NodeOk \<Rightarrow> ansi ''[32m'' label | Some NodeWarn \<Rightarrow> ansi ''[33m'' label
      | Some NodeCritical \<Rightarrow> ansi ''[31m'' label | None \<Rightarrow> label)"

definition formatHealthTag :: "node_health option \<Rightarrow> string" where
  "formatHealthTag health =
     colorByHealth health (case health of Some NodeOk \<Rightarrow> ''[OK]'' | Some NodeWarn \<Rightarrow> ''[WARN]'' | Some NodeCritical \<Rightarrow> ''[CRIT]'' | None \<Rightarrow> ''[?]'')"

section \<open>State\<close>

datatype focus_trend = FocusRising | FocusFalling | FocusStable | FocusUnknown

record node_routing =
  nr_intent :: string
  nr_suggestedSector :: string
  nr_reason :: "string option"
  nr_focus :: "rat option"
  nr_orientation :: "(string \<times> rat) option"

record console_state =
  cs_connected :: bool
  cs_nodeId :: "string option"
  lastHeartbeatAck :: "rat option"
  lastHeartbeatAt :: "int option"
  hb_latencyMs :: "rat option"
  hb_jitterMs :: "rat option"
  cs_orientation :: "(string \<times> rat) option"
  cs_depthScore :: "rat option"
  cs_focus :: "(rat option \<times> focus_trend) option"
  cs_routing :: "node_routing option"
  cs_linkHealth :: node_health
  momentumHistory :: "rat list"
  orientationIndex :: nat
  live_intervals :: "nat list"
  interval_count :: nat
  heartbeatInterval :: "nat option"
  orientationInterval :: "nat option"
  routeInterval :: "nat option"
  healthCheckInterval :: "nat option"
  outbox :: "(string \<times> string option) list"
  ws_open :: bool

definition new_console :: console_state where
  "new_console = \<lparr>cs_connected = False, cs_nodeId = None, lastHeartbeatAck = None, lastHeartbeatAt = None, hb_latencyMs = None, hb_jitterMs = None,
     cs_orientation = None, cs_depthScore = None, cs_focus = None, cs_routing = None, cs_linkHealth = NodeCritical, momentumHistory = [],
     orientationIndex = 0, live_intervals = [], interval_count = 0, heartbeatInterval = None, orientationInterval = None, routeInterval = None,
     healthCheckInterval = None, outbox = [], ws_open = True\<rparr>"

definition CONSOLE_HISTORY_LIMIT :: nat where "CONSOLE_HISTORY_LIMIT = 16"
definition HEALTH_OK_THRESHOLD_MS :: rat where "HEALTH_OK_THRESHOLD_MS = 10000"
definition HEALTH_WARN_THRESHOLD_MS :: rat where "HEALTH_WARN_THRESHOLD_MS = 25000"

section \<open>Snapshot\<close>

definition console_recordFocus :: "rat option \<Rightarrow> console_state \<Rightarrow> console_state" where
  "console_recordFocus v st =
     (case v of None \<Rightarrow> st | Some x \<Rightarrow> st\<lparr>momentumHistory := push_bounded CONSOLE_HISTORY_LIMIT x (momentumHistory st)\<rparr>)"

definition computeDepthScore :: "rat option \<Rightarrow> (string \<times> rat) option \<Rightarrow> rat" where
  "computeDepthScore focusMomentum orientation =
     (let fm = (case focusMomentum of Some m \<Rightarrow> m | None \<Rightarrow> 0); str = (case orientation of Some t \<Rightarrow> snd t | None \<Rightarrow> 0);
          blend = fl (fl (fm * 4) + fl (str * 3))
      in min 5 (max 0 (math_round blend)))"

definition computeFocusTrend :: "rat option \<Rightarrow> focus_trend" where
  "computeFocusTrend focusMomentum =
     (case focusMomentum of None \<Rightarrow> FocusUnknown
      | Some m \<Rightarrow> if m \<ge> 3 / 4 then FocusRising else if m \<ge> fl (45 / 100) then FocusStable else FocusFalling)"

definition describeDepth :: "rat option \<Rightarrow> string" where
  "describeDepth d =
     (case d of None \<Rightarrow> ''n/a''
      | Some x \<Rightarrow> num_str x @ (if x \<ge> 4 then '' (multi-branch)'' else if x \<ge> 2 then '' (stable)'' else '' (shallow)''))"

definition updateOrientationSnapshot :: "rat option \<Rightarrow> (string \<times> rat) option \<Rightarrow> console_state \<Rightarrow> console_state" where
  "updateOrientationSnapshot focusMomentum orientation st =
     (console_recordFocus focusMomentum st)\<lparr>cs_focus := Some (focusMomentum, computeFocusTrend focusMomentum),
       cs_orientation := orientation, cs_depthScore := Some (computeDepthScore focusMomentum orientation)\<rparr>"

definition updateRoutingSnapshot :: "string \<Rightarrow> string option \<Rightarrow> rat option \<Rightarrow> (string \<times> rat) option \<Rightarrow> console_state \<Rightarrow> console_state" where
  "updateRoutingSnapshot sector reason fm orientation st =
     console_recordFocus fm
       (st\<lparr>cs_routing := Some \<lparr>nr_intent = (case cs_routing st of Some r \<Rightarrow> nr_intent r | None \<Rightarrow> ''router.intent''),
          nr_suggestedSector = sector, nr_reason = reason, nr_focus = fm, nr_orientation = orientation\<rparr>\<rparr>)"

text \<open>The time value of a date: truncated to milliseconds, within a hundred million days.\<close>

definition time_clip :: "rat \<Rightarrow> int option" where
  "time_clip t = (if \<bar>t\<bar> > 8640000000000000 then None else Some (if t \<ge> 0 then \<lfloor>t\<rfloor> else \<lceil>t\<rceil>))"

definition recordHeartbeat :: "rat \<Rightarrow> rat \<Rightarrow> console_state \<Rightarrow> console_state \<times> bool" where
  "recordHeartbeat now timestampMs st =
     (let latencyMs = max 0 (fl (now - timestampMs));
          jitterMs = map_option (\<lambda>l. \<bar>fl (latencyMs - l)\<bar>) (hb_latencyMs st);
          st1 = st\<lparr>lastHeartbeatAck := Some timestampMs\<rparr>
      in case time_clip timestampMs of
           None \<Rightarrow> (st1, False)
         | Some t \<Rightarrow> (st1\<lparr>lastHeartbeatAt := Some t, hb_latencyMs := Some latencyMs, hb_jitterMs := jitterMs, cs_linkHealth := NodeOk\<rparr>, True))"

definition node_determineLinkHealth :: "int option \<Rightarrow> rat \<Rightarrow> node_health" where
  "node_determineLinkHealth lastAt nowMs =
     (case lastAt of None \<Rightarrow> NodeCritical
      | Some t \<Rightarrow>
          (let elapsedMs = fl (nowMs - of_int t)
           in if elapsedMs < HEALTH_OK_THRESHOLD_MS then NodeOk
              else if elapsedMs < HEALTH_WARN_THRESHOLD_MS then NodeWarn else NodeCritical))"

definition evaluateLinkHealth :: "rat \<Rightarrow> console_state \<Rightarrow> console_state" where
  "evaluateLinkHealth nowMs st =
     (let nextHealth = node_determineLinkHealth (lastHeartbeatAt st) nowMs
      in if nextHealth = cs_linkHealth st then st else st\<lparr>cs_linkHealth := nextHealth\<rparr>)"

section \<open>Sending and intervals\<close>

text \<open>A message is its type and the sector hinted at; it is lost when the socket is not open.\<close>

definition console_sendMessage :: "string \<Rightarrow> string option \<Rightarrow> console_state \<Rightarrow> console_state" where
  "console_sendMessage type hint st = (if ws_open st then st\<lparr>outbox := outbox st @ [(type, hint)]\<rparr> else st)"

definition hinted_sector :: "console_state \<Rightarrow> string option" where
  "hinted_sector st = map_option nr_suggestedSector (cs_routing st)"

definition orientationPhases :: "(rat \<times> string \<times> rat) list" where
  "orientationPhases = [(fl (2 / 5), ''present'', 1 / 2), (fl (4 / 5), ''future'', fl (4 / 5)), (fl (3 / 10), ''past'', fl (7 / 10))]"

definition sendOrientationAndRoute :: "console_state \<Rightarrow> console_state" where
  "sendOrientationAndRoute st =
     (let (fm, direction, str) = orientationPhases ! (orientationIndex st mod length orientationPhases);
          st1 = console_sendMessage ''orientation'' None (st\<lparr>orientationIndex := orientationIndex st + 1\<rparr>);
          st2 = updateOrientationSnapshot (Some fm) (Some (direction, str)) st1
      in console_sendMessage ''route_request'' (hinted_sector st2) st2)"

definition set_interval :: "console_state \<Rightarrow> console_state \<times> nat" where
  "set_interval st = (st\<lparr>live_intervals := live_intervals st @ [interval_count st], interval_count := Suc (interval_count st)\<rparr>, interval_count st)"

definition console_startHeartbeat :: "console_state \<Rightarrow> console_state" where
  "console_startHeartbeat st = (let (st1, i) = set_interval st in st1\<lparr>heartbeatInterval := Some i\<rparr>)"

definition startOrientationLoop :: "console_state \<Rightarrow> console_state" where
  "startOrientationLoop st = (let (st1, i) = set_interval (sendOrientationAndRoute st) in st1\<lparr>orientationInterval := Some i\<rparr>)"

definition startRouteLoopFallback :: "console_state \<Rightarrow> console_state" where
  "startRouteLoopFallback st = (let (st1, i) = set_interval st in st1\<lparr>routeInterval := Some i\<rparr>)"

definition startHealthMonitor :: "rat \<Rightarrow> console_state \<Rightarrow> console_state" where
  "startHealthMonitor now st = (let (st1, i) = set_interval (evaluateLinkHealth now st) in st1\<lparr>healthCheckInterval := Some i\<rparr>)"

definition clear_interval :: "nat option \<Rightarrow> console_state \<Rightarrow> console_state" where
  "clear_interval h st = (case h of None \<Rightarrow> st | Some i \<Rightarrow> st\<lparr>live_intervals := removeAll i (live_intervals st)\<rparr>)"

definition stopLoops :: "console_state \<Rightarrow> console_state" where
  "stopLoops st =
     clear_interval (healthCheckInterval st) (clear_interval (routeInterval st) (clear_interval (orientationInterval st)
       (clear_interval (heartbeatInterval st) st)))"

section \<open>Messages\<close>

datatype node_message =
    NodeHelloAck string bool
  | NodeHeartbeatAck string rat
  | NodeRouteSuggestion string "string option" "rat option" "(string \<times> rat) option"
  | NodeError string
  | NodeOther

definition on_node_open :: "console_state \<Rightarrow> console_state" where
  "on_node_open st = console_sendMessage ''hello'' None st"

text \<open>What is not JSON, or throws on the way, is reported and leaves the state as it is by then.\<close>

definition on_node_message :: "rat \<Rightarrow> node_message option \<Rightarrow> console_state \<Rightarrow> console_state" where
  "on_node_message now parsed st =
     (case parsed of
        Some (NodeHelloAck node accepted) \<Rightarrow>
          if accepted
          then startHealthMonitor now (startRouteLoopFallback (startOrientationLoop (console_startHeartbeat (st\<lparr>cs_connected := True, cs_nodeId := Some node\<rparr>))))
          else st\<lparr>ws_open := False\<rparr>
      | Some (NodeHeartbeatAck client timestamp) \<Rightarrow>
          (case recordHeartbeat now timestamp st of (st1, ok) \<Rightarrow> if ok then evaluateLinkHealth now st1 else st1)
      | Some (NodeRouteSuggestion sector reason fm orientation) \<Rightarrow> updateRoutingSnapshot sector reason fm orientation st
      | _ \<Rightarrow> st)"

section \<open>Gateway\<close>

definition mapToFocusSnapshotEnvelope :: "(int \<Rightarrow> string) \<Rightarrow> string \<Rightarrow> jsval \<Rightarrow> (string \<times> jsval) option result" where
  "mapToFocusSnapshotEnvelope iso_date now raw =
     (if \<not> truthy raw \<or> typeof raw \<noteq> ''object'' \<or> pget raw ''type'' \<noteq> JStr ''focus_snapshot'' then Inr None
      else case pget raw ''timestamp'' of
             JStr s \<Rightarrow> Inr (Some (s, raw))
           | JNum t \<Rightarrow> (case time_clip t of Some ms \<Rightarrow> Inr (Some (iso_date ms, raw)) | None \<Rightarrow> Inl ''Invalid time value'')
           | _ \<Rightarrow> Inr (Some (now, raw)))"

definition backoff :: "rat list" where "backoff = [1000, 2000, 5000, 10000]"

record gateway_state =
  gw_attempt :: nat
  gw_delays :: "rat list"
  gw_forwarded :: "(string \<times> jsval) list"
  hud_open :: bool

datatype gateway_event = UpstreamOpen | UpstreamText string string | UpstreamClose | HudOpen | HudClose

definition upstream_message :: "(int \<Rightarrow> string) \<Rightarrow> string \<Rightarrow> string \<Rightarrow> gateway_state \<Rightarrow> gateway_state result" where
  "upstream_message iso_date now payload st =
     bindr (mapToFocusSnapshotEnvelope iso_date now (case json_parse payload of Some JNull \<Rightarrow> JObj [] | Some v \<Rightarrow> v | None \<Rightarrow> JObj []))
       (\<lambda>e. Inr (case e of None \<Rightarrow> st | Some env \<Rightarrow> if hud_open st then st\<lparr>gw_forwarded := gw_forwarded st @ [env]\<rparr> else st))"

definition gateway_step :: "(int \<Rightarrow> string) \<Rightarrow> gateway_event \<Rightarrow> gateway_state \<Rightarrow> gateway_state result" where
  "gateway_step iso_date ev st =
     (case ev of
        UpstreamOpen \<Rightarrow> Inr (st\<lparr>gw_attempt := 0\<rparr>)
      | UpstreamText now payload \<Rightarrow> upstream_message iso_date now payload st
      | UpstreamClose \<Rightarrow> Inr (st\<lparr>gw_delays := gw_delays st @ [backoff ! min (length backoff - 1) (gw_attempt st)], gw_attempt := gw_attempt st + 1\<rparr>)
      | HudOpen \<Rightarrow> Inr (st\<lparr>hud_open := True\<rparr>)
      | HudClose \<Rightarrow> Inr (st\<lparr>hud_open := False\<rparr>))"

section \<open>Runs of the console\<close>

datatype console_event =
    NodeOpen
  | NodeMessage rat "node_message option"
  | HealthTick rat
  | OrientationTick
  | RouteTick
  | HeartbeatTick

definition console_step :: "console_event \<Rightarrow> console_state \<Rightarrow> console_state" where
  "console_step ev st =
     (case ev of
        NodeOpen \<Rightarrow> on_node_open st
      | NodeMessage now m \<Rightarrow> on_node_message now m st
      | HealthTick now \<Rightarrow> evaluateLinkHealth now st
      | OrientationTick \<Rightarrow> sendOrientationAndRoute st
      | RouteTick \<Rightarrow> console_sendMessage ''route_request'' (hinted_sector st) st
      | HeartbeatTick \<Rightarrow> console_sendMessage ''heartbeat'' None st)"

definition accepts :: "console_event \<Rightarrow> bool" where
  "accepts ev = (case ev of NodeMessage now (Some (NodeHelloAck node accepted)) \<Rightarrow> accepted | _ \<Rightarrow> False)"

definition handles :: "console_state \<Rightarrow> nat option list" where
  "handles st = [heartbeatInterval st, orientationInterval st, routeInterval st, healthCheckInterval st]"

definition wf_console :: "console_state \<Rightarrow> bool" where
  "wf_console st \<longleftrightarrow> length (momentumHistory st) \<le> 16 \<and> (\<forall>d. cs_depthScore st = Some d \<longrightarrow> 0 \<le> d \<and> d \<le> 5)"

lemma depth_bounds: "0 \<le> computeDepthScore m t" "computeDepthScore m t \<le> 5"
  by (simp_all add: computeDepthScore_def Let_def)

lemma wf_focus: "wf_console st \<Longrightarrow> wf_console (console_recordFocus v st)"
  by (auto simp: wf_console_def console_recordFocus_def CONSOLE_HISTORY_LIMIT_def push_bounded_length split: option.split)

lemma wf_orientation: "wf_console st \<Longrightarrow> wf_console (updateOrientationSnapshot m t st)"
  using wf_focus [of st m] depth_bounds by (simp add: wf_console_def updateOrientationSnapshot_def)

lemma wf_send [simp]: "wf_console (console_sendMessage k h st) = wf_console st"
  by (simp add: wf_console_def console_sendMessage_def)

lemma wf_console_fields:
  "wf_console (st\<lparr>orientationIndex := n\<rparr>) = wf_console st" "wf_console (fst (set_interval st)) = wf_console st"
  "wf_console (evaluateLinkHealth now st) = wf_console st"
  by (simp_all add: wf_console_def set_interval_def evaluateLinkHealth_def Let_def)

lemma wf_route_orientation: "wf_console st \<Longrightarrow> wf_console (sendOrientationAndRoute st)"
  by (auto simp: sendOrientationAndRoute_def Let_def wf_console_fields intro!: wf_orientation split: prod.split)

lemma wf_console_step: "wf_console st \<Longrightarrow> wf_console (console_step ev st)"
proof (cases ev)
  case (NodeMessage now m)
  moreover assume w: "wf_console st"
  moreover have "wf_console (startHealthMonitor now (startRouteLoopFallback (startOrientationLoop (console_startHeartbeat (st\<lparr>cs_connected := True, cs_nodeId := n\<rparr>)))))" for n
  proof -
    have "wf_console (console_startHeartbeat (st\<lparr>cs_connected := True, cs_nodeId := n\<rparr>))"
      using w by (simp add: console_startHeartbeat_def set_interval_def wf_console_def)
    then have "wf_console (startOrientationLoop (console_startHeartbeat (st\<lparr>cs_connected := True, cs_nodeId := n\<rparr>)))"
      unfolding startOrientationLoop_def set_interval_def Let_def by (drule_tac wf_route_orientation) (simp add: wf_console_def)
    then show ?thesis by (simp add: startHealthMonitor_def startRouteLoopFallback_def set_interval_def evaluateLinkHealth_def wf_console_def Let_def)
  qed
  moreover have "wf_console (fst (recordHeartbeat now t st))" for t
    using w by (simp add: recordHeartbeat_def Let_def wf_console_def split: option.split)
  moreover have "wf_console (updateRoutingSnapshot sec rs fm t st)" for sec rs fm t
    using w unfolding updateRoutingSnapshot_def by (intro wf_focus) (simp add: wf_console_def)
  ultimately show ?thesis
    by (auto simp: console_step_def on_node_message_def wf_console_fields case_prod_unfold split: option.split node_message.split)
      (simp add: wf_console_def)
qed (auto simp: console_step_def on_node_open_def wf_console_fields wf_route_orientation)

text \<open>Intervals: nothing but an accepted hello starts any.\<close>

lemma interval_fields:
  "live_intervals (console_sendMessage k h st) = live_intervals st" "handles (console_sendMessage k h st) = handles st"
  "live_intervals (evaluateLinkHealth now st) = live_intervals st" "handles (evaluateLinkHealth now st) = handles st"
  "live_intervals (sendOrientationAndRoute st) = live_intervals st" "handles (sendOrientationAndRoute st) = handles st"
  "interval_count (sendOrientationAndRoute st) = interval_count st" "interval_count (evaluateLinkHealth now st) = interval_count st"
  by (simp_all add: console_sendMessage_def evaluateLinkHealth_def sendOrientationAndRoute_def updateOrientationSnapshot_def console_recordFocus_def
      handles_def Let_def split: prod.split option.split)

lemmas handle_fields = interval_fields(2,4,6) [unfolded handles_def, simplified]

lemma quiet_step: "\<not> accepts ev \<Longrightarrow> live_intervals (console_step ev st) = live_intervals st \<and> handles (console_step ev st) = handles st"
  by (auto simp: console_step_def accepts_def on_node_open_def on_node_message_def interval_fields updateRoutingSnapshot_def console_recordFocus_def
      recordHeartbeat_def Let_def split: console_event.splits option.splits node_message.splits prod.splits)
    (auto simp: handles_def)

lemma hello_step:
  assumes "accepts ev"
  shows "live_intervals (console_step ev st) = live_intervals st @ [interval_count st ..< interval_count st + 4] \<and>
    handles (console_step ev st) = map Some [interval_count st ..< interval_count st + 4] \<and>
    interval_count (console_step ev st) = interval_count st + 4"
proof -
  obtain now node where ev: "ev = NodeMessage now (Some (NodeHelloAck node True))"
    using assms by (auto simp: accepts_def split: console_event.splits option.splits node_message.splits)
  have u: "[n ..< n + 4] = [n, Suc n, Suc (Suc n), Suc (Suc (Suc n))]" for n by (simp add: upt_rec)
  show ?thesis unfolding u
    by (simp add: ev console_step_def on_node_message_def startHealthMonitor_def startRouteLoopFallback_def startOrientationLoop_def
        console_startHeartbeat_def set_interval_def interval_fields handle_fields handles_def)
qed

lemma stopLoops_live: "live_intervals (stopLoops st) = filter (\<lambda>i. Some i \<notin> set (handles st)) (live_intervals st)"
  by (auto simp: stopLoops_def clear_interval_def handles_def removeAll_filter_not_eq split: option.split intro!: filter_cong)

lemma quiet_run: "\<forall>ev \<in> set evs. \<not> accepts ev \<Longrightarrow>
    live_intervals (fold console_step evs st) = live_intervals st \<and> handles (fold console_step evs st) = handles st"
  by (induction evs arbitrary: st) (simp_all add: quiet_step)

lemma split_accept:
  assumes "length (filter accepts evs) = 1"
  obtains pre ev post where "evs = pre @ ev # post" "accepts ev" "\<forall>x \<in> set pre. \<not> accepts x" "\<forall>x \<in> set post. \<not> accepts x"
proof -
  obtain ev where "filter accepts evs = [ev]" using assms by (auto simp: length_Suc_conv)
  then obtain pre post where "evs = pre @ ev # post" "\<forall>x \<in> set pre. \<not> accepts x" "accepts ev" "filter accepts post = []"
    by (metis filter_eq_Cons_iff)
  then show thesis using that by (auto simp: filter_empty_conv)
qed

text \<open>C39: the developer console. In every run the momentum history keeps its limit and the depth lies
  between 0 and 5; a health check or a heartbeat acknowledgement leaves the health that the age of the last
  recorded heartbeat calls for; and when the node accepted the hello at most once, stopping the loops
  leaves no interval alive.\<close>

theorem console_sound:
  assumes "st = fold console_step evs new_console"
  shows "length (momentumHistory st) \<le> 16 \<and> (\<forall>d. cs_depthScore st = Some d \<longrightarrow> 0 \<le> d \<and> d \<le> 5) \<and>
    (\<forall>now. cs_linkHealth (evaluateLinkHealth now st) = node_determineLinkHealth (lastHeartbeatAt st) now) \<and>
    (\<forall>now client t ms. time_clip t = Some ms \<longrightarrow>
       cs_linkHealth (on_node_message now (Some (NodeHeartbeatAck client t)) st) = node_determineLinkHealth (Some ms) now) \<and>
    (length (filter accepts evs) \<le> 1 \<longrightarrow> live_intervals (stopLoops st) = [])"
proof -
  have "wf_console (fold console_step evs s)" if "wf_console s" for s
    using that by (induction evs arbitrary: s) (simp_all add: wf_console_step)
  moreover have "wf_console new_console" by (simp add: wf_console_def new_console_def)
  ultimately have w: "wf_console st" by (simp add: assms)
  have health: "cs_linkHealth (evaluateLinkHealth now s) = node_determineLinkHealth (lastHeartbeatAt s) now" for now s
    by (simp add: evaluateLinkHealth_def Let_def)
  have ack: "cs_linkHealth (on_node_message now (Some (NodeHeartbeatAck client t)) st) = node_determineLinkHealth (Some ms) now"
    if "time_clip t = Some ms" for now client t ms
    using that by (simp add: on_node_message_def recordHeartbeat_def Let_def health)
  have stop: "live_intervals (stopLoops st) = []" if one: "length (filter accepts evs) \<le> 1"
  proof (cases "filter accepts evs")
    case Nil
    then have "live_intervals st = []"
      using quiet_run [of evs new_console] by (simp add: assms filter_empty_conv) (simp add: new_console_def)
    then show ?thesis by (simp add: stopLoops_live)
  next
    case (Cons x xs)
    then have "length (filter accepts evs) = 1" using one by simp
    then obtain pre ev post where e: "evs = pre @ ev # post" "accepts ev" "\<forall>x \<in> set pre. \<not> accepts x" "\<forall>x \<in> set post. \<not> accepts x"
      by (rule split_accept)
    let ?s = "fold console_step pre new_console"
    have "live_intervals ?s = []" using quiet_run [OF e(3), of new_console] by (simp add: new_console_def)
    then have "live_intervals st = [interval_count ?s ..< interval_count ?s + 4]" "handles st = map Some (live_intervals st)"
      using quiet_run [OF e(4), of "console_step ev ?s"] hello_step [OF e(2), of ?s] by (simp_all add: assms e(1))
    then show ?thesis by (auto simp: stopLoops_live filter_empty_conv)
  qed
  show ?thesis using w health ack stop by (simp add: wf_console_def)
qed

theorem console_sound_witness:
  "live_intervals (stopLoops (fold console_step [NodeOpen, NodeMessage 5 (Some (NodeHelloAck ''n'' True)), HealthTick 9] new_console)) = []"
  using console_sound [OF refl, of "[NodeOpen, NodeMessage 5 (Some (NodeHelloAck ''n'' True)), HealthTick 9]"] by (simp add: accepts_def)

text \<open>A second accepted hello overwrites the handles of four intervals that are never cleared.\<close>

lemma second_accept_leaks:
  "live_intervals (stopLoops (fold console_step [NodeMessage t (Some (NodeHelloAck n True)), NodeMessage t' (Some (NodeHelloAck n True))] new_console)) = [0, 1, 2, 3]"
proof -
  let ?a = "NodeMessage t (Some (NodeHelloAck n True))" and ?b = "NodeMessage t' (Some (NodeHelloAck n True))"
  have ab: "accepts ?a" "accepts ?b" by (simp_all add: accepts_def)
  have c: "live_intervals new_console = []" "interval_count new_console = 0" by (simp_all add: new_console_def)
  note h = hello_step [OF ab(1), of new_console] hello_step [OF ab(2), of "console_step ?a new_console"]
  then show ?thesis by (simp add: stopLoops_live c upt_rec image_iff)
qed

section \<open>The gateway\<close>

text \<open>Waits grow with every close since the last open, up to ten seconds.\<close>

lemma gateway_waits:
  assumes "gateway_step iso_date UpstreamClose st = Inr st'"
  shows "gw_attempt st' = gw_attempt st + 1 \<and> last (gw_delays st') = backoff ! min 3 (gw_attempt st) \<and>
    1000 \<le> last (gw_delays st') \<and> last (gw_delays st') \<le> 10000"
proof -
  have "min 3 (gw_attempt st) \<in> {0, 1, 2, 3}" by auto
  then have "backoff ! min 3 (gw_attempt st) \<in> {1000, 2000, 5000, 10000}" by (auto simp: backoff_def)
  moreover have "length backoff - 1 = 3" by (simp add: backoff_def)
  ultimately show ?thesis using assms by (auto simp: gateway_step_def)
qed

text \<open>An envelope is forwarded exactly when the text is a focus snapshot; a time stamp beyond the range of dates
  throws in the handler of the socket.\<close>

lemma gateway_forwards:
  assumes "hud_open st" and "json_parse payload = Some v"
  shows "upstream_message iso_date now payload st =
    (if is_plain v \<and> pget v ''type'' = JStr ''focus_snapshot'' then
       (case pget v ''timestamp'' of
          JStr s \<Rightarrow> Inr (st\<lparr>gw_forwarded := gw_forwarded st @ [(s, v)]\<rparr>)
        | JNum t \<Rightarrow> (case time_clip t of Some ms \<Rightarrow> Inr (st\<lparr>gw_forwarded := gw_forwarded st @ [(iso_date ms, v)]\<rparr>) | None \<Rightarrow> Inl ''Invalid time value'')
        | _ \<Rightarrow> Inr (st\<lparr>gw_forwarded := gw_forwarded st @ [(now, v)]\<rparr>))
     else Inr st)"
  using assms
  by (cases v) (auto simp: upstream_message_def mapToFocusSnapshotEnvelope_def bindr_def pget_def split: jsval.split option.split)

end
