(* ===== verification/Verify_Script.thy ===== *)
theory Verify_Script
  imports Conformance_Exit
begin

text \<open>
  The verify script (\<open>scripts/verify/ltpVerify.ts\<close>, \<open>generateConformanceReport.ts\<close>), the check of its report
  (\<open>validateConformanceReport.ts\<close>) and the report and badge of \<open>scripts/conformance\<close>. The script runs
  five steps in order: three commands of the package manager, whose outcome is an environment, the
  conformance kit on a directory, and the canonical demo. Schema validation is the library Ajv,
  a parameter.
\<close>

section \<open>Steps\<close>

record verify_check =
  vc_name :: string
  vc_status :: report_status
  vc_details :: "(rat \<times> nat \<times> nat) option"
  vc_error :: "string option"
  vc_output :: "string option"

datatype spawn_outcome = SpawnError string | SpawnClosed "int option" string

record verify_env =
  ve_kit :: kit_env
  ve_spawn :: "string \<Rightarrow> string list \<Rightarrow> spawn_outcome"
  ve_demo :: "string + string"
  ve_resolve :: "string \<Rightarrow> string"
  ve_write_error :: "string \<Rightarrow> string option"
  ve_conformanceDir :: "string option"
  ve_json :: bool
  ve_now :: rat
  ve_default_dir :: string

definition deriveOverall :: "report_status list \<Rightarrow> report_status" where
  "deriveOverall statuses =
     (if list_ex (\<lambda>s. s = FAIL) statuses then FAIL else if list_ex (\<lambda>s. s = WARN) statuses then WARN else OK)"

definition summarizeConformance :: "report_batch \<Rightarrow> report_status \<times> rat \<times> nat \<times> nat" where
  "summarizeConformance batch =
     (let errors = sum_list (map (\<lambda>r. length (cr_errors r)) (ba_reports batch));
          warnings = sum_list (map (\<lambda>r. length (cr_warnings r)) (ba_reports batch));
          status = (if errors > 0 then FAIL else if warnings > 0 then WARN else OK)
      in (status, ba_score batch, errors, warnings))"

definition nonempty :: "string \<Rightarrow> string option" where
  "nonempty s = (if s \<noteq> [] then Some s else None)"

definition spawnCommand :: "verify_env \<Rightarrow> bool \<Rightarrow> string \<Rightarrow> string \<Rightarrow> string list \<Rightarrow> verify_check" where
  "spawnCommand env verbose name cmd args =
     (case ve_spawn env cmd args of
        SpawnError message \<Rightarrow> \<lparr>vc_name = name, vc_status = FAIL, vc_details = None, vc_error = Some message, vc_output = None\<rparr>
      | SpawnClosed code output \<Rightarrow>
          \<lparr>vc_name = name, vc_status = (if code = Some 0 then OK else FAIL), vc_details = None, vc_error = None,
           vc_output = (if verbose then None else nonempty (trim output))\<rparr>)"

definition runCanonicalFlow :: "verify_env \<Rightarrow> verify_check" where
  "runCanonicalFlow env =
     (case ve_demo env of
        Inr output \<Rightarrow> \<lparr>vc_name = ''demos'', vc_status = OK, vc_details = None, vc_error = None, vc_output = Some output\<rparr>
      | Inl message \<Rightarrow> \<lparr>vc_name = ''demos'', vc_status = FAIL, vc_details = None, vc_error = Some message, vc_output = None\<rparr>)"

definition runConformanceSuite :: "verify_env \<Rightarrow> string \<Rightarrow> verify_check" where
  "runConformanceSuite env conformanceDir =
     (case verifyDirectoryReports (ve_kit env) conformanceDir False of
        Inr (batch, code) \<Rightarrow>
          (let (status, score, errors, warnings) = summarizeConformance batch
           in \<lparr>vc_name = ''conformance'', vc_status = status, vc_details = Some (score, errors, warnings), vc_error = None, vc_output = None\<rparr>)
      | Inl e \<Rightarrow> \<lparr>vc_name = ''conformance'', vc_status = FAIL, vc_details = Some (0, 1, 0), vc_error = None, vc_output = None\<rparr>)"

definition defaultSteps :: "verify_env \<Rightarrow> bool \<Rightarrow> string \<Rightarrow> verify_check list" where
  "defaultSteps env verbose conformanceDir =
     [spawnCommand env verbose ''build'' ''pnpm'' [''-w'', ''build''],
      spawnCommand env verbose ''js-sdk-tests'' ''pnpm'' [''--filter'', ''@liminal/ltp-client'', ''test''],
      runConformanceSuite env conformanceDir,
      spawnCommand env verbose ''cross-sdk-types'' ''pnpm'' [''-w'', ''test:verify-types''],
      runCanonicalFlow env]"

section \<open>Summary and report\<close>

record verify_summary =
  vs_canonical :: "report_status \<times> string option"
  vs_conformance :: "report_status \<times> rat \<times> nat \<times> nat"
  vs_overall :: report_status
  vs_reportPath :: "string option"

record verify_report =
  vr_version :: string
  vr_timestamp :: int
  vr_checks :: "verify_check list"
  vr_overall :: report_status

definition formatSummaryText :: "verify_summary \<Rightarrow> string" where
  "formatSummaryText summary =
     (let (status, score, errors, warnings) = vs_conformance summary
      in js_join [newline]
          ([''LTP v0.1 verify'', ''---------------'', ''canonical: '' @ status_name (fst (vs_canonical summary)),
            ''conformance: '' @ status_name status @ '' score='' @ to_fixed 3 score @ '' errors='' @ nat_str errors @ '' warnings='' @ nat_str warnings,
            ''overall: '' @ status_name (vs_overall summary)] @
           (case vs_reportPath summary of Some p \<Rightarrow> if p \<noteq> [] then [''Report: '' @ p] else [] | None \<Rightarrow> [])))"

definition runVerify :: "verify_env \<Rightarrow> string \<Rightarrow> bool \<Rightarrow> string option \<Rightarrow> verify_report \<times> verify_summary" where
  "runVerify env conformanceDir verbose outPath =
     (let checks = defaultSteps env verbose conformanceDir;
          canonicalCheck = find (\<lambda>c. vc_name c = ''demos'') checks;
          conformanceCheck = find (\<lambda>c. vc_name c = ''conformance'') checks;
          (score, errors, warnings) = (case Option.bind conformanceCheck vc_details of Some d \<Rightarrow> d | None \<Rightarrow> (0, 0, 0));
          summary = \<lparr>vs_canonical = (case canonicalCheck of Some c \<Rightarrow> (vc_status c, vc_output c) | None \<Rightarrow> (FAIL, None)),
                     vs_conformance = (case conformanceCheck of Some c \<Rightarrow> vc_status c | None \<Rightarrow> FAIL, score, errors, warnings),
                     vs_overall = deriveOverall (map vc_status checks), vs_reportPath = outPath\<rparr>
      in (\<lparr>vr_version = ''0.1'', vr_timestamp = \<lfloor>fl (ve_now env / 1000)\<rfloor>, vr_checks = checks, vr_overall = vs_overall summary\<rparr>, summary))"

section \<open>Arguments\<close>

definition DEFAULT_OUT_PATH :: string where "DEFAULT_OUT_PATH = ''artifacts/conformance-report.json''"

text \<open>The argument after the first occurrence of a flag.\<close>

fun after_flag :: "string \<Rightarrow> string list \<Rightarrow> string option option" where
  "after_flag flag [] = None"
| "after_flag flag (a # as) = (if a = flag then Some (case as of [] \<Rightarrow> None | v # rest \<Rightarrow> Some v) else after_flag flag as)"

definition with_equals :: "string \<Rightarrow> string list \<Rightarrow> string option" where
  "with_equals pre argv = map_option (drop (length pre)) (find (starts_with pre) argv)"

record cli_args =
  cl_verbose :: bool
  cl_outPath :: string
  cl_help :: bool

definition parseCliArgs :: "string list \<Rightarrow> cli_args" where
  "parseCliArgs argv =
     (let spaced = (case after_flag ''--out'' argv of
                      Some (Some candidate) \<Rightarrow> if candidate \<noteq> [] \<and> \<not> starts_with ''--'' candidate then candidate else DEFAULT_OUT_PATH
                    | _ \<Rightarrow> DEFAULT_OUT_PATH)
      in \<lparr>cl_verbose = (''--verbose'' \<in> set argv \<or> ''-v'' \<in> set argv),
          cl_outPath = (case with_equals ''--out='' argv of Some p \<Rightarrow> p | None \<Rightarrow> spaced),
          cl_help = (''--help'' \<in> set argv \<or> ''-h'' \<in> set argv)\<rparr>)"

definition resolveConformanceDir :: "verify_env \<Rightarrow> string list \<Rightarrow> string + string option" where
  "resolveConformanceDir env argv =
     (case with_equals ''--dir='' argv of
        Some p \<Rightarrow> Inr (Some (ve_resolve env p))
      | None \<Rightarrow>
          (case after_flag ''--dir'' argv of
             None \<Rightarrow> Inr None
           | Some v \<Rightarrow>
               (case v of
                  Some value \<Rightarrow> if value = [] \<or> starts_with ''--'' value
                                then Inl ''Missing value for --dir. Usage: --dir <path> or --dir=<path>'' else Inr (Some (ve_resolve env value))
                | None \<Rightarrow> Inl ''Missing value for --dir. Usage: --dir <path> or --dir=<path>'')))"

section \<open>The program\<close>

record verify_run =
  run_exit :: nat
  run_report :: "verify_report option"
  run_summary :: "verify_summary option"

definition generate_report :: "verify_env \<Rightarrow> string \<Rightarrow> string + unit" where
  "generate_report env outPath = (case ve_write_error env outPath of Some e \<Rightarrow> Inl e | None \<Rightarrow> Inr ())"

definition verify_main :: "verify_env \<Rightarrow> string list \<Rightarrow> string + verify_run" where
  "verify_main env argv =
     bind_err (resolveConformanceDir env argv) (\<lambda>dirFromArg.
       let envDir = (case ve_conformanceDir env of Some d \<Rightarrow> if d \<noteq> [] then Some (ve_resolve env d) else None | None \<Rightarrow> None);
           conformanceDir = (case dirFromArg of Some d \<Rightarrow> d | None \<Rightarrow> (case envDir of Some d \<Rightarrow> d | None \<Rightarrow> ve_default_dir env));
           args = parseCliArgs argv
       in if cl_help args then Inr \<lparr>run_exit = 0, run_report = None, run_summary = None\<rparr>
          else let resolvedOut = ve_resolve env (cl_outPath args);
                   (report, summary) = runVerify env conformanceDir (cl_verbose args) (Some (cl_outPath args))
               in bind_err (generate_report env resolvedOut) (\<lambda>u.
                    Inr \<lparr>run_exit = (if vs_overall summary = FAIL then 2 else 0), run_report = Some report,
                         run_summary = Some (summary\<lparr>vs_reportPath := Some (cl_outPath args)\<rparr>)\<rparr>))"

text \<open>A rejected promise sets exit code 1.\<close>

definition verify_exit :: "verify_env \<Rightarrow> string list \<Rightarrow> nat" where
  "verify_exit env argv = (case verify_main env argv of Inl e \<Rightarrow> 1 | Inr r \<Rightarrow> run_exit r)"

section \<open>Validation of a report\<close>

record report_args =
  ra_reportPath :: "string option"
  ra_schemaPath :: "string option"
  ra_help :: bool

text \<open>The variables of the loop: the result so far, the positional argument and whether \<open>--\<close> was seen.\<close>

definition truthy_path :: "string option \<Rightarrow> bool" where
  "truthy_path p = (case p of Some s \<Rightarrow> s \<noteq> [] | None \<Rightarrow> False)"

function parse_args_loop :: "string list \<Rightarrow> report_args \<Rightarrow> string option \<Rightarrow> report_args \<times> string option" where
  "parse_args_loop [] out positional = (out, positional)"
| "parse_args_loop (a # as) out positional =
     (if a = ''--'' then parse_args_loop as out positional
      else
        let out1 = (if a = ''--help'' \<or> a = ''-h'' then out\<lparr>ra_help := True\<rparr> else out)
        in if a = ''--schema'' then parse_args_loop (tl as) (out1\<lparr>ra_schemaPath := (case as of v # rest \<Rightarrow> Some v | [] \<Rightarrow> None)\<rparr>) positional
           else if starts_with ''--schema='' a then parse_args_loop as (out1\<lparr>ra_schemaPath := Some (drop 9 a)\<rparr>) positional
           else if a = ''--report'' then parse_args_loop (tl as) (out1\<lparr>ra_reportPath := (case as of v # rest \<Rightarrow> Some v | [] \<Rightarrow> None)\<rparr>) positional
           else if starts_with ''--report='' a then parse_args_loop as (out1\<lparr>ra_reportPath := Some (drop 9 a)\<rparr>) positional
           else if \<not> starts_with ''-'' a \<and> \<not> truthy_path (ra_reportPath out1) \<and> \<not> truthy_path positional
           then parse_args_loop as out1 (Some a)
           else parse_args_loop as out1 positional)"
  by pat_completeness auto
termination by (relation "measure (\<lambda>(as, out, p). length as)") auto

definition report_parseArgs :: "string list \<Rightarrow> report_args" where
  "report_parseArgs argv =
     (case parse_args_loop argv \<lparr>ra_reportPath = None, ra_schemaPath = None, ra_help = False\<rparr> None of
        (out, positional) \<Rightarrow>
          if \<not> truthy_path (ra_reportPath out) \<and> truthy_path positional then out\<lparr>ra_reportPath := positional\<rparr> else out)"

record report_files =
  rf_resolve :: "string \<Rightarrow> string"
  rf_read :: "string \<Rightarrow> (string + string) option"
  rf_ajv :: "jsval \<Rightarrow> string + (jsval \<Rightarrow> bool)"

definition read_json_value :: "report_files \<Rightarrow> string \<Rightarrow> string + jsval" where
  "read_json_value env path =
     (case rf_read env path of
        Some (Inr raw) \<Rightarrow> (case json_parse raw of Some v \<Rightarrow> Inr v | None \<Rightarrow> Inl ''Unexpected token'')
      | Some (Inl e) \<Rightarrow> Inl e
      | None \<Rightarrow> Inl ''ENOENT'')"

definition validate_main :: "report_files \<Rightarrow> string list \<Rightarrow> string + nat" where
  "validate_main env argv =
     (let args = report_parseArgs argv
      in if ra_help args then Inr 0
         else let schemaPath = rf_resolve env (case ra_schemaPath args of Some p \<Rightarrow> p | None \<Rightarrow> ''schemas/ltp-conformance-report.v0.1.json'')
              in case ra_reportPath args of
                   None \<Rightarrow> Inr 1
                 | Some p \<Rightarrow>
                     if p = [] then Inr 1
                     else let reportPath = rf_resolve env p
                          in if rf_read env reportPath = None then Inr 1
                             else if rf_read env schemaPath = None then Inr 1
                             else bind_err (read_json_value env reportPath) (\<lambda>report.
                                  bind_err (read_json_value env schemaPath) (\<lambda>schema.
                                  bind_err (rf_ajv env schema) (\<lambda>validate. Inr (if validate report then 0 else 2)))))"

definition validate_exit :: "report_files \<Rightarrow> string list \<Rightarrow> nat" where
  "validate_exit env argv = (case validate_main env argv of Inl e \<Rightarrow> 1 | Inr n \<Rightarrow> n)"

section \<open>Conformance report and badge\<close>

definition sanitizeToolingVersion :: "string \<Rightarrow> string" where
  "sanitizeToolingVersion version = (let v = hd (split_on CHR ''-'' version) in if v \<noteq> [] then v else ''0.0.0'')"

definition formatHash :: "string \<Rightarrow> string" where
  "formatHash h = (if starts_with ''sha256:'' h then h else ''sha256:'' @ h)"

record suite_report =
  su_overall :: report_status
  su_determinismHash :: string
  su_toolingVersion :: string
  su_passed :: nat
  su_failed :: nat
  su_details :: string
  su_durationMs :: rat

definition generateConformanceReport :: "(byte list \<Rightarrow> byte list) \<Rightarrow> (string + string) option \<Rightarrow> string \<Rightarrow> string option \<Rightarrow> suite_report" where
  "generateConformanceReport sha vectorFile packageVersion mode =
     (let report = runSelfTest sha vectorFile None mode; overall = (if sr_ok report then OK else FAIL)
      in \<lparr>su_overall = overall, su_determinismHash = formatHash (sr_determinismHash report),
          su_toolingVersion = sanitizeToolingVersion packageVersion,
          su_passed = (if sr_ok report then 1 else 0), su_failed = (if sr_ok report then 0 else 1),
          su_details = ''mode='' @ mode_name (sr_mode report) @ '' level='' @ level_name (sr_level report), su_durationMs = 0\<rparr>)"

definition badge_color :: "report_status \<Rightarrow> string" where
  "badge_color s = (case s of OK \<Rightarrow> ''#2ecc71'' | WARN \<Rightarrow> ''#f1c40f'' | FAIL \<Rightarrow> ''#e74c3c'')"

definition ltpBadge :: "jsval \<Rightarrow> string + report_status" where
  "ltpBadge report =
     (if pget report ''schemaVersion'' \<noteq> JStr ''v0.1'' then Inl ''Unsupported schema''
      else case pget report ''overall'' of
             JStr s \<Rightarrow> if s = ''OK'' then Inr OK else if s = ''WARN'' then Inr WARN else if s = ''FAIL'' then Inr FAIL else Inl ''Unsupported overall status''
           | _ \<Rightarrow> Inl ''Unsupported overall status'')"

end
