(* ===== verification/Verify_Correct.thy ===== *)
theory Verify_Correct
  imports Verify_Script
begin

text \<open>
  The exit code of the verify script in terms of what it verifies, through the conformance kit down to the captures.
\<close>

section \<open>The conformance step\<close>

definition conformant_file :: "kit_env \<Rightarrow> string \<Rightarrow> string \<Rightarrow> bool" where
  "conformant_file env dir f \<longleftrightarrow>
     (case readJsonFile env (kit_join env dir f) of
        Inr (v, h) \<Rightarrow> (case normalizeFramesFromValue v of Some fs \<Rightarrow> conformant fs | None \<Rightarrow> False)
      | Inl e \<Rightarrow> False)"

lemma case_errors:
  assumes "verify_case env dir s f = Inr c"
  shows "cr_errors (ca_report c) = [] \<longleftrightarrow> conformant_file env dir f"
  using assms capture_errors
  by (auto simp: verify_case_def bind_err_def conformant_file_def verifyFrames_def Let_def split: sum.splits option.splits)

lemma case_reads: "conformant_file env dir f \<Longrightarrow> \<exists>c. verify_case env dir s f = Inr c"
  by (auto simp: verify_case_def bind_err_def conformant_file_def Let_def split: sum.splits prod.splits)

lemma js_insert_pure: "\<exists>zs. js_insert (\<lambda>a b. Inr (c a b)) x ys = Inr zs"
  by (induction ys) (auto simp: bind_err_def)

lemma json_files_pure: "\<exists>names. json_files env listing = Inr names \<and> set names = {f \<in> set listing. ends_with ''.json'' f}"
proof -
  have "\<exists>zs. js_sort (\<lambda>a b. Inr (kit_compare env a b)) xs = (Inr zs :: string + string list)" for xs
  proof (induction xs rule: rev_induct)
    case (snoc x xs)
    then show ?case using js_insert_pure [of "kit_compare env" x] by (auto simp: bind_err_def)
  qed simp
  then obtain names where n: "json_files env listing = Inr names" by (auto simp: json_files_def)
  then have "mset names = mset (filter (ends_with ''.json'') listing)" unfolding json_files_def by (rule mset_js_sort)
  then have "set names = set (filter (ends_with ''.json'') listing)" by (metis set_mset_mset)
  then show ?thesis using n by auto
qed

definition suite_passes :: "kit_env \<Rightarrow> string \<Rightarrow> bool" where
  "suite_passes env dir \<longleftrightarrow>
     (case kit_readdir env dir of Inl e \<Rightarrow> False | Inr listing \<Rightarrow> \<forall>f \<in> set listing. ends_with ''.json'' f \<longrightarrow> conformant_file env dir f)"

lemma batch_reports: "ba_reports (make_batch env dir cs) = map ca_report cs"
  by (simp add: make_batch_def Let_def)

lemma no_errors_sum:
  "0 < sum_list (map ((\<lambda>r. length (cr_errors r)) \<circ> ca_report) cs) \<longleftrightarrow> \<not> (\<forall>c \<in> set cs. cr_errors (ca_report c) = [])"
  by (induction cs) auto

lemma suite_status: "vc_status (runConformanceSuite env dir) \<noteq> FAIL \<longleftrightarrow> suite_passes (ve_kit env) dir"
proof (cases "kit_readdir (ve_kit env) dir")
  case (Inl e)
  then show ?thesis by (simp add: runConformanceSuite_def verifyDirectoryReports_def bind_err_def suite_passes_def)
next
  case (Inr listing)
  let ?k = "ve_kit env"
  obtain names where n: "json_files ?k listing = Inr names" "set names = {f \<in> set listing. ends_with ''.json'' f}"
    using json_files_pure by blast
  have p: "suite_passes ?k dir \<longleftrightarrow> (\<forall>f \<in> set names. conformant_file ?k dir f)" using n(2) Inr by (auto simp: suite_passes_def)
  have e: "verifyDirectoryReports ?k dir False =
      bind_err (map_err (\<lambda>_. verify_case ?k dir False) 0 names) (\<lambda>cs. let batch = make_batch ?k dir cs in Inr (batch, if bs_unexpectedCount (ba_summary batch) > 0 then 2 else 0))"
    by (simp add: verifyDirectoryReports_def bind_err_def Inr n(1))
  show ?thesis
  proof (cases "map_err (\<lambda>_. verify_case ?k dir False) 0 names")
    case (Inl x)
    have "\<not> (\<forall>f \<in> set names. conformant_file ?k dir f)"
    proof
      assume "\<forall>f \<in> set names. conformant_file ?k dir f"
      then have "\<forall>f \<in> set names. \<exists>c. verify_case ?k dir False f = Inr c" using case_reads by blast
      then obtain g where "\<forall>f \<in> set names. verify_case ?k dir False f = Inr (g f)" by metis
      then have "map_err (\<lambda>_. verify_case ?k dir False) 0 names = Inr (map (\<lambda>j. g (names ! j)) [0..<length names])"
        using map_err_total [of names "\<lambda>_. verify_case ?k dir False" 0 "\<lambda>_. g"] by simp
      then show False using Inl by simp
    qed
    then show ?thesis using Inl by (simp add: p runConformanceSuite_def e bind_err_def)
  next
    case (Inr cs)
    then have c: "length cs = length names" "\<And>j. j < length names \<Longrightarrow> verify_case ?k dir False (names ! j) = Inr (cs ! j)"
      by (simp_all add: map_err_Inr_iff)
    have "(\<forall>c \<in> set cs. cr_errors (ca_report c) = []) \<longleftrightarrow> (\<forall>f \<in> set names. conformant_file ?k dir f)"
      using c case_errors [OF c(2)] by (simp add: all_set_conv_all_nth)
    then show ?thesis
      using Inr no_errors_sum [of cs] by (auto simp: p runConformanceSuite_def e bind_err_def summarizeConformance_def batch_reports Let_def)
  qed
qed

section \<open>Exit codes\<close>

definition closes_well :: "spawn_outcome \<Rightarrow> bool" where
  "closes_well s \<longleftrightarrow> (case s of SpawnClosed code output \<Rightarrow> code = Some 0 | SpawnError e \<Rightarrow> False)"

definition verify_passes :: "verify_env \<Rightarrow> string \<Rightarrow> bool" where
  "verify_passes env dir \<longleftrightarrow>
     closes_well (ve_spawn env ''pnpm'' [''-w'', ''build'']) \<and>
     closes_well (ve_spawn env ''pnpm'' [''--filter'', ''@liminal/ltp-client'', ''test'']) \<and>
     closes_well (ve_spawn env ''pnpm'' [''-w'', ''test:verify-types'']) \<and>
     (\<exists>output. ve_demo env = Inr output) \<and> suite_passes (ve_kit env) dir"

lemma spawn_status: "vc_status (spawnCommand env verbose name cmd args) \<noteq> FAIL \<longleftrightarrow> closes_well (ve_spawn env cmd args)"
  by (simp add: spawnCommand_def closes_well_def split: spawn_outcome.split)

lemma demo_status: "vc_status (runCanonicalFlow env) \<noteq> FAIL \<longleftrightarrow> (\<exists>output. ve_demo env = Inr output)"
  by (simp add: runCanonicalFlow_def split: sum.split)

lemma overall_status: "vs_overall (snd (runVerify env dir verbose out)) \<noteq> FAIL \<longleftrightarrow> verify_passes env dir"
proof -
  have o: "vs_overall (snd (runVerify env dir verbose out)) = deriveOverall (map vc_status (defaultSteps env verbose dir))"
    by (simp add: runVerify_def Let_def case_prod_unfold)
  have d: "deriveOverall xs \<noteq> FAIL \<longleftrightarrow> (\<forall>x \<in> set xs. x \<noteq> FAIL)" for xs
    by (auto simp: deriveOverall_def list_ex_iff)
  show ?thesis unfolding o d verify_passes_def using spawn_status demo_status suite_status by (auto simp: defaultSteps_def)
qed

text \<open>The directory that is verified: the argument, else the environment, else the fixtures.\<close>

definition verified_dir :: "verify_env \<Rightarrow> string option \<Rightarrow> string" where
  "verified_dir env arg =
     (case arg of Some d \<Rightarrow> d
      | None \<Rightarrow> (case ve_conformanceDir env of Some d \<Rightarrow> if d \<noteq> [] then ve_resolve env d else ve_default_dir env | None \<Rightarrow> ve_default_dir env))"

lemma verify_exit_cases:
  "verify_exit env argv =
     (case resolveConformanceDir env argv of
        Inl e \<Rightarrow> 1
      | Inr arg \<Rightarrow>
          if cl_help (parseCliArgs argv) then 0
          else if ve_write_error env (ve_resolve env (cl_outPath (parseCliArgs argv))) \<noteq> None then 1
          else if verify_passes env (verified_dir env arg) then 0 else 2)"
  using overall_status [of env]
  by (auto simp: verify_exit_def verify_main_def bind_err_def generate_report_def verified_dir_def Let_def case_prod_unfold split: sum.split option.split)

text \<open>C40: the exit code of the verify script. It is 1 when the value of \<open>--dir\<close> is missing or the report cannot be
  written, 0 for help, and otherwise 0 exactly when the three commands close with code 0, the
  demo runs and the directory can be read with every capture in it conformant, else 2.\<close>

theorem verify_script_exit:
  "verify_exit env argv =
     (case resolveConformanceDir env argv of
        Inl e \<Rightarrow> 1
      | Inr arg \<Rightarrow>
          if ''--help'' \<in> set argv \<or> ''-h'' \<in> set argv then 0
          else if ve_write_error env (ve_resolve env (cl_outPath (parseCliArgs argv))) \<noteq> None then 1
          else if verify_passes env (verified_dir env arg) then 0 else 2)"
  unfolding verify_exit_cases by (simp add: parseCliArgs_def Let_def split: sum.split)

text \<open>A directory with a capture that is meant to fail, and fails as meant, passes the kit and fails the script.\<close>

theorem expected_failure_fails_verify:
  assumes "verifyDirectoryReports (ve_kit env) dir False = Inr (b, 0)" and "c \<in> set (ba_cases b)" and "ca_expected c = FAIL"
    and "verified_dir env arg = dir" and "resolveConformanceDir env argv = Inr arg" and "\<not> cl_help (parseCliArgs argv)"
    and "ve_write_error env (ve_resolve env (cl_outPath (parseCliArgs argv))) = None"
  shows "verify_exit env argv = 2"
proof -
  have "ba_ok b" "\<forall>c \<in> set (ba_cases b). as_expected c" using directory_verdict [OF assms(1)] by (auto split: if_splits)
  then have err: "cr_errors (ca_report c) \<noteq> []" using assms(2,3) by (auto simp: as_expected_def)
  have "ba_reports b = map ca_report (ba_cases b)"
    using assms(1) by (auto simp: verifyDirectoryReports_def bind_err_Inr_iff make_batch_def Let_def)
  then have "sum_list (map (\<lambda>r. length (cr_errors r)) (ba_reports b)) \<noteq> 0"
    using err assms(2) by (auto simp: sum_list_eq_0_iff)
  then have "vc_status (runConformanceSuite env dir) = FAIL"
    by (simp add: runConformanceSuite_def assms(1) summarizeConformance_def Let_def)
  then have "\<not> verify_passes env dir" using suite_status [of env dir] by (auto simp: verify_passes_def)
  then show ?thesis using assms(4-7) by (simp add: verify_exit_cases)
qed

section \<open>Arguments of the validator\<close>

text \<open>A report path that follows no flag is taken wherever it stands, and a flag given wins over it.\<close>

lemma parse_positional:
  assumes "\<not> starts_with ''-'' p" and "p \<noteq> []"
  shows "ra_reportPath (report_parseArgs [p]) = Some p" "ra_reportPath (report_parseArgs [''--'', p]) = Some p"
    "ra_reportPath (report_parseArgs [''--schema'', s, p]) = Some p" "ra_reportPath (report_parseArgs [p, ''--report='' @ q]) = Some (if q = [] then p else q)"
proof -
  have "p \<noteq> ''-'' @ r" for r using assms(1) by (auto simp: starts_with_def)
  then have ne: "p \<noteq> ''--''" "p \<noteq> ''--help''" "p \<noteq> ''-h''" "p \<noteq> ''--schema''" "p \<noteq> ''--report''"
    "\<not> starts_with ''--schema='' p" "\<not> starts_with ''--report='' p"
    using assms(1) by (cases p; auto simp: starts_with_def)+
  show "ra_reportPath (report_parseArgs [p]) = Some p" "ra_reportPath (report_parseArgs [''--'', p]) = Some p"
    "ra_reportPath (report_parseArgs [''--schema'', s, p]) = Some p" "ra_reportPath (report_parseArgs [p, ''--report='' @ q]) = Some (if q = [] then p else q)"
    using ne assms by (simp_all add: report_parseArgs_def truthy_path_def starts_with_def)
qed

lemma validate_exit_meaning:
  "validate_exit env argv = 2 \<longleftrightarrow>
     (\<exists>p report schema validate. \<not> ra_help (report_parseArgs argv) \<and> ra_reportPath (report_parseArgs argv) = Some p \<and> p \<noteq> [] \<and>
        read_json_value env (rf_resolve env p) = Inr report \<and>
        read_json_value env (rf_resolve env (case ra_schemaPath (report_parseArgs argv) of Some q \<Rightarrow> q | None \<Rightarrow> ''schemas/ltp-conformance-report.v0.1.json'')) = Inr schema \<and>
        rf_ajv env schema = Inr validate \<and> \<not> validate report)"
  by (auto simp: validate_exit_def validate_main_def bind_err_def read_json_value_def Let_def split: sum.splits option.splits if_splits)

end
