(* ===== verification/Trace_Writers.thy ===== *)
theory Trace_Writers
  imports Inspect_Exit Dev_Console
begin

text \<open>
  The scripts that write traces: \<open>scripts/generate-golden-trace.js\<close>,
  \<open>scripts/generate-failure-recovery-trace.js\<close>, \<open>scripts/generate-content-traces.js\<close>,
  \<open>scripts/generate-agent-safety-traces.js\<close> and \<open>scripts/generate-agent-traces.ts\<close>. Each chains
  its frames with SHA-256 and writes one JSON object per line. The digest, the parsing of dates,
  the clock and the random bytes are parameters.
\<close>

section \<open>The chain\<close>

text \<open>\<open>hasher.update(prevHash); hasher.update(frameBytes)\<close>; every script has its own copy of \<open>canonicalize\<close>.\<close>

definition calculateHash :: "(byte list \<Rightarrow> byte list) \<Rightarrow> string \<Rightarrow> jsval \<Rightarrow> string" where
  "calculateHash sha prevHash frame = bufferToHex (sha (utf8 prevHash @ utf8 (json_text (canonicalize_frame frame))))"

definition genesis_link :: string where
  "genesis_link = replicate 64 CHR ''0''"

text \<open>The loop of all five: an entry from the index, the frame, the link and the hash.\<close>

fun chain_entries :: "(byte list \<Rightarrow> byte list) \<Rightarrow> (nat \<Rightarrow> jsval \<Rightarrow> string \<Rightarrow> string \<Rightarrow> jsval) \<Rightarrow> nat \<Rightarrow> string \<Rightarrow> jsval list \<Rightarrow> jsval list" where
  "chain_entries sha entry i prevHash [] = []"
| "chain_entries sha entry i prevHash (frame # rest) =
     (let hash = calculateHash sha prevHash frame
      in entry i frame prevHash hash # chain_entries sha entry (Suc i) hash rest)"

definition jsonl :: "jsval list \<Rightarrow> string" where
  "jsonl es = js_join [newline] (map json_text es)"

section \<open>Entries of each script\<close>

definition golden_entry :: "nat \<Rightarrow> jsval \<Rightarrow> string \<Rightarrow> string \<Rightarrow> jsval" where
  "golden_entry i frame prevHash hash =
     JObj [(''ts'', pget frame ''ts''), (''frame'', frame), (''prev_hash'', JStr prevHash),
       (''signature'', JStr ''SIMULATED_DETERMINISTIC_SIGNATURE''), (''key_id'', JStr ''test-key-1''),
       (''alg'', JStr ''ed25519''), (''hash'', JStr hash)]"

definition getDirection :: "jsval \<Rightarrow> string" where
  "getDirection type =
     (if type \<in> {JStr ''hello'', JStr ''orientation'', JStr ''route_request''} then ''out''
      else if type = JStr ''route_response'' then ''in'' else ''out'')"

text \<open>\<open>new Date(frame.ts).getTime()\<close>, printed as \<open>null\<close> when the date is not valid.\<close>

definition time_ms :: "(string \<Rightarrow> rat option) \<Rightarrow> jsval \<Rightarrow> jsval" where
  "time_ms dateParse ts =
     (case ts of
        JStr s \<Rightarrow> (case Option.bind (dateParse s) time_clip of Some t \<Rightarrow> JNum (of_int t) | None \<Rightarrow> JNull)
      | _ \<Rightarrow> JNull)"

definition recovery_entry :: "(string \<Rightarrow> rat option) \<Rightarrow> nat \<Rightarrow> jsval \<Rightarrow> string \<Rightarrow> string \<Rightarrow> jsval" where
  "recovery_entry dateParse i frame prevHash hash =
     JObj [(''i'', JNum (of_nat i)), (''timestamp_ms'', time_ms dateParse (pget frame ''ts'')),
       (''direction'', JStr (getDirection (pget frame ''type''))), (''session_id'', JStr ''rec-123''),
       (''frame'', frame), (''prev_hash'', JStr prevHash), (''hash'', JStr hash)]"

definition content_entry :: "(nat \<Rightarrow> byte list) \<Rightarrow> string \<Rightarrow> nat \<Rightarrow> jsval \<Rightarrow> string \<Rightarrow> string \<Rightarrow> jsval" where
  "content_entry randomBytes keyId i frame prevHash hash =
     JObj [(''ts'', pget frame ''ts''), (''frame'', frame), (''prev_hash'', JStr prevHash),
       (''signature'', JStr (''SIMULATED_SIG_'' @ bufferToHex (randomBytes i))), (''key_id'', JStr keyId),
       (''alg'', JStr ''ed25519''), (''hash'', JStr hash)]"

definition set_default :: "string \<Rightarrow> string \<Rightarrow> jsval \<Rightarrow> jsval" where
  "set_default k v frame = (if truthy (pget frame k) then frame else JObj (assign_prop k (JStr v) (own frame)))"

text \<open>\<open>stamp index\<close> is the time \<open>index\<close> seconds after the start, as text.\<close>

definition content_frame :: "(nat \<Rightarrow> string) \<Rightarrow> nat \<Rightarrow> jsval \<Rightarrow> jsval" where
  "content_frame stamp index frame =
     set_default ''id'' (''frame-'' @ nat_str (index + 1)) (set_default ''v'' ''0.1'' (set_default ''ts'' (stamp index) frame))"

definition safety_entry :: "nat \<Rightarrow> jsval \<Rightarrow> string \<Rightarrow> string \<Rightarrow> jsval" where
  "safety_entry i frame prevHash hash = JObj [(''prev_hash'', JStr prevHash), (''hash'', JStr hash), (''frame'', frame)]"

definition agent_direction :: "jsval \<Rightarrow> string" where
  "agent_direction frame = (if pget frame ''type'' = JStr ''route_request'' then ''in'' else ''out'')"

definition createEntry :: "nat \<Rightarrow> jsval \<Rightarrow> string \<Rightarrow> string \<Rightarrow> jsval" where
  "createEntry index frame prevHash hash =
     JObj [(''i'', JNum (of_nat index)), (''ts'', pget frame ''ts''), (''direction'', JStr (agent_direction frame)),
       (''session_id'', JStr ''sess-agent-demo-01''), (''frame'', frame), (''prev_hash'', JStr prevHash), (''hash'', JStr hash),
       (''signature'', JStr (''sig_demo_'' @ take 8 hash)), (''key_id'', JStr ''key_demo_01''), (''alg'', JStr ''ed25519'')]"

section \<open>What the scripts write\<close>

definition golden_trace :: "(byte list \<Rightarrow> byte list) \<Rightarrow> jsval list \<Rightarrow> string" where
  "golden_trace sha fs = jsonl (chain_entries sha golden_entry 0 genesis_link fs)"

definition recovery_trace :: "(byte list \<Rightarrow> byte list) \<Rightarrow> (string \<Rightarrow> rat option) \<Rightarrow> jsval list \<Rightarrow> string" where
  "recovery_trace sha dateParse fs = jsonl (chain_entries sha (recovery_entry dateParse) 0 genesis_link fs) @ [newline]"

definition content_frames :: "(nat \<Rightarrow> string) \<Rightarrow> jsval list \<Rightarrow> jsval list" where
  "content_frames stamp fs = map (\<lambda>(i, f). content_frame stamp i f) (List.enumerate 0 fs)"

definition writeTrace :: "(byte list \<Rightarrow> byte list) \<Rightarrow> (nat \<Rightarrow> byte list) \<Rightarrow> (nat \<Rightarrow> string) \<Rightarrow> jsval list \<Rightarrow> string" where
  "writeTrace sha randomBytes stamp fs =
     jsonl (chain_entries sha (content_entry randomBytes ''stream-key-1'') 0 genesis_link (content_frames stamp fs)) @ [newline]"

definition createTrace :: "(byte list \<Rightarrow> byte list) \<Rightarrow> jsval list \<Rightarrow> string" where
  "createTrace sha fs = jsonl (chain_entries sha safety_entry 0 genesis_link fs)"

definition generateTrace :: "(byte list \<Rightarrow> byte list) \<Rightarrow> jsval list \<Rightarrow> string" where
  "generateTrace sha fs = jsonl (chain_entries sha createEntry 0 genesis_link fs) @ [newline]"

section \<open>Traces read back\<close>

lemma parse_lines_ended:
  assumes "vs \<noteq> []" and "\<forall>v \<in> set vs. is_plain v \<and> json_ok v"
  shows "parse_lines env (jsonl vs @ [newline]) = Inr vs"
proof -
  have join: "js_join [newline] (ws @ [[]]) = js_join [newline] ws @ [newline]" if "ws \<noteq> []" for ws
    using that by (induction "[newline]" ws rule: js_join.induct) auto
  have lines: "split_lines (jsonl vs @ [newline]) = map json_text vs @ [[]]"
    using split_lines_join [of "map json_text vs @ [[]]"] assms by (simp add: jsonl_def join printable_json_text)
  have plain: "split_lines (jsonl vs) = map json_text vs"
    using assms unfolding jsonl_def by (intro split_lines_join) (auto simp: printable_json_text)
  have "List.enumerate 0 (map json_text vs @ [[]]) = List.enumerate 0 (map json_text vs) @ [(length vs, [])]"
    by (simp add: enumerate_append_eq)
  then have "parse_lines env (jsonl vs @ [newline]) = parse_lines env (jsonl vs)"
    by (simp add: parse_lines_def lines plain trim_def)
  then show ?thesis using parse_lines_texts [OF assms] by (simp add: jsonl_def)
qed

text \<open>
  What the inspector needs of a writer: an entry is an object that carries link, hash and frame
  under their names and survives printing.
\<close>

locale chained_writer =
  fixes entry :: "nat \<Rightarrow> jsval \<Rightarrow> string \<Rightarrow> string \<Rightarrow> jsval"
  assumes entry_plain: "is_plain (entry i f p h)"
    and entry_prev: "pget (entry i f p h) ''prev_hash'' = JStr p"
    and entry_hashed: "pget (entry i f p h) ''hash'' = JStr h"
    and entry_frame: "pget (entry i f p h) ''frame'' = f"
    and entry_ok: "i \<le> 2 ^ 53 \<Longrightarrow> json_ok f \<Longrightarrow> is_str (pget f ''ts'') \<Longrightarrow> json_ok (entry i f p h)"
begin

lemma chain_length [simp]: "length (chain_entries sha entry i p fs) = length fs"
  by (induction fs arbitrary: i p) (simp_all add: Let_def)

lemma chain_frames: "map (\<lambda>e. pget e ''frame'') (chain_entries sha entry i p fs) = fs"
  by (induction fs arbitrary: i p) (simp_all add: Let_def entry_frame)

lemma chain_printable:
  assumes "\<forall>f \<in> set fs. json_ok f \<and> is_str (pget f ''ts'')" and "i + length fs \<le> 2 ^ 53"
  shows "\<forall>e \<in> set (chain_entries sha entry i p fs). is_plain e \<and> json_ok e"
  using assms
proof (induction fs arbitrary: i p)
  case (Cons f fs)
  have "\<forall>e \<in> set (chain_entries sha entry (Suc i) (calculateHash sha p f) fs). is_plain e \<and> json_ok e"
    by (rule Cons.IH) (use Cons.prems in simp_all)
  then show ?case using Cons.prems by (simp add: Let_def entry_plain entry_ok)
qed simp

lemma chain_verified:
  assumes "\<forall>f \<in> set fs. f \<noteq> JUndef"
  shows "trace_verify env (chain_entries (env_sha256 env) entry i p fs)"
proof -
  have "check_entries env j (chain_entries (env_sha256 env) entry i p fs) = Inr None" for j
    using assms
  proof (induction fs arbitrary: i j p)
    case (Cons f fs)
    have "entry_hash env (entry i f p h) = Inr (calculateHash (env_sha256 env) p f)" for h
      using Cons.prems by (simp add: entry_hash_def entry_frame entry_prev canonicalJsonBytes_eq [of "entry i f p h", unfolded entry_frame]
          frame_bytes_def calculateHash_def canonicalize_frame_eq)
    with Cons show ?case
      by (cases fs) (simp_all add: Let_def entry_hashed entry_prev)
  qed simp
  then show ?thesis by (rule iffD2 [OF trace_verify_iff])
qed

lemma chain_start:
  assumes "fs \<noteq> []"
  shows "\<exists>m. jsonl (chain_entries sha entry i p fs) = CHR ''{'' # m"
  using assms join_starts [of "chain_entries sha entry i p fs"]
  by (cases fs) (simp_all add: jsonl_def Let_def entry_plain)

lemma written_trace_loads:
  assumes "fs \<noteq> []" and "\<forall>f \<in> set fs. json_ok f \<and> is_str (pget f ''ts'')" and "length fs \<le> 2 ^ 53"
    and "file \<noteq> ''-''" and "env_exists env (env_resolve env file)" and "ending \<in> {[], [newline]}"
    and "env_read env (env_resolve env file) = Inr (jsonl (chain_entries (env_sha256 env) entry 0 genesis_link fs) @ ending)"
  shows "\<exists>l. loadFrames env file = Inr l \<and> trace_type l = AuditLog \<and> frames l = fs \<and>
    entries l = chain_entries (env_sha256 env) entry 0 genesis_link fs \<and> trace_verify env (entries l)"
proof -
  let ?es = "chain_entries (env_sha256 env) entry 0 genesis_link fs"
  have ok: "\<forall>e \<in> set ?es. is_plain e \<and> json_ok e" by (rule chain_printable) (use assms(2,3) in simp_all)
  have ne: "?es \<noteq> []" using assms(1) chain_length [of "env_sha256 env" 0 genesis_link fs] by (metis length_0_conv)
  obtain m where m: "jsonl ?es = CHR ''{'' # m" using chain_start [OF assms(1)] by blast
  have p: "parse_lines env (jsonl ?es @ ending) = Inr ?es"
    using assms(6) parse_lines_ended [OF ne ok, of env] parse_lines_texts [OF ne ok, of env] by (auto simp: jsonl_def)
  have f: "\<forall>f \<in> set fs. f \<noteq> JUndef" using assms(2) by auto
  have "has_prop (hd ?es) ''prev_hash'' \<and> has_prop (hd ?es) ''frame''"
  proof -
    obtain g gs where g: "fs = g # gs" using assms(1) by (cases fs) auto
    have "pget (hd ?es) ''prev_hash'' \<noteq> JUndef" "pget (hd ?es) ''frame'' \<noteq> JUndef"
      using g f by (simp_all add: Let_def entry_prev entry_frame)
    then show ?thesis using pget_not_has_prop by blast
  qed
  then show ?thesis
    using loadFrames_parsed [OF ne _ assms(4,5), of "m @ ending"] ok assms(7) p chain_frames chain_verified [OF f]
    by (simp add: m Let_def)
qed

end

lemma fl_time: "time_clip t = Some i \<Longrightarrow> fl (of_int i) = of_int i"
  by (rule fl_int) (auto simp: time_clip_def split: if_splits, linarith)

lemma is_strE: "is_str v \<Longrightarrow> (\<And>s. v = JStr s \<Longrightarrow> thesis) \<Longrightarrow> thesis"
  by (cases v) simp_all

lemma index_double: "i \<le> 9007199254740992 \<Longrightarrow> fl (rat_of_nat i) = of_nat i"
  by (rule fl_nat) simp

lemma time_ms_ok: "json_ok (time_ms dateParse ts)"
  by (cases ts) (auto simp: time_ms_def fl_time split: option.split bind_splits)

lemmas entry_ordered = obj_ordered_def spread_def array_index_def is_digit_def

interpretation golden: chained_writer golden_entry
proof
  show "json_ok (golden_entry i f p h)" if "json_ok f" "is_str (pget f ''ts'')" for i f p h
    using that(2) by (rule is_strE) (simp add: golden_entry_def entry_ordered that(1))
qed (simp_all add: golden_entry_def)

interpretation recovery: chained_writer "recovery_entry dateParse" for dateParse
proof
  show "json_ok (recovery_entry dateParse i f p h)" if "i \<le> 2 ^ 53" "json_ok f" for dateParse i f p h
    using that by (simp add: recovery_entry_def entry_ordered time_ms_ok index_double)
qed (simp_all add: recovery_entry_def)

interpretation content: chained_writer "content_entry randomBytes keyId" for randomBytes keyId
proof
  show "json_ok (content_entry randomBytes keyId i f p h)" if "json_ok f" "is_str (pget f ''ts'')" for randomBytes keyId i f p h
    using that(2) by (rule is_strE) (simp add: content_entry_def entry_ordered that(1))
qed (simp_all add: content_entry_def)

interpretation safety: chained_writer safety_entry
proof
  show "json_ok (safety_entry i f p h)" if "json_ok f" for i f p h
    using that by (simp add: safety_entry_def entry_ordered)
qed (simp_all add: safety_entry_def)

interpretation agents: chained_writer createEntry
proof
  show "json_ok (createEntry i f p h)" if "i \<le> 2 ^ 53" "json_ok f" "is_str (pget f ''ts'')" for i f p h
    using that(3) by (rule is_strE) (use that(1,2) in \<open>simp add: createEntry_def entry_ordered index_double\<close>)
qed (simp_all add: createEntry_def)

text \<open>The frames of the content script have their missing fields filled in.\<close>

lemma json_ok_assign:
  assumes "json_ok (JObj kvs)"
  shows "json_ok (JObj (assign_prop k (JStr v) kvs))"
proof -
  have "wf_props kvs" using assms wf_props_spread [of "[]" kvs] by (simp add: obj_ordered_def)
  then have "obj_ordered (define_prop k (JStr v) kvs)" by (simp add: obj_ordered_def spread_wf_props wf_props_define_prop)
  moreover have "\<forall>p \<in> set (define_prop k (JStr v) kvs). json_ok (snd p)"
    using set_define_prop_subset [of k "JStr v" kvs] json_ok_JObjD(1) [OF assms] by fastforce
  ultimately show ?thesis using assms by (simp add: assign_prop_def list_all_iff)
qed

lemma set_default_ok:
  assumes "is_plain f" and "json_ok f"
  shows "is_plain (set_default k v f)" "json_ok (set_default k v f)"
  using assms json_ok_assign by (cases f; simp add: set_default_def del: json_ok.simps(7))+

lemma set_default_get:
  assumes "is_plain f" and "k \<noteq> ''__proto__''"
  shows "pget (set_default k v f) k' = (if k' = k \<and> \<not> truthy (pget f k) then JStr v else pget f k')"
  using assms by (cases f) (simp_all add: set_default_def assign_prop_def)

lemma content_frame_ok:
  assumes "is_plain f" and "json_ok f" and "pget f ''ts'' = JUndef \<or> is_str (pget f ''ts'')"
  shows "json_ok (content_frame stamp i f) \<and> is_str (pget (content_frame stamp i f) ''ts'')"
proof -
  have "is_str (pget (set_default ''ts'' (stamp i) f) ''ts'')" using assms(1,3) by (auto simp: set_default_get)
  then show ?thesis using assms(1,2) by (simp add: content_frame_def set_default_ok set_default_get)
qed

end
