(* ===== verification/No_Bidi.thy ===== *)
theory No_Bidi
  imports JS_Library
begin

text \<open>
  The check for hidden Unicode characters, \<open>scripts/check-no-bidi.mjs\<close>: a scan of given paths or of
  fixed directories. The file system is a map from the paths of the program to trees; the content
  of a file is its list of UTF-16 code units. \<open>path.join\<close> is a parameter.
\<close>

datatype fs_node = FsFile "nat list" | FsDir "(string \<times> fs_node) list"

definition bidi_char :: "nat \<Rightarrow> bool" where
  "bidi_char c \<longleftrightarrow> 0x200B \<le> c \<and> c \<le> 0x200F \<or> 0x202A \<le> c \<and> c \<le> 0x202E \<or> 0x2066 \<le> c \<and> c \<le> 0x2069"

definition DIRS_TO_SCAN :: "string list" where
  "DIRS_TO_SCAN = [''docs'', ''specs'', ''governance'', ''positioning'', ''adoption'', ''tools'', ''fixtures'', ''examples'', ''src'', ''.github'']"

definition SKIP_DIRS :: "string list" where
  "SKIP_DIRS = [''.git'', ''node_modules'', ''dist'', ''artifacts'', ''reports'', ''coverage'']"

definition EXTENSIONS_TO_SCAN :: "string list" where
  "EXTENSIONS_TO_SCAN = [''.md'', ''.json'', ''.jsonl'', ''.ts'', ''.js'', ''.yaml'', ''.yml'']"

text \<open>\<open>path.extname\<close>: from the last dot of the last component on, nothing when it starts with that dot.\<close>

definition extname :: "string \<Rightarrow> string" where
  "extname p =
     (let base = rev (takeWhile (\<lambda>c. c \<noteq> CHR ''/'') (rev p)); ext = rev (takeWhile (\<lambda>c. c \<noteq> CHR ''.'') (rev base))
      in if length ext + 1 < length base then CHR ''.'' # ext else [])"

definition scanFile :: "bool \<Rightarrow> string \<Rightarrow> nat list \<Rightarrow> string list" where
  "scanFile enforceExtensionFilter filePath content =
     (if enforceExtensionFilter \<and> extname filePath \<notin> set EXTENSIONS_TO_SCAN then []
      else if list_ex bidi_char content then [filePath] else [])"

fun scanDir :: "(string \<Rightarrow> string \<Rightarrow> string) \<Rightarrow> string \<Rightarrow> (string \<times> fs_node) list \<Rightarrow> string list" where
  "scanDir join dir [] = []"
| "scanDir join dir ((name, FsFile content) # rest) = scanFile True (join dir name) content @ scanDir join dir rest"
| "scanDir join dir ((name, FsDir kids) # rest) =
     (if name \<in> set SKIP_DIRS then [] else scanDir join (join dir name) kids) @ scanDir join dir rest"

record scan_state =
  filesWithBidi :: "string list"
  missingFiles :: "string list"

definition provided_step :: "(string \<Rightarrow> string \<Rightarrow> string) \<Rightarrow> (string \<Rightarrow> fs_node option) \<Rightarrow> scan_state \<Rightarrow> string \<Rightarrow> scan_state" where
  "provided_step join fs st target =
     (case fs target of
        None \<Rightarrow> st\<lparr>missingFiles := missingFiles st @ [target]\<rparr>
      | Some (FsDir kids) \<Rightarrow> st\<lparr>filesWithBidi := filesWithBidi st @ scanDir join target kids\<rparr>
      | Some (FsFile content) \<Rightarrow> st\<lparr>filesWithBidi := filesWithBidi st @ scanFile False target content\<rparr>)"

definition runProvidedScan :: "(string \<Rightarrow> string \<Rightarrow> string) \<Rightarrow> (string \<Rightarrow> fs_node option) \<Rightarrow> string list \<Rightarrow> scan_state" where
  "runProvidedScan join fs targets = foldl (provided_step join fs) \<lparr>filesWithBidi = [], missingFiles = []\<rparr> targets"

text \<open>\<open>readdirSync\<close> on a file that has the name of a directory throws; \<open>None\<close> stands for that.\<close>

fun default_scan :: "(string \<Rightarrow> string \<Rightarrow> string) \<Rightarrow> (string \<Rightarrow> fs_node option) \<Rightarrow> string list \<Rightarrow> string list option" where
  "default_scan join fs [] = Some []"
| "default_scan join fs (dir # dirs) =
     (case fs dir of
        None \<Rightarrow> default_scan join fs dirs
      | Some (FsDir kids) \<Rightarrow> map_option (append (scanDir join dir kids)) (default_scan join fs dirs)
      | Some (FsFile content) \<Rightarrow> None)"

definition runDefaultScan :: "(string \<Rightarrow> string \<Rightarrow> string) \<Rightarrow> (string \<Rightarrow> fs_node option) \<Rightarrow> scan_state option" where
  "runDefaultScan join fs = map_option (\<lambda>found. \<lparr>filesWithBidi = found, missingFiles = []\<rparr>) (default_scan join fs DIRS_TO_SCAN)"

definition bidi_exit :: "(string \<Rightarrow> string \<Rightarrow> string) \<Rightarrow> (string \<Rightarrow> fs_node option) \<Rightarrow> string list \<Rightarrow> nat" where
  "bidi_exit join fs providedPaths =
     (case (if providedPaths \<noteq> [] then Some (runProvidedScan join fs providedPaths) else runDefaultScan join fs) of
        None \<Rightarrow> 1
      | Some st \<Rightarrow> if missingFiles st \<noteq> [] \<or> filesWithBidi st \<noteq> [] then 1 else 0)"

section \<open>Specification\<close>

text \<open>The files of a tree that count: reached without a skipped directory, with their path.\<close>

inductive reached :: "(string \<Rightarrow> string \<Rightarrow> string) \<Rightarrow> string \<Rightarrow> (string \<times> fs_node) list \<Rightarrow> string \<Rightarrow> nat list \<Rightarrow> bool" for join where
  reached_file: "(name, FsFile content) \<in> set kids \<Longrightarrow> reached join dir kids (join dir name) content"
| reached_dir: "(name, FsDir sub) \<in> set kids \<Longrightarrow> name \<notin> set SKIP_DIRS \<Longrightarrow> reached join (join dir name) sub p content \<Longrightarrow>
    reached join dir kids p content"

definition offends :: "(string \<Rightarrow> string \<Rightarrow> string) \<Rightarrow> string \<Rightarrow> (string \<times> fs_node) list \<Rightarrow> string \<Rightarrow> bool" where
  "offends join dir kids p \<longleftrightarrow>
     (\<exists>content. reached join dir kids p content \<and> extname p \<in> set EXTENSIONS_TO_SCAN \<and> (\<exists>c \<in> set content. bidi_char c))"

lemma reached_mono: "reached join dir kids p content \<Longrightarrow> set kids \<subseteq> set others \<Longrightarrow> reached join dir others p content"
  by (induction rule: reached.induct) (auto intro: reached.intros)

lemma reached_Nil [simp]: "\<not> reached join dir [] p content"
  by (auto elim: reached.cases)

lemma reached_Cons:
  "reached join dir ((name, node) # rest) p content \<longleftrightarrow>
    (case node of FsFile c \<Rightarrow> p = join dir name \<and> content = c
     | FsDir sub \<Rightarrow> name \<notin> set SKIP_DIRS \<and> reached join (join dir name) sub p content) \<or> reached join dir rest p content"
proof
  assume "reached join dir ((name, node) # rest) p content"
  then show "(case node of FsFile c \<Rightarrow> p = join dir name \<and> content = c
     | FsDir sub \<Rightarrow> name \<notin> set SKIP_DIRS \<and> reached join (join dir name) sub p content) \<or> reached join dir rest p content"
    by cases (auto intro: reached.intros)
next
  assume "(case node of FsFile c \<Rightarrow> p = join dir name \<and> content = c
     | FsDir sub \<Rightarrow> name \<notin> set SKIP_DIRS \<and> reached join (join dir name) sub p content) \<or> reached join dir rest p content"
  then show "reached join dir ((name, node) # rest) p content"
    by (auto intro: reached.intros reached_mono split: fs_node.splits)
qed

lemma offends_Nil [simp]: "\<not> offends join dir [] p"
  by (simp add: offends_def)

lemma scanDir_exact: "set (scanDir join dir kids) = {p. offends join dir kids p}"
proof (induction join dir kids rule: scanDir.induct)
  case (2 join dir name content rest)
  then show ?case by (auto simp: scanFile_def offends_def reached_Cons list_ex_iff)
next
  case (3 join dir name kids rest)
  then show ?case by (auto simp: offends_def reached_Cons)
qed simp

section \<open>The verdict\<close>

definition clean_target :: "(string \<Rightarrow> string \<Rightarrow> string) \<Rightarrow> string \<Rightarrow> fs_node \<Rightarrow> bool" where
  "clean_target join p node \<longleftrightarrow>
     (case node of FsDir kids \<Rightarrow> \<forall>q. \<not> offends join p kids q | FsFile content \<Rightarrow> \<forall>c \<in> set content. \<not> bidi_char c)"

lemma scanDir_empty: "scanDir join dir kids = [] \<longleftrightarrow> (\<forall>p. \<not> offends join dir kids p)"
  using scanDir_exact [of join dir kids] by (metis (mono_tags, lifting) Collect_empty_eq set_empty)

lemma provided_verdict:
  "missingFiles (foldl (provided_step join fs) st targets) = [] \<and> filesWithBidi (foldl (provided_step join fs) st targets) = [] \<longleftrightarrow>
    missingFiles st = [] \<and> filesWithBidi st = [] \<and> (\<forall>t \<in> set targets. \<exists>node. fs t = Some node \<and> clean_target join t node)"
proof (induction targets arbitrary: st)
  case (Cons t targets)
  show ?case
    unfolding foldl_Cons Cons.IH
    by (auto simp: provided_step_def scanDir_empty clean_target_def scanFile_def list_ex_iff split: option.splits fs_node.splits)
qed simp

lemma default_verdict:
  "default_scan join fs dirs = Some [] \<longleftrightarrow>
    (\<forall>d \<in> set dirs. \<forall>node. fs d = Some node \<longrightarrow> (\<exists>kids. node = FsDir kids) \<and> clean_target join d node)"
  by (induction dirs) (auto simp: scanDir_empty clean_target_def split: option.splits fs_node.splits)

text \<open>The check for hidden characters is exact. With paths given it exits with 0 exactly when each of
  them exists and is clean: a file without such a character whatever its name, or a directory
  under which no file with one of the listed extensions has one, skipped directories apart.
  Without paths it exits with 0 exactly when each of the fixed directories that exist is clean.\<close>

theorem bidi_exit_exact:
  "bidi_exit join fs paths \<in> {0, 1} \<and>
   (bidi_exit join fs paths = 0 \<longleftrightarrow>
     (if paths \<noteq> [] then \<forall>p \<in> set paths. \<exists>node. fs p = Some node \<and> clean_target join p node
      else \<forall>d \<in> set DIRS_TO_SCAN. case fs d of None \<Rightarrow> True | Some node \<Rightarrow> (\<exists>kids. node = FsDir kids) \<and> clean_target join d node))"
proof (cases "paths = []")
  case True
  have "bidi_exit join fs [] = 0 \<longleftrightarrow> default_scan join fs DIRS_TO_SCAN = Some []"
    by (cases "default_scan join fs DIRS_TO_SCAN") (simp_all add: bidi_exit_def runDefaultScan_def)
  moreover have "bidi_exit join fs [] \<in> {0, 1}" by (simp add: bidi_exit_def split: option.split)
  ultimately show ?thesis unfolding True default_verdict by (auto split: option.splits)
next
  case False
  let ?st = "foldl (provided_step join fs) \<lparr>filesWithBidi = [], missingFiles = []\<rparr> paths"
  have "bidi_exit join fs paths = 0 \<longleftrightarrow> missingFiles ?st = [] \<and> filesWithBidi ?st = []"
    using False by (simp add: bidi_exit_def runProvidedScan_def)
  then have "bidi_exit join fs paths = 0 \<longleftrightarrow> (\<forall>t \<in> set paths. \<exists>node. fs t = Some node \<and> clean_target join t node)"
    unfolding provided_verdict by simp
  moreover have "bidi_exit join fs paths \<in> {0, 1}" using False by (simp add: bidi_exit_def)
  ultimately show ?thesis using False by simp
qed

theorem bidi_exit_exact_witness:
  "bidi_exit (\<lambda>d n. d @ ''/'' @ n) (\<lambda>p. if p = ''docs'' then Some (FsDir [(''dist'', FsDir [(''a.md'', FsFile [0x200B])]), (''b.txt'', FsFile [0x200B])]) else None) [] = 0 \<and>
   bidi_exit (\<lambda>d n. d @ ''/'' @ n) (\<lambda>p. if p = ''docs'' then Some (FsDir [(''x'', FsDir [(''a.md'', FsFile [65, 0x202E])])]) else None) [] = 1"
proof
  show "bidi_exit (\<lambda>d n. d @ ''/'' @ n) (\<lambda>p. if p = ''docs'' then Some (FsDir [(''dist'', FsDir [(''a.md'', FsFile [0x200B])]), (''b.txt'', FsFile [0x200B])]) else None) [] = 0"
    by (rule iffD2 [OF conjunct2 [OF bidi_exit_exact]])
      (simp add: DIRS_TO_SCAN_def clean_target_def scanDir_empty [symmetric] SKIP_DIRS_def scanFile_def extname_def EXTENSIONS_TO_SCAN_def)
  show "bidi_exit (\<lambda>d n. d @ ''/'' @ n) (\<lambda>p. if p = ''docs'' then Some (FsDir [(''x'', FsDir [(''a.md'', FsFile [65, 0x202E])])]) else None) [] = 1"
    by (simp add: bidi_exit_def runDefaultScan_def DIRS_TO_SCAN_def SKIP_DIRS_def scanFile_def extname_def EXTENSIONS_TO_SCAN_def bidi_char_def)
qed

end
