(* ===== verification/Smart_Router.thy ===== *)
theory Smart_Router
  imports Routing_Correct Weave_Correct
begin

text \<open>
  The smart router demonstration of the SDK, \<open>examples/smartRouterDemo.ts\<close>: three clients, the
  views of their history, momentum, asymmetry, entropy and the route hints of the fuzzy engine.
  The lines it prints are not modelled; their values are a record.
\<close>

record demo_client =
  dc_id :: string
  dc_description :: string
  dc_recentEvents :: "string list"
  dc_depthScore :: rat
  dc_momentumScore :: rat

definition demoClients :: "demo_client list" where
  "demoClients =
     [\<lparr>dc_id = ''client-1'', dc_description = ''Founder in high focus, building new system'',
       dc_recentEvents = [''shipped new feature'', ''got strong insight'', ''feels momentum''],
       dc_depthScore = fl (85 / 100), dc_momentumScore = fl (3 / 5)\<rparr>,
      \<lparr>dc_id = ''client-2'', dc_description = ''Operator juggling contexts, momentum shaky'',
       dc_recentEvents = [''context switching'', ''priorities unclear'', ''needs consolidation''],
       dc_depthScore = fl (55 / 100), dc_momentumScore = - fl (1 / 10)\<rparr>,
      \<lparr>dc_id = ''client-3'', dc_description = ''Stuck loop, low momentum and shallow depth'',
       dc_recentEvents = [''busywork'', ''low clarity'', ''seeking direction''],
       dc_depthScore = 1 / 4, dc_momentumScore = fl (1 / 20)\<rparr>]"

definition demo_sector :: "string \<Rightarrow> rat \<Rightarrow> rat \<Rightarrow> rat \<Rightarrow> orientation_phase \<Rightarrow> string \<times> web_sector" where
  "demo_sector i t p r ph = (i, \<lparr>sector_id = i, tension = fl t, pull = fl p, resonance = fl r, sector_phase = ph\<rparr>)"

definition buildDemoOrientationWeb :: orientation_web where
  "buildDemoOrientationWeb =
     \<lparr>web_sectors =
        [demo_sector ''N-Future-Expansion'' (35 / 100) (65 / 100) (7 / 10) PhaseRising,
         demo_sector ''S-Past-Integration'' (1 / 4) (35 / 100) (45 / 100) PhaseStable,
         demo_sector ''E-External-Context'' (2 / 5) (2 / 5) (1 / 2) PhaseStable,
         demo_sector ''W-Inner-Reflection'' (3 / 10) (1 / 4) (55 / 100) PhaseFalling],
      activeSectorId = ''N-Future-Expansion''\<rparr>"

definition deriveTrendFromMomentum :: "rat \<Rightarrow> temporal_trend" where
  "deriveTrendFromMomentum m =
     (if m > 1 / 4 then TrendRising else if m < - (1 / 4) then TrendFalling
      else if \<bar>m\<bar> < fl (1 / 20) then TrendPlateau else TrendMixed)"

definition demo_snapshot :: "rat \<Rightarrow> rat \<Rightarrow> nat \<Rightarrow> nat \<times> string \<times> web_sector \<Rightarrow> sector_snapshot" where
  "demo_snapshot depth m n p =
     (let (index, sectorId, sector) = p;
          intensityBase = max 0 (min 1 (fl (fl (depth - fl (of_nat index * fl (1 / 10))) + fl (1 / 5))))
      in \<lparr>snap_sectorId = sectorId, snap_branchId = sector_id sector, lastTick = None, lastIntensity = Some intensityBase,
          branchTrend = Some (if index = 0 then deriveTrendFromMomentum m
                              else if Suc index = n then TrendPlateau else TrendMixed),
          isActive = intensityBase > fl (3 / 10), sourceSector = sector\<rparr>)"

definition buildSnapshots :: "orientation_web \<Rightarrow> rat \<Rightarrow> rat \<Rightarrow> sector_snapshot list" where
  "buildSnapshots web depth m =
     map (demo_snapshot depth m (length (web_sectors web))) (List.enumerate 0 (web_sectors web))"

definition demo_sectors_with :: "temporal_trend \<Rightarrow> sector_snapshot list \<Rightarrow> string list" where
  "demo_sectors_with t sectors = map snap_sectorId (filter (\<lambda>s. branchTrend s = Some t) sectors)"

definition buildDemoOrientationViewFromClient :: "demo_client \<Rightarrow> rat option \<Rightarrow> orientation_view" where
  "buildDemoOrientationViewFromClient client momentumOverride =
     (let web = buildDemoOrientationWeb;
          m = (case momentumOverride of Some x \<Rightarrow> x | None \<Rightarrow> dc_momentumScore client);
          sectors = buildSnapshots web (dc_depthScore client) m
      in \<lparr>view_web = web, view_sectors = sectors,
          view_summary = \<lparr>globalTrend = deriveTrendFromMomentum m, activeSectorCount = length (filter isActive sectors),
            risingSectors = demo_sectors_with TrendRising sectors, fallingSectors = demo_sectors_with TrendFalling sectors,
            plateauSectors = demo_sectors_with TrendPlateau sectors, timeWeaveDepthScore = Some (dc_depthScore client),
            focusMomentumScore = Some m\<rparr>\<rparr>)"

definition momentumSeries :: "demo_client \<Rightarrow> rat list" where
  "momentumSeries client =
     (if dc_id client = ''client-1'' then [1 / 4, fl (45 / 100), dc_momentumScore client]
      else if dc_id client = ''client-2'' then [fl (3 / 20), - fl (1 / 20), fl (3 / 25), dc_momentumScore client]
      else if dc_id client = ''client-3'' then [fl (3 / 10), fl (3 / 20), dc_momentumScore client]
      else [dc_momentumScore client])"

definition buildDemoHistoryFromClient :: "demo_client \<Rightarrow> orientation_view list" where
  "buildDemoHistoryFromClient client = map (\<lambda>m. buildDemoOrientationViewFromClient client (Some m)) (momentumSeries client)"

definition asymmetry_segment :: "rat \<Rightarrow> nat \<times> orientation_view \<Rightarrow> history_segment" where
  "asymmetry_segment baseTimestamp p =
     (let (index, snapshot) = p; s = view_summary snapshot; b = (case focusMomentumScore s of Some m \<Rightarrow> m | None \<Rightarrow> 0)
      in \<lparr>seg_bias = Finite b, seg_timestampMs = Some (Finite (fl (baseTimestamp + of_nat (index * 1000)))),
          seg_stepCount = Some (of_nat (max (activeSectorCount s) 1)), seg_asymmetryMagnitude = Some (Finite \<bar>b\<bar>)\<rparr>)"

definition buildAsymmetryHistoryFromOrientationHistory :: "rat \<Rightarrow> orientation_view list \<Rightarrow> history_segment list" where
  "buildAsymmetryHistoryFromOrientationHistory now history = map (asymmetry_segment now) (List.enumerate 0 history)"

definition priorityOrder :: "routing_priority list" where "priorityOrder = [PriorityHigh, PriorityNormal, PriorityLow]"
definition modeOrder :: "routing_mode list" where "modeOrder = [Exploit, Explore, Stabilize]"

definition order_index :: "'a list \<Rightarrow> 'a \<Rightarrow> int" where
  "order_index xs x = (if x \<in> set xs then int (length (takeWhile (\<lambda>y. y \<noteq> x) xs)) else - 1)"

definition hint_cmp :: "route_hint \<Rightarrow> route_hint \<Rightarrow> int" where
  "hint_cmp a b =
     (let priorityDiff = order_index priorityOrder (rh_priority a) - order_index priorityOrder (rh_priority b);
          modeDiff = order_index modeOrder (rh_mode a) - order_index modeOrder (rh_mode b)
      in if priorityDiff \<noteq> 0 then priorityDiff else if modeDiff \<noteq> 0 then modeDiff else 0)"

definition pickBestRouteHint :: "route_hint list \<Rightarrow> route_hint option" where
  "pickBestRouteHint hints = (case sort_by hint_cmp hints of [] \<Rightarrow> None | best # rest \<Rightarrow> Some best)"

definition formatEvents :: "string list \<Rightarrow> string" where
  "formatEvents events = js_join [newline] (map (\<lambda>event. ''- '' @ event) events)"

record demo_route =
  dr_client :: string
  dr_momentum :: momentum_metrics
  dr_asymmetry :: asymmetry_meta
  dr_entropy :: rat
  dr_total :: nat
  dr_best :: "route_hint option"

definition demo_route_for :: "math_lib \<Rightarrow> rat \<Rightarrow> demo_client \<Rightarrow> demo_route result" where
  "demo_route_for M now client =
     (let history = buildDemoHistoryFromClient client;
          view = (if history \<noteq> [] then last history else buildDemoOrientationViewFromClient client None);
          past = (if length history > 0 then history else [view]);
          asymmetry = computeAsymmetryMeta M (buildAsymmetryHistoryFromOrientationHistory now past) (Some 40) (Some 60000)
      in bindr (buildRouteHintsFromOrientation view (Some past) (Some asymmetry)) (\<lambda>hints.
           Inr \<lparr>dr_client = dc_id client, dr_momentum = computeMomentumMetrics (map view_summary past) None, dr_asymmetry = asymmetry,
             dr_entropy = deriveEntropyFromOrientation (view_summary view), dr_total = length hints, dr_best = pickBestRouteHint hints\<rparr>))"

definition runSmartRouterDemo :: "math_lib \<Rightarrow> rat \<Rightarrow> demo_route list result" where
  "runSmartRouterDemo M now = map_result (demo_route_for M now) demoClients"

section \<open>The hint chosen\<close>

lemma sort_by_Nil [simp]: "sort_by c [] = []"
  using length_sort_by [of c "[]"] by (simp del: length_sort_by)

lemma sort_by_snoc_hd:
  "hd (sort_by c (xs @ [x])) = (if xs = [] then x else if c x (hd (sort_by c xs)) < 0 then x else hd (sort_by c xs))"
proof -
  have e: "(Inr (sort_by c (xs @ [x])) :: unit + 'a list) = js_insert (\<lambda>x y. Inr (c x y)) x (sort_by c xs)"
    using js_sort_Inr [of c "xs @ [x]"] js_sort_Inr [of c xs] by (simp add: bind_err_def)
  show ?thesis
  proof (cases "sort_by c xs")
    case Nil
    then have "xs = []" using length_sort_by [of c xs] by simp
    then show ?thesis using e by simp
  next
    case (Cons y ys)
    then have "xs \<noteq> []" by auto
    moreover obtain zs where "js_insert (\<lambda>x y. Inr (c x y)) x ys = (Inr zs :: unit + 'a list)" using js_insert_Inr by metis
    ultimately show ?thesis using e Cons by (auto simp: bind_err_def split: if_splits)
  qed
qed

definition hint_rank :: "route_hint \<Rightarrow> nat \<times> nat" where
  "hint_rank h =
     (case rh_priority h of PriorityHigh \<Rightarrow> 0 | PriorityNormal \<Rightarrow> 1 | PriorityLow \<Rightarrow> 2,
      case rh_mode h of Exploit \<Rightarrow> 0 | Explore \<Rightarrow> 1 | Stabilize \<Rightarrow> 2)"

definition ranks_before :: "route_hint \<Rightarrow> route_hint \<Rightarrow> bool" where
  "ranks_before a b \<longleftrightarrow> fst (hint_rank a) < fst (hint_rank b) \<or> fst (hint_rank a) = fst (hint_rank b) \<and> snd (hint_rank a) < snd (hint_rank b)"

lemma hint_cmp_neg: "hint_cmp a b < 0 \<longleftrightarrow> ranks_before a b"
  by (cases "rh_priority a"; cases "rh_priority b"; cases "rh_mode a"; cases "rh_mode b")
    (simp_all add: hint_cmp_def ranks_before_def hint_rank_def order_index_def priorityOrder_def modeOrder_def)

lemma ranks_before_trans: "\<not> ranks_before b a \<Longrightarrow> \<not> ranks_before c b \<Longrightarrow> \<not> ranks_before c a"
  "ranks_before a b \<Longrightarrow> \<not> ranks_before c b \<Longrightarrow> ranks_before a c" "\<not> ranks_before a a" "ranks_before a b \<Longrightarrow> \<not> ranks_before b a"
  unfolding ranks_before_def by auto

lemma first_best:
  assumes "hs \<noteq> []"
  shows "\<exists>i < length hs. hd (sort_by hint_cmp hs) = hs ! i \<and> (\<forall>j < length hs. \<not> ranks_before (hs ! j) (hs ! i)) \<and>
    (\<forall>j < i. ranks_before (hs ! i) (hs ! j))"
  using assms
proof (induction hs rule: rev_induct)
  case (snoc x xs)
  show ?case
  proof (cases "xs = []")
    case True
    then show ?thesis using sort_by_snoc_hd [of hint_cmp "[]" x] by (auto simp: ranks_before_trans(3))
  next
    case False
    then obtain i where i: "i < length xs" "hd (sort_by hint_cmp xs) = xs ! i" "\<forall>j < length xs. \<not> ranks_before (xs ! j) (xs ! i)"
      "\<forall>j < i. ranks_before (xs ! i) (xs ! j)" using snoc.IH by blast
    show ?thesis
    proof (cases "ranks_before x (xs ! i)")
      case True
      then have "hd (sort_by hint_cmp (xs @ [x])) = (xs @ [x]) ! length xs" using False i(2) by (simp add: sort_by_snoc_hd hint_cmp_neg)
      moreover have "ranks_before x (xs ! j)" if "j < length xs" for j using True i(3) that ranks_before_trans(2) by blast
      ultimately show ?thesis
        by (intro exI [of _ "length xs"]) (auto simp: nth_append less_Suc_eq dest: ranks_before_trans(4))
    next
      case c: False
      then have "hd (sort_by hint_cmp (xs @ [x])) = (xs @ [x]) ! i" using False i(1,2) by (simp add: sort_by_snoc_hd hint_cmp_neg nth_append)
      then show ?thesis using i c by (intro exI [of _ i]) (auto simp: nth_append less_Suc_eq)
    qed
  qed
qed simp

lemma pickBest_hd: "pickBestRouteHint hs = (if hs = [] then None else Some (hd (sort_by hint_cmp hs)))"
  using length_sort_by [of hint_cmp hs] by (cases "sort_by hint_cmp hs") (auto simp: pickBestRouteHint_def simp del: length_sort_by)

lemma same_rank:
  assumes "computeRouteHintForSector i ctx None = Inr h" and "computeRouteHintForSector j ctx None = Inr h'"
  shows "rh_priority h = rh_priority h'" "rh_mode h = rh_mode h'"
  using assms by (auto simp: computeRouteHintForSector_def Let_def bindr_Inr_iff case_prod_unfold)

lemma hints_of_view:
  obtains hs where "buildRouteHintsFromOrientation view history meta = Inr hs"
    and "map rh_sectorId hs = map (sector_id \<circ> snd) (web_sectors (view_web view))"
    and "\<forall>a \<in> set hs. \<forall>b \<in> set hs. hint_rank a = hint_rank b"
proof -
  let ?ctx = "orientation_context view history meta" and ?ss = "web_sectors (view_web view)"
  define g where "g = (\<lambda>p :: string \<times> web_sector. hint_for ?ctx (\<lambda>_. None) (sector_id (snd p)))"
  have g: "computeRouteHintForSector (sector_id (snd p)) ?ctx None = Inr (g p)" for p
    using hint_for_facts(1) [of "sector_id (snd p)" ?ctx "\<lambda>_. None"] by (simp add: g_def)
  have "buildRouteHintsFromOrientation view history meta = Inr (map g ?ss)"
    unfolding buildRouteHintsFromOrientation_def Let_def by (rule map_result_Inr) (use g in \<open>simp add: case_prod_unfold\<close>)
  moreover have "map rh_sectorId (map g ?ss) = map (sector_id \<circ> snd) ?ss" by (simp add: g_def hint_for_facts(2))
  moreover have "hint_rank (g p) = hint_rank (g q)" for p q using same_rank [OF g g, of p q] by (simp add: hint_rank_def)
  ultimately show ?thesis by (intro that) auto
qed

lemma first_sector_chosen:
  assumes "buildRouteHintsFromOrientation view history meta = Inr hs" and "web_sectors (view_web view) \<noteq> []"
  shows "length hs = length (web_sectors (view_web view)) \<and> (\<exists>h. pickBestRouteHint hs = Some h \<and> rh_sectorId h = sector_id (snd (hd (web_sectors (view_web view)))))"
proof -
  have m: "map rh_sectorId hs = map (sector_id \<circ> snd) (web_sectors (view_web view))" and r: "\<forall>a \<in> set hs. \<forall>b \<in> set hs. hint_rank a = hint_rank b"
    using hints_of_view [of view history meta] assms(1) by auto
  have l: "length hs = length (web_sectors (view_web view))" using m by (metis length_map)
  then have "hs \<noteq> []" using assms(2) by auto
  then obtain i where i: "i < length hs" "hd (sort_by hint_cmp hs) = hs ! i" "\<forall>j < i. ranks_before (hs ! i) (hs ! j)" using first_best by blast
  have "hs ! i \<in> set hs" "hs ! 0 \<in> set hs" using i(1) \<open>hs \<noteq> []\<close> by simp_all
  then have "hint_rank (hs ! i) = hint_rank (hs ! 0)" using r by blast
  then have "\<not> ranks_before (hs ! i) (hs ! 0)" by (simp add: ranks_before_def)
  then have "i = 0" using i(3) by blast
  moreover have "rh_sectorId (hs ! 0) = sector_id (snd (hd (web_sectors (view_web view))))"
    using arg_cong [OF m, of hd] \<open>hs \<noteq> []\<close> assms(2) by (simp add: hd_map hd_conv_nth)
  ultimately show ?thesis using l i(2) \<open>hs \<noteq> []\<close> by (simp add: pickBest_hd)
qed

text \<open>The route the demonstration picks. Of a list of hints it takes the first one among those of best
  priority and, within it, best mode. As all hints of one view share priority and mode, every run
  over the three clients ends without an exception and suggests the first sector of the web to
  each of them, whatever depth, momentum and asymmetry are.\<close>

theorem smart_router_choice:
  "(\<exists>rs. runSmartRouterDemo M now = Inr rs \<and> map dr_client rs = [''client-1'', ''client-2'', ''client-3''] \<and>
     (\<forall>r \<in> set rs. dr_total r = 4 \<and> 0 \<le> dr_entropy r \<and> dr_entropy r \<le> 1 \<and> map_option rh_sectorId (dr_best r) = Some ''N-Future-Expansion'')) \<and>
   (case pickBestRouteHint hints of
      None \<Rightarrow> hints = []
    | Some best \<Rightarrow> \<exists>i < length hints. best = hints ! i \<and> (\<forall>j < length hints. \<not> ranks_before (hints ! j) best) \<and> (\<forall>j < i. ranks_before best (hints ! j)))"
proof
  have "\<exists>r. demo_route_for M now c = Inr r \<and> dr_client r = dc_id c \<and> dr_total r = 4 \<and> 0 \<le> dr_entropy r \<and> dr_entropy r \<le> 1 \<and>
      map_option rh_sectorId (dr_best r) = Some ''N-Future-Expansion''" for c
  proof -
    let ?h = "buildDemoHistoryFromClient c"
    have ne: "?h \<noteq> []" by (simp add: buildDemoHistoryFromClient_def momentumSeries_def)
    have w: "view_web (last ?h) = buildDemoOrientationWeb"
      using last_in_set [OF ne] by (auto simp: buildDemoHistoryFromClient_def buildDemoOrientationViewFromClient_def Let_def)
    define meta where "meta = computeAsymmetryMeta M (buildAsymmetryHistoryFromOrientationHistory now ?h) (Some 40) (Some 60000)"
    obtain hs where hs: "buildRouteHintsFromOrientation (last ?h) (Some ?h) (Some meta) = Inr hs" by (rule hints_of_view)
    have "demo_route_for M now c = Inr \<lparr>dr_client = dc_id c, dr_momentum = computeMomentumMetrics (map view_summary ?h) None, dr_asymmetry = meta,
        dr_entropy = deriveEntropyFromOrientation (view_summary (last ?h)), dr_total = length hs, dr_best = pickBestRouteHint hs\<rparr>"
      using ne hs by (simp add: demo_route_for_def Let_def meta_def [symmetric] bindr_def)
    moreover have "length hs = 4 \<and> (\<exists>h. pickBestRouteHint hs = Some h \<and> rh_sectorId h = ''N-Future-Expansion'')"
      using first_sector_chosen [OF hs] by (simp add: w) (simp add: buildDemoOrientationWeb_def demo_sector_def)
    ultimately show ?thesis by (auto simp: deriveEntropyFromOrientation_def Let_def)
  qed
  then obtain r where r: "\<And>c. demo_route_for M now c = Inr (r c) \<and> dr_client (r c) = dc_id c \<and> dr_total (r c) = 4 \<and>
      0 \<le> dr_entropy (r c) \<and> dr_entropy (r c) \<le> 1 \<and> map_option rh_sectorId (dr_best (r c)) = Some ''N-Future-Expansion''" by metis
  then have "runSmartRouterDemo M now = Inr (map r demoClients)" unfolding runSmartRouterDemo_def by (intro map_result_Inr) blast
  then show "\<exists>rs. runSmartRouterDemo M now = Inr rs \<and> map dr_client rs = [''client-1'', ''client-2'', ''client-3''] \<and>
     (\<forall>r \<in> set rs. dr_total r = 4 \<and> 0 \<le> dr_entropy r \<and> dr_entropy r \<le> 1 \<and> map_option rh_sectorId (dr_best r) = Some ''N-Future-Expansion'')"
    using r by (intro exI [of _ "map r demoClients"]) (auto simp: demoClients_def)
  show "case pickBestRouteHint hints of None \<Rightarrow> hints = []
    | Some best \<Rightarrow> \<exists>i < length hints. best = hints ! i \<and> (\<forall>j < length hints. \<not> ranks_before (hints ! j) best) \<and> (\<forall>j < i. ranks_before best (hints ! j))"
    using first_best [of hints] by (cases "hints = []") (simp_all add: pickBest_hd, metis)
qed

theorem smart_router_choice_witness:
  "\<exists>rs. runSmartRouterDemo \<lparr>math_exp = (\<lambda>x. x), math_log1p = (\<lambda>x. x)\<rparr> 1000 = Inr rs \<and> length rs = 3 \<and>
     (\<forall>r \<in> set rs. map_option rh_sectorId (dr_best r) = Some ''N-Future-Expansion'')"
proof -
  obtain rs where "runSmartRouterDemo \<lparr>math_exp = (\<lambda>x. x), math_log1p = (\<lambda>x. x)\<rparr> 1000 = Inr rs"
    "map dr_client rs = [''client-1'', ''client-2'', ''client-3'']" "\<forall>r \<in> set rs. map_option rh_sectorId (dr_best r) = Some ''N-Future-Expansion''"
    using conjunct1 [OF smart_router_choice [of "\<lparr>math_exp = (\<lambda>x. x), math_log1p = (\<lambda>x. x)\<rparr>" 1000 "[]"]] by metis
  then show ?thesis using arg_cong [of "map dr_client rs" _ length] by auto
qed


end
