(* ===== verification/Turtle_Hud.thy ===== *)
theory Turtle_Hud
  imports Weave_Graph JSON JS_Library
begin

text \<open>
  The browser display of the turtle orientation, \<open>examples/turtle-hud/hud.ts\<close>: what it reads from a
  message, the state it keeps and what it shows. The elements of the page are present; the time
  of a message is an input.
\<close>

section \<open>State\<close>

definition DIRECTIONS :: "string set" where "DIRECTIONS = {''past'', ''now'', ''future''}"
definition AXES :: "string set" where "AXES = {''self'', ''family'', ''world''}"

datatype hud_status = HudConnecting | HudLive | HudDisconnected | HudError

record turtle_like =
  mainTimeDirection :: string
  mainSocialAxis :: string
  th_depthScore :: jsval
  th_focusScore :: jsval
  th_metaHint :: jsval

record ltp_hud =
  th_status :: hud_status
  lastUpdatedAt :: "rat option"
  th_snapshot :: "turtle_like option"
  th_focusMomentum :: rat

definition BASELINE_HUD_STATE :: ltp_hud where
  "BASELINE_HUD_STATE = \<lparr>th_status = HudConnecting, lastUpdatedAt = None, th_snapshot = None, th_focusMomentum = 0\<rparr>"

definition ellipsis :: string where "ellipsis = [CHR 0xE2, CHR 0x80, CHR 0xA6]"

definition FALLBACK_SNAPSHOT :: turtle_like where
  "FALLBACK_SNAPSHOT = \<lparr>mainTimeDirection = ''now'', mainSocialAxis = ''self'', th_depthScore = JNum 0, th_focusScore = JNum 0,
     th_metaHint = JStr (''waiting for stream'' @ ellipsis)\<rparr>"

section \<open>Bands and hints\<close>

definition hud_clampScore :: "jsval \<Rightarrow> rat" where
  "hud_clampScore v = (case v of JNum x \<Rightarrow> max 0 (min 1 x) | _ \<Rightarrow> 0)"

definition focusMomentumToBand :: "jsval \<Rightarrow> string" where
  "focusMomentumToBand score =
     (let value = hud_clampScore score in if value < fl (3 / 10) then ''low'' else if value \<le> fl (7 / 10) then ''medium'' else ''high'')"

definition timeWeaveDepthToBand :: "jsval \<Rightarrow> string" where
  "timeWeaveDepthToBand score =
     (let value = hud_clampScore score in if value < fl (3 / 10) then ''shallow'' else if value \<le> fl (7 / 10) then ''layered'' else ''deep'')"

definition deriveModeHint :: "turtle_like \<Rightarrow> string" where
  "deriveModeHint snapshot =
     (let focusBand = focusMomentumToBand (th_focusScore snapshot); depthBand = timeWeaveDepthToBand (th_depthScore snapshot)
      in if focusBand = ''high'' \<and> mainTimeDirection snapshot = ''future'' then ''commit''
         else if depthBand = ''deep'' \<and> mainSocialAxis snapshot \<in> {''family'', ''world''} then ''explore'' else ''stabilize'')"

section \<open>What is shown\<close>

definition statusToLabel :: "hud_status \<Rightarrow> string" where
  "statusToLabel status =
     (case status of HudLive \<Rightarrow> ''WS: live'' | HudDisconnected \<Rightarrow> ''WS: disconnected'' | HudError \<Rightarrow> ''WS: error''
      | HudConnecting \<Rightarrow> ''WS: connecting'' @ ellipsis)"

record hud_display =
  sh_status :: string
  sh_direction :: string
  sh_axis :: string
  sh_width :: rat
  sh_focus :: string
  sh_depth :: string
  sh_mode :: string
  sh_meta :: jsval

definition renderOrientation :: "hud_status \<Rightarrow> turtle_like \<Rightarrow> hud_display" where
  "renderOrientation status data =
     \<lparr>sh_status = statusToLabel status, sh_direction = mainTimeDirection data, sh_axis = mainSocialAxis data,
      sh_width = math_round (fl (hud_clampScore (th_focusScore data) * 100)),
      sh_focus = ''focus: '' @ focusMomentumToBand (th_focusScore data),
      sh_depth = ''depth: '' @ timeWeaveDepthToBand (th_depthScore data),
      sh_mode = ''mode: '' @ deriveModeHint data, sh_meta = coalesce (th_metaHint data) (JStr [])\<rparr>"

definition renderHudState :: "ltp_hud \<Rightarrow> hud_display" where
  "renderHudState state =
     renderOrientation (th_status state)
       (case th_snapshot state of Some s \<Rightarrow> s | None \<Rightarrow> FALLBACK_SNAPSHOT\<lparr>th_focusScore := JNum (th_focusMomentum state)\<rparr>)"

section \<open>Messages\<close>

definition normalizeDirection :: "jsval \<Rightarrow> string" where
  "normalizeDirection v =
     (if v = JStr ''past'' then ''past'' else if v = JStr ''future'' then ''future'' else ''now'')"

definition normalizeAxis :: "jsval \<Rightarrow> string" where
  "normalizeAxis v =
     (if v = JStr ''family'' then ''family'' else if v = JStr ''world'' \<or> v = JStr ''collective'' then ''world'' else ''self'')"

definition mapTurtleFrameToOrientation :: "jsval \<Rightarrow> string \<times> string" where
  "mapTurtleFrameToOrientation frameId =
     (if frameId = JStr ''deep_time'' then (''future'', ''world'')
      else if frameId \<in> {JStr ''local_time'', JStr ''baseline'', JStr ''regulation_axis''} then (''now'', ''self'')
      else if frameId = JStr ''family_field'' then (''now'', ''family'')
      else if frameId \<in> {JStr ''collective_field'', JStr ''field_resonance''} then (''future'', ''world'')
      else if frameId = JStr ''inner_focus'' then (''future'', ''self'')
      else (''now'', ''self''))"

definition extractFromTurtlePayload :: "jsval \<Rightarrow> (string \<times> string \<times> jsval) option" where
  "extractFromTurtlePayload payload =
     (if \<not> truthy payload then None
      else
        let frameId = js_or (pget payload ''currentFrameId'') (js_or (pget payload ''currentFrame'') (pget payload ''id''));
            (direction, axis) = mapTurtleFrameToOrientation frameId;
            commitment = (case pget payload ''commitment'' of JNum x \<Rightarrow> JNum (hud_clampScore (JNum x)) | _ \<Rightarrow> JUndef)
        in Some (direction, axis, commitment))"

definition first_of_keys :: "jsval \<Rightarrow> string list \<Rightarrow> jsval" where
  "first_of_keys v ks = foldr (\<lambda>k rest. coalesce (pget v k) rest) ks JUndef"

definition orientation_part :: "jsval \<Rightarrow> jsval" where
  "orientation_part payload =
     js_or (pget payload ''orientation'') (js_or (pget payload ''temporalOrientation'') (js_or (pget payload ''temporalOrientationView'')
       (js_or (pget payload ''snapshot'') (js_or (pget payload ''turtleSnapshot'') payload))))"

definition metrics_part :: "jsval \<Rightarrow> jsval \<Rightarrow> jsval" where
  "metrics_part payload orientation =
     js_or (pget orientation ''metrics'') (js_or (pget (pget orientation ''decision'') ''metrics'')
       (js_or (pget (pget (pget orientation ''rawView'') ''decision'') ''metrics'') (pget payload ''metrics'')))"

definition extractSnapshot :: "jsval \<Rightarrow> turtle_like" where
  "extractSnapshot raw =
     (let payload = coalesce (pget raw ''payload'') raw; orientation = orientation_part payload;
          directDirection = normalizeDirection (first_of_keys orientation [''mainTimeDirection'', ''timeDirection'', ''direction'']);
          directAxis = normalizeAxis (first_of_keys orientation [''mainSocialAxis'', ''socialAxis'', ''axis'']);
          turtleDerived = extractFromTurtlePayload (coalesce (pget orientation ''turtle'') (pget (pget orientation ''rawView'') ''turtle''));
          metrics = metrics_part payload orientation;
          depthScore = coalesce (pget orientation ''timeWeaveDepthScore'') (coalesce (pget metrics ''depthScore'')
            (coalesce (pget metrics ''timeWeaveDepthScore'') (case turtleDerived of Some t \<Rightarrow> snd (snd t) | None \<Rightarrow> JUndef)));
          focusScore = coalesce (pget orientation ''focusMomentumScore'') (coalesce (pget metrics ''focusMomentum'') (pget metrics ''focusMomentumScore''));
          meta = coalesce (first_of_keys orientation [''metaHint'', ''hint'', ''resonanceHint'']) (pget payload ''metaHint'')
      in \<lparr>mainTimeDirection = (case turtleDerived of Some t \<Rightarrow> fst t | None \<Rightarrow> directDirection),
          mainSocialAxis = (case turtleDerived of Some t \<Rightarrow> fst (snd t) | None \<Rightarrow> directAxis),
          th_depthScore = depthScore, th_focusScore = focusScore, th_metaHint = meta\<rparr>)"

definition normalizeMessagePayload :: "jsval \<Rightarrow> jsval" where
  "normalizeMessagePayload raw = (case raw of JArr xs \<Rightarrow> if xs = [] then JNull else last xs | _ \<Rightarrow> raw)"

text \<open>\<open>None\<close> where the previous object comes back, which is not drawn again.\<close>

definition applySnapshotUpdate :: "rat \<Rightarrow> ltp_hud \<Rightarrow> turtle_like option \<Rightarrow> ltp_hud option" where
  "applySnapshotUpdate now prev incoming =
     (case incoming of
        None \<Rightarrow> None
      | Some s \<Rightarrow> Some \<lparr>th_status = HudLive, lastUpdatedAt = Some now, th_snapshot = Some s,
          th_focusMomentum = hud_clampScore (coalesce (th_focusScore s) (JNum (th_focusMomentum prev)))\<rparr>)"

definition withStatus :: "ltp_hud \<Rightarrow> hud_status \<Rightarrow> ltp_hud option" where
  "withStatus prev status = (if th_status prev = status then None else Some (prev\<lparr>th_status := status\<rparr>))"

record hud_page =
  hudState :: ltp_hud
  shown :: hud_display

definition setHudState :: "ltp_hud option \<Rightarrow> hud_page \<Rightarrow> hud_page" where
  "setHudState changed page = (case changed of None \<Rightarrow> page | Some st \<Rightarrow> \<lparr>hudState = st, shown = renderHudState st\<rparr>)"

definition hud_message :: "rat \<Rightarrow> string \<Rightarrow> hud_page \<Rightarrow> hud_page" where
  "hud_message now data page =
     (case json_parse data of
        None \<Rightarrow> setHudState (withStatus (hudState page) HudError) page
      | Some parsed \<Rightarrow>
          (let normalized = normalizeMessagePayload parsed;
               snapshot = (if truthy normalized then Some (extractSnapshot normalized) else None)
           in setHudState (applySnapshotUpdate now (hudState page) snapshot) page))"

datatype hud_socket_event = SocketOpened | SocketFailed | SocketEnded | SocketMessage rat string

definition socket_step :: "hud_socket_event \<Rightarrow> hud_page \<Rightarrow> hud_page" where
  "socket_step ev page =
     (case ev of
        SocketOpened \<Rightarrow> setHudState (withStatus (hudState page) HudConnecting) page
      | SocketFailed \<Rightarrow> setHudState (withStatus (hudState page) HudError) page
      | SocketEnded \<Rightarrow> setHudState (withStatus (hudState page) HudDisconnected) page
      | SocketMessage now data \<Rightarrow> hud_message now data page)"

definition bootstrap :: hud_page where
  "bootstrap = setHudState (withStatus BASELINE_HUD_STATE HudConnecting) \<lparr>hudState = BASELINE_HUD_STATE, shown = renderHudState BASELINE_HUD_STATE\<rparr>"

section \<open>Properties\<close>

definition wf_page :: "hud_page \<Rightarrow> bool" where
  "wf_page page \<longleftrightarrow> shown page = renderHudState (hudState page) \<and> 0 \<le> th_focusMomentum (hudState page) \<and> th_focusMomentum (hudState page) \<le> 1 \<and>
     (th_status (hudState page) = HudLive \<longrightarrow> th_snapshot (hudState page) \<noteq> None) \<and>
     (th_snapshot (hudState page) = None \<longleftrightarrow> lastUpdatedAt (hudState page) = None) \<and>
     (\<forall>s. th_snapshot (hudState page) = Some s \<longrightarrow>
        mainTimeDirection s \<in> DIRECTIONS \<and> mainSocialAxis s \<in> AXES)"

lemma known_names [simp]:
  "normalizeDirection v \<in> DIRECTIONS" "normalizeAxis v \<in> AXES"
  "fst (mapTurtleFrameToOrientation v) \<in> DIRECTIONS" "snd (mapTurtleFrameToOrientation v) \<in> AXES"
  by (simp_all add: normalizeDirection_def normalizeAxis_def mapTurtleFrameToOrientation_def DIRECTIONS_def AXES_def)

lemma turtle_names: "extractFromTurtlePayload v = Some t \<Longrightarrow> fst t \<in> DIRECTIONS \<and> fst (snd t) \<in> AXES"
  by (auto simp: extractFromTurtlePayload_def Let_def case_prod_unfold split: if_splits)

lemma extracted_names: "mainTimeDirection (extractSnapshot v) \<in> DIRECTIONS" "mainSocialAxis (extractSnapshot v) \<in> AXES"
  using turtle_names by (auto simp: extractSnapshot_def Let_def split: option.split)

lemma hud_clampScore_bounds [simp]: "0 \<le> hud_clampScore v" "hud_clampScore v \<le> 1"
  by (cases v; simp add: hud_clampScore_def)+

lemma wf_page_status: "wf_page page \<Longrightarrow> status \<noteq> HudLive \<Longrightarrow> wf_page (setHudState (withStatus (hudState page) status) page)"
  by (simp add: wf_page_def setHudState_def withStatus_def)

lemma wf_page_update: "wf_page page \<Longrightarrow> wf_page (setHudState (applySnapshotUpdate now (hudState page) (Some (extractSnapshot v))) page)"
  using extracted_names [of v] by (simp add: wf_page_def setHudState_def applySnapshotUpdate_def)

lemma wf_page_step: "wf_page page \<Longrightarrow> wf_page (socket_step ev page)"
  using wf_page_status wf_page_update
  by (cases ev) (simp_all add: socket_step_def hud_message_def Let_def applySnapshotUpdate_def [of _ _ None] setHudState_def [of None] split: option.split)

lemma wf_run: "wf_page (fold socket_step evs bootstrap)"
proof -
  have "wf_page page \<Longrightarrow> wf_page (fold socket_step evs page)" for page
    by (induction evs arbitrary: page) (simp_all add: wf_page_step)
  moreover have "wf_page bootstrap"
    by (simp add: wf_page_def bootstrap_def setHudState_def withStatus_def BASELINE_HUD_STATE_def)
  ultimately show ?thesis by blast
qed

lemma bar_width: "0 \<le> sh_width (renderHudState st) \<and> sh_width (renderHudState st) \<le> 100"
proof -
  have "0 \<le> math_round (fl (hud_clampScore v * 100)) \<and> math_round (fl (hud_clampScore v * 100)) \<le> 100" for v
  proof -
    have "0 \<le> fl (hud_clampScore v * 100)" by simp
    moreover have "fl (hud_clampScore v * 100) \<le> 100" using fl_int [of 100] by (intro fl_le) simp_all
    ultimately have "0 \<le> \<lfloor>fl (hud_clampScore v * 100) + 1 / 2\<rfloor>" "\<lfloor>fl (hud_clampScore v * 100) + 1 / 2\<rfloor> \<le> 100" by linarith+
    then show ?thesis by (simp add: math_round_def)
  qed
  then show ?thesis by (simp add: renderHudState_def renderOrientation_def)
qed

text \<open>The turtle display. In every run of socket events the page shows the current state, the bar is
  between 0 and 100 percent wide, direction and axis are known names, and the display is live only
  with a snapshot. A text that is not JSON changes nothing but the status, an empty batch changes
  nothing at all, and a batch counts as its last element.\<close>

theorem turtle_hud_sound:
  assumes "page = fold socket_step evs bootstrap"
  shows "shown page = renderHudState (hudState page) \<and> 0 \<le> sh_width (shown page) \<and> sh_width (shown page) \<le> 100 \<and>
    sh_direction (shown page) \<in> DIRECTIONS \<and> sh_axis (shown page) \<in> AXES \<and>
    (sh_status (shown page) = ''WS: live'' \<longrightarrow> th_snapshot (hudState page) \<noteq> None) \<and>
    (json_parse data = None \<longrightarrow> hudState (hud_message now data page) = (hudState page)\<lparr>th_status := HudError\<rparr>) \<and>
    (json_parse data = Some (JArr []) \<longrightarrow> hud_message now data page = page) \<and>
    (json_parse data = Some (JArr (vs @ [v])) \<longrightarrow> json_parse single = Some v \<longrightarrow> \<not> is_array v \<longrightarrow>
      hud_message now data page = hud_message now single page)"
proof -
  have wf: "wf_page page" unfolding assms by (rule wf_run)
  have "normalizeMessagePayload v = v" if "\<not> is_array v" using that by (cases v) (simp_all add: normalizeMessagePayload_def)
  then have batch: "hud_message now data page = hud_message now single page"
    if "json_parse data = Some (JArr (vs @ [v]))" "json_parse single = Some v" "\<not> is_array v"
    using that by (simp add: hud_message_def normalizeMessagePayload_def [of "JArr (vs @ [v])"])
  have names: "sh_direction (renderHudState (hudState page)) \<in> DIRECTIONS \<and> sh_axis (renderHudState (hudState page)) \<in> AXES"
    using wf by (cases "th_snapshot (hudState page)") (simp_all add: wf_page_def renderHudState_def renderOrientation_def FALLBACK_SNAPSHOT_def DIRECTIONS_def AXES_def)
  have live: "th_snapshot (hudState page) \<noteq> None" if "sh_status (renderHudState (hudState page)) = ''WS: live''"
  proof -
    have "th_status (hudState page) = HudLive"
      using that by (cases "th_status (hudState page)") (simp_all add: renderHudState_def renderOrientation_def statusToLabel_def ellipsis_def)
    then show ?thesis using wf unfolding wf_page_def by blast
  qed
  have broken: "hudState (hud_message now data page) = (hudState page)\<lparr>th_status := HudError\<rparr>" if "json_parse data = None"
    using that by (simp add: hud_message_def setHudState_def withStatus_def)
  have empty: "hud_message now data page = page" if "json_parse data = Some (JArr [])"
    using that by (simp add: hud_message_def normalizeMessagePayload_def setHudState_def applySnapshotUpdate_def)
  show ?thesis using wf names live broken empty batch bar_width by (simp add: wf_page_def)
qed

theorem turtle_hud_sound_witness:
  "sh_width (shown (fold socket_step [SocketOpened, SocketMessage 1 ''[]'', SocketEnded] bootstrap)) = 0 \<and>
   sh_direction (shown (fold socket_step [SocketOpened, SocketMessage 1 ''[]'', SocketEnded] bootstrap)) \<in> DIRECTIONS"
proof
  show "sh_direction (shown (fold socket_step [SocketOpened, SocketMessage 1 ''[]'', SocketEnded] bootstrap)) \<in> DIRECTIONS"
    using turtle_hud_sound [OF refl] by blast
  have "\<lfloor>1 / 2 :: rat\<rfloor> = 0" by (rule floor_unique) simp_all
  moreover have "json_parse ''[]'' = Some (JArr [])" by code_simp
  ultimately show "sh_width (shown (fold socket_step [SocketOpened, SocketMessage 1 ''[]'', SocketEnded] bootstrap)) = 0"
    by (simp add: socket_step_def hud_message_def normalizeMessagePayload_def setHudState_def applySnapshotUpdate_def withStatus_def bootstrap_def
        BASELINE_HUD_STATE_def renderHudState_def renderOrientation_def hud_clampScore_def math_round_def)
qed

text \<open>Any other text that parses to a truthy value makes the display live, the error reply of the server too.\<close>

lemma error_reply_goes_live:
  "json_parse data = Some (JObj [(''type'', JStr ''error'')]) \<Longrightarrow>
    th_status (hudState (hud_message now data page)) = HudLive \<and> sh_direction (shown (hud_message now data page)) = ''now''"
  by (simp add: hud_message_def normalizeMessagePayload_def setHudState_def applySnapshotUpdate_def renderHudState_def renderOrientation_def
      extractSnapshot_def extractFromTurtlePayload_def orientation_part_def js_or_def coalesce_def first_of_keys_def normalizeDirection_def Let_def)

end
