(* ===== verification/Toon_Codec.thy ===== *)
theory Toon_Codec
  imports Inspect_Load
begin

text \<open>
  The simplified TOON codec of the examples, \<open>examples/shared/simpleToonCodec.ts\<close>: a list of objects
  becomes a header with the fields of the first one and a line per object; decoding is a
  placeholder that returns the text.
\<close>

definition cell :: "jsval \<Rightarrow> string \<Rightarrow> string" where
  "cell row field = (let val = pget row field in if nullish val then [] else js_str val)"

text \<open>Reading a field of \<open>null\<close> or \<open>undefined\<close> throws.\<close>

definition toon_row :: "string list \<Rightarrow> jsval \<Rightarrow> string result" where
  "toon_row names row =
     (if nullish row then Inl ''Cannot read properties of null'' else Inr (''  '' @ js_join '','' (map (cell row) names)))"

definition toon_header :: "nat \<Rightarrow> string list \<Rightarrow> string" where
  "toon_header n names = ''rows['' @ nat_str n @ '']{'' @ js_join '','' names @ ''}:''"

fun map_rows :: "('a \<Rightarrow> 'b result) \<Rightarrow> 'a list \<Rightarrow> 'b list result" where
  "map_rows f [] = Inr []"
| "map_rows f (x # xs) = bindr (f x) (\<lambda>y. bindr (map_rows f xs) (\<lambda>ys. Inr (y # ys)))"

definition encodeJsonToToon :: "jsval \<Rightarrow> string option result" where
  "encodeJsonToToon value =
     (case value of
        JArr (firstElement # rest) \<Rightarrow>
          (case firstElement of
             JObj kvs \<Rightarrow>
               if kvs = [] then Inr (json_stringify value)
               else bindr (map_rows (toon_row (map fst kvs)) (firstElement # rest)) (\<lambda>lines.
                      Inr (Some (js_join [newline] (toon_header (length (firstElement # rest)) (map fst kvs) # lines))))
           | _ \<Rightarrow> Inr (json_stringify value))
      | _ \<Rightarrow> Inr (json_stringify value))"

definition decodeToonToJson :: "string \<Rightarrow> jsval" where
  "decodeToonToJson toon = JStr toon"

section \<open>The table\<close>

definition plain_text :: "string \<Rightarrow> bool" where
  "plain_text s \<longleftrightarrow> newline \<notin> set s \<and> CHR '','' \<notin> set s"

lemma map_rows_Inr: "(\<And>x. x \<in> set xs \<Longrightarrow> f x = Inr (g x)) \<Longrightarrow> map_rows f xs = Inr (map g xs)"
  by (induction xs) (simp_all add: bindr_def)

lemma split_join:
  assumes "ws \<noteq> []" and "\<forall>w \<in> set ws. c \<notin> set w"
  shows "split_on c (js_join [c] ws) = ws"
proof -
  have "map (split_on c) ws = map (\<lambda>w. [w]) ws" using assms(2) by (auto intro: split_on_no_sep)
  then have "split_on c (js_join [c] ws) = concat (map (\<lambda>w. [w]) ws)" using js_join_butlast [OF assms(1), of c] by (simp only:)
  then show ?thesis by simp
qed

lemma row_line: "\<not> nullish row \<Longrightarrow> toon_row names row = Inr (''  '' @ js_join '','' (map (cell row) names))"
  by (simp add: toon_row_def)

lemma join_no_newline: "\<forall>w \<in> set ws. c \<notin> set w \<Longrightarrow> c \<noteq> d \<Longrightarrow> c \<notin> set (js_join [d] ws)"
  by (induction "[d]" ws rule: js_join.induct) auto

theorem toon_table:
  assumes "rows = JObj kvs # rest" and "kvs \<noteq> []" and "\<forall>r \<in> set rows. \<not> nullish r"
    and "\<forall>k \<in> set (map fst kvs). plain_text k \<and> (\<forall>r \<in> set rows. plain_text (cell r k))"
  shows "\<exists>t. encodeJsonToToon (JArr rows) = Inr (Some t) \<and> length (split_on newline t) = length rows + 1 \<and>
    hd (split_on newline t) = toon_header (length rows) (map fst kvs) \<and>
    map (\<lambda>l. split_on CHR '','' (drop 2 l)) (tl (split_on newline t)) = map (\<lambda>r. map (cell r) (map fst kvs)) rows"
proof -
  let ?names = "map fst kvs" and ?line = "\<lambda>r. ''  '' @ js_join '','' (map (cell r) (map fst kvs))"
  define t where "t = js_join [newline] (toon_header (length rows) ?names # map ?line rows)"
  have "map_rows (toon_row ?names) rows = Inr (map ?line rows)" using assms(3) row_line by (intro map_rows_Inr) blast
  then have e: "encodeJsonToToon (JArr rows) = Inr (Some t)"
    using assms(1,2) by (simp add: encodeJsonToToon_def t_def bindr_def)
  have nl: "newline \<noteq> CHR '',''" by (simp add: newline_def)
  have "newline \<notin> set (js_join '','' ?names)" using assms(4) nl by (intro join_no_newline) (auto simp: plain_text_def)
  moreover have "newline \<notin> set (nat_str (length rows))"
    using nat_str_digits [of "length rows"] by (auto simp: list_all_iff is_digit_def newline_def)
  ultimately have h: "newline \<notin> set (toon_header (length rows) ?names)" by (auto simp: toon_header_def newline_def)
  have l: "newline \<notin> set (?line r)" if "r \<in> set rows" for r
  proof -
    have "newline \<notin> set (js_join '','' (map (cell r) ?names))" using assms(4) nl that by (intro join_no_newline) (auto simp: plain_text_def)
    then show ?thesis by (simp add: newline_def)
  qed
  have s: "split_on newline t = toon_header (length rows) ?names # map ?line rows"
    unfolding t_def using h l by (intro split_join) auto
  have "split_on CHR '','' (js_join '','' (map (cell r) ?names)) = map (cell r) ?names" if "r \<in> set rows" for r
    using assms(2,4) that by (intro split_join) (auto simp: plain_text_def)
  then show ?thesis using e s by auto
qed

text \<open>The type of a cell is lost, so that the text does not determine the value.\<close>

lemma toon_ambiguous:
  "encodeJsonToToon (JArr [JObj [(''a'', JStr ''1'')]]) = encodeJsonToToon (JArr [JObj [(''a'', JNum 1)]])"
proof -
  have "num_str 1 = ''1''" by code_simp
  then show ?thesis by (simp add: encodeJsonToToon_def toon_row_def cell_def bindr_def)
qed

end
