(* ===== verification/Demo_Frames.thy ===== *)
theory Demo_Frames
  imports Conformance_Cli Frames JS_Math
begin

text \<open>
  The frames of the demonstrations: \<open>src/demos/canonicalFlowDemo.v0.1.ts\<close> with the report it renders
  and \<open>sdk/js/src/demos/flowGoldenDemo.ts\<close>. The text of a date is a parameter.
\<close>

section \<open>The canonical frames\<close>

definition BASE_TS :: rat where "BASE_TS = 1700000000000"

definition demo_frame :: "string \<Rightarrow> rat \<Rightarrow> string \<Rightarrow> (string \<times> jsval) list \<Rightarrow> jsval" where
  "demo_frame i ts type payload =
     JObj [(''v'', JStr LTP_VERSION), (''id'', JStr i), (''ts'', JNum ts), (''type'', JStr type), (''payload'', JObj payload)]"

definition demo_branch :: "string list \<Rightarrow> rat \<Rightarrow> string \<Rightarrow> jsval" where
  "demo_branch path confidence rationale =
     JObj [(''path'', JArr (map JStr path)), (''confidence'', JNum (fl confidence)), (''rationale'', JStr rationale)]"

definition canonical_route :: "(string \<times> jsval) list" where
  "canonical_route =
     [(''branches'', JObj [(''primary'', demo_branch [''primary'', ''ship''] (64 / 100) ''steady delivery''),
        (''recover'', demo_branch [''recover'', ''stabilize''] (22 / 100) ''fallback ready''),
        (''explore'', demo_branch [''explore'', ''test''] (14 / 100) ''light exploration'')]),
      (''selection'', JStr ''primary'')]"

text \<open>The cursor of the clock belongs to the module: every call goes on from where the last one stopped.\<close>

definition buildCanonicalFrames :: "rat \<Rightarrow> jsval list \<times> rat" where
  "buildCanonicalFrames cursor =
     ([demo_frame ''hello-001'' (cursor + 25) ''hello'' [(''role'', JStr ''client''), (''message'', JStr ''init canonical demo'')],
       demo_frame ''heartbeat-001'' (cursor + 50) ''heartbeat'' [(''seq'', JNum 1), (''status'', JStr ''ok'')],
       demo_frame ''orientation-001'' (cursor + 75) ''orientation''
         [(''origin'', JStr ''client.demo''), (''destination'', JStr ''ltp-core''), (''mode'', JStr ''canonical'')],
       demo_frame ''route-request-001'' (cursor + 100) ''route_request''
         [(''goal'', JStr ''deliver canonical flow''), (''context'', JArr [JStr ''ltp'', JStr ''demo''])],
       demo_frame ''route-response-001'' (cursor + 125) ''route_response'' canonical_route], cursor + 125)"

section \<open>The golden frames\<close>

definition golden_route :: "(string \<times> jsval) list" where
  "golden_route =
     [(''branches'', JObj [(''primary'', demo_branch [''stabilize'', ''deliver''] (62 / 100) ''primary route''),
        (''recover'', demo_branch [''retry'', ''stabilize''] (26 / 100) ''fallback route''),
        (''explore'', demo_branch [''diverge'', ''observe''] (12 / 100) ''exploratory route'')]),
      (''selection'', JStr ''primary'')]"

definition buildFlowGoldenFrames :: "jsval list" where
  "buildFlowGoldenFrames =
     [demo_frame ''flow-0001-001'' BASE_TS ''hello'' [(''role'', JStr ''client''), (''message'', JStr ''flow handshake init'')],
      demo_frame ''flow-0001-002'' (BASE_TS + 1000) ''hello'' [(''role'', JStr ''server''), (''message'', JStr ''flow handshake ack'')],
      demo_frame ''flow-0001-003'' (BASE_TS + 2000) ''heartbeat'' [(''seq'', JNum 1), (''status'', JStr ''alive'')],
      demo_frame ''flow-0001-004'' (BASE_TS + 3000) ''heartbeat'' [(''seq'', JNum 2), (''status'', JStr ''alive'')],
      demo_frame ''flow-0001-005'' (BASE_TS + 4000) ''heartbeat'' [(''seq'', JNum 3), (''status'', JStr ''alive'')],
      demo_frame ''flow-0001-006'' (BASE_TS + 5000) ''orientation''
        [(''origin'', JStr ''node.alpha''), (''destination'', JStr ''node.omega''), (''mode'', JStr ''flow-v0.1'')],
      demo_frame ''flow-0001-007'' (BASE_TS + 6000) ''route_request''
        [(''goal'', JStr ''stabilize-flow''), (''context'', JArr [JStr ''hello'', JStr ''heartbeat'', JStr ''orientation''])],
      demo_frame ''flow-0001-008'' (BASE_TS + 7000) ''route_response'' golden_route,
      demo_frame ''flow-0001-009'' (BASE_TS + 8000) ''focus_snapshot''
        [(''focus'', JStr ''primary''), (''signal'', JNum (fl (62 / 100))), (''rationale'', JStr ''selected primary branch'')]]"

definition framesToJsonl :: "jsval list \<Rightarrow> string" where
  "framesToJsonl fs = js_join [newline] (map json_text fs)"

section \<open>The report\<close>

definition payload_hint :: "jsval \<Rightarrow> string" where
  "payload_hint frame =
     (let p = pget frame ''payload'' in
      if pget frame ''type'' = JStr ''hello'' then ''message='' @ js_str (pget p ''message'')
      else if pget frame ''type'' = JStr ''heartbeat'' then ''seq='' @ js_str (pget p ''seq'')
      else if pget frame ''type'' = JStr ''orientation'' then ''origin='' @ js_str (pget p ''origin'')
      else if pget frame ''type'' = JStr ''route_request'' then ''goal='' @ js_str (pget p ''goal'')
      else if pget frame ''type'' = JStr ''route_response'' then ''selection='' @ js_str (coalesce (pget p ''selection'') (JStr ''n/a''))
      else ''payload'')"

definition formatFrameSummary :: "(jsval \<Rightarrow> string) \<Rightarrow> jsval \<Rightarrow> string" where
  "formatFrameSummary isoDate frame = isoDate (pget frame ''ts'') @ '' :: '' @ js_str (pget frame ''type'') @ '' ('' @ payload_hint frame @ '')''"

definition formatTimeline :: "(jsval \<Rightarrow> string) \<Rightarrow> jsval list \<Rightarrow> string" where
  "formatTimeline isoDate fs =
     js_join [newline] ([''Frame timeline (v0.1)'', ''---------------------''] @
       map (\<lambda>(idx, f). nat_str (idx + 1) @ ''. '' @ formatFrameSummary isoDate f) (List.enumerate 0 fs) @ [[]])"

definition percent_text :: "rat \<Rightarrow> string" where
  "percent_text c = to_fixed 1 (fl (c * 100)) @ ''%''"

definition branch_path :: "route_branch \<Rightarrow> string" where
  "branch_path b = js_join '' -> '' (map js_str (rb_path b))"

definition formatRoutingResult :: "jsval \<Rightarrow> string" where
  "formatRoutingResult payload =
     (let branches = sort_desc rb_confidence (normalizeRouteBranches (pget payload ''branches''))
      in js_join [newline] ([''Routing branches'', ''----------------''] @
           map (\<lambda>b. js_str (rb_name b) @ '': '' @ percent_text (rb_confidence b) @ '' path='' @ branch_path b @
             (if truthy (rb_rationale b) then '' ('' @ js_str (rb_rationale b) @ '')'' else [])) branches @
           (if truthy (pget payload ''selection'') then [[], ''selection: '' @ js_str (pget payload ''selection'')] else []) @ [[]]))"

definition chosen_branch :: "jsval \<Rightarrow> route_branch list \<Rightarrow> route_branch option" where
  "chosen_branch payload branches =
     (case find (\<lambda>b. rb_name b = coalesce (pget payload ''selection'') (JStr ''primary'')) branches of
        Some b \<Rightarrow> Some b
      | None \<Rightarrow> (case branches of [] \<Rightarrow> None | b # rest \<Rightarrow> Some b))"

definition delta_line :: "rat \<Rightarrow> string" where
  "delta_line delta = ''confidence delta vs next: '' @ (if delta \<ge> 0 then ''+'' else []) @ to_fixed 0 (fl (delta * 100)) @ ''bps''"

definition formatExplainability :: "jsval \<Rightarrow> jsval \<Rightarrow> string" where
  "formatExplainability orientation payload =
     (let branches = normalizeRouteBranches (pget payload ''branches''); primary = chosen_branch payload branches;
          secondary = (if length branches > 1 then Some (branches ! 1) else None);
          delta = (case (primary, secondary) of (Some p, Some s) \<Rightarrow> Some (number_to_fixed 2 (fl (rb_confidence p - rb_confidence s))) | _ \<Rightarrow> None);
          reasoned = filter (\<lambda>b. truthy (rb_rationale b)) branches
      in js_join [newline] ([''Explainability factors'', ''---------------------'', ''version locked: '' @ LTP_VERSION,
           ''orientation: '' @ js_str (pget orientation ''origin'') @ '' -> '' @ js_str (pget orientation ''destination'') @ '' ('' @
             js_str (pget orientation ''mode'') @ '')''] @
          (case primary of Some p \<Rightarrow> [''chosen branch: '' @ js_str (rb_name p) @ '' @ '' @ percent_text (rb_confidence p) @ '' ('' @ branch_path p @ '')''] | None \<Rightarrow> []) @
          (case delta of Some d \<Rightarrow> [delta_line d] | None \<Rightarrow> []) @
          (if reasoned \<noteq> [] then [''rationales: '' @ js_join ''; '' (map (\<lambda>b. js_str (rb_name b) @ ''='' @ js_str (rb_rationale b)) reasoned)] else []) @
          [''surface includes: '' @ js_join '', '' FRAME_TYPES_V0_1, []]))"

definition frame_payload :: "string \<Rightarrow> jsval list \<Rightarrow> jsval" where
  "frame_payload type fs = (case find (\<lambda>f. pget f ''type'' = JStr type) fs of Some f \<Rightarrow> pget f ''payload'' | None \<Rightarrow> JUndef)"

definition sequence_text :: "jsval list \<Rightarrow> string" where
  "sequence_text fs =
     (let seq = js_join '' -> '' (map (\<lambda>f. js_str (pget f ''type'')) fs)
      in ''Sequence: '' @ seq @ (if seq = ''hello -> heartbeat -> orientation -> route_request -> route_response'' then '' (locked)'' else '' (check ordering)''))"

definition renderCanonicalDemo :: "(jsval \<Rightarrow> string) \<Rightarrow> rat \<Rightarrow> string \<times> rat" where
  "renderCanonicalDemo isoDate cursor =
     (let (fs, next_cursor) = buildCanonicalFrames cursor; routeResponse = frame_payload ''route_response'' fs;
          orientation = frame_payload ''orientation'' fs
      in (js_join [newline] [''LTP v0.1 Canonical Flow'', ''========================'', [], sequence_text fs, [],
            formatTimeline isoDate fs, formatRoutingResult routeResponse, formatExplainability orientation routeResponse], next_cursor))"

section \<open>Conformance\<close>

lemma golden_frames_valid: "list_all isLTPFrame buildFlowGoldenFrames"
  by code_simp

text \<open>The kit accepts \<open>hello\<close> as first frame only; the golden flow answers it with a second one.\<close>

lemma golden_not_conformant: "\<not> conformant buildFlowGoldenFrames"
  by code_simp

lemma golden_single_hello: "exemplary (hd buildFlowGoldenFrames # drop 2 buildFlowGoldenFrames)"
  by code_simp

text \<open>The canonical flow passes the kit, with the warning that it has no \<open>focus_snapshot\<close>.\<close>

lemma canonical_conformant: "conformant (fst (buildCanonicalFrames BASE_TS))"
  by code_simp

lemma canonical_not_exemplary: "\<not> exemplary (fst (buildCanonicalFrames BASE_TS))"
  by code_simp

lemma canonical_locked:
  "sequence_text (fst (buildCanonicalFrames c)) =
     ''Sequence: hello -> heartbeat -> orientation -> route_request -> route_response (locked)''"
  unfolding sequence_text_def buildCanonicalFrames_def demo_frame_def by simp

lemma canonical_valid: "list_all isLTPFrame (fst (buildCanonicalFrames BASE_TS))"
  by code_simp

text \<open>
  The scenarios under \<open>examples/scenarios\<close>: two flows that are printed and three broken ones that are
  written as fixtures for the conformance kit. Paths are parameters as well.
\<close>

section \<open>The printed flows\<close>

record scenario_flow =
  sf_frames :: "jsval list"
  sf_response :: jsval

definition route_options :: "(string list \<times> rat \<times> string) list \<Rightarrow> string \<Rightarrow> jsval" where
  "route_options bs selection =
     JObj [(''branches'', JArr (map (\<lambda>(path, confidence, rationale). demo_branch path confidence rationale) bs)),
           (''selection'', JStr selection)]"

definition payload_of :: "jsval \<Rightarrow> (string \<times> jsval) list" where
  "payload_of v = (case v of JObj kvs \<Rightarrow> kvs | _ \<Rightarrow> [])"

definition BASIC_BASE_TS :: rat where "BASIC_BASE_TS = 1730000000000"

definition buildBasicRouting :: "rat \<Rightarrow> scenario_flow \<times> rat" where
  "buildBasicRouting cursor =
     (let routeResponse = route_options [([''primary'', ''ship''], 62 / 100, ''best-fit route''),
            ([''recover'', ''stabilize''], 25 / 100, ''safe fallback''),
            ([''explore'', ''test''], 13 / 100, ''low-risk exploration'')] ''primary''
      in (\<lparr>sf_frames =
             [demo_frame ''hello-basic-001'' (cursor + 20) ''hello'' [(''role'', JStr ''client''), (''message'', JStr ''basic demo'')],
              demo_frame ''heartbeat-basic-001'' (cursor + 40) ''heartbeat'' [(''seq'', JNum 1), (''status'', JStr ''ok'')],
              demo_frame ''orientation-basic-001'' (cursor + 60) ''orientation''
                [(''origin'', JStr ''client.examples''), (''destination'', JStr ''ltp.node''), (''mode'', JStr ''stable'')],
              demo_frame ''route-request-basic-001'' (cursor + 80) ''route_request''
                [(''goal'', JStr ''basic routing''), (''context'', JArr [JStr ''demo'', JStr ''v0.1''])],
              demo_frame ''route-response-basic-001'' (cursor + 100) ''route_response'' (payload_of routeResponse)],
           sf_response = routeResponse\<rparr>, cursor + 100))"

definition DEGRADED_BASE_TS :: rat where "DEGRADED_BASE_TS = 1730000000500"

definition buildDegradedFlow :: "rat \<Rightarrow> scenario_flow \<times> rat" where
  "buildDegradedFlow cursor =
     (let routeResponse = route_options [([''recover'', ''drain''], 45 / 100, ''load-aware''),
            ([''primary'', ''ship''], 33 / 100, ''possible but slower''),
            ([''explore'', ''shed''], 22 / 100, ''reduce scope'')] ''recover''
      in (\<lparr>sf_frames =
             [demo_frame ''hello-degraded-001'' (cursor + 35) ''hello'' [(''role'', JStr ''client''), (''message'', JStr ''degraded demo'')],
              demo_frame ''heartbeat-degraded-001'' (cursor + 70) ''heartbeat'' [(''seq'', JNum 1), (''status'', JStr ''high_load'')],
              demo_frame ''orientation-degraded-001'' (cursor + 105) ''orientation''
                [(''origin'', JStr ''client.examples''), (''destination'', JStr ''ltp.node''), (''mode'', JStr ''load'')],
              demo_frame ''route-request-degraded-001'' (cursor + 140) ''route_request''
                [(''goal'', JStr ''degraded routing''), (''context'', JArr [JStr ''demo'', JStr ''v0.1'', JStr ''load''])],
              demo_frame ''route-response-degraded-001'' (cursor + 175) ''route_response'' (payload_of routeResponse)],
           sf_response = routeResponse\<rparr>, cursor + 175))"

text \<open>What the two printers share: the hints of the frames differ in heartbeat and orientation.\<close>

definition scenario_hint :: "(jsval \<Rightarrow> string) \<Rightarrow> (jsval \<Rightarrow> string) \<Rightarrow> jsval \<Rightarrow> jsval \<Rightarrow> string" where
  "scenario_hint beat orient routeResponse frame =
     (let p = pget frame ''payload'' in
      if pget frame ''type'' = JStr ''heartbeat'' then beat p
      else if pget frame ''type'' = JStr ''orientation'' then orient p
      else if pget frame ''type'' = JStr ''route_request'' then ''goal='' @ js_str (pget p ''goal'')
      else if pget frame ''type'' = JStr ''route_response'' then ''selection='' @ js_str (coalesce (pget routeResponse ''selection'') (JStr ''n/a''))
      else ''message='' @ js_str (pget p ''message''))"

definition scenario_lines :: "(jsval \<Rightarrow> string) \<Rightarrow> (jsval \<Rightarrow> string) \<Rightarrow> string \<Rightarrow> scenario_flow \<Rightarrow> string list" where
  "scenario_lines isoDate hint title flow =
     map (\<lambda>(idx, frame). nat_str (idx + 1) @ ''. '' @ js_str (pget frame ''type'') @ '' @ '' @ isoDate (pget frame ''ts'') @ '' ('' @ hint frame @ '')'')
       (List.enumerate 0 (sf_frames flow)) @ [[], title] @
     map (\<lambda>b. ''- '' @ js_str (rb_name b) @ '': '' @ percent_text (rb_confidence b) @ '' path='' @ branch_path b @
         (if truthy (rb_rationale b) then '' ('' @ js_str (rb_rationale b) @ '')'' else []))
       (sort_desc rb_confidence (normalizeRouteBranches (pget (sf_response flow) ''branches'')))"

definition printBasicFlow :: "(jsval \<Rightarrow> string) \<Rightarrow> scenario_flow \<Rightarrow> string" where
  "printBasicFlow isoDate flow =
     js_join [newline] ([''LTP v0.1 :: Basic routing under stable focus'', ''------------------------------------------------''] @
       scenario_lines isoDate
         (scenario_hint (\<lambda>p. ''seq='' @ js_str (pget p ''seq'')) (\<lambda>p. ''origin='' @ js_str (pget p ''origin'')) (sf_response flow))
         ''Routing branches:'' flow)"

definition printDegradedFlow :: "(jsval \<Rightarrow> string) \<Rightarrow> scenario_flow \<Rightarrow> string" where
  "printDegradedFlow isoDate flow =
     js_join [newline] ([''=== DEGRADED MODE ==='', ''LTP v0.1 :: Graceful downgrade under load'', ''----------------------------------------''] @
       scenario_lines isoDate
         (scenario_hint (\<lambda>p. ''seq='' @ js_str (pget p ''seq'') @ ''; status='' @ js_str (coalesce (pget p ''status'') (JStr ''n/a'')))
           (\<lambda>p. ''mode='' @ js_str (pget p ''mode'')) (sf_response flow))
         ''Routing branches (degraded confidences):'' flow)"

section \<open>The broken flows\<close>

record invalid_flow =
  iv_name :: string
  iv_description :: string
  iv_frames :: "jsval list"
  iv_expected :: string

definition NEGATIVE_BASE_TS :: rat where "NEGATIVE_BASE_TS = 1730000001000"

definition versioned_frame :: "string \<Rightarrow> string \<Rightarrow> rat \<Rightarrow> string \<Rightarrow> (string \<times> jsval) list \<Rightarrow> jsval" where
  "versioned_frame v i ts type payload =
     JObj [(''v'', JStr v), (''id'', JStr i), (''ts'', JNum ts), (''type'', JStr type), (''payload'', JObj payload)]"

definition buildInvalidFlows :: "rat \<Rightarrow> invalid_flow list \<times> rat" where
  "buildInvalidFlows cursor =
     ([\<lparr>iv_name = ''duplicate-id'', iv_description = ''Two frames share the same identifier within one flow.'',
         iv_frames =
           [demo_frame ''dup-001'' (cursor + 15) ''hello'' [(''role'', JStr ''client''), (''message'', JStr ''dup id'')],
            demo_frame ''dup-001'' (cursor + 30) ''heartbeat'' [(''seq'', JNum 1)],
            demo_frame ''ori-dup'' (cursor + 45) ''orientation'' [(''origin'', JStr ''x''), (''destination'', JStr ''y''), (''mode'', JStr ''demo'')]],
         iv_expected = ''FAIL in conformance kit''\<rparr>,
       \<lparr>iv_name = ''out-of-order'', iv_description = ''route_request is emitted before hello completes.'',
         iv_frames =
           [demo_frame ''req-ooo'' (cursor + 60) ''route_request'' [(''goal'', JStr ''skip hello'')],
            demo_frame ''hello-ooo'' (cursor + 75) ''hello'' [(''role'', JStr ''client''), (''message'', JStr ''late hello'')],
            demo_frame ''hb-ooo'' (cursor + 90) ''heartbeat'' [(''seq'', JNum 1)]],
         iv_expected = ''FAIL in conformance kit''\<rparr>,
       \<lparr>iv_name = ''wrong-version'', iv_description = ''Client speaks an unsupported protocol version.'',
         iv_frames =
           [versioned_frame ''9.9'' ''hello-wrong'' (cursor + 105) ''hello'' [(''role'', JStr ''client''), (''message'', JStr ''wrong version'')],
            versioned_frame ''9.9'' ''hb-wrong'' (cursor + 120) ''heartbeat'' [(''seq'', JNum 1), (''status'', JStr ''ok'')]],
         iv_expected = ''FAIL in conformance kit''\<rparr>], cursor + 120)"

definition fixture_value :: "invalid_flow \<Rightarrow> jsval" where
  "fixture_value flow =
     JObj [(''description'', JStr (iv_description flow)), (''expected'', JStr (iv_expected flow)), (''frames'', JArr (iv_frames flow))]"

definition writeFixtures :: "(string \<Rightarrow> string) \<Rightarrow> invalid_flow list \<Rightarrow> (string \<times> string) list" where
  "writeFixtures out_path flows = map (\<lambda>flow. (out_path (iv_name flow @ ''.json''), pretty_text (fixture_value flow))) flows"

definition printSummary :: "string \<Rightarrow> invalid_flow list \<Rightarrow> string" where
  "printSummary relative flows =
     js_join [newline] ([''LTP v0.1 :: Negative conformance fixtures'', ''-----------------------------------------''] @
       map (\<lambda>flow. ''- '' @ iv_name flow @ '': '' @ iv_description flow @ '' ('' @ iv_expected flow @ '')'') flows @
       [[], ''Fixtures written to '' @ relative, ''Verify with: pnpm -w ltp:conformance verify:dir examples/scenarios/out --strict''])"

record scenario_clocks =
  basic_cursor :: rat
  degraded_cursor :: rat
  negative_cursor :: rat

definition runAll :: "(jsval \<Rightarrow> string) \<Rightarrow> (string \<Rightarrow> string) \<Rightarrow> string \<Rightarrow> scenario_clocks
    \<Rightarrow> string list \<times> (string \<times> string) list \<times> scenario_clocks" where
  "runAll isoDate out_path relative clocks =
     (let (basic, c1) = buildBasicRouting (basic_cursor clocks); (degraded, c2) = buildDegradedFlow (degraded_cursor clocks);
          (flows, c3) = buildInvalidFlows (negative_cursor clocks)
      in ([printBasicFlow isoDate basic, [newline], printDegradedFlow isoDate degraded, [newline], printSummary relative flows],
          writeFixtures out_path flows, \<lparr>basic_cursor = c1, degraded_cursor = c2, negative_cursor = c3\<rparr>))"

section \<open>Judged by the kit\<close>

lemma scenarios_conformant:
  "conformant (sf_frames (fst (buildBasicRouting BASIC_BASE_TS)))"
  "conformant (sf_frames (fst (buildDegradedFlow DEGRADED_BASE_TS)))"
  by code_simp+

text \<open>The branch a response selects is the one printed first.\<close>

lemma selected_branch_first:
  "map rb_name (sort_desc rb_confidence (normalizeRouteBranches (pget (sf_response (fst (buildDegradedFlow c))) ''branches'')))
     = map JStr [''recover'', ''primary'', ''explore'']"
  unfolding buildDegradedFlow_def by code_simp

lemma invalid_flow_rejected: "list_all (\<lambda>flow. \<not> conformant (iv_frames flow)) (fst (buildInvalidFlows NEGATIVE_BASE_TS))"
  by code_simp

lemma versioned_frame_ok:
  "fl ts = ts \<Longrightarrow> json_ok (JObj payload) \<Longrightarrow> json_ok (versioned_frame v i ts type payload)"
  by (simp add: versioned_frame_def obj_ordered_def spread_def array_index_def is_digit_def)

lemma demo_frame_ok: "fl ts = ts \<Longrightarrow> json_ok (JObj payload) \<Longrightarrow> json_ok (demo_frame i ts type payload)"
  using versioned_frame_ok by (simp add: demo_frame_def versioned_frame_def)

lemma fl_numeral_int: "(numeral n :: int) \<le> 2 ^ 53 \<Longrightarrow> fl (numeral n) = numeral n"
  using fl_int [of "numeral n"] by simp

lemma fixture_value_ok: "\<forall>f \<in> set (iv_frames flow). json_ok f \<Longrightarrow> json_ok (fixture_value flow)"
  by (simp add: fixture_value_def obj_ordered_def spread_def array_index_def is_digit_def list_all_iff)

lemma fixtures_printable: "list_all (\<lambda>flow. json_ok (fixture_value flow)) (fst (buildInvalidFlows NEGATIVE_BASE_TS))"
  unfolding buildInvalidFlows_def NEGATIVE_BASE_TS_def
  by (auto simp: fl_numeral_int obj_ordered_def spread_def array_index_def is_digit_def
      intro!: fixture_value_ok demo_frame_ok versioned_frame_ok)

text \<open>
  Each broken flow is a fixture the kit should fail. Read back, it does fail, but the name of the
  file does not announce it, so that the command the script recommends reports an unexpected failure.
\<close>

lemma unannounced: "list_all (\<lambda>flow. expectedFromName (iv_name flow @ ''.json'') = OK) (fst (buildInvalidFlows c))"
  by (simp add: buildInvalidFlows_def expectedFromName_def starts_with_def)

lemma fixture_unexpected:
  assumes flow: "flow \<in> set (fst (buildInvalidFlows NEGATIVE_BASE_TS))"
    and read: "kit_read env (kit_join env dir (iv_name flow @ ''.json'')) = Inr (pretty_text (fixture_value flow))"
  shows "\<exists>c. verify_case env dir strict (iv_name flow @ ''.json'') = Inr c \<and> ca_actual c = FAIL_UNEXPECTED \<and> \<not> ca_matches c"
proof -
  have p: "json_parse (pretty_text (fixture_value flow)) = Some (fixture_value flow)"
    using json_pretty_roundtrip [of "fixture_value flow"] fixtures_printable flow by (auto simp: list_all_iff indented_def pretty_text_def)
  have e: "cr_errors (capture_report (iv_frames flow) opt) \<noteq> []" for opt
    using invalid_flow_rejected flow capture_errors [of "iv_frames flow" opt] by (auto simp: list_all_iff)
  have frs: "normalizeFramesFromValue (fixture_value flow) = Some (iv_frames flow)"
    by (simp add: fixture_value_def normalizeFramesFromValue_def)
  show ?thesis
    using unannounced [of NEGATIVE_BASE_TS] flow e
    by (auto simp: verify_case_def readJsonFile_def read p frs verifyFrames_def statusFromReport_def case_actual_def
        case_matches_def list_all_iff Let_def)
qed

end
