(* ===== verification/Story_Demo.thy ===== *)
theory Story_Demo
  imports Focus_Hud
begin

text \<open>
  The story demonstrations: \<open>scripts/demo/ltp-story-demo.ts\<close>, which plays nine frames through the routing
  preview and the focus monitor's line, and \<open>scripts/dev/story-multipath-demo.ts\<close>, which draws three scenarios.
  The time stamp of a line is a parameter; signs outside ASCII are given by their UTF-8 bytes.
\<close>

section \<open>Frames\<close>

datatype story_phase = PhaseA | PhaseB | PhaseC

record story_frame =
  sy_phase :: story_phase
  sy_focusMomentum :: rat
  sy_volatility :: rat
  sy_sector :: string
  sy_intent :: string
  sy_routing :: routing_decision
  sy_linkHealth :: link_health
  sy_modeHint :: "hud_mode option"

definition phase_name :: "story_phase \<Rightarrow> string" where
  "phase_name p = (case p of PhaseA \<Rightarrow> ''A'' | PhaseB \<Rightarrow> ''B'' | PhaseC \<Rightarrow> ''C'')"

definition em_dash :: string where "em_dash = [CHR 0xE2, CHR 0x80, CHR 0x94]"

definition PHASE_LABELS :: "story_phase \<Rightarrow> string" where
  "PHASE_LABELS p =
     ''Phase '' @ phase_name p @ '' '' @ em_dash @ '' '' @
     (case p of PhaseA \<Rightarrow> ''Focused work'' | PhaseB \<Rightarrow> ''Context switching / storm'' | PhaseC \<Rightarrow> ''Recovery / soft landing'')"

definition PHASE_ROUTING_HELPERS :: "story_phase \<Rightarrow> string list" where
  "PHASE_ROUTING_HELPERS p =
     (case p of PhaseA \<Rightarrow> [''deep_work'', ''future_planning''] | PhaseB \<Rightarrow> [''rest'', ''social'', ''planning'']
      | PhaseC \<Rightarrow> [''light_work'', ''planning''])"

text \<open>Levels and scores are literals with two decimals; they are given in hundredths.\<close>

definition hundredths :: "int \<Rightarrow> rat" where "hundredths n = fl (of_int n / 100)"

definition story_options :: "(string \<times> int) list \<Rightarrow> routing_decision" where
  "story_options os = map (\<lambda>(sector, score). \<lparr>do_sector = sector, do_score = hundredths score\<rparr>) os"

definition story_frame_of ::
  "story_phase \<Rightarrow> int \<Rightarrow> int \<Rightarrow> string \<Rightarrow> string \<Rightarrow> link_health \<Rightarrow> (string \<times> int) list \<Rightarrow> hud_mode \<Rightarrow> story_frame" where
  "story_frame_of phase momentum vol sector intent link os mode =
     \<lparr>sy_phase = phase, sy_focusMomentum = hundredths momentum, sy_volatility = hundredths vol, sy_sector = sector, sy_intent = intent,
      sy_routing = story_options os, sy_linkHealth = link, sy_modeHint = Some mode\<rparr>"

definition buildStoryFrames :: "story_frame list" where
  "buildStoryFrames =
     [story_frame_of PhaseA 76 8 ''deep_work'' ''stay_deep'' LinkOk [(''deep_work'', 76), (''planning/light'', 32)] HudCalm,
      story_frame_of PhaseA 82 7 ''deep_work'' ''stay_deep'' LinkOk [(''deep_work'', 80), (''future_planning'', 35)] HudCalm,
      story_frame_of PhaseA 79 9 ''deep_work'' ''stay_deep'' LinkOk [(''deep_work'', 78), (''light_planning'', 28)] HudCalm,
      story_frame_of PhaseB 31 63 ''rest'' ''micro_break'' LinkWarn [(''rest'', 41), (''social'', 38), (''planning'', 25)] HudStorm,
      story_frame_of PhaseB (- 6) 70 ''social'' ''context_switch'' LinkWarn [(''social'', 36), (''rest'', 34), (''planning'', 30)] HudStorm,
      story_frame_of PhaseB 18 58 ''planning'' ''reanchor'' LinkWarn [(''planning'', 44), (''social'', 33), (''rest'', 31)] HudStorm,
      story_frame_of PhaseC 35 28 ''planning'' ''stabilize'' LinkOk [(''planning'', 62), (''light_work'', 58), (''social'', 26)] HudShift,
      story_frame_of PhaseC 52 22 ''light_work'' ''resume'' LinkOk [(''light_work'', 62), (''planning'', 55), (''deep_work'', 21)] HudShift,
      story_frame_of PhaseC 61 19 ''light_work'' ''rebuild'' LinkOk [(''light_work'', 64), (''planning'', 50)] HudShift]"

section \<open>Lines\<close>

definition story_volatility :: "rat list \<Rightarrow> rat" where
  "story_volatility history =
     (if length history < 2 then 0
      else let deltas = map2 (\<lambda>v prev. \<bar>fl (v - prev)\<bar>) (tl history) history
           in number_to_fixed 3 (fl_mean deltas))"

definition formatRouting :: "routing_decision \<Rightarrow> string" where
  "formatRouting decision =
     (case sort_desc do_score decision of
        [] \<Rightarrow> ''route: '' @ en_dash
      | primary # alts \<Rightarrow>
          (let altText = js_join '', '' (map (\<lambda>option. do_sector option @ ''? ('' @ js_to_fixed 2 (do_score option) @ '')'') (take 2 alts))
           in ''route: '' @ do_sector primary @ '' (conf='' @ js_to_fixed 2 (do_score primary) @ '')'' @
              (if altText \<noteq> [] then '' | alt: '' @ altText else [])))"

definition path_segment :: "weave_path \<Rightarrow> string" where
  "path_segment path =
     (let sectors = js_join ('' '' @ hud_arrow @ '' '') (map (\<lambda>node. case sectorId node of Some s \<Rightarrow> s | None \<Rightarrow> []) (path_nodes path))
      in path_label path @ '' ('' @ js_to_fixed 0 (fl (overallLikelihood path * 100)) @ ''%) '' @ hud_arrow @ '' ['' @ sectors @ '']'')"

definition formatMultiPathSuggestion :: "multi_path \<Rightarrow> string" where
  "formatMultiPathSuggestion suggestion =
     path_segment (primaryPath suggestion) @ '' || '' @ js_join '' | '' (map path_segment (alternates suggestion))"

definition mode_word :: "hud_mode \<Rightarrow> string" where
  "mode_word mode = (case mode of HudCalm \<Rightarrow> ''calm'' | HudStorm \<Rightarrow> ''storm'' | HudShift \<Rightarrow> ''shift'')"

definition formatStoryLine :: "story_frame \<Rightarrow> hud_mode \<Rightarrow> rat list \<Rightarrow> string \<Rightarrow> string" where
  "formatStoryLine fr mode momentumHistory previewSector =
     ''[PHASE='' @ phase_name (sy_phase fr) @ '' | '' @ mode_word mode @ '' | vol='' @ js_to_fixed 2 (story_volatility momentumHistory) @
     '' | momentum='' @ js_to_fixed 2 (sy_focusMomentum fr) @ ''] '' @ hud_arrow @ '' route: '' @ previewSector"

definition story_mode :: "story_frame \<Rightarrow> rat list \<Rightarrow> hud_mode" where
  "story_mode fr focusHistory = (case sy_modeHint fr of Some mode \<Rightarrow> mode | None \<Rightarrow> detectHudMode focusHistory (sy_linkHealth fr))"

definition story_orientation :: "story_frame \<Rightarrow> rat list \<Rightarrow> orientation_now" where
  "story_orientation fr focusHistory =
     \<lparr>on_currentSector = Some (sy_sector fr), on_focusMomentum = Some (sy_focusMomentum fr),
      on_volatility = Some (if sy_volatility fr \<noteq> 0 then sy_volatility fr else story_volatility focusHistory),
      phaseLabel = Some (phase_name (sy_phase fr)), turtle = None\<rparr>"

definition story_preview :: "story_frame \<Rightarrow> rat list \<Rightarrow> routing_preview" where
  "story_preview fr focusHistory =
     buildRoutingPreview \<lparr>fs_sector = Some (sy_sector fr), fs_focusMomentum = Some (sy_focusMomentum fr)\<rparr> (sy_routing fr)
       (the (on_volatility (story_orientation fr focusHistory)))"

definition story_hud :: "story_frame \<Rightarrow> rat list \<Rightarrow> hud_state" where
  "story_hud fr focusHistory =
     new_hud\<lparr>hs_linkHealth := sy_linkHealth fr, hs_sector := Some (sy_sector fr), hs_intent := Some (sy_intent fr),
       hs_focusMomentum := Some (sy_focusMomentum fr), focusMomentumHistory := focusHistory\<rparr>"

definition logStoryFrame :: "bool \<Rightarrow> string \<Rightarrow> story_frame \<Rightarrow> rat list \<Rightarrow> string list" where
  "logStoryFrame no_colour timestamp fr focusHistory =
     (let mode = story_mode fr focusHistory
      in [formatStoryLine fr mode focusHistory (primaryNextSector (story_preview fr focusHistory)),
          ''   options: '' @ formatRouting (sy_routing fr),
          ''   branches: '' @ formatMultiPathSuggestion (buildMultiPathSuggestion (story_orientation fr focusHistory) (sy_routing fr)),
          ''   phase: '' @ PHASE_LABELS (sy_phase fr) @ '' | intents: '' @ js_join '', '' (PHASE_ROUTING_HELPERS (sy_phase fr)),
          renderFocusHudLine no_colour timestamp (story_hud fr focusHistory) mode, ''---''])"

section \<open>The player\<close>

text \<open>
  The interval of \<open>runLocalStory\<close>. A tick beyond the last frame does not occur while the interval runs,
  unless there are no frames at all: then reading the missing frame throws in every tick and nothing changes.
\<close>

record story_player =
  story_idx :: nat
  story_history :: "rat list"
  story_log :: "string list"
  story_running :: bool

definition runLocalStory :: "string \<Rightarrow> story_frame list \<Rightarrow> story_player" where
  "runLocalStory speed frs =
     \<lparr>story_idx = 0, story_history = [],
      story_log = [''[story] Playing local demo ('' @ nat_str (length frs) @ '' frames) at '' @ speed @ ''ms/step''], story_running = True\<rparr>"

definition story_tick :: "bool \<Rightarrow> story_frame list \<Rightarrow> string \<Rightarrow> story_player \<Rightarrow> story_player" where
  "story_tick no_colour frs timestamp st =
     (if \<not> story_running st then st
      else if story_idx st \<ge> length frs then st\<lparr>story_idx := Suc (story_idx st)\<rparr>
      else let fr = frs ! story_idx st; idx = Suc (story_idx st);
               history = push_bounded FOCUS_HISTORY_LIMIT (sy_focusMomentum fr) (story_history st);
               lines = story_log st @ logStoryFrame no_colour timestamp fr history
           in if idx \<ge> length frs
              then st\<lparr>story_idx := idx, story_history := history, story_log := lines @ [''[story] demo complete''], story_running := False\<rparr>
              else st\<lparr>story_idx := idx, story_history := history, story_log := lines\<rparr>)"

definition runDemo :: "bool \<Rightarrow> string \<Rightarrow> string list \<times> story_player" where
  "runDemo USE_LOCAL_FRAMES speed =
     (if USE_LOCAL_FRAMES then ([], runLocalStory speed buildStoryFrames)
      else ([''[story] Live gateway mode not yet wired in this demo; using local frames instead.''], runLocalStory speed buildStoryFrames))"

section \<open>Scenarios of paths\<close>

record path_scenario =
  sc_name :: string
  sc_orientation :: orientation_now
  sc_routing :: routing_decision

definition scenario_of :: "string \<Rightarrow> string \<Rightarrow> int \<Rightarrow> int \<Rightarrow> (string \<times> int) list \<Rightarrow> path_scenario" where
  "scenario_of nm sector momentum vol os =
     \<lparr>sc_name = nm,
      sc_orientation = \<lparr>on_currentSector = Some sector, on_focusMomentum = Some (hundredths momentum), on_volatility = Some (hundredths vol),
        phaseLabel = None, turtle = None\<rparr>,
      sc_routing = story_options os\<rparr>"

definition SCENARIOS :: "path_scenario list" where
  "SCENARIOS =
     [scenario_of ''stable'' ''deep_work'' 76 12 [(''deep_work'', 82), (''planning'', 30), (''light_work'', 22)],
      scenario_of ''storm'' ''social'' (- 5) 70 [(''social'', 36), (''rest'', 38), (''planning'', 30)],
      scenario_of ''recovery'' ''planning'' 44 28 [(''planning'', 60), (''light_work'', 55), (''social'', 18)]]"

definition scenario_lines_of :: "path_scenario \<Rightarrow> string list" where
  "scenario_lines_of s =
     [''=== SCENARIO: '' @ sc_name s @ '' ==='',
      renderFutureWeaveGraph (buildMultiPathSuggestion (sc_orientation s) (sc_routing s)) no_options, []]"

definition run_scenarios :: "string list" where
  "run_scenarios = concat (map scenario_lines_of SCENARIOS)"

section \<open>The story plays to its end\<close>

definition played :: "bool \<Rightarrow> story_frame list \<Rightarrow> string list \<Rightarrow> story_player \<Rightarrow> story_player" where
  "played no_colour frs stamps st = fold (story_tick no_colour frs) stamps st"

lemma story_stopped: "\<not> story_running st \<Longrightarrow> played no_colour frs stamps st = st"
  unfolding played_def by (induction stamps) (simp_all add: story_tick_def)

lemma length_logStoryFrame [simp]: "length (logStoryFrame no_colour timestamp fr h) = 6"
  by (simp add: logStoryFrame_def Let_def)

lemma story_progress:
  assumes "story_running st" and "story_idx st + length stamps < length frs"
  shows "let st' = played no_colour frs stamps st in story_running st' \<and> story_idx st' = story_idx st + length stamps \<and>
    length (story_log st') = length (story_log st) + 6 * length stamps"
  using assms unfolding played_def
proof (induction stamps arbitrary: st)
  case (Cons t ts)
  then show ?case using Cons.IH [of "story_tick no_colour frs t st"] by (simp add: story_tick_def Let_def)
qed simp

lemma story_start [simp]:
  "story_running (runLocalStory speed frs)" "story_idx (runLocalStory speed frs) = 0" "length (story_log (runLocalStory speed frs)) = 1"
  by (simp_all add: runLocalStory_def)

text \<open>After as many ticks as there are frames the interval is cleared; later ticks do nothing.\<close>

lemma story_completes:
  assumes "length stamps \<ge> length frs" and "frs \<noteq> []"
  shows "\<not> story_running (played no_colour frs stamps (runLocalStory speed frs))"
    and "length (story_log (played no_colour frs stamps (runLocalStory speed frs))) = 6 * length frs + 2"
    and "last (story_log (played no_colour frs stamps (runLocalStory speed frs))) = ''[story] demo complete''"
proof -
  let ?n = "length frs - 1" and ?start = "runLocalStory speed frs"
  let ?st = "played no_colour frs (take ?n stamps) ?start"
  have n: "?n < length stamps" "length (take ?n stamps) = ?n" using assms by (cases frs; simp)+
  have st: "story_running ?st" "story_idx ?st = ?n" "length (story_log ?st) = 1 + 6 * ?n"
    using story_progress [of ?start "take ?n stamps" frs no_colour] n assms by (simp_all add: Let_def)
  have len: "length frs = Suc ?n" using assms(2) by (cases frs) simp_all
  let ?final = "story_tick no_colour frs (stamps ! ?n) ?st"
  have e: "\<not> story_running ?final" "length (story_log ?final) = 6 * length frs + 2" "last (story_log ?final) = ''[story] demo complete''"
    using st len by (simp_all add: story_tick_def Let_def)
  have "stamps = take ?n stamps @ stamps ! ?n # drop (Suc ?n) stamps" using n(1) by (rule id_take_nth_drop)
  then have "played no_colour frs stamps ?start = played no_colour frs (drop (Suc ?n) stamps) ?final"
    unfolding played_def by (metis fold.simps(2) fold_append comp_apply)
  then have "played no_colour frs stamps ?start = ?final" using story_stopped [OF e(1)] by simp
  then show "\<not> story_running (played no_colour frs stamps ?start)" "length (story_log (played no_colour frs stamps ?start)) = 6 * length frs + 2"
    "last (story_log (played no_colour frs stamps ?start)) = ''[story] demo complete''"
    using e by simp_all
qed

text \<open>The volatility of the story is the one of the monitor.\<close>

lemma story_volatility_monitor: "story_volatility = calculateVolatility"
  by (rule ext) (simp add: story_volatility_def calculateVolatility_def)

text \<open>Every frame leads to the sector it is in: the preview of the story never proposes a move.\<close>

lemma story_stays:
  "list_all (\<lambda>fr. primaryNextSector (story_preview fr []) = sy_sector fr) buildStoryFrames"
  by code_simp

end
