(* ===== verification/Web_View.thy ===== *)
theory Web_View
  imports Consciousness_Web Inspect_Summary Weave_Graph
begin

text \<open>
  The coloured views of a snapshot (\<open>src/visualization\<close>: \<open>colorTheme.ts\<close>, \<open>asciiGraph.ts\<close>,
  \<open>consciousnessWebVisualizer.ts\<close>). Snapshots are those \<open>buildConsciousnessSnapshot\<close> makes: their numbers are
  doubles, and the JSON text has their properties in the order of that function. Signs outside ASCII
  are given by their UTF-8 bytes.
\<close>

section \<open>Colours\<close>

definition theme_ansi :: "string \<Rightarrow> string" where
  "theme_ansi nm =
     CHR 0x1B # (if nm = ''reset'' then ''[0m'' else if nm = ''bold'' then ''[1m'' else if nm = ''blue'' then ''[38;5;39m''
       else if nm = ''green'' then ''[38;5;46m'' else if nm = ''cyan'' then ''[38;5;51m'' else if nm = ''red'' then ''[38;5;196m''
       else if nm = ''magenta'' then ''[38;5;171m'' else ''[38;5;244m'')"

definition apply_color :: "string \<Rightarrow> string option \<Rightarrow> bool \<Rightarrow> string" where
  "apply_color t colour bold =
     (case colour of None \<Rightarrow> t
      | Some c \<Rightarrow> (if bold then theme_ansi ''bold'' @ theme_ansi c else theme_ansi c) @ t @ theme_ansi ''reset'')"

definition ZONE_COLORS :: "zone \<Rightarrow> string option" where
  "ZONE_COLORS z = Some (case z of Calm_zone \<Rightarrow> ''blue'' | Growth_zone \<Rightarrow> ''green'' | Recovery_zone \<Rightarrow> ''cyan''
     | Storm_zone \<Rightarrow> ''red'' | Shift_zone \<Rightarrow> ''magenta'')"

definition zone_word :: "zone \<Rightarrow> string" where
  "zone_word z = (case z of Calm_zone \<Rightarrow> ''calm'' | Growth_zone \<Rightarrow> ''growth'' | Recovery_zone \<Rightarrow> ''recovery''
     | Storm_zone \<Rightarrow> ''storm'' | Shift_zone \<Rightarrow> ''shift'')"

definition view_arrow :: string where "view_arrow = [CHR 0xE2, CHR 0x86, CHR 0x92]"

section \<open>The grid\<close>

record zone_state =
  zs_id :: zone
  zs_label :: string
  zs_active :: bool
  zs_turbulent :: bool

definition formatDelta :: "rat option \<Rightarrow> string" where
  "formatDelta delta = (case delta of None \<Rightarrow> [] | Some d \<Rightarrow> [CHR 0xCE, CHR 0x94] @ js_to_fixed 2 d)"

definition formatZone :: "zone_state \<Rightarrow> bool \<Rightarrow> string" where
  "formatZone z colorize =
     (let base = ''[ '' @ zs_label z @ '' ]'' @ (if zs_turbulent z then ''*'' else [])
      in if \<not> colorize then (if zs_active z then ''>>>>>>> '' @ base @ '' <<<<<<<'' else base)
         else let colored = apply_color base (ZONE_COLORS (zs_id z)) (zs_active z)
              in if zs_active z
                 then apply_color ''>>>>>>>'' (Some ''gray'') True @ '' '' @ colored @ '' '' @ apply_color ''<<<<<<<'' (Some ''gray'') True
                 else colored)"

definition grid_label :: "zone \<Rightarrow> zone list \<Rightarrow> bool \<Rightarrow> zone \<Rightarrow> string" where
  "grid_label orientation turbulenceZones colorize z =
     formatZone \<lparr>zs_id = z, zs_label = to_upper (zone_word z), zs_active = (orientation = z), zs_turbulent = (z \<in> set turbulenceZones)\<rparr> colorize"

text \<open>The template before a delta holds a backslash and an \<open>n\<close>, not a line end.\<close>

definition edge_line :: "string \<Rightarrow> string" where
  "edge_line delta =
     ''            |'' @ (if delta \<noteq> [] then [bslash] @ ''n            ('' @ delta @ '')'' else [])"

definition renderConsciousnessGrid :: "zone \<Rightarrow> (string \<Rightarrow> rat option) \<Rightarrow> zone list \<Rightarrow> bool \<Rightarrow> string list" where
  "renderConsciousnessGrid orientation tensionMap turbulenceZones colorize =
     (let lbl = grid_label orientation turbulenceZones colorize;
          cgDelta = formatDelta (tensionMap ''calm-growth''); gsDelta = formatDelta (tensionMap ''growth-storm'');
          grDelta = formatDelta (tensionMap ''growth-recovery''); ssDelta = formatDelta (tensionMap ''storm-shift'');
          midBranch = (if grDelta \<noteq> [] then '' ('' @ grDelta @ '') '' else '' '')
      in [''         '' @ lbl Calm_zone, edge_line cgDelta,
          ''   '' @ lbl Growth_zone @ midBranch @ ''| '' @ lbl Recovery_zone, edge_line gsDelta,
          ''   '' @ lbl Storm_zone, edge_line ssDelta, ''          '' @ lbl Shift_zone])"

section \<open>Parts of the views\<close>

definition view_clamp :: "rat \<Rightarrow> rat" where "view_clamp v = min 1 (max 0 v)"

definition describeVolatility :: "rat \<Rightarrow> string" where
  "describeVolatility v = (if v \<ge> 3 / 4 then ''high'' else if v \<ge> fl (45 / 100) then ''mid'' else ''low'')"

definition formatMomentumLine :: "string \<Rightarrow> rat \<Rightarrow> string" where
  "formatMomentumLine lbl v = lbl @ '': '' @ js_to_fixed 2 v"

definition formatFuturePaths :: "future_path list \<Rightarrow> bool \<Rightarrow> string" where
  "formatFuturePaths paths colorize =
     (let arrow = (if colorize then apply_color view_arrow (Some ''gray'') True else view_arrow)
      in js_join [newline] (map (\<lambda>p. '' '' @ arrow @ '' '' @ pad_end 8 (fp_role p) @ '': '' @
           js_join ('' '' @ view_arrow @ '' '') (map (\<lambda>z. to_upper (zone_word z)) (fp_path p)) @ '' ('' @ js_to_fixed 2 (probability p) @ '')'') paths))"

definition percent_of :: "rat \<Rightarrow> string" where
  "percent_of c = num_str (math_round (fl (view_clamp c * 100))) @ ''%''"

definition formatTimeAnchors :: "time_anchor list \<Rightarrow> string" where
  "formatTimeAnchors anchors =
     js_join [newline] (map (\<lambda>a. '' '' @ (if ta_offset a < 0 then [] else ''+'') @ num_str (of_int (ta_offset a)) @ '': '' @ ta_label a @
       (case ta_confidence a of Some c \<Rightarrow> '' ('' @ percent_of c @ '')'' | None \<Rightarrow> [])) anchors)"

definition deriveTensionMap :: "consciousness_snapshot \<Rightarrow> string \<Rightarrow> rat option" where
  "deriveTensionMap snapshot =
     (let base = view_clamp (cs_tension snapshot)
      in [''calm-growth'' \<mapsto> fl (base * fl (35 / 100)), ''growth-recovery'' \<mapsto> fl (base * fl (42 / 100)),
          ''growth-storm'' \<mapsto> fl (base * fl (78 / 100)), ''storm-shift'' \<mapsto> fl (base * fl (9 / 10))])"

definition turbulenceSet :: "consciousness_snapshot \<Rightarrow> zone list" where
  "turbulenceSet snapshot =
     (let zones = remdups (cs_turbulenceZones snapshot)
      in if cs_volatility snapshot > fl (7 / 10) then List.insert (cs_orientation snapshot) zones else zones)"

definition renderLegend :: "bool \<Rightarrow> string" where
  "renderLegend colorize = js_join [newline] (map (\<lambda>(z, lbl). if colorize then apply_color lbl (ZONE_COLORS z) False else lbl)
     [(Calm_zone, ''Calm '' @ view_arrow @ '' '' @ [CHR 0xD0, CHR 0xB3, CHR 0xD0, CHR 0xBE, CHR 0xD0, CHR 0xBB, CHR 0xD1, CHR 0x83, CHR 0xD0, CHR 0xB1, CHR 0xD0, CHR 0xBE, CHR 0xD0, CHR 0xB9]),
      (Growth_zone, ''Growth '' @ view_arrow @ '' '' @ [CHR 0xD0, CHR 0xB7, CHR 0xD0, CHR 0xB5, CHR 0xD0, CHR 0xBB, CHR 0xD1, CHR 0x91, CHR 0xD0, CHR 0xBD, CHR 0xD1, CHR 0x8B, CHR 0xD0, CHR 0xB9]),
      (Recovery_zone, ''Recovery '' @ view_arrow @ '' '' @ [CHR 0xD0, CHR 0xB1, CHR 0xD0, CHR 0xB8, CHR 0xD1, CHR 0x80, CHR 0xD1, CHR 0x8E, CHR 0xD0, CHR 0xB7, CHR 0xD0, CHR 0xBE, CHR 0xD0, CHR 0xB2, CHR 0xD1, CHR 0x8B, CHR 0xD0, CHR 0xB9]),
      (Storm_zone, ''Storm '' @ view_arrow @ '' '' @ [CHR 0xD0, CHR 0xBA, CHR 0xD1, CHR 0x80, CHR 0xD0, CHR 0xB0, CHR 0xD1, CHR 0x81, CHR 0xD0, CHR 0xBD, CHR 0xD1, CHR 0x8B, CHR 0xD0, CHR 0xB9]),
      (Shift_zone, ''Shift '' @ view_arrow @ '' '' @ [CHR 0xD1, CHR 0x84, CHR 0xD0, CHR 0xB8, CHR 0xD0, CHR 0xBE, CHR 0xD0, CHR 0xBB, CHR 0xD0, CHR 0xB5, CHR 0xD1, CHR 0x82, CHR 0xD0, CHR 0xBE, CHR 0xD0, CHR 0xB2, CHR 0xD1, CHR 0x8B, CHR 0xD0, CHR 0xB9])])"

definition formatZoneName :: "zone \<Rightarrow> bool \<Rightarrow> bool \<Rightarrow> string" where
  "formatZoneName z colorize highlight =
     (let lbl = to_upper (zone_word z); shown = (if highlight then ''['' @ lbl @ '']'' else lbl)
      in if \<not> colorize then shown else apply_color shown (ZONE_COLORS z) highlight)"

definition view_rule :: string where "view_rule = concat (replicate 44 [CHR 0xE2, CHR 0x94, CHR 0x80])"

definition view_dash :: string where "view_dash = [CHR 0xE2, CHR 0x80, CHR 0x94]"

section \<open>The three views\<close>

definition opt_number :: "rat option \<Rightarrow> jsval" where
  "opt_number c = (case c of Some x \<Rightarrow> JNum x | None \<Rightarrow> JUndef)"

definition snapshot_json :: "consciousness_snapshot \<Rightarrow> jsval" where
  "snapshot_json s =
     JObj [(''orientation'', JStr (zone_word (cs_orientation s))), (''focusMomentum'', JNum (cs_focusMomentum s)),
       (''volatility'', JNum (cs_volatility s)), (''resilience'', JNum (cs_resilience s)), (''tension'', JNum (cs_tension s)),
       (''turbulenceZones'', JArr (map (\<lambda>z. JStr (zone_word z)) (cs_turbulenceZones s))),
       (''timeAnchors'', JArr (map (\<lambda>a. JObj [(''offset'', JNum (of_int (ta_offset a))), (''label'', JStr (ta_label a)),
          (''confidence'', opt_number (ta_confidence a))]) (cs_timeAnchors s))),
       (''futurePaths'', JArr (map (\<lambda>p. JObj [(''role'', JStr (fp_role p)), (''label'', JStr (fp_label p)),
          (''path'', JArr (map (\<lambda>z. JStr (zone_word z)) (fp_path p))), (''probability'', JNum (probability p))]) (cs_futurePaths s)))]"

definition debug_content :: "consciousness_snapshot \<Rightarrow> bool \<Rightarrow> string list" where
  "debug_content s colorize =
     [view_rule, ''        LTP '' @ view_dash @ '' CONSCIOUSNESS WEB MAP (DEBUG)'', view_rule, []] @
     renderConsciousnessGrid (cs_orientation s) (deriveTensionMap s) (turbulenceSet s) colorize @
     [[], formatMomentumLine ''Focus Momentum'' (cs_focusMomentum s),
      formatMomentumLine ''Volatility'' (cs_volatility s) @ '' ('' @ describeVolatility (cs_volatility s) @ '')'',
      formatMomentumLine ''Resilience'' (cs_resilience s), formatMomentumLine ''Tension'' (cs_tension s), [],
      ''Future Paths:'', formatFuturePaths (cs_futurePaths s) colorize, [], ''Time Anchors:'', formatTimeAnchors (cs_timeAnchors s), [],
      ''Legend:'', renderLegend colorize, [], ''Raw snapshot:'', indented [] (snapshot_json s), [], view_rule]"

definition debug_line :: "string \<Rightarrow> string" where
  "debug_line line =
     (if starts_with ([CHR 0xE2, CHR 0x94, CHR 0x80] @ [CHR 0xE2, CHR 0x94, CHR 0x80]) line then apply_color line (Some ''gray'') True
      else if starts_with ''Focus Momentum'' line \<or> starts_with ''Volatility'' line \<or> starts_with ''Resilience'' line \<or> starts_with ''Tension'' line
      then apply_color line (Some ''gray'') False else line)"

definition renderDebugView :: "consciousness_snapshot \<Rightarrow> bool \<Rightarrow> string" where
  "renderDebugView s colorize =
     js_join [newline] (if colorize then map debug_line (debug_content s colorize) else debug_content s colorize)"

definition renderHumanView :: "consciousness_snapshot \<Rightarrow> bool \<Rightarrow> string" where
  "renderHumanView s colorize =
     (let tint = (\<lambda>t c b. if colorize then apply_color t (Some c) b else t);
          arrow = tint view_arrow ''gray'' True; strong = tint ''=='' ''green'' True; branch = tint [CHR 0xE2, CHR 0x86, CHR 0x98] ''gray'' True;
          orientation = formatZoneName (cs_orientation s) colorize True;
          zones_text = (\<lambda>zs. js_join ('' '' @ arrow @ '' '') (map (\<lambda>z. formatZoneName z colorize False) zs));
          primaryTail = (case cs_futurePaths s of [] \<Rightarrow> [] | p # ps \<Rightarrow> zones_text (drop 1 (fp_path p)));
          primaryLine = (if primaryTail \<noteq> [] then orientation @ '' '' @ strong @ arrow @ '' '' @ primaryTail else orientation);
          branchLine = (case cs_futurePaths s of p # q # ps \<Rightarrow>
              if fp_path q \<noteq> [] then replicate 10 CHR '' '' @ branch @ '' '' @ zones_text (fp_path q) @ '' ('' @ tint ''future'' ''gray'' False @ '')'' else []
            | _ \<Rightarrow> []);
          pulseLine = ''Pulse: momentum '' @ js_to_fixed 2 (cs_focusMomentum s) @ '' '' @ [CHR 0xE2, CHR 0x80, CHR 0xA2] @ '' volatility '' @ describeVolatility (cs_volatility s)
      in js_join [newline] (filter (\<lambda>l. l \<noteq> [])
           [view_rule, ''        CONSCIOUSNESS WEB '' @ view_dash @ '' HUMAN VIEW'', view_rule, primaryLine, branchLine, pulseLine, view_rule]))"

definition describeMomentumState :: "rat \<Rightarrow> string" where
  "describeMomentumState m =
     (if m \<ge> fl (8 / 10) then ''surging'' else if m \<ge> 1 / 2 then ''rising'' else if m \<ge> fl (2 / 10) then ''steady'' else ''resting'')"

definition nearestAnchor :: "consciousness_snapshot \<Rightarrow> string option" where
  "nearestAnchor s =
     (case sort_key (\<lambda>a. \<bar>ta_offset a\<bar>) (cs_timeAnchors s) of
        [] \<Rightarrow> None
      | a # rest \<Rightarrow> Some ((if ta_offset a > 0 then ''+'' else []) @ num_str (of_int (ta_offset a)) @ '': '' @ ta_label a @ '' ('' @
          (case ta_confidence a of Some c \<Rightarrow> percent_of c | None \<Rightarrow> ''?'') @ '')''))"

text \<open>\<open>None\<close>: the name of the last zone of an empty path is read from \<open>undefined\<close>, which throws.\<close>

definition path_target :: "future_path \<Rightarrow> bool \<Rightarrow> string option" where
  "path_target p colorize = (if fp_path p = [] then None else Some (formatZoneName (last (fp_path p)) colorize False))"

definition primary_sentence :: "future_path list \<Rightarrow> bool \<Rightarrow> string list option" where
  "primary_sentence paths colorize =
     (case paths of [] \<Rightarrow> Some []
      | p # ps \<Rightarrow> map_option (\<lambda>t. [''One strong path opens toward '' @ t @ '' ('' @ js_to_fixed 2 (probability p) @ '' chance).'']) (path_target p colorize))"

definition alternate_sentence :: "future_path list \<Rightarrow> bool \<Rightarrow> string list option" where
  "alternate_sentence paths colorize =
     (case paths of p # q # ps \<Rightarrow>
        map_option (\<lambda>t. [''A speculative branch emerges from '' @ t @ '' ('' @ js_to_fixed 2 (probability q) @ '').'']) (path_target q colorize)
      | _ \<Rightarrow> Some [])"

definition renderStoryView :: "consciousness_snapshot \<Rightarrow> bool \<Rightarrow> string option" where
  "renderStoryView s colorize =
     Option.bind (primary_sentence (cs_futurePaths s) colorize) (\<lambda>primary.
     map_option (\<lambda>alternate. js_join [newline]
       ([view_rule, ''        CONSCIOUSNESS WEB '' @ view_dash @ '' STORY MODE'', view_rule,
         ''You are currently oriented in '' @ formatZoneName (cs_orientation s) colorize True @ ''.'',
         ''Momentum feels '' @ describeMomentumState (cs_focusMomentum s) @ '' ('' @ js_to_fixed 2 (cs_focusMomentum s) @ ''), with '' @
           describeVolatility (cs_volatility s) @ '' volatility ('' @ js_to_fixed 2 (cs_volatility s) @ '').''] @
        primary @ alternate @
        (case nearestAnchor s of Some a \<Rightarrow> [''Nearest time anchor: '' @ a @ ''.''] | None \<Rightarrow> []) @ [view_rule]))
     (alternate_sentence (cs_futurePaths s) colorize))"

datatype render_mode = DebugMode | HumanMode | StoryMode

definition renderConsciousnessWeb :: "consciousness_snapshot \<Rightarrow> bool option \<Rightarrow> render_mode option \<Rightarrow> string option" where
  "renderConsciousnessWeb s colorizeOption modeOption =
     (let colorize = (case colorizeOption of Some b \<Rightarrow> b | None \<Rightarrow> True)
      in case modeOption of
           Some HumanMode \<Rightarrow> Some (renderHumanView s colorize)
         | Some StoryMode \<Rightarrow> renderStoryView s colorize
         | _ \<Rightarrow> Some (renderDebugView s colorize))"

section \<open>What the views show\<close>

text \<open>A view is missing exactly when the story mode meets an empty first or second path.\<close>

lemma view_defined:
  "renderConsciousnessWeb s c m = None \<longleftrightarrow>
     m = Some StoryMode \<and> (\<exists>p \<in> set (take 2 (cs_futurePaths s)). fp_path p = [])"
proof -
  have a: "renderStoryView s k = None \<longleftrightarrow> primary_sentence (cs_futurePaths s) k = None \<or> alternate_sentence (cs_futurePaths s) k = None" for k
    by (cases "primary_sentence (cs_futurePaths s) k") (simp_all add: renderStoryView_def)
  have b: "primary_sentence ps k = None \<or> alternate_sentence ps k = None \<longleftrightarrow> (\<exists>p \<in> set (take 2 ps). fp_path p = [])" for ps k
    by (auto simp: primary_sentence_def alternate_sentence_def path_target_def split: list.splits)
  show ?thesis using a b by (auto simp: renderConsciousnessWeb_def Let_def split: option.splits render_mode.splits)
qed

text \<open>The marked zone of the grid is the orientation, and it alone.\<close>

lemma grid_marks: "starts_with ''>'' (grid_label orientation tz False z) \<longleftrightarrow> orientation = z"
  by (auto simp: grid_label_def formatZone_def starts_with_def Let_def split: if_splits)

text \<open>The nearest anchor has the least distance, the earliest in the list on a tie.\<close>

lemma nearest_first:
  assumes "cs_timeAnchors s \<noteq> []"
  shows "\<forall>a \<in> set (cs_timeAnchors s). \<bar>ta_offset (hd (sort_key (\<lambda>a. \<bar>ta_offset a\<bar>) (cs_timeAnchors s)))\<bar> \<le> \<bar>ta_offset a\<bar>"
proof -
  let ?s = "sort_key (\<lambda>a. \<bar>ta_offset a\<bar>) (cs_timeAnchors s)"
  have "sorted (map (\<lambda>a. \<bar>ta_offset a\<bar>) ?s)" by simp
  moreover have "?s \<noteq> []" using assms by (metis set_empty set_sort)
  ultimately have "\<forall>a \<in> set ?s. \<bar>ta_offset (hd ?s)\<bar> \<le> \<bar>ta_offset a\<bar>" by (cases ?s) auto
  then show ?thesis by simp
qed

text \<open>Every snapshot the default parameters give can be told as a story.\<close>

lemma normalized_paths_lead:
  assumes "\<forall>p \<in> set paths. fp_path p \<noteq> []"
  shows "\<forall>p \<in> set (take 2 (normalizeFuturePaths paths)). fp_path p \<noteq> []"
  using assms by (auto simp: normalizeFuturePaths_def dest!: in_set_takeD set_zip_leftD)

lemma default_story:
  assumes "sp_futurePaths p = None"
  shows "renderStoryView (buildConsciousnessSnapshot p) c \<noteq> None"
proof -
  let ?s = "buildConsciousnessSnapshot p"
  have "\<forall>q \<in> set default_paths. fp_path q \<noteq> []" by (simp add: default_paths_def)
  moreover have "cs_futurePaths ?s = normalizeFuturePaths default_paths"
    using assms by (simp add: buildConsciousnessSnapshot_def Let_def)
  ultimately have "\<not> (\<exists>q \<in> set (take 2 (cs_futurePaths ?s)). fp_path q = [])" using normalized_paths_lead by metis
  moreover have "renderConsciousnessWeb ?s (Some c) (Some StoryMode) = renderStoryView ?s c" by (simp add: renderConsciousnessWeb_def)
  ultimately show ?thesis using view_defined [of ?s "Some c" "Some StoryMode"] by metis
qed

end
