(* ===== verification/Spec2Isabelle.thy ===== *)
theory Spec2Isabelle
  imports Crypto_Correct Frames Client_Correct Inspect_Exit Inspect_Correct
    Reference_Agent Reference_Pipeline Boundary_Examples Conformance_Exit Conformance_Server
    Thread_Life_Correct Weave_Store Orientation_Correct Routing_Correct
    Consciousness_Web Preview_Correct Server_Client Infra_Observer
    Explain_Correct Canonical_Correct Dev_Console Verify_Correct Trace_Fixtures
    No_Bidi Smart_Router Turtle_Hud Toon_Codec Demo_Frames
    Story_Demo Web_View
begin

text \<open>
  Verification of the TypeScript implementation of LTP, the Liminal Thread Secure Protocol.

  \<^bold>\<open>The program.\<close> LTP is a thread-oriented message protocol over WebSocket. The SDK (\<open>sdk/js/src\<close>)
  has a client that performs a handshake, keeps the connection alive, reconnects with growing
  delays, signs and hash-chains its messages and refuses replays; the cryptography it calls; and
  the schema of the six frames of protocol v0.1. Around the SDK stand the trace inspector
  (\<open>tools/ltp-inspect\<close>), which verifies hash-chained audit logs and audits what agents were allowed to
  do, the conformance kit (\<open>tools/conformance-kit\<close>) and the self test
  (\<open>sdk/js/src/conformance\<close>), which judge captures of frames, and reference agents
  (\<open>agents/reference-agent\<close>, \<open>examples/agents\<close>, \<open>examples/agent-boundary\<close>), which put a policy between
  proposals and actions and log what they do. The SDK also ships the models an application steers
  itself with: threads that live and fade, a time weave of their activity, a web of attention
  sectors, and a fuzzy router that picks the next sector from both; \<open>src/routing\<close> and \<open>src/turtle\<close> preview
  paths for a demonstration of them. Servers (\<open>src/server\<close>) offer verification and self test over HTTP and
  WebSocket, and \<open>examples/js-minimal-server\<close> is a server the client can talk to. The inspector reads the logs the agents write; kit
  and self test use the frame schema; client, inspector and agents share the canonical JSON and
  the digest.

  \<^bold>\<open>JavaScript.\<close> \<open>JS_Prelude\<close> has values (\<open>jsval\<close>), property access and assignment in the order of the
  language, truthiness, strings; \<open>JS_Number\<close> rounding to doubles (\<open>fl\<close>), printing of numbers and
  \<open>toFixed\<close>; \<open>JS_Rounding\<close> what rounding keeps (order, unit intervals, error bounds); \<open>JS_Math\<close> sums in
  order, \<open>Math.sqrt\<close>, \<open>Number(text)\<close>, numbers with infinities and \<open>NaN\<close>, stable sorts by a key; \<open>JSON\<close> stringify and parse with their round trip, which holds for every double because
  seventeen digits determine it (\<open>JS_Decimal\<close>); \<open>JS_Library\<close> results with an error
  type, object spread, \<open>Array.sort\<close>, indented JSON with its round trip, and line splitting. Strings are lists of 8-bit
  code units, \<open>utf8\<close> their encoding; letter case is mapped for ASCII. Numbers are finite doubles
  as rationals, every operation rounded by \<open>fl\<close>; \<open>-0\<close> does not occur, and \<open>NaN\<close> and infinities are values of
  \<open>js_number\<close> or an option where the code meets them. Objects with
  a \<open>toString\<close> of their own are not modelled. The JSON parser takes fuel; \<open>json_parse\<close> gives it the
  length of the text, and \<open>json_parse_enough_fuel\<close> shows that more changes nothing. All other
  recursion terminates by structure or by a measure.

  \<^bold>\<open>Outside code.\<close> What the sources do not define is a parameter: the cryptographic primitives of Web
  Crypto and Node (\<open>runtime\<close>), web sockets, timers, storage and callbacks of the client's host,
  files, paths, clock, environment variables and \<open>localeCompare\<close> of the tools (\<open>inspect_env\<close>,
  \<open>kit_env\<close>, \<open>agent_host\<close> and others), the planner and the executor of the agents, \<open>Date.parse\<close>, \<open>Math.exp\<close> and \<open>Math.log1p\<close>. Theorems that rely
  on a primitive say so in a hypothesis, for instance the length of a digest, and where a digest may collide
  the statement names the two inputs. Exceptions are \<open>Inl\<close>; every throw, early return and catch is a
  branch. Console output is left out where it is logging and modelled where it is the product
  of a command.

  \<^bold>\<open>Cryptography\<close> (\<open>crypto.ts\<close>: \<open>Crypto\<close>, \<open>Crypto_Correct\<close>). Hex coding, constant-time comparison,
  canonical JSON, signing and verification, envelopes' hashes, ECDH and HKDF, metadata encryption.
  Proved: comparison decides equality, the canonical form ignores property order, signatures are accepted
  exactly when computed from the same canonical fields, derived keys fit the cipher, encryption
  round trips; and that a \<open>__proto__\<close> property escapes the signature.

  \<^bold>\<open>Frames\<close> (\<open>frames/\<close>: \<open>Frames\<close>). Surface check, schema of the six frame types, branch readers.
  Proved: accepted branches survive the readers; schema against surface.

  \<^bold>\<open>Client\<close> (\<open>client.ts\<close>: \<open>Nonce_Guard\<close>, \<open>Client\<close>, \<open>Client_Async\<close>, \<open>Client_Machine\<close>,
  \<open>Client_Security\<close>, \<open>Client_Delivery\<close>, \<open>Client_Exchange\<close>, \<open>Client_Correct\<close>). The state record with one
  definition per method; asynchronous methods are cut at their awaits into tasks that resume in
  any order. \<open>Client_Machine\<close> runs application calls, socket events, timers and tasks in any
  interleaving. Proved of every run: flags, timers and promises stay consistent. With a MAC key configured
  and verification not switched off, delivered messages other than handshake replies are signed, no nonce
  is delivered twice between disconnects (interface \<open>replay_guard\<close>, provided by the nonce table, for a maximal
  age of at least five seconds), and every event is exactly the step of an abstract delivery machine that its
  label determines, the hash chain included. Two clients with one key stay in lockstep, and sends that overlap
  fork the chain; reconnection backs off and gives up; the thread resumes from storage.

  \<^bold>\<open>Trace inspector\<close> (\<open>tools/ltp-inspect\<close>: \<open>Inspect_Trace\<close> loading and hash chain, \<open>Inspect_Summary\<close>
  normalisation, branches, audit, \<open>Inspect_Report\<close>, \<open>Inspect_Args\<close>, \<open>Inspect_Cli\<close> commands and exit
  codes; proofs in \<open>Inspect_Chain\<close>, \<open>Inspect_Load\<close>, \<open>Inspect_Correct\<close>,
  \<open>Inspect_Exit\<close>). \<open>Hash_Chain\<close> states the contract of a hash-chained log as a locale, which the
  inspector's verifier and the reference pipeline's logger interpret. Proved: the integrity verdict and its index
  are exact, the root hash commits to the log, truncated logs still verify; branches are
  sorted and complete; the routing check reports exactly the unsafe frames, one message each, and exact
  counts; arguments and JSON lines round trip; the meaning of the exit codes, every exception included; an agent trace that is not rejected contains no critical action
  admitted from the web or without its capability.

  \<^bold>\<open>Agents\<close> (\<open>Action_Gate\<close>, \<open>Reference_Agent\<close>, \<open>Reference_Pipeline\<close>, \<open>Boundary_Examples\<close>).
  \<open>Action_Gate\<close> is the contract of a pipeline that acts only on what its policy admits, interpreted
  for the reference agent and both boundary examples. Proved: executed actions were admitted for the context of
  their event; the pipeline's log verifies under every interleaving of concurrent calls and its
  last hash commits to it; its replay check never stops anything; the inspector rejects the
  traces of one example.

  \<^bold>\<open>Conformance\<close> (\<open>Flow_Check\<close>, \<open>Conformance_Verify\<close>, \<open>Conformance_Correct\<close>, \<open>Self_Test\<close>,
  \<open>Self_Test_Correct\<close>, \<open>Conformance_Cli\<close>, \<open>Conformance_Exit\<close>, \<open>Conformance_Endpoint\<close>, \<open>Conformance_Server\<close>). \<open>Flow_Check\<close> is the contract of a loop
  that only adds issues, interpreted for the kit's errors, its warnings and the self test. Proved: kit and
  self test report issues exactly on the captures that break a specification without loop or
  flags; exit codes of \<open>verify\<close>; verdict and counts on a directory, where \<open>--strict\<close> has no
  effect; scores stay between 0 and 1 in floating point; the canonical frames pass in every
  mode. The endpoint (\<open>conformanceVerifier.ts\<close>, the conformance routes of \<open>httpDemoServer.ts\<close>,
  \<open>wsConformanceServer.ts\<close>): the status is a function of the body whatever its chunks, given case by
  case; the served self test passes, and the text \<open>null\<close> raises an exception.

  \<^bold>\<open>Threads\<close> (\<open>threadLifeModel.ts\<close>: \<open>Thread_Life\<close>, \<open>Thread_Life_Correct\<close>; \<open>consciousnessWeb.ts\<close>:
  \<open>Consciousness_Web\<close>). Phases, energy and resonance of threads, and the graph of their relations. Proved:
  the invariant of a map under registrations and events in any order, a fading thread is archived
  after at most twenty events, degrees count the link ends, and future probabilities need not
  add up to one.

  \<^bold>\<open>Time\<close> (\<open>time/\<close>, \<open>timeAnchors/\<close>: \<open>Time_Weave\<close>, \<open>Time_Asymmetry\<close>; proofs in \<open>Weave_Store\<close>,
  \<open>Weave_Correct\<close>). A weave of branches of timed nodes, its trends, weights and
  collapse, and the events anchored in it. \<open>Weave_Store\<close> states the contract of a store of entries by
  key as a locale, interpreted for \<open>getBranch\<close> and \<open>upsertBranch\<close>. Proved: a batch of events loses and invents
  nothing, and keeps branches with ticks of one kind sorted; weight distribution and collapse ignore the order of branches, a
  named dominant branch has maximal weight; scores stay in range; the asymmetry of a history
  mirrors when its biases are negated.

  \<^bold>\<open>Orientation and routing\<close> (\<open>orientation/\<close>: \<open>Orientation_Web\<close>, \<open>Orientation_Correct\<close>;
  \<open>temporalOrientation/\<close>: \<open>Temporal_Orientation\<close>; \<open>routing/\<close>: \<open>Fuzzy_Routing\<close>, \<open>Routing_Correct\<close>). Sectors with
  tension, pull and resonance, views of them over the weave, and the fuzzy scores of routes. Proved: the dominant
  sector, the next sector and the best route are exactly those of a specification without loops
  that ignores the order of the candidates; confidences lie between 0 and 1; hints built from a
  single view ignore its momentum. The preview (\<open>src/routing/focusRoutingPreview.ts\<close>: \<open>Routing_Preview\<close>,
  \<open>Preview_Correct\<close>; \<open>src/turtle\<close>: \<open>Turtle_Ring\<close>): likelihoods are ordered and in range, the primary path
  leads to a best option; the ring keeps frame, index and angle in step.

  \<^bold>\<open>Minimal server\<close> (\<open>examples/js-minimal-server/index.js\<close>: \<open>Minimal_Server\<close>, \<open>Server_Correct\<close>,
  \<open>Server_Client\<close>). Threads, sessions, rate limit and the handler of every message; \<open>server_run\<close> has
  messages, closing sockets and cleanups in any order with a clock that does not go back. Proved: how many
  messages of a client pass within a minute, how long a thread can be resumed, and that the texts
  exchanged with the SDK's client make both sides agree on thread and session.

  \<^bold>\<open>Monitors\<close> (\<open>examples/infra-observer\<close>: \<open>Infra_Observer\<close>; \<open>scripts/monitor/hudModes.ts\<close>,
  \<open>scripts/shared/focusSparkline.ts\<close>: \<open>Focus_Hud\<close>). Proved: the observer's transitions form a chain along its table
  and memory pressure leads to a state without exit; blocks of a sparkline grow with the values.

  \<^bold>\<open>Bounds.\<close> Besides the parser's fuel: strings compared in constant time are shorter than \<open>2\<^sup>3\<^sup>2\<close>, and
  numbers printed inside signed or hashed texts are doubles where a proof reads them back
  (\<open>json_ok\<close>, \<open>json_clean\<close>, \<open>clean_fields\<close>).

  \<^bold>\<open>Explanation.\<close> \<open>Weave_Graph\<close> is the text graph of \<open>src/visualization/futureWeaveGraph.ts\<close>,
  \<open>Explain_Routing\<close> the explanation of a choice (\<open>src/demos/explainRoutingDemo.ts\<close>) with its two front ends,
  \<open>src/server/httpDemoServer.ts\<close> and \<open>src/server/wsDemoServer.ts\<close>. \<open>Explain_Correct\<close> shows that without
  negative volatility the primary path is the one explained and drawn first, that percentages add
  up to one hundred, and that the intent changes nothing but the wording.

  \<^bold>\<open>Canonical flow.\<close> \<open>Canonical_Flow\<close> composes web, weave, temporal view and options as
  \<open>examples/canonicalFlow.ts\<close> of the SDK does; \<open>Canonical_Correct\<close> shows that every hinted thread is reported
  once with its energy, that no sector falls and that no option costs more than it gains.

  \<^bold>\<open>Monitor and console.\<close> \<open>Monitor_Link\<close> is the connection of \<open>scripts/transport/ltpClient.ts\<close> as an
  event system over sockets and intervals, with overlapping connections; runs are an inductive
  relation. \<open>Focus_Hud\<close> is the state and the printed line of \<open>scripts/monitor/ltp-focus-hud.ts\<close>, whose handlers
  are the calls the link makes. \<open>Dev_Console\<close> is the console of \<open>scripts/dev/ltp-node-demo.ts\<close> with its four
  intervals, and the reconnecting gateway of \<open>scripts/gateway/ltp-node-gateway.ts\<close>. The lemmas bound histories and
  intervals, tie the reported health to the last heartbeat, and exhibit the runs in which a timer
  is lost.

  \<^bold>\<open>Verify scripts.\<close> \<open>Verify_Script\<close> is \<open>scripts/verify\<close> and \<open>scripts/conformance\<close>: the steps of a verification,
  argument parsing, exit codes and the badge; processes, schema validation and files are
  parameters. \<open>Verify_Correct\<close> gives the exit code in every case, on top of the verdict of the conformance
  kit, and shows that a capture whose failure is expected fails the script.

  \<^bold>\<open>Trace writers.\<close> \<open>Trace_Writers\<close> has the scripts \<open>scripts/generate-*\<close> that write example traces: their
  frames, entries and hash chains. The locale \<open>chained_writer\<close> is what they share, interpreted five times;
  \<open>Trace_Fixtures\<close> shows that the inspector loads such a file as an audit log with the same frames and
  verifies it, and that it rejects the traces meant to be unsafe.

  \<^bold>\<open>Demonstrations and tools.\<close> \<open>Smart_Router\<close> (\<open>sdk/js/src/examples/smartRouterDemo.ts\<close>) routes three clients: each
  gets the first sector. \<open>Turtle_Hud\<close> (\<open>examples/turtle-hud/hud.ts\<close>) is a page driven by socket events, whose
  lemma holds in every run. \<open>Demo_Frames\<close> has the frames of two demonstrations and of \<open>examples/scenarios\<close>,
  judged by the kit; the broken flows are fixtures it reports as unexpected failures. \<open>Story_Demo\<close>
  (\<open>scripts/demo\<close>, \<open>scripts/dev/story-multipath-demo.ts\<close>) plays frames through preview and monitor and
  comes to an end; \<open>Web_View\<close> (\<open>src/visualization\<close>) draws snapshots. \<open>No_Bidi\<close> (\<open>scripts/check-no-bidi.mjs\<close>) gives the exit code
  of the scan for hidden characters exactly; \<open>Toon_Codec\<close> (\<open>examples/shared/simpleToonCodec.ts\<close>) the table a value is
  encoded as, which different values can share.

  \<^bold>\<open>Not modelled.\<close> Of the development console its printed snapshot and scripted scenario; of the demo servers
  listening and headers. Example clients, framework adapters, launchers of the inspector and benchmarks
  start, print or measure what is modelled here, on packages outside the repository. The Python, Elixir and Rust SDKs are
  separate implementations.
\<close>

end
